(* ===== verification/Prelude.thy ===== *)
theory Prelude
  imports Main "HOL-Library.Word"
begin

text \<open>
  Shared ground of the development.

  \<^item> Go's integer types and its conversions between them (\<open>int_type\<close>, \<open>wrap\<close>, \<open>fits\<close>). An
    integer of a Go type is the \<^typ>\<open>int\<close> it denotes; a conversion \<^verbatim>\<open>T(x)\<close> is \<open>wrap T x\<close>, which
    reduces the value modulo the width of \<^verbatim>\<open>T\<close>. The platform is a 64-bit one: \<^verbatim>\<open>int\<close> is
    \<open>Signed 64\<close>.
  \<^item> Byte strings. A Go \<^verbatim>\<open>[]byte\<close> and a Go \<^verbatim>\<open>string\<close> are both lists of bytes; \<^verbatim>\<open>nil\<close> and the empty
    slice are the same value. \<^verbatim>\<open>copy(dst, src)\<close> is \<open>go_copy\<close>. The four and eight byte
    little-endian forms of \<^verbatim>\<open>encoding/binary\<close> are \<open>le32\<close>, \<open>le64\<close> and their inverses.
  \<^item> Errors as values (\<open>error\<close>, results of type \<open>error + 'a\<close>) and panics as values
    (\<open>outcome\<close>).
  \<^item> The interface between an encoder and its decoder, as the locale \<open>wire_codec\<close>, and its two
    forms for an encoder that cannot fail, \<open>plain_codec\<close>, and for one that panics on some values,
    \<open>panic_codec\<close>, with the lemmas every codec of the program shares.
\<close>

named_theorems encode_append \<open>encoders append to their buffer\<close>

unbundle bit_operations_syntax

section \<open>Go integers\<close>

type_synonym byte = "8 word"
type_synonym bytes = "byte list"
type_synonym u32 = "32 word"
type_synonym u64 = "64 word"

datatype int_type = Signed nat | Unsigned nat

fun width :: "int_type \<Rightarrow> nat" where
  "width (Signed n) = n"
| "width (Unsigned n) = n"

text \<open>The conversion \<^verbatim>\<open>T(x)\<close> of an integer \<^verbatim>\<open>x\<close>: the low bits of \<^verbatim>\<open>x\<close>, read as the type reads them.\<close>

fun wrap :: "int_type \<Rightarrow> int \<Rightarrow> int" where
  "wrap (Signed n) x = signed_take_bit (n - 1) x"
| "wrap (Unsigned n) x = take_bit n x"

definition fits :: "int_type \<Rightarrow> int \<Rightarrow> bool" where
  "fits T x \<longleftrightarrow> wrap T x = x"

definition fits32 :: "int_type \<Rightarrow> int \<Rightarrow> bool" where
  "fits32 T x \<longleftrightarrow> 0 < width T \<and> width T \<le> 32 \<and> fits T x"

definition fits64 :: "int_type \<Rightarrow> int \<Rightarrow> bool" where
  "fits64 T x \<longleftrightarrow> 0 < width T \<and> width T \<le> 64 \<and> fits T x"

abbreviation go_int :: int_type where
  "go_int \<equiv> Signed 64"

lemma wrap_idem [simp]: "wrap T (wrap T x) = wrap T x"
  by (cases T) simp_all

lemma fits_wrap [simp]: "fits T (wrap T x)"
  by (simp add: fits_def)

lemma fits_Signed_iff: "0 < n \<Longrightarrow> fits (Signed n) x \<longleftrightarrow> - (2 ^ (n - 1)) \<le> x \<and> x < 2 ^ (n - 1)"
  by (auto simp: fits_def signed_take_bit_int_eq_self_iff)

lemma fits_Unsigned_iff: "fits (Unsigned n) x \<longleftrightarrow> 0 \<le> x \<and> x < 2 ^ n"
  by (auto simp: fits_def take_bit_int_eq_self_iff)

lemma wrap_u32: "fits32 T x \<Longrightarrow> wrap T (uint (word_of_int x :: u32)) = x"
proof (cases T)
  case (Signed n)
  moreover assume "fits32 T x"
  ultimately have n: "n \<le> 32" "0 < n" and x: "signed_take_bit (n - 1) x = x"
    by (auto simp: fits32_def fits_def)
  have "signed_take_bit (n - 1) (take_bit 32 x) = signed_take_bit (n - 1) x"
    using n by (auto simp: signed_take_bit_take_bit)
  with x show ?thesis
    by (simp add: Signed unsigned_of_int)
next
  case (Unsigned n)
  moreover assume "fits32 T x"
  ultimately have n: "n \<le> 32" and x: "take_bit n x = x"
    by (auto simp: fits32_def fits_def)
  then show ?thesis
    by (simp add: Unsigned unsigned_of_int)
qed

lemma wrap_u64: "fits64 T x \<Longrightarrow> wrap T (uint (word_of_int x :: u64)) = x"
proof (cases T)
  case (Signed n)
  moreover assume "fits64 T x"
  ultimately have n: "n \<le> 64" "0 < n" and x: "signed_take_bit (n - 1) x = x"
    by (auto simp: fits64_def fits_def)
  have "signed_take_bit (n - 1) (take_bit 64 x) = signed_take_bit (n - 1) x"
    using n by (auto simp: signed_take_bit_take_bit)
  with x show ?thesis
    by (simp add: Signed unsigned_of_int)
next
  case (Unsigned n)
  moreover assume "fits64 T x"
  ultimately have n: "n \<le> 64" and x: "take_bit n x = x"
    by (auto simp: fits64_def fits_def)
  then show ?thesis
    by (simp add: Unsigned unsigned_of_int)
qed

section \<open>Byte strings\<close>

definition go_copy :: "'a list \<Rightarrow> 'a list \<Rightarrow> 'a list" where
  "go_copy dst src = take (length dst) src @ drop (length src) dst"

lemma length_go_copy [simp]: "length (go_copy dst src) = length dst"
  by (simp add: go_copy_def)

lemma go_copy_full: "length dst = length src \<Longrightarrow> go_copy dst src = src"
  by (simp add: go_copy_def)

lemma take_go_copy: "length src \<le> length dst \<Longrightarrow> take (length src) (go_copy dst src) = src"
  by (simp add: go_copy_def)

lemma go_copy_take: "n \<le> length xs \<Longrightarrow> length dst = length xs \<Longrightarrow> drop n dst = drop n xs \<Longrightarrow>
    go_copy dst (take n xs) = xs"
  by (simp add: go_copy_def)

definition le32 :: "u32 \<Rightarrow> bytes" where
  "le32 v = [ucast v, ucast (drop_bit 8 v), ucast (drop_bit 16 v), ucast (drop_bit 24 v)]"

fun of_le32 :: "bytes \<Rightarrow> u32" where
  "of_le32 (b0 # b1 # b2 # b3 # _) =
     ucast b0 OR push_bit 8 (ucast b1) OR push_bit 16 (ucast b2) OR push_bit 24 (ucast b3)"
| "of_le32 _ = 0"

definition le64 :: "u64 \<Rightarrow> bytes" where
  "le64 v = [ucast v, ucast (drop_bit 8 v), ucast (drop_bit 16 v), ucast (drop_bit 24 v),
     ucast (drop_bit 32 v), ucast (drop_bit 40 v), ucast (drop_bit 48 v), ucast (drop_bit 56 v)]"

fun of_le64 :: "bytes \<Rightarrow> u64" where
  "of_le64 (b0 # b1 # b2 # b3 # b4 # b5 # b6 # b7 # _) =
     ucast b0 OR push_bit 8 (ucast b1) OR push_bit 16 (ucast b2) OR push_bit 24 (ucast b3)
     OR push_bit 32 (ucast b4) OR push_bit 40 (ucast b5) OR push_bit 48 (ucast b6)
     OR push_bit 56 (ucast b7)"
| "of_le64 _ = 0"

lemma length_le32 [simp]: "length (le32 v) = 4"
  by (simp add: le32_def)

lemma length_le64 [simp]: "length (le64 v) = 8"
  by (simp add: le64_def)

lemma take_bit_join:
  "take_bit n x OR push_bit n (take_bit m (drop_bit n x)) = take_bit (n + m) (x :: 'a :: len word)"
  by (rule bit_word_eqI) (auto simp: bit_simps)

lemma ucast_byte: "8 \<le> LENGTH('a) \<Longrightarrow> (ucast (ucast x :: byte) :: 'a :: len word) = take_bit 8 x"
  by (simp add: unsigned_ucast_eq)

lemma of_le32_le32 [simp]: "of_le32 (le32 v @ r) = v"
  by (simp add: le32_def ucast_byte take_bit_join take_bit_word_eq_self flip: or.assoc)

lemma of_le64_le64 [simp]: "of_le64 (le64 v @ r) = v"
  by (simp add: le64_def ucast_byte take_bit_join take_bit_word_eq_self flip: or.assoc)

section \<open>Errors and panics\<close>

text \<open>
  \<^verbatim>\<open>error\<close> values. \<open>Errorf\<close> is an error made by \<^verbatim>\<open>fmt.Errorf\<close>, known by its format string: it is
  equal to none of the sentinel errors, which is all the program ever tests of it.
\<close>

datatype error =
    EOF
  | ErrUnexpectedEOF
  | ErrShortBuffer
  | ErrNoProgress
  | Errorf string
  | OtherError nat

text \<open>
  What a call does: it returns, or it panics with a value. After a panic the goroutine unwinds; the
  state a method had reached then is kept beside the outcome.
\<close>

datatype ('p, 'a) outcome = Return 'a | Panic 'p

fun is_return :: "('p, 'a) outcome \<Rightarrow> bool" where
  "is_return (Return _) = True"
| "is_return (Panic _) = False"

text \<open>The loop \<^verbatim>\<open>for _, x := range xs { buffer = f(buffer, x) }\<close> with a body that may panic.\<close>

fun foldl_panic :: "('b \<Rightarrow> 'a \<Rightarrow> 'p + 'b) \<Rightarrow> 'b \<Rightarrow> 'a list \<Rightarrow> 'p + 'b" where
  "foldl_panic f b [] = Inr b"
| "foldl_panic f b (x # xs) =
     (case f b x of Inl p \<Rightarrow> Inl p | Inr b' \<Rightarrow> foldl_panic f b' xs)"

text \<open>
  The loop \<^verbatim>\<open>for i := 0; i < count; i++ { xs[i], buffer, err = decode(buffer) }\<close>: \<open>n\<close> iterations are
  left, \<open>i\<close> is the index of the next one.
\<close>

fun decode_each ::
  "(bytes \<Rightarrow> error + ('a \<times> bytes)) \<Rightarrow> nat \<Rightarrow> nat \<Rightarrow> bytes \<Rightarrow> 'a list \<Rightarrow> error + ('a list \<times> bytes)"
where
  "decode_each decode 0 i buffer xs = Inr (xs, buffer)"
| "decode_each decode (Suc n) i buffer xs =
     (case decode buffer of
        Inl err \<Rightarrow> Inl err
      | Inr (v, buffer) \<Rightarrow> decode_each decode n (Suc i) buffer (xs[i := v]))"

lemma decode_each_length:
  "decode_each decode n i buffer xs = Inr (ys, rest) \<Longrightarrow> length ys = length xs"
  by (induction decode n i buffer xs rule: decode_each.induct) (auto split: sum.splits)

lemma drop_update_head:
  assumes "length xs = i + Suc n"
  shows "take (Suc i) (xs[i := v]) = take i xs @ [v]"
  using assms by (simp add: take_Suc_conv_app_nth)

lemma list_all_True [simp]: "list_all (\<lambda>_. True) xs"
  by (simp add: list_all_iff)

section \<open>The interface of an encoder and a decoder\<close>

text \<open>
  \<open>wire v\<close> is what the encoder writes for \<open>v\<close>. The law is the round trip in front of any
  remaining input \<open>r\<close>: the decoder gives the value back and leaves \<open>r\<close>. Lengths are compared as
  \<^verbatim>\<open>uint32\<close> by the decoders, so the law is for buffers below 4 GiB.
\<close>

locale wire_codec =
  fixes wire :: "'a \<Rightarrow> bytes"
    and decode :: "bytes \<Rightarrow> error + ('a \<times> bytes)"
    and ok :: "'a \<Rightarrow> bool"
  assumes decode_wire:
    "ok v \<Longrightarrow> length (wire v) + length r < 4294967296 \<Longrightarrow> decode (wire v @ r) = Inr (v, r)"
begin

lemma decode_wire_append [simp]:
  "ok v \<Longrightarrow> length (wire v) + length r < 4294967296 \<Longrightarrow> decode (wire v @ r) = Inr (v, r)"
  by (rule decode_wire)

lemma decode_wire_end [simp]:
  "ok v \<Longrightarrow> length (wire v) < 4294967296 \<Longrightarrow> decode (wire v) = Inr (v, [])"
  using decode_wire [of v "[]"] by simp

text \<open>No two values share an encoding, and no encoding is a proper prefix of another.\<close>

lemma wire_prefix_free:
  assumes "ok v" "ok w" "wire v @ r = wire w @ s" "length (wire v @ r) < 4294967296"
  shows "v = w \<and> r = s"
proof -
  have len: "length (wire v) + length r < 4294967296"
    using assms(4) by simp
  then have "length (wire w) + length s < 4294967296"
    by (metis assms(3) length_append)
  from decode_wire [OF assms(2) this] decode_wire [OF assms(1) len]
  have "Inr (v, r) = (Inr (w, s) :: error + ('a \<times> bytes))"
    by (simp only: assms(3))
  then show ?thesis
    by simp
qed

lemma decode_each_wire:
  assumes "list_all ok vs" "length (concat (map wire vs)) + length r < 4294967296"
    "length xs = i + length vs"
  shows "decode_each decode (length vs) i (concat (map wire vs) @ r) xs = Inr (take i xs @ vs, r)"
  using assms
proof (induction vs arbitrary: i xs)
  case Nil
  then show ?case by simp
next
  case (Cons v vs)
  have "decode (wire v @ concat (map wire vs) @ r) = Inr (v, concat (map wire vs) @ r)"
    using Cons.prems by (intro decode_wire) auto
  moreover have "decode_each decode (length vs) (Suc i) (concat (map wire vs) @ r) (xs[i := v])
      = Inr (take (Suc i) (xs[i := v]) @ vs, r)"
    using Cons.prems by (intro Cons.IH) auto
  ultimately show ?case
    using Cons.prems drop_update_head [of xs i "length vs" v] by simp
qed

end

text \<open>An encoder that cannot fail appends its bytes to the buffer it is given.\<close>

locale plain_codec =
  fixes encode :: "bytes \<Rightarrow> 'a \<Rightarrow> bytes"
    and decode :: "bytes \<Rightarrow> error + ('a \<times> bytes)"
    and ok :: "'a \<Rightarrow> bool"
  assumes encode_onto: "encode b v = b @ encode [] v"
    and decode_encode: "ok v \<Longrightarrow> length (encode [] v) + length r < 4294967296 \<Longrightarrow>
      decode (encode [] v @ r) = Inr (v, r)"
begin

lemma encode_buffer [encode_append]: "NO_MATCH [] b \<Longrightarrow> encode b v = b @ encode [] v"
  by (rule encode_onto)

lemma foldl_encode: "foldl encode b vs = b @ concat (map (encode []) vs)"
proof (induction vs arbitrary: b)
  case (Cons v vs)
  show ?case
    using Cons [of "encode b v"] encode_onto [of b v] by simp
qed simp

end

sublocale plain_codec \<subseteq> wire_codec "encode []" decode ok
  by unfold_locales (rule decode_encode)

text \<open>An encoder that panics on the values outside its type.\<close>

locale panic_codec = wire_codec wire decode ok
  for wire :: "'a \<Rightarrow> bytes" and decode :: "bytes \<Rightarrow> error + ('a \<times> bytes)" and ok :: "'a \<Rightarrow> bool" +
  fixes encode :: "bytes \<Rightarrow> 'a \<Rightarrow> 'p + bytes"
  assumes encode_ok: "ok v \<Longrightarrow> encode b v = Inr (b @ wire v)"
begin

lemma encode_buffer [encode_append]: "ok v \<Longrightarrow> encode b v = Inr (b @ wire v)"
  by (rule encode_ok)

lemma foldl_panic_encode:
  "list_all ok vs \<Longrightarrow> foldl_panic encode b vs = Inr (b @ concat (map wire vs))"
  by (induction vs arbitrary: b) (simp_all add: encode_ok)

end

end
