(* ===== verification/Effects.thy ===== *)
theory Effects
  imports Prelude
begin

text \<open>
  Calls of Go code whose loops need not end. A call on a state \<open>'s\<close> either does not return (\<open>None\<close>),
  or it ends in an outcome, a result or a panic, and leaves a state. \<open>bind_call\<close> is sequencing: the
  rest runs only when the first call returned. It is monotone, so that loops can be written as
  recursive equations with \<^theory_text>\<open>partial_function (option)\<close>; that such a loop returns is then proved as
  an equation with \<open>Some\<close> on its right.
\<close>

type_synonym ('p, 'a, 's) call = "(('p, 'a) outcome \<times> 's) option"

abbreviation returns :: "'a \<Rightarrow> 's \<Rightarrow> ('p, 'a, 's) call" where
  "returns a s \<equiv> Some (Return a, s)"

abbreviation panics :: "'p \<Rightarrow> 's \<Rightarrow> ('p, 'a, 's) call" where
  "panics p s \<equiv> Some (Panic p, s)"

definition resume ::
  "('a \<Rightarrow> 's \<Rightarrow> ('p, 'b, 't) call) \<Rightarrow> ('s \<Rightarrow> 't) \<Rightarrow> ('p, 'a) outcome \<times> 's \<Rightarrow> ('p, 'b, 't) call"
where
  "resume f lift r = (case r of (Return a, s) \<Rightarrow> f a s | (Panic p, s) \<Rightarrow> panics p (lift s))"

text \<open>
  The state of the callee need not be that of the caller: \<open>lift\<close> puts it back into the caller's state
  when the callee panics.
\<close>

definition bind_call ::
  "('p, 'a, 's) call \<Rightarrow> ('s \<Rightarrow> 't) \<Rightarrow> ('a \<Rightarrow> 's \<Rightarrow> ('p, 'b, 't) call) \<Rightarrow> ('p, 'b, 't) call"
where
  "bind_call m lift f = Option.bind m (resume f lift)"

lemma bind_call_None [simp]: "bind_call None lift f = None"
  by (simp add: bind_call_def)

lemma bind_call_returns [simp]: "bind_call (returns a s) lift f = f a s"
  by (simp add: bind_call_def resume_def)

lemma bind_call_panics [simp]: "bind_call (panics p s) lift f = panics p (lift s)"
  by (simp add: bind_call_def resume_def)

lemma bind_call_mono [partial_function_mono]:
  assumes "mono_option m" "\<And>a s. mono_option (\<lambda>g. f g a s)"
  shows "mono_option (\<lambda>g. bind_call (m g) lift (f g))"
  unfolding bind_call_def
proof (rule bind_mono)
  show "mono_option (\<lambda>g. resume (f g) lift r)" for r
    using assms(2)
    by (cases r; cases "fst r") (auto simp: resume_def monotone_def flat_ord_def)
qed (rule assms(1))

lemma bind_call_eq_returns:
  "bind_call m lift f = returns b t \<longleftrightarrow> (\<exists>a s. m = returns a s \<and> f a s = returns b t)"
  by (cases m; cases "fst (the m)") (auto simp: bind_call_def resume_def split: prod.splits)

end
