(* ===== verification/Stream_Iterator.thy ===== *)
theory Stream_Iterator
  imports Prelude
begin

text \<open>
  The iterator of \<^verbatim>\<open>internal/stream/iterator.go\<close>, through which the replay and the reader of system
  calls pull records out of a log.

  The base reader of an iterator is a value of the interface \<^verbatim>\<open>Reader\<close>. All that an iterator does with
  it is to call \<^verbatim>\<open>Read\<close> again and again with the same buffer, so the model keeps the answers it will
  give: the list of values put in the buffer and the error returned with them, if any. A reader that
  has no answer left gives \<^verbatim>\<open>io.EOF\<close>. The field \<open>it_buf\<close> is \<^verbatim>\<open>it.buf\<close>, up to its length.

  \<open>remaining\<close> is the abstract view: the values that are still to come and the error that ends them.
  The lemmas say that \<open>Iterator_Next\<close> is the removal of the first of them.
\<close>

type_synonym 'a answers = "('a list \<times> error option) list"

record 'a Iterator =
  it_base :: "'a answers option"
  it_err :: "error option"
  it_off :: nat
  it_buf :: "'a list"

definition Iter :: "'a answers \<Rightarrow> 'a Iterator" where
  "Iter r = \<lparr>it_base = Some r, it_err = None, it_off = 0, it_buf = []\<rparr>"

definition Iterator_Reset :: "'a answers option \<Rightarrow> 'a Iterator \<Rightarrow> 'a Iterator" where
  "Iterator_Reset r it = it\<lparr>it_base := r, it_err := None, it_off := 0, it_buf := []\<rparr>"

text \<open>The loop of the method \<^verbatim>\<open>next\<close>.\<close>

fun next_loop :: "'a answers \<Rightarrow> 'a Iterator \<Rightarrow> bool \<times> 'a Iterator" where
  "next_loop [] it = (False, it\<lparr>it_base := Some [], it_err := Some EOF, it_off := 0, it_buf := []\<rparr>)"
| "next_loop ((values, err) # base) it =
     (let it = it\<lparr>it_base := Some base, it_err := err, it_off := 0, it_buf := values\<rparr>
      in if values \<noteq> [] then (True, it)
         else if err \<noteq> None then (False, it)
         else next_loop base it)"

definition Iterator_next :: "'a Iterator \<Rightarrow> bool \<times> 'a Iterator" where
  "Iterator_next it =
     (case it_base it of
        None \<Rightarrow> (False, it)
      | Some base \<Rightarrow> if it_err it \<noteq> None then (False, it) else next_loop base it)"

definition Iterator_Next :: "'a Iterator \<Rightarrow> bool \<times> 'a Iterator" where
  "Iterator_Next it =
     (let it = it\<lparr>it_off := it_off it + 1\<rparr>
      in if it_off it < length (it_buf it) then (True, it) else Iterator_next it)"

text \<open>\<^verbatim>\<open>it.buf[it.off]\<close>; \<open>None\<close> is the bounds check that fails.\<close>

definition Iterator_Value :: "'a Iterator \<Rightarrow> 'a option" where
  "Iterator_Value it = (if it_off it < length (it_buf it) then Some (it_buf it ! it_off it) else None)"

definition Iterator_Err :: "'a Iterator \<Rightarrow> error option" where
  "Iterator_Err it = (if it_err it = Some EOF then None else it_err it)"

text \<open>What a reader still holds, and what an iterator still yields.\<close>

fun answers_pending :: "'a answers \<Rightarrow> 'a list \<times> error" where
  "answers_pending [] = ([], EOF)"
| "answers_pending ((values, Some e) # base) = (values, e)"
| "answers_pending ((values, None) # base) = apfst ((@) values) (answers_pending base)"

definition ahead :: "'a Iterator \<Rightarrow> 'a list \<times> error" where
  "ahead it =
     (case it_err it of
        Some e \<Rightarrow> ([], e)
      | None \<Rightarrow> (case it_base it of None \<Rightarrow> ([], EOF) | Some base \<Rightarrow> answers_pending base))"

definition remaining :: "'a Iterator \<Rightarrow> 'a list \<times> error" where
  "remaining it = (drop (it_off it + 1) (it_buf it) @ fst (ahead it), snd (ahead it))"

lemma ahead_off [simp]: "ahead (it\<lparr>it_off := n\<rparr>) = ahead it"
  by (simp add: ahead_def split: option.splits)

lemma remaining_Iter [simp]: "remaining (Iter r) = answers_pending r"
  by (simp add: remaining_def ahead_def Iter_def)

lemma remaining_Reset [simp]: "remaining (Iterator_Reset (Some r) it) = answers_pending r"
  by (simp add: remaining_def ahead_def Iterator_Reset_def)

lemma next_loop_pending:
  assumes "next_loop base it = (found, it')" "answers_pending base = (xs, e)"
  shows "(found \<longrightarrow> (\<exists>x ys. xs = x # ys \<and> Iterator_Value it' = Some x \<and> remaining it' = (ys, e)))
    \<and> (\<not> found \<longrightarrow> xs = [] \<and> it_err it' = Some e \<and> it_base it' \<noteq> None \<and> remaining it' = ([], e))"
  using assms
proof (induction base it arbitrary: xs rule: next_loop.induct)
  case (1 it)
  then show ?case
    by (auto simp: remaining_def ahead_def)
next
  case (2 vs err base it)
  show ?case
  proof (cases vs)
    case (Cons v vs')
    with 2(2,3) show ?thesis
      by (cases err; cases "answers_pending base") (auto simp: remaining_def ahead_def Iterator_Value_def)
  next
    case Nil
    with 2 show ?thesis
      by (cases err; cases "answers_pending base") (auto simp: remaining_def ahead_def)
  qed
qed

text \<open>The two outcomes of \<^verbatim>\<open>Next\<close>.\<close>

lemma drop_Suc_nth: "Suc n < length xs \<Longrightarrow> drop (Suc n) xs = xs ! Suc n # drop (Suc (Suc n)) xs"
  by (simp add: Cons_nth_drop_Suc)

lemma Iterator_Next_Cons:
  assumes "remaining it = (x # xs, e)"
  obtains it' where "Iterator_Next it = (True, it')" "Iterator_Value it' = Some x"
    "remaining it' = (xs, e)"
proof (cases "it_off it + 1 < length (it_buf it)")
  case True
  let ?it = "it\<lparr>it_off := it_off it + 1\<rparr>"
  have "Iterator_Next it = (True, ?it)" "Iterator_Value ?it = Some x" "remaining ?it = (xs, e)"
    using True assms drop_Suc_nth [of "it_off it" "it_buf it"]
    by (auto simp: Iterator_Next_def Iterator_Value_def remaining_def)
  then show ?thesis ..
next
  case False
  then have ahead: "it_err it = None" "\<exists>base. it_base it = Some base \<and> answers_pending base = (x # xs, e)"
    using assms by (auto simp: remaining_def ahead_def split: option.splits prod.splits)
  then obtain base where base: "it_base it = Some base" "answers_pending base = (x # xs, e)"
    by blast
  obtain found it' where loop: "next_loop base (it\<lparr>it_off := it_off it + 1\<rparr>) = (found, it')"
    by fastforce
  from next_loop_pending [OF loop base(2)] have "found" "Iterator_Value it' = Some x"
    "remaining it' = (xs, e)"
    by auto
  moreover have "Iterator_Next it = (found, it')"
    using False ahead base loop by (simp add: Iterator_Next_def Iterator_next_def)
  ultimately show ?thesis
    using that by simp
qed

lemma Iterator_Next_Nil:
  assumes "remaining it = ([], e)"
  obtains it' where "Iterator_Next it = (False, it')"
    "Iterator_Err it' = (if e = EOF then None else Some e)" "remaining it' = ([], e)"
proof -
  let ?it = "it\<lparr>it_off := it_off it + 1\<rparr>"
  have off: "\<not> it_off it + 1 < length (it_buf it)"
    using assms by (auto simp: remaining_def)
  have "\<exists>it'. Iterator_Next it = (False, it') \<and> Iterator_Err it' = (if e = EOF then None else Some e)
      \<and> remaining it' = ([], e)"
  proof (cases "\<exists>base. it_base it = Some base \<and> it_err it = None")
    case True
    then obtain base where base: "it_base it = Some base" "it_err it = None"
      "answers_pending base = ([], e)"
      using assms off by (auto simp: remaining_def ahead_def)
    obtain found it' where loop: "next_loop base ?it = (found, it')"
      by fastforce
    from next_loop_pending [OF loop base(3)] have "\<not> found" "it_err it' = Some e" "remaining it' = ([], e)"
      by auto
    then show ?thesis
      using off base loop by (auto simp: Iterator_Next_def Iterator_next_def Iterator_Err_def)
  next
    case False
    then have "Iterator_Next it = (False, ?it)"
      using off by (auto simp: Iterator_Next_def Iterator_next_def Let_def split: option.splits)
    moreover have "Iterator_Err ?it = (if e = EOF then None else Some e)"
      using assms False by (auto simp: remaining_def ahead_def Iterator_Err_def split: option.splits)
    moreover have "remaining ?it = ([], e)"
      using assms off by (simp add: remaining_def)
    ultimately show ?thesis
      by blast
  qed
  then show ?thesis
    using that by blast
qed

lemma Iterator_Next_more: "fst (Iterator_Next it) \<longleftrightarrow> fst (remaining it) \<noteq> []"
  by (cases "remaining it"; cases "fst (remaining it)")
    (auto elim: Iterator_Next_Cons Iterator_Next_Nil)

lemma Iterator_Next_shrinks:
  assumes "Iterator_Next it = (True, it')"
  shows "length (fst (remaining it')) < length (fst (remaining it))"
proof (cases "remaining it")
  case (Pair xs e)
  with assms show ?thesis
    by (cases xs) (auto elim: Iterator_Next_Cons [of it] Iterator_Next_Nil [of it])
qed

text \<open>\<^verbatim>\<open>Values\<close>: the loop ends because every iteration removes one of the values that remain.\<close>

function Iterator_Values :: "'a Iterator \<Rightarrow> 'a list \<Rightarrow> 'a list \<times> error option" where
  "Iterator_Values it values =
     (case Iterator_Next it of
        (True, it) \<Rightarrow>
          Iterator_Values it (values @ (case Iterator_Value it of Some v \<Rightarrow> [v] | None \<Rightarrow> []))
      | (False, it) \<Rightarrow> (values, Iterator_Err it))"
  by pat_completeness auto

termination
  by (relation "measure (\<lambda>(it, _). length (fst (remaining it)))") (auto dest: Iterator_Next_shrinks [OF sym])

declare Iterator_Values.simps [simp del]

lemma Iterator_Values_remaining:
  "remaining it = (xs, e) \<Longrightarrow>
   Iterator_Values it vs = (vs @ xs, if e = EOF then None else Some e)"
proof (induction xs arbitrary: it vs)
  case Nil
  from Iterator_Next_Nil [OF Nil] obtain it' where
    "Iterator_Next it = (False, it')" "Iterator_Err it' = (if e = EOF then None else Some e)" .
  then show ?case
    by (simp add: Iterator_Values.simps [of it])
next
  case (Cons x xs)
  from Iterator_Next_Cons [OF Cons.prems] obtain it' where
    "Iterator_Next it = (True, it')" "Iterator_Value it' = Some x" "remaining it' = (xs, e)" .
  with Cons.IH [of it' "vs @ [x]"] show ?case
    by (simp add: Iterator_Values.simps [of it])
qed

end
