(* ===== verification/Stream.thy ===== *)
theory Stream
  imports Effects Stream_Iterator "HOL-Library.Sublist"
begin

text \<open>
  The package \<^verbatim>\<open>internal/stream\<close>: readers and writers of values of any type (\<^verbatim>\<open>stream.go\<close>), readers in a
  row (\<^verbatim>\<open>multi.go\<close>), conversions (\<^verbatim>\<open>convert.go\<close>) and readers of channels (\<^verbatim>\<open>chan.go\<close>).

  A value of the interface \<^verbatim>\<open>Reader\<close> is a state with a method \<^verbatim>\<open>Read\<close>: from the state and the length of the
  buffer, the values put at the front of the buffer (their number is the \<^verbatim>\<open>n\<close> of the code) and the
  error. A \<^verbatim>\<open>Writer\<close> takes the values and gives the count and the error. The functions over readers and
  writers take the method as an argument.

  The locale \<open>stream_reader\<close> is what \<^verbatim>\<open>Reader\<close> documents of \<^verbatim>\<open>Read\<close> with a buffer that is not empty, over the
  values \<open>pending\<close> in the stream and the error that ends them; the functions \<^verbatim>\<open>ReadAll\<close>, \<^verbatim>\<open>ReadAtLeast\<close>,
  \<^verbatim>\<open>Copy\<close> and the iterator are shown correct for every reader that keeps it.
\<close>

type_synonym ('p, 'a, 's) read_method = "'s \<Rightarrow> nat \<Rightarrow> ('p, 'a list \<times> error option, 's) call"
type_synonym ('p, 'a, 'w) write_method = "'w \<Rightarrow> 'a list \<Rightarrow> ('p, nat \<times> error option, 'w) call"

text \<open>The error that the functions over readers report: none at the end of the stream.\<close>

definition not_EOF :: "error \<Rightarrow> error option" where
  "not_EOF e = (if e = EOF then None else Some e)"

section \<open>Readers of a sequence of values\<close>

definition stream_NewReader :: "'a list \<Rightarrow> 'a list" where
  "stream_NewReader values = [] @ values"

definition reader_Read :: "('p, 'a, 'a list) read_method" where
  "reader_Read r len =
     (let vs = take len r; r = drop (length vs) r
      in returns (vs, if r = [] then Some EOF else None) r)"

text \<open>\<^verbatim>\<open>errCloser\<close>: its state is the error.\<close>

definition errCloser_Read :: "('p, 'a, error) read_method" where
  "errCloser_Read r len = returns ([], Some r) r"

section \<open>Positions\<close>

abbreviation errSeekWhence :: error where
  "errSeekWhence \<equiv> Errorf ''seek: invalid whence value''"

abbreviation errSeekOffset :: error where
  "errSeekOffset \<equiv> Errorf ''seek: offset out of range''"

abbreviation (input) SeekStart :: int where "SeekStart \<equiv> 0"
abbreviation (input) SeekCurrent :: int where "SeekCurrent \<equiv> 1"
abbreviation (input) SeekEnd :: int where "SeekEnd \<equiv> 2"

definition clamp_seek :: "int \<Rightarrow> int \<Rightarrow> error + int" where
  "clamp_seek len offset =
     (if offset < 0 then Inl errSeekOffset
      else if offset > len then Inr len else Inr offset)"

definition Seek :: "int \<Rightarrow> int \<Rightarrow> int \<Rightarrow> int \<Rightarrow> error + int" where
  "Seek offset len seek whence =
     (if whence = SeekStart then clamp_seek len seek
      else if whence = SeekCurrent then clamp_seek len (wrap (Signed 64) (offset + seek))
      else if whence = SeekEnd then clamp_seek len (wrap (Signed 64) (len - seek))
      else Inl errSeekWhence)"

lemma clamp_seek_range: "clamp_seek len x = Inr pos \<Longrightarrow> 0 \<le> len \<Longrightarrow> 0 \<le> pos \<and> pos \<le> len"
  by (auto simp: clamp_seek_def split: if_splits)

lemma wrap_int64_over:
  assumes "2 ^ 63 \<le> x" "x < 2 ^ 64"
  shows "wrap (Signed 64) x < 0"
proof -
  have "(x + 2 ^ 63) mod 2 ^ 64 = (x + 2 ^ 63 - 2 ^ 64) mod 2 ^ 64"
    by (simp only: minus_mod_self2)
  also have "\<dots> = x + 2 ^ 63 - 2 ^ 64"
    using assms by (intro mod_pos_pos_trivial) simp_all
  finally show ?thesis
    using assms by (simp add: signed_take_bit_eq_take_bit_shift take_bit_eq_mod)
qed

section \<open>Functions over readers and writers\<close>

text \<open>
  The loop of \<^verbatim>\<open>ReadAll\<close>. \<open>grown len need\<close> is the capacity that \<^verbatim>\<open>append\<close> gives a full slice of length \<open>len\<close> that
  is to hold \<open>need\<close> values: the language leaves it open, from \<open>need\<close> upwards.
\<close>

partial_function (option) ReadAll_loop ::
  "(nat \<Rightarrow> nat \<Rightarrow> nat) \<Rightarrow> ('p, 'a, 's) read_method \<Rightarrow> 's \<Rightarrow> 'a list \<Rightarrow> nat
   \<Rightarrow> ('p, 'a list \<times> error option, 's) call"
where
  "ReadAll_loop grown rd r values capacity =
     (let capacity = (if length values = capacity then grown capacity (3 * capacity) else capacity)
      in bind_call (rd r (capacity - length values)) id (\<lambda>(vs, err) r.
           case err of
             None \<Rightarrow> ReadAll_loop grown rd r (values @ vs) capacity
           | Some e \<Rightarrow> returns (values @ vs, not_EOF e) r))"

definition ReadAll ::
  "(nat \<Rightarrow> nat \<Rightarrow> nat) \<Rightarrow> ('p, 'a, 's) read_method \<Rightarrow> 's \<Rightarrow> ('p, 'a list \<times> error option, 's) call"
where
  "ReadAll grown rd r = ReadAll_loop grown rd r [] 1"

partial_function (option) Copy_loop ::
  "('p, 'a, 'w) write_method \<Rightarrow> ('p, 'a, 's) read_method \<Rightarrow> 'w \<Rightarrow> 's \<Rightarrow> nat
   \<Rightarrow> ('p, nat \<times> error option, 'w \<times> 's) call"
where
  "Copy_loop wr rd w r n =
     bind_call (rd r 20) (\<lambda>r. (w, r)) (\<lambda>(vs, err) r.
       bind_call (if vs = [] then returns (0, None) w else wr w vs) (\<lambda>w. (w, r)) (\<lambda>(wn, werr) w.
         let n = n + wn
         in if werr \<noteq> None then returns (n, werr) (w, r)
            else if wn < length vs then returns (n, Some ErrNoProgress) (w, r)
            else case err of
                   None \<Rightarrow> Copy_loop wr rd w r n
                 | Some e \<Rightarrow> returns (n, not_EOF e) (w, r)))"

definition Copy ::
  "('p, 'a, 'w) write_method \<Rightarrow> ('p, 'a, 's) read_method \<Rightarrow> 'w \<Rightarrow> 's
   \<Rightarrow> ('p, nat \<times> error option, 'w \<times> 's) call"
where
  "Copy wr rd w r = Copy_loop wr rd w r 0"

text \<open>
  The loop of \<^verbatim>\<open>ReadAtLeast\<close>: \<open>values\<close> is what the buffer of length \<open>len\<close> holds so far. The result of the
  function is the front of the buffer that was filled, whose length is \<^verbatim>\<open>n\<close>.
\<close>

partial_function (option) ReadAtLeast_loop ::
  "('p, 'a, 's) read_method \<Rightarrow> 's \<Rightarrow> nat \<Rightarrow> nat \<Rightarrow> 'a list \<Rightarrow> error option
   \<Rightarrow> ('p, 'a list \<times> error option, 's) call"
where
  "ReadAtLeast_loop rd r len least values err =
     (if length values < least \<and> err = None
      then bind_call (rd r (len - length values)) id
             (\<lambda>(vs, err) r. ReadAtLeast_loop rd r len least (values @ vs) err)
      else returns (values,
             if least \<le> length values then None
             else if 0 < length values \<and> err = Some EOF then Some ErrUnexpectedEOF
             else err) r)"

lemma ReadAtLeast_loop_err [simp]:
  "ReadAtLeast_loop rd r len least values (Some e) = returns (values,
     if least \<le> length values then None
     else if 0 < length values \<and> e = EOF then Some ErrUnexpectedEOF
     else Some e) r"
  by (subst ReadAtLeast_loop.simps) simp

definition ReadAtLeast ::
  "('p, 'a, 's) read_method \<Rightarrow> 's \<Rightarrow> nat \<Rightarrow> nat \<Rightarrow> ('p, 'a list \<times> error option, 's) call"
where
  "ReadAtLeast rd r len least =
     (if len < least then returns ([], Some ErrShortBuffer) r
      else ReadAtLeast_loop rd r len least [] None)"

definition ReadFull ::
  "('p, 'a, 's) read_method \<Rightarrow> 's \<Rightarrow> nat \<Rightarrow> ('p, 'a list \<times> error option, 's) call"
where
  "ReadFull rd r len = ReadAtLeast rd r len len"

section \<open>Readers in a row\<close>

definition MultiReader :: "'s list \<Rightarrow> 's list" where
  "MultiReader readers = readers"

text \<open>
  The loop of \<^verbatim>\<open>multiReader.Read\<close>, with the values read so far. A count above the length of the buffer
  would fail the slicing of the buffer; no reader returns one.
\<close>

partial_function (option) multiReader_loop ::
  "('p, 'a, 's) read_method \<Rightarrow> 's list \<Rightarrow> nat \<Rightarrow> 'a list \<Rightarrow> ('p, 'a list \<times> error option, 's list) call"
where
  "multiReader_loop rd readers len values =
     (case readers of
        [] \<Rightarrow> returns (values, Some EOF) []
      | r # rs \<Rightarrow>
          if len = 0 then returns (values, None) readers
          else bind_call (rd r len) (\<lambda>r. r # rs) (\<lambda>(vs, err) r.
            if err \<noteq> None \<and> err \<noteq> Some EOF then returns (values @ vs, err) (r # rs)
            else let readers = (if err = Some EOF then rs else r # rs)
                 in if vs = [] then returns (values, Some ErrNoProgress) readers
                    else multiReader_loop rd readers (len - length vs) (values @ vs)))"

definition multiReader_Read :: "('p, 'a, 's) read_method \<Rightarrow> ('p, 'a, 's list) read_method" where
  "multiReader_Read rd readers len = multiReader_loop rd readers len []"

section \<open>Conversions\<close>

text \<open>The loop over the values that were read: those converted before the first error, and the error.\<close>

fun convert_each :: "('b \<Rightarrow> error + 'a) \<Rightarrow> 'b list \<Rightarrow> 'a list \<times> error option" where
  "convert_each conv [] = ([], None)"
| "convert_each conv (x # xs) =
     (case conv x of
        Inl err \<Rightarrow> ([], Some err)
      | Inr y \<Rightarrow> apfst ((#) y) (convert_each conv xs))"

partial_function (option) convertReader_loop ::
  "('p, 'b, 's) read_method \<Rightarrow> ('b \<Rightarrow> error + 'a) \<Rightarrow> 's \<Rightarrow> nat \<Rightarrow> 'a list
   \<Rightarrow> ('p, 'a list \<times> error option, 's) call"
where
  "convertReader_loop rd conv r len values =
     (if length values < len
      then bind_call (rd r (len - length values)) id (\<lambda>(vs, err) r.
        case convert_each conv vs of
          (ws, Some e) \<Rightarrow> returns (values @ ws, Some e) r
        | (ws, None) \<Rightarrow>
            if err \<noteq> None then returns (values @ ws, err) r
            else convertReader_loop rd conv r len (values @ ws))
      else returns (values, None) r)"

definition convertReader_Read ::
  "('p, 'b, 's) read_method \<Rightarrow> ('b \<Rightarrow> error + 'a) \<Rightarrow> ('p, 'a, 's) read_method"
where
  "convertReader_Read rd conv r len = convertReader_loop rd conv r len []"

definition convertWriter_Write ::
  "('p, 'a, 'w) write_method \<Rightarrow> ('b \<Rightarrow> error + 'a) \<Rightarrow> ('p, 'b, 'w) write_method"
where
  "convertWriter_Write wr conv w values =
     (case convert_each conv values of
        (to, Some err) \<Rightarrow> returns (0, Some err) w
      | (to, None) \<Rightarrow> wr w to)"

section \<open>Channels\<close>

text \<open>
  A channel of \<^verbatim>\<open>Optional\<close> values as its receiver sees it: what arrives, in order, and \<open>Later\<close> where a
  receive that does not wait finds nothing yet. After the last event the channel is closed.
\<close>

datatype 'a event = Later | Sent 'a "error option"

fun receive :: "'a event list \<Rightarrow> ('a \<times> error option) option \<times> 'a event list" where
  "receive [] = (None, [])"
| "receive (Later # ch) = receive ch"
| "receive (Sent v err # ch) = (Some (v, err), ch)"

text \<open>The loop with \<^verbatim>\<open>select\<close>: \<open>m\<close> more values fit in the buffer.\<close>

fun chanReader_loop :: "'a event list \<Rightarrow> nat \<Rightarrow> 'a list \<Rightarrow> ('a list \<times> error option) \<times> 'a event list"
where
  "chanReader_loop ch 0 values = ((values, None), ch)"
| "chanReader_loop [] (Suc m) values = ((values, Some EOF), [])"
| "chanReader_loop (Later # ch) (Suc m) values = ((values, None), ch)"
| "chanReader_loop (Sent v err # ch) (Suc m) values =
     (if err \<noteq> None then ((values, err), ch) else chanReader_loop ch m (values @ [v]))"

definition chanReader_Read :: "('p, 'a, 'a event list) read_method" where
  "chanReader_Read r len =
     (if len = 0 then returns ([], None) r
      else case receive r of
             (None, r) \<Rightarrow> returns ([], Some EOF) r
           | (Some (v, Some err), r) \<Rightarrow> returns ([], Some err) r
           | (Some (v, None), r) \<Rightarrow>
               (case chanReader_loop r (len - 1) [v] of (res, r) \<Rightarrow> returns res r))"

section \<open>The contract of a reader\<close>

text \<open>
  \<open>holds s xs e\<close> says that the stream in the state \<open>s\<close> has the values \<open>xs\<close> and then ends with the error
  \<open>e\<close>. A call of \<^verbatim>\<open>Read\<close> with room for a value returns; without an error it gives at least one value, from
  the front of \<open>xs\<close>, and with an error it gives all of them. A stream that has ended stays at its end.
\<close>

definition read_spec ::
  "('p, 'a, 's) read_method \<Rightarrow> ('s \<Rightarrow> 'a list \<Rightarrow> error \<Rightarrow> bool) \<Rightarrow> 's \<Rightarrow> 'a list \<Rightarrow> error \<Rightarrow> nat \<Rightarrow> bool"
where
  "read_spec rd holds s xs e k \<longleftrightarrow>
    (\<exists>vs ys s'. rd s k = returns (vs, None) s' \<and> vs \<noteq> [] \<and> length vs \<le> k \<and> xs = vs @ ys \<and> holds s' ys e) \<or>
    (\<exists>s'. rd s k = returns (xs, Some e) s' \<and> length xs \<le> k \<and> (e = EOF \<longrightarrow> holds s' [] EOF))"

lemma read_more:
  assumes "rd s k = returns (vs, None) s'" "vs \<noteq> []" "length vs \<le> k" "xs = vs @ ys" "holds s' ys e"
  shows "read_spec rd holds s xs e k"
  using assms by (auto simp: read_spec_def)

lemma read_last:
  assumes "rd s k = returns (xs, Some e) s'" "length xs \<le> k" "e = EOF \<Longrightarrow> holds s' [] EOF"
  shows "read_spec rd holds s xs e k"
  using assms by (auto simp: read_spec_def)

locale stream_reader =
  fixes rd :: "('p, 'a, 's) read_method"
    and holds :: "'s \<Rightarrow> 'a list \<Rightarrow> error \<Rightarrow> bool"
  assumes rd_holds: "holds s xs e \<Longrightarrow> 0 < k \<Longrightarrow> read_spec rd holds s xs e k"
begin

lemma rd_cases [consumes 2, case_names more last]:
  assumes "holds s xs e" "0 < k"
  obtains vs ys s' where "rd s k = returns (vs, None) s'" "vs \<noteq> []" "length vs \<le> k" "xs = vs @ ys"
      "holds s' ys e" "length ys < length xs"
  | s' where "rd s k = returns (xs, Some e) s'" "length xs \<le> k" "e = EOF \<Longrightarrow> holds s' [] EOF"
  using rd_holds [OF assms] unfolding read_spec_def by fastforce

lemma ReadAll_loop_holds:
  assumes grown: "\<And>n m. m \<le> grown n m" and "holds s xs e" "length values \<le> capacity" "0 < capacity"
  shows "\<exists>s'. ReadAll_loop grown rd s values capacity = returns (values @ xs, not_EOF e) s'"
  using assms(2-)
proof (induction "length xs" arbitrary: s xs "values" capacity rule: less_induct)
  case less
  let ?c = "if length values = capacity then grown capacity (3 * capacity) else capacity"
  have c: "0 < ?c - length values" "length values \<le> ?c" "0 < ?c"
    using grown [of "3 * capacity" capacity] less.prems by auto
  note unfold = ReadAll_loop.simps [of grown rd s "values" capacity]
  from less.prems(1) c(1) show ?case
  proof (cases rule: rd_cases)
    case (more vs ys s')
    then have "\<exists>t. ReadAll_loop grown rd s' (values @ vs) ?c = returns ((values @ vs) @ ys, not_EOF e) t"
      using c by (intro less.hyps) auto
    with more show ?thesis
      by (subst unfold) (simp add: Let_def)
  next
    case (last s')
    then show ?thesis
      by (subst unfold) (simp add: Let_def)
  qed
qed

lemma ReadAll_holds:
  assumes "\<And>n m. m \<le> grown n m" "holds s xs e"
  shows "\<exists>s'. ReadAll grown rd s = returns (xs, not_EOF e) s'"
  unfolding ReadAll_def using ReadAll_loop_holds [of grown s xs e "[]" 1] assms by simp

text \<open>\<^verbatim>\<open>ReadFull\<close> when enough values are there.\<close>

lemma ReadAtLeast_loop_enough:
  assumes "holds s (vs @ ys) e" "length values + length vs = len" "e = EOF"
  shows "\<exists>s'. ReadAtLeast_loop rd s len len values None = returns (values @ vs, None) s' \<and> holds s' ys e"
  using assms
proof (induction "length vs" arbitrary: s vs "values" rule: less_induct)
  case less
  note unfold = ReadAtLeast_loop.simps [of rd _ len len]
  show ?case
  proof (cases "vs = []")
    case False
    then have len: "0 < len - length values" "length values < len"
      using less.prems(2) by auto
    from less.prems(1) len(1) show ?thesis
    proof (cases rule: rd_cases)
      case (more us zs s')
      then obtain vs' where vs': "vs = us @ vs'" "zs = vs' @ ys"
        using less.prems(2) by (auto simp: append_eq_append_conv2)
      then have "\<exists>t. ReadAtLeast_loop rd s' len len (values @ us) None = returns ((values @ us) @ vs', None) t
          \<and> holds t ys e"
        using more less.prems by (intro less.hyps) auto
      with more vs' less.prems len show ?thesis
        by (subst unfold) simp
    next
      case (last s')
      then have "ys = []" "length values < len"
        using less.prems(2) False by auto
      with last less.prems show ?thesis
        by (subst unfold) auto
    qed
  qed (use less.prems in \<open>subst unfold, simp\<close>)
qed

lemma ReadFull_enough:
  assumes "holds s (vs @ ys) EOF" "length vs = len"
  shows "\<exists>s'. ReadFull rd s len = returns (vs, None) s' \<and> holds s' ys EOF"
  unfolding ReadFull_def ReadAtLeast_def
  using ReadAtLeast_loop_enough [of s vs ys EOF "[]" len] assms by simp

text \<open>\<^verbatim>\<open>ReadFull\<close> when the stream ends before the buffer is full.\<close>

lemma ReadAtLeast_loop_short:
  assumes "holds s xs e" "length values + length xs < len"
  shows "\<exists>s'. ReadAtLeast_loop rd s len len values None =
      returns (values @ xs, Some (if values @ xs \<noteq> [] \<and> e = EOF then ErrUnexpectedEOF else e)) s'
    \<and> (e = EOF \<longrightarrow> holds s' [] EOF)"
  using assms
proof (induction "length xs" arbitrary: s xs "values" rule: less_induct)
  case less
  note unfold = ReadAtLeast_loop.simps [of rd _ len len]
  have len: "0 < len - length values" "length values < len"
    using less.prems(2) by auto
  from less.prems(1) len(1) show ?case
  proof (cases rule: rd_cases)
    case (more vs ys s')
    then have "\<exists>t. ReadAtLeast_loop rd s' len len (values @ vs) None =
        returns ((values @ vs) @ ys, Some (if (values @ vs) @ ys \<noteq> [] \<and> e = EOF then ErrUnexpectedEOF else e)) t
      \<and> (e = EOF \<longrightarrow> holds t [] EOF)"
      using less.prems by (intro less.hyps) auto
    with more len show ?thesis
      by (subst unfold) simp
  next
    case (last s')
    with less.prems len show ?thesis
      by (subst unfold) auto
  qed
qed

lemma ReadFull_short:
  assumes "holds s xs e" "length xs < len"
  shows "\<exists>s'. ReadFull rd s len =
      returns (xs, Some (if xs \<noteq> [] \<and> e = EOF then ErrUnexpectedEOF else e)) s'
    \<and> (e = EOF \<longrightarrow> holds s' [] EOF)"
  unfolding ReadFull_def ReadAtLeast_def
  using ReadAtLeast_loop_short [of s xs e "[]" len] assms by simp

text \<open>\<^verbatim>\<open>Copy\<close> into a writer that takes every value.\<close>

lemma Copy_loop_holds:
  assumes wr: "\<And>w vs. vs \<noteq> [] \<Longrightarrow> wr w vs = returns (length vs, None) (put w vs)"
    and put: "\<And>w xs ys. put (put w xs) ys = put w (xs @ ys)" "\<And>w. put w [] = w"
    and "holds s xs e"
  shows "\<exists>s'. Copy_loop wr rd w s n = returns (n + length xs, not_EOF e) (put w xs, s')"
  using assms(4)
proof (induction "length xs" arbitrary: s xs w n rule: less_induct)
  case less
  note unfold = Copy_loop.simps [of wr rd w s n]
  have "0 < (20 :: nat)"
    by simp
  with less.prems(1) show ?case
  proof (cases rule: rd_cases)
    case (more vs ys s')
    then have "\<exists>t. Copy_loop wr rd (put w vs) s' (n + length vs) =
        returns ((n + length vs) + length ys, not_EOF e) (put (put w vs) ys, t)"
      by (intro less.hyps) auto
    with more show ?thesis
      by (subst unfold) (simp add: wr put ac_simps)
  next
    case (last s')
    then show ?thesis
      by (subst unfold) (cases "xs = []"; simp add: wr put)
  qed
qed

end

text \<open>
  What an iterator sees of a reader: the answers to \<open>n\<close> calls of \<^verbatim>\<open>Read\<close> with a buffer of length \<open>k\<close>, up to the
  first error.
\<close>

fun reads :: "('p, 'a, 's) read_method \<Rightarrow> nat \<Rightarrow> nat \<Rightarrow> 's \<Rightarrow> 'a answers" where
  "reads rd k 0 s = []"
| "reads rd k (Suc n) s =
     (case rd s k of
        Some (Return (vs, None), s') \<Rightarrow> (vs, None) # reads rd k n s'
      | Some (Return (vs, Some e), s') \<Rightarrow> [(vs, Some e)]
      | _ \<Rightarrow> [])"

context stream_reader
begin

lemma reads_holds:
  assumes "holds s xs e" "0 < k" "length xs < n"
  shows "answers_pending (reads rd k n s) = (xs, e)"
  using assms
proof (induction n arbitrary: s xs)
  case (Suc n)
  from Suc.prems(1,2) show ?case
  proof (cases rule: rd_cases)
    case (more vs ys s')
    then have "answers_pending (reads rd k n s') = (ys, e)"
      using Suc.prems(2,3) by (intro Suc.IH) linarith+
    with more show ?thesis
      by simp
  next
    case (last s')
    then show ?thesis
      by simp
  qed
qed simp

end

section \<open>The readers of the package keep the contract\<close>

definition seq_holds :: "'a list \<Rightarrow> 'a list \<Rightarrow> error \<Rightarrow> bool" where
  "seq_holds r xs e \<longleftrightarrow> xs = r \<and> e = EOF"

lemma reader_Read_eq:
  "reader_Read r k = returns (take k r, if length r \<le> k then Some EOF else None) (drop k r)"
  by (auto simp: reader_Read_def Let_def min_def)

interpretation seq: stream_reader reader_Read seq_holds
  by unfold_locales (auto simp: reader_Read_eq seq_holds_def read_spec_def)

text \<open>
  A channel has the values up to the first error, or up to its end. The end of the stream is sent only
  by closing the channel.
\<close>

fun chan_holds :: "'a event list \<Rightarrow> 'a list \<Rightarrow> error \<Rightarrow> bool" where
  "chan_holds [] xs e \<longleftrightarrow> xs = [] \<and> e = EOF"
| "chan_holds (Later # ch) xs e \<longleftrightarrow> chan_holds ch xs e"
| "chan_holds (Sent v None # ch) xs e \<longleftrightarrow> (case xs of [] \<Rightarrow> False | x # ys \<Rightarrow> x = v \<and> chan_holds ch ys e)"
| "chan_holds (Sent v (Some e') # ch) xs e \<longleftrightarrow> xs = [] \<and> e = e' \<and> e \<noteq> EOF"

lemma receive_holds:
  assumes "chan_holds ch xs e"
  shows "case receive ch of
      (None, ch') \<Rightarrow> xs = [] \<and> e = EOF \<and> ch' = []
    | (Some (v, None), ch') \<Rightarrow> (\<exists>ys. xs = v # ys \<and> chan_holds ch' ys e)
    | (Some (v, Some e'), ch') \<Rightarrow> xs = [] \<and> e' = e \<and> e \<noteq> EOF"
  using assms by (induction ch xs e rule: chan_holds.induct) (auto split: list.splits)

lemma chanReader_loop_holds:
  assumes "chan_holds ch xs e"
  shows "(\<exists>new ys ch'. chanReader_loop ch m vs = ((vs @ new, None), ch') \<and> length new \<le> m \<and> xs = new @ ys
      \<and> chan_holds ch' ys e) \<or>
    (\<exists>ch'. chanReader_loop ch m vs = ((vs @ xs, Some e), ch') \<and> length xs \<le> m \<and> (e = EOF \<longrightarrow> ch' = []))"
  using assms
proof (induction ch m vs arbitrary: xs rule: chanReader_loop.induct)
  case (4 v err ch m vs)
  show ?case
  proof (cases err)
    case None
    with 4(2) obtain ys where xs: "xs = v # ys" "chan_holds ch ys e"
      by (auto split: list.splits)
    from 4(1) [OF _ xs(2)] None show ?thesis
      by (fastforce simp: xs(1))
  qed (use 4(2) in auto)
qed auto

interpretation chan: stream_reader "chanReader_Read :: ('p, 'a, 'a event list) read_method" chan_holds
proof unfold_locales
  fix ch :: "'a event list" and xs e and k :: nat
  assume h: "chan_holds ch xs e" and k: "0 < k"
  obtain m ch0 where rcv: "receive ch = (m, ch0)"
    by fastforce
  consider "m = None" | v e' where "m = Some (v, Some e')" | v where "m = Some (v, None)"
    by (metis option.exhaust surj_pair)
  then show "read_spec (chanReader_Read :: ('p, 'a, 'a event list) read_method) chan_holds ch xs e k"
  proof cases
    case (3 v)
    with receive_holds [OF h] rcv obtain ys where ys: "xs = v # ys" "chan_holds ch0 ys e"
      by auto
    from chanReader_loop_holds [OF ys(2), of "k - 1" "[v]"] k rcv 3 ys(1) show ?thesis
      by (fastforce simp: chanReader_Read_def read_spec_def)
  qed (use k rcv receive_holds [OF h] in \<open>auto simp: chanReader_Read_def read_spec_def\<close>)
qed

text \<open>
  Sequences in a row, none of them empty: the reader of an empty one returns no value and \<^verbatim>\<open>io.EOF\<close>, which
  \<^verbatim>\<open>multiReader\<close> takes for a lack of progress (\<open>multiReader_empty\<close>).
\<close>

definition rows_hold :: "'a list list \<Rightarrow> 'a list \<Rightarrow> error \<Rightarrow> bool" where
  "rows_hold rs xs e \<longleftrightarrow> [] \<notin> set rs \<and> xs = concat rs \<and> e = EOF"

fun drop_rows :: "nat \<Rightarrow> 'a list list \<Rightarrow> 'a list list" where
  "drop_rows n [] = []"
| "drop_rows n (r # rs) =
     (if n = 0 then r # rs
      else if length r \<le> n then drop_rows (n - length r) rs else drop n r # rs)"

lemma drop_rows_concat: "concat (drop_rows n rs) = drop n (concat rs)"
  by (induction n rs rule: drop_rows.induct) auto

lemma drop_rows_nonempty: "[] \<notin> set rs \<Longrightarrow> [] \<notin> set (drop_rows n rs)"
  by (induction n rs rule: drop_rows.induct) auto

lemma drop_rows_all: "[] \<notin> set rs \<Longrightarrow> length (concat rs) \<le> n \<Longrightarrow> drop_rows n rs = []"
  by (induction n rs rule: drop_rows.induct) (auto, metis add_leE le_zero_eq length_0_conv neq0_conv)

lemma multiReader_loop_rows:
  "[] \<notin> set rs \<Longrightarrow> multiReader_loop reader_Read rs n vs = returns
     (vs @ take n (concat rs), if length (concat rs) \<le> n then Some EOF else None) (drop_rows n rs)"
proof (induction rs arbitrary: n vs)
  case Nil
  show ?case
    by (subst multiReader_loop.simps) simp
next
  case (Cons r rs)
  show ?case
  proof (cases "0 < n \<and> length r \<le> n")
    case True
    with Cons show ?thesis
      by (subst multiReader_loop.simps) (auto simp: reader_Read_eq [of r])
  next
    case False
    then have "n = 0 \<or> n < length r"
      by auto
    then show ?thesis
      using Cons.prems
      by (subst multiReader_loop.simps) (auto simp: reader_Read_eq [of r] multiReader_loop.simps [of _ _ 0])
  qed
qed

interpretation rows: stream_reader
  "multiReader_Read reader_Read :: ('p, 'a, 'a list list) read_method" rows_hold
proof unfold_locales
  fix rs :: "'a list list" and xs e and k :: nat
  assume "rows_hold rs xs e" and k: "0 < k"
  then have rs: "[] \<notin> set rs" "xs = concat rs" "e = EOF"
    by (auto simp: rows_hold_def)
  note read = multiReader_loop_rows [OF rs(1), of k "[]", folded multiReader_Read_def, simplified]
  show "read_spec (multiReader_Read reader_Read :: ('p, 'a, 'a list list) read_method) rows_hold rs xs e k"
  proof (cases "length (concat rs) \<le> k")
    case True
    then show ?thesis
      using rs by (intro read_last [where s' = "[]"]) (simp_all add: read rows_hold_def drop_rows_all)
  next
    case False
    then have "concat rs \<noteq> []"
      by (metis le0 list.size(3))
    then have "take k (concat rs) \<noteq> []"
      using k by (simp only: take_eq_Nil) simp
    then show ?thesis
      using False rs drop_rows_nonempty [of rs k]
      by (intro read_more [where vs = "take k (concat rs)" and ys = "drop k (concat rs)"
            and s' = "drop_rows k rs"])
        (simp_all add: read rows_hold_def drop_rows_concat)
  qed
qed

lemma multiReader_empty:
  "0 < k \<Longrightarrow> multiReader_Read reader_Read ([] # rs) k = returns ([], Some ErrNoProgress) rs"
  unfolding multiReader_Read_def by (subst multiReader_loop.simps) (simp add: reader_Read_def)

section \<open>Converted streams\<close>

lemma convert_each_append:
  "convert_each conv (xs @ ys) =
     (case convert_each conv xs of
        (vs, None) \<Rightarrow> apfst ((@) vs) (convert_each conv ys)
      | (vs, Some e) \<Rightarrow> (vs, Some e))"
  by (induction xs) (auto split: sum.splits prod.splits option.splits simp: prod_eq_iff)

lemma convert_each_length: "convert_each conv xs = (vs, None) \<Longrightarrow> length vs = length xs"
  by (induction xs arbitrary: vs) (auto split: sum.splits prod.splits simp: apfst_def map_prod_def)

lemma convert_each_le: "convert_each conv xs = (vs, e) \<Longrightarrow> length vs \<le> length xs"
  by (induction xs arbitrary: vs) (auto split: sum.splits prod.splits simp: apfst_def map_prod_def)

definition converts :: "('b \<Rightarrow> error + 'a) \<Rightarrow> 'b list \<Rightarrow> error \<Rightarrow> 'a list \<Rightarrow> error \<Rightarrow> bool" where
  "converts conv xs e ys e' \<longleftrightarrow>
     (case convert_each conv xs of (vs, None) \<Rightarrow> ys = vs \<and> e' = e | (vs, Some err) \<Rightarrow> ys = vs \<and> e' = err)"

locale converted = stream_reader rd holds
  for rd :: "('p, 'b, 's) read_method" and holds :: "'s \<Rightarrow> 'b list \<Rightarrow> error \<Rightarrow> bool" +
  fixes conv :: "'b \<Rightarrow> error + 'a"
  assumes conv_EOF: "conv x \<noteq> Inl EOF"
begin

lemma convert_each_EOF: "convert_each conv xs \<noteq> (vs, Some EOF)"
  using conv_EOF by (induction xs arbitrary: vs) (auto split: sum.splits prod.splits simp: apfst_def map_prod_def)

definition conv_holds :: "'s \<Rightarrow> 'a list \<Rightarrow> error \<Rightarrow> bool" where
  "conv_holds s ys e' \<longleftrightarrow> (\<exists>xs e. holds s xs e \<and> converts conv xs e ys e')"

lemma conv_holds_end: "holds s [] EOF \<Longrightarrow> conv_holds s [] EOF"
  unfolding conv_holds_def by (intro exI [of _ "[]"] exI [of _ EOF]) (simp add: converts_def)

lemma convertReader_loop_holds:
  assumes "conv_holds s ys e" "length values < len"
  shows "(\<exists>vs zs s'. convertReader_loop rd conv s len values = returns (values @ vs, None) s'
      \<and> vs \<noteq> [] \<and> length values + length vs \<le> len \<and> ys = vs @ zs \<and> conv_holds s' zs e) \<or>
    (\<exists>s'. convertReader_loop rd conv s len values = returns (values @ ys, Some e) s'
      \<and> length values + length ys \<le> len \<and> (e = EOF \<longrightarrow> conv_holds s' [] EOF))"
    (is "?more s values ys \<or> ?last s values ys")
proof -
  from assms(1) obtain xs e0 where xs: "holds s xs e0" "converts conv xs e0 ys e"
    by (auto simp: conv_holds_def)
  then show ?thesis
    using assms(2)
  proof (induction "length xs" arbitrary: s xs ys "values" rule: less_induct)
    case less
    note unfold = convertReader_loop.simps [of rd conv s len "values"]
    have len: "0 < len - length values" "length values < len"
      using less.prems by auto
    from less.prems(1) len(1) show ?case
    proof (cases rule: rd_cases)
      case (last s')
      obtain ws err where conv: "convert_each conv xs = (ws, err)"
        by fastforce
      with convert_each_EOF [of xs ws] have "e = EOF \<Longrightarrow> e0 = EOF"
        using less.prems(2) by (auto simp: converts_def split: option.splits)
      with last conv less.prems len convert_each_le [OF conv] have "?last s values ys"
        by (subst unfold) (auto simp: converts_def conv_holds_end split: option.splits)
      then show ?thesis ..
    next
      case (more us zs s')
      obtain ws err where conv: "convert_each conv us = (ws, err)"
        by fastforce
      show ?thesis
      proof (cases err)
        case (Some err')
        then have "ys = ws" "e = err'"
          using less.prems(2) more(4) conv by (auto simp: converts_def convert_each_append)
        with Some more conv len convert_each_le [OF conv] convert_each_EOF [of us ws] have "?last s values ys"
          by (subst unfold) auto
        then show ?thesis ..
      next
        case None
        then obtain ys' where ys': "ys = ws @ ys'" "converts conv zs e0 ys' e"
          using less.prems(2) more(4) conv
          by (cases "convert_each conv zs"; cases "snd (convert_each conv zs)")
            (auto simp: converts_def convert_each_append)
        have ws: "ws \<noteq> []" "length ws = length us"
          using conv None more(2) convert_each_length [of conv us ws] by auto
        have step: "convertReader_loop rd conv s len values = convertReader_loop rd conv s' len (values @ ws)"
          using more conv None len by (subst unfold) simp
        show ?thesis
        proof (cases "length (values @ ws) < len")
          case True
          from less.hyps [OF more(6,5) ys'(2) True] show ?thesis
            using ws(1) unfolding step ys'(1) by fastforce
        next
          case False
          then have "convertReader_loop rd conv s' len (values @ ws) = returns (values @ ws, None) s'"
            by (subst convertReader_loop.simps) simp
          moreover have "conv_holds s' ys' e"
            using more(5) ys'(2) by (auto simp: conv_holds_def)
          ultimately have "?more s values ys"
            using ws more(3) len step ys'(1) by auto
          then show ?thesis ..
        qed
      qed
    qed
  qed
qed

end

sublocale converted \<subseteq> conv: stream_reader "convertReader_Read rd conv" conv_holds
  by unfold_locales
    (use convertReader_loop_holds [of _ _ _ "[]"] in
      \<open>simp add: convertReader_Read_def read_spec_def\<close>)

interpretation seq_conv: converted reader_Read seq_holds "\<lambda>x. Inr (f x)" for f
  by unfold_locales simp

end
