(* ===== verification/Log_Input.thy ===== *)
theory Log_Input
  imports Stream
begin

text \<open>
  What the log reader reads from: \<^verbatim>\<open>bufferedReadSeeker\<close> (\<^verbatim>\<open>internal/timemachine/io.go\<close>) over an
  \<^verbatim>\<open>io.ReadSeeker\<close>, with what it uses of the standard library: \<^verbatim>\<open>bufio.Reader\<close>, \<^verbatim>\<open>io.LimitedReader\<close> and
  \<^verbatim>\<open>io.ReadFull\<close>, whose definition is that of \<^verbatim>\<open>stream.ReadFull\<close> on bytes. A reader that keeps the contract of
  \<open>stream_reader\<close> keeps it behind a buffer and behind a limit.

  The files of the object store are values of \<open>os_file\<close>: a content, a position, and for the next reads how many bytes
  the operating system gives at most, which may be fewer than were asked for.
\<close>

section \<open>Buffers\<close>

text \<open>
  \<^verbatim>\<open>bufio.Reader\<close> by the bytes it has buffered, the error it holds back and the size of its buffer,
  together with the reader below and the offset that \<^verbatim>\<open>bufferedReadSeeker\<close> adds.
\<close>

record 's bufferedReadSeeker =
  brs_buffer :: bytes
  brs_err :: "error option"
  brs_size :: nat
  brs_reader :: 's
  brs_offset :: int

definition newBufferedReadSeeker :: "'s \<Rightarrow> nat \<Rightarrow> 's bufferedReadSeeker" where
  "newBufferedReadSeeker input bufferSize =
     \<lparr>brs_buffer = [], brs_err = None, brs_size = max bufferSize 16, brs_reader = input, brs_offset = 0\<rparr>"

text \<open>\<^verbatim>\<open>copy(p, b.buf[b.r:b.w])\<close> at the end of \<^verbatim>\<open>bufio.Reader.Read\<close>.\<close>

definition buffer_take ::
  "'s bufferedReadSeeker \<Rightarrow> nat \<Rightarrow> ('p, bytes \<times> error option, 's bufferedReadSeeker) call"
where
  "buffer_take b len =
     returns (take len (brs_buffer b), None) (b\<lparr>brs_buffer := drop len (brs_buffer b)\<rparr>)"

definition buffer_Read ::
  "('p, byte, 's) read_method \<Rightarrow> ('p, byte, 's bufferedReadSeeker) read_method"
where
  "buffer_Read rd b len =
     (if len = 0
      then if brs_buffer b \<noteq> [] then returns ([], None) b
           else returns ([], brs_err b) (b\<lparr>brs_err := None\<rparr>)
      else if brs_buffer b \<noteq> [] then buffer_take b len
      else if brs_err b \<noteq> None then returns ([], brs_err b) (b\<lparr>brs_err := None\<rparr>)
      else if brs_size b \<le> len
      then bind_call (rd (brs_reader b) len) (\<lambda>r. b\<lparr>brs_reader := r\<rparr>) (\<lambda>(vs, err) r.
             returns (vs, err) (b\<lparr>brs_reader := r\<rparr>))
      else bind_call (rd (brs_reader b) (brs_size b)) (\<lambda>r. b\<lparr>brs_reader := r\<rparr>) (\<lambda>(vs, err) r.
             if vs = [] then returns ([], err) (b\<lparr>brs_reader := r\<rparr>)
             else buffer_take (b\<lparr>brs_reader := r, brs_buffer := vs, brs_err := err\<rparr>) len))"

definition bufferedReadSeeker_Read ::
  "('p, byte, 's) read_method \<Rightarrow> ('p, byte, 's bufferedReadSeeker) read_method"
where
  "bufferedReadSeeker_Read rd r len =
     bind_call (buffer_Read rd r len) id (\<lambda>(vs, err) r.
       returns (vs, err) (r\<lparr>brs_offset := brs_offset r + int (length vs)\<rparr>))"

text \<open>
  \<^verbatim>\<open>Seek\<close> of the reader below: a position or an error, and its next state. \<^verbatim>\<open>Discard\<close> is called with fewer
  bytes than are buffered.
\<close>

type_synonym 's seek_method = "'s \<Rightarrow> int \<Rightarrow> int \<Rightarrow> (error + int) \<times> 's"

definition bufferedReadSeeker_Seek :: "'s seek_method \<Rightarrow> 's bufferedReadSeeker seek_method" where
  "bufferedReadSeeker_Seek sk r offset whence =
     (case sk (brs_reader r) offset whence of
        (Inl err, s) \<Rightarrow> (Inl err, r\<lparr>brs_reader := s\<rparr>)
      | (Inr offset, s) \<Rightarrow>
          let r = r\<lparr>brs_reader := s\<rparr>;
              endBufferedOffset = brs_offset r + int (length (brs_buffer r));
              r = (if brs_offset r \<le> offset \<and> offset < endBufferedOffset
                   then r\<lparr>brs_buffer := drop (nat (offset - brs_offset r)) (brs_buffer r)\<rparr>
                   else r\<lparr>brs_buffer := [], brs_err := None\<rparr>)
          in (Inr offset, r\<lparr>brs_offset := offset\<rparr>))"

section \<open>Limits\<close>

text \<open>\<^verbatim>\<open>io.LimitedReader\<close>: the limit \<^verbatim>\<open>N\<close> and the reader below.\<close>

definition LimitedReader_Read ::
  "('p, byte, 's) read_method \<Rightarrow> ('p, byte, int \<times> 's) read_method"
where
  "LimitedReader_Read rd = (\<lambda>(N, r) len.
     if N \<le> 0 then returns ([], Some EOF) (N, r)
     else bind_call (rd r (if N < int len then nat N else len)) (\<lambda>r. (N, r)) (\<lambda>(vs, err) r.
            returns (vs, err) (N - int (length vs), r)))"

section \<open>Files\<close>

record os_file =
  file_content :: bytes
  file_pos :: nat
  file_reads :: "nat list"

text \<open>The next read gives at most \<open>n\<close> bytes, but at least one; without a bound it gives all it can.\<close>

definition file_Read :: "('p, byte, os_file) read_method" where
  "file_Read f len =
     (let rest = drop (file_pos f) (file_content f);
          n = (case file_reads f of [] \<Rightarrow> len | n # _ \<Rightarrow> min len (max n 1));
          vs = take n rest
      in if rest = [] \<and> 0 < len then returns ([], Some EOF) f
         else returns (vs, None) (f\<lparr>file_pos := file_pos f + length vs, file_reads := tl (file_reads f)\<rparr>))"

definition file_Seek :: "os_file seek_method" where
  "file_Seek f offset whence =
     (let pos = (if whence = SeekStart then Some offset
                 else if whence = SeekCurrent then Some (int (file_pos f) + offset)
                 else if whence = SeekEnd then Some (int (length (file_content f)) + offset)
                 else None)
      in case pos of
           None \<Rightarrow> (Inl (Errorf ''invalid argument''), f)
         | Some p \<Rightarrow> if p < 0 then (Inl (Errorf ''invalid argument''), f)
                     else (Inr p, f\<lparr>file_pos := nat p\<rparr>))"

definition file_holds :: "os_file \<Rightarrow> bytes \<Rightarrow> error \<Rightarrow> bool" where
  "file_holds f xs e \<longleftrightarrow> xs = drop (file_pos f) (file_content f) \<and> e = EOF"

interpretation os: stream_reader file_Read file_holds
proof unfold_locales
  fix f :: os_file and xs e and k :: nat
  assume "file_holds f xs e" and "0 < k"
  then have f: "xs = drop (file_pos f) (file_content f)" "e = EOF" "0 < k"
    by (auto simp: file_holds_def)
  define n where "n = (case file_reads f of [] \<Rightarrow> k | n # _ \<Rightarrow> min k (max n 1))"
  have n: "0 < n" "n \<le> k"
    using f(3) by (auto simp: n_def split: list.splits)
  show "read_spec file_Read file_holds f xs e k"
  proof (cases "xs = []")
    case True
    then show ?thesis
      using f by (intro read_last) (auto simp: file_Read_def file_holds_def)
  next
    case False
    then show ?thesis
      using f n append_take_drop_id [of n xs]
      by (intro read_more [where vs = "take n xs" and ys = "drop n xs"
            and s' = "f\<lparr>file_pos := file_pos f + length (take n xs), file_reads := tl (file_reads f)\<rparr>"])
        (auto simp: file_Read_def file_holds_def Let_def add.commute min_def simp flip: n_def)
  qed
qed

section \<open>A reader behind a buffer\<close>

locale buffered = stream_reader rd holds
  for rd :: "('p, byte, 's) read_method" and holds :: "'s \<Rightarrow> bytes \<Rightarrow> error \<Rightarrow> bool"
begin

definition buf_holds :: "'s bufferedReadSeeker \<Rightarrow> bytes \<Rightarrow> error \<Rightarrow> bool" where
  "buf_holds b xs e \<longleftrightarrow> 0 < brs_size b \<and>
     (\<exists>ys. xs = brs_buffer b @ ys \<and>
        (case brs_err b of
           None \<Rightarrow> holds (brs_reader b) ys e
         | Some err \<Rightarrow> ys = [] \<and> err = e \<and> (e = EOF \<longrightarrow> holds (brs_reader b) [] EOF)))"

lemma buf_holds_new: "holds s xs e \<Longrightarrow> buf_holds (newBufferedReadSeeker s n) xs e"
  by (simp add: buf_holds_def newBufferedReadSeeker_def)

lemma buffer_Read_holds:
  assumes h: "buf_holds b xs e" and k: "0 < k"
  shows "read_spec (buffer_Read rd) buf_holds b xs e k"
proof -
  from h obtain ys where size: "0 < brs_size b" and xs: "xs = brs_buffer b @ ys"
    and ys: "case brs_err b of None \<Rightarrow> holds (brs_reader b) ys e
      | Some err \<Rightarrow> ys = [] \<and> err = e \<and> (e = EOF \<longrightarrow> holds (brs_reader b) [] EOF)"
    by (auto simp: buf_holds_def)
  consider "brs_buffer b \<noteq> []" | err where "brs_buffer b = []" "brs_err b = Some err"
    | "brs_buffer b = []" "brs_err b = None"
    by blast
  then show ?thesis
  proof cases
    case 1
    then have "take k (brs_buffer b) \<noteq> []"
      using k by simp
    with 1 show ?thesis
      using k size xs ys
      by (intro read_more [where vs = "take k (brs_buffer b)" and ys = "drop k (brs_buffer b) @ ys"])
        (auto simp: buffer_Read_def buffer_take_def buf_holds_def split: option.splits)
  next
    case 2
    then show ?thesis
      using k size xs ys by (intro read_last) (auto simp: buffer_Read_def buf_holds_def)
  next
    case 3
    then have r: "holds (brs_reader b) xs e"
      using xs ys by simp
    show ?thesis
    proof (cases "brs_size b \<le> k")
      case True
      from r k show ?thesis
        by (cases rule: rd_cases)
          (use 3 True k size in \<open>auto simp: buffer_Read_def buf_holds_def read_spec_def\<close>)
    next
      case False
      from r size show ?thesis
      proof (cases rule: rd_cases)
        case (more vs zs s')
        then show ?thesis
          using 3 False k size
          by (intro read_more [where vs = "take k vs" and ys = "drop k vs @ zs"])
            (auto simp: buffer_Read_def buffer_take_def buf_holds_def)
      next
        case (last s')
        show ?thesis
        proof (cases "xs = []")
          case True
          then show ?thesis
            using last 3 False k size by (intro read_last) (auto simp: buffer_Read_def buf_holds_def)
        next
          case nonempty: False
          then show ?thesis
            using last 3 False k size
            by (intro read_more [where vs = "take k xs" and ys = "drop k xs"])
              (auto simp: buffer_Read_def buffer_take_def buf_holds_def)
        qed
      qed
    qed
  qed
qed

lemma buf_holds_offset [simp]: "buf_holds (b\<lparr>brs_offset := n\<rparr>) xs e \<longleftrightarrow> buf_holds b xs e"
  by (cases "brs_err b") (simp_all add: buf_holds_def)

end

sublocale buffered \<subseteq> buf: stream_reader "bufferedReadSeeker_Read rd" buf_holds
  by unfold_locales (drule (1) buffer_Read_holds, auto simp: bufferedReadSeeker_Read_def read_spec_def)

context buffered
begin

text \<open>Behind a limit: the bytes up to the limit, with \<open>rest\<close> after them in the reader below.\<close>

definition lim_holds :: "bytes \<Rightarrow> int \<times> 's bufferedReadSeeker \<Rightarrow> bytes \<Rightarrow> error \<Rightarrow> bool" where
  "lim_holds rest l xs e \<longleftrightarrow>
     e = EOF \<and> buf_holds (snd l) (xs @ rest) EOF \<and> int (length xs) = max 0 (fst l)"

end

sublocale buffered \<subseteq> lim: stream_reader "LimitedReader_Read (bufferedReadSeeker_Read rd)" "lim_holds rest"
  for rest
proof unfold_locales
  fix l :: "int \<times> 's bufferedReadSeeker" and xs e and k :: nat
  assume h: "lim_holds rest l xs e" and k: "0 < k"
  obtain N b where l: "l = (N, b)"
    by fastforce
  from h have e: "e = EOF" and b: "buf_holds b (xs @ rest) EOF" and N: "int (length xs) = max 0 N"
    by (auto simp: lim_holds_def l)
  let ?k = "if N < int k then nat N else k"
  show "read_spec (LimitedReader_Read (bufferedReadSeeker_Read rd)) (lim_holds rest) l xs e k"
  proof (cases "N \<le> 0")
    case True
    then show ?thesis
      using N e b by (intro read_last) (auto simp: LimitedReader_Read_def l lim_holds_def)
  next
    case False
    then have "0 < ?k"
      using k by auto
    with b show ?thesis
    proof (cases rule: buf.rd_cases)
      case (more vs zs s')
      moreover have "length vs \<le> length xs"
        using more(3) N False by (auto split: if_splits)
      ultimately obtain us where "xs = vs @ us" "zs = us @ rest"
        by (auto simp: append_eq_append_conv2)
      with more show ?thesis
        using N False e k
        by (intro read_more [where vs = vs and ys = us and s' = "(N - int (length vs), s')"])
          (auto simp: LimitedReader_Read_def l lim_holds_def split: if_splits)
    next
      case (last s')
      have "?k \<le> length xs"
        using N False by auto
      with last(2) have "length (xs @ rest) \<le> length xs"
        by (rule order_trans)
      then have "rest = []"
        by simp
      with last show ?thesis
        using N False e k
        by (intro read_last) (auto simp: LimitedReader_Read_def l lim_holds_def split: if_splits)
    qed
  qed
qed

interpretation bf: buffered file_Read file_holds
  by unfold_locales

section \<open>Seeking inside the buffer\<close>

text \<open>
  A seek to a position inside the buffer moves the file to that position as well, although the rest of
  the buffer has been read from it: what follows the buffer is read again.
\<close>

lemma Seek_inside_buffer:
  assumes "brs_err b = None" "0 < brs_size b" "0 \<le> brs_offset b" "brs_offset b \<le> offset"
    "offset < brs_offset b + int (length (brs_buffer b))"
  shows "\<exists>b'. bufferedReadSeeker_Seek file_Seek b offset SeekStart = (Inr offset, b')
    \<and> bf.buf_holds b' (drop (nat (offset - brs_offset b)) (brs_buffer b)
        @ drop (nat offset) (file_content (brs_reader b))) EOF"
  using assms
  by (auto simp: bufferedReadSeeker_Seek_def file_Seek_def bf.buf_holds_def file_holds_def Let_def)

end
