(* ===== verification/Wasi.thy ===== *)
theory Wasi
  imports Prelude
begin

text \<open>
  What the program takes from the package \<^verbatim>\<open>github.com/stealthrocket/wasi-go\<close>, which is not part of
  the repository. It is a parameter of the model: a value \<open>W\<close> of the record \<open>wasi\<close> gives the
  integer type behind each named type of the package (\<open>shape W FD_t\<close> is the type of an \<^verbatim>\<open>FD\<close>), the
  constants the program names, and the accessors of the union inside a \<^verbatim>\<open>Subscription\<close>, whose
  representation \<open>'v\<close> is left open. The structures are those whose fields the program reads and
  writes.
\<close>

datatype wasi_type =
    Errno_t | FD_t | ClockID_t | Timestamp_t | Size_t | FileType_t | FDFlags_t | FSTFlags_t
  | Rights_t | FileSize_t | Device_t | INode_t | LinkCount_t | Advice_t | ExitCode_t | Signal_t
  | PreOpenType_t | UserData_t | EventType_t | SubscriptionClockFlags_t
  | EventFDReadWriteFlags_t | DirCookie_t | FileDelta_t | Whence_t | LookupFlags_t
  | OpenFlags_t | RIFlags_t | ROFlags_t | SIFlags_t | SDFlags_t | ProtocolFamily_t
  | SocketType_t | Protocol_t | SocketOption_t | AddressInfoFlags_t | IntValue_t

record SubscriptionClock =
  SubscriptionClock_ID :: int
  SubscriptionClock_Precision :: int
  SubscriptionClock_Timeout :: int
  SubscriptionClock_Flags :: int

record 'v wasi =
  shape :: "wasi_type \<Rightarrow> int_type"
  FDReadEvent :: int
  FDWriteEvent :: int
  ClockEvent :: int
  InetFamily :: int
  Inet6Family :: int
  UnixFamily :: int
  ESUCCESS :: int
  ENOSYS :: int
  zero_variant :: 'v
  GetFDReadWrite :: "'v \<Rightarrow> int"
  SetFDReadWrite :: "int \<Rightarrow> 'v \<Rightarrow> 'v"
  GetClock :: "'v \<Rightarrow> SubscriptionClock"
  SetClock :: "SubscriptionClock \<Rightarrow> 'v \<Rightarrow> 'v"

section \<open>Structures\<close>

record FDStat =
  FDStat_FileType :: int
  FDStat_Flags :: int
  FDStat_RightsBase :: int
  FDStat_RightsInheriting :: int

record FileStat =
  FileStat_Device :: int
  FileStat_INode :: int
  FileStat_FileType :: int
  FileStat_NLink :: int
  FileStat_Size :: int
  FileStat_AccessTime :: int
  FileStat_ModifyTime :: int
  FileStat_ChangeTime :: int

record PreStat =
  PreStat_Type :: int
  PreStat_NameLength :: int

record 'v Subscription =
  Subscription_UserData :: int
  Subscription_EventType :: int
  Subscription_variant :: 'v

record Event =
  Event_UserData :: int
  Event_Errno :: int
  Event_EventType :: int
  Event_NBytes :: int
  Event_Flags :: int

record DirEntry =
  DirEntry_Next :: int
  DirEntry_INode :: int
  DirEntry_Type :: int
  DirEntry_Name :: bytes

text \<open>
  \<^verbatim>\<open>SocketAddress\<close> and \<^verbatim>\<open>SocketOptionValue\<close> are interface types. The program distinguishes \<^verbatim>\<open>nil\<close>, the
  named implementations and, in its default cases, any other one. The addresses are pointers to
  structures; the model keeps what they point to.
\<close>

datatype SocketAddress =
    NilAddress
  | Inet4Address int bytes
  | Inet6Address int bytes
  | UnixAddress bytes
  | OtherAddress

datatype SocketOptionValue = NilValue | IntValue int | BytesValue bytes | OtherValue

record AddressInfo =
  AddressInfo_Flags :: int
  AddressInfo_Family :: int
  AddressInfo_SocketType :: int
  AddressInfo_Protocol :: int
  AddressInfo_Address :: SocketAddress
  AddressInfo_CanonicalName :: bytes

text \<open>The zero values of the structures.\<close>

definition zero_FDStat :: FDStat where
  "zero_FDStat = \<lparr>FDStat_FileType = 0, FDStat_Flags = 0, FDStat_RightsBase = 0,
     FDStat_RightsInheriting = 0\<rparr>"

definition zero_FileStat :: FileStat where
  "zero_FileStat = \<lparr>FileStat_Device = 0, FileStat_INode = 0, FileStat_FileType = 0,
     FileStat_NLink = 0, FileStat_Size = 0, FileStat_AccessTime = 0, FileStat_ModifyTime = 0,
     FileStat_ChangeTime = 0\<rparr>"

definition zero_PreStat :: PreStat where
  "zero_PreStat = \<lparr>PreStat_Type = 0, PreStat_NameLength = 0\<rparr>"

definition zero_Subscription :: "'v wasi \<Rightarrow> 'v Subscription" where
  "zero_Subscription W = \<lparr>Subscription_UserData = 0, Subscription_EventType = 0,
     Subscription_variant = zero_variant W\<rparr>"

definition zero_Event :: Event where
  "zero_Event = \<lparr>Event_UserData = 0, Event_Errno = 0, Event_EventType = 0, Event_NBytes = 0,
     Event_Flags = 0\<rparr>"

definition zero_DirEntry :: DirEntry where
  "zero_DirEntry = \<lparr>DirEntry_Next = 0, DirEntry_INode = 0, DirEntry_Type = 0, DirEntry_Name = []\<rparr>"

definition zero_AddressInfo :: AddressInfo where
  "zero_AddressInfo = \<lparr>AddressInfo_Flags = 0, AddressInfo_Family = 0, AddressInfo_SocketType = 0,
     AddressInfo_Protocol = 0, AddressInfo_Address = NilAddress, AddressInfo_CanonicalName = []\<rparr>"

section \<open>What the program relies on\<close>

text \<open>
  The hypotheses of the round trips: every type is at most as wide as the integer the codec writes it
  as, and the constants that select a variant are values of their type and differ from each other
  (the families also from 0, which the codec writes for a missing address).
\<close>

definition wide_types :: "wasi_type set" where
  "wide_types = {Timestamp_t, Rights_t, FileSize_t, Device_t, INode_t, LinkCount_t, UserData_t,
     DirCookie_t, FileDelta_t, SocketOption_t, IntValue_t}"

definition wasi_shapes :: "'v wasi \<Rightarrow> bool" where
  "wasi_shapes W \<longleftrightarrow> (\<forall>T. 0 < width (shape W T) \<and>
     width (shape W T) \<le> (if T \<in> wide_types then 64 else 32))"

definition wasi_constants :: "'v wasi \<Rightarrow> bool" where
  "wasi_constants W \<longleftrightarrow>
     ClockEvent W \<noteq> FDReadEvent W \<and> ClockEvent W \<noteq> FDWriteEvent W
     \<and> fits (shape W ProtocolFamily_t) (InetFamily W)
     \<and> fits (shape W ProtocolFamily_t) (Inet6Family W)
     \<and> fits (shape W ProtocolFamily_t) (UnixFamily W)
     \<and> distinct [0, InetFamily W, Inet6Family W, UnixFamily W]"

definition wasi_union :: "'v wasi \<Rightarrow> bool" where
  "wasi_union W \<longleftrightarrow> (\<forall>f v. GetFDReadWrite W (SetFDReadWrite W f v) = f)
     \<and> (\<forall>c v. GetClock W (SetClock W c v) = c)"

definition wasi_ok :: "'v wasi \<Rightarrow> bool" where
  "wasi_ok W \<longleftrightarrow> wasi_shapes W \<and> wasi_constants W \<and> wasi_union W"

lemma wasi_fits32: "wasi_ok W \<Longrightarrow> T \<notin> wide_types \<Longrightarrow> fits (shape W T) x \<Longrightarrow> fits32 (shape W T) x"
  by (auto simp: wasi_ok_def wasi_shapes_def fits32_def dest!: spec [of _ T])

lemma wasi_fits64: "wasi_ok W \<Longrightarrow> fits (shape W T) x \<Longrightarrow> fits64 (shape W T) x"
  by (auto simp: wasi_ok_def wasi_shapes_def fits64_def dest!: spec [of _ T] split: if_splits)

text \<open>
  An instance of the parameter, at which the hypotheses hold: the integer types that the WASI
  snapshot preview 1 interface description gives (32-bit integers for the socket extensions, which it
  does not describe), and the union as a pair of its two readings.
\<close>

fun preview1_shape :: "wasi_type \<Rightarrow> int_type" where
  "preview1_shape Errno_t = Unsigned 16"
| "preview1_shape FD_t = Signed 32"
| "preview1_shape FileType_t = Unsigned 8"
| "preview1_shape FDFlags_t = Unsigned 16"
| "preview1_shape FSTFlags_t = Unsigned 16"
| "preview1_shape Advice_t = Unsigned 8"
| "preview1_shape Signal_t = Unsigned 8"
| "preview1_shape PreOpenType_t = Unsigned 8"
| "preview1_shape EventType_t = Unsigned 8"
| "preview1_shape SubscriptionClockFlags_t = Unsigned 16"
| "preview1_shape EventFDReadWriteFlags_t = Unsigned 16"
| "preview1_shape FileDelta_t = Signed 64"
| "preview1_shape Whence_t = Unsigned 8"
| "preview1_shape OpenFlags_t = Unsigned 16"
| "preview1_shape RIFlags_t = Unsigned 16"
| "preview1_shape ROFlags_t = Unsigned 16"
| "preview1_shape SIFlags_t = Unsigned 16"
| "preview1_shape SDFlags_t = Unsigned 8"
| "preview1_shape IntValue_t = Signed 64"
| "preview1_shape T = (if T \<in> wide_types then Unsigned 64 else Unsigned 32)"

definition preview1 :: "(int \<times> SubscriptionClock) wasi" where
  "preview1 = \<lparr>shape = preview1_shape, FDReadEvent = 1, FDWriteEvent = 2, ClockEvent = 0,
     InetFamily = 1, Inet6Family = 2, UnixFamily = 3, ESUCCESS = 0, ENOSYS = 52,
     zero_variant = (0, \<lparr>SubscriptionClock_ID = 0, SubscriptionClock_Precision = 0,
       SubscriptionClock_Timeout = 0, SubscriptionClock_Flags = 0\<rparr>),
     GetFDReadWrite = fst, SetFDReadWrite = (\<lambda>f v. (f, snd v)),
     GetClock = snd, SetClock = (\<lambda>c v. (fst v, c))\<rparr>"

lemma preview1_simps:
  "shape preview1 = preview1_shape" "FDReadEvent preview1 = 1" "FDWriteEvent preview1 = 2"
  "ClockEvent preview1 = 0" "InetFamily preview1 = 1" "Inet6Family preview1 = 2"
  "UnixFamily preview1 = 3" "ESUCCESS preview1 = 0" "ENOSYS preview1 = 52"
  "GetFDReadWrite preview1 = fst" "GetClock preview1 = snd"
  by (simp_all add: preview1_def)

lemma preview1_shapes: "wasi_shapes preview1"
  unfolding wasi_shapes_def
proof
  fix T
  show "0 < width (shape preview1 T) \<and>
      width (shape preview1 T) \<le> (if T \<in> wide_types then 64 else 32)"
    by (cases T) (simp_all add: preview1_def wide_types_def)
qed

lemma preview1_ok: "wasi_ok preview1"
  using preview1_shapes
  by (simp add: wasi_ok_def wasi_constants_def wasi_union_def preview1_def fits_Unsigned_iff
      wide_types_def)

end
