(* ===== verification/Codec_Wire.thy ===== *)
theory Codec_Wire
  imports Wasi
begin

text \<open>
  The encoders and decoders of \<^verbatim>\<open>internal/timemachine/wasicall/codec.go\<close> below the level of system
  calls: integers, byte strings, the named integer types, structures, addresses and count-prefixed
  lists. An encoder appends to its buffer; the two that panic return a sum. A decoder returns an
  error or the value and the rest of the buffer; the partial value Go returns beside a non-nil error
  is not represented. Each pair is shown to be a \<open>plain_codec\<close> or a \<open>panic_codec\<close> by an
  interpretation, which puts its round trip into the simplifier.
\<close>

section \<open>Integers and byte strings\<close>

definition encodeU32 :: "bytes \<Rightarrow> u32 \<Rightarrow> bytes" where
  "encodeU32 b v = b @ le32 v"

definition decodeU32 :: "bytes \<Rightarrow> error + (u32 \<times> bytes)" where
  "decodeU32 b = (if length b < 4 then Inl ErrShortBuffer else Inr (of_le32 b, drop 4 b))"

definition encodeU64 :: "bytes \<Rightarrow> u64 \<Rightarrow> bytes" where
  "encodeU64 b v = b @ le64 v"

definition decodeU64 :: "bytes \<Rightarrow> error + (u64 \<times> bytes)" where
  "decodeU64 b = (if length b < 8 then Inl ErrShortBuffer else Inr (of_le64 b, drop 8 b))"

interpretation u32: plain_codec encodeU32 decodeU32 "\<lambda>_. True"
  by unfold_locales (simp_all add: encodeU32_def decodeU32_def)

interpretation u64: plain_codec encodeU64 decodeU64 "\<lambda>_. True"
  by unfold_locales (simp_all add: encodeU64_def decodeU64_def)

definition encodeInt :: "bytes \<Rightarrow> int \<Rightarrow> bytes" where
  "encodeInt b v = encodeU64 b (word_of_int v)"

definition decodeInt :: "bytes \<Rightarrow> error + (int \<times> bytes)" where
  "decodeInt b =
     (case decodeU64 b of Inl err \<Rightarrow> Inl err | Inr (v, b) \<Rightarrow> Inr (wrap go_int (uint v), b))"

interpretation go_int: plain_codec encodeInt decodeInt "fits go_int"
proof
  show "encodeInt b v = b @ encodeInt [] v" for b v
    by (simp add: encodeInt_def encodeU64_def)
  show "decodeInt (encodeInt [] v @ r) = Inr (v, r)" if "fits go_int v"
    "length (encodeInt [] v) + length r < 4294967296" for v r
    using that wrap_u64 [of go_int v] by (simp add: encodeInt_def decodeInt_def fits64_def)
qed

definition encodeBytes :: "bytes \<Rightarrow> bytes \<Rightarrow> bytes" where
  "encodeBytes buffer b = (let buffer = encodeU32 buffer (word_of_nat (length b)) in buffer @ b)"

definition decodeBytes :: "bytes \<Rightarrow> error + (bytes \<times> bytes)" where
  "decodeBytes buffer =
     (case decodeU32 buffer of
        Inl err \<Rightarrow> Inl err
      | Inr (len, buffer) \<Rightarrow>
          if wrap (Unsigned 32) (int (length buffer)) < uint len then Inl ErrShortBuffer
          else Inr (take (unat len) buffer, drop (unat len) buffer))"

lemma u32_length [simp]:
  "n < 4294967296 \<Longrightarrow> uint (word_of_nat n :: u32) = int n"
  "n < 4294967296 \<Longrightarrow> unat (word_of_nat n :: u32) = n"
  by (simp_all add: unsigned_of_nat take_bit_nat_eq_self)

lemma decodeU32_le32 [simp]: "decodeU32 (le32 v @ r) = Inr (v, r)"
  by (simp add: decodeU32_def)

interpretation go_bytes: plain_codec encodeBytes decodeBytes "\<lambda>_. True"
proof
  show "encodeBytes b v = b @ encodeBytes [] v" for b v
    by (simp add: encodeBytes_def encodeU32_def)
  show "decodeBytes (encodeBytes [] v @ r) = Inr (v, r)"
    if "length (encodeBytes [] v) + length r < 4294967296" for v r
  proof -
    have len: "length v + length r < 4294967296"
      using that by (simp add: encodeBytes_def encodeU32_def)
    then have "take_bit 32 (int (length (v @ r))) = int (length (v @ r))"
      by (simp add: take_bit_int_eq_self)
    with len show ?thesis
      by (simp add: encodeBytes_def decodeBytes_def encodeU32_def)
  qed
qed

definition encodeString :: "bytes \<Rightarrow> bytes \<Rightarrow> bytes" where
  "encodeString buffer s = encodeBytes buffer s"

definition decodeString :: "bytes \<Rightarrow> error + (bytes \<times> bytes)" where
  "decodeString buffer =
     (case decodeBytes buffer of
        Inl err \<Rightarrow> Inl err
      | Inr (result, buffer) \<Rightarrow> if length result = 0 then Inr ([], buffer) else Inr (result, buffer))"

interpretation go_string: plain_codec encodeString decodeString "\<lambda>_. True"
proof
  show "encodeString b v = b @ encodeString [] v" for b v
    unfolding encodeString_def by (rule go_bytes.encode_onto)
  show "decodeString (encodeString [] v @ r) = Inr (v, r)"
    if "length (encodeString [] v) + length r < 4294967296" for v r
    using that by (simp add: encodeString_def decodeString_def)
qed

section \<open>Count-prefixed lists\<close>

text \<open>
  The list decoders decode into a slice that the caller lends them: \<open>cache\<close> is that slice extended to
  its capacity. It is reused when it is long enough, otherwise a slice of zero values is made.
\<close>

definition scratch_slice :: "'a \<Rightarrow> 'a list \<Rightarrow> u32 \<Rightarrow> 'a list" where
  "scratch_slice zero cache count =
     (if wrap (Unsigned 32) (int (length cache)) < uint count then replicate (unat count) zero
      else take (unat count) cache)"

lemma length_scratch_slice [simp]: "length (scratch_slice zero cache count) = unat count"
proof -
  have "unat count \<le> length cache" if "\<not> take_bit 32 (int (length cache)) < uint count"
  proof -
    have "take_bit 32 (int (length cache)) \<le> int (length cache)"
      by (simp only: take_bit_int_less_eq_self_iff of_nat_0_le_iff)
    with that have "uint count \<le> int (length cache)"
      by linarith
    then show ?thesis
      by (simp only: unat_eq_nat_uint nat_le_iff)
  qed
  then show ?thesis
    by (auto simp: scratch_slice_def)
qed

text \<open>
  The contract of a list codec, from the one of its elements: the encoder writes the count and then
  the elements, the decoder reads the count and then runs the element decoder that many times.
\<close>

locale counted_codec = wire_codec wire decode ok
  for wire :: "'a \<Rightarrow> bytes" and decode :: "bytes \<Rightarrow> error + ('a \<times> bytes)" and ok :: "'a \<Rightarrow> bool" +
  fixes wires :: "'a list \<Rightarrow> bytes"
    and decodes :: "bytes \<Rightarrow> 'a list \<Rightarrow> error + ('a list \<times> bytes)"
    and zero :: 'a
  assumes wire_nonempty: "ok v \<Longrightarrow> wire v \<noteq> []"
    and wires_eq: "list_all ok vs \<Longrightarrow>
      wires vs = le32 (word_of_nat (length vs)) @ concat (map wire vs)"
    and decodes_eq: "decodes b cache =
      (case decodeU32 b of
         Inl err \<Rightarrow> Inl err
       | Inr (count, b) \<Rightarrow> decode_each decode (unat count) 0 b (scratch_slice zero cache count))"
begin

lemma length_le_wires: "list_all ok vs \<Longrightarrow> length vs \<le> length (concat (map wire vs))"
proof (induction vs)
  case (Cons v vs)
  then have "0 < length (wire v)"
    using wire_nonempty [of v] by simp
  with Cons show ?case
    by (simp del: length_greater_0_conv)
qed simp

lemma decodes_wires:
  assumes "list_all ok vs" "length (wires vs) + length r < 4294967296"
  shows "decodes (wires vs @ r) cache = Inr (vs, r)"
proof -
  have len: "length (concat (map wire vs)) + length r < 4294967296"
    using assms by (simp only: wires_eq length_append)
  then have n: "unat (word_of_nat (length vs) :: u32) = length vs"
    using length_le_wires [OF assms(1)] by simp
  have "decodeU32 (wires vs @ r)
      = Inr (word_of_nat (length vs), concat (map wire vs) @ r)"
    using assms(1) by (simp add: wires_eq)
  then show ?thesis
    using decode_each_wire [OF assms(1) len, of "scratch_slice zero cache (word_of_nat (length vs))" 0]
    by (simp add: decodes_eq n)
qed

end

sublocale counted_codec \<subseteq> counted: wire_codec wires "\<lambda>b. decodes b cache" "list_all ok"
  by unfold_locales (rule decodes_wires)

definition encodeStrings :: "bytes \<Rightarrow> bytes list \<Rightarrow> bytes" where
  "encodeStrings buffer args =
     (let buffer = encodeU32 buffer (word_of_nat (length args))
      in foldl encodeString buffer args)"

definition decodeStrings :: "bytes \<Rightarrow> bytes list \<Rightarrow> error + (bytes list \<times> bytes)" where
  "decodeStrings buffer strings =
     (case decodeU32 buffer of
        Inl err \<Rightarrow> Inl err
      | Inr (count, buffer) \<Rightarrow>
          decode_each decodeString (unat count) 0 buffer (scratch_slice [] strings count))"

lemma encodeStrings_onto [encode_append]:
  "NO_MATCH [] b \<Longrightarrow> encodeStrings b vs = b @ encodeStrings [] vs"
  by (simp add: encodeStrings_def go_string.foldl_encode encodeU32_def)

interpretation strings: counted_codec "encodeString []" decodeString "\<lambda>_. True"
  "encodeStrings []" decodeStrings "[]"
  by unfold_locales
    (simp_all add: encodeStrings_def decodeStrings_def go_string.foldl_encode encodeU32_def
      encodeString_def encodeBytes_def le32_def)

definition encodeIOVecs :: "bytes \<Rightarrow> bytes list \<Rightarrow> bytes" where
  "encodeIOVecs buffer iovecs =
     (let buffer = encodeU32 buffer (word_of_nat (length iovecs))
      in foldl encodeBytes buffer iovecs)"

definition decodeIOVecs :: "bytes \<Rightarrow> bytes list \<Rightarrow> error + (bytes list \<times> bytes)" where
  "decodeIOVecs buffer iovecs =
     (case decodeU32 buffer of
        Inl err \<Rightarrow> Inl err
      | Inr (count, buffer) \<Rightarrow>
          decode_each decodeBytes (unat count) 0 buffer (scratch_slice [] iovecs count))"

lemma encodeIOVecs_onto [encode_append]:
  "NO_MATCH [] b \<Longrightarrow> encodeIOVecs b vs = b @ encodeIOVecs [] vs"
  by (simp add: encodeIOVecs_def go_bytes.foldl_encode encodeU32_def)

interpretation iovecs: counted_codec "encodeBytes []" decodeBytes "\<lambda>_. True"
  "encodeIOVecs []" decodeIOVecs "[]"
  by unfold_locales
    (simp_all add: encodeIOVecs_def decodeIOVecs_def go_bytes.foldl_encode encodeU32_def
      encodeBytes_def le32_def)

section \<open>The named integer types\<close>

text \<open>
  Each named type is written as a \<^verbatim>\<open>uint32\<close> or a \<^verbatim>\<open>uint64\<close>. A value of the type is what \<open>val\<close> says,
  under the hypotheses on the types of the package.
\<close>

definition val :: "'v wasi \<Rightarrow> wasi_type \<Rightarrow> int \<Rightarrow> bool" where
  "val W T x \<longleftrightarrow> wasi_ok W \<and> fits (shape W T) x"

lemma val_preview1: "val preview1 T x \<longleftrightarrow> fits (preview1_shape T) x"
  by (simp add: val_def preview1_ok preview1_simps)

lemma val_u32: "val W T x \<Longrightarrow> T \<notin> wide_types \<Longrightarrow> wrap (shape W T) (uint (word_of_int x :: u32)) = x"
  by (auto simp: val_def intro: wrap_u32 wasi_fits32)

lemma val_u64: "val W T x \<Longrightarrow> wrap (shape W T) (uint (word_of_int x :: u64)) = x"
  by (auto simp: val_def intro: wrap_u64 wasi_fits64)


definition encodeErrno :: "bytes \<Rightarrow> int \<Rightarrow> bytes" where
  "encodeErrno buffer errno = encodeU32 buffer (word_of_int errno)"

definition decodeErrno :: "'v wasi \<Rightarrow> bytes \<Rightarrow> error + (int \<times> bytes)" where
  "decodeErrno W buffer =
     (case decodeU32 buffer of
        Inl err \<Rightarrow> Inl err
      | Inr (errno, buffer) \<Rightarrow> Inr (wrap (shape W Errno_t) (uint errno), buffer))"

interpretation errno: plain_codec encodeErrno "decodeErrno W" "val W Errno_t"
  by unfold_locales
    (simp_all add: encodeErrno_def decodeErrno_def encodeU32_def val_u32 decodeU32_def wide_types_def)

definition encodeFD :: "bytes \<Rightarrow> int \<Rightarrow> bytes" where
  "encodeFD buffer fd = encodeU32 buffer (word_of_int fd)"

definition decodeFD :: "'v wasi \<Rightarrow> bytes \<Rightarrow> error + (int \<times> bytes)" where
  "decodeFD W buffer =
     (case decodeU32 buffer of
        Inl err \<Rightarrow> Inl err
      | Inr (fd, buffer) \<Rightarrow> Inr (wrap (shape W FD_t) (uint fd), buffer))"

interpretation fd: plain_codec encodeFD "decodeFD W" "val W FD_t"
  by unfold_locales
    (simp_all add: encodeFD_def decodeFD_def encodeU32_def val_u32 decodeU32_def wide_types_def)

definition encodeClockID :: "bytes \<Rightarrow> int \<Rightarrow> bytes" where
  "encodeClockID buffer x = encodeU32 buffer (word_of_int x)"

definition decodeClockID :: "'v wasi \<Rightarrow> bytes \<Rightarrow> error + (int \<times> bytes)" where
  "decodeClockID W buffer =
     (case decodeU32 buffer of
        Inl err \<Rightarrow> Inl err
      | Inr (x, buffer) \<Rightarrow> Inr (wrap (shape W ClockID_t) (uint x), buffer))"

interpretation clockID: plain_codec encodeClockID "decodeClockID W" "val W ClockID_t"
  by unfold_locales
    (simp_all add: encodeClockID_def decodeClockID_def encodeU32_def val_u32 decodeU32_def wide_types_def)

definition encodeTimestamp :: "bytes \<Rightarrow> int \<Rightarrow> bytes" where
  "encodeTimestamp buffer x = encodeU64 buffer (word_of_int x)"

definition decodeTimestamp :: "'v wasi \<Rightarrow> bytes \<Rightarrow> error + (int \<times> bytes)" where
  "decodeTimestamp W buffer =
     (case decodeU64 buffer of
        Inl err \<Rightarrow> Inl err
      | Inr (x, buffer) \<Rightarrow> Inr (wrap (shape W Timestamp_t) (uint x), buffer))"

interpretation timestamp: plain_codec encodeTimestamp "decodeTimestamp W" "val W Timestamp_t"
  by unfold_locales
    (simp_all add: encodeTimestamp_def decodeTimestamp_def encodeU64_def val_u64 decodeU64_def)

definition encodeSize :: "bytes \<Rightarrow> int \<Rightarrow> bytes" where
  "encodeSize buffer x = encodeU32 buffer (word_of_int x)"

definition decodeSize :: "'v wasi \<Rightarrow> bytes \<Rightarrow> error + (int \<times> bytes)" where
  "decodeSize W buffer =
     (case decodeU32 buffer of
        Inl err \<Rightarrow> Inl err
      | Inr (x, buffer) \<Rightarrow> Inr (wrap (shape W Size_t) (uint x), buffer))"

interpretation sizes: plain_codec encodeSize "decodeSize W" "val W Size_t"
  by unfold_locales
    (simp_all add: encodeSize_def decodeSize_def encodeU32_def val_u32 decodeU32_def wide_types_def)

definition encodeFileType :: "bytes \<Rightarrow> int \<Rightarrow> bytes" where
  "encodeFileType buffer x = encodeU32 buffer (word_of_int x)"

definition decodeFileType :: "'v wasi \<Rightarrow> bytes \<Rightarrow> error + (int \<times> bytes)" where
  "decodeFileType W buffer =
     (case decodeU32 buffer of
        Inl err \<Rightarrow> Inl err
      | Inr (x, buffer) \<Rightarrow> Inr (wrap (shape W FileType_t) (uint x), buffer))"

interpretation fileType: plain_codec encodeFileType "decodeFileType W" "val W FileType_t"
  by unfold_locales
    (simp_all add: encodeFileType_def decodeFileType_def encodeU32_def val_u32 decodeU32_def wide_types_def)

definition encodeFDFlags :: "bytes \<Rightarrow> int \<Rightarrow> bytes" where
  "encodeFDFlags buffer x = encodeU32 buffer (word_of_int x)"

definition decodeFDFlags :: "'v wasi \<Rightarrow> bytes \<Rightarrow> error + (int \<times> bytes)" where
  "decodeFDFlags W buffer =
     (case decodeU32 buffer of
        Inl err \<Rightarrow> Inl err
      | Inr (x, buffer) \<Rightarrow> Inr (wrap (shape W FDFlags_t) (uint x), buffer))"

interpretation fdFlags: plain_codec encodeFDFlags "decodeFDFlags W" "val W FDFlags_t"
  by unfold_locales
    (simp_all add: encodeFDFlags_def decodeFDFlags_def encodeU32_def val_u32 decodeU32_def wide_types_def)

definition encodeFSTFlags :: "bytes \<Rightarrow> int \<Rightarrow> bytes" where
  "encodeFSTFlags buffer x = encodeU32 buffer (word_of_int x)"

definition decodeFSTFlags :: "'v wasi \<Rightarrow> bytes \<Rightarrow> error + (int \<times> bytes)" where
  "decodeFSTFlags W buffer =
     (case decodeU32 buffer of
        Inl err \<Rightarrow> Inl err
      | Inr (x, buffer) \<Rightarrow> Inr (wrap (shape W FSTFlags_t) (uint x), buffer))"

interpretation fstFlags: plain_codec encodeFSTFlags "decodeFSTFlags W" "val W FSTFlags_t"
  by unfold_locales
    (simp_all add: encodeFSTFlags_def decodeFSTFlags_def encodeU32_def val_u32 decodeU32_def wide_types_def)

definition encodeRights :: "bytes \<Rightarrow> int \<Rightarrow> bytes" where
  "encodeRights buffer x = encodeU64 buffer (word_of_int x)"

definition decodeRights :: "'v wasi \<Rightarrow> bytes \<Rightarrow> error + (int \<times> bytes)" where
  "decodeRights W buffer =
     (case decodeU64 buffer of
        Inl err \<Rightarrow> Inl err
      | Inr (x, buffer) \<Rightarrow> Inr (wrap (shape W Rights_t) (uint x), buffer))"

interpretation rights: plain_codec encodeRights "decodeRights W" "val W Rights_t"
  by unfold_locales
    (simp_all add: encodeRights_def decodeRights_def encodeU64_def val_u64 decodeU64_def)

definition encodeFileSize :: "bytes \<Rightarrow> int \<Rightarrow> bytes" where
  "encodeFileSize buffer x = encodeU64 buffer (word_of_int x)"

definition decodeFileSize :: "'v wasi \<Rightarrow> bytes \<Rightarrow> error + (int \<times> bytes)" where
  "decodeFileSize W buffer =
     (case decodeU64 buffer of
        Inl err \<Rightarrow> Inl err
      | Inr (x, buffer) \<Rightarrow> Inr (wrap (shape W FileSize_t) (uint x), buffer))"

interpretation fileSize: plain_codec encodeFileSize "decodeFileSize W" "val W FileSize_t"
  by unfold_locales
    (simp_all add: encodeFileSize_def decodeFileSize_def encodeU64_def val_u64 decodeU64_def)

definition encodeDevice :: "bytes \<Rightarrow> int \<Rightarrow> bytes" where
  "encodeDevice buffer x = encodeU64 buffer (word_of_int x)"

definition decodeDevice :: "'v wasi \<Rightarrow> bytes \<Rightarrow> error + (int \<times> bytes)" where
  "decodeDevice W buffer =
     (case decodeU64 buffer of
        Inl err \<Rightarrow> Inl err
      | Inr (x, buffer) \<Rightarrow> Inr (wrap (shape W Device_t) (uint x), buffer))"

interpretation device: plain_codec encodeDevice "decodeDevice W" "val W Device_t"
  by unfold_locales
    (simp_all add: encodeDevice_def decodeDevice_def encodeU64_def val_u64 decodeU64_def)

definition encodeINode :: "bytes \<Rightarrow> int \<Rightarrow> bytes" where
  "encodeINode buffer x = encodeU64 buffer (word_of_int x)"

definition decodeINode :: "'v wasi \<Rightarrow> bytes \<Rightarrow> error + (int \<times> bytes)" where
  "decodeINode W buffer =
     (case decodeU64 buffer of
        Inl err \<Rightarrow> Inl err
      | Inr (x, buffer) \<Rightarrow> Inr (wrap (shape W INode_t) (uint x), buffer))"

interpretation inode: plain_codec encodeINode "decodeINode W" "val W INode_t"
  by unfold_locales
    (simp_all add: encodeINode_def decodeINode_def encodeU64_def val_u64 decodeU64_def)

definition encodeLinkCount :: "bytes \<Rightarrow> int \<Rightarrow> bytes" where
  "encodeLinkCount buffer x = encodeU64 buffer (word_of_int x)"

definition decodeLinkCount :: "'v wasi \<Rightarrow> bytes \<Rightarrow> error + (int \<times> bytes)" where
  "decodeLinkCount W buffer =
     (case decodeU64 buffer of
        Inl err \<Rightarrow> Inl err
      | Inr (x, buffer) \<Rightarrow> Inr (wrap (shape W LinkCount_t) (uint x), buffer))"

interpretation linkCount: plain_codec encodeLinkCount "decodeLinkCount W" "val W LinkCount_t"
  by unfold_locales
    (simp_all add: encodeLinkCount_def decodeLinkCount_def encodeU64_def val_u64 decodeU64_def)

definition encodeAdvice :: "bytes \<Rightarrow> int \<Rightarrow> bytes" where
  "encodeAdvice buffer x = encodeU32 buffer (word_of_int x)"

definition decodeAdvice :: "'v wasi \<Rightarrow> bytes \<Rightarrow> error + (int \<times> bytes)" where
  "decodeAdvice W buffer =
     (case decodeU32 buffer of
        Inl err \<Rightarrow> Inl err
      | Inr (x, buffer) \<Rightarrow> Inr (wrap (shape W Advice_t) (uint x), buffer))"

interpretation advice: plain_codec encodeAdvice "decodeAdvice W" "val W Advice_t"
  by unfold_locales
    (simp_all add: encodeAdvice_def decodeAdvice_def encodeU32_def val_u32 decodeU32_def wide_types_def)

definition encodeExitCode :: "bytes \<Rightarrow> int \<Rightarrow> bytes" where
  "encodeExitCode buffer x = encodeU32 buffer (word_of_int x)"

definition decodeExitCode :: "'v wasi \<Rightarrow> bytes \<Rightarrow> error + (int \<times> bytes)" where
  "decodeExitCode W buffer =
     (case decodeU32 buffer of
        Inl err \<Rightarrow> Inl err
      | Inr (x, buffer) \<Rightarrow> Inr (wrap (shape W ExitCode_t) (uint x), buffer))"

interpretation exitCode: plain_codec encodeExitCode "decodeExitCode W" "val W ExitCode_t"
  by unfold_locales
    (simp_all add: encodeExitCode_def decodeExitCode_def encodeU32_def val_u32 decodeU32_def wide_types_def)

definition encodeSignal :: "bytes \<Rightarrow> int \<Rightarrow> bytes" where
  "encodeSignal buffer x = encodeU32 buffer (word_of_int x)"

definition decodeSignal :: "'v wasi \<Rightarrow> bytes \<Rightarrow> error + (int \<times> bytes)" where
  "decodeSignal W buffer =
     (case decodeU32 buffer of
        Inl err \<Rightarrow> Inl err
      | Inr (x, buffer) \<Rightarrow> Inr (wrap (shape W Signal_t) (uint x), buffer))"

interpretation signal: plain_codec encodeSignal "decodeSignal W" "val W Signal_t"
  by unfold_locales
    (simp_all add: encodeSignal_def decodeSignal_def encodeU32_def val_u32 decodeU32_def wide_types_def)

definition encodePreOpenType :: "bytes \<Rightarrow> int \<Rightarrow> bytes" where
  "encodePreOpenType buffer t = encodeU32 buffer (word_of_int t)"

definition decodePreOpenType :: "'v wasi \<Rightarrow> bytes \<Rightarrow> error + (int \<times> bytes)" where
  "decodePreOpenType W buffer =
     (case decodeU32 buffer of
        Inl err \<Rightarrow> Inl err
      | Inr (t, buffer) \<Rightarrow> Inr (wrap (shape W PreOpenType_t) (uint t), buffer))"

interpretation preOpenType: plain_codec encodePreOpenType "decodePreOpenType W" "val W PreOpenType_t"
  by unfold_locales
    (simp_all add: encodePreOpenType_def decodePreOpenType_def encodeU32_def val_u32 decodeU32_def wide_types_def)

definition encodeUserData :: "bytes \<Rightarrow> int \<Rightarrow> bytes" where
  "encodeUserData buffer x = encodeU64 buffer (word_of_int x)"

definition decodeUserData :: "'v wasi \<Rightarrow> bytes \<Rightarrow> error + (int \<times> bytes)" where
  "decodeUserData W buffer =
     (case decodeU64 buffer of
        Inl err \<Rightarrow> Inl err
      | Inr (x, buffer) \<Rightarrow> Inr (wrap (shape W UserData_t) (uint x), buffer))"

interpretation userData: plain_codec encodeUserData "decodeUserData W" "val W UserData_t"
  by unfold_locales
    (simp_all add: encodeUserData_def decodeUserData_def encodeU64_def val_u64 decodeU64_def)

definition encodeEventType :: "bytes \<Rightarrow> int \<Rightarrow> bytes" where
  "encodeEventType buffer t = encodeU32 buffer (word_of_int t)"

definition decodeEventType :: "'v wasi \<Rightarrow> bytes \<Rightarrow> error + (int \<times> bytes)" where
  "decodeEventType W buffer =
     (case decodeU32 buffer of
        Inl err \<Rightarrow> Inl err
      | Inr (t, buffer) \<Rightarrow> Inr (wrap (shape W EventType_t) (uint t), buffer))"

interpretation eventType: plain_codec encodeEventType "decodeEventType W" "val W EventType_t"
  by unfold_locales
    (simp_all add: encodeEventType_def decodeEventType_def encodeU32_def val_u32 decodeU32_def wide_types_def)

definition encodeSubscriptionClockFlags :: "bytes \<Rightarrow> int \<Rightarrow> bytes" where
  "encodeSubscriptionClockFlags buffer t = encodeU32 buffer (word_of_int t)"

definition decodeSubscriptionClockFlags :: "'v wasi \<Rightarrow> bytes \<Rightarrow> error + (int \<times> bytes)" where
  "decodeSubscriptionClockFlags W buffer =
     (case decodeU32 buffer of
        Inl err \<Rightarrow> Inl err
      | Inr (t, buffer) \<Rightarrow> Inr (wrap (shape W SubscriptionClockFlags_t) (uint t), buffer))"

interpretation subscriptionClockFlags: plain_codec encodeSubscriptionClockFlags "decodeSubscriptionClockFlags W" "val W SubscriptionClockFlags_t"
  by unfold_locales
    (simp_all add: encodeSubscriptionClockFlags_def decodeSubscriptionClockFlags_def encodeU32_def val_u32 decodeU32_def wide_types_def)

definition encodeEventFDReadWriteFlags :: "bytes \<Rightarrow> int \<Rightarrow> bytes" where
  "encodeEventFDReadWriteFlags buffer t = encodeU32 buffer (word_of_int t)"

definition decodeEventFDReadWriteFlags :: "'v wasi \<Rightarrow> bytes \<Rightarrow> error + (int \<times> bytes)" where
  "decodeEventFDReadWriteFlags W buffer =
     (case decodeU32 buffer of
        Inl err \<Rightarrow> Inl err
      | Inr (t, buffer) \<Rightarrow> Inr (wrap (shape W EventFDReadWriteFlags_t) (uint t), buffer))"

interpretation eventFDReadWriteFlags: plain_codec encodeEventFDReadWriteFlags "decodeEventFDReadWriteFlags W" "val W EventFDReadWriteFlags_t"
  by unfold_locales
    (simp_all add: encodeEventFDReadWriteFlags_def decodeEventFDReadWriteFlags_def encodeU32_def val_u32 decodeU32_def wide_types_def)

definition encodeDirCookie :: "bytes \<Rightarrow> int \<Rightarrow> bytes" where
  "encodeDirCookie buffer x = encodeU64 buffer (word_of_int x)"

definition decodeDirCookie :: "'v wasi \<Rightarrow> bytes \<Rightarrow> error + (int \<times> bytes)" where
  "decodeDirCookie W buffer =
     (case decodeU64 buffer of
        Inl err \<Rightarrow> Inl err
      | Inr (x, buffer) \<Rightarrow> Inr (wrap (shape W DirCookie_t) (uint x), buffer))"

interpretation dirCookie: plain_codec encodeDirCookie "decodeDirCookie W" "val W DirCookie_t"
  by unfold_locales
    (simp_all add: encodeDirCookie_def decodeDirCookie_def encodeU64_def val_u64 decodeU64_def)

definition encodeFileDelta :: "bytes \<Rightarrow> int \<Rightarrow> bytes" where
  "encodeFileDelta buffer x = encodeU64 buffer (word_of_int x)"

definition decodeFileDelta :: "'v wasi \<Rightarrow> bytes \<Rightarrow> error + (int \<times> bytes)" where
  "decodeFileDelta W buffer =
     (case decodeU64 buffer of
        Inl err \<Rightarrow> Inl err
      | Inr (x, buffer) \<Rightarrow> Inr (wrap (shape W FileDelta_t) (uint x), buffer))"

interpretation fileDelta: plain_codec encodeFileDelta "decodeFileDelta W" "val W FileDelta_t"
  by unfold_locales
    (simp_all add: encodeFileDelta_def decodeFileDelta_def encodeU64_def val_u64 decodeU64_def)

definition encodeWhence :: "bytes \<Rightarrow> int \<Rightarrow> bytes" where
  "encodeWhence buffer t = encodeU32 buffer (word_of_int t)"

definition decodeWhence :: "'v wasi \<Rightarrow> bytes \<Rightarrow> error + (int \<times> bytes)" where
  "decodeWhence W buffer =
     (case decodeU32 buffer of
        Inl err \<Rightarrow> Inl err
      | Inr (t, buffer) \<Rightarrow> Inr (wrap (shape W Whence_t) (uint t), buffer))"

interpretation whence: plain_codec encodeWhence "decodeWhence W" "val W Whence_t"
  by unfold_locales
    (simp_all add: encodeWhence_def decodeWhence_def encodeU32_def val_u32 decodeU32_def wide_types_def)

definition encodeLookupFlags :: "bytes \<Rightarrow> int \<Rightarrow> bytes" where
  "encodeLookupFlags buffer t = encodeU32 buffer (word_of_int t)"

definition decodeLookupFlags :: "'v wasi \<Rightarrow> bytes \<Rightarrow> error + (int \<times> bytes)" where
  "decodeLookupFlags W buffer =
     (case decodeU32 buffer of
        Inl err \<Rightarrow> Inl err
      | Inr (t, buffer) \<Rightarrow> Inr (wrap (shape W LookupFlags_t) (uint t), buffer))"

interpretation lookupFlags: plain_codec encodeLookupFlags "decodeLookupFlags W" "val W LookupFlags_t"
  by unfold_locales
    (simp_all add: encodeLookupFlags_def decodeLookupFlags_def encodeU32_def val_u32 decodeU32_def wide_types_def)

definition encodeOpenFlags :: "bytes \<Rightarrow> int \<Rightarrow> bytes" where
  "encodeOpenFlags buffer t = encodeU32 buffer (word_of_int t)"

definition decodeOpenFlags :: "'v wasi \<Rightarrow> bytes \<Rightarrow> error + (int \<times> bytes)" where
  "decodeOpenFlags W buffer =
     (case decodeU32 buffer of
        Inl err \<Rightarrow> Inl err
      | Inr (t, buffer) \<Rightarrow> Inr (wrap (shape W OpenFlags_t) (uint t), buffer))"

interpretation openFlags: plain_codec encodeOpenFlags "decodeOpenFlags W" "val W OpenFlags_t"
  by unfold_locales
    (simp_all add: encodeOpenFlags_def decodeOpenFlags_def encodeU32_def val_u32 decodeU32_def wide_types_def)

definition encodeRIFlags :: "bytes \<Rightarrow> int \<Rightarrow> bytes" where
  "encodeRIFlags buffer t = encodeU32 buffer (word_of_int t)"

definition decodeRIFlags :: "'v wasi \<Rightarrow> bytes \<Rightarrow> error + (int \<times> bytes)" where
  "decodeRIFlags W buffer =
     (case decodeU32 buffer of
        Inl err \<Rightarrow> Inl err
      | Inr (t, buffer) \<Rightarrow> Inr (wrap (shape W RIFlags_t) (uint t), buffer))"

interpretation riFlags: plain_codec encodeRIFlags "decodeRIFlags W" "val W RIFlags_t"
  by unfold_locales
    (simp_all add: encodeRIFlags_def decodeRIFlags_def encodeU32_def val_u32 decodeU32_def wide_types_def)

definition encodeROFlags :: "bytes \<Rightarrow> int \<Rightarrow> bytes" where
  "encodeROFlags buffer t = encodeU32 buffer (word_of_int t)"

definition decodeROFlags :: "'v wasi \<Rightarrow> bytes \<Rightarrow> error + (int \<times> bytes)" where
  "decodeROFlags W buffer =
     (case decodeU32 buffer of
        Inl err \<Rightarrow> Inl err
      | Inr (t, buffer) \<Rightarrow> Inr (wrap (shape W ROFlags_t) (uint t), buffer))"

interpretation roFlags: plain_codec encodeROFlags "decodeROFlags W" "val W ROFlags_t"
  by unfold_locales
    (simp_all add: encodeROFlags_def decodeROFlags_def encodeU32_def val_u32 decodeU32_def wide_types_def)

definition encodeSIFlags :: "bytes \<Rightarrow> int \<Rightarrow> bytes" where
  "encodeSIFlags buffer t = encodeU32 buffer (word_of_int t)"

definition decodeSIFlags :: "'v wasi \<Rightarrow> bytes \<Rightarrow> error + (int \<times> bytes)" where
  "decodeSIFlags W buffer =
     (case decodeU32 buffer of
        Inl err \<Rightarrow> Inl err
      | Inr (t, buffer) \<Rightarrow> Inr (wrap (shape W SIFlags_t) (uint t), buffer))"

interpretation siFlags: plain_codec encodeSIFlags "decodeSIFlags W" "val W SIFlags_t"
  by unfold_locales
    (simp_all add: encodeSIFlags_def decodeSIFlags_def encodeU32_def val_u32 decodeU32_def wide_types_def)

definition encodeSDFlags :: "bytes \<Rightarrow> int \<Rightarrow> bytes" where
  "encodeSDFlags buffer t = encodeU32 buffer (word_of_int t)"

definition decodeSDFlags :: "'v wasi \<Rightarrow> bytes \<Rightarrow> error + (int \<times> bytes)" where
  "decodeSDFlags W buffer =
     (case decodeU32 buffer of
        Inl err \<Rightarrow> Inl err
      | Inr (t, buffer) \<Rightarrow> Inr (wrap (shape W SDFlags_t) (uint t), buffer))"

interpretation sdFlags: plain_codec encodeSDFlags "decodeSDFlags W" "val W SDFlags_t"
  by unfold_locales
    (simp_all add: encodeSDFlags_def decodeSDFlags_def encodeU32_def val_u32 decodeU32_def wide_types_def)

definition encodeProtocolFamily :: "bytes \<Rightarrow> int \<Rightarrow> bytes" where
  "encodeProtocolFamily buffer t = encodeU32 buffer (word_of_int t)"

definition decodeProtocolFamily :: "'v wasi \<Rightarrow> bytes \<Rightarrow> error + (int \<times> bytes)" where
  "decodeProtocolFamily W buffer =
     (case decodeU32 buffer of
        Inl err \<Rightarrow> Inl err
      | Inr (t, buffer) \<Rightarrow> Inr (wrap (shape W ProtocolFamily_t) (uint t), buffer))"

interpretation protocolFamily: plain_codec encodeProtocolFamily "decodeProtocolFamily W" "val W ProtocolFamily_t"
  by unfold_locales
    (simp_all add: encodeProtocolFamily_def decodeProtocolFamily_def encodeU32_def val_u32 decodeU32_def wide_types_def)

definition encodeSocketType :: "bytes \<Rightarrow> int \<Rightarrow> bytes" where
  "encodeSocketType buffer t = encodeU32 buffer (word_of_int t)"

definition decodeSocketType :: "'v wasi \<Rightarrow> bytes \<Rightarrow> error + (int \<times> bytes)" where
  "decodeSocketType W buffer =
     (case decodeU32 buffer of
        Inl err \<Rightarrow> Inl err
      | Inr (t, buffer) \<Rightarrow> Inr (wrap (shape W SocketType_t) (uint t), buffer))"

interpretation socketType: plain_codec encodeSocketType "decodeSocketType W" "val W SocketType_t"
  by unfold_locales
    (simp_all add: encodeSocketType_def decodeSocketType_def encodeU32_def val_u32 decodeU32_def wide_types_def)

definition encodeProtocol :: "bytes \<Rightarrow> int \<Rightarrow> bytes" where
  "encodeProtocol buffer t = encodeU32 buffer (word_of_int t)"

definition decodeProtocol :: "'v wasi \<Rightarrow> bytes \<Rightarrow> error + (int \<times> bytes)" where
  "decodeProtocol W buffer =
     (case decodeU32 buffer of
        Inl err \<Rightarrow> Inl err
      | Inr (t, buffer) \<Rightarrow> Inr (wrap (shape W Protocol_t) (uint t), buffer))"

interpretation protocol: plain_codec encodeProtocol "decodeProtocol W" "val W Protocol_t"
  by unfold_locales
    (simp_all add: encodeProtocol_def decodeProtocol_def encodeU32_def val_u32 decodeU32_def wide_types_def)

definition encodeSocketOption :: "bytes \<Rightarrow> int \<Rightarrow> bytes" where
  "encodeSocketOption buffer t = encodeU64 buffer (word_of_int t)"

definition decodeSocketOption :: "'v wasi \<Rightarrow> bytes \<Rightarrow> error + (int \<times> bytes)" where
  "decodeSocketOption W buffer =
     (case decodeU64 buffer of
        Inl err \<Rightarrow> Inl err
      | Inr (t, buffer) \<Rightarrow> Inr (wrap (shape W SocketOption_t) (uint t), buffer))"

interpretation socketOption: plain_codec encodeSocketOption "decodeSocketOption W" "val W SocketOption_t"
  by unfold_locales
    (simp_all add: encodeSocketOption_def decodeSocketOption_def encodeU64_def val_u64 decodeU64_def)

definition encodeAddressInfoFlags :: "bytes \<Rightarrow> int \<Rightarrow> bytes" where
  "encodeAddressInfoFlags buffer f = encodeU32 buffer (word_of_int f)"

definition decodeAddressInfoFlags :: "'v wasi \<Rightarrow> bytes \<Rightarrow> error + (int \<times> bytes)" where
  "decodeAddressInfoFlags W buffer =
     (case decodeU32 buffer of
        Inl err \<Rightarrow> Inl err
      | Inr (f, buffer) \<Rightarrow> Inr (wrap (shape W AddressInfoFlags_t) (uint f), buffer))"

interpretation addressInfoFlags: plain_codec encodeAddressInfoFlags "decodeAddressInfoFlags W" "val W AddressInfoFlags_t"
  by unfold_locales
    (simp_all add: encodeAddressInfoFlags_def decodeAddressInfoFlags_def encodeU32_def val_u32 decodeU32_def wide_types_def)

end
