(* ===== verification/Codec_Struct.thy ===== *)
theory Codec_Struct
  imports Codec_Wire
begin

text \<open>
  The encoders and decoders of the structures of \<^verbatim>\<open>codec.go\<close>: file and descriptor statistics,
  directory entries, subscriptions and events, socket addresses, option values and address
  information, and the prefix of an I/O vector that a read filled. For each structure \<open>ok_T W\<close> says
  which values the codec represents: those whose fields are values of their types and, where the
  encoder writes only part of a variant, whose other fields are zero.
\<close>

section \<open>Statistics and directory entries\<close>

definition encodePreStat :: "bytes \<Rightarrow> PreStat \<Rightarrow> bytes" where
  "encodePreStat buffer stat =
     (let buffer = encodePreOpenType buffer (PreStat_Type stat);
          buffer = encodeSize buffer (PreStat_NameLength stat)
      in buffer)"

definition decodePreStat :: "'v wasi \<Rightarrow> bytes \<Rightarrow> error + (PreStat \<times> bytes)" where
  "decodePreStat W buffer =
     (case decodePreOpenType W buffer of Inl err \<Rightarrow> Inl err | Inr (typ, buffer) \<Rightarrow>
     (case decodeSize W buffer of Inl err \<Rightarrow> Inl err | Inr (nameLength, buffer) \<Rightarrow>
        Inr (\<lparr>PreStat_Type = typ, PreStat_NameLength = nameLength\<rparr>, buffer)))"

definition ok_PreStat :: "'v wasi \<Rightarrow> PreStat \<Rightarrow> bool" where
  "ok_PreStat W s \<longleftrightarrow> val W PreOpenType_t (PreStat_Type s) \<and> val W Size_t (PreStat_NameLength s)"

interpretation preStat: plain_codec encodePreStat "decodePreStat W" "ok_PreStat W"
  by unfold_locales
    (simp_all add: encodePreStat_def decodePreStat_def ok_PreStat_def encode_append)

definition encodeFDStat :: "bytes \<Rightarrow> FDStat \<Rightarrow> bytes" where
  "encodeFDStat buffer stat =
     (let buffer = encodeFileType buffer (FDStat_FileType stat);
          buffer = encodeFDFlags buffer (FDStat_Flags stat);
          buffer = encodeRights buffer (FDStat_RightsBase stat);
          buffer = encodeRights buffer (FDStat_RightsInheriting stat)
      in buffer)"

definition decodeFDStat :: "'v wasi \<Rightarrow> bytes \<Rightarrow> error + (FDStat \<times> bytes)" where
  "decodeFDStat W buffer =
     (case decodeFileType W buffer of Inl err \<Rightarrow> Inl err | Inr (fileType, buffer) \<Rightarrow>
     (case decodeFDFlags W buffer of Inl err \<Rightarrow> Inl err | Inr (flags, buffer) \<Rightarrow>
     (case decodeRights W buffer of Inl err \<Rightarrow> Inl err | Inr (rightsBase, buffer) \<Rightarrow>
     (case decodeRights W buffer of Inl err \<Rightarrow> Inl err | Inr (rightsInheriting, buffer) \<Rightarrow>
        Inr (\<lparr>FDStat_FileType = fileType, FDStat_Flags = flags, FDStat_RightsBase = rightsBase,
          FDStat_RightsInheriting = rightsInheriting\<rparr>, buffer)))))"

definition ok_FDStat :: "'v wasi \<Rightarrow> FDStat \<Rightarrow> bool" where
  "ok_FDStat W s \<longleftrightarrow> val W FileType_t (FDStat_FileType s) \<and> val W FDFlags_t (FDStat_Flags s)
     \<and> val W Rights_t (FDStat_RightsBase s) \<and> val W Rights_t (FDStat_RightsInheriting s)"

interpretation fdStat: plain_codec encodeFDStat "decodeFDStat W" "ok_FDStat W"
  by unfold_locales
    (simp_all add: encodeFDStat_def decodeFDStat_def ok_FDStat_def encode_append)

definition encodeFileStat :: "bytes \<Rightarrow> FileStat \<Rightarrow> bytes" where
  "encodeFileStat buffer stat =
     (let buffer = encodeDevice buffer (FileStat_Device stat);
          buffer = encodeINode buffer (FileStat_INode stat);
          buffer = encodeFileType buffer (FileStat_FileType stat);
          buffer = encodeLinkCount buffer (FileStat_NLink stat);
          buffer = encodeFileSize buffer (FileStat_Size stat);
          buffer = encodeTimestamp buffer (FileStat_AccessTime stat);
          buffer = encodeTimestamp buffer (FileStat_ModifyTime stat)
      in encodeTimestamp buffer (FileStat_ChangeTime stat))"

definition decodeFileStat :: "'v wasi \<Rightarrow> bytes \<Rightarrow> error + (FileStat \<times> bytes)" where
  "decodeFileStat W buffer =
     (case decodeDevice W buffer of Inl err \<Rightarrow> Inl err | Inr (device, buffer) \<Rightarrow>
     (case decodeINode W buffer of Inl err \<Rightarrow> Inl err | Inr (inode, buffer) \<Rightarrow>
     (case decodeFileType W buffer of Inl err \<Rightarrow> Inl err | Inr (fileType, buffer) \<Rightarrow>
     (case decodeLinkCount W buffer of Inl err \<Rightarrow> Inl err | Inr (nlink, buffer) \<Rightarrow>
     (case decodeFileSize W buffer of Inl err \<Rightarrow> Inl err | Inr (fsize, buffer) \<Rightarrow>
     (case decodeTimestamp W buffer of Inl err \<Rightarrow> Inl err | Inr (accessTime, buffer) \<Rightarrow>
     (case decodeTimestamp W buffer of Inl err \<Rightarrow> Inl err | Inr (modifyTime, buffer) \<Rightarrow>
     (case decodeTimestamp W buffer of Inl err \<Rightarrow> Inl err | Inr (changeTime, buffer) \<Rightarrow>
        Inr (\<lparr>FileStat_Device = device, FileStat_INode = inode, FileStat_FileType = fileType,
          FileStat_NLink = nlink, FileStat_Size = fsize, FileStat_AccessTime = accessTime,
          FileStat_ModifyTime = modifyTime, FileStat_ChangeTime = changeTime\<rparr>, buffer)))))))))"

definition ok_FileStat :: "'v wasi \<Rightarrow> FileStat \<Rightarrow> bool" where
  "ok_FileStat W s \<longleftrightarrow> val W Device_t (FileStat_Device s) \<and> val W INode_t (FileStat_INode s)
     \<and> val W FileType_t (FileStat_FileType s) \<and> val W LinkCount_t (FileStat_NLink s)
     \<and> val W FileSize_t (FileStat_Size s) \<and> val W Timestamp_t (FileStat_AccessTime s)
     \<and> val W Timestamp_t (FileStat_ModifyTime s) \<and> val W Timestamp_t (FileStat_ChangeTime s)"

interpretation fileStat: plain_codec encodeFileStat "decodeFileStat W" "ok_FileStat W"
  by unfold_locales
    (simp_all add: encodeFileStat_def decodeFileStat_def ok_FileStat_def encode_append)

definition encodeDirEntry :: "bytes \<Rightarrow> DirEntry \<Rightarrow> bytes" where
  "encodeDirEntry buffer d =
     (let buffer = encodeDirCookie buffer (DirEntry_Next d);
          buffer = encodeINode buffer (DirEntry_INode d);
          buffer = encodeFileType buffer (DirEntry_Type d)
      in encodeBytes buffer (DirEntry_Name d))"

definition decodeDirEntry :: "'v wasi \<Rightarrow> bytes \<Rightarrow> error + (DirEntry \<times> bytes)" where
  "decodeDirEntry W buffer =
     (case decodeDirCookie W buffer of Inl err \<Rightarrow> Inl err | Inr (next, buffer) \<Rightarrow>
     (case decodeINode W buffer of Inl err \<Rightarrow> Inl err | Inr (inode, buffer) \<Rightarrow>
     (case decodeFileType W buffer of Inl err \<Rightarrow> Inl err | Inr (typ, buffer) \<Rightarrow>
     (case decodeBytes buffer of Inl err \<Rightarrow> Inl err | Inr (name, buffer) \<Rightarrow>
        Inr (\<lparr>DirEntry_Next = next, DirEntry_INode = inode, DirEntry_Type = typ,
          DirEntry_Name = name\<rparr>, buffer)))))"

definition ok_DirEntry :: "'v wasi \<Rightarrow> DirEntry \<Rightarrow> bool" where
  "ok_DirEntry W d \<longleftrightarrow> val W DirCookie_t (DirEntry_Next d) \<and> val W INode_t (DirEntry_INode d)
     \<and> val W FileType_t (DirEntry_Type d)"

interpretation dirEntry: plain_codec encodeDirEntry "decodeDirEntry W" "ok_DirEntry W"
  by unfold_locales
    (simp_all add: encodeDirEntry_def decodeDirEntry_def ok_DirEntry_def encode_append)

definition encodeDirEntries :: "bytes \<Rightarrow> DirEntry list \<Rightarrow> bytes" where
  "encodeDirEntries buffer entries =
     (let buffer = encodeU32 buffer (word_of_nat (length entries))
      in foldl encodeDirEntry buffer entries)"

definition decodeDirEntries ::
  "'v wasi \<Rightarrow> bytes \<Rightarrow> DirEntry list \<Rightarrow> error + (DirEntry list \<times> bytes)" where
  "decodeDirEntries W buffer entries =
     (case decodeU32 buffer of
        Inl err \<Rightarrow> Inl err
      | Inr (count, buffer) \<Rightarrow>
          decode_each (decodeDirEntry W) (unat count) 0 buffer
            (scratch_slice zero_DirEntry entries count))"

lemma encodeDirEntries_onto [encode_append]:
  "NO_MATCH [] b \<Longrightarrow> encodeDirEntries b vs = b @ encodeDirEntries [] vs"
  by (simp add: encodeDirEntries_def dirEntry.foldl_encode encodeU32_def)

interpretation dirEntries: counted_codec "encodeDirEntry []" "decodeDirEntry W" "ok_DirEntry W"
  "encodeDirEntries []" "decodeDirEntries W" zero_DirEntry
  by unfold_locales
    (simp_all add: encodeDirEntries_def decodeDirEntries_def dirEntry.foldl_encode encodeU32_def
      encodeDirEntry_def encode_append, simp add: encodeDirCookie_def encodeU64_def le64_def)

section \<open>Subscriptions and events\<close>

definition encodeSubscription :: "'v wasi \<Rightarrow> bytes \<Rightarrow> 'v Subscription \<Rightarrow> string + bytes" where
  "encodeSubscription W buffer s =
     (let buffer = encodeUserData buffer (Subscription_UserData s);
          buffer = encodeEventType buffer (Subscription_EventType s)
      in if Subscription_EventType s = FDReadEvent W \<or> Subscription_EventType s = FDWriteEvent W then
           let f = GetFDReadWrite W (Subscription_variant s) in Inr (encodeFD buffer f)
         else if Subscription_EventType s = ClockEvent W then
           let c = GetClock W (Subscription_variant s);
               buffer = encodeClockID buffer (SubscriptionClock_ID c);
               buffer = encodeTimestamp buffer (SubscriptionClock_Precision c);
               buffer = encodeTimestamp buffer (SubscriptionClock_Timeout c)
           in Inr (encodeSubscriptionClockFlags buffer (SubscriptionClock_Flags c))
         else Inl ''invalid subscription event type'')"

definition decodeSubscription :: "'v wasi \<Rightarrow> bytes \<Rightarrow> error + ('v Subscription \<times> bytes)" where
  "decodeSubscription W buffer =
     (case decodeUserData W buffer of Inl err \<Rightarrow> Inl err | Inr (userData, buffer) \<Rightarrow>
     (case decodeEventType W buffer of Inl err \<Rightarrow> Inl err | Inr (eventType, buffer) \<Rightarrow>
        let s = \<lparr>Subscription_UserData = userData, Subscription_EventType = eventType,
              Subscription_variant = zero_variant W\<rparr>
        in if eventType = FDReadEvent W \<or> eventType = FDWriteEvent W then
             (case decodeFD W buffer of Inl err \<Rightarrow> Inl err | Inr (f, buffer) \<Rightarrow>
                Inr (s\<lparr>Subscription_variant := SetFDReadWrite W f (Subscription_variant s)\<rparr>, buffer))
           else if eventType = ClockEvent W then
             (case decodeClockID W buffer of Inl err \<Rightarrow> Inl err | Inr (clockID, buffer) \<Rightarrow>
             (case decodeTimestamp W buffer of Inl err \<Rightarrow> Inl err | Inr (precision, buffer) \<Rightarrow>
             (case decodeTimestamp W buffer of Inl err \<Rightarrow> Inl err | Inr (timeout, buffer) \<Rightarrow>
             (case decodeSubscriptionClockFlags W buffer of Inl err \<Rightarrow> Inl err | Inr (flags, buffer) \<Rightarrow>
                let c = \<lparr>SubscriptionClock_ID = clockID, SubscriptionClock_Precision = precision,
                      SubscriptionClock_Timeout = timeout, SubscriptionClock_Flags = flags\<rparr>
                in Inr (s\<lparr>Subscription_variant := SetClock W c (Subscription_variant s)\<rparr>, buffer)))))
           else Inl (Errorf ''invalid subscription event type: %v'')))"

definition ok_SubscriptionClock :: "'v wasi \<Rightarrow> SubscriptionClock \<Rightarrow> bool" where
  "ok_SubscriptionClock W c \<longleftrightarrow> val W ClockID_t (SubscriptionClock_ID c)
     \<and> val W Timestamp_t (SubscriptionClock_Precision c)
     \<and> val W Timestamp_t (SubscriptionClock_Timeout c)
     \<and> val W SubscriptionClockFlags_t (SubscriptionClock_Flags c)"

definition ok_Subscription :: "'v wasi \<Rightarrow> 'v Subscription \<Rightarrow> bool" where
  "ok_Subscription W s \<longleftrightarrow> val W UserData_t (Subscription_UserData s)
     \<and> val W EventType_t (Subscription_EventType s)
     \<and> (if Subscription_EventType s = FDReadEvent W \<or> Subscription_EventType s = FDWriteEvent W then
          val W FD_t (GetFDReadWrite W (Subscription_variant s))
          \<and> Subscription_variant s =
              SetFDReadWrite W (GetFDReadWrite W (Subscription_variant s)) (zero_variant W)
        else Subscription_EventType s = ClockEvent W
          \<and> ok_SubscriptionClock W (GetClock W (Subscription_variant s))
          \<and> Subscription_variant s =
              SetClock W (GetClock W (Subscription_variant s)) (zero_variant W))"

definition wireSubscription :: "'v wasi \<Rightarrow> 'v Subscription \<Rightarrow> bytes" where
  "wireSubscription W s = (case encodeSubscription W [] s of Inl _ \<Rightarrow> [] | Inr b \<Rightarrow> b)"

lemma wireSubscription_fd:
  "Subscription_EventType s = FDReadEvent W \<or> Subscription_EventType s = FDWriteEvent W \<Longrightarrow>
   wireSubscription W s = encodeUserData [] (Subscription_UserData s)
     @ encodeEventType [] (Subscription_EventType s)
     @ encodeFD [] (GetFDReadWrite W (Subscription_variant s))"
  by (simp add: wireSubscription_def encodeSubscription_def Let_def encode_append)

lemma wireSubscription_clock:
  "Subscription_EventType s \<noteq> FDReadEvent W \<Longrightarrow> Subscription_EventType s \<noteq> FDWriteEvent W \<Longrightarrow>
   Subscription_EventType s = ClockEvent W \<Longrightarrow> c = GetClock W (Subscription_variant s) \<Longrightarrow>
   wireSubscription W s = encodeUserData [] (Subscription_UserData s)
     @ encodeEventType [] (Subscription_EventType s)
     @ encodeClockID [] (SubscriptionClock_ID c) @ encodeTimestamp [] (SubscriptionClock_Precision c)
     @ encodeTimestamp [] (SubscriptionClock_Timeout c)
     @ encodeSubscriptionClockFlags [] (SubscriptionClock_Flags c)"
  by (simp add: wireSubscription_def encodeSubscription_def Let_def encode_append)

lemma SubscriptionClock_collapse [simp]:
  "\<lparr>SubscriptionClock_ID = SubscriptionClock_ID c,
    SubscriptionClock_Precision = SubscriptionClock_Precision c,
    SubscriptionClock_Timeout = SubscriptionClock_Timeout c,
    SubscriptionClock_Flags = SubscriptionClock_Flags c\<rparr> = c"
  by (cases c) simp

interpretation subscription: panic_codec "wireSubscription W" "decodeSubscription W"
  "ok_Subscription W" "encodeSubscription W"
proof
  fix v :: "'a Subscription" and r b :: bytes
  assume ok: "ok_Subscription W v"
  show "encodeSubscription W b v = Inr (b @ wireSubscription W v)"
    using ok
    by (simp add: encodeSubscription_def wireSubscription_def ok_Subscription_def Let_def
        encode_append split: if_splits)
  assume len: "length (wireSubscription W v) + length r < 4294967296"
  show "decodeSubscription W (wireSubscription W v @ r) = Inr (v, r)"
  proof (cases "Subscription_EventType v = FDReadEvent W \<or> Subscription_EventType v = FDWriteEvent W")
    case True
    then have "Subscription_variant v
        = SetFDReadWrite W (GetFDReadWrite W (Subscription_variant v)) (zero_variant W)"
      "val W FD_t (GetFDReadWrite W (Subscription_variant v))"
      using ok by (simp_all add: ok_Subscription_def)
    moreover from this len ok True have
      "decodeSubscription W (wireSubscription W v @ r)
       = Inr (v\<lparr>Subscription_variant :=
           SetFDReadWrite W (GetFDReadWrite W (Subscription_variant v)) (zero_variant W)\<rparr>, r)"
      by (simp add: decodeSubscription_def ok_Subscription_def wireSubscription_fd)
    ultimately show ?thesis
      by simp
  next
    case False
    let ?c = "GetClock W (Subscription_variant v)"
    have clock: "Subscription_EventType v = ClockEvent W" "ok_SubscriptionClock W ?c"
      "Subscription_variant v = SetClock W ?c (zero_variant W)"
      using ok False by (simp_all add: ok_Subscription_def)
    from False have ne: "ClockEvent W \<noteq> FDReadEvent W" "ClockEvent W \<noteq> FDWriteEvent W"
      by (simp_all add: clock(1))
    have "decodeSubscription W (wireSubscription W v @ r)
       = Inr (\<lparr>Subscription_UserData = Subscription_UserData v,
           Subscription_EventType = ClockEvent W,
           Subscription_variant = SetClock W ?c (zero_variant W)\<rparr>, r)"
      using len ok clock(1,2) ne
      by (simp add: decodeSubscription_def ok_Subscription_def ok_SubscriptionClock_def
          wireSubscription_clock [OF _ _ _ refl])
    moreover have "\<lparr>Subscription_UserData = Subscription_UserData v,
        Subscription_EventType = ClockEvent W,
        Subscription_variant = SetClock W ?c (zero_variant W)\<rparr> = v"
      using clock(1) by (intro Subscription.equality) (simp_all flip: clock(3))
    ultimately show ?thesis
      by simp
  qed
qed

definition encodeSubscriptions :: "'v wasi \<Rightarrow> bytes \<Rightarrow> 'v Subscription list \<Rightarrow> string + bytes" where
  "encodeSubscriptions W buffer subscriptions =
     (let buffer = encodeU32 buffer (word_of_nat (length subscriptions))
      in foldl_panic (encodeSubscription W) buffer subscriptions)"

definition decodeSubscriptions ::
  "'v wasi \<Rightarrow> bytes \<Rightarrow> 'v Subscription list \<Rightarrow> error + ('v Subscription list \<times> bytes)" where
  "decodeSubscriptions W buffer subscriptions =
     (case decodeU32 buffer of
        Inl err \<Rightarrow> Inl err
      | Inr (count, buffer) \<Rightarrow>
          decode_each (decodeSubscription W) (unat count) 0 buffer
            (scratch_slice (zero_Subscription W) subscriptions count))"

definition wireSubscriptions :: "'v wasi \<Rightarrow> 'v Subscription list \<Rightarrow> bytes" where
  "wireSubscriptions W vs = le32 (word_of_nat (length vs)) @ concat (map (wireSubscription W) vs)"

lemma encodeSubscriptions_ok [encode_append]:
  "list_all (ok_Subscription W) vs \<Longrightarrow> encodeSubscriptions W b vs = Inr (b @ wireSubscriptions W vs)"
  by (simp add: encodeSubscriptions_def wireSubscriptions_def encodeU32_def
      subscription.foldl_panic_encode)

lemma wireSubscription_nonempty: "ok_Subscription W v \<Longrightarrow> wireSubscription W v \<noteq> []"
  by (auto simp: wireSubscription_def encodeSubscription_def ok_Subscription_def Let_def
      encode_append encodeUserData_def encodeU64_def le64_def)

interpretation subscriptions: counted_codec "wireSubscription W" "decodeSubscription W"
  "ok_Subscription W" "wireSubscriptions W" "decodeSubscriptions W" "zero_Subscription W"
  by unfold_locales
    (simp_all add: wireSubscriptions_def decodeSubscriptions_def wireSubscription_nonempty)

definition encodeEvent :: "'v wasi \<Rightarrow> bytes \<Rightarrow> Event \<Rightarrow> string + bytes" where
  "encodeEvent W buffer e =
     (let buffer = encodeUserData buffer (Event_UserData e);
          buffer = encodeErrno buffer (Event_Errno e);
          buffer = encodeEventType buffer (Event_EventType e)
      in if Event_EventType e = FDReadEvent W \<or> Event_EventType e = FDWriteEvent W then
           let buffer = encodeFileSize buffer (Event_NBytes e)
           in Inr (encodeEventFDReadWriteFlags buffer (Event_Flags e))
         else if Event_EventType e = ClockEvent W then Inr buffer
         else Inl ''invalid event type'')"

definition decodeEvent :: "'v wasi \<Rightarrow> bytes \<Rightarrow> error + (Event \<times> bytes)" where
  "decodeEvent W buffer =
     (case decodeUserData W buffer of Inl err \<Rightarrow> Inl err | Inr (userData, buffer) \<Rightarrow>
     (case decodeErrno W buffer of Inl err \<Rightarrow> Inl err | Inr (errno, buffer) \<Rightarrow>
     (case decodeEventType W buffer of Inl err \<Rightarrow> Inl err | Inr (eventType, buffer) \<Rightarrow>
        let e = zero_Event\<lparr>Event_UserData := userData, Event_Errno := errno,
              Event_EventType := eventType\<rparr>
        in if eventType = FDReadEvent W \<or> eventType = FDWriteEvent W then
             (case decodeFileSize W buffer of Inl err \<Rightarrow> Inl err | Inr (nbytes, buffer) \<Rightarrow>
             (case decodeEventFDReadWriteFlags W buffer of Inl err \<Rightarrow> Inl err | Inr (flags, buffer) \<Rightarrow>
                Inr (e\<lparr>Event_NBytes := nbytes, Event_Flags := flags\<rparr>, buffer)))
           else if eventType = ClockEvent W then Inr (e, buffer)
           else Inl (Errorf ''invalid subscription event type: %v''))))"

definition ok_Event :: "'v wasi \<Rightarrow> Event \<Rightarrow> bool" where
  "ok_Event W e \<longleftrightarrow> val W UserData_t (Event_UserData e) \<and> val W Errno_t (Event_Errno e)
     \<and> val W EventType_t (Event_EventType e)
     \<and> (if Event_EventType e = FDReadEvent W \<or> Event_EventType e = FDWriteEvent W then
          val W FileSize_t (Event_NBytes e) \<and> val W EventFDReadWriteFlags_t (Event_Flags e)
        else Event_EventType e = ClockEvent W \<and> Event_NBytes e = 0 \<and> Event_Flags e = 0)"

definition wireEvent :: "'v wasi \<Rightarrow> Event \<Rightarrow> bytes" where
  "wireEvent W e = (case encodeEvent W [] e of Inl _ \<Rightarrow> [] | Inr b \<Rightarrow> b)"

lemma wireEvent_fd:
  "Event_EventType e = FDReadEvent W \<or> Event_EventType e = FDWriteEvent W \<Longrightarrow>
   wireEvent W e = encodeUserData [] (Event_UserData e) @ encodeErrno [] (Event_Errno e)
     @ encodeEventType [] (Event_EventType e) @ encodeFileSize [] (Event_NBytes e)
     @ encodeEventFDReadWriteFlags [] (Event_Flags e)"
  by (simp add: wireEvent_def encodeEvent_def Let_def encode_append)

lemma wireEvent_clock:
  "Event_EventType e \<noteq> FDReadEvent W \<Longrightarrow> Event_EventType e \<noteq> FDWriteEvent W \<Longrightarrow>
   Event_EventType e = ClockEvent W \<Longrightarrow>
   wireEvent W e = encodeUserData [] (Event_UserData e) @ encodeErrno [] (Event_Errno e)
     @ encodeEventType [] (Event_EventType e)"
  by (simp add: wireEvent_def encodeEvent_def Let_def encode_append)

interpretation event: panic_codec "wireEvent W" "decodeEvent W" "ok_Event W" "encodeEvent W"
proof
  fix v :: Event and r b :: bytes
  assume ok: "ok_Event W v"
  show "encodeEvent W b v = Inr (b @ wireEvent W v)"
    using ok
    by (simp add: encodeEvent_def wireEvent_def ok_Event_def Let_def encode_append split: if_splits)
  assume len: "length (wireEvent W v) + length r < 4294967296"
  show "decodeEvent W (wireEvent W v @ r) = Inr (v, r)"
  proof (cases "Event_EventType v = FDReadEvent W \<or> Event_EventType v = FDWriteEvent W")
    case True
    with ok len show ?thesis
      by (simp add: decodeEvent_def ok_Event_def wireEvent_fd zero_Event_def)
  next
    case False
    then have clock: "Event_EventType v = ClockEvent W" "Event_NBytes v = 0" "Event_Flags v = 0"
      using ok by (simp_all add: ok_Event_def)
    from False have ne: "ClockEvent W \<noteq> FDReadEvent W" "ClockEvent W \<noteq> FDWriteEvent W"
      by (simp_all add: clock(1))
    then show ?thesis
      using len ok clock
      by (simp add: decodeEvent_def ok_Event_def wireEvent_clock zero_Event_def)
  qed
qed

definition encodeEvents :: "'v wasi \<Rightarrow> bytes \<Rightarrow> Event list \<Rightarrow> string + bytes" where
  "encodeEvents W buffer events =
     (let buffer = encodeU32 buffer (word_of_nat (length events))
      in foldl_panic (encodeEvent W) buffer events)"

definition decodeEvents :: "'v wasi \<Rightarrow> bytes \<Rightarrow> Event list \<Rightarrow> error + (Event list \<times> bytes)" where
  "decodeEvents W buffer events =
     (case decodeU32 buffer of
        Inl err \<Rightarrow> Inl err
      | Inr (count, buffer) \<Rightarrow>
          decode_each (decodeEvent W) (unat count) 0 buffer (scratch_slice zero_Event events count))"

definition wireEvents :: "'v wasi \<Rightarrow> Event list \<Rightarrow> bytes" where
  "wireEvents W vs = le32 (word_of_nat (length vs)) @ concat (map (wireEvent W) vs)"

lemma encodeEvents_ok [encode_append]:
  "list_all (ok_Event W) vs \<Longrightarrow> encodeEvents W b vs = Inr (b @ wireEvents W vs)"
  by (simp add: encodeEvents_def wireEvents_def encodeU32_def event.foldl_panic_encode)

lemma wireEvent_nonempty: "ok_Event W v \<Longrightarrow> wireEvent W v \<noteq> []"
  by (auto simp: wireEvent_def encodeEvent_def ok_Event_def Let_def
      encode_append encodeUserData_def encodeU64_def le64_def)

interpretation events: counted_codec "wireEvent W" "decodeEvent W" "ok_Event W" "wireEvents W"
  "decodeEvents W" zero_Event
  by unfold_locales (simp_all add: wireEvents_def decodeEvents_def wireEvent_nonempty)

end
