(* ===== verification/Codec_Sock.thy ===== *)
theory Codec_Sock
  imports Codec_Struct
begin

text \<open>
  The codecs of \<^verbatim>\<open>codec.go\<close> for socket addresses, socket option values and address information, and
  the encoder of the part of an I/O vector that a read filled (\<^verbatim>\<open>encodeIOVecsPrefix\<close>), which is shown to
  be the plain I/O vector encoder applied to a prefix of the data.
\<close>

section \<open>Socket addresses\<close>

definition encodeSocketAddress :: "'v wasi \<Rightarrow> bytes \<Rightarrow> SocketAddress \<Rightarrow> string + bytes" where
  "encodeSocketAddress W buffer addr =
     (case addr of
        NilAddress \<Rightarrow> Inr (encodeProtocolFamily buffer 0)
      | Inet4Address port a \<Rightarrow>
          let buffer = encodeProtocolFamily buffer (InetFamily W);
              buffer = encodeInt buffer port
          in Inr (buffer @ a)
      | Inet6Address port a \<Rightarrow>
          let buffer = encodeProtocolFamily buffer (Inet6Family W);
              buffer = encodeInt buffer port
          in Inr (buffer @ a)
      | UnixAddress name \<Rightarrow>
          let buffer = encodeProtocolFamily buffer (UnixFamily W)
          in Inr (encodeString buffer name)
      | OtherAddress \<Rightarrow> Inl ''cannot encode unsupported socket address type'')"

definition decodeSocketAddress :: "'v wasi \<Rightarrow> bytes \<Rightarrow> error + (SocketAddress \<times> bytes)" where
  "decodeSocketAddress W buffer =
     (case decodeProtocolFamily W buffer of Inl err \<Rightarrow> Inl err | Inr (f, buffer) \<Rightarrow>
        if f = 0 then Inr (NilAddress, buffer)
        else if f = InetFamily W then
          (case decodeInt buffer of Inl err \<Rightarrow> Inl err | Inr (port, buffer) \<Rightarrow>
             if length buffer < 4 then Inl (Errorf ''invalid IPv4 length: %v'')
             else Inr (Inet4Address port (take 4 buffer), drop 4 buffer))
        else if f = Inet6Family W then
          (case decodeInt buffer of Inl err \<Rightarrow> Inl err | Inr (port, buffer) \<Rightarrow>
             if length buffer < 16 then Inl (Errorf ''invalid IPv6 length: %v'')
             else Inr (Inet6Address port (take 16 buffer), drop 16 buffer))
        else if f = UnixFamily W then
          (case decodeString buffer of Inl err \<Rightarrow> Inl err | Inr (name, buffer) \<Rightarrow>
             Inr (UnixAddress name, buffer))
        else Inl (Errorf ''invalid or unsupported protocol family: %v''))"

fun ok_SocketAddress :: "'v wasi \<Rightarrow> SocketAddress \<Rightarrow> bool" where
  "ok_SocketAddress W NilAddress = wasi_ok W"
| "ok_SocketAddress W (Inet4Address port a) = (wasi_ok W \<and> fits go_int port \<and> length a = 4)"
| "ok_SocketAddress W (Inet6Address port a) = (wasi_ok W \<and> fits go_int port \<and> length a = 16)"
| "ok_SocketAddress W (UnixAddress name) = wasi_ok W"
| "ok_SocketAddress W OtherAddress = False"

definition wireSocketAddress :: "'v wasi \<Rightarrow> SocketAddress \<Rightarrow> bytes" where
  "wireSocketAddress W a = (case encodeSocketAddress W [] a of Inl _ \<Rightarrow> [] | Inr b \<Rightarrow> b)"

lemma val_families:
  "wasi_ok W \<Longrightarrow> val W ProtocolFamily_t 0"
  "wasi_ok W \<Longrightarrow> val W ProtocolFamily_t (InetFamily W)"
  "wasi_ok W \<Longrightarrow> val W ProtocolFamily_t (Inet6Family W)"
  "wasi_ok W \<Longrightarrow> val W ProtocolFamily_t (UnixFamily W)"
  by (auto simp: val_def wasi_ok_def wasi_constants_def fits_def)
    (cases "shape W ProtocolFamily_t"; simp)

lemma distinct_families:
  "wasi_ok W \<Longrightarrow> InetFamily W \<noteq> 0 \<and> Inet6Family W \<noteq> 0 \<and> UnixFamily W \<noteq> 0
     \<and> Inet6Family W \<noteq> InetFamily W \<and> UnixFamily W \<noteq> InetFamily W \<and> UnixFamily W \<noteq> Inet6Family W"
  by (auto simp: wasi_ok_def wasi_constants_def)

interpretation socketAddress: panic_codec "wireSocketAddress W" "decodeSocketAddress W"
  "ok_SocketAddress W" "encodeSocketAddress W"
proof
  fix v :: SocketAddress and r b :: bytes
  assume ok: "ok_SocketAddress W v"
  then have W: "wasi_ok W"
    by (cases v) simp_all
  show "encodeSocketAddress W b v = Inr (b @ wireSocketAddress W v)"
    using ok by (cases v) (simp_all add: encodeSocketAddress_def wireSocketAddress_def encode_append)
  show "decodeSocketAddress W (wireSocketAddress W v @ r) = Inr (v, r)"
    if "length (wireSocketAddress W v) + length r < 4294967296"
    using that ok distinct_families [OF W] val_families [OF W]
    by (cases v) (simp_all add: encodeSocketAddress_def wireSocketAddress_def
        decodeSocketAddress_def encode_append)
qed

section \<open>Socket option values\<close>

definition sockoptNil :: int where [simp]: "sockoptNil = 0"
definition sockoptInt :: int where [simp]: "sockoptInt = 1"
definition sockoptBytes :: int where [simp]: "sockoptBytes = 2"

definition encodeSocketOptionValue :: "bytes \<Rightarrow> SocketOptionValue \<Rightarrow> string + bytes" where
  "encodeSocketOptionValue buffer value =
     (case value of
        NilValue \<Rightarrow> Inr (encodeInt buffer sockoptNil)
      | IntValue v \<Rightarrow>
          let buffer = encodeInt buffer sockoptInt in Inr (encodeInt buffer (wrap go_int v))
      | BytesValue v \<Rightarrow>
          let buffer = encodeInt buffer sockoptBytes in Inr (encodeBytes buffer v)
      | OtherValue \<Rightarrow> Inl ''cannot encode unsupported socket option value type'')"

definition decodeSocketOptionValue :: "'v wasi \<Rightarrow> bytes \<Rightarrow> error + (SocketOptionValue \<times> bytes)" where
  "decodeSocketOptionValue W buffer =
     (case decodeInt buffer of Inl err \<Rightarrow> Inl err | Inr (typ, buffer) \<Rightarrow>
        if typ = sockoptNil then Inr (NilValue, buffer)
        else if typ = sockoptInt then
          (case decodeInt buffer of Inl err \<Rightarrow> Inl err | Inr (v, buffer) \<Rightarrow>
             Inr (IntValue (wrap (shape W IntValue_t) v), buffer))
        else if typ = sockoptBytes then
          (case decodeBytes buffer of Inl err \<Rightarrow> Inl err | Inr (v, buffer) \<Rightarrow>
             Inr (BytesValue v, buffer))
        else Inl (Errorf ''invalid or unsupported socket option value type: %v''))"

fun ok_SocketOptionValue :: "'v wasi \<Rightarrow> SocketOptionValue \<Rightarrow> bool" where
  "ok_SocketOptionValue W NilValue = True"
| "ok_SocketOptionValue W (IntValue v) = (val W IntValue_t v \<and> fits go_int v)"
| "ok_SocketOptionValue W (BytesValue v) = True"
| "ok_SocketOptionValue W OtherValue = False"

definition wireSocketOptionValue :: "SocketOptionValue \<Rightarrow> bytes" where
  "wireSocketOptionValue v = (case encodeSocketOptionValue [] v of Inl _ \<Rightarrow> [] | Inr b \<Rightarrow> b)"

interpretation socketOptionValue: panic_codec wireSocketOptionValue "decodeSocketOptionValue W"
  "ok_SocketOptionValue W" encodeSocketOptionValue
proof
  fix v :: SocketOptionValue and r b :: bytes
  assume ok: "ok_SocketOptionValue W v"
  show "encodeSocketOptionValue b v = Inr (b @ wireSocketOptionValue v)"
    using ok
    by (cases v) (simp_all add: encodeSocketOptionValue_def wireSocketOptionValue_def encode_append)
  have "fits go_int 0" "fits go_int 1" "fits go_int 2"
    by (simp_all add: fits_Signed_iff)
  then show "decodeSocketOptionValue W (wireSocketOptionValue v @ r) = Inr (v, r)"
    if "length (wireSocketOptionValue v) + length r < 4294967296"
    using that ok
    by (cases v) (simp_all add: encodeSocketOptionValue_def wireSocketOptionValue_def
        decodeSocketOptionValue_def encode_append val_def fits_def [of go_int]
        fits_def [of "shape W IntValue_t"])
qed

section \<open>Address information\<close>

definition encodeAddressInfo :: "'v wasi \<Rightarrow> bytes \<Rightarrow> AddressInfo \<Rightarrow> string + bytes" where
  "encodeAddressInfo W buffer a =
     (let buffer = encodeAddressInfoFlags buffer (AddressInfo_Flags a);
          buffer = encodeProtocolFamily buffer (AddressInfo_Family a);
          buffer = encodeSocketType buffer (AddressInfo_SocketType a);
          buffer = encodeProtocol buffer (AddressInfo_Protocol a)
      in case encodeSocketAddress W buffer (AddressInfo_Address a) of
           Inl p \<Rightarrow> Inl p
         | Inr buffer \<Rightarrow> Inr (encodeString buffer (AddressInfo_CanonicalName a)))"

definition decodeAddressInfo :: "'v wasi \<Rightarrow> bytes \<Rightarrow> error + (AddressInfo \<times> bytes)" where
  "decodeAddressInfo W buffer =
     (case decodeAddressInfoFlags W buffer of Inl err \<Rightarrow> Inl err | Inr (flags, buffer) \<Rightarrow>
     (case decodeProtocolFamily W buffer of Inl err \<Rightarrow> Inl err | Inr (family, buffer) \<Rightarrow>
     (case decodeSocketType W buffer of Inl err \<Rightarrow> Inl err | Inr (socketType, buffer) \<Rightarrow>
     (case decodeProtocol W buffer of Inl err \<Rightarrow> Inl err | Inr (protocol, buffer) \<Rightarrow>
     (case decodeSocketAddress W buffer of Inl err \<Rightarrow> Inl err | Inr (address, buffer) \<Rightarrow>
     (case decodeString buffer of Inl err \<Rightarrow> Inl err | Inr (canonicalName, buffer) \<Rightarrow>
        Inr (\<lparr>AddressInfo_Flags = flags, AddressInfo_Family = family,
          AddressInfo_SocketType = socketType, AddressInfo_Protocol = protocol,
          AddressInfo_Address = address, AddressInfo_CanonicalName = canonicalName\<rparr>, buffer)))))))"

definition ok_AddressInfo :: "'v wasi \<Rightarrow> AddressInfo \<Rightarrow> bool" where
  "ok_AddressInfo W a \<longleftrightarrow> val W AddressInfoFlags_t (AddressInfo_Flags a)
     \<and> val W ProtocolFamily_t (AddressInfo_Family a) \<and> val W SocketType_t (AddressInfo_SocketType a)
     \<and> val W Protocol_t (AddressInfo_Protocol a) \<and> ok_SocketAddress W (AddressInfo_Address a)"

definition wireAddressInfo :: "'v wasi \<Rightarrow> AddressInfo \<Rightarrow> bytes" where
  "wireAddressInfo W a = (case encodeAddressInfo W [] a of Inl _ \<Rightarrow> [] | Inr b \<Rightarrow> b)"

interpretation addressInfo: panic_codec "wireAddressInfo W" "decodeAddressInfo W"
  "ok_AddressInfo W" "encodeAddressInfo W"
proof
  fix v :: AddressInfo and r b :: bytes
  assume ok: "ok_AddressInfo W v"
  show "encodeAddressInfo W b v = Inr (b @ wireAddressInfo W v)"
    using ok by (simp add: encodeAddressInfo_def wireAddressInfo_def ok_AddressInfo_def encode_append)
  show "decodeAddressInfo W (wireAddressInfo W v @ r) = Inr (v, r)"
    if "length (wireAddressInfo W v) + length r < 4294967296"
    using that ok by (simp add: encodeAddressInfo_def wireAddressInfo_def decodeAddressInfo_def
        ok_AddressInfo_def encode_append)
qed

definition encodeAddressInfos :: "'v wasi \<Rightarrow> bytes \<Rightarrow> AddressInfo list \<Rightarrow> string + bytes" where
  "encodeAddressInfos W buffer addrInfos =
     (let buffer = encodeU32 buffer (word_of_nat (length addrInfos))
      in foldl_panic (encodeAddressInfo W) buffer addrInfos)"

definition decodeAddressInfos ::
  "'v wasi \<Rightarrow> bytes \<Rightarrow> AddressInfo list \<Rightarrow> error + (AddressInfo list \<times> bytes)" where
  "decodeAddressInfos W buffer addrInfos =
     (case decodeU32 buffer of
        Inl err \<Rightarrow> Inl err
      | Inr (count, buffer) \<Rightarrow>
          decode_each (decodeAddressInfo W) (unat count) 0 buffer
            (scratch_slice zero_AddressInfo addrInfos count))"

definition wireAddressInfos :: "'v wasi \<Rightarrow> AddressInfo list \<Rightarrow> bytes" where
  "wireAddressInfos W vs = le32 (word_of_nat (length vs)) @ concat (map (wireAddressInfo W) vs)"

lemma encodeAddressInfos_ok [encode_append]:
  "list_all (ok_AddressInfo W) vs \<Longrightarrow> encodeAddressInfos W b vs = Inr (b @ wireAddressInfos W vs)"
  by (simp add: encodeAddressInfos_def wireAddressInfos_def encodeU32_def
      addressInfo.foldl_panic_encode)

lemma wireAddressInfo_nonempty: "ok_AddressInfo W v \<Longrightarrow> wireAddressInfo W v \<noteq> []"
  by (simp add: wireAddressInfo_def encodeAddressInfo_def ok_AddressInfo_def Let_def encode_append)
    (simp add: encodeAddressInfoFlags_def encodeU32_def le32_def)

interpretation addressInfos: counted_codec "wireAddressInfo W" "decodeAddressInfo W"
  "ok_AddressInfo W" "wireAddressInfos W" "decodeAddressInfos W" zero_AddressInfo
  by unfold_locales
    (simp_all add: wireAddressInfos_def decodeAddressInfos_def wireAddressInfo_nonempty)

section \<open>The prefix of an I/O vector\<close>

text \<open>
  \<^verbatim>\<open>encodeIOVecsPrefix\<close> first counts the buffers that the first \<open>size\<close> bytes touch
  (\<open>count_prefix\<close>: the two accumulators are \<^verbatim>\<open>prefixCount\<close> and \<^verbatim>\<open>prefixSize\<close>), then writes them, the last
  one cut short (\<open>encode_prefix\<close>).
\<close>

fun count_prefix :: "'v wasi \<Rightarrow> int \<Rightarrow> nat \<Rightarrow> int \<Rightarrow> bytes list \<Rightarrow> nat" where
  "count_prefix W sz prefixCount prefixSize [] = prefixCount"
| "count_prefix W sz prefixCount prefixSize (iovec # iovecs) =
     (let prefixCount = prefixCount + 1;
          prefixSize = wrap go_int (prefixSize + int (length iovec))
      in if sz \<le> wrap (shape W Size_t) prefixSize then prefixCount
         else count_prefix W sz prefixCount prefixSize iovecs)"

fun encode_prefix :: "'v wasi \<Rightarrow> bytes \<Rightarrow> int \<Rightarrow> bytes list \<Rightarrow> bytes" where
  "encode_prefix W buffer remaining [] = buffer"
| "encode_prefix W buffer remaining (iovec # iovecs) =
     (let len = wrap (shape W Size_t) (int (length iovec))
      in if remaining \<le> len then encodeBytes buffer (take (nat remaining) iovec)
         else encode_prefix W (encodeBytes buffer iovec)
                (wrap (shape W Size_t) (remaining - len)) iovecs)"

definition encodeIOVecsPrefix :: "'v wasi \<Rightarrow> bytes \<Rightarrow> bytes list \<Rightarrow> int \<Rightarrow> bytes" where
  "encodeIOVecsPrefix W buffer iovecs sz =
     (if wrap (Signed 32) sz \<le> 0 then encodeU32 buffer 0
      else encode_prefix W (encodeU32 buffer (word_of_nat (count_prefix W sz 0 0 iovecs))) sz iovecs)"

text \<open>The reference: the buffers that hold the first \<open>n\<close> bytes.\<close>

fun iovecs_prefix :: "nat \<Rightarrow> bytes list \<Rightarrow> bytes list" where
  "iovecs_prefix n [] = []"
| "iovecs_prefix n (v # vs) = (if n \<le> length v then [take n v] else v # iovecs_prefix (n - length v) vs)"

definition recorded_iovecs :: "bytes list \<Rightarrow> int \<Rightarrow> bytes list" where
  "recorded_iovecs iovecs sz = (if wrap (Signed 32) sz \<le> 0 then [] else iovecs_prefix (nat sz) iovecs)"

lemma concat_iovecs_prefix: "concat (iovecs_prefix n vs) = take n (concat vs)"
  by (induction n vs rule: iovecs_prefix.induct) auto

lemma length_iovecs_prefix: "length (iovecs_prefix n vs) \<le> length vs"
  by (induction n vs rule: iovecs_prefix.induct) auto

text \<open>
  What the equality below needs: the total length of the buffers and the size are values of \<^verbatim>\<open>Size\<close>, so
  that no conversion to \<^verbatim>\<open>Size\<close> wraps.
\<close>

definition size_bound :: "'v wasi \<Rightarrow> int \<Rightarrow> bool" where
  "size_bound W n \<longleftrightarrow> val W Size_t n \<and> fits go_int n"

lemma size_bound_val [simp]: "size_bound W n \<Longrightarrow> val W Size_t n"
  by (simp add: size_bound_def)

lemma fits_mono: "0 < width T \<Longrightarrow> fits T n \<Longrightarrow> 0 \<le> m \<Longrightarrow> m \<le> n \<Longrightarrow> fits T m"
  by (cases T) (auto simp: fits_Signed_iff fits_Unsigned_iff)

lemma size_bound_wrap:
  assumes "size_bound W n" "0 \<le> m" "m \<le> n"
  shows "wrap (shape W Size_t) m = m" "wrap go_int m = m"
proof -
  have "0 < width (shape W Size_t)"
    using assms(1) by (simp add: size_bound_def val_def wasi_ok_def wasi_shapes_def)
  with assms have "fits (shape W Size_t) m" "fits go_int m"
    by (auto simp: size_bound_def val_def intro: fits_mono)
  then show "wrap (shape W Size_t) m = m" "wrap go_int m = m"
    by (simp_all only: fits_def)
qed

lemma val_Size_negative: "val W Size_t sz \<Longrightarrow> sz < 0 \<Longrightarrow> wrap (Signed 32) sz \<le> 0"
proof (cases "shape W Size_t")
  case (Signed n)
  assume v: "val W Size_t sz" and neg: "sz < 0"
  have "0 < n" "n \<le> 32"
    using v Signed wasi_fits32 [of W Size_t sz] by (auto simp: val_def fits32_def wide_types_def)
  then have "(2::int) ^ (n - 1) \<le> 2 ^ 31"
    by (intro power_increasing) auto
  then have "fits (Signed 32) sz"
    using v neg \<open>0 < n\<close> Signed by (simp add: val_def fits_Signed_iff)
  with neg show ?thesis
    by (simp add: fits_def)
qed (simp add: val_def fits_Unsigned_iff)

lemma count_prefix_eq:
  assumes "size_bound W (p + int (length (concat vs)))" "0 \<le> p" "p < sz"
  shows "count_prefix W sz c p vs = c + length (iovecs_prefix (nat (sz - p)) vs)"
  using assms
proof (induction vs arbitrary: c p)
  case (Cons v vs)
  have b: "wrap go_int (p + int (length v)) = p + int (length v)"
    "wrap (shape W Size_t) (p + int (length v)) = p + int (length v)"
    using Cons.prems by (simp_all only: size_bound_wrap [OF Cons.prems(1)] concat.simps list.map
        length_append of_nat_add of_nat_0_le_iff add_nonneg_nonneg add_left_mono le_add_same_cancel1)
  show ?case
  proof (cases "sz \<le> p + int (length v)")
    case True
    with b Cons.prems show ?thesis
      by (simp add: nat_le_iff)
  next
    case False
    have "count_prefix W sz (c + 1) (p + int (length v)) vs
        = c + 1 + length (iovecs_prefix (nat (sz - (p + int (length v)))) vs)"
      using Cons.prems False by (intro Cons.IH) (simp_all add: add.assoc)
    moreover have "nat (sz - (p + int (length v))) = nat (sz - p) - length v"
      using False Cons.prems by linarith
    ultimately show ?thesis
      using b False by (simp add: nat_le_iff)
  qed
qed simp

lemma encode_prefix_eq:
  assumes "size_bound W m" "int (length (concat vs)) \<le> m" "0 < n" "n \<le> m"
  shows "encode_prefix W b n vs = foldl encodeBytes b (iovecs_prefix (nat n) vs)"
  using assms(2-)
proof (induction vs arbitrary: b n)
  case (Cons v vs)
  have len: "wrap (shape W Size_t) (int (length v)) = int (length v)"
    using Cons.prems by (auto intro!: size_bound_wrap [OF assms(1)])
  show ?case
  proof (cases "n \<le> int (length v)")
    case True
    then show ?thesis
      by (simp only: encode_prefix.simps iovecs_prefix.simps len Let_def if_True)
        (simp add: nat_le_iff)
  next
    case False
    have r: "wrap (shape W Size_t) (n - int (length v)) = n - int (length v)"
      using Cons.prems False by (auto intro!: size_bound_wrap [OF assms(1)])
    have "encode_prefix W (encodeBytes b v) (n - int (length v)) vs
        = foldl encodeBytes (encodeBytes b v) (iovecs_prefix (nat (n - int (length v))) vs)"
      using Cons.prems False by (intro Cons.IH) auto
    moreover have "nat (n - int (length v)) = nat n - length v"
      by linarith
    ultimately show ?thesis
      using False by (simp add: len r nat_le_iff)
  qed
qed simp

text \<open>
  The encoder writes what the plain one writes for the recorded prefix, when the size and the lengths
  of the buffers are values of \<^verbatim>\<open>Size\<close>.
\<close>

lemma encodeIOVecsPrefix_eq:
  assumes "size_bound W (int (length (concat iovecs)))" "size_bound W sz"
  shows "encodeIOVecsPrefix W b iovecs sz = encodeIOVecs b (recorded_iovecs iovecs sz)"
proof (cases "wrap (Signed 32) sz \<le> 0")
  case True
  then show ?thesis
    by (simp add: encodeIOVecsPrefix_def recorded_iovecs_def encodeIOVecs_def)
next
  case False
  have "val W Size_t sz"
    using assms(2) by (simp add: size_bound_def)
  then have "\<not> sz < 0"
    using val_Size_negative False by blast
  moreover have "sz \<noteq> 0"
    using False by auto
  ultimately have pos: "0 < sz"
    by simp
  have "size_bound W (max (int (length (concat iovecs))) sz)"
    using assms by (simp add: max_def)
  from encode_prefix_eq [OF this _ pos]
  have "encode_prefix W c sz iovecs = foldl encodeBytes c (iovecs_prefix (nat sz) iovecs)" for c
    by simp
  moreover have "count_prefix W sz 0 0 iovecs = length (iovecs_prefix (nat sz) iovecs)"
    using count_prefix_eq [of W 0 iovecs sz 0] assms(1) pos by simp
  ultimately show ?thesis
    using False by (simp add: encodeIOVecsPrefix_def recorded_iovecs_def encodeIOVecs_def)
qed

end
