(* ===== verification/Codec.thy ===== *)
theory Codec
  imports Codec_Sock
begin

text \<open>
  The methods of \<^verbatim>\<open>Codec\<close> (\<^verbatim>\<open>internal/timemachine/wasicall/codec.go\<close>): for each system call an encoder of
  its parameters and results and the decoder of what it wrote. The decoders of the calls that carry
  lists take the slice the caller lends them (see \<open>scratch_slice\<close>). Encoders that reach a panicking
  one return a sum with the panic's message on the left.

  Each pair has its round-trip lemma \<open>DecodeX_EncodeX\<close>, by rewriting with the interpretations of the
  codecs below it.
\<close>


definition EncodeArgsSizesGet :: "bytes \<Rightarrow> int \<Rightarrow> int \<Rightarrow> int \<Rightarrow> bytes" where
  "EncodeArgsSizesGet buffer argCount stringBytes errno =
     (let buffer = encodeErrno buffer errno;
          buffer = encodeInt buffer argCount
      in encodeInt buffer stringBytes)"

definition DecodeArgsSizesGet ::
  "'v wasi \<Rightarrow> bytes \<Rightarrow> error + (int \<times> int \<times> int)" where
  "DecodeArgsSizesGet W buffer =
     (case decodeErrno W buffer of Inl err \<Rightarrow> Inl err | Inr (errno, buffer) \<Rightarrow>
     (case decodeInt buffer of Inl err \<Rightarrow> Inl err | Inr (argCount, buffer) \<Rightarrow>
     (case decodeInt buffer of Inl err \<Rightarrow> Inl err | Inr (stringBytes, _) \<Rightarrow>
        Inr (argCount, stringBytes, errno))))"

lemma DecodeArgsSizesGet_EncodeArgsSizesGet:
  assumes "fits go_int argCount" "fits go_int stringBytes" "val W Errno_t errno"
    "length (EncodeArgsSizesGet [] argCount stringBytes errno) < 4294967296"
  shows "DecodeArgsSizesGet W (EncodeArgsSizesGet [] argCount stringBytes errno)
    = Inr (argCount, stringBytes, errno)"
  using assms by (simp add: EncodeArgsSizesGet_def DecodeArgsSizesGet_def encode_append)


definition EncodeArgsGet :: "bytes \<Rightarrow> bytes list \<Rightarrow> int \<Rightarrow> bytes" where
  "EncodeArgsGet buffer args errno =
     (let buffer = encodeErrno buffer errno
      in encodeStrings buffer args)"

definition DecodeArgsGet ::
  "'v wasi \<Rightarrow> bytes \<Rightarrow> bytes list \<Rightarrow> error + (bytes list \<times> int)" where
  "DecodeArgsGet W buffer args =
     (case decodeErrno W buffer of Inl err \<Rightarrow> Inl err | Inr (errno, buffer) \<Rightarrow>
     (case decodeStrings buffer args of Inl err \<Rightarrow> Inl err | Inr (args, _) \<Rightarrow>
        Inr (args, errno)))"

lemma DecodeArgsGet_EncodeArgsGet:
  assumes "val W Errno_t errno"
    "length (EncodeArgsGet [] args errno) < 4294967296"
  shows "DecodeArgsGet W (EncodeArgsGet [] args errno) cache
    = Inr (args, errno)"
  using assms by (simp add: EncodeArgsGet_def DecodeArgsGet_def encode_append)


definition EncodeEnvironSizesGet :: "bytes \<Rightarrow> int \<Rightarrow> int \<Rightarrow> int \<Rightarrow> bytes" where
  "EncodeEnvironSizesGet buffer envCount stringBytes errno =
     (let buffer = encodeErrno buffer errno;
          buffer = encodeInt buffer envCount
      in encodeInt buffer stringBytes)"

definition DecodeEnvironSizesGet ::
  "'v wasi \<Rightarrow> bytes \<Rightarrow> error + (int \<times> int \<times> int)" where
  "DecodeEnvironSizesGet W buffer =
     (case decodeErrno W buffer of Inl err \<Rightarrow> Inl err | Inr (errno, buffer) \<Rightarrow>
     (case decodeInt buffer of Inl err \<Rightarrow> Inl err | Inr (envCount, buffer) \<Rightarrow>
     (case decodeInt buffer of Inl err \<Rightarrow> Inl err | Inr (stringBytes, _) \<Rightarrow>
        Inr (envCount, stringBytes, errno))))"

lemma DecodeEnvironSizesGet_EncodeEnvironSizesGet:
  assumes "fits go_int envCount" "fits go_int stringBytes" "val W Errno_t errno"
    "length (EncodeEnvironSizesGet [] envCount stringBytes errno) < 4294967296"
  shows "DecodeEnvironSizesGet W (EncodeEnvironSizesGet [] envCount stringBytes errno)
    = Inr (envCount, stringBytes, errno)"
  using assms by (simp add: EncodeEnvironSizesGet_def DecodeEnvironSizesGet_def encode_append)


definition EncodeEnvironGet :: "bytes \<Rightarrow> bytes list \<Rightarrow> int \<Rightarrow> bytes" where
  "EncodeEnvironGet buffer env errno =
     (let buffer = encodeErrno buffer errno
      in encodeStrings buffer env)"

definition DecodeEnvironGet ::
  "'v wasi \<Rightarrow> bytes \<Rightarrow> bytes list \<Rightarrow> error + (bytes list \<times> int)" where
  "DecodeEnvironGet W buffer env =
     (case decodeErrno W buffer of Inl err \<Rightarrow> Inl err | Inr (errno, buffer) \<Rightarrow>
     (case decodeStrings buffer env of Inl err \<Rightarrow> Inl err | Inr (env, _) \<Rightarrow>
        Inr (env, errno)))"

lemma DecodeEnvironGet_EncodeEnvironGet:
  assumes "val W Errno_t errno"
    "length (EncodeEnvironGet [] env errno) < 4294967296"
  shows "DecodeEnvironGet W (EncodeEnvironGet [] env errno) cache
    = Inr (env, errno)"
  using assms by (simp add: EncodeEnvironGet_def DecodeEnvironGet_def encode_append)


definition EncodeClockResGet :: "bytes \<Rightarrow> int \<Rightarrow> int \<Rightarrow> int \<Rightarrow> bytes" where
  "EncodeClockResGet buffer clockID timestamp errno =
     (let buffer = encodeErrno buffer errno;
          buffer = encodeClockID buffer clockID
      in encodeTimestamp buffer timestamp)"

definition DecodeClockResGet ::
  "'v wasi \<Rightarrow> bytes \<Rightarrow> error + (int \<times> int \<times> int)" where
  "DecodeClockResGet W buffer =
     (case decodeErrno W buffer of Inl err \<Rightarrow> Inl err | Inr (errno, buffer) \<Rightarrow>
     (case decodeClockID W buffer of Inl err \<Rightarrow> Inl err | Inr (clockID, buffer) \<Rightarrow>
     (case decodeTimestamp W buffer of Inl err \<Rightarrow> Inl err | Inr (timestamp, _) \<Rightarrow>
        Inr (clockID, timestamp, errno))))"

lemma DecodeClockResGet_EncodeClockResGet:
  assumes "val W ClockID_t clockID" "val W Timestamp_t timestamp" "val W Errno_t errno"
    "length (EncodeClockResGet [] clockID timestamp errno) < 4294967296"
  shows "DecodeClockResGet W (EncodeClockResGet [] clockID timestamp errno)
    = Inr (clockID, timestamp, errno)"
  using assms by (simp add: EncodeClockResGet_def DecodeClockResGet_def encode_append)


definition EncodeClockTimeGet :: "bytes \<Rightarrow> int \<Rightarrow> int \<Rightarrow> int \<Rightarrow> int \<Rightarrow> bytes" where
  "EncodeClockTimeGet buffer clockID precision timestamp errno =
     (let buffer = encodeErrno buffer errno;
          buffer = encodeClockID buffer clockID;
          buffer = encodeTimestamp buffer precision
      in encodeTimestamp buffer timestamp)"

definition DecodeClockTimeGet ::
  "'v wasi \<Rightarrow> bytes \<Rightarrow> error + (int \<times> int \<times> int \<times> int)" where
  "DecodeClockTimeGet W buffer =
     (case decodeErrno W buffer of Inl err \<Rightarrow> Inl err | Inr (errno, buffer) \<Rightarrow>
     (case decodeClockID W buffer of Inl err \<Rightarrow> Inl err | Inr (clockID, buffer) \<Rightarrow>
     (case decodeTimestamp W buffer of Inl err \<Rightarrow> Inl err | Inr (precision, buffer) \<Rightarrow>
     (case decodeTimestamp W buffer of Inl err \<Rightarrow> Inl err | Inr (timestamp, _) \<Rightarrow>
        Inr (clockID, precision, timestamp, errno)))))"

lemma DecodeClockTimeGet_EncodeClockTimeGet:
  assumes "val W ClockID_t clockID" "val W Timestamp_t precision" "val W Timestamp_t timestamp" "val W
    Errno_t errno"
    "length (EncodeClockTimeGet [] clockID precision timestamp errno) < 4294967296"
  shows "DecodeClockTimeGet W (EncodeClockTimeGet [] clockID precision timestamp errno)
    = Inr (clockID, precision, timestamp, errno)"
  using assms by (simp add: EncodeClockTimeGet_def DecodeClockTimeGet_def encode_append)


definition EncodeFDAdvise :: "bytes \<Rightarrow> int \<Rightarrow> int \<Rightarrow> int \<Rightarrow> int \<Rightarrow> int \<Rightarrow> bytes" where
  "EncodeFDAdvise buffer fd offset len advice errno =
     (let buffer = encodeErrno buffer errno;
          buffer = encodeFD buffer fd;
          buffer = encodeFileSize buffer offset;
          buffer = encodeFileSize buffer len
      in encodeAdvice buffer advice)"

definition DecodeFDAdvise ::
  "'v wasi \<Rightarrow> bytes \<Rightarrow> error + (int \<times> int \<times> int \<times> int \<times> int)" where
  "DecodeFDAdvise W buffer =
     (case decodeErrno W buffer of Inl err \<Rightarrow> Inl err | Inr (errno, buffer) \<Rightarrow>
     (case decodeFD W buffer of Inl err \<Rightarrow> Inl err | Inr (fd, buffer) \<Rightarrow>
     (case decodeFileSize W buffer of Inl err \<Rightarrow> Inl err | Inr (offset, buffer) \<Rightarrow>
     (case decodeFileSize W buffer of Inl err \<Rightarrow> Inl err | Inr (len, buffer) \<Rightarrow>
     (case decodeAdvice W buffer of Inl err \<Rightarrow> Inl err | Inr (advice, _) \<Rightarrow>
        Inr (fd, offset, len, advice, errno))))))"

lemma DecodeFDAdvise_EncodeFDAdvise:
  assumes "val W FD_t fd" "val W FileSize_t offset" "val W FileSize_t len" "val W Advice_t advice" "val W
    Errno_t errno"
    "length (EncodeFDAdvise [] fd offset len advice errno) < 4294967296"
  shows "DecodeFDAdvise W (EncodeFDAdvise [] fd offset len advice errno)
    = Inr (fd, offset, len, advice, errno)"
  using assms by (simp add: EncodeFDAdvise_def DecodeFDAdvise_def encode_append)


definition EncodeFDAllocate :: "bytes \<Rightarrow> int \<Rightarrow> int \<Rightarrow> int \<Rightarrow> int \<Rightarrow> bytes" where
  "EncodeFDAllocate buffer fd offset len errno =
     (let buffer = encodeErrno buffer errno;
          buffer = encodeFD buffer fd;
          buffer = encodeFileSize buffer offset
      in encodeFileSize buffer len)"

definition DecodeFDAllocate ::
  "'v wasi \<Rightarrow> bytes \<Rightarrow> error + (int \<times> int \<times> int \<times> int)" where
  "DecodeFDAllocate W buffer =
     (case decodeErrno W buffer of Inl err \<Rightarrow> Inl err | Inr (errno, buffer) \<Rightarrow>
     (case decodeFD W buffer of Inl err \<Rightarrow> Inl err | Inr (fd, buffer) \<Rightarrow>
     (case decodeFileSize W buffer of Inl err \<Rightarrow> Inl err | Inr (offset, buffer) \<Rightarrow>
     (case decodeFileSize W buffer of Inl err \<Rightarrow> Inl err | Inr (len, _) \<Rightarrow>
        Inr (fd, offset, len, errno)))))"

lemma DecodeFDAllocate_EncodeFDAllocate:
  assumes "val W FD_t fd" "val W FileSize_t offset" "val W FileSize_t len" "val W Errno_t errno"
    "length (EncodeFDAllocate [] fd offset len errno) < 4294967296"
  shows "DecodeFDAllocate W (EncodeFDAllocate [] fd offset len errno)
    = Inr (fd, offset, len, errno)"
  using assms by (simp add: EncodeFDAllocate_def DecodeFDAllocate_def encode_append)


definition EncodeFDClose :: "bytes \<Rightarrow> int \<Rightarrow> int \<Rightarrow> bytes" where
  "EncodeFDClose buffer fd errno =
     (let buffer = encodeErrno buffer errno
      in encodeFD buffer fd)"

definition DecodeFDClose ::
  "'v wasi \<Rightarrow> bytes \<Rightarrow> error + (int \<times> int)" where
  "DecodeFDClose W buffer =
     (case decodeErrno W buffer of Inl err \<Rightarrow> Inl err | Inr (errno, buffer) \<Rightarrow>
     (case decodeFD W buffer of Inl err \<Rightarrow> Inl err | Inr (fd, _) \<Rightarrow>
        Inr (fd, errno)))"

lemma DecodeFDClose_EncodeFDClose:
  assumes "val W FD_t fd" "val W Errno_t errno"
    "length (EncodeFDClose [] fd errno) < 4294967296"
  shows "DecodeFDClose W (EncodeFDClose [] fd errno)
    = Inr (fd, errno)"
  using assms by (simp add: EncodeFDClose_def DecodeFDClose_def encode_append)


definition EncodeFDDataSync :: "bytes \<Rightarrow> int \<Rightarrow> int \<Rightarrow> bytes" where
  "EncodeFDDataSync buffer fd errno =
     (let buffer = encodeErrno buffer errno
      in encodeFD buffer fd)"

definition DecodeFDDataSync ::
  "'v wasi \<Rightarrow> bytes \<Rightarrow> error + (int \<times> int)" where
  "DecodeFDDataSync W buffer =
     (case decodeErrno W buffer of Inl err \<Rightarrow> Inl err | Inr (errno, buffer) \<Rightarrow>
     (case decodeFD W buffer of Inl err \<Rightarrow> Inl err | Inr (fd, _) \<Rightarrow>
        Inr (fd, errno)))"

lemma DecodeFDDataSync_EncodeFDDataSync:
  assumes "val W FD_t fd" "val W Errno_t errno"
    "length (EncodeFDDataSync [] fd errno) < 4294967296"
  shows "DecodeFDDataSync W (EncodeFDDataSync [] fd errno)
    = Inr (fd, errno)"
  using assms by (simp add: EncodeFDDataSync_def DecodeFDDataSync_def encode_append)


definition EncodeFDStatGet :: "bytes \<Rightarrow> int \<Rightarrow> FDStat \<Rightarrow> int \<Rightarrow> bytes" where
  "EncodeFDStatGet buffer fd stat errno =
     (let buffer = encodeErrno buffer errno;
          buffer = encodeFD buffer fd
      in encodeFDStat buffer stat)"

definition DecodeFDStatGet ::
  "'v wasi \<Rightarrow> bytes \<Rightarrow> error + (int \<times> FDStat \<times> int)" where
  "DecodeFDStatGet W buffer =
     (case decodeErrno W buffer of Inl err \<Rightarrow> Inl err | Inr (errno, buffer) \<Rightarrow>
     (case decodeFD W buffer of Inl err \<Rightarrow> Inl err | Inr (fd, buffer) \<Rightarrow>
     (case decodeFDStat W buffer of Inl err \<Rightarrow> Inl err | Inr (stat, _) \<Rightarrow>
        Inr (fd, stat, errno))))"

lemma DecodeFDStatGet_EncodeFDStatGet:
  assumes "val W FD_t fd" "ok_FDStat W stat" "val W Errno_t errno"
    "length (EncodeFDStatGet [] fd stat errno) < 4294967296"
  shows "DecodeFDStatGet W (EncodeFDStatGet [] fd stat errno)
    = Inr (fd, stat, errno)"
  using assms by (simp add: EncodeFDStatGet_def DecodeFDStatGet_def encode_append)


definition EncodeFDStatSetFlags :: "bytes \<Rightarrow> int \<Rightarrow> int \<Rightarrow> int \<Rightarrow> bytes" where
  "EncodeFDStatSetFlags buffer fd flags errno =
     (let buffer = encodeErrno buffer errno;
          buffer = encodeFD buffer fd
      in encodeFDFlags buffer flags)"

definition DecodeFDStatSetFlags ::
  "'v wasi \<Rightarrow> bytes \<Rightarrow> error + (int \<times> int \<times> int)" where
  "DecodeFDStatSetFlags W buffer =
     (case decodeErrno W buffer of Inl err \<Rightarrow> Inl err | Inr (errno, buffer) \<Rightarrow>
     (case decodeFD W buffer of Inl err \<Rightarrow> Inl err | Inr (fd, buffer) \<Rightarrow>
     (case decodeFDFlags W buffer of Inl err \<Rightarrow> Inl err | Inr (flags, _) \<Rightarrow>
        Inr (fd, flags, errno))))"

lemma DecodeFDStatSetFlags_EncodeFDStatSetFlags:
  assumes "val W FD_t fd" "val W FDFlags_t flags" "val W Errno_t errno"
    "length (EncodeFDStatSetFlags [] fd flags errno) < 4294967296"
  shows "DecodeFDStatSetFlags W (EncodeFDStatSetFlags [] fd flags errno)
    = Inr (fd, flags, errno)"
  using assms by (simp add: EncodeFDStatSetFlags_def DecodeFDStatSetFlags_def encode_append)


definition EncodeFDStatSetRights :: "bytes \<Rightarrow> int \<Rightarrow> int \<Rightarrow> int \<Rightarrow> int \<Rightarrow> bytes" where
  "EncodeFDStatSetRights buffer fd rightsBase rightsInheriting errno =
     (let buffer = encodeErrno buffer errno;
          buffer = encodeFD buffer fd;
          buffer = encodeRights buffer rightsBase
      in encodeRights buffer rightsInheriting)"

definition DecodeFDStatSetRights ::
  "'v wasi \<Rightarrow> bytes \<Rightarrow> error + (int \<times> int \<times> int \<times> int)" where
  "DecodeFDStatSetRights W buffer =
     (case decodeErrno W buffer of Inl err \<Rightarrow> Inl err | Inr (errno, buffer) \<Rightarrow>
     (case decodeFD W buffer of Inl err \<Rightarrow> Inl err | Inr (fd, buffer) \<Rightarrow>
     (case decodeRights W buffer of Inl err \<Rightarrow> Inl err | Inr (rightsBase, buffer) \<Rightarrow>
     (case decodeRights W buffer of Inl err \<Rightarrow> Inl err | Inr (rightsInheriting, _) \<Rightarrow>
        Inr (fd, rightsBase, rightsInheriting, errno)))))"

lemma DecodeFDStatSetRights_EncodeFDStatSetRights:
  assumes "val W FD_t fd" "val W Rights_t rightsBase" "val W Rights_t rightsInheriting" "val W Errno_t
    errno"
    "length (EncodeFDStatSetRights [] fd rightsBase rightsInheriting errno) < 4294967296"
  shows "DecodeFDStatSetRights W (EncodeFDStatSetRights [] fd rightsBase rightsInheriting errno)
    = Inr (fd, rightsBase, rightsInheriting, errno)"
  using assms by (simp add: EncodeFDStatSetRights_def DecodeFDStatSetRights_def encode_append)


definition EncodeFDFileStatGet :: "bytes \<Rightarrow> int \<Rightarrow> FileStat \<Rightarrow> int \<Rightarrow> bytes" where
  "EncodeFDFileStatGet buffer fd stat errno =
     (let buffer = encodeErrno buffer errno;
          buffer = encodeFD buffer fd
      in encodeFileStat buffer stat)"

definition DecodeFDFileStatGet ::
  "'v wasi \<Rightarrow> bytes \<Rightarrow> error + (int \<times> FileStat \<times> int)" where
  "DecodeFDFileStatGet W buffer =
     (case decodeErrno W buffer of Inl err \<Rightarrow> Inl err | Inr (errno, buffer) \<Rightarrow>
     (case decodeFD W buffer of Inl err \<Rightarrow> Inl err | Inr (fd, buffer) \<Rightarrow>
     (case decodeFileStat W buffer of Inl err \<Rightarrow> Inl err | Inr (stat, _) \<Rightarrow>
        Inr (fd, stat, errno))))"

lemma DecodeFDFileStatGet_EncodeFDFileStatGet:
  assumes "val W FD_t fd" "ok_FileStat W stat" "val W Errno_t errno"
    "length (EncodeFDFileStatGet [] fd stat errno) < 4294967296"
  shows "DecodeFDFileStatGet W (EncodeFDFileStatGet [] fd stat errno)
    = Inr (fd, stat, errno)"
  using assms by (simp add: EncodeFDFileStatGet_def DecodeFDFileStatGet_def encode_append)


definition EncodeFDFileStatSetSize :: "bytes \<Rightarrow> int \<Rightarrow> int \<Rightarrow> int \<Rightarrow> bytes" where
  "EncodeFDFileStatSetSize buffer fd sz errno =
     (let buffer = encodeErrno buffer errno;
          buffer = encodeFD buffer fd
      in encodeFileSize buffer sz)"

definition DecodeFDFileStatSetSize ::
  "'v wasi \<Rightarrow> bytes \<Rightarrow> error + (int \<times> int \<times> int)" where
  "DecodeFDFileStatSetSize W buffer =
     (case decodeErrno W buffer of Inl err \<Rightarrow> Inl err | Inr (errno, buffer) \<Rightarrow>
     (case decodeFD W buffer of Inl err \<Rightarrow> Inl err | Inr (fd, buffer) \<Rightarrow>
     (case decodeFileSize W buffer of Inl err \<Rightarrow> Inl err | Inr (sz, _) \<Rightarrow>
        Inr (fd, sz, errno))))"

lemma DecodeFDFileStatSetSize_EncodeFDFileStatSetSize:
  assumes "val W FD_t fd" "val W FileSize_t sz" "val W Errno_t errno"
    "length (EncodeFDFileStatSetSize [] fd sz errno) < 4294967296"
  shows "DecodeFDFileStatSetSize W (EncodeFDFileStatSetSize [] fd sz errno)
    = Inr (fd, sz, errno)"
  using assms by (simp add: EncodeFDFileStatSetSize_def DecodeFDFileStatSetSize_def encode_append)


definition EncodeFDFileStatSetTimes :: "bytes \<Rightarrow> int \<Rightarrow> int \<Rightarrow> int \<Rightarrow> int \<Rightarrow> int \<Rightarrow> bytes" where
  "EncodeFDFileStatSetTimes buffer fd accessTime modifyTime flags errno =
     (let buffer = encodeErrno buffer errno;
          buffer = encodeFD buffer fd;
          buffer = encodeTimestamp buffer accessTime;
          buffer = encodeTimestamp buffer modifyTime
      in encodeFSTFlags buffer flags)"

definition DecodeFDFileStatSetTimes ::
  "'v wasi \<Rightarrow> bytes \<Rightarrow> error + (int \<times> int \<times> int \<times> int \<times> int)" where
  "DecodeFDFileStatSetTimes W buffer =
     (case decodeErrno W buffer of Inl err \<Rightarrow> Inl err | Inr (errno, buffer) \<Rightarrow>
     (case decodeFD W buffer of Inl err \<Rightarrow> Inl err | Inr (fd, buffer) \<Rightarrow>
     (case decodeTimestamp W buffer of Inl err \<Rightarrow> Inl err | Inr (accessTime, buffer) \<Rightarrow>
     (case decodeTimestamp W buffer of Inl err \<Rightarrow> Inl err | Inr (modifyTime, buffer) \<Rightarrow>
     (case decodeFSTFlags W buffer of Inl err \<Rightarrow> Inl err | Inr (flags, _) \<Rightarrow>
        Inr (fd, accessTime, modifyTime, flags, errno))))))"

lemma DecodeFDFileStatSetTimes_EncodeFDFileStatSetTimes:
  assumes "val W FD_t fd" "val W Timestamp_t accessTime" "val W Timestamp_t modifyTime" "val W FSTFlags_t
    flags" "val W Errno_t errno"
    "length (EncodeFDFileStatSetTimes [] fd accessTime modifyTime flags errno) < 4294967296"
  shows "DecodeFDFileStatSetTimes W (EncodeFDFileStatSetTimes [] fd accessTime modifyTime flags errno)
    = Inr (fd, accessTime, modifyTime, flags, errno)"
  using assms by (simp add: EncodeFDFileStatSetTimes_def DecodeFDFileStatSetTimes_def encode_append)


definition EncodeFDPread :: "'v wasi \<Rightarrow> bytes \<Rightarrow> int \<Rightarrow> bytes list \<Rightarrow> int \<Rightarrow> int \<Rightarrow> int \<Rightarrow> bytes" where
  "EncodeFDPread W buffer fd iovecs offset sz errno =
     (let buffer = encodeErrno buffer errno;
          buffer = encodeFD buffer fd;
          buffer = encodeIOVecsPrefix W buffer iovecs sz;
          buffer = encodeFileSize buffer offset
      in encodeSize buffer sz)"

definition DecodeFDPread ::
  "'v wasi \<Rightarrow> bytes \<Rightarrow> bytes list \<Rightarrow> error + (int \<times> bytes list \<times> int \<times> int \<times> int)" where
  "DecodeFDPread W buffer iovecs =
     (case decodeErrno W buffer of Inl err \<Rightarrow> Inl err | Inr (errno, buffer) \<Rightarrow>
     (case decodeFD W buffer of Inl err \<Rightarrow> Inl err | Inr (fd, buffer) \<Rightarrow>
     (case decodeIOVecs buffer iovecs of Inl err \<Rightarrow> Inl err | Inr (iovecs, buffer) \<Rightarrow>
     (case decodeFileSize W buffer of Inl err \<Rightarrow> Inl err | Inr (offset, buffer) \<Rightarrow>
     (case decodeSize W buffer of Inl err \<Rightarrow> Inl err | Inr (sz, _) \<Rightarrow>
        Inr (fd, iovecs, offset, sz, errno))))))"

lemma DecodeFDPread_EncodeFDPread:
  assumes "val W FD_t fd" "val W FileSize_t offset" "val W Errno_t errno" "size_bound W (int (length (concat
    iovecs)))" "size_bound W sz"
    "length (EncodeFDPread W [] fd iovecs offset sz errno) < 4294967296"
  shows "DecodeFDPread W (EncodeFDPread W [] fd iovecs offset sz errno) cache
    = Inr (fd, recorded_iovecs iovecs sz, offset, sz, errno)"
  using assms by (simp add: EncodeFDPread_def DecodeFDPread_def encode_append encodeIOVecsPrefix_eq)


definition EncodeFDPreStatGet :: "bytes \<Rightarrow> int \<Rightarrow> PreStat \<Rightarrow> int \<Rightarrow> bytes" where
  "EncodeFDPreStatGet buffer fd stat errno =
     (let buffer = encodeErrno buffer errno;
          buffer = encodeFD buffer fd
      in encodePreStat buffer stat)"

definition DecodeFDPreStatGet ::
  "'v wasi \<Rightarrow> bytes \<Rightarrow> error + (int \<times> PreStat \<times> int)" where
  "DecodeFDPreStatGet W buffer =
     (case decodeErrno W buffer of Inl err \<Rightarrow> Inl err | Inr (errno, buffer) \<Rightarrow>
     (case decodeFD W buffer of Inl err \<Rightarrow> Inl err | Inr (fd, buffer) \<Rightarrow>
     (case decodePreStat W buffer of Inl err \<Rightarrow> Inl err | Inr (stat, _) \<Rightarrow>
        Inr (fd, stat, errno))))"

lemma DecodeFDPreStatGet_EncodeFDPreStatGet:
  assumes "val W FD_t fd" "ok_PreStat W stat" "val W Errno_t errno"
    "length (EncodeFDPreStatGet [] fd stat errno) < 4294967296"
  shows "DecodeFDPreStatGet W (EncodeFDPreStatGet [] fd stat errno)
    = Inr (fd, stat, errno)"
  using assms by (simp add: EncodeFDPreStatGet_def DecodeFDPreStatGet_def encode_append)


definition EncodeFDPreStatDirName :: "bytes \<Rightarrow> int \<Rightarrow> bytes \<Rightarrow> int \<Rightarrow> bytes" where
  "EncodeFDPreStatDirName buffer fd name errno =
     (let buffer = encodeErrno buffer errno;
          buffer = encodeFD buffer fd
      in encodeString buffer name)"

definition DecodeFDPreStatDirName ::
  "'v wasi \<Rightarrow> bytes \<Rightarrow> error + (int \<times> bytes \<times> int)" where
  "DecodeFDPreStatDirName W buffer =
     (case decodeErrno W buffer of Inl err \<Rightarrow> Inl err | Inr (errno, buffer) \<Rightarrow>
     (case decodeFD W buffer of Inl err \<Rightarrow> Inl err | Inr (fd, buffer) \<Rightarrow>
     (case decodeString buffer of Inl err \<Rightarrow> Inl err | Inr (name, _) \<Rightarrow>
        Inr (fd, name, errno))))"

lemma DecodeFDPreStatDirName_EncodeFDPreStatDirName:
  assumes "val W FD_t fd" "val W Errno_t errno"
    "length (EncodeFDPreStatDirName [] fd name errno) < 4294967296"
  shows "DecodeFDPreStatDirName W (EncodeFDPreStatDirName [] fd name errno)
    = Inr (fd, name, errno)"
  using assms by (simp add: EncodeFDPreStatDirName_def DecodeFDPreStatDirName_def encode_append)


definition EncodeFDPwrite :: "bytes \<Rightarrow> int \<Rightarrow> bytes list \<Rightarrow> int \<Rightarrow> int \<Rightarrow> int \<Rightarrow> bytes" where
  "EncodeFDPwrite buffer fd iovecs offset sz errno =
     (let buffer = encodeErrno buffer errno;
          buffer = encodeFD buffer fd;
          buffer = encodeIOVecs buffer iovecs;
          buffer = encodeFileSize buffer offset
      in encodeSize buffer sz)"

definition DecodeFDPwrite ::
  "'v wasi \<Rightarrow> bytes \<Rightarrow> bytes list \<Rightarrow> error + (int \<times> bytes list \<times> int \<times> int \<times> int)" where
  "DecodeFDPwrite W buffer iovecs =
     (case decodeErrno W buffer of Inl err \<Rightarrow> Inl err | Inr (errno, buffer) \<Rightarrow>
     (case decodeFD W buffer of Inl err \<Rightarrow> Inl err | Inr (fd, buffer) \<Rightarrow>
     (case decodeIOVecs buffer iovecs of Inl err \<Rightarrow> Inl err | Inr (iovecs, buffer) \<Rightarrow>
     (case decodeFileSize W buffer of Inl err \<Rightarrow> Inl err | Inr (offset, buffer) \<Rightarrow>
     (case decodeSize W buffer of Inl err \<Rightarrow> Inl err | Inr (sz, _) \<Rightarrow>
        Inr (fd, iovecs, offset, sz, errno))))))"

lemma DecodeFDPwrite_EncodeFDPwrite:
  assumes "val W FD_t fd" "val W FileSize_t offset" "val W Size_t sz" "val W Errno_t errno"
    "length (EncodeFDPwrite [] fd iovecs offset sz errno) < 4294967296"
  shows "DecodeFDPwrite W (EncodeFDPwrite [] fd iovecs offset sz errno) cache
    = Inr (fd, iovecs, offset, sz, errno)"
  using assms by (simp add: EncodeFDPwrite_def DecodeFDPwrite_def encode_append)


definition EncodeFDRead :: "'v wasi \<Rightarrow> bytes \<Rightarrow> int \<Rightarrow> bytes list \<Rightarrow> int \<Rightarrow> int \<Rightarrow> bytes" where
  "EncodeFDRead W buffer fd iovecs sz errno =
     (let buffer = encodeErrno buffer errno;
          buffer = encodeFD buffer fd;
          buffer = encodeIOVecsPrefix W buffer iovecs sz
      in encodeSize buffer sz)"

definition DecodeFDRead ::
  "'v wasi \<Rightarrow> bytes \<Rightarrow> bytes list \<Rightarrow> error + (int \<times> bytes list \<times> int \<times> int)" where
  "DecodeFDRead W buffer iovecs =
     (case decodeErrno W buffer of Inl err \<Rightarrow> Inl err | Inr (errno, buffer) \<Rightarrow>
     (case decodeFD W buffer of Inl err \<Rightarrow> Inl err | Inr (fd, buffer) \<Rightarrow>
     (case decodeIOVecs buffer iovecs of Inl err \<Rightarrow> Inl err | Inr (iovecs, buffer) \<Rightarrow>
     (case decodeSize W buffer of Inl err \<Rightarrow> Inl err | Inr (sz, _) \<Rightarrow>
        Inr (fd, iovecs, sz, errno)))))"

lemma DecodeFDRead_EncodeFDRead:
  assumes "val W FD_t fd" "val W Errno_t errno" "size_bound W (int (length (concat iovecs)))" "size_bound W
    sz"
    "length (EncodeFDRead W [] fd iovecs sz errno) < 4294967296"
  shows "DecodeFDRead W (EncodeFDRead W [] fd iovecs sz errno) cache
    = Inr (fd, recorded_iovecs iovecs sz, sz, errno)"
  using assms by (simp add: EncodeFDRead_def DecodeFDRead_def encode_append encodeIOVecsPrefix_eq)


definition EncodeFDReadDir :: "bytes \<Rightarrow> int \<Rightarrow> DirEntry list \<Rightarrow> int \<Rightarrow> int \<Rightarrow> int \<Rightarrow> bytes" where
  "EncodeFDReadDir buffer fd entries cookie bufferSizeBytes errno =
     (let buffer = encodeErrno buffer errno;
          buffer = encodeFD buffer fd;
          buffer = encodeDirEntries buffer entries;
          buffer = encodeDirCookie buffer cookie
      in encodeInt buffer bufferSizeBytes)"

definition DecodeFDReadDir ::
  "'v wasi \<Rightarrow> bytes \<Rightarrow> DirEntry list \<Rightarrow> error + (int \<times> DirEntry list \<times> int \<times> int \<times> int)" where
  "DecodeFDReadDir W buffer entries =
     (case decodeErrno W buffer of Inl err \<Rightarrow> Inl err | Inr (errno, buffer) \<Rightarrow>
     (case decodeFD W buffer of Inl err \<Rightarrow> Inl err | Inr (fd, buffer) \<Rightarrow>
     (case decodeDirEntries W buffer entries of Inl err \<Rightarrow> Inl err | Inr (entries, buffer) \<Rightarrow>
     (case decodeDirCookie W buffer of Inl err \<Rightarrow> Inl err | Inr (cookie, buffer) \<Rightarrow>
     (case decodeInt buffer of Inl err \<Rightarrow> Inl err | Inr (bufferSizeBytes, _) \<Rightarrow>
        Inr (fd, entries, cookie, bufferSizeBytes, errno))))))"

lemma DecodeFDReadDir_EncodeFDReadDir:
  assumes "val W FD_t fd" "list_all (ok_DirEntry W) entries" "val W DirCookie_t cookie" "fits go_int
    bufferSizeBytes" "val W Errno_t errno"
    "length (EncodeFDReadDir [] fd entries cookie bufferSizeBytes errno) < 4294967296"
  shows "DecodeFDReadDir W (EncodeFDReadDir [] fd entries cookie bufferSizeBytes errno) cache
    = Inr (fd, entries, cookie, bufferSizeBytes, errno)"
  using assms by (simp add: EncodeFDReadDir_def DecodeFDReadDir_def encode_append)


definition EncodeFDRenumber :: "bytes \<Rightarrow> int \<Rightarrow> int \<Rightarrow> int \<Rightarrow> bytes" where
  "EncodeFDRenumber buffer from to errno =
     (let buffer = encodeErrno buffer errno;
          buffer = encodeFD buffer from
      in encodeFD buffer to)"

definition DecodeFDRenumber ::
  "'v wasi \<Rightarrow> bytes \<Rightarrow> error + (int \<times> int \<times> int)" where
  "DecodeFDRenumber W buffer =
     (case decodeErrno W buffer of Inl err \<Rightarrow> Inl err | Inr (errno, buffer) \<Rightarrow>
     (case decodeFD W buffer of Inl err \<Rightarrow> Inl err | Inr (from, buffer) \<Rightarrow>
     (case decodeFD W buffer of Inl err \<Rightarrow> Inl err | Inr (to, _) \<Rightarrow>
        Inr (from, to, errno))))"

lemma DecodeFDRenumber_EncodeFDRenumber:
  assumes "val W FD_t from" "val W FD_t to" "val W Errno_t errno"
    "length (EncodeFDRenumber [] from to errno) < 4294967296"
  shows "DecodeFDRenumber W (EncodeFDRenumber [] from to errno)
    = Inr (from, to, errno)"
  using assms by (simp add: EncodeFDRenumber_def DecodeFDRenumber_def encode_append)


definition EncodeFDSeek :: "bytes \<Rightarrow> int \<Rightarrow> int \<Rightarrow> int \<Rightarrow> int \<Rightarrow> int \<Rightarrow> bytes" where
  "EncodeFDSeek buffer fd seekOffset whence offset errno =
     (let buffer = encodeErrno buffer errno;
          buffer = encodeFD buffer fd;
          buffer = encodeFileDelta buffer seekOffset;
          buffer = encodeWhence buffer whence
      in encodeFileSize buffer offset)"

definition DecodeFDSeek ::
  "'v wasi \<Rightarrow> bytes \<Rightarrow> error + (int \<times> int \<times> int \<times> int \<times> int)" where
  "DecodeFDSeek W buffer =
     (case decodeErrno W buffer of Inl err \<Rightarrow> Inl err | Inr (errno, buffer) \<Rightarrow>
     (case decodeFD W buffer of Inl err \<Rightarrow> Inl err | Inr (fd, buffer) \<Rightarrow>
     (case decodeFileDelta W buffer of Inl err \<Rightarrow> Inl err | Inr (seekOffset, buffer) \<Rightarrow>
     (case decodeWhence W buffer of Inl err \<Rightarrow> Inl err | Inr (whence, buffer) \<Rightarrow>
     (case decodeFileSize W buffer of Inl err \<Rightarrow> Inl err | Inr (offset, _) \<Rightarrow>
        Inr (fd, seekOffset, whence, offset, errno))))))"

lemma DecodeFDSeek_EncodeFDSeek:
  assumes "val W FD_t fd" "val W FileDelta_t seekOffset" "val W Whence_t whence" "val W FileSize_t offset"
    "val W Errno_t errno"
    "length (EncodeFDSeek [] fd seekOffset whence offset errno) < 4294967296"
  shows "DecodeFDSeek W (EncodeFDSeek [] fd seekOffset whence offset errno)
    = Inr (fd, seekOffset, whence, offset, errno)"
  using assms by (simp add: EncodeFDSeek_def DecodeFDSeek_def encode_append)


definition EncodeFDSync :: "bytes \<Rightarrow> int \<Rightarrow> int \<Rightarrow> bytes" where
  "EncodeFDSync buffer fd errno =
     (let buffer = encodeErrno buffer errno
      in encodeFD buffer fd)"

definition DecodeFDSync ::
  "'v wasi \<Rightarrow> bytes \<Rightarrow> error + (int \<times> int)" where
  "DecodeFDSync W buffer =
     (case decodeErrno W buffer of Inl err \<Rightarrow> Inl err | Inr (errno, buffer) \<Rightarrow>
     (case decodeFD W buffer of Inl err \<Rightarrow> Inl err | Inr (fd, _) \<Rightarrow>
        Inr (fd, errno)))"

lemma DecodeFDSync_EncodeFDSync:
  assumes "val W FD_t fd" "val W Errno_t errno"
    "length (EncodeFDSync [] fd errno) < 4294967296"
  shows "DecodeFDSync W (EncodeFDSync [] fd errno)
    = Inr (fd, errno)"
  using assms by (simp add: EncodeFDSync_def DecodeFDSync_def encode_append)


definition EncodeFDTell :: "bytes \<Rightarrow> int \<Rightarrow> int \<Rightarrow> int \<Rightarrow> bytes" where
  "EncodeFDTell buffer fd offset errno =
     (let buffer = encodeErrno buffer errno;
          buffer = encodeFD buffer fd
      in encodeFileSize buffer offset)"

definition DecodeFDTell ::
  "'v wasi \<Rightarrow> bytes \<Rightarrow> error + (int \<times> int \<times> int)" where
  "DecodeFDTell W buffer =
     (case decodeErrno W buffer of Inl err \<Rightarrow> Inl err | Inr (errno, buffer) \<Rightarrow>
     (case decodeFD W buffer of Inl err \<Rightarrow> Inl err | Inr (fd, buffer) \<Rightarrow>
     (case decodeFileSize W buffer of Inl err \<Rightarrow> Inl err | Inr (offset, _) \<Rightarrow>
        Inr (fd, offset, errno))))"

lemma DecodeFDTell_EncodeFDTell:
  assumes "val W FD_t fd" "val W FileSize_t offset" "val W Errno_t errno"
    "length (EncodeFDTell [] fd offset errno) < 4294967296"
  shows "DecodeFDTell W (EncodeFDTell [] fd offset errno)
    = Inr (fd, offset, errno)"
  using assms by (simp add: EncodeFDTell_def DecodeFDTell_def encode_append)


definition EncodeFDWrite :: "bytes \<Rightarrow> int \<Rightarrow> bytes list \<Rightarrow> int \<Rightarrow> int \<Rightarrow> bytes" where
  "EncodeFDWrite buffer fd iovecs sz errno =
     (let buffer = encodeErrno buffer errno;
          buffer = encodeFD buffer fd;
          buffer = encodeIOVecs buffer iovecs
      in encodeSize buffer sz)"

definition DecodeFDWrite ::
  "'v wasi \<Rightarrow> bytes \<Rightarrow> bytes list \<Rightarrow> error + (int \<times> bytes list \<times> int \<times> int)" where
  "DecodeFDWrite W buffer iovecs =
     (case decodeErrno W buffer of Inl err \<Rightarrow> Inl err | Inr (errno, buffer) \<Rightarrow>
     (case decodeFD W buffer of Inl err \<Rightarrow> Inl err | Inr (fd, buffer) \<Rightarrow>
     (case decodeIOVecs buffer iovecs of Inl err \<Rightarrow> Inl err | Inr (iovecs, buffer) \<Rightarrow>
     (case decodeSize W buffer of Inl err \<Rightarrow> Inl err | Inr (sz, _) \<Rightarrow>
        Inr (fd, iovecs, sz, errno)))))"

lemma DecodeFDWrite_EncodeFDWrite:
  assumes "val W FD_t fd" "val W Size_t sz" "val W Errno_t errno"
    "length (EncodeFDWrite [] fd iovecs sz errno) < 4294967296"
  shows "DecodeFDWrite W (EncodeFDWrite [] fd iovecs sz errno) cache
    = Inr (fd, iovecs, sz, errno)"
  using assms by (simp add: EncodeFDWrite_def DecodeFDWrite_def encode_append)


definition EncodePathCreateDirectory :: "bytes \<Rightarrow> int \<Rightarrow> bytes \<Rightarrow> int \<Rightarrow> bytes" where
  "EncodePathCreateDirectory buffer fd path errno =
     (let buffer = encodeErrno buffer errno;
          buffer = encodeFD buffer fd
      in encodeString buffer path)"

definition DecodePathCreateDirectory ::
  "'v wasi \<Rightarrow> bytes \<Rightarrow> error + (int \<times> bytes \<times> int)" where
  "DecodePathCreateDirectory W buffer =
     (case decodeErrno W buffer of Inl err \<Rightarrow> Inl err | Inr (errno, buffer) \<Rightarrow>
     (case decodeFD W buffer of Inl err \<Rightarrow> Inl err | Inr (fd, buffer) \<Rightarrow>
     (case decodeString buffer of Inl err \<Rightarrow> Inl err | Inr (path, _) \<Rightarrow>
        Inr (fd, path, errno))))"

lemma DecodePathCreateDirectory_EncodePathCreateDirectory:
  assumes "val W FD_t fd" "val W Errno_t errno"
    "length (EncodePathCreateDirectory [] fd path errno) < 4294967296"
  shows "DecodePathCreateDirectory W (EncodePathCreateDirectory [] fd path errno)
    = Inr (fd, path, errno)"
  using assms by (simp add: EncodePathCreateDirectory_def DecodePathCreateDirectory_def encode_append)


definition EncodePathFileStatGet :: "bytes \<Rightarrow> int \<Rightarrow> int \<Rightarrow> bytes \<Rightarrow> FileStat \<Rightarrow> int \<Rightarrow> bytes" where
  "EncodePathFileStatGet buffer fd lookupFlags path fileStat errno =
     (let buffer = encodeErrno buffer errno;
          buffer = encodeFD buffer fd;
          buffer = encodeLookupFlags buffer lookupFlags;
          buffer = encodeString buffer path
      in encodeFileStat buffer fileStat)"

definition DecodePathFileStatGet ::
  "'v wasi \<Rightarrow> bytes \<Rightarrow> error + (int \<times> int \<times> bytes \<times> FileStat \<times> int)" where
  "DecodePathFileStatGet W buffer =
     (case decodeErrno W buffer of Inl err \<Rightarrow> Inl err | Inr (errno, buffer) \<Rightarrow>
     (case decodeFD W buffer of Inl err \<Rightarrow> Inl err | Inr (fd, buffer) \<Rightarrow>
     (case decodeLookupFlags W buffer of Inl err \<Rightarrow> Inl err | Inr (lookupFlags, buffer) \<Rightarrow>
     (case decodeString buffer of Inl err \<Rightarrow> Inl err | Inr (path, buffer) \<Rightarrow>
     (case decodeFileStat W buffer of Inl err \<Rightarrow> Inl err | Inr (fileStat, _) \<Rightarrow>
        Inr (fd, lookupFlags, path, fileStat, errno))))))"

lemma DecodePathFileStatGet_EncodePathFileStatGet:
  assumes "val W FD_t fd" "val W LookupFlags_t lookupFlags" "ok_FileStat W fileStat" "val W Errno_t errno"
    "length (EncodePathFileStatGet [] fd lookupFlags path fileStat errno) < 4294967296"
  shows "DecodePathFileStatGet W (EncodePathFileStatGet [] fd lookupFlags path fileStat errno)
    = Inr (fd, lookupFlags, path, fileStat, errno)"
  using assms by (simp add: EncodePathFileStatGet_def DecodePathFileStatGet_def encode_append)


definition EncodePathFileStatSetTimes :: "bytes \<Rightarrow> int \<Rightarrow> int \<Rightarrow> bytes \<Rightarrow> int \<Rightarrow> int \<Rightarrow> int \<Rightarrow> int \<Rightarrow> bytes" where
  "EncodePathFileStatSetTimes buffer fd lookupFlags path accessTime modifyTime flags errno =
     (let buffer = encodeErrno buffer errno;
          buffer = encodeFD buffer fd;
          buffer = encodeLookupFlags buffer lookupFlags;
          buffer = encodeString buffer path;
          buffer = encodeTimestamp buffer accessTime;
          buffer = encodeTimestamp buffer modifyTime
      in encodeFSTFlags buffer flags)"

definition DecodePathFileStatSetTimes ::
  "'v wasi \<Rightarrow> bytes \<Rightarrow> error + (int \<times> int \<times> bytes \<times> int \<times> int \<times> int \<times> int)" where
  "DecodePathFileStatSetTimes W buffer =
     (case decodeErrno W buffer of Inl err \<Rightarrow> Inl err | Inr (errno, buffer) \<Rightarrow>
     (case decodeFD W buffer of Inl err \<Rightarrow> Inl err | Inr (fd, buffer) \<Rightarrow>
     (case decodeLookupFlags W buffer of Inl err \<Rightarrow> Inl err | Inr (lookupFlags, buffer) \<Rightarrow>
     (case decodeString buffer of Inl err \<Rightarrow> Inl err | Inr (path, buffer) \<Rightarrow>
     (case decodeTimestamp W buffer of Inl err \<Rightarrow> Inl err | Inr (accessTime, buffer) \<Rightarrow>
     (case decodeTimestamp W buffer of Inl err \<Rightarrow> Inl err | Inr (modifyTime, buffer) \<Rightarrow>
     (case decodeFSTFlags W buffer of Inl err \<Rightarrow> Inl err | Inr (flags, _) \<Rightarrow>
        Inr (fd, lookupFlags, path, accessTime, modifyTime, flags, errno))))))))"

lemma DecodePathFileStatSetTimes_EncodePathFileStatSetTimes:
  assumes "val W FD_t fd" "val W LookupFlags_t lookupFlags" "val W Timestamp_t accessTime" "val W
    Timestamp_t modifyTime" "val W FSTFlags_t flags" "val W Errno_t errno"
    "length (EncodePathFileStatSetTimes [] fd lookupFlags path accessTime modifyTime flags errno) < 4294967296"
  shows "DecodePathFileStatSetTimes W (EncodePathFileStatSetTimes [] fd lookupFlags path accessTime modifyTime flags errno)
    = Inr (fd, lookupFlags, path, accessTime, modifyTime, flags, errno)"
  using assms by (simp add: EncodePathFileStatSetTimes_def DecodePathFileStatSetTimes_def encode_append)


definition EncodePathLink :: "bytes \<Rightarrow> int \<Rightarrow> int \<Rightarrow> bytes \<Rightarrow> int \<Rightarrow> bytes \<Rightarrow> int \<Rightarrow> bytes" where
  "EncodePathLink buffer oldFD oldFlags oldPath newFD newPath errno =
     (let buffer = encodeErrno buffer errno;
          buffer = encodeFD buffer oldFD;
          buffer = encodeLookupFlags buffer oldFlags;
          buffer = encodeString buffer oldPath;
          buffer = encodeFD buffer newFD
      in encodeString buffer newPath)"

definition DecodePathLink ::
  "'v wasi \<Rightarrow> bytes \<Rightarrow> error + (int \<times> int \<times> bytes \<times> int \<times> bytes \<times> int)" where
  "DecodePathLink W buffer =
     (case decodeErrno W buffer of Inl err \<Rightarrow> Inl err | Inr (errno, buffer) \<Rightarrow>
     (case decodeFD W buffer of Inl err \<Rightarrow> Inl err | Inr (oldFD, buffer) \<Rightarrow>
     (case decodeLookupFlags W buffer of Inl err \<Rightarrow> Inl err | Inr (oldFlags, buffer) \<Rightarrow>
     (case decodeString buffer of Inl err \<Rightarrow> Inl err | Inr (oldPath, buffer) \<Rightarrow>
     (case decodeFD W buffer of Inl err \<Rightarrow> Inl err | Inr (newFD, buffer) \<Rightarrow>
     (case decodeString buffer of Inl err \<Rightarrow> Inl err | Inr (newPath, _) \<Rightarrow>
        Inr (oldFD, oldFlags, oldPath, newFD, newPath, errno)))))))"

lemma DecodePathLink_EncodePathLink:
  assumes "val W FD_t oldFD" "val W LookupFlags_t oldFlags" "val W FD_t newFD" "val W Errno_t errno"
    "length (EncodePathLink [] oldFD oldFlags oldPath newFD newPath errno) < 4294967296"
  shows "DecodePathLink W (EncodePathLink [] oldFD oldFlags oldPath newFD newPath errno)
    = Inr (oldFD, oldFlags, oldPath, newFD, newPath, errno)"
  using assms by (simp add: EncodePathLink_def DecodePathLink_def encode_append)


definition EncodePathOpen :: "bytes \<Rightarrow> int \<Rightarrow> int \<Rightarrow> bytes \<Rightarrow> int \<Rightarrow> int \<Rightarrow> int \<Rightarrow> int \<Rightarrow> int \<Rightarrow> int \<Rightarrow> bytes" where
  "EncodePathOpen buffer fd dirFlags path openFlags rightsBase rightsInheriting fdFlags newfd errno =
     (let buffer = encodeErrno buffer errno;
          buffer = encodeFD buffer fd;
          buffer = encodeLookupFlags buffer dirFlags;
          buffer = encodeString buffer path;
          buffer = encodeOpenFlags buffer openFlags;
          buffer = encodeRights buffer rightsBase;
          buffer = encodeRights buffer rightsInheriting;
          buffer = encodeFDFlags buffer fdFlags
      in encodeFD buffer newfd)"

definition DecodePathOpen ::
  "'v wasi \<Rightarrow> bytes \<Rightarrow> error + (int \<times> int \<times> bytes \<times> int \<times> int \<times> int \<times> int \<times> int \<times> int)" where
  "DecodePathOpen W buffer =
     (case decodeErrno W buffer of Inl err \<Rightarrow> Inl err | Inr (errno, buffer) \<Rightarrow>
     (case decodeFD W buffer of Inl err \<Rightarrow> Inl err | Inr (fd, buffer) \<Rightarrow>
     (case decodeLookupFlags W buffer of Inl err \<Rightarrow> Inl err | Inr (dirFlags, buffer) \<Rightarrow>
     (case decodeString buffer of Inl err \<Rightarrow> Inl err | Inr (path, buffer) \<Rightarrow>
     (case decodeOpenFlags W buffer of Inl err \<Rightarrow> Inl err | Inr (openFlags, buffer) \<Rightarrow>
     (case decodeRights W buffer of Inl err \<Rightarrow> Inl err | Inr (rightsBase, buffer) \<Rightarrow>
     (case decodeRights W buffer of Inl err \<Rightarrow> Inl err | Inr (rightsInheriting, buffer) \<Rightarrow>
     (case decodeFDFlags W buffer of Inl err \<Rightarrow> Inl err | Inr (fdFlags, buffer) \<Rightarrow>
     (case decodeFD W buffer of Inl err \<Rightarrow> Inl err | Inr (newfd, _) \<Rightarrow>
        Inr (fd, dirFlags, path, openFlags, rightsBase, rightsInheriting, fdFlags, newfd, errno))))))))))"

lemma DecodePathOpen_EncodePathOpen:
  assumes "val W FD_t fd" "val W LookupFlags_t dirFlags" "val W OpenFlags_t openFlags" "val W Rights_t
    rightsBase" "val W Rights_t rightsInheriting" "val W FDFlags_t fdFlags" "val W FD_t newfd"
    "val W Errno_t errno"
    "length (EncodePathOpen [] fd dirFlags path openFlags rightsBase rightsInheriting fdFlags newfd errno) < 4294967296"
  shows "DecodePathOpen W (EncodePathOpen [] fd dirFlags path openFlags rightsBase rightsInheriting fdFlags newfd errno)
    = Inr (fd, dirFlags, path, openFlags, rightsBase, rightsInheriting, fdFlags, newfd, errno)"
  using assms by (simp add: EncodePathOpen_def DecodePathOpen_def encode_append)


definition EncodePathReadLink :: "bytes \<Rightarrow> int \<Rightarrow> bytes \<Rightarrow> bytes \<Rightarrow> int \<Rightarrow> bytes" where
  "EncodePathReadLink buffer fd path output errno =
     (let buffer = encodeErrno buffer errno;
          buffer = encodeFD buffer fd;
          buffer = encodeString buffer path
      in encodeBytes buffer output)"

definition DecodePathReadLink ::
  "'v wasi \<Rightarrow> bytes \<Rightarrow> error + (int \<times> bytes \<times> bytes \<times> int)" where
  "DecodePathReadLink W buffer =
     (case decodeErrno W buffer of Inl err \<Rightarrow> Inl err | Inr (errno, buffer) \<Rightarrow>
     (case decodeFD W buffer of Inl err \<Rightarrow> Inl err | Inr (fd, buffer) \<Rightarrow>
     (case decodeString buffer of Inl err \<Rightarrow> Inl err | Inr (path, buffer) \<Rightarrow>
     (case decodeBytes buffer of Inl err \<Rightarrow> Inl err | Inr (output, _) \<Rightarrow>
        Inr (fd, path, output, errno)))))"

lemma DecodePathReadLink_EncodePathReadLink:
  assumes "val W FD_t fd" "val W Errno_t errno"
    "length (EncodePathReadLink [] fd path output errno) < 4294967296"
  shows "DecodePathReadLink W (EncodePathReadLink [] fd path output errno)
    = Inr (fd, path, output, errno)"
  using assms by (simp add: EncodePathReadLink_def DecodePathReadLink_def encode_append)


definition EncodePathRemoveDirectory :: "bytes \<Rightarrow> int \<Rightarrow> bytes \<Rightarrow> int \<Rightarrow> bytes" where
  "EncodePathRemoveDirectory buffer fd path errno =
     (let buffer = encodeErrno buffer errno;
          buffer = encodeFD buffer fd
      in encodeString buffer path)"

definition DecodePathRemoveDirectory ::
  "'v wasi \<Rightarrow> bytes \<Rightarrow> error + (int \<times> bytes \<times> int)" where
  "DecodePathRemoveDirectory W buffer =
     (case decodeErrno W buffer of Inl err \<Rightarrow> Inl err | Inr (errno, buffer) \<Rightarrow>
     (case decodeFD W buffer of Inl err \<Rightarrow> Inl err | Inr (fd, buffer) \<Rightarrow>
     (case decodeString buffer of Inl err \<Rightarrow> Inl err | Inr (path, _) \<Rightarrow>
        Inr (fd, path, errno))))"

lemma DecodePathRemoveDirectory_EncodePathRemoveDirectory:
  assumes "val W FD_t fd" "val W Errno_t errno"
    "length (EncodePathRemoveDirectory [] fd path errno) < 4294967296"
  shows "DecodePathRemoveDirectory W (EncodePathRemoveDirectory [] fd path errno)
    = Inr (fd, path, errno)"
  using assms by (simp add: EncodePathRemoveDirectory_def DecodePathRemoveDirectory_def encode_append)


definition EncodePathRename :: "bytes \<Rightarrow> int \<Rightarrow> bytes \<Rightarrow> int \<Rightarrow> bytes \<Rightarrow> int \<Rightarrow> bytes" where
  "EncodePathRename buffer fd oldPath newFD newPath errno =
     (let buffer = encodeErrno buffer errno;
          buffer = encodeFD buffer fd;
          buffer = encodeString buffer oldPath;
          buffer = encodeFD buffer newFD
      in encodeString buffer newPath)"

definition DecodePathRename ::
  "'v wasi \<Rightarrow> bytes \<Rightarrow> error + (int \<times> bytes \<times> int \<times> bytes \<times> int)" where
  "DecodePathRename W buffer =
     (case decodeErrno W buffer of Inl err \<Rightarrow> Inl err | Inr (errno, buffer) \<Rightarrow>
     (case decodeFD W buffer of Inl err \<Rightarrow> Inl err | Inr (fd, buffer) \<Rightarrow>
     (case decodeString buffer of Inl err \<Rightarrow> Inl err | Inr (oldPath, buffer) \<Rightarrow>
     (case decodeFD W buffer of Inl err \<Rightarrow> Inl err | Inr (newFD, buffer) \<Rightarrow>
     (case decodeString buffer of Inl err \<Rightarrow> Inl err | Inr (newPath, _) \<Rightarrow>
        Inr (fd, oldPath, newFD, newPath, errno))))))"

lemma DecodePathRename_EncodePathRename:
  assumes "val W FD_t fd" "val W FD_t newFD" "val W Errno_t errno"
    "length (EncodePathRename [] fd oldPath newFD newPath errno) < 4294967296"
  shows "DecodePathRename W (EncodePathRename [] fd oldPath newFD newPath errno)
    = Inr (fd, oldPath, newFD, newPath, errno)"
  using assms by (simp add: EncodePathRename_def DecodePathRename_def encode_append)


definition EncodePathSymlink :: "bytes \<Rightarrow> bytes \<Rightarrow> int \<Rightarrow> bytes \<Rightarrow> int \<Rightarrow> bytes" where
  "EncodePathSymlink buffer oldPath fd newPath errno =
     (let buffer = encodeErrno buffer errno;
          buffer = encodeString buffer oldPath;
          buffer = encodeFD buffer fd
      in encodeString buffer newPath)"

definition DecodePathSymlink ::
  "'v wasi \<Rightarrow> bytes \<Rightarrow> error + (bytes \<times> int \<times> bytes \<times> int)" where
  "DecodePathSymlink W buffer =
     (case decodeErrno W buffer of Inl err \<Rightarrow> Inl err | Inr (errno, buffer) \<Rightarrow>
     (case decodeString buffer of Inl err \<Rightarrow> Inl err | Inr (oldPath, buffer) \<Rightarrow>
     (case decodeFD W buffer of Inl err \<Rightarrow> Inl err | Inr (fd, buffer) \<Rightarrow>
     (case decodeString buffer of Inl err \<Rightarrow> Inl err | Inr (newPath, _) \<Rightarrow>
        Inr (oldPath, fd, newPath, errno)))))"

lemma DecodePathSymlink_EncodePathSymlink:
  assumes "val W FD_t fd" "val W Errno_t errno"
    "length (EncodePathSymlink [] oldPath fd newPath errno) < 4294967296"
  shows "DecodePathSymlink W (EncodePathSymlink [] oldPath fd newPath errno)
    = Inr (oldPath, fd, newPath, errno)"
  using assms by (simp add: EncodePathSymlink_def DecodePathSymlink_def encode_append)


definition EncodePathUnlinkFile :: "bytes \<Rightarrow> int \<Rightarrow> bytes \<Rightarrow> int \<Rightarrow> bytes" where
  "EncodePathUnlinkFile buffer fd path errno =
     (let buffer = encodeErrno buffer errno;
          buffer = encodeFD buffer fd
      in encodeString buffer path)"

definition DecodePathUnlinkFile ::
  "'v wasi \<Rightarrow> bytes \<Rightarrow> error + (int \<times> bytes \<times> int)" where
  "DecodePathUnlinkFile W buffer =
     (case decodeErrno W buffer of Inl err \<Rightarrow> Inl err | Inr (errno, buffer) \<Rightarrow>
     (case decodeFD W buffer of Inl err \<Rightarrow> Inl err | Inr (fd, buffer) \<Rightarrow>
     (case decodeString buffer of Inl err \<Rightarrow> Inl err | Inr (path, _) \<Rightarrow>
        Inr (fd, path, errno))))"

lemma DecodePathUnlinkFile_EncodePathUnlinkFile:
  assumes "val W FD_t fd" "val W Errno_t errno"
    "length (EncodePathUnlinkFile [] fd path errno) < 4294967296"
  shows "DecodePathUnlinkFile W (EncodePathUnlinkFile [] fd path errno)
    = Inr (fd, path, errno)"
  using assms by (simp add: EncodePathUnlinkFile_def DecodePathUnlinkFile_def encode_append)


definition EncodePollOneOff :: "'v wasi \<Rightarrow> bytes \<Rightarrow> 'v Subscription list \<Rightarrow> Event list \<Rightarrow> int \<Rightarrow> string + bytes" where
  "EncodePollOneOff W buffer subscriptions events errno =
     (let buffer = encodeErrno buffer errno
      in (case encodeSubscriptions W buffer subscriptions of
        Inl p \<Rightarrow> Inl p
      | Inr buffer \<Rightarrow> encodeEvents W buffer events))"

definition DecodePollOneOff ::
  "'v wasi \<Rightarrow> bytes \<Rightarrow> 'v Subscription list \<Rightarrow> Event list \<Rightarrow> error + ('v Subscription list \<times> Event list \<times> int)" where
  "DecodePollOneOff W buffer subscriptions events =
     (case decodeErrno W buffer of Inl err \<Rightarrow> Inl err | Inr (errno, buffer) \<Rightarrow>
     (case decodeSubscriptions W buffer subscriptions of Inl err \<Rightarrow> Inl err | Inr (subscriptions, buffer) \<Rightarrow>
     (case decodeEvents W buffer events of Inl err \<Rightarrow> Inl err | Inr (events, _) \<Rightarrow>
        Inr (subscriptions, events, errno))))"

lemma DecodePollOneOff_EncodePollOneOff:
  assumes "list_all (ok_Subscription W) subscriptions" "list_all (ok_Event W) events" "val W Errno_t errno"
    "EncodePollOneOff W [] subscriptions events errno = Inr b" "length b < 4294967296"
  shows "DecodePollOneOff W b cache1 cache2 = Inr (subscriptions, events, errno)"
  using assms by (auto simp: EncodePollOneOff_def DecodePollOneOff_def encode_append)

lemma EncodePollOneOff_returns:
  assumes "list_all (ok_Subscription W) subscriptions" "list_all (ok_Event W) events" "val W Errno_t errno"
  shows "\<exists>b. EncodePollOneOff W [] subscriptions events errno = Inr b"
  using assms by (simp add: EncodePollOneOff_def encode_append)


definition EncodeProcExit :: "bytes \<Rightarrow> int \<Rightarrow> int \<Rightarrow> bytes" where
  "EncodeProcExit buffer exitCode errno =
     (let buffer = encodeErrno buffer errno
      in encodeExitCode buffer exitCode)"

definition DecodeProcExit ::
  "'v wasi \<Rightarrow> bytes \<Rightarrow> error + (int \<times> int)" where
  "DecodeProcExit W buffer =
     (case decodeErrno W buffer of Inl err \<Rightarrow> Inl err | Inr (errno, buffer) \<Rightarrow>
     (case decodeExitCode W buffer of Inl err \<Rightarrow> Inl err | Inr (exitCode, _) \<Rightarrow>
        Inr (exitCode, errno)))"

lemma DecodeProcExit_EncodeProcExit:
  assumes "val W ExitCode_t exitCode" "val W Errno_t errno"
    "length (EncodeProcExit [] exitCode errno) < 4294967296"
  shows "DecodeProcExit W (EncodeProcExit [] exitCode errno)
    = Inr (exitCode, errno)"
  using assms by (simp add: EncodeProcExit_def DecodeProcExit_def encode_append)


definition EncodeProcRaise :: "bytes \<Rightarrow> int \<Rightarrow> int \<Rightarrow> bytes" where
  "EncodeProcRaise buffer signal errno =
     (let buffer = encodeErrno buffer errno
      in encodeSignal buffer signal)"

definition DecodeProcRaise ::
  "'v wasi \<Rightarrow> bytes \<Rightarrow> error + (int \<times> int)" where
  "DecodeProcRaise W buffer =
     (case decodeErrno W buffer of Inl err \<Rightarrow> Inl err | Inr (errno, buffer) \<Rightarrow>
     (case decodeSignal W buffer of Inl err \<Rightarrow> Inl err | Inr (signal, _) \<Rightarrow>
        Inr (signal, errno)))"

lemma DecodeProcRaise_EncodeProcRaise:
  assumes "val W Signal_t signal" "val W Errno_t errno"
    "length (EncodeProcRaise [] signal errno) < 4294967296"
  shows "DecodeProcRaise W (EncodeProcRaise [] signal errno)
    = Inr (signal, errno)"
  using assms by (simp add: EncodeProcRaise_def DecodeProcRaise_def encode_append)


definition EncodeSchedYield :: "bytes \<Rightarrow> int \<Rightarrow> bytes" where
  "EncodeSchedYield buffer errno =
     encodeErrno buffer errno"

definition DecodeSchedYield ::
  "'v wasi \<Rightarrow> bytes \<Rightarrow> error + int" where
  "DecodeSchedYield W buffer =
     (case decodeErrno W buffer of Inl err \<Rightarrow> Inl err | Inr (errno, _) \<Rightarrow>
        Inr (errno))"

lemma DecodeSchedYield_EncodeSchedYield:
  assumes "val W Errno_t errno"
    "length (EncodeSchedYield [] errno) < 4294967296"
  shows "DecodeSchedYield W (EncodeSchedYield [] errno)
    = Inr (errno)"
  using assms by (simp add: EncodeSchedYield_def DecodeSchedYield_def encode_append)


definition EncodeRandomGet :: "bytes \<Rightarrow> bytes \<Rightarrow> int \<Rightarrow> bytes" where
  "EncodeRandomGet buffer b errno =
     (let buffer = encodeErrno buffer errno
      in encodeBytes buffer b)"

definition DecodeRandomGet ::
  "'v wasi \<Rightarrow> bytes \<Rightarrow> error + (bytes \<times> int)" where
  "DecodeRandomGet W buffer =
     (case decodeErrno W buffer of Inl err \<Rightarrow> Inl err | Inr (errno, buffer) \<Rightarrow>
     (case decodeBytes buffer of Inl err \<Rightarrow> Inl err | Inr (result, _) \<Rightarrow>
        Inr (result, errno)))"

lemma DecodeRandomGet_EncodeRandomGet:
  assumes "val W Errno_t errno"
    "length (EncodeRandomGet [] b errno) < 4294967296"
  shows "DecodeRandomGet W (EncodeRandomGet [] b errno)
    = Inr (b, errno)"
  using assms by (simp add: EncodeRandomGet_def DecodeRandomGet_def encode_append)


definition EncodeSockAccept :: "'v wasi \<Rightarrow> bytes \<Rightarrow> int \<Rightarrow> int \<Rightarrow> int \<Rightarrow> SocketAddress \<Rightarrow> SocketAddress \<Rightarrow> int \<Rightarrow> string + bytes" where
  "EncodeSockAccept W buffer fd flags newfd peer addr errno =
     (let buffer = encodeErrno buffer errno;
          buffer = encodeFD buffer fd;
          buffer = encodeFDFlags buffer flags;
          buffer = encodeFD buffer newfd
      in (case encodeSocketAddress W buffer peer of
        Inl p \<Rightarrow> Inl p
      | Inr buffer \<Rightarrow> encodeSocketAddress W buffer addr))"

definition DecodeSockAccept ::
  "'v wasi \<Rightarrow> bytes \<Rightarrow> error + (int \<times> int \<times> int \<times> SocketAddress \<times> SocketAddress \<times> int)" where
  "DecodeSockAccept W buffer =
     (case decodeErrno W buffer of Inl err \<Rightarrow> Inl err | Inr (errno, buffer) \<Rightarrow>
     (case decodeFD W buffer of Inl err \<Rightarrow> Inl err | Inr (fd, buffer) \<Rightarrow>
     (case decodeFDFlags W buffer of Inl err \<Rightarrow> Inl err | Inr (flags, buffer) \<Rightarrow>
     (case decodeFD W buffer of Inl err \<Rightarrow> Inl err | Inr (newfd, buffer) \<Rightarrow>
     (case decodeSocketAddress W buffer of Inl err \<Rightarrow> Inl err | Inr (peer, buffer) \<Rightarrow>
     (case decodeSocketAddress W buffer of Inl err \<Rightarrow> Inl err | Inr (addr, _) \<Rightarrow>
        Inr (fd, flags, newfd, peer, addr, errno)))))))"

lemma DecodeSockAccept_EncodeSockAccept:
  assumes "val W FD_t fd" "val W FDFlags_t flags" "val W FD_t newfd" "ok_SocketAddress W peer"
    "ok_SocketAddress W addr" "val W Errno_t errno"
    "EncodeSockAccept W [] fd flags newfd peer addr errno = Inr b" "length b < 4294967296"
  shows "DecodeSockAccept W b = Inr (fd, flags, newfd, peer, addr, errno)"
  using assms by (auto simp: EncodeSockAccept_def DecodeSockAccept_def encode_append)

lemma EncodeSockAccept_returns:
  assumes "val W FD_t fd" "val W FDFlags_t flags" "val W FD_t newfd" "ok_SocketAddress W peer"
    "ok_SocketAddress W addr" "val W Errno_t errno"
  shows "\<exists>b. EncodeSockAccept W [] fd flags newfd peer addr errno = Inr b"
  using assms by (simp add: EncodeSockAccept_def encode_append)


definition EncodeSockRecv :: "'v wasi \<Rightarrow> bytes \<Rightarrow> int \<Rightarrow> bytes list \<Rightarrow> int \<Rightarrow> int \<Rightarrow> int \<Rightarrow> int \<Rightarrow> bytes" where
  "EncodeSockRecv W buffer fd iovecs iflags sz oflags errno =
     (let buffer = encodeErrno buffer errno;
          buffer = encodeFD buffer fd;
          buffer = encodeIOVecsPrefix W buffer iovecs sz;
          buffer = encodeRIFlags buffer iflags;
          buffer = encodeSize buffer sz
      in encodeROFlags buffer oflags)"

definition DecodeSockRecv ::
  "'v wasi \<Rightarrow> bytes \<Rightarrow> bytes list \<Rightarrow> error + (int \<times> bytes list \<times> int \<times> int \<times> int \<times> int)" where
  "DecodeSockRecv W buffer iovecs =
     (case decodeErrno W buffer of Inl err \<Rightarrow> Inl err | Inr (errno, buffer) \<Rightarrow>
     (case decodeFD W buffer of Inl err \<Rightarrow> Inl err | Inr (fd, buffer) \<Rightarrow>
     (case decodeIOVecs buffer iovecs of Inl err \<Rightarrow> Inl err | Inr (iovecs, buffer) \<Rightarrow>
     (case decodeRIFlags W buffer of Inl err \<Rightarrow> Inl err | Inr (iflags, buffer) \<Rightarrow>
     (case decodeSize W buffer of Inl err \<Rightarrow> Inl err | Inr (sz, buffer) \<Rightarrow>
     (case decodeROFlags W buffer of Inl err \<Rightarrow> Inl err | Inr (oflags, _) \<Rightarrow>
        Inr (fd, iovecs, iflags, sz, oflags, errno)))))))"

lemma DecodeSockRecv_EncodeSockRecv:
  assumes "val W FD_t fd" "val W RIFlags_t iflags" "val W ROFlags_t oflags" "val W Errno_t errno"
    "size_bound W (int (length (concat iovecs)))" "size_bound W sz"
    "length (EncodeSockRecv W [] fd iovecs iflags sz oflags errno) < 4294967296"
  shows "DecodeSockRecv W (EncodeSockRecv W [] fd iovecs iflags sz oflags errno) cache
    = Inr (fd, recorded_iovecs iovecs sz, iflags, sz, oflags, errno)"
  using assms by (simp add: EncodeSockRecv_def DecodeSockRecv_def encode_append encodeIOVecsPrefix_eq)


definition EncodeSockSend :: "bytes \<Rightarrow> int \<Rightarrow> bytes list \<Rightarrow> int \<Rightarrow> int \<Rightarrow> int \<Rightarrow> bytes" where
  "EncodeSockSend buffer fd iovecs flags sz errno =
     (let buffer = encodeErrno buffer errno;
          buffer = encodeFD buffer fd;
          buffer = encodeIOVecs buffer iovecs;
          buffer = encodeSIFlags buffer flags
      in encodeSize buffer sz)"

definition DecodeSockSend ::
  "'v wasi \<Rightarrow> bytes \<Rightarrow> error + (int \<times> bytes list \<times> int \<times> int \<times> int)" where
  "DecodeSockSend W buffer =
     (case decodeErrno W buffer of Inl err \<Rightarrow> Inl err | Inr (errno, buffer) \<Rightarrow>
     (case decodeFD W buffer of Inl err \<Rightarrow> Inl err | Inr (fd, buffer) \<Rightarrow>
     (case decodeIOVecs buffer [] of Inl err \<Rightarrow> Inl err | Inr (iovecs, buffer) \<Rightarrow>
     (case decodeSIFlags W buffer of Inl err \<Rightarrow> Inl err | Inr (flags, buffer) \<Rightarrow>
     (case decodeSize W buffer of Inl err \<Rightarrow> Inl err | Inr (sz, _) \<Rightarrow>
        Inr (fd, iovecs, flags, sz, errno))))))"

lemma DecodeSockSend_EncodeSockSend:
  assumes "val W FD_t fd" "val W SIFlags_t flags" "val W Size_t sz" "val W Errno_t errno"
    "length (EncodeSockSend [] fd iovecs flags sz errno) < 4294967296"
  shows "DecodeSockSend W (EncodeSockSend [] fd iovecs flags sz errno)
    = Inr (fd, iovecs, flags, sz, errno)"
  using assms by (simp add: EncodeSockSend_def DecodeSockSend_def encode_append)


definition EncodeSockShutdown :: "bytes \<Rightarrow> int \<Rightarrow> int \<Rightarrow> int \<Rightarrow> bytes" where
  "EncodeSockShutdown buffer fd flags errno =
     (let buffer = encodeErrno buffer errno;
          buffer = encodeFD buffer fd
      in encodeSDFlags buffer flags)"

definition DecodeSockShutdown ::
  "'v wasi \<Rightarrow> bytes \<Rightarrow> error + (int \<times> int \<times> int)" where
  "DecodeSockShutdown W buffer =
     (case decodeErrno W buffer of Inl err \<Rightarrow> Inl err | Inr (errno, buffer) \<Rightarrow>
     (case decodeFD W buffer of Inl err \<Rightarrow> Inl err | Inr (fd, buffer) \<Rightarrow>
     (case decodeSDFlags W buffer of Inl err \<Rightarrow> Inl err | Inr (flags, _) \<Rightarrow>
        Inr (fd, flags, errno))))"

lemma DecodeSockShutdown_EncodeSockShutdown:
  assumes "val W FD_t fd" "val W SDFlags_t flags" "val W Errno_t errno"
    "length (EncodeSockShutdown [] fd flags errno) < 4294967296"
  shows "DecodeSockShutdown W (EncodeSockShutdown [] fd flags errno)
    = Inr (fd, flags, errno)"
  using assms by (simp add: EncodeSockShutdown_def DecodeSockShutdown_def encode_append)


definition EncodeSockOpen :: "bytes \<Rightarrow> int \<Rightarrow> int \<Rightarrow> int \<Rightarrow> int \<Rightarrow> int \<Rightarrow> int \<Rightarrow> int \<Rightarrow> bytes" where
  "EncodeSockOpen buffer family socketType protocol rightsBase rightsInheriting fd errno =
     (let buffer = encodeErrno buffer errno;
          buffer = encodeProtocolFamily buffer family;
          buffer = encodeSocketType buffer socketType;
          buffer = encodeProtocol buffer protocol;
          buffer = encodeRights buffer rightsBase;
          buffer = encodeRights buffer rightsInheriting
      in encodeFD buffer fd)"

definition DecodeSockOpen ::
  "'v wasi \<Rightarrow> bytes \<Rightarrow> error + (int \<times> int \<times> int \<times> int \<times> int \<times> int \<times> int)" where
  "DecodeSockOpen W buffer =
     (case decodeErrno W buffer of Inl err \<Rightarrow> Inl err | Inr (errno, buffer) \<Rightarrow>
     (case decodeProtocolFamily W buffer of Inl err \<Rightarrow> Inl err | Inr (family, buffer) \<Rightarrow>
     (case decodeSocketType W buffer of Inl err \<Rightarrow> Inl err | Inr (socketType, buffer) \<Rightarrow>
     (case decodeProtocol W buffer of Inl err \<Rightarrow> Inl err | Inr (protocol, buffer) \<Rightarrow>
     (case decodeRights W buffer of Inl err \<Rightarrow> Inl err | Inr (rightsBase, buffer) \<Rightarrow>
     (case decodeRights W buffer of Inl err \<Rightarrow> Inl err | Inr (rightsInheriting, buffer) \<Rightarrow>
     (case decodeFD W buffer of Inl err \<Rightarrow> Inl err | Inr (fd, _) \<Rightarrow>
        Inr (family, socketType, protocol, rightsBase, rightsInheriting, fd, errno))))))))"

lemma DecodeSockOpen_EncodeSockOpen:
  assumes "val W ProtocolFamily_t family" "val W SocketType_t socketType" "val W Protocol_t protocol" "val W
    Rights_t rightsBase" "val W Rights_t rightsInheriting" "val W FD_t fd" "val W Errno_t errno"
    "length (EncodeSockOpen [] family socketType protocol rightsBase rightsInheriting fd errno) < 4294967296"
  shows "DecodeSockOpen W (EncodeSockOpen [] family socketType protocol rightsBase rightsInheriting fd errno)
    = Inr (family, socketType, protocol, rightsBase, rightsInheriting, fd, errno)"
  using assms by (simp add: EncodeSockOpen_def DecodeSockOpen_def encode_append)


definition EncodeSockBind :: "'v wasi \<Rightarrow> bytes \<Rightarrow> int \<Rightarrow> SocketAddress \<Rightarrow> SocketAddress \<Rightarrow> int \<Rightarrow> string + bytes" where
  "EncodeSockBind W buffer fd bindAddr addr errno =
     (let buffer = encodeErrno buffer errno;
          buffer = encodeFD buffer fd
      in (case encodeSocketAddress W buffer bindAddr of
        Inl p \<Rightarrow> Inl p
      | Inr buffer \<Rightarrow> encodeSocketAddress W buffer addr))"

definition DecodeSockBind ::
  "'v wasi \<Rightarrow> bytes \<Rightarrow> error + (int \<times> SocketAddress \<times> SocketAddress \<times> int)" where
  "DecodeSockBind W buffer =
     (case decodeErrno W buffer of Inl err \<Rightarrow> Inl err | Inr (errno, buffer) \<Rightarrow>
     (case decodeFD W buffer of Inl err \<Rightarrow> Inl err | Inr (fd, buffer) \<Rightarrow>
     (case decodeSocketAddress W buffer of Inl err \<Rightarrow> Inl err | Inr (bindAddr, buffer) \<Rightarrow>
     (case decodeSocketAddress W buffer of Inl err \<Rightarrow> Inl err | Inr (addr, _) \<Rightarrow>
        Inr (fd, bindAddr, addr, errno)))))"

lemma DecodeSockBind_EncodeSockBind:
  assumes "val W FD_t fd" "ok_SocketAddress W bindAddr" "ok_SocketAddress W addr" "val W Errno_t errno"
    "EncodeSockBind W [] fd bindAddr addr errno = Inr b" "length b < 4294967296"
  shows "DecodeSockBind W b = Inr (fd, bindAddr, addr, errno)"
  using assms by (auto simp: EncodeSockBind_def DecodeSockBind_def encode_append)

lemma EncodeSockBind_returns:
  assumes "val W FD_t fd" "ok_SocketAddress W bindAddr" "ok_SocketAddress W addr" "val W Errno_t errno"
  shows "\<exists>b. EncodeSockBind W [] fd bindAddr addr errno = Inr b"
  using assms by (simp add: EncodeSockBind_def encode_append)


definition EncodeSockConnect :: "'v wasi \<Rightarrow> bytes \<Rightarrow> int \<Rightarrow> SocketAddress \<Rightarrow> SocketAddress \<Rightarrow> int \<Rightarrow> string + bytes" where
  "EncodeSockConnect W buffer fd peer addr errno =
     (let buffer = encodeErrno buffer errno;
          buffer = encodeFD buffer fd
      in (case encodeSocketAddress W buffer peer of
        Inl p \<Rightarrow> Inl p
      | Inr buffer \<Rightarrow> encodeSocketAddress W buffer addr))"

definition DecodeSockConnect ::
  "'v wasi \<Rightarrow> bytes \<Rightarrow> error + (int \<times> SocketAddress \<times> SocketAddress \<times> int)" where
  "DecodeSockConnect W buffer =
     (case decodeErrno W buffer of Inl err \<Rightarrow> Inl err | Inr (errno, buffer) \<Rightarrow>
     (case decodeFD W buffer of Inl err \<Rightarrow> Inl err | Inr (fd, buffer) \<Rightarrow>
     (case decodeSocketAddress W buffer of Inl err \<Rightarrow> Inl err | Inr (peer, buffer) \<Rightarrow>
     (case decodeSocketAddress W buffer of Inl err \<Rightarrow> Inl err | Inr (addr, _) \<Rightarrow>
        Inr (fd, peer, addr, errno)))))"

lemma DecodeSockConnect_EncodeSockConnect:
  assumes "val W FD_t fd" "ok_SocketAddress W peer" "ok_SocketAddress W addr" "val W Errno_t errno"
    "EncodeSockConnect W [] fd peer addr errno = Inr b" "length b < 4294967296"
  shows "DecodeSockConnect W b = Inr (fd, peer, addr, errno)"
  using assms by (auto simp: EncodeSockConnect_def DecodeSockConnect_def encode_append)

lemma EncodeSockConnect_returns:
  assumes "val W FD_t fd" "ok_SocketAddress W peer" "ok_SocketAddress W addr" "val W Errno_t errno"
  shows "\<exists>b. EncodeSockConnect W [] fd peer addr errno = Inr b"
  using assms by (simp add: EncodeSockConnect_def encode_append)


definition EncodeSockListen :: "bytes \<Rightarrow> int \<Rightarrow> int \<Rightarrow> int \<Rightarrow> bytes" where
  "EncodeSockListen buffer fd backlog errno =
     (let buffer = encodeErrno buffer errno;
          buffer = encodeFD buffer fd
      in encodeInt buffer backlog)"

definition DecodeSockListen ::
  "'v wasi \<Rightarrow> bytes \<Rightarrow> error + (int \<times> int \<times> int)" where
  "DecodeSockListen W buffer =
     (case decodeErrno W buffer of Inl err \<Rightarrow> Inl err | Inr (errno, buffer) \<Rightarrow>
     (case decodeFD W buffer of Inl err \<Rightarrow> Inl err | Inr (fd, buffer) \<Rightarrow>
     (case decodeInt buffer of Inl err \<Rightarrow> Inl err | Inr (backlog, _) \<Rightarrow>
        Inr (fd, backlog, errno))))"

lemma DecodeSockListen_EncodeSockListen:
  assumes "val W FD_t fd" "fits go_int backlog" "val W Errno_t errno"
    "length (EncodeSockListen [] fd backlog errno) < 4294967296"
  shows "DecodeSockListen W (EncodeSockListen [] fd backlog errno)
    = Inr (fd, backlog, errno)"
  using assms by (simp add: EncodeSockListen_def DecodeSockListen_def encode_append)


definition EncodeSockSendTo :: "'v wasi \<Rightarrow> bytes \<Rightarrow> int \<Rightarrow> bytes list \<Rightarrow> int \<Rightarrow> SocketAddress \<Rightarrow> int \<Rightarrow> int \<Rightarrow> string + bytes" where
  "EncodeSockSendTo W buffer fd iovecs iflags addr sz errno =
     (let buffer = encodeErrno buffer errno;
          buffer = encodeFD buffer fd;
          buffer = encodeIOVecs buffer iovecs;
          buffer = encodeSIFlags buffer iflags
      in (case encodeSocketAddress W buffer addr of
        Inl p \<Rightarrow> Inl p
      | Inr buffer \<Rightarrow> Inr (encodeSize buffer sz)))"

definition DecodeSockSendTo ::
  "'v wasi \<Rightarrow> bytes \<Rightarrow> bytes list \<Rightarrow> error + (int \<times> bytes list \<times> int \<times> SocketAddress \<times> int \<times> int)" where
  "DecodeSockSendTo W buffer iovecs =
     (case decodeErrno W buffer of Inl err \<Rightarrow> Inl err | Inr (errno, buffer) \<Rightarrow>
     (case decodeFD W buffer of Inl err \<Rightarrow> Inl err | Inr (fd, buffer) \<Rightarrow>
     (case decodeIOVecs buffer iovecs of Inl err \<Rightarrow> Inl err | Inr (iovecs, buffer) \<Rightarrow>
     (case decodeSIFlags W buffer of Inl err \<Rightarrow> Inl err | Inr (iflags, buffer) \<Rightarrow>
     (case decodeSocketAddress W buffer of Inl err \<Rightarrow> Inl err | Inr (addr, buffer) \<Rightarrow>
     (case decodeSize W buffer of Inl err \<Rightarrow> Inl err | Inr (sz, _) \<Rightarrow>
        Inr (fd, iovecs, iflags, addr, sz, errno)))))))"

lemma DecodeSockSendTo_EncodeSockSendTo:
  assumes "val W FD_t fd" "val W SIFlags_t iflags" "ok_SocketAddress W addr" "val W Size_t sz" "val W
    Errno_t errno"
    "EncodeSockSendTo W [] fd iovecs iflags addr sz errno = Inr b" "length b < 4294967296"
  shows "DecodeSockSendTo W b cache = Inr (fd, iovecs, iflags, addr, sz, errno)"
  using assms by (auto simp: EncodeSockSendTo_def DecodeSockSendTo_def encode_append)

lemma EncodeSockSendTo_returns:
  assumes "val W FD_t fd" "val W SIFlags_t iflags" "ok_SocketAddress W addr" "val W Size_t sz" "val W
    Errno_t errno"
  shows "\<exists>b. EncodeSockSendTo W [] fd iovecs iflags addr sz errno = Inr b"
  using assms by (simp add: EncodeSockSendTo_def encode_append)


definition EncodeSockRecvFrom :: "'v wasi \<Rightarrow> bytes \<Rightarrow> int \<Rightarrow> bytes list \<Rightarrow> int \<Rightarrow> int \<Rightarrow> int \<Rightarrow> SocketAddress \<Rightarrow> int \<Rightarrow> string + bytes" where
  "EncodeSockRecvFrom W buffer fd iovecs iflags sz oflags addr errno =
     (let buffer = encodeErrno buffer errno;
          buffer = encodeFD buffer fd;
          buffer = encodeIOVecsPrefix W buffer iovecs sz;
          buffer = encodeRIFlags buffer iflags;
          buffer = encodeSize buffer sz;
          buffer = encodeROFlags buffer oflags
      in encodeSocketAddress W buffer addr)"

definition DecodeSockRecvFrom ::
  "'v wasi \<Rightarrow> bytes \<Rightarrow> bytes list \<Rightarrow> error + (int \<times> bytes list \<times> int \<times> int \<times> int \<times> SocketAddress \<times> int)" where
  "DecodeSockRecvFrom W buffer iovecs =
     (case decodeErrno W buffer of Inl err \<Rightarrow> Inl err | Inr (errno, buffer) \<Rightarrow>
     (case decodeFD W buffer of Inl err \<Rightarrow> Inl err | Inr (fd, buffer) \<Rightarrow>
     (case decodeIOVecs buffer iovecs of Inl err \<Rightarrow> Inl err | Inr (iovecs, buffer) \<Rightarrow>
     (case decodeRIFlags W buffer of Inl err \<Rightarrow> Inl err | Inr (iflags, buffer) \<Rightarrow>
     (case decodeSize W buffer of Inl err \<Rightarrow> Inl err | Inr (sz, buffer) \<Rightarrow>
     (case decodeROFlags W buffer of Inl err \<Rightarrow> Inl err | Inr (oflags, buffer) \<Rightarrow>
     (case decodeSocketAddress W buffer of Inl err \<Rightarrow> Inl err | Inr (addr, _) \<Rightarrow>
        Inr (fd, iovecs, iflags, sz, oflags, addr, errno))))))))"

lemma DecodeSockRecvFrom_EncodeSockRecvFrom:
  assumes "val W FD_t fd" "val W RIFlags_t iflags" "val W ROFlags_t oflags" "ok_SocketAddress W addr" "val W
    Errno_t errno" "size_bound W (int (length (concat iovecs)))" "size_bound W sz"
    "EncodeSockRecvFrom W [] fd iovecs iflags sz oflags addr errno = Inr b" "length b < 4294967296"
  shows "DecodeSockRecvFrom W b cache = Inr (fd, recorded_iovecs iovecs sz, iflags, sz, oflags, addr, errno)"
  using assms by (auto simp: EncodeSockRecvFrom_def DecodeSockRecvFrom_def encode_append encodeIOVecsPrefix_eq)

lemma EncodeSockRecvFrom_returns:
  assumes "val W FD_t fd" "val W RIFlags_t iflags" "val W ROFlags_t oflags" "ok_SocketAddress W addr" "val W
    Errno_t errno" "size_bound W (int (length (concat iovecs)))" "size_bound W sz"
  shows "\<exists>b. EncodeSockRecvFrom W [] fd iovecs iflags sz oflags addr errno = Inr b"
  using assms by (simp add: EncodeSockRecvFrom_def encode_append)


definition EncodeSockGetOpt :: "bytes \<Rightarrow> int \<Rightarrow> int \<Rightarrow> SocketOptionValue \<Rightarrow> int \<Rightarrow> string + bytes" where
  "EncodeSockGetOpt buffer fd opt value errno =
     (let buffer = encodeErrno buffer errno;
          buffer = encodeFD buffer fd;
          buffer = encodeSocketOption buffer opt
      in encodeSocketOptionValue buffer value)"

definition DecodeSockGetOpt ::
  "'v wasi \<Rightarrow> bytes \<Rightarrow> error + (int \<times> int \<times> SocketOptionValue \<times> int)" where
  "DecodeSockGetOpt W buffer =
     (case decodeErrno W buffer of Inl err \<Rightarrow> Inl err | Inr (errno, buffer) \<Rightarrow>
     (case decodeFD W buffer of Inl err \<Rightarrow> Inl err | Inr (fd, buffer) \<Rightarrow>
     (case decodeSocketOption W buffer of Inl err \<Rightarrow> Inl err | Inr (opt, buffer) \<Rightarrow>
     (case decodeSocketOptionValue W buffer of Inl err \<Rightarrow> Inl err | Inr (value, _) \<Rightarrow>
        Inr (fd, opt, value, errno)))))"

lemma DecodeSockGetOpt_EncodeSockGetOpt:
  assumes "val W FD_t fd" "val W SocketOption_t opt" "ok_SocketOptionValue W value" "val W Errno_t errno"
    "EncodeSockGetOpt [] fd opt value errno = Inr b" "length b < 4294967296"
  shows "DecodeSockGetOpt W b = Inr (fd, opt, value, errno)"
  using assms by (auto simp: EncodeSockGetOpt_def DecodeSockGetOpt_def encode_append)

lemma EncodeSockGetOpt_returns:
  assumes "val W FD_t fd" "val W SocketOption_t opt" "ok_SocketOptionValue W value" "val W Errno_t errno"
  shows "\<exists>b. EncodeSockGetOpt [] fd opt value errno = Inr b"
  using assms by (simp add: EncodeSockGetOpt_def encode_append)


definition EncodeSockSetOpt :: "bytes \<Rightarrow> int \<Rightarrow> int \<Rightarrow> SocketOptionValue \<Rightarrow> int \<Rightarrow> string + bytes" where
  "EncodeSockSetOpt buffer fd opt value errno =
     (let buffer = encodeErrno buffer errno;
          buffer = encodeFD buffer fd;
          buffer = encodeSocketOption buffer opt
      in encodeSocketOptionValue buffer value)"

definition DecodeSockSetOpt ::
  "'v wasi \<Rightarrow> bytes \<Rightarrow> error + (int \<times> int \<times> SocketOptionValue \<times> int)" where
  "DecodeSockSetOpt W buffer =
     (case decodeErrno W buffer of Inl err \<Rightarrow> Inl err | Inr (errno, buffer) \<Rightarrow>
     (case decodeFD W buffer of Inl err \<Rightarrow> Inl err | Inr (fd, buffer) \<Rightarrow>
     (case decodeSocketOption W buffer of Inl err \<Rightarrow> Inl err | Inr (opt, buffer) \<Rightarrow>
     (case decodeSocketOptionValue W buffer of Inl err \<Rightarrow> Inl err | Inr (value, _) \<Rightarrow>
        Inr (fd, opt, value, errno)))))"

lemma DecodeSockSetOpt_EncodeSockSetOpt:
  assumes "val W FD_t fd" "val W SocketOption_t opt" "ok_SocketOptionValue W value" "val W Errno_t errno"
    "EncodeSockSetOpt [] fd opt value errno = Inr b" "length b < 4294967296"
  shows "DecodeSockSetOpt W b = Inr (fd, opt, value, errno)"
  using assms by (auto simp: EncodeSockSetOpt_def DecodeSockSetOpt_def encode_append)

lemma EncodeSockSetOpt_returns:
  assumes "val W FD_t fd" "val W SocketOption_t opt" "ok_SocketOptionValue W value" "val W Errno_t errno"
  shows "\<exists>b. EncodeSockSetOpt [] fd opt value errno = Inr b"
  using assms by (simp add: EncodeSockSetOpt_def encode_append)


definition EncodeSockLocalAddress :: "'v wasi \<Rightarrow> bytes \<Rightarrow> int \<Rightarrow> SocketAddress \<Rightarrow> int \<Rightarrow> string + bytes" where
  "EncodeSockLocalAddress W buffer fd addr errno =
     (let buffer = encodeErrno buffer errno;
          buffer = encodeFD buffer fd
      in encodeSocketAddress W buffer addr)"

definition DecodeSockLocalAddress ::
  "'v wasi \<Rightarrow> bytes \<Rightarrow> error + (int \<times> SocketAddress \<times> int)" where
  "DecodeSockLocalAddress W buffer =
     (case decodeErrno W buffer of Inl err \<Rightarrow> Inl err | Inr (errno, buffer) \<Rightarrow>
     (case decodeFD W buffer of Inl err \<Rightarrow> Inl err | Inr (fd, buffer) \<Rightarrow>
     (case decodeSocketAddress W buffer of Inl err \<Rightarrow> Inl err | Inr (addr, _) \<Rightarrow>
        Inr (fd, addr, errno))))"

lemma DecodeSockLocalAddress_EncodeSockLocalAddress:
  assumes "val W FD_t fd" "ok_SocketAddress W addr" "val W Errno_t errno"
    "EncodeSockLocalAddress W [] fd addr errno = Inr b" "length b < 4294967296"
  shows "DecodeSockLocalAddress W b = Inr (fd, addr, errno)"
  using assms by (auto simp: EncodeSockLocalAddress_def DecodeSockLocalAddress_def encode_append)

lemma EncodeSockLocalAddress_returns:
  assumes "val W FD_t fd" "ok_SocketAddress W addr" "val W Errno_t errno"
  shows "\<exists>b. EncodeSockLocalAddress W [] fd addr errno = Inr b"
  using assms by (simp add: EncodeSockLocalAddress_def encode_append)


definition EncodeSockRemoteAddress :: "'v wasi \<Rightarrow> bytes \<Rightarrow> int \<Rightarrow> SocketAddress \<Rightarrow> int \<Rightarrow> string + bytes" where
  "EncodeSockRemoteAddress W buffer fd addr errno =
     (let buffer = encodeErrno buffer errno;
          buffer = encodeFD buffer fd
      in encodeSocketAddress W buffer addr)"

definition DecodeSockRemoteAddress ::
  "'v wasi \<Rightarrow> bytes \<Rightarrow> error + (int \<times> SocketAddress \<times> int)" where
  "DecodeSockRemoteAddress W buffer =
     (case decodeErrno W buffer of Inl err \<Rightarrow> Inl err | Inr (errno, buffer) \<Rightarrow>
     (case decodeFD W buffer of Inl err \<Rightarrow> Inl err | Inr (fd, buffer) \<Rightarrow>
     (case decodeSocketAddress W buffer of Inl err \<Rightarrow> Inl err | Inr (addr, _) \<Rightarrow>
        Inr (fd, addr, errno))))"

lemma DecodeSockRemoteAddress_EncodeSockRemoteAddress:
  assumes "val W FD_t fd" "ok_SocketAddress W addr" "val W Errno_t errno"
    "EncodeSockRemoteAddress W [] fd addr errno = Inr b" "length b < 4294967296"
  shows "DecodeSockRemoteAddress W b = Inr (fd, addr, errno)"
  using assms by (auto simp: EncodeSockRemoteAddress_def DecodeSockRemoteAddress_def encode_append)

lemma EncodeSockRemoteAddress_returns:
  assumes "val W FD_t fd" "ok_SocketAddress W addr" "val W Errno_t errno"
  shows "\<exists>b. EncodeSockRemoteAddress W [] fd addr errno = Inr b"
  using assms by (simp add: EncodeSockRemoteAddress_def encode_append)


definition EncodeSockAddressInfo :: "'v wasi \<Rightarrow> bytes \<Rightarrow> bytes \<Rightarrow> bytes \<Rightarrow> AddressInfo \<Rightarrow> AddressInfo list \<Rightarrow> int \<Rightarrow> string + bytes" where
  "EncodeSockAddressInfo W buffer name service hint results errno =
     (let buffer = encodeErrno buffer errno;
          buffer = encodeString buffer name;
          buffer = encodeString buffer service
      in (case encodeAddressInfo W buffer hint of
        Inl p \<Rightarrow> Inl p
      | Inr buffer \<Rightarrow> encodeAddressInfos W buffer results))"

definition DecodeSockAddressInfo ::
  "'v wasi \<Rightarrow> bytes \<Rightarrow> AddressInfo list \<Rightarrow> error + (bytes \<times> bytes \<times> AddressInfo \<times> AddressInfo list \<times> int)" where
  "DecodeSockAddressInfo W buffer results =
     (case decodeErrno W buffer of Inl err \<Rightarrow> Inl err | Inr (errno, buffer) \<Rightarrow>
     (case decodeString buffer of Inl err \<Rightarrow> Inl err | Inr (name, buffer) \<Rightarrow>
     (case decodeString buffer of Inl err \<Rightarrow> Inl err | Inr (service, buffer) \<Rightarrow>
     (case decodeAddressInfo W buffer of Inl err \<Rightarrow> Inl err | Inr (hint, buffer) \<Rightarrow>
     (case decodeAddressInfos W buffer results of Inl err \<Rightarrow> Inl err | Inr (results, _) \<Rightarrow>
        Inr (name, service, hint, results, errno))))))"

lemma DecodeSockAddressInfo_EncodeSockAddressInfo:
  assumes "ok_AddressInfo W hint" "list_all (ok_AddressInfo W) results" "val W Errno_t errno"
    "EncodeSockAddressInfo W [] name service hint results errno = Inr b" "length b < 4294967296"
  shows "DecodeSockAddressInfo W b cache = Inr (name, service, hint, results, errno)"
  using assms by (auto simp: EncodeSockAddressInfo_def DecodeSockAddressInfo_def encode_append)

lemma EncodeSockAddressInfo_returns:
  assumes "ok_AddressInfo W hint" "list_all (ok_AddressInfo W) results" "val W Errno_t errno"
  shows "\<exists>b. EncodeSockAddressInfo W [] name service hint results errno = Inr b"
  using assms by (simp add: EncodeSockAddressInfo_def encode_append)

end
