(* ===== verification/Syscall.thy ===== *)
theory Syscall
  imports Codec
begin

text \<open>
  System calls as data (\<^verbatim>\<open>internal/timemachine/wasicall/syscall.go\<close>): the identifiers \<^verbatim>\<open>SyscallID\<close>, one
  constructor per \<^verbatim>\<open>XSyscall\<close> structure, the interface \<^verbatim>\<open>Syscall\<close> as their union, and its methods \<^verbatim>\<open>ID\<close>,
  \<^verbatim>\<open>Error\<close>, \<^verbatim>\<open>Params\<close> and \<^verbatim>\<open>Results\<close>. The structures are grouped in families (environment and clocks,
  descriptors, paths, processes, sockets), each a datatype.

  Beside them: the records of the log as its readers see them (\<^verbatim>\<open>timemachine.Record\<close>) and the values the
  package panics with.
\<close>

section \<open>Log records and panics\<close>

record Record =
  Record_Offset :: int
  Record_Time :: int
  Record_FunctionID :: int
  Record_FunctionCall :: bytes

text \<open>The dynamic types of the values that \<^verbatim>\<open>Params\<close>, \<^verbatim>\<open>Results\<close> and the errors carry as \<^verbatim>\<open>any\<close>.\<close>

datatype 'v any =
    AnyInt int
  | AnyBytes bytes
  | AnyBytesList "bytes list"
  | AnyFDStat FDStat
  | AnyFileStat FileStat
  | AnyPreStat PreStat
  | AnySubscriptions "'v Subscription list"
  | AnyEvents "Event list"
  | AnyDirEntries "DirEntry list"
  | AnySocketAddress SocketAddress
  | AnySocketOptionValue SocketOptionValue
  | AnyAddressInfo AddressInfo
  | AnyAddressInfos "AddressInfo list"

text \<open>
  What the package panics with. \<open>Joined\<close> is \<^verbatim>\<open>errors.Join\<close>, \<open>ExitError\<close> is \<^verbatim>\<open>sys.NewExitError\<close>,
  \<open>PanicMessage\<close> a string given to \<^verbatim>\<open>panic\<close>, \<open>RuntimeError\<close> a failed bounds check and \<open>SystemPanic\<close> any
  value that the system below panics with.
\<close>

datatype 'v panic =
    ReadError error
  | DecodeError Record error
  | UnexpectedSyscallParamError int string "'v any" "'v any"
  | UnexpectedSyscallError int int
  | Joined "'v panic list"
  | ExitError int
  | PanicMessage string
  | RuntimeError string
  | SystemPanic nat

section \<open>Identifiers\<close>

definition ArgsSizesGet :: int where [simp]: "ArgsSizesGet = 0"
definition ArgsGet :: int where [simp]: "ArgsGet = 1"
definition EnvironSizesGet :: int where [simp]: "EnvironSizesGet = 2"
definition EnvironGet :: int where [simp]: "EnvironGet = 3"
definition ClockResGet :: int where [simp]: "ClockResGet = 4"
definition ClockTimeGet :: int where [simp]: "ClockTimeGet = 5"
definition FDAdvise :: int where [simp]: "FDAdvise = 6"
definition FDAllocate :: int where [simp]: "FDAllocate = 7"
definition FDClose :: int where [simp]: "FDClose = 8"
definition FDDataSync :: int where [simp]: "FDDataSync = 9"
definition FDStatGet :: int where [simp]: "FDStatGet = 10"
definition FDStatSetFlags :: int where [simp]: "FDStatSetFlags = 11"
definition FDStatSetRights :: int where [simp]: "FDStatSetRights = 12"
definition FDFileStatGet :: int where [simp]: "FDFileStatGet = 13"
definition FDFileStatSetSize :: int where [simp]: "FDFileStatSetSize = 14"
definition FDFileStatSetTimes :: int where [simp]: "FDFileStatSetTimes = 15"
definition FDPread :: int where [simp]: "FDPread = 16"
definition FDPreStatGet :: int where [simp]: "FDPreStatGet = 17"
definition FDPreStatDirName :: int where [simp]: "FDPreStatDirName = 18"
definition FDPwrite :: int where [simp]: "FDPwrite = 19"
definition FDRead :: int where [simp]: "FDRead = 20"
definition FDReadDir :: int where [simp]: "FDReadDir = 21"
definition FDRenumber :: int where [simp]: "FDRenumber = 22"
definition FDSeek :: int where [simp]: "FDSeek = 23"
definition FDSync :: int where [simp]: "FDSync = 24"
definition FDTell :: int where [simp]: "FDTell = 25"
definition FDWrite :: int where [simp]: "FDWrite = 26"
definition PathCreateDirectory :: int where [simp]: "PathCreateDirectory = 27"
definition PathFileStatGet :: int where [simp]: "PathFileStatGet = 28"
definition PathFileStatSetTimes :: int where [simp]: "PathFileStatSetTimes = 29"
definition PathLink :: int where [simp]: "PathLink = 30"
definition PathOpen :: int where [simp]: "PathOpen = 31"
definition PathReadLink :: int where [simp]: "PathReadLink = 32"
definition PathRemoveDirectory :: int where [simp]: "PathRemoveDirectory = 33"
definition PathRename :: int where [simp]: "PathRename = 34"
definition PathSymlink :: int where [simp]: "PathSymlink = 35"
definition PathUnlinkFile :: int where [simp]: "PathUnlinkFile = 36"
definition PollOneOff :: int where [simp]: "PollOneOff = 37"
definition ProcExit :: int where [simp]: "ProcExit = 38"
definition ProcRaise :: int where [simp]: "ProcRaise = 39"
definition SchedYield :: int where [simp]: "SchedYield = 40"
definition RandomGet :: int where [simp]: "RandomGet = 41"
definition SockAccept :: int where [simp]: "SockAccept = 42"
definition SockRecv :: int where [simp]: "SockRecv = 43"
definition SockSend :: int where [simp]: "SockSend = 44"
definition SockShutdown :: int where [simp]: "SockShutdown = 45"
definition SockOpen :: int where [simp]: "SockOpen = 46"
definition SockBind :: int where [simp]: "SockBind = 47"
definition SockConnect :: int where [simp]: "SockConnect = 48"
definition SockListen :: int where [simp]: "SockListen = 49"
definition SockSendTo :: int where [simp]: "SockSendTo = 50"
definition SockRecvFrom :: int where [simp]: "SockRecvFrom = 51"
definition SockGetOpt :: int where [simp]: "SockGetOpt = 52"
definition SockSetOpt :: int where [simp]: "SockSetOpt = 53"
definition SockLocalAddress :: int where [simp]: "SockLocalAddress = 54"
definition SockRemoteAddress :: int where [simp]: "SockRemoteAddress = 55"
definition SockAddressInfo :: int where [simp]: "SockAddressInfo = 56"

definition syscallIDStrings :: "string list" where
  "syscallIDStrings =
    [''ArgsSizesGet'', ''ArgsGet'', ''EnvironSizesGet'', ''EnvironGet'',
     ''ClockResGet'', ''ClockTimeGet'', ''FDAdvise'', ''FDAllocate'',
     ''FDClose'', ''FDDataSync'', ''FDStatGet'', ''FDStatSetFlags'',
     ''FDStatSetRights'', ''FDFileStatGet'', ''FDFileStatSetSize'', ''FDFileStatSetTimes'',
     ''FDPread'', ''FDPreStatGet'', ''FDPreStatDirName'', ''FDPwrite'',
     ''FDRead'', ''FDReadDir'', ''FDRenumber'', ''FDSeek'',
     ''FDSync'', ''FDTell'', ''FDWrite'', ''PathCreateDirectory'',
     ''PathFileStatGet'', ''PathFileStatSetTimes'', ''PathLink'', ''PathOpen'',
     ''PathReadLink'', ''PathRemoveDirectory'', ''PathRename'', ''PathSymlink'',
     ''PathUnlinkFile'', ''PollOneOff'', ''ProcExit'', ''ProcRaise'',
     ''SchedYield'', ''RandomGet'', ''SockAccept'', ''SockRecv'',
     ''SockSend'', ''SockShutdown'', ''SockOpen'', ''SockBind'',
     ''SockConnect'', ''SockListen'', ''SockSendTo'', ''SockRecvFrom'',
     ''SockGetOpt'', ''SockSetOpt'', ''SockLocalAddress'', ''SockRemoteAddress'',
     ''SockAddressInfo'']"

text \<open>Decimal notation, for \<^verbatim>\<open>fmt.Sprintf\<close> of a \<^verbatim>\<open>%d\<close>.\<close>

fun decimal :: "nat \<Rightarrow> string" where
  "decimal n = (if n < 10 then [char_of (48 + n)] else decimal (n div 10) @ [char_of (48 + n mod 10)])"

declare decimal.simps [simp del]

text \<open>A negative identifier passes the guard and fails the bounds check of the table.\<close>

definition SyscallID_String :: "int \<Rightarrow> ('v panic, string) outcome" where
  "SyscallID_String s =
     (if int (length syscallIDStrings) \<le> s then Return (''SyscallID('' @ decimal (nat s) @ '')'')
      else if s < 0 then Panic (RuntimeError ''index out of range'')
      else Return (syscallIDStrings ! nat s))"

section \<open>System calls\<close>

datatype env_syscall =
    ArgsSizesGetSyscall int int int
  | ArgsGetSyscall "bytes list" int
  | EnvironSizesGetSyscall int int int
  | EnvironGetSyscall "bytes list" int
  | ClockResGetSyscall int int int
  | ClockTimeGetSyscall int int int int

datatype fd_syscall =
    FDAdviseSyscall int int int int int
  | FDAllocateSyscall int int int int
  | FDCloseSyscall int int
  | FDDataSyncSyscall int int
  | FDStatGetSyscall int FDStat int
  | FDStatSetFlagsSyscall int int int
  | FDStatSetRightsSyscall int int int int
  | FDFileStatGetSyscall int FileStat int
  | FDFileStatSetSizeSyscall int int int
  | FDFileStatSetTimesSyscall int int int int int
  | FDPreadSyscall int "bytes list" int int int
  | FDPreStatGetSyscall int PreStat int
  | FDPreStatDirNameSyscall int bytes int
  | FDPwriteSyscall int "bytes list" int int int
  | FDReadSyscall int "bytes list" int int
  | FDReadDirSyscall int "DirEntry list" int int int
  | FDRenumberSyscall int int int
  | FDSeekSyscall int int int int int
  | FDSyncSyscall int int
  | FDTellSyscall int int int
  | FDWriteSyscall int "bytes list" int int

datatype path_syscall =
    PathCreateDirectorySyscall int bytes int
  | PathFileStatGetSyscall int int bytes FileStat int
  | PathFileStatSetTimesSyscall int int bytes int int int int
  | PathLinkSyscall int int bytes int bytes int
  | PathOpenSyscall int int bytes int int int int int int
  | PathReadLinkSyscall int bytes bytes int
  | PathRemoveDirectorySyscall int bytes int
  | PathRenameSyscall int bytes int bytes int
  | PathSymlinkSyscall bytes int bytes int
  | PathUnlinkFileSyscall int bytes int

datatype 'v proc_syscall =
    PollOneOffSyscall "'v Subscription list" "Event list" int
  | ProcExitSyscall int int
  | ProcRaiseSyscall int int
  | SchedYieldSyscall int
  | RandomGetSyscall bytes int

datatype sock_syscall =
    SockAcceptSyscall int int int SocketAddress SocketAddress int
  | SockShutdownSyscall int int int
  | SockRecvSyscall int "bytes list" int int int int
  | SockSendSyscall int "bytes list" int int int
  | SockOpenSyscall int int int int int int int
  | SockBindSyscall int SocketAddress SocketAddress int
  | SockConnectSyscall int SocketAddress SocketAddress int
  | SockListenSyscall int int int
  | SockSendToSyscall int "bytes list" int SocketAddress int int
  | SockRecvFromSyscall int "bytes list" int int int SocketAddress int
  | SockGetOptSyscall int int SocketOptionValue int
  | SockSetOptSyscall int int SocketOptionValue int
  | SockLocalAddressSyscall int SocketAddress int
  | SockRemoteAddressSyscall int SocketAddress int
  | SockAddressInfoSyscall bytes bytes AddressInfo "AddressInfo list" int

datatype 'v Syscall =
    EnvCall env_syscall
  | FDCall fd_syscall
  | PathCall path_syscall
  | ProcCall "'v proc_syscall"
  | SockCall sock_syscall

fun env_ID :: "env_syscall \<Rightarrow> int" where
  "env_ID (ArgsSizesGetSyscall _ _ _) = ArgsSizesGet"
| "env_ID (ArgsGetSyscall _ _) = ArgsGet"
| "env_ID (EnvironSizesGetSyscall _ _ _) = EnvironSizesGet"
| "env_ID (EnvironGetSyscall _ _) = EnvironGet"
| "env_ID (ClockResGetSyscall _ _ _) = ClockResGet"
| "env_ID (ClockTimeGetSyscall _ _ _ _) = ClockTimeGet"

fun fd_ID :: "fd_syscall \<Rightarrow> int" where
  "fd_ID (FDAdviseSyscall _ _ _ _ _) = FDAdvise"
| "fd_ID (FDAllocateSyscall _ _ _ _) = FDAllocate"
| "fd_ID (FDCloseSyscall _ _) = FDClose"
| "fd_ID (FDDataSyncSyscall _ _) = FDDataSync"
| "fd_ID (FDStatGetSyscall _ _ _) = FDStatGet"
| "fd_ID (FDStatSetFlagsSyscall _ _ _) = FDStatSetFlags"
| "fd_ID (FDStatSetRightsSyscall _ _ _ _) = FDStatSetRights"
| "fd_ID (FDFileStatGetSyscall _ _ _) = FDFileStatGet"
| "fd_ID (FDFileStatSetSizeSyscall _ _ _) = FDFileStatSetSize"
| "fd_ID (FDFileStatSetTimesSyscall _ _ _ _ _) = FDFileStatSetTimes"
| "fd_ID (FDPreadSyscall _ _ _ _ _) = FDPread"
| "fd_ID (FDPreStatGetSyscall _ _ _) = FDPreStatGet"
| "fd_ID (FDPreStatDirNameSyscall _ _ _) = FDPreStatDirName"
| "fd_ID (FDPwriteSyscall _ _ _ _ _) = FDPwrite"
| "fd_ID (FDReadSyscall _ _ _ _) = FDRead"
| "fd_ID (FDReadDirSyscall _ _ _ _ _) = FDReadDir"
| "fd_ID (FDRenumberSyscall _ _ _) = FDRenumber"
| "fd_ID (FDSeekSyscall _ _ _ _ _) = FDSeek"
| "fd_ID (FDSyncSyscall _ _) = FDSync"
| "fd_ID (FDTellSyscall _ _ _) = FDTell"
| "fd_ID (FDWriteSyscall _ _ _ _) = FDWrite"

fun path_ID :: "path_syscall \<Rightarrow> int" where
  "path_ID (PathCreateDirectorySyscall _ _ _) = PathCreateDirectory"
| "path_ID (PathFileStatGetSyscall _ _ _ _ _) = PathFileStatGet"
| "path_ID (PathFileStatSetTimesSyscall _ _ _ _ _ _ _) = PathFileStatSetTimes"
| "path_ID (PathLinkSyscall _ _ _ _ _ _) = PathLink"
| "path_ID (PathOpenSyscall _ _ _ _ _ _ _ _ _) = PathOpen"
| "path_ID (PathReadLinkSyscall _ _ _ _) = PathReadLink"
| "path_ID (PathRemoveDirectorySyscall _ _ _) = PathRemoveDirectory"
| "path_ID (PathRenameSyscall _ _ _ _ _) = PathRename"
| "path_ID (PathSymlinkSyscall _ _ _ _) = PathSymlink"
| "path_ID (PathUnlinkFileSyscall _ _ _) = PathUnlinkFile"

fun proc_ID :: "'v proc_syscall \<Rightarrow> int" where
  "proc_ID (PollOneOffSyscall _ _ _) = PollOneOff"
| "proc_ID (ProcExitSyscall _ _) = ProcExit"
| "proc_ID (ProcRaiseSyscall _ _) = ProcRaise"
| "proc_ID (SchedYieldSyscall _) = SchedYield"
| "proc_ID (RandomGetSyscall _ _) = RandomGet"

fun sock_ID :: "sock_syscall \<Rightarrow> int" where
  "sock_ID (SockAcceptSyscall _ _ _ _ _ _) = SockAccept"
| "sock_ID (SockShutdownSyscall _ _ _) = SockShutdown"
| "sock_ID (SockRecvSyscall _ _ _ _ _ _) = SockRecv"
| "sock_ID (SockSendSyscall _ _ _ _ _) = SockSend"
| "sock_ID (SockOpenSyscall _ _ _ _ _ _ _) = SockOpen"
| "sock_ID (SockBindSyscall _ _ _ _) = SockBind"
| "sock_ID (SockConnectSyscall _ _ _ _) = SockConnect"
| "sock_ID (SockListenSyscall _ _ _) = SockListen"
| "sock_ID (SockSendToSyscall _ _ _ _ _ _) = SockSendTo"
| "sock_ID (SockRecvFromSyscall _ _ _ _ _ _ _) = SockRecvFrom"
| "sock_ID (SockGetOptSyscall _ _ _ _) = SockGetOpt"
| "sock_ID (SockSetOptSyscall _ _ _ _) = SockSetOpt"
| "sock_ID (SockLocalAddressSyscall _ _ _) = SockLocalAddress"
| "sock_ID (SockRemoteAddressSyscall _ _ _) = SockRemoteAddress"
| "sock_ID (SockAddressInfoSyscall _ _ _ _ _) = SockAddressInfo"

fun Syscall_ID :: "'v Syscall \<Rightarrow> int" where
  "Syscall_ID (EnvCall s) = env_ID s"
| "Syscall_ID (FDCall s) = fd_ID s"
| "Syscall_ID (PathCall s) = path_ID s"
| "Syscall_ID (ProcCall s) = proc_ID s"
| "Syscall_ID (SockCall s) = sock_ID s"

fun env_Error :: "env_syscall \<Rightarrow> int" where
  "env_Error (ArgsSizesGetSyscall _ _ errno) = errno"
| "env_Error (ArgsGetSyscall _ errno) = errno"
| "env_Error (EnvironSizesGetSyscall _ _ errno) = errno"
| "env_Error (EnvironGetSyscall _ errno) = errno"
| "env_Error (ClockResGetSyscall _ _ errno) = errno"
| "env_Error (ClockTimeGetSyscall _ _ _ errno) = errno"

fun fd_Error :: "fd_syscall \<Rightarrow> int" where
  "fd_Error (FDAdviseSyscall _ _ _ _ errno) = errno"
| "fd_Error (FDAllocateSyscall _ _ _ errno) = errno"
| "fd_Error (FDCloseSyscall _ errno) = errno"
| "fd_Error (FDDataSyncSyscall _ errno) = errno"
| "fd_Error (FDStatGetSyscall _ _ errno) = errno"
| "fd_Error (FDStatSetFlagsSyscall _ _ errno) = errno"
| "fd_Error (FDStatSetRightsSyscall _ _ _ errno) = errno"
| "fd_Error (FDFileStatGetSyscall _ _ errno) = errno"
| "fd_Error (FDFileStatSetSizeSyscall _ _ errno) = errno"
| "fd_Error (FDFileStatSetTimesSyscall _ _ _ _ errno) = errno"
| "fd_Error (FDPreadSyscall _ _ _ _ errno) = errno"
| "fd_Error (FDPreStatGetSyscall _ _ errno) = errno"
| "fd_Error (FDPreStatDirNameSyscall _ _ errno) = errno"
| "fd_Error (FDPwriteSyscall _ _ _ _ errno) = errno"
| "fd_Error (FDReadSyscall _ _ _ errno) = errno"
| "fd_Error (FDReadDirSyscall _ _ _ _ errno) = errno"
| "fd_Error (FDRenumberSyscall _ _ errno) = errno"
| "fd_Error (FDSeekSyscall _ _ _ _ errno) = errno"
| "fd_Error (FDSyncSyscall _ errno) = errno"
| "fd_Error (FDTellSyscall _ _ errno) = errno"
| "fd_Error (FDWriteSyscall _ _ _ errno) = errno"

fun path_Error :: "path_syscall \<Rightarrow> int" where
  "path_Error (PathCreateDirectorySyscall _ _ errno) = errno"
| "path_Error (PathFileStatGetSyscall _ _ _ _ errno) = errno"
| "path_Error (PathFileStatSetTimesSyscall _ _ _ _ _ _ errno) = errno"
| "path_Error (PathLinkSyscall _ _ _ _ _ errno) = errno"
| "path_Error (PathOpenSyscall _ _ _ _ _ _ _ _ errno) = errno"
| "path_Error (PathReadLinkSyscall _ _ _ errno) = errno"
| "path_Error (PathRemoveDirectorySyscall _ _ errno) = errno"
| "path_Error (PathRenameSyscall _ _ _ _ errno) = errno"
| "path_Error (PathSymlinkSyscall _ _ _ errno) = errno"
| "path_Error (PathUnlinkFileSyscall _ _ errno) = errno"

fun proc_Error :: "'v proc_syscall \<Rightarrow> int" where
  "proc_Error (PollOneOffSyscall _ _ errno) = errno"
| "proc_Error (ProcExitSyscall _ errno) = errno"
| "proc_Error (ProcRaiseSyscall _ errno) = errno"
| "proc_Error (SchedYieldSyscall errno) = errno"
| "proc_Error (RandomGetSyscall _ errno) = errno"

fun sock_Error :: "sock_syscall \<Rightarrow> int" where
  "sock_Error (SockAcceptSyscall _ _ _ _ _ errno) = errno"
| "sock_Error (SockShutdownSyscall _ _ errno) = errno"
| "sock_Error (SockRecvSyscall _ _ _ _ _ errno) = errno"
| "sock_Error (SockSendSyscall _ _ _ _ errno) = errno"
| "sock_Error (SockOpenSyscall _ _ _ _ _ _ errno) = errno"
| "sock_Error (SockBindSyscall _ _ _ errno) = errno"
| "sock_Error (SockConnectSyscall _ _ _ errno) = errno"
| "sock_Error (SockListenSyscall _ _ errno) = errno"
| "sock_Error (SockSendToSyscall _ _ _ _ _ errno) = errno"
| "sock_Error (SockRecvFromSyscall _ _ _ _ _ _ errno) = errno"
| "sock_Error (SockGetOptSyscall _ _ _ errno) = errno"
| "sock_Error (SockSetOptSyscall _ _ _ errno) = errno"
| "sock_Error (SockLocalAddressSyscall _ _ errno) = errno"
| "sock_Error (SockRemoteAddressSyscall _ _ errno) = errno"
| "sock_Error (SockAddressInfoSyscall _ _ _ _ errno) = errno"

fun Syscall_Error :: "'v Syscall \<Rightarrow> int" where
  "Syscall_Error (EnvCall s) = env_Error s"
| "Syscall_Error (FDCall s) = fd_Error s"
| "Syscall_Error (PathCall s) = path_Error s"
| "Syscall_Error (ProcCall s) = proc_Error s"
| "Syscall_Error (SockCall s) = sock_Error s"

fun env_Params :: "env_syscall \<Rightarrow> 'v any list" where
  "env_Params (ArgsSizesGetSyscall _ _ _) = []"
| "env_Params (ArgsGetSyscall _ _) = []"
| "env_Params (EnvironSizesGetSyscall _ _ _) = []"
| "env_Params (EnvironGetSyscall _ _) = []"
| "env_Params (ClockResGetSyscall clockID _ _) = [AnyInt clockID]"
| "env_Params (ClockTimeGetSyscall clockID precision _ _) = [AnyInt clockID, AnyInt precision]"

fun fd_Params :: "fd_syscall \<Rightarrow> 'v any list" where
  "fd_Params (FDAdviseSyscall fd offset len advice _) =
     [AnyInt fd, AnyInt offset, AnyInt len, AnyInt advice]"
| "fd_Params (FDAllocateSyscall fd offset len _) = [AnyInt fd, AnyInt offset, AnyInt len]"
| "fd_Params (FDCloseSyscall fd _) = [AnyInt fd]"
| "fd_Params (FDDataSyncSyscall fd _) = [AnyInt fd]"
| "fd_Params (FDStatGetSyscall fd _ _) = [AnyInt fd]"
| "fd_Params (FDStatSetFlagsSyscall fd flags _) = [AnyInt fd, AnyInt flags]"
| "fd_Params (FDStatSetRightsSyscall fd rightsBase rightsInheriting _) =
     [AnyInt fd, AnyInt rightsBase, AnyInt rightsInheriting]"
| "fd_Params (FDFileStatGetSyscall fd _ _) = [AnyInt fd]"
| "fd_Params (FDFileStatSetSizeSyscall fd sz _) = [AnyInt fd, AnyInt sz]"
| "fd_Params (FDFileStatSetTimesSyscall fd accessTime modifyTime flags _) =
     [AnyInt fd, AnyInt accessTime, AnyInt modifyTime, AnyInt flags]"
| "fd_Params (FDPreadSyscall fd iovecs offset _ _) = [AnyInt fd, AnyBytesList iovecs, AnyInt offset]"
| "fd_Params (FDPreStatGetSyscall fd _ _) = [AnyInt fd]"
| "fd_Params (FDPreStatDirNameSyscall fd _ _) = [AnyInt fd]"
| "fd_Params (FDPwriteSyscall fd iovecs offset _ _) = [AnyInt fd, AnyBytesList iovecs, AnyInt offset]"
| "fd_Params (FDReadSyscall fd iovecs _ _) = [AnyInt fd, AnyBytesList iovecs]"
| "fd_Params (FDReadDirSyscall fd entries cookie bufferSizeBytes _) =
     [AnyInt fd, AnyDirEntries entries, AnyInt cookie, AnyInt bufferSizeBytes]"
| "fd_Params (FDRenumberSyscall from to _) = [AnyInt from, AnyInt to]"
| "fd_Params (FDSeekSyscall fd offset whence _ _) = [AnyInt fd, AnyInt offset, AnyInt whence]"
| "fd_Params (FDSyncSyscall fd _) = [AnyInt fd]"
| "fd_Params (FDTellSyscall fd _ _) = [AnyInt fd]"
| "fd_Params (FDWriteSyscall fd iovecs _ _) = [AnyInt fd, AnyBytesList iovecs]"

fun path_Params :: "path_syscall \<Rightarrow> 'v any list" where
  "path_Params (PathCreateDirectorySyscall fd path _) = [AnyInt fd, AnyBytes path]"
| "path_Params (PathFileStatGetSyscall fd lookupFlags path _ _) =
     [AnyInt fd, AnyInt lookupFlags, AnyBytes path]"
| "path_Params (PathFileStatSetTimesSyscall fd lookupFlags path accessTime modifyTime flags _) =
     [AnyInt fd, AnyInt lookupFlags, AnyBytes path, AnyInt accessTime, AnyInt modifyTime, AnyInt flags]"
| "path_Params (PathLinkSyscall oldFD oldFlags oldPath newFD newPath _) =
     [AnyInt oldFD, AnyInt oldFlags, AnyBytes oldPath, AnyInt newFD, AnyBytes newPath]"
| "path_Params (PathOpenSyscall fd dirFlags path openFlags rightsBase rightsInheriting fdFlags _ _) =
     [AnyInt fd, AnyInt dirFlags, AnyBytes path, AnyInt openFlags, AnyInt rightsBase, AnyInt rightsInheriting, AnyInt fdFlags]"
| "path_Params (PathReadLinkSyscall fd path _ _) = [AnyInt fd, AnyBytes path]"
| "path_Params (PathRemoveDirectorySyscall fd path _) = [AnyInt fd, AnyBytes path]"
| "path_Params (PathRenameSyscall fd oldPath newFD newPath _) =
     [AnyInt fd, AnyBytes oldPath, AnyInt newFD, AnyBytes newPath]"
| "path_Params (PathSymlinkSyscall oldPath fd newPath _) =
     [AnyBytes oldPath, AnyInt fd, AnyBytes newPath]"
| "path_Params (PathUnlinkFileSyscall fd path _) = [AnyInt fd, AnyBytes path]"

fun proc_Params :: "'v proc_syscall \<Rightarrow> 'v any list" where
  "proc_Params (PollOneOffSyscall subscriptions events _) =
     [AnySubscriptions subscriptions, AnyEvents events]"
| "proc_Params (ProcExitSyscall exitCode _) = [AnyInt exitCode]"
| "proc_Params (ProcRaiseSyscall signal _) = [AnyInt signal]"
| "proc_Params (SchedYieldSyscall _) = []"
| "proc_Params (RandomGetSyscall b _) = [AnyBytes b]"

fun sock_Params :: "sock_syscall \<Rightarrow> 'v any list" where
  "sock_Params (SockAcceptSyscall fd flags _ _ _ _) = [AnyInt fd, AnyInt flags]"
| "sock_Params (SockShutdownSyscall fd flags _) = [AnyInt fd, AnyInt flags]"
| "sock_Params (SockRecvSyscall fd iovecs iflags _ _ _) =
     [AnyInt fd, AnyBytesList iovecs, AnyInt iflags]"
| "sock_Params (SockSendSyscall fd iovecs iflags _ _) =
     [AnyInt fd, AnyBytesList iovecs, AnyInt iflags]"
| "sock_Params (SockOpenSyscall family socketType protocol rightsBase rightsInheriting _ _) =
     [AnyInt family, AnyInt socketType, AnyInt protocol, AnyInt rightsBase, AnyInt rightsInheriting]"
| "sock_Params (SockBindSyscall fd bindAddr _ _) = [AnyInt fd, AnySocketAddress bindAddr]"
| "sock_Params (SockConnectSyscall fd peer _ _) = [AnyInt fd, AnySocketAddress peer]"
| "sock_Params (SockListenSyscall fd backlog _) = [AnyInt fd, AnyInt backlog]"
| "sock_Params (SockSendToSyscall fd iovecs iflags addr _ _) =
     [AnyInt fd, AnyBytesList iovecs, AnyInt iflags, AnySocketAddress addr]"
| "sock_Params (SockRecvFromSyscall fd iovecs iflags _ _ _ _) =
     [AnyInt fd, AnyBytesList iovecs, AnyInt iflags]"
| "sock_Params (SockGetOptSyscall fd opt _ _) = [AnyInt fd, AnyInt opt]"
| "sock_Params (SockSetOptSyscall fd opt value _) =
     [AnyInt fd, AnyInt opt, AnySocketOptionValue value]"
| "sock_Params (SockLocalAddressSyscall fd _ _) = [AnyInt fd]"
| "sock_Params (SockRemoteAddressSyscall fd _ _) = [AnyInt fd]"
| "sock_Params (SockAddressInfoSyscall name service hints _ _) =
     [AnyBytes name, AnyBytes service, AnyAddressInfo hints]"

fun Syscall_Params :: "'v Syscall \<Rightarrow> 'v any list" where
  "Syscall_Params (EnvCall s) = env_Params s"
| "Syscall_Params (FDCall s) = fd_Params s"
| "Syscall_Params (PathCall s) = path_Params s"
| "Syscall_Params (ProcCall s) = proc_Params s"
| "Syscall_Params (SockCall s) = sock_Params s"

fun env_Results :: "env_syscall \<Rightarrow> 'v any list" where
  "env_Results (ArgsSizesGetSyscall argCount stringBytes errno) =
     [AnyInt argCount, AnyInt stringBytes, AnyInt errno]"
| "env_Results (ArgsGetSyscall args errno) = [AnyBytesList args, AnyInt errno]"
| "env_Results (EnvironSizesGetSyscall envCount stringBytes errno) =
     [AnyInt envCount, AnyInt stringBytes, AnyInt errno]"
| "env_Results (EnvironGetSyscall env errno) = [AnyBytesList env, AnyInt errno]"
| "env_Results (ClockResGetSyscall _ timestamp errno) = [AnyInt timestamp, AnyInt errno]"
| "env_Results (ClockTimeGetSyscall _ _ timestamp errno) = [AnyInt timestamp, AnyInt errno]"

fun fd_Results :: "fd_syscall \<Rightarrow> 'v any list" where
  "fd_Results (FDAdviseSyscall _ _ _ _ errno) = [AnyInt errno]"
| "fd_Results (FDAllocateSyscall _ _ _ errno) = [AnyInt errno]"
| "fd_Results (FDCloseSyscall _ errno) = [AnyInt errno]"
| "fd_Results (FDDataSyncSyscall _ errno) = [AnyInt errno]"
| "fd_Results (FDStatGetSyscall _ stat errno) = [AnyFDStat stat, AnyInt errno]"
| "fd_Results (FDStatSetFlagsSyscall _ _ errno) = [AnyInt errno]"
| "fd_Results (FDStatSetRightsSyscall _ _ _ errno) = [AnyInt errno]"
| "fd_Results (FDFileStatGetSyscall _ stat errno) = [AnyFileStat stat, AnyInt errno]"
| "fd_Results (FDFileStatSetSizeSyscall _ _ errno) = [AnyInt errno]"
| "fd_Results (FDFileStatSetTimesSyscall _ _ _ _ errno) = [AnyInt errno]"
| "fd_Results (FDPreadSyscall _ _ _ sz errno) = [AnyInt sz, AnyInt errno]"
| "fd_Results (FDPreStatGetSyscall _ stat errno) = [AnyPreStat stat, AnyInt errno]"
| "fd_Results (FDPreStatDirNameSyscall _ name errno) = [AnyBytes name, AnyInt errno]"
| "fd_Results (FDPwriteSyscall _ _ _ sz errno) = [AnyInt sz, AnyInt errno]"
| "fd_Results (FDReadSyscall _ _ sz errno) = [AnyInt sz, AnyInt errno]"
| "fd_Results (FDReadDirSyscall _ entries _ _ errno) = [AnyInt (int (length entries)), AnyInt errno]"
| "fd_Results (FDRenumberSyscall _ _ errno) = [AnyInt errno]"
| "fd_Results (FDSeekSyscall _ _ _ sz errno) = [AnyInt sz, AnyInt errno]"
| "fd_Results (FDSyncSyscall _ errno) = [AnyInt errno]"
| "fd_Results (FDTellSyscall _ sz errno) = [AnyInt sz, AnyInt errno]"
| "fd_Results (FDWriteSyscall _ _ sz errno) = [AnyInt sz, AnyInt errno]"

fun path_Results :: "path_syscall \<Rightarrow> 'v any list" where
  "path_Results (PathCreateDirectorySyscall _ _ errno) = [AnyInt errno]"
| "path_Results (PathFileStatGetSyscall _ _ _ stat errno) = [AnyFileStat stat, AnyInt errno]"
| "path_Results (PathFileStatSetTimesSyscall _ _ _ _ _ _ errno) = [AnyInt errno]"
| "path_Results (PathLinkSyscall _ _ _ _ _ errno) = [AnyInt errno]"
| "path_Results (PathOpenSyscall _ _ _ _ _ _ _ newFD errno) = [AnyInt newFD, AnyInt errno]"
| "path_Results (PathReadLinkSyscall _ _ output errno) = [AnyBytes output, AnyInt errno]"
| "path_Results (PathRemoveDirectorySyscall _ _ errno) = [AnyInt errno]"
| "path_Results (PathRenameSyscall _ _ _ _ errno) = [AnyInt errno]"
| "path_Results (PathSymlinkSyscall _ _ _ errno) = [AnyInt errno]"
| "path_Results (PathUnlinkFileSyscall _ _ errno) = [AnyInt errno]"

fun proc_Results :: "'v proc_syscall \<Rightarrow> 'v any list" where
  "proc_Results (PollOneOffSyscall _ events errno) = [AnyInt (int (length events)), AnyInt errno]"
| "proc_Results (ProcExitSyscall _ errno) = [AnyInt errno]"
| "proc_Results (ProcRaiseSyscall _ errno) = [AnyInt errno]"
| "proc_Results (SchedYieldSyscall errno) = [AnyInt errno]"
| "proc_Results (RandomGetSyscall _ errno) = [AnyInt errno]"

fun sock_Results :: "sock_syscall \<Rightarrow> 'v any list" where
  "sock_Results (SockAcceptSyscall _ _ newFD peer addr errno) =
     [AnyInt newFD, AnySocketAddress peer, AnySocketAddress addr, AnyInt errno]"
| "sock_Results (SockShutdownSyscall _ _ errno) = [AnyInt errno]"
| "sock_Results (SockRecvSyscall _ _ _ sz oflags errno) = [AnyInt sz, AnyInt oflags, AnyInt errno]"
| "sock_Results (SockSendSyscall _ _ _ sz errno) = [AnyInt sz, AnyInt errno]"
| "sock_Results (SockOpenSyscall _ _ _ _ _ fd errno) = [AnyInt fd, AnyInt errno]"
| "sock_Results (SockBindSyscall _ _ addr errno) = [AnySocketAddress addr, AnyInt errno]"
| "sock_Results (SockConnectSyscall _ _ addr errno) = [AnySocketAddress addr, AnyInt errno]"
| "sock_Results (SockListenSyscall _ _ errno) = [AnyInt errno]"
| "sock_Results (SockSendToSyscall _ _ _ _ sz errno) = [AnyInt sz, AnyInt errno]"
| "sock_Results (SockRecvFromSyscall _ _ _ sz oflags addr errno) =
     [AnyInt sz, AnyInt oflags, AnySocketAddress addr, AnyInt errno]"
| "sock_Results (SockGetOptSyscall _ _ value errno) = [AnySocketOptionValue value, AnyInt errno]"
| "sock_Results (SockSetOptSyscall _ _ _ errno) = [AnyInt errno]"
| "sock_Results (SockLocalAddressSyscall _ addr errno) = [AnySocketAddress addr, AnyInt errno]"
| "sock_Results (SockRemoteAddressSyscall _ addr errno) = [AnySocketAddress addr, AnyInt errno]"
| "sock_Results (SockAddressInfoSyscall _ _ _ res errno) = [AnyAddressInfos res, AnyInt errno]"

fun Syscall_Results :: "'v Syscall \<Rightarrow> 'v any list" where
  "Syscall_Results (EnvCall s) = env_Results s"
| "Syscall_Results (FDCall s) = fd_Results s"
| "Syscall_Results (PathCall s) = path_Results s"
| "Syscall_Results (ProcCall s) = proc_Results s"
| "Syscall_Results (SockCall s) = sock_Results s"

text \<open>The identifiers of the families are disjoint ranges.\<close>

lemma env_ID_range: "env_ID c \<in> {0..5}"
  by (cases c) simp_all

lemma fd_ID_range: "fd_ID c \<in> {6..26}"
  by (cases c) simp_all

lemma path_ID_range: "path_ID c \<in> {27..36}"
  by (cases c) simp_all

lemma proc_ID_range: "proc_ID c \<in> {37..41}"
  by (cases c) simp_all

lemma sock_ID_range: "sock_ID c \<in> {42..56}"
  by (cases c) simp_all

lemma family_distinct:
  "env_ID env_c \<noteq> fd_ID fd_c"
  "env_ID env_c \<noteq> path_ID path_c"
  "env_ID env_c \<noteq> proc_ID proc_c"
  "env_ID env_c \<noteq> sock_ID sock_c"
  "fd_ID fd_c \<noteq> env_ID env_c"
  "fd_ID fd_c \<noteq> path_ID path_c"
  "fd_ID fd_c \<noteq> proc_ID proc_c"
  "fd_ID fd_c \<noteq> sock_ID sock_c"
  "path_ID path_c \<noteq> env_ID env_c"
  "path_ID path_c \<noteq> fd_ID fd_c"
  "path_ID path_c \<noteq> proc_ID proc_c"
  "path_ID path_c \<noteq> sock_ID sock_c"
  "proc_ID proc_c \<noteq> env_ID env_c"
  "proc_ID proc_c \<noteq> fd_ID fd_c"
  "proc_ID proc_c \<noteq> path_ID path_c"
  "proc_ID proc_c \<noteq> sock_ID sock_c"
  "sock_ID sock_c \<noteq> env_ID env_c"
  "sock_ID sock_c \<noteq> fd_ID fd_c"
  "sock_ID sock_c \<noteq> path_ID path_c"
  "sock_ID sock_c \<noteq> proc_ID proc_c"
  using env_ID_range [of env_c]
    fd_ID_range [of fd_c]
    path_ID_range [of path_c]
    proc_ID_range [of proc_c]
    sock_ID_range [of sock_c]
  by auto

lemma Syscall_ID_range: "Syscall_ID s \<in> {0..56}"
proof (cases s)
  case (EnvCall x)
  then show ?thesis
    using env_ID_range [of x] by simp
next
  case (FDCall x)
  then show ?thesis
    using fd_ID_range [of x] by simp
next
  case (PathCall x)
  then show ?thesis
    using path_ID_range [of x] by simp
next
  case (ProcCall x)
  then show ?thesis
    using proc_ID_range [of x] by simp
next
  case (SockCall x)
  then show ?thesis
    using sock_ID_range [of x] by simp
qed

end
