(* ===== verification/Log_Format.thy ===== *)
theory Log_Format
  imports Log_Input Syscall
begin

text \<open>
  The records and record batches of a log segment as the writer builds them
  (\<^verbatim>\<open>internal/timemachine/record.go\<close>, \<^verbatim>\<open>record_batch.go\<close>, \<^verbatim>\<open>compress.go\<close>, \<^verbatim>\<open>checksum.go\<close>).

  The generated package \<^verbatim>\<open>format/logsegment\<close> and the libraries it calls (flatbuffers, snappy, zstd) are
  parameters, the fields of \<open>libraries\<close>: the bytes of a finished, size-prefixed record and batch, the
  accessors of both (\<open>None\<close> where they panic, on bytes that are no flatbuffer), and the two compressors.
  The locale \<open>log_libraries\<close> has what the log relies on.

  A \<^verbatim>\<open>time.Time\<close> is the number of nanoseconds since the epoch.
\<close>

section \<open>Libraries\<close>

record batch_fields =
  fb_FirstOffset :: int
  fb_FirstTimestamp :: int
  fb_LastTimestamp :: int
  fb_CompressedSize :: int
  fb_UncompressedSize :: int
  fb_Checksum :: u32
  fb_NumRecords :: int
  fb_Compression :: int

record record_fields =
  fr_Timestamp :: int
  fr_FunctionId :: int
  fr_FunctionCall :: bytes

text \<open>
  \<open>decode_S dst src\<close> is the result of the decompressor and what the array behind \<open>dst\<close> holds afterwards.
\<close>

record libraries =
  record_bytes :: "record_fields \<Rightarrow> bytes"
  record_root :: "bytes \<Rightarrow> record_fields option"
  batch_bytes :: "batch_fields \<Rightarrow> bytes"
  batch_root :: "bytes \<Rightarrow> batch_fields option"
  snappy_Encode :: "bytes \<Rightarrow> bytes"
  snappy_Decode :: "bytes \<Rightarrow> bytes \<Rightarrow> (error + bytes) \<times> bytes"
  zstd_EncodeAll :: "bytes \<Rightarrow> bytes"
  zstd_DecodeAll :: "bytes \<Rightarrow> bytes \<Rightarrow> (error + bytes) \<times> bytes"

datatype log_panic = BuilderMessage string | SliceBounds | LibraryPanic

section \<open>Checksums and compression\<close>

text \<open>\<^verbatim>\<open>hash/crc32\<close> with the polynomial of Castagnoli, reflected.\<close>

fun crc32_entry :: "nat \<Rightarrow> u32 \<Rightarrow> u32" where
  "crc32_entry 0 crc = crc"
| "crc32_entry (Suc n) crc =
     crc32_entry n (if bit crc 0 then drop_bit 1 crc XOR 0x82f63b78 else drop_bit 1 crc)"

definition castagnoli :: "byte \<Rightarrow> u32" where
  "castagnoli i = crc32_entry 8 (ucast i)"

fun crc32_update :: "u32 \<Rightarrow> bytes \<Rightarrow> u32" where
  "crc32_update crc [] = crc"
| "crc32_update crc (v # p) = crc32_update (castagnoli (ucast crc XOR v) XOR drop_bit 8 crc) p"

definition checksum :: "bytes \<Rightarrow> u32" where
  "checksum b = NOT (crc32_update (NOT 0) b)"

abbreviation (input) Uncompressed :: int where "Uncompressed \<equiv> 0"
abbreviation (input) Snappy :: int where "Snappy \<equiv> 1"
abbreviation (input) Zstd :: int where "Zstd \<equiv> 2"

definition compress :: "libraries \<Rightarrow> bytes \<Rightarrow> int \<Rightarrow> bytes" where
  "compress L src compression =
     (if compression = Snappy then snappy_Encode L src
      else if compression = Zstd then zstd_EncodeAll L src
      else [] @ src)"

definition decompress :: "libraries \<Rightarrow> bytes \<Rightarrow> bytes \<Rightarrow> int \<Rightarrow> (error + bytes) \<times> bytes" where
  "decompress L dst src compression =
     (if compression = Snappy then snappy_Decode L dst src
      else if compression = Zstd then zstd_DecodeAll L dst src
      else (Inl (Errorf ''unknown compression format: %d''), dst))"

section \<open>Building records\<close>

record RecordBuilder =
  rb_startTime :: int
  rb_timestamp :: int
  rb_functionID :: int
  rb_functionCall :: bytes
  rb_finished :: bool
  rb_bytes :: bytes

text \<open>The zero value of the structure. \<open>rb_bytes\<close> is \<^verbatim>\<open>b.builder.FinishedBytes()\<close>, once it is built.\<close>

definition RecordBuilder_zero :: RecordBuilder where
  "RecordBuilder_zero = \<lparr>rb_startTime = 0, rb_timestamp = 0, rb_functionID = 0, rb_functionCall = [],
     rb_finished = False, rb_bytes = []\<rparr>"

definition RecordBuilder_Reset :: "RecordBuilder \<Rightarrow> int \<Rightarrow> RecordBuilder" where
  "RecordBuilder_Reset b startTime =
     b\<lparr>rb_startTime := startTime, rb_timestamp := 0, rb_functionID := 0, rb_functionCall := [],
       rb_finished := False, rb_bytes := []\<rparr>"

text \<open>\<^verbatim>\<open>t.Sub(u)\<close> is a \<^verbatim>\<open>time.Duration\<close>, a signed integer of 64 bits: it saturates.\<close>

definition time_Sub :: "int \<Rightarrow> int \<Rightarrow> int" where
  "time_Sub t u = max (- (2 ^ 63)) (min (2 ^ 63 - 1) (t - u))"

definition RecordBuilder_SetTimestamp :: "RecordBuilder \<Rightarrow> int \<Rightarrow> (log_panic, RecordBuilder) outcome" where
  "RecordBuilder_SetTimestamp b t =
     (if rb_finished b then Panic (BuilderMessage ''builder must be reset before timestamp can be set'')
      else Return (b\<lparr>rb_timestamp := time_Sub t (rb_startTime b)\<rparr>))"

definition RecordBuilder_SetFunctionID :: "RecordBuilder \<Rightarrow> int \<Rightarrow> (log_panic, RecordBuilder) outcome" where
  "RecordBuilder_SetFunctionID b i =
     (if rb_finished b then Panic (BuilderMessage ''builder must be reset before function ID can be set'')
      else Return (b\<lparr>rb_functionID := wrap (Unsigned 32) i\<rparr>))"

definition RecordBuilder_SetFunctionCall :: "RecordBuilder \<Rightarrow> bytes \<Rightarrow> (log_panic, RecordBuilder) outcome" where
  "RecordBuilder_SetFunctionCall b functionCall =
     (if rb_finished b then Panic (BuilderMessage ''builder must be reset before function call can be set'')
      else Return (b\<lparr>rb_functionCall := functionCall\<rparr>))"

definition RecordBuilder_build :: "libraries \<Rightarrow> RecordBuilder \<Rightarrow> RecordBuilder" where
  "RecordBuilder_build L b =
     b\<lparr>rb_bytes := record_bytes L \<lparr>fr_Timestamp = rb_timestamp b, fr_FunctionId = rb_functionID b,
       fr_FunctionCall = rb_functionCall b\<rparr>\<rparr>"

definition RecordBuilder_Bytes :: "libraries \<Rightarrow> RecordBuilder \<Rightarrow> bytes \<times> RecordBuilder" where
  "RecordBuilder_Bytes L b =
     (let b = (if \<not> rb_finished b then (RecordBuilder_build L b)\<lparr>rb_finished := True\<rparr> else b)
      in (rb_bytes b, b))"

definition RecordBuilder_Write ::
  "libraries \<Rightarrow> (log_panic, byte, 'w) write_method \<Rightarrow> RecordBuilder \<Rightarrow> 'w
   \<Rightarrow> (log_panic, nat \<times> error option, 'w) call"
where
  "RecordBuilder_Write L wr b w = wr w (fst (RecordBuilder_Bytes L b))"

section \<open>Building batches\<close>

record RecordBatchBuilder =
  bb_compression :: int
  bb_firstOffset :: int
  bb_firstTimestamp :: int
  bb_lastTimestamp :: int
  bb_recordCount :: int
  bb_uncompressed :: bytes
  bb_compressed :: bytes
  bb_records :: bytes
  bb_result :: bytes
  bb_finished :: bool
  bb_concatenated :: bool
  bb_bytes :: bytes

definition RecordBatchBuilder_zero :: RecordBatchBuilder where
  "RecordBatchBuilder_zero = \<lparr>bb_compression = 0, bb_firstOffset = 0, bb_firstTimestamp = 0,
     bb_lastTimestamp = 0, bb_recordCount = 0, bb_uncompressed = [], bb_compressed = [], bb_records = [],
     bb_result = [], bb_finished = False, bb_concatenated = False, bb_bytes = []\<rparr>"

definition RecordBatchBuilder_Reset :: "RecordBatchBuilder \<Rightarrow> int \<Rightarrow> int \<Rightarrow> RecordBatchBuilder" where
  "RecordBatchBuilder_Reset b compression firstOffset =
     b\<lparr>bb_compression := compression, bb_uncompressed := [], bb_compressed := [], bb_result := [],
       bb_records := [], bb_firstOffset := firstOffset, bb_firstTimestamp := 0, bb_lastTimestamp := 0,
       bb_finished := False, bb_concatenated := False, bb_recordCount := 0, bb_bytes := []\<rparr>"

definition RecordBatchBuilder_AddRecord ::
  "libraries \<Rightarrow> RecordBatchBuilder \<Rightarrow> RecordBuilder
   \<Rightarrow> (log_panic, RecordBuilder) outcome \<times> RecordBatchBuilder"
where
  "RecordBatchBuilder_AddRecord L b record =
     (if bb_finished b then (Panic (BuilderMessage ''builder must be reset before records can be added''), b)
      else case RecordBuilder_Bytes L record of (bs, record) \<Rightarrow>
        let b = b\<lparr>bb_uncompressed := bb_uncompressed b @ bs\<rparr>;
            b = (if bb_recordCount b = 0 then b\<lparr>bb_firstTimestamp := rb_timestamp record\<rparr> else b)
        in (Return record, b\<lparr>bb_lastTimestamp := rb_timestamp record,
              bb_recordCount := wrap (Unsigned 32) (bb_recordCount b + 1)\<rparr>))"

definition RecordBatchBuilder_build :: "libraries \<Rightarrow> RecordBatchBuilder \<Rightarrow> RecordBatchBuilder" where
  "RecordBatchBuilder_build L b =
     (let b = b\<lparr>bb_records := bb_uncompressed b\<rparr>;
          uncompressedSize = wrap (Unsigned 32) (int (length (bb_uncompressed b)));
          b = (if bb_compression b \<noteq> Uncompressed
               then let c = compress L (bb_uncompressed b) (bb_compression b)
                    in b\<lparr>bb_compressed := c, bb_records := c\<rparr>
               else b);
          compressedSize = (if bb_compression b \<noteq> Uncompressed
               then wrap (Unsigned 32) (int (length (bb_compressed b))) else uncompressedSize)
      in b\<lparr>bb_bytes := batch_bytes L \<lparr>fb_FirstOffset = bb_firstOffset b,
            fb_FirstTimestamp = bb_firstTimestamp b, fb_LastTimestamp = bb_lastTimestamp b,
            fb_CompressedSize = compressedSize, fb_UncompressedSize = uncompressedSize,
            fb_Checksum = checksum (bb_records b), fb_NumRecords = bb_recordCount b,
            fb_Compression = bb_compression b\<rparr>\<rparr>)"

definition RecordBatchBuilder_finish :: "libraries \<Rightarrow> RecordBatchBuilder \<Rightarrow> RecordBatchBuilder" where
  "RecordBatchBuilder_finish L b =
     (if \<not> bb_finished b then (RecordBatchBuilder_build L b)\<lparr>bb_finished := True\<rparr> else b)"

definition RecordBatchBuilder_Bytes :: "libraries \<Rightarrow> RecordBatchBuilder \<Rightarrow> bytes \<times> RecordBatchBuilder" where
  "RecordBatchBuilder_Bytes L b =
     (let b = RecordBatchBuilder_finish L b;
          b = (if \<not> bb_concatenated b
               then b\<lparr>bb_result := bb_result b @ bb_bytes b @ bb_records b, bb_concatenated := True\<rparr>
               else b)
      in (bb_result b, b))"

definition RecordBatchBuilder_Write ::
  "libraries \<Rightarrow> (log_panic, byte, 'w) write_method \<Rightarrow> RecordBatchBuilder \<Rightarrow> 'w
   \<Rightarrow> (log_panic, nat \<times> error option, RecordBatchBuilder \<times> 'w) call"
where
  "RecordBatchBuilder_Write L wr b w =
     (let b = RecordBatchBuilder_finish L b
      in bind_call (wr w (bb_bytes b)) (\<lambda>w. (b, w)) (\<lambda>(n1, err) w.
           if err \<noteq> None then returns (n1, err) (b, w)
           else bind_call (wr w (bb_records b)) (\<lambda>w. (b, w)) (\<lambda>(n2, err) w.
                  returns (n1 + n2, err) (b, w))))"

section \<open>What the log relies on\<close>

definition size_prefixed :: "bytes \<Rightarrow> bytes" where
  "size_prefixed body = le32 (of_nat (length body)) @ body"

definition record_ok :: "record_fields \<Rightarrow> bool" where
  "record_ok f \<longleftrightarrow> fits (Signed 64) (fr_Timestamp f) \<and> fits (Unsigned 32) (fr_FunctionId f)"

definition batch_ok :: "batch_fields \<Rightarrow> bool" where
  "batch_ok f \<longleftrightarrow> fits (Signed 64) (fb_FirstOffset f) \<and> fits (Signed 64) (fb_FirstTimestamp f)
     \<and> fits (Signed 64) (fb_LastTimestamp f) \<and> fits (Unsigned 32) (fb_CompressedSize f)
     \<and> fits (Unsigned 32) (fb_UncompressedSize f) \<and> fits (Unsigned 32) (fb_NumRecords f)
     \<and> fits (Unsigned 32) (fb_Compression f)"

text \<open>
  A finished buffer is a root behind its size; its accessors give the fields that were added. The
  eight scalar fields of a batch and its table take fewer than 252 bytes. A decompressor gives back
  what was compressed, in the array it is lent when that has the right size.
\<close>

locale log_libraries =
  fixes L :: libraries
  assumes record_finished: "record_ok f \<Longrightarrow>
      \<exists>body. record_bytes L f = size_prefixed body \<and> record_root L body = Some f"
    and batch_finished: "batch_ok g \<Longrightarrow>
      \<exists>body. batch_bytes L g = size_prefixed body \<and> length body \<le> 252 \<and>
        batch_root L (size_prefixed body) = Some g"
    and snappy: "length dst = length src \<Longrightarrow> snappy_Decode L dst (snappy_Encode L src) = (Inr src, src)"
    and zstd: "length dst = length src \<Longrightarrow> zstd_DecodeAll L dst (zstd_EncodeAll L src) = (Inr src, src)"
begin

lemma decompress_compress:
  "compression = Snappy \<or> compression = Zstd \<Longrightarrow> length dst = length src \<Longrightarrow>
   decompress L dst (compress L src compression) compression = (Inr src, src)"
  by (auto simp: decompress_def compress_def snappy zstd)

end

end
