(* ===== verification/Log_Writer.thy ===== *)
theory Log_Writer
  imports Log_Format
begin

text \<open>
  Writing a log segment: \<^verbatim>\<open>LogWriter\<close> and \<^verbatim>\<open>LogRecordWriter\<close> (\<^verbatim>\<open>internal/timemachine/log.go\<close>) and the function that a
  process hands to the recorder (\<^verbatim>\<open>internal/timecraft/process.go\<close>). The output is a writer of bytes, with its
  state \<open>'w\<close> and its method \<open>wr\<close>.

  \<open>segment_wire\<close> is the format: the batches one after the other, each its metadata and then its records,
  compressed. On an output that takes all it is given, the writer produces it, with the records cut
  into batches and none of them lost or moved.
\<close>

section \<open>Batches\<close>

record 'w LogWriter =
  lw_output :: 'w
  lw_stickyErr :: "error option"

definition NewLogWriter :: "'w \<Rightarrow> 'w LogWriter" where
  "NewLogWriter output = \<lparr>lw_output = output, lw_stickyErr = None\<rparr>"

definition LogWriter_Reset :: "'w LogWriter \<Rightarrow> 'w \<Rightarrow> 'w LogWriter" where
  "LogWriter_Reset w output = w\<lparr>lw_output := output, lw_stickyErr := None\<rparr>"

definition WriteRecordBatch ::
  "libraries \<Rightarrow> (log_panic, byte, 'w) write_method \<Rightarrow> 'w LogWriter \<Rightarrow> RecordBatchBuilder
   \<Rightarrow> (log_panic, error option, RecordBatchBuilder \<times> 'w LogWriter) call"
where
  "WriteRecordBatch L wr w batch =
     (if lw_stickyErr w \<noteq> None then returns (lw_stickyErr w) (batch, w)
      else bind_call (RecordBatchBuilder_Write L wr batch (lw_output w))
             (\<lambda>(batch, out). (batch, w\<lparr>lw_output := out\<rparr>))
             (\<lambda>(n, err) (batch, out). returns err (batch, w\<lparr>lw_output := out\<rparr>)))"

section \<open>Records\<close>

record 'w LogRecordWriter =
  lrw_writer :: "'w LogWriter"
  lrw_batchSize :: int
  lrw_compression :: int
  lrw_firstOffset :: int
  lrw_batch :: RecordBatchBuilder
  lrw_count :: int

definition NewLogRecordWriter :: "'w LogWriter \<Rightarrow> int \<Rightarrow> int \<Rightarrow> 'w LogRecordWriter" where
  "NewLogRecordWriter w batchSize compression =
     \<lparr>lrw_writer = w, lrw_batchSize = batchSize, lrw_compression = compression, lrw_firstOffset = 0,
      lrw_batch = RecordBatchBuilder_Reset RecordBatchBuilder_zero compression 0, lrw_count = 0\<rparr>"

definition Flush ::
  "libraries \<Rightarrow> (log_panic, byte, 'w) write_method \<Rightarrow> 'w LogRecordWriter
   \<Rightarrow> (log_panic, error option, 'w LogRecordWriter) call"
where
  "Flush L wr w =
     (if lrw_count w = 0 then returns None w
      else bind_call (WriteRecordBatch L wr (lrw_writer w) (lrw_batch w))
             (\<lambda>(batch, lw). w\<lparr>lrw_batch := batch, lrw_writer := lw\<rparr>)
             (\<lambda>err (batch, lw).
                let w = w\<lparr>lrw_batch := batch, lrw_writer := lw\<rparr>
                in if err \<noteq> None then returns err w
                   else let first = wrap (Signed 64) (lrw_firstOffset w + lrw_count w)
                        in returns None (w\<lparr>lrw_firstOffset := first, lrw_count := 0,
                             lrw_batch := RecordBatchBuilder_Reset batch (lrw_compression w) first\<rparr>)))"

text \<open>The count never exceeds the batch size, so that its increment does not overflow.\<close>

definition WriteRecord ::
  "libraries \<Rightarrow> (log_panic, byte, 'w) write_method \<Rightarrow> 'w LogRecordWriter \<Rightarrow> RecordBuilder
   \<Rightarrow> (log_panic, error option, RecordBuilder \<times> 'w LogRecordWriter) call"
where
  "WriteRecord L wr w record =
     (case RecordBatchBuilder_AddRecord L (lrw_batch w) record of
        (Panic p, batch) \<Rightarrow> panics p (record, w\<lparr>lrw_batch := batch\<rparr>)
      | (Return record, batch) \<Rightarrow>
          let w = w\<lparr>lrw_batch := batch, lrw_count := lrw_count w + 1\<rparr>
          in if lrw_count w \<ge> lrw_batchSize w
             then bind_call (Flush L wr w) (\<lambda>w. (record, w)) (\<lambda>err w. returns err (record, w))
             else returns None (record, w))"

text \<open>
  The function that writes what the recorder hands it, at the time \<open>now\<close>, with the builder it keeps.
  The error of a failed write is its panic.
\<close>

datatype write_panic = LogPanic log_panic | WriteFailed error

definition set_fields ::
  "RecordBuilder \<Rightarrow> int \<Rightarrow> int \<Rightarrow> int \<Rightarrow> bytes \<Rightarrow> (log_panic, RecordBuilder) outcome"
where
  "set_fields b startTime now i call =
     (let b = RecordBuilder_Reset b startTime
      in case RecordBuilder_SetTimestamp b now of
           Panic p \<Rightarrow> Panic p
         | Return b \<Rightarrow>
             (case RecordBuilder_SetFunctionID b i of
                Panic p \<Rightarrow> Panic p
              | Return b \<Rightarrow> RecordBuilder_SetFunctionCall b call))"

definition record_call ::
  "libraries \<Rightarrow> (log_panic, byte, 'w) write_method \<Rightarrow> int \<Rightarrow> int \<Rightarrow> int \<times> bytes
   \<Rightarrow> RecordBuilder \<times> 'w LogRecordWriter \<Rightarrow> (write_panic, unit, RecordBuilder \<times> 'w LogRecordWriter) call"
where
  "record_call L wr startTime now = (\<lambda>(i, call) (b, w).
     case set_fields b startTime now i call of
       Panic p \<Rightarrow> panics (LogPanic p) (b, w)
     | Return b \<Rightarrow>
         (case WriteRecord L wr w b of
            None \<Rightarrow> None
          | Some (Panic p, s) \<Rightarrow> panics (LogPanic p) s
          | Some (Return (Some err), s) \<Rightarrow> panics (WriteFailed err) s
          | Some (Return None, s) \<Rightarrow> returns () s))"

text \<open>
  A whole run: the calls in the order the recorder made them, each at its time, and the flush when the
  module has ended.
\<close>

fun record_calls ::
  "libraries \<Rightarrow> (log_panic, byte, 'w) write_method \<Rightarrow> int \<Rightarrow> (int \<times> int \<times> bytes) list
   \<Rightarrow> RecordBuilder \<times> 'w LogRecordWriter \<Rightarrow> (write_panic, unit, RecordBuilder \<times> 'w LogRecordWriter) call"
where
  "record_calls L wr startTime [] s = returns () s"
| "record_calls L wr startTime ((now, c) # cs) s =
     bind_call (record_call L wr startTime now c s) id (\<lambda>_ s. record_calls L wr startTime cs s)"

section \<open>The format of a segment\<close>

definition payload :: "libraries \<Rightarrow> record_fields list \<Rightarrow> bytes" where
  "payload L rs = concat (map (record_bytes L) rs)"

definition data_section :: "libraries \<Rightarrow> int \<Rightarrow> record_fields list \<Rightarrow> bytes" where
  "data_section L compression rs =
     (if compression = Uncompressed then payload L rs else compress L (payload L rs) compression)"

definition metadata :: "libraries \<Rightarrow> int \<Rightarrow> int \<Rightarrow> record_fields list \<Rightarrow> batch_fields" where
  "metadata L compression first rs =
     \<lparr>fb_FirstOffset = first, fb_FirstTimestamp = fr_Timestamp (hd rs),
      fb_LastTimestamp = fr_Timestamp (last rs),
      fb_CompressedSize = int (length (data_section L compression rs)),
      fb_UncompressedSize = int (length (payload L rs)),
      fb_Checksum = checksum (data_section L compression rs), fb_NumRecords = int (length rs),
      fb_Compression = compression\<rparr>"

definition batch_wire :: "libraries \<Rightarrow> int \<Rightarrow> int \<Rightarrow> record_fields list \<Rightarrow> bytes" where
  "batch_wire L compression first rs =
     batch_bytes L (metadata L compression first rs) @ data_section L compression rs"

fun segment_wire :: "libraries \<Rightarrow> int \<Rightarrow> int \<Rightarrow> record_fields list list \<Rightarrow> bytes" where
  "segment_wire L compression first [] = []"
| "segment_wire L compression first (rs # batches) =
     batch_wire L compression first rs @ segment_wire L compression (first + int (length rs)) batches"

lemma segment_wire_snoc:
  "segment_wire L compression first (batches @ [rs]) =
     segment_wire L compression first batches
     @ batch_wire L compression (first + int (length (concat batches))) rs"
  by (induction batches arbitrary: first) (simp_all add: add.assoc)

text \<open>Batches whose sizes and count the 32-bit fields of the metadata hold.\<close>

definition small_batch :: "libraries \<Rightarrow> int \<Rightarrow> record_fields list \<Rightarrow> bool" where
  "small_batch L compression rs \<longleftrightarrow> int (length rs) < 2 ^ 32 \<and> int (length (payload L rs)) < 2 ^ 32
     \<and> int (length (data_section L compression rs)) < 2 ^ 32"

section \<open>The writer produces the format\<close>

locale appending_writer =
  fixes wr :: "(log_panic, byte, 'w) write_method"
    and contents :: "'w \<Rightarrow> bytes"
  assumes wr_appends: "\<exists>w'. wr w bs = returns (length bs, None) w' \<and> contents w' = contents w @ bs"

text \<open>\<^verbatim>\<open>bytes.Buffer\<close>, by its contents.\<close>

definition Buffer_Write :: "('p, byte, bytes) write_method" where
  "Buffer_Write w bs = returns (length bs, None) (w @ bs)"

interpretation buf: appending_writer Buffer_Write id
  by unfold_locales (simp add: Buffer_Write_def)

text \<open>The builder of a batch holds the records \<open>rs\<close>.\<close>

definition building :: "libraries \<Rightarrow> int \<Rightarrow> int \<Rightarrow> record_fields list \<Rightarrow> RecordBatchBuilder \<Rightarrow> bool" where
  "building L compression first rs b \<longleftrightarrow>
     bb_compression b = compression \<and> bb_firstOffset b = first \<and> \<not> bb_finished b
     \<and> bb_uncompressed b = payload L rs \<and> bb_recordCount b = wrap (Unsigned 32) (int (length rs))
     \<and> (rs \<noteq> [] \<and> int (length rs) < 2 ^ 32 \<longrightarrow>
          bb_firstTimestamp b = fr_Timestamp (hd rs) \<and> bb_lastTimestamp b = fr_Timestamp (last rs))"

definition fields_of :: "RecordBuilder \<Rightarrow> record_fields" where
  "fields_of b = \<lparr>fr_Timestamp = rb_timestamp b, fr_FunctionId = rb_functionID b,
     fr_FunctionCall = rb_functionCall b\<rparr>"

lemma building_Reset: "building L compression first [] (RecordBatchBuilder_Reset b compression first)"
  by (simp add: building_def RecordBatchBuilder_Reset_def payload_def)

lemma wrap_u32_small: "0 \<le> n \<Longrightarrow> n < 2 ^ 32 \<Longrightarrow> wrap (Unsigned 32) n = n"
  by (simp add: take_bit_int_eq_self)

lemma RecordBatchBuilder_AddRecord_building:
  assumes "building L compression first rs b" "\<not> rb_finished r"
  shows "\<exists>r' b'. RecordBatchBuilder_AddRecord L b r = (Return r', b')
    \<and> building L compression first (rs @ [fields_of r]) b'"
proof -
  have count: "bb_recordCount b = 0 \<longleftrightarrow> rs = []" if "int (length rs) + 1 < 2 ^ 32"
    using assms(1) that wrap_u32_small [of "int (length rs)"] by (auto simp: building_def)
  have "wrap (Unsigned 32) (wrap (Unsigned 32) (int (length rs)) + 1) = wrap (Unsigned 32) (int (length rs) + 1)"
    by (simp add: take_bit_eq_mod mod_simps)
  then show ?thesis
    using assms count
    by (auto simp: RecordBatchBuilder_AddRecord_def building_def RecordBuilder_Bytes_def
        RecordBuilder_build_def fields_of_def payload_def Let_def add.commute)
qed

lemma RecordBatchBuilder_build_bytes:
  assumes "building L compression first rs b" "rs \<noteq> []" "small_batch L compression rs"
  shows "bb_bytes (RecordBatchBuilder_build L b) @ bb_records (RecordBatchBuilder_build L b)
    = batch_wire L compression first rs"
  using assms wrap_u32_small [of "int (length rs)"] wrap_u32_small [of "int (length (payload L rs))"]
    wrap_u32_small [of "int (length (data_section L compression rs))"]
  by (auto simp: RecordBatchBuilder_build_def building_def small_batch_def batch_wire_def metadata_def
      data_section_def Let_def)

text \<open>The fields of the record that is written for a call.\<close>

fun call_fields :: "int \<Rightarrow> int \<times> int \<times> bytes \<Rightarrow> record_fields" where
  "call_fields startTime (now, i, call) =
     \<lparr>fr_Timestamp = time_Sub now startTime, fr_FunctionId = wrap (Unsigned 32) i, fr_FunctionCall = call\<rparr>"

lemma set_fields_eq:
  "\<exists>b'. set_fields b startTime now i call = Return b' \<and> \<not> rb_finished b'
    \<and> fields_of b' = call_fields startTime (now, i, call)"
  by (simp add: set_fields_def RecordBuilder_Reset_def RecordBuilder_SetTimestamp_def
      RecordBuilder_SetFunctionID_def RecordBuilder_SetFunctionCall_def fields_of_def Let_def)

context appending_writer
begin

text \<open>The writer has written \<open>batches\<close> and holds \<open>rs\<close>.\<close>

definition written :: "libraries \<Rightarrow> 'w LogRecordWriter \<Rightarrow> record_fields list list \<Rightarrow> record_fields list \<Rightarrow> bool"
where
  "written L w batches rs \<longleftrightarrow>
     lw_stickyErr (lrw_writer w) = None \<and> [] \<notin> set batches
     \<and> lrw_firstOffset w = int (length (concat batches)) \<and> lrw_count w = int (length rs)
     \<and> building L (lrw_compression w) (lrw_firstOffset w) rs (lrw_batch w)
     \<and> contents (lw_output (lrw_writer w)) = segment_wire L (lrw_compression w) 0 batches"

lemma written_new:
  "contents out = [] \<Longrightarrow> written L (NewLogRecordWriter (NewLogWriter out) batchSize compression) [] []"
  by (simp add: written_def NewLogRecordWriter_def NewLogWriter_def building_Reset)

lemma RecordBatchBuilder_Write_building:
  assumes "building L compression first rs b" "rs \<noteq> []" "small_batch L compression rs"
  shows "\<exists>n b' out'. RecordBatchBuilder_Write L wr b out = returns (n, None) (b', out')
    \<and> contents out' = contents out @ batch_wire L compression first rs"
proof -
  let ?b = "RecordBatchBuilder_finish L b"
  obtain out1 where out1: "wr out (bb_bytes ?b) = returns (length (bb_bytes ?b), None) out1"
    "contents out1 = contents out @ bb_bytes ?b"
    using wr_appends by blast
  obtain out2 where out2: "wr out1 (bb_records ?b) = returns (length (bb_records ?b), None) out2"
    "contents out2 = contents out1 @ bb_records ?b"
    using wr_appends by blast
  have "bb_bytes ?b @ bb_records ?b = batch_wire L compression first rs"
    using RecordBatchBuilder_build_bytes [OF assms] assms(1)
    by (simp add: RecordBatchBuilder_finish_def building_def)
  then show ?thesis
    using out1 out2 by (simp add: RecordBatchBuilder_Write_def Let_def)
qed

lemma Flush_written:
  assumes w: "written L w batches rs" and small: "small_batch L (lrw_compression w) rs"
    and total: "int (length (concat batches @ rs)) < 2 ^ 63"
  shows "\<exists>w'. Flush L wr w = returns None w' \<and> written L w' (batches @ (if rs = [] then [] else [rs])) []
    \<and> lrw_batchSize w' = lrw_batchSize w \<and> lrw_compression w' = lrw_compression w"
proof (cases "rs = []")
  case True
  then show ?thesis
    using w by (auto simp: Flush_def written_def)
next
  case False
  from w have building: "building L (lrw_compression w) (lrw_firstOffset w) rs (lrw_batch w)"
    unfolding written_def by blast
  obtain n b' out' where wrote:
    "RecordBatchBuilder_Write L wr (lrw_batch w) (lw_output (lrw_writer w)) = returns (n, None) (b', out')"
    "contents out' = contents (lw_output (lrw_writer w)) @ batch_wire L (lrw_compression w) (lrw_firstOffset w) rs"
    using RecordBatchBuilder_Write_building [OF building False small] by blast
  have first: "wrap (Signed 64) (lrw_firstOffset w + lrw_count w) = int (length (concat (batches @ [rs])))"
    using total w by (simp add: written_def signed_take_bit_int_eq_self)
  have "Flush L wr w = returns None (w\<lparr>lrw_batch := RecordBatchBuilder_Reset b' (lrw_compression w)
        (int (length (concat (batches @ [rs])))), lrw_writer := (lrw_writer w)\<lparr>lw_output := out'\<rparr>,
        lrw_firstOffset := int (length (concat (batches @ [rs]))), lrw_count := 0\<rparr>)"
    using False w wrote(1) first by (simp add: Flush_def written_def WriteRecordBatch_def Let_def)
  then show ?thesis
    using False w wrote(2) building_Reset by (simp add: written_def segment_wire_snoc)
qed

lemma WriteRecord_written:
  assumes w: "written L w batches rs" and r: "\<not> rb_finished r"
    and small: "small_batch L (lrw_compression w) (rs @ [fields_of r])"
    and total: "int (length (concat batches @ rs @ [fields_of r])) < 2 ^ 63"
  shows "\<exists>r' w' batches' rs'. WriteRecord L wr w r = returns None (r', w') \<and> written L w' batches' rs'
    \<and> concat batches' @ rs' = concat batches @ rs @ [fields_of r] \<and> suffix rs' (rs @ [fields_of r])
    \<and> lrw_batchSize w' = lrw_batchSize w \<and> lrw_compression w' = lrw_compression w"
proof -
  obtain r' b' where add: "RecordBatchBuilder_AddRecord L (lrw_batch w) r = (Return r', b')"
    and b': "building L (lrw_compression w) (lrw_firstOffset w) (rs @ [fields_of r]) b'"
    using RecordBatchBuilder_AddRecord_building r w by (fastforce simp: written_def)
  let ?w = "w\<lparr>lrw_batch := b', lrw_count := lrw_count w + 1\<rparr>"
  have w': "written L ?w batches (rs @ [fields_of r])"
    using w b' by (simp add: written_def)
  show ?thesis
  proof (cases "lrw_count ?w \<ge> lrw_batchSize ?w")
    case True
    obtain w'' where "Flush L wr ?w = returns None w''" "written L w'' (batches @ [rs @ [fields_of r]]) []"
      "lrw_batchSize w'' = lrw_batchSize w" "lrw_compression w'' = lrw_compression w"
      using Flush_written [OF w'] small total by auto
    with True add show ?thesis
      by (intro exI [of _ r'] exI [of _ w'']) (fastforce simp: WriteRecord_def Let_def)
  next
    case False
    with add w' show ?thesis
      by (intro exI [of _ r'] exI [of _ ?w]) (fastforce simp: WriteRecord_def Let_def)
  qed
qed

lemma record_calls_written:
  assumes "written L w batches rs"
    and "\<And>us. sublist us (rs @ map (call_fields startTime) calls) \<Longrightarrow> small_batch L (lrw_compression w) us"
    and "int (length (concat batches @ rs)) + int (length calls) < 2 ^ 63"
  shows "\<exists>b' w' batches' rs'. record_calls L wr startTime calls (b, w) = returns () (b', w')
    \<and> written L w' batches' rs' \<and> concat batches' @ rs' = concat batches @ rs @ map (call_fields startTime) calls
    \<and> sublist rs' (rs @ map (call_fields startTime) calls) \<and> lrw_compression w' = lrw_compression w"
  using assms
proof (induction calls arbitrary: b w batches rs)
  case Nil
  then show ?case
    by auto
next
  case (Cons c calls)
  obtain now i call where c: "c = (now, i, call)"
    by (cases c)
  let ?f = "call_fields startTime c"
  obtain b1 where b1: "set_fields b startTime now i call = Return b1" "\<not> rb_finished b1" "fields_of b1 = ?f"
    using set_fields_eq c by blast
  have "small_batch L (lrw_compression w) (rs @ [?f])"
    by (rule Cons.prems(2)) (simp add: sublist_def, metis append_Nil append_Cons append_assoc)
  then obtain r' w1 batches1 rs1 where w1: "WriteRecord L wr w b1 = returns None (r', w1)"
    "written L w1 batches1 rs1" "concat batches1 @ rs1 = concat batches @ rs @ [?f]"
    "suffix rs1 (rs @ [?f])" "lrw_compression w1 = lrw_compression w"
    using WriteRecord_written [OF Cons.prems(1) b1(2)] Cons.prems(3) b1(3) by auto
  let ?all = "rs @ map (call_fields startTime) (c # calls)"
  from w1(4) have tail: "sublist (rs1 @ map (call_fields startTime) calls) ?all"
    unfolding suffix_def by (metis Cons_eq_appendI append_assoc append_Nil list.simps(9) sublist_appendI
        append.right_neutral)
  from w1(3) have "length (concat batches1 @ rs1) = length (concat batches @ rs @ [?f])"
    by (simp only:)
  then have "\<exists>b' w' batches' rs'. record_calls L wr startTime calls (r', w1) = returns () (b', w')
    \<and> written L w' batches' rs'
    \<and> concat batches' @ rs' = concat batches1 @ rs1 @ map (call_fields startTime) calls
    \<and> sublist rs' (rs1 @ map (call_fields startTime) calls) \<and> lrw_compression w' = lrw_compression w1"
    using w1(2,5) Cons.prems(2,3) tail by (intro Cons.IH) (auto dest: sublist_order.order.trans)
  moreover have "concat batches1 @ rs1 @ map (call_fields startTime) calls = concat batches @ ?all"
    using w1(3) by (metis append_assoc append_Cons append_Nil list.simps(9))
  moreover have "record_call L wr startTime now (i, call) (b, w) = returns () (r', w1)"
    using b1(1) w1(1) by (simp add: record_call_def)
  ultimately show ?case
    using tail w1(5) sublist_order.order.trans unfolding c by fastforce
qed

end

section \<open>A write that fails\<close>

text \<open>
  The batch that could not be written stays finished, so the next record panics. The field \<^verbatim>\<open>stickyErr\<close> is
  not set.
\<close>

lemma RecordBatchBuilder_Write_finished:
  "RecordBatchBuilder_Write L wr b out = returns res (b', out') \<Longrightarrow> bb_finished b'"
  by (auto simp: RecordBatchBuilder_Write_def RecordBatchBuilder_finish_def bind_call_eq_returns Let_def
      split: if_splits)

lemma Flush_fails:
  assumes "Flush L wr w = returns (Some err) w'" "lw_stickyErr (lrw_writer w) = None"
  shows "lw_stickyErr (lrw_writer w') = None" "bb_finished (lrw_batch w')"
  using assms RecordBatchBuilder_Write_finished
  by (fastforce simp: Flush_def WriteRecordBatch_def bind_call_eq_returns Let_def split: if_splits)+

end
