(* ===== verification/Log_Reader.thy ===== *)
theory Log_Reader
  imports Log_Writer
begin

text \<open>
  Reading a log segment: \<^verbatim>\<open>RecordBatch\<close> (\<^verbatim>\<open>internal/timemachine/record_batch.go\<close>), \<^verbatim>\<open>LogReader\<close> and
  \<^verbatim>\<open>LogRecordReader\<close> (\<^verbatim>\<open>log.go\<close>). The input is a reader of bytes with its methods \<open>rd\<close> and \<open>sk\<close>.

  The batch of a \<^verbatim>\<open>LogReader\<close> reads its records from the reader's own input, and its metadata lies in the
  reader's frame buffer, so the methods of the batch take the input as an argument, and \<open>batch_frame\<close> is
  the part of the frame buffer that the metadata occupies: reading the next frame overwrites it.

  The theorem of the theory: on a segment in the format of the writer, \<^verbatim>\<open>LogRecordReader\<close> is a stream of
  the records that were written, with their offsets and times.
\<close>

section \<open>Batches\<close>

record RecordBatch =
  batch_N :: int
  batch_startTime :: int
  batch_frame :: bytes
  batch_offset :: u32
  batch_index :: u32
  batch_compressed :: bytes
  batch_uncompressed :: bytes

definition RecordBatch_zero :: RecordBatch where
  "RecordBatch_zero = \<lparr>batch_N = 0, batch_startTime = 0, batch_frame = [], batch_offset = 0,
     batch_index = 0, batch_compressed = [], batch_uncompressed = []\<rparr>"

text \<open>An accessor of the metadata, on a frame that is none, panics.\<close>

definition with_fields ::
  "libraries \<Rightarrow> RecordBatch \<Rightarrow> 's \<Rightarrow> (batch_fields \<Rightarrow> (log_panic, 'a, 's) call) \<Rightarrow> (log_panic, 'a, 's) call"
where
  "with_fields L b s k = (case batch_root L (batch_frame b) of None \<Rightarrow> panics LibraryPanic s | Some m \<Rightarrow> k m)"

lemma with_fields_mono [partial_function_mono]:
  "(\<And>m. mono_option (\<lambda>g. k g m)) \<Longrightarrow> mono_option (\<lambda>g. with_fields L b s (k g))"
  unfolding with_fields_def
  by (cases "batch_root L (batch_frame b)") (auto simp: monotone_def flat_ord_def)

lemma with_fields_Some [simp]: "batch_root L (batch_frame b) = Some m \<Longrightarrow> with_fields L b s k = k m"
  by (simp add: with_fields_def)

definition NextOffset :: "batch_fields \<Rightarrow> int" where
  "NextOffset m = wrap (Signed 64) (fb_FirstOffset m + fb_NumRecords m)"

definition RecordBatch_Reset :: "libraries \<Rightarrow> RecordBatch \<Rightarrow> int \<Rightarrow> bytes \<Rightarrow> (log_panic, RecordBatch) outcome"
where
  "RecordBatch_Reset L b startTime buf =
     (let b = b\<lparr>batch_frame := buf, batch_startTime := startTime, batch_offset := 0, batch_index := 0,
                 batch_compressed := [], batch_uncompressed := []\<rparr>
      in if 0 < length buf
         then case batch_root L buf of
                None \<Rightarrow> Panic LibraryPanic
              | Some m \<Rightarrow> Return (b\<lparr>batch_N := fb_CompressedSize m\<rparr>)
         else Return (b\<lparr>batch_N := 0\<rparr>))"

text \<open>
  \<^verbatim>\<open>readRecords\<close>: the records of the batch, read and decompressed at the first use. The deferred
  assignments keep the data that was read also when its checksum is wrong. Where a read ends early, the
  rest of the slice, which has what its array held before, is given as zeros.
\<close>

definition read_data ::
  "(log_panic, byte, 's) read_method \<Rightarrow> RecordBatch \<Rightarrow> 's bufferedReadSeeker \<Rightarrow> nat
   \<Rightarrow> (log_panic, bytes \<times> error option, RecordBatch \<times> 's bufferedReadSeeker) call"
where
  "read_data rd b i sz =
     bind_call (ReadFull (LimitedReader_Read (bufferedReadSeeker_Read rd)) (batch_N b, i) sz)
       (\<lambda>(N, i). (b\<lparr>batch_N := N\<rparr>, i))
       (\<lambda>(data, err) (N, i). returns (data @ replicate (sz - length data) 0, err) (b\<lparr>batch_N := N\<rparr>, i))"

definition readRecords ::
  "libraries \<Rightarrow> (log_panic, byte, 's) read_method \<Rightarrow> RecordBatch \<Rightarrow> 's bufferedReadSeeker
   \<Rightarrow> (log_panic, error + bytes, RecordBatch \<times> 's bufferedReadSeeker) call"
where
  "readRecords L rd b i =
     (if 0 < length (batch_uncompressed b) then returns (Inr (batch_uncompressed b)) (b, i)
      else with_fields L b (b, i) (\<lambda>m.
        let plain = (fb_Compression m = Uncompressed);
            sz = nat (if plain then fb_UncompressedSize m else fb_CompressedSize m)
        in bind_call (read_data rd b i sz) id (\<lambda>(data, err) (b, i).
             let b = (if plain then b\<lparr>batch_uncompressed := data\<rparr> else b\<lparr>batch_compressed := data\<rparr>)
             in case err of
                  Some e \<Rightarrow> returns (Inl e) (b, i)
                | None \<Rightarrow>
                    if checksum data \<noteq> fb_Checksum m
                    then returns (Inl (Errorf ''bad record data: expect checksum %#x, got %#x'')) (b, i)
                    else if plain then returns (Inr data) (b, i)
                    else case decompress L (replicate (nat (fb_UncompressedSize m)) 0) data (fb_Compression m) of
                           (res, dst) \<Rightarrow> returns res (b\<lparr>batch_uncompressed := dst\<rparr>, i))))"

text \<open>\<^verbatim>\<open>flatbuffers.GetSizePrefix\<close> at the offset.\<close>

definition size_prefix :: "bytes \<Rightarrow> u32 \<Rightarrow> u32" where
  "size_prefix batch offset = of_le32 (drop (unat offset) batch)"

abbreviation (input) len32 :: "'a list \<Rightarrow> u32" where
  "len32 xs \<equiv> of_nat (length xs)"

text \<open>
  The loop of \<^verbatim>\<open>Read\<close>: \<open>n\<close> records fit, \<open>records\<close> are those read so far. \<^verbatim>\<open>batch[i:j:j]\<close> panics when \<open>j\<close> is beyond
  the capacity of the slice; the model has no capacity and takes the length, so that a record whose size prefix runs up to
  four bytes over the end of the data panics, where the code may read what the array has behind the data.
\<close>

fun batch_loop ::
  "libraries \<Rightarrow> batch_fields \<Rightarrow> bytes \<Rightarrow> nat \<Rightarrow> RecordBatch \<Rightarrow> Record list
   \<Rightarrow> (log_panic, Record list \<times> error option) outcome \<times> RecordBatch"
where
  "batch_loop L m batch 0 b records = (Return (records, None), b)"
| "batch_loop L m batch (Suc n) b records =
     (let off = batch_offset b
      in if off = len32 batch then (Return (records, Some EOF), b)
         else if off + 4 > len32 batch
         then (Return (records, Some (Errorf ''cannot read record at offset %d as records buffer is length %d: %w'')), b)
         else let sz = size_prefix batch off
              in if off + sz < off \<or> off + sz > len32 batch
                 then (Return (records,
                   Some (Errorf ''cannot read record at [%d:%d+%d] as records buffer is length %d: %w'')), b)
                 else let i = unat (4 + off); j = unat (4 + off + sz)
                      in if length batch < j \<or> j < i then (Panic SliceBounds, b)
                         else case record_root L (take (j - i) (drop i batch)) of
                                None \<Rightarrow> (Panic LibraryPanic, b)
                              | Some r \<Rightarrow>
                                  batch_loop L m batch n
                                    (b\<lparr>batch_offset := off + (sz + 4), batch_index := batch_index b + 1\<rparr>)
                                    (records @ [\<lparr>Record_Offset = wrap (Signed 64) (fb_FirstOffset m + uint (batch_index b)),
                                       Record_Time = batch_startTime b + fr_Timestamp r,
                                       Record_FunctionID = fr_FunctionId r,
                                       Record_FunctionCall = fr_FunctionCall r\<rparr>]))"

definition RecordBatch_Read ::
  "libraries \<Rightarrow> (log_panic, byte, 's) read_method \<Rightarrow> RecordBatch \<Rightarrow> 's bufferedReadSeeker \<Rightarrow> nat
   \<Rightarrow> (log_panic, Record list \<times> error option, RecordBatch \<times> 's bufferedReadSeeker) call"
where
  "RecordBatch_Read L rd b i len =
     bind_call (readRecords L rd b i) id (\<lambda>res (b, i).
       case res of
         Inl err \<Rightarrow> returns ([], Some err) (b, i)
       | Inr batch \<Rightarrow>
           if len = 0 then returns ([], None) (b, i)
           else with_fields L b (b, i) (\<lambda>m.
             case batch_loop L m batch len b [] of (out, b) \<Rightarrow> Some (out, (b, i))))"

section \<open>Segments\<close>

record 's LogReader =
  lr_input :: "'s bufferedReadSeeker"
  lr_nextByteOffset :: int
  lr_nextRecordOffset :: int
  lr_startTime :: int
  lr_batch :: RecordBatch
  lr_frameCap :: nat

abbreviation (input) maxFrameSize :: u32 where
  "maxFrameSize \<equiv> 131068"

definition NewLogReader :: "'s \<Rightarrow> int \<Rightarrow> 's LogReader" where
  "NewLogReader input startTime =
     \<lparr>lr_input = newBufferedReadSeeker input 262144, lr_nextByteOffset = 0, lr_nextRecordOffset = 0,
      lr_startTime = startTime, lr_batch = RecordBatch_zero, lr_frameCap = 256\<rparr>"

definition LogReader_Close :: "'s LogReader \<Rightarrow> 's LogReader" where
  "LogReader_Close r =
     r\<lparr>lr_batch := (lr_batch r)\<lparr>batch_frame := [], batch_N := 0, batch_startTime := lr_startTime r,
         batch_offset := 0, batch_index := 0, batch_compressed := [], batch_uncompressed := []\<rparr>,
       lr_nextByteOffset := 0, lr_nextRecordOffset := 0\<rparr>"

definition LogReader_Seek ::
  "libraries \<Rightarrow> 's seek_method \<Rightarrow> 's LogReader \<Rightarrow> int \<Rightarrow> int \<Rightarrow> (log_panic, error + int, 's LogReader) call"
where
  "LogReader_Seek L sk r offset whence =
     (case Seek (lr_nextRecordOffset r) (2 ^ 63 - 1) offset whence of
        Inl err \<Rightarrow> returns (Inl err) r
      | Inr next \<Rightarrow>
          with_fields L (lr_batch r) r (\<lambda>m.
            if next < NextOffset m
            then case bufferedReadSeeker_Seek sk (lr_input r) 0 SeekStart of
                   (Inl err, i) \<Rightarrow> returns (Inl err) (r\<lparr>lr_input := i\<rparr>)
                 | (Inr _, i) \<Rightarrow>
                     returns (Inr next)
                       ((LogReader_Close r)\<lparr>lr_input := i, lr_nextRecordOffset := next\<rparr>)
            else returns (Inr next) (r\<lparr>lr_nextRecordOffset := next\<rparr>)))"

text \<open>Bytes that arrive in the frame buffer overwrite the metadata of the batch before.\<close>

definition into_frame :: "'s LogReader \<Rightarrow> bytes \<Rightarrow> 's bufferedReadSeeker \<Rightarrow> 's LogReader" where
  "into_frame r bs i =
     r\<lparr>lr_input := i, lr_batch := (lr_batch r)\<lparr>batch_frame := go_copy (batch_frame (lr_batch r)) bs\<rparr>\<rparr>"

text \<open>
  \<^verbatim>\<open>readFrame\<close>. A frame larger than the buffer is read into \<^verbatim>\<open>slices.Grow(frame[:0], byteLength)\<close>, whose length
  is zero: the slice expression \<^verbatim>\<open>frame[4:]\<close> is out of range.
\<close>

definition readFrame ::
  "(log_panic, byte, 's) read_method \<Rightarrow> 's LogReader \<Rightarrow> (log_panic, error + bytes, 's LogReader) call"
where
  "readFrame rd r =
     bind_call (ReadFull (bufferedReadSeeker_Read rd) (lr_input r) 4) (\<lambda>i. r\<lparr>lr_input := i\<rparr>)
       (\<lambda>(head, err) i.
          if length head < 4
          then returns (Inl (if err = Some EOF \<and> head = [] then EOF else Errorf ''reading log segment frame: %w''))
                 (into_frame r head i)
          else let frameSize = of_le32 head; byteLength = unat (4 + frameSize)
               in if frameSize > maxFrameSize
                  then returns (Inl (Errorf ''log segment frame is too large (%d>%d)'')) (into_frame r head i)
                  else if byteLength \<le> 4 then returns (Inr (take byteLength head)) (into_frame r head i)
                  else if byteLength \<le> lr_frameCap r
                  then bind_call (ReadFull (bufferedReadSeeker_Read rd) i (byteLength - 4))
                         (\<lambda>i. into_frame r head i)
                         (\<lambda>(body, err) i.
                            if err \<noteq> None
                            then returns (Inl (Errorf ''reading %dB log segment frame: %w''))
                                   (into_frame r (head @ body) i)
                            else returns (Inr (head @ body)) (into_frame r (head @ body) i))
                  else panics SliceBounds ((into_frame r head i)\<lparr>lr_frameCap := byteLength\<rparr>))"

text \<open>Skip the data of the batch before, if some is left.\<close>

definition skip_data :: "'s seek_method \<Rightarrow> 's LogReader \<Rightarrow> error option \<times> 's LogReader" where
  "skip_data sk r =
     (if batch_N (lr_batch r) > 0
      then case bufferedReadSeeker_Seek sk (lr_input r) (lr_nextByteOffset r) SeekStart of
             (Inl err, i) \<Rightarrow> (Some err, r\<lparr>lr_input := i\<rparr>)
           | (Inr _, i) \<Rightarrow> (None, r\<lparr>lr_input := i, lr_batch := (lr_batch r)\<lparr>batch_N := 0\<rparr>\<rparr>)
      else (None, r))"

definition open_batch ::
  "libraries \<Rightarrow> 's LogReader \<Rightarrow> bytes \<Rightarrow> (log_panic, unit, 's LogReader) call"
where
  "open_batch L r frame =
     (case RecordBatch_Reset L (lr_batch r) (lr_startTime r) frame of
        Panic p \<Rightarrow> panics p r
      | Return b \<Rightarrow>
          let r = r\<lparr>lr_batch := b\<rparr>
          in with_fields L b r (\<lambda>m.
               returns () (r\<lparr>lr_nextByteOffset := wrap (Signed 64)
                 (wrap (Signed 64) (lr_nextByteOffset r + int (length frame)) + fb_CompressedSize m)\<rparr>)))"

partial_function (option) ReadRecordBatch ::
  "libraries \<Rightarrow> (log_panic, byte, 's) read_method \<Rightarrow> 's seek_method \<Rightarrow> 's LogReader
   \<Rightarrow> (log_panic, error option, 's LogReader) call"
where
  "ReadRecordBatch L rd sk r =
     (case skip_data sk r of
        (Some err, r) \<Rightarrow> returns (Some err) r
      | (None, r) \<Rightarrow>
          bind_call (readFrame rd r) id (\<lambda>res r.
            case res of
              Inl err \<Rightarrow> returns (Some err) r
            | Inr frame \<Rightarrow>
                bind_call (open_batch L r frame) id (\<lambda>_ r.
                  with_fields L (lr_batch r) r (\<lambda>m.
                    if NextOffset m \<ge> lr_nextRecordOffset r
                    then returns None (r\<lparr>lr_nextRecordOffset := NextOffset m\<rparr>)
                    else ReadRecordBatch L rd sk r))))"

section \<open>Records\<close>

text \<open>\<open>lrr_batch\<close> says whether \<^verbatim>\<open>r.batch\<close> is set; it then points to the batch of the \<^verbatim>\<open>LogReader\<close>.\<close>

record 's LogRecordReader =
  lrr_reader :: "'s LogReader"
  lrr_batch :: bool
  lrr_offset :: int
  lrr_seekTo :: int

definition NewLogRecordReader :: "'s LogReader \<Rightarrow> 's LogRecordReader" where
  "NewLogRecordReader r = \<lparr>lrr_reader = r, lrr_batch = False, lrr_offset = 0, lrr_seekTo = 0\<rparr>"

text \<open>The first part of the loop of \<^verbatim>\<open>Read\<close>: a batch to read from, or the error, or \<open>None\<close> to go round again.\<close>

definition next_batch ::
  "libraries \<Rightarrow> (log_panic, byte, 's) read_method \<Rightarrow> 's seek_method \<Rightarrow> 's LogRecordReader
   \<Rightarrow> (log_panic, (error + unit) option, 's LogRecordReader) call"
where
  "next_batch L rd sk r =
     (if lrr_batch r then returns (Some (Inr ())) r
      else bind_call (ReadRecordBatch L rd sk (lrr_reader r)) (\<lambda>lr. r\<lparr>lrr_reader := lr\<rparr>) (\<lambda>err lr.
        let r = r\<lparr>lrr_reader := lr\<rparr>
        in case err of
             Some e \<Rightarrow> returns (Some (Inl e)) r
           | None \<Rightarrow> with_fields L (lr_batch lr) r (\<lambda>m.
               if NextOffset m < lrr_seekTo r then returns None r
               else returns (Some (Inr ())) (r\<lparr>lrr_batch := True, lrr_offset := fb_FirstOffset m\<rparr>))))"

text \<open>
  The second part: the records of the batch from \<^verbatim>\<open>seekTo\<close> on. They are read into the slice of the caller, whose values
  are \<open>old\<close>, and \<^verbatim>\<open>copy(records, records[skip:])\<close> moves all of the slice, also what is behind the records that were
  read. The slice after the read is a result, for the next round of the loop.
\<close>

definition Record_zero :: Record where
  "Record_zero = \<lparr>Record_Offset = 0, Record_Time = 0, Record_FunctionID = 0, Record_FunctionCall = []\<rparr>"

definition slice_of :: "Record list \<Rightarrow> nat \<Rightarrow> Record list" where
  "slice_of old len = take len (old @ replicate len Record_zero)"

definition from_batch ::
  "libraries \<Rightarrow> (log_panic, byte, 's) read_method \<Rightarrow> Record list \<Rightarrow> 's LogRecordReader \<Rightarrow> nat
   \<Rightarrow> (log_panic, Record list \<times> error option \<times> Record list, 's LogRecordReader) call"
where
  "from_batch L rd old r len =
     bind_call (RecordBatch_Read L rd (lr_batch (lrr_reader r)) (lr_input (lrr_reader r)) len)
       (\<lambda>(b, i). r\<lparr>lrr_reader := (lrr_reader r)\<lparr>lr_batch := b, lr_input := i\<rparr>\<rparr>)
       (\<lambda>(records, err) (b, i).
          let offset = lrr_offset r;
              r = r\<lparr>lrr_reader := (lrr_reader r)\<lparr>lr_batch := b, lr_input := i\<rparr>,
                    lrr_offset := wrap (Signed 64) (offset + int (length records))\<rparr>;
              slice = records @ drop (length records) (slice_of old len);
              skip = wrap (Signed 64) (lrr_seekTo r - offset)
          in if \<not> offset < lrr_seekTo r then returns (records, err, slice) r
             else if int (length records) \<le> skip then returns ([], err, slice) r
             else if skip < 0 then panics SliceBounds r
             else let moved = drop (nat skip) slice
                  in returns (moved, err, moved @ drop (length moved) slice) r)"

partial_function (option) LogRecordReader_Read ::
  "libraries \<Rightarrow> (log_panic, byte, 's) read_method \<Rightarrow> 's seek_method \<Rightarrow> Record list \<Rightarrow> 's LogRecordReader \<Rightarrow> nat
   \<Rightarrow> (log_panic, Record list \<times> error option, 's LogRecordReader) call"
where
  "LogRecordReader_Read L rd sk old r len =
     bind_call (next_batch L rd sk r) id (\<lambda>res r.
       case res of
         None \<Rightarrow> LogRecordReader_Read L rd sk old r len
       | Some (Inl err) \<Rightarrow> returns ([], Some err) r
       | Some (Inr _) \<Rightarrow>
           bind_call (from_batch L rd old r len) id (\<lambda>(records, err, slice) r.
             if records \<noteq> [] then returns (records, None) r
             else if err \<noteq> Some EOF then returns ([], err) r
             else LogRecordReader_Read L rd sk slice (r\<lparr>lrr_batch := False\<rparr>) len))"

definition LogRecordReader_Seek ::
  "libraries \<Rightarrow> 's seek_method \<Rightarrow> 's LogRecordReader \<Rightarrow> int \<Rightarrow> int
   \<Rightarrow> (log_panic, error + int, 's LogRecordReader) call"
where
  "LogRecordReader_Seek L sk r offset whence =
     bind_call (LogReader_Seek L sk (lrr_reader r) offset whence) (\<lambda>lr. r\<lparr>lrr_reader := lr\<rparr>) (\<lambda>res lr.
       let r = r\<lparr>lrr_reader := lr\<rparr>
       in case res of
            Inl err \<Rightarrow> returns (Inl err) r
          | Inr seekTo \<Rightarrow>
              if seekTo < lrr_offset r
              then returns (Inr seekTo) (r\<lparr>lrr_batch := False, lrr_offset := 0, lrr_seekTo := seekTo\<rparr>)
              else if lrr_batch r
              then with_fields L (lr_batch lr) r (\<lambda>m.
                     if seekTo \<ge> NextOffset m
                     then returns (Inr seekTo)
                            (r\<lparr>lrr_batch := False, lrr_offset := NextOffset m, lrr_seekTo := seekTo\<rparr>)
                     else returns (Inr seekTo) (r\<lparr>lrr_seekTo := seekTo\<rparr>))
              else returns (Inr seekTo) (r\<lparr>lrr_seekTo := seekTo\<rparr>))"

end
