(* ===== verification/Log_Roundtrip.thy ===== *)
theory Log_Roundtrip
  imports Log_Reader
begin

text \<open>
  Reading back what was written: on an input that has the bytes of \<open>segment_wire\<close>, the reader of records
  keeps the contract of a stream of those records, whatever the sizes in which the input delivers its
  bytes and whatever the length of the caller's buffer.
\<close>

section \<open>Records of a segment\<close>

definition record_of :: "int \<Rightarrow> int \<Rightarrow> record_fields \<Rightarrow> Record" where
  "record_of startTime offset f =
     \<lparr>Record_Offset = offset, Record_Time = startTime + fr_Timestamp f, Record_FunctionID = fr_FunctionId f,
      Record_FunctionCall = fr_FunctionCall f\<rparr>"

fun records_at :: "int \<Rightarrow> int \<Rightarrow> record_fields list \<Rightarrow> Record list" where
  "records_at startTime offset [] = []"
| "records_at startTime offset (f # fs) =
     record_of startTime offset f # records_at startTime (offset + 1) fs"

lemma length_records_at [simp]: "length (records_at startTime offset fs) = length fs"
  by (induction fs arbitrary: offset) simp_all

lemma records_at_append:
  "records_at startTime offset (fs @ gs) =
     records_at startTime offset fs @ records_at startTime (offset + int (length fs)) gs"
  by (induction fs arbitrary: offset) (simp_all add: algebra_simps)

text \<open>Batches that the writer makes.\<close>

definition batches_ok :: "libraries \<Rightarrow> int \<Rightarrow> int \<Rightarrow> record_fields list list \<Rightarrow> bool" where
  "batches_ok L compression first batches \<longleftrightarrow>
     0 \<le> first \<and> first + int (length (concat batches)) < 2 ^ 63
     \<and> list_all (\<lambda>rs. rs \<noteq> [] \<and> small_batch L compression rs \<and> list_all record_ok rs) batches"

lemma batches_ok_Cons:
  "batches_ok L compression first (rs # batches) \<longleftrightarrow>
     0 \<le> first \<and> rs \<noteq> [] \<and> small_batch L compression rs \<and> list_all record_ok rs
     \<and> batches_ok L compression (first + int (length rs)) batches"
  by (auto simp: batches_ok_def)

lemma take_drop_append [simp]: "take n xs @ drop n xs @ ys = xs @ ys"
  by (metis append_assoc append_take_drop_id)

section \<open>Words below 4 GiB\<close>

lemma unat_u32: "a < 2 ^ 32 \<Longrightarrow> unat (of_nat a :: u32) = a"
  by (simp add: unsigned_of_nat take_bit_nat_eq_self)

lemma less_u32: "a < 2 ^ 32 \<Longrightarrow> b < 2 ^ 32 \<Longrightarrow> (of_nat a :: u32) < of_nat b \<longleftrightarrow> a < b"
  by (simp add: word_less_nat_alt unat_u32)

lemma eq_u32: "a < 2 ^ 32 \<Longrightarrow> b < 2 ^ 32 \<Longrightarrow> (of_nat a :: u32) = of_nat b \<longleftrightarrow> a = b"
  by (metis unat_u32)

lemma plus_u32: "(of_nat a :: u32) + of_nat b = of_nat (a + b)"
  by simp

lemma uint_u32: "a < 2 ^ 32 \<Longrightarrow> uint (of_nat a :: u32) = int a"
  by (simp add: uint_nat unat_u32)

lemma wrap_int64: "0 \<le> x \<Longrightarrow> x < 2 ^ 63 \<Longrightarrow> wrap (Signed 64) x = x"
  by (simp add: signed_take_bit_int_eq_self)

section \<open>The records of a batch\<close>

lemma payload_append [simp]: "payload L (xs @ ys) = payload L xs @ payload L ys"
  by (simp add: payload_def)

lemma payload_Cons [simp]: "payload L (f # fs) = record_bytes L f @ payload L fs"
  by (simp add: payload_def)

lemma payload_Nil [simp]: "payload L [] = []"
  by (simp add: payload_def)

context log_libraries
begin

lemma record_bytes_length: "record_ok f \<Longrightarrow> 4 \<le> length (record_bytes L f)"
  using record_finished [of f] by (auto simp: size_prefixed_def)

lemma payload_nonempty: "rs \<noteq> [] \<Longrightarrow> list_all record_ok rs \<Longrightarrow> payload L rs \<noteq> []"
  using record_bytes_length by (cases rs) fastforce+

text \<open>One record: the loop of \<^verbatim>\<open>Read\<close> at the start of \<open>f\<close>.\<close>

lemma batch_loop_step:
  assumes ok: "record_ok f" and small: "length (payload L xs @ record_bytes L f @ rest) < 2 ^ 32"
    and off: "batch_offset b = of_nat (length (payload L xs))" and idx: "batch_index b = of_nat (length xs)"
    and first: "0 \<le> fb_FirstOffset m" "fb_FirstOffset m + int (length xs) < 2 ^ 63" "length xs < 2 ^ 32"
  shows "batch_loop L m (payload L xs @ record_bytes L f @ rest) (Suc n) b records =
    batch_loop L m (payload L xs @ record_bytes L f @ rest) n
      (b\<lparr>batch_offset := of_nat (length (payload L (xs @ [f]))), batch_index := of_nat (length (xs @ [f]))\<rparr>)
      (records @ [record_of (batch_startTime b) (fb_FirstOffset m + int (length xs)) f])"
proof -
  obtain body where body: "record_bytes L f = size_prefixed body" "record_root L body = Some f"
    using record_finished [OF ok] by blast
  let ?P = "length (payload L xs)" and ?B = "length body"
  let ?batch = "payload L xs @ record_bytes L f @ rest"
  have len: "length ?batch = ?P + 4 + ?B + length rest"
    by (simp add: body size_prefixed_def)
  have bounds: "?P + 4 + ?B + length rest < 2 ^ 32" "?P + 4 + ?B < 2 ^ 32" "?P + ?B < 2 ^ 32" "?P + 4 < 2 ^ 32" "?P < 2 ^ 32"
    using small unfolding len by auto
  have size: "size_prefix ?batch (of_nat ?P) = of_nat ?B"
    using bounds by (simp add: size_prefix_def unat_u32 body size_prefixed_def)
  have w: "(of_nat ?P :: u32) \<noteq> of_nat (length ?batch)"
    "\<not> (of_nat ?P :: u32) + 4 > of_nat (length ?batch)"
    "\<not> (of_nat ?P :: u32) + of_nat ?B < of_nat ?P" "\<not> (of_nat ?P :: u32) + of_nat ?B > of_nat (length ?batch)"
    "unat (4 + of_nat ?P :: u32) = ?P + 4" "unat (4 + of_nat ?P + of_nat ?B :: u32) = ?P + 4 + ?B"
    using bounds plus_u32 [of ?P 4] plus_u32 [of 4 ?P] plus_u32 [of "4 + ?P" ?B] plus_u32 [of ?P ?B]
    unfolding len by (simp_all add: eq_u32 less_u32 unat_u32 add.commute del: of_nat_add)
  have slice: "take (?P + 4 + ?B - (?P + 4)) (drop (?P + 4) ?batch) = body"
    by (simp add: body size_prefixed_def)
  have nxt: "(of_nat ?P :: u32) + (of_nat ?B + 4) = of_nat (length (payload L (xs @ [f])))"
    by (simp add: body size_prefixed_def algebra_simps)
  have offset: "wrap (Signed 64) (fb_FirstOffset m + uint (of_nat (length xs) :: u32))
      = fb_FirstOffset m + int (length xs)"
    using first wrap_int64 by (simp add: uint_u32 del: wrap.simps)
  show ?thesis
    using w slice size nxt len offset body(2)
    by (simp add: off idx record_of_def Let_def add.commute [of 1] del: wrap.simps payload_append)
qed

lemma batch_loop_records:
  assumes "list_all record_ok ys" "length (payload L (xs @ ys)) < 2 ^ 32"
    "batch_offset b = of_nat (length (payload L xs))" "batch_index b = of_nat (length xs)"
    "0 \<le> fb_FirstOffset m" "fb_FirstOffset m + int (length (xs @ ys)) < 2 ^ 63" "length (xs @ ys) < 2 ^ 32"
  shows "batch_loop L m (payload L (xs @ ys)) n b records =
    (Return (records @ records_at (batch_startTime b) (fb_FirstOffset m + int (length xs)) (take n ys),
       if length ys < n then Some EOF else None),
     b\<lparr>batch_offset := of_nat (length (payload L (xs @ take n ys))), batch_index := of_nat (length (xs @ take n ys))\<rparr>)"
  using assms
proof (induction n arbitrary: xs ys b records)
  case 0
  then show ?case
    by simp
next
  case (Suc n)
  show ?case
  proof (cases ys)
    case Nil
    with Suc.prems show ?thesis
      by simp
  next
    case (Cons f fs)
    let ?b = "b\<lparr>batch_offset := of_nat (length (payload L (xs @ [f]))), batch_index := of_nat (length (xs @ [f]))\<rparr>"
    let ?r = "record_of (batch_startTime b) (fb_FirstOffset m + int (length xs)) f"
    have "batch_loop L m (payload L (xs @ ys)) (Suc n) b records =
        batch_loop L m (payload L (xs @ ys)) n ?b (records @ [?r])"
      using batch_loop_step [of f xs "payload L fs" b m n records] Suc.prems by (simp add: Cons)
    also have "\<dots> = batch_loop L m (payload L ((xs @ [f]) @ fs)) n ?b (records @ [?r])"
      by (simp add: Cons)
    also have "\<dots> = (Return ((records @ [?r]) @ records_at (batch_startTime ?b)
          (fb_FirstOffset m + int (length (xs @ [f]))) (take n fs), if length fs < n then Some EOF else None),
        ?b\<lparr>batch_offset := of_nat (length (payload L ((xs @ [f]) @ take n fs))),
           batch_index := of_nat (length ((xs @ [f]) @ take n fs))\<rparr>)"
      using Suc.prems by (intro Suc.IH) (simp_all add: Cons)
    finally show ?thesis
      by (simp add: Cons algebra_simps)
  qed
qed

end

section \<open>The data of a batch\<close>

locale log_segment = buffered rd holds + log_libraries L
  for rd :: "(log_panic, byte, 's) read_method" and holds :: "'s \<Rightarrow> bytes \<Rightarrow> error \<Rightarrow> bool" and L :: libraries +
  fixes sk :: "'s seek_method"
    and compression :: int
    and startTime :: int
  assumes compression: "compression = Uncompressed \<or> compression = Snappy \<or> compression = Zstd"
begin

text \<open>The batch \<open>b\<close> over the input \<open>i\<close> is at the record \<open>length xs\<close> of \<open>xs @ ys\<close>, with \<open>rest\<close> behind its data.\<close>

definition in_batch ::
  "int \<Rightarrow> record_fields list \<Rightarrow> record_fields list \<Rightarrow> bytes \<Rightarrow> RecordBatch \<Rightarrow> 's bufferedReadSeeker \<Rightarrow> bool"
where
  "in_batch first xs ys rest b i \<longleftrightarrow>
     batch_root L (batch_frame b) = Some (metadata L compression first (xs @ ys))
     \<and> batch_startTime b = startTime
     \<and> batch_offset b = of_nat (length (payload L xs)) \<and> batch_index b = of_nat (length xs)
     \<and> (if batch_uncompressed b = []
        then batch_N b = int (length (data_section L compression (xs @ ys)))
          \<and> buf_holds i (data_section L compression (xs @ ys) @ rest) EOF
        else batch_uncompressed b = payload L (xs @ ys) \<and> batch_N b \<le> 0 \<and> buf_holds i rest EOF)"

definition batch_fine :: "int \<Rightarrow> record_fields list \<Rightarrow> bool" where
  "batch_fine first rs \<longleftrightarrow> rs \<noteq> [] \<and> small_batch L compression rs \<and> list_all record_ok rs
     \<and> 0 \<le> first \<and> first + int (length rs) < 2 ^ 63"

lemma metadata_ok: "batch_fine first rs \<Longrightarrow> batch_ok (metadata L compression first rs)"
  using compression
  by (auto simp: batch_fine_def batch_ok_def metadata_def small_batch_def record_ok_def list_all_iff
      fits_Unsigned_iff fits_Signed_iff)

lemma read_data_all:
  assumes "buf_holds i (data @ rest) EOF" "batch_N b = int (length data)"
  shows "\<exists>N i'. read_data rd b i (length data) = returns (data, None) (b\<lparr>batch_N := N\<rparr>, i')
    \<and> N \<le> 0 \<and> buf_holds i' rest EOF"
proof -
  have "lim_holds rest (batch_N b, i) (data @ []) EOF"
    using assms by (simp add: lim_holds_def)
  from lim.ReadFull_enough [OF this refl] obtain N i' where
    "ReadFull (LimitedReader_Read (bufferedReadSeeker_Read rd)) (batch_N b, i) (length data)
       = returns (data, None) (N, i')" "lim_holds rest (N, i') [] EOF"
    by auto
  then show ?thesis
    by (auto simp: read_data_def lim_holds_def)
qed

lemma readRecords_in_batch:
  assumes b: "in_batch first xs ys rest b i" and fine: "batch_fine first (xs @ ys)"
  shows "\<exists>b' i'. readRecords L rd b i = returns (Inr (payload L (xs @ ys))) (b', i')
    \<and> in_batch first xs ys rest b' i' \<and> batch_uncompressed b' \<noteq> []"
proof (cases "batch_uncompressed b = []")
  case False
  then show ?thesis
    using b by (auto simp: readRecords_def in_batch_def)
next
  case True
  let ?m = "metadata L compression first (xs @ ys)" and ?data = "data_section L compression (xs @ ys)"
  from b True have root: "batch_root L (batch_frame b) = Some ?m" and i: "buf_holds i (?data @ rest) EOF"
    and N: "batch_N b = int (length ?data)"
    by (auto simp: in_batch_def)
  obtain N' i' where read: "read_data rd b i (length ?data) = returns (?data, None) (b\<lparr>batch_N := N'\<rparr>, i')"
    and N': "N' \<le> 0" "buf_holds i' rest EOF"
    using read_data_all [OF i N] by blast
  have ne: "payload L (xs @ ys) \<noteq> []"
    using fine payload_nonempty by (simp only: batch_fine_def) blast
  show ?thesis
  proof (cases "compression = Uncompressed")
    case plain: True
    have "readRecords L rd b i = returns (Inr (payload L (xs @ ys)))
        (b\<lparr>batch_N := N', batch_uncompressed := payload L (xs @ ys)\<rparr>, i')"
      using True root read plain
      by (simp add: readRecords_def metadata_def data_section_def Let_def del: payload_append)
    then show ?thesis
      using b N' ne by (auto simp: in_batch_def simp del: payload_append)
  next
    case False
    have "readRecords L rd b i = returns (Inr (payload L (xs @ ys)))
        (b\<lparr>batch_N := N', batch_compressed := ?data, batch_uncompressed := payload L (xs @ ys)\<rparr>, i')"
      using True root read False compression decompress_compress
      by (simp add: readRecords_def metadata_def data_section_def Let_def del: payload_append)
    then show ?thesis
      using b N' ne by (auto simp: in_batch_def simp del: payload_append)
  qed
qed

lemma RecordBatch_Read_in_batch:
  assumes b: "in_batch first xs ys rest b i" and fine: "batch_fine first (xs @ ys)" and n: "0 < n"
  shows "\<exists>b' i'. RecordBatch_Read L rd b i n = returns
      (records_at startTime (first + int (length xs)) (take n ys), if length ys < n then Some EOF else None) (b', i')
    \<and> in_batch first (xs @ take n ys) (drop n ys) rest b' i' \<and> batch_uncompressed b' \<noteq> []"
proof -
  obtain b1 i1 where read: "readRecords L rd b i = returns (Inr (payload L (xs @ ys))) (b1, i1)"
    and b1: "in_batch first xs ys rest b1 i1" "batch_uncompressed b1 \<noteq> []"
    using readRecords_in_batch [OF b fine] by blast
  let ?m = "metadata L compression first (xs @ ys)"
  let ?b = "b1\<lparr>batch_offset := of_nat (length (payload L (xs @ take n ys))), batch_index := of_nat (length (xs @ take n ys))\<rparr>"
  have "batch_loop L ?m (payload L (xs @ ys)) n b1 [] =
      (Return ([] @ records_at (batch_startTime b1) (fb_FirstOffset ?m + int (length xs)) (take n ys),
         if length ys < n then Some EOF else None), ?b)"
    using b1 fine
    by (intro batch_loop_records) (auto simp: in_batch_def batch_fine_def small_batch_def metadata_def)
  then have "RecordBatch_Read L rd b i n = returns
      (records_at startTime (first + int (length xs)) (take n ys), if length ys < n then Some EOF else None) (?b, i1)"
    using read b1(1) n by (simp add: RecordBatch_Read_def in_batch_def metadata_def del: payload_append)
  moreover have "in_batch first (xs @ take n ys) (drop n ys) rest ?b i1"
    using b1 by (auto simp: in_batch_def)
  ultimately show ?thesis
    using b1(2) by fastforce
qed

section \<open>Frames\<close>

lemma readFrame_next:
  assumes i: "buf_holds (lr_input r) (batch_bytes L m @ rest) EOF" and m: "batch_ok m"
    and cap: "lr_frameCap r = 256"
  shows "\<exists>i'. readFrame rd r = returns (Inr (batch_bytes L m)) (into_frame r (batch_bytes L m) i')
    \<and> buf_holds i' rest EOF"
proof -
  obtain body where body: "batch_bytes L m = size_prefixed body" "length body \<le> 252"
    using batch_finished [OF m] by blast
  let ?head = "le32 (of_nat (length body))"
  from i have "buf_holds (lr_input r) (?head @ body @ rest) EOF"
    by (simp add: body size_prefixed_def)
  from buf.ReadFull_enough [OF this length_le32] obtain i1 where
    i1: "ReadFull (bufferedReadSeeker_Read rd) (lr_input r) 4 = returns (?head, None) i1"
      "buf_holds i1 (body @ rest) EOF"
    by blast
  obtain i2 where
    i2: "ReadFull (bufferedReadSeeker_Read rd) i1 (length body) = returns (body, None) i2" "buf_holds i2 rest EOF"
    using buf.ReadFull_enough [OF i1(2) refl] by blast
  have frameSize: "of_le32 ?head = of_nat (length body)"
    using of_le32_le32 [of "of_nat (length body)" "[]"] by simp
  have w: "unat (4 + of_nat (length body) :: u32) = 4 + length body" "\<not> (of_nat (length body) :: u32) > 131068"
    using body(2) plus_u32 [of 4 "length body"] less_u32 [of 131068 "length body"]
    by (simp_all add: unat_u32 del: of_nat_add)
  show ?thesis
  proof (cases "body = []")
    case True
    then show ?thesis
      using i1 frameSize w by (auto simp: readFrame_def body size_prefixed_def Let_def)
  next
    case False
    then show ?thesis
      using i1(1) i2 frameSize w cap body(2)
      by (auto simp: readFrame_def body size_prefixed_def Let_def)
  qed
qed

lemma readFrame_end:
  assumes "buf_holds (lr_input r) [] EOF"
  shows "\<exists>i'. readFrame rd r = returns (Inl EOF) (into_frame r [] i') \<and> buf_holds i' [] EOF"
  using buf.ReadFull_short [OF assms, of 4] by (auto simp: readFrame_def)

text \<open>The reader \<open>r\<close> is between two batches, in front of \<open>batches\<close>.\<close>

definition between :: "int \<Rightarrow> record_fields list list \<Rightarrow> 's LogReader \<Rightarrow> bool" where
  "between first batches r \<longleftrightarrow>
     buf_holds (lr_input r) (segment_wire L compression first batches) EOF
     \<and> batch_N (lr_batch r) \<le> 0 \<and> lr_frameCap r = 256 \<and> lr_startTime r = startTime
     \<and> lr_nextRecordOffset r \<le> first"

lemma between_new:
  "holds s (segment_wire L compression 0 batches) EOF \<Longrightarrow> between 0 batches (NewLogReader s startTime)"
  by (simp add: between_def NewLogReader_def RecordBatch_zero_def buf_holds_new)

lemma ReadRecordBatch_end:
  assumes "between first [] r"
  shows "\<exists>r'. ReadRecordBatch L rd sk r = returns (Some EOF) r' \<and> between first [] r'"
proof -
  obtain i' where "readFrame rd r = returns (Inl EOF) (into_frame r [] i')" "buf_holds i' [] EOF"
    using readFrame_end assms by (auto simp: between_def)
  with assms show ?thesis
    by (subst ReadRecordBatch.simps) (auto simp: skip_data_def between_def into_frame_def)
qed

lemma ReadRecordBatch_next:
  assumes r: "between first (rs # batches) r" and fine: "batch_fine first rs"
  shows "\<exists>r'. ReadRecordBatch L rd sk r = returns None r'
    \<and> in_batch first [] rs (segment_wire L compression (first + int (length rs)) batches) (lr_batch r') (lr_input r')
    \<and> lr_frameCap r' = 256 \<and> lr_startTime r' = startTime \<and> lr_nextRecordOffset r' = first + int (length rs)"
proof -
  let ?m = "metadata L compression first rs"
  let ?rest = "segment_wire L compression (first + int (length rs)) batches"
  have m: "batch_ok ?m"
    using metadata_ok fine by simp
  from r have "buf_holds (lr_input r) (batch_bytes L ?m @ data_section L compression rs @ ?rest) EOF"
    by (simp add: between_def batch_wire_def)
  then obtain i' where frame: "readFrame rd r = returns (Inr (batch_bytes L ?m)) (into_frame r (batch_bytes L ?m) i')"
    and i': "buf_holds i' (data_section L compression rs @ ?rest) EOF"
    using readFrame_next [OF _ m] r by (auto simp: between_def)
  obtain body where "batch_bytes L ?m = size_prefixed body" "batch_root L (size_prefixed body) = Some ?m"
    using batch_finished [OF m] by blast
  then have root: "batch_root L (batch_bytes L ?m) = Some ?m" "0 < length (batch_bytes L ?m)"
    by (auto simp: size_prefixed_def)
  let ?b = "(lr_batch r)\<lparr>batch_frame := batch_bytes L ?m, batch_startTime := startTime, batch_offset := 0,
    batch_index := 0, batch_compressed := [], batch_uncompressed := [], batch_N := fb_CompressedSize ?m\<rparr>"
  have reset: "RecordBatch_Reset L (lr_batch (into_frame r (batch_bytes L ?m) i')) startTime (batch_bytes L ?m) = Return ?b"
    using root by (simp add: RecordBatch_Reset_def into_frame_def Let_def)
  have "\<exists>o'. open_batch L (into_frame r (batch_bytes L ?m) i') (batch_bytes L ?m)
      = returns () (r\<lparr>lr_input := i', lr_batch := ?b, lr_nextByteOffset := o'\<rparr>)"
    using reset root r by (auto simp: open_batch_def between_def into_frame_def Let_def)
  then obtain o' where op: "open_batch L (into_frame r (batch_bytes L ?m) i') (batch_bytes L ?m)
      = returns () (r\<lparr>lr_input := i', lr_batch := ?b, lr_nextByteOffset := o'\<rparr>)" ..
  have nxt: "NextOffset ?m = first + int (length rs)"
    using fine by (simp add: NextOffset_def metadata_def batch_fine_def wrap_int64 del: wrap.simps)
  have "ReadRecordBatch L rd sk r = returns None
      (r\<lparr>lr_input := i', lr_batch := ?b, lr_nextByteOffset := o', lr_nextRecordOffset := first + int (length rs)\<rparr>)"
    using r frame op root nxt by (subst ReadRecordBatch.simps) (simp add: skip_data_def between_def)
  then show ?thesis
    using r root i' by (simp add: in_batch_def between_def metadata_def)
qed

section \<open>The stream of records\<close>

text \<open>The reader is inside the batch \<open>us @ ys\<close>, with the records \<open>ys\<close> still to come, and in front of \<open>batches\<close>.\<close>

definition inside ::
  "int \<Rightarrow> record_fields list \<Rightarrow> record_fields list \<Rightarrow> record_fields list list \<Rightarrow> 's LogRecordReader \<Rightarrow> bool"
where
  "inside first us ys batches r \<longleftrightarrow> lrr_batch r \<and> lrr_seekTo r = 0
     \<and> in_batch first us ys (segment_wire L compression (first + int (length (us @ ys))) batches)
         (lr_batch (lrr_reader r)) (lr_input (lrr_reader r))
     \<and> lr_frameCap (lrr_reader r) = 256 \<and> lr_startTime (lrr_reader r) = startTime
     \<and> lr_nextRecordOffset (lrr_reader r) = first + int (length (us @ ys))
     \<and> lrr_offset r = first + int (length us)
     \<and> batch_fine first (us @ ys) \<and> batches_ok L compression (first + int (length (us @ ys))) batches"

definition outside :: "int \<Rightarrow> record_fields list list \<Rightarrow> 's LogRecordReader \<Rightarrow> bool" where
  "outside first batches r \<longleftrightarrow> \<not> lrr_batch r \<and> lrr_seekTo r = 0 \<and> between first batches (lrr_reader r)
     \<and> batches_ok L compression first batches"

definition log_holds :: "'s LogRecordReader \<Rightarrow> Record list \<Rightarrow> error \<Rightarrow> bool" where
  "log_holds r xs e \<longleftrightarrow> e = EOF \<and>
     (\<exists>first batches. (outside first batches r \<and> xs = records_at startTime first (concat batches))
       \<or> (\<exists>us ys. inside first us ys batches r
            \<and> xs = records_at startTime (first + int (length us)) (ys @ concat batches)))"

lemma batches_ok_fine:
  "batches_ok L compression first (rs # batches) \<Longrightarrow>
     batch_fine first rs \<and> batches_ok L compression (first + int (length rs)) batches"
  by (auto simp: batches_ok_def batch_fine_def)

lemma next_batch_outside:
  assumes "outside first (rs # batches) r"
  shows "\<exists>r'. next_batch L rd sk r = returns (Some (Inr ())) r' \<and> inside first [] rs batches r'"
proof -
  from assms have r: "between first (rs # batches) (lrr_reader r)"
    and fine: "batch_fine first rs" "batches_ok L compression (first + int (length rs)) batches"
    and off: "\<not> lrr_batch r" "lrr_seekTo r = 0"
    using batches_ok_fine by (auto simp: outside_def)
  obtain lr where lr: "ReadRecordBatch L rd sk (lrr_reader r) = returns None lr"
    "in_batch first [] rs (segment_wire L compression (first + int (length rs)) batches) (lr_batch lr) (lr_input lr)"
    "lr_frameCap lr = 256" "lr_startTime lr = startTime" "lr_nextRecordOffset lr = first + int (length rs)"
    using ReadRecordBatch_next [OF r fine(1)] by blast
  then have root: "batch_root L (batch_frame (lr_batch lr)) = Some (metadata L compression first rs)"
    by (simp add: in_batch_def)
  have "\<not> NextOffset (metadata L compression first rs) < 0"
    using fine(1) by (simp add: NextOffset_def metadata_def batch_fine_def wrap_int64 del: wrap.simps)
  then show ?thesis
    using lr root off fine by (auto simp: next_batch_def inside_def metadata_def)
qed

lemma from_batch_inside:
  assumes r: "inside first us ys batches r" and n: "0 < n"
  shows "\<exists>slice r'. from_batch L rd old r n = returns
      (records_at startTime (first + int (length us)) (take n ys), if length ys < n then Some EOF else None, slice) r'
    \<and> inside first (us @ take n ys) (drop n ys) batches r'
    \<and> (ys = [] \<longrightarrow> outside (first + int (length us)) batches (r'\<lparr>lrr_batch := False\<rparr>))"
proof -
  let ?rest = "segment_wire L compression (first + int (length (us @ ys))) batches"
  from r have b: "in_batch first us ys ?rest (lr_batch (lrr_reader r)) (lr_input (lrr_reader r))"
    and fine: "batch_fine first (us @ ys)" and off: "lrr_offset r = first + int (length us)" "lrr_seekTo r = 0"
    by (auto simp: inside_def)
  obtain b' i' where read: "RecordBatch_Read L rd (lr_batch (lrr_reader r)) (lr_input (lrr_reader r)) n = returns
      (records_at startTime (first + int (length us)) (take n ys), if length ys < n then Some EOF else None) (b', i')"
    and b': "in_batch first (us @ take n ys) (drop n ys) ?rest b' i'" "batch_uncompressed b' \<noteq> []"
    using RecordBatch_Read_in_batch [OF b fine n] by blast
  have "0 \<le> first + int (length us)" "first + int (length us) + int (length (take n ys)) < 2 ^ 63"
    using fine by (auto simp: batch_fine_def)
  then have w: "wrap (Signed 64) (first + int (length us) + int (length (take n ys)))
      = first + int (length (us @ take n ys))" "\<not> first + int (length us) < 0"
    using wrap_int64 [of "first + int (length us) + int (length (take n ys))"] by auto
  let ?r = "r\<lparr>lrr_reader := (lrr_reader r)\<lparr>lr_batch := b', lr_input := i'\<rparr>,
    lrr_offset := first + int (length (us @ take n ys))\<rparr>"
  have "\<exists>slice. from_batch L rd old r n = returns
      (records_at startTime (first + int (length us)) (take n ys), if length ys < n then Some EOF else None, slice) ?r"
    using read off w by (simp add: from_batch_def Let_def del: wrap.simps length_take length_append)
  moreover have "inside first (us @ take n ys) (drop n ys) batches ?r"
    using r b' by (simp add: inside_def)
  moreover have "outside (first + int (length us)) batches (?r\<lparr>lrr_batch := False\<rparr>)" if "ys = []"
    using r b' that by (simp add: inside_def outside_def between_def in_batch_def)
  ultimately show ?thesis
    by blast
qed

lemma LogRecordReader_Read_inside:
  assumes r: "inside first us ys batches r" and n: "0 < n" and ys: "ys \<noteq> []"
  shows "\<exists>r'. LogRecordReader_Read L rd sk old r n =
      returns (records_at startTime (first + int (length us)) (take n ys), None) r'
    \<and> inside first (us @ take n ys) (drop n ys) batches r'"
proof -
  have "next_batch L rd sk r = returns (Some (Inr ())) r"
    using r by (simp add: next_batch_def inside_def)
  moreover have "records_at startTime (first + int (length us)) (take n ys) \<noteq> []"
    using n ys by (cases ys; cases n) auto
  ultimately show ?thesis
    using from_batch_inside [OF r n, of old] ys by (subst LogRecordReader_Read.simps) fastforce
qed

lemma LogRecordReader_Read_outside:
  assumes r: "outside first (rs # batches) r" and n: "0 < n"
  shows "\<exists>r'. LogRecordReader_Read L rd sk old r n = returns (records_at startTime first (take n rs), None) r'
    \<and> inside first (take n rs) (drop n rs) batches r'"
proof -
  obtain r1 where nb: "next_batch L rd sk r = returns (Some (Inr ())) r1" and r1: "inside first [] rs batches r1"
    using next_batch_outside [OF r] by blast
  have "rs \<noteq> []"
    using r1 by (auto simp: inside_def batch_fine_def)
  have "LogRecordReader_Read L rd sk old r n = LogRecordReader_Read L rd sk old r1 n"
    using nb r1 by (subst (1 2) LogRecordReader_Read.simps) (simp add: next_batch_def [of L rd sk r1] inside_def)
  then show ?thesis
    using LogRecordReader_Read_inside [OF r1 n \<open>rs \<noteq> []\<close>] by simp
qed

lemma LogRecordReader_Read_end:
  assumes r: "outside first [] r"
  shows "\<exists>r'. LogRecordReader_Read L rd sk old r n = returns ([], Some EOF) r' \<and> outside first [] r'"
proof -
  obtain lr where "ReadRecordBatch L rd sk (lrr_reader r) = returns (Some EOF) lr" "between first [] lr"
    using ReadRecordBatch_end r by (auto simp: outside_def)
  with r show ?thesis
    by (subst LogRecordReader_Read.simps) (auto simp: next_batch_def outside_def)
qed

text \<open>At the end of a batch the reader goes on to the next one.\<close>

lemma LogRecordReader_Read_skip:
  assumes r: "inside first us [] batches r" and n: "0 < n"
  shows "\<exists>slice r'. LogRecordReader_Read L rd sk old r n = LogRecordReader_Read L rd sk slice r' n
    \<and> outside (first + int (length us)) batches r'"
proof -
  obtain slice r1 where r1: "from_batch L rd old r n = returns ([], Some EOF, slice) r1"
    "outside (first + int (length us)) batches (r1\<lparr>lrr_batch := False\<rparr>)"
    using from_batch_inside [OF r n, of old] n by fastforce
  moreover have "next_batch L rd sk r = returns (Some (Inr ())) r"
    using r by (simp add: next_batch_def inside_def)
  ultimately show ?thesis
    by (subst LogRecordReader_Read.simps) auto
qed

lemma log_holds_insideI:
  "inside first us ys batches r \<Longrightarrow>
     log_holds r (records_at startTime (first + int (length us)) (ys @ concat batches)) EOF"
  by (auto simp: log_holds_def)

lemma log_holds_outsideI:
  "outside first batches r \<Longrightarrow> log_holds r (records_at startTime first (concat batches)) EOF"
  by (auto simp: log_holds_def)

lemma Read_outside_holds:
  assumes r: "outside first batches r" and n: "0 < n" and xs: "xs = records_at startTime first (concat batches)"
  shows "read_spec (LogRecordReader_Read L rd sk old) log_holds r xs EOF n"
proof (cases batches)
  case Nil
  then show ?thesis
    using LogRecordReader_Read_end [of first r old n] r xs log_holds_outsideI
    by (fastforce simp: read_spec_def)
next
  case (Cons rs bs)
  then obtain r' where read: "LogRecordReader_Read L rd sk old r n = returns (records_at startTime first (take n rs), None) r'"
    and r': "inside first (take n rs) (drop n rs) bs r'"
    using LogRecordReader_Read_outside r n by blast
  have "take n rs \<noteq> []"
    using r' n by (auto simp: inside_def batch_fine_def)
  then have "records_at startTime first (take n rs) \<noteq> []"
    by (metis length_0_conv length_records_at)
  moreover have "xs = records_at startTime first (take n rs)
      @ records_at startTime (first + int (length (take n rs))) (drop n rs @ concat bs)"
    using records_at_append [of startTime first "take n rs" "drop n rs @ concat bs"] by (simp add: xs Cons)
  ultimately show ?thesis
    using read log_holds_insideI [OF r'] by (intro read_more) auto
qed

end

sublocale log_segment \<subseteq> log: stream_reader "LogRecordReader_Read L rd sk old" log_holds for old
proof unfold_locales
  fix r xs e and n :: nat
  assume h: "log_holds r xs e" and n: "0 < n"
  then have e: "e = EOF"
    by (simp add: log_holds_def)
  from h obtain first batches where
    "(outside first batches r \<and> xs = records_at startTime first (concat batches)) \<or>
     (\<exists>us ys. inside first us ys batches r \<and> xs = records_at startTime (first + int (length us)) (ys @ concat batches))"
    by (auto simp: log_holds_def)
  then consider "outside first batches r" "xs = records_at startTime first (concat batches)"
    | us where "inside first us [] batches r" "xs = records_at startTime (first + int (length us)) (concat batches)"
    | us ys where "inside first us ys batches r" "ys \<noteq> []"
        "xs = records_at startTime (first + int (length us)) (ys @ concat batches)"
    by (metis append_Nil)
  then have "read_spec (LogRecordReader_Read L rd sk old) log_holds r xs EOF n"
  proof cases
    case 1
    then show ?thesis
      using Read_outside_holds n by blast
  next
    case 2
    then obtain slice r' where "LogRecordReader_Read L rd sk old r n = LogRecordReader_Read L rd sk slice r' n"
      "outside (first + int (length us)) batches r'"
      using LogRecordReader_Read_skip n by blast
    then show ?thesis
      using Read_outside_holds n 2(2) by (simp add: read_spec_def)
  next
    case 3
    then obtain r' where r': "LogRecordReader_Read L rd sk old r n =
        returns (records_at startTime (first + int (length us)) (take n ys), None) r'"
      "inside first (us @ take n ys) (drop n ys) batches r'"
      using LogRecordReader_Read_inside n by blast
    have "records_at startTime (first + int (length us)) (take n ys) \<noteq> []"
      using 3(2) n by (metis length_0_conv length_records_at take_eq_Nil less_irrefl)
    moreover have "xs = records_at startTime (first + int (length us)) (take n ys)
        @ records_at startTime (first + int (length (us @ take n ys))) (drop n ys @ concat batches)"
      using records_at_append [of startTime "first + int (length us)" "take n ys" "drop n ys @ concat batches"]
      by (simp add: 3(3) algebra_simps)
    ultimately show ?thesis
      using r'(1) log_holds_insideI [OF r'(2)] by (intro read_more) auto
  qed
  then show "read_spec (LogRecordReader_Read L rd sk old) log_holds r xs e n"
    by (simp add: e)
qed

context log_segment
begin

lemma log_holds_new:
  assumes "holds s (segment_wire L compression 0 batches) EOF" "batches_ok L compression 0 batches"
  shows "log_holds (NewLogRecordReader (NewLogReader s startTime)) (records_at startTime 0 (concat batches)) EOF"
  using assms between_new
  by (intro log_holds_outsideI) (simp add: outside_def NewLogRecordReader_def)

lemma reads_new:
  assumes "holds s (segment_wire L compression 0 batches) EOF" "batches_ok L compression 0 batches"
    "0 < k" "length (concat batches) < n"
  shows "answers_pending (reads (LogRecordReader_Read L rd sk old) k n (NewLogRecordReader (NewLogReader s startTime)))
    = (records_at startTime 0 (concat batches), EOF)"
  using log.reads_holds [OF log_holds_new [OF assms(1,2)] assms(3)] assms(4) by simp

end

section \<open>Failures\<close>

text \<open>A frame that does not fit the buffer.\<close>

lemma readFrame_large:
  assumes "bf.buf_holds (lr_input r) (le32 n @ rest) EOF" "lr_frameCap r < 4 + unat n" "n \<le> 131068" "4 \<le> lr_frameCap r"
  shows "\<exists>r'. readFrame file_Read r = panics SliceBounds r'"
proof -
  from bf.buf.ReadFull_enough [OF assms(1) length_le32] obtain i1 where
    i1: "ReadFull (bufferedReadSeeker_Read file_Read) (lr_input r) 4
      = (returns (le32 n, None) i1 :: (log_panic, _, _) call)"
    by blast
  have "unat n \<le> 131068"
    using assms(3) by (simp add: word_le_nat_alt)
  then have "unat (4 + n) = 4 + unat n"
    by (simp add: unat_word_ariths)
  moreover have "of_le32 (le32 n) = n"
    using of_le32_le32 [of n "[]"] by simp
  ultimately show ?thesis
    using assms(2-4) i1 by (auto simp: readFrame_def Let_def)
qed

lemma ReadRecordBatch_large:
  assumes "bf.buf_holds (lr_input r) (le32 n @ rest) EOF" "lr_frameCap r < 4 + unat n" "n \<le> 131068" "4 \<le> lr_frameCap r"
    "batch_N (lr_batch r) = 0"
  shows "\<exists>r'. ReadRecordBatch L file_Read sk r = panics SliceBounds r'"
  using readFrame_large [OF assms(1-4)] assms(5)
  by (subst ReadRecordBatch.simps) (auto simp: skip_data_def)

text \<open>Data that failed its checksum is kept, and taken for verified at the next read.\<close>

lemma readRecords_again:
  assumes "batch_root L (batch_frame b) = Some m" "fb_Compression m = Uncompressed" "batch_uncompressed b = []"
    "readRecords L rd b i = returns (Inl err) (b', i')" "0 < fb_UncompressedSize m"
  shows "batch_uncompressed b' \<noteq> []"
    "readRecords L rd b' i' = returns (Inr (batch_uncompressed b')) (b', i')"
proof -
  let ?n = "nat (fb_UncompressedSize m)"
  obtain data e b1 i1 where d: "read_data rd b i ?n = returns (data, e) (b1, i1)"
    "b' = b1\<lparr>batch_uncompressed := data\<rparr>"
    using assms(1-4)
    by (auto simp: readRecords_def bind_call_eq_returns Let_def split: option.splits if_splits prod.splits)
  then have "?n \<le> length data"
    by (auto simp: read_data_def bind_call_eq_returns split: prod.splits)
  then show ne: "batch_uncompressed b' \<noteq> []"
    using assms(5) d(2) by auto
  then show "readRecords L rd b' i' = returns (Inr (batch_uncompressed b')) (b', i')"
    by (simp add: readRecords_def)
qed

end
