(* ===== verification/Decoder.thy ===== *)
theory Decoder
  imports Syscall
begin

text \<open>
  Reading recorded system calls back (\<^verbatim>\<open>internal/timemachine/wasicall/reader.go\<close>). \<^verbatim>\<open>Decoder.Decode\<close> is a
  switch on the record's function identifier; \<open>Decode_X\<close> is its case for \<^verbatim>\<open>X\<close> and \<open>Decoder_Decode\<close> the
  switch. The decoder keeps the slices it decoded into, to reuse their memory: a field of the state
  is such a slice extended to its capacity, and \<open>recache\<close> is what a decode leaves in it.

  \<open>encode_syscall\<close> is what the recorder writes for a completed call, \<open>syscall_ok\<close> says which calls the
  codec represents, and \<open>logged\<close> is what remains of a call in the log: of the buffers of a read, the
  prefix that was filled. The lemma \<open>Decoder_Decode_logged\<close> is the round trip over all calls.
\<close>

section \<open>The decoder\<close>

record 'v Decoder =
  Decoder_args :: "bytes list"
  Decoder_iovecs :: "bytes list"
  Decoder_subscriptions :: "'v Subscription list"
  Decoder_events :: "Event list"
  Decoder_entries :: "DirEntry list"
  Decoder_addrinfo :: "AddressInfo list"

definition zero_Decoder :: "'v Decoder" where
  "zero_Decoder = \<lparr>Decoder_args = [], Decoder_iovecs = [], Decoder_subscriptions = [],
     Decoder_events = [], Decoder_entries = [], Decoder_addrinfo = []\<rparr>"

definition recache :: "'a list \<Rightarrow> 'a list \<Rightarrow> 'a list" where
  "recache cache xs = (if length cache < length xs then xs else xs @ drop (length xs) cache)"

text \<open>\<^verbatim>\<open>&DecodeError{record, err}\<close> and the error for an identifier that no case names.\<close>

datatype decode_failure = DecodeFailure Record error | UnknownSyscall int


definition Decode_ArgsSizesGet ::
  "'v wasi \<Rightarrow> 'v Decoder \<Rightarrow> Record \<Rightarrow> (decode_failure + 'v Syscall) \<times> 'v Decoder" where
  "Decode_ArgsSizesGet W r record =
     (case DecodeArgsSizesGet W (Record_FunctionCall record) of
        Inl err \<Rightarrow> (Inl (DecodeFailure record err), r)
      | Inr (argCount, stringBytes, errno) \<Rightarrow>
          (Inr (EnvCall (ArgsSizesGetSyscall argCount stringBytes errno)),
           r))"

definition Decode_ArgsGet ::
  "'v wasi \<Rightarrow> 'v Decoder \<Rightarrow> Record \<Rightarrow> (decode_failure + 'v Syscall) \<times> 'v Decoder" where
  "Decode_ArgsGet W r record =
     (case DecodeArgsGet W (Record_FunctionCall record) (Decoder_args r) of
        Inl err \<Rightarrow> (Inl (DecodeFailure record err), r)
      | Inr (args, errno) \<Rightarrow>
          (Inr (EnvCall (ArgsGetSyscall args errno)),
           r\<lparr>Decoder_args := recache (Decoder_args r) args\<rparr>))"

definition Decode_EnvironSizesGet ::
  "'v wasi \<Rightarrow> 'v Decoder \<Rightarrow> Record \<Rightarrow> (decode_failure + 'v Syscall) \<times> 'v Decoder" where
  "Decode_EnvironSizesGet W r record =
     (case DecodeEnvironSizesGet W (Record_FunctionCall record) of
        Inl err \<Rightarrow> (Inl (DecodeFailure record err), r)
      | Inr (envCount, stringBytes, errno) \<Rightarrow>
          (Inr (EnvCall (EnvironSizesGetSyscall envCount stringBytes errno)),
           r))"

definition Decode_EnvironGet ::
  "'v wasi \<Rightarrow> 'v Decoder \<Rightarrow> Record \<Rightarrow> (decode_failure + 'v Syscall) \<times> 'v Decoder" where
  "Decode_EnvironGet W r record =
     (case DecodeEnvironGet W (Record_FunctionCall record) (Decoder_args r) of
        Inl err \<Rightarrow> (Inl (DecodeFailure record err), r)
      | Inr (env, errno) \<Rightarrow>
          (Inr (EnvCall (EnvironGetSyscall env errno)),
           r\<lparr>Decoder_args := recache (Decoder_args r) env\<rparr>))"

definition Decode_ClockResGet ::
  "'v wasi \<Rightarrow> 'v Decoder \<Rightarrow> Record \<Rightarrow> (decode_failure + 'v Syscall) \<times> 'v Decoder" where
  "Decode_ClockResGet W r record =
     (case DecodeClockResGet W (Record_FunctionCall record) of
        Inl err \<Rightarrow> (Inl (DecodeFailure record err), r)
      | Inr (clockID, timestamp, errno) \<Rightarrow>
          (Inr (EnvCall (ClockResGetSyscall clockID timestamp errno)),
           r))"

definition Decode_ClockTimeGet ::
  "'v wasi \<Rightarrow> 'v Decoder \<Rightarrow> Record \<Rightarrow> (decode_failure + 'v Syscall) \<times> 'v Decoder" where
  "Decode_ClockTimeGet W r record =
     (case DecodeClockTimeGet W (Record_FunctionCall record) of
        Inl err \<Rightarrow> (Inl (DecodeFailure record err), r)
      | Inr (clockID, precision, timestamp, errno) \<Rightarrow>
          (Inr (EnvCall (ClockTimeGetSyscall clockID precision timestamp errno)),
           r))"

definition Decode_FDAdvise ::
  "'v wasi \<Rightarrow> 'v Decoder \<Rightarrow> Record \<Rightarrow> (decode_failure + 'v Syscall) \<times> 'v Decoder" where
  "Decode_FDAdvise W r record =
     (case DecodeFDAdvise W (Record_FunctionCall record) of
        Inl err \<Rightarrow> (Inl (DecodeFailure record err), r)
      | Inr (fd, offset, len, advice, errno) \<Rightarrow>
          (Inr (FDCall (FDAdviseSyscall fd offset len advice errno)),
           r))"

definition Decode_FDAllocate ::
  "'v wasi \<Rightarrow> 'v Decoder \<Rightarrow> Record \<Rightarrow> (decode_failure + 'v Syscall) \<times> 'v Decoder" where
  "Decode_FDAllocate W r record =
     (case DecodeFDAllocate W (Record_FunctionCall record) of
        Inl err \<Rightarrow> (Inl (DecodeFailure record err), r)
      | Inr (fd, offset, len, errno) \<Rightarrow>
          (Inr (FDCall (FDAllocateSyscall fd offset len errno)),
           r))"

definition Decode_FDClose ::
  "'v wasi \<Rightarrow> 'v Decoder \<Rightarrow> Record \<Rightarrow> (decode_failure + 'v Syscall) \<times> 'v Decoder" where
  "Decode_FDClose W r record =
     (case DecodeFDClose W (Record_FunctionCall record) of
        Inl err \<Rightarrow> (Inl (DecodeFailure record err), r)
      | Inr (fd, errno) \<Rightarrow>
          (Inr (FDCall (FDCloseSyscall fd errno)),
           r))"

definition Decode_FDDataSync ::
  "'v wasi \<Rightarrow> 'v Decoder \<Rightarrow> Record \<Rightarrow> (decode_failure + 'v Syscall) \<times> 'v Decoder" where
  "Decode_FDDataSync W r record =
     (case DecodeFDDataSync W (Record_FunctionCall record) of
        Inl err \<Rightarrow> (Inl (DecodeFailure record err), r)
      | Inr (fd, errno) \<Rightarrow>
          (Inr (FDCall (FDDataSyncSyscall fd errno)),
           r))"

definition Decode_FDStatGet ::
  "'v wasi \<Rightarrow> 'v Decoder \<Rightarrow> Record \<Rightarrow> (decode_failure + 'v Syscall) \<times> 'v Decoder" where
  "Decode_FDStatGet W r record =
     (case DecodeFDStatGet W (Record_FunctionCall record) of
        Inl err \<Rightarrow> (Inl (DecodeFailure record err), r)
      | Inr (fd, stat, errno) \<Rightarrow>
          (Inr (FDCall (FDStatGetSyscall fd stat errno)),
           r))"

definition Decode_FDStatSetFlags ::
  "'v wasi \<Rightarrow> 'v Decoder \<Rightarrow> Record \<Rightarrow> (decode_failure + 'v Syscall) \<times> 'v Decoder" where
  "Decode_FDStatSetFlags W r record =
     (case DecodeFDStatSetFlags W (Record_FunctionCall record) of
        Inl err \<Rightarrow> (Inl (DecodeFailure record err), r)
      | Inr (fd, flags, errno) \<Rightarrow>
          (Inr (FDCall (FDStatSetFlagsSyscall fd flags errno)),
           r))"

definition Decode_FDStatSetRights ::
  "'v wasi \<Rightarrow> 'v Decoder \<Rightarrow> Record \<Rightarrow> (decode_failure + 'v Syscall) \<times> 'v Decoder" where
  "Decode_FDStatSetRights W r record =
     (case DecodeFDStatSetRights W (Record_FunctionCall record) of
        Inl err \<Rightarrow> (Inl (DecodeFailure record err), r)
      | Inr (fd, rightsBase, rightsInheriting, errno) \<Rightarrow>
          (Inr (FDCall (FDStatSetRightsSyscall fd rightsBase rightsInheriting errno)),
           r))"

definition Decode_FDFileStatGet ::
  "'v wasi \<Rightarrow> 'v Decoder \<Rightarrow> Record \<Rightarrow> (decode_failure + 'v Syscall) \<times> 'v Decoder" where
  "Decode_FDFileStatGet W r record =
     (case DecodeFDFileStatGet W (Record_FunctionCall record) of
        Inl err \<Rightarrow> (Inl (DecodeFailure record err), r)
      | Inr (fd, stat, errno) \<Rightarrow>
          (Inr (FDCall (FDFileStatGetSyscall fd stat errno)),
           r))"

definition Decode_FDFileStatSetSize ::
  "'v wasi \<Rightarrow> 'v Decoder \<Rightarrow> Record \<Rightarrow> (decode_failure + 'v Syscall) \<times> 'v Decoder" where
  "Decode_FDFileStatSetSize W r record =
     (case DecodeFDFileStatSetSize W (Record_FunctionCall record) of
        Inl err \<Rightarrow> (Inl (DecodeFailure record err), r)
      | Inr (fd, sz, errno) \<Rightarrow>
          (Inr (FDCall (FDFileStatSetSizeSyscall fd sz errno)),
           r))"

definition Decode_FDFileStatSetTimes ::
  "'v wasi \<Rightarrow> 'v Decoder \<Rightarrow> Record \<Rightarrow> (decode_failure + 'v Syscall) \<times> 'v Decoder" where
  "Decode_FDFileStatSetTimes W r record =
     (case DecodeFDFileStatSetTimes W (Record_FunctionCall record) of
        Inl err \<Rightarrow> (Inl (DecodeFailure record err), r)
      | Inr (fd, accessTime, modifyTime, flags, errno) \<Rightarrow>
          (Inr (FDCall (FDFileStatSetTimesSyscall fd accessTime modifyTime flags errno)),
           r))"

definition Decode_FDPread ::
  "'v wasi \<Rightarrow> 'v Decoder \<Rightarrow> Record \<Rightarrow> (decode_failure + 'v Syscall) \<times> 'v Decoder" where
  "Decode_FDPread W r record =
     (case DecodeFDPread W (Record_FunctionCall record) (Decoder_iovecs r) of
        Inl err \<Rightarrow> (Inl (DecodeFailure record err), r)
      | Inr (fd, iovecs, offset, sz, errno) \<Rightarrow>
          (Inr (FDCall (FDPreadSyscall fd iovecs offset sz errno)),
           r\<lparr>Decoder_iovecs := recache (Decoder_iovecs r) iovecs\<rparr>))"

definition Decode_FDPreStatGet ::
  "'v wasi \<Rightarrow> 'v Decoder \<Rightarrow> Record \<Rightarrow> (decode_failure + 'v Syscall) \<times> 'v Decoder" where
  "Decode_FDPreStatGet W r record =
     (case DecodeFDPreStatGet W (Record_FunctionCall record) of
        Inl err \<Rightarrow> (Inl (DecodeFailure record err), r)
      | Inr (fd, stat, errno) \<Rightarrow>
          (Inr (FDCall (FDPreStatGetSyscall fd stat errno)),
           r))"

definition Decode_FDPreStatDirName ::
  "'v wasi \<Rightarrow> 'v Decoder \<Rightarrow> Record \<Rightarrow> (decode_failure + 'v Syscall) \<times> 'v Decoder" where
  "Decode_FDPreStatDirName W r record =
     (case DecodeFDPreStatDirName W (Record_FunctionCall record) of
        Inl err \<Rightarrow> (Inl (DecodeFailure record err), r)
      | Inr (fd, name, errno) \<Rightarrow>
          (Inr (FDCall (FDPreStatDirNameSyscall fd name errno)),
           r))"

definition Decode_FDPwrite ::
  "'v wasi \<Rightarrow> 'v Decoder \<Rightarrow> Record \<Rightarrow> (decode_failure + 'v Syscall) \<times> 'v Decoder" where
  "Decode_FDPwrite W r record =
     (case DecodeFDPwrite W (Record_FunctionCall record) (Decoder_iovecs r) of
        Inl err \<Rightarrow> (Inl (DecodeFailure record err), r)
      | Inr (fd, iovecs, offset, sz, errno) \<Rightarrow>
          (Inr (FDCall (FDPwriteSyscall fd iovecs offset sz errno)),
           r\<lparr>Decoder_iovecs := recache (Decoder_iovecs r) iovecs\<rparr>))"

definition Decode_FDRead ::
  "'v wasi \<Rightarrow> 'v Decoder \<Rightarrow> Record \<Rightarrow> (decode_failure + 'v Syscall) \<times> 'v Decoder" where
  "Decode_FDRead W r record =
     (case DecodeFDRead W (Record_FunctionCall record) (Decoder_iovecs r) of
        Inl err \<Rightarrow> (Inl (DecodeFailure record err), r)
      | Inr (fd, iovecs, sz, errno) \<Rightarrow>
          (Inr (FDCall (FDReadSyscall fd iovecs sz errno)),
           r\<lparr>Decoder_iovecs := recache (Decoder_iovecs r) iovecs\<rparr>))"

definition Decode_FDReadDir ::
  "'v wasi \<Rightarrow> 'v Decoder \<Rightarrow> Record \<Rightarrow> (decode_failure + 'v Syscall) \<times> 'v Decoder" where
  "Decode_FDReadDir W r record =
     (case DecodeFDReadDir W (Record_FunctionCall record) (Decoder_entries r) of
        Inl err \<Rightarrow> (Inl (DecodeFailure record err), r)
      | Inr (fd, entries, cookie, bufferSizeBytes, errno) \<Rightarrow>
          (Inr (FDCall (FDReadDirSyscall fd entries cookie bufferSizeBytes errno)),
           r\<lparr>Decoder_entries := recache (Decoder_entries r) entries\<rparr>))"

definition Decode_FDRenumber ::
  "'v wasi \<Rightarrow> 'v Decoder \<Rightarrow> Record \<Rightarrow> (decode_failure + 'v Syscall) \<times> 'v Decoder" where
  "Decode_FDRenumber W r record =
     (case DecodeFDRenumber W (Record_FunctionCall record) of
        Inl err \<Rightarrow> (Inl (DecodeFailure record err), r)
      | Inr (from, to, errno) \<Rightarrow>
          (Inr (FDCall (FDRenumberSyscall from to errno)),
           r))"

definition Decode_FDSeek ::
  "'v wasi \<Rightarrow> 'v Decoder \<Rightarrow> Record \<Rightarrow> (decode_failure + 'v Syscall) \<times> 'v Decoder" where
  "Decode_FDSeek W r record =
     (case DecodeFDSeek W (Record_FunctionCall record) of
        Inl err \<Rightarrow> (Inl (DecodeFailure record err), r)
      | Inr (fd, offset, whence, sz, errno) \<Rightarrow>
          (Inr (FDCall (FDSeekSyscall fd offset whence sz errno)),
           r))"

definition Decode_FDSync ::
  "'v wasi \<Rightarrow> 'v Decoder \<Rightarrow> Record \<Rightarrow> (decode_failure + 'v Syscall) \<times> 'v Decoder" where
  "Decode_FDSync W r record =
     (case DecodeFDSync W (Record_FunctionCall record) of
        Inl err \<Rightarrow> (Inl (DecodeFailure record err), r)
      | Inr (fd, errno) \<Rightarrow>
          (Inr (FDCall (FDSyncSyscall fd errno)),
           r))"

definition Decode_FDTell ::
  "'v wasi \<Rightarrow> 'v Decoder \<Rightarrow> Record \<Rightarrow> (decode_failure + 'v Syscall) \<times> 'v Decoder" where
  "Decode_FDTell W r record =
     (case DecodeFDTell W (Record_FunctionCall record) of
        Inl err \<Rightarrow> (Inl (DecodeFailure record err), r)
      | Inr (fd, sz, errno) \<Rightarrow>
          (Inr (FDCall (FDTellSyscall fd sz errno)),
           r))"

definition Decode_FDWrite ::
  "'v wasi \<Rightarrow> 'v Decoder \<Rightarrow> Record \<Rightarrow> (decode_failure + 'v Syscall) \<times> 'v Decoder" where
  "Decode_FDWrite W r record =
     (case DecodeFDWrite W (Record_FunctionCall record) (Decoder_iovecs r) of
        Inl err \<Rightarrow> (Inl (DecodeFailure record err), r)
      | Inr (fd, iovecs, sz, errno) \<Rightarrow>
          (Inr (FDCall (FDWriteSyscall fd iovecs sz errno)),
           r\<lparr>Decoder_iovecs := recache (Decoder_iovecs r) iovecs\<rparr>))"

definition Decode_PathCreateDirectory ::
  "'v wasi \<Rightarrow> 'v Decoder \<Rightarrow> Record \<Rightarrow> (decode_failure + 'v Syscall) \<times> 'v Decoder" where
  "Decode_PathCreateDirectory W r record =
     (case DecodePathCreateDirectory W (Record_FunctionCall record) of
        Inl err \<Rightarrow> (Inl (DecodeFailure record err), r)
      | Inr (fd, path, errno) \<Rightarrow>
          (Inr (PathCall (PathCreateDirectorySyscall fd path errno)),
           r))"

definition Decode_PathFileStatGet ::
  "'v wasi \<Rightarrow> 'v Decoder \<Rightarrow> Record \<Rightarrow> (decode_failure + 'v Syscall) \<times> 'v Decoder" where
  "Decode_PathFileStatGet W r record =
     (case DecodePathFileStatGet W (Record_FunctionCall record) of
        Inl err \<Rightarrow> (Inl (DecodeFailure record err), r)
      | Inr (fd, lookupFlags, path, stat, errno) \<Rightarrow>
          (Inr (PathCall (PathFileStatGetSyscall fd lookupFlags path stat errno)),
           r))"

definition Decode_PathFileStatSetTimes ::
  "'v wasi \<Rightarrow> 'v Decoder \<Rightarrow> Record \<Rightarrow> (decode_failure + 'v Syscall) \<times> 'v Decoder" where
  "Decode_PathFileStatSetTimes W r record =
     (case DecodePathFileStatSetTimes W (Record_FunctionCall record) of
        Inl err \<Rightarrow> (Inl (DecodeFailure record err), r)
      | Inr (fd, lookupFlags, path, accessTime, modifyTime, flags, errno) \<Rightarrow>
          (Inr (PathCall (PathFileStatSetTimesSyscall fd lookupFlags path accessTime modifyTime flags errno)),
           r))"

definition Decode_PathLink ::
  "'v wasi \<Rightarrow> 'v Decoder \<Rightarrow> Record \<Rightarrow> (decode_failure + 'v Syscall) \<times> 'v Decoder" where
  "Decode_PathLink W r record =
     (case DecodePathLink W (Record_FunctionCall record) of
        Inl err \<Rightarrow> (Inl (DecodeFailure record err), r)
      | Inr (oldFD, oldFlags, oldPath, newFD, newPath, errno) \<Rightarrow>
          (Inr (PathCall (PathLinkSyscall oldFD oldFlags oldPath newFD newPath errno)),
           r))"

definition Decode_PathOpen ::
  "'v wasi \<Rightarrow> 'v Decoder \<Rightarrow> Record \<Rightarrow> (decode_failure + 'v Syscall) \<times> 'v Decoder" where
  "Decode_PathOpen W r record =
     (case DecodePathOpen W (Record_FunctionCall record) of
        Inl err \<Rightarrow> (Inl (DecodeFailure record err), r)
      | Inr (fd, dirFlags, path, openFlags, rightsBase, rightsInheriting, fdFlags, newfd, errno) \<Rightarrow>
          (Inr (PathCall (PathOpenSyscall fd dirFlags path openFlags rightsBase rightsInheriting fdFlags newfd errno)),
           r))"

definition Decode_PathReadLink ::
  "'v wasi \<Rightarrow> 'v Decoder \<Rightarrow> Record \<Rightarrow> (decode_failure + 'v Syscall) \<times> 'v Decoder" where
  "Decode_PathReadLink W r record =
     (case DecodePathReadLink W (Record_FunctionCall record) of
        Inl err \<Rightarrow> (Inl (DecodeFailure record err), r)
      | Inr (fd, path, output, errno) \<Rightarrow>
          (Inr (PathCall (PathReadLinkSyscall fd path output errno)),
           r))"

definition Decode_PathRemoveDirectory ::
  "'v wasi \<Rightarrow> 'v Decoder \<Rightarrow> Record \<Rightarrow> (decode_failure + 'v Syscall) \<times> 'v Decoder" where
  "Decode_PathRemoveDirectory W r record =
     (case DecodePathRemoveDirectory W (Record_FunctionCall record) of
        Inl err \<Rightarrow> (Inl (DecodeFailure record err), r)
      | Inr (fd, path, errno) \<Rightarrow>
          (Inr (PathCall (PathRemoveDirectorySyscall fd path errno)),
           r))"

definition Decode_PathRename ::
  "'v wasi \<Rightarrow> 'v Decoder \<Rightarrow> Record \<Rightarrow> (decode_failure + 'v Syscall) \<times> 'v Decoder" where
  "Decode_PathRename W r record =
     (case DecodePathRename W (Record_FunctionCall record) of
        Inl err \<Rightarrow> (Inl (DecodeFailure record err), r)
      | Inr (fd, oldPath, newFD, newPath, errno) \<Rightarrow>
          (Inr (PathCall (PathRenameSyscall fd oldPath newFD newPath errno)),
           r))"

definition Decode_PathSymlink ::
  "'v wasi \<Rightarrow> 'v Decoder \<Rightarrow> Record \<Rightarrow> (decode_failure + 'v Syscall) \<times> 'v Decoder" where
  "Decode_PathSymlink W r record =
     (case DecodePathSymlink W (Record_FunctionCall record) of
        Inl err \<Rightarrow> (Inl (DecodeFailure record err), r)
      | Inr (oldPath, fd, newPath, errno) \<Rightarrow>
          (Inr (PathCall (PathSymlinkSyscall oldPath fd newPath errno)),
           r))"

definition Decode_PathUnlinkFile ::
  "'v wasi \<Rightarrow> 'v Decoder \<Rightarrow> Record \<Rightarrow> (decode_failure + 'v Syscall) \<times> 'v Decoder" where
  "Decode_PathUnlinkFile W r record =
     (case DecodePathUnlinkFile W (Record_FunctionCall record) of
        Inl err \<Rightarrow> (Inl (DecodeFailure record err), r)
      | Inr (fd, path, errno) \<Rightarrow>
          (Inr (PathCall (PathUnlinkFileSyscall fd path errno)),
           r))"

definition Decode_PollOneOff ::
  "'v wasi \<Rightarrow> 'v Decoder \<Rightarrow> Record \<Rightarrow> (decode_failure + 'v Syscall) \<times> 'v Decoder" where
  "Decode_PollOneOff W r record =
     (case DecodePollOneOff W (Record_FunctionCall record) (Decoder_subscriptions r) (Decoder_events r) of
        Inl err \<Rightarrow> (Inl (DecodeFailure record err), r)
      | Inr (subscriptions, events, errno) \<Rightarrow>
          (Inr (ProcCall (PollOneOffSyscall subscriptions events errno)),
           r\<lparr>Decoder_subscriptions := recache (Decoder_subscriptions r) subscriptions, Decoder_events := recache (Decoder_events r) events\<rparr>))"

definition Decode_ProcExit ::
  "'v wasi \<Rightarrow> 'v Decoder \<Rightarrow> Record \<Rightarrow> (decode_failure + 'v Syscall) \<times> 'v Decoder" where
  "Decode_ProcExit W r record =
     (case DecodeProcExit W (Record_FunctionCall record) of
        Inl err \<Rightarrow> (Inl (DecodeFailure record err), r)
      | Inr (exitCode, errno) \<Rightarrow>
          (Inr (ProcCall (ProcExitSyscall exitCode errno)),
           r))"

definition Decode_ProcRaise ::
  "'v wasi \<Rightarrow> 'v Decoder \<Rightarrow> Record \<Rightarrow> (decode_failure + 'v Syscall) \<times> 'v Decoder" where
  "Decode_ProcRaise W r record =
     (case DecodeProcRaise W (Record_FunctionCall record) of
        Inl err \<Rightarrow> (Inl (DecodeFailure record err), r)
      | Inr (signal, errno) \<Rightarrow>
          (Inr (ProcCall (ProcRaiseSyscall signal errno)),
           r))"

definition Decode_SchedYield ::
  "'v wasi \<Rightarrow> 'v Decoder \<Rightarrow> Record \<Rightarrow> (decode_failure + 'v Syscall) \<times> 'v Decoder" where
  "Decode_SchedYield W r record =
     (case DecodeSchedYield W (Record_FunctionCall record) of
        Inl err \<Rightarrow> (Inl (DecodeFailure record err), r)
      | Inr (errno) \<Rightarrow>
          (Inr (ProcCall (SchedYieldSyscall errno)),
           r))"

definition Decode_RandomGet ::
  "'v wasi \<Rightarrow> 'v Decoder \<Rightarrow> Record \<Rightarrow> (decode_failure + 'v Syscall) \<times> 'v Decoder" where
  "Decode_RandomGet W r record =
     (case DecodeRandomGet W (Record_FunctionCall record) of
        Inl err \<Rightarrow> (Inl (DecodeFailure record err), r)
      | Inr (b, errno) \<Rightarrow>
          (Inr (ProcCall (RandomGetSyscall b errno)),
           r))"

definition Decode_SockAccept ::
  "'v wasi \<Rightarrow> 'v Decoder \<Rightarrow> Record \<Rightarrow> (decode_failure + 'v Syscall) \<times> 'v Decoder" where
  "Decode_SockAccept W r record =
     (case DecodeSockAccept W (Record_FunctionCall record) of
        Inl err \<Rightarrow> (Inl (DecodeFailure record err), r)
      | Inr (fd, flags, newfd, peer, addr, errno) \<Rightarrow>
          (Inr (SockCall (SockAcceptSyscall fd flags newfd peer addr errno)),
           r))"

definition Decode_SockRecv ::
  "'v wasi \<Rightarrow> 'v Decoder \<Rightarrow> Record \<Rightarrow> (decode_failure + 'v Syscall) \<times> 'v Decoder" where
  "Decode_SockRecv W r record =
     (case DecodeSockRecv W (Record_FunctionCall record) (Decoder_iovecs r) of
        Inl err \<Rightarrow> (Inl (DecodeFailure record err), r)
      | Inr (fd, iovecs, iflags, sz, oflags, errno) \<Rightarrow>
          (Inr (SockCall (SockRecvSyscall fd iovecs iflags sz oflags errno)),
           r\<lparr>Decoder_iovecs := recache (Decoder_iovecs r) iovecs\<rparr>))"

definition Decode_SockSend ::
  "'v wasi \<Rightarrow> 'v Decoder \<Rightarrow> Record \<Rightarrow> (decode_failure + 'v Syscall) \<times> 'v Decoder" where
  "Decode_SockSend W r record =
     (case DecodeSockSend W (Record_FunctionCall record) of
        Inl err \<Rightarrow> (Inl (DecodeFailure record err), r)
      | Inr (fd, iovecs, iflags, sz, errno) \<Rightarrow>
          (Inr (SockCall (SockSendSyscall fd iovecs iflags sz errno)),
           r))"

definition Decode_SockShutdown ::
  "'v wasi \<Rightarrow> 'v Decoder \<Rightarrow> Record \<Rightarrow> (decode_failure + 'v Syscall) \<times> 'v Decoder" where
  "Decode_SockShutdown W r record =
     (case DecodeSockShutdown W (Record_FunctionCall record) of
        Inl err \<Rightarrow> (Inl (DecodeFailure record err), r)
      | Inr (fd, flags, errno) \<Rightarrow>
          (Inr (SockCall (SockShutdownSyscall fd flags errno)),
           r))"

definition Decode_SockOpen ::
  "'v wasi \<Rightarrow> 'v Decoder \<Rightarrow> Record \<Rightarrow> (decode_failure + 'v Syscall) \<times> 'v Decoder" where
  "Decode_SockOpen W r record =
     (case DecodeSockOpen W (Record_FunctionCall record) of
        Inl err \<Rightarrow> (Inl (DecodeFailure record err), r)
      | Inr (family, socketType, protocol, rightsBase, rightsInheriting, fd, errno) \<Rightarrow>
          (Inr (SockCall (SockOpenSyscall family socketType protocol rightsBase rightsInheriting fd errno)),
           r))"

definition Decode_SockBind ::
  "'v wasi \<Rightarrow> 'v Decoder \<Rightarrow> Record \<Rightarrow> (decode_failure + 'v Syscall) \<times> 'v Decoder" where
  "Decode_SockBind W r record =
     (case DecodeSockBind W (Record_FunctionCall record) of
        Inl err \<Rightarrow> (Inl (DecodeFailure record err), r)
      | Inr (fd, bindAddr, addr, errno) \<Rightarrow>
          (Inr (SockCall (SockBindSyscall fd bindAddr addr errno)),
           r))"

definition Decode_SockConnect ::
  "'v wasi \<Rightarrow> 'v Decoder \<Rightarrow> Record \<Rightarrow> (decode_failure + 'v Syscall) \<times> 'v Decoder" where
  "Decode_SockConnect W r record =
     (case DecodeSockConnect W (Record_FunctionCall record) of
        Inl err \<Rightarrow> (Inl (DecodeFailure record err), r)
      | Inr (fd, peer, addr, errno) \<Rightarrow>
          (Inr (SockCall (SockConnectSyscall fd peer addr errno)),
           r))"

definition Decode_SockListen ::
  "'v wasi \<Rightarrow> 'v Decoder \<Rightarrow> Record \<Rightarrow> (decode_failure + 'v Syscall) \<times> 'v Decoder" where
  "Decode_SockListen W r record =
     (case DecodeSockListen W (Record_FunctionCall record) of
        Inl err \<Rightarrow> (Inl (DecodeFailure record err), r)
      | Inr (fd, backlog, errno) \<Rightarrow>
          (Inr (SockCall (SockListenSyscall fd backlog errno)),
           r))"

definition Decode_SockSendTo ::
  "'v wasi \<Rightarrow> 'v Decoder \<Rightarrow> Record \<Rightarrow> (decode_failure + 'v Syscall) \<times> 'v Decoder" where
  "Decode_SockSendTo W r record =
     (case DecodeSockSendTo W (Record_FunctionCall record) (Decoder_iovecs r) of
        Inl err \<Rightarrow> (Inl (DecodeFailure record err), r)
      | Inr (fd, iovecs, iflags, addr, sz, errno) \<Rightarrow>
          (Inr (SockCall (SockSendToSyscall fd iovecs iflags addr sz errno)),
           r\<lparr>Decoder_iovecs := recache (Decoder_iovecs r) iovecs\<rparr>))"

definition Decode_SockRecvFrom ::
  "'v wasi \<Rightarrow> 'v Decoder \<Rightarrow> Record \<Rightarrow> (decode_failure + 'v Syscall) \<times> 'v Decoder" where
  "Decode_SockRecvFrom W r record =
     (case DecodeSockRecvFrom W (Record_FunctionCall record) (Decoder_iovecs r) of
        Inl err \<Rightarrow> (Inl (DecodeFailure record err), r)
      | Inr (fd, iovecs, iflags, sz, oflags, addr, errno) \<Rightarrow>
          (Inr (SockCall (SockRecvFromSyscall fd iovecs iflags sz oflags addr errno)),
           r\<lparr>Decoder_iovecs := recache (Decoder_iovecs r) iovecs\<rparr>))"

definition Decode_SockGetOpt ::
  "'v wasi \<Rightarrow> 'v Decoder \<Rightarrow> Record \<Rightarrow> (decode_failure + 'v Syscall) \<times> 'v Decoder" where
  "Decode_SockGetOpt W r record =
     (case DecodeSockGetOpt W (Record_FunctionCall record) of
        Inl err \<Rightarrow> (Inl (DecodeFailure record err), r)
      | Inr (fd, opt, value, errno) \<Rightarrow>
          (Inr (SockCall (SockGetOptSyscall fd opt value errno)),
           r))"

definition Decode_SockSetOpt ::
  "'v wasi \<Rightarrow> 'v Decoder \<Rightarrow> Record \<Rightarrow> (decode_failure + 'v Syscall) \<times> 'v Decoder" where
  "Decode_SockSetOpt W r record =
     (case DecodeSockSetOpt W (Record_FunctionCall record) of
        Inl err \<Rightarrow> (Inl (DecodeFailure record err), r)
      | Inr (fd, opt, value, errno) \<Rightarrow>
          (Inr (SockCall (SockSetOptSyscall fd opt value errno)),
           r))"

definition Decode_SockLocalAddress ::
  "'v wasi \<Rightarrow> 'v Decoder \<Rightarrow> Record \<Rightarrow> (decode_failure + 'v Syscall) \<times> 'v Decoder" where
  "Decode_SockLocalAddress W r record =
     (case DecodeSockLocalAddress W (Record_FunctionCall record) of
        Inl err \<Rightarrow> (Inl (DecodeFailure record err), r)
      | Inr (fd, addr, errno) \<Rightarrow>
          (Inr (SockCall (SockLocalAddressSyscall fd addr errno)),
           r))"

definition Decode_SockRemoteAddress ::
  "'v wasi \<Rightarrow> 'v Decoder \<Rightarrow> Record \<Rightarrow> (decode_failure + 'v Syscall) \<times> 'v Decoder" where
  "Decode_SockRemoteAddress W r record =
     (case DecodeSockRemoteAddress W (Record_FunctionCall record) of
        Inl err \<Rightarrow> (Inl (DecodeFailure record err), r)
      | Inr (fd, addr, errno) \<Rightarrow>
          (Inr (SockCall (SockRemoteAddressSyscall fd addr errno)),
           r))"

definition Decode_SockAddressInfo ::
  "'v wasi \<Rightarrow> 'v Decoder \<Rightarrow> Record \<Rightarrow> (decode_failure + 'v Syscall) \<times> 'v Decoder" where
  "Decode_SockAddressInfo W r record =
     (case DecodeSockAddressInfo W (Record_FunctionCall record) (Decoder_addrinfo r) of
        Inl err \<Rightarrow> (Inl (DecodeFailure record err), r)
      | Inr (name, service, hint, results, errno) \<Rightarrow>
          (Inr (SockCall (SockAddressInfoSyscall name service hint results errno)),
           r\<lparr>Decoder_addrinfo := recache (Decoder_addrinfo r) results\<rparr>))"

lemmas Decode_case_defs =
  Decode_ArgsSizesGet_def Decode_ArgsGet_def Decode_EnvironSizesGet_def Decode_EnvironGet_def
  Decode_ClockResGet_def Decode_ClockTimeGet_def Decode_FDAdvise_def Decode_FDAllocate_def
  Decode_FDClose_def Decode_FDDataSync_def Decode_FDStatGet_def Decode_FDStatSetFlags_def
  Decode_FDStatSetRights_def Decode_FDFileStatGet_def Decode_FDFileStatSetSize_def
  Decode_FDFileStatSetTimes_def Decode_FDPread_def Decode_FDPreStatGet_def
  Decode_FDPreStatDirName_def Decode_FDPwrite_def Decode_FDRead_def Decode_FDReadDir_def
  Decode_FDRenumber_def Decode_FDSeek_def Decode_FDSync_def Decode_FDTell_def Decode_FDWrite_def
  Decode_PathCreateDirectory_def Decode_PathFileStatGet_def Decode_PathFileStatSetTimes_def
  Decode_PathLink_def Decode_PathOpen_def Decode_PathReadLink_def Decode_PathRemoveDirectory_def
  Decode_PathRename_def Decode_PathSymlink_def Decode_PathUnlinkFile_def Decode_PollOneOff_def
  Decode_ProcExit_def Decode_ProcRaise_def Decode_SchedYield_def Decode_RandomGet_def
  Decode_SockAccept_def Decode_SockRecv_def Decode_SockSend_def Decode_SockShutdown_def
  Decode_SockOpen_def Decode_SockBind_def Decode_SockConnect_def Decode_SockListen_def
  Decode_SockSendTo_def Decode_SockRecvFrom_def Decode_SockGetOpt_def Decode_SockSetOpt_def
  Decode_SockLocalAddress_def Decode_SockRemoteAddress_def Decode_SockAddressInfo_def

definition Decoder_switch ::
  "'v wasi \<Rightarrow> 'v Decoder \<Rightarrow> Record \<Rightarrow> (decode_failure + 'v Syscall) \<times> 'v Decoder" where
  "Decoder_switch W r record =
     (let sysid = Record_FunctionID record in
      if sysid = ArgsSizesGet then Decode_ArgsSizesGet W r record
      else if sysid = ArgsGet then Decode_ArgsGet W r record
      else if sysid = EnvironSizesGet then Decode_EnvironSizesGet W r record
      else if sysid = EnvironGet then Decode_EnvironGet W r record
      else if sysid = ClockResGet then Decode_ClockResGet W r record
      else if sysid = ClockTimeGet then Decode_ClockTimeGet W r record
      else if sysid = FDAdvise then Decode_FDAdvise W r record
      else if sysid = FDAllocate then Decode_FDAllocate W r record
      else if sysid = FDClose then Decode_FDClose W r record
      else if sysid = FDDataSync then Decode_FDDataSync W r record
      else if sysid = FDStatGet then Decode_FDStatGet W r record
      else if sysid = FDStatSetFlags then Decode_FDStatSetFlags W r record
      else if sysid = FDStatSetRights then Decode_FDStatSetRights W r record
      else if sysid = FDFileStatGet then Decode_FDFileStatGet W r record
      else if sysid = FDFileStatSetSize then Decode_FDFileStatSetSize W r record
      else if sysid = FDFileStatSetTimes then Decode_FDFileStatSetTimes W r record
      else if sysid = FDPread then Decode_FDPread W r record
      else if sysid = FDPreStatGet then Decode_FDPreStatGet W r record
      else if sysid = FDPreStatDirName then Decode_FDPreStatDirName W r record
      else if sysid = FDPwrite then Decode_FDPwrite W r record
      else if sysid = FDRead then Decode_FDRead W r record
      else if sysid = FDReadDir then Decode_FDReadDir W r record
      else if sysid = FDRenumber then Decode_FDRenumber W r record
      else if sysid = FDSeek then Decode_FDSeek W r record
      else if sysid = FDSync then Decode_FDSync W r record
      else if sysid = FDTell then Decode_FDTell W r record
      else if sysid = FDWrite then Decode_FDWrite W r record
      else if sysid = PathCreateDirectory then Decode_PathCreateDirectory W r record
      else if sysid = PathFileStatGet then Decode_PathFileStatGet W r record
      else if sysid = PathFileStatSetTimes then Decode_PathFileStatSetTimes W r record
      else if sysid = PathLink then Decode_PathLink W r record
      else if sysid = PathOpen then Decode_PathOpen W r record
      else if sysid = PathReadLink then Decode_PathReadLink W r record
      else if sysid = PathRemoveDirectory then Decode_PathRemoveDirectory W r record
      else if sysid = PathRename then Decode_PathRename W r record
      else if sysid = PathSymlink then Decode_PathSymlink W r record
      else if sysid = PathUnlinkFile then Decode_PathUnlinkFile W r record
      else if sysid = PollOneOff then Decode_PollOneOff W r record
      else if sysid = ProcExit then Decode_ProcExit W r record
      else if sysid = ProcRaise then Decode_ProcRaise W r record
      else if sysid = SchedYield then Decode_SchedYield W r record
      else if sysid = RandomGet then Decode_RandomGet W r record
      else if sysid = SockAccept then Decode_SockAccept W r record
      else if sysid = SockRecv then Decode_SockRecv W r record
      else if sysid = SockSend then Decode_SockSend W r record
      else if sysid = SockShutdown then Decode_SockShutdown W r record
      else if sysid = SockOpen then Decode_SockOpen W r record
      else if sysid = SockBind then Decode_SockBind W r record
      else if sysid = SockConnect then Decode_SockConnect W r record
      else if sysid = SockListen then Decode_SockListen W r record
      else if sysid = SockSendTo then Decode_SockSendTo W r record
      else if sysid = SockRecvFrom then Decode_SockRecvFrom W r record
      else if sysid = SockGetOpt then Decode_SockGetOpt W r record
      else if sysid = SockSetOpt then Decode_SockSetOpt W r record
      else if sysid = SockLocalAddress then Decode_SockLocalAddress W r record
      else if sysid = SockRemoteAddress then Decode_SockRemoteAddress W r record
      else if sysid = SockAddressInfo then Decode_SockAddressInfo W r record
      else (Inl (UnknownSyscall (Record_FunctionID record)), r))"

definition Decoder_Decode ::
  "'v wasi \<Rightarrow> 'v Decoder \<Rightarrow> Record \<Rightarrow> (decode_failure + (int \<times> 'v Syscall)) \<times> 'v Decoder" where
  "Decoder_Decode W r record =
     (case Decoder_switch W r record of
        (Inl err, r) \<Rightarrow> (Inl err, r)
      | (Inr syscall, r) \<Rightarrow> (Inr (Record_Time record, syscall), r))"

section \<open>What is written for a call\<close>

fun env_encode :: "'v wasi \<Rightarrow> env_syscall \<Rightarrow> string + bytes" where
  "env_encode W (ArgsSizesGetSyscall argCount stringBytes errno) = Inr (EncodeArgsSizesGet []
     argCount stringBytes errno)"
| "env_encode W (ArgsGetSyscall args errno) = Inr (EncodeArgsGet [] args errno)"
| "env_encode W (EnvironSizesGetSyscall envCount stringBytes errno) = Inr (EncodeEnvironSizesGet []
     envCount stringBytes errno)"
| "env_encode W (EnvironGetSyscall env errno) = Inr (EncodeEnvironGet [] env errno)"
| "env_encode W (ClockResGetSyscall clockID timestamp errno) = Inr (EncodeClockResGet [] clockID
     timestamp errno)"
| "env_encode W (ClockTimeGetSyscall clockID precision timestamp errno) = Inr (EncodeClockTimeGet []
     clockID precision timestamp errno)"

fun fd_encode :: "'v wasi \<Rightarrow> fd_syscall \<Rightarrow> string + bytes" where
  "fd_encode W (FDAdviseSyscall fd offset len advice errno) = Inr (EncodeFDAdvise [] fd offset len
     advice errno)"
| "fd_encode W (FDAllocateSyscall fd offset len errno) = Inr (EncodeFDAllocate [] fd offset len
     errno)"
| "fd_encode W (FDCloseSyscall fd errno) = Inr (EncodeFDClose [] fd errno)"
| "fd_encode W (FDDataSyncSyscall fd errno) = Inr (EncodeFDDataSync [] fd errno)"
| "fd_encode W (FDStatGetSyscall fd stat errno) = Inr (EncodeFDStatGet [] fd stat errno)"
| "fd_encode W (FDStatSetFlagsSyscall fd flags errno) = Inr (EncodeFDStatSetFlags [] fd flags
     errno)"
| "fd_encode W (FDStatSetRightsSyscall fd rightsBase rightsInheriting errno) = Inr
     (EncodeFDStatSetRights [] fd rightsBase rightsInheriting errno)"
| "fd_encode W (FDFileStatGetSyscall fd stat errno) = Inr (EncodeFDFileStatGet [] fd stat errno)"
| "fd_encode W (FDFileStatSetSizeSyscall fd sz errno) = Inr (EncodeFDFileStatSetSize [] fd sz
     errno)"
| "fd_encode W (FDFileStatSetTimesSyscall fd accessTime modifyTime flags errno) = Inr
     (EncodeFDFileStatSetTimes [] fd accessTime modifyTime flags errno)"
| "fd_encode W (FDPreadSyscall fd iovecs offset sz errno) = Inr (EncodeFDPread W [] fd iovecs offset
     sz errno)"
| "fd_encode W (FDPreStatGetSyscall fd stat errno) = Inr (EncodeFDPreStatGet [] fd stat errno)"
| "fd_encode W (FDPreStatDirNameSyscall fd name errno) = Inr (EncodeFDPreStatDirName [] fd name
     errno)"
| "fd_encode W (FDPwriteSyscall fd iovecs offset sz errno) = Inr (EncodeFDPwrite [] fd iovecs offset
     sz errno)"
| "fd_encode W (FDReadSyscall fd iovecs sz errno) = Inr (EncodeFDRead W [] fd iovecs sz errno)"
| "fd_encode W (FDReadDirSyscall fd entries cookie bufferSizeBytes errno) = Inr (EncodeFDReadDir []
     fd entries cookie bufferSizeBytes errno)"
| "fd_encode W (FDRenumberSyscall from to errno) = Inr (EncodeFDRenumber [] from to errno)"
| "fd_encode W (FDSeekSyscall fd seekOffset whence offset errno) = Inr (EncodeFDSeek [] fd
     seekOffset whence offset errno)"
| "fd_encode W (FDSyncSyscall fd errno) = Inr (EncodeFDSync [] fd errno)"
| "fd_encode W (FDTellSyscall fd offset errno) = Inr (EncodeFDTell [] fd offset errno)"
| "fd_encode W (FDWriteSyscall fd iovecs sz errno) = Inr (EncodeFDWrite [] fd iovecs sz errno)"

fun path_encode :: "'v wasi \<Rightarrow> path_syscall \<Rightarrow> string + bytes" where
  "path_encode W (PathCreateDirectorySyscall fd path errno) = Inr (EncodePathCreateDirectory [] fd
     path errno)"
| "path_encode W (PathFileStatGetSyscall fd lookupFlags path fileStat errno) = Inr
     (EncodePathFileStatGet [] fd lookupFlags path fileStat errno)"
| "path_encode W (PathFileStatSetTimesSyscall fd lookupFlags path accessTime modifyTime flags errno)
     = Inr (EncodePathFileStatSetTimes [] fd lookupFlags path accessTime modifyTime flags errno)"
| "path_encode W (PathLinkSyscall oldFD oldFlags oldPath newFD newPath errno) = Inr (EncodePathLink
     [] oldFD oldFlags oldPath newFD newPath errno)"
| "path_encode W (PathOpenSyscall fd dirFlags path openFlags rightsBase rightsInheriting fdFlags
     newfd errno) = Inr (EncodePathOpen [] fd dirFlags path openFlags rightsBase rightsInheriting
     fdFlags newfd errno)"
| "path_encode W (PathReadLinkSyscall fd path output errno) = Inr (EncodePathReadLink [] fd path
     output errno)"
| "path_encode W (PathRemoveDirectorySyscall fd path errno) = Inr (EncodePathRemoveDirectory [] fd
     path errno)"
| "path_encode W (PathRenameSyscall fd oldPath newFD newPath errno) = Inr (EncodePathRename [] fd
     oldPath newFD newPath errno)"
| "path_encode W (PathSymlinkSyscall oldPath fd newPath errno) = Inr (EncodePathSymlink [] oldPath
     fd newPath errno)"
| "path_encode W (PathUnlinkFileSyscall fd path errno) = Inr (EncodePathUnlinkFile [] fd path
     errno)"

fun proc_encode :: "'v wasi \<Rightarrow> 'v proc_syscall \<Rightarrow> string + bytes" where
  "proc_encode W (PollOneOffSyscall subscriptions events errno) = EncodePollOneOff W []
     subscriptions events errno"
| "proc_encode W (ProcExitSyscall exitCode errno) = Inr (EncodeProcExit [] exitCode errno)"
| "proc_encode W (ProcRaiseSyscall signal errno) = Inr (EncodeProcRaise [] signal errno)"
| "proc_encode W (SchedYieldSyscall errno) = Inr (EncodeSchedYield [] errno)"
| "proc_encode W (RandomGetSyscall b errno) = Inr (EncodeRandomGet [] b errno)"

fun sock_encode :: "'v wasi \<Rightarrow> sock_syscall \<Rightarrow> string + bytes" where
  "sock_encode W (SockAcceptSyscall fd flags newfd peer addr errno) = EncodeSockAccept W [] fd flags
     newfd peer addr errno"
| "sock_encode W (SockShutdownSyscall fd flags errno) = Inr (EncodeSockShutdown [] fd flags errno)"
| "sock_encode W (SockRecvSyscall fd iovecs iflags sz oflags errno) = Inr (EncodeSockRecv W [] fd
     iovecs iflags sz oflags errno)"
| "sock_encode W (SockSendSyscall fd iovecs flags sz errno) = Inr (EncodeSockSend [] fd iovecs flags
     sz errno)"
| "sock_encode W (SockOpenSyscall family socketType protocol rightsBase rightsInheriting fd errno) =
     Inr (EncodeSockOpen [] family socketType protocol rightsBase rightsInheriting fd errno)"
| "sock_encode W (SockBindSyscall fd bindAddr addr errno) = EncodeSockBind W [] fd bindAddr addr
     errno"
| "sock_encode W (SockConnectSyscall fd peer addr errno) = EncodeSockConnect W [] fd peer addr
     errno"
| "sock_encode W (SockListenSyscall fd backlog errno) = Inr (EncodeSockListen [] fd backlog errno)"
| "sock_encode W (SockSendToSyscall fd iovecs iflags addr sz errno) = EncodeSockSendTo W [] fd
     iovecs iflags addr sz errno"
| "sock_encode W (SockRecvFromSyscall fd iovecs iflags sz oflags addr errno) = EncodeSockRecvFrom W
     [] fd iovecs iflags sz oflags addr errno"
| "sock_encode W (SockGetOptSyscall fd opt value errno) = EncodeSockGetOpt [] fd opt value errno"
| "sock_encode W (SockSetOptSyscall fd opt value errno) = EncodeSockSetOpt [] fd opt value errno"
| "sock_encode W (SockLocalAddressSyscall fd addr errno) = EncodeSockLocalAddress W [] fd addr
     errno"
| "sock_encode W (SockRemoteAddressSyscall fd addr errno) = EncodeSockRemoteAddress W [] fd addr
     errno"
| "sock_encode W (SockAddressInfoSyscall name service hint results errno) = EncodeSockAddressInfo W
     [] name service hint results errno"

fun encode_syscall :: "'v wasi \<Rightarrow> 'v Syscall \<Rightarrow> string + bytes" where
  "encode_syscall W (EnvCall s) = env_encode W s"
| "encode_syscall W (FDCall s) = fd_encode W s"
| "encode_syscall W (PathCall s) = path_encode W s"
| "encode_syscall W (ProcCall s) = proc_encode W s"
| "encode_syscall W (SockCall s) = sock_encode W s"

fun env_ok :: "'v wasi \<Rightarrow> env_syscall \<Rightarrow> bool" where
  "env_ok W (ArgsSizesGetSyscall argCount stringBytes errno) = (fits go_int argCount \<and> fits
     go_int stringBytes \<and> val W Errno_t errno)"
| "env_ok W (ArgsGetSyscall args errno) = (val W Errno_t errno)"
| "env_ok W (EnvironSizesGetSyscall envCount stringBytes errno) = (fits go_int envCount \<and> fits
     go_int stringBytes \<and> val W Errno_t errno)"
| "env_ok W (EnvironGetSyscall env errno) = (val W Errno_t errno)"
| "env_ok W (ClockResGetSyscall clockID timestamp errno) = (val W ClockID_t clockID \<and> val W
     Timestamp_t timestamp \<and> val W Errno_t errno)"
| "env_ok W (ClockTimeGetSyscall clockID precision timestamp errno) = (val W ClockID_t clockID
     \<and> val W Timestamp_t precision \<and> val W Timestamp_t timestamp \<and> val W Errno_t
     errno)"

fun fd_ok :: "'v wasi \<Rightarrow> fd_syscall \<Rightarrow> bool" where
  "fd_ok W (FDAdviseSyscall fd offset len advice errno) = (val W FD_t fd \<and> val W FileSize_t
     offset \<and> val W FileSize_t len \<and> val W Advice_t advice \<and> val W Errno_t errno)"
| "fd_ok W (FDAllocateSyscall fd offset len errno) = (val W FD_t fd \<and> val W FileSize_t offset
     \<and> val W FileSize_t len \<and> val W Errno_t errno)"
| "fd_ok W (FDCloseSyscall fd errno) = (val W FD_t fd \<and> val W Errno_t errno)"
| "fd_ok W (FDDataSyncSyscall fd errno) = (val W FD_t fd \<and> val W Errno_t errno)"
| "fd_ok W (FDStatGetSyscall fd stat errno) = (val W FD_t fd \<and> ok_FDStat W stat \<and> val W
     Errno_t errno)"
| "fd_ok W (FDStatSetFlagsSyscall fd flags errno) = (val W FD_t fd \<and> val W FDFlags_t flags
     \<and> val W Errno_t errno)"
| "fd_ok W (FDStatSetRightsSyscall fd rightsBase rightsInheriting errno) = (val W FD_t fd \<and> val
     W Rights_t rightsBase \<and> val W Rights_t rightsInheriting \<and> val W Errno_t errno)"
| "fd_ok W (FDFileStatGetSyscall fd stat errno) = (val W FD_t fd \<and> ok_FileStat W stat \<and>
     val W Errno_t errno)"
| "fd_ok W (FDFileStatSetSizeSyscall fd sz errno) = (val W FD_t fd \<and> val W FileSize_t sz \<and>
     val W Errno_t errno)"
| "fd_ok W (FDFileStatSetTimesSyscall fd accessTime modifyTime flags errno) = (val W FD_t fd \<and>
     val W Timestamp_t accessTime \<and> val W Timestamp_t modifyTime \<and> val W FSTFlags_t
     flags \<and> val W Errno_t errno)"
| "fd_ok W (FDPreadSyscall fd iovecs offset sz errno) = (val W FD_t fd \<and> val W FileSize_t
     offset \<and> val W Errno_t errno \<and> size_bound W (int (length (concat iovecs))) \<and>
     size_bound W sz)"
| "fd_ok W (FDPreStatGetSyscall fd stat errno) = (val W FD_t fd \<and> ok_PreStat W stat \<and> val
     W Errno_t errno)"
| "fd_ok W (FDPreStatDirNameSyscall fd name errno) = (val W FD_t fd \<and> val W Errno_t errno)"
| "fd_ok W (FDPwriteSyscall fd iovecs offset sz errno) = (val W FD_t fd \<and> val W FileSize_t
     offset \<and> val W Size_t sz \<and> val W Errno_t errno)"
| "fd_ok W (FDReadSyscall fd iovecs sz errno) = (val W FD_t fd \<and> val W Errno_t errno \<and>
     size_bound W (int (length (concat iovecs))) \<and> size_bound W sz)"
| "fd_ok W (FDReadDirSyscall fd entries cookie bufferSizeBytes errno) = (val W FD_t fd \<and>
     list_all (ok_DirEntry W) entries \<and> val W DirCookie_t cookie \<and> fits go_int
     bufferSizeBytes \<and> val W Errno_t errno)"
| "fd_ok W (FDRenumberSyscall from to errno) = (val W FD_t from \<and> val W FD_t to \<and> val W
     Errno_t errno)"
| "fd_ok W (FDSeekSyscall fd seekOffset whence offset errno) = (val W FD_t fd \<and> val W
     FileDelta_t seekOffset \<and> val W Whence_t whence \<and> val W FileSize_t offset \<and> val
     W Errno_t errno)"
| "fd_ok W (FDSyncSyscall fd errno) = (val W FD_t fd \<and> val W Errno_t errno)"
| "fd_ok W (FDTellSyscall fd offset errno) = (val W FD_t fd \<and> val W FileSize_t offset \<and>
     val W Errno_t errno)"
| "fd_ok W (FDWriteSyscall fd iovecs sz errno) = (val W FD_t fd \<and> val W Size_t sz \<and> val W
     Errno_t errno)"

fun path_ok :: "'v wasi \<Rightarrow> path_syscall \<Rightarrow> bool" where
  "path_ok W (PathCreateDirectorySyscall fd path errno) = (val W FD_t fd \<and> val W Errno_t
     errno)"
| "path_ok W (PathFileStatGetSyscall fd lookupFlags path fileStat errno) = (val W FD_t fd \<and> val
     W LookupFlags_t lookupFlags \<and> ok_FileStat W fileStat \<and> val W Errno_t errno)"
| "path_ok W (PathFileStatSetTimesSyscall fd lookupFlags path accessTime modifyTime flags errno) =
     (val W FD_t fd \<and> val W LookupFlags_t lookupFlags \<and> val W Timestamp_t accessTime
     \<and> val W Timestamp_t modifyTime \<and> val W FSTFlags_t flags \<and> val W Errno_t
     errno)"
| "path_ok W (PathLinkSyscall oldFD oldFlags oldPath newFD newPath errno) = (val W FD_t oldFD \<and>
     val W LookupFlags_t oldFlags \<and> val W FD_t newFD \<and> val W Errno_t errno)"
| "path_ok W (PathOpenSyscall fd dirFlags path openFlags rightsBase rightsInheriting fdFlags newfd
     errno) = (val W FD_t fd \<and> val W LookupFlags_t dirFlags \<and> val W OpenFlags_t
     openFlags \<and> val W Rights_t rightsBase \<and> val W Rights_t rightsInheriting \<and> val
     W FDFlags_t fdFlags \<and> val W FD_t newfd \<and> val W Errno_t errno)"
| "path_ok W (PathReadLinkSyscall fd path output errno) = (val W FD_t fd \<and> val W Errno_t
     errno)"
| "path_ok W (PathRemoveDirectorySyscall fd path errno) = (val W FD_t fd \<and> val W Errno_t
     errno)"
| "path_ok W (PathRenameSyscall fd oldPath newFD newPath errno) = (val W FD_t fd \<and> val W FD_t
     newFD \<and> val W Errno_t errno)"
| "path_ok W (PathSymlinkSyscall oldPath fd newPath errno) = (val W FD_t fd \<and> val W Errno_t
     errno)"
| "path_ok W (PathUnlinkFileSyscall fd path errno) = (val W FD_t fd \<and> val W Errno_t errno)"

fun proc_ok :: "'v wasi \<Rightarrow> 'v proc_syscall \<Rightarrow> bool" where
  "proc_ok W (PollOneOffSyscall subscriptions events errno) = (list_all (ok_Subscription W)
     subscriptions \<and> list_all (ok_Event W) events \<and> val W Errno_t errno)"
| "proc_ok W (ProcExitSyscall exitCode errno) = (val W ExitCode_t exitCode \<and> val W Errno_t
     errno)"
| "proc_ok W (ProcRaiseSyscall signal errno) = (val W Signal_t signal \<and> val W Errno_t errno)"
| "proc_ok W (SchedYieldSyscall errno) = (val W Errno_t errno)"
| "proc_ok W (RandomGetSyscall b errno) = (val W Errno_t errno)"

fun sock_ok :: "'v wasi \<Rightarrow> sock_syscall \<Rightarrow> bool" where
  "sock_ok W (SockAcceptSyscall fd flags newfd peer addr errno) = (val W FD_t fd \<and> val W
     FDFlags_t flags \<and> val W FD_t newfd \<and> ok_SocketAddress W peer \<and>
     ok_SocketAddress W addr \<and> val W Errno_t errno)"
| "sock_ok W (SockShutdownSyscall fd flags errno) = (val W FD_t fd \<and> val W SDFlags_t flags
     \<and> val W Errno_t errno)"
| "sock_ok W (SockRecvSyscall fd iovecs iflags sz oflags errno) = (val W FD_t fd \<and> val W
     RIFlags_t iflags \<and> val W ROFlags_t oflags \<and> val W Errno_t errno \<and> size_bound W
     (int (length (concat iovecs))) \<and> size_bound W sz)"
| "sock_ok W (SockSendSyscall fd iovecs flags sz errno) = (val W FD_t fd \<and> val W SIFlags_t
     flags \<and> val W Size_t sz \<and> val W Errno_t errno)"
| "sock_ok W (SockOpenSyscall family socketType protocol rightsBase rightsInheriting fd errno) =
     (val W ProtocolFamily_t family \<and> val W SocketType_t socketType \<and> val W Protocol_t
     protocol \<and> val W Rights_t rightsBase \<and> val W Rights_t rightsInheriting \<and> val W
     FD_t fd \<and> val W Errno_t errno)"
| "sock_ok W (SockBindSyscall fd bindAddr addr errno) = (val W FD_t fd \<and> ok_SocketAddress W
     bindAddr \<and> ok_SocketAddress W addr \<and> val W Errno_t errno)"
| "sock_ok W (SockConnectSyscall fd peer addr errno) = (val W FD_t fd \<and> ok_SocketAddress W peer
     \<and> ok_SocketAddress W addr \<and> val W Errno_t errno)"
| "sock_ok W (SockListenSyscall fd backlog errno) = (val W FD_t fd \<and> fits go_int backlog \<and>
     val W Errno_t errno)"
| "sock_ok W (SockSendToSyscall fd iovecs iflags addr sz errno) = (val W FD_t fd \<and> val W
     SIFlags_t iflags \<and> ok_SocketAddress W addr \<and> val W Size_t sz \<and> val W Errno_t
     errno)"
| "sock_ok W (SockRecvFromSyscall fd iovecs iflags sz oflags addr errno) = (val W FD_t fd \<and> val
     W RIFlags_t iflags \<and> val W ROFlags_t oflags \<and> ok_SocketAddress W addr \<and> val W
     Errno_t errno \<and> size_bound W (int (length (concat iovecs))) \<and> size_bound W sz)"
| "sock_ok W (SockGetOptSyscall fd opt value errno) = (val W FD_t fd \<and> val W SocketOption_t opt
     \<and> ok_SocketOptionValue W value \<and> val W Errno_t errno)"
| "sock_ok W (SockSetOptSyscall fd opt value errno) = (val W FD_t fd \<and> val W SocketOption_t opt
     \<and> ok_SocketOptionValue W value \<and> val W Errno_t errno)"
| "sock_ok W (SockLocalAddressSyscall fd addr errno) = (val W FD_t fd \<and> ok_SocketAddress W addr
     \<and> val W Errno_t errno)"
| "sock_ok W (SockRemoteAddressSyscall fd addr errno) = (val W FD_t fd \<and> ok_SocketAddress W
     addr \<and> val W Errno_t errno)"
| "sock_ok W (SockAddressInfoSyscall name service hint results errno) = (ok_AddressInfo W hint
     \<and> list_all (ok_AddressInfo W) results \<and> val W Errno_t errno)"

fun syscall_ok :: "'v wasi \<Rightarrow> 'v Syscall \<Rightarrow> bool" where
  "syscall_ok W (EnvCall s) = env_ok W s"
| "syscall_ok W (FDCall s) = fd_ok W s"
| "syscall_ok W (PathCall s) = path_ok W s"
| "syscall_ok W (ProcCall s) = proc_ok W s"
| "syscall_ok W (SockCall s) = sock_ok W s"

fun logged :: "'v Syscall \<Rightarrow> 'v Syscall" where
  "logged (FDCall (FDPreadSyscall fd iovecs offset sz errno)) =
     FDCall (FDPreadSyscall fd (recorded_iovecs iovecs sz) offset sz errno)"
| "logged (FDCall (FDReadSyscall fd iovecs sz errno)) =
     FDCall (FDReadSyscall fd (recorded_iovecs iovecs sz) sz errno)"
| "logged (SockCall (SockRecvSyscall fd iovecs iflags sz oflags errno)) =
     SockCall (SockRecvSyscall fd (recorded_iovecs iovecs sz) iflags sz oflags errno)"
| "logged (SockCall (SockRecvFromSyscall fd iovecs iflags sz oflags addr errno)) =
     SockCall (SockRecvFromSyscall fd (recorded_iovecs iovecs sz) iflags sz oflags addr errno)"
| "logged s = s"

section \<open>Round trips\<close>

lemmas codec_roundtrips =
  DecodeArgsSizesGet_EncodeArgsSizesGet DecodeArgsGet_EncodeArgsGet
  DecodeEnvironSizesGet_EncodeEnvironSizesGet DecodeEnvironGet_EncodeEnvironGet
  DecodeClockResGet_EncodeClockResGet DecodeClockTimeGet_EncodeClockTimeGet
  DecodeFDAdvise_EncodeFDAdvise DecodeFDAllocate_EncodeFDAllocate DecodeFDClose_EncodeFDClose
  DecodeFDDataSync_EncodeFDDataSync DecodeFDStatGet_EncodeFDStatGet
  DecodeFDStatSetFlags_EncodeFDStatSetFlags DecodeFDStatSetRights_EncodeFDStatSetRights
  DecodeFDFileStatGet_EncodeFDFileStatGet DecodeFDFileStatSetSize_EncodeFDFileStatSetSize
  DecodeFDFileStatSetTimes_EncodeFDFileStatSetTimes DecodeFDPread_EncodeFDPread
  DecodeFDPreStatGet_EncodeFDPreStatGet DecodeFDPreStatDirName_EncodeFDPreStatDirName
  DecodeFDPwrite_EncodeFDPwrite DecodeFDRead_EncodeFDRead DecodeFDReadDir_EncodeFDReadDir
  DecodeFDRenumber_EncodeFDRenumber DecodeFDSeek_EncodeFDSeek DecodeFDSync_EncodeFDSync
  DecodeFDTell_EncodeFDTell DecodeFDWrite_EncodeFDWrite
  DecodePathCreateDirectory_EncodePathCreateDirectory DecodePathFileStatGet_EncodePathFileStatGet
  DecodePathFileStatSetTimes_EncodePathFileStatSetTimes DecodePathLink_EncodePathLink
  DecodePathOpen_EncodePathOpen DecodePathReadLink_EncodePathReadLink
  DecodePathRemoveDirectory_EncodePathRemoveDirectory DecodePathRename_EncodePathRename
  DecodePathSymlink_EncodePathSymlink DecodePathUnlinkFile_EncodePathUnlinkFile
  DecodeProcExit_EncodeProcExit DecodeProcRaise_EncodeProcRaise DecodeSchedYield_EncodeSchedYield
  DecodeRandomGet_EncodeRandomGet DecodeSockRecv_EncodeSockRecv DecodeSockSend_EncodeSockSend
  DecodeSockShutdown_EncodeSockShutdown DecodeSockOpen_EncodeSockOpen
  DecodeSockListen_EncodeSockListen

lemmas panic_codec_defs =
  EncodePollOneOff_def DecodePollOneOff_def EncodeSockAccept_def DecodeSockAccept_def
  EncodeSockBind_def DecodeSockBind_def EncodeSockConnect_def DecodeSockConnect_def
  EncodeSockSendTo_def DecodeSockSendTo_def EncodeSockRecvFrom_def DecodeSockRecvFrom_def
  EncodeSockGetOpt_def DecodeSockGetOpt_def EncodeSockSetOpt_def DecodeSockSetOpt_def
  EncodeSockLocalAddress_def DecodeSockLocalAddress_def EncodeSockRemoteAddress_def
  DecodeSockRemoteAddress_def EncodeSockAddressInfo_def DecodeSockAddressInfo_def

lemma env_switch_logged:
  assumes "env_ok W s" "env_encode W s = Inr b" "length b < 4294967296"
    "Record_FunctionID record = env_ID s" "Record_FunctionCall record = b"
  shows "fst (Decoder_switch W r record) = Inr (logged (EnvCall s))"
  using assms
  by (cases "record"; cases s)
    (auto simp: Decoder_switch_def Decode_case_defs codec_roundtrips
      )

lemma fd_switch_logged:
  assumes "fd_ok W s" "fd_encode W s = Inr b" "length b < 4294967296"
    "Record_FunctionID record = fd_ID s" "Record_FunctionCall record = b"
  shows "fst (Decoder_switch W r record) = Inr (logged (FDCall s))"
  using assms
  by (cases "record"; cases s)
    (auto simp: Decoder_switch_def Decode_case_defs codec_roundtrips
      )

lemma path_switch_logged:
  assumes "path_ok W s" "path_encode W s = Inr b" "length b < 4294967296"
    "Record_FunctionID record = path_ID s" "Record_FunctionCall record = b"
  shows "fst (Decoder_switch W r record) = Inr (logged (PathCall s))"
  using assms
  by (cases "record"; cases s)
    (auto simp: Decoder_switch_def Decode_case_defs codec_roundtrips
      )

lemma proc_switch_logged:
  assumes "proc_ok W s" "proc_encode W s = Inr b" "length b < 4294967296"
    "Record_FunctionID record = proc_ID s" "Record_FunctionCall record = b"
  shows "fst (Decoder_switch W r record) = Inr (logged (ProcCall s))"
  using assms
  by (cases "record"; cases s)
    (auto simp: Decoder_switch_def Decode_case_defs codec_roundtrips
      panic_codec_defs encode_append encodeIOVecsPrefix_eq)

lemma sock_switch_logged:
  assumes "sock_ok W s" "sock_encode W s = Inr b" "length b < 4294967296"
    "Record_FunctionID record = sock_ID s" "Record_FunctionCall record = b"
  shows "fst (Decoder_switch W r record) = Inr (logged (SockCall s))"
  using assms
  by (cases "record"; cases s)
    (auto simp: Decoder_switch_def Decode_case_defs codec_roundtrips
      panic_codec_defs encode_append encodeIOVecsPrefix_eq)

theorem Decoder_Decode_logged:
  assumes "syscall_ok W s" "encode_syscall W s = Inr b" "length b < 4294967296"
    "Record_FunctionID record = Syscall_ID s" "Record_FunctionCall record = b"
  shows "fst (Decoder_Decode W r record) = Inr (Record_Time record, logged s)"
proof -
  have "fst (Decoder_switch W r record) = Inr (logged s)"
    using assms
    by (cases s)
      (simp_all add: env_switch_logged fd_switch_logged path_switch_logged proc_switch_logged
        sock_switch_logged)
  then show ?thesis
    by (auto simp: Decoder_Decode_def split: prod.splits sum.splits)
qed

end
