(* ===== verification/Sys_Interface.thy ===== *)
theory Sys_Interface
  imports Decoder
begin

text \<open>
  The interface \<^verbatim>\<open>wasi.System\<close> that the recorder wraps and the replay implements, with the methods this
  repository calls and defines. A system over states \<open>'s\<close> is a record of its methods: each takes the
  state and the parameters and gives what the call does and the next state. A slice that the callee
  fills (the buffers of a read, the entries of a directory, the events of a poll, the random bytes)
  is a parameter and, with its new contents, the last component of the result.

  \<open>sys_call\<close> makes the call that a \<^verbatim>\<open>Syscall\<close> value describes and returns the completed value, as the
  observer (\<^verbatim>\<open>observer.go\<close>) builds it before and after a call: parameters as given, results as returned,
  and of a list that was filled the part that the returned count selects (\<open>clip\<close>).
\<close>

record ('s, 'v) System =
  sys_ArgsSizesGet ::
    "'s \<Rightarrow> ('v panic, int \<times> int \<times> int) outcome \<times> 's"
  sys_ArgsGet ::
    "'s \<Rightarrow> ('v panic, bytes list \<times> int) outcome \<times> 's"
  sys_EnvironSizesGet ::
    "'s \<Rightarrow> ('v panic, int \<times> int \<times> int) outcome \<times> 's"
  sys_EnvironGet ::
    "'s \<Rightarrow> ('v panic, bytes list \<times> int) outcome \<times> 's"
  sys_ClockResGet ::
    "'s \<Rightarrow> int \<Rightarrow> ('v panic, int \<times> int) outcome \<times> 's"
  sys_ClockTimeGet ::
    "'s \<Rightarrow> int \<Rightarrow> int \<Rightarrow> ('v panic, int \<times> int) outcome \<times> 's"
  sys_FDAdvise ::
    "'s \<Rightarrow> int \<Rightarrow> int \<Rightarrow> int \<Rightarrow> int \<Rightarrow> ('v panic, int) outcome \<times> 's"
  sys_FDAllocate ::
    "'s \<Rightarrow> int \<Rightarrow> int \<Rightarrow> int \<Rightarrow> ('v panic, int) outcome \<times> 's"
  sys_FDClose ::
    "'s \<Rightarrow> int \<Rightarrow> ('v panic, int) outcome \<times> 's"
  sys_FDDataSync ::
    "'s \<Rightarrow> int \<Rightarrow> ('v panic, int) outcome \<times> 's"
  sys_FDStatGet ::
    "'s \<Rightarrow> int \<Rightarrow> ('v panic, FDStat \<times> int) outcome \<times> 's"
  sys_FDStatSetFlags ::
    "'s \<Rightarrow> int \<Rightarrow> int \<Rightarrow> ('v panic, int) outcome \<times> 's"
  sys_FDStatSetRights ::
    "'s \<Rightarrow> int \<Rightarrow> int \<Rightarrow> int \<Rightarrow> ('v panic, int) outcome \<times> 's"
  sys_FDFileStatGet ::
    "'s \<Rightarrow> int \<Rightarrow> ('v panic, FileStat \<times> int) outcome \<times> 's"
  sys_FDFileStatSetSize ::
    "'s \<Rightarrow> int \<Rightarrow> int \<Rightarrow> ('v panic, int) outcome \<times> 's"
  sys_FDFileStatSetTimes ::
    "'s \<Rightarrow> int \<Rightarrow> int \<Rightarrow> int \<Rightarrow> int \<Rightarrow> ('v panic, int) outcome \<times> 's"
  sys_FDPread ::
    "'s \<Rightarrow> int \<Rightarrow> bytes list \<Rightarrow> int \<Rightarrow> ('v panic, int \<times> int \<times> bytes list) outcome \<times> 's"
  sys_FDPreStatGet ::
    "'s \<Rightarrow> int \<Rightarrow> ('v panic, PreStat \<times> int) outcome \<times> 's"
  sys_FDPreStatDirName ::
    "'s \<Rightarrow> int \<Rightarrow> ('v panic, bytes \<times> int) outcome \<times> 's"
  sys_FDPwrite ::
    "'s \<Rightarrow> int \<Rightarrow> bytes list \<Rightarrow> int \<Rightarrow> ('v panic, int \<times> int) outcome \<times> 's"
  sys_FDRead ::
    "'s \<Rightarrow> int \<Rightarrow> bytes list \<Rightarrow> ('v panic, int \<times> int \<times> bytes list) outcome \<times> 's"
  sys_FDReadDir ::
    "'s \<Rightarrow> int \<Rightarrow> DirEntry list \<Rightarrow> int \<Rightarrow> int \<Rightarrow> ('v panic, int \<times> int \<times> DirEntry list) outcome \<times> 's"
  sys_FDRenumber ::
    "'s \<Rightarrow> int \<Rightarrow> int \<Rightarrow> ('v panic, int) outcome \<times> 's"
  sys_FDSeek ::
    "'s \<Rightarrow> int \<Rightarrow> int \<Rightarrow> int \<Rightarrow> ('v panic, int \<times> int) outcome \<times> 's"
  sys_FDSync ::
    "'s \<Rightarrow> int \<Rightarrow> ('v panic, int) outcome \<times> 's"
  sys_FDTell ::
    "'s \<Rightarrow> int \<Rightarrow> ('v panic, int \<times> int) outcome \<times> 's"
  sys_FDWrite ::
    "'s \<Rightarrow> int \<Rightarrow> bytes list \<Rightarrow> ('v panic, int \<times> int) outcome \<times> 's"
  sys_PathCreateDirectory ::
    "'s \<Rightarrow> int \<Rightarrow> bytes \<Rightarrow> ('v panic, int) outcome \<times> 's"
  sys_PathFileStatGet ::
    "'s \<Rightarrow> int \<Rightarrow> int \<Rightarrow> bytes \<Rightarrow> ('v panic, FileStat \<times> int) outcome \<times> 's"
  sys_PathFileStatSetTimes ::
    "'s \<Rightarrow> int \<Rightarrow> int \<Rightarrow> bytes \<Rightarrow> int \<Rightarrow> int \<Rightarrow> int \<Rightarrow> ('v panic, int) outcome \<times> 's"
  sys_PathLink ::
    "'s \<Rightarrow> int \<Rightarrow> int \<Rightarrow> bytes \<Rightarrow> int \<Rightarrow> bytes \<Rightarrow> ('v panic, int) outcome \<times> 's"
  sys_PathOpen ::
    "'s \<Rightarrow> int \<Rightarrow> int \<Rightarrow> bytes \<Rightarrow> int \<Rightarrow> int \<Rightarrow> int \<Rightarrow> int \<Rightarrow> ('v panic, int \<times> int) outcome \<times> 's"
  sys_PathReadLink ::
    "'s \<Rightarrow> int \<Rightarrow> bytes \<Rightarrow> bytes \<Rightarrow> ('v panic, int \<times> int \<times> bytes) outcome \<times> 's"
  sys_PathRemoveDirectory ::
    "'s \<Rightarrow> int \<Rightarrow> bytes \<Rightarrow> ('v panic, int) outcome \<times> 's"
  sys_PathRename ::
    "'s \<Rightarrow> int \<Rightarrow> bytes \<Rightarrow> int \<Rightarrow> bytes \<Rightarrow> ('v panic, int) outcome \<times> 's"
  sys_PathSymlink ::
    "'s \<Rightarrow> bytes \<Rightarrow> int \<Rightarrow> bytes \<Rightarrow> ('v panic, int) outcome \<times> 's"
  sys_PathUnlinkFile ::
    "'s \<Rightarrow> int \<Rightarrow> bytes \<Rightarrow> ('v panic, int) outcome \<times> 's"
  sys_PollOneOff ::
    "'s \<Rightarrow> 'v Subscription list \<Rightarrow> Event list \<Rightarrow> ('v panic, int \<times> int \<times> Event list) outcome \<times> 's"
  sys_ProcExit ::
    "'s \<Rightarrow> int \<Rightarrow> ('v panic, int) outcome \<times> 's"
  sys_ProcRaise ::
    "'s \<Rightarrow> int \<Rightarrow> ('v panic, int) outcome \<times> 's"
  sys_SchedYield ::
    "'s \<Rightarrow> ('v panic, int) outcome \<times> 's"
  sys_RandomGet ::
    "'s \<Rightarrow> bytes \<Rightarrow> ('v panic, int \<times> bytes) outcome \<times> 's"
  sys_SockAccept ::
    "'s \<Rightarrow> int \<Rightarrow> int \<Rightarrow> ('v panic, int \<times> SocketAddress \<times> SocketAddress \<times> int) outcome \<times> 's"
  sys_SockRecv ::
    "'s \<Rightarrow> int \<Rightarrow> bytes list \<Rightarrow> int \<Rightarrow> ('v panic, int \<times> int \<times> int \<times> bytes list) outcome \<times> 's"
  sys_SockSend ::
    "'s \<Rightarrow> int \<Rightarrow> bytes list \<Rightarrow> int \<Rightarrow> ('v panic, int \<times> int) outcome \<times> 's"
  sys_SockShutdown ::
    "'s \<Rightarrow> int \<Rightarrow> int \<Rightarrow> ('v panic, int) outcome \<times> 's"
  sys_SockOpen ::
    "'s \<Rightarrow> int \<Rightarrow> int \<Rightarrow> int \<Rightarrow> int \<Rightarrow> int \<Rightarrow> ('v panic, int \<times> int) outcome \<times> 's"
  sys_SockBind ::
    "'s \<Rightarrow> int \<Rightarrow> SocketAddress \<Rightarrow> ('v panic, SocketAddress \<times> int) outcome \<times> 's"
  sys_SockConnect ::
    "'s \<Rightarrow> int \<Rightarrow> SocketAddress \<Rightarrow> ('v panic, SocketAddress \<times> int) outcome \<times> 's"
  sys_SockListen ::
    "'s \<Rightarrow> int \<Rightarrow> int \<Rightarrow> ('v panic, int) outcome \<times> 's"
  sys_SockSendTo ::
    "'s \<Rightarrow> int \<Rightarrow> bytes list \<Rightarrow> int \<Rightarrow> SocketAddress \<Rightarrow> ('v panic, int \<times> int) outcome \<times> 's"
  sys_SockRecvFrom ::
    "'s \<Rightarrow> int \<Rightarrow> bytes list \<Rightarrow> int \<Rightarrow> ('v panic, int \<times> int \<times> SocketAddress \<times> int \<times> bytes list) outcome \<times> 's"
  sys_SockGetOpt ::
    "'s \<Rightarrow> int \<Rightarrow> int \<Rightarrow> ('v panic, SocketOptionValue \<times> int) outcome \<times> 's"
  sys_SockSetOpt ::
    "'s \<Rightarrow> int \<Rightarrow> int \<Rightarrow> SocketOptionValue \<Rightarrow> ('v panic, int) outcome \<times> 's"
  sys_SockLocalAddress ::
    "'s \<Rightarrow> int \<Rightarrow> ('v panic, SocketAddress \<times> int) outcome \<times> 's"
  sys_SockRemoteAddress ::
    "'s \<Rightarrow> int \<Rightarrow> ('v panic, SocketAddress \<times> int) outcome \<times> 's"
  sys_SockAddressInfo ::
    "'s \<Rightarrow> bytes \<Rightarrow> bytes \<Rightarrow> AddressInfo \<Rightarrow> AddressInfo list \<Rightarrow> ('v panic, int \<times> int \<times> AddressInfo list) outcome \<times> 's"

definition map_return :: "('a \<Rightarrow> 'b) \<Rightarrow> ('p, 'a) outcome \<times> 's \<Rightarrow> ('p, 'b) outcome \<times> 's" where
  "map_return f x = (case x of (Return a, s) \<Rightarrow> (Return (f a), s) | (Panic p, s) \<Rightarrow> (Panic p, s))"

definition clip :: "int \<Rightarrow> 'a list \<Rightarrow> 'a list" where
  "clip n xs = (if 0 \<le> n \<and> n \<le> int (length xs) then take (nat n) xs else [])"

fun env_call ::
  "('s, 'v) System \<Rightarrow> 's \<Rightarrow> env_syscall \<Rightarrow> ('v panic, env_syscall) outcome \<times> 's" where
  "env_call S s (ArgsSizesGetSyscall _ _ _) =
     map_return (\<lambda>(argCount, stringBytes, errno). ArgsSizesGetSyscall argCount stringBytes errno)
       (sys_ArgsSizesGet S s)"
| "env_call S s (ArgsGetSyscall _ _) =
     map_return (\<lambda>(args, errno). ArgsGetSyscall args errno)
       (sys_ArgsGet S s)"
| "env_call S s (EnvironSizesGetSyscall _ _ _) =
     map_return (\<lambda>(envCount, stringBytes, errno). EnvironSizesGetSyscall envCount stringBytes errno)
       (sys_EnvironSizesGet S s)"
| "env_call S s (EnvironGetSyscall _ _) =
     map_return (\<lambda>(env, errno). EnvironGetSyscall env errno)
       (sys_EnvironGet S s)"
| "env_call S s (ClockResGetSyscall clockID _ _) =
     map_return (\<lambda>(timestamp, errno). ClockResGetSyscall clockID timestamp errno)
       (sys_ClockResGet S s clockID)"
| "env_call S s (ClockTimeGetSyscall clockID precision _ _) =
     map_return (\<lambda>(timestamp, errno). ClockTimeGetSyscall clockID precision timestamp errno)
       (sys_ClockTimeGet S s clockID precision)"

fun fd_call ::
  "('s, 'v) System \<Rightarrow> 's \<Rightarrow> fd_syscall \<Rightarrow> ('v panic, fd_syscall) outcome \<times> 's" where
  "fd_call S s (FDAdviseSyscall fd offset len advice _) =
     map_return (\<lambda>errno. FDAdviseSyscall fd offset len advice errno)
       (sys_FDAdvise S s fd offset len advice)"
| "fd_call S s (FDAllocateSyscall fd offset len _) =
     map_return (\<lambda>errno. FDAllocateSyscall fd offset len errno)
       (sys_FDAllocate S s fd offset len)"
| "fd_call S s (FDCloseSyscall fd _) =
     map_return (\<lambda>errno. FDCloseSyscall fd errno)
       (sys_FDClose S s fd)"
| "fd_call S s (FDDataSyncSyscall fd _) =
     map_return (\<lambda>errno. FDDataSyncSyscall fd errno)
       (sys_FDDataSync S s fd)"
| "fd_call S s (FDStatGetSyscall fd _ _) =
     map_return (\<lambda>(stat, errno). FDStatGetSyscall fd stat errno)
       (sys_FDStatGet S s fd)"
| "fd_call S s (FDStatSetFlagsSyscall fd flags _) =
     map_return (\<lambda>errno. FDStatSetFlagsSyscall fd flags errno)
       (sys_FDStatSetFlags S s fd flags)"
| "fd_call S s (FDStatSetRightsSyscall fd rightsBase rightsInheriting _) =
     map_return (\<lambda>errno. FDStatSetRightsSyscall fd rightsBase rightsInheriting errno)
       (sys_FDStatSetRights S s fd rightsBase rightsInheriting)"
| "fd_call S s (FDFileStatGetSyscall fd _ _) =
     map_return (\<lambda>(stat, errno). FDFileStatGetSyscall fd stat errno)
       (sys_FDFileStatGet S s fd)"
| "fd_call S s (FDFileStatSetSizeSyscall fd sz _) =
     map_return (\<lambda>errno. FDFileStatSetSizeSyscall fd sz errno)
       (sys_FDFileStatSetSize S s fd sz)"
| "fd_call S s (FDFileStatSetTimesSyscall fd accessTime modifyTime flags _) =
     map_return (\<lambda>errno. FDFileStatSetTimesSyscall fd accessTime modifyTime flags errno)
       (sys_FDFileStatSetTimes S s fd accessTime modifyTime flags)"
| "fd_call S s (FDPreadSyscall fd iovecs offset _ _) =
     map_return (\<lambda>(sz, errno, iovecs). FDPreadSyscall fd iovecs offset sz errno)
       (sys_FDPread S s fd iovecs offset)"
| "fd_call S s (FDPreStatGetSyscall fd _ _) =
     map_return (\<lambda>(stat, errno). FDPreStatGetSyscall fd stat errno)
       (sys_FDPreStatGet S s fd)"
| "fd_call S s (FDPreStatDirNameSyscall fd _ _) =
     map_return (\<lambda>(name, errno). FDPreStatDirNameSyscall fd name errno)
       (sys_FDPreStatDirName S s fd)"
| "fd_call S s (FDPwriteSyscall fd iovecs offset _ _) =
     map_return (\<lambda>(sz, errno). FDPwriteSyscall fd iovecs offset sz errno)
       (sys_FDPwrite S s fd iovecs offset)"
| "fd_call S s (FDReadSyscall fd iovecs _ _) =
     map_return (\<lambda>(sz, errno, iovecs). FDReadSyscall fd iovecs sz errno)
       (sys_FDRead S s fd iovecs)"
| "fd_call S s (FDReadDirSyscall fd entries cookie bufferSizeBytes _) =
     map_return (\<lambda>(n, errno, entries). FDReadDirSyscall fd (clip n entries) cookie bufferSizeBytes errno)
       (sys_FDReadDir S s fd entries cookie bufferSizeBytes)"
| "fd_call S s (FDRenumberSyscall from to _) =
     map_return (\<lambda>errno. FDRenumberSyscall from to errno)
       (sys_FDRenumber S s from to)"
| "fd_call S s (FDSeekSyscall fd seekOffset whence _ _) =
     map_return (\<lambda>(offset, errno). FDSeekSyscall fd seekOffset whence offset errno)
       (sys_FDSeek S s fd seekOffset whence)"
| "fd_call S s (FDSyncSyscall fd _) =
     map_return (\<lambda>errno. FDSyncSyscall fd errno)
       (sys_FDSync S s fd)"
| "fd_call S s (FDTellSyscall fd _ _) =
     map_return (\<lambda>(offset, errno). FDTellSyscall fd offset errno)
       (sys_FDTell S s fd)"
| "fd_call S s (FDWriteSyscall fd iovecs _ _) =
     map_return (\<lambda>(sz, errno). FDWriteSyscall fd iovecs sz errno)
       (sys_FDWrite S s fd iovecs)"

fun path_call ::
  "('s, 'v) System \<Rightarrow> 's \<Rightarrow> path_syscall \<Rightarrow> ('v panic, path_syscall) outcome \<times> 's" where
  "path_call S s (PathCreateDirectorySyscall fd path _) =
     map_return (\<lambda>errno. PathCreateDirectorySyscall fd path errno)
       (sys_PathCreateDirectory S s fd path)"
| "path_call S s (PathFileStatGetSyscall fd lookupFlags path _ _) =
     map_return (\<lambda>(fileStat, errno). PathFileStatGetSyscall fd lookupFlags path fileStat errno)
       (sys_PathFileStatGet S s fd lookupFlags path)"
| "path_call S s (PathFileStatSetTimesSyscall fd lookupFlags path accessTime modifyTime flags _) =
     map_return (\<lambda>errno. PathFileStatSetTimesSyscall fd lookupFlags path accessTime modifyTime flags errno)
       (sys_PathFileStatSetTimes S s fd lookupFlags path accessTime modifyTime flags)"
| "path_call S s (PathLinkSyscall oldFD oldFlags oldPath newFD newPath _) =
     map_return (\<lambda>errno. PathLinkSyscall oldFD oldFlags oldPath newFD newPath errno)
       (sys_PathLink S s oldFD oldFlags oldPath newFD newPath)"
| "path_call S s (PathOpenSyscall fd dirFlags path openFlags rightsBase rightsInheriting fdFlags _ _) =
     map_return (\<lambda>(newfd, errno). PathOpenSyscall fd dirFlags path openFlags rightsBase rightsInheriting fdFlags newfd errno)
       (sys_PathOpen S s fd dirFlags path openFlags rightsBase rightsInheriting fdFlags)"
| "path_call S s (PathReadLinkSyscall fd path output _) =
     map_return (\<lambda>(n, errno, output). PathReadLinkSyscall fd path (clip n output) errno)
       (sys_PathReadLink S s fd path output)"
| "path_call S s (PathRemoveDirectorySyscall fd path _) =
     map_return (\<lambda>errno. PathRemoveDirectorySyscall fd path errno)
       (sys_PathRemoveDirectory S s fd path)"
| "path_call S s (PathRenameSyscall fd oldPath newFD newPath _) =
     map_return (\<lambda>errno. PathRenameSyscall fd oldPath newFD newPath errno)
       (sys_PathRename S s fd oldPath newFD newPath)"
| "path_call S s (PathSymlinkSyscall oldPath fd newPath _) =
     map_return (\<lambda>errno. PathSymlinkSyscall oldPath fd newPath errno)
       (sys_PathSymlink S s oldPath fd newPath)"
| "path_call S s (PathUnlinkFileSyscall fd path _) =
     map_return (\<lambda>errno. PathUnlinkFileSyscall fd path errno)
       (sys_PathUnlinkFile S s fd path)"

fun proc_call ::
  "('s, 'v) System \<Rightarrow> 's \<Rightarrow> 'v proc_syscall \<Rightarrow> ('v panic, 'v proc_syscall) outcome \<times> 's" where
  "proc_call S s (PollOneOffSyscall subscriptions events _) =
     map_return (\<lambda>(n, errno, events). PollOneOffSyscall subscriptions (clip n events) errno)
       (sys_PollOneOff S s subscriptions events)"
| "proc_call S s (ProcExitSyscall exitCode _) =
     map_return (\<lambda>errno. ProcExitSyscall exitCode errno)
       (sys_ProcExit S s exitCode)"
| "proc_call S s (ProcRaiseSyscall signal _) =
     map_return (\<lambda>errno. ProcRaiseSyscall signal errno)
       (sys_ProcRaise S s signal)"
| "proc_call S s (SchedYieldSyscall _) =
     map_return (\<lambda>errno. SchedYieldSyscall errno)
       (sys_SchedYield S s)"
| "proc_call S s (RandomGetSyscall b _) =
     map_return (\<lambda>(errno, b). RandomGetSyscall b errno)
       (sys_RandomGet S s b)"

fun sock_call ::
  "('s, 'v) System \<Rightarrow> 's \<Rightarrow> sock_syscall \<Rightarrow> ('v panic, sock_syscall) outcome \<times> 's" where
  "sock_call S s (SockAcceptSyscall fd flags _ _ _ _) =
     map_return (\<lambda>(newfd, peer, addr, errno). SockAcceptSyscall fd flags newfd peer addr errno)
       (sys_SockAccept S s fd flags)"
| "sock_call S s (SockShutdownSyscall fd flags _) =
     map_return (\<lambda>errno. SockShutdownSyscall fd flags errno)
       (sys_SockShutdown S s fd flags)"
| "sock_call S s (SockRecvSyscall fd iovecs iflags _ _ _) =
     map_return (\<lambda>(sz, oflags, errno, iovecs). SockRecvSyscall fd iovecs iflags sz oflags errno)
       (sys_SockRecv S s fd iovecs iflags)"
| "sock_call S s (SockSendSyscall fd iovecs flags _ _) =
     map_return (\<lambda>(sz, errno). SockSendSyscall fd iovecs flags sz errno)
       (sys_SockSend S s fd iovecs flags)"
| "sock_call S s (SockOpenSyscall family socketType protocol rightsBase rightsInheriting _ _) =
     map_return (\<lambda>(fd, errno). SockOpenSyscall family socketType protocol rightsBase rightsInheriting fd errno)
       (sys_SockOpen S s family socketType protocol rightsBase rightsInheriting)"
| "sock_call S s (SockBindSyscall fd bindAddr _ _) =
     map_return (\<lambda>(addr, errno). SockBindSyscall fd bindAddr addr errno)
       (sys_SockBind S s fd bindAddr)"
| "sock_call S s (SockConnectSyscall fd peer _ _) =
     map_return (\<lambda>(addr, errno). SockConnectSyscall fd peer addr errno)
       (sys_SockConnect S s fd peer)"
| "sock_call S s (SockListenSyscall fd backlog _) =
     map_return (\<lambda>errno. SockListenSyscall fd backlog errno)
       (sys_SockListen S s fd backlog)"
| "sock_call S s (SockSendToSyscall fd iovecs iflags addr _ _) =
     map_return (\<lambda>(sz, errno). SockSendToSyscall fd iovecs iflags addr sz errno)
       (sys_SockSendTo S s fd iovecs iflags addr)"
| "sock_call S s (SockRecvFromSyscall fd iovecs iflags _ _ _ _) =
     map_return (\<lambda>(sz, oflags, addr, errno, iovecs). SockRecvFromSyscall fd iovecs iflags sz oflags addr errno)
       (sys_SockRecvFrom S s fd iovecs iflags)"
| "sock_call S s (SockGetOptSyscall fd opt _ _) =
     map_return (\<lambda>(value, errno). SockGetOptSyscall fd opt value errno)
       (sys_SockGetOpt S s fd opt)"
| "sock_call S s (SockSetOptSyscall fd opt value _) =
     map_return (\<lambda>errno. SockSetOptSyscall fd opt value errno)
       (sys_SockSetOpt S s fd opt value)"
| "sock_call S s (SockLocalAddressSyscall fd _ _) =
     map_return (\<lambda>(addr, errno). SockLocalAddressSyscall fd addr errno)
       (sys_SockLocalAddress S s fd)"
| "sock_call S s (SockRemoteAddressSyscall fd _ _) =
     map_return (\<lambda>(addr, errno). SockRemoteAddressSyscall fd addr errno)
       (sys_SockRemoteAddress S s fd)"
| "sock_call S s (SockAddressInfoSyscall name service hint results _) =
     map_return (\<lambda>(n, errno, results). SockAddressInfoSyscall name service hint (clip n results) errno)
       (sys_SockAddressInfo S s name service hint results)"

fun sys_call :: "('s, 'v) System \<Rightarrow> 's \<Rightarrow> 'v Syscall \<Rightarrow> ('v panic, 'v Syscall) outcome \<times> 's" where
  "sys_call S s (EnvCall c) = map_return EnvCall (env_call S s c)"
| "sys_call S s (FDCall c) = map_return FDCall (fd_call S s c)"
| "sys_call S s (PathCall c) = map_return PathCall (path_call S s c)"
| "sys_call S s (ProcCall c) = map_return ProcCall (proc_call S s c)"
| "sys_call S s (SockCall c) = map_return SockCall (sock_call S s c)"

end
