(* ===== verification/Recorder.thy ===== *)
theory Recorder
  imports Sys_Interface
begin

text \<open>
  The recorder (\<^verbatim>\<open>internal/timemachine/wasicall/record.go\<close>): a system that forwards each call to the one
  it wraps and writes what the codec encodes of it. The state is the wrapped system's state and what
  the \<^verbatim>\<open>write\<close> callback has been given so far. An encoder that panics stops the method before the write.
\<close>

record 's Recorder =
  recorder_system :: 's
  recorder_log :: "(int \<times> bytes) list"

text \<open>\<^verbatim>\<open>r.write(id, r.codec.EncodeX(...))\<close>, followed by the return of \<open>result\<close>.\<close>

definition recorder_write ::
  "'s Recorder \<Rightarrow> int \<Rightarrow> string + bytes \<Rightarrow> 'a \<Rightarrow> ('v panic, 'a) outcome \<times> 's Recorder" where
  "recorder_write r sysid encoded result =
     (case encoded of
        Inl msg \<Rightarrow> (Panic (PanicMessage msg), r)
      | Inr b \<Rightarrow> (Return result, r\<lparr>recorder_log := recorder_log r @ [(sysid, b)]\<rparr>))"

text \<open>
  Calling the wrapped system and going on with its result \<open>k\<close>. A panic of the system unwinds through
  the method.
\<close>

definition recorder_forward ::
  "'s Recorder \<Rightarrow> ('v panic, 'a) outcome \<times> 's
    \<Rightarrow> ('a \<Rightarrow> 's Recorder \<Rightarrow> ('v panic, 'b) outcome \<times> 's Recorder)
    \<Rightarrow> ('v panic, 'b) outcome \<times> 's Recorder" where
  "recorder_forward r x k =
     (case x of
        (Return a, s) \<Rightarrow> k a (r\<lparr>recorder_system := s\<rparr>)
      | (Panic p, s) \<Rightarrow> (Panic p, r\<lparr>recorder_system := s\<rparr>))"


definition recorder_ArgsSizesGet ::
  "('s, 'v) System \<Rightarrow> 's Recorder \<Rightarrow> ('v panic, int \<times> int \<times> int) outcome \<times> 's Recorder" where
  "recorder_ArgsSizesGet S r =
     recorder_forward r (sys_ArgsSizesGet S (recorder_system r))
       (\<lambda>(argCount, stringBytes, errno) r. recorder_write r ArgsSizesGet
          (Inr (EncodeArgsSizesGet [] argCount stringBytes errno)) (argCount, stringBytes, errno))"

definition recorder_ArgsGet ::
  "('s, 'v) System \<Rightarrow> 's Recorder \<Rightarrow> ('v panic, bytes list \<times> int) outcome \<times> 's Recorder" where
  "recorder_ArgsGet S r =
     recorder_forward r (sys_ArgsGet S (recorder_system r))
       (\<lambda>(args, errno) r. recorder_write r ArgsGet
          (Inr (EncodeArgsGet [] args errno)) (args, errno))"

definition recorder_EnvironSizesGet ::
  "('s, 'v) System \<Rightarrow> 's Recorder \<Rightarrow> ('v panic, int \<times> int \<times> int) outcome \<times> 's Recorder" where
  "recorder_EnvironSizesGet S r =
     recorder_forward r (sys_EnvironSizesGet S (recorder_system r))
       (\<lambda>(envCount, stringBytes, errno) r. recorder_write r EnvironSizesGet
          (Inr (EncodeEnvironSizesGet [] envCount stringBytes errno)) (envCount, stringBytes, errno))"

definition recorder_EnvironGet ::
  "('s, 'v) System \<Rightarrow> 's Recorder \<Rightarrow> ('v panic, bytes list \<times> int) outcome \<times> 's Recorder" where
  "recorder_EnvironGet S r =
     recorder_forward r (sys_EnvironGet S (recorder_system r))
       (\<lambda>(env, errno) r. recorder_write r EnvironGet
          (Inr (EncodeEnvironGet [] env errno)) (env, errno))"

definition recorder_ClockResGet ::
  "('s, 'v) System \<Rightarrow> 's Recorder \<Rightarrow> int \<Rightarrow> ('v panic, int \<times> int) outcome \<times> 's Recorder" where
  "recorder_ClockResGet S r clockID =
     recorder_forward r (sys_ClockResGet S (recorder_system r) clockID)
       (\<lambda>(timestamp, errno) r. recorder_write r ClockResGet
          (Inr (EncodeClockResGet [] clockID timestamp errno)) (timestamp, errno))"

definition recorder_ClockTimeGet ::
  "('s, 'v) System \<Rightarrow> 's Recorder \<Rightarrow> int \<Rightarrow> int \<Rightarrow> ('v panic, int \<times> int) outcome \<times> 's Recorder" where
  "recorder_ClockTimeGet S r clockID precision =
     recorder_forward r (sys_ClockTimeGet S (recorder_system r) clockID precision)
       (\<lambda>(timestamp, errno) r. recorder_write r ClockTimeGet
          (Inr (EncodeClockTimeGet [] clockID precision timestamp errno)) (timestamp, errno))"

definition recorder_FDAdvise ::
  "('s, 'v) System \<Rightarrow> 's Recorder \<Rightarrow> int \<Rightarrow> int \<Rightarrow> int \<Rightarrow> int \<Rightarrow> ('v panic, int) outcome \<times> 's Recorder" where
  "recorder_FDAdvise S r fd offset len advice =
     recorder_forward r (sys_FDAdvise S (recorder_system r) fd offset len advice)
       (\<lambda>errno r. recorder_write r FDAdvise
          (Inr (EncodeFDAdvise [] fd offset len advice errno)) errno)"

definition recorder_FDAllocate ::
  "('s, 'v) System \<Rightarrow> 's Recorder \<Rightarrow> int \<Rightarrow> int \<Rightarrow> int \<Rightarrow> ('v panic, int) outcome \<times> 's Recorder" where
  "recorder_FDAllocate S r fd offset len =
     recorder_forward r (sys_FDAllocate S (recorder_system r) fd offset len)
       (\<lambda>errno r. recorder_write r FDAllocate
          (Inr (EncodeFDAllocate [] fd offset len errno)) errno)"

definition recorder_FDClose ::
  "('s, 'v) System \<Rightarrow> 's Recorder \<Rightarrow> int \<Rightarrow> ('v panic, int) outcome \<times> 's Recorder" where
  "recorder_FDClose S r fd =
     recorder_forward r (sys_FDClose S (recorder_system r) fd)
       (\<lambda>errno r. recorder_write r FDClose
          (Inr (EncodeFDClose [] fd errno)) errno)"

definition recorder_FDDataSync ::
  "('s, 'v) System \<Rightarrow> 's Recorder \<Rightarrow> int \<Rightarrow> ('v panic, int) outcome \<times> 's Recorder" where
  "recorder_FDDataSync S r fd =
     recorder_forward r (sys_FDDataSync S (recorder_system r) fd)
       (\<lambda>errno r. recorder_write r FDDataSync
          (Inr (EncodeFDDataSync [] fd errno)) errno)"

definition recorder_FDStatGet ::
  "('s, 'v) System \<Rightarrow> 's Recorder \<Rightarrow> int \<Rightarrow> ('v panic, FDStat \<times> int) outcome \<times> 's Recorder" where
  "recorder_FDStatGet S r fd =
     recorder_forward r (sys_FDStatGet S (recorder_system r) fd)
       (\<lambda>(stat, errno) r. recorder_write r FDStatGet
          (Inr (EncodeFDStatGet [] fd stat errno)) (stat, errno))"

definition recorder_FDStatSetFlags ::
  "('s, 'v) System \<Rightarrow> 's Recorder \<Rightarrow> int \<Rightarrow> int \<Rightarrow> ('v panic, int) outcome \<times> 's Recorder" where
  "recorder_FDStatSetFlags S r fd flags =
     recorder_forward r (sys_FDStatSetFlags S (recorder_system r) fd flags)
       (\<lambda>errno r. recorder_write r FDStatSetFlags
          (Inr (EncodeFDStatSetFlags [] fd flags errno)) errno)"

definition recorder_FDStatSetRights ::
  "('s, 'v) System \<Rightarrow> 's Recorder \<Rightarrow> int \<Rightarrow> int \<Rightarrow> int \<Rightarrow> ('v panic, int) outcome \<times> 's Recorder" where
  "recorder_FDStatSetRights S r fd rightsBase rightsInheriting =
     recorder_forward r (sys_FDStatSetRights S (recorder_system r) fd rightsBase rightsInheriting)
       (\<lambda>errno r. recorder_write r FDStatSetRights
          (Inr (EncodeFDStatSetRights [] fd rightsBase rightsInheriting errno)) errno)"

definition recorder_FDFileStatGet ::
  "('s, 'v) System \<Rightarrow> 's Recorder \<Rightarrow> int \<Rightarrow> ('v panic, FileStat \<times> int) outcome \<times> 's Recorder" where
  "recorder_FDFileStatGet S r fd =
     recorder_forward r (sys_FDFileStatGet S (recorder_system r) fd)
       (\<lambda>(stat, errno) r. recorder_write r FDFileStatGet
          (Inr (EncodeFDFileStatGet [] fd stat errno)) (stat, errno))"

definition recorder_FDFileStatSetSize ::
  "('s, 'v) System \<Rightarrow> 's Recorder \<Rightarrow> int \<Rightarrow> int \<Rightarrow> ('v panic, int) outcome \<times> 's Recorder" where
  "recorder_FDFileStatSetSize S r fd sz =
     recorder_forward r (sys_FDFileStatSetSize S (recorder_system r) fd sz)
       (\<lambda>errno r. recorder_write r FDFileStatSetSize
          (Inr (EncodeFDFileStatSetSize [] fd sz errno)) errno)"

definition recorder_FDFileStatSetTimes ::
  "('s, 'v) System \<Rightarrow> 's Recorder \<Rightarrow> int \<Rightarrow> int \<Rightarrow> int \<Rightarrow> int \<Rightarrow> ('v panic, int) outcome \<times> 's Recorder" where
  "recorder_FDFileStatSetTimes S r fd accessTime modifyTime flags =
     recorder_forward r (sys_FDFileStatSetTimes S (recorder_system r) fd accessTime modifyTime flags)
       (\<lambda>errno r. recorder_write r FDFileStatSetTimes
          (Inr (EncodeFDFileStatSetTimes [] fd accessTime modifyTime flags errno)) errno)"

definition recorder_FDPread ::
  "'v wasi \<Rightarrow> ('s, 'v) System \<Rightarrow> 's Recorder \<Rightarrow> int \<Rightarrow> bytes list \<Rightarrow> int \<Rightarrow> ('v panic, int \<times> int \<times> bytes list) outcome \<times> 's Recorder" where
  "recorder_FDPread W S r fd iovecs offset =
     recorder_forward r (sys_FDPread S (recorder_system r) fd iovecs offset)
       (\<lambda>(sz, errno, iovecs) r. recorder_write r FDPread
          (Inr (EncodeFDPread W [] fd iovecs offset sz errno)) (sz, errno, iovecs))"

definition recorder_FDPreStatGet ::
  "('s, 'v) System \<Rightarrow> 's Recorder \<Rightarrow> int \<Rightarrow> ('v panic, PreStat \<times> int) outcome \<times> 's Recorder" where
  "recorder_FDPreStatGet S r fd =
     recorder_forward r (sys_FDPreStatGet S (recorder_system r) fd)
       (\<lambda>(stat, errno) r. recorder_write r FDPreStatGet
          (Inr (EncodeFDPreStatGet [] fd stat errno)) (stat, errno))"

definition recorder_FDPreStatDirName ::
  "('s, 'v) System \<Rightarrow> 's Recorder \<Rightarrow> int \<Rightarrow> ('v panic, bytes \<times> int) outcome \<times> 's Recorder" where
  "recorder_FDPreStatDirName S r fd =
     recorder_forward r (sys_FDPreStatDirName S (recorder_system r) fd)
       (\<lambda>(name, errno) r. recorder_write r FDPreStatDirName
          (Inr (EncodeFDPreStatDirName [] fd name errno)) (name, errno))"

definition recorder_FDPwrite ::
  "('s, 'v) System \<Rightarrow> 's Recorder \<Rightarrow> int \<Rightarrow> bytes list \<Rightarrow> int \<Rightarrow> ('v panic, int \<times> int) outcome \<times> 's Recorder" where
  "recorder_FDPwrite S r fd iovecs offset =
     recorder_forward r (sys_FDPwrite S (recorder_system r) fd iovecs offset)
       (\<lambda>(n, errno) r. recorder_write r FDPwrite
          (Inr (EncodeFDPwrite [] fd iovecs offset n errno)) (n, errno))"

definition recorder_FDRead ::
  "'v wasi \<Rightarrow> ('s, 'v) System \<Rightarrow> 's Recorder \<Rightarrow> int \<Rightarrow> bytes list \<Rightarrow> ('v panic, int \<times> int \<times> bytes list) outcome \<times> 's Recorder" where
  "recorder_FDRead W S r fd iovecs =
     recorder_forward r (sys_FDRead S (recorder_system r) fd iovecs)
       (\<lambda>(n, errno, iovecs) r. recorder_write r FDRead
          (Inr (EncodeFDRead W [] fd iovecs n errno)) (n, errno, iovecs))"

definition recorder_FDReadDir ::
  "('s, 'v) System \<Rightarrow> 's Recorder \<Rightarrow> int \<Rightarrow> DirEntry list \<Rightarrow> int \<Rightarrow> int \<Rightarrow> ('v panic, int \<times> int \<times> DirEntry list) outcome \<times> 's Recorder" where
  "recorder_FDReadDir S r fd entries cookie bufferSizeBytes =
     recorder_forward r (sys_FDReadDir S (recorder_system r) fd entries cookie bufferSizeBytes)
       (\<lambda>(n, errno, entries) r. recorder_write r FDReadDir
          (Inr (EncodeFDReadDir [] fd (clip n entries) cookie bufferSizeBytes errno)) (n, errno, entries))"

definition recorder_FDRenumber ::
  "('s, 'v) System \<Rightarrow> 's Recorder \<Rightarrow> int \<Rightarrow> int \<Rightarrow> ('v panic, int) outcome \<times> 's Recorder" where
  "recorder_FDRenumber S r from to =
     recorder_forward r (sys_FDRenumber S (recorder_system r) from to)
       (\<lambda>errno r. recorder_write r FDRenumber
          (Inr (EncodeFDRenumber [] from to errno)) errno)"

definition recorder_FDSeek ::
  "('s, 'v) System \<Rightarrow> 's Recorder \<Rightarrow> int \<Rightarrow> int \<Rightarrow> int \<Rightarrow> ('v panic, int \<times> int) outcome \<times> 's Recorder" where
  "recorder_FDSeek S r fd offset whence =
     recorder_forward r (sys_FDSeek S (recorder_system r) fd offset whence)
       (\<lambda>(result, errno) r. recorder_write r FDSeek
          (Inr (EncodeFDSeek [] fd offset whence result errno)) (result, errno))"

definition recorder_FDSync ::
  "('s, 'v) System \<Rightarrow> 's Recorder \<Rightarrow> int \<Rightarrow> ('v panic, int) outcome \<times> 's Recorder" where
  "recorder_FDSync S r fd =
     recorder_forward r (sys_FDSync S (recorder_system r) fd)
       (\<lambda>errno r. recorder_write r FDSync
          (Inr (EncodeFDSync [] fd errno)) errno)"

definition recorder_FDTell ::
  "('s, 'v) System \<Rightarrow> 's Recorder \<Rightarrow> int \<Rightarrow> ('v panic, int \<times> int) outcome \<times> 's Recorder" where
  "recorder_FDTell S r fd =
     recorder_forward r (sys_FDTell S (recorder_system r) fd)
       (\<lambda>(fileSize, errno) r. recorder_write r FDTell
          (Inr (EncodeFDTell [] fd fileSize errno)) (fileSize, errno))"

definition recorder_FDWrite ::
  "('s, 'v) System \<Rightarrow> 's Recorder \<Rightarrow> int \<Rightarrow> bytes list \<Rightarrow> ('v panic, int \<times> int) outcome \<times> 's Recorder" where
  "recorder_FDWrite S r fd iovecs =
     recorder_forward r (sys_FDWrite S (recorder_system r) fd iovecs)
       (\<lambda>(n, errno) r. recorder_write r FDWrite
          (Inr (EncodeFDWrite [] fd iovecs n errno)) (n, errno))"

definition recorder_PathCreateDirectory ::
  "('s, 'v) System \<Rightarrow> 's Recorder \<Rightarrow> int \<Rightarrow> bytes \<Rightarrow> ('v panic, int) outcome \<times> 's Recorder" where
  "recorder_PathCreateDirectory S r fd path =
     recorder_forward r (sys_PathCreateDirectory S (recorder_system r) fd path)
       (\<lambda>errno r. recorder_write r PathCreateDirectory
          (Inr (EncodePathCreateDirectory [] fd path errno)) errno)"

definition recorder_PathFileStatGet ::
  "('s, 'v) System \<Rightarrow> 's Recorder \<Rightarrow> int \<Rightarrow> int \<Rightarrow> bytes \<Rightarrow> ('v panic, FileStat \<times> int) outcome \<times> 's Recorder" where
  "recorder_PathFileStatGet S r fd lookupFlags path =
     recorder_forward r (sys_PathFileStatGet S (recorder_system r) fd lookupFlags path)
       (\<lambda>(fileStat, errno) r. recorder_write r PathFileStatGet
          (Inr (EncodePathFileStatGet [] fd lookupFlags path fileStat errno)) (fileStat, errno))"

definition recorder_PathFileStatSetTimes ::
  "('s, 'v) System \<Rightarrow> 's Recorder \<Rightarrow> int \<Rightarrow> int \<Rightarrow> bytes \<Rightarrow> int \<Rightarrow> int \<Rightarrow> int \<Rightarrow> ('v panic, int) outcome \<times> 's Recorder" where
  "recorder_PathFileStatSetTimes S r fd lookupFlags path accessTime modifyTime flags =
     recorder_forward r (sys_PathFileStatSetTimes S (recorder_system r) fd lookupFlags path accessTime modifyTime flags)
       (\<lambda>errno r. recorder_write r PathFileStatSetTimes
          (Inr (EncodePathFileStatSetTimes [] fd lookupFlags path accessTime modifyTime flags errno)) errno)"

definition recorder_PathLink ::
  "('s, 'v) System \<Rightarrow> 's Recorder \<Rightarrow> int \<Rightarrow> int \<Rightarrow> bytes \<Rightarrow> int \<Rightarrow> bytes \<Rightarrow> ('v panic, int) outcome \<times> 's Recorder" where
  "recorder_PathLink S r oldFD oldFlags oldPath newFD newPath =
     recorder_forward r (sys_PathLink S (recorder_system r) oldFD oldFlags oldPath newFD newPath)
       (\<lambda>errno r. recorder_write r PathLink
          (Inr (EncodePathLink [] oldFD oldFlags oldPath newFD newPath errno)) errno)"

definition recorder_PathOpen ::
  "('s, 'v) System \<Rightarrow> 's Recorder \<Rightarrow> int \<Rightarrow> int \<Rightarrow> bytes \<Rightarrow> int \<Rightarrow> int \<Rightarrow> int \<Rightarrow> int \<Rightarrow> ('v panic, int \<times> int) outcome \<times> 's Recorder" where
  "recorder_PathOpen S r fd dirFlags path openFlags rightsBase rightsInheriting fdFlags =
     recorder_forward r (sys_PathOpen S (recorder_system r) fd dirFlags path openFlags rightsBase rightsInheriting fdFlags)
       (\<lambda>(newfd, errno) r. recorder_write r PathOpen
          (Inr (EncodePathOpen [] fd dirFlags path openFlags rightsBase rightsInheriting fdFlags newfd errno)) (newfd, errno))"

definition recorder_PathReadLink ::
  "('s, 'v) System \<Rightarrow> 's Recorder \<Rightarrow> int \<Rightarrow> bytes \<Rightarrow> bytes \<Rightarrow> ('v panic, int \<times> int \<times> bytes) outcome \<times> 's Recorder" where
  "recorder_PathReadLink S r fd path buffer =
     recorder_forward r (sys_PathReadLink S (recorder_system r) fd path buffer)
       (\<lambda>(n, errno, buffer) r. recorder_write r PathReadLink
          (Inr (EncodePathReadLink [] fd path (clip n buffer) errno)) (n, errno, buffer))"

definition recorder_PathRemoveDirectory ::
  "('s, 'v) System \<Rightarrow> 's Recorder \<Rightarrow> int \<Rightarrow> bytes \<Rightarrow> ('v panic, int) outcome \<times> 's Recorder" where
  "recorder_PathRemoveDirectory S r fd path =
     recorder_forward r (sys_PathRemoveDirectory S (recorder_system r) fd path)
       (\<lambda>errno r. recorder_write r PathRemoveDirectory
          (Inr (EncodePathRemoveDirectory [] fd path errno)) errno)"

definition recorder_PathRename ::
  "('s, 'v) System \<Rightarrow> 's Recorder \<Rightarrow> int \<Rightarrow> bytes \<Rightarrow> int \<Rightarrow> bytes \<Rightarrow> ('v panic, int) outcome \<times> 's Recorder" where
  "recorder_PathRename S r fd oldPath newFD newPath =
     recorder_forward r (sys_PathRename S (recorder_system r) fd oldPath newFD newPath)
       (\<lambda>errno r. recorder_write r PathRename
          (Inr (EncodePathRename [] fd oldPath newFD newPath errno)) errno)"

definition recorder_PathSymlink ::
  "('s, 'v) System \<Rightarrow> 's Recorder \<Rightarrow> bytes \<Rightarrow> int \<Rightarrow> bytes \<Rightarrow> ('v panic, int) outcome \<times> 's Recorder" where
  "recorder_PathSymlink S r oldPath fd newPath =
     recorder_forward r (sys_PathSymlink S (recorder_system r) oldPath fd newPath)
       (\<lambda>errno r. recorder_write r PathSymlink
          (Inr (EncodePathSymlink [] oldPath fd newPath errno)) errno)"

definition recorder_PathUnlinkFile ::
  "('s, 'v) System \<Rightarrow> 's Recorder \<Rightarrow> int \<Rightarrow> bytes \<Rightarrow> ('v panic, int) outcome \<times> 's Recorder" where
  "recorder_PathUnlinkFile S r fd path =
     recorder_forward r (sys_PathUnlinkFile S (recorder_system r) fd path)
       (\<lambda>errno r. recorder_write r PathUnlinkFile
          (Inr (EncodePathUnlinkFile [] fd path errno)) errno)"

definition recorder_PollOneOff ::
  "'v wasi \<Rightarrow> ('s, 'v) System \<Rightarrow> 's Recorder \<Rightarrow> 'v Subscription list \<Rightarrow> Event list \<Rightarrow> ('v panic, int \<times> int \<times> Event list) outcome \<times> 's Recorder" where
  "recorder_PollOneOff W S r subscriptions events =
     recorder_forward r (sys_PollOneOff S (recorder_system r) subscriptions events)
       (\<lambda>(n, errno, events) r. recorder_write r PollOneOff
          (EncodePollOneOff W [] subscriptions (clip n events) errno) (n, errno, events))"

definition recorder_ProcExit ::
  "'v wasi \<Rightarrow> ('s, 'v) System \<Rightarrow> 's Recorder \<Rightarrow> int \<Rightarrow> ('v panic, int) outcome \<times> 's Recorder" where
  "recorder_ProcExit W S r exitCode =
     (case recorder_write r ProcExit (Inr (EncodeProcExit [] exitCode (ESUCCESS W))) () of
        (Panic p, r) \<Rightarrow> (Panic p, r)
      | (Return _, r) \<Rightarrow>
          recorder_forward r (sys_ProcExit S (recorder_system r) exitCode)
            (\<lambda>errno r. (Return errno, r)))"

definition recorder_ProcRaise ::
  "('s, 'v) System \<Rightarrow> 's Recorder \<Rightarrow> int \<Rightarrow> ('v panic, int) outcome \<times> 's Recorder" where
  "recorder_ProcRaise S r signal =
     recorder_forward r (sys_ProcRaise S (recorder_system r) signal)
       (\<lambda>errno r. recorder_write r ProcRaise
          (Inr (EncodeProcRaise [] signal errno)) errno)"

definition recorder_SchedYield ::
  "('s, 'v) System \<Rightarrow> 's Recorder \<Rightarrow> ('v panic, int) outcome \<times> 's Recorder" where
  "recorder_SchedYield S r =
     recorder_forward r (sys_SchedYield S (recorder_system r))
       (\<lambda>errno r. recorder_write r SchedYield
          (Inr (EncodeSchedYield [] errno)) errno)"

definition recorder_RandomGet ::
  "('s, 'v) System \<Rightarrow> 's Recorder \<Rightarrow> bytes \<Rightarrow> ('v panic, int \<times> bytes) outcome \<times> 's Recorder" where
  "recorder_RandomGet S r b =
     recorder_forward r (sys_RandomGet S (recorder_system r) b)
       (\<lambda>(errno, b) r. recorder_write r RandomGet
          (Inr (EncodeRandomGet [] b errno)) (errno, b))"

definition recorder_SockAccept ::
  "'v wasi \<Rightarrow> ('s, 'v) System \<Rightarrow> 's Recorder \<Rightarrow> int \<Rightarrow> int \<Rightarrow> ('v panic, int \<times> SocketAddress \<times> SocketAddress \<times> int) outcome \<times> 's Recorder" where
  "recorder_SockAccept W S r fd flags =
     recorder_forward r (sys_SockAccept S (recorder_system r) fd flags)
       (\<lambda>(newfd, peer, addr, errno) r. recorder_write r SockAccept
          (EncodeSockAccept W [] fd flags newfd peer addr errno) (newfd, peer, addr, errno))"

definition recorder_SockRecv ::
  "'v wasi \<Rightarrow> ('s, 'v) System \<Rightarrow> 's Recorder \<Rightarrow> int \<Rightarrow> bytes list \<Rightarrow> int \<Rightarrow> ('v panic, int \<times> int \<times> int \<times> bytes list) outcome \<times> 's Recorder" where
  "recorder_SockRecv W S r fd iovecs iflags =
     recorder_forward r (sys_SockRecv S (recorder_system r) fd iovecs iflags)
       (\<lambda>(n, oflags, errno, iovecs) r. recorder_write r SockRecv
          (Inr (EncodeSockRecv W [] fd iovecs iflags n oflags errno)) (n, oflags, errno, iovecs))"

definition recorder_SockSend ::
  "('s, 'v) System \<Rightarrow> 's Recorder \<Rightarrow> int \<Rightarrow> bytes list \<Rightarrow> int \<Rightarrow> ('v panic, int \<times> int) outcome \<times> 's Recorder" where
  "recorder_SockSend S r fd iovecs iflags =
     recorder_forward r (sys_SockSend S (recorder_system r) fd iovecs iflags)
       (\<lambda>(n, errno) r. recorder_write r SockSend
          (Inr (EncodeSockSend [] fd iovecs iflags n errno)) (n, errno))"

definition recorder_SockShutdown ::
  "('s, 'v) System \<Rightarrow> 's Recorder \<Rightarrow> int \<Rightarrow> int \<Rightarrow> ('v panic, int) outcome \<times> 's Recorder" where
  "recorder_SockShutdown S r fd flags =
     recorder_forward r (sys_SockShutdown S (recorder_system r) fd flags)
       (\<lambda>errno r. recorder_write r SockShutdown
          (Inr (EncodeSockShutdown [] fd flags errno)) errno)"

definition recorder_SockOpen ::
  "('s, 'v) System \<Rightarrow> 's Recorder \<Rightarrow> int \<Rightarrow> int \<Rightarrow> int \<Rightarrow> int \<Rightarrow> int \<Rightarrow> ('v panic, int \<times> int) outcome \<times> 's Recorder" where
  "recorder_SockOpen S r pf socketType protocol rightsBase rightsInheriting =
     recorder_forward r (sys_SockOpen S (recorder_system r) pf socketType protocol rightsBase rightsInheriting)
       (\<lambda>(fd, errno) r. recorder_write r SockOpen
          (Inr (EncodeSockOpen [] pf socketType protocol rightsBase rightsInheriting fd errno)) (fd, errno))"

definition recorder_SockBind ::
  "'v wasi \<Rightarrow> ('s, 'v) System \<Rightarrow> 's Recorder \<Rightarrow> int \<Rightarrow> SocketAddress \<Rightarrow> ('v panic, SocketAddress \<times> int) outcome \<times> 's Recorder" where
  "recorder_SockBind W S r fd bindAddr =
     recorder_forward r (sys_SockBind S (recorder_system r) fd bindAddr)
       (\<lambda>(addr, errno) r. recorder_write r SockBind
          (EncodeSockBind W [] fd bindAddr addr errno) (addr, errno))"

definition recorder_SockConnect ::
  "'v wasi \<Rightarrow> ('s, 'v) System \<Rightarrow> 's Recorder \<Rightarrow> int \<Rightarrow> SocketAddress \<Rightarrow> ('v panic, SocketAddress \<times> int) outcome \<times> 's Recorder" where
  "recorder_SockConnect W S r fd peer =
     recorder_forward r (sys_SockConnect S (recorder_system r) fd peer)
       (\<lambda>(addr, errno) r. recorder_write r SockConnect
          (EncodeSockConnect W [] fd peer addr errno) (addr, errno))"

definition recorder_SockListen ::
  "('s, 'v) System \<Rightarrow> 's Recorder \<Rightarrow> int \<Rightarrow> int \<Rightarrow> ('v panic, int) outcome \<times> 's Recorder" where
  "recorder_SockListen S r fd backlog =
     recorder_forward r (sys_SockListen S (recorder_system r) fd backlog)
       (\<lambda>errno r. recorder_write r SockListen
          (Inr (EncodeSockListen [] fd backlog errno)) errno)"

definition recorder_SockSendTo ::
  "'v wasi \<Rightarrow> ('s, 'v) System \<Rightarrow> 's Recorder \<Rightarrow> int \<Rightarrow> bytes list \<Rightarrow> int \<Rightarrow> SocketAddress \<Rightarrow> ('v panic, int \<times> int) outcome \<times> 's Recorder" where
  "recorder_SockSendTo W S r fd iovecs iflags addr =
     recorder_forward r (sys_SockSendTo S (recorder_system r) fd iovecs iflags addr)
       (\<lambda>(n, errno) r. recorder_write r SockSendTo
          (EncodeSockSendTo W [] fd iovecs iflags addr n errno) (n, errno))"

definition recorder_SockRecvFrom ::
  "'v wasi \<Rightarrow> ('s, 'v) System \<Rightarrow> 's Recorder \<Rightarrow> int \<Rightarrow> bytes list \<Rightarrow> int \<Rightarrow> ('v panic, int \<times> int \<times> SocketAddress \<times> int \<times> bytes list) outcome \<times> 's Recorder" where
  "recorder_SockRecvFrom W S r fd iovecs iflags =
     recorder_forward r (sys_SockRecvFrom S (recorder_system r) fd iovecs iflags)
       (\<lambda>(n, oflags, addr, errno, iovecs) r. recorder_write r SockRecvFrom
          (EncodeSockRecvFrom W [] fd iovecs iflags n oflags addr errno) (n, oflags, addr, errno, iovecs))"

definition recorder_SockGetOpt ::
  "('s, 'v) System \<Rightarrow> 's Recorder \<Rightarrow> int \<Rightarrow> int \<Rightarrow> ('v panic, SocketOptionValue \<times> int) outcome \<times> 's Recorder" where
  "recorder_SockGetOpt S r fd opt =
     recorder_forward r (sys_SockGetOpt S (recorder_system r) fd opt)
       (\<lambda>(value, errno) r. recorder_write r SockGetOpt
          (EncodeSockGetOpt [] fd opt value errno) (value, errno))"

definition recorder_SockSetOpt ::
  "('s, 'v) System \<Rightarrow> 's Recorder \<Rightarrow> int \<Rightarrow> int \<Rightarrow> SocketOptionValue \<Rightarrow> ('v panic, int) outcome \<times> 's Recorder" where
  "recorder_SockSetOpt S r fd opt value =
     recorder_forward r (sys_SockSetOpt S (recorder_system r) fd opt value)
       (\<lambda>errno r. recorder_write r SockSetOpt
          (EncodeSockSetOpt [] fd opt value errno) errno)"

definition recorder_SockLocalAddress ::
  "'v wasi \<Rightarrow> ('s, 'v) System \<Rightarrow> 's Recorder \<Rightarrow> int \<Rightarrow> ('v panic, SocketAddress \<times> int) outcome \<times> 's Recorder" where
  "recorder_SockLocalAddress W S r fd =
     recorder_forward r (sys_SockLocalAddress S (recorder_system r) fd)
       (\<lambda>(addr, errno) r. recorder_write r SockLocalAddress
          (EncodeSockLocalAddress W [] fd addr errno) (addr, errno))"

definition recorder_SockRemoteAddress ::
  "'v wasi \<Rightarrow> ('s, 'v) System \<Rightarrow> 's Recorder \<Rightarrow> int \<Rightarrow> ('v panic, SocketAddress \<times> int) outcome \<times> 's Recorder" where
  "recorder_SockRemoteAddress W S r fd =
     recorder_forward r (sys_SockRemoteAddress S (recorder_system r) fd)
       (\<lambda>(addr, errno) r. recorder_write r SockRemoteAddress
          (EncodeSockRemoteAddress W [] fd addr errno) (addr, errno))"

definition recorder_SockAddressInfo ::
  "'v wasi \<Rightarrow> ('s, 'v) System \<Rightarrow> 's Recorder \<Rightarrow> bytes \<Rightarrow> bytes \<Rightarrow> AddressInfo \<Rightarrow> AddressInfo list \<Rightarrow> ('v panic, int \<times> int \<times> AddressInfo list) outcome \<times> 's Recorder" where
  "recorder_SockAddressInfo W S r name service hints results =
     recorder_forward r (sys_SockAddressInfo S (recorder_system r) name service hints results)
       (\<lambda>(n, errno, results) r. recorder_write r SockAddressInfo
          (EncodeSockAddressInfo W [] name service hints (clip n results) errno) (n, errno, results))"

lemmas recorder_defs =
  recorder_ArgsSizesGet_def recorder_ArgsGet_def recorder_EnvironSizesGet_def
  recorder_EnvironGet_def recorder_ClockResGet_def recorder_ClockTimeGet_def recorder_FDAdvise_def
  recorder_FDAllocate_def recorder_FDClose_def recorder_FDDataSync_def recorder_FDStatGet_def
  recorder_FDStatSetFlags_def recorder_FDStatSetRights_def recorder_FDFileStatGet_def
  recorder_FDFileStatSetSize_def recorder_FDFileStatSetTimes_def recorder_FDPread_def
  recorder_FDPreStatGet_def recorder_FDPreStatDirName_def recorder_FDPwrite_def
  recorder_FDRead_def recorder_FDReadDir_def recorder_FDRenumber_def recorder_FDSeek_def
  recorder_FDSync_def recorder_FDTell_def recorder_FDWrite_def recorder_PathCreateDirectory_def
  recorder_PathFileStatGet_def recorder_PathFileStatSetTimes_def recorder_PathLink_def
  recorder_PathOpen_def recorder_PathReadLink_def recorder_PathRemoveDirectory_def
  recorder_PathRename_def recorder_PathSymlink_def recorder_PathUnlinkFile_def
  recorder_PollOneOff_def recorder_ProcExit_def recorder_ProcRaise_def recorder_SchedYield_def
  recorder_RandomGet_def recorder_SockAccept_def recorder_SockRecv_def recorder_SockSend_def
  recorder_SockShutdown_def recorder_SockOpen_def recorder_SockBind_def recorder_SockConnect_def
  recorder_SockListen_def recorder_SockSendTo_def recorder_SockRecvFrom_def
  recorder_SockGetOpt_def recorder_SockSetOpt_def recorder_SockLocalAddress_def
  recorder_SockRemoteAddress_def recorder_SockAddressInfo_def

definition NewRecorder :: "'v wasi \<Rightarrow> ('s, 'v) System \<Rightarrow> ('s Recorder, 'v) System" where
  "NewRecorder W S =
     \<lparr>sys_ArgsSizesGet = recorder_ArgsSizesGet S,
      sys_ArgsGet = recorder_ArgsGet S,
      sys_EnvironSizesGet = recorder_EnvironSizesGet S,
      sys_EnvironGet = recorder_EnvironGet S,
      sys_ClockResGet = recorder_ClockResGet S,
      sys_ClockTimeGet = recorder_ClockTimeGet S,
      sys_FDAdvise = recorder_FDAdvise S,
      sys_FDAllocate = recorder_FDAllocate S,
      sys_FDClose = recorder_FDClose S,
      sys_FDDataSync = recorder_FDDataSync S,
      sys_FDStatGet = recorder_FDStatGet S,
      sys_FDStatSetFlags = recorder_FDStatSetFlags S,
      sys_FDStatSetRights = recorder_FDStatSetRights S,
      sys_FDFileStatGet = recorder_FDFileStatGet S,
      sys_FDFileStatSetSize = recorder_FDFileStatSetSize S,
      sys_FDFileStatSetTimes = recorder_FDFileStatSetTimes S,
      sys_FDPread = recorder_FDPread W S,
      sys_FDPreStatGet = recorder_FDPreStatGet S,
      sys_FDPreStatDirName = recorder_FDPreStatDirName S,
      sys_FDPwrite = recorder_FDPwrite S,
      sys_FDRead = recorder_FDRead W S,
      sys_FDReadDir = recorder_FDReadDir S,
      sys_FDRenumber = recorder_FDRenumber S,
      sys_FDSeek = recorder_FDSeek S,
      sys_FDSync = recorder_FDSync S,
      sys_FDTell = recorder_FDTell S,
      sys_FDWrite = recorder_FDWrite S,
      sys_PathCreateDirectory = recorder_PathCreateDirectory S,
      sys_PathFileStatGet = recorder_PathFileStatGet S,
      sys_PathFileStatSetTimes = recorder_PathFileStatSetTimes S,
      sys_PathLink = recorder_PathLink S,
      sys_PathOpen = recorder_PathOpen S,
      sys_PathReadLink = recorder_PathReadLink S,
      sys_PathRemoveDirectory = recorder_PathRemoveDirectory S,
      sys_PathRename = recorder_PathRename S,
      sys_PathSymlink = recorder_PathSymlink S,
      sys_PathUnlinkFile = recorder_PathUnlinkFile S,
      sys_PollOneOff = recorder_PollOneOff W S,
      sys_ProcExit = recorder_ProcExit W S,
      sys_ProcRaise = recorder_ProcRaise S,
      sys_SchedYield = recorder_SchedYield S,
      sys_RandomGet = recorder_RandomGet S,
      sys_SockAccept = recorder_SockAccept W S,
      sys_SockRecv = recorder_SockRecv W S,
      sys_SockSend = recorder_SockSend S,
      sys_SockShutdown = recorder_SockShutdown S,
      sys_SockOpen = recorder_SockOpen S,
      sys_SockBind = recorder_SockBind W S,
      sys_SockConnect = recorder_SockConnect W S,
      sys_SockListen = recorder_SockListen S,
      sys_SockSendTo = recorder_SockSendTo W S,
      sys_SockRecvFrom = recorder_SockRecvFrom W S,
      sys_SockGetOpt = recorder_SockGetOpt S,
      sys_SockSetOpt = recorder_SockSetOpt S,
      sys_SockLocalAddress = recorder_SockLocalAddress W S,
      sys_SockRemoteAddress = recorder_SockRemoteAddress W S,
      sys_SockAddressInfo = recorder_SockAddressInfo W S\<rparr>"

section \<open>Transparency\<close>

text \<open>
  For every call but \<^verbatim>\<open>ProcExit\<close>, the recorder makes the call, and then writes the identifier and the
  encoding of the completed call.
\<close>

lemma env_call_NewRecorder:
  "env_call (NewRecorder W S) r c =
     recorder_forward r (env_call S (recorder_system r) c)
       (\<lambda>s r. recorder_write r (env_ID s) (env_encode W s) s)"
  by (cases c)
    (auto simp: NewRecorder_def recorder_defs recorder_forward_def recorder_write_def map_return_def
      split: prod.splits outcome.splits sum.splits)

lemma fd_call_NewRecorder:
  "fd_call (NewRecorder W S) r c =
     recorder_forward r (fd_call S (recorder_system r) c)
       (\<lambda>s r. recorder_write r (fd_ID s) (fd_encode W s) s)"
  by (cases c)
    (auto simp: NewRecorder_def recorder_defs recorder_forward_def recorder_write_def map_return_def
      split: prod.splits outcome.splits sum.splits)

lemma path_call_NewRecorder:
  "path_call (NewRecorder W S) r c =
     recorder_forward r (path_call S (recorder_system r) c)
       (\<lambda>s r. recorder_write r (path_ID s) (path_encode W s) s)"
  by (cases c)
    (auto simp: NewRecorder_def recorder_defs recorder_forward_def recorder_write_def map_return_def
      split: prod.splits outcome.splits sum.splits)

lemma proc_call_NewRecorder:
  "(\<And>code e. c \<noteq> ProcExitSyscall code e) \<Longrightarrow>
   proc_call (NewRecorder W S) r c =
     recorder_forward r (proc_call S (recorder_system r) c)
       (\<lambda>s r. recorder_write r (proc_ID s) (proc_encode W s) s)"
  by (cases c)
    (auto simp: NewRecorder_def recorder_defs recorder_forward_def recorder_write_def map_return_def
      split: prod.splits outcome.splits sum.splits)

lemma sock_call_NewRecorder:
  "sock_call (NewRecorder W S) r c =
     recorder_forward r (sock_call S (recorder_system r) c)
       (\<lambda>s r. recorder_write r (sock_ID s) (sock_encode W s) s)"
  by (cases c)
    (auto simp: NewRecorder_def recorder_defs recorder_forward_def recorder_write_def map_return_def
      split: prod.splits outcome.splits sum.splits)

end
