(* ===== verification/Replay.thy ===== *)
theory Replay
  imports Sys_Interface Stream_Iterator
begin

text \<open>
  The replay (\<^verbatim>\<open>internal/timemachine/wasicall/replay.go\<close>): a system that answers every call from the next
  record of a log. Its state has the fields of the structure \<^verbatim>\<open>Replay\<close>; the writers behind \<^verbatim>\<open>Stdout\<close> and
  \<^verbatim>\<open>Stderr\<close> are the caller's, so their states \<open>'w\<close> and the function \<open>wr\<close> that writes to them are
  parameters. A slice kept for reuse is the slice extended to its capacity, as in the decoder; a
  decode that fails gives \<^verbatim>\<open>nil\<close>.

  One definition per method: the next record (or the answer at the end of the log), its decoding, the
  comparison with the parameters of the call in strict mode, and the result.
\<close>

section \<open>State\<close>

record ('v, 'w) Replay =
  Replay_Stdout :: 'w
  Replay_Stderr :: 'w
  Replay_stdout :: int
  Replay_stderr :: int
  Replay_records :: "Record Iterator"
  Replay_strict :: bool
  Replay_args :: "bytes list"
  Replay_iovecs :: "bytes list"
  Replay_subscriptions :: "'v Subscription list"
  Replay_events :: "Event list"
  Replay_entries :: "DirEntry list"
  Replay_addrinfo :: "AddressInfo list"

type_synonym 'w writer = "'w \<Rightarrow> bytes \<Rightarrow> error option \<times> 'w"

definition noneFD :: "'v wasi \<Rightarrow> int" where
  "noneFD W = wrap (shape W FD_t) (- 1)"

text \<open>\<^verbatim>\<open>NewReplay\<close>; \<open>discard\<close> is the state of \<^verbatim>\<open>io.Discard\<close>.\<close>

definition NewReplay :: "'w \<Rightarrow> Record answers \<Rightarrow> ('v, 'w) Replay" where
  "NewReplay discard records =
     \<lparr>Replay_Stdout = discard, Replay_Stderr = discard, Replay_stdout = 1, Replay_stderr = 2,
      Replay_records = Iterator_Reset (Some records)
        \<lparr>it_base = None, it_err = None, it_off = 0, it_buf = []\<rparr>,
      Replay_strict = True, Replay_args = [], Replay_iovecs = [], Replay_subscriptions = [],
      Replay_events = [], Replay_entries = [], Replay_addrinfo = []\<rparr>"

section \<open>Helpers\<close>

text \<open>\<^verbatim>\<open>readRecord\<close>; \<open>None\<close> is the result \<^verbatim>\<open>false\<close>.\<close>

definition readRecord ::
  "('v, 'w) Replay \<Rightarrow> int \<Rightarrow> ('v panic, Record option) outcome \<times> ('v, 'w) Replay" where
  "readRecord r syscall =
     (case Iterator_Next (Replay_records r) of
        (False, it) \<Rightarrow>
          (case Iterator_Err it of
             Some err \<Rightarrow> (Panic (ReadError err), r\<lparr>Replay_records := it\<rparr>)
           | None \<Rightarrow> (Return None, r\<lparr>Replay_records := it\<rparr>))
      | (True, it) \<Rightarrow>
          (case Iterator_Value it of
             None \<Rightarrow> (Panic (RuntimeError ''index out of range''), r\<lparr>Replay_records := it\<rparr>)
           | Some record \<Rightarrow>
               if Record_FunctionID record \<noteq> syscall
               then (Panic (UnexpectedSyscallError (Record_FunctionID record) syscall),
                     r\<lparr>Replay_records := it\<rparr>)
               else (Return (Some record), r\<lparr>Replay_records := it\<rparr>)))"

text \<open>The frame of the methods: what they return when \<^verbatim>\<open>readRecord\<close> has no record, and what follows.\<close>

definition replay_record ::
  "('v, 'w) Replay \<Rightarrow> int \<Rightarrow> 'a
    \<Rightarrow> (Record \<Rightarrow> ('v, 'w) Replay \<Rightarrow> ('v panic, 'a) outcome \<times> ('v, 'w) Replay)
    \<Rightarrow> ('v panic, 'a) outcome \<times> ('v, 'w) Replay" where
  "replay_record r syscall absent k =
     (case readRecord r syscall of
        (Panic p, r) \<Rightarrow> (Panic p, r)
      | (Return None, r) \<Rightarrow> (Return absent, r)
      | (Return (Some record), r) \<Rightarrow> k record r)"

text \<open>
  The block \<^verbatim>\<open>if r.strict { var mismatch []error ... }\<close>: each check is a condition and the error it
  appends; if there is one, the method panics with their join.
\<close>

definition replay_strict ::
  "('v, 'w) Replay \<Rightarrow> (bool \<times> 'v panic) list \<Rightarrow> ('v panic, 'a) outcome \<times> ('v, 'w) Replay
    \<Rightarrow> ('v panic, 'a) outcome \<times> ('v, 'w) Replay" where
  "replay_strict r checks result =
     (let mismatch = map snd (filter fst checks)
      in if Replay_strict r \<and> mismatch \<noteq> [] then (Panic (Joined mismatch), r) else result)"

fun writeIOVecs :: "'w writer \<Rightarrow> 'w \<Rightarrow> bytes list \<Rightarrow> error option \<times> 'w" where
  "writeIOVecs wr w [] = (None, w)"
| "writeIOVecs wr w (iov # iovs) =
     (case wr w iov of
        (Some err, w) \<Rightarrow> (Some err, w)
      | (None, w) \<Rightarrow> writeIOVecs wr w iovs)"

text \<open>
  The loop \<^verbatim>\<open>for i := range recordIOVecs { copy(iovecs[i], recordIOVecs[i]) }\<close>; \<open>None\<close> is the bounds check
  that fails.
\<close>

fun copy_iovecs :: "bytes list \<Rightarrow> bytes list \<Rightarrow> bytes list option" where
  "copy_iovecs iovecs [] = Some iovecs"
| "copy_iovecs [] (recorded # rs) = None"
| "copy_iovecs (iovec # iovecs) (recorded # rs) =
     map_option ((#) (go_copy iovec recorded)) (copy_iovecs iovecs rs)"

section \<open>Comparisons\<close>

definition equalIovecsShapePrefix :: "bytes list \<Rightarrow> bytes list \<Rightarrow> int \<Rightarrow> bool" where
  "equalIovecsShapePrefix iovecs prefix sz =
     (if prefix = [] then True
      else if length iovecs < length prefix then False
      else list_all (\<lambda>i. length (iovecs ! i) = length (prefix ! i)) [0..<length prefix - 1]
        \<and> length (prefix ! (length prefix - 1)) \<le> length (iovecs ! (length prefix - 1)))"

definition equalIovecs :: "bytes list \<Rightarrow> bytes list \<Rightarrow> bool" where
  "equalIovecs a b = (length a = length b \<and> list_all (\<lambda>i. a ! i = b ! i) [0..<length a])"

definition equalSubscription :: "'v wasi \<Rightarrow> 'v Subscription \<Rightarrow> 'v Subscription \<Rightarrow> bool" where
  "equalSubscription W a b =
     (if Subscription_EventType a \<noteq> Subscription_EventType b then False
      else if Subscription_UserData a \<noteq> Subscription_UserData b then False
      else if Subscription_EventType a = ClockEvent W then
        GetClock W (Subscription_variant a) = GetClock W (Subscription_variant b)
      else if Subscription_EventType a = FDReadEvent W \<or> Subscription_EventType a = FDWriteEvent W then
        GetFDReadWrite W (Subscription_variant a) = GetFDReadWrite W (Subscription_variant b)
      else False)"

definition equalSubscriptions :: "'v wasi \<Rightarrow> 'v Subscription list \<Rightarrow> 'v Subscription list \<Rightarrow> bool" where
  "equalSubscriptions W a b =
     (length a = length b \<and> list_all (\<lambda>i. equalSubscription W (a ! i) (b ! i)) [0..<length a])"

fun equalSocketAddress :: "SocketAddress \<Rightarrow> SocketAddress \<Rightarrow> bool" where
  "equalSocketAddress NilAddress b = (b = NilAddress)"
| "equalSocketAddress (Inet4Address p a) b = (b = Inet4Address p a)"
| "equalSocketAddress (Inet6Address p a) b = (b = Inet6Address p a)"
| "equalSocketAddress (UnixAddress n) b = (b = UnixAddress n)"
| "equalSocketAddress OtherAddress b = False"

fun equalSocketOptionValue :: "SocketOptionValue \<Rightarrow> SocketOptionValue \<Rightarrow> bool" where
  "equalSocketOptionValue NilValue b = (b = NilValue)"
| "equalSocketOptionValue (IntValue v) b = (b = IntValue v)"
| "equalSocketOptionValue (BytesValue v) b = (b = BytesValue v)"
| "equalSocketOptionValue OtherValue b = False"

text \<open>
  \<^verbatim>\<open>hints == recordHints\<close> in \<^verbatim>\<open>SockAddressInfo\<close>. The operator compares the field \<^verbatim>\<open>Address\<close>, an interface, by
  the pointers inside; the one in \<^verbatim>\<open>recordHints\<close> was allocated by the decoder a moment ago, so the two
  are equal only when both are \<^verbatim>\<open>nil\<close>.
\<close>

definition equal_hints :: "AddressInfo \<Rightarrow> AddressInfo \<Rightarrow> bool" where
  "equal_hints hints recordHints \<longleftrightarrow>
     AddressInfo_Flags hints = AddressInfo_Flags recordHints
     \<and> AddressInfo_Family hints = AddressInfo_Family recordHints
     \<and> AddressInfo_SocketType hints = AddressInfo_SocketType recordHints
     \<and> AddressInfo_Protocol hints = AddressInfo_Protocol recordHints
     \<and> AddressInfo_Address hints = NilAddress \<and> AddressInfo_Address recordHints = NilAddress
     \<and> AddressInfo_CanonicalName hints = AddressInfo_CanonicalName recordHints"

section \<open>Methods\<close>


definition Replay_ArgsSizesGet ::
  "'v wasi \<Rightarrow> ('v, 'w) Replay \<Rightarrow> ('v panic, int \<times> int \<times> int) outcome \<times> ('v, 'w) Replay" where
  "Replay_ArgsSizesGet W r =
     replay_record r ArgsSizesGet (0, 0, ENOSYS W) (\<lambda>record r.
       case DecodeArgsSizesGet W (Record_FunctionCall record) of
         Inl err \<Rightarrow> (Panic (DecodeError record err), r)
       | Inr (argCount, stringBytes, errno) \<Rightarrow>
            (Return (argCount, stringBytes, errno), r))"

definition Replay_ArgsGet ::
  "'v wasi \<Rightarrow> ('v, 'w) Replay \<Rightarrow> ('v panic, bytes list \<times> int) outcome \<times> ('v, 'w) Replay" where
  "Replay_ArgsGet W r =
     replay_record r ArgsGet ([], ENOSYS W) (\<lambda>record r.
       case DecodeArgsGet W (Record_FunctionCall record) (Replay_args r) of
         Inl err \<Rightarrow> (Panic (DecodeError record err), r\<lparr>Replay_args := []\<rparr>)
       | Inr (args, errno) \<Rightarrow>
            let r = r\<lparr>Replay_args := recache (Replay_args r) args\<rparr>
            in (Return (args, errno), r))"

definition Replay_EnvironSizesGet ::
  "'v wasi \<Rightarrow> ('v, 'w) Replay \<Rightarrow> ('v panic, int \<times> int \<times> int) outcome \<times> ('v, 'w) Replay" where
  "Replay_EnvironSizesGet W r =
     replay_record r EnvironSizesGet (0, 0, ENOSYS W) (\<lambda>record r.
       case DecodeEnvironSizesGet W (Record_FunctionCall record) of
         Inl err \<Rightarrow> (Panic (DecodeError record err), r)
       | Inr (envCount, stringBytes, errno) \<Rightarrow>
            (Return (envCount, stringBytes, errno), r))"

definition Replay_EnvironGet ::
  "'v wasi \<Rightarrow> ('v, 'w) Replay \<Rightarrow> ('v panic, bytes list \<times> int) outcome \<times> ('v, 'w) Replay" where
  "Replay_EnvironGet W r =
     replay_record r EnvironGet ([], ENOSYS W) (\<lambda>record r.
       case DecodeEnvironGet W (Record_FunctionCall record) (Replay_args r) of
         Inl err \<Rightarrow> (Panic (DecodeError record err), r\<lparr>Replay_args := []\<rparr>)
       | Inr (args, errno) \<Rightarrow>
            let r = r\<lparr>Replay_args := recache (Replay_args r) args\<rparr>
            in (Return (args, errno), r))"

definition Replay_ClockResGet ::
  "'v wasi \<Rightarrow> ('v, 'w) Replay \<Rightarrow> int \<Rightarrow> ('v panic, int \<times> int) outcome \<times> ('v, 'w) Replay" where
  "Replay_ClockResGet W r clockID =
     replay_record r ClockResGet (0, ENOSYS W) (\<lambda>record r.
       case DecodeClockResGet W (Record_FunctionCall record) of
         Inl err \<Rightarrow> (Panic (DecodeError record err), r)
       | Inr (recordID, timestamp, errno) \<Rightarrow>
            if Replay_strict r \<and> clockID \<noteq> recordID
            then (Panic
              (UnexpectedSyscallParamError ClockResGet ''id'' (AnyInt clockID) (AnyInt recordID)), r)
            else (Return (timestamp, errno), r))"

definition Replay_ClockTimeGet ::
  "'v wasi \<Rightarrow> ('v, 'w) Replay \<Rightarrow> int \<Rightarrow> int \<Rightarrow> ('v panic, int \<times> int) outcome \<times> ('v, 'w) Replay" where
  "Replay_ClockTimeGet W r clockID precision =
     replay_record r ClockTimeGet (0, ENOSYS W) (\<lambda>record r.
       case DecodeClockTimeGet W (Record_FunctionCall record) of
         Inl err \<Rightarrow> (Panic (DecodeError record err), r)
       | Inr (recordID, recordPrecision, timestamp, errno) \<Rightarrow>
            replay_strict r
              [(clockID \<noteq> recordID,
                 UnexpectedSyscallParamError ClockTimeGet ''id'' (AnyInt clockID) (AnyInt recordID)),
               (precision \<noteq> recordPrecision,
                 UnexpectedSyscallParamError ClockTimeGet ''precision'' (AnyInt precision) (AnyInt recordPrecision))]
              (Return (timestamp, errno), r))"

definition Replay_FDAdvise ::
  "'v wasi \<Rightarrow> ('v, 'w) Replay \<Rightarrow> int \<Rightarrow> int \<Rightarrow> int \<Rightarrow> int \<Rightarrow> ('v panic, int) outcome \<times> ('v, 'w) Replay" where
  "Replay_FDAdvise W r fd offset len advice =
     replay_record r FDAdvise (ENOSYS W) (\<lambda>record r.
       case DecodeFDAdvise W (Record_FunctionCall record) of
         Inl err \<Rightarrow> (Panic (DecodeError record err), r)
       | Inr (recordFD, recordOffset, recordLength, recordAdvice, errno) \<Rightarrow>
            replay_strict r
              [(fd \<noteq> recordFD,
                 UnexpectedSyscallParamError FDAdvise ''fd'' (AnyInt fd) (AnyInt recordFD)),
               (offset \<noteq> recordOffset,
                 UnexpectedSyscallParamError FDAdvise ''offset'' (AnyInt offset) (AnyInt recordOffset)),
               (len \<noteq> recordLength,
                 UnexpectedSyscallParamError FDAdvise ''length'' (AnyInt len) (AnyInt recordLength)),
               (advice \<noteq> recordAdvice,
                 UnexpectedSyscallParamError FDAdvise ''advice'' (AnyInt advice) (AnyInt recordAdvice))]
              (Return errno, r))"

definition Replay_FDAllocate ::
  "'v wasi \<Rightarrow> ('v, 'w) Replay \<Rightarrow> int \<Rightarrow> int \<Rightarrow> int \<Rightarrow> ('v panic, int) outcome \<times> ('v, 'w) Replay" where
  "Replay_FDAllocate W r fd offset len =
     replay_record r FDAllocate (ENOSYS W) (\<lambda>record r.
       case DecodeFDAllocate W (Record_FunctionCall record) of
         Inl err \<Rightarrow> (Panic (DecodeError record err), r)
       | Inr (recordFD, recordOffset, recordLength, errno) \<Rightarrow>
            replay_strict r
              [(fd \<noteq> recordFD,
                 UnexpectedSyscallParamError FDAllocate ''fd'' (AnyInt fd) (AnyInt recordFD)),
               (offset \<noteq> recordOffset,
                 UnexpectedSyscallParamError FDAllocate ''offset'' (AnyInt offset) (AnyInt recordOffset)),
               (len \<noteq> recordLength,
                 UnexpectedSyscallParamError FDAllocate ''length'' (AnyInt len) (AnyInt recordLength))]
              (Return errno, r))"

definition Replay_FDClose ::
  "'v wasi \<Rightarrow> ('v, 'w) Replay \<Rightarrow> int \<Rightarrow> ('v panic, int) outcome \<times> ('v, 'w) Replay" where
  "Replay_FDClose W r fd =
     replay_record r FDClose (ENOSYS W) (\<lambda>record r.
       case DecodeFDClose W (Record_FunctionCall record) of
         Inl err \<Rightarrow> (Panic (DecodeError record err), r)
       | Inr (recordFD, errno) \<Rightarrow>
            if Replay_strict r \<and> fd \<noteq> recordFD
            then (Panic
              (UnexpectedSyscallParamError FDClose ''fd'' (AnyInt fd) (AnyInt recordFD)), r)
            else (Return errno,
               if fd = Replay_stdout r then r\<lparr>Replay_stdout := noneFD W\<rparr>
               else if fd = Replay_stderr r then r\<lparr>Replay_stderr := noneFD W\<rparr>
               else r))"

definition Replay_FDDataSync ::
  "'v wasi \<Rightarrow> ('v, 'w) Replay \<Rightarrow> int \<Rightarrow> ('v panic, int) outcome \<times> ('v, 'w) Replay" where
  "Replay_FDDataSync W r fd =
     replay_record r FDDataSync (ENOSYS W) (\<lambda>record r.
       case DecodeFDDataSync W (Record_FunctionCall record) of
         Inl err \<Rightarrow> (Panic (DecodeError record err), r)
       | Inr (recordFD, errno) \<Rightarrow>
            if Replay_strict r \<and> fd \<noteq> recordFD
            then (Panic
              (UnexpectedSyscallParamError FDDataSync ''fd'' (AnyInt fd) (AnyInt recordFD)), r)
            else (Return errno, r))"

definition Replay_FDStatGet ::
  "'v wasi \<Rightarrow> ('v, 'w) Replay \<Rightarrow> int \<Rightarrow> ('v panic, FDStat \<times> int) outcome \<times> ('v, 'w) Replay" where
  "Replay_FDStatGet W r fd =
     replay_record r FDStatGet (zero_FDStat, ENOSYS W) (\<lambda>record r.
       case DecodeFDStatGet W (Record_FunctionCall record) of
         Inl err \<Rightarrow> (Panic (DecodeError record err), r)
       | Inr (recordFD, stat, errno) \<Rightarrow>
            if Replay_strict r \<and> fd \<noteq> recordFD
            then (Panic
              (UnexpectedSyscallParamError FDStatGet ''fd'' (AnyInt fd) (AnyInt recordFD)), r)
            else (Return (stat, errno), r))"

definition Replay_FDStatSetFlags ::
  "'v wasi \<Rightarrow> ('v, 'w) Replay \<Rightarrow> int \<Rightarrow> int \<Rightarrow> ('v panic, int) outcome \<times> ('v, 'w) Replay" where
  "Replay_FDStatSetFlags W r fd flags =
     replay_record r FDStatSetFlags (ENOSYS W) (\<lambda>record r.
       case DecodeFDStatSetFlags W (Record_FunctionCall record) of
         Inl err \<Rightarrow> (Panic (DecodeError record err), r)
       | Inr (recordFD, recordFlags, errno) \<Rightarrow>
            replay_strict r
              [(fd \<noteq> recordFD,
                 UnexpectedSyscallParamError FDStatSetFlags ''fd'' (AnyInt fd) (AnyInt recordFD)),
               (flags \<noteq> recordFlags,
                 UnexpectedSyscallParamError FDStatSetFlags ''flags'' (AnyInt flags) (AnyInt recordFlags))]
              (Return errno, r))"

definition Replay_FDStatSetRights ::
  "'v wasi \<Rightarrow> ('v, 'w) Replay \<Rightarrow> int \<Rightarrow> int \<Rightarrow> int \<Rightarrow> ('v panic, int) outcome \<times> ('v, 'w) Replay" where
  "Replay_FDStatSetRights W r fd rightsBase rightsInheriting =
     replay_record r FDStatSetRights (ENOSYS W) (\<lambda>record r.
       case DecodeFDStatSetRights W (Record_FunctionCall record) of
         Inl err \<Rightarrow> (Panic (DecodeError record err), r)
       | Inr (recordFD, recordRightsBase, recordRightsInheriting, errno) \<Rightarrow>
            replay_strict r
              [(fd \<noteq> recordFD,
                 UnexpectedSyscallParamError FDStatSetRights ''fd'' (AnyInt fd) (AnyInt recordFD)),
               (rightsBase \<noteq> recordRightsBase,
                 UnexpectedSyscallParamError FDStatSetRights ''rightsBase'' (AnyInt rightsBase) (AnyInt recordRightsBase)),
               (rightsInheriting \<noteq> recordRightsInheriting,
                 UnexpectedSyscallParamError FDStatSetRights ''rightsInheriting'' (AnyInt rightsInheriting) (AnyInt recordRightsInheriting))]
              (Return errno, r))"

definition Replay_FDFileStatGet ::
  "'v wasi \<Rightarrow> ('v, 'w) Replay \<Rightarrow> int \<Rightarrow> ('v panic, FileStat \<times> int) outcome \<times> ('v, 'w) Replay" where
  "Replay_FDFileStatGet W r fd =
     replay_record r FDFileStatGet (zero_FileStat, ENOSYS W) (\<lambda>record r.
       case DecodeFDFileStatGet W (Record_FunctionCall record) of
         Inl err \<Rightarrow> (Panic (DecodeError record err), r)
       | Inr (recordFD, stat, errno) \<Rightarrow>
            if Replay_strict r \<and> fd \<noteq> recordFD
            then (Panic
              (UnexpectedSyscallParamError FDFileStatGet ''fd'' (AnyInt fd) (AnyInt recordFD)), r)
            else (Return (stat, errno), r))"

definition Replay_FDFileStatSetSize ::
  "'v wasi \<Rightarrow> ('v, 'w) Replay \<Rightarrow> int \<Rightarrow> int \<Rightarrow> ('v panic, int) outcome \<times> ('v, 'w) Replay" where
  "Replay_FDFileStatSetSize W r fd sz =
     replay_record r FDFileStatSetSize (ENOSYS W) (\<lambda>record r.
       case DecodeFDFileStatSetSize W (Record_FunctionCall record) of
         Inl err \<Rightarrow> (Panic (DecodeError record err), r)
       | Inr (recordFD, recordSize, errno) \<Rightarrow>
            replay_strict r
              [(fd \<noteq> recordFD,
                 UnexpectedSyscallParamError FDFileStatSetSize ''fd'' (AnyInt fd) (AnyInt recordFD)),
               (sz \<noteq> recordSize,
                 UnexpectedSyscallParamError FDFileStatSetSize ''size'' (AnyInt sz) (AnyInt recordSize))]
              (Return errno, r))"

definition Replay_FDFileStatSetTimes ::
  "'v wasi \<Rightarrow> ('v, 'w) Replay \<Rightarrow> int \<Rightarrow> int \<Rightarrow> int \<Rightarrow> int \<Rightarrow> ('v panic, int) outcome \<times> ('v, 'w) Replay" where
  "Replay_FDFileStatSetTimes W r fd accessTime modifyTime flags =
     replay_record r FDFileStatSetTimes (ENOSYS W) (\<lambda>record r.
       case DecodeFDFileStatSetTimes W (Record_FunctionCall record) of
         Inl err \<Rightarrow> (Panic (DecodeError record err), r)
       | Inr (recordFD, recordAccessTime, recordModifyTime, recordFlags, errno) \<Rightarrow>
            replay_strict r
              [(fd \<noteq> recordFD,
                 UnexpectedSyscallParamError FDFileStatSetTimes ''fd'' (AnyInt fd) (AnyInt recordFD)),
               (accessTime \<noteq> recordAccessTime,
                 UnexpectedSyscallParamError FDFileStatSetTimes ''accessTime'' (AnyInt accessTime) (AnyInt recordAccessTime)),
               (modifyTime \<noteq> recordModifyTime,
                 UnexpectedSyscallParamError FDFileStatSetTimes ''modifyTime'' (AnyInt modifyTime) (AnyInt recordModifyTime)),
               (flags \<noteq> recordFlags,
                 UnexpectedSyscallParamError FDFileStatSetTimes ''flags'' (AnyInt flags) (AnyInt recordFlags))]
              (Return errno, r))"

definition Replay_FDPread ::
  "'v wasi \<Rightarrow> ('v, 'w) Replay \<Rightarrow> int \<Rightarrow> bytes list \<Rightarrow> int \<Rightarrow> ('v panic, int \<times> int \<times> bytes list) outcome \<times> ('v, 'w) Replay" where
  "Replay_FDPread W r fd iovecs offset =
     replay_record r FDPread (0, ENOSYS W, iovecs) (\<lambda>record r.
       case DecodeFDPread W (Record_FunctionCall record) (Replay_iovecs r) of
         Inl err \<Rightarrow> (Panic (DecodeError record err), r)
       | Inr (recordFD, recordIOVecs, recordOffset, sz, errno) \<Rightarrow>
            let r = r\<lparr>Replay_iovecs := recache (Replay_iovecs r) recordIOVecs\<rparr>
            in replay_strict r
              [(fd \<noteq> recordFD,
                 UnexpectedSyscallParamError FDPread ''fd'' (AnyInt fd) (AnyInt recordFD)),
               (\<not> equalIovecsShapePrefix iovecs recordIOVecs sz,
                 UnexpectedSyscallParamError FDPread ''iovecs'' (AnyBytesList iovecs) (AnyBytesList recordIOVecs)),
               (offset \<noteq> recordOffset,
                 UnexpectedSyscallParamError FDPread ''offset'' (AnyInt offset) (AnyInt recordOffset))]
              (case copy_iovecs iovecs recordIOVecs of
                 None \<Rightarrow> (Panic (RuntimeError ''index out of range''), r)
               | Some iovecs \<Rightarrow> (Return (sz, errno, iovecs), r)))"

definition Replay_FDPreStatGet ::
  "'v wasi \<Rightarrow> ('v, 'w) Replay \<Rightarrow> int \<Rightarrow> ('v panic, PreStat \<times> int) outcome \<times> ('v, 'w) Replay" where
  "Replay_FDPreStatGet W r fd =
     replay_record r FDPreStatGet (zero_PreStat, ENOSYS W) (\<lambda>record r.
       case DecodeFDPreStatGet W (Record_FunctionCall record) of
         Inl err \<Rightarrow> (Panic (DecodeError record err), r)
       | Inr (recordFD, stat, errno) \<Rightarrow>
            if Replay_strict r \<and> fd \<noteq> recordFD
            then (Panic
              (UnexpectedSyscallParamError FDPreStatGet ''fd'' (AnyInt fd) (AnyInt recordFD)), r)
            else (Return (stat, errno), r))"

definition Replay_FDPreStatDirName ::
  "'v wasi \<Rightarrow> ('v, 'w) Replay \<Rightarrow> int \<Rightarrow> ('v panic, bytes \<times> int) outcome \<times> ('v, 'w) Replay" where
  "Replay_FDPreStatDirName W r fd =
     replay_record r FDPreStatDirName ([], ENOSYS W) (\<lambda>record r.
       case DecodeFDPreStatDirName W (Record_FunctionCall record) of
         Inl err \<Rightarrow> (Panic (DecodeError record err), r)
       | Inr (recordFD, name, errno) \<Rightarrow>
            if Replay_strict r \<and> fd \<noteq> recordFD
            then (Panic
              (UnexpectedSyscallParamError FDPreStatDirName ''fd'' (AnyInt fd) (AnyInt recordFD)), r)
            else (Return (name, errno), r))"

definition Replay_FDPwrite ::
  "'v wasi \<Rightarrow> ('v, 'w) Replay \<Rightarrow> int \<Rightarrow> bytes list \<Rightarrow> int \<Rightarrow> ('v panic, int \<times> int) outcome \<times> ('v, 'w) Replay" where
  "Replay_FDPwrite W r fd iovecs offset =
     replay_record r FDPwrite (0, ENOSYS W) (\<lambda>record r.
       case DecodeFDPwrite W (Record_FunctionCall record) (Replay_iovecs r) of
         Inl err \<Rightarrow> (Panic (DecodeError record err), r)
       | Inr (recordFD, recordIOVecs, recordOffset, sz, errno) \<Rightarrow>
            let r = r\<lparr>Replay_iovecs := recache (Replay_iovecs r) recordIOVecs\<rparr>
            in replay_strict r
              [(fd \<noteq> recordFD,
                 UnexpectedSyscallParamError FDPwrite ''fd'' (AnyInt fd) (AnyInt recordFD)),
               (\<not> equalIovecs iovecs recordIOVecs,
                 UnexpectedSyscallParamError FDPwrite ''iovecs'' (AnyBytesList iovecs) (AnyBytesList recordIOVecs)),
               (offset \<noteq> recordOffset,
                 UnexpectedSyscallParamError FDPwrite ''offset'' (AnyInt offset) (AnyInt recordOffset))]
              (Return (sz, errno), r))"

definition Replay_FDRead ::
  "'v wasi \<Rightarrow> ('v, 'w) Replay \<Rightarrow> int \<Rightarrow> bytes list \<Rightarrow> ('v panic, int \<times> int \<times> bytes list) outcome \<times> ('v, 'w) Replay" where
  "Replay_FDRead W r fd iovecs =
     replay_record r FDRead (0, ENOSYS W, iovecs) (\<lambda>record r.
       case DecodeFDRead W (Record_FunctionCall record) (Replay_iovecs r) of
         Inl err \<Rightarrow> (Panic (DecodeError record err), r)
       | Inr (recordFD, recordIOVecs, sz, errno) \<Rightarrow>
            let r = r\<lparr>Replay_iovecs := recache (Replay_iovecs r) recordIOVecs\<rparr>
            in replay_strict r
              [(fd \<noteq> recordFD,
                 UnexpectedSyscallParamError FDRead ''fd'' (AnyInt fd) (AnyInt recordFD)),
               (\<not> equalIovecsShapePrefix iovecs recordIOVecs sz,
                 UnexpectedSyscallParamError FDRead ''iovecs'' (AnyBytesList iovecs) (AnyBytesList recordIOVecs))]
              (case copy_iovecs iovecs recordIOVecs of
                 None \<Rightarrow> (Panic (RuntimeError ''index out of range''), r)
               | Some iovecs \<Rightarrow> (Return (sz, errno, iovecs), r)))"

definition Replay_FDReadDir ::
  "'v wasi \<Rightarrow> ('v, 'w) Replay \<Rightarrow> int \<Rightarrow> DirEntry list \<Rightarrow> int \<Rightarrow> int \<Rightarrow> ('v panic, int \<times> int \<times> DirEntry list) outcome \<times> ('v, 'w) Replay" where
  "Replay_FDReadDir W r fd entries cookie bufferSizeBytes =
     replay_record r FDReadDir (0, ENOSYS W, entries) (\<lambda>record r.
       case DecodeFDReadDir W (Record_FunctionCall record) (Replay_entries r) of
         Inl err \<Rightarrow> (Panic (DecodeError record err), r)
       | Inr (recordFD, recordEntries, recordCookie, recordBufferSizeBytes, errno) \<Rightarrow>
            let r = r\<lparr>Replay_entries := recache (Replay_entries r) recordEntries\<rparr>
            in replay_strict r
              [(fd \<noteq> recordFD,
                 UnexpectedSyscallParamError FDReadDir ''fd'' (AnyInt fd) (AnyInt recordFD)),
               (length entries < length recordEntries,
                 UnexpectedSyscallParamError FDReadDir ''entries'' (AnyDirEntries entries) (AnyDirEntries recordEntries)),
               (cookie \<noteq> recordCookie,
                 UnexpectedSyscallParamError FDReadDir ''cookie'' (AnyInt cookie) (AnyInt recordCookie)),
               (bufferSizeBytes \<noteq> recordBufferSizeBytes,
                 UnexpectedSyscallParamError FDReadDir ''bufferSizeBytes'' (AnyInt bufferSizeBytes) (AnyInt recordBufferSizeBytes))]
              (Return (int (length recordEntries), errno, go_copy entries recordEntries), r))"

definition Replay_FDRenumber ::
  "'v wasi \<Rightarrow> ('v, 'w) Replay \<Rightarrow> int \<Rightarrow> int \<Rightarrow> ('v panic, int) outcome \<times> ('v, 'w) Replay" where
  "Replay_FDRenumber W r from to =
     replay_record r FDRenumber (ENOSYS W) (\<lambda>record r.
       case DecodeFDRenumber W (Record_FunctionCall record) of
         Inl err \<Rightarrow> (Panic (DecodeError record err), r)
       | Inr (recordFrom, recordTo, errno) \<Rightarrow>
            replay_strict r
              [(from \<noteq> recordFrom,
                 UnexpectedSyscallParamError FDRenumber ''from'' (AnyInt from) (AnyInt recordFrom)),
               (to \<noteq> recordTo,
                 UnexpectedSyscallParamError FDRenumber ''to'' (AnyInt to) (AnyInt recordTo))]
              (Return errno,
               if errno = ESUCCESS W then
                 if from = Replay_stdout r then r\<lparr>Replay_stdout := to\<rparr>
                 else if from = Replay_stderr r then r\<lparr>Replay_stderr := to\<rparr>
                 else r
               else r))"

definition Replay_FDSeek ::
  "'v wasi \<Rightarrow> ('v, 'w) Replay \<Rightarrow> int \<Rightarrow> int \<Rightarrow> int \<Rightarrow> ('v panic, int \<times> int) outcome \<times> ('v, 'w) Replay" where
  "Replay_FDSeek W r fd offset whence =
     replay_record r FDSeek (0, ENOSYS W) (\<lambda>record r.
       case DecodeFDSeek W (Record_FunctionCall record) of
         Inl err \<Rightarrow> (Panic (DecodeError record err), r)
       | Inr (recordFD, recordOffset, recordWhence, sz, errno) \<Rightarrow>
            replay_strict r
              [(fd \<noteq> recordFD,
                 UnexpectedSyscallParamError FDSeek ''fd'' (AnyInt fd) (AnyInt recordFD)),
               (offset \<noteq> recordOffset,
                 UnexpectedSyscallParamError FDSeek ''offset'' (AnyInt offset) (AnyInt recordOffset)),
               (whence \<noteq> recordWhence,
                 UnexpectedSyscallParamError FDSeek ''whence'' (AnyInt whence) (AnyInt recordWhence))]
              (Return (sz, errno), r))"

definition Replay_FDSync ::
  "'v wasi \<Rightarrow> ('v, 'w) Replay \<Rightarrow> int \<Rightarrow> ('v panic, int) outcome \<times> ('v, 'w) Replay" where
  "Replay_FDSync W r fd =
     replay_record r FDSync (ENOSYS W) (\<lambda>record r.
       case DecodeFDSync W (Record_FunctionCall record) of
         Inl err \<Rightarrow> (Panic (DecodeError record err), r)
       | Inr (recordFD, errno) \<Rightarrow>
            if Replay_strict r \<and> fd \<noteq> recordFD
            then (Panic
              (UnexpectedSyscallParamError FDSync ''fd'' (AnyInt fd) (AnyInt recordFD)), r)
            else (Return errno, r))"

definition Replay_FDTell ::
  "'v wasi \<Rightarrow> ('v, 'w) Replay \<Rightarrow> int \<Rightarrow> ('v panic, int \<times> int) outcome \<times> ('v, 'w) Replay" where
  "Replay_FDTell W r fd =
     replay_record r FDTell (0, ENOSYS W) (\<lambda>record r.
       case DecodeFDTell W (Record_FunctionCall record) of
         Inl err \<Rightarrow> (Panic (DecodeError record err), r)
       | Inr (recordFD, sz, errno) \<Rightarrow>
            if Replay_strict r \<and> fd \<noteq> recordFD
            then (Panic
              (UnexpectedSyscallParamError FDTell ''fd'' (AnyInt fd) (AnyInt recordFD)), r)
            else (Return (sz, errno), r))"

definition Replay_FDWrite ::
  "'w writer \<Rightarrow> 'v wasi \<Rightarrow> ('v, 'w) Replay \<Rightarrow> int \<Rightarrow> bytes list \<Rightarrow> ('v panic, int \<times> int) outcome \<times> ('v, 'w) Replay" where
  "Replay_FDWrite wr W r fd iovecs =
     replay_record r FDWrite (0, ENOSYS W) (\<lambda>record r.
       case DecodeFDWrite W (Record_FunctionCall record) (Replay_iovecs r) of
         Inl err \<Rightarrow> (Panic (DecodeError record err), r)
       | Inr (recordFD, recordIOVecs, sz, errno) \<Rightarrow>
            let r = r\<lparr>Replay_iovecs := recache (Replay_iovecs r) recordIOVecs\<rparr>
            in replay_strict r
              [(fd \<noteq> recordFD,
                 UnexpectedSyscallParamError FDWrite ''fd'' (AnyInt fd) (AnyInt recordFD)),
               (\<not> equalIovecs iovecs recordIOVecs,
                 UnexpectedSyscallParamError FDWrite ''iovecs'' (AnyBytesList iovecs) (AnyBytesList recordIOVecs))]
              (Return (sz, errno),
               if fd \<noteq> noneFD W then
                 if fd = Replay_stdout r then
                   r\<lparr>Replay_Stdout := snd (writeIOVecs wr (Replay_Stdout r) iovecs)\<rparr>
                 else if fd = Replay_stderr r then
                   r\<lparr>Replay_Stderr := snd (writeIOVecs wr (Replay_Stderr r) iovecs)\<rparr>
                 else r
               else r))"

definition Replay_PathCreateDirectory ::
  "'v wasi \<Rightarrow> ('v, 'w) Replay \<Rightarrow> int \<Rightarrow> bytes \<Rightarrow> ('v panic, int) outcome \<times> ('v, 'w) Replay" where
  "Replay_PathCreateDirectory W r fd path =
     replay_record r PathCreateDirectory (ENOSYS W) (\<lambda>record r.
       case DecodePathCreateDirectory W (Record_FunctionCall record) of
         Inl err \<Rightarrow> (Panic (DecodeError record err), r)
       | Inr (recordFD, recordPath, errno) \<Rightarrow>
            replay_strict r
              [(fd \<noteq> recordFD,
                 UnexpectedSyscallParamError PathCreateDirectory ''fd'' (AnyInt fd) (AnyInt recordFD)),
               (path \<noteq> recordPath,
                 UnexpectedSyscallParamError PathCreateDirectory ''path'' (AnyBytes path) (AnyBytes recordPath))]
              (Return errno, r))"

definition Replay_PathFileStatGet ::
  "'v wasi \<Rightarrow> ('v, 'w) Replay \<Rightarrow> int \<Rightarrow> int \<Rightarrow> bytes \<Rightarrow> ('v panic, FileStat \<times> int) outcome \<times> ('v, 'w) Replay" where
  "Replay_PathFileStatGet W r fd lookupFlags path =
     replay_record r PathFileStatGet (zero_FileStat, ENOSYS W) (\<lambda>record r.
       case DecodePathFileStatGet W (Record_FunctionCall record) of
         Inl err \<Rightarrow> (Panic (DecodeError record err), r)
       | Inr (recordFD, recordLookupFlags, recordPath, stat, errno) \<Rightarrow>
            replay_strict r
              [(fd \<noteq> recordFD,
                 UnexpectedSyscallParamError PathFileStatGet ''fd'' (AnyInt fd) (AnyInt recordFD)),
               (lookupFlags \<noteq> recordLookupFlags,
                 UnexpectedSyscallParamError PathFileStatGet ''lookupFlags'' (AnyInt lookupFlags) (AnyInt recordLookupFlags)),
               (path \<noteq> recordPath,
                 UnexpectedSyscallParamError PathFileStatGet ''path'' (AnyBytes path) (AnyBytes recordPath))]
              (Return (stat, errno), r))"

definition Replay_PathFileStatSetTimes ::
  "'v wasi \<Rightarrow> ('v, 'w) Replay \<Rightarrow> int \<Rightarrow> int \<Rightarrow> bytes \<Rightarrow> int \<Rightarrow> int \<Rightarrow> int \<Rightarrow> ('v panic, int) outcome \<times> ('v, 'w) Replay" where
  "Replay_PathFileStatSetTimes W r fd lookupFlags path accessTime modifyTime flags =
     replay_record r PathFileStatSetTimes (ENOSYS W) (\<lambda>record r.
       case DecodePathFileStatSetTimes W (Record_FunctionCall record) of
         Inl err \<Rightarrow> (Panic (DecodeError record err), r)
       | Inr (recordFD, recordLookupFlags, recordPath, recordAccessTime, recordModifyTime, recordFlags, errno) \<Rightarrow>
            replay_strict r
              [(fd \<noteq> recordFD,
                 UnexpectedSyscallParamError PathFileStatSetTimes ''fd'' (AnyInt fd) (AnyInt recordFD)),
               (lookupFlags \<noteq> recordLookupFlags,
                 UnexpectedSyscallParamError PathFileStatSetTimes ''lookupFlags'' (AnyInt lookupFlags) (AnyInt recordLookupFlags)),
               (accessTime \<noteq> recordAccessTime,
                 UnexpectedSyscallParamError PathFileStatSetTimes ''accessTime'' (AnyInt accessTime) (AnyInt recordAccessTime)),
               (modifyTime \<noteq> recordModifyTime,
                 UnexpectedSyscallParamError PathFileStatSetTimes ''modifyTime'' (AnyInt modifyTime) (AnyInt recordModifyTime)),
               (flags \<noteq> recordFlags,
                 UnexpectedSyscallParamError PathFileStatSetTimes ''flags'' (AnyInt flags) (AnyInt recordFlags)),
               (path \<noteq> recordPath,
                 UnexpectedSyscallParamError PathFileStatSetTimes ''path'' (AnyBytes path) (AnyBytes recordPath))]
              (Return errno, r))"

definition Replay_PathLink ::
  "'v wasi \<Rightarrow> ('v, 'w) Replay \<Rightarrow> int \<Rightarrow> int \<Rightarrow> bytes \<Rightarrow> int \<Rightarrow> bytes \<Rightarrow> ('v panic, int) outcome \<times> ('v, 'w) Replay" where
  "Replay_PathLink W r oldFD oldFlags oldPath newFD newPath =
     replay_record r PathLink (ENOSYS W) (\<lambda>record r.
       case DecodePathLink W (Record_FunctionCall record) of
         Inl err \<Rightarrow> (Panic (DecodeError record err), r)
       | Inr (recordOldFD, recordOldFlags, recordOldPath, recordNewFD, recordNewPath, errno) \<Rightarrow>
            replay_strict r
              [(oldFD \<noteq> recordOldFD,
                 UnexpectedSyscallParamError PathLink ''oldFD'' (AnyInt oldFD) (AnyInt recordOldFD)),
               (oldFlags \<noteq> recordOldFlags,
                 UnexpectedSyscallParamError PathLink ''oldFlags'' (AnyInt oldFlags) (AnyInt recordOldFlags)),
               (oldPath \<noteq> recordOldPath,
                 UnexpectedSyscallParamError PathLink ''oldPath'' (AnyBytes oldPath) (AnyBytes recordOldPath)),
               (newFD \<noteq> recordNewFD,
                 UnexpectedSyscallParamError PathLink ''newFD'' (AnyInt newFD) (AnyInt recordNewFD)),
               (newPath \<noteq> recordNewPath,
                 UnexpectedSyscallParamError PathLink ''newPath'' (AnyBytes newPath) (AnyBytes recordNewPath))]
              (Return errno, r))"

definition Replay_PathOpen ::
  "'v wasi \<Rightarrow> ('v, 'w) Replay \<Rightarrow> int \<Rightarrow> int \<Rightarrow> bytes \<Rightarrow> int \<Rightarrow> int \<Rightarrow> int \<Rightarrow> int \<Rightarrow> ('v panic, int \<times> int) outcome \<times> ('v, 'w) Replay" where
  "Replay_PathOpen W r fd dirFlags path openFlags rightsBase rightsInheriting fdFlags =
     replay_record r PathOpen (-1, ENOSYS W) (\<lambda>record r.
       case DecodePathOpen W (Record_FunctionCall record) of
         Inl err \<Rightarrow> (Panic (DecodeError record err), r)
       | Inr (recordFD, recordDirFlags, recordPath, recordOpenFlags, recordRightsBase, recordRightsInheriting, recordFDFlags, newfd, errno) \<Rightarrow>
            replay_strict r
              [(fd \<noteq> recordFD,
                 UnexpectedSyscallParamError PathOpen ''fd'' (AnyInt fd) (AnyInt recordFD)),
               (dirFlags \<noteq> recordDirFlags,
                 UnexpectedSyscallParamError PathOpen ''dirFlags'' (AnyInt dirFlags) (AnyInt recordDirFlags)),
               (path \<noteq> recordPath,
                 UnexpectedSyscallParamError PathOpen ''path'' (AnyBytes path) (AnyBytes recordPath)),
               (openFlags \<noteq> recordOpenFlags,
                 UnexpectedSyscallParamError PathOpen ''openFlags'' (AnyInt openFlags) (AnyInt recordOpenFlags)),
               (rightsBase \<noteq> recordRightsBase,
                 UnexpectedSyscallParamError PathOpen ''rightsBase'' (AnyInt rightsBase) (AnyInt recordRightsBase)),
               (rightsInheriting \<noteq> recordRightsInheriting,
                 UnexpectedSyscallParamError PathOpen ''rightsInheriting'' (AnyInt rightsInheriting) (AnyInt recordRightsInheriting)),
               (fdFlags \<noteq> recordFDFlags,
                 UnexpectedSyscallParamError PathOpen ''fdFlags'' (AnyInt fdFlags) (AnyInt recordFDFlags))]
              (Return (newfd, errno), r))"

definition Replay_PathReadLink ::
  "'v wasi \<Rightarrow> ('v, 'w) Replay \<Rightarrow> int \<Rightarrow> bytes \<Rightarrow> bytes \<Rightarrow> ('v panic, int \<times> int \<times> bytes) outcome \<times> ('v, 'w) Replay" where
  "Replay_PathReadLink W r fd path buffer =
     replay_record r PathReadLink (0, ENOSYS W, buffer) (\<lambda>record r.
       case DecodePathReadLink W (Record_FunctionCall record) of
         Inl err \<Rightarrow> (Panic (DecodeError record err), r)
       | Inr (recordFD, recordPath, result, errno) \<Rightarrow>
            replay_strict r
              [(fd \<noteq> recordFD,
                 UnexpectedSyscallParamError PathReadLink ''fd'' (AnyInt fd) (AnyInt recordFD)),
               (path \<noteq> recordPath,
                 UnexpectedSyscallParamError PathReadLink ''path'' (AnyBytes path) (AnyBytes recordPath)),
               (length buffer < length result,
                 UnexpectedSyscallParamError PathReadLink ''buffer'' (AnyBytes buffer) (AnyBytes result))]
              (Return (int (length result), errno, go_copy buffer result), r))"

definition Replay_PathRemoveDirectory ::
  "'v wasi \<Rightarrow> ('v, 'w) Replay \<Rightarrow> int \<Rightarrow> bytes \<Rightarrow> ('v panic, int) outcome \<times> ('v, 'w) Replay" where
  "Replay_PathRemoveDirectory W r fd path =
     replay_record r PathRemoveDirectory (ENOSYS W) (\<lambda>record r.
       case DecodePathRemoveDirectory W (Record_FunctionCall record) of
         Inl err \<Rightarrow> (Panic (DecodeError record err), r)
       | Inr (recordFD, recordPath, errno) \<Rightarrow>
            replay_strict r
              [(fd \<noteq> recordFD,
                 UnexpectedSyscallParamError PathRemoveDirectory ''fd'' (AnyInt fd) (AnyInt recordFD)),
               (path \<noteq> recordPath,
                 UnexpectedSyscallParamError PathRemoveDirectory ''path'' (AnyBytes path) (AnyBytes recordPath))]
              (Return errno, r))"

definition Replay_PathRename ::
  "'v wasi \<Rightarrow> ('v, 'w) Replay \<Rightarrow> int \<Rightarrow> bytes \<Rightarrow> int \<Rightarrow> bytes \<Rightarrow> ('v panic, int) outcome \<times> ('v, 'w) Replay" where
  "Replay_PathRename W r fd oldPath newFD newPath =
     replay_record r PathRename (ENOSYS W) (\<lambda>record r.
       case DecodePathRename W (Record_FunctionCall record) of
         Inl err \<Rightarrow> (Panic (DecodeError record err), r)
       | Inr (recordFD, recordOldPath, recordNewFD, recordNewPath, errno) \<Rightarrow>
            replay_strict r
              [(fd \<noteq> recordFD,
                 UnexpectedSyscallParamError PathRename ''fd'' (AnyInt fd) (AnyInt recordFD)),
               (oldPath \<noteq> recordOldPath,
                 UnexpectedSyscallParamError PathRename ''oldPath'' (AnyBytes oldPath) (AnyBytes recordOldPath)),
               (newFD \<noteq> recordNewFD,
                 UnexpectedSyscallParamError PathRename ''newFD'' (AnyInt newFD) (AnyInt recordNewFD)),
               (newPath \<noteq> recordNewPath,
                 UnexpectedSyscallParamError PathRename ''newPath'' (AnyBytes newPath) (AnyBytes recordNewPath))]
              (Return errno, r))"

definition Replay_PathSymlink ::
  "'v wasi \<Rightarrow> ('v, 'w) Replay \<Rightarrow> bytes \<Rightarrow> int \<Rightarrow> bytes \<Rightarrow> ('v panic, int) outcome \<times> ('v, 'w) Replay" where
  "Replay_PathSymlink W r oldPath fd newPath =
     replay_record r PathSymlink (ENOSYS W) (\<lambda>record r.
       case DecodePathSymlink W (Record_FunctionCall record) of
         Inl err \<Rightarrow> (Panic (DecodeError record err), r)
       | Inr (recordOldPath, recordFD, recordNewPath, errno) \<Rightarrow>
            replay_strict r
              [(oldPath \<noteq> recordOldPath,
                 UnexpectedSyscallParamError PathSymlink ''oldPath'' (AnyBytes oldPath) (AnyBytes recordOldPath)),
               (fd \<noteq> recordFD,
                 UnexpectedSyscallParamError PathSymlink ''fd'' (AnyInt fd) (AnyInt recordFD)),
               (newPath \<noteq> recordNewPath,
                 UnexpectedSyscallParamError PathSymlink ''newPath'' (AnyBytes newPath) (AnyBytes recordNewPath))]
              (Return errno, r))"

definition Replay_PathUnlinkFile ::
  "'v wasi \<Rightarrow> ('v, 'w) Replay \<Rightarrow> int \<Rightarrow> bytes \<Rightarrow> ('v panic, int) outcome \<times> ('v, 'w) Replay" where
  "Replay_PathUnlinkFile W r fd path =
     replay_record r PathUnlinkFile (ENOSYS W) (\<lambda>record r.
       case DecodePathUnlinkFile W (Record_FunctionCall record) of
         Inl err \<Rightarrow> (Panic (DecodeError record err), r)
       | Inr (recordFD, recordPath, errno) \<Rightarrow>
            replay_strict r
              [(fd \<noteq> recordFD,
                 UnexpectedSyscallParamError PathUnlinkFile ''fd'' (AnyInt fd) (AnyInt recordFD)),
               (path \<noteq> recordPath,
                 UnexpectedSyscallParamError PathUnlinkFile ''path'' (AnyBytes path) (AnyBytes recordPath))]
              (Return errno, r))"

definition Replay_PollOneOff ::
  "'v wasi \<Rightarrow> ('v, 'w) Replay \<Rightarrow> 'v Subscription list \<Rightarrow> Event list \<Rightarrow> ('v panic, int \<times> int \<times> Event list) outcome \<times> ('v, 'w) Replay" where
  "Replay_PollOneOff W r subscriptions events =
     replay_record r PollOneOff (0, ENOSYS W, events) (\<lambda>record r.
       case DecodePollOneOff W (Record_FunctionCall record) (Replay_subscriptions r) (Replay_events r) of
         Inl err \<Rightarrow> (Panic (DecodeError record err), r)
       | Inr (recordSubscriptions, recordEvents, errno) \<Rightarrow>
            let r = r\<lparr>Replay_subscriptions := recache (Replay_subscriptions r) recordSubscriptions, Replay_events := recache (Replay_events r) recordEvents\<rparr>
            in replay_strict r
              [(\<not> equalSubscriptions W subscriptions recordSubscriptions,
                 UnexpectedSyscallParamError PollOneOff ''subscriptions'' (AnySubscriptions subscriptions) (AnySubscriptions recordSubscriptions)),
               (length events < length recordEvents,
                 UnexpectedSyscallParamError PollOneOff ''events'' (AnyEvents events) (AnyEvents recordEvents))]
              (Return (int (length recordEvents), errno, go_copy events recordEvents), r))"

definition Replay_ProcExit ::
  "'v wasi \<Rightarrow> ('v, 'w) Replay \<Rightarrow> int \<Rightarrow> ('v panic, int) outcome \<times> ('v, 'w) Replay" where
  "Replay_ProcExit W r exitCode =
     replay_record r ProcExit (ENOSYS W) (\<lambda>record r.
       case DecodeProcExit W (Record_FunctionCall record) of
         Inl err \<Rightarrow> (Panic (DecodeError record err), r)
       | Inr (recordExitCode, errno) \<Rightarrow>
            if Replay_strict r \<and> exitCode \<noteq> recordExitCode
            then (Panic
              (UnexpectedSyscallParamError ProcExit ''exitCode'' (AnyInt exitCode) (AnyInt recordExitCode)), r)
            else (Panic (ExitError (wrap (Unsigned 32) exitCode)), r))"

definition Replay_ProcRaise ::
  "'v wasi \<Rightarrow> ('v, 'w) Replay \<Rightarrow> int \<Rightarrow> ('v panic, int) outcome \<times> ('v, 'w) Replay" where
  "Replay_ProcRaise W r signal =
     replay_record r ProcRaise (ENOSYS W) (\<lambda>record r.
       case DecodeProcRaise W (Record_FunctionCall record) of
         Inl err \<Rightarrow> (Panic (DecodeError record err), r)
       | Inr (recordSignal, errno) \<Rightarrow>
            if Replay_strict r \<and> signal \<noteq> recordSignal
            then (Panic
              (UnexpectedSyscallParamError ProcRaise ''signal'' (AnyInt signal) (AnyInt recordSignal)), r)
            else (Return errno, r))"

definition Replay_SchedYield ::
  "'v wasi \<Rightarrow> ('v, 'w) Replay \<Rightarrow> ('v panic, int) outcome \<times> ('v, 'w) Replay" where
  "Replay_SchedYield W r =
     replay_record r SchedYield (ENOSYS W) (\<lambda>record r.
       case DecodeSchedYield W (Record_FunctionCall record) of
         Inl err \<Rightarrow> (Panic (DecodeError record err), r)
       | Inr errno \<Rightarrow>
            (Return errno, r))"

definition Replay_RandomGet ::
  "'v wasi \<Rightarrow> ('v, 'w) Replay \<Rightarrow> bytes \<Rightarrow> ('v panic, int \<times> bytes) outcome \<times> ('v, 'w) Replay" where
  "Replay_RandomGet W r buffer =
     replay_record r RandomGet (ENOSYS W, buffer) (\<lambda>record r.
       case DecodeRandomGet W (Record_FunctionCall record) of
         Inl err \<Rightarrow> (Panic (DecodeError record err), r)
       | Inr (recordBuffer, errno) \<Rightarrow>
            if Replay_strict r \<and> length buffer \<noteq> length recordBuffer
            then (Panic
              (UnexpectedSyscallParamError RandomGet ''buffer'' (AnyBytes buffer) (AnyBytes recordBuffer)), r)
            else (Return (errno, go_copy buffer recordBuffer), r))"

definition Replay_SockAccept ::
  "'v wasi \<Rightarrow> ('v, 'w) Replay \<Rightarrow> int \<Rightarrow> int \<Rightarrow> ('v panic, int \<times> SocketAddress \<times> SocketAddress \<times> int) outcome \<times> ('v, 'w) Replay" where
  "Replay_SockAccept W r fd flags =
     replay_record r SockAccept (-1, NilAddress, NilAddress, ENOSYS W) (\<lambda>record r.
       case DecodeSockAccept W (Record_FunctionCall record) of
         Inl err \<Rightarrow> (Panic (DecodeError record err), r)
       | Inr (recordFD, recordFlags, newfd, peer, addr, errno) \<Rightarrow>
            replay_strict r
              [(fd \<noteq> recordFD,
                 UnexpectedSyscallParamError SockAccept ''fd'' (AnyInt fd) (AnyInt recordFD)),
               (flags \<noteq> recordFlags,
                 UnexpectedSyscallParamError SockAccept ''flags'' (AnyInt flags) (AnyInt recordFlags))]
              (Return (newfd, peer, addr, errno), r))"

definition Replay_SockRecv ::
  "'v wasi \<Rightarrow> ('v, 'w) Replay \<Rightarrow> int \<Rightarrow> bytes list \<Rightarrow> int \<Rightarrow> ('v panic, int \<times> int \<times> int \<times> bytes list) outcome \<times> ('v, 'w) Replay" where
  "Replay_SockRecv W r fd iovecs iflags =
     replay_record r SockRecv (0, 0, ENOSYS W, iovecs) (\<lambda>record r.
       case DecodeSockRecv W (Record_FunctionCall record) (Replay_iovecs r) of
         Inl err \<Rightarrow> (Panic (DecodeError record err), r)
       | Inr (recordFD, recordIOVecs, recordIFlags, sz, oflags, errno) \<Rightarrow>
            let r = r\<lparr>Replay_iovecs := recache (Replay_iovecs r) recordIOVecs\<rparr>
            in replay_strict r
              [(fd \<noteq> recordFD,
                 UnexpectedSyscallParamError SockRecv ''fd'' (AnyInt fd) (AnyInt recordFD)),
               (\<not> equalIovecsShapePrefix iovecs recordIOVecs sz,
                 UnexpectedSyscallParamError SockRecv ''iovecs'' (AnyBytesList iovecs) (AnyBytesList recordIOVecs)),
               (iflags \<noteq> recordIFlags,
                 UnexpectedSyscallParamError SockRecv ''iflags'' (AnyInt iflags) (AnyInt recordIFlags))]
              (case copy_iovecs iovecs recordIOVecs of
                 None \<Rightarrow> (Panic (RuntimeError ''index out of range''), r)
               | Some iovecs \<Rightarrow> (Return (sz, oflags, errno, iovecs), r)))"

definition Replay_SockSend ::
  "'v wasi \<Rightarrow> ('v, 'w) Replay \<Rightarrow> int \<Rightarrow> bytes list \<Rightarrow> int \<Rightarrow> ('v panic, int \<times> int) outcome \<times> ('v, 'w) Replay" where
  "Replay_SockSend W r fd iovecs iflags =
     replay_record r SockSend (0, ENOSYS W) (\<lambda>record r.
       case DecodeSockSend W (Record_FunctionCall record) of
         Inl err \<Rightarrow> (Panic (DecodeError record err), r)
       | Inr (recordFD, recordIOVecs, recordIFlags, sz, errno) \<Rightarrow>
            replay_strict r
              [(fd \<noteq> recordFD,
                 UnexpectedSyscallParamError SockSend ''fd'' (AnyInt fd) (AnyInt recordFD)),
               (\<not> equalIovecs iovecs recordIOVecs,
                 UnexpectedSyscallParamError SockSend ''iovecs'' (AnyBytesList iovecs) (AnyBytesList recordIOVecs)),
               (iflags \<noteq> recordIFlags,
                 UnexpectedSyscallParamError SockSend ''iflags'' (AnyInt iflags) (AnyInt recordIFlags))]
              (Return (sz, errno), r))"

definition Replay_SockShutdown ::
  "'v wasi \<Rightarrow> ('v, 'w) Replay \<Rightarrow> int \<Rightarrow> int \<Rightarrow> ('v panic, int) outcome \<times> ('v, 'w) Replay" where
  "Replay_SockShutdown W r fd flags =
     replay_record r SockShutdown (ENOSYS W) (\<lambda>record r.
       case DecodeSockShutdown W (Record_FunctionCall record) of
         Inl err \<Rightarrow> (Panic (DecodeError record err), r)
       | Inr (recordFD, recordFlags, errno) \<Rightarrow>
            replay_strict r
              [(fd \<noteq> recordFD,
                 UnexpectedSyscallParamError SockShutdown ''fd'' (AnyInt fd) (AnyInt recordFD)),
               (flags \<noteq> recordFlags,
                 UnexpectedSyscallParamError SockShutdown ''flags'' (AnyInt flags) (AnyInt recordFlags))]
              (Return errno, r))"

definition Replay_SockOpen ::
  "'v wasi \<Rightarrow> ('v, 'w) Replay \<Rightarrow> int \<Rightarrow> int \<Rightarrow> int \<Rightarrow> int \<Rightarrow> int \<Rightarrow> ('v panic, int \<times> int) outcome \<times> ('v, 'w) Replay" where
  "Replay_SockOpen W r protocolFamily socketType protocol rightsBase rightsInheriting =
     replay_record r SockOpen (-1, ENOSYS W) (\<lambda>record r.
       case DecodeSockOpen W (Record_FunctionCall record) of
         Inl err \<Rightarrow> (Panic (DecodeError record err), r)
       | Inr (recordProtocolFamily, recordSocketType, recordProtocol, recordRightsBase, recordRightsInheriting, newfd, errno) \<Rightarrow>
            replay_strict r
              [(protocolFamily \<noteq> recordProtocolFamily,
                 UnexpectedSyscallParamError SockOpen ''protocolFamily'' (AnyInt protocolFamily) (AnyInt recordProtocolFamily)),
               (socketType \<noteq> recordSocketType,
                 UnexpectedSyscallParamError SockOpen ''socketType'' (AnyInt socketType) (AnyInt recordSocketType)),
               (protocol \<noteq> recordProtocol,
                 UnexpectedSyscallParamError SockOpen ''protocol'' (AnyInt protocol) (AnyInt recordProtocol)),
               (rightsBase \<noteq> recordRightsBase,
                 UnexpectedSyscallParamError SockOpen ''rightsBase'' (AnyInt rightsBase) (AnyInt recordRightsBase)),
               (rightsInheriting \<noteq> recordRightsInheriting,
                 UnexpectedSyscallParamError SockOpen ''rightsInheriting'' (AnyInt rightsInheriting) (AnyInt recordRightsInheriting))]
              (Return (newfd, errno), r))"

definition Replay_SockBind ::
  "'v wasi \<Rightarrow> ('v, 'w) Replay \<Rightarrow> int \<Rightarrow> SocketAddress \<Rightarrow> ('v panic, SocketAddress \<times> int) outcome \<times> ('v, 'w) Replay" where
  "Replay_SockBind W r fd bindAddr =
     replay_record r SockBind (NilAddress, ENOSYS W) (\<lambda>record r.
       case DecodeSockBind W (Record_FunctionCall record) of
         Inl err \<Rightarrow> (Panic (DecodeError record err), r)
       | Inr (recordFD, recordBind, addr, errno) \<Rightarrow>
            replay_strict r
              [(fd \<noteq> recordFD,
                 UnexpectedSyscallParamError SockBind ''fd'' (AnyInt fd) (AnyInt recordFD)),
               (\<not> equalSocketAddress bindAddr recordBind,
                 UnexpectedSyscallParamError SockBind ''bind'' (AnySocketAddress bindAddr) (AnySocketAddress recordBind))]
              (Return (addr, errno), r))"

definition Replay_SockConnect ::
  "'v wasi \<Rightarrow> ('v, 'w) Replay \<Rightarrow> int \<Rightarrow> SocketAddress \<Rightarrow> ('v panic, SocketAddress \<times> int) outcome \<times> ('v, 'w) Replay" where
  "Replay_SockConnect W r fd peer =
     replay_record r SockConnect (NilAddress, ENOSYS W) (\<lambda>record r.
       case DecodeSockConnect W (Record_FunctionCall record) of
         Inl err \<Rightarrow> (Panic (DecodeError record err), r)
       | Inr (recordFD, recordPeer, addr, errno) \<Rightarrow>
            replay_strict r
              [(fd \<noteq> recordFD,
                 UnexpectedSyscallParamError SockConnect ''fd'' (AnyInt fd) (AnyInt recordFD)),
               (\<not> equalSocketAddress peer recordPeer,
                 UnexpectedSyscallParamError SockConnect ''peer'' (AnySocketAddress peer) (AnySocketAddress recordPeer))]
              (Return (addr, errno), r))"

definition Replay_SockListen ::
  "'v wasi \<Rightarrow> ('v, 'w) Replay \<Rightarrow> int \<Rightarrow> int \<Rightarrow> ('v panic, int) outcome \<times> ('v, 'w) Replay" where
  "Replay_SockListen W r fd backlog =
     replay_record r SockListen (ENOSYS W) (\<lambda>record r.
       case DecodeSockListen W (Record_FunctionCall record) of
         Inl err \<Rightarrow> (Panic (DecodeError record err), r)
       | Inr (recordFD, recordBacklog, errno) \<Rightarrow>
            replay_strict r
              [(fd \<noteq> recordFD,
                 UnexpectedSyscallParamError SockListen ''fd'' (AnyInt fd) (AnyInt recordFD)),
               (backlog \<noteq> recordBacklog,
                 UnexpectedSyscallParamError SockListen ''backlog'' (AnyInt backlog) (AnyInt recordBacklog))]
              (Return errno, r))"

definition Replay_SockSendTo ::
  "'v wasi \<Rightarrow> ('v, 'w) Replay \<Rightarrow> int \<Rightarrow> bytes list \<Rightarrow> int \<Rightarrow> SocketAddress \<Rightarrow> ('v panic, int \<times> int) outcome \<times> ('v, 'w) Replay" where
  "Replay_SockSendTo W r fd iovecs iflags addr =
     replay_record r SockSendTo (0, ENOSYS W) (\<lambda>record r.
       case DecodeSockSendTo W (Record_FunctionCall record) (Replay_iovecs r) of
         Inl err \<Rightarrow> (Panic (DecodeError record err), r)
       | Inr (recordFD, recordIOVecs, recordIFlags, recordAddr, sz, errno) \<Rightarrow>
            let r = r\<lparr>Replay_iovecs := recache (Replay_iovecs r) recordIOVecs\<rparr>
            in replay_strict r
              [(fd \<noteq> recordFD,
                 UnexpectedSyscallParamError SockSendTo ''fd'' (AnyInt fd) (AnyInt recordFD)),
               (\<not> equalIovecs iovecs recordIOVecs,
                 UnexpectedSyscallParamError SockSendTo ''iovecs'' (AnyBytesList iovecs) (AnyBytesList recordIOVecs)),
               (iflags \<noteq> recordIFlags,
                 UnexpectedSyscallParamError SockSendTo ''iflags'' (AnyInt iflags) (AnyInt recordIFlags)),
               (\<not> equalSocketAddress addr recordAddr,
                 UnexpectedSyscallParamError SockSendTo ''addr'' (AnySocketAddress addr) (AnySocketAddress recordAddr))]
              (Return (sz, errno), r))"

definition Replay_SockRecvFrom ::
  "'v wasi \<Rightarrow> ('v, 'w) Replay \<Rightarrow> int \<Rightarrow> bytes list \<Rightarrow> int \<Rightarrow> ('v panic, int \<times> int \<times> SocketAddress \<times> int \<times> bytes list) outcome \<times> ('v, 'w) Replay" where
  "Replay_SockRecvFrom W r fd iovecs iflags =
     replay_record r SockRecvFrom (0, 0, NilAddress, ENOSYS W, iovecs) (\<lambda>record r.
       case DecodeSockRecvFrom W (Record_FunctionCall record) (Replay_iovecs r) of
         Inl err \<Rightarrow> (Panic (DecodeError record err), r)
       | Inr (recordFD, recordIOVecs, recordIFlags, sz, oflags, addr, errno) \<Rightarrow>
            let r = r\<lparr>Replay_iovecs := recache (Replay_iovecs r) recordIOVecs\<rparr>
            in replay_strict r
              [(fd \<noteq> recordFD,
                 UnexpectedSyscallParamError SockRecvFrom ''fd'' (AnyInt fd) (AnyInt recordFD)),
               (\<not> equalIovecsShapePrefix iovecs recordIOVecs sz,
                 UnexpectedSyscallParamError SockRecvFrom ''iovecs'' (AnyBytesList iovecs) (AnyBytesList recordIOVecs)),
               (iflags \<noteq> recordIFlags,
                 UnexpectedSyscallParamError SockRecvFrom ''iflags'' (AnyInt iflags) (AnyInt recordIFlags))]
              (case copy_iovecs iovecs recordIOVecs of
                 None \<Rightarrow> (Panic (RuntimeError ''index out of range''), r)
               | Some iovecs \<Rightarrow> (Return (sz, oflags, addr, errno, iovecs), r)))"

definition Replay_SockGetOpt ::
  "'v wasi \<Rightarrow> ('v, 'w) Replay \<Rightarrow> int \<Rightarrow> int \<Rightarrow> ('v panic, SocketOptionValue \<times> int) outcome \<times> ('v, 'w) Replay" where
  "Replay_SockGetOpt W r fd opt =
     replay_record r SockGetOpt (NilValue, ENOSYS W) (\<lambda>record r.
       case DecodeSockGetOpt W (Record_FunctionCall record) of
         Inl err \<Rightarrow> (Panic (DecodeError record err), r)
       | Inr (recordFD, recordOption, value, errno) \<Rightarrow>
            replay_strict r
              [(fd \<noteq> recordFD,
                 UnexpectedSyscallParamError SockGetOpt ''fd'' (AnyInt fd) (AnyInt recordFD)),
               (opt \<noteq> recordOption,
                 UnexpectedSyscallParamError SockGetOpt ''option'' (AnyInt opt) (AnyInt recordOption))]
              (Return (value, errno), r))"

definition Replay_SockSetOpt ::
  "'v wasi \<Rightarrow> ('v, 'w) Replay \<Rightarrow> int \<Rightarrow> int \<Rightarrow> SocketOptionValue \<Rightarrow> ('v panic, int) outcome \<times> ('v, 'w) Replay" where
  "Replay_SockSetOpt W r fd opt value =
     replay_record r SockSetOpt (ENOSYS W) (\<lambda>record r.
       case DecodeSockSetOpt W (Record_FunctionCall record) of
         Inl err \<Rightarrow> (Panic (DecodeError record err), r)
       | Inr (recordFD, recordOption, recordValue, errno) \<Rightarrow>
            replay_strict r
              [(fd \<noteq> recordFD,
                 UnexpectedSyscallParamError SockSetOpt ''fd'' (AnyInt fd) (AnyInt recordFD)),
               (opt \<noteq> recordOption,
                 UnexpectedSyscallParamError SockSetOpt ''option'' (AnyInt opt) (AnyInt recordOption)),
               (\<not> equalSocketOptionValue value recordValue,
                 UnexpectedSyscallParamError SockSetOpt ''value'' (AnySocketOptionValue value) (AnySocketOptionValue recordValue))]
              (Return errno, r))"

definition Replay_SockLocalAddress ::
  "'v wasi \<Rightarrow> ('v, 'w) Replay \<Rightarrow> int \<Rightarrow> ('v panic, SocketAddress \<times> int) outcome \<times> ('v, 'w) Replay" where
  "Replay_SockLocalAddress W r fd =
     replay_record r SockLocalAddress (NilAddress, ENOSYS W) (\<lambda>record r.
       case DecodeSockLocalAddress W (Record_FunctionCall record) of
         Inl err \<Rightarrow> (Panic (DecodeError record err), r)
       | Inr (recordFD, addr, errno) \<Rightarrow>
            if Replay_strict r \<and> fd \<noteq> recordFD
            then (Panic
              (UnexpectedSyscallParamError SockLocalAddress ''fd'' (AnyInt fd) (AnyInt recordFD)), r)
            else (Return (addr, errno), r))"

definition Replay_SockRemoteAddress ::
  "'v wasi \<Rightarrow> ('v, 'w) Replay \<Rightarrow> int \<Rightarrow> ('v panic, SocketAddress \<times> int) outcome \<times> ('v, 'w) Replay" where
  "Replay_SockRemoteAddress W r fd =
     replay_record r SockRemoteAddress (NilAddress, ENOSYS W) (\<lambda>record r.
       case DecodeSockRemoteAddress W (Record_FunctionCall record) of
         Inl err \<Rightarrow> (Panic (DecodeError record err), r)
       | Inr (recordFD, addr, errno) \<Rightarrow>
            if Replay_strict r \<and> fd \<noteq> recordFD
            then (Panic
              (UnexpectedSyscallParamError SockRemoteAddress ''fd'' (AnyInt fd) (AnyInt recordFD)), r)
            else (Return (addr, errno), r))"

definition Replay_SockAddressInfo ::
  "'v wasi \<Rightarrow> ('v, 'w) Replay \<Rightarrow> bytes \<Rightarrow> bytes \<Rightarrow> AddressInfo \<Rightarrow> AddressInfo list \<Rightarrow> ('v panic, int \<times> int \<times> AddressInfo list) outcome \<times> ('v, 'w) Replay" where
  "Replay_SockAddressInfo W r name service hints buffer =
     replay_record r SockAddressInfo (0, ENOSYS W, buffer) (\<lambda>record r.
       case DecodeSockAddressInfo W (Record_FunctionCall record) (Replay_addrinfo r) of
         Inl err \<Rightarrow> (Panic (DecodeError record err), r)
       | Inr (recordName, recordService, recordHints, results, errno) \<Rightarrow>
            let r = r\<lparr>Replay_addrinfo := recache (Replay_addrinfo r) results\<rparr>
            in replay_strict r
              [(name \<noteq> recordName,
                 UnexpectedSyscallParamError SockAddressInfo ''name'' (AnyBytes name) (AnyBytes recordName)),
               (service \<noteq> recordService,
                 UnexpectedSyscallParamError SockAddressInfo ''service'' (AnyBytes service) (AnyBytes recordService)),
               (\<not> equal_hints hints recordHints,
                 UnexpectedSyscallParamError SockAddressInfo ''hints'' (AnyAddressInfo hints) (AnyAddressInfo recordHints)),
               (length buffer < length results,
                 UnexpectedSyscallParamError PathReadLink ''results'' (AnyAddressInfos buffer) (AnyAddressInfos results))]
              (Return (int (length results), errno, go_copy buffer results), r))"

lemmas Replay_method_defs =
  Replay_ArgsSizesGet_def Replay_ArgsGet_def Replay_EnvironSizesGet_def Replay_EnvironGet_def
  Replay_ClockResGet_def Replay_ClockTimeGet_def Replay_FDAdvise_def Replay_FDAllocate_def
  Replay_FDClose_def Replay_FDDataSync_def Replay_FDStatGet_def Replay_FDStatSetFlags_def
  Replay_FDStatSetRights_def Replay_FDFileStatGet_def Replay_FDFileStatSetSize_def
  Replay_FDFileStatSetTimes_def Replay_FDPread_def Replay_FDPreStatGet_def
  Replay_FDPreStatDirName_def Replay_FDPwrite_def Replay_FDRead_def Replay_FDReadDir_def
  Replay_FDRenumber_def Replay_FDSeek_def Replay_FDSync_def Replay_FDTell_def Replay_FDWrite_def
  Replay_PathCreateDirectory_def Replay_PathFileStatGet_def Replay_PathFileStatSetTimes_def
  Replay_PathLink_def Replay_PathOpen_def Replay_PathReadLink_def Replay_PathRemoveDirectory_def
  Replay_PathRename_def Replay_PathSymlink_def Replay_PathUnlinkFile_def Replay_PollOneOff_def
  Replay_ProcExit_def Replay_ProcRaise_def Replay_SchedYield_def Replay_RandomGet_def
  Replay_SockAccept_def Replay_SockRecv_def Replay_SockSend_def Replay_SockShutdown_def
  Replay_SockOpen_def Replay_SockBind_def Replay_SockConnect_def Replay_SockListen_def
  Replay_SockSendTo_def Replay_SockRecvFrom_def Replay_SockGetOpt_def Replay_SockSetOpt_def
  Replay_SockLocalAddress_def Replay_SockRemoteAddress_def Replay_SockAddressInfo_def

text \<open>The replay as a system.\<close>

definition ReplaySystem :: "'w writer \<Rightarrow> 'v wasi \<Rightarrow> (('v, 'w) Replay, 'v) System" where
  "ReplaySystem wr W =
     \<lparr>sys_ArgsSizesGet = Replay_ArgsSizesGet W,
      sys_ArgsGet = Replay_ArgsGet W,
      sys_EnvironSizesGet = Replay_EnvironSizesGet W,
      sys_EnvironGet = Replay_EnvironGet W,
      sys_ClockResGet = Replay_ClockResGet W,
      sys_ClockTimeGet = Replay_ClockTimeGet W,
      sys_FDAdvise = Replay_FDAdvise W,
      sys_FDAllocate = Replay_FDAllocate W,
      sys_FDClose = Replay_FDClose W,
      sys_FDDataSync = Replay_FDDataSync W,
      sys_FDStatGet = Replay_FDStatGet W,
      sys_FDStatSetFlags = Replay_FDStatSetFlags W,
      sys_FDStatSetRights = Replay_FDStatSetRights W,
      sys_FDFileStatGet = Replay_FDFileStatGet W,
      sys_FDFileStatSetSize = Replay_FDFileStatSetSize W,
      sys_FDFileStatSetTimes = Replay_FDFileStatSetTimes W,
      sys_FDPread = Replay_FDPread W,
      sys_FDPreStatGet = Replay_FDPreStatGet W,
      sys_FDPreStatDirName = Replay_FDPreStatDirName W,
      sys_FDPwrite = Replay_FDPwrite W,
      sys_FDRead = Replay_FDRead W,
      sys_FDReadDir = Replay_FDReadDir W,
      sys_FDRenumber = Replay_FDRenumber W,
      sys_FDSeek = Replay_FDSeek W,
      sys_FDSync = Replay_FDSync W,
      sys_FDTell = Replay_FDTell W,
      sys_FDWrite = Replay_FDWrite wr W,
      sys_PathCreateDirectory = Replay_PathCreateDirectory W,
      sys_PathFileStatGet = Replay_PathFileStatGet W,
      sys_PathFileStatSetTimes = Replay_PathFileStatSetTimes W,
      sys_PathLink = Replay_PathLink W,
      sys_PathOpen = Replay_PathOpen W,
      sys_PathReadLink = Replay_PathReadLink W,
      sys_PathRemoveDirectory = Replay_PathRemoveDirectory W,
      sys_PathRename = Replay_PathRename W,
      sys_PathSymlink = Replay_PathSymlink W,
      sys_PathUnlinkFile = Replay_PathUnlinkFile W,
      sys_PollOneOff = Replay_PollOneOff W,
      sys_ProcExit = Replay_ProcExit W,
      sys_ProcRaise = Replay_ProcRaise W,
      sys_SchedYield = Replay_SchedYield W,
      sys_RandomGet = Replay_RandomGet W,
      sys_SockAccept = Replay_SockAccept W,
      sys_SockRecv = Replay_SockRecv W,
      sys_SockSend = Replay_SockSend W,
      sys_SockShutdown = Replay_SockShutdown W,
      sys_SockOpen = Replay_SockOpen W,
      sys_SockBind = Replay_SockBind W,
      sys_SockConnect = Replay_SockConnect W,
      sys_SockListen = Replay_SockListen W,
      sys_SockSendTo = Replay_SockSendTo W,
      sys_SockRecvFrom = Replay_SockRecvFrom W,
      sys_SockGetOpt = Replay_SockGetOpt W,
      sys_SockSetOpt = Replay_SockSetOpt W,
      sys_SockLocalAddress = Replay_SockLocalAddress W,
      sys_SockRemoteAddress = Replay_SockRemoteAddress W,
      sys_SockAddressInfo = Replay_SockAddressInfo W\<rparr>"

end
