(* ===== verification/Completion.thy ===== *)
theory Completion
  imports Sys_Interface Replay
begin

text \<open>
  Which completed calls answer a call. \<open>request\<close> keeps of a call what the guest gives (the parameters,
  and of the random bytes their number), \<open>capacity\<close> is the room for the values that are returned
  through a slice, and \<open>buffers\<close> are the buffers that a read fills, up to the count \<open>transferred\<close>.

  \<open>takes c s\<close> says that \<open>c\<close> has room for the results of \<open>s\<close>: as many values, and buffers of the shape of those that
  were recorded. \<open>completes c s\<close> says that \<open>s\<close> has the request of \<open>c\<close>, fits its room, and that its buffers are those of
  \<open>c\<close> with the transferred bytes copied to their front. It is what the interface \<^verbatim>\<open>wasi.System\<close> documents of
  a call that returns; the locale \<open>wasi_system\<close> states it of the methods that fill a slice of their
  caller.
\<close>

fun env_request :: "env_syscall \<Rightarrow> env_syscall" where
  "env_request (ArgsSizesGetSyscall _ _ _) = ArgsSizesGetSyscall 0 0 0"
| "env_request (ArgsGetSyscall _ _) = ArgsGetSyscall [] 0"
| "env_request (EnvironSizesGetSyscall _ _ _) = EnvironSizesGetSyscall 0 0 0"
| "env_request (EnvironGetSyscall _ _) = EnvironGetSyscall [] 0"
| "env_request (ClockResGetSyscall clockID _ _) = ClockResGetSyscall clockID 0 0"
| "env_request (ClockTimeGetSyscall clockID precision _ _) = ClockTimeGetSyscall clockID precision 0
     0"

fun fd_request :: "fd_syscall \<Rightarrow> fd_syscall" where
  "fd_request (FDAdviseSyscall fd offset len advice _) = FDAdviseSyscall fd offset len advice 0"
| "fd_request (FDAllocateSyscall fd offset len _) = FDAllocateSyscall fd offset len 0"
| "fd_request (FDCloseSyscall fd _) = FDCloseSyscall fd 0"
| "fd_request (FDDataSyncSyscall fd _) = FDDataSyncSyscall fd 0"
| "fd_request (FDStatGetSyscall fd _ _) = FDStatGetSyscall fd zero_FDStat 0"
| "fd_request (FDStatSetFlagsSyscall fd flags _) = FDStatSetFlagsSyscall fd flags 0"
| "fd_request (FDStatSetRightsSyscall fd rightsBase rightsInheriting _) = FDStatSetRightsSyscall fd
     rightsBase rightsInheriting 0"
| "fd_request (FDFileStatGetSyscall fd _ _) = FDFileStatGetSyscall fd zero_FileStat 0"
| "fd_request (FDFileStatSetSizeSyscall fd sz _) = FDFileStatSetSizeSyscall fd sz 0"
| "fd_request (FDFileStatSetTimesSyscall fd accessTime modifyTime flags _) =
     FDFileStatSetTimesSyscall fd accessTime modifyTime flags 0"
| "fd_request (FDPreadSyscall fd _ offset _ _) = FDPreadSyscall fd [] offset 0 0"
| "fd_request (FDPreStatGetSyscall fd _ _) = FDPreStatGetSyscall fd zero_PreStat 0"
| "fd_request (FDPreStatDirNameSyscall fd _ _) = FDPreStatDirNameSyscall fd [] 0"
| "fd_request (FDPwriteSyscall fd iovecs offset _ _) = FDPwriteSyscall fd iovecs offset 0 0"
| "fd_request (FDReadSyscall fd _ _ _) = FDReadSyscall fd [] 0 0"
| "fd_request (FDReadDirSyscall fd _ cookie bufferSizeBytes _) = FDReadDirSyscall fd [] cookie
     bufferSizeBytes 0"
| "fd_request (FDRenumberSyscall from to _) = FDRenumberSyscall from to 0"
| "fd_request (FDSeekSyscall fd seekOffset whence _ _) = FDSeekSyscall fd seekOffset whence 0 0"
| "fd_request (FDSyncSyscall fd _) = FDSyncSyscall fd 0"
| "fd_request (FDTellSyscall fd _ _) = FDTellSyscall fd 0 0"
| "fd_request (FDWriteSyscall fd iovecs _ _) = FDWriteSyscall fd iovecs 0 0"

fun path_request :: "path_syscall \<Rightarrow> path_syscall" where
  "path_request (PathCreateDirectorySyscall fd path _) = PathCreateDirectorySyscall fd path 0"
| "path_request (PathFileStatGetSyscall fd lookupFlags path _ _) = PathFileStatGetSyscall fd
     lookupFlags path zero_FileStat 0"
| "path_request (PathFileStatSetTimesSyscall fd lookupFlags path accessTime modifyTime flags _) =
     PathFileStatSetTimesSyscall fd lookupFlags path accessTime modifyTime flags 0"
| "path_request (PathLinkSyscall oldFD oldFlags oldPath newFD newPath _) = PathLinkSyscall oldFD
     oldFlags oldPath newFD newPath 0"
| "path_request (PathOpenSyscall fd dirFlags path openFlags rightsBase rightsInheriting fdFlags _ _)
     = PathOpenSyscall fd dirFlags path openFlags rightsBase rightsInheriting fdFlags 0 0"
| "path_request (PathReadLinkSyscall fd path _ _) = PathReadLinkSyscall fd path [] 0"
| "path_request (PathRemoveDirectorySyscall fd path _) = PathRemoveDirectorySyscall fd path 0"
| "path_request (PathRenameSyscall fd oldPath newFD newPath _) = PathRenameSyscall fd oldPath newFD
     newPath 0"
| "path_request (PathSymlinkSyscall oldPath fd newPath _) = PathSymlinkSyscall oldPath fd newPath 0"
| "path_request (PathUnlinkFileSyscall fd path _) = PathUnlinkFileSyscall fd path 0"

fun proc_request :: "'v proc_syscall \<Rightarrow> 'v proc_syscall" where
  "proc_request (PollOneOffSyscall subscriptions _ _) = PollOneOffSyscall subscriptions [] 0"
| "proc_request (ProcExitSyscall exitCode _) = ProcExitSyscall exitCode 0"
| "proc_request (ProcRaiseSyscall signal _) = ProcRaiseSyscall signal 0"
| "proc_request (SchedYieldSyscall _) = SchedYieldSyscall 0"
| "proc_request (RandomGetSyscall b _) = RandomGetSyscall (replicate (length b) 0) 0"

fun sock_request :: "sock_syscall \<Rightarrow> sock_syscall" where
  "sock_request (SockAcceptSyscall fd flags _ _ _ _) = SockAcceptSyscall fd flags 0 NilAddress
     NilAddress 0"
| "sock_request (SockShutdownSyscall fd flags _) = SockShutdownSyscall fd flags 0"
| "sock_request (SockRecvSyscall fd _ iflags _ _ _) = SockRecvSyscall fd [] iflags 0 0 0"
| "sock_request (SockSendSyscall fd iovecs flags _ _) = SockSendSyscall fd iovecs flags 0 0"
| "sock_request (SockOpenSyscall family socketType protocol rightsBase rightsInheriting _ _) =
     SockOpenSyscall family socketType protocol rightsBase rightsInheriting 0 0"
| "sock_request (SockBindSyscall fd bindAddr _ _) = SockBindSyscall fd bindAddr NilAddress 0"
| "sock_request (SockConnectSyscall fd peer _ _) = SockConnectSyscall fd peer NilAddress 0"
| "sock_request (SockListenSyscall fd backlog _) = SockListenSyscall fd backlog 0"
| "sock_request (SockSendToSyscall fd iovecs iflags addr _ _) = SockSendToSyscall fd iovecs iflags
     addr 0 0"
| "sock_request (SockRecvFromSyscall fd _ iflags _ _ _ _) = SockRecvFromSyscall fd [] iflags 0 0
     NilAddress 0"
| "sock_request (SockGetOptSyscall fd opt _ _) = SockGetOptSyscall fd opt NilValue 0"
| "sock_request (SockSetOptSyscall fd opt value _) = SockSetOptSyscall fd opt value 0"
| "sock_request (SockLocalAddressSyscall fd _ _) = SockLocalAddressSyscall fd NilAddress 0"
| "sock_request (SockRemoteAddressSyscall fd _ _) = SockRemoteAddressSyscall fd NilAddress 0"
| "sock_request (SockAddressInfoSyscall name service hint _ _) = SockAddressInfoSyscall name service
     hint [] 0"

fun request :: "'v Syscall \<Rightarrow> 'v Syscall" where
  "request (EnvCall c) = EnvCall (env_request c)"
| "request (FDCall c) = FDCall (fd_request c)"
| "request (PathCall c) = PathCall (path_request c)"
| "request (ProcCall c) = ProcCall (proc_request c)"
| "request (SockCall c) = SockCall (sock_request c)"

fun capacity :: "'v Syscall \<Rightarrow> nat" where
  "capacity (FDCall (FDReadDirSyscall _ entries _ _ _)) = length entries"
| "capacity (PathCall (PathReadLinkSyscall _ _ output _)) = length output"
| "capacity (ProcCall (PollOneOffSyscall _ events _)) = length events"
| "capacity (SockCall (SockAddressInfoSyscall _ _ _ results _)) = length results"
| "capacity _ = 0"

fun buffers :: "'v Syscall \<Rightarrow> bytes list" where
  "buffers (FDCall (FDPreadSyscall _ iovecs _ _ _)) = iovecs"
| "buffers (FDCall (FDReadSyscall _ iovecs _ _)) = iovecs"
| "buffers (SockCall (SockRecvSyscall _ iovecs _ _ _ _)) = iovecs"
| "buffers (SockCall (SockRecvFromSyscall _ iovecs _ _ _ _ _)) = iovecs"
| "buffers _ = []"

fun transferred :: "'v Syscall \<Rightarrow> int" where
  "transferred (FDCall (FDPreadSyscall _ _ _ sz _)) = sz"
| "transferred (FDCall (FDReadSyscall _ _ sz _)) = sz"
| "transferred (SockCall (SockRecvSyscall _ _ _ sz _ _)) = sz"
| "transferred (SockCall (SockRecvFromSyscall _ _ _ sz _ _ _)) = sz"
| "transferred _ = 0"

text \<open>
  The buffers \<open>iovecs\<close> take bytes that were recorded in the buffers of the second argument: there is one for each, of the same
  length, only the last may be longer.
\<close>

fun room_for :: "bytes list \<Rightarrow> bytes list \<Rightarrow> bool" where
  "room_for iovecs [] \<longleftrightarrow> True"
| "room_for [] (recorded # rs) \<longleftrightarrow> False"
| "room_for (iovec # iovecs) (recorded # rs) \<longleftrightarrow>
     (if rs = [] then length recorded \<le> length iovec else length iovec = length recorded \<and> room_for iovecs rs)"

definition takes :: "'v Syscall \<Rightarrow> 'v Syscall \<Rightarrow> bool" where
  "takes c s \<longleftrightarrow> capacity s \<le> capacity c \<and> room_for (buffers c) (recorded_iovecs (buffers s) (transferred s))"

definition filled :: "bytes list \<Rightarrow> bytes list \<Rightarrow> int \<Rightarrow> bool" where
  "filled before after sz \<longleftrightarrow> copy_iovecs before (recorded_iovecs after sz) = Some after"

definition completes :: "'v Syscall \<Rightarrow> 'v Syscall \<Rightarrow> bool" where
  "completes c s \<longleftrightarrow> request c = request s \<and> capacity s \<le> capacity c
     \<and> filled (buffers c) (buffers s) (transferred s)"

lemma completes_distinct [simp]:
  "\<not> completes (EnvCall env_c) (FDCall fd_c)"
  "\<not> completes (EnvCall env_c) (PathCall path_c)"
  "\<not> completes (EnvCall env_c) (ProcCall proc_c)"
  "\<not> completes (EnvCall env_c) (SockCall sock_c)"
  "\<not> completes (FDCall fd_c) (EnvCall env_c)"
  "\<not> completes (FDCall fd_c) (PathCall path_c)"
  "\<not> completes (FDCall fd_c) (ProcCall proc_c)"
  "\<not> completes (FDCall fd_c) (SockCall sock_c)"
  "\<not> completes (PathCall path_c) (EnvCall env_c)"
  "\<not> completes (PathCall path_c) (FDCall fd_c)"
  "\<not> completes (PathCall path_c) (ProcCall proc_c)"
  "\<not> completes (PathCall path_c) (SockCall sock_c)"
  "\<not> completes (ProcCall proc_c) (EnvCall env_c)"
  "\<not> completes (ProcCall proc_c) (FDCall fd_c)"
  "\<not> completes (ProcCall proc_c) (PathCall path_c)"
  "\<not> completes (ProcCall proc_c) (SockCall sock_c)"
  "\<not> completes (SockCall sock_c) (EnvCall env_c)"
  "\<not> completes (SockCall sock_c) (FDCall fd_c)"
  "\<not> completes (SockCall sock_c) (PathCall path_c)"
  "\<not> completes (SockCall sock_c) (ProcCall proc_c)"
  by (simp_all add: completes_def)

lemma map_return_parts [simp]:
  "fst (map_return f x) = (case fst x of Return a \<Rightarrow> Return (f a) | Panic p \<Rightarrow> Panic p)"
  "snd (map_return f x) = snd x"
  by (auto simp: map_return_def split: prod.splits outcome.splits)

section \<open>Buffers\<close>

lemma recorded_iovecs_Nil [simp]: "recorded_iovecs [] sz = []"
  by (simp add: recorded_iovecs_def)

lemma recorded_iovecs_0 [simp]: "recorded_iovecs iovecs 0 = []"
  by (simp add: recorded_iovecs_def)

lemma filled_refl [simp]: "filled iovecs iovecs 0"
  by (simp add: filled_def)

lemma filled_Nil [simp]: "filled [] [] sz"
  by (simp add: filled_def)

lemma length_copy_iovecs: "copy_iovecs xs ys = Some zs \<Longrightarrow> map length zs = map length xs"
  by (induction xs ys arbitrary: zs rule: copy_iovecs.induct) auto

text \<open>A prefix of buffers has the shape that the strict mode checks.\<close>

lemma list_all_upt: "list_all P [0..<n] \<longleftrightarrow> (\<forall>i<n. P i)"
  by (auto simp: list_all_iff)

lemma equalIovecsShapePrefix_Cons:
  "equalIovecsShapePrefix (x # xs) (p # ps) sz \<longleftrightarrow>
     (if ps = [] then length p \<le> length x
      else length x = length p \<and> equalIovecsShapePrefix xs ps sz)"
proof (cases ps)
  case (Cons q qs)
  then show ?thesis
    by (auto simp: equalIovecsShapePrefix_def list_all_upt All_less_Suc2 not_less simp del: upt_Suc)
qed (simp add: equalIovecsShapePrefix_def)

lemma equalIovecsShapePrefix_room: "equalIovecsShapePrefix xs ps sz \<longleftrightarrow> room_for xs ps"
proof (induction xs ps rule: room_for.induct)
  case (3 x xs p ps)
  then show ?case
    by (cases ps) (simp_all add: equalIovecsShapePrefix_Cons)
qed (simp_all add: equalIovecsShapePrefix_def)

lemma equalIovecsShapePrefix_prefix:
  "map length xs = map length vs \<Longrightarrow> equalIovecsShapePrefix xs (iovecs_prefix n vs) sz"
proof (induction n vs arbitrary: xs rule: iovecs_prefix.induct)
  case (1 n)
  then show ?case
    by (simp add: equalIovecsShapePrefix_def)
next
  case (2 n v vs)
  then obtain x xs' where "xs = x # xs'" "length x = length v" "map length xs' = map length vs"
    by (cases xs) auto
  with 2 show ?case
    by (cases "iovecs_prefix (n - length v) vs") (auto simp: equalIovecsShapePrefix_Cons)
qed

lemma filled_shape:
  assumes "filled before after sz"
  shows "equalIovecsShapePrefix before (recorded_iovecs after sz) sz"
proof -
  have "map length after = map length before"
    using assms length_copy_iovecs unfolding filled_def by blast
  then show ?thesis
    by (simp add: recorded_iovecs_def equalIovecsShapePrefix_prefix)
       (simp add: equalIovecsShapePrefix_def)
qed

section \<open>The interface of a system\<close>

text \<open>
  What a system promises of the slices that its callers lend it: it keeps their lengths, and a read
  changes the buffers only where it reports bytes.
\<close>

locale wasi_system =
  fixes S :: "('s, 'v) System"
  assumes read_FDPread: "sys_FDPread S s fd iovecs offset = (Return (sz, errno, iovecs'), t) \<Longrightarrow>
      filled iovecs iovecs' sz"
    and read_FDRead: "sys_FDRead S s fd iovecs = (Return (sz, errno, iovecs'), t) \<Longrightarrow>
      filled iovecs iovecs' sz"
    and read_SockRecv: "sys_SockRecv S s fd iovecs iflags = (Return (sz, oflags, errno, iovecs'), t) \<Longrightarrow>
      filled iovecs iovecs' sz"
    and read_SockRecvFrom: "sys_SockRecvFrom S s fd iovecs iflags
        = (Return (sz, oflags, addr, errno, iovecs'), t) \<Longrightarrow> filled iovecs iovecs' sz"
    and fill_FDReadDir: "sys_FDReadDir S s fd entries cookie bufferSizeBytes
        = (Return (n, errno, entries'), t) \<Longrightarrow> length entries' = length entries"
    and fill_PathReadLink: "sys_PathReadLink S s fd path output = (Return (n, errno, output'), t) \<Longrightarrow>
      length output' = length output"
    and fill_PollOneOff: "sys_PollOneOff S s subscriptions events = (Return (n, errno, events'), t) \<Longrightarrow>
      length events' = length events"
    and fill_RandomGet: "sys_RandomGet S s b = (Return (errno, b'), t) \<Longrightarrow> length b' = length b"
    and fill_SockAddressInfo: "sys_SockAddressInfo S s name service hints results
        = (Return (n, errno, results'), t) \<Longrightarrow> length results' = length results"
begin

lemmas promises = read_FDPread read_FDRead read_SockRecv read_SockRecvFrom fill_FDReadDir
  fill_PathReadLink fill_PollOneOff fill_RandomGet fill_SockAddressInfo

lemma length_clip: "length xs = m \<Longrightarrow> length (clip n xs) \<le> m"
  by (auto simp: clip_def)


lemma env_call_completes:
  "env_call S s c = (Return s', t) \<Longrightarrow> completes (EnvCall c) (EnvCall s')"
  by (cases c)
    (auto simp: completes_def map_return_def
      dest: promises intro!: length_clip split: prod.splits outcome.splits)

lemma fd_call_completes:
  "fd_call S s c = (Return s', t) \<Longrightarrow> completes (FDCall c) (FDCall s')"
  by (cases c)
    (auto simp: completes_def map_return_def
      dest: promises intro!: length_clip split: prod.splits outcome.splits)

lemma path_call_completes:
  "path_call S s c = (Return s', t) \<Longrightarrow> completes (PathCall c) (PathCall s')"
  by (cases c)
    (auto simp: completes_def map_return_def
      dest: promises intro!: length_clip split: prod.splits outcome.splits)

lemma proc_call_completes:
  "proc_call S s c = (Return s', t) \<Longrightarrow> completes (ProcCall c) (ProcCall s')"
  by (cases c)
    (auto simp: completes_def map_return_def
      dest: promises intro!: length_clip split: prod.splits outcome.splits)

lemma sock_call_completes:
  "sock_call S s c = (Return s', t) \<Longrightarrow> completes (SockCall c) (SockCall s')"
  by (cases c)
    (auto simp: completes_def map_return_def
      dest: promises intro!: length_clip split: prod.splits outcome.splits)

text \<open>A call that returns is completed by what it returns.\<close>

lemma sys_call_completes: "sys_call S s c = (Return s', t) \<Longrightarrow> completes c s'"
  by (cases c)
    (auto simp: map_return_def dest: env_call_completes fd_call_completes path_call_completes
      proc_call_completes sock_call_completes split: prod.splits outcome.splits)

end

end
