(* ===== verification/Replay_Correct.thy ===== *)
theory Replay_Correct
  imports Completion
begin

text \<open>
  The replay answers from the log. A call whose next record is the encoding of a completed form of it
  returns that form; a record of another call, a record that does not decode and a parameter that
  differs from the recorded one are panics; at the end of the log the answer is \<^verbatim>\<open>ENOSYS\<close>.
\<close>

section \<open>Reading the next record\<close>

definition popped :: "('v, 'w) Replay \<Rightarrow> ('v, 'w) Replay" where
  "popped r = r\<lparr>Replay_records := snd (Iterator_Next (Replay_records r))\<rparr>"

lemma popped_fields [simp]:
  "Replay_strict (popped r) = Replay_strict r" "Replay_Stdout (popped r) = Replay_Stdout r"
  "Replay_Stderr (popped r) = Replay_Stderr r" "Replay_stdout (popped r) = Replay_stdout r"
  "Replay_stderr (popped r) = Replay_stderr r" "Replay_args (popped r) = Replay_args r"
  "Replay_iovecs (popped r) = Replay_iovecs r" "Replay_entries (popped r) = Replay_entries r"
  "Replay_subscriptions (popped r) = Replay_subscriptions r"
  "Replay_events (popped r) = Replay_events r" "Replay_addrinfo (popped r) = Replay_addrinfo r"
  by (simp_all add: popped_def)

lemma remaining_popped:
  "remaining (Replay_records r) = (record # rest, e) \<Longrightarrow>
   remaining (Replay_records (popped r)) = (rest, e)"
  by (auto simp: popped_def elim: Iterator_Next_Cons)

lemma remaining_popped_end:
  "remaining (Replay_records r) = ([], e) \<Longrightarrow> remaining (Replay_records (popped r)) = ([], e)"
  by (auto simp: popped_def elim: Iterator_Next_Nil)

lemma replay_record_head:
  "remaining (Replay_records r) = (record # rest, e) \<Longrightarrow> Record_FunctionID record = sysid \<Longrightarrow>
   replay_record r sysid absent k = k record (popped r)"
  by (auto simp: replay_record_def readRecord_def popped_def elim: Iterator_Next_Cons)

lemma replay_record_other:
  "remaining (Replay_records r) = (record # rest, e) \<Longrightarrow> Record_FunctionID record \<noteq> sysid \<Longrightarrow>
   replay_record r sysid absent k
     = (Panic (UnexpectedSyscallError (Record_FunctionID record) sysid), popped r)"
  by (auto simp: replay_record_def readRecord_def popped_def elim: Iterator_Next_Cons)

lemma replay_record_end:
  "remaining (Replay_records r) = ([], EOF) \<Longrightarrow>
   replay_record r sysid absent k = (Return absent, popped r)"
  by (auto simp: replay_record_def readRecord_def popped_def elim: Iterator_Next_Nil)

lemma replay_record_failed:
  "remaining (Replay_records r) = ([], e) \<Longrightarrow> e \<noteq> EOF \<Longrightarrow>
   replay_record r sysid absent k = (Panic (ReadError e), popped r)"
  by (auto simp: replay_record_def readRecord_def popped_def elim: Iterator_Next_Nil)

section \<open>Comparisons\<close>

lemma equalIovecs_eq [simp]: "equalIovecs a b \<longleftrightarrow> a = b"
  by (auto simp: equalIovecs_def list_all_upt intro: nth_equalityI)

lemma equalSocketAddress_eq: "equalSocketAddress a b \<longleftrightarrow> a = b \<and> a \<noteq> OtherAddress"
  by (cases a) auto

lemma equalSocketOptionValue_eq: "equalSocketOptionValue a b \<longleftrightarrow> a = b \<and> a \<noteq> OtherValue"
  by (cases a) auto

lemma ok_not_OtherAddress: "ok_SocketAddress W a \<Longrightarrow> a \<noteq> OtherAddress"
  by (cases a) auto

lemma ok_not_OtherValue: "ok_SocketOptionValue W a \<Longrightarrow> a \<noteq> OtherValue"
  by (cases a) auto

lemma equalSubscriptions_refl: "list_all (ok_Subscription W) a \<Longrightarrow> equalSubscriptions W a a"
  by (auto simp: equalSubscriptions_def list_all_upt list_all_length equalSubscription_def
      ok_Subscription_def split: if_splits)

lemma clip_go_copy: "length xs \<le> length ys \<Longrightarrow> clip (int (length xs)) (go_copy ys xs) = xs"
  by (simp add: clip_def take_go_copy)

lemma replay_strict_pass: "\<forall>x\<in>set checks. \<not> fst x \<Longrightarrow> replay_strict r checks result = result"
  by (auto simp: replay_strict_def filter_empty_conv)

section \<open>Answers\<close>

text \<open>
  The calls that come back from a replay as they were recorded. \<^verbatim>\<open>ProcExit\<close> does not return, and
  \<^verbatim>\<open>SockAddressInfo\<close> compares its hints by reference.
\<close>

fun replayable :: "'v Syscall \<Rightarrow> bool" where
  "replayable (ProcCall (ProcExitSyscall _ _)) = False"
| "replayable (SockCall (SockAddressInfoSyscall _ _ hint _ _)) =
     (AddressInfo_Address hint = NilAddress)"
| "replayable _ = True"

text \<open>The next record of the replay is the encoding of \<open>s\<close>.\<close>

definition next_is :: "'v wasi \<Rightarrow> ('v, 'w) Replay \<Rightarrow> 'v Syscall \<Rightarrow> Record list \<times> error \<Rightarrow> bool" where
  "next_is W r s rest \<longleftrightarrow>
     (\<exists>record. remaining (Replay_records r) = (record # fst rest, snd rest)
       \<and> Record_FunctionID record = Syscall_ID s
       \<and> Inr (Record_FunctionCall record) = encode_syscall W s
       \<and> length (Record_FunctionCall record) < 4294967296)"


lemma env_call_Replay:
  assumes "next_is W r (EnvCall s) rest" "env_ok W s" "replayable (EnvCall s)"
    "completes (EnvCall c) (EnvCall s)"
  shows "fst (env_call (ReplaySystem wr W) r c) = Return s
    \<and> remaining (Replay_records (snd (env_call (ReplaySystem wr W) r c))) = rest"
  using assms
  by (cases c; cases s)
    (auto simp: next_is_def completes_def ReplaySystem_def Replay_method_defs replay_record_head
      remaining_popped replay_strict_pass map_return_def codec_roundtrips )

lemma fd_call_Replay:
  assumes "next_is W r (FDCall s) rest" "fd_ok W s" "replayable (FDCall s)"
    "completes (FDCall c) (FDCall s)"
  shows "fst (fd_call (ReplaySystem wr W) r c) = Return s
    \<and> remaining (Replay_records (snd (fd_call (ReplaySystem wr W) r c))) = rest"
  using assms
  by (cases c; cases s)
    (auto simp: next_is_def completes_def ReplaySystem_def Replay_method_defs replay_record_head
      remaining_popped replay_strict_pass map_return_def codec_roundtrips Let_def filled_shape filled_def clip_go_copy)

lemma path_call_Replay:
  assumes "next_is W r (PathCall s) rest" "path_ok W s" "replayable (PathCall s)"
    "completes (PathCall c) (PathCall s)"
  shows "fst (path_call (ReplaySystem wr W) r c) = Return s
    \<and> remaining (Replay_records (snd (path_call (ReplaySystem wr W) r c))) = rest"
  using assms
  by (cases c; cases s)
    (auto simp: next_is_def completes_def ReplaySystem_def Replay_method_defs replay_record_head
      remaining_popped replay_strict_pass map_return_def codec_roundtrips clip_go_copy)

lemma proc_call_Replay:
  assumes "next_is W r (ProcCall s) rest" "proc_ok W s" "replayable (ProcCall s)"
    "completes (ProcCall c) (ProcCall s)"
  shows "fst (proc_call (ReplaySystem wr W) r c) = Return s
    \<and> remaining (Replay_records (snd (proc_call (ReplaySystem wr W) r c))) = rest"
  using assms
  by (cases c; cases s)
    (auto simp: next_is_def completes_def ReplaySystem_def Replay_method_defs replay_record_head
      remaining_popped replay_strict_pass map_return_def codec_roundtrips clip_go_copy go_copy_full equalSubscriptions_refl
      dest!: DecodePollOneOff_EncodePollOneOff [where ?cache1.0 = "Replay_subscriptions r" and ?cache2.0 = "Replay_events r", rotated 3, OF sym])

lemma sock_call_Replay:
  assumes "next_is W r (SockCall s) rest" "sock_ok W s" "replayable (SockCall s)"
    "completes (SockCall c) (SockCall s)"
  shows "fst (sock_call (ReplaySystem wr W) r c) = Return s
    \<and> remaining (Replay_records (snd (sock_call (ReplaySystem wr W) r c))) = rest"
  using assms
  by (cases c; cases s)
    (auto simp: next_is_def completes_def ReplaySystem_def Replay_method_defs replay_record_head
      remaining_popped replay_strict_pass map_return_def codec_roundtrips filled_shape filled_def clip_go_copy equal_hints_def equalSocketAddress_eq equalSocketOptionValue_eq
      dest!: DecodeSockAccept_EncodeSockAccept [rotated 6, OF sym]
        DecodeSockBind_EncodeSockBind [rotated 4, OF sym]
        DecodeSockConnect_EncodeSockConnect [rotated 4, OF sym]
        DecodeSockSendTo_EncodeSockSendTo [where cache = "Replay_iovecs r", rotated 5, OF sym]
        DecodeSockRecvFrom_EncodeSockRecvFrom [where cache = "Replay_iovecs r", rotated 7, OF sym]
        DecodeSockGetOpt_EncodeSockGetOpt [rotated 4, OF sym]
        DecodeSockSetOpt_EncodeSockSetOpt [rotated 4, OF sym]
        DecodeSockLocalAddress_EncodeSockLocalAddress [rotated 3, OF sym]
        DecodeSockRemoteAddress_EncodeSockRemoteAddress [rotated 3, OF sym]
        DecodeSockAddressInfo_EncodeSockAddressInfo [where cache = "Replay_addrinfo r", rotated 3, OF sym]
      dest: ok_not_OtherAddress ok_not_OtherValue)

lemma sys_call_Replay:
  assumes "next_is W r s rest" "syscall_ok W s" "replayable s" "completes c s"
  shows "fst (sys_call (ReplaySystem wr W) r c) = Return s
    \<and> remaining (Replay_records (snd (sys_call (ReplaySystem wr W) r c))) = rest"
  using assms
  by (cases c; cases s)
    (auto dest: env_call_Replay [where wr = wr] fd_call_Replay [where wr = wr]
      path_call_Replay [where wr = wr] proc_call_Replay [where wr = wr]
      sock_call_Replay [where wr = wr])

text \<open>The call that does not return.\<close>

lemma Replay_ProcExit_exits:
  assumes "remaining (Replay_records r) = (record # rest, e)" "Record_FunctionID record = ProcExit"
    "Record_FunctionCall record = EncodeProcExit [] exitCode errno"
    "val W ExitCode_t exitCode" "val W Errno_t errno"
  shows "Replay_ProcExit W r exitCode = (Panic (ExitError (wrap (Unsigned 32) exitCode)), popped r)"
proof -
  have "length (EncodeProcExit [] exitCode errno) < 4294967296"
    by (simp add: EncodeProcExit_def encodeExitCode_def encodeErrno_def encodeU32_def)
  with assms show ?thesis
    by (simp add: Replay_ProcExit_def replay_record_head [OF assms(1)] DecodeProcExit_EncodeProcExit)
qed

section \<open>Errors\<close>

text \<open>A record of another call.\<close>


lemma env_call_other:
  assumes "remaining (Replay_records r) = (record # rest, e)" "Record_FunctionID record \<noteq> env_ID c"
  shows "env_call (ReplaySystem wr W) r c
    = (Panic (UnexpectedSyscallError (Record_FunctionID record) (env_ID c)), popped r)"
  using assms
  by (cases c) (simp_all add: ReplaySystem_def Replay_method_defs replay_record_other [OF assms(1)]
      map_return_def)

lemma fd_call_other:
  assumes "remaining (Replay_records r) = (record # rest, e)" "Record_FunctionID record \<noteq> fd_ID c"
  shows "fd_call (ReplaySystem wr W) r c
    = (Panic (UnexpectedSyscallError (Record_FunctionID record) (fd_ID c)), popped r)"
  using assms
  by (cases c) (simp_all add: ReplaySystem_def Replay_method_defs replay_record_other [OF assms(1)]
      map_return_def)

lemma path_call_other:
  assumes "remaining (Replay_records r) = (record # rest, e)" "Record_FunctionID record \<noteq> path_ID c"
  shows "path_call (ReplaySystem wr W) r c
    = (Panic (UnexpectedSyscallError (Record_FunctionID record) (path_ID c)), popped r)"
  using assms
  by (cases c) (simp_all add: ReplaySystem_def Replay_method_defs replay_record_other [OF assms(1)]
      map_return_def)

lemma proc_call_other:
  assumes "remaining (Replay_records r) = (record # rest, e)" "Record_FunctionID record \<noteq> proc_ID c"
  shows "proc_call (ReplaySystem wr W) r c
    = (Panic (UnexpectedSyscallError (Record_FunctionID record) (proc_ID c)), popped r)"
  using assms
  by (cases c) (simp_all add: ReplaySystem_def Replay_method_defs replay_record_other [OF assms(1)]
      map_return_def)

lemma sock_call_other:
  assumes "remaining (Replay_records r) = (record # rest, e)" "Record_FunctionID record \<noteq> sock_ID c"
  shows "sock_call (ReplaySystem wr W) r c
    = (Panic (UnexpectedSyscallError (Record_FunctionID record) (sock_ID c)), popped r)"
  using assms
  by (cases c) (simp_all add: ReplaySystem_def Replay_method_defs replay_record_other [OF assms(1)]
      map_return_def)

text \<open>The end of the log.\<close>

lemma env_call_end:
  assumes "remaining (Replay_records r) = ([], EOF)"
  shows "\<exists>s. env_call (ReplaySystem wr W) r c = (Return s, popped r) \<and> env_Error s = ENOSYS W"
  using assms
  by (cases c) (simp_all add: ReplaySystem_def Replay_method_defs replay_record_end [OF assms(1)]
      map_return_def)

lemma fd_call_end:
  assumes "remaining (Replay_records r) = ([], EOF)"
  shows "\<exists>s. fd_call (ReplaySystem wr W) r c = (Return s, popped r) \<and> fd_Error s = ENOSYS W"
  using assms
  by (cases c) (simp_all add: ReplaySystem_def Replay_method_defs replay_record_end [OF assms(1)]
      map_return_def)

lemma path_call_end:
  assumes "remaining (Replay_records r) = ([], EOF)"
  shows "\<exists>s. path_call (ReplaySystem wr W) r c = (Return s, popped r) \<and> path_Error s = ENOSYS W"
  using assms
  by (cases c) (simp_all add: ReplaySystem_def Replay_method_defs replay_record_end [OF assms(1)]
      map_return_def)

lemma proc_call_end:
  assumes "remaining (Replay_records r) = ([], EOF)"
  shows "\<exists>s. proc_call (ReplaySystem wr W) r c = (Return s, popped r) \<and> proc_Error s = ENOSYS W"
  using assms
  by (cases c) (simp_all add: ReplaySystem_def Replay_method_defs replay_record_end [OF assms(1)]
      map_return_def)

lemma sock_call_end:
  assumes "remaining (Replay_records r) = ([], EOF)"
  shows "\<exists>s. sock_call (ReplaySystem wr W) r c = (Return s, popped r) \<and> sock_Error s = ENOSYS W"
  using assms
  by (cases c) (simp_all add: ReplaySystem_def Replay_method_defs replay_record_end [OF assms(1)]
      map_return_def)

text \<open>A log that cannot be read.\<close>

lemma env_call_failed:
  assumes "remaining (Replay_records r) = ([], e)" "e \<noteq> EOF"
  shows "env_call (ReplaySystem wr W) r c = (Panic (ReadError e), popped r)"
  by (cases c) (simp_all add: ReplaySystem_def Replay_method_defs replay_record_failed [OF assms]
      map_return_def)

lemma fd_call_failed:
  assumes "remaining (Replay_records r) = ([], e)" "e \<noteq> EOF"
  shows "fd_call (ReplaySystem wr W) r c = (Panic (ReadError e), popped r)"
  by (cases c) (simp_all add: ReplaySystem_def Replay_method_defs replay_record_failed [OF assms]
      map_return_def)

lemma path_call_failed:
  assumes "remaining (Replay_records r) = ([], e)" "e \<noteq> EOF"
  shows "path_call (ReplaySystem wr W) r c = (Panic (ReadError e), popped r)"
  by (cases c) (simp_all add: ReplaySystem_def Replay_method_defs replay_record_failed [OF assms]
      map_return_def)

lemma proc_call_failed:
  assumes "remaining (Replay_records r) = ([], e)" "e \<noteq> EOF"
  shows "proc_call (ReplaySystem wr W) r c = (Panic (ReadError e), popped r)"
  by (cases c) (simp_all add: ReplaySystem_def Replay_method_defs replay_record_failed [OF assms]
      map_return_def)

lemma sock_call_failed:
  assumes "remaining (Replay_records r) = ([], e)" "e \<noteq> EOF"
  shows "sock_call (ReplaySystem wr W) r c = (Panic (ReadError e), popped r)"
  by (cases c) (simp_all add: ReplaySystem_def Replay_method_defs replay_record_failed [OF assms]
      map_return_def)

section \<open>Strict mode\<close>

text \<open>
  When a strict replay returns from a call, the call is the recorded one: same request, and room for
  what was recorded, in buffers of the shape in which it was recorded. Subscriptions are compared by the fields that their event type selects, hence
  the condition on those of the call.
\<close>

lemma equalSubscription_ok:
  assumes "ok_Subscription W a" "ok_Subscription W b" "equalSubscription W a b"
  shows "a = b"
proof -
  have "wasi_constants W"
    using assms(1) by (simp add: ok_Subscription_def val_def wasi_ok_def)
  then show ?thesis
    using assms
    by (cases a; cases b)
      (auto simp: equalSubscription_def ok_Subscription_def wasi_constants_def split: if_splits)
qed

lemma equalSubscriptions_ok:
  assumes "list_all (ok_Subscription W) a" "list_all (ok_Subscription W) b" "equalSubscriptions W a b"
  shows "a = b"
proof (rule nth_equalityI)
  show len: "length a = length b"
    using assms(3) by (simp add: equalSubscriptions_def)
  show "a ! i = b ! i" if "i < length a" for i
    using that len assms
    by (intro equalSubscription_ok [of W])
      (simp_all add: list_all_length equalSubscriptions_def list_all_upt)
qed

lemma equalSubscriptions_iff:
  "list_all (ok_Subscription W) a \<Longrightarrow> list_all (ok_Subscription W) b \<Longrightarrow>
   equalSubscriptions W a b \<longleftrightarrow> a = b"
  using equalSubscriptions_ok equalSubscriptions_refl by blast

fun subscriptions_ok :: "'v wasi \<Rightarrow> 'v Syscall \<Rightarrow> bool" where
  "subscriptions_ok W (ProcCall (PollOneOffSyscall subscriptions _ _)) =
     list_all (ok_Subscription W) subscriptions"
| "subscriptions_ok W _ = True"


lemma env_ID_eq:
  "env_ID s = ArgsSizesGet \<longleftrightarrow> (\<exists>x0 x1 x2. s = ArgsSizesGetSyscall x0 x1 x2)"
  "env_ID s = ArgsGet \<longleftrightarrow> (\<exists>x0 x1. s = ArgsGetSyscall x0 x1)"
  "env_ID s = EnvironSizesGet \<longleftrightarrow> (\<exists>x0 x1 x2. s = EnvironSizesGetSyscall x0 x1 x2)"
  "env_ID s = EnvironGet \<longleftrightarrow> (\<exists>x0 x1. s = EnvironGetSyscall x0 x1)"
  "env_ID s = ClockResGet \<longleftrightarrow> (\<exists>x0 x1 x2. s = ClockResGetSyscall x0 x1 x2)"
  "env_ID s = ClockTimeGet \<longleftrightarrow> (\<exists>x0 x1 x2 x3. s = ClockTimeGetSyscall x0 x1 x2 x3)"
  by (cases s; simp)+

lemmas env_ID_iff = env_ID_eq [simplified]

lemma env_call_strict:
  assumes "next_is W r (EnvCall s) rest" "env_ok W s" "Replay_strict r"
    "subscriptions_ok W (EnvCall c)" "fst (env_call (ReplaySystem wr W) r c) = Return s'"
  shows "request (EnvCall c) = request (EnvCall s) \<and> takes (EnvCall c) (EnvCall s)"
proof -
  have "env_ID s = env_ID c"
    using assms(1,5) env_call_other [of r _ "fst rest" "snd rest" c] by (fastforce simp: next_is_def)
  then show ?thesis
    using assms
    by (cases c)
      (auto simp: env_ID_iff next_is_def ReplaySystem_def Replay_method_defs replay_record_head
        map_return_def codec_roundtrips replay_strict_def takes_def 
        split: if_splits)
qed

lemma fd_ID_eq:
  "fd_ID s = FDAdvise \<longleftrightarrow> (\<exists>x0 x1 x2 x3 x4. s = FDAdviseSyscall x0 x1 x2 x3 x4)"
  "fd_ID s = FDAllocate \<longleftrightarrow> (\<exists>x0 x1 x2 x3. s = FDAllocateSyscall x0 x1 x2 x3)"
  "fd_ID s = FDClose \<longleftrightarrow> (\<exists>x0 x1. s = FDCloseSyscall x0 x1)"
  "fd_ID s = FDDataSync \<longleftrightarrow> (\<exists>x0 x1. s = FDDataSyncSyscall x0 x1)"
  "fd_ID s = FDStatGet \<longleftrightarrow> (\<exists>x0 x1 x2. s = FDStatGetSyscall x0 x1 x2)"
  "fd_ID s = FDStatSetFlags \<longleftrightarrow> (\<exists>x0 x1 x2. s = FDStatSetFlagsSyscall x0 x1 x2)"
  "fd_ID s = FDStatSetRights \<longleftrightarrow> (\<exists>x0 x1 x2 x3. s = FDStatSetRightsSyscall x0 x1 x2 x3)"
  "fd_ID s = FDFileStatGet \<longleftrightarrow> (\<exists>x0 x1 x2. s = FDFileStatGetSyscall x0 x1 x2)"
  "fd_ID s = FDFileStatSetSize \<longleftrightarrow> (\<exists>x0 x1 x2. s = FDFileStatSetSizeSyscall x0 x1 x2)"
  "fd_ID s = FDFileStatSetTimes \<longleftrightarrow> (\<exists>x0 x1 x2 x3 x4. s = FDFileStatSetTimesSyscall x0 x1 x2 x3 x4)"
  "fd_ID s = FDPread \<longleftrightarrow> (\<exists>x0 x1 x2 x3 x4. s = FDPreadSyscall x0 x1 x2 x3 x4)"
  "fd_ID s = FDPreStatGet \<longleftrightarrow> (\<exists>x0 x1 x2. s = FDPreStatGetSyscall x0 x1 x2)"
  "fd_ID s = FDPreStatDirName \<longleftrightarrow> (\<exists>x0 x1 x2. s = FDPreStatDirNameSyscall x0 x1 x2)"
  "fd_ID s = FDPwrite \<longleftrightarrow> (\<exists>x0 x1 x2 x3 x4. s = FDPwriteSyscall x0 x1 x2 x3 x4)"
  "fd_ID s = FDRead \<longleftrightarrow> (\<exists>x0 x1 x2 x3. s = FDReadSyscall x0 x1 x2 x3)"
  "fd_ID s = FDReadDir \<longleftrightarrow> (\<exists>x0 x1 x2 x3 x4. s = FDReadDirSyscall x0 x1 x2 x3 x4)"
  "fd_ID s = FDRenumber \<longleftrightarrow> (\<exists>x0 x1 x2. s = FDRenumberSyscall x0 x1 x2)"
  "fd_ID s = FDSeek \<longleftrightarrow> (\<exists>x0 x1 x2 x3 x4. s = FDSeekSyscall x0 x1 x2 x3 x4)"
  "fd_ID s = FDSync \<longleftrightarrow> (\<exists>x0 x1. s = FDSyncSyscall x0 x1)"
  "fd_ID s = FDTell \<longleftrightarrow> (\<exists>x0 x1 x2. s = FDTellSyscall x0 x1 x2)"
  "fd_ID s = FDWrite \<longleftrightarrow> (\<exists>x0 x1 x2 x3. s = FDWriteSyscall x0 x1 x2 x3)"
  by (cases s; simp)+

lemmas fd_ID_iff = fd_ID_eq [simplified]

lemma fd_call_strict:
  assumes "next_is W r (FDCall s) rest" "fd_ok W s" "Replay_strict r"
    "subscriptions_ok W (FDCall c)" "fst (fd_call (ReplaySystem wr W) r c) = Return s'"
  shows "request (FDCall c) = request (FDCall s) \<and> takes (FDCall c) (FDCall s)"
proof -
  have "fd_ID s = fd_ID c"
    using assms(1,5) fd_call_other [of r _ "fst rest" "snd rest" c] by (fastforce simp: next_is_def)
  then show ?thesis
    using assms
    by (cases c)
      (auto simp: fd_ID_iff next_is_def ReplaySystem_def Replay_method_defs replay_record_head
        map_return_def codec_roundtrips replay_strict_def takes_def Let_def equalIovecsShapePrefix_room
        split: if_splits)
qed

lemma path_ID_eq:
  "path_ID s = PathCreateDirectory \<longleftrightarrow> (\<exists>x0 x1 x2. s = PathCreateDirectorySyscall x0 x1 x2)"
  "path_ID s = PathFileStatGet \<longleftrightarrow> (\<exists>x0 x1 x2 x3 x4. s = PathFileStatGetSyscall x0 x1 x2 x3 x4)"
  "path_ID s = PathFileStatSetTimes \<longleftrightarrow> (\<exists>x0 x1 x2 x3 x4 x5 x6. s = PathFileStatSetTimesSyscall x0 x1 x2 x3 x4 x5 x6)"
  "path_ID s = PathLink \<longleftrightarrow> (\<exists>x0 x1 x2 x3 x4 x5. s = PathLinkSyscall x0 x1 x2 x3 x4 x5)"
  "path_ID s = PathOpen \<longleftrightarrow> (\<exists>x0 x1 x2 x3 x4 x5 x6 x7 x8. s = PathOpenSyscall x0 x1 x2 x3 x4 x5 x6 x7 x8)"
  "path_ID s = PathReadLink \<longleftrightarrow> (\<exists>x0 x1 x2 x3. s = PathReadLinkSyscall x0 x1 x2 x3)"
  "path_ID s = PathRemoveDirectory \<longleftrightarrow> (\<exists>x0 x1 x2. s = PathRemoveDirectorySyscall x0 x1 x2)"
  "path_ID s = PathRename \<longleftrightarrow> (\<exists>x0 x1 x2 x3 x4. s = PathRenameSyscall x0 x1 x2 x3 x4)"
  "path_ID s = PathSymlink \<longleftrightarrow> (\<exists>x0 x1 x2 x3. s = PathSymlinkSyscall x0 x1 x2 x3)"
  "path_ID s = PathUnlinkFile \<longleftrightarrow> (\<exists>x0 x1 x2. s = PathUnlinkFileSyscall x0 x1 x2)"
  by (cases s; simp)+

lemmas path_ID_iff = path_ID_eq [simplified]

lemma path_call_strict:
  assumes "next_is W r (PathCall s) rest" "path_ok W s" "Replay_strict r"
    "subscriptions_ok W (PathCall c)" "fst (path_call (ReplaySystem wr W) r c) = Return s'"
  shows "request (PathCall c) = request (PathCall s) \<and> takes (PathCall c) (PathCall s)"
proof -
  have "path_ID s = path_ID c"
    using assms(1,5) path_call_other [of r _ "fst rest" "snd rest" c] by (fastforce simp: next_is_def)
  then show ?thesis
    using assms
    by (cases c)
      (auto simp: path_ID_iff next_is_def ReplaySystem_def Replay_method_defs replay_record_head
        map_return_def codec_roundtrips replay_strict_def takes_def 
        split: if_splits)
qed

lemma proc_ID_eq:
  "proc_ID s = PollOneOff \<longleftrightarrow> (\<exists>x0 x1 x2. s = PollOneOffSyscall x0 x1 x2)"
  "proc_ID s = ProcExit \<longleftrightarrow> (\<exists>x0 x1. s = ProcExitSyscall x0 x1)"
  "proc_ID s = ProcRaise \<longleftrightarrow> (\<exists>x0 x1. s = ProcRaiseSyscall x0 x1)"
  "proc_ID s = SchedYield \<longleftrightarrow> (\<exists>x0. s = SchedYieldSyscall x0)"
  "proc_ID s = RandomGet \<longleftrightarrow> (\<exists>x0 x1. s = RandomGetSyscall x0 x1)"
  by (cases s; simp)+

lemmas proc_ID_iff = proc_ID_eq [simplified]

lemma proc_call_strict:
  assumes "next_is W r (ProcCall s) rest" "proc_ok W s" "Replay_strict r"
    "subscriptions_ok W (ProcCall c)" "fst (proc_call (ReplaySystem wr W) r c) = Return s'"
  shows "request (ProcCall c) = request (ProcCall s) \<and> takes (ProcCall c) (ProcCall s)"
proof -
  have "proc_ID s = proc_ID c"
    using assms(1,5) proc_call_other [of r _ "fst rest" "snd rest" c] by (fastforce simp: next_is_def)
  then show ?thesis
    using assms
    by (cases c)
      (auto simp: proc_ID_iff next_is_def ReplaySystem_def Replay_method_defs replay_record_head
        map_return_def codec_roundtrips replay_strict_def takes_def Let_def equalSubscriptions_iff
        split: if_splits
      dest!: DecodePollOneOff_EncodePollOneOff [where ?cache1.0 = "Replay_subscriptions r" and ?cache2.0 = "Replay_events r", rotated 3, OF sym])
qed

lemma sock_ID_eq:
  "sock_ID s = SockAccept \<longleftrightarrow> (\<exists>x0 x1 x2 x3 x4 x5. s = SockAcceptSyscall x0 x1 x2 x3 x4 x5)"
  "sock_ID s = SockShutdown \<longleftrightarrow> (\<exists>x0 x1 x2. s = SockShutdownSyscall x0 x1 x2)"
  "sock_ID s = SockRecv \<longleftrightarrow> (\<exists>x0 x1 x2 x3 x4 x5. s = SockRecvSyscall x0 x1 x2 x3 x4 x5)"
  "sock_ID s = SockSend \<longleftrightarrow> (\<exists>x0 x1 x2 x3 x4. s = SockSendSyscall x0 x1 x2 x3 x4)"
  "sock_ID s = SockOpen \<longleftrightarrow> (\<exists>x0 x1 x2 x3 x4 x5 x6. s = SockOpenSyscall x0 x1 x2 x3 x4 x5 x6)"
  "sock_ID s = SockBind \<longleftrightarrow> (\<exists>x0 x1 x2 x3. s = SockBindSyscall x0 x1 x2 x3)"
  "sock_ID s = SockConnect \<longleftrightarrow> (\<exists>x0 x1 x2 x3. s = SockConnectSyscall x0 x1 x2 x3)"
  "sock_ID s = SockListen \<longleftrightarrow> (\<exists>x0 x1 x2. s = SockListenSyscall x0 x1 x2)"
  "sock_ID s = SockSendTo \<longleftrightarrow> (\<exists>x0 x1 x2 x3 x4 x5. s = SockSendToSyscall x0 x1 x2 x3 x4 x5)"
  "sock_ID s = SockRecvFrom \<longleftrightarrow> (\<exists>x0 x1 x2 x3 x4 x5 x6. s = SockRecvFromSyscall x0 x1 x2 x3 x4 x5 x6)"
  "sock_ID s = SockGetOpt \<longleftrightarrow> (\<exists>x0 x1 x2 x3. s = SockGetOptSyscall x0 x1 x2 x3)"
  "sock_ID s = SockSetOpt \<longleftrightarrow> (\<exists>x0 x1 x2 x3. s = SockSetOptSyscall x0 x1 x2 x3)"
  "sock_ID s = SockLocalAddress \<longleftrightarrow> (\<exists>x0 x1 x2. s = SockLocalAddressSyscall x0 x1 x2)"
  "sock_ID s = SockRemoteAddress \<longleftrightarrow> (\<exists>x0 x1 x2. s = SockRemoteAddressSyscall x0 x1 x2)"
  "sock_ID s = SockAddressInfo \<longleftrightarrow> (\<exists>x0 x1 x2 x3 x4. s = SockAddressInfoSyscall x0 x1 x2 x3 x4)"
  by (cases s; simp)+

lemmas sock_ID_iff = sock_ID_eq [simplified]

lemma sock_call_strict:
  assumes "next_is W r (SockCall s) rest" "sock_ok W s" "Replay_strict r"
    "subscriptions_ok W (SockCall c)" "fst (sock_call (ReplaySystem wr W) r c) = Return s'"
  shows "request (SockCall c) = request (SockCall s) \<and> takes (SockCall c) (SockCall s)"
proof -
  have "sock_ID s = sock_ID c"
    using assms(1,5) sock_call_other [of r _ "fst rest" "snd rest" c] by (fastforce simp: next_is_def)
  then show ?thesis
    using assms
    by (cases c)
      (auto simp: sock_ID_iff next_is_def ReplaySystem_def Replay_method_defs replay_record_head
        map_return_def codec_roundtrips replay_strict_def takes_def Let_def equalIovecsShapePrefix_room equal_hints_def equalSocketAddress_eq equalSocketOptionValue_eq
        split: if_splits
      dest!: DecodeSockAccept_EncodeSockAccept [rotated 6, OF sym]
        DecodeSockBind_EncodeSockBind [rotated 4, OF sym]
        DecodeSockConnect_EncodeSockConnect [rotated 4, OF sym]
        DecodeSockSendTo_EncodeSockSendTo [where cache = "Replay_iovecs r", rotated 5, OF sym]
        DecodeSockRecvFrom_EncodeSockRecvFrom [where cache = "Replay_iovecs r", rotated 7, OF sym]
        DecodeSockGetOpt_EncodeSockGetOpt [rotated 4, OF sym]
        DecodeSockSetOpt_EncodeSockSetOpt [rotated 4, OF sym]
        DecodeSockLocalAddress_EncodeSockLocalAddress [rotated 3, OF sym]
        DecodeSockRemoteAddress_EncodeSockRemoteAddress [rotated 3, OF sym]
        DecodeSockAddressInfo_EncodeSockAddressInfo [where cache = "Replay_addrinfo r", rotated 3, OF sym])
qed

section \<open>Any call\<close>

lemma sys_call_other:
  assumes "remaining (Replay_records r) = (record # rest, e)" "Record_FunctionID record \<noteq> Syscall_ID c"
  shows "sys_call (ReplaySystem wr W) r c
    = (Panic (UnexpectedSyscallError (Record_FunctionID record) (Syscall_ID c)), popped r)"
  using assms
  by (cases c) (simp_all add: map_return_def env_call_other [OF assms(1)] fd_call_other [OF assms(1)]
      path_call_other [OF assms(1)] proc_call_other [OF assms(1)] sock_call_other [OF assms(1)])

lemma sys_call_end:
  assumes "remaining (Replay_records r) = ([], EOF)"
  shows "\<exists>s. sys_call (ReplaySystem wr W) r c = (Return s, popped r) \<and> Syscall_Error s = ENOSYS W"
proof (cases c)
  case (EnvCall x)
  with env_call_end [OF assms, of wr W x] show ?thesis
    by (auto simp: map_return_def)
next
  case (FDCall x)
  with fd_call_end [OF assms, of wr W x] show ?thesis
    by (auto simp: map_return_def)
next
  case (PathCall x)
  with path_call_end [OF assms, of wr W x] show ?thesis
    by (auto simp: map_return_def)
next
  case (ProcCall x)
  with proc_call_end [OF assms, of wr W x] show ?thesis
    by (auto simp: map_return_def)
next
  case (SockCall x)
  with sock_call_end [OF assms, of wr W x] show ?thesis
    by (auto simp: map_return_def)
qed

lemma sys_call_failed:
  assumes "remaining (Replay_records r) = ([], e)" "e \<noteq> EOF"
  shows "sys_call (ReplaySystem wr W) r c = (Panic (ReadError e), popped r)"
  by (cases c) (simp_all add: map_return_def env_call_failed [OF assms] fd_call_failed [OF assms]
      path_call_failed [OF assms] proc_call_failed [OF assms] sock_call_failed [OF assms])

lemma sys_call_strict:
  assumes "next_is W r s rest" "syscall_ok W s" "Replay_strict r" "subscriptions_ok W c"
    "fst (sys_call (ReplaySystem wr W) r c) = Return s'"
  shows "request c = request s \<and> takes c s"
proof -
  have "Syscall_ID s = Syscall_ID c"
    using assms(1,5) sys_call_other [of r _ "fst rest" "snd rest" c] by (fastforce simp: next_is_def)
  then show ?thesis
    using assms
    by (cases c; cases s)
      (auto simp: family_distinct simp del: subscriptions_ok.simps split: outcome.splits
        dest: env_call_strict fd_call_strict path_call_strict proc_call_strict sock_call_strict)
qed

end
