(* ===== verification/Record_Replay.thy ===== *)
theory Record_Replay
  imports Recorder Replay_Correct
begin

text \<open>
  Recording a run and replaying it. A guest is a program that makes system calls: a function from the
  calls it has completed to the next one it makes, if any. \<open>run\<close> lets it make up to \<open>n\<close> calls to a system.

  The theorem of this theory: when a guest runs under the recorder on top of any system that keeps the
  promises of \<open>wasi_system\<close>, the same guest run on a replay of the recorded log completes the same calls
  with the same results, consumes the log, and ends the same way.
\<close>

section \<open>Guests\<close>

type_synonym 'v guest = "'v Syscall list \<Rightarrow> 'v Syscall option"

fun run :: "('s, 'v) System \<Rightarrow> 'v guest \<Rightarrow> nat \<Rightarrow> 's \<Rightarrow> 'v Syscall list
    \<Rightarrow> 'v panic option \<times> 'v Syscall list \<times> 's" where
  "run S g 0 s past = (None, past, s)"
| "run S g (Suc n) s past =
     (case g past of
        None \<Rightarrow> (None, past, s)
      | Some c \<Rightarrow>
          (case sys_call S s c of
             (Return c', t) \<Rightarrow> run S g n t (past @ [c'])
           | (Panic p, t) \<Rightarrow> (Some p, past, t)))"

lemma run_prefix: "run S g n s past = (p, past', t) \<Longrightarrow> \<exists>new. past' = past @ new"
  by (induction n arbitrary: s past) (force split: option.splits prod.splits outcome.splits)+

section \<open>One call under the recorder\<close>

fun is_exit :: "'v Syscall \<Rightarrow> bool" where
  "is_exit (ProcCall (ProcExitSyscall _ _)) = True"
| "is_exit _ = False"

lemma is_exit_iff: "is_exit c \<longleftrightarrow> (\<exists>code e. c = ProcCall (ProcExitSyscall code e))"
  by (cases c rule: is_exit.cases) auto

lemma map_return_recorder:
  assumes "\<And>s. i' (f s) = i s" "\<And>s. enc' (f s) = enc s"
  shows "map_return f (recorder_forward r x (\<lambda>s r. recorder_write r (i s) (enc s) s))
    = recorder_forward r (map_return f x) (\<lambda>s r. recorder_write r (i' s) (enc' s) s)"
  using assms
  by (auto simp: map_return_def recorder_forward_def recorder_write_def
      split: prod.splits outcome.splits sum.splits)

lemma sys_call_NewRecorder:
  assumes "\<not> is_exit c"
  shows "sys_call (NewRecorder W S) r c =
    recorder_forward r (sys_call S (recorder_system r) c)
      (\<lambda>s r. recorder_write r (Syscall_ID s) (encode_syscall W s) s)"
  using assms
  by (cases c) (auto simp: is_exit_iff env_call_NewRecorder fd_call_NewRecorder path_call_NewRecorder
      sock_call_NewRecorder proc_call_NewRecorder intro!: map_return_recorder)

text \<open>The exit is written first.\<close>

definition exit_record :: "'v wasi \<Rightarrow> int \<Rightarrow> int \<times> bytes" where
  "exit_record W exitCode = (ProcExit, EncodeProcExit [] exitCode (ESUCCESS W))"

lemma sys_call_exit_recorded:
  "snd (sys_call (NewRecorder W S) r (ProcCall (ProcExitSyscall exitCode e))) =
     r\<lparr>recorder_log := recorder_log r @ [exit_record W exitCode],
       recorder_system := snd (sys_ProcExit S (recorder_system r) exitCode)\<rparr>"
  by (simp add: NewRecorder_def recorder_ProcExit_def recorder_write_def recorder_forward_def
      exit_record_def split: prod.splits outcome.splits)

lemma sys_call_recorder_log:
  "\<exists>new. recorder_log (snd (sys_call (NewRecorder W S) r c)) = recorder_log r @ new"
proof (cases "is_exit c")
  case True
  then obtain code e where "c = ProcCall (ProcExitSyscall code e)"
    by (auto simp: is_exit_iff)
  then show ?thesis
    by (simp only: sys_call_exit_recorded) simp
next
  case False
  then show ?thesis
    by (auto simp: sys_call_NewRecorder recorder_forward_def recorder_write_def
        split: prod.splits outcome.splits sum.splits)
qed

lemma run_recorder_log:
  "run (NewRecorder W S) g n r past = (p, past', r') \<Longrightarrow> \<exists>new. recorder_log r' = recorder_log r @ new"
proof (induction n arbitrary: r past)
  case (Suc n)
  show ?case
  proof (cases "g past")
    case (Some c)
    obtain o' t where call: "sys_call (NewRecorder W S) r c = (o', t)"
      by fastforce
    moreover obtain new where "recorder_log t = recorder_log r @ new"
      using sys_call_recorder_log [of W S r c] call by auto
    ultimately show ?thesis
      using Suc Some by (cases o') (auto dest: Suc.IH)
  qed (use Suc in auto)
qed auto

text \<open>A call that returns under the recorder has been made on the system, and is in the log.\<close>

lemma sys_call_NewRecorder_Return:
  assumes "sys_call (NewRecorder W S) r c = (Return s, r')" "\<not> is_exit c"
  obtains b t where "sys_call S (recorder_system r) c = (Return s, t)" "encode_syscall W s = Inr b"
    "r' = r\<lparr>recorder_system := t, recorder_log := recorder_log r @ [(Syscall_ID s, b)]\<rparr>"
  using assms
  by (auto simp: sys_call_NewRecorder recorder_forward_def recorder_write_def
      split: prod.splits outcome.splits sum.splits)

section \<open>The replay of a recorded run\<close>

text \<open>The records of a log: identifiers and calls as they were written, at any offsets and times.\<close>

definition records_of :: "(int \<times> bytes) list \<Rightarrow> Record list \<Rightarrow> bool" where
  "records_of log records \<longleftrightarrow> map (\<lambda>r. (Record_FunctionID r, Record_FunctionCall r)) records = log"

text \<open>
  How a run may end for its replay to end the same way: the guest has made its calls, or its last
  call exits the process.
\<close>

definition exits :: "'v wasi \<Rightarrow> 'v guest \<Rightarrow> 'v Syscall list \<Rightarrow> 'v panic option \<Rightarrow> bool" where
  "exits W g past p \<longleftrightarrow>
     (case p of
        None \<Rightarrow> True
      | Some p \<Rightarrow> (\<exists>code e. g past = Some (ProcCall (ProcExitSyscall code e))
          \<and> p = ExitError (wrap (Unsigned 32) code) \<and> val W ExitCode_t code
          \<and> val W Errno_t (ESUCCESS W)))"

definition recordable :: "'v wasi \<Rightarrow> 'v Syscall \<Rightarrow> bool" where
  "recordable W s \<longleftrightarrow> syscall_ok W s \<and> replayable s
     \<and> (case encode_syscall W s of Inl _ \<Rightarrow> False | Inr b \<Rightarrow> length b < 4294967296)"

lemma sys_call_exit_Return:
  assumes "sys_call T r c = (Return s, r')" "is_exit c"
  shows "is_exit s"
proof -
  obtain code e where "c = ProcCall (ProcExitSyscall code e)"
    using assms(2) by (auto simp: is_exit_iff)
  with arg_cong [OF assms(1), of fst] show ?thesis
    by (auto split: outcome.splits)
qed

lemma records_of_Cons:
  assumes "records_of (x # log) records"
  obtains r rs where "records = r # rs" "Record_FunctionID r = fst x" "Record_FunctionCall r = snd x"
    "records_of log rs"
proof (cases records)
  case (Cons r rs)
  with assms that [of r rs] show ?thesis
    by (cases x) (simp add: records_of_def)
qed (use assms in \<open>simp add: records_of_def\<close>)

text \<open>The replay of the exit.\<close>

lemma replay_exit:
  assumes "records_of [exit_record W code] records" "remaining (Replay_records rp) = (records, e)"
    "val W ExitCode_t code" "val W Errno_t (ESUCCESS W)"
  shows "sys_call (ReplaySystem wr W) rp (ProcCall (ProcExitSyscall code errno))
      = (Panic (ExitError (wrap (Unsigned 32) code)), popped rp)
    \<and> remaining (Replay_records (popped rp)) = ([], e)"
proof -
  obtain x where x: "records = [x]" "Record_FunctionID x = ProcExit"
    "Record_FunctionCall x = EncodeProcExit [] code (ESUCCESS W)"
    using assms(1) by (auto simp: exit_record_def records_of_def)
  then show ?thesis
    using assms Replay_ProcExit_exits [of rp x "[]" e code "ESUCCESS W" W]
      remaining_popped [of rp x "[]" e]
    by (simp add: ReplaySystem_def map_return_def)
qed

context wasi_system
begin

text \<open>A call recorded and replayed.\<close>

lemma replay_step:
  assumes "sys_call (NewRecorder W S) r c = (Return s, r1)" "recordable W s"
    "recorder_log r' = recorder_log r @ log" "recorder_log r' = recorder_log r1 @ rest"
    "records_of log records" "remaining (Replay_records rp) = (records, e)"
  shows "\<exists>rp1 records'. sys_call (ReplaySystem wr W) rp c = (Return s, rp1)
    \<and> remaining (Replay_records rp1) = (records', e) \<and> records_of rest records'"
proof -
  have "\<not> is_exit c"
    using sys_call_exit_Return [OF assms(1)] assms(2)
    by (auto simp: is_exit_iff recordable_def)
  with assms(1) obtain b t where made: "sys_call S (recorder_system r) c = (Return s, t)"
    "encode_syscall W s = Inr b"
    "r1 = r\<lparr>recorder_system := t, recorder_log := recorder_log r @ [(Syscall_ID s, b)]\<rparr>"
    by (rule sys_call_NewRecorder_Return)
  with assms(3,4) have "log = (Syscall_ID s, b) # rest"
    by simp
  with assms(5) obtain x xs where x: "records = x # xs" "Record_FunctionID x = Syscall_ID s"
    "Record_FunctionCall x = b" "records_of rest xs"
    by (auto elim: records_of_Cons)
  then have "next_is W rp s (xs, e)"
    using assms(2,6) made(2) by (auto simp: next_is_def recordable_def)
  with sys_call_Replay [of W rp s "(xs, e)" c wr] sys_call_completes [OF made(1)] assms(2) x(4)
  show ?thesis
    by (cases "sys_call (ReplaySystem wr W) rp c") (auto simp: recordable_def)
qed

lemma run_replays:
  assumes "run (NewRecorder W S) g n r past = (p, past @ new, r')" "exits W g (past @ new) p"
    "list_all (recordable W) new" "recorder_log r' = recorder_log r @ log" "records_of log records"
    "remaining (Replay_records rp) = (records, e)"
  shows "\<exists>rp'. run (ReplaySystem wr W) g n rp past = (p, past @ new, rp')
    \<and> remaining (Replay_records rp') = ([], e)"
  using assms
proof (induction n arbitrary: r past new log records rp)
  case 0
  then show ?case
    by (auto simp: records_of_def)
next
  case (Suc n)
  show ?case
  proof (cases "g past")
    case None
    with Suc.prems show ?thesis
      by (auto simp: records_of_def)
  next
    case (Some c)
    obtain o' r1 where call: "sys_call (NewRecorder W S) r c = (o', r1)"
      by fastforce
    show ?thesis
    proof (cases o')
      case (Return s)
      then have rest: "run (NewRecorder W S) g n r1 (past @ [s]) = (p, past @ new, r')"
        using Suc.prems(1) Some call by simp
      then obtain new' where new: "new = s # new'"
        using run_prefix by fastforce
      obtain log' where log': "recorder_log r' = recorder_log r1 @ log'"
        using run_recorder_log [OF rest] by blast
      obtain rp1 records' where step: "sys_call (ReplaySystem wr W) rp c = (Return s, rp1)"
        "remaining (Replay_records rp1) = (records', e)" "records_of log' records'"
        using replay_step [of W r c s r1 r' log log' records rp e wr] call Return Suc.prems log' new
        by auto
      have "\<exists>rp'. run (ReplaySystem wr W) g n rp1 (past @ [s]) = (p, (past @ [s]) @ new', rp')
        \<and> remaining (Replay_records rp') = ([], e)"
        by (rule Suc.IH [OF _ _ _ log' step(3,2)]) (use rest Suc.prems new in simp_all)
      then show ?thesis
        using Some step new by simp
    next
      case (Panic q)
      then have "p = Some q" "new = []" "r' = r1"
        using Suc.prems(1) Some call by simp_all
      moreover from this Suc.prems(2) Some obtain code errno where
        c: "c = ProcCall (ProcExitSyscall code errno)" "q = ExitError (wrap (Unsigned 32) code)"
        "val W ExitCode_t code" "val W Errno_t (ESUCCESS W)"
        by (auto simp: exits_def)
      moreover have "log = [exit_record W code]"
        using arg_cong [OF call, of snd] Suc.prems(4) \<open>r' = r1\<close>
        by (simp only: c(1) sys_call_exit_recorded snd_conv) auto
      ultimately show ?thesis
        using Some Suc.prems(5,6) replay_exit [of W code records rp e wr errno]
        by (auto split: option.splits)
    qed
  qed
qed

end

end
