(* ===== verification/Systems.thy ===== *)
theory Systems
  imports Replay_Correct
begin

text \<open>
  Systems made of other systems (\<^verbatim>\<open>errno.go\<close>, \<^verbatim>\<open>exit.go\<close>, \<^verbatim>\<open>fallback.go\<close> in \<^verbatim>\<open>internal/timemachine/wasicall\<close>):
  one that answers every call with the same error, one that exits the process on every call, and one
  that asks a second system when the first answers \<^verbatim>\<open>ENOSYS\<close>. The first two have no state; the third
  has the states of the two.
\<close>

section \<open>The same error for every call\<close>

definition errno_ArgsSizesGet ::
  "int \<Rightarrow> unit \<Rightarrow> ('v panic, int \<times> int \<times> int) outcome \<times> unit" where
  "errno_ArgsSizesGet e u = (Return (0, 0, e), u)"

definition errno_ArgsGet ::
  "int \<Rightarrow> unit \<Rightarrow> ('v panic, bytes list \<times> int) outcome \<times> unit" where
  "errno_ArgsGet e u = (Return ([], e), u)"

definition errno_EnvironSizesGet ::
  "int \<Rightarrow> unit \<Rightarrow> ('v panic, int \<times> int \<times> int) outcome \<times> unit" where
  "errno_EnvironSizesGet e u = (Return (0, 0, e), u)"

definition errno_EnvironGet ::
  "int \<Rightarrow> unit \<Rightarrow> ('v panic, bytes list \<times> int) outcome \<times> unit" where
  "errno_EnvironGet e u = (Return ([], e), u)"

definition errno_ClockResGet ::
  "int \<Rightarrow> unit \<Rightarrow> int \<Rightarrow> ('v panic, int \<times> int) outcome \<times> unit" where
  "errno_ClockResGet e u clockID = (Return (0, e), u)"

definition errno_ClockTimeGet ::
  "int \<Rightarrow> unit \<Rightarrow> int \<Rightarrow> int \<Rightarrow> ('v panic, int \<times> int) outcome \<times> unit" where
  "errno_ClockTimeGet e u clockID precision = (Return (0, e), u)"

definition errno_FDAdvise ::
  "int \<Rightarrow> unit \<Rightarrow> int \<Rightarrow> int \<Rightarrow> int \<Rightarrow> int \<Rightarrow> ('v panic, int) outcome \<times> unit" where
  "errno_FDAdvise e u fd offset len advice = (Return e, u)"

definition errno_FDAllocate ::
  "int \<Rightarrow> unit \<Rightarrow> int \<Rightarrow> int \<Rightarrow> int \<Rightarrow> ('v panic, int) outcome \<times> unit" where
  "errno_FDAllocate e u fd offset len = (Return e, u)"

definition errno_FDClose ::
  "int \<Rightarrow> unit \<Rightarrow> int \<Rightarrow> ('v panic, int) outcome \<times> unit" where
  "errno_FDClose e u fd = (Return e, u)"

definition errno_FDDataSync ::
  "int \<Rightarrow> unit \<Rightarrow> int \<Rightarrow> ('v panic, int) outcome \<times> unit" where
  "errno_FDDataSync e u fd = (Return e, u)"

definition errno_FDStatGet ::
  "int \<Rightarrow> unit \<Rightarrow> int \<Rightarrow> ('v panic, FDStat \<times> int) outcome \<times> unit" where
  "errno_FDStatGet e u fd = (Return (zero_FDStat, e), u)"

definition errno_FDStatSetFlags ::
  "int \<Rightarrow> unit \<Rightarrow> int \<Rightarrow> int \<Rightarrow> ('v panic, int) outcome \<times> unit" where
  "errno_FDStatSetFlags e u fd flags = (Return e, u)"

definition errno_FDStatSetRights ::
  "int \<Rightarrow> unit \<Rightarrow> int \<Rightarrow> int \<Rightarrow> int \<Rightarrow> ('v panic, int) outcome \<times> unit" where
  "errno_FDStatSetRights e u fd rightsBase rightsInheriting = (Return e, u)"

definition errno_FDFileStatGet ::
  "int \<Rightarrow> unit \<Rightarrow> int \<Rightarrow> ('v panic, FileStat \<times> int) outcome \<times> unit" where
  "errno_FDFileStatGet e u fd = (Return (zero_FileStat, e), u)"

definition errno_FDFileStatSetSize ::
  "int \<Rightarrow> unit \<Rightarrow> int \<Rightarrow> int \<Rightarrow> ('v panic, int) outcome \<times> unit" where
  "errno_FDFileStatSetSize e u fd sz = (Return e, u)"

definition errno_FDFileStatSetTimes ::
  "int \<Rightarrow> unit \<Rightarrow> int \<Rightarrow> int \<Rightarrow> int \<Rightarrow> int \<Rightarrow> ('v panic, int) outcome \<times> unit" where
  "errno_FDFileStatSetTimes e u fd accessTime modifyTime flags = (Return e, u)"

definition errno_FDPread ::
  "int \<Rightarrow> unit \<Rightarrow> int \<Rightarrow> bytes list \<Rightarrow> int \<Rightarrow> ('v panic, int \<times> int \<times> bytes list) outcome \<times> unit" where
  "errno_FDPread e u fd iovecs offset = (Return (0, e, iovecs), u)"

definition errno_FDPreStatGet ::
  "int \<Rightarrow> unit \<Rightarrow> int \<Rightarrow> ('v panic, PreStat \<times> int) outcome \<times> unit" where
  "errno_FDPreStatGet e u fd = (Return (zero_PreStat, e), u)"

definition errno_FDPreStatDirName ::
  "int \<Rightarrow> unit \<Rightarrow> int \<Rightarrow> ('v panic, bytes \<times> int) outcome \<times> unit" where
  "errno_FDPreStatDirName e u fd = (Return ([], e), u)"

definition errno_FDPwrite ::
  "int \<Rightarrow> unit \<Rightarrow> int \<Rightarrow> bytes list \<Rightarrow> int \<Rightarrow> ('v panic, int \<times> int) outcome \<times> unit" where
  "errno_FDPwrite e u fd iovecs offset = (Return (0, e), u)"

definition errno_FDRead ::
  "int \<Rightarrow> unit \<Rightarrow> int \<Rightarrow> bytes list \<Rightarrow> ('v panic, int \<times> int \<times> bytes list) outcome \<times> unit" where
  "errno_FDRead e u fd iovecs = (Return (0, e, iovecs), u)"

definition errno_FDReadDir ::
  "int \<Rightarrow> unit \<Rightarrow> int \<Rightarrow> DirEntry list \<Rightarrow> int \<Rightarrow> int \<Rightarrow> ('v panic, int \<times> int \<times> DirEntry list) outcome \<times> unit" where
  "errno_FDReadDir e u fd entries cookie bufferSizeBytes = (Return (0, e, entries), u)"

definition errno_FDRenumber ::
  "int \<Rightarrow> unit \<Rightarrow> int \<Rightarrow> int \<Rightarrow> ('v panic, int) outcome \<times> unit" where
  "errno_FDRenumber e u from to = (Return e, u)"

definition errno_FDSeek ::
  "int \<Rightarrow> unit \<Rightarrow> int \<Rightarrow> int \<Rightarrow> int \<Rightarrow> ('v panic, int \<times> int) outcome \<times> unit" where
  "errno_FDSeek e u fd offset whence = (Return (0, e), u)"

definition errno_FDSync ::
  "int \<Rightarrow> unit \<Rightarrow> int \<Rightarrow> ('v panic, int) outcome \<times> unit" where
  "errno_FDSync e u fd = (Return e, u)"

definition errno_FDTell ::
  "int \<Rightarrow> unit \<Rightarrow> int \<Rightarrow> ('v panic, int \<times> int) outcome \<times> unit" where
  "errno_FDTell e u fd = (Return (0, e), u)"

definition errno_FDWrite ::
  "int \<Rightarrow> unit \<Rightarrow> int \<Rightarrow> bytes list \<Rightarrow> ('v panic, int \<times> int) outcome \<times> unit" where
  "errno_FDWrite e u fd iovecs = (Return (0, e), u)"

definition errno_PathCreateDirectory ::
  "int \<Rightarrow> unit \<Rightarrow> int \<Rightarrow> bytes \<Rightarrow> ('v panic, int) outcome \<times> unit" where
  "errno_PathCreateDirectory e u fd path = (Return e, u)"

definition errno_PathFileStatGet ::
  "int \<Rightarrow> unit \<Rightarrow> int \<Rightarrow> int \<Rightarrow> bytes \<Rightarrow> ('v panic, FileStat \<times> int) outcome \<times> unit" where
  "errno_PathFileStatGet e u fd lookupFlags path = (Return (zero_FileStat, e), u)"

definition errno_PathFileStatSetTimes ::
  "int \<Rightarrow> unit \<Rightarrow> int \<Rightarrow> int \<Rightarrow> bytes \<Rightarrow> int \<Rightarrow> int \<Rightarrow> int \<Rightarrow> ('v panic, int) outcome \<times> unit" where
  "errno_PathFileStatSetTimes e u fd lookupFlags path accessTime modifyTime flags = (Return e, u)"

definition errno_PathLink ::
  "int \<Rightarrow> unit \<Rightarrow> int \<Rightarrow> int \<Rightarrow> bytes \<Rightarrow> int \<Rightarrow> bytes \<Rightarrow> ('v panic, int) outcome \<times> unit" where
  "errno_PathLink e u oldFD oldFlags oldPath newFD newPath = (Return e, u)"

definition errno_PathOpen ::
  "int \<Rightarrow> unit \<Rightarrow> int \<Rightarrow> int \<Rightarrow> bytes \<Rightarrow> int \<Rightarrow> int \<Rightarrow> int \<Rightarrow> int \<Rightarrow> ('v panic, int \<times> int) outcome \<times> unit" where
  "errno_PathOpen e u fd dirFlags path openFlags rightsBase rightsInheriting fdFlags = (Return (-1, e), u)"

definition errno_PathReadLink ::
  "int \<Rightarrow> unit \<Rightarrow> int \<Rightarrow> bytes \<Rightarrow> bytes \<Rightarrow> ('v panic, int \<times> int \<times> bytes) outcome \<times> unit" where
  "errno_PathReadLink e u fd path buffer = (Return (0, e, buffer), u)"

definition errno_PathRemoveDirectory ::
  "int \<Rightarrow> unit \<Rightarrow> int \<Rightarrow> bytes \<Rightarrow> ('v panic, int) outcome \<times> unit" where
  "errno_PathRemoveDirectory e u fd path = (Return e, u)"

definition errno_PathRename ::
  "int \<Rightarrow> unit \<Rightarrow> int \<Rightarrow> bytes \<Rightarrow> int \<Rightarrow> bytes \<Rightarrow> ('v panic, int) outcome \<times> unit" where
  "errno_PathRename e u fd oldPath newFD newPath = (Return e, u)"

definition errno_PathSymlink ::
  "int \<Rightarrow> unit \<Rightarrow> bytes \<Rightarrow> int \<Rightarrow> bytes \<Rightarrow> ('v panic, int) outcome \<times> unit" where
  "errno_PathSymlink e u oldPath fd newPath = (Return e, u)"

definition errno_PathUnlinkFile ::
  "int \<Rightarrow> unit \<Rightarrow> int \<Rightarrow> bytes \<Rightarrow> ('v panic, int) outcome \<times> unit" where
  "errno_PathUnlinkFile e u fd path = (Return e, u)"

definition errno_PollOneOff ::
  "int \<Rightarrow> unit \<Rightarrow> 'v Subscription list \<Rightarrow> Event list \<Rightarrow> ('v panic, int \<times> int \<times> Event list) outcome \<times> unit" where
  "errno_PollOneOff e u subscriptions events = (Return (0, e, events), u)"

definition errno_ProcExit ::
  "int \<Rightarrow> unit \<Rightarrow> int \<Rightarrow> ('v panic, int) outcome \<times> unit" where
  "errno_ProcExit e u exitCode = (Return e, u)"

definition errno_ProcRaise ::
  "int \<Rightarrow> unit \<Rightarrow> int \<Rightarrow> ('v panic, int) outcome \<times> unit" where
  "errno_ProcRaise e u signal = (Return e, u)"

definition errno_SchedYield ::
  "int \<Rightarrow> unit \<Rightarrow> ('v panic, int) outcome \<times> unit" where
  "errno_SchedYield e u = (Return e, u)"

definition errno_RandomGet ::
  "int \<Rightarrow> unit \<Rightarrow> bytes \<Rightarrow> ('v panic, int \<times> bytes) outcome \<times> unit" where
  "errno_RandomGet e u b = (Return (e, b), u)"

definition errno_SockAccept ::
  "int \<Rightarrow> unit \<Rightarrow> int \<Rightarrow> int \<Rightarrow> ('v panic, int \<times> SocketAddress \<times> SocketAddress \<times> int) outcome \<times> unit" where
  "errno_SockAccept e u fd flags = (Return (-1, NilAddress, NilAddress, e), u)"

definition errno_SockRecv ::
  "int \<Rightarrow> unit \<Rightarrow> int \<Rightarrow> bytes list \<Rightarrow> int \<Rightarrow> ('v panic, int \<times> int \<times> int \<times> bytes list) outcome \<times> unit" where
  "errno_SockRecv e u fd iovecs flags = (Return (0, 0, e, iovecs), u)"

definition errno_SockSend ::
  "int \<Rightarrow> unit \<Rightarrow> int \<Rightarrow> bytes list \<Rightarrow> int \<Rightarrow> ('v panic, int \<times> int) outcome \<times> unit" where
  "errno_SockSend e u fd iovecs flags = (Return (0, e), u)"

definition errno_SockShutdown ::
  "int \<Rightarrow> unit \<Rightarrow> int \<Rightarrow> int \<Rightarrow> ('v panic, int) outcome \<times> unit" where
  "errno_SockShutdown e u fd flags = (Return e, u)"

definition errno_SockOpen ::
  "int \<Rightarrow> unit \<Rightarrow> int \<Rightarrow> int \<Rightarrow> int \<Rightarrow> int \<Rightarrow> int \<Rightarrow> ('v panic, int \<times> int) outcome \<times> unit" where
  "errno_SockOpen e u family socketType protocol rightsBase rightsInheriting = (Return (-1, e), u)"

definition errno_SockBind ::
  "int \<Rightarrow> unit \<Rightarrow> int \<Rightarrow> SocketAddress \<Rightarrow> ('v panic, SocketAddress \<times> int) outcome \<times> unit" where
  "errno_SockBind e u fd addr = (Return (NilAddress, e), u)"

definition errno_SockConnect ::
  "int \<Rightarrow> unit \<Rightarrow> int \<Rightarrow> SocketAddress \<Rightarrow> ('v panic, SocketAddress \<times> int) outcome \<times> unit" where
  "errno_SockConnect e u fd addr = (Return (NilAddress, e), u)"

definition errno_SockListen ::
  "int \<Rightarrow> unit \<Rightarrow> int \<Rightarrow> int \<Rightarrow> ('v panic, int) outcome \<times> unit" where
  "errno_SockListen e u fd backlog = (Return e, u)"

definition errno_SockSendTo ::
  "int \<Rightarrow> unit \<Rightarrow> int \<Rightarrow> bytes list \<Rightarrow> int \<Rightarrow> SocketAddress \<Rightarrow> ('v panic, int \<times> int) outcome \<times> unit" where
  "errno_SockSendTo e u fd iovecs flags addr = (Return (0, e), u)"

definition errno_SockRecvFrom ::
  "int \<Rightarrow> unit \<Rightarrow> int \<Rightarrow> bytes list \<Rightarrow> int \<Rightarrow> ('v panic, int \<times> int \<times> SocketAddress \<times> int \<times> bytes list) outcome \<times> unit" where
  "errno_SockRecvFrom e u fd iovecs flags = (Return (0, 0, NilAddress, e, iovecs), u)"

definition errno_SockGetOpt ::
  "int \<Rightarrow> unit \<Rightarrow> int \<Rightarrow> int \<Rightarrow> ('v panic, SocketOptionValue \<times> int) outcome \<times> unit" where
  "errno_SockGetOpt e u fd opt = (Return (NilValue, e), u)"

definition errno_SockSetOpt ::
  "int \<Rightarrow> unit \<Rightarrow> int \<Rightarrow> int \<Rightarrow> SocketOptionValue \<Rightarrow> ('v panic, int) outcome \<times> unit" where
  "errno_SockSetOpt e u fd opt value = (Return e, u)"

definition errno_SockLocalAddress ::
  "int \<Rightarrow> unit \<Rightarrow> int \<Rightarrow> ('v panic, SocketAddress \<times> int) outcome \<times> unit" where
  "errno_SockLocalAddress e u fd = (Return (NilAddress, e), u)"

definition errno_SockRemoteAddress ::
  "int \<Rightarrow> unit \<Rightarrow> int \<Rightarrow> ('v panic, SocketAddress \<times> int) outcome \<times> unit" where
  "errno_SockRemoteAddress e u fd = (Return (NilAddress, e), u)"

definition errno_SockAddressInfo ::
  "int \<Rightarrow> unit \<Rightarrow> bytes \<Rightarrow> bytes \<Rightarrow> AddressInfo \<Rightarrow> AddressInfo list \<Rightarrow> ('v panic, int \<times> int \<times> AddressInfo list) outcome \<times> unit" where
  "errno_SockAddressInfo e u name service hints results = (Return (0, e, results), u)"

definition NewErrnoSystem :: "int \<Rightarrow> (unit, 'v) System" where
  "NewErrnoSystem e =
     \<lparr>sys_ArgsSizesGet = errno_ArgsSizesGet e,
      sys_ArgsGet = errno_ArgsGet e,
      sys_EnvironSizesGet = errno_EnvironSizesGet e,
      sys_EnvironGet = errno_EnvironGet e,
      sys_ClockResGet = errno_ClockResGet e,
      sys_ClockTimeGet = errno_ClockTimeGet e,
      sys_FDAdvise = errno_FDAdvise e,
      sys_FDAllocate = errno_FDAllocate e,
      sys_FDClose = errno_FDClose e,
      sys_FDDataSync = errno_FDDataSync e,
      sys_FDStatGet = errno_FDStatGet e,
      sys_FDStatSetFlags = errno_FDStatSetFlags e,
      sys_FDStatSetRights = errno_FDStatSetRights e,
      sys_FDFileStatGet = errno_FDFileStatGet e,
      sys_FDFileStatSetSize = errno_FDFileStatSetSize e,
      sys_FDFileStatSetTimes = errno_FDFileStatSetTimes e,
      sys_FDPread = errno_FDPread e,
      sys_FDPreStatGet = errno_FDPreStatGet e,
      sys_FDPreStatDirName = errno_FDPreStatDirName e,
      sys_FDPwrite = errno_FDPwrite e,
      sys_FDRead = errno_FDRead e,
      sys_FDReadDir = errno_FDReadDir e,
      sys_FDRenumber = errno_FDRenumber e,
      sys_FDSeek = errno_FDSeek e,
      sys_FDSync = errno_FDSync e,
      sys_FDTell = errno_FDTell e,
      sys_FDWrite = errno_FDWrite e,
      sys_PathCreateDirectory = errno_PathCreateDirectory e,
      sys_PathFileStatGet = errno_PathFileStatGet e,
      sys_PathFileStatSetTimes = errno_PathFileStatSetTimes e,
      sys_PathLink = errno_PathLink e,
      sys_PathOpen = errno_PathOpen e,
      sys_PathReadLink = errno_PathReadLink e,
      sys_PathRemoveDirectory = errno_PathRemoveDirectory e,
      sys_PathRename = errno_PathRename e,
      sys_PathSymlink = errno_PathSymlink e,
      sys_PathUnlinkFile = errno_PathUnlinkFile e,
      sys_PollOneOff = errno_PollOneOff e,
      sys_ProcExit = errno_ProcExit e,
      sys_ProcRaise = errno_ProcRaise e,
      sys_SchedYield = errno_SchedYield e,
      sys_RandomGet = errno_RandomGet e,
      sys_SockAccept = errno_SockAccept e,
      sys_SockRecv = errno_SockRecv e,
      sys_SockSend = errno_SockSend e,
      sys_SockShutdown = errno_SockShutdown e,
      sys_SockOpen = errno_SockOpen e,
      sys_SockBind = errno_SockBind e,
      sys_SockConnect = errno_SockConnect e,
      sys_SockListen = errno_SockListen e,
      sys_SockSendTo = errno_SockSendTo e,
      sys_SockRecvFrom = errno_SockRecvFrom e,
      sys_SockGetOpt = errno_SockGetOpt e,
      sys_SockSetOpt = errno_SockSetOpt e,
      sys_SockLocalAddress = errno_SockLocalAddress e,
      sys_SockRemoteAddress = errno_SockRemoteAddress e,
      sys_SockAddressInfo = errno_SockAddressInfo e\<rparr>"

lemmas errno_defs =
  errno_ArgsSizesGet_def errno_ArgsGet_def errno_EnvironSizesGet_def errno_EnvironGet_def
  errno_ClockResGet_def errno_ClockTimeGet_def errno_FDAdvise_def errno_FDAllocate_def
  errno_FDClose_def errno_FDDataSync_def errno_FDStatGet_def errno_FDStatSetFlags_def
  errno_FDStatSetRights_def errno_FDFileStatGet_def errno_FDFileStatSetSize_def
  errno_FDFileStatSetTimes_def errno_FDPread_def errno_FDPreStatGet_def errno_FDPreStatDirName_def
  errno_FDPwrite_def errno_FDRead_def errno_FDReadDir_def errno_FDRenumber_def errno_FDSeek_def
  errno_FDSync_def errno_FDTell_def errno_FDWrite_def errno_PathCreateDirectory_def
  errno_PathFileStatGet_def errno_PathFileStatSetTimes_def errno_PathLink_def errno_PathOpen_def
  errno_PathReadLink_def errno_PathRemoveDirectory_def errno_PathRename_def errno_PathSymlink_def
  errno_PathUnlinkFile_def errno_PollOneOff_def errno_ProcExit_def errno_ProcRaise_def
  errno_SchedYield_def errno_RandomGet_def errno_SockAccept_def errno_SockRecv_def
  errno_SockSend_def errno_SockShutdown_def errno_SockOpen_def errno_SockBind_def
  errno_SockConnect_def errno_SockListen_def errno_SockSendTo_def errno_SockRecvFrom_def
  errno_SockGetOpt_def errno_SockSetOpt_def errno_SockLocalAddress_def errno_SockRemoteAddress_def
  errno_SockAddressInfo_def

section \<open>An exit for every call\<close>

definition newExitError :: "int \<Rightarrow> 'v panic" where
  "newExitError exitCode = ExitError (wrap (Unsigned 32) exitCode)"

definition exit_ArgsSizesGet ::
  "int \<Rightarrow> unit \<Rightarrow> ('v panic, int \<times> int \<times> int) outcome \<times> unit" where
  "exit_ArgsSizesGet code u = (Panic (newExitError code), u)"

definition exit_ArgsGet ::
  "int \<Rightarrow> unit \<Rightarrow> ('v panic, bytes list \<times> int) outcome \<times> unit" where
  "exit_ArgsGet code u = (Panic (newExitError code), u)"

definition exit_EnvironSizesGet ::
  "int \<Rightarrow> unit \<Rightarrow> ('v panic, int \<times> int \<times> int) outcome \<times> unit" where
  "exit_EnvironSizesGet code u = (Panic (newExitError code), u)"

definition exit_EnvironGet ::
  "int \<Rightarrow> unit \<Rightarrow> ('v panic, bytes list \<times> int) outcome \<times> unit" where
  "exit_EnvironGet code u = (Panic (newExitError code), u)"

definition exit_ClockResGet ::
  "int \<Rightarrow> unit \<Rightarrow> int \<Rightarrow> ('v panic, int \<times> int) outcome \<times> unit" where
  "exit_ClockResGet code u clockID = (Panic (newExitError code), u)"

definition exit_ClockTimeGet ::
  "int \<Rightarrow> unit \<Rightarrow> int \<Rightarrow> int \<Rightarrow> ('v panic, int \<times> int) outcome \<times> unit" where
  "exit_ClockTimeGet code u clockID precision = (Panic (newExitError code), u)"

definition exit_FDAdvise ::
  "int \<Rightarrow> unit \<Rightarrow> int \<Rightarrow> int \<Rightarrow> int \<Rightarrow> int \<Rightarrow> ('v panic, int) outcome \<times> unit" where
  "exit_FDAdvise code u fd offset len advice = (Panic (newExitError code), u)"

definition exit_FDAllocate ::
  "int \<Rightarrow> unit \<Rightarrow> int \<Rightarrow> int \<Rightarrow> int \<Rightarrow> ('v panic, int) outcome \<times> unit" where
  "exit_FDAllocate code u fd offset len = (Panic (newExitError code), u)"

definition exit_FDClose ::
  "int \<Rightarrow> unit \<Rightarrow> int \<Rightarrow> ('v panic, int) outcome \<times> unit" where
  "exit_FDClose code u fd = (Panic (newExitError code), u)"

definition exit_FDDataSync ::
  "int \<Rightarrow> unit \<Rightarrow> int \<Rightarrow> ('v panic, int) outcome \<times> unit" where
  "exit_FDDataSync code u fd = (Panic (newExitError code), u)"

definition exit_FDStatGet ::
  "int \<Rightarrow> unit \<Rightarrow> int \<Rightarrow> ('v panic, FDStat \<times> int) outcome \<times> unit" where
  "exit_FDStatGet code u fd = (Panic (newExitError code), u)"

definition exit_FDStatSetFlags ::
  "int \<Rightarrow> unit \<Rightarrow> int \<Rightarrow> int \<Rightarrow> ('v panic, int) outcome \<times> unit" where
  "exit_FDStatSetFlags code u fd flags = (Panic (newExitError code), u)"

definition exit_FDStatSetRights ::
  "int \<Rightarrow> unit \<Rightarrow> int \<Rightarrow> int \<Rightarrow> int \<Rightarrow> ('v panic, int) outcome \<times> unit" where
  "exit_FDStatSetRights code u fd rightsBase rightsInheriting = (Panic (newExitError code), u)"

definition exit_FDFileStatGet ::
  "int \<Rightarrow> unit \<Rightarrow> int \<Rightarrow> ('v panic, FileStat \<times> int) outcome \<times> unit" where
  "exit_FDFileStatGet code u fd = (Panic (newExitError code), u)"

definition exit_FDFileStatSetSize ::
  "int \<Rightarrow> unit \<Rightarrow> int \<Rightarrow> int \<Rightarrow> ('v panic, int) outcome \<times> unit" where
  "exit_FDFileStatSetSize code u fd sz = (Panic (newExitError code), u)"

definition exit_FDFileStatSetTimes ::
  "int \<Rightarrow> unit \<Rightarrow> int \<Rightarrow> int \<Rightarrow> int \<Rightarrow> int \<Rightarrow> ('v panic, int) outcome \<times> unit" where
  "exit_FDFileStatSetTimes code u fd accessTime modifyTime flags = (Panic (newExitError code), u)"

definition exit_FDPread ::
  "int \<Rightarrow> unit \<Rightarrow> int \<Rightarrow> bytes list \<Rightarrow> int \<Rightarrow> ('v panic, int \<times> int \<times> bytes list) outcome \<times> unit" where
  "exit_FDPread code u fd iovecs offset = (Panic (newExitError code), u)"

definition exit_FDPreStatGet ::
  "int \<Rightarrow> unit \<Rightarrow> int \<Rightarrow> ('v panic, PreStat \<times> int) outcome \<times> unit" where
  "exit_FDPreStatGet code u fd = (Panic (newExitError code), u)"

definition exit_FDPreStatDirName ::
  "int \<Rightarrow> unit \<Rightarrow> int \<Rightarrow> ('v panic, bytes \<times> int) outcome \<times> unit" where
  "exit_FDPreStatDirName code u fd = (Panic (newExitError code), u)"

definition exit_FDPwrite ::
  "int \<Rightarrow> unit \<Rightarrow> int \<Rightarrow> bytes list \<Rightarrow> int \<Rightarrow> ('v panic, int \<times> int) outcome \<times> unit" where
  "exit_FDPwrite code u fd iovecs offset = (Panic (newExitError code), u)"

definition exit_FDRead ::
  "int \<Rightarrow> unit \<Rightarrow> int \<Rightarrow> bytes list \<Rightarrow> ('v panic, int \<times> int \<times> bytes list) outcome \<times> unit" where
  "exit_FDRead code u fd iovecs = (Panic (newExitError code), u)"

definition exit_FDReadDir ::
  "int \<Rightarrow> unit \<Rightarrow> int \<Rightarrow> DirEntry list \<Rightarrow> int \<Rightarrow> int \<Rightarrow> ('v panic, int \<times> int \<times> DirEntry list) outcome \<times> unit" where
  "exit_FDReadDir code u fd entries cookie bufferSizeBytes = (Panic (newExitError code), u)"

definition exit_FDRenumber ::
  "int \<Rightarrow> unit \<Rightarrow> int \<Rightarrow> int \<Rightarrow> ('v panic, int) outcome \<times> unit" where
  "exit_FDRenumber code u from to = (Panic (newExitError code), u)"

definition exit_FDSeek ::
  "int \<Rightarrow> unit \<Rightarrow> int \<Rightarrow> int \<Rightarrow> int \<Rightarrow> ('v panic, int \<times> int) outcome \<times> unit" where
  "exit_FDSeek code u fd offset whence = (Panic (newExitError code), u)"

definition exit_FDSync ::
  "int \<Rightarrow> unit \<Rightarrow> int \<Rightarrow> ('v panic, int) outcome \<times> unit" where
  "exit_FDSync code u fd = (Panic (newExitError code), u)"

definition exit_FDTell ::
  "int \<Rightarrow> unit \<Rightarrow> int \<Rightarrow> ('v panic, int \<times> int) outcome \<times> unit" where
  "exit_FDTell code u fd = (Panic (newExitError code), u)"

definition exit_FDWrite ::
  "int \<Rightarrow> unit \<Rightarrow> int \<Rightarrow> bytes list \<Rightarrow> ('v panic, int \<times> int) outcome \<times> unit" where
  "exit_FDWrite code u fd iovecs = (Panic (newExitError code), u)"

definition exit_PathCreateDirectory ::
  "int \<Rightarrow> unit \<Rightarrow> int \<Rightarrow> bytes \<Rightarrow> ('v panic, int) outcome \<times> unit" where
  "exit_PathCreateDirectory code u fd path = (Panic (newExitError code), u)"

definition exit_PathFileStatGet ::
  "int \<Rightarrow> unit \<Rightarrow> int \<Rightarrow> int \<Rightarrow> bytes \<Rightarrow> ('v panic, FileStat \<times> int) outcome \<times> unit" where
  "exit_PathFileStatGet code u fd lookupFlags path = (Panic (newExitError code), u)"

definition exit_PathFileStatSetTimes ::
  "int \<Rightarrow> unit \<Rightarrow> int \<Rightarrow> int \<Rightarrow> bytes \<Rightarrow> int \<Rightarrow> int \<Rightarrow> int \<Rightarrow> ('v panic, int) outcome \<times> unit" where
  "exit_PathFileStatSetTimes code u fd lookupFlags path accessTime modifyTime flags = (Panic (newExitError code), u)"

definition exit_PathLink ::
  "int \<Rightarrow> unit \<Rightarrow> int \<Rightarrow> int \<Rightarrow> bytes \<Rightarrow> int \<Rightarrow> bytes \<Rightarrow> ('v panic, int) outcome \<times> unit" where
  "exit_PathLink code u oldFD oldFlags oldPath newFD newPath = (Panic (newExitError code), u)"

definition exit_PathOpen ::
  "int \<Rightarrow> unit \<Rightarrow> int \<Rightarrow> int \<Rightarrow> bytes \<Rightarrow> int \<Rightarrow> int \<Rightarrow> int \<Rightarrow> int \<Rightarrow> ('v panic, int \<times> int) outcome \<times> unit" where
  "exit_PathOpen code u fd dirFlags path openFlags rightsBase rightsInheriting fdFlags = (Panic (newExitError code), u)"

definition exit_PathReadLink ::
  "int \<Rightarrow> unit \<Rightarrow> int \<Rightarrow> bytes \<Rightarrow> bytes \<Rightarrow> ('v panic, int \<times> int \<times> bytes) outcome \<times> unit" where
  "exit_PathReadLink code u fd path buffer = (Panic (newExitError code), u)"

definition exit_PathRemoveDirectory ::
  "int \<Rightarrow> unit \<Rightarrow> int \<Rightarrow> bytes \<Rightarrow> ('v panic, int) outcome \<times> unit" where
  "exit_PathRemoveDirectory code u fd path = (Panic (newExitError code), u)"

definition exit_PathRename ::
  "int \<Rightarrow> unit \<Rightarrow> int \<Rightarrow> bytes \<Rightarrow> int \<Rightarrow> bytes \<Rightarrow> ('v panic, int) outcome \<times> unit" where
  "exit_PathRename code u fd oldPath newFD newPath = (Panic (newExitError code), u)"

definition exit_PathSymlink ::
  "int \<Rightarrow> unit \<Rightarrow> bytes \<Rightarrow> int \<Rightarrow> bytes \<Rightarrow> ('v panic, int) outcome \<times> unit" where
  "exit_PathSymlink code u oldPath fd newPath = (Panic (newExitError code), u)"

definition exit_PathUnlinkFile ::
  "int \<Rightarrow> unit \<Rightarrow> int \<Rightarrow> bytes \<Rightarrow> ('v panic, int) outcome \<times> unit" where
  "exit_PathUnlinkFile code u fd path = (Panic (newExitError code), u)"

definition exit_PollOneOff ::
  "int \<Rightarrow> unit \<Rightarrow> 'v Subscription list \<Rightarrow> Event list \<Rightarrow> ('v panic, int \<times> int \<times> Event list) outcome \<times> unit" where
  "exit_PollOneOff code u subscriptions events = (Panic (newExitError code), u)"

definition exit_ProcExit ::
  "int \<Rightarrow> unit \<Rightarrow> int \<Rightarrow> ('v panic, int) outcome \<times> unit" where
  "exit_ProcExit code u exitCode = (Panic (newExitError code), u)"

definition exit_ProcRaise ::
  "int \<Rightarrow> unit \<Rightarrow> int \<Rightarrow> ('v panic, int) outcome \<times> unit" where
  "exit_ProcRaise code u signal = (Panic (newExitError code), u)"

definition exit_SchedYield ::
  "int \<Rightarrow> unit \<Rightarrow> ('v panic, int) outcome \<times> unit" where
  "exit_SchedYield code u = (Panic (newExitError code), u)"

definition exit_RandomGet ::
  "int \<Rightarrow> unit \<Rightarrow> bytes \<Rightarrow> ('v panic, int \<times> bytes) outcome \<times> unit" where
  "exit_RandomGet code u b = (Panic (newExitError code), u)"

definition exit_SockAccept ::
  "int \<Rightarrow> unit \<Rightarrow> int \<Rightarrow> int \<Rightarrow> ('v panic, int \<times> SocketAddress \<times> SocketAddress \<times> int) outcome \<times> unit" where
  "exit_SockAccept code u fd flags = (Panic (newExitError code), u)"

definition exit_SockRecv ::
  "int \<Rightarrow> unit \<Rightarrow> int \<Rightarrow> bytes list \<Rightarrow> int \<Rightarrow> ('v panic, int \<times> int \<times> int \<times> bytes list) outcome \<times> unit" where
  "exit_SockRecv code u fd iovecs iflags = (Panic (newExitError code), u)"

definition exit_SockSend ::
  "int \<Rightarrow> unit \<Rightarrow> int \<Rightarrow> bytes list \<Rightarrow> int \<Rightarrow> ('v panic, int \<times> int) outcome \<times> unit" where
  "exit_SockSend code u fd iovecs flags = (Panic (newExitError code), u)"

definition exit_SockShutdown ::
  "int \<Rightarrow> unit \<Rightarrow> int \<Rightarrow> int \<Rightarrow> ('v panic, int) outcome \<times> unit" where
  "exit_SockShutdown code u fd flags = (Panic (newExitError code), u)"

definition exit_SockOpen ::
  "int \<Rightarrow> unit \<Rightarrow> int \<Rightarrow> int \<Rightarrow> int \<Rightarrow> int \<Rightarrow> int \<Rightarrow> ('v panic, int \<times> int) outcome \<times> unit" where
  "exit_SockOpen code u family socketType protocol rightsBase rightsInheriting = (Panic (newExitError code), u)"

definition exit_SockBind ::
  "int \<Rightarrow> unit \<Rightarrow> int \<Rightarrow> SocketAddress \<Rightarrow> ('v panic, SocketAddress \<times> int) outcome \<times> unit" where
  "exit_SockBind code u fd bindAddr = (Panic (newExitError code), u)"

definition exit_SockConnect ::
  "int \<Rightarrow> unit \<Rightarrow> int \<Rightarrow> SocketAddress \<Rightarrow> ('v panic, SocketAddress \<times> int) outcome \<times> unit" where
  "exit_SockConnect code u fd peer = (Panic (newExitError code), u)"

definition exit_SockListen ::
  "int \<Rightarrow> unit \<Rightarrow> int \<Rightarrow> int \<Rightarrow> ('v panic, int) outcome \<times> unit" where
  "exit_SockListen code u fd backlog = (Panic (newExitError code), u)"

definition exit_SockSendTo ::
  "int \<Rightarrow> unit \<Rightarrow> int \<Rightarrow> bytes list \<Rightarrow> int \<Rightarrow> SocketAddress \<Rightarrow> ('v panic, int \<times> int) outcome \<times> unit" where
  "exit_SockSendTo code u fd iovecs flags addr = (Panic (newExitError code), u)"

definition exit_SockRecvFrom ::
  "int \<Rightarrow> unit \<Rightarrow> int \<Rightarrow> bytes list \<Rightarrow> int \<Rightarrow> ('v panic, int \<times> int \<times> SocketAddress \<times> int \<times> bytes list) outcome \<times> unit" where
  "exit_SockRecvFrom code u fd iovecs flags = (Panic (newExitError code), u)"

definition exit_SockGetOpt ::
  "int \<Rightarrow> unit \<Rightarrow> int \<Rightarrow> int \<Rightarrow> ('v panic, SocketOptionValue \<times> int) outcome \<times> unit" where
  "exit_SockGetOpt code u fd opt = (Panic (newExitError code), u)"

definition exit_SockSetOpt ::
  "int \<Rightarrow> unit \<Rightarrow> int \<Rightarrow> int \<Rightarrow> SocketOptionValue \<Rightarrow> ('v panic, int) outcome \<times> unit" where
  "exit_SockSetOpt code u fd opt value = (Panic (newExitError code), u)"

definition exit_SockLocalAddress ::
  "int \<Rightarrow> unit \<Rightarrow> int \<Rightarrow> ('v panic, SocketAddress \<times> int) outcome \<times> unit" where
  "exit_SockLocalAddress code u fd = (Panic (newExitError code), u)"

definition exit_SockRemoteAddress ::
  "int \<Rightarrow> unit \<Rightarrow> int \<Rightarrow> ('v panic, SocketAddress \<times> int) outcome \<times> unit" where
  "exit_SockRemoteAddress code u fd = (Panic (newExitError code), u)"

definition exit_SockAddressInfo ::
  "int \<Rightarrow> unit \<Rightarrow> bytes \<Rightarrow> bytes \<Rightarrow> AddressInfo \<Rightarrow> AddressInfo list \<Rightarrow> ('v panic, int \<times> int \<times> AddressInfo list) outcome \<times> unit" where
  "exit_SockAddressInfo code u name service hints results = (Panic (newExitError code), u)"

definition NewExitSystem :: "int \<Rightarrow> (unit, 'v) System" where
  "NewExitSystem code =
     \<lparr>sys_ArgsSizesGet = exit_ArgsSizesGet code,
      sys_ArgsGet = exit_ArgsGet code,
      sys_EnvironSizesGet = exit_EnvironSizesGet code,
      sys_EnvironGet = exit_EnvironGet code,
      sys_ClockResGet = exit_ClockResGet code,
      sys_ClockTimeGet = exit_ClockTimeGet code,
      sys_FDAdvise = exit_FDAdvise code,
      sys_FDAllocate = exit_FDAllocate code,
      sys_FDClose = exit_FDClose code,
      sys_FDDataSync = exit_FDDataSync code,
      sys_FDStatGet = exit_FDStatGet code,
      sys_FDStatSetFlags = exit_FDStatSetFlags code,
      sys_FDStatSetRights = exit_FDStatSetRights code,
      sys_FDFileStatGet = exit_FDFileStatGet code,
      sys_FDFileStatSetSize = exit_FDFileStatSetSize code,
      sys_FDFileStatSetTimes = exit_FDFileStatSetTimes code,
      sys_FDPread = exit_FDPread code,
      sys_FDPreStatGet = exit_FDPreStatGet code,
      sys_FDPreStatDirName = exit_FDPreStatDirName code,
      sys_FDPwrite = exit_FDPwrite code,
      sys_FDRead = exit_FDRead code,
      sys_FDReadDir = exit_FDReadDir code,
      sys_FDRenumber = exit_FDRenumber code,
      sys_FDSeek = exit_FDSeek code,
      sys_FDSync = exit_FDSync code,
      sys_FDTell = exit_FDTell code,
      sys_FDWrite = exit_FDWrite code,
      sys_PathCreateDirectory = exit_PathCreateDirectory code,
      sys_PathFileStatGet = exit_PathFileStatGet code,
      sys_PathFileStatSetTimes = exit_PathFileStatSetTimes code,
      sys_PathLink = exit_PathLink code,
      sys_PathOpen = exit_PathOpen code,
      sys_PathReadLink = exit_PathReadLink code,
      sys_PathRemoveDirectory = exit_PathRemoveDirectory code,
      sys_PathRename = exit_PathRename code,
      sys_PathSymlink = exit_PathSymlink code,
      sys_PathUnlinkFile = exit_PathUnlinkFile code,
      sys_PollOneOff = exit_PollOneOff code,
      sys_ProcExit = exit_ProcExit code,
      sys_ProcRaise = exit_ProcRaise code,
      sys_SchedYield = exit_SchedYield code,
      sys_RandomGet = exit_RandomGet code,
      sys_SockAccept = exit_SockAccept code,
      sys_SockRecv = exit_SockRecv code,
      sys_SockSend = exit_SockSend code,
      sys_SockShutdown = exit_SockShutdown code,
      sys_SockOpen = exit_SockOpen code,
      sys_SockBind = exit_SockBind code,
      sys_SockConnect = exit_SockConnect code,
      sys_SockListen = exit_SockListen code,
      sys_SockSendTo = exit_SockSendTo code,
      sys_SockRecvFrom = exit_SockRecvFrom code,
      sys_SockGetOpt = exit_SockGetOpt code,
      sys_SockSetOpt = exit_SockSetOpt code,
      sys_SockLocalAddress = exit_SockLocalAddress code,
      sys_SockRemoteAddress = exit_SockRemoteAddress code,
      sys_SockAddressInfo = exit_SockAddressInfo code\<rparr>"

lemmas exit_defs =
  exit_ArgsSizesGet_def exit_ArgsGet_def exit_EnvironSizesGet_def exit_EnvironGet_def
  exit_ClockResGet_def exit_ClockTimeGet_def exit_FDAdvise_def exit_FDAllocate_def
  exit_FDClose_def exit_FDDataSync_def exit_FDStatGet_def exit_FDStatSetFlags_def
  exit_FDStatSetRights_def exit_FDFileStatGet_def exit_FDFileStatSetSize_def
  exit_FDFileStatSetTimes_def exit_FDPread_def exit_FDPreStatGet_def exit_FDPreStatDirName_def
  exit_FDPwrite_def exit_FDRead_def exit_FDReadDir_def exit_FDRenumber_def exit_FDSeek_def
  exit_FDSync_def exit_FDTell_def exit_FDWrite_def exit_PathCreateDirectory_def
  exit_PathFileStatGet_def exit_PathFileStatSetTimes_def exit_PathLink_def exit_PathOpen_def
  exit_PathReadLink_def exit_PathRemoveDirectory_def exit_PathRename_def exit_PathSymlink_def
  exit_PathUnlinkFile_def exit_PollOneOff_def exit_ProcExit_def exit_ProcRaise_def
  exit_SchedYield_def exit_RandomGet_def exit_SockAccept_def exit_SockRecv_def exit_SockSend_def
  exit_SockShutdown_def exit_SockOpen_def exit_SockBind_def exit_SockConnect_def
  exit_SockListen_def exit_SockSendTo_def exit_SockRecvFrom_def exit_SockGetOpt_def
  exit_SockSetOpt_def exit_SockLocalAddress_def exit_SockRemoteAddress_def
  exit_SockAddressInfo_def

section \<open>A second system for what the first does not implement\<close>

text \<open>
  The slices that a call fills are the caller's: what the primary system has left in them is what the
  secondary gets. \<open>fallback_second\<close> is the call to the secondary.
\<close>

definition fallback_second :: "'s \<Rightarrow> ('p, 'a) outcome \<times> 't \<Rightarrow> ('p, 'a) outcome \<times> 's \<times> 't" where
  "fallback_second s x = (fst x, s, snd x)"

definition fallback_ArgsSizesGet ::
  "'v wasi \<Rightarrow> ('s, 'v) System \<Rightarrow> ('t, 'v) System \<Rightarrow> 's \<times> 't \<Rightarrow> ('v panic, int \<times> int \<times> int) outcome \<times> 's \<times> 't" where
  "fallback_ArgsSizesGet W P Q f =
     (case sys_ArgsSizesGet P (fst f) of
        (Panic p, s) \<Rightarrow> (Panic p, s, snd f)
      | (Return (argCount, stringBytes, errno), s) \<Rightarrow>
          if errno = ENOSYS W
          then fallback_second s (sys_ArgsSizesGet Q (snd f))
          else (Return (argCount, stringBytes, errno), s, snd f))"

definition fallback_ArgsGet ::
  "'v wasi \<Rightarrow> ('s, 'v) System \<Rightarrow> ('t, 'v) System \<Rightarrow> 's \<times> 't \<Rightarrow> ('v panic, bytes list \<times> int) outcome \<times> 's \<times> 't" where
  "fallback_ArgsGet W P Q f =
     (case sys_ArgsGet P (fst f) of
        (Panic p, s) \<Rightarrow> (Panic p, s, snd f)
      | (Return (args, errno), s) \<Rightarrow>
          if errno = ENOSYS W
          then fallback_second s (sys_ArgsGet Q (snd f))
          else (Return (args, errno), s, snd f))"

definition fallback_EnvironSizesGet ::
  "'v wasi \<Rightarrow> ('s, 'v) System \<Rightarrow> ('t, 'v) System \<Rightarrow> 's \<times> 't \<Rightarrow> ('v panic, int \<times> int \<times> int) outcome \<times> 's \<times> 't" where
  "fallback_EnvironSizesGet W P Q f =
     (case sys_EnvironSizesGet P (fst f) of
        (Panic p, s) \<Rightarrow> (Panic p, s, snd f)
      | (Return (envCount, stringBytes, errno), s) \<Rightarrow>
          if errno = ENOSYS W
          then fallback_second s (sys_EnvironSizesGet Q (snd f))
          else (Return (envCount, stringBytes, errno), s, snd f))"

definition fallback_EnvironGet ::
  "'v wasi \<Rightarrow> ('s, 'v) System \<Rightarrow> ('t, 'v) System \<Rightarrow> 's \<times> 't \<Rightarrow> ('v panic, bytes list \<times> int) outcome \<times> 's \<times> 't" where
  "fallback_EnvironGet W P Q f =
     (case sys_EnvironGet P (fst f) of
        (Panic p, s) \<Rightarrow> (Panic p, s, snd f)
      | (Return (env, errno), s) \<Rightarrow>
          if errno = ENOSYS W
          then fallback_second s (sys_EnvironGet Q (snd f))
          else (Return (env, errno), s, snd f))"

definition fallback_ClockResGet ::
  "'v wasi \<Rightarrow> ('s, 'v) System \<Rightarrow> ('t, 'v) System \<Rightarrow> 's \<times> 't \<Rightarrow> int \<Rightarrow> ('v panic, int \<times> int) outcome \<times> 's \<times> 't" where
  "fallback_ClockResGet W P Q f clockID =
     (case sys_ClockResGet P (fst f) clockID of
        (Panic p, s) \<Rightarrow> (Panic p, s, snd f)
      | (Return (precision, errno), s) \<Rightarrow>
          if errno = ENOSYS W
          then fallback_second s (sys_ClockResGet Q (snd f) clockID)
          else (Return (precision, errno), s, snd f))"

definition fallback_ClockTimeGet ::
  "'v wasi \<Rightarrow> ('s, 'v) System \<Rightarrow> ('t, 'v) System \<Rightarrow> 's \<times> 't \<Rightarrow> int \<Rightarrow> int \<Rightarrow> ('v panic, int \<times> int) outcome \<times> 's \<times> 't" where
  "fallback_ClockTimeGet W P Q f clockID precision =
     (case sys_ClockTimeGet P (fst f) clockID precision of
        (Panic p, s) \<Rightarrow> (Panic p, s, snd f)
      | (Return (timestamp, errno), s) \<Rightarrow>
          if errno = ENOSYS W
          then fallback_second s (sys_ClockTimeGet Q (snd f) clockID precision)
          else (Return (timestamp, errno), s, snd f))"

definition fallback_FDAdvise ::
  "'v wasi \<Rightarrow> ('s, 'v) System \<Rightarrow> ('t, 'v) System \<Rightarrow> 's \<times> 't \<Rightarrow> int \<Rightarrow> int \<Rightarrow> int \<Rightarrow> int \<Rightarrow> ('v panic, int) outcome \<times> 's \<times> 't" where
  "fallback_FDAdvise W P Q f fd offset len advice =
     (case sys_FDAdvise P (fst f) fd offset len advice of
        (Panic p, s) \<Rightarrow> (Panic p, s, snd f)
      | (Return errno, s) \<Rightarrow>
          if errno = ENOSYS W
          then fallback_second s (sys_FDAdvise Q (snd f) fd offset len advice)
          else (Return errno, s, snd f))"

definition fallback_FDAllocate ::
  "'v wasi \<Rightarrow> ('s, 'v) System \<Rightarrow> ('t, 'v) System \<Rightarrow> 's \<times> 't \<Rightarrow> int \<Rightarrow> int \<Rightarrow> int \<Rightarrow> ('v panic, int) outcome \<times> 's \<times> 't" where
  "fallback_FDAllocate W P Q f fd offset len =
     (case sys_FDAllocate P (fst f) fd offset len of
        (Panic p, s) \<Rightarrow> (Panic p, s, snd f)
      | (Return errno, s) \<Rightarrow>
          if errno = ENOSYS W
          then fallback_second s (sys_FDAllocate Q (snd f) fd offset len)
          else (Return errno, s, snd f))"

definition fallback_FDClose ::
  "'v wasi \<Rightarrow> ('s, 'v) System \<Rightarrow> ('t, 'v) System \<Rightarrow> 's \<times> 't \<Rightarrow> int \<Rightarrow> ('v panic, int) outcome \<times> 's \<times> 't" where
  "fallback_FDClose W P Q f fd =
     (case sys_FDClose P (fst f) fd of
        (Panic p, s) \<Rightarrow> (Panic p, s, snd f)
      | (Return errno, s) \<Rightarrow>
          if errno = ENOSYS W
          then fallback_second s (sys_FDClose Q (snd f) fd)
          else (Return errno, s, snd f))"

definition fallback_FDDataSync ::
  "'v wasi \<Rightarrow> ('s, 'v) System \<Rightarrow> ('t, 'v) System \<Rightarrow> 's \<times> 't \<Rightarrow> int \<Rightarrow> ('v panic, int) outcome \<times> 's \<times> 't" where
  "fallback_FDDataSync W P Q f fd =
     (case sys_FDDataSync P (fst f) fd of
        (Panic p, s) \<Rightarrow> (Panic p, s, snd f)
      | (Return errno, s) \<Rightarrow>
          if errno = ENOSYS W
          then fallback_second s (sys_FDDataSync Q (snd f) fd)
          else (Return errno, s, snd f))"

definition fallback_FDStatGet ::
  "'v wasi \<Rightarrow> ('s, 'v) System \<Rightarrow> ('t, 'v) System \<Rightarrow> 's \<times> 't \<Rightarrow> int \<Rightarrow> ('v panic, FDStat \<times> int) outcome \<times> 's \<times> 't" where
  "fallback_FDStatGet W P Q f fd =
     (case sys_FDStatGet P (fst f) fd of
        (Panic p, s) \<Rightarrow> (Panic p, s, snd f)
      | (Return (stat, errno), s) \<Rightarrow>
          if errno = ENOSYS W
          then fallback_second s (sys_FDStatGet Q (snd f) fd)
          else (Return (stat, errno), s, snd f))"

definition fallback_FDStatSetFlags ::
  "'v wasi \<Rightarrow> ('s, 'v) System \<Rightarrow> ('t, 'v) System \<Rightarrow> 's \<times> 't \<Rightarrow> int \<Rightarrow> int \<Rightarrow> ('v panic, int) outcome \<times> 's \<times> 't" where
  "fallback_FDStatSetFlags W P Q f fd flags =
     (case sys_FDStatSetFlags P (fst f) fd flags of
        (Panic p, s) \<Rightarrow> (Panic p, s, snd f)
      | (Return errno, s) \<Rightarrow>
          if errno = ENOSYS W
          then fallback_second s (sys_FDStatSetFlags Q (snd f) fd flags)
          else (Return errno, s, snd f))"

definition fallback_FDStatSetRights ::
  "'v wasi \<Rightarrow> ('s, 'v) System \<Rightarrow> ('t, 'v) System \<Rightarrow> 's \<times> 't \<Rightarrow> int \<Rightarrow> int \<Rightarrow> int \<Rightarrow> ('v panic, int) outcome \<times> 's \<times> 't" where
  "fallback_FDStatSetRights W P Q f fd rightsBase rightsInheriting =
     (case sys_FDStatSetRights P (fst f) fd rightsBase rightsInheriting of
        (Panic p, s) \<Rightarrow> (Panic p, s, snd f)
      | (Return errno, s) \<Rightarrow>
          if errno = ENOSYS W
          then fallback_second s (sys_FDStatSetRights Q (snd f) fd rightsBase rightsInheriting)
          else (Return errno, s, snd f))"

definition fallback_FDFileStatGet ::
  "'v wasi \<Rightarrow> ('s, 'v) System \<Rightarrow> ('t, 'v) System \<Rightarrow> 's \<times> 't \<Rightarrow> int \<Rightarrow> ('v panic, FileStat \<times> int) outcome \<times> 's \<times> 't" where
  "fallback_FDFileStatGet W P Q f fd =
     (case sys_FDFileStatGet P (fst f) fd of
        (Panic p, s) \<Rightarrow> (Panic p, s, snd f)
      | (Return (stat, errno), s) \<Rightarrow>
          if errno = ENOSYS W
          then fallback_second s (sys_FDFileStatGet Q (snd f) fd)
          else (Return (stat, errno), s, snd f))"

definition fallback_FDFileStatSetSize ::
  "'v wasi \<Rightarrow> ('s, 'v) System \<Rightarrow> ('t, 'v) System \<Rightarrow> 's \<times> 't \<Rightarrow> int \<Rightarrow> int \<Rightarrow> ('v panic, int) outcome \<times> 's \<times> 't" where
  "fallback_FDFileStatSetSize W P Q f fd sz =
     (case sys_FDFileStatSetSize P (fst f) fd sz of
        (Panic p, s) \<Rightarrow> (Panic p, s, snd f)
      | (Return errno, s) \<Rightarrow>
          if errno = ENOSYS W
          then fallback_second s (sys_FDFileStatSetSize Q (snd f) fd sz)
          else (Return errno, s, snd f))"

definition fallback_FDFileStatSetTimes ::
  "'v wasi \<Rightarrow> ('s, 'v) System \<Rightarrow> ('t, 'v) System \<Rightarrow> 's \<times> 't \<Rightarrow> int \<Rightarrow> int \<Rightarrow> int \<Rightarrow> int \<Rightarrow> ('v panic, int) outcome \<times> 's \<times> 't" where
  "fallback_FDFileStatSetTimes W P Q f fd accessTime modifyTime flags =
     (case sys_FDFileStatSetTimes P (fst f) fd accessTime modifyTime flags of
        (Panic p, s) \<Rightarrow> (Panic p, s, snd f)
      | (Return errno, s) \<Rightarrow>
          if errno = ENOSYS W
          then fallback_second s (sys_FDFileStatSetTimes Q (snd f) fd accessTime modifyTime flags)
          else (Return errno, s, snd f))"

definition fallback_FDPread ::
  "'v wasi \<Rightarrow> ('s, 'v) System \<Rightarrow> ('t, 'v) System \<Rightarrow> 's \<times> 't \<Rightarrow> int \<Rightarrow> bytes list \<Rightarrow> int \<Rightarrow> ('v panic, int \<times> int \<times> bytes list) outcome \<times> 's \<times> 't" where
  "fallback_FDPread W P Q f fd iovecs offset =
     (case sys_FDPread P (fst f) fd iovecs offset of
        (Panic p, s) \<Rightarrow> (Panic p, s, snd f)
      | (Return (sz, errno, iovecs), s) \<Rightarrow>
          if errno = ENOSYS W
          then fallback_second s (sys_FDPread Q (snd f) fd iovecs offset)
          else (Return (sz, errno, iovecs), s, snd f))"

definition fallback_FDPreStatGet ::
  "'v wasi \<Rightarrow> ('s, 'v) System \<Rightarrow> ('t, 'v) System \<Rightarrow> 's \<times> 't \<Rightarrow> int \<Rightarrow> ('v panic, PreStat \<times> int) outcome \<times> 's \<times> 't" where
  "fallback_FDPreStatGet W P Q f fd =
     (case sys_FDPreStatGet P (fst f) fd of
        (Panic p, s) \<Rightarrow> (Panic p, s, snd f)
      | (Return (stat, errno), s) \<Rightarrow>
          if errno = ENOSYS W
          then fallback_second s (sys_FDPreStatGet Q (snd f) fd)
          else (Return (stat, errno), s, snd f))"

definition fallback_FDPreStatDirName ::
  "'v wasi \<Rightarrow> ('s, 'v) System \<Rightarrow> ('t, 'v) System \<Rightarrow> 's \<times> 't \<Rightarrow> int \<Rightarrow> ('v panic, bytes \<times> int) outcome \<times> 's \<times> 't" where
  "fallback_FDPreStatDirName W P Q f fd =
     (case sys_FDPreStatDirName P (fst f) fd of
        (Panic p, s) \<Rightarrow> (Panic p, s, snd f)
      | (Return (name, errno), s) \<Rightarrow>
          if errno = ENOSYS W
          then fallback_second s (sys_FDPreStatDirName Q (snd f) fd)
          else (Return (name, errno), s, snd f))"

definition fallback_FDPwrite ::
  "'v wasi \<Rightarrow> ('s, 'v) System \<Rightarrow> ('t, 'v) System \<Rightarrow> 's \<times> 't \<Rightarrow> int \<Rightarrow> bytes list \<Rightarrow> int \<Rightarrow> ('v panic, int \<times> int) outcome \<times> 's \<times> 't" where
  "fallback_FDPwrite W P Q f fd iovecs offset =
     (case sys_FDPwrite P (fst f) fd iovecs offset of
        (Panic p, s) \<Rightarrow> (Panic p, s, snd f)
      | (Return (sz, errno), s) \<Rightarrow>
          if errno = ENOSYS W
          then fallback_second s (sys_FDPwrite Q (snd f) fd iovecs offset)
          else (Return (sz, errno), s, snd f))"

definition fallback_FDRead ::
  "'v wasi \<Rightarrow> ('s, 'v) System \<Rightarrow> ('t, 'v) System \<Rightarrow> 's \<times> 't \<Rightarrow> int \<Rightarrow> bytes list \<Rightarrow> ('v panic, int \<times> int \<times> bytes list) outcome \<times> 's \<times> 't" where
  "fallback_FDRead W P Q f fd iovecs =
     (case sys_FDRead P (fst f) fd iovecs of
        (Panic p, s) \<Rightarrow> (Panic p, s, snd f)
      | (Return (sz, errno, iovecs), s) \<Rightarrow>
          if errno = ENOSYS W
          then fallback_second s (sys_FDRead Q (snd f) fd iovecs)
          else (Return (sz, errno, iovecs), s, snd f))"

definition fallback_FDReadDir ::
  "'v wasi \<Rightarrow> ('s, 'v) System \<Rightarrow> ('t, 'v) System \<Rightarrow> 's \<times> 't \<Rightarrow> int \<Rightarrow> DirEntry list \<Rightarrow> int \<Rightarrow> int \<Rightarrow> ('v panic, int \<times> int \<times> DirEntry list) outcome \<times> 's \<times> 't" where
  "fallback_FDReadDir W P Q f fd entries cookie bufferSizeBytes =
     (case sys_FDReadDir P (fst f) fd entries cookie bufferSizeBytes of
        (Panic p, s) \<Rightarrow> (Panic p, s, snd f)
      | (Return (count, errno, entries), s) \<Rightarrow>
          if errno = ENOSYS W
          then fallback_second s (sys_FDReadDir Q (snd f) fd entries cookie bufferSizeBytes)
          else (Return (count, errno, entries), s, snd f))"

definition fallback_FDRenumber ::
  "'v wasi \<Rightarrow> ('s, 'v) System \<Rightarrow> ('t, 'v) System \<Rightarrow> 's \<times> 't \<Rightarrow> int \<Rightarrow> int \<Rightarrow> ('v panic, int) outcome \<times> 's \<times> 't" where
  "fallback_FDRenumber W P Q f from to =
     (case sys_FDRenumber P (fst f) from to of
        (Panic p, s) \<Rightarrow> (Panic p, s, snd f)
      | (Return errno, s) \<Rightarrow>
          if errno = ENOSYS W
          then fallback_second s (sys_FDRenumber Q (snd f) from to)
          else (Return errno, s, snd f))"

definition fallback_FDSeek ::
  "'v wasi \<Rightarrow> ('s, 'v) System \<Rightarrow> ('t, 'v) System \<Rightarrow> 's \<times> 't \<Rightarrow> int \<Rightarrow> int \<Rightarrow> int \<Rightarrow> ('v panic, int \<times> int) outcome \<times> 's \<times> 't" where
  "fallback_FDSeek W P Q f fd offset whence =
     (case sys_FDSeek P (fst f) fd offset whence of
        (Panic p, s) \<Rightarrow> (Panic p, s, snd f)
      | (Return (sz, errno), s) \<Rightarrow>
          if errno = ENOSYS W
          then fallback_second s (sys_FDSeek Q (snd f) fd offset whence)
          else (Return (sz, errno), s, snd f))"

definition fallback_FDSync ::
  "'v wasi \<Rightarrow> ('s, 'v) System \<Rightarrow> ('t, 'v) System \<Rightarrow> 's \<times> 't \<Rightarrow> int \<Rightarrow> ('v panic, int) outcome \<times> 's \<times> 't" where
  "fallback_FDSync W P Q f fd =
     (case sys_FDSync P (fst f) fd of
        (Panic p, s) \<Rightarrow> (Panic p, s, snd f)
      | (Return errno, s) \<Rightarrow>
          if errno = ENOSYS W
          then fallback_second s (sys_FDSync Q (snd f) fd)
          else (Return errno, s, snd f))"

definition fallback_FDTell ::
  "'v wasi \<Rightarrow> ('s, 'v) System \<Rightarrow> ('t, 'v) System \<Rightarrow> 's \<times> 't \<Rightarrow> int \<Rightarrow> ('v panic, int \<times> int) outcome \<times> 's \<times> 't" where
  "fallback_FDTell W P Q f fd =
     (case sys_FDTell P (fst f) fd of
        (Panic p, s) \<Rightarrow> (Panic p, s, snd f)
      | (Return (sz, errno), s) \<Rightarrow>
          if errno = ENOSYS W
          then fallback_second s (sys_FDTell Q (snd f) fd)
          else (Return (sz, errno), s, snd f))"

definition fallback_FDWrite ::
  "'v wasi \<Rightarrow> ('s, 'v) System \<Rightarrow> ('t, 'v) System \<Rightarrow> 's \<times> 't \<Rightarrow> int \<Rightarrow> bytes list \<Rightarrow> ('v panic, int \<times> int) outcome \<times> 's \<times> 't" where
  "fallback_FDWrite W P Q f fd iovecs =
     (case sys_FDWrite P (fst f) fd iovecs of
        (Panic p, s) \<Rightarrow> (Panic p, s, snd f)
      | (Return (sz, errno), s) \<Rightarrow>
          if errno = ENOSYS W
          then fallback_second s (sys_FDWrite Q (snd f) fd iovecs)
          else (Return (sz, errno), s, snd f))"

definition fallback_PathCreateDirectory ::
  "'v wasi \<Rightarrow> ('s, 'v) System \<Rightarrow> ('t, 'v) System \<Rightarrow> 's \<times> 't \<Rightarrow> int \<Rightarrow> bytes \<Rightarrow> ('v panic, int) outcome \<times> 's \<times> 't" where
  "fallback_PathCreateDirectory W P Q f fd path =
     (case sys_PathCreateDirectory P (fst f) fd path of
        (Panic p, s) \<Rightarrow> (Panic p, s, snd f)
      | (Return errno, s) \<Rightarrow>
          if errno = ENOSYS W
          then fallback_second s (sys_PathCreateDirectory Q (snd f) fd path)
          else (Return errno, s, snd f))"

definition fallback_PathFileStatGet ::
  "'v wasi \<Rightarrow> ('s, 'v) System \<Rightarrow> ('t, 'v) System \<Rightarrow> 's \<times> 't \<Rightarrow> int \<Rightarrow> int \<Rightarrow> bytes \<Rightarrow> ('v panic, FileStat \<times> int) outcome \<times> 's \<times> 't" where
  "fallback_PathFileStatGet W P Q f fd lookupFlags path =
     (case sys_PathFileStatGet P (fst f) fd lookupFlags path of
        (Panic p, s) \<Rightarrow> (Panic p, s, snd f)
      | (Return (stat, errno), s) \<Rightarrow>
          if errno = ENOSYS W
          then fallback_second s (sys_PathFileStatGet Q (snd f) fd lookupFlags path)
          else (Return (stat, errno), s, snd f))"

definition fallback_PathFileStatSetTimes ::
  "'v wasi \<Rightarrow> ('s, 'v) System \<Rightarrow> ('t, 'v) System \<Rightarrow> 's \<times> 't \<Rightarrow> int \<Rightarrow> int \<Rightarrow> bytes \<Rightarrow> int \<Rightarrow> int \<Rightarrow> int \<Rightarrow> ('v panic, int) outcome \<times> 's \<times> 't" where
  "fallback_PathFileStatSetTimes W P Q f fd lookupFlags path accessTime modifyTime flags =
     (case sys_PathFileStatSetTimes P (fst f) fd lookupFlags path accessTime modifyTime flags of
        (Panic p, s) \<Rightarrow> (Panic p, s, snd f)
      | (Return errno, s) \<Rightarrow>
          if errno = ENOSYS W
          then fallback_second s (sys_PathFileStatSetTimes Q (snd f) fd lookupFlags path accessTime modifyTime flags)
          else (Return errno, s, snd f))"

definition fallback_PathLink ::
  "'v wasi \<Rightarrow> ('s, 'v) System \<Rightarrow> ('t, 'v) System \<Rightarrow> 's \<times> 't \<Rightarrow> int \<Rightarrow> int \<Rightarrow> bytes \<Rightarrow> int \<Rightarrow> bytes \<Rightarrow> ('v panic, int) outcome \<times> 's \<times> 't" where
  "fallback_PathLink W P Q f oldFD oldFlags oldPath newFD newPath =
     (case sys_PathLink P (fst f) oldFD oldFlags oldPath newFD newPath of
        (Panic p, s) \<Rightarrow> (Panic p, s, snd f)
      | (Return errno, s) \<Rightarrow>
          if errno = ENOSYS W
          then fallback_second s (sys_PathLink Q (snd f) oldFD oldFlags oldPath newFD newPath)
          else (Return errno, s, snd f))"

definition fallback_PathOpen ::
  "'v wasi \<Rightarrow> ('s, 'v) System \<Rightarrow> ('t, 'v) System \<Rightarrow> 's \<times> 't \<Rightarrow> int \<Rightarrow> int \<Rightarrow> bytes \<Rightarrow> int \<Rightarrow> int \<Rightarrow> int \<Rightarrow> int \<Rightarrow> ('v panic, int \<times> int) outcome \<times> 's \<times> 't" where
  "fallback_PathOpen W P Q f fd dirFlags path openFlags rightsBase rightsInheriting fdFlags =
     (case sys_PathOpen P (fst f) fd dirFlags path openFlags rightsBase rightsInheriting fdFlags of
        (Panic p, s) \<Rightarrow> (Panic p, s, snd f)
      | (Return (newfd, errno), s) \<Rightarrow>
          if errno = ENOSYS W
          then fallback_second s (sys_PathOpen Q (snd f) fd dirFlags path openFlags rightsBase rightsInheriting fdFlags)
          else (Return (newfd, errno), s, snd f))"

definition fallback_PathReadLink ::
  "'v wasi \<Rightarrow> ('s, 'v) System \<Rightarrow> ('t, 'v) System \<Rightarrow> 's \<times> 't \<Rightarrow> int \<Rightarrow> bytes \<Rightarrow> bytes \<Rightarrow> ('v panic, int \<times> int \<times> bytes) outcome \<times> 's \<times> 't" where
  "fallback_PathReadLink W P Q f fd path buffer =
     (case sys_PathReadLink P (fst f) fd path buffer of
        (Panic p, s) \<Rightarrow> (Panic p, s, snd f)
      | (Return (n, errno, buffer), s) \<Rightarrow>
          if errno = ENOSYS W
          then fallback_second s (sys_PathReadLink Q (snd f) fd path buffer)
          else (Return (n, errno, buffer), s, snd f))"

definition fallback_PathRemoveDirectory ::
  "'v wasi \<Rightarrow> ('s, 'v) System \<Rightarrow> ('t, 'v) System \<Rightarrow> 's \<times> 't \<Rightarrow> int \<Rightarrow> bytes \<Rightarrow> ('v panic, int) outcome \<times> 's \<times> 't" where
  "fallback_PathRemoveDirectory W P Q f fd path =
     (case sys_PathRemoveDirectory P (fst f) fd path of
        (Panic p, s) \<Rightarrow> (Panic p, s, snd f)
      | (Return errno, s) \<Rightarrow>
          if errno = ENOSYS W
          then fallback_second s (sys_PathRemoveDirectory Q (snd f) fd path)
          else (Return errno, s, snd f))"

definition fallback_PathRename ::
  "'v wasi \<Rightarrow> ('s, 'v) System \<Rightarrow> ('t, 'v) System \<Rightarrow> 's \<times> 't \<Rightarrow> int \<Rightarrow> bytes \<Rightarrow> int \<Rightarrow> bytes \<Rightarrow> ('v panic, int) outcome \<times> 's \<times> 't" where
  "fallback_PathRename W P Q f fd oldPath newFD newPath =
     (case sys_PathRename P (fst f) fd oldPath newFD newPath of
        (Panic p, s) \<Rightarrow> (Panic p, s, snd f)
      | (Return errno, s) \<Rightarrow>
          if errno = ENOSYS W
          then fallback_second s (sys_PathRename Q (snd f) fd oldPath newFD newPath)
          else (Return errno, s, snd f))"

definition fallback_PathSymlink ::
  "'v wasi \<Rightarrow> ('s, 'v) System \<Rightarrow> ('t, 'v) System \<Rightarrow> 's \<times> 't \<Rightarrow> bytes \<Rightarrow> int \<Rightarrow> bytes \<Rightarrow> ('v panic, int) outcome \<times> 's \<times> 't" where
  "fallback_PathSymlink W P Q f oldPath fd newPath =
     (case sys_PathSymlink P (fst f) oldPath fd newPath of
        (Panic p, s) \<Rightarrow> (Panic p, s, snd f)
      | (Return errno, s) \<Rightarrow>
          if errno = ENOSYS W
          then fallback_second s (sys_PathSymlink Q (snd f) oldPath fd newPath)
          else (Return errno, s, snd f))"

definition fallback_PathUnlinkFile ::
  "'v wasi \<Rightarrow> ('s, 'v) System \<Rightarrow> ('t, 'v) System \<Rightarrow> 's \<times> 't \<Rightarrow> int \<Rightarrow> bytes \<Rightarrow> ('v panic, int) outcome \<times> 's \<times> 't" where
  "fallback_PathUnlinkFile W P Q f fd path =
     (case sys_PathUnlinkFile P (fst f) fd path of
        (Panic p, s) \<Rightarrow> (Panic p, s, snd f)
      | (Return errno, s) \<Rightarrow>
          if errno = ENOSYS W
          then fallback_second s (sys_PathUnlinkFile Q (snd f) fd path)
          else (Return errno, s, snd f))"

definition fallback_PollOneOff ::
  "'v wasi \<Rightarrow> ('s, 'v) System \<Rightarrow> ('t, 'v) System \<Rightarrow> 's \<times> 't \<Rightarrow> 'v Subscription list \<Rightarrow> Event list \<Rightarrow> ('v panic, int \<times> int \<times> Event list) outcome \<times> 's \<times> 't" where
  "fallback_PollOneOff W P Q f subscriptions events =
     (case sys_PollOneOff P (fst f) subscriptions events of
        (Panic p, s) \<Rightarrow> (Panic p, s, snd f)
      | (Return (count, errno, events), s) \<Rightarrow>
          if errno = ENOSYS W
          then fallback_second s (sys_PollOneOff Q (snd f) subscriptions events)
          else (Return (count, errno, events), s, snd f))"

definition fallback_ProcExit ::
  "'v wasi \<Rightarrow> ('s, 'v) System \<Rightarrow> ('t, 'v) System \<Rightarrow> 's \<times> 't \<Rightarrow> int \<Rightarrow> ('v panic, int) outcome \<times> 's \<times> 't" where
  "fallback_ProcExit W P Q f exitCode =
     (case sys_ProcExit P (fst f) exitCode of
        (Panic p, s) \<Rightarrow> (Panic p, s, snd f)
      | (Return errno, s) \<Rightarrow>
          if errno = ENOSYS W
          then fallback_second s (sys_ProcExit Q (snd f) exitCode)
          else (Return errno, s, snd f))"

definition fallback_ProcRaise ::
  "'v wasi \<Rightarrow> ('s, 'v) System \<Rightarrow> ('t, 'v) System \<Rightarrow> 's \<times> 't \<Rightarrow> int \<Rightarrow> ('v panic, int) outcome \<times> 's \<times> 't" where
  "fallback_ProcRaise W P Q f signal =
     (case sys_ProcRaise P (fst f) signal of
        (Panic p, s) \<Rightarrow> (Panic p, s, snd f)
      | (Return errno, s) \<Rightarrow>
          if errno = ENOSYS W
          then fallback_second s (sys_ProcRaise Q (snd f) signal)
          else (Return errno, s, snd f))"

definition fallback_SchedYield ::
  "'v wasi \<Rightarrow> ('s, 'v) System \<Rightarrow> ('t, 'v) System \<Rightarrow> 's \<times> 't \<Rightarrow> ('v panic, int) outcome \<times> 's \<times> 't" where
  "fallback_SchedYield W P Q f =
     (case sys_SchedYield P (fst f) of
        (Panic p, s) \<Rightarrow> (Panic p, s, snd f)
      | (Return errno, s) \<Rightarrow>
          if errno = ENOSYS W
          then fallback_second s (sys_SchedYield Q (snd f))
          else (Return errno, s, snd f))"

definition fallback_RandomGet ::
  "'v wasi \<Rightarrow> ('s, 'v) System \<Rightarrow> ('t, 'v) System \<Rightarrow> 's \<times> 't \<Rightarrow> bytes \<Rightarrow> ('v panic, int \<times> bytes) outcome \<times> 's \<times> 't" where
  "fallback_RandomGet W P Q f b =
     (case sys_RandomGet P (fst f) b of
        (Panic p, s) \<Rightarrow> (Panic p, s, snd f)
      | (Return (errno, b), s) \<Rightarrow>
          if errno = ENOSYS W
          then fallback_second s (sys_RandomGet Q (snd f) b)
          else (Return (errno, b), s, snd f))"

definition fallback_SockAccept ::
  "'v wasi \<Rightarrow> ('s, 'v) System \<Rightarrow> ('t, 'v) System \<Rightarrow> 's \<times> 't \<Rightarrow> int \<Rightarrow> int \<Rightarrow> ('v panic, int \<times> SocketAddress \<times> SocketAddress \<times> int) outcome \<times> 's \<times> 't" where
  "fallback_SockAccept W P Q f fd flags =
     (case sys_SockAccept P (fst f) fd flags of
        (Panic p, s) \<Rightarrow> (Panic p, s, snd f)
      | (Return (newfd, peer, addr, errno), s) \<Rightarrow>
          if errno = ENOSYS W
          then fallback_second s (sys_SockAccept Q (snd f) fd flags)
          else (Return (newfd, peer, addr, errno), s, snd f))"

definition fallback_SockRecv ::
  "'v wasi \<Rightarrow> ('s, 'v) System \<Rightarrow> ('t, 'v) System \<Rightarrow> 's \<times> 't \<Rightarrow> int \<Rightarrow> bytes list \<Rightarrow> int \<Rightarrow> ('v panic, int \<times> int \<times> int \<times> bytes list) outcome \<times> 's \<times> 't" where
  "fallback_SockRecv W P Q f fd iovecs iflags =
     (case sys_SockRecv P (fst f) fd iovecs iflags of
        (Panic p, s) \<Rightarrow> (Panic p, s, snd f)
      | (Return (sz, oflags, errno, iovecs), s) \<Rightarrow>
          if errno = ENOSYS W
          then fallback_second s (sys_SockRecv Q (snd f) fd iovecs iflags)
          else (Return (sz, oflags, errno, iovecs), s, snd f))"

definition fallback_SockSend ::
  "'v wasi \<Rightarrow> ('s, 'v) System \<Rightarrow> ('t, 'v) System \<Rightarrow> 's \<times> 't \<Rightarrow> int \<Rightarrow> bytes list \<Rightarrow> int \<Rightarrow> ('v panic, int \<times> int) outcome \<times> 's \<times> 't" where
  "fallback_SockSend W P Q f fd iovecs flags =
     (case sys_SockSend P (fst f) fd iovecs flags of
        (Panic p, s) \<Rightarrow> (Panic p, s, snd f)
      | (Return (sz, errno), s) \<Rightarrow>
          if errno = ENOSYS W
          then fallback_second s (sys_SockSend Q (snd f) fd iovecs flags)
          else (Return (sz, errno), s, snd f))"

definition fallback_SockShutdown ::
  "'v wasi \<Rightarrow> ('s, 'v) System \<Rightarrow> ('t, 'v) System \<Rightarrow> 's \<times> 't \<Rightarrow> int \<Rightarrow> int \<Rightarrow> ('v panic, int) outcome \<times> 's \<times> 't" where
  "fallback_SockShutdown W P Q f fd flags =
     (case sys_SockShutdown P (fst f) fd flags of
        (Panic p, s) \<Rightarrow> (Panic p, s, snd f)
      | (Return errno, s) \<Rightarrow>
          if errno = ENOSYS W
          then fallback_second s (sys_SockShutdown Q (snd f) fd flags)
          else (Return errno, s, snd f))"

definition fallback_SockOpen ::
  "'v wasi \<Rightarrow> ('s, 'v) System \<Rightarrow> ('t, 'v) System \<Rightarrow> 's \<times> 't \<Rightarrow> int \<Rightarrow> int \<Rightarrow> int \<Rightarrow> int \<Rightarrow> int \<Rightarrow> ('v panic, int \<times> int) outcome \<times> 's \<times> 't" where
  "fallback_SockOpen W P Q f family socketType protocol rightsBase rightsInheriting =
     (case sys_SockOpen P (fst f) family socketType protocol rightsBase rightsInheriting of
        (Panic p, s) \<Rightarrow> (Panic p, s, snd f)
      | (Return (newfd, errno), s) \<Rightarrow>
          if errno = ENOSYS W
          then fallback_second s (sys_SockOpen Q (snd f) family socketType protocol rightsBase rightsInheriting)
          else (Return (newfd, errno), s, snd f))"

definition fallback_SockBind ::
  "'v wasi \<Rightarrow> ('s, 'v) System \<Rightarrow> ('t, 'v) System \<Rightarrow> 's \<times> 't \<Rightarrow> int \<Rightarrow> SocketAddress \<Rightarrow> ('v panic, SocketAddress \<times> int) outcome \<times> 's \<times> 't" where
  "fallback_SockBind W P Q f fd bindAddr =
     (case sys_SockBind P (fst f) fd bindAddr of
        (Panic p, s) \<Rightarrow> (Panic p, s, snd f)
      | (Return (addr, errno), s) \<Rightarrow>
          if errno = ENOSYS W
          then fallback_second s (sys_SockBind Q (snd f) fd bindAddr)
          else (Return (addr, errno), s, snd f))"

definition fallback_SockConnect ::
  "'v wasi \<Rightarrow> ('s, 'v) System \<Rightarrow> ('t, 'v) System \<Rightarrow> 's \<times> 't \<Rightarrow> int \<Rightarrow> SocketAddress \<Rightarrow> ('v panic, SocketAddress \<times> int) outcome \<times> 's \<times> 't" where
  "fallback_SockConnect W P Q f fd peer =
     (case sys_SockConnect P (fst f) fd peer of
        (Panic p, s) \<Rightarrow> (Panic p, s, snd f)
      | (Return (addr, errno), s) \<Rightarrow>
          if errno = ENOSYS W
          then fallback_second s (sys_SockConnect Q (snd f) fd peer)
          else (Return (addr, errno), s, snd f))"

definition fallback_SockListen ::
  "'v wasi \<Rightarrow> ('s, 'v) System \<Rightarrow> ('t, 'v) System \<Rightarrow> 's \<times> 't \<Rightarrow> int \<Rightarrow> int \<Rightarrow> ('v panic, int) outcome \<times> 's \<times> 't" where
  "fallback_SockListen W P Q f fd backlog =
     (case sys_SockListen P (fst f) fd backlog of
        (Panic p, s) \<Rightarrow> (Panic p, s, snd f)
      | (Return errno, s) \<Rightarrow>
          if errno = ENOSYS W
          then fallback_second s (sys_SockListen Q (snd f) fd backlog)
          else (Return errno, s, snd f))"

definition fallback_SockSendTo ::
  "'v wasi \<Rightarrow> ('s, 'v) System \<Rightarrow> ('t, 'v) System \<Rightarrow> 's \<times> 't \<Rightarrow> int \<Rightarrow> bytes list \<Rightarrow> int \<Rightarrow> SocketAddress \<Rightarrow> ('v panic, int \<times> int) outcome \<times> 's \<times> 't" where
  "fallback_SockSendTo W P Q f fd iovecs flags addr =
     (case sys_SockSendTo P (fst f) fd iovecs flags addr of
        (Panic p, s) \<Rightarrow> (Panic p, s, snd f)
      | (Return (sz, errno), s) \<Rightarrow>
          if errno = ENOSYS W
          then fallback_second s (sys_SockSendTo Q (snd f) fd iovecs flags addr)
          else (Return (sz, errno), s, snd f))"

definition fallback_SockRecvFrom ::
  "'v wasi \<Rightarrow> ('s, 'v) System \<Rightarrow> ('t, 'v) System \<Rightarrow> 's \<times> 't \<Rightarrow> int \<Rightarrow> bytes list \<Rightarrow> int \<Rightarrow> ('v panic, int \<times> int \<times> SocketAddress \<times> int \<times> bytes list) outcome \<times> 's \<times> 't" where
  "fallback_SockRecvFrom W P Q f fd iovecs flags =
     (case sys_SockRecvFrom P (fst f) fd iovecs flags of
        (Panic p, s) \<Rightarrow> (Panic p, s, snd f)
      | (Return (sz, oflags, addr, errno, iovecs), s) \<Rightarrow>
          if errno = ENOSYS W
          then fallback_second s (sys_SockRecvFrom Q (snd f) fd iovecs flags)
          else (Return (sz, oflags, addr, errno, iovecs), s, snd f))"

definition fallback_SockGetOpt ::
  "'v wasi \<Rightarrow> ('s, 'v) System \<Rightarrow> ('t, 'v) System \<Rightarrow> 's \<times> 't \<Rightarrow> int \<Rightarrow> int \<Rightarrow> ('v panic, SocketOptionValue \<times> int) outcome \<times> 's \<times> 't" where
  "fallback_SockGetOpt W P Q f fd opt =
     (case sys_SockGetOpt P (fst f) fd opt of
        (Panic p, s) \<Rightarrow> (Panic p, s, snd f)
      | (Return (value, errno), s) \<Rightarrow>
          if errno = ENOSYS W
          then fallback_second s (sys_SockGetOpt Q (snd f) fd opt)
          else (Return (value, errno), s, snd f))"

definition fallback_SockSetOpt ::
  "'v wasi \<Rightarrow> ('s, 'v) System \<Rightarrow> ('t, 'v) System \<Rightarrow> 's \<times> 't \<Rightarrow> int \<Rightarrow> int \<Rightarrow> SocketOptionValue \<Rightarrow> ('v panic, int) outcome \<times> 's \<times> 't" where
  "fallback_SockSetOpt W P Q f fd opt value =
     (case sys_SockSetOpt P (fst f) fd opt value of
        (Panic p, s) \<Rightarrow> (Panic p, s, snd f)
      | (Return errno, s) \<Rightarrow>
          if errno = ENOSYS W
          then fallback_second s (sys_SockSetOpt Q (snd f) fd opt value)
          else (Return errno, s, snd f))"

definition fallback_SockLocalAddress ::
  "'v wasi \<Rightarrow> ('s, 'v) System \<Rightarrow> ('t, 'v) System \<Rightarrow> 's \<times> 't \<Rightarrow> int \<Rightarrow> ('v panic, SocketAddress \<times> int) outcome \<times> 's \<times> 't" where
  "fallback_SockLocalAddress W P Q f fd =
     (case sys_SockLocalAddress P (fst f) fd of
        (Panic p, s) \<Rightarrow> (Panic p, s, snd f)
      | (Return (addr, errno), s) \<Rightarrow>
          if errno = ENOSYS W
          then fallback_second s (sys_SockLocalAddress Q (snd f) fd)
          else (Return (addr, errno), s, snd f))"

definition fallback_SockRemoteAddress ::
  "'v wasi \<Rightarrow> ('s, 'v) System \<Rightarrow> ('t, 'v) System \<Rightarrow> 's \<times> 't \<Rightarrow> int \<Rightarrow> ('v panic, SocketAddress \<times> int) outcome \<times> 's \<times> 't" where
  "fallback_SockRemoteAddress W P Q f fd =
     (case sys_SockRemoteAddress P (fst f) fd of
        (Panic p, s) \<Rightarrow> (Panic p, s, snd f)
      | (Return (addr, errno), s) \<Rightarrow>
          if errno = ENOSYS W
          then fallback_second s (sys_SockRemoteAddress Q (snd f) fd)
          else (Return (addr, errno), s, snd f))"

definition fallback_SockAddressInfo ::
  "'v wasi \<Rightarrow> ('s, 'v) System \<Rightarrow> ('t, 'v) System \<Rightarrow> 's \<times> 't \<Rightarrow> bytes \<Rightarrow> bytes \<Rightarrow> AddressInfo \<Rightarrow> AddressInfo list \<Rightarrow> ('v panic, int \<times> int \<times> AddressInfo list) outcome \<times> 's \<times> 't" where
  "fallback_SockAddressInfo W P Q f name service hints results =
     (case sys_SockAddressInfo P (fst f) name service hints results of
        (Panic p, s) \<Rightarrow> (Panic p, s, snd f)
      | (Return (n, errno, results), s) \<Rightarrow>
          if errno = ENOSYS W
          then fallback_second s (sys_SockAddressInfo Q (snd f) name service hints results)
          else (Return (n, errno, results), s, snd f))"

definition NewFallbackSystem ::
  "'v wasi \<Rightarrow> ('s, 'v) System \<Rightarrow> ('t, 'v) System \<Rightarrow> ('s \<times> 't, 'v) System" where
  "NewFallbackSystem W P Q =
     \<lparr>sys_ArgsSizesGet = fallback_ArgsSizesGet W P Q,
      sys_ArgsGet = fallback_ArgsGet W P Q,
      sys_EnvironSizesGet = fallback_EnvironSizesGet W P Q,
      sys_EnvironGet = fallback_EnvironGet W P Q,
      sys_ClockResGet = fallback_ClockResGet W P Q,
      sys_ClockTimeGet = fallback_ClockTimeGet W P Q,
      sys_FDAdvise = fallback_FDAdvise W P Q,
      sys_FDAllocate = fallback_FDAllocate W P Q,
      sys_FDClose = fallback_FDClose W P Q,
      sys_FDDataSync = fallback_FDDataSync W P Q,
      sys_FDStatGet = fallback_FDStatGet W P Q,
      sys_FDStatSetFlags = fallback_FDStatSetFlags W P Q,
      sys_FDStatSetRights = fallback_FDStatSetRights W P Q,
      sys_FDFileStatGet = fallback_FDFileStatGet W P Q,
      sys_FDFileStatSetSize = fallback_FDFileStatSetSize W P Q,
      sys_FDFileStatSetTimes = fallback_FDFileStatSetTimes W P Q,
      sys_FDPread = fallback_FDPread W P Q,
      sys_FDPreStatGet = fallback_FDPreStatGet W P Q,
      sys_FDPreStatDirName = fallback_FDPreStatDirName W P Q,
      sys_FDPwrite = fallback_FDPwrite W P Q,
      sys_FDRead = fallback_FDRead W P Q,
      sys_FDReadDir = fallback_FDReadDir W P Q,
      sys_FDRenumber = fallback_FDRenumber W P Q,
      sys_FDSeek = fallback_FDSeek W P Q,
      sys_FDSync = fallback_FDSync W P Q,
      sys_FDTell = fallback_FDTell W P Q,
      sys_FDWrite = fallback_FDWrite W P Q,
      sys_PathCreateDirectory = fallback_PathCreateDirectory W P Q,
      sys_PathFileStatGet = fallback_PathFileStatGet W P Q,
      sys_PathFileStatSetTimes = fallback_PathFileStatSetTimes W P Q,
      sys_PathLink = fallback_PathLink W P Q,
      sys_PathOpen = fallback_PathOpen W P Q,
      sys_PathReadLink = fallback_PathReadLink W P Q,
      sys_PathRemoveDirectory = fallback_PathRemoveDirectory W P Q,
      sys_PathRename = fallback_PathRename W P Q,
      sys_PathSymlink = fallback_PathSymlink W P Q,
      sys_PathUnlinkFile = fallback_PathUnlinkFile W P Q,
      sys_PollOneOff = fallback_PollOneOff W P Q,
      sys_ProcExit = fallback_ProcExit W P Q,
      sys_ProcRaise = fallback_ProcRaise W P Q,
      sys_SchedYield = fallback_SchedYield W P Q,
      sys_RandomGet = fallback_RandomGet W P Q,
      sys_SockAccept = fallback_SockAccept W P Q,
      sys_SockRecv = fallback_SockRecv W P Q,
      sys_SockSend = fallback_SockSend W P Q,
      sys_SockShutdown = fallback_SockShutdown W P Q,
      sys_SockOpen = fallback_SockOpen W P Q,
      sys_SockBind = fallback_SockBind W P Q,
      sys_SockConnect = fallback_SockConnect W P Q,
      sys_SockListen = fallback_SockListen W P Q,
      sys_SockSendTo = fallback_SockSendTo W P Q,
      sys_SockRecvFrom = fallback_SockRecvFrom W P Q,
      sys_SockGetOpt = fallback_SockGetOpt W P Q,
      sys_SockSetOpt = fallback_SockSetOpt W P Q,
      sys_SockLocalAddress = fallback_SockLocalAddress W P Q,
      sys_SockRemoteAddress = fallback_SockRemoteAddress W P Q,
      sys_SockAddressInfo = fallback_SockAddressInfo W P Q\<rparr>"

lemmas fallback_defs =
  fallback_ArgsSizesGet_def fallback_ArgsGet_def fallback_EnvironSizesGet_def
  fallback_EnvironGet_def fallback_ClockResGet_def fallback_ClockTimeGet_def fallback_FDAdvise_def
  fallback_FDAllocate_def fallback_FDClose_def fallback_FDDataSync_def fallback_FDStatGet_def
  fallback_FDStatSetFlags_def fallback_FDStatSetRights_def fallback_FDFileStatGet_def
  fallback_FDFileStatSetSize_def fallback_FDFileStatSetTimes_def fallback_FDPread_def
  fallback_FDPreStatGet_def fallback_FDPreStatDirName_def fallback_FDPwrite_def
  fallback_FDRead_def fallback_FDReadDir_def fallback_FDRenumber_def fallback_FDSeek_def
  fallback_FDSync_def fallback_FDTell_def fallback_FDWrite_def fallback_PathCreateDirectory_def
  fallback_PathFileStatGet_def fallback_PathFileStatSetTimes_def fallback_PathLink_def
  fallback_PathOpen_def fallback_PathReadLink_def fallback_PathRemoveDirectory_def
  fallback_PathRename_def fallback_PathSymlink_def fallback_PathUnlinkFile_def
  fallback_PollOneOff_def fallback_ProcExit_def fallback_ProcRaise_def fallback_SchedYield_def
  fallback_RandomGet_def fallback_SockAccept_def fallback_SockRecv_def fallback_SockSend_def
  fallback_SockShutdown_def fallback_SockOpen_def fallback_SockBind_def fallback_SockConnect_def
  fallback_SockListen_def fallback_SockSendTo_def fallback_SockRecvFrom_def
  fallback_SockGetOpt_def fallback_SockSetOpt_def fallback_SockLocalAddress_def
  fallback_SockRemoteAddress_def fallback_SockAddressInfo_def

section \<open>Laws\<close>

text \<open>Both constant systems keep the promises of a system: they touch no slice.\<close>

lemma errno_wasi_system: "wasi_system (NewErrnoSystem e)"
  by unfold_locales (auto simp: NewErrnoSystem_def errno_defs)

interpretation errno: wasi_system "NewErrnoSystem e"
  by (rule errno_wasi_system)

interpretation exit: wasi_system "NewExitSystem code"
  by unfold_locales (auto simp: NewExitSystem_def exit_defs)

lemma sys_call_errno: "\<exists>s. sys_call (NewErrnoSystem e) u c = (Return s, u) \<and> Syscall_Error s = e"
proof (cases c)
  case (EnvCall x)
  then show ?thesis
    by (cases x) (simp_all add: NewErrnoSystem_def errno_defs map_return_def)
next
  case (FDCall x)
  then show ?thesis
    by (cases x) (simp_all add: NewErrnoSystem_def errno_defs map_return_def)
next
  case (PathCall x)
  then show ?thesis
    by (cases x) (simp_all add: NewErrnoSystem_def errno_defs map_return_def)
next
  case (ProcCall x)
  then show ?thesis
    by (cases x) (simp_all add: NewErrnoSystem_def errno_defs map_return_def)
next
  case (SockCall x)
  then show ?thesis
    by (cases x) (simp_all add: NewErrnoSystem_def errno_defs map_return_def)
qed

lemma sys_call_exit: "sys_call (NewExitSystem code) u c = (Panic (newExitError code), u)"
proof (cases c)
  case (EnvCall x)
  then show ?thesis
    by (cases x) (simp_all add: NewExitSystem_def exit_defs map_return_def)
next
  case (FDCall x)
  then show ?thesis
    by (cases x) (simp_all add: NewExitSystem_def exit_defs map_return_def)
next
  case (PathCall x)
  then show ?thesis
    by (cases x) (simp_all add: NewExitSystem_def exit_defs map_return_def)
next
  case (ProcCall x)
  then show ?thesis
    by (cases x) (simp_all add: NewExitSystem_def exit_defs map_return_def)
next
  case (SockCall x)
  then show ?thesis
    by (cases x) (simp_all add: NewExitSystem_def exit_defs map_return_def)
qed

text \<open>What the primary system answers stands, unless it is \<^verbatim>\<open>ENOSYS\<close>.\<close>

lemma env_fallback_answered:
  assumes "env_call P s c = (Return r, s')" "env_Error r \<noteq> ENOSYS W"
  shows "env_call (NewFallbackSystem W P Q) (s, t) c = (Return r, s', t)"
  using assms
  by (cases c) (auto simp: NewFallbackSystem_def fallback_defs map_return_def
      split: prod.splits outcome.splits if_splits)

lemma env_fallback_panics:
  assumes "env_call P s c = (Panic p, s')"
  shows "env_call (NewFallbackSystem W P Q) (s, t) c = (Panic p, s', t)"
  using assms
  by (cases c) (auto simp: NewFallbackSystem_def fallback_defs map_return_def
      split: prod.splits outcome.splits if_splits)

lemma env_fallback_exit:
  assumes "env_call P s c = (Return r, s')" "env_Error r = ENOSYS W"
  shows "env_call (NewFallbackSystem W P (NewExitSystem code)) (s, u) c
    = (Panic (newExitError code), s', u)"
  using assms
  by (cases c) (auto simp: NewFallbackSystem_def fallback_defs NewExitSystem_def exit_defs
      fallback_second_def map_return_def
      split: prod.splits outcome.splits if_splits)

lemma env_fallback_unimplemented:
  "env_call (NewFallbackSystem W (NewErrnoSystem (ENOSYS W)) Q) (u, t) c
     = fallback_second u (env_call Q t c)"
  by (cases c) (auto simp: NewFallbackSystem_def fallback_defs NewErrnoSystem_def errno_defs
      fallback_second_def map_return_def split: prod.splits outcome.splits)

lemma fd_fallback_answered:
  assumes "fd_call P s c = (Return r, s')" "fd_Error r \<noteq> ENOSYS W"
  shows "fd_call (NewFallbackSystem W P Q) (s, t) c = (Return r, s', t)"
  using assms
  by (cases c) (auto simp: NewFallbackSystem_def fallback_defs map_return_def
      split: prod.splits outcome.splits if_splits)

lemma fd_fallback_panics:
  assumes "fd_call P s c = (Panic p, s')"
  shows "fd_call (NewFallbackSystem W P Q) (s, t) c = (Panic p, s', t)"
  using assms
  by (cases c) (auto simp: NewFallbackSystem_def fallback_defs map_return_def
      split: prod.splits outcome.splits if_splits)

lemma fd_fallback_exit:
  assumes "fd_call P s c = (Return r, s')" "fd_Error r = ENOSYS W"
  shows "fd_call (NewFallbackSystem W P (NewExitSystem code)) (s, u) c
    = (Panic (newExitError code), s', u)"
  using assms
  by (cases c) (auto simp: NewFallbackSystem_def fallback_defs NewExitSystem_def exit_defs
      fallback_second_def map_return_def
      split: prod.splits outcome.splits if_splits)

lemma fd_fallback_unimplemented:
  "fd_call (NewFallbackSystem W (NewErrnoSystem (ENOSYS W)) Q) (u, t) c
     = fallback_second u (fd_call Q t c)"
  by (cases c) (auto simp: NewFallbackSystem_def fallback_defs NewErrnoSystem_def errno_defs
      fallback_second_def map_return_def split: prod.splits outcome.splits)

lemma path_fallback_answered:
  assumes "path_call P s c = (Return r, s')" "path_Error r \<noteq> ENOSYS W"
  shows "path_call (NewFallbackSystem W P Q) (s, t) c = (Return r, s', t)"
  using assms
  by (cases c) (auto simp: NewFallbackSystem_def fallback_defs map_return_def
      split: prod.splits outcome.splits if_splits)

lemma path_fallback_panics:
  assumes "path_call P s c = (Panic p, s')"
  shows "path_call (NewFallbackSystem W P Q) (s, t) c = (Panic p, s', t)"
  using assms
  by (cases c) (auto simp: NewFallbackSystem_def fallback_defs map_return_def
      split: prod.splits outcome.splits if_splits)

lemma path_fallback_exit:
  assumes "path_call P s c = (Return r, s')" "path_Error r = ENOSYS W"
  shows "path_call (NewFallbackSystem W P (NewExitSystem code)) (s, u) c
    = (Panic (newExitError code), s', u)"
  using assms
  by (cases c) (auto simp: NewFallbackSystem_def fallback_defs NewExitSystem_def exit_defs
      fallback_second_def map_return_def
      split: prod.splits outcome.splits if_splits)

lemma path_fallback_unimplemented:
  "path_call (NewFallbackSystem W (NewErrnoSystem (ENOSYS W)) Q) (u, t) c
     = fallback_second u (path_call Q t c)"
  by (cases c) (auto simp: NewFallbackSystem_def fallback_defs NewErrnoSystem_def errno_defs
      fallback_second_def map_return_def split: prod.splits outcome.splits)

lemma proc_fallback_answered:
  assumes "proc_call P s c = (Return r, s')" "proc_Error r \<noteq> ENOSYS W"
  shows "proc_call (NewFallbackSystem W P Q) (s, t) c = (Return r, s', t)"
  using assms
  by (cases c) (auto simp: NewFallbackSystem_def fallback_defs map_return_def
      split: prod.splits outcome.splits if_splits)

lemma proc_fallback_panics:
  assumes "proc_call P s c = (Panic p, s')"
  shows "proc_call (NewFallbackSystem W P Q) (s, t) c = (Panic p, s', t)"
  using assms
  by (cases c) (auto simp: NewFallbackSystem_def fallback_defs map_return_def
      split: prod.splits outcome.splits if_splits)

lemma proc_fallback_exit:
  assumes "proc_call P s c = (Return r, s')" "proc_Error r = ENOSYS W"
  shows "proc_call (NewFallbackSystem W P (NewExitSystem code)) (s, u) c
    = (Panic (newExitError code), s', u)"
  using assms
  by (cases c) (auto simp: NewFallbackSystem_def fallback_defs NewExitSystem_def exit_defs
      fallback_second_def map_return_def
      split: prod.splits outcome.splits if_splits)

lemma proc_fallback_unimplemented:
  "proc_call (NewFallbackSystem W (NewErrnoSystem (ENOSYS W)) Q) (u, t) c
     = fallback_second u (proc_call Q t c)"
  by (cases c) (auto simp: NewFallbackSystem_def fallback_defs NewErrnoSystem_def errno_defs
      fallback_second_def map_return_def split: prod.splits outcome.splits)

lemma sock_fallback_answered:
  assumes "sock_call P s c = (Return r, s')" "sock_Error r \<noteq> ENOSYS W"
  shows "sock_call (NewFallbackSystem W P Q) (s, t) c = (Return r, s', t)"
  using assms
  by (cases c) (auto simp: NewFallbackSystem_def fallback_defs map_return_def
      split: prod.splits outcome.splits if_splits)

lemma sock_fallback_panics:
  assumes "sock_call P s c = (Panic p, s')"
  shows "sock_call (NewFallbackSystem W P Q) (s, t) c = (Panic p, s', t)"
  using assms
  by (cases c) (auto simp: NewFallbackSystem_def fallback_defs map_return_def
      split: prod.splits outcome.splits if_splits)

lemma sock_fallback_exit:
  assumes "sock_call P s c = (Return r, s')" "sock_Error r = ENOSYS W"
  shows "sock_call (NewFallbackSystem W P (NewExitSystem code)) (s, u) c
    = (Panic (newExitError code), s', u)"
  using assms
  by (cases c) (auto simp: NewFallbackSystem_def fallback_defs NewExitSystem_def exit_defs
      fallback_second_def map_return_def
      split: prod.splits outcome.splits if_splits)

lemma sock_fallback_unimplemented:
  "sock_call (NewFallbackSystem W (NewErrnoSystem (ENOSYS W)) Q) (u, t) c
     = fallback_second u (sock_call Q t c)"
  by (cases c) (auto simp: NewFallbackSystem_def fallback_defs NewErrnoSystem_def errno_defs
      fallback_second_def map_return_def split: prod.splits outcome.splits)

lemma sys_call_fallback_answered:
  assumes "sys_call P s c = (Return r, s')" "Syscall_Error r \<noteq> ENOSYS W"
  shows "sys_call (NewFallbackSystem W P Q) (s, t) c = (Return r, s', t)"
  using assms
  by (cases c) (auto simp: map_return_def env_fallback_answered fd_fallback_answered
      path_fallback_answered proc_fallback_answered sock_fallback_answered
      split: prod.splits outcome.splits)

lemma sys_call_fallback_panics:
  assumes "sys_call P s c = (Panic p, s')"
  shows "sys_call (NewFallbackSystem W P Q) (s, t) c = (Panic p, s', t)"
  using assms
  by (cases c) (auto simp: map_return_def env_fallback_panics fd_fallback_panics
      path_fallback_panics proc_fallback_panics sock_fallback_panics
      split: prod.splits outcome.splits)

lemma sys_call_fallback_exit:
  assumes "sys_call P s c = (Return r, s')" "Syscall_Error r = ENOSYS W"
  shows "sys_call (NewFallbackSystem W P (NewExitSystem code)) (s, u) c
    = (Panic (newExitError code), s', u)"
  using assms
  by (cases c) (auto simp: map_return_def env_fallback_exit fd_fallback_exit
      path_fallback_exit proc_fallback_exit sock_fallback_exit
      split: prod.splits outcome.splits)

text \<open>A primary system that implements nothing is no system at all.\<close>

lemma sys_call_fallback_unimplemented:
  "sys_call (NewFallbackSystem W (NewErrnoSystem (ENOSYS W)) Q) (u, t) c
     = fallback_second u (sys_call Q t c)"
  by (cases c) (auto simp: map_return_def fallback_second_def env_fallback_unimplemented
      fd_fallback_unimplemented path_fallback_unimplemented proc_fallback_unimplemented
      sock_fallback_unimplemented split: prod.splits outcome.splits)

end
