(* ===== verification/Reader.thy ===== *)
theory Reader
  imports Decoder Stream_Iterator
begin

text \<open>
  The reader of recorded system calls (\<^verbatim>\<open>Reader\<close> in \<^verbatim>\<open>internal/timemachine/wasicall/reader.go\<close>), which the
  commands that print or analyse a log use: the next record, decoded.
\<close>

record 'v Reader =
  Reader_records :: "Record Iterator"
  Reader_decoder :: "'v Decoder"

datatype read_failure = ReadFailed error | DecodeFailed decode_failure

definition NewReader :: "Record answers \<Rightarrow> 'v Reader" where
  "NewReader records =
     \<lparr>Reader_records = Iterator_Reset (Some records)
        \<lparr>it_base = None, it_err = None, it_off = 0, it_buf = []\<rparr>,
      Reader_decoder = zero_Decoder\<rparr>"

text \<open>The \<open>None\<close> of \<open>Iterator_Value\<close> does not occur after a \<^verbatim>\<open>Next\<close> that is true (\<open>ReadSyscall_head\<close>).\<close>

definition ReadSyscall ::
  "'v wasi \<Rightarrow> 'v Reader \<Rightarrow> (read_failure + (int \<times> 'v Syscall)) \<times> 'v Reader" where
  "ReadSyscall W r =
     (case Iterator_Next (Reader_records r) of
        (False, it) \<Rightarrow>
          (Inl (ReadFailed (case Iterator_Err it of None \<Rightarrow> EOF | Some err \<Rightarrow> err)),
           r\<lparr>Reader_records := it\<rparr>)
      | (True, it) \<Rightarrow>
          (case Iterator_Value it of
             None \<Rightarrow> (Inl (ReadFailed (Errorf ''index out of range'')), r\<lparr>Reader_records := it\<rparr>)
           | Some record \<Rightarrow>
               (case Decoder_Decode W (Reader_decoder r) record of
                  (Inl err, d) \<Rightarrow>
                    (Inl (DecodeFailed err), r\<lparr>Reader_records := it, Reader_decoder := d\<rparr>)
                | (Inr v, d) \<Rightarrow> (Inr v, r\<lparr>Reader_records := it, Reader_decoder := d\<rparr>))))"

lemma ReadSyscall_head:
  assumes "remaining (Reader_records r) = (record # rest, e)"
  shows "fst (ReadSyscall W r)
      = (case fst (Decoder_Decode W (Reader_decoder r) record) of
           Inl err \<Rightarrow> Inl (DecodeFailed err) | Inr v \<Rightarrow> Inr v)
    \<and> remaining (Reader_records (snd (ReadSyscall W r))) = (rest, e)"
  by (rule Iterator_Next_Cons [OF assms])
    (auto simp: ReadSyscall_def split: prod.splits sum.splits)

lemma ReadSyscall_end:
  assumes "remaining (Reader_records r) = ([], e)"
  shows "fst (ReadSyscall W r) = Inl (ReadFailed e)
    \<and> remaining (Reader_records (snd (ReadSyscall W r))) = ([], e)"
  by (rule Iterator_Next_Nil [OF assms]) (auto simp: ReadSyscall_def)

lemma ReadSyscall_shrinks:
  assumes "ReadSyscall W r = (Inr v, r')"
  shows "length (fst (remaining (Reader_records r'))) < length (fst (remaining (Reader_records r)))"
proof (cases "fst (remaining (Reader_records r))")
  case Nil
  then have "remaining (Reader_records r) = ([], snd (remaining (Reader_records r)))"
    by (metis prod.collapse)
  from ReadSyscall_end [OF this, of W] assms show ?thesis
    by simp
next
  case (Cons x xs)
  then have "remaining (Reader_records r) = (x # xs, snd (remaining (Reader_records r)))"
    by (metis prod.collapse)
  from ReadSyscall_head [OF this, of W] assms Cons show ?thesis
    by simp
qed

text \<open>The loop of the callers: calls until an error.\<close>

function read_syscalls :: "'v wasi \<Rightarrow> 'v Reader \<Rightarrow> (int \<times> 'v Syscall) list \<times> read_failure" where
  "read_syscalls W r =
     (case ReadSyscall W r of
        (Inl err, _) \<Rightarrow> ([], err)
      | (Inr v, r) \<Rightarrow> apfst ((#) v) (read_syscalls W r))"
  by pat_completeness auto

termination
  by (relation "measure (\<lambda>(W, r). length (fst (remaining (Reader_records r))))")
    (auto dest: ReadSyscall_shrinks [OF sym])

declare read_syscalls.simps [simp del]

text \<open>A log of calls that decode is read to its end.\<close>

lemma read_syscalls_decodes:
  assumes "remaining (Reader_records r) = (records, e)"
    "list_all2 (\<lambda>record v. \<forall>d. fst (Decoder_Decode W d record) = Inr v) records vs"
  shows "read_syscalls W r = (vs, ReadFailed e)"
  using assms
proof (induction records arbitrary: r vs)
  case Nil
  then show ?case
    using ReadSyscall_end [of r e W]
    by (cases "ReadSyscall W r") (auto simp: read_syscalls.simps [of W r])
next
  case (Cons x xs)
  then obtain v vs' where "vs = v # vs'" "fst (Decoder_Decode W (Reader_decoder r) x) = Inr v"
    "list_all2 (\<lambda>record v. \<forall>d. fst (Decoder_Decode W d record) = Inr v) xs vs'"
    by (auto simp: list_all2_Cons1)
  then show ?case
    using ReadSyscall_head [OF Cons.prems(1), of W] Cons.IH [of "snd (ReadSyscall W r)" vs']
    by (cases "ReadSyscall W r") (auto simp: read_syscalls.simps [of W r])
qed

end
