(* ===== verification/Replay_Run.thy ===== *)
theory Replay_Run
  imports Record_Replay Systems Reader
begin

text \<open>
  The system that a module is replayed on (\<^verbatim>\<open>ReplayRecordsModule\<close> in \<^verbatim>\<open>internal/timecraft/replay.go\<close>): the
  replay of the log, and an exit of the process for the calls that the replay answers with \<^verbatim>\<open>ENOSYS\<close>.
  Then the log of a run as the reader of system calls sees it.
\<close>

section \<open>From a new recorder to a new replay\<close>

lemma remaining_NewReplay [simp]:
  "remaining (Replay_records (NewReplay discard log)) = answers_pending log"
  by (simp add: NewReplay_def)

lemma run_replays_fresh:
  assumes "wasi_system S"
    "run (NewRecorder W S) g n \<lparr>recorder_system = s, recorder_log = []\<rparr> [] = (p, calls, r)"
    "exits W g calls p" "list_all (recordable W) calls" "records_of (recorder_log r) records"
    "answers_pending log = (records, EOF)"
  obtains rp where "run (ReplaySystem wr W) g n (NewReplay discard log) [] = (p, calls, rp)"
    "remaining (Replay_records rp) = ([], EOF)"
proof -
  have "\<exists>rp. run (ReplaySystem wr W) g n (NewReplay discard log) [] = (p, [] @ calls, rp)
    \<and> remaining (Replay_records rp) = ([], EOF)"
    by (rule wasi_system.run_replays [OF assms(1),
          where r = "\<lparr>recorder_system = s, recorder_log = []\<rparr>" and log = "recorder_log r"])
      (use assms(2-) in simp_all)
  then show ?thesis
    using that by auto
qed

section \<open>Replaying a module\<close>

definition replay_system :: "'w writer \<Rightarrow> 'v wasi \<Rightarrow> (('v, 'w) Replay \<times> unit, 'v) System" where
  "replay_system wr W = NewFallbackSystem W (ReplaySystem wr W) (NewExitSystem 0)"

text \<open>A run none of whose calls fails with \<^verbatim>\<open>ENOSYS\<close> does not reach the secondary system.\<close>

lemma run_fallback:
  assumes "run P g n s past = (p, past @ new, s')" "list_all (\<lambda>c. Syscall_Error c \<noteq> ENOSYS W) new"
  shows "run (NewFallbackSystem W P Q) g n (s, t) past = (p, past @ new, s', t)"
  using assms
proof (induction n arbitrary: s past new)
  case (Suc n)
  show ?case
  proof (cases "g past")
    case (Some c)
    obtain out s1 where call: "sys_call P s c = (out, s1)"
      by fastforce
    show ?thesis
    proof (cases out)
      case (Return r)
      then have rest: "run P g n s1 (past @ [r]) = (p, past @ new, s')"
        using Suc.prems(1) Some call by simp
      then obtain new' where "new = r # new'"
        using run_prefix by fastforce
      then show ?thesis
        using Suc.IH [of s1 "past @ [r]" new'] Suc.prems(2) rest Some call Return
          sys_call_fallback_answered [of P s c r s1 W Q t]
        by simp
    next
      case (Panic q)
      then show ?thesis
        using Suc.prems(1) Some call sys_call_fallback_panics [of P s c q s1 W Q t] by auto
    qed
  qed (use Suc in auto)
qed auto

lemma replay_system_end:
  assumes "remaining (Replay_records rp) = ([], EOF)"
  shows "sys_call (replay_system wr W) (rp, u) c = (Panic (ExitError 0), popped rp, u)"
proof -
  obtain s where "sys_call (ReplaySystem wr W) rp c = (Return s, popped rp)" "Syscall_Error s = ENOSYS W"
    using sys_call_end [OF assms] by blast
  then show ?thesis
    by (simp add: replay_system_def sys_call_fallback_exit newExitError_def)
qed

lemma replay_system_recorded_ENOSYS:
  assumes "next_is W rp s rest" "syscall_ok W s" "replayable s" "completes c s"
    "Syscall_Error s = ENOSYS W"
  shows "fst (sys_call (replay_system wr W) (rp, u) c) = Panic (ExitError 0)"
proof -
  obtain rp' where "sys_call (ReplaySystem wr W) rp c = (Return s, rp')"
    using sys_call_Replay [OF assms(1-4), of wr] by (metis prod.collapse)
  then show ?thesis
    using assms(5) by (simp add: replay_system_def sys_call_fallback_exit newExitError_def)
qed

section \<open>Output and hints\<close>

text \<open>
  What a replayed write puts on the writers of the replay. A writer that appends and does not fail
  receives the buffers in order.
\<close>

lemma writeIOVecs_append: "writeIOVecs (\<lambda>w b. (None, w @ b)) w iovs = (None, w @ concat iovs)"
  by (induction iovs arbitrary: w) simp_all

lemma Replay_FDWrite_writes:
  assumes "next_is W r (FDCall (FDWriteSyscall fd iovecs sz errno)) rest"
    "fd_ok W (FDWriteSyscall fd iovecs sz errno)"
  shows "fst (Replay_FDWrite wr W r fd iovecs) = Return (sz, errno)"
    "Replay_Stdout (snd (Replay_FDWrite wr W r fd iovecs)) =
      (if fd \<noteq> noneFD W \<and> fd = Replay_stdout r then snd (writeIOVecs wr (Replay_Stdout r) iovecs) else Replay_Stdout r)"
    "Replay_Stderr (snd (Replay_FDWrite wr W r fd iovecs)) =
      (if fd \<noteq> noneFD W \<and> fd \<noteq> Replay_stdout r \<and> fd = Replay_stderr r
       then snd (writeIOVecs wr (Replay_Stderr r) iovecs) else Replay_Stderr r)"
  using assms
  by (auto simp: next_is_def Replay_FDWrite_def replay_record_head DecodeFDWrite_EncodeFDWrite
      replay_strict_pass Let_def)

text \<open>A strict replay of \<^verbatim>\<open>SockAddressInfo\<close> with an address in its hints.\<close>

lemma Replay_SockAddressInfo_hints:
  assumes "next_is W r (SockCall (SockAddressInfoSyscall name service hint results errno)) rest"
    "sock_ok W (SockAddressInfoSyscall name service hint results errno)" "Replay_strict r"
    "AddressInfo_Address hint \<noteq> NilAddress"
  shows "\<exists>errs. fst (Replay_SockAddressInfo W r name service hint buffer) = Panic (Joined errs)
    \<and> UnexpectedSyscallParamError SockAddressInfo ''hints'' (AnyAddressInfo hint) (AnyAddressInfo hint)
        \<in> set errs"
proof -
  obtain x where head: "remaining (Replay_records r) = (x # fst rest, snd rest)"
    "Record_FunctionID x = SockAddressInfo"
    "EncodeSockAddressInfo W [] name service hint results errno = Inr (Record_FunctionCall x)"
    "length (Record_FunctionCall x) < 4294967296"
    using assms(1) by (auto simp: next_is_def)
  then have "DecodeSockAddressInfo W (Record_FunctionCall x) c
      = Inr (name, service, hint, results, errno)" for c
    using assms(2) by (intro DecodeSockAddressInfo_EncodeSockAddressInfo) auto
  with head assms show ?thesis
    by (simp add: Replay_SockAddressInfo_def replay_record_head [OF head(1)] replay_strict_def
        equal_hints_def Let_def)
qed

section \<open>The log of a run\<close>

definition log_entry :: "'v wasi \<Rightarrow> 'v Syscall \<Rightarrow> int \<times> bytes" where
  "log_entry W s = (Syscall_ID s, case encode_syscall W s of Inl _ \<Rightarrow> [] | Inr b \<Rightarrow> b)"

lemma run_log:
  assumes "run (NewRecorder W S) g n r past = (None, past @ new, r')" "list_all (\<lambda>s. \<not> is_exit s) new"
  shows "recorder_log r' = recorder_log r @ map (log_entry W) new"
  using assms
proof (induction n arbitrary: r past new)
  case (Suc n)
  show ?case
  proof (cases "g past")
    case (Some c)
    obtain s r1 where call: "sys_call (NewRecorder W S) r c = (Return s, r1)"
      using Suc.prems(1) Some by (auto split: prod.splits outcome.splits)
    then have rest: "run (NewRecorder W S) g n r1 (past @ [s]) = (None, past @ new, r')"
      using Suc.prems(1) Some by simp
    then obtain new' where new: "new = s # new'"
      using run_prefix by fastforce
    then have "\<not> is_exit c"
      using sys_call_exit_Return [OF call] Suc.prems(2) by auto
    with call obtain b where "encode_syscall W s = Inr b"
      "recorder_log r1 = recorder_log r @ [(Syscall_ID s, b)]"
      by (auto elim: sys_call_NewRecorder_Return)
    then show ?thesis
      using Suc.IH [of r1 "past @ [s]" new'] Suc.prems(2) rest new by (simp add: log_entry_def)
  qed (use Suc in auto)
qed auto

lemma recordable_not_exit: "recordable W s \<Longrightarrow> \<not> is_exit s"
  by (auto simp: recordable_def is_exit_iff)

lemma run_log_fresh:
  assumes "run (NewRecorder W S) g n \<lparr>recorder_system = s, recorder_log = []\<rparr> [] = (None, calls, r)"
    "list_all (recordable W) calls"
  shows "recorder_log r = map (log_entry W) calls"
proof -
  have "list_all (\<lambda>s. \<not> is_exit s) calls"
    using assms(2) by (auto simp: list_all_iff recordable_not_exit)
  then show ?thesis
    using run_log [where past = "[]"] assms(1) by fastforce
qed

lemma decode_log_entry:
  assumes "recordable W s" "(Record_FunctionID record, Record_FunctionCall record) = log_entry W s"
  shows "fst (Decoder_Decode W d record) = Inr (Record_Time record, logged s)"
  using assms
  by (intro Decoder_Decode_logged [of W s "Record_FunctionCall record"])
    (auto simp: recordable_def log_entry_def split: sum.splits)

lemma read_log:
  assumes "list_all (recordable W) new" "records_of (map (log_entry W) new) records"
    "remaining (Reader_records rd) = (records, e)"
  shows "read_syscalls W rd = (zip (map Record_Time records) (map logged new), ReadFailed e)"
proof (rule read_syscalls_decodes [OF assms(3)])
  have len: "length records = length new"
    using assms(2) by (simp add: records_of_def) (metis length_map)
  show "list_all2 (\<lambda>record v. \<forall>d. fst (Decoder_Decode W d record) = Inr v) records
      (zip (map Record_Time records) (map logged new))"
  proof (rule list_all2_all_nthI)
    fix i assume i: "i < length records"
    then have "(Record_FunctionID (records ! i), Record_FunctionCall (records ! i)) = log_entry W (new ! i)"
      using arg_cong [OF assms(2) [unfolded records_of_def], of "\<lambda>xs. xs ! i"] len by simp
    then show "\<forall>d. fst (Decoder_Decode W d (records ! i))
        = Inr (zip (map Record_Time records) (map logged new) ! i)"
      using decode_log_entry [of W "new ! i" "records ! i"] assms(1) i len
      by (simp add: list_all_length)
  qed (simp add: len)
qed

end
