(* ===== verification/Log_Replay.thy ===== *)
theory Log_Replay
  imports Log_Roundtrip Replay_Run
begin

text \<open>
  From the recorder to a file and back to the replay: a run is recorded (\<^verbatim>\<open>record.go\<close>), its records are
  written to a log segment (\<^verbatim>\<open>process.go\<close>, \<^verbatim>\<open>log.go\<close>), and a replay reads them from there (\<^verbatim>\<open>replay.go\<close>).
\<close>

section \<open>Writing a segment and opening it\<close>

definition write_log ::
  "libraries \<Rightarrow> int \<Rightarrow> int \<Rightarrow> int \<Rightarrow> (int \<times> int \<times> bytes) list \<Rightarrow> bytes option"
where
  "write_log L startTime batchSize compression calls =
     (case record_calls L Buffer_Write startTime calls
             (RecordBuilder_zero, NewLogRecordWriter (NewLogWriter []) batchSize compression) of
        Some (Return _, (b, w)) \<Rightarrow>
          (case Flush L Buffer_Write w of
             Some (Return None, w) \<Rightarrow> Some (lw_output (lrw_writer w))
           | _ \<Rightarrow> None)
      | _ \<Rightarrow> None)"

definition open_log :: "int \<Rightarrow> nat list \<Rightarrow> bytes \<Rightarrow> os_file LogRecordReader" where
  "open_log startTime delivery content =
     NewLogRecordReader
       (NewLogReader \<lparr>file_content = content, file_pos = 0, file_reads = delivery\<rparr> startTime)"

text \<open>
  The answers that an iterator over the records gets. It does not seek, so that what its slice holds before a read does
  not matter.
\<close>

definition log_answers :: "libraries \<Rightarrow> nat \<Rightarrow> os_file LogRecordReader \<Rightarrow> Record answers" where
  "log_answers L n r = reads (LogRecordReader_Read L file_Read file_Seek []) 256 n r"

lemma call_fields_ok: "record_ok (call_fields startTime c)"
  by (cases c) (auto simp: record_ok_def time_Sub_def fits_Signed_iff min_def max_def simp del: wrap.simps)

lemma batches_ok_calls:
  assumes all: "concat batches = map (call_fields startTime) calls" and "[] \<notin> set batches"
    and small: "\<And>us. sublist us (map (call_fields startTime) calls) \<Longrightarrow> small_batch L compression us"
    and "int (length calls) < 2 ^ 63"
  shows "batches_ok L compression 0 batches"
proof -
  have "rs \<noteq> [] \<and> small_batch L compression rs \<and> list_all record_ok rs" if rs: "rs \<in> set batches" for rs
  proof -
    from rs obtain us vs where "batches = us @ rs # vs"
      by (meson split_list)
    then have "concat us @ rs @ concat vs = map (call_fields startTime) calls"
      using all by simp
    then have "sublist rs (map (call_fields startTime) calls)"
      by (metis sublist_appendI)
    moreover have "set rs \<subseteq> set (map (call_fields startTime) calls)"
      using rs by (subst all [symmetric]) auto
    then have "list_all record_ok rs"
      using call_fields_ok by (auto simp: list_all_iff)
    ultimately show ?thesis
      using small rs assms(2) by blast
  qed
  moreover have "length (concat batches) = length calls"
    by (simp only: all length_map)
  ultimately show ?thesis
    using assms(4) by (simp add: batches_ok_def list_all_iff del: length_concat)
qed

lemma write_log_segment:
  assumes "log_libraries L"
    and "\<And>us. sublist us (map (call_fields startTime) calls) \<Longrightarrow> small_batch L compression us"
    and "int (length calls) < 2 ^ 63"
  obtains batches where "write_log L startTime batchSize compression calls
      = Some (segment_wire L compression 0 batches)"
    "concat batches = map (call_fields startTime) calls" "batches_ok L compression 0 batches"
proof -
  let ?w = "NewLogRecordWriter (NewLogWriter ([] :: bytes)) batchSize compression"
  have new: "buf.written L ?w [] []" "lrw_compression ?w = compression"
    using buf.written_new by (simp_all add: NewLogRecordWriter_def)
  have small: "small_batch L (lrw_compression ?w) us" if "sublist us ([] @ map (call_fields startTime) calls)" for us
    using assms(2) that new(2) by simp
  have "int (length (concat [] @ ([] :: record_fields list))) + int (length calls) < 2 ^ 63"
    using assms(3) by simp
  from buf.record_calls_written [OF new(1) small this] obtain b w batches rs where w:
    "record_calls L Buffer_Write startTime calls (RecordBuilder_zero, ?w) = returns () (b, w)"
    "buf.written L w batches rs" "concat batches @ rs = map (call_fields startTime) calls"
    "sublist rs (map (call_fields startTime) calls)" "lrw_compression w = compression"
    using new(2) by fastforce
  have "int (length (concat batches @ rs)) < 2 ^ 63"
    using assms(3) by (simp only: w(3)) simp
  then obtain w' where w': "Flush L Buffer_Write w = returns None w'"
    "buf.written L w' (batches @ (if rs = [] then [] else [rs])) []" "lrw_compression w' = compression"
    using buf.Flush_written [OF w(2)] assms(2) [OF w(4)] w(5) by auto
  let ?batches = "batches @ (if rs = [] then [] else [rs])"
  have all: "concat ?batches = map (call_fields startTime) calls"
    using w(3) by auto
  have "[] \<notin> set ?batches"
    using w'(2) by (simp only: buf.written_def) blast
  then have "batches_ok L compression 0 ?batches"
    by (rule batches_ok_calls [OF all _ assms(2,3)])
  moreover have "write_log L startTime batchSize compression calls = Some (segment_wire L compression 0 ?batches)"
    using w(1) w' by (simp add: write_log_def buf.written_def)
  ultimately show ?thesis
    using that all by blast
qed

lemma open_log_answers:
  assumes "log_libraries L" "compression = Uncompressed \<or> compression = Snappy \<or> compression = Zstd"
    and "batches_ok L compression 0 batches" "length (concat batches) < n"
  shows "answers_pending (log_answers L n (open_log startTime delivery (segment_wire L compression 0 batches)))
    = (records_at startTime 0 (concat batches), EOF)"
proof -
  have segment: "log_segment file_Read file_holds L compression"
    using assms(1,2) bf.buffered_axioms by (simp add: log_segment_def log_segment_axioms_def)
  have "file_holds \<lparr>file_content = segment_wire L compression 0 batches, file_pos = 0, file_reads = delivery\<rparr>
      (segment_wire L compression 0 batches) EOF"
    by (simp add: file_holds_def)
  from log_segment.reads_new [OF segment this assms(3) _ assms(4), where k = 256 and sk = file_Seek and startTime = startTime and old = "[]"] show ?thesis
    by (simp add: log_answers_def open_log_def)
qed

section \<open>The log of a run\<close>

text \<open>The recorder hands over identifiers of system calls, which a record holds unchanged.\<close>

definition id_range :: "(int \<times> bytes) list \<Rightarrow> bool" where
  "id_range log \<longleftrightarrow> list_all (\<lambda>(i, b). i \<in> {0..56}) log"

lemma sys_call_id_range:
  assumes "id_range (recorder_log r)"
  shows "id_range (recorder_log (snd (sys_call (NewRecorder W S) r c)))"
proof (cases "is_exit c")
  case True
  then obtain code e where "c = ProcCall (ProcExitSyscall code e)"
    by (auto simp: is_exit_iff)
  then show ?thesis
    using assms sys_call_exit_recorded [of W S r code e] by (simp add: id_range_def exit_record_def)
next
  case False
  then show ?thesis
    using assms Syscall_ID_range
    by (auto simp: sys_call_NewRecorder recorder_forward_def recorder_write_def id_range_def
        simp del: atLeastAtMost_iff split: prod.splits outcome.splits sum.splits)
qed

lemma run_id_range:
  "run (NewRecorder W S) g n r past = (p, past', r') \<Longrightarrow> id_range (recorder_log r) \<Longrightarrow> id_range (recorder_log r')"
proof (induction n arbitrary: r past)
  case (Suc n)
  show ?case
  proof (cases "g past")
    case (Some c)
    obtain o' t where call: "sys_call (NewRecorder W S) r c = (o', t)"
      by fastforce
    then have "id_range (recorder_log t)"
      using sys_call_id_range [of r W S c] Suc.prems(2) by simp
    with call Suc Some show ?thesis
      by (cases o') auto
  qed (use Suc in auto)
qed auto

lemma records_at_map:
  "map (\<lambda>r. (Record_FunctionID r, Record_FunctionCall r)) (records_at startTime first fs)
    = map (\<lambda>f. (fr_FunctionId f, fr_FunctionCall f)) fs"
  by (induction fs arbitrary: first) (simp_all add: record_of_def)

lemma records_at_log:
  assumes "id_range log" "length clock = length log"
  shows "records_of log (records_at startTime 0 (map (call_fields startTime) (zip clock log)))"
proof -
  have "map (\<lambda>f. (fr_FunctionId f, fr_FunctionCall f)) (map (call_fields startTime) (zip clock log)) = log"
    using assms(2,1)
    by (induction clock log rule: list_induct2) (auto simp: id_range_def take_bit_int_eq_self)
  then show ?thesis
    by (simp add: records_of_def records_at_map)
qed

lemma records_at_calls:
  assumes "list_all (\<lambda>(now, i, call). \<bar>now - startTime\<bar> < 2 ^ 63 \<and> 0 \<le> i \<and> i < 2 ^ 32) calls"
  shows "records_at startTime (int n) (map (call_fields startTime) calls) =
    map (\<lambda>(offset, now, i, call). \<lparr>Record_Offset = int offset, Record_Time = now, Record_FunctionID = i,
      Record_FunctionCall = call\<rparr>) (enumerate n calls)"
  using assms
proof (induction calls arbitrary: n)
  case (Cons c calls)
  obtain now i call where c: "c = (now, i, call)"
    by (cases c)
  then have "\<bar>now - startTime\<bar> < 2 ^ 63" "0 \<le> i" "i < 2 ^ 32"
    using Cons.prems by auto
  then have "record_of startTime (int n) (call_fields startTime c) =
      \<lparr>Record_Offset = int n, Record_Time = now, Record_FunctionID = i, Record_FunctionCall = call\<rparr>"
    by (simp add: c record_of_def time_Sub_def take_bit_int_eq_self)
  then show ?case
    using Cons.IH [of "Suc n"] Cons.prems by (simp add: c add.commute)
qed simp

section \<open>A format\<close>

text \<open>
  An instance of the libraries: fields one after the other in little-endian order, and no compression.
  It shows that what the log relies on can be had.
\<close>

definition plain_record :: "record_fields \<Rightarrow> bytes" where
  "plain_record f = le64 (word_of_int (fr_Timestamp f)) @ le32 (word_of_int (fr_FunctionId f)) @ fr_FunctionCall f"

definition plain_record_root :: "bytes \<Rightarrow> record_fields option" where
  "plain_record_root b =
     (if length b < 12 then None
      else Some \<lparr>fr_Timestamp = wrap (Signed 64) (uint (of_le64 b)), fr_FunctionId = uint (of_le32 (drop 8 b)),
        fr_FunctionCall = drop 12 b\<rparr>)"

definition plain_batch :: "batch_fields \<Rightarrow> bytes" where
  "plain_batch f = le64 (word_of_int (fb_FirstOffset f)) @ le64 (word_of_int (fb_FirstTimestamp f))
     @ le64 (word_of_int (fb_LastTimestamp f)) @ le32 (word_of_int (fb_CompressedSize f))
     @ le32 (word_of_int (fb_UncompressedSize f)) @ le32 (fb_Checksum f)
     @ le32 (word_of_int (fb_NumRecords f)) @ le32 (word_of_int (fb_Compression f))"

definition plain_batch_root :: "bytes \<Rightarrow> batch_fields option" where
  "plain_batch_root b =
     (if length b < 48 then None
      else Some \<lparr>fb_FirstOffset = wrap (Signed 64) (uint (of_le64 (drop 4 b))),
        fb_FirstTimestamp = wrap (Signed 64) (uint (of_le64 (drop 12 b))),
        fb_LastTimestamp = wrap (Signed 64) (uint (of_le64 (drop 20 b))),
        fb_CompressedSize = uint (of_le32 (drop 28 b)), fb_UncompressedSize = uint (of_le32 (drop 32 b)),
        fb_Checksum = of_le32 (drop 36 b), fb_NumRecords = uint (of_le32 (drop 40 b)),
        fb_Compression = uint (of_le32 (drop 44 b))\<rparr>)"

definition plain_libraries :: libraries where
  "plain_libraries =
     \<lparr>record_bytes = size_prefixed \<circ> plain_record, record_root = plain_record_root,
      batch_bytes = size_prefixed \<circ> plain_batch, batch_root = plain_batch_root,
      snappy_Encode = id, snappy_Decode = (\<lambda>dst src. (Inr src, src)),
      zstd_EncodeAll = id, zstd_DecodeAll = (\<lambda>dst src. (Inr src, src))\<rparr>"

lemma wrap_int64_word: "fits (Signed 64) x \<Longrightarrow> wrap (Signed 64) (uint (word_of_int x :: u64)) = x"
  by (rule wrap_u64) (simp add: fits64_def)

lemma uint_u32_word: "fits (Unsigned 32) x \<Longrightarrow> uint (word_of_int x :: u32) = x"
  by (simp add: fits_def uint_word_of_int take_bit_eq_mod)

lemma not_NOT: "(x :: u32) \<noteq> NOT x"
proof
  assume "x = NOT x"
  then have "bit x 0 = bit (NOT x) 0"
    by (rule arg_cong)
  then show False
    by (simp add: bit_not_iff)
qed

lemma of_le_end [simp]: "of_le64 (le64 v) = v" "of_le32 (le32 w) = w"
  using of_le64_le64 [of v "[]"] of_le32_le32 [of w "[]"] by simp_all

interpretation plain: log_libraries plain_libraries
proof unfold_locales
  fix f assume f: "record_ok f"
  have "plain_record_root (plain_record f) = Some f"
    using f by (simp add: plain_record_root_def plain_record_def record_ok_def wrap_int64_word uint_u32_word
        del: wrap.simps)
  then show "\<exists>body. record_bytes plain_libraries f = size_prefixed body \<and> record_root plain_libraries body = Some f"
    by (auto simp: plain_libraries_def)
next
  fix f assume f: "batch_ok f"
  have "plain_batch_root (size_prefixed (plain_batch f)) = Some f"
    using f by (simp add: plain_batch_root_def plain_batch_def size_prefixed_def batch_ok_def wrap_int64_word
        uint_u32_word del: wrap.simps)
  then show "\<exists>body. batch_bytes plain_libraries f = size_prefixed body \<and> length body \<le> 252
      \<and> batch_root plain_libraries (size_prefixed body) = Some f"
    by (intro exI [of _ "plain_batch f"]) (simp add: plain_libraries_def plain_batch_def)
qed (simp_all add: plain_libraries_def)

interpretation plain_segment: log_segment file_Read file_holds plain_libraries file_Seek Snappy startTime
  for startTime
  by unfold_locales simp

end
