(* ===== verification/Observer.thy ===== *)
theory Observer
  imports Systems
begin

text \<open>
  The observer (\<^verbatim>\<open>internal/timemachine/wasicall/observer.go\<close>): a system that tells a callback of every call
  before it is made and another after it has returned. The callbacks are the caller's: functions on a
  state \<open>'o\<close> of theirs, \<open>None\<close> where the callback is \<^verbatim>\<open>nil\<close>.
\<close>

type_synonym ('o, 'v) callback = "('o \<Rightarrow> 'v Syscall \<Rightarrow> 'o) option"

record ('s, 'o) Observer =
  observer_system :: 's
  observer_state :: 'o

definition notify :: "('o, 'v) callback \<Rightarrow> 'v Syscall \<Rightarrow> ('s, 'o) Observer \<Rightarrow> ('s, 'o) Observer" where
  "notify callback syscall o' =
     (case callback of
        None \<Rightarrow> o'
      | Some f \<Rightarrow> o'\<lparr>observer_state := f (observer_state o') syscall\<rparr>)"

text \<open>Calling the system, and going on with \<open>k\<close> when it returns.\<close>

definition observer_forward ::
  "('s, 'o) Observer \<Rightarrow> ('v panic, 'a) outcome \<times> 's
    \<Rightarrow> ('a \<Rightarrow> ('s, 'o) Observer \<Rightarrow> ('v panic, 'a) outcome \<times> ('s, 'o) Observer)
    \<Rightarrow> ('v panic, 'a) outcome \<times> ('s, 'o) Observer" where
  "observer_forward o' x k =
     (case x of
        (Return a, s) \<Rightarrow> k a (o'\<lparr>observer_system := s\<rparr>)
      | (Panic p, s) \<Rightarrow> (Panic p, o'\<lparr>observer_system := s\<rparr>))"

definition observer_ArgsSizesGet ::
  "('o, 'v) callback \<Rightarrow> ('o, 'v) callback \<Rightarrow> ('s, 'v) System \<Rightarrow> ('s, 'o) Observer \<Rightarrow> ('v panic, int \<times> int \<times> int) outcome \<times> ('s, 'o) Observer" where
  "observer_ArgsSizesGet before after S o' =
     (let o' = notify before (EnvCall (ArgsSizesGetSyscall 0 0 0)) o'
      in observer_forward o' (sys_ArgsSizesGet S (observer_system o'))
        (\<lambda>(argCount, stringBytes, errno) o'. (Return (argCount, stringBytes, errno),
          notify after (EnvCall (ArgsSizesGetSyscall argCount stringBytes errno)) o')))"

definition observer_ArgsGet ::
  "('o, 'v) callback \<Rightarrow> ('o, 'v) callback \<Rightarrow> ('s, 'v) System \<Rightarrow> ('s, 'o) Observer \<Rightarrow> ('v panic, bytes list \<times> int) outcome \<times> ('s, 'o) Observer" where
  "observer_ArgsGet before after S o' =
     (let o' = notify before (EnvCall (ArgsGetSyscall [] 0)) o'
      in observer_forward o' (sys_ArgsGet S (observer_system o'))
        (\<lambda>(args, errno) o'. (Return (args, errno),
          notify after (EnvCall (ArgsGetSyscall args errno)) o')))"

definition observer_EnvironSizesGet ::
  "('o, 'v) callback \<Rightarrow> ('o, 'v) callback \<Rightarrow> ('s, 'v) System \<Rightarrow> ('s, 'o) Observer \<Rightarrow> ('v panic, int \<times> int \<times> int) outcome \<times> ('s, 'o) Observer" where
  "observer_EnvironSizesGet before after S o' =
     (let o' = notify before (EnvCall (EnvironSizesGetSyscall 0 0 0)) o'
      in observer_forward o' (sys_EnvironSizesGet S (observer_system o'))
        (\<lambda>(envCount, stringBytes, errno) o'. (Return (envCount, stringBytes, errno),
          notify after (EnvCall (EnvironSizesGetSyscall envCount stringBytes errno)) o')))"

definition observer_EnvironGet ::
  "('o, 'v) callback \<Rightarrow> ('o, 'v) callback \<Rightarrow> ('s, 'v) System \<Rightarrow> ('s, 'o) Observer \<Rightarrow> ('v panic, bytes list \<times> int) outcome \<times> ('s, 'o) Observer" where
  "observer_EnvironGet before after S o' =
     (let o' = notify before (EnvCall (EnvironGetSyscall [] 0)) o'
      in observer_forward o' (sys_EnvironGet S (observer_system o'))
        (\<lambda>(env, errno) o'. (Return (env, errno),
          notify after (EnvCall (EnvironGetSyscall env errno)) o')))"

definition observer_ClockResGet ::
  "('o, 'v) callback \<Rightarrow> ('o, 'v) callback \<Rightarrow> ('s, 'v) System \<Rightarrow> ('s, 'o) Observer \<Rightarrow> int \<Rightarrow> ('v panic, int \<times> int) outcome \<times> ('s, 'o) Observer" where
  "observer_ClockResGet before after S o' clockID =
     (let o' = notify before (EnvCall (ClockResGetSyscall clockID 0 0)) o'
      in observer_forward o' (sys_ClockResGet S (observer_system o') clockID)
        (\<lambda>(timestamp, errno) o'. (Return (timestamp, errno),
          notify after (EnvCall (ClockResGetSyscall clockID timestamp errno)) o')))"

definition observer_ClockTimeGet ::
  "('o, 'v) callback \<Rightarrow> ('o, 'v) callback \<Rightarrow> ('s, 'v) System \<Rightarrow> ('s, 'o) Observer \<Rightarrow> int \<Rightarrow> int \<Rightarrow> ('v panic, int \<times> int) outcome \<times> ('s, 'o) Observer" where
  "observer_ClockTimeGet before after S o' clockID precision =
     (let o' = notify before (EnvCall (ClockTimeGetSyscall clockID precision 0 0)) o'
      in observer_forward o' (sys_ClockTimeGet S (observer_system o') clockID precision)
        (\<lambda>(timestamp, errno) o'. (Return (timestamp, errno),
          notify after (EnvCall (ClockTimeGetSyscall clockID precision timestamp errno)) o')))"

definition observer_FDAdvise ::
  "('o, 'v) callback \<Rightarrow> ('o, 'v) callback \<Rightarrow> ('s, 'v) System \<Rightarrow> ('s, 'o) Observer \<Rightarrow> int \<Rightarrow> int \<Rightarrow> int \<Rightarrow> int \<Rightarrow> ('v panic, int) outcome \<times> ('s, 'o) Observer" where
  "observer_FDAdvise before after S o' fd offset len advice =
     (let o' = notify before (FDCall (FDAdviseSyscall fd offset len advice 0)) o'
      in observer_forward o' (sys_FDAdvise S (observer_system o') fd offset len advice)
        (\<lambda>errno o'. (Return errno,
          notify after (FDCall (FDAdviseSyscall fd offset len advice errno)) o')))"

definition observer_FDAllocate ::
  "('o, 'v) callback \<Rightarrow> ('o, 'v) callback \<Rightarrow> ('s, 'v) System \<Rightarrow> ('s, 'o) Observer \<Rightarrow> int \<Rightarrow> int \<Rightarrow> int \<Rightarrow> ('v panic, int) outcome \<times> ('s, 'o) Observer" where
  "observer_FDAllocate before after S o' fd offset len =
     (let o' = notify before (FDCall (FDAllocateSyscall fd offset len 0)) o'
      in observer_forward o' (sys_FDAllocate S (observer_system o') fd offset len)
        (\<lambda>errno o'. (Return errno,
          notify after (FDCall (FDAllocateSyscall fd offset len errno)) o')))"

definition observer_FDClose ::
  "('o, 'v) callback \<Rightarrow> ('o, 'v) callback \<Rightarrow> ('s, 'v) System \<Rightarrow> ('s, 'o) Observer \<Rightarrow> int \<Rightarrow> ('v panic, int) outcome \<times> ('s, 'o) Observer" where
  "observer_FDClose before after S o' fd =
     (let o' = notify before (FDCall (FDCloseSyscall fd 0)) o'
      in observer_forward o' (sys_FDClose S (observer_system o') fd)
        (\<lambda>errno o'. (Return errno,
          notify after (FDCall (FDCloseSyscall fd errno)) o')))"

definition observer_FDDataSync ::
  "('o, 'v) callback \<Rightarrow> ('o, 'v) callback \<Rightarrow> ('s, 'v) System \<Rightarrow> ('s, 'o) Observer \<Rightarrow> int \<Rightarrow> ('v panic, int) outcome \<times> ('s, 'o) Observer" where
  "observer_FDDataSync before after S o' fd =
     (let o' = notify before (FDCall (FDDataSyncSyscall fd 0)) o'
      in observer_forward o' (sys_FDDataSync S (observer_system o') fd)
        (\<lambda>errno o'. (Return errno,
          notify after (FDCall (FDDataSyncSyscall fd errno)) o')))"

definition observer_FDStatGet ::
  "('o, 'v) callback \<Rightarrow> ('o, 'v) callback \<Rightarrow> ('s, 'v) System \<Rightarrow> ('s, 'o) Observer \<Rightarrow> int \<Rightarrow> ('v panic, FDStat \<times> int) outcome \<times> ('s, 'o) Observer" where
  "observer_FDStatGet before after S o' fd =
     (let o' = notify before (FDCall (FDStatGetSyscall fd zero_FDStat 0)) o'
      in observer_forward o' (sys_FDStatGet S (observer_system o') fd)
        (\<lambda>(stat, errno) o'. (Return (stat, errno),
          notify after (FDCall (FDStatGetSyscall fd stat errno)) o')))"

definition observer_FDStatSetFlags ::
  "('o, 'v) callback \<Rightarrow> ('o, 'v) callback \<Rightarrow> ('s, 'v) System \<Rightarrow> ('s, 'o) Observer \<Rightarrow> int \<Rightarrow> int \<Rightarrow> ('v panic, int) outcome \<times> ('s, 'o) Observer" where
  "observer_FDStatSetFlags before after S o' fd flags =
     (let o' = notify before (FDCall (FDStatSetFlagsSyscall fd flags 0)) o'
      in observer_forward o' (sys_FDStatSetFlags S (observer_system o') fd flags)
        (\<lambda>errno o'. (Return errno,
          notify after (FDCall (FDStatSetFlagsSyscall fd flags errno)) o')))"

definition observer_FDStatSetRights ::
  "('o, 'v) callback \<Rightarrow> ('o, 'v) callback \<Rightarrow> ('s, 'v) System \<Rightarrow> ('s, 'o) Observer \<Rightarrow> int \<Rightarrow> int \<Rightarrow> int \<Rightarrow> ('v panic, int) outcome \<times> ('s, 'o) Observer" where
  "observer_FDStatSetRights before after S o' fd rightsBase rightsInheriting =
     (let o' = notify before (FDCall (FDStatSetRightsSyscall fd rightsBase rightsInheriting 0)) o'
      in observer_forward o' (sys_FDStatSetRights S (observer_system o') fd rightsBase rightsInheriting)
        (\<lambda>errno o'. (Return errno,
          notify after (FDCall (FDStatSetRightsSyscall fd rightsBase rightsInheriting errno)) o')))"

definition observer_FDFileStatGet ::
  "('o, 'v) callback \<Rightarrow> ('o, 'v) callback \<Rightarrow> ('s, 'v) System \<Rightarrow> ('s, 'o) Observer \<Rightarrow> int \<Rightarrow> ('v panic, FileStat \<times> int) outcome \<times> ('s, 'o) Observer" where
  "observer_FDFileStatGet before after S o' fd =
     (let o' = notify before (FDCall (FDFileStatGetSyscall fd zero_FileStat 0)) o'
      in observer_forward o' (sys_FDFileStatGet S (observer_system o') fd)
        (\<lambda>(stat, errno) o'. (Return (stat, errno),
          notify after (FDCall (FDFileStatGetSyscall fd stat errno)) o')))"

definition observer_FDFileStatSetSize ::
  "('o, 'v) callback \<Rightarrow> ('o, 'v) callback \<Rightarrow> ('s, 'v) System \<Rightarrow> ('s, 'o) Observer \<Rightarrow> int \<Rightarrow> int \<Rightarrow> ('v panic, int) outcome \<times> ('s, 'o) Observer" where
  "observer_FDFileStatSetSize before after S o' fd sz =
     (let o' = notify before (FDCall (FDFileStatSetSizeSyscall fd sz 0)) o'
      in observer_forward o' (sys_FDFileStatSetSize S (observer_system o') fd sz)
        (\<lambda>errno o'. (Return errno,
          notify after (FDCall (FDFileStatSetSizeSyscall fd sz errno)) o')))"

definition observer_FDFileStatSetTimes ::
  "('o, 'v) callback \<Rightarrow> ('o, 'v) callback \<Rightarrow> ('s, 'v) System \<Rightarrow> ('s, 'o) Observer \<Rightarrow> int \<Rightarrow> int \<Rightarrow> int \<Rightarrow> int \<Rightarrow> ('v panic, int) outcome \<times> ('s, 'o) Observer" where
  "observer_FDFileStatSetTimes before after S o' fd accessTime modifyTime flags =
     (let o' = notify before (FDCall (FDFileStatSetTimesSyscall fd accessTime modifyTime flags 0)) o'
      in observer_forward o' (sys_FDFileStatSetTimes S (observer_system o') fd accessTime modifyTime flags)
        (\<lambda>errno o'. (Return errno,
          notify after (FDCall (FDFileStatSetTimesSyscall fd accessTime modifyTime flags errno)) o')))"

definition observer_FDPread ::
  "('o, 'v) callback \<Rightarrow> ('o, 'v) callback \<Rightarrow> ('s, 'v) System \<Rightarrow> ('s, 'o) Observer \<Rightarrow> int \<Rightarrow> bytes list \<Rightarrow> int \<Rightarrow> ('v panic, int \<times> int \<times> bytes list) outcome \<times> ('s, 'o) Observer" where
  "observer_FDPread before after S o' fd iovecs offset =
     (let o' = notify before (FDCall (FDPreadSyscall fd iovecs offset 0 0)) o'
      in observer_forward o' (sys_FDPread S (observer_system o') fd iovecs offset)
        (\<lambda>(sz, errno, iovecs) o'. (Return (sz, errno, iovecs),
          notify after (FDCall (FDPreadSyscall fd iovecs offset sz errno)) o')))"

definition observer_FDPreStatGet ::
  "('o, 'v) callback \<Rightarrow> ('o, 'v) callback \<Rightarrow> ('s, 'v) System \<Rightarrow> ('s, 'o) Observer \<Rightarrow> int \<Rightarrow> ('v panic, PreStat \<times> int) outcome \<times> ('s, 'o) Observer" where
  "observer_FDPreStatGet before after S o' fd =
     (let o' = notify before (FDCall (FDPreStatGetSyscall fd zero_PreStat 0)) o'
      in observer_forward o' (sys_FDPreStatGet S (observer_system o') fd)
        (\<lambda>(stat, errno) o'. (Return (stat, errno),
          notify after (FDCall (FDPreStatGetSyscall fd stat errno)) o')))"

definition observer_FDPreStatDirName ::
  "('o, 'v) callback \<Rightarrow> ('o, 'v) callback \<Rightarrow> ('s, 'v) System \<Rightarrow> ('s, 'o) Observer \<Rightarrow> int \<Rightarrow> ('v panic, bytes \<times> int) outcome \<times> ('s, 'o) Observer" where
  "observer_FDPreStatDirName before after S o' fd =
     (let o' = notify before (FDCall (FDPreStatDirNameSyscall fd [] 0)) o'
      in observer_forward o' (sys_FDPreStatDirName S (observer_system o') fd)
        (\<lambda>(name, errno) o'. (Return (name, errno),
          notify after (FDCall (FDPreStatDirNameSyscall fd name errno)) o')))"

definition observer_FDPwrite ::
  "('o, 'v) callback \<Rightarrow> ('o, 'v) callback \<Rightarrow> ('s, 'v) System \<Rightarrow> ('s, 'o) Observer \<Rightarrow> int \<Rightarrow> bytes list \<Rightarrow> int \<Rightarrow> ('v panic, int \<times> int) outcome \<times> ('s, 'o) Observer" where
  "observer_FDPwrite before after S o' fd iovecs offset =
     (let o' = notify before (FDCall (FDPwriteSyscall fd iovecs offset 0 0)) o'
      in observer_forward o' (sys_FDPwrite S (observer_system o') fd iovecs offset)
        (\<lambda>(sz, errno) o'. (Return (sz, errno),
          notify after (FDCall (FDPwriteSyscall fd iovecs offset sz errno)) o')))"

definition observer_FDRead ::
  "('o, 'v) callback \<Rightarrow> ('o, 'v) callback \<Rightarrow> ('s, 'v) System \<Rightarrow> ('s, 'o) Observer \<Rightarrow> int \<Rightarrow> bytes list \<Rightarrow> ('v panic, int \<times> int \<times> bytes list) outcome \<times> ('s, 'o) Observer" where
  "observer_FDRead before after S o' fd iovecs =
     (let o' = notify before (FDCall (FDReadSyscall fd iovecs 0 0)) o'
      in observer_forward o' (sys_FDRead S (observer_system o') fd iovecs)
        (\<lambda>(sz, errno, iovecs) o'. (Return (sz, errno, iovecs),
          notify after (FDCall (FDReadSyscall fd iovecs sz errno)) o')))"

definition observer_FDReadDir ::
  "('o, 'v) callback \<Rightarrow> ('o, 'v) callback \<Rightarrow> ('s, 'v) System \<Rightarrow> ('s, 'o) Observer \<Rightarrow> int \<Rightarrow> DirEntry list \<Rightarrow> int \<Rightarrow> int \<Rightarrow> ('v panic, int \<times> int \<times> DirEntry list) outcome \<times> ('s, 'o) Observer" where
  "observer_FDReadDir before after S o' fd entries cookie bufferSizeBytes =
     (let o' = notify before (FDCall (FDReadDirSyscall fd entries cookie bufferSizeBytes 0)) o'
      in observer_forward o' (sys_FDReadDir S (observer_system o') fd entries cookie bufferSizeBytes)
        (\<lambda>(n, errno, entries) o'. (Return (n, errno, entries),
          notify after (FDCall (FDReadDirSyscall fd (clip n entries) cookie bufferSizeBytes errno)) o')))"

definition observer_FDRenumber ::
  "('o, 'v) callback \<Rightarrow> ('o, 'v) callback \<Rightarrow> ('s, 'v) System \<Rightarrow> ('s, 'o) Observer \<Rightarrow> int \<Rightarrow> int \<Rightarrow> ('v panic, int) outcome \<times> ('s, 'o) Observer" where
  "observer_FDRenumber before after S o' from to =
     (let o' = notify before (FDCall (FDRenumberSyscall from to 0)) o'
      in observer_forward o' (sys_FDRenumber S (observer_system o') from to)
        (\<lambda>errno o'. (Return errno,
          notify after (FDCall (FDRenumberSyscall from to errno)) o')))"

definition observer_FDSeek ::
  "('o, 'v) callback \<Rightarrow> ('o, 'v) callback \<Rightarrow> ('s, 'v) System \<Rightarrow> ('s, 'o) Observer \<Rightarrow> int \<Rightarrow> int \<Rightarrow> int \<Rightarrow> ('v panic, int \<times> int) outcome \<times> ('s, 'o) Observer" where
  "observer_FDSeek before after S o' fd offset whence =
     (let o' = notify before (FDCall (FDSeekSyscall fd offset whence 0 0)) o'
      in observer_forward o' (sys_FDSeek S (observer_system o') fd offset whence)
        (\<lambda>(sz, errno) o'. (Return (sz, errno),
          notify after (FDCall (FDSeekSyscall fd offset whence sz errno)) o')))"

definition observer_FDSync ::
  "('o, 'v) callback \<Rightarrow> ('o, 'v) callback \<Rightarrow> ('s, 'v) System \<Rightarrow> ('s, 'o) Observer \<Rightarrow> int \<Rightarrow> ('v panic, int) outcome \<times> ('s, 'o) Observer" where
  "observer_FDSync before after S o' fd =
     (let o' = notify before (FDCall (FDSyncSyscall fd 0)) o'
      in observer_forward o' (sys_FDSync S (observer_system o') fd)
        (\<lambda>errno o'. (Return errno,
          notify after (FDCall (FDSyncSyscall fd errno)) o')))"

definition observer_FDTell ::
  "('o, 'v) callback \<Rightarrow> ('o, 'v) callback \<Rightarrow> ('s, 'v) System \<Rightarrow> ('s, 'o) Observer \<Rightarrow> int \<Rightarrow> ('v panic, int \<times> int) outcome \<times> ('s, 'o) Observer" where
  "observer_FDTell before after S o' fd =
     (let o' = notify before (FDCall (FDTellSyscall fd 0 0)) o'
      in observer_forward o' (sys_FDTell S (observer_system o') fd)
        (\<lambda>(sz, errno) o'. (Return (sz, errno),
          notify after (FDCall (FDTellSyscall fd sz errno)) o')))"

definition observer_FDWrite ::
  "('o, 'v) callback \<Rightarrow> ('o, 'v) callback \<Rightarrow> ('s, 'v) System \<Rightarrow> ('s, 'o) Observer \<Rightarrow> int \<Rightarrow> bytes list \<Rightarrow> ('v panic, int \<times> int) outcome \<times> ('s, 'o) Observer" where
  "observer_FDWrite before after S o' fd iovecs =
     (let o' = notify before (FDCall (FDWriteSyscall fd iovecs 0 0)) o'
      in observer_forward o' (sys_FDWrite S (observer_system o') fd iovecs)
        (\<lambda>(sz, errno) o'. (Return (sz, errno),
          notify after (FDCall (FDWriteSyscall fd iovecs sz errno)) o')))"

definition observer_PathCreateDirectory ::
  "('o, 'v) callback \<Rightarrow> ('o, 'v) callback \<Rightarrow> ('s, 'v) System \<Rightarrow> ('s, 'o) Observer \<Rightarrow> int \<Rightarrow> bytes \<Rightarrow> ('v panic, int) outcome \<times> ('s, 'o) Observer" where
  "observer_PathCreateDirectory before after S o' fd path =
     (let o' = notify before (PathCall (PathCreateDirectorySyscall fd path 0)) o'
      in observer_forward o' (sys_PathCreateDirectory S (observer_system o') fd path)
        (\<lambda>errno o'. (Return errno,
          notify after (PathCall (PathCreateDirectorySyscall fd path errno)) o')))"

definition observer_PathFileStatGet ::
  "('o, 'v) callback \<Rightarrow> ('o, 'v) callback \<Rightarrow> ('s, 'v) System \<Rightarrow> ('s, 'o) Observer \<Rightarrow> int \<Rightarrow> int \<Rightarrow> bytes \<Rightarrow> ('v panic, FileStat \<times> int) outcome \<times> ('s, 'o) Observer" where
  "observer_PathFileStatGet before after S o' fd lookupFlags path =
     (let o' = notify before (PathCall (PathFileStatGetSyscall fd lookupFlags path zero_FileStat 0)) o'
      in observer_forward o' (sys_PathFileStatGet S (observer_system o') fd lookupFlags path)
        (\<lambda>(stat, errno) o'. (Return (stat, errno),
          notify after (PathCall (PathFileStatGetSyscall fd lookupFlags path stat errno)) o')))"

definition observer_PathFileStatSetTimes ::
  "('o, 'v) callback \<Rightarrow> ('o, 'v) callback \<Rightarrow> ('s, 'v) System \<Rightarrow> ('s, 'o) Observer \<Rightarrow> int \<Rightarrow> int \<Rightarrow> bytes \<Rightarrow> int \<Rightarrow> int \<Rightarrow> int \<Rightarrow> ('v panic, int) outcome \<times> ('s, 'o) Observer" where
  "observer_PathFileStatSetTimes before after S o' fd lookupFlags path accessTime modifyTime flags =
     (let o' = notify before (PathCall (PathFileStatSetTimesSyscall fd lookupFlags path accessTime modifyTime flags 0)) o'
      in observer_forward o' (sys_PathFileStatSetTimes S (observer_system o') fd lookupFlags path accessTime modifyTime flags)
        (\<lambda>errno o'. (Return errno,
          notify after (PathCall (PathFileStatSetTimesSyscall fd lookupFlags path accessTime modifyTime flags errno)) o')))"

definition observer_PathLink ::
  "('o, 'v) callback \<Rightarrow> ('o, 'v) callback \<Rightarrow> ('s, 'v) System \<Rightarrow> ('s, 'o) Observer \<Rightarrow> int \<Rightarrow> int \<Rightarrow> bytes \<Rightarrow> int \<Rightarrow> bytes \<Rightarrow> ('v panic, int) outcome \<times> ('s, 'o) Observer" where
  "observer_PathLink before after S o' oldFD oldFlags oldPath newFD newPath =
     (let o' = notify before (PathCall (PathLinkSyscall oldFD oldFlags oldPath newFD newPath 0)) o'
      in observer_forward o' (sys_PathLink S (observer_system o') oldFD oldFlags oldPath newFD newPath)
        (\<lambda>errno o'. (Return errno,
          notify after (PathCall (PathLinkSyscall oldFD oldFlags oldPath newFD newPath errno)) o')))"

definition observer_PathOpen ::
  "('o, 'v) callback \<Rightarrow> ('o, 'v) callback \<Rightarrow> ('s, 'v) System \<Rightarrow> ('s, 'o) Observer \<Rightarrow> int \<Rightarrow> int \<Rightarrow> bytes \<Rightarrow> int \<Rightarrow> int \<Rightarrow> int \<Rightarrow> int \<Rightarrow> ('v panic, int \<times> int) outcome \<times> ('s, 'o) Observer" where
  "observer_PathOpen before after S o' fd dirFlags path openFlags rightsBase rightsInheriting fdFlags =
     (let o' = notify before (PathCall (PathOpenSyscall fd dirFlags path openFlags rightsBase rightsInheriting fdFlags 0 0)) o'
      in observer_forward o' (sys_PathOpen S (observer_system o') fd dirFlags path openFlags rightsBase rightsInheriting fdFlags)
        (\<lambda>(newfd, errno) o'. (Return (newfd, errno),
          notify after (PathCall (PathOpenSyscall fd dirFlags path openFlags rightsBase rightsInheriting fdFlags newfd errno)) o')))"

definition observer_PathReadLink ::
  "('o, 'v) callback \<Rightarrow> ('o, 'v) callback \<Rightarrow> ('s, 'v) System \<Rightarrow> ('s, 'o) Observer \<Rightarrow> int \<Rightarrow> bytes \<Rightarrow> bytes \<Rightarrow> ('v panic, int \<times> int \<times> bytes) outcome \<times> ('s, 'o) Observer" where
  "observer_PathReadLink before after S o' fd path buffer =
     (let o' = notify before (PathCall (PathReadLinkSyscall fd path buffer 0)) o'
      in observer_forward o' (sys_PathReadLink S (observer_system o') fd path buffer)
        (\<lambda>(n, errno, buffer) o'. (Return (n, errno, buffer),
          notify after (PathCall (PathReadLinkSyscall fd path (clip n buffer) errno)) o')))"

definition observer_PathRemoveDirectory ::
  "('o, 'v) callback \<Rightarrow> ('o, 'v) callback \<Rightarrow> ('s, 'v) System \<Rightarrow> ('s, 'o) Observer \<Rightarrow> int \<Rightarrow> bytes \<Rightarrow> ('v panic, int) outcome \<times> ('s, 'o) Observer" where
  "observer_PathRemoveDirectory before after S o' fd path =
     (let o' = notify before (PathCall (PathRemoveDirectorySyscall fd path 0)) o'
      in observer_forward o' (sys_PathRemoveDirectory S (observer_system o') fd path)
        (\<lambda>errno o'. (Return errno,
          notify after (PathCall (PathRemoveDirectorySyscall fd path errno)) o')))"

definition observer_PathRename ::
  "('o, 'v) callback \<Rightarrow> ('o, 'v) callback \<Rightarrow> ('s, 'v) System \<Rightarrow> ('s, 'o) Observer \<Rightarrow> int \<Rightarrow> bytes \<Rightarrow> int \<Rightarrow> bytes \<Rightarrow> ('v panic, int) outcome \<times> ('s, 'o) Observer" where
  "observer_PathRename before after S o' fd oldPath newFD newPath =
     (let o' = notify before (PathCall (PathRenameSyscall fd oldPath newFD newPath 0)) o'
      in observer_forward o' (sys_PathRename S (observer_system o') fd oldPath newFD newPath)
        (\<lambda>errno o'. (Return errno,
          notify after (PathCall (PathRenameSyscall fd oldPath newFD newPath errno)) o')))"

definition observer_PathSymlink ::
  "('o, 'v) callback \<Rightarrow> ('o, 'v) callback \<Rightarrow> ('s, 'v) System \<Rightarrow> ('s, 'o) Observer \<Rightarrow> bytes \<Rightarrow> int \<Rightarrow> bytes \<Rightarrow> ('v panic, int) outcome \<times> ('s, 'o) Observer" where
  "observer_PathSymlink before after S o' oldPath fd newPath =
     (let o' = notify before (PathCall (PathSymlinkSyscall oldPath fd newPath 0)) o'
      in observer_forward o' (sys_PathSymlink S (observer_system o') oldPath fd newPath)
        (\<lambda>errno o'. (Return errno,
          notify after (PathCall (PathSymlinkSyscall oldPath fd newPath errno)) o')))"

definition observer_PathUnlinkFile ::
  "('o, 'v) callback \<Rightarrow> ('o, 'v) callback \<Rightarrow> ('s, 'v) System \<Rightarrow> ('s, 'o) Observer \<Rightarrow> int \<Rightarrow> bytes \<Rightarrow> ('v panic, int) outcome \<times> ('s, 'o) Observer" where
  "observer_PathUnlinkFile before after S o' fd path =
     (let o' = notify before (PathCall (PathUnlinkFileSyscall fd path 0)) o'
      in observer_forward o' (sys_PathUnlinkFile S (observer_system o') fd path)
        (\<lambda>errno o'. (Return errno,
          notify after (PathCall (PathUnlinkFileSyscall fd path errno)) o')))"

definition observer_PollOneOff ::
  "('o, 'v) callback \<Rightarrow> ('o, 'v) callback \<Rightarrow> ('s, 'v) System \<Rightarrow> ('s, 'o) Observer \<Rightarrow> 'v Subscription list \<Rightarrow> Event list \<Rightarrow> ('v panic, int \<times> int \<times> Event list) outcome \<times> ('s, 'o) Observer" where
  "observer_PollOneOff before after S o' subscriptions events =
     (let o' = notify before (ProcCall (PollOneOffSyscall subscriptions events 0)) o'
      in observer_forward o' (sys_PollOneOff S (observer_system o') subscriptions events)
        (\<lambda>(count, errno, events) o'. (Return (count, errno, events),
          notify after (ProcCall (PollOneOffSyscall subscriptions (clip count events) errno)) o')))"

definition observer_ProcExit ::
  "('o, 'v) callback \<Rightarrow> ('o, 'v) callback \<Rightarrow> ('s, 'v) System \<Rightarrow> ('s, 'o) Observer \<Rightarrow> int \<Rightarrow> ('v panic, int) outcome \<times> ('s, 'o) Observer" where
  "observer_ProcExit before after S o' exitCode =
     (let o' = notify before (ProcCall (ProcExitSyscall exitCode 0)) o'
      in observer_forward o' (sys_ProcExit S (observer_system o') exitCode)
        (\<lambda>errno o'. (Return errno,
          notify after (ProcCall (ProcExitSyscall exitCode errno)) o')))"

definition observer_ProcRaise ::
  "('o, 'v) callback \<Rightarrow> ('o, 'v) callback \<Rightarrow> ('s, 'v) System \<Rightarrow> ('s, 'o) Observer \<Rightarrow> int \<Rightarrow> ('v panic, int) outcome \<times> ('s, 'o) Observer" where
  "observer_ProcRaise before after S o' signal =
     (let o' = notify before (ProcCall (ProcRaiseSyscall signal 0)) o'
      in observer_forward o' (sys_ProcRaise S (observer_system o') signal)
        (\<lambda>errno o'. (Return errno,
          notify after (ProcCall (ProcRaiseSyscall signal errno)) o')))"

definition observer_SchedYield ::
  "('o, 'v) callback \<Rightarrow> ('o, 'v) callback \<Rightarrow> ('s, 'v) System \<Rightarrow> ('s, 'o) Observer \<Rightarrow> ('v panic, int) outcome \<times> ('s, 'o) Observer" where
  "observer_SchedYield before after S o' =
     (let o' = notify before (ProcCall (SchedYieldSyscall 0)) o'
      in observer_forward o' (sys_SchedYield S (observer_system o'))
        (\<lambda>errno o'. (Return errno,
          notify after (ProcCall (SchedYieldSyscall errno)) o')))"

definition observer_RandomGet ::
  "('o, 'v) callback \<Rightarrow> ('o, 'v) callback \<Rightarrow> ('s, 'v) System \<Rightarrow> ('s, 'o) Observer \<Rightarrow> bytes \<Rightarrow> ('v panic, int \<times> bytes) outcome \<times> ('s, 'o) Observer" where
  "observer_RandomGet before after S o' b =
     (let o' = notify before (ProcCall (RandomGetSyscall b 0)) o'
      in observer_forward o' (sys_RandomGet S (observer_system o') b)
        (\<lambda>(errno, b) o'. (Return (errno, b),
          notify after (ProcCall (RandomGetSyscall b errno)) o')))"

definition observer_SockAccept ::
  "('o, 'v) callback \<Rightarrow> ('o, 'v) callback \<Rightarrow> ('s, 'v) System \<Rightarrow> ('s, 'o) Observer \<Rightarrow> int \<Rightarrow> int \<Rightarrow> ('v panic, int \<times> SocketAddress \<times> SocketAddress \<times> int) outcome \<times> ('s, 'o) Observer" where
  "observer_SockAccept before after S o' fd flags =
     (let o' = notify before (SockCall (SockAcceptSyscall fd flags 0 NilAddress NilAddress 0)) o'
      in observer_forward o' (sys_SockAccept S (observer_system o') fd flags)
        (\<lambda>(newfd, peer, addr, errno) o'. (Return (newfd, peer, addr, errno),
          notify after (SockCall (SockAcceptSyscall fd flags newfd peer addr errno)) o')))"

definition observer_SockRecv ::
  "('o, 'v) callback \<Rightarrow> ('o, 'v) callback \<Rightarrow> ('s, 'v) System \<Rightarrow> ('s, 'o) Observer \<Rightarrow> int \<Rightarrow> bytes list \<Rightarrow> int \<Rightarrow> ('v panic, int \<times> int \<times> int \<times> bytes list) outcome \<times> ('s, 'o) Observer" where
  "observer_SockRecv before after S o' fd iovecs iflags =
     (let o' = notify before (SockCall (SockRecvSyscall fd iovecs iflags 0 0 0)) o'
      in observer_forward o' (sys_SockRecv S (observer_system o') fd iovecs iflags)
        (\<lambda>(sz, oflags, errno, iovecs) o'. (Return (sz, oflags, errno, iovecs),
          notify after (SockCall (SockRecvSyscall fd iovecs iflags sz oflags errno)) o')))"

definition observer_SockSend ::
  "('o, 'v) callback \<Rightarrow> ('o, 'v) callback \<Rightarrow> ('s, 'v) System \<Rightarrow> ('s, 'o) Observer \<Rightarrow> int \<Rightarrow> bytes list \<Rightarrow> int \<Rightarrow> ('v panic, int \<times> int) outcome \<times> ('s, 'o) Observer" where
  "observer_SockSend before after S o' fd iovecs iflags =
     (let o' = notify before (SockCall (SockSendSyscall fd iovecs iflags 0 0)) o'
      in observer_forward o' (sys_SockSend S (observer_system o') fd iovecs iflags)
        (\<lambda>(sz, errno) o'. (Return (sz, errno),
          notify after (SockCall (SockSendSyscall fd iovecs iflags sz errno)) o')))"

definition observer_SockShutdown ::
  "('o, 'v) callback \<Rightarrow> ('o, 'v) callback \<Rightarrow> ('s, 'v) System \<Rightarrow> ('s, 'o) Observer \<Rightarrow> int \<Rightarrow> int \<Rightarrow> ('v panic, int) outcome \<times> ('s, 'o) Observer" where
  "observer_SockShutdown before after S o' fd flags =
     (let o' = notify before (SockCall (SockShutdownSyscall fd flags 0)) o'
      in observer_forward o' (sys_SockShutdown S (observer_system o') fd flags)
        (\<lambda>errno o'. (Return errno,
          notify after (SockCall (SockShutdownSyscall fd flags errno)) o')))"

definition observer_SockOpen ::
  "('o, 'v) callback \<Rightarrow> ('o, 'v) callback \<Rightarrow> ('s, 'v) System \<Rightarrow> ('s, 'o) Observer \<Rightarrow> int \<Rightarrow> int \<Rightarrow> int \<Rightarrow> int \<Rightarrow> int \<Rightarrow> ('v panic, int \<times> int) outcome \<times> ('s, 'o) Observer" where
  "observer_SockOpen before after S o' family socketType protocol rightsBase rightsInheriting =
     (let o' = notify before (SockCall (SockOpenSyscall family socketType protocol rightsBase rightsInheriting 0 0)) o'
      in observer_forward o' (sys_SockOpen S (observer_system o') family socketType protocol rightsBase rightsInheriting)
        (\<lambda>(fd, errno) o'. (Return (fd, errno),
          notify after (SockCall (SockOpenSyscall family socketType protocol rightsBase rightsInheriting fd errno)) o')))"

definition observer_SockBind ::
  "('o, 'v) callback \<Rightarrow> ('o, 'v) callback \<Rightarrow> ('s, 'v) System \<Rightarrow> ('s, 'o) Observer \<Rightarrow> int \<Rightarrow> SocketAddress \<Rightarrow> ('v panic, SocketAddress \<times> int) outcome \<times> ('s, 'o) Observer" where
  "observer_SockBind before after S o' fd bindAddr =
     (let o' = notify before (SockCall (SockBindSyscall fd bindAddr NilAddress 0)) o'
      in observer_forward o' (sys_SockBind S (observer_system o') fd bindAddr)
        (\<lambda>(addr, errno) o'. (Return (addr, errno),
          notify after (SockCall (SockBindSyscall fd bindAddr addr errno)) o')))"

definition observer_SockConnect ::
  "('o, 'v) callback \<Rightarrow> ('o, 'v) callback \<Rightarrow> ('s, 'v) System \<Rightarrow> ('s, 'o) Observer \<Rightarrow> int \<Rightarrow> SocketAddress \<Rightarrow> ('v panic, SocketAddress \<times> int) outcome \<times> ('s, 'o) Observer" where
  "observer_SockConnect before after S o' fd peer =
     (let o' = notify before (SockCall (SockConnectSyscall fd peer NilAddress 0)) o'
      in observer_forward o' (sys_SockConnect S (observer_system o') fd peer)
        (\<lambda>(addr, errno) o'. (Return (addr, errno),
          notify after (SockCall (SockConnectSyscall fd peer addr errno)) o')))"

definition observer_SockListen ::
  "('o, 'v) callback \<Rightarrow> ('o, 'v) callback \<Rightarrow> ('s, 'v) System \<Rightarrow> ('s, 'o) Observer \<Rightarrow> int \<Rightarrow> int \<Rightarrow> ('v panic, int) outcome \<times> ('s, 'o) Observer" where
  "observer_SockListen before after S o' fd backlog =
     (let o' = notify before (SockCall (SockListenSyscall fd backlog 0)) o'
      in observer_forward o' (sys_SockListen S (observer_system o') fd backlog)
        (\<lambda>errno o'. (Return errno,
          notify after (SockCall (SockListenSyscall fd backlog errno)) o')))"

definition observer_SockSendTo ::
  "('o, 'v) callback \<Rightarrow> ('o, 'v) callback \<Rightarrow> ('s, 'v) System \<Rightarrow> ('s, 'o) Observer \<Rightarrow> int \<Rightarrow> bytes list \<Rightarrow> int \<Rightarrow> SocketAddress \<Rightarrow> ('v panic, int \<times> int) outcome \<times> ('s, 'o) Observer" where
  "observer_SockSendTo before after S o' fd iovecs iflags addr =
     (let o' = notify before (SockCall (SockSendToSyscall fd iovecs iflags addr 0 0)) o'
      in observer_forward o' (sys_SockSendTo S (observer_system o') fd iovecs iflags addr)
        (\<lambda>(sz, errno) o'. (Return (sz, errno),
          notify after (SockCall (SockSendToSyscall fd iovecs iflags addr sz errno)) o')))"

definition observer_SockRecvFrom ::
  "('o, 'v) callback \<Rightarrow> ('o, 'v) callback \<Rightarrow> ('s, 'v) System \<Rightarrow> ('s, 'o) Observer \<Rightarrow> int \<Rightarrow> bytes list \<Rightarrow> int \<Rightarrow> ('v panic, int \<times> int \<times> SocketAddress \<times> int \<times> bytes list) outcome \<times> ('s, 'o) Observer" where
  "observer_SockRecvFrom before after S o' fd iovecs iflags =
     (let o' = notify before (SockCall (SockRecvFromSyscall fd iovecs iflags 0 0 NilAddress 0)) o'
      in observer_forward o' (sys_SockRecvFrom S (observer_system o') fd iovecs iflags)
        (\<lambda>(sz, oflags, addr, errno, iovecs) o'. (Return (sz, oflags, addr, errno, iovecs),
          notify after (SockCall (SockRecvFromSyscall fd iovecs iflags sz oflags addr errno)) o')))"

definition observer_SockGetOpt ::
  "('o, 'v) callback \<Rightarrow> ('o, 'v) callback \<Rightarrow> ('s, 'v) System \<Rightarrow> ('s, 'o) Observer \<Rightarrow> int \<Rightarrow> int \<Rightarrow> ('v panic, SocketOptionValue \<times> int) outcome \<times> ('s, 'o) Observer" where
  "observer_SockGetOpt before after S o' fd opt =
     (let o' = notify before (SockCall (SockGetOptSyscall fd opt NilValue 0)) o'
      in observer_forward o' (sys_SockGetOpt S (observer_system o') fd opt)
        (\<lambda>(value, errno) o'. (Return (value, errno),
          notify after (SockCall (SockGetOptSyscall fd opt value errno)) o')))"

definition observer_SockSetOpt ::
  "('o, 'v) callback \<Rightarrow> ('o, 'v) callback \<Rightarrow> ('s, 'v) System \<Rightarrow> ('s, 'o) Observer \<Rightarrow> int \<Rightarrow> int \<Rightarrow> SocketOptionValue \<Rightarrow> ('v panic, int) outcome \<times> ('s, 'o) Observer" where
  "observer_SockSetOpt before after S o' fd opt value =
     (let o' = notify before (SockCall (SockSetOptSyscall fd opt value 0)) o'
      in observer_forward o' (sys_SockSetOpt S (observer_system o') fd opt value)
        (\<lambda>errno o'. (Return errno,
          notify after (SockCall (SockSetOptSyscall fd opt value errno)) o')))"

definition observer_SockLocalAddress ::
  "('o, 'v) callback \<Rightarrow> ('o, 'v) callback \<Rightarrow> ('s, 'v) System \<Rightarrow> ('s, 'o) Observer \<Rightarrow> int \<Rightarrow> ('v panic, SocketAddress \<times> int) outcome \<times> ('s, 'o) Observer" where
  "observer_SockLocalAddress before after S o' fd =
     (let o' = notify before (SockCall (SockLocalAddressSyscall fd NilAddress 0)) o'
      in observer_forward o' (sys_SockLocalAddress S (observer_system o') fd)
        (\<lambda>(addr, errno) o'. (Return (addr, errno),
          notify after (SockCall (SockLocalAddressSyscall fd addr errno)) o')))"

definition observer_SockRemoteAddress ::
  "('o, 'v) callback \<Rightarrow> ('o, 'v) callback \<Rightarrow> ('s, 'v) System \<Rightarrow> ('s, 'o) Observer \<Rightarrow> int \<Rightarrow> ('v panic, SocketAddress \<times> int) outcome \<times> ('s, 'o) Observer" where
  "observer_SockRemoteAddress before after S o' fd =
     (let o' = notify before (SockCall (SockRemoteAddressSyscall fd NilAddress 0)) o'
      in observer_forward o' (sys_SockRemoteAddress S (observer_system o') fd)
        (\<lambda>(addr, errno) o'. (Return (addr, errno),
          notify after (SockCall (SockRemoteAddressSyscall fd addr errno)) o')))"

definition observer_SockAddressInfo ::
  "('o, 'v) callback \<Rightarrow> ('o, 'v) callback \<Rightarrow> ('s, 'v) System \<Rightarrow> ('s, 'o) Observer \<Rightarrow> bytes \<Rightarrow> bytes \<Rightarrow> AddressInfo \<Rightarrow> AddressInfo list \<Rightarrow> ('v panic, int \<times> int \<times> AddressInfo list) outcome \<times> ('s, 'o) Observer" where
  "observer_SockAddressInfo before after S o' name service hints results =
     (let o' = notify before (SockCall (SockAddressInfoSyscall name service hints results 0)) o'
      in observer_forward o' (sys_SockAddressInfo S (observer_system o') name service hints results)
        (\<lambda>(n, errno, results) o'. case after of
            None \<Rightarrow> (Return (n, errno, results), o')
          | Some _ \<Rightarrow>
              (case before of
                 None \<Rightarrow> (Panic (RuntimeError ''invalid memory address or nil pointer dereference''), o')
               | Some _ \<Rightarrow>
                   (Return (n, errno, results),
                    notify before (SockCall (SockAddressInfoSyscall name service hints (clip n results) errno)) o'))))"

definition NewObserver ::
  "('s, 'v) System \<Rightarrow> ('o, 'v) callback \<Rightarrow> ('o, 'v) callback \<Rightarrow> (('s, 'o) Observer, 'v) System" where
  "NewObserver S before after =
     \<lparr>sys_ArgsSizesGet = observer_ArgsSizesGet before after S,
      sys_ArgsGet = observer_ArgsGet before after S,
      sys_EnvironSizesGet = observer_EnvironSizesGet before after S,
      sys_EnvironGet = observer_EnvironGet before after S,
      sys_ClockResGet = observer_ClockResGet before after S,
      sys_ClockTimeGet = observer_ClockTimeGet before after S,
      sys_FDAdvise = observer_FDAdvise before after S,
      sys_FDAllocate = observer_FDAllocate before after S,
      sys_FDClose = observer_FDClose before after S,
      sys_FDDataSync = observer_FDDataSync before after S,
      sys_FDStatGet = observer_FDStatGet before after S,
      sys_FDStatSetFlags = observer_FDStatSetFlags before after S,
      sys_FDStatSetRights = observer_FDStatSetRights before after S,
      sys_FDFileStatGet = observer_FDFileStatGet before after S,
      sys_FDFileStatSetSize = observer_FDFileStatSetSize before after S,
      sys_FDFileStatSetTimes = observer_FDFileStatSetTimes before after S,
      sys_FDPread = observer_FDPread before after S,
      sys_FDPreStatGet = observer_FDPreStatGet before after S,
      sys_FDPreStatDirName = observer_FDPreStatDirName before after S,
      sys_FDPwrite = observer_FDPwrite before after S,
      sys_FDRead = observer_FDRead before after S,
      sys_FDReadDir = observer_FDReadDir before after S,
      sys_FDRenumber = observer_FDRenumber before after S,
      sys_FDSeek = observer_FDSeek before after S,
      sys_FDSync = observer_FDSync before after S,
      sys_FDTell = observer_FDTell before after S,
      sys_FDWrite = observer_FDWrite before after S,
      sys_PathCreateDirectory = observer_PathCreateDirectory before after S,
      sys_PathFileStatGet = observer_PathFileStatGet before after S,
      sys_PathFileStatSetTimes = observer_PathFileStatSetTimes before after S,
      sys_PathLink = observer_PathLink before after S,
      sys_PathOpen = observer_PathOpen before after S,
      sys_PathReadLink = observer_PathReadLink before after S,
      sys_PathRemoveDirectory = observer_PathRemoveDirectory before after S,
      sys_PathRename = observer_PathRename before after S,
      sys_PathSymlink = observer_PathSymlink before after S,
      sys_PathUnlinkFile = observer_PathUnlinkFile before after S,
      sys_PollOneOff = observer_PollOneOff before after S,
      sys_ProcExit = observer_ProcExit before after S,
      sys_ProcRaise = observer_ProcRaise before after S,
      sys_SchedYield = observer_SchedYield before after S,
      sys_RandomGet = observer_RandomGet before after S,
      sys_SockAccept = observer_SockAccept before after S,
      sys_SockRecv = observer_SockRecv before after S,
      sys_SockSend = observer_SockSend before after S,
      sys_SockShutdown = observer_SockShutdown before after S,
      sys_SockOpen = observer_SockOpen before after S,
      sys_SockBind = observer_SockBind before after S,
      sys_SockConnect = observer_SockConnect before after S,
      sys_SockListen = observer_SockListen before after S,
      sys_SockSendTo = observer_SockSendTo before after S,
      sys_SockRecvFrom = observer_SockRecvFrom before after S,
      sys_SockGetOpt = observer_SockGetOpt before after S,
      sys_SockSetOpt = observer_SockSetOpt before after S,
      sys_SockLocalAddress = observer_SockLocalAddress before after S,
      sys_SockRemoteAddress = observer_SockRemoteAddress before after S,
      sys_SockAddressInfo = observer_SockAddressInfo before after S\<rparr>"

lemmas observer_defs =
  observer_ArgsSizesGet_def observer_ArgsGet_def observer_EnvironSizesGet_def
  observer_EnvironGet_def observer_ClockResGet_def observer_ClockTimeGet_def observer_FDAdvise_def
  observer_FDAllocate_def observer_FDClose_def observer_FDDataSync_def observer_FDStatGet_def
  observer_FDStatSetFlags_def observer_FDStatSetRights_def observer_FDFileStatGet_def
  observer_FDFileStatSetSize_def observer_FDFileStatSetTimes_def observer_FDPread_def
  observer_FDPreStatGet_def observer_FDPreStatDirName_def observer_FDPwrite_def
  observer_FDRead_def observer_FDReadDir_def observer_FDRenumber_def observer_FDSeek_def
  observer_FDSync_def observer_FDTell_def observer_FDWrite_def observer_PathCreateDirectory_def
  observer_PathFileStatGet_def observer_PathFileStatSetTimes_def observer_PathLink_def
  observer_PathOpen_def observer_PathReadLink_def observer_PathRemoveDirectory_def
  observer_PathRename_def observer_PathSymlink_def observer_PathUnlinkFile_def
  observer_PollOneOff_def observer_ProcExit_def observer_ProcRaise_def observer_SchedYield_def
  observer_RandomGet_def observer_SockAccept_def observer_SockRecv_def observer_SockSend_def
  observer_SockShutdown_def observer_SockOpen_def observer_SockBind_def observer_SockConnect_def
  observer_SockListen_def observer_SockSendTo_def observer_SockRecvFrom_def
  observer_SockGetOpt_def observer_SockSetOpt_def observer_SockLocalAddress_def
  observer_SockRemoteAddress_def observer_SockAddressInfo_def

section \<open>What the callbacks see\<close>

text \<open>A call before it is made: its parameters, and zero values for its results.\<close>

fun env_blank :: "env_syscall \<Rightarrow> env_syscall" where
  "env_blank (ArgsSizesGetSyscall _ _ _) = ArgsSizesGetSyscall 0 0 0"
| "env_blank (ArgsGetSyscall _ _) = ArgsGetSyscall [] 0"
| "env_blank (EnvironSizesGetSyscall _ _ _) = EnvironSizesGetSyscall 0 0 0"
| "env_blank (EnvironGetSyscall _ _) = EnvironGetSyscall [] 0"
| "env_blank (ClockResGetSyscall clockID _ _) = ClockResGetSyscall clockID 0 0"
| "env_blank (ClockTimeGetSyscall clockID precision _ _) = ClockTimeGetSyscall clockID precision 0
     0"

fun fd_blank :: "fd_syscall \<Rightarrow> fd_syscall" where
  "fd_blank (FDAdviseSyscall fd offset len advice _) = FDAdviseSyscall fd offset len advice 0"
| "fd_blank (FDAllocateSyscall fd offset len _) = FDAllocateSyscall fd offset len 0"
| "fd_blank (FDCloseSyscall fd _) = FDCloseSyscall fd 0"
| "fd_blank (FDDataSyncSyscall fd _) = FDDataSyncSyscall fd 0"
| "fd_blank (FDStatGetSyscall fd _ _) = FDStatGetSyscall fd zero_FDStat 0"
| "fd_blank (FDStatSetFlagsSyscall fd flags _) = FDStatSetFlagsSyscall fd flags 0"
| "fd_blank (FDStatSetRightsSyscall fd rightsBase rightsInheriting _) = FDStatSetRightsSyscall fd
     rightsBase rightsInheriting 0"
| "fd_blank (FDFileStatGetSyscall fd _ _) = FDFileStatGetSyscall fd zero_FileStat 0"
| "fd_blank (FDFileStatSetSizeSyscall fd sz _) = FDFileStatSetSizeSyscall fd sz 0"
| "fd_blank (FDFileStatSetTimesSyscall fd accessTime modifyTime flags _) = FDFileStatSetTimesSyscall
     fd accessTime modifyTime flags 0"
| "fd_blank (FDPreadSyscall fd iovecs offset _ _) = FDPreadSyscall fd iovecs offset 0 0"
| "fd_blank (FDPreStatGetSyscall fd _ _) = FDPreStatGetSyscall fd zero_PreStat 0"
| "fd_blank (FDPreStatDirNameSyscall fd _ _) = FDPreStatDirNameSyscall fd [] 0"
| "fd_blank (FDPwriteSyscall fd iovecs offset _ _) = FDPwriteSyscall fd iovecs offset 0 0"
| "fd_blank (FDReadSyscall fd iovecs _ _) = FDReadSyscall fd iovecs 0 0"
| "fd_blank (FDReadDirSyscall fd entries cookie bufferSizeBytes _) = FDReadDirSyscall fd entries
     cookie bufferSizeBytes 0"
| "fd_blank (FDRenumberSyscall from to _) = FDRenumberSyscall from to 0"
| "fd_blank (FDSeekSyscall fd seekOffset whence _ _) = FDSeekSyscall fd seekOffset whence 0 0"
| "fd_blank (FDSyncSyscall fd _) = FDSyncSyscall fd 0"
| "fd_blank (FDTellSyscall fd _ _) = FDTellSyscall fd 0 0"
| "fd_blank (FDWriteSyscall fd iovecs _ _) = FDWriteSyscall fd iovecs 0 0"

fun path_blank :: "path_syscall \<Rightarrow> path_syscall" where
  "path_blank (PathCreateDirectorySyscall fd path _) = PathCreateDirectorySyscall fd path 0"
| "path_blank (PathFileStatGetSyscall fd lookupFlags path _ _) = PathFileStatGetSyscall fd
     lookupFlags path zero_FileStat 0"
| "path_blank (PathFileStatSetTimesSyscall fd lookupFlags path accessTime modifyTime flags _) =
     PathFileStatSetTimesSyscall fd lookupFlags path accessTime modifyTime flags 0"
| "path_blank (PathLinkSyscall oldFD oldFlags oldPath newFD newPath _) = PathLinkSyscall oldFD
     oldFlags oldPath newFD newPath 0"
| "path_blank (PathOpenSyscall fd dirFlags path openFlags rightsBase rightsInheriting fdFlags _ _) =
     PathOpenSyscall fd dirFlags path openFlags rightsBase rightsInheriting fdFlags 0 0"
| "path_blank (PathReadLinkSyscall fd path output _) = PathReadLinkSyscall fd path output 0"
| "path_blank (PathRemoveDirectorySyscall fd path _) = PathRemoveDirectorySyscall fd path 0"
| "path_blank (PathRenameSyscall fd oldPath newFD newPath _) = PathRenameSyscall fd oldPath newFD
     newPath 0"
| "path_blank (PathSymlinkSyscall oldPath fd newPath _) = PathSymlinkSyscall oldPath fd newPath 0"
| "path_blank (PathUnlinkFileSyscall fd path _) = PathUnlinkFileSyscall fd path 0"

fun proc_blank :: "'v proc_syscall \<Rightarrow> 'v proc_syscall" where
  "proc_blank (PollOneOffSyscall subscriptions events _) = PollOneOffSyscall subscriptions events 0"
| "proc_blank (ProcExitSyscall exitCode _) = ProcExitSyscall exitCode 0"
| "proc_blank (ProcRaiseSyscall signal _) = ProcRaiseSyscall signal 0"
| "proc_blank (SchedYieldSyscall _) = SchedYieldSyscall 0"
| "proc_blank (RandomGetSyscall b _) = RandomGetSyscall b 0"

fun sock_blank :: "sock_syscall \<Rightarrow> sock_syscall" where
  "sock_blank (SockAcceptSyscall fd flags _ _ _ _) = SockAcceptSyscall fd flags 0 NilAddress
     NilAddress 0"
| "sock_blank (SockShutdownSyscall fd flags _) = SockShutdownSyscall fd flags 0"
| "sock_blank (SockRecvSyscall fd iovecs iflags _ _ _) = SockRecvSyscall fd iovecs iflags 0 0 0"
| "sock_blank (SockSendSyscall fd iovecs flags _ _) = SockSendSyscall fd iovecs flags 0 0"
| "sock_blank (SockOpenSyscall family socketType protocol rightsBase rightsInheriting _ _) =
     SockOpenSyscall family socketType protocol rightsBase rightsInheriting 0 0"
| "sock_blank (SockBindSyscall fd bindAddr _ _) = SockBindSyscall fd bindAddr NilAddress 0"
| "sock_blank (SockConnectSyscall fd peer _ _) = SockConnectSyscall fd peer NilAddress 0"
| "sock_blank (SockListenSyscall fd backlog _) = SockListenSyscall fd backlog 0"
| "sock_blank (SockSendToSyscall fd iovecs iflags addr _ _) = SockSendToSyscall fd iovecs iflags
     addr 0 0"
| "sock_blank (SockRecvFromSyscall fd iovecs iflags _ _ _ _) = SockRecvFromSyscall fd iovecs iflags
     0 0 NilAddress 0"
| "sock_blank (SockGetOptSyscall fd opt _ _) = SockGetOptSyscall fd opt NilValue 0"
| "sock_blank (SockSetOptSyscall fd opt value _) = SockSetOptSyscall fd opt value 0"
| "sock_blank (SockLocalAddressSyscall fd _ _) = SockLocalAddressSyscall fd NilAddress 0"
| "sock_blank (SockRemoteAddressSyscall fd _ _) = SockRemoteAddressSyscall fd NilAddress 0"
| "sock_blank (SockAddressInfoSyscall name service hint results _) = SockAddressInfoSyscall name
     service hint results 0"

fun blank :: "'v Syscall \<Rightarrow> 'v Syscall" where
  "blank (EnvCall c) = EnvCall (env_blank c)"
| "blank (FDCall c) = FDCall (fd_blank c)"
| "blank (PathCall c) = PathCall (path_blank c)"
| "blank (ProcCall c) = ProcCall (proc_blank c)"
| "blank (SockCall c) = SockCall (sock_blank c)"

text \<open>The order of an observed call: the callback, the call, the other callback.\<close>

definition observed ::
  "('o, 'v) callback \<Rightarrow> ('o, 'v) callback \<Rightarrow> ('a \<Rightarrow> 'v Syscall) \<Rightarrow> 'v Syscall
    \<Rightarrow> ('s \<Rightarrow> ('v panic, 'a) outcome \<times> 's) \<Rightarrow> ('s, 'o) Observer
    \<Rightarrow> ('v panic, 'a) outcome \<times> ('s, 'o) Observer" where
  "observed before after con c call o' =
     (let o' = notify before c o'
      in observer_forward o' (call (observer_system o'))
        (\<lambda>s o'. (Return s, notify after (con s) o')))"

fun is_SockAddressInfo :: "'v Syscall \<Rightarrow> bool" where
  "is_SockAddressInfo (SockCall (SockAddressInfoSyscall _ _ _ _ _)) = True"
| "is_SockAddressInfo _ = False"

lemma env_call_NewObserver:
  "env_call (NewObserver S before after) o' c =
     observed before after EnvCall (EnvCall (env_blank c)) (\<lambda>s. env_call S s c) o'"
  by (cases c)
    (auto simp: NewObserver_def observer_defs observed_def observer_forward_def map_return_def Let_def
      split: prod.splits outcome.splits)

lemma fd_call_NewObserver:
  "fd_call (NewObserver S before after) o' c =
     observed before after FDCall (FDCall (fd_blank c)) (\<lambda>s. fd_call S s c) o'"
  by (cases c)
    (auto simp: NewObserver_def observer_defs observed_def observer_forward_def map_return_def Let_def
      split: prod.splits outcome.splits)

lemma path_call_NewObserver:
  "path_call (NewObserver S before after) o' c =
     observed before after PathCall (PathCall (path_blank c)) (\<lambda>s. path_call S s c) o'"
  by (cases c)
    (auto simp: NewObserver_def observer_defs observed_def observer_forward_def map_return_def Let_def
      split: prod.splits outcome.splits)

lemma proc_call_NewObserver:
  "proc_call (NewObserver S before after) o' c =
     observed before after ProcCall (ProcCall (proc_blank c)) (\<lambda>s. proc_call S s c) o'"
  by (cases c)
    (auto simp: NewObserver_def observer_defs observed_def observer_forward_def map_return_def Let_def
      split: prod.splits outcome.splits)

lemma sock_call_NewObserver:
  "\<not> is_SockAddressInfo (SockCall c) \<Longrightarrow>
   sock_call (NewObserver S before after) o' c =
     observed before after SockCall (SockCall (sock_blank c)) (\<lambda>s. sock_call S s c) o'"
  by (cases c)
    (auto simp: NewObserver_def observer_defs observed_def observer_forward_def map_return_def Let_def
      split: prod.splits outcome.splits)

lemma map_return_observed:
  assumes "\<And>s. con' (f s) = con s"
  shows "map_return f (observed before after con c call o')
    = observed before after con' c (\<lambda>s. map_return f (call s)) o'"
  using assms
  by (auto simp: observed_def observer_forward_def map_return_def Let_def
      split: prod.splits outcome.splits)

lemma sys_call_NewObserver:
  assumes "\<not> is_SockAddressInfo c"
  shows "sys_call (NewObserver S before after) o' c =
    observed before after (\<lambda>s. s) (blank c) (\<lambda>s. sys_call S s c) o'"
  using assms
  by (cases c)
    (simp_all add: env_call_NewObserver fd_call_NewObserver path_call_NewObserver
      proc_call_NewObserver sock_call_NewObserver map_return_observed [where con' = "\<lambda>s. s"])

text \<open>The callbacks do not change what the guest sees.\<close>

lemma observed_transparent:
  "fst (observed before after con c call o') = fst (call (observer_system o'))"
  "observer_system (snd (observed before after con c call o')) = snd (call (observer_system o'))"
  by (auto simp: observed_def observer_forward_def notify_def Let_def
      split: prod.splits outcome.splits option.splits)

end
