(* ===== verification/Decoder_Cache.thy ===== *)
theory Decoder_Cache
  imports Decoder
begin

text \<open>
  The slices that the decoder keeps for reuse do not show in what it decodes: a decode overwrites
  every element of the part it uses. So the state of a \<^verbatim>\<open>Decoder\<close> is only memory, and two of them agree
  on every record, also on the errors.
\<close>

lemma decode_each_cache:
  "length xs = i + n \<Longrightarrow> length ys = i + n \<Longrightarrow> take i xs = take i ys \<Longrightarrow>
   decode_each decode n i b xs = decode_each decode n i b ys"
proof (induction n arbitrary: i b xs ys)
  case (Suc n)
  have "decode_each decode n (Suc i) b' (xs[i := v]) = decode_each decode n (Suc i) b' (ys[i := v])"
    for v b'
    using Suc.prems by (intro Suc.IH) (simp_all add: take_Suc_conv_app_nth)
  then show ?case
    by (simp split: sum.splits)
qed simp

lemma decode_each_scratch:
  "NO_MATCH [] cache \<Longrightarrow>
   decode_each decode (unat count) 0 b (scratch_slice zero cache count)
     = decode_each decode (unat count) 0 b (scratch_slice zero [] count)"
  by (rule decode_each_cache) simp_all

lemma decode_lists_cache:
  "NO_MATCH [] c \<Longrightarrow> decodeStrings b c = decodeStrings b []"
  "NO_MATCH [] c \<Longrightarrow> decodeIOVecs b c = decodeIOVecs b []"
  "NO_MATCH [] entries \<Longrightarrow> decodeDirEntries W b entries = decodeDirEntries W b []"
  "NO_MATCH [] subs \<Longrightarrow> decodeSubscriptions W b subs = decodeSubscriptions W b []"
  "NO_MATCH [] events \<Longrightarrow> decodeEvents W b events = decodeEvents W b []"
  "NO_MATCH [] infos \<Longrightarrow> decodeAddressInfos W b infos = decodeAddressInfos W b []"
  by (simp_all add: decodeStrings_def decodeIOVecs_def decodeDirEntries_def decodeSubscriptions_def
      decodeEvents_def decodeAddressInfos_def decode_each_scratch split: sum.splits)

text \<open>The decoders of whole calls that take a slice.\<close>

lemma decode_calls_cache:
  "NO_MATCH [] c \<Longrightarrow> DecodeArgsGet W b c = DecodeArgsGet W b []"
  "NO_MATCH [] c \<Longrightarrow> DecodeEnvironGet W b c = DecodeEnvironGet W b []"
  "NO_MATCH [] c \<Longrightarrow> DecodeFDPread W b c = DecodeFDPread W b []"
  "NO_MATCH [] c \<Longrightarrow> DecodeFDPwrite W b c = DecodeFDPwrite W b []"
  "NO_MATCH [] c \<Longrightarrow> DecodeFDRead W b c = DecodeFDRead W b []"
  "NO_MATCH [] entries \<Longrightarrow> DecodeFDReadDir W b entries = DecodeFDReadDir W b []"
  "NO_MATCH [] c \<Longrightarrow> DecodeFDWrite W b c = DecodeFDWrite W b []"
  "NO_MATCH [] subs \<Longrightarrow> DecodePollOneOff W b subs events = DecodePollOneOff W b [] events"
  "NO_MATCH [] events \<Longrightarrow> DecodePollOneOff W b subs events = DecodePollOneOff W b subs []"
  "NO_MATCH [] c \<Longrightarrow> DecodeSockRecv W b c = DecodeSockRecv W b []"
  "NO_MATCH [] c \<Longrightarrow> DecodeSockSendTo W b c = DecodeSockSendTo W b []"
  "NO_MATCH [] c \<Longrightarrow> DecodeSockRecvFrom W b c = DecodeSockRecvFrom W b []"
  "NO_MATCH [] infos \<Longrightarrow> DecodeSockAddressInfo W b infos = DecodeSockAddressInfo W b []"
  by (simp_all add: DecodeArgsGet_def DecodeEnvironGet_def DecodeFDPread_def DecodeFDPwrite_def DecodeFDRead_def
      DecodeFDReadDir_def DecodeFDWrite_def DecodePollOneOff_def DecodeSockRecv_def
      DecodeSockSendTo_def DecodeSockRecvFrom_def DecodeSockAddressInfo_def
      decode_lists_cache cong del: sum.case_cong_weak prod.case_cong_weak)

lemma Decode_case_cache:
  "NO_MATCH zero_Decoder d \<Longrightarrow> fst (Decode_ArgsSizesGet W d record) = fst (Decode_ArgsSizesGet W zero_Decoder record)"
  "NO_MATCH zero_Decoder d \<Longrightarrow> fst (Decode_ArgsGet W d record) = fst (Decode_ArgsGet W zero_Decoder record)"
  "NO_MATCH zero_Decoder d \<Longrightarrow> fst (Decode_EnvironSizesGet W d record) = fst (Decode_EnvironSizesGet W zero_Decoder record)"
  "NO_MATCH zero_Decoder d \<Longrightarrow> fst (Decode_EnvironGet W d record) = fst (Decode_EnvironGet W zero_Decoder record)"
  "NO_MATCH zero_Decoder d \<Longrightarrow> fst (Decode_ClockResGet W d record) = fst (Decode_ClockResGet W zero_Decoder record)"
  "NO_MATCH zero_Decoder d \<Longrightarrow> fst (Decode_ClockTimeGet W d record) = fst (Decode_ClockTimeGet W zero_Decoder record)"
  "NO_MATCH zero_Decoder d \<Longrightarrow> fst (Decode_FDAdvise W d record) = fst (Decode_FDAdvise W zero_Decoder record)"
  "NO_MATCH zero_Decoder d \<Longrightarrow> fst (Decode_FDAllocate W d record) = fst (Decode_FDAllocate W zero_Decoder record)"
  "NO_MATCH zero_Decoder d \<Longrightarrow> fst (Decode_FDClose W d record) = fst (Decode_FDClose W zero_Decoder record)"
  "NO_MATCH zero_Decoder d \<Longrightarrow> fst (Decode_FDDataSync W d record) = fst (Decode_FDDataSync W zero_Decoder record)"
  "NO_MATCH zero_Decoder d \<Longrightarrow> fst (Decode_FDStatGet W d record) = fst (Decode_FDStatGet W zero_Decoder record)"
  "NO_MATCH zero_Decoder d \<Longrightarrow> fst (Decode_FDStatSetFlags W d record) = fst (Decode_FDStatSetFlags W zero_Decoder record)"
  "NO_MATCH zero_Decoder d \<Longrightarrow> fst (Decode_FDStatSetRights W d record) = fst (Decode_FDStatSetRights W zero_Decoder record)"
  "NO_MATCH zero_Decoder d \<Longrightarrow> fst (Decode_FDFileStatGet W d record) = fst (Decode_FDFileStatGet W zero_Decoder record)"
  "NO_MATCH zero_Decoder d \<Longrightarrow> fst (Decode_FDFileStatSetSize W d record) = fst (Decode_FDFileStatSetSize W zero_Decoder record)"
  "NO_MATCH zero_Decoder d \<Longrightarrow> fst (Decode_FDFileStatSetTimes W d record) = fst (Decode_FDFileStatSetTimes W zero_Decoder record)"
  "NO_MATCH zero_Decoder d \<Longrightarrow> fst (Decode_FDPread W d record) = fst (Decode_FDPread W zero_Decoder record)"
  "NO_MATCH zero_Decoder d \<Longrightarrow> fst (Decode_FDPreStatGet W d record) = fst (Decode_FDPreStatGet W zero_Decoder record)"
  "NO_MATCH zero_Decoder d \<Longrightarrow> fst (Decode_FDPreStatDirName W d record) = fst (Decode_FDPreStatDirName W zero_Decoder record)"
  "NO_MATCH zero_Decoder d \<Longrightarrow> fst (Decode_FDPwrite W d record) = fst (Decode_FDPwrite W zero_Decoder record)"
  "NO_MATCH zero_Decoder d \<Longrightarrow> fst (Decode_FDRead W d record) = fst (Decode_FDRead W zero_Decoder record)"
  "NO_MATCH zero_Decoder d \<Longrightarrow> fst (Decode_FDReadDir W d record) = fst (Decode_FDReadDir W zero_Decoder record)"
  "NO_MATCH zero_Decoder d \<Longrightarrow> fst (Decode_FDRenumber W d record) = fst (Decode_FDRenumber W zero_Decoder record)"
  "NO_MATCH zero_Decoder d \<Longrightarrow> fst (Decode_FDSeek W d record) = fst (Decode_FDSeek W zero_Decoder record)"
  "NO_MATCH zero_Decoder d \<Longrightarrow> fst (Decode_FDSync W d record) = fst (Decode_FDSync W zero_Decoder record)"
  "NO_MATCH zero_Decoder d \<Longrightarrow> fst (Decode_FDTell W d record) = fst (Decode_FDTell W zero_Decoder record)"
  "NO_MATCH zero_Decoder d \<Longrightarrow> fst (Decode_FDWrite W d record) = fst (Decode_FDWrite W zero_Decoder record)"
  "NO_MATCH zero_Decoder d \<Longrightarrow> fst (Decode_PathCreateDirectory W d record) = fst (Decode_PathCreateDirectory W zero_Decoder record)"
  "NO_MATCH zero_Decoder d \<Longrightarrow> fst (Decode_PathFileStatGet W d record) = fst (Decode_PathFileStatGet W zero_Decoder record)"
  "NO_MATCH zero_Decoder d \<Longrightarrow> fst (Decode_PathFileStatSetTimes W d record) = fst (Decode_PathFileStatSetTimes W zero_Decoder record)"
  "NO_MATCH zero_Decoder d \<Longrightarrow> fst (Decode_PathLink W d record) = fst (Decode_PathLink W zero_Decoder record)"
  "NO_MATCH zero_Decoder d \<Longrightarrow> fst (Decode_PathOpen W d record) = fst (Decode_PathOpen W zero_Decoder record)"
  "NO_MATCH zero_Decoder d \<Longrightarrow> fst (Decode_PathReadLink W d record) = fst (Decode_PathReadLink W zero_Decoder record)"
  "NO_MATCH zero_Decoder d \<Longrightarrow> fst (Decode_PathRemoveDirectory W d record) = fst (Decode_PathRemoveDirectory W zero_Decoder record)"
  "NO_MATCH zero_Decoder d \<Longrightarrow> fst (Decode_PathRename W d record) = fst (Decode_PathRename W zero_Decoder record)"
  "NO_MATCH zero_Decoder d \<Longrightarrow> fst (Decode_PathSymlink W d record) = fst (Decode_PathSymlink W zero_Decoder record)"
  "NO_MATCH zero_Decoder d \<Longrightarrow> fst (Decode_PathUnlinkFile W d record) = fst (Decode_PathUnlinkFile W zero_Decoder record)"
  "NO_MATCH zero_Decoder d \<Longrightarrow> fst (Decode_PollOneOff W d record) = fst (Decode_PollOneOff W zero_Decoder record)"
  "NO_MATCH zero_Decoder d \<Longrightarrow> fst (Decode_ProcExit W d record) = fst (Decode_ProcExit W zero_Decoder record)"
  "NO_MATCH zero_Decoder d \<Longrightarrow> fst (Decode_ProcRaise W d record) = fst (Decode_ProcRaise W zero_Decoder record)"
  "NO_MATCH zero_Decoder d \<Longrightarrow> fst (Decode_SchedYield W d record) = fst (Decode_SchedYield W zero_Decoder record)"
  "NO_MATCH zero_Decoder d \<Longrightarrow> fst (Decode_RandomGet W d record) = fst (Decode_RandomGet W zero_Decoder record)"
  "NO_MATCH zero_Decoder d \<Longrightarrow> fst (Decode_SockAccept W d record) = fst (Decode_SockAccept W zero_Decoder record)"
  "NO_MATCH zero_Decoder d \<Longrightarrow> fst (Decode_SockRecv W d record) = fst (Decode_SockRecv W zero_Decoder record)"
  "NO_MATCH zero_Decoder d \<Longrightarrow> fst (Decode_SockSend W d record) = fst (Decode_SockSend W zero_Decoder record)"
  "NO_MATCH zero_Decoder d \<Longrightarrow> fst (Decode_SockShutdown W d record) = fst (Decode_SockShutdown W zero_Decoder record)"
  "NO_MATCH zero_Decoder d \<Longrightarrow> fst (Decode_SockOpen W d record) = fst (Decode_SockOpen W zero_Decoder record)"
  "NO_MATCH zero_Decoder d \<Longrightarrow> fst (Decode_SockBind W d record) = fst (Decode_SockBind W zero_Decoder record)"
  "NO_MATCH zero_Decoder d \<Longrightarrow> fst (Decode_SockConnect W d record) = fst (Decode_SockConnect W zero_Decoder record)"
  "NO_MATCH zero_Decoder d \<Longrightarrow> fst (Decode_SockListen W d record) = fst (Decode_SockListen W zero_Decoder record)"
  "NO_MATCH zero_Decoder d \<Longrightarrow> fst (Decode_SockSendTo W d record) = fst (Decode_SockSendTo W zero_Decoder record)"
  "NO_MATCH zero_Decoder d \<Longrightarrow> fst (Decode_SockRecvFrom W d record) = fst (Decode_SockRecvFrom W zero_Decoder record)"
  "NO_MATCH zero_Decoder d \<Longrightarrow> fst (Decode_SockGetOpt W d record) = fst (Decode_SockGetOpt W zero_Decoder record)"
  "NO_MATCH zero_Decoder d \<Longrightarrow> fst (Decode_SockSetOpt W d record) = fst (Decode_SockSetOpt W zero_Decoder record)"
  "NO_MATCH zero_Decoder d \<Longrightarrow> fst (Decode_SockLocalAddress W d record) = fst (Decode_SockLocalAddress W zero_Decoder record)"
  "NO_MATCH zero_Decoder d \<Longrightarrow> fst (Decode_SockRemoteAddress W d record) = fst (Decode_SockRemoteAddress W zero_Decoder record)"
  "NO_MATCH zero_Decoder d \<Longrightarrow> fst (Decode_SockAddressInfo W d record) = fst (Decode_SockAddressInfo W zero_Decoder record)"
  by (simp_all add: Decode_case_defs decode_calls_cache split: sum.splits prod.splits)

lemma Decoder_switch_cache:
  "NO_MATCH zero_Decoder d \<Longrightarrow>
   fst (Decoder_switch W d record) = fst (Decoder_switch W zero_Decoder record)"
  unfolding Decoder_switch_def Let_def
  by (simp only: if_distrib [of fst] Decode_case_cache fst_conv)

lemma Decoder_Decode_cache:
  "fst (Decoder_Decode W d record) = fst (Decoder_Decode W d' record)"
proof -
  have "fst (Decoder_switch W d record) = fst (Decoder_switch W d' record)"
    using Decoder_switch_cache [of d W "record"] Decoder_switch_cache [of d' W "record"] by simp
  then show ?thesis
    by (cases "Decoder_switch W d record"; cases "Decoder_switch W d' record")
      (simp add: Decoder_Decode_def split: sum.splits)
qed

end
