(* ===== verification/Bitset.thy ===== *)
theory Bitset
  imports Prelude
begin

text \<open>
  The bit sets of the address pools (\<^verbatim>\<open>internal/ipam/bitset.go\<close>): a slice of 64-bit words. \<open>elements\<close> is the
  set of natural numbers that a bit set stands for, and the lemmas say what each operation does to it.
\<close>

type_synonym bitset = "u64 list"

datatype pool_panic = IndexOutOfRange | UnusedAddress

definition bitset_clear :: "bitset \<Rightarrow> bitset" where
  "bitset_clear b = map (\<lambda>_. 0) b"

definition bitset_grow :: "bitset \<Rightarrow> nat \<Rightarrow> bitset" where
  "bitset_grow b n =
     (let n = (n + 63) div 64
      in if n > length b then go_copy (replicate n 0) b else b)"

text \<open>\<^verbatim>\<open>uint(i)\<close>: an index that is negative is a large one, out of range.\<close>

definition bit_index :: "bitset \<Rightarrow> int \<Rightarrow> (nat \<times> nat) option" where
  "bit_index b i =
     (let u = wrap (Unsigned 64) i; index = nat (u div 64); shift = nat (u mod 64)
      in if index < length b then Some (index, shift) else None)"

definition bitset_has :: "bitset \<Rightarrow> int \<Rightarrow> (pool_panic, bool) outcome" where
  "bitset_has b i =
     (case bit_index b i of
        None \<Rightarrow> Panic IndexOutOfRange
      | Some (index, shift) \<Rightarrow> Return (b ! index AND push_bit shift 1 \<noteq> 0))"

definition bitset_set :: "bitset \<Rightarrow> int \<Rightarrow> (pool_panic, bitset) outcome" where
  "bitset_set b i =
     (case bit_index b i of
        None \<Rightarrow> Panic IndexOutOfRange
      | Some (index, shift) \<Rightarrow> Return (b[index := b ! index OR push_bit shift 1]))"

definition bitset_unset :: "bitset \<Rightarrow> int \<Rightarrow> (pool_panic, bitset) outcome" where
  "bitset_unset b i =
     (case bit_index b i of
        None \<Rightarrow> Panic IndexOutOfRange
      | Some (index, shift) \<Rightarrow> Return (b[index := b ! index AND NOT (push_bit shift 1)]))"

text \<open>\<^verbatim>\<open>bits.TrailingZeros64\<close>.\<close>

definition TrailingZeros64 :: "u64 \<Rightarrow> nat" where
  "TrailingZeros64 v = length (takeWhile (\<lambda>i. \<not> bit v i) [0..<64])"

fun first_zero :: "nat \<Rightarrow> bitset \<Rightarrow> nat" where
  "first_zero i [] = 64 * i"
| "first_zero i (v # vs) =
     (if v \<noteq> NOT 0 then 64 * i + TrailingZeros64 (NOT v) else first_zero (Suc i) vs)"

definition findFirstZeroBit :: "bitset \<Rightarrow> nat" where
  "findFirstZeroBit b = first_zero 0 b"

section \<open>The set of a bit set\<close>

definition elements :: "bitset \<Rightarrow> nat set" where
  "elements b = {i. i div 64 < length b \<and> bit (b ! (i div 64)) (i mod 64)}"

lemma elements_less: "i \<in> elements b \<Longrightarrow> i < 64 * length b"
  by (simp add: elements_def less_mult_imp_div_less div_less_iff_less_mult mult.commute)

lemma elements_clear [simp]: "elements (bitset_clear b) = {}"
  by (auto simp: elements_def bitset_clear_def)

lemma elements_Nil [simp]: "elements [] = {}"
  by (simp add: elements_def)

lemma elements_append_zeros: "elements (b @ replicate n 0) = elements b"
proof (rule set_eqI)
  fix i
  have "bit ((b @ replicate n 0) ! (i div 64)) (i mod 64) = False"
    if "\<not> i div 64 < length b" "i div 64 < length b + n"
    using that by (simp add: nth_append)
  then show "i \<in> elements (b @ replicate n 0) \<longleftrightarrow> i \<in> elements b"
    by (cases "i div 64 < length b") (auto simp: elements_def nth_append)
qed

lemma elements_grow [simp]: "elements (bitset_grow b n) = elements b"
  by (simp add: bitset_grow_def go_copy_def elements_append_zeros Let_def)

lemma length_grow: "n \<le> 64 * length (bitset_grow b n)" "length b \<le> length (bitset_grow b n)"
  by (auto simp: bitset_grow_def Let_def)

lemma bit_index_nat:
  "int i < 2 ^ 64 \<Longrightarrow> bit_index b (int i) = (if i div 64 < length b then Some (i div 64, i mod 64) else None)"
  by (simp add: bit_index_def take_bit_int_eq_self nat_div_distrib nat_mod_distrib Let_def)

lemma bit_one: "bit (2 ^ n :: u64) m \<longleftrightarrow> m = n \<and> n < 64"
  by (auto simp: bit_exp_iff)

lemma and_one: "(v AND push_bit n 1 \<noteq> 0) = (bit v n \<and> n < 64)" for v :: u64
proof -
  have "v AND push_bit n 1 = 0 \<longleftrightarrow> (\<forall>m. \<not> bit (v AND push_bit n 1) m)"
    by (metis bit_0_eq bot_apply bot_bool_def bit_word_eqI)
  then show ?thesis
    by (auto simp: bit_and_iff bit_one)
qed

lemma same_index: "j div 64 = i div 64 \<and> j mod 64 = i mod 64 \<longleftrightarrow> j = (i :: nat)"
  by (metis div_mult_mod_eq)

lemma bitset_has_elements:
  assumes "int i < 2 ^ 64" "i div 64 < length b"
  shows "bitset_has b (int i) = Return (i \<in> elements b)"
  using assms and_one [of "b ! (i div 64)" "i mod 64"]
  by (simp add: bitset_has_def bit_index_nat elements_def)

lemma bitset_has_beyond:
  "int i < 2 ^ 64 \<Longrightarrow> length b \<le> i div 64 \<Longrightarrow> bitset_has b (int i) = Panic IndexOutOfRange"
  by (simp add: bitset_has_def bit_index_nat)

lemma bitset_set_elements:
  assumes "int i < 2 ^ 64" "i div 64 < length b"
  shows "\<exists>b'. bitset_set b (int i) = Return b' \<and> elements b' = insert i (elements b) \<and> length b' = length b"
proof -
  let ?b = "b[i div 64 := b ! (i div 64) OR push_bit (i mod 64) 1]"
  have "j \<in> elements ?b \<longleftrightarrow> j \<in> insert i (elements b)" for j
    using assms(2) same_index [of j i]
    by (cases "j div 64 = i div 64") (auto simp: elements_def bit_or_iff bit_one)
  then have "elements ?b = insert i (elements b)"
    by blast
  then show ?thesis
    using assms by (simp add: bitset_set_def bit_index_nat)
qed

lemma bitset_unset_elements:
  assumes "int i < 2 ^ 64" "i div 64 < length b"
  shows "\<exists>b'. bitset_unset b (int i) = Return b' \<and> elements b' = elements b - {i} \<and> length b' = length b"
proof -
  let ?b = "b[i div 64 := b ! (i div 64) AND NOT (push_bit (i mod 64) 1)]"
  have "j \<in> elements ?b \<longleftrightarrow> j \<in> elements b - {i}" for j
    using assms(2) same_index [of j i]
    by (cases "j div 64 = i div 64") (auto simp: elements_def bit_and_iff bit_not_iff bit_one)
  then have "elements ?b = elements b - {i}"
    by blast
  then show ?thesis
    using assms by (simp add: bitset_unset_def bit_index_nat)
qed

section \<open>The first zero\<close>

lemma TrailingZeros64_first:
  assumes "v \<noteq> 0"
  shows "bit v (TrailingZeros64 v)" "TrailingZeros64 v < 64" "i < TrailingZeros64 v \<Longrightarrow> \<not> bit v i"
proof -
  obtain k where k: "bit v k" "k < 64"
    using assms by (auto simp: bit_eq_iff)
  let ?w = "takeWhile (\<lambda>i. \<not> bit v i) [0..<64]"
  have less: "length ?w < length [0..<64]"
  proof (rule ccontr)
    assume "\<not> ?thesis"
    then have "?w = [0..<64]"
      by (metis takeWhile_eq_take take_all linorder_not_less)
    then show False
      using k set_takeWhileD [of k "\<lambda>i. \<not> bit v i" "[0..<64]"] by simp
  qed
  then show "TrailingZeros64 v < 64"
    by (simp add: TrailingZeros64_def)
  show "bit v (TrailingZeros64 v)"
    using nth_length_takeWhile [OF less] less by (simp add: TrailingZeros64_def)
  show "\<not> bit v i" if "i < TrailingZeros64 v"
    using nth_mem [of i ?w] takeWhile_nth [of i "\<lambda>i. \<not> bit v i" "[0..<64]"] that less
    by (auto simp: TrailingZeros64_def dest: set_takeWhileD)
qed

lemma first_zero_shift: "first_zero n b = 64 * n + first_zero 0 b"
proof (induction b arbitrary: n)
  case (Cons v vs)
  show ?case
    using Cons [of "Suc n"] Cons [of 1] by simp
qed simp

lemma findFirstZeroBit_Cons:
  "findFirstZeroBit (v # vs) = (if v \<noteq> NOT 0 then TrailingZeros64 (NOT v) else 64 + findFirstZeroBit vs)"
  using first_zero_shift [of 1 vs] by (simp add: findFirstZeroBit_def)

lemma elements_Cons: "i \<in> elements (v # vs) \<longleftrightarrow> (if i < 64 then bit v i else i - 64 \<in> elements vs)"
proof (cases "i < 64")
  case False
  then have "i div 64 = Suc ((i - 64) div 64)" "i mod 64 = (i - 64) mod 64"
    by (simp_all add: div_if mod_if)
  with False show ?thesis
    by (simp add: elements_def)
qed (simp add: elements_def)

text \<open>The bit that is found is the least one that is not set, or the first one beyond the slice.\<close>

lemma findFirstZeroBit_least:
  "findFirstZeroBit b \<notin> elements b \<and> (\<forall>i<findFirstZeroBit b. i \<in> elements b)
    \<and> findFirstZeroBit b \<le> 64 * length b"
proof (induction b)
  case Nil
  show ?case
    by (simp add: findFirstZeroBit_def)
next
  case (Cons v vs)
  show ?case
  proof (cases "v = NOT 0")
    case True
    then have "bit v i" if "i < 64" for i
      using that by (simp add: bit_simps)
    with Cons True show ?thesis
      by (auto simp: findFirstZeroBit_Cons elements_Cons)
  next
    case False
    then have "NOT v \<noteq> 0"
      by (metis bit.double_compl)
    note first = TrailingZeros64_first [OF this]
    have "\<not> bit v (TrailingZeros64 (NOT v))"
      using first(1) by (simp add: bit_simps)
    moreover have "bit v i" if "i < TrailingZeros64 (NOT v)" for i
      using first(3) [OF that] first(2) that by (simp add: bit_simps)
    ultimately show ?thesis
      using first(2) False by (simp add: findFirstZeroBit_Cons elements_Cons)
  qed
qed

end
