(* ===== verification/Ipam.thy ===== *)
theory Ipam
  imports Bitset
begin

text \<open>
  Pools of IP addresses (\<^verbatim>\<open>internal/ipam\<close>: \<^verbatim>\<open>ipam.go\<close>, \<^verbatim>\<open>ipv4.go\<close>, \<^verbatim>\<open>ipv6.go\<close>). An address is its bytes, in
  network order. The two kinds of pool have the same code over the arithmetic of their addresses, so
  their methods are instances of \<open>pool_Get\<close>, \<open>pool_Put\<close> and \<open>pool_Reset\<close>.

  The locale \<open>address_space\<close> is what a pool needs of that arithmetic. Its abstract view of a pool is the
  set \<open>allocated\<close> of the addresses that are handed out: \<^verbatim>\<open>Get\<close> adds a new one as long as there is one,
  \<^verbatim>\<open>Put\<close> removes one. The relation \<open>pool_run\<close> has the histories of a pool.
\<close>

section \<open>Addresses\<close>

definition be32 :: "u32 \<Rightarrow> bytes" where "be32 v = rev (le32 v)"
definition of_be32 :: "bytes \<Rightarrow> u32" where "of_be32 b = of_le32 (rev (take 4 b))"
definition be64 :: "u64 \<Rightarrow> bytes" where "be64 v = rev (le64 v)"
definition of_be64 :: "bytes \<Rightarrow> u64" where "of_be64 b = of_le64 (rev (take 8 b))"

text \<open>\<^verbatim>\<open>w << uint(n)\<close>: a negative \<^verbatim>\<open>n\<close> is a large count, which leaves nothing.\<close>

definition shift_left :: "'a :: len word \<Rightarrow> int \<Rightarrow> 'a word" where
  "shift_left w n = (if 0 \<le> n then push_bit (nat n) w else 0)"

definition IPv4_add :: "bytes \<Rightarrow> int \<Rightarrow> bytes" where
  "IPv4_add ip n = be32 (of_be32 ip + word_of_int n)"

definition IPv4_sub :: "bytes \<Rightarrow> bytes \<Rightarrow> int" where
  "IPv4_sub ip other = uint (of_be32 ip - of_be32 other)"

definition IPv4_mask :: "int \<Rightarrow> bytes" where
  "IPv4_mask n = be32 (shift_left (NOT 0) (32 - n))"

definition IPv4_prefix :: "bytes \<Rightarrow> bytes \<Rightarrow> bytes" where
  "IPv4_prefix ip netmask = le32 (of_le32 ip AND of_le32 netmask)"

text \<open>\<^verbatim>\<open>bits.Add64\<close> and \<^verbatim>\<open>bits.Sub64\<close>: the sum or difference and the carry or borrow.\<close>

definition Add64 :: "u64 \<Rightarrow> u64 \<Rightarrow> u64 \<Rightarrow> u64 \<times> u64" where
  "Add64 x y carry = (x + y + carry, if 2 ^ 64 \<le> uint x + uint y + uint carry then 1 else 0)"

definition Sub64 :: "u64 \<Rightarrow> u64 \<Rightarrow> u64 \<Rightarrow> u64 \<times> u64" where
  "Sub64 x y borrow = (x - y - borrow, if uint x < uint y + uint borrow then 1 else 0)"

definition IPv6_add :: "bytes \<Rightarrow> int \<Rightarrow> bytes" where
  "IPv6_add ip n =
     (let hi = of_be64 ip; lo = of_be64 (drop 8 ip);
          (x, c) = Add64 lo (word_of_int n) 0; (y, _) = Add64 hi 0 c
      in be64 y @ be64 x)"

definition IPv6_sub :: "bytes \<Rightarrow> bytes \<Rightarrow> int" where
  "IPv6_sub ip other =
     (let (_, c) = Sub64 (of_be64 ip) (of_be64 other) 0;
          (d, _) = Sub64 (of_be64 (drop 8 ip)) (of_be64 (drop 8 other)) c
      in sint d)"

definition IPv6_mask :: "int \<Rightarrow> bytes" where
  "IPv6_mask n =
     (if n < 64 then be64 (shift_left (NOT 0) (64 - n)) @ be64 0
      else be64 (NOT 0) @ be64 (shift_left (NOT 0) (64 - (n - 64))))"

definition IPv6_prefix :: "bytes \<Rightarrow> bytes \<Rightarrow> bytes" where
  "IPv6_prefix ip netmask = le64 (of_le64 ip AND of_le64 netmask) @ le64 (of_le64 (drop 8 ip) AND of_le64 (drop 8 netmask))"

section \<open>Pools\<close>

record pool =
  pool_mask :: bytes
  pool_addr :: bytes
  pool_base :: bytes
  pool_bits :: bitset

definition pool_zero :: pool where
  "pool_zero = \<lparr>pool_mask = [], pool_addr = [], pool_base = [], pool_bits = []\<rparr>"

definition pool_Reset ::
  "(int \<Rightarrow> bytes) \<Rightarrow> (bytes \<Rightarrow> bytes \<Rightarrow> bytes) \<Rightarrow> pool \<Rightarrow> bytes \<Rightarrow> int \<Rightarrow> pool"
where
  "pool_Reset netmask prefix p ip nbits =
     p\<lparr>pool_mask := netmask nbits, pool_addr := prefix ip (netmask nbits), pool_base := ip,
       pool_bits := bitset_clear (pool_bits p)\<rparr>"

definition pool_Get ::
  "(bytes \<Rightarrow> int \<Rightarrow> bytes) \<Rightarrow> (bytes \<Rightarrow> bytes \<Rightarrow> bytes) \<Rightarrow> pool \<Rightarrow> (pool_panic, bytes \<times> bool) outcome \<times> pool"
where
  "pool_Get add prefix p =
     (let i = findFirstZeroBit (pool_bits p); a = add (pool_base p) (int i)
      in if prefix a (pool_mask p) \<noteq> pool_addr p then (Return (a, False), p)
         else let bits = bitset_grow (pool_bits p) (i + 1)
              in case bitset_set bits (int i) of
                   Panic e \<Rightarrow> (Panic e, p\<lparr>pool_bits := bits\<rparr>)
                 | Return bits \<Rightarrow> (Return (add (pool_base p) (int i), True), p\<lparr>pool_bits := bits\<rparr>))"

definition pool_Put :: "(bytes \<Rightarrow> bytes \<Rightarrow> int) \<Rightarrow> pool \<Rightarrow> bytes \<Rightarrow> (pool_panic, unit) outcome \<times> pool" where
  "pool_Put sub p ip =
     (let i = sub ip (pool_base p)
      in case bitset_has (pool_bits p) i of
           Panic e \<Rightarrow> (Panic e, p)
         | Return False \<Rightarrow> (Panic UnusedAddress, p)
         | Return True \<Rightarrow>
             (case bitset_unset (pool_bits p) i of
                Panic e \<Rightarrow> (Panic e, p)
              | Return bits \<Rightarrow> (Return (), p\<lparr>pool_bits := bits\<rparr>)))"

definition IPv4Pool_Reset :: "pool \<Rightarrow> bytes \<Rightarrow> int \<Rightarrow> pool" where
  "IPv4Pool_Reset = pool_Reset IPv4_mask IPv4_prefix"

definition NewIPv4Pool :: "bytes \<Rightarrow> int \<Rightarrow> pool" where
  "NewIPv4Pool ip nbits = IPv4Pool_Reset pool_zero ip nbits"

definition IPv4Pool_Get :: "pool \<Rightarrow> (pool_panic, bytes \<times> bool) outcome \<times> pool" where
  "IPv4Pool_Get = pool_Get IPv4_add IPv4_prefix"

definition IPv4Pool_Put :: "pool \<Rightarrow> bytes \<Rightarrow> (pool_panic, unit) outcome \<times> pool" where
  "IPv4Pool_Put = pool_Put IPv4_sub"

definition IPv6Pool_Reset :: "pool \<Rightarrow> bytes \<Rightarrow> int \<Rightarrow> pool" where
  "IPv6Pool_Reset = pool_Reset IPv6_mask IPv6_prefix"

definition NewIPv6Pool :: "bytes \<Rightarrow> int \<Rightarrow> pool" where
  "NewIPv6Pool ip nbits = IPv6Pool_Reset pool_zero ip nbits"

definition IPv6Pool_Get :: "pool \<Rightarrow> (pool_panic, bytes \<times> bool) outcome \<times> pool" where
  "IPv6Pool_Get = pool_Get IPv6_add IPv6_prefix"

definition IPv6Pool_Put :: "pool \<Rightarrow> bytes \<Rightarrow> (pool_panic, unit) outcome \<times> pool" where
  "IPv6Pool_Put = pool_Put IPv6_sub"

text \<open>A \<^verbatim>\<open>netip.Prefix\<close>: an address of four bytes or of sixteen, and the length of its network part.\<close>

datatype ip_pool = Pool4 pool | Pool6 pool

definition NewPool :: "bytes \<Rightarrow> int \<Rightarrow> ip_pool" where
  "NewPool addr bits = (if length addr = 4 then Pool4 (NewIPv4Pool addr bits) else Pool6 (NewIPv6Pool addr bits))"

definition GetAddr :: "ip_pool \<Rightarrow> (pool_panic, bytes \<times> bool) outcome \<times> ip_pool" where
  "GetAddr p = (case p of Pool4 q \<Rightarrow> apsnd Pool4 (IPv4Pool_Get q) | Pool6 q \<Rightarrow> apsnd Pool6 (IPv6Pool_Get q))"

definition PutAddr :: "ip_pool \<Rightarrow> bytes \<Rightarrow> (pool_panic, unit) outcome \<times> ip_pool" where
  "PutAddr p ip = (case p of Pool4 q \<Rightarrow> apsnd Pool4 (IPv4Pool_Put q ip) | Pool6 q \<Rightarrow> apsnd Pool6 (IPv6Pool_Put q ip))"

section \<open>Histories\<close>

datatype pool_event = Took bytes | Refused | Gave bytes

text \<open>The addresses that the users of a pool hold.\<close>

fun held :: "pool_event list \<Rightarrow> bytes set" where
  "held [] = {}"
| "held (Took a # es) = (if a \<in> held es then held es else insert a (held es))"
| "held (Refused # es) = held es"
| "held (Gave a # es) = held es - {a}"

text \<open>The latest event is the first of the list. Addresses are only given back by those who hold them.\<close>

inductive pool_run ::
  "('p \<Rightarrow> (pool_panic, bytes \<times> bool) outcome \<times> 'p) \<Rightarrow> ('p \<Rightarrow> bytes \<Rightarrow> (pool_panic, unit) outcome \<times> 'p)
   \<Rightarrow> 'p \<Rightarrow> pool_event list \<Rightarrow> 'p \<Rightarrow> bool"
  for get put p
where
  start: "pool_run get put p [] p"
| took: "pool_run get put p es q \<Longrightarrow> get q = (Return (a, True), q') \<Longrightarrow> pool_run get put p (Took a # es) q'"
| refused: "pool_run get put p es q \<Longrightarrow> get q = (Return (a, False), q') \<Longrightarrow> pool_run get put p (Refused # es) q'"
| gave: "pool_run get put p es q \<Longrightarrow> a \<in> held es \<Longrightarrow> put q a = (Return (), q') \<Longrightarrow>
    pool_run get put p (Gave a # es) q'"

section \<open>Pools over an address space\<close>

text \<open>
  \<open>room base netmask\<close> is the number of addresses from \<open>base\<close> to the end of its network, and \<open>ok\<close> says that
  there are not too many of them to be counted.
\<close>

locale address_space =
  fixes add :: "bytes \<Rightarrow> int \<Rightarrow> bytes" and sub :: "bytes \<Rightarrow> bytes \<Rightarrow> int" and prefix :: "bytes \<Rightarrow> bytes \<Rightarrow> bytes"
    and room :: "bytes \<Rightarrow> bytes \<Rightarrow> nat" and ok :: "bytes \<Rightarrow> bytes \<Rightarrow> bool"
  assumes prefix_inside: "ok base netmask \<Longrightarrow> i < room base netmask \<Longrightarrow> prefix (add base (int i)) netmask = prefix base netmask"
    and prefix_outside: "ok base netmask \<Longrightarrow> prefix (add base (int (room base netmask))) netmask \<noteq> prefix base netmask"
    and sub_add: "ok base netmask \<Longrightarrow> i < room base netmask \<Longrightarrow> sub (add base (int i)) base = int i"
    and room_bound: "ok base netmask \<Longrightarrow> int (room base netmask) < 2 ^ 63"
begin

definition pool_inv :: "pool \<Rightarrow> bool" where
  "pool_inv p \<longleftrightarrow> ok (pool_base p) (pool_mask p) \<and> pool_addr p = prefix (pool_base p) (pool_mask p)
     \<and> (\<forall>i\<in>elements (pool_bits p). i < room (pool_base p) (pool_mask p))"

definition address :: "pool \<Rightarrow> nat \<Rightarrow> bytes" where
  "address p i = add (pool_base p) (int i)"

definition allocated :: "pool \<Rightarrow> bytes set" where
  "allocated p = address p ` elements (pool_bits p)"

definition space :: "pool \<Rightarrow> bytes set" where
  "space p = address p ` {..<room (pool_base p) (pool_mask p)}"

lemma pool_inv_Reset: "ok ip (netmask nbits) \<Longrightarrow> pool_inv (pool_Reset netmask prefix p ip nbits)"
  by (simp add: pool_inv_def pool_Reset_def)

lemma allocated_Reset [simp]: "allocated (pool_Reset netmask prefix p ip nbits) = {}"
  by (simp add: allocated_def pool_Reset_def)

lemma address_inj: "pool_inv p \<Longrightarrow> inj_on (address p) {..<room (pool_base p) (pool_mask p)}"
  by (rule inj_onI) (metis address_def lessThan_iff of_nat_eq_iff pool_inv_def sub_add)

lemma allocated_space: "pool_inv p \<Longrightarrow> allocated p \<subseteq> space p"
  by (auto simp: allocated_def space_def pool_inv_def)

lemma address_allocated:
  "pool_inv p \<Longrightarrow> i < room (pool_base p) (pool_mask p) \<Longrightarrow> address p i \<in> allocated p \<longleftrightarrow> i \<in> elements (pool_bits p)"
  using address_inj [of p] by (auto simp: allocated_def pool_inv_def inj_on_def)

text \<open>\<^verbatim>\<open>Get\<close> hands out an address that is not handed out, as long as there is one.\<close>

lemma pool_Get_free:
  assumes p: "pool_inv p" and free: "allocated p \<noteq> space p"
  shows "\<exists>a p'. pool_Get add prefix p = (Return (a, True), p') \<and> pool_inv p' \<and> a \<in> space p \<and> a \<notin> allocated p
    \<and> allocated p' = insert a (allocated p) \<and> space p' = space p"
proof -
  let ?i = "findFirstZeroBit (pool_bits p)" and ?room = "room (pool_base p) (pool_mask p)"
  note first = findFirstZeroBit_least [of "pool_bits p"]
  have i: "?i < ?room"
  proof (rule ccontr)
    assume "\<not> ?thesis"
    then have "{..<?room} \<subseteq> elements (pool_bits p)"
      using first by auto
    then have "space p \<subseteq> allocated p"
      by (auto simp: space_def allocated_def)
    then show False
      using free allocated_space [OF p] by simp
  qed
  have ok: "ok (pool_base p) (pool_mask p)"
    using p by (simp add: pool_inv_def)
  then have small: "int ?i < 2 ^ 64"
    using room_bound [OF ok] i by simp
  have "?i div 64 < length (bitset_grow (pool_bits p) (?i + 1))"
    using length_grow(1) [of "?i + 1" "pool_bits p"] by simp
  from bitset_set_elements [OF small this] obtain bits where
    bits: "bitset_set (bitset_grow (pool_bits p) (?i + 1)) (int ?i) = Return bits"
      "elements bits = insert ?i (elements (pool_bits p))"
    by auto
  let ?p = "p\<lparr>pool_bits := bits\<rparr>"
  have "pool_Get add prefix p = (Return (address p ?i, True), ?p)"
    using prefix_inside [OF ok i] bits(1) p by (simp add: pool_Get_def pool_inv_def address_def Let_def)
  moreover have "pool_inv ?p"
    using p bits(2) i by (auto simp: pool_inv_def)
  moreover have "address p ?i \<notin> allocated p"
    using address_allocated [OF p i] first by simp
  moreover have "allocated ?p = insert (address p ?i) (allocated p)" "space ?p = space p"
    using bits(2) by (auto simp: allocated_def space_def address_def)
  moreover have "address p ?i \<in> space p"
    using i by (simp add: space_def)
  ultimately show ?thesis
    by blast
qed

lemma pool_Get_full:
  assumes p: "pool_inv p" and full: "allocated p = space p"
  shows "\<exists>a. pool_Get add prefix p = (Return (a, False), p) \<and> a \<notin> space p"
proof -
  let ?i = "findFirstZeroBit (pool_bits p)" and ?room = "room (pool_base p) (pool_mask p)"
  have "elements (pool_bits p) = {..<?room}"
  proof
    show "elements (pool_bits p) \<subseteq> {..<?room}"
      using p by (auto simp: pool_inv_def)
    show "{..<?room} \<subseteq> elements (pool_bits p)"
      using full address_allocated [OF p] by (auto simp: space_def)
  qed
  then have "\<not> ?i < ?room" "\<not> ?room < ?i"
    using findFirstZeroBit_least [of "pool_bits p"] by auto
  then have i: "?i = ?room"
    by simp
  have out: "prefix (address p ?room) (pool_mask p) \<noteq> pool_addr p"
    using p prefix_outside by (simp add: pool_inv_def address_def)
  then have "pool_Get add prefix p = (Return (address p ?room, False), p)"
    by (simp add: pool_Get_def address_def Let_def i)
  moreover have "address p ?room \<notin> space p"
    using out p prefix_inside by (auto simp: space_def pool_inv_def address_def)
  ultimately show ?thesis
    by blast
qed

text \<open>\<^verbatim>\<open>Put\<close> of an address that is handed out takes it back.\<close>

lemma pool_Put_allocated:
  assumes p: "pool_inv p" and a: "a \<in> allocated p"
  shows "\<exists>p'. pool_Put sub p a = (Return (), p') \<and> pool_inv p' \<and> allocated p' = allocated p - {a} \<and> space p' = space p"
proof -
  from a obtain i where i: "i \<in> elements (pool_bits p)" "a = address p i"
    by (auto simp: allocated_def)
  have ok: "ok (pool_base p) (pool_mask p)" and less: "i < room (pool_base p) (pool_mask p)"
    using p i by (auto simp: pool_inv_def)
  then have small: "int i < 2 ^ 64"
    using room_bound by fastforce
  have index: "i div 64 < length (pool_bits p)"
    using i(1) by (simp add: elements_def)
  obtain bits where bits: "bitset_unset (pool_bits p) (int i) = Return bits"
    "elements bits = elements (pool_bits p) - {i}"
    using bitset_unset_elements [OF small index] by blast
  let ?p = "p\<lparr>pool_bits := bits\<rparr>"
  have "sub a (pool_base p) = int i"
    using sub_add [OF ok less] i(2) by (simp add: address_def)
  then have "pool_Put sub p a = (Return (), ?p)"
    using bitset_has_elements [OF small index] i(1) bits(1) by (simp add: pool_Put_def Let_def)
  moreover have "pool_inv ?p"
    using p bits(2) by (auto simp: pool_inv_def)
  moreover have "allocated ?p = allocated p - {a}"
  proof -
    have "inj_on (address p) (elements (pool_bits p))"
      using address_inj [OF p] by (rule inj_on_subset) (use p in \<open>auto simp: pool_inv_def\<close>)
    then have "address p ` (elements (pool_bits p) - {i}) = allocated p - {a}"
      using i by (auto simp: allocated_def inj_on_def)
    then show ?thesis
      using bits(2) by (simp add: allocated_def address_def)
  qed
  ultimately show ?thesis
    by (auto simp: space_def address_def)
qed

text \<open>Histories: the allocated addresses are those that are held.\<close>

lemma pool_run_inv:
  assumes "pool_run (pool_Get add prefix) (pool_Put sub) p es q" "pool_inv p" "allocated p = {}"
  shows "pool_inv q \<and> allocated q = held es \<and> space q = space p"
  using assms
proof (induction rule: pool_run.induct)
  case start
  then show ?case
    by simp
next
  case (took es q a q')
  then have q: "pool_inv q" "allocated q = held es" "space q = space p"
    by auto
  then have "allocated q \<noteq> space q"
    using pool_Get_full [OF q(1)] took(2) by auto
  then show ?case
    using pool_Get_free [OF q(1)] took(2) q by auto
next
  case (refused es q a q')
  then have q: "pool_inv q" "allocated q = held es" "space q = space p"
    by auto
  then have "allocated q = space q"
    using pool_Get_free [OF q(1)] refused(2) by fastforce
  then show ?case
    using pool_Get_full [OF q(1)] refused(2) q by auto
next
  case (gave es q a q')
  then have q: "pool_inv q" "allocated q = held es" "space q = space p"
    by auto
  then show ?case
    using pool_Put_allocated [OF q(1), of a] gave(2,3) by auto
qed

lemma pool_after_run:
  assumes "pool_run (pool_Get add prefix) (pool_Put sub) p es q" "pool_inv p" "allocated p = {}"
  shows "held es \<subseteq> space p"
    "held es \<noteq> space p \<Longrightarrow> \<exists>a q'. pool_Get add prefix q = (Return (a, True), q') \<and> a \<in> space p - held es"
    "held es = space p \<Longrightarrow> \<exists>a. pool_Get add prefix q = (Return (a, False), q)"
    "a \<in> held es \<Longrightarrow> \<exists>q'. pool_Put sub q a = (Return (), q')"
proof -
  have q: "pool_inv q" "allocated q = held es" "space q = space p"
    using pool_run_inv [OF assms] by simp_all
  show "held es \<subseteq> space p"
    using allocated_space [OF q(1)] q by simp
  show "\<exists>a q'. pool_Get add prefix q = (Return (a, True), q') \<and> a \<in> space p - held es" if "held es \<noteq> space p"
    using pool_Get_free [OF q(1)] that q by auto
  show "\<exists>a. pool_Get add prefix q = (Return (a, False), q)" if "held es = space p"
    using pool_Get_full [OF q(1)] that q by auto
  show "\<exists>q'. pool_Put sub q a = (Return (), q')" if "a \<in> held es"
    using pool_Put_allocated [OF q(1), of a] that q by auto
qed

end

section \<open>Words and their network part\<close>

lemma and_NOT_mask_eq:
  fixes u v :: "'a :: len word"
  shows "u AND NOT (mask k) = v AND NOT (mask k) \<longleftrightarrow> drop_bit k u = drop_bit k v"
proof -
  have *: "w AND NOT (mask k) = push_bit k (drop_bit k w)" for w :: "'a word"
    by (rule bit_word_eqI) (auto simp: bit_simps)
  have **: "drop_bit k (w AND NOT (mask k)) = drop_bit k w" for w :: "'a word"
    by (rule bit_word_eqI) (auto simp: bit_simps dest: bit_imp_le_length)
  show ?thesis
    by (metis * **)
qed

lemma network_eq:
  fixes u v :: "'a :: len word"
  shows "u AND NOT (mask k) = v AND NOT (mask k) \<longleftrightarrow> uint u div 2 ^ k = uint v div 2 ^ k"
proof -
  have "uint (drop_bit k w) = uint w div 2 ^ k" for w :: "'a word"
    unfolding unsigned_drop_bit_eq by (simp add: drop_bit_eq_div take_bit_int_eq_self)
  then show ?thesis
    unfolding and_NOT_mask_eq by (metis word_uint_eq_iff)
qed

text \<open>The number of addresses from \<open>b\<close> to the end of its block of \<open>2 ^ k\<close>.\<close>

definition block_room :: "nat \<Rightarrow> int \<Rightarrow> nat" where
  "block_room k b = nat (2 ^ k - b mod 2 ^ k)"

lemma block_inside:
  assumes "0 \<le> b" "i < block_room k b"
  shows "(b + int i) div 2 ^ k = b div 2 ^ k"
proof (rule int_div_pos_eq)
  show "b + int i = 2 ^ k * (b div 2 ^ k) + (b mod 2 ^ k + int i)"
    by (simp flip: add.assoc)
  show "b mod 2 ^ k + int i < 2 ^ k"
    using assms(2) by (simp add: block_room_def)
qed simp

lemma block_end: "b + int (block_room k b) = (b div 2 ^ k + 1) * 2 ^ k"
proof -
  have "int (block_room k b) = 2 ^ k - b mod 2 ^ k"
    by (simp add: block_room_def less_imp_le)
  then show ?thesis
    using div_mult_mod_eq [of b "2 ^ k"] by (simp only: distrib_right mult_1)
qed

lemma block_end_le:
  assumes "b < 2 ^ n" "k \<le> n"
  shows "b + int (block_room k b) \<le> 2 ^ n"
proof -
  have n: "(2 :: int) ^ n = 2 ^ (n - k) * 2 ^ k"
    using assms(2) by (simp flip: power_add)
  have "b div 2 ^ k < 2 ^ (n - k)"
  proof (rule ccontr)
    assume "\<not> ?thesis"
    then have "2 ^ (n - k) * 2 ^ k \<le> b div 2 ^ k * 2 ^ k"
      by simp
    also have "\<dots> \<le> b"
      by (simp flip: minus_mod_eq_div_mult)
    finally show False
      using assms(1) n by simp
  qed
  then have "(b div 2 ^ k + 1) * 2 ^ k \<le> 2 ^ (n - k) * 2 ^ k"
    by simp
  then show ?thesis
    unfolding block_end n .
qed

lemma block_room_le: "0 \<le> b \<Longrightarrow> int (block_room k b) \<le> 2 ^ k"
  by (simp add: block_room_def)

lemma uint_plus:
  fixes b :: "'a :: len word"
  assumes "uint b + int i < 2 ^ LENGTH('a)"
  shows "uint (b + word_of_int (int i)) = uint b + int i"
proof -
  have "b + word_of_int (int i) = word_of_int (uint b + int i)"
    by simp
  then show ?thesis
    using assms by (simp only: uint_word_of_int) simp
qed

lemma uint_of_nat_small:
  assumes "int i < 2 ^ LENGTH('a)"
  shows "uint (word_of_nat i :: 'a :: len word) = int i"
  using uint_plus [of "0 :: 'a word" i] assms by simp

lemma network_inside:
  fixes b :: "'a :: len word"
  assumes "k \<le> LENGTH('a)" "i < block_room k (uint b)"
  shows "(b + word_of_int (int i)) AND NOT (mask k) = b AND NOT (mask k)"
    "uint (b + word_of_int (int i)) = uint b + int i"
proof -
  have "uint b + int i < 2 ^ LENGTH('a)"
    using block_end_le [of "uint b" "LENGTH('a)" k] assms by simp
  then show u: "uint (b + word_of_int (int i)) = uint b + int i"
    by (rule uint_plus)
  show "(b + word_of_int (int i)) AND NOT (mask k) = b AND NOT (mask k)"
    unfolding network_eq u using assms(2) by (intro block_inside) simp_all
qed

lemma network_outside:
  fixes b :: "'a :: len word"
  assumes "k < LENGTH('a)"
  shows "(b + word_of_int (int (block_room k (uint b)))) AND NOT (mask k) \<noteq> b AND NOT (mask k)"
proof (cases "uint b + int (block_room k (uint b)) < 2 ^ LENGTH('a)")
  case True
  then show ?thesis
    unfolding network_eq uint_plus [OF True] block_end by simp
next
  case False
  then have top: "uint b + int (block_room k (uint b)) = 2 ^ LENGTH('a)"
    using block_end_le [of "uint b" "LENGTH('a)" k] assms by simp
  have "b + word_of_int (int (block_room k (uint b))) = word_of_int (uint b + int (block_room k (uint b)))"
    by simp
  then have "uint (b + word_of_int (int (block_room k (uint b)))) = 0"
    unfolding top by (simp only: uint_word_of_int) simp
  moreover have "0 < uint b div 2 ^ k"
  proof -
    have "2 ^ k < (2 :: int) ^ LENGTH('a)"
      using assms by simp
    then have "2 ^ k * 1 < 2 ^ k * (uint b div 2 ^ k + 1)"
      using top block_end [of "uint b" k] by (simp add: mult.commute)
    then show ?thesis
      by simp
  qed
  ultimately show ?thesis
    unfolding network_eq by simp
qed

section \<open>Bytes of an address\<close>

lemma length_be [simp]: "length (be32 v) = 4" "length (be64 w) = 8"
  by (simp_all add: be32_def be64_def)

lemma of_be_be [simp]: "of_be32 (be32 v) = v" "of_be64 (be64 w) = w" "of_be64 (be64 w @ xs) = w"
  using of_le32_le32 [of v "[]"] of_le64_le64 [of w "[]"]
  by (simp_all add: of_be32_def be32_def of_be64_def be64_def)

lemma be_eq [simp]: "be32 u = be32 v \<longleftrightarrow> u = v" "be64 x = be64 y \<longleftrightarrow> x = y"
  by (metis of_be_be(1)) (metis of_be_be(2))

lemma bytes4: "length b = 4 \<Longrightarrow> \<exists>b0 b1 b2 b3. b = [b0, b1, b2, b3]"
  by (auto simp: numeral_eq_Suc length_Suc_conv)

lemma bytes8: "length b = 8 \<Longrightarrow> \<exists>b0 b1 b2 b3 b4 b5 b6 b7. b = [b0, b1, b2, b3, b4, b5, b6, b7]"
  by (auto simp: numeral_eq_Suc length_Suc_conv)

lemma byte_bits: "8 \<le> n \<Longrightarrow> \<not> bit (b :: byte) n"
  using bit_imp_le_length [of b n] by auto

lemma be32_of_be32: "length b = 4 \<Longrightarrow> be32 (of_be32 b) = b"
  by (drule bytes4) (auto simp: be32_def of_be32_def le32_def bit_simps byte_bits intro!: bit_word_eqI)

lemma le32_and: "le32 (u AND v) = map2 (AND) (le32 u) (le32 v)"
  by (auto simp: le32_def bit_simps intro!: bit_word_eqI)

lemma le64_and: "le64 (u AND v) = map2 (AND) (le64 u) (le64 v)"
  by (auto simp: le64_def bit_simps intro!: bit_word_eqI)

lemma le32_of_le32: "length b = 4 \<Longrightarrow> le32 (of_le32 b) = b"
  by (drule bytes4) (auto simp: le32_def bit_simps byte_bits intro!: bit_word_eqI)

lemma le64_of_le64: "length b = 8 \<Longrightarrow> le64 (of_le64 b) = b"
  by (drule bytes8) (auto simp: le64_def bit_simps byte_bits intro!: bit_word_eqI)

text \<open>The masking of the bytes is that of the number, although it reads them in the other order.\<close>

lemma IPv4_prefix_be: "IPv4_prefix (be32 u) (be32 v) = be32 (u AND v)"
proof -
  have "be32 u = rev (le32 u)" "be32 v = rev (le32 v)"
    by (simp_all add: be32_def)
  then have "IPv4_prefix (be32 u) (be32 v) = map2 (AND) (rev (le32 u)) (rev (le32 v))"
    by (simp add: IPv4_prefix_def le32_and le32_of_le32)
  then show ?thesis
    by (simp add: be32_def le32_and zip_rev rev_map)
qed

lemma be64_append_eq [simp]: "be64 x @ xs = be64 y @ ys \<longleftrightarrow> x = y \<and> xs = ys"
  by simp

lemma map2_and_rev: "length xs = length ys \<Longrightarrow> map2 (AND) (rev xs) (rev ys) = rev (map2 (AND) xs ys)"
  by (simp add: zip_rev rev_map)

lemma IPv6_prefix_be:
  "IPv6_prefix (be64 a @ be64 b) (be64 c @ be64 d) = be64 (a AND c) @ be64 (b AND d)"
proof -
  have low: "of_le64 (be64 v @ xs) = of_le64 (be64 v)" for v xs
    using bytes8 [of "be64 v"] by auto
  have "le64 (of_le64 (be64 u) AND of_le64 (be64 v)) = be64 (u AND v)" for u v
    by (simp add: le64_and le64_of_le64 map2_and_rev be64_def)
  then show ?thesis
    by (simp add: IPv6_prefix_def low)
qed

section \<open>The two address spaces\<close>

text \<open>The number of addresses from \<open>base\<close> to the end of its network, by the host part of the netmask.\<close>

definition word_room :: "'a :: len word \<Rightarrow> 'a word \<Rightarrow> nat" where
  "word_room base netmask = nat (uint (NOT netmask) + 1 - uint (base AND NOT netmask))"

lemma word_room_block:
  fixes b :: "'a :: len word"
  assumes "k < LENGTH('a)"
  shows "word_room b (NOT (mask k)) = block_room k (uint b)"
proof -
  have "uint (mask k :: 'a word) = 2 ^ k - 1"
    unfolding uint_mask_eq using assms by (simp add: mask_eq_exp_minus_1 min_def)
  moreover have "uint (b AND mask k) = uint b mod 2 ^ k"
    unfolding take_bit_eq_mask [symmetric] unsigned_take_bit_eq by (rule take_bit_eq_mod)
  ultimately show ?thesis
    by (simp add: word_room_def block_room_def)
qed

definition IPv4_room :: "bytes \<Rightarrow> bytes \<Rightarrow> nat" where
  "IPv4_room base netmask = word_room (of_be32 base) (of_be32 netmask)"

definition IPv4_ok :: "bytes \<Rightarrow> bytes \<Rightarrow> bool" where
  "IPv4_ok base netmask \<longleftrightarrow> length base = 4 \<and> (\<exists>n. 1 \<le> n \<and> n \<le> 32 \<and> netmask = IPv4_mask n)"

lemma IPv4_okE:
  assumes "IPv4_ok base netmask"
  obtains b k where "base = be32 b" "netmask = be32 (NOT (mask k))" "k < 32"
    "IPv4_room base netmask = block_room k (uint b)"
proof -
  from assms obtain n where n: "1 \<le> n" "n \<le> 32" "netmask = IPv4_mask n" and base: "be32 (of_be32 base) = base"
    by (auto simp: IPv4_ok_def be32_of_be32)
  then have m: "netmask = be32 (NOT (mask (nat (32 - n))))" and k: "nat (32 - n) < 32"
    by (simp_all add: IPv4_mask_def shift_left_def)
  moreover have "IPv4_room base netmask = block_room (nat (32 - n)) (uint (of_be32 base))"
    using word_room_block [of "nat (32 - n)" "of_be32 base"] k by (simp add: IPv4_room_def m)
  ultimately show ?thesis
    using base by (intro that [of "of_be32 base" "nat (32 - n)"]) simp_all
qed

lemma block_room_less: "0 \<le> b \<Longrightarrow> k \<le> m \<Longrightarrow> int (block_room k b) \<le> 2 ^ m"
  using block_room_le [of b k] power_increasing [of k m "2 :: int"] by linarith

interpretation ipv4: address_space IPv4_add IPv4_sub IPv4_prefix IPv4_room IPv4_ok
proof unfold_locales
  fix base netmask and i :: nat
  assume "IPv4_ok base netmask"
  then obtain b k where base: "base = be32 b" and m: "netmask = be32 (NOT (mask k))" and k: "k < 32"
    and room: "IPv4_room base netmask = block_room k (uint b)"
    by (rule IPv4_okE)
  have bound: "int (IPv4_room base netmask) \<le> 2 ^ 31"
    unfolding room using k by (intro block_room_less) simp_all
  then show "int (IPv4_room base netmask) < 2 ^ 63"
    by simp
  show "IPv4_prefix (IPv4_add base (int (IPv4_room base netmask))) netmask \<noteq> IPv4_prefix base netmask"
    using network_outside [of k b] k unfolding room unfolding base m IPv4_add_def IPv4_prefix_be by simp
  assume i: "i < IPv4_room base netmask"
  show "IPv4_prefix (IPv4_add base (int i)) netmask = IPv4_prefix base netmask"
    using network_inside(1) [of k i b] i k unfolding room unfolding base m IPv4_add_def IPv4_prefix_be by simp
  show "IPv4_sub (IPv4_add base (int i)) base = int i"
    using i bound by (simp add: IPv4_sub_def IPv4_add_def base uint_of_nat_small)
qed

text \<open>
  An IPv6 pool counts in the low half of its addresses: its networks have at most \<open>2 ^ 62\<close> addresses.
\<close>

definition IPv6_room :: "bytes \<Rightarrow> bytes \<Rightarrow> nat" where
  "IPv6_room base netmask = word_room (of_be64 (drop 8 base)) (of_be64 (drop 8 netmask))"

definition IPv6_ok :: "bytes \<Rightarrow> bytes \<Rightarrow> bool" where
  "IPv6_ok base netmask \<longleftrightarrow> length base = 16 \<and> (\<exists>n. 66 \<le> n \<and> n \<le> 128 \<and> netmask = IPv6_mask n)"

lemma be64_of_be64: "length b = 8 \<Longrightarrow> be64 (of_be64 b) = b"
  by (simp add: be64_def of_be64_def le64_of_le64)

lemma of_be64_take: "of_be64 (take 8 b) = of_be64 b"
  by (simp add: of_be64_def)

lemma be64_halves: "length b = 16 \<Longrightarrow> b = be64 (of_be64 b) @ be64 (of_be64 (drop 8 b))"
  using be64_of_be64 [of "take 8 b"] be64_of_be64 [of "drop 8 b"] by (simp add: of_be64_take)

lemma IPv6_okE:
  assumes "IPv6_ok base netmask"
  obtains h b k where "base = be64 h @ be64 b" "netmask = be64 (NOT 0) @ be64 (NOT (mask k))" "k < 63"
    "IPv6_room base netmask = block_room k (uint b)"
proof -
  from assms obtain n where n: "66 \<le> n" "n \<le> 128" "netmask = IPv6_mask n" and l: "length base = 16"
    by (auto simp: IPv6_ok_def)
  have base: "base = be64 (of_be64 base) @ be64 (of_be64 (drop 8 base))"
    using l by (rule be64_halves)
  from n have m: "netmask = be64 (NOT 0) @ be64 (NOT (mask (nat (128 - n))))" and k: "nat (128 - n) < 63"
    by (simp_all add: IPv6_mask_def shift_left_def)
  moreover have "IPv6_room base netmask = block_room (nat (128 - n)) (uint (of_be64 (drop 8 base)))"
    using word_room_block [of "nat (128 - n)" "of_be64 (drop 8 base)"] k by (simp add: IPv6_room_def m)
  ultimately show ?thesis
    using base by (intro that)
qed

lemma IPv6_add_low:
  "IPv6_add (be64 h @ be64 b) (int i) = be64 (h + (if 2 ^ 64 \<le> uint b + uint (word_of_int (int i) :: u64) then 1 else 0)) @ be64 (b + word_of_int (int i))"
  by (simp add: IPv6_add_def Add64_def)

lemma IPv6_sub_low: "IPv6_sub (be64 h @ be64 a) (be64 h @ be64 b) = sint (a - b)"
  by (simp add: IPv6_sub_def Sub64_def)

lemma sint_small: "int i < 2 ^ 63 \<Longrightarrow> sint (word_of_int (int i) :: u64) = int i"
  by (simp add: sint_uint uint_of_nat_small signed_take_bit_int_eq_self)

lemma IPv6_add_inside:
  assumes "k < 63" "i < block_room k (uint b)"
  shows "IPv6_add (be64 h @ be64 b) (int i) = be64 h @ be64 (b + word_of_int (int i))"
proof -
  have "int i < 2 ^ 62"
    using block_room_less [of "uint b" k 62] assms by simp
  moreover have "uint b + int i < 2 ^ 64"
    using block_end_le [of "uint b" 64 k] uint_bounded [of b] assms by simp
  ultimately show ?thesis
    unfolding IPv6_add_low by (simp add: uint_of_nat_small)
qed

interpretation ipv6: address_space IPv6_add IPv6_sub IPv6_prefix IPv6_room IPv6_ok
proof unfold_locales
  fix base netmask and i :: nat
  assume "IPv6_ok base netmask"
  then obtain h b k where base: "base = be64 h @ be64 b" and m: "netmask = be64 (NOT 0) @ be64 (NOT (mask k))"
    and k: "k < 63" and room: "IPv6_room base netmask = block_room k (uint b)"
    by (rule IPv6_okE)
  have bound: "int (IPv6_room base netmask) \<le> 2 ^ 62"
    unfolding room using k by (intro block_room_less) simp_all
  then show "int (IPv6_room base netmask) < 2 ^ 63"
    by simp
  show "IPv6_prefix (IPv6_add base (int (IPv6_room base netmask))) netmask \<noteq> IPv6_prefix base netmask"
    using network_outside [of k b] k unfolding room unfolding base m IPv6_add_low IPv6_prefix_be by simp
  assume i: "i < IPv6_room base netmask"
  have small: "int i < 2 ^ 63"
    using i bound by simp
  have add: "IPv6_add base (int i) = be64 h @ be64 (b + word_of_int (int i))"
    using IPv6_add_inside k i unfolding room unfolding base by blast
  show "IPv6_prefix (IPv6_add base (int i)) netmask = IPv6_prefix base netmask"
    using network_inside(1) [of k i b] i k unfolding room add unfolding base m IPv6_prefix_be by simp
  show "IPv6_sub (IPv6_add base (int i)) base = int i"
    using sint_small [OF small] unfolding add unfolding base IPv6_sub_low by simp
qed

section \<open>The addresses of a pool\<close>

lemma block_set:
  fixes b :: "'a :: len word"
  assumes "k < LENGTH('a)"
  shows "(\<lambda>i. b + word_of_int (int i)) ` {..<block_room k (uint b)} = {v. b \<le> v \<and> v AND NOT (mask k) = b AND NOT (mask k)}"
    (is "?f ` _ = ?net")
proof (intro equalityI subsetI)
  fix v
  assume "v \<in> ?f ` {..<block_room k (uint b)}"
  then show "v \<in> ?net"
    using assms network_inside [of k _ b] by (auto simp: word_le_def)
next
  fix v
  assume "v \<in> ?net"
  then have le: "uint b \<le> uint v" and net: "uint v div 2 ^ k = uint b div 2 ^ k"
    by (auto simp: network_eq word_le_def)
  let ?i = "nat (uint v - uint b)"
  have "uint v < (uint v div 2 ^ k + 1) * 2 ^ k"
    using div_mult_mod_eq [of "uint v" "2 ^ k"] pos_mod_bound [of "2 ^ k" "uint v"]
    by (simp add: distrib_right del: pos_mod_bound)
  then have "uint v < uint b + int (block_room k (uint b))"
    unfolding net block_end .
  then have "?i < block_room k (uint b)"
    using le by simp
  moreover have "uint (b + word_of_int (int ?i)) = uint v"
    using le uint_bounded [of v] by (subst uint_plus) simp_all
  ultimately show "v \<in> ?f ` {..<block_room k (uint b)}"
    by (metis imageI lessThan_iff word_uint_eqI)
qed

text \<open>
  A pool for the network of \<open>addr\<close> of \<open>nbits\<close> bits has the addresses of the network from \<open>addr\<close> on.
\<close>

definition pool_space :: "bytes \<Rightarrow> int \<Rightarrow> bytes set" where
  "pool_space addr nbits =
     (if length addr = 4
      then {a. length a = 4 \<and> of_be32 addr \<le> of_be32 a
        \<and> IPv4_prefix a (IPv4_mask nbits) = IPv4_prefix addr (IPv4_mask nbits)}
      else {a. length a = 16 \<and> of_be64 (drop 8 addr) \<le> of_be64 (drop 8 a)
        \<and> IPv6_prefix a (IPv6_mask nbits) = IPv6_prefix addr (IPv6_mask nbits)})"

definition pool_ok :: "bytes \<Rightarrow> int \<Rightarrow> bool" where
  "pool_ok addr nbits \<longleftrightarrow>
     length addr = 4 \<and> 1 \<le> nbits \<and> nbits \<le> 32 \<or> length addr = 16 \<and> 66 \<le> nbits \<and> nbits \<le> 128"

lemma IPv4_space:
  assumes "length addr = 4" "1 \<le> nbits" "nbits \<le> 32"
  shows "ipv4.space (NewIPv4Pool addr nbits) = pool_space addr nbits"
proof -
  have "IPv4_ok addr (IPv4_mask nbits)"
    using assms by (auto simp: IPv4_ok_def)
  then obtain b k where *: "addr = be32 b" "IPv4_mask nbits = be32 (NOT (mask k))" "k < 32"
    and room: "IPv4_room addr (IPv4_mask nbits) = block_room k (uint b)"
    by (rule IPv4_okE)
  have "ipv4.space (NewIPv4Pool addr nbits) = (\<lambda>i. be32 (b + word_of_int (int i))) ` {..<block_room k (uint b)}"
    by (simp add: ipv4.space_def ipv4.address_def NewIPv4Pool_def IPv4Pool_Reset_def pool_Reset_def room
      del: of_int_of_nat_eq) (simp add: * IPv4_add_def del: of_int_of_nat_eq)
  also have "\<dots> = be32 ` {v. b \<le> v \<and> v AND NOT (mask k) = b AND NOT (mask k)}"
    using * by (subst block_set [symmetric]) (simp_all add: image_image del: of_int_of_nat_eq)
  also have "\<dots> = {a. length a = 4 \<and> b \<le> of_be32 a \<and> IPv4_prefix a (be32 (NOT (mask k))) = IPv4_prefix (be32 b) (be32 (NOT (mask k)))}"
    (is "?l = ?r")
  proof -
    have "a \<in> ?l \<longleftrightarrow> a \<in> ?r" for a
    proof (cases "length a = 4")
      case True
      then obtain v where "a = be32 v"
        by (metis be32_of_be32)
      then show ?thesis
        by (auto simp: IPv4_prefix_be)
    qed auto
    then show ?thesis
      by blast
  qed
  finally show ?thesis
    using assms by (simp add: pool_space_def *)
qed

lemma IPv6_space:
  assumes "length addr = 16" "66 \<le> nbits" "nbits \<le> 128"
  shows "ipv6.space (NewIPv6Pool addr nbits) = pool_space addr nbits"
proof -
  have "IPv6_ok addr (IPv6_mask nbits)"
    using assms by (auto simp: IPv6_ok_def)
  then obtain h b k where *: "addr = be64 h @ be64 b" "IPv6_mask nbits = be64 (NOT 0) @ be64 (NOT (mask k))" "k < 63"
    and room: "IPv6_room addr (IPv6_mask nbits) = block_room k (uint b)"
    by (rule IPv6_okE)
  have "ipv6.space (NewIPv6Pool addr nbits) = IPv6_add addr ` int ` {..<block_room k (uint b)}"
    by (auto simp: ipv6.space_def ipv6.address_def NewIPv6Pool_def IPv6Pool_Reset_def pool_Reset_def room)
  also have "\<dots> = (\<lambda>i. be64 h @ be64 (b + word_of_int (int i))) ` {..<block_room k (uint b)}"
    unfolding image_image
  proof (rule image_cong)
    fix i
    assume "i \<in> {..<block_room k (uint b)}"
    then have "i < block_room k (uint b)"
      by simp
    then show "IPv6_add addr (int i) = be64 h @ be64 (b + word_of_int (int i))"
      using * IPv6_add_inside by blast
  qed simp
  also have "\<dots> = (\<lambda>v. be64 h @ be64 v) ` {v. b \<le> v \<and> v AND NOT (mask k) = b AND NOT (mask k)}"
    using * by (subst block_set [symmetric]) (simp_all add: image_image del: of_int_of_nat_eq)
  also have "\<dots> = {a. length a = 16 \<and> b \<le> of_be64 (drop 8 a)
      \<and> IPv6_prefix a (be64 (NOT 0) @ be64 (NOT (mask k))) = IPv6_prefix (be64 h @ be64 b) (be64 (NOT 0) @ be64 (NOT (mask k)))}"
    (is "?l = ?r")
  proof -
    have "a \<in> ?l \<longleftrightarrow> a \<in> ?r" for a
    proof (cases "length a = 16")
      case True
      then have "a = be64 (of_be64 a) @ be64 (of_be64 (drop 8 a))"
        by (rule be64_halves)
      then obtain u v where "a = be64 u @ be64 v"
        by blast
      then show ?thesis
        by (auto simp: IPv6_prefix_be)
    qed auto
    then show ?thesis
      by blast
  qed
  finally show ?thesis
    using assms by (simp add: pool_space_def *)
qed

section \<open>Histories of the pools\<close>

lemma pool_run_Pool4:
  assumes "pool_run GetAddr PutAddr (Pool4 p) es q"
  shows "\<exists>q4. q = Pool4 q4 \<and> pool_run IPv4Pool_Get IPv4Pool_Put p es q4"
  using assms
proof (induction rule: pool_run.induct)
  case start
  show ?case
    by (simp add: pool_run.start)
qed (auto simp: GetAddr_def PutAddr_def apsnd_def map_prod_def split: prod.splits,
    (erule (1) pool_run.took | erule (1) pool_run.refused | erule (2) pool_run.gave)+)

lemma pool_run_Pool6:
  assumes "pool_run GetAddr PutAddr (Pool6 p) es q"
  shows "\<exists>q6. q = Pool6 q6 \<and> pool_run IPv6Pool_Get IPv6Pool_Put p es q6"
  using assms
proof (induction rule: pool_run.induct)
  case start
  show ?case
    by (simp add: pool_run.start)
qed (auto simp: GetAddr_def PutAddr_def apsnd_def map_prod_def split: prod.splits,
    (erule (1) pool_run.took | erule (1) pool_run.refused | erule (2) pool_run.gave)+)

lemma NewPool4:
  assumes "length addr = 4" "1 \<le> nbits" "nbits \<le> 32"
  shows "ipv4.pool_inv (NewIPv4Pool addr nbits)" "ipv4.allocated (NewIPv4Pool addr nbits) = {}"
  using assms unfolding NewIPv4Pool_def IPv4Pool_Reset_def
  by (auto intro!: ipv4.pool_inv_Reset simp: IPv4_ok_def)

lemma NewPool6:
  assumes "length addr = 16" "66 \<le> nbits" "nbits \<le> 128"
  shows "ipv6.pool_inv (NewIPv6Pool addr nbits)" "ipv6.allocated (NewIPv6Pool addr nbits) = {}"
  using assms unfolding NewIPv6Pool_def IPv6Pool_Reset_def
  by (auto intro!: ipv6.pool_inv_Reset simp: IPv6_ok_def)

text \<open>What a pool does after any history.\<close>

definition pool_works :: "bytes set \<Rightarrow> bytes set \<Rightarrow> ip_pool \<Rightarrow> bool" where
  "pool_works all out q \<longleftrightarrow> out \<subseteq> all
     \<and> (out \<noteq> all \<longrightarrow> (\<exists>a q'. GetAddr q = (Return (a, True), q') \<and> a \<in> all - out))
     \<and> (out = all \<longrightarrow> (\<exists>a. GetAddr q = (Return (a, False), q)))
     \<and> (\<forall>a\<in>out. \<exists>q'. PutAddr q a = (Return (), q'))"

lemma pool_works_after_run:
  assumes ok: "pool_ok addr nbits" and run: "pool_run GetAddr PutAddr (NewPool addr nbits) es q"
  shows "pool_works (pool_space addr nbits) (held es) q"
proof (cases "length addr = 4")
  case True
  then have n: "1 \<le> nbits" "nbits \<le> 32"
    using ok by (auto simp: pool_ok_def)
  obtain p where q: "q = Pool4 p" and "pool_run IPv4Pool_Get IPv4Pool_Put (NewIPv4Pool addr nbits) es p"
    using pool_run_Pool4 run True by (force simp: NewPool_def)
  then have "pool_run (pool_Get IPv4_add IPv4_prefix) (pool_Put IPv4_sub) (NewIPv4Pool addr nbits) es p"
    by (simp only: IPv4Pool_Get_def IPv4Pool_Put_def)
  note facts = ipv4.pool_after_run [OF this NewPool4 [OF True n], unfolded IPv4_space [OF True n]]
  show ?thesis
    unfolding pool_works_def q GetAddr_def PutAddr_def IPv4Pool_Get_def IPv4Pool_Put_def
    using facts by simp (metis apsnd_conv)
next
  case False
  then have n: "length addr = 16" "66 \<le> nbits" "nbits \<le> 128"
    using ok by (auto simp: pool_ok_def)
  obtain p where q: "q = Pool6 p" and "pool_run IPv6Pool_Get IPv6Pool_Put (NewIPv6Pool addr nbits) es p"
    using pool_run_Pool6 run False by (force simp: NewPool_def)
  then have "pool_run (pool_Get IPv6_add IPv6_prefix) (pool_Put IPv6_sub) (NewIPv6Pool addr nbits) es p"
    by (simp only: IPv6Pool_Get_def IPv6Pool_Put_def)
  note facts = ipv6.pool_after_run [OF this NewPool6 [OF n], unfolded IPv6_space [OF n]]
  show ?thesis
    unfolding pool_works_def q GetAddr_def PutAddr_def IPv6Pool_Get_def IPv6Pool_Put_def
    using facts by simp (metis apsnd_conv)
qed

section \<open>Addresses that the pool did not hand out\<close>

lemma IPv4_add_sub: "length a = 4 \<Longrightarrow> length base = 4 \<Longrightarrow> IPv4_add base (IPv4_sub a base) = a"
  by (simp add: IPv4_add_def IPv4_sub_def be32_of_be32)

text \<open>\<^verbatim>\<open>IPv4Pool.Put\<close> returns for the addresses that are handed out, and panics for every other one.\<close>

lemma IPv4_Put_iff:
  assumes p: "ipv4.pool_inv p" and a: "length a = 4"
  shows "(\<exists>p'. IPv4Pool_Put p a = (Return (), p')) \<longleftrightarrow> a \<in> ipv4.allocated p"
proof
  assume "a \<in> ipv4.allocated p"
  then show "\<exists>p'. IPv4Pool_Put p a = (Return (), p')"
    using ipv4.pool_Put_allocated [OF p] unfolding IPv4Pool_Put_def by blast
next
  assume put: "\<exists>p'. IPv4Pool_Put p a = (Return (), p')"
  let ?i = "nat (IPv4_sub a (pool_base p))"
  have i: "IPv4_sub a (pool_base p) = int ?i" and "IPv4_sub a (pool_base p) < 2 ^ 32"
    using uint_bounded [of "of_be32 a - of_be32 (pool_base p)"] by (simp_all add: IPv4_sub_def)
  then have small: "int ?i < 2 ^ 64"
    unfolding i [symmetric] by simp
  have "bitset_has (pool_bits p) (int ?i) = Return True"
    using put unfolding i [symmetric]
    by (auto simp: IPv4Pool_Put_def pool_Put_def Let_def split: outcome.splits bool.splits)
  then have "?i \<in> elements (pool_bits p)"
    using bitset_has_elements [OF small, of "pool_bits p"] bitset_has_beyond [OF small, of "pool_bits p"]
    by (cases "?i div 64 < length (pool_bits p)") simp_all
  moreover have "a = ipv4.address p ?i"
    unfolding ipv4.address_def i [symmetric] using p a
    by (simp add: IPv4_add_sub ipv4.pool_inv_def IPv4_ok_def)
  ultimately show "a \<in> ipv4.allocated p"
    by (simp add: ipv4.allocated_def)
qed

lemma PutAddr_IPv4_iff:
  assumes "length addr = 4" "1 \<le> nbits" "nbits \<le> 32" "length a = 4"
    and run: "pool_run GetAddr PutAddr (NewPool addr nbits) es q"
  shows "(\<exists>q'. PutAddr q a = (Return (), q')) \<longleftrightarrow> a \<in> held es"
proof -
  obtain p where q: "q = Pool4 p" and "pool_run IPv4Pool_Get IPv4Pool_Put (NewIPv4Pool addr nbits) es p"
    using pool_run_Pool4 run assms(1) by (force simp: NewPool_def)
  then have "pool_run (pool_Get IPv4_add IPv4_prefix) (pool_Put IPv4_sub) (NewIPv4Pool addr nbits) es p"
    by (simp only: IPv4Pool_Get_def IPv4Pool_Put_def)
  note inv = ipv4.pool_run_inv [OF this NewPool4 [OF assms(1-3)]]
  have "(\<exists>q'. PutAddr q a = (Return (), q')) \<longleftrightarrow> (\<exists>p'. IPv4Pool_Put p a = (Return (), p'))"
    by (cases "IPv4Pool_Put p a") (auto simp: q PutAddr_def)
  then show ?thesis
    using IPv4_Put_iff [of p a] inv assms(4) by simp
qed

text \<open>\<^verbatim>\<open>IPv6Pool.Put\<close> does not compare the high halves.\<close>

lemma IPv6_sub_high: "h \<le> h' \<Longrightarrow> IPv6_sub (be64 h' @ be64 a) (be64 h @ be64 b) = sint (a - b)"
  by (simp add: IPv6_sub_def Sub64_def word_le_def linorder_not_less)

lemma IPv6_Put_high:
  assumes "pool_base p = be64 h @ be64 b" "h \<le> h'"
  shows "IPv6Pool_Put p (be64 h' @ be64 a) = IPv6Pool_Put p (be64 h @ be64 a)"
  using assms by (simp add: IPv6Pool_Put_def pool_Put_def IPv6_sub_high)

lemma IPv6_add_0:
  assumes "length a = 16"
  shows "IPv6_add a 0 = a"
proof -
  obtain h b where a: "a = be64 h @ be64 b"
    using be64_halves [OF assms] by blast
  have "\<not> 2 ^ 64 \<le> uint b"
    using uint_bounded [of b] by simp
  then show ?thesis
    by (simp add: a IPv6_add_def Add64_def)
qed

lemma findFirstZeroBit_empty:
  assumes "b \<in> {[], [0]}"
  shows "findFirstZeroBit b = 0"
proof -
  have "elements b = {}"
    using assms elements_clear [of "[0]"] by (auto simp: bitset_clear_def)
  then show ?thesis
    using findFirstZeroBit_least [of b] by (metis emptyE gr0I)
qed

lemma IPv6_Get_base:
  assumes "length (pool_base p) = 16" "pool_addr p = IPv6_prefix (pool_base p) (pool_mask p)" "pool_bits p \<in> {[], [0]}"
  shows "IPv6Pool_Get p = (Return (pool_base p, True), p\<lparr>pool_bits := [1]\<rparr>)"
proof -
  have "bitset_set (bitset_grow (pool_bits p) 1) 0 = Return [1]"
    using assms(3) by (auto simp: bitset_grow_def go_copy_def bitset_set_def bit_index_def)
  then show ?thesis
    using assms(1,2) findFirstZeroBit_empty [OF assms(3)]
    by (simp add: IPv6Pool_Get_def pool_Get_def IPv6_add_0 Let_def)
qed

lemma IPv6_Put_base:
  assumes "pool_bits p = [1]"
  shows "IPv6Pool_Put p (pool_base p) = (Return (), p\<lparr>pool_bits := [0]\<rparr>)"
proof -
  have "IPv6_sub (pool_base p) (pool_base p) = 0"
    by (simp add: IPv6_sub_def Sub64_def)
  then show ?thesis
    using assms
    by (simp add: IPv6Pool_Put_def pool_Put_def bitset_has_def bitset_unset_def bit_index_def)
qed

text \<open>So the address of another network takes back the first address, and the pool hands it out twice.\<close>

lemma IPv6_double_allocation:
  assumes "h \<le> h'"
  shows "\<exists>q q' q''. GetAddr (NewPool (be64 h @ be64 b) nbits) = (Return (be64 h @ be64 b, True), q)
    \<and> PutAddr q (be64 h' @ be64 b) = (Return (), q')
    \<and> GetAddr q' = (Return (be64 h @ be64 b, True), q'')"
proof -
  let ?a = "be64 h @ be64 b"
  let ?p = "NewIPv6Pool ?a nbits"
  have p: "pool_base ?p = ?a" "pool_addr ?p = IPv6_prefix ?a (pool_mask ?p)" "pool_bits ?p = []"
    by (simp_all add: NewIPv6Pool_def IPv6Pool_Reset_def pool_Reset_def pool_zero_def bitset_clear_def)
  have "IPv6Pool_Get ?p = (Return (?a, True), ?p\<lparr>pool_bits := [1]\<rparr>)"
    using IPv6_Get_base [of ?p] p by simp
  moreover have "IPv6Pool_Put (?p\<lparr>pool_bits := [1]\<rparr>) (be64 h' @ be64 b) = (Return (), ?p\<lparr>pool_bits := [0]\<rparr>)"
    using IPv6_Put_high [of "?p\<lparr>pool_bits := [1]\<rparr>" h b h' b] IPv6_Put_base [of "?p\<lparr>pool_bits := [1]\<rparr>"] assms p
    by simp
  moreover have "IPv6Pool_Get (?p\<lparr>pool_bits := [0]\<rparr>) = (Return (?a, True), ?p\<lparr>pool_bits := [1]\<rparr>)"
    using IPv6_Get_base [of "?p\<lparr>pool_bits := [0]\<rparr>"] p by simp
  ultimately show ?thesis
    by (simp add: NewPool_def GetAddr_def PutAddr_def)
qed

end
