(* ===== verification/Fspath.thy ===== *)
theory Fspath
  imports Prelude
begin

text \<open>
  Paths of the sandbox (\<^verbatim>\<open>internal/sandbox/fspath/fspath.go\<close>). A path is a string; its \<open>components\<close> are the
  nonempty strings between its slashes. The lemmas give each function by the components of its argument.
\<close>

abbreviation slash :: char where "slash \<equiv> CHR ''/''"

section \<open>The functions\<close>

fun IndexSlash_from :: "nat \<Rightarrow> string \<Rightarrow> int" where
  "IndexSlash_from i [] = - 1"
| "IndexSlash_from i (c # s) = (if c = slash then int i else IndexSlash_from (Suc i) s)"

definition IndexSlash :: "string \<Rightarrow> int" where
  "IndexSlash s = IndexSlash_from 0 s"

fun TrimLeadingSlash :: "string \<Rightarrow> string" where
  "TrimLeadingSlash [] = []"
| "TrimLeadingSlash (c # s) = (if c = slash then TrimLeadingSlash s else c # s)"

definition HasTrailingSlash :: "string \<Rightarrow> bool" where
  "HasTrailingSlash s \<longleftrightarrow> 0 < length s \<and> s ! (length s - 1) = slash"

fun trim_trailing :: "string \<Rightarrow> nat \<Rightarrow> string" where
  "trim_trailing s 0 = []"
| "trim_trailing s (Suc i) = (if s ! i = slash then trim_trailing s i else take (Suc i) s)"

definition TrimTrailingSlash :: "string \<Rightarrow> string" where
  "TrimTrailingSlash s = trim_trailing s (length s)"

definition IsAbs :: "string \<Rightarrow> bool" where
  "IsAbs s \<longleftrightarrow> 0 < length s \<and> s ! 0 = slash"

definition Walk :: "string \<Rightarrow> string \<times> string" where
  "Walk s =
     (let i = IndexSlash s
      in if i < 0 then (s, [])
         else let i = if i = 0 then 1 else nat i in (take i s, TrimLeadingSlash (drop i s)))"

lemma TrimLeadingSlash_dropWhile: "TrimLeadingSlash s = dropWhile (\<lambda>c. c = slash) s"
  by (induction s) auto

lemma length_TrimLeadingSlash: "length (TrimLeadingSlash s) \<le> length s"
  by (simp add: TrimLeadingSlash_dropWhile length_dropWhile_le)

lemma HasTrailingSlash_last: "HasTrailingSlash s \<longleftrightarrow> s \<noteq> [] \<and> last s = slash"
  by (auto simp: HasTrailingSlash_def last_conv_nth)

lemma IndexSlash_from_takeWhile:
  "IndexSlash_from i s = (if slash \<in> set s then int (i + length (takeWhile (\<lambda>c. c \<noteq> slash) s)) else - 1)"
  by (induction s arbitrary: i) auto

lemma IndexSlash_takeWhile:
  "IndexSlash s = (if slash \<in> set s then int (length (takeWhile (\<lambda>c. c \<noteq> slash) s)) else - 1)"
  by (simp add: IndexSlash_def IndexSlash_from_takeWhile)

text \<open>The element before the first slash, and the rest, as \<^verbatim>\<open>Depth\<close> splits them.\<close>

definition elem_end :: "string \<Rightarrow> nat" where
  "elem_end s = (let i = IndexSlash s in if i < 0 then length s else nat i)"

lemma elem_end [simp]:
  "take (elem_end s) s = takeWhile (\<lambda>c. c \<noteq> slash) s" "drop (elem_end s) s = dropWhile (\<lambda>c. c \<noteq> slash) s"
proof -
  have no: "takeWhile (\<lambda>c. c \<noteq> slash) s = s" "dropWhile (\<lambda>c. c \<noteq> slash) s = []" if "slash \<notin> set s"
    using that by (auto simp: takeWhile_eq_all_conv)
  have "take (elem_end s) s = takeWhile (\<lambda>c. c \<noteq> slash) s \<and> drop (elem_end s) s = dropWhile (\<lambda>c. c \<noteq> slash) s"
  proof (cases "slash \<in> set s")
    case True
    then have "elem_end s = length (takeWhile (\<lambda>c. c \<noteq> slash) s)"
      by (simp add: elem_end_def IndexSlash_takeWhile Let_def)
    then show ?thesis
      by (metis takeWhile_eq_take dropWhile_eq_drop)
  next
    case False
    then have "elem_end s = length s"
      by (simp add: elem_end_def IndexSlash_takeWhile)
    then show ?thesis
      by (simp only: take_all drop_all order_refl no [OF False])
  qed
  then show "take (elem_end s) s = takeWhile (\<lambda>c. c \<noteq> slash) s" "drop (elem_end s) s = dropWhile (\<lambda>c. c \<noteq> slash) s"
    by simp_all
qed

lemma trimmed_head:
  assumes "TrimLeadingSlash s = c # t"
  shows "c \<noteq> slash"
  using assms hd_dropWhile [of "\<lambda>c. c = slash" s] by (simp add: TrimLeadingSlash_dropWhile)

lemma trimmed_shorter:
  assumes "TrimLeadingSlash s \<noteq> []"
  shows "length (dropWhile (\<lambda>c. c \<noteq> slash) (TrimLeadingSlash s)) < length s"
proof -
  obtain c t where *: "TrimLeadingSlash s = c # t"
    using assms by (cases "TrimLeadingSlash s") auto
  then have "length (dropWhile (\<lambda>c. c \<noteq> slash) (c # t)) \<le> length t"
    using trimmed_head [OF *] by (simp add: length_dropWhile_le)
  moreover have "length (c # t) \<le> length s"
    using * length_dropWhile_le [of "\<lambda>c. c = slash" s] by (simp add: TrimLeadingSlash_dropWhile)
  ultimately show ?thesis
    by (simp add: *)
qed

function Depth_loop :: "string \<Rightarrow> nat \<Rightarrow> nat" where
  "Depth_loop s depth =
     (let s = TrimLeadingSlash s
      in if s = [] then depth
         else let i = elem_end s; elem = take i s;
                  depth = if elem = ''.'' then depth
                          else if elem = ''..'' then (if 0 < depth then depth - 1 else depth)
                          else depth + 1
              in Depth_loop (drop i s) depth)"
  by auto
termination
  by (relation "measure (length \<circ> fst)") (simp_all add: trimmed_shorter)

definition Depth :: "string \<Rightarrow> nat" where
  "Depth s = Depth_loop s 0"

function IsRoot_loop :: "string \<Rightarrow> bool" where
  "IsRoot_loop s =
     (let s = TrimLeadingSlash s
      in if s = [] then True
         else if take 2 s = ''./'' then IsRoot_loop (drop 2 s)
         else if take 3 s = ''../'' then IsRoot_loop (drop 3 s)
         else if s = ''.'' then IsRoot_loop (drop 1 s)
         else if s = ''..'' then IsRoot_loop (drop 2 s)
         else False)"
  by auto
termination
proof (relation "measure length")
  fix s t :: string
  assume "t = TrimLeadingSlash s" "t \<noteq> []"
  then have "0 < length t" "length t \<le> length s"
    by (simp_all add: TrimLeadingSlash_dropWhile length_dropWhile_le)
  then have "length t - n < length s" if "0 < n" for n
    using that by linarith
  then show "(drop 2 t, s) \<in> measure length" "(drop 3 t, s) \<in> measure length" "(drop 1 t, s) \<in> measure length"
    "(drop 2 t, s) \<in> measure length"
    by simp_all
qed simp

definition IsRoot :: "string \<Rightarrow> bool" where
  "IsRoot s \<longleftrightarrow> \<not> (length s = 0 \<or> s ! 0 \<noteq> slash) \<and> IsRoot_loop s"

text \<open>
  \<^verbatim>\<open>AppendClean\<close> collects the regions of the elements that are not \<^verbatim>\<open>"."\<close>; the empty region stands for the
  root.
\<close>

definition region :: "string \<Rightarrow> nat \<times> nat \<Rightarrow> string" where
  "region s r = take (snd r - fst r) (drop (fst r) s)"

function clean_regions :: "string \<Rightarrow> nat \<Rightarrow> (nat \<times> nat) list" where
  "clean_regions s i =
     (let i = i + length (takeWhile (\<lambda>c. c = slash) (drop i s))
      in if length s \<le> i then []
         else let j = i + length (takeWhile (\<lambda>c. c \<noteq> slash) (drop i s))
              in (if region s (i, j) \<noteq> ''.'' then [(i, j)] else []) @ clean_regions s j)"
  by auto
termination
proof (relation "measure (\<lambda>(s, i). length s - i)")
  fix s and i i' j :: nat
  assume i': "i' = i + length (takeWhile (\<lambda>c. c = slash) (drop i s))" "\<not> length s \<le> i'"
    and j: "j = i' + length (takeWhile (\<lambda>c. c \<noteq> slash) (drop i' s))"
  have "drop i' s \<noteq> []" "drop i' s = dropWhile (\<lambda>c. c = slash) (drop i s)"
    using i' by (simp_all add: dropWhile_eq_drop add.commute)
  then have "takeWhile (\<lambda>c. c \<noteq> slash) (drop i' s) \<noteq> []"
    by (metis (mono_tags, lifting) hd_dropWhile takeWhile_eq_Nil_iff)
  then have "i < j"
    using i' j by simp
  then show "((s, j), s, i) \<in> measure (\<lambda>(s, i). length s - i)"
    using i' by simp
qed simp

fun append_regions :: "string \<Rightarrow> nat \<Rightarrow> (nat \<times> nat) list \<Rightarrow> string \<Rightarrow> string" where
  "append_regions s i [] buf = buf"
| "append_regions s i (e # es) buf =
     append_regions s (Suc i) es ((if i \<noteq> 0 then buf @ [slash] else buf) @ region s e)"

definition AppendClean :: "string \<Rightarrow> string \<Rightarrow> string" where
  "AppendClean buf s =
     (if length s = 0 then buf
      else let elems = (if IsAbs s then [(0, 0)] else []) @ clean_regions s 0
           in if length elems = 0 then buf @ ''.''
              else if length elems = 1 \<and> elems ! 0 = (0, 0) then buf @ ''/''
              else let buf = append_regions s 0 elems buf in if HasTrailingSlash s then buf @ ''/'' else buf)"

definition Clean :: "string \<Rightarrow> string" where
  "Clean s = AppendClean [] s"

definition Join :: "string \<Rightarrow> string \<Rightarrow> string" where
  "Join dir name =
     (let buf = AppendClean [] dir; name = TrimLeadingSlash name
      in if name \<noteq> [] then AppendClean (if \<not> HasTrailingSlash buf then buf @ ''/'' else buf) name else buf)"

section \<open>Components\<close>

function components :: "string \<Rightarrow> string list" where
  "components s =
     (let s = TrimLeadingSlash s
      in if s = [] then [] else takeWhile (\<lambda>c. c \<noteq> slash) s # components (dropWhile (\<lambda>c. c \<noteq> slash) s))"
  by auto
termination
  by (relation "measure length") (simp_all add: trimmed_shorter)

declare components.simps [simp del] Depth_loop.simps [simp del] IsRoot_loop.simps [simp del] clean_regions.simps [simp del]

definition component :: "string \<Rightarrow> bool" where
  "component e \<longleftrightarrow> e \<noteq> [] \<and> slash \<notin> set e"

text \<open>The name of an entry of a directory.\<close>

definition entry_name :: "string \<Rightarrow> bool" where
  "entry_name e \<longleftrightarrow> component e \<and> e \<noteq> ''.'' \<and> e \<noteq> ''..''"

lemma components_Nil [simp]: "components [] = []"
  by (simp add: components.simps)

lemma components_slash [simp]: "components (slash # s) = components s"
  using components.simps [of "slash # s"] components.simps [of s] by simp

lemma components_trim [simp]: "components (TrimLeadingSlash s) = components s"
  by (induction s) auto

lemma components_append: "components (xs @ slash # ys) = components xs @ components ys"
proof (induction xs rule: components.induct)
  case (1 xs)
  show ?case
  proof (cases "TrimLeadingSlash xs = []")
    case True
    then have "components (xs @ slash # ys) = components ys"
      by (induction xs) (auto split: if_splits)
    then show ?thesis
      using True by (simp add: components.simps [of xs])
  next
    case False
    let ?t = "TrimLeadingSlash xs"
    have "TrimLeadingSlash (xs @ slash # ys) = ?t @ slash # ys"
      using False by (induction xs) auto
    moreover have "takeWhile (\<lambda>c. c \<noteq> slash) (?t @ slash # ys) = takeWhile (\<lambda>c. c \<noteq> slash) ?t"
      "dropWhile (\<lambda>c. c \<noteq> slash) (?t @ slash # ys) = dropWhile (\<lambda>c. c \<noteq> slash) ?t @ slash # ys"
      by (induction ?t) (auto simp: takeWhile_tail dropWhile_append)
    ultimately show ?thesis
      using 1 [OF refl False] False by (simp add: components.simps [of xs] components.simps [of "xs @ slash # ys"] Let_def)
  qed
qed

lemma components_single [simp]: "component e \<Longrightarrow> components e = [e]"
proof -
  assume e: "component e"
  then have "TrimLeadingSlash e = e"
    by (cases e) (auto simp: component_def)
  moreover have "takeWhile (\<lambda>c. c \<noteq> slash) e = e" "dropWhile (\<lambda>c. c \<noteq> slash) e = []"
    using e by (auto simp: component_def takeWhile_eq_all_conv)
  ultimately show ?thesis
    using e components.simps [of e] by (simp only: component_def Let_def if_False components_Nil)
qed

lemma components_component: "e \<in> set (components s) \<Longrightarrow> component e"
proof (induction s rule: components.induct)
  case (1 s)
  show ?case
  proof (cases "TrimLeadingSlash s")
    case Nil
    then show ?thesis
      using 1(2) by (simp add: components.simps [of s])
  next
    case (Cons c t)
    then have "component (takeWhile (\<lambda>c. c \<noteq> slash) (c # t))"
      using trimmed_head [OF Cons] by (auto simp: component_def dest: set_takeWhileD)
    then show ?thesis
      using 1(2) 1(1) [OF refl] Cons by (auto simp: components.simps [of s] Let_def)
  qed
qed

lemma components_first:
  "TrimLeadingSlash s \<noteq> [] \<Longrightarrow> components s =
    takeWhile (\<lambda>c. c \<noteq> slash) (TrimLeadingSlash s) # components (dropWhile (\<lambda>c. c \<noteq> slash) (TrimLeadingSlash s))"
  by (subst components.simps) (simp add: Let_def)

fun depth_step :: "string \<Rightarrow> nat \<Rightarrow> nat" where
  "depth_step e d = (if e = ''.'' then d else if e = ''..'' then d - 1 else d + 1)"

lemma Depth_loop_components: "Depth_loop s d = fold depth_step (components s) d"
proof (induction s d rule: Depth_loop.induct)
  case (1 s d)
  show ?case
    using 1 components_first [of s] by (cases "TrimLeadingSlash s = []")
      (auto simp: Depth_loop.simps [of s d] components.simps [of s] Let_def)
qed

lemma Depth_components: "Depth s = fold depth_step (components s) 0"
  by (simp add: Depth_def Depth_loop_components)

lemma first_element:
  "s = takeWhile (\<lambda>c. c \<noteq> slash) s \<or> (\<exists>r. s = takeWhile (\<lambda>c. c \<noteq> slash) s @ slash # r)"
  by (induction s) auto

lemma IsRoot_loop_components: "IsRoot_loop s \<longleftrightarrow> set (components s) \<subseteq> {''.'', ''..''}"
proof (induction s rule: IsRoot_loop.induct)
  case (1 s)
  let ?t = "TrimLeadingSlash s"
  have trim: "components s = components ?t"
    by simp
  show ?case
  proof (cases "?t = []")
    case True
    then show ?thesis
      by (simp add: IsRoot_loop.simps [of s] components.simps [of s])
  next
    case False
    consider (dot) r where "?t = ''.'' @ slash # r" | (dotdot) r where "?t = ''..'' @ slash # r"
      | (whole) "?t = ''.'' \<or> ?t = ''..''" | (other) "take 2 ?t \<noteq> ''./''" "take 3 ?t \<noteq> ''../''" "?t \<noteq> ''.''" "?t \<noteq> ''..''"
      by (metis append_Cons append_Nil append_take_drop_id)
    then show ?thesis
    proof cases
      case dot
      then show ?thesis
        using 1(1) [OF refl False] components_append [of "''.''" r] unfolding trim
        by (simp add: IsRoot_loop.simps [of s] component_def)
    next
      case dotdot
      then show ?thesis
        using 1(2) [OF refl False] components_append [of "''..''" r] unfolding trim
        by (simp add: IsRoot_loop.simps [of s] component_def)
    next
      case whole
      then show ?thesis
        using components_single [of "''.''"] components_single [of "''..''"] unfolding trim
        by (auto simp: IsRoot_loop.simps [of s] IsRoot_loop.simps [of "[]"] component_def simp del: components_trim)
    next
      case other
      have "hd (components s) \<notin> {''.'', ''..''}"
        using other first_element [of ?t] components_first [OF False] by (auto simp: numeral_eq_Suc)
      then show ?thesis
        using other False components_first [OF False] by (simp add: IsRoot_loop.simps [of s])
    qed
  qed
qed

lemma IsRoot_components: "IsRoot s \<longleftrightarrow> IsAbs s \<and> set (components s) \<subseteq> {''.'', ''..''}"
  by (auto simp: IsRoot_def IsAbs_def IsRoot_loop_components)

lemma drop_takeWhile: "drop (i + length (takeWhile P (drop i s))) s = dropWhile P (drop i s)"
  using dropWhile_eq_drop [of P "drop i s"] by (simp add: add.commute)

lemma clean_regions_components:
  "map (region s) (clean_regions s i) = filter (\<lambda>e. e \<noteq> ''.'') (components (drop i s))"
proof (induction s i rule: clean_regions.induct)
  case (1 s i)
  let ?i = "i + length (takeWhile (\<lambda>c. c = slash) (drop i s))"
  let ?j = "?i + length (takeWhile (\<lambda>c. c \<noteq> slash) (drop ?i s))"
  have i: "drop ?i s = TrimLeadingSlash (drop i s)"
    unfolding TrimLeadingSlash_dropWhile by (rule drop_takeWhile)
  have j: "drop ?j s = dropWhile (\<lambda>c. c \<noteq> slash) (drop ?i s)"
    by (rule drop_takeWhile)
  show ?case
  proof (cases "length s \<le> ?i")
    case True
    then have "TrimLeadingSlash (drop i s) = []"
      using i by simp
    then show ?thesis
      using True by (simp add: clean_regions.simps [of s i] components.simps [of "drop i s"])
  next
    case False
    then have "TrimLeadingSlash (drop i s) \<noteq> []"
      using i by (metis drop_eq_Nil)
    moreover have "region s (?i, ?j) = takeWhile (\<lambda>c. c \<noteq> slash) (drop ?i s)"
      using takeWhile_eq_take [of "\<lambda>c. c \<noteq> slash" "drop ?i s"] by (simp add: region_def)
    ultimately show ?thesis
      using 1 [OF refl False refl] False components_first [of "drop i s"] unfolding j
      by (simp add: clean_regions.simps [of s i] i Let_def)
  qed
qed

section \<open>Clean paths\<close>

fun path_join :: "string list \<Rightarrow> string" where
  "path_join [] = []"
| "path_join (e # es) = e @ (if es = [] then [] else slash # path_join es)"

definition clean_path :: "bool \<Rightarrow> string list \<Rightarrow> bool \<Rightarrow> string" where
  "clean_path root es trail =
     (if es = [] then (if root then ''/'' else ''.'')
      else (if root then ''/'' else []) @ path_join es @ (if trail then ''/'' else []))"

abbreviation visible :: "string \<Rightarrow> string list" where
  "visible s \<equiv> filter (\<lambda>e. e \<noteq> ''.'') (components s)"

lemma append_regions_Suc:
  "append_regions s (Suc i) rs buf = buf @ (if rs = [] then [] else slash # path_join (map (region s) rs))"
  by (induction rs arbitrary: i buf) auto

lemma clean_regions_0: "map (region s) (clean_regions s 0) = visible s"
  by (simp add: clean_regions_components)

lemma visible_component: "e \<in> set (visible s) \<Longrightarrow> component e"
  by (auto intro: components_component)

lemma AppendClean_components:
  assumes "s \<noteq> []"
  shows "AppendClean buf s = buf @ clean_path (IsAbs s) (visible s) (HasTrailingSlash s)"
proof (cases "clean_regions s 0")
  case Nil
  then show ?thesis
    using assms clean_regions_0 [of s] by (simp add: AppendClean_def clean_path_def Let_def)
next
  case (Cons r rs)
  then have "region s r \<in> set (visible s)"
    using clean_regions_0 [of s] by (metis list.set_intros(1) list.simps(9))
  then have "component (region s r)"
    by (rule visible_component)
  then have "r \<noteq> (0, 0)"
    by (auto simp: component_def region_def)
  moreover have "visible s = region s r # map (region s) rs"
    using clean_regions_0 [of s] Cons by simp
  moreover have "region s (0, 0) = []"
    by (simp add: region_def)
  ultimately show ?thesis
    using assms Cons by (simp add: AppendClean_def clean_path_def append_regions_Suc Let_def)
qed

lemma components_path_join [simp]: "\<forall>e\<in>set es. component e \<Longrightarrow> components (path_join es) = es"
  by (induction es) (auto simp: components_append)

lemma components_clean_path:
  assumes "\<forall>e\<in>set es. component e"
  shows "components (clean_path root es trail) = (if es = [] \<and> \<not> root then [''.''] else es)"
proof -
  have "components (xs @ [slash]) = components xs" for xs
    using components_append [of xs "[]"] by simp
  moreover have "components ''.'' = [''.'']"
    by (rule components_single) (simp add: component_def)
  ultimately show ?thesis
    using assms by (simp add: clean_path_def)
qed

lemma path_join_ends:
  assumes "\<forall>e\<in>set es. component e" "es \<noteq> []"
  shows "path_join es \<noteq> []" "hd (path_join es) \<noteq> slash" "last (path_join es) \<noteq> slash"
  using assms
proof (induction es)
  case (Cons e es)
  {
    case 1 then show ?case
      using Cons by (simp add: component_def)
  next
    case 2 then show ?case
      by (cases e) (auto simp: component_def)
  next
    case 3 then show ?case
      using Cons by (auto simp: component_def dest: last_in_set)
  }
qed simp_all

lemma clean_path_ends:
  assumes "\<forall>e\<in>set es. component e"
  shows "clean_path root es trail \<noteq> []" "IsAbs (clean_path root es trail) = root"
    "es \<noteq> [] \<Longrightarrow> HasTrailingSlash (clean_path root es trail) = trail"
proof -
  have "clean_path root es trail \<noteq> [] \<and> IsAbs (clean_path root es trail) = root
    \<and> (es \<noteq> [] \<longrightarrow> HasTrailingSlash (clean_path root es trail) = trail)"
  proof (cases "es = []")
    case False
    note ends = path_join_ends [OF assms False]
    then show ?thesis
      using False by (cases root; cases trail; cases "path_join es") (auto simp: clean_path_def IsAbs_def HasTrailingSlash_last)
  qed (simp add: clean_path_def IsAbs_def)
  then show "clean_path root es trail \<noteq> []" "IsAbs (clean_path root es trail) = root"
    "es \<noteq> [] \<Longrightarrow> HasTrailingSlash (clean_path root es trail) = trail"
    by simp_all
qed

lemma Clean_components: "s \<noteq> [] \<Longrightarrow> Clean s = clean_path (IsAbs s) (visible s) (HasTrailingSlash s)"
  by (simp add: Clean_def AppendClean_components)

lemma Clean_Nil [simp]: "Clean [] = []"
  by (simp add: Clean_def AppendClean_def)

lemma visible_components: "\<forall>e\<in>set (visible s). component e"
  by (auto intro: components_component)

lemma visible_Clean [simp]: "visible (Clean s) = visible s"
proof (cases "s = []")
  case False
  have "filter (\<lambda>e. e \<noteq> ''.'') (visible s) = visible s"
    by simp
  then show ?thesis
    unfolding Clean_components [OF False] components_clean_path [OF visible_components]
    by (auto simp del: filter_filter)
qed simp

lemma IsAbs_Clean [simp]: "IsAbs (Clean s) = IsAbs s"
proof (cases "s = []")
  case False
  show ?thesis
    unfolding Clean_components [OF False] by (rule clean_path_ends(2) [OF visible_components])
qed simp

lemma Clean_idem: "Clean (Clean s) = Clean s"
proof (cases "s = []")
  case False
  have "Clean s \<noteq> []"
    unfolding Clean_components [OF False] by (rule clean_path_ends(1) [OF visible_components])
  from Clean_components [OF this] have "Clean (Clean s) = clean_path (IsAbs s) (visible s) (HasTrailingSlash (Clean s))"
    by (simp only: visible_Clean IsAbs_Clean)
  also have "\<dots> = Clean s"
  proof (cases "visible s = []")
    case True
    then show ?thesis
      unfolding Clean_components [OF False] by (simp only: clean_path_def simp_thms if_True)
  next
    case vis: False
    then show ?thesis
      unfolding Clean_components [OF False] by (simp only: clean_path_ends(3) [OF visible_components vis])
  qed
  finally show ?thesis .
qed simp

lemma Depth_visible: "Depth s = fold depth_step (visible s) 0"
proof -
  have "fold depth_step es d = fold depth_step (filter (\<lambda>e. e \<noteq> ''.'') es) d" for es d
    by (induction es arbitrary: d) auto
  then show ?thesis
    unfolding Depth_components by blast
qed

lemma Depth_Clean: "Depth (Clean s) = Depth s"
  by (simp add: Depth_visible)

lemma IsRoot_visible: "IsRoot s \<longleftrightarrow> IsAbs s \<and> set (visible s) \<subseteq> {''..''}"
  by (auto simp: IsRoot_components)

lemma IsRoot_Clean: "IsRoot (Clean s) = IsRoot s"
  by (simp add: IsRoot_visible)

lemma Clean_form:
  "Clean s =
     (if s = [] then []
      else if visible s = [] then if IsAbs s then ''/'' else ''.''
      else (if IsAbs s then ''/'' else []) @ path_join (visible s) @ (if HasTrailingSlash s then ''/'' else []))"
  by (simp add: Clean_components clean_path_def)

lemma components_Clean:
  "components (Clean s) = (if s \<noteq> [] \<and> \<not> IsAbs s \<and> set (components s) \<subseteq> {''.''} then [''.''] else visible s)"
proof (cases "s = []")
  case False
  have "visible s = [] \<longleftrightarrow> set (components s) \<subseteq> {''.''}"
    by (auto simp: filter_empty_conv)
  then show ?thesis
    using False unfolding Clean_components [OF False] components_clean_path [OF visible_components] by simp
qed simp

lemma components_slash_end: "components (xs @ [slash] @ ys) = components xs @ components ys"
  using components_append [of xs ys] by simp

lemma ends_in_slash: "HasTrailingSlash s \<Longrightarrow> \<exists>t. s = t @ [slash]"
  by (cases s rule: rev_cases) (auto simp: HasTrailingSlash_def nth_append)

lemma IsAbs_append: "s \<noteq> [] \<Longrightarrow> IsAbs (s @ t) = IsAbs s"
  by (cases s) (simp_all add: IsAbs_def)

lemma Clean_eq_Nil [simp]: "Clean s = [] \<longleftrightarrow> s = []"
  using clean_path_ends(1) [OF visible_components] Clean_components by fastforce

text \<open>\<^verbatim>\<open>Join\<close> of an empty directory makes its name absolute.\<close>

lemma Join_components:
  assumes "dir \<noteq> []"
  shows "visible (Join dir name) = visible dir @ visible name" "IsAbs (Join dir name) = IsAbs dir"
proof -
  have "visible (Join dir name) = visible dir @ visible name \<and> IsAbs (Join dir name) = IsAbs dir"
  proof (cases "TrimLeadingSlash name = []")
    case True
    moreover have "components name = []"
      using True by (simp add: components.simps [of name])
    ultimately show ?thesis
      by (simp add: Join_def flip: Clean_def)
  next
    case False
    let ?n = "TrimLeadingSlash name" and ?b = "if \<not> HasTrailingSlash (Clean dir) then Clean dir @ ''/'' else Clean dir"
    have "HasTrailingSlash ?b"
      by (simp add: HasTrailingSlash_last)
    then obtain b where b: "?b = b @ [slash]"
      using ends_in_slash by blast
    have bd: "components ?b = components (Clean dir)"
      using components_slash_end [of "Clean dir" "[]"] by simp
    have bb: "components b = components (Clean dir)"
      using components_slash_end [of b "[]"] bd unfolding b by simp
    have join: "Join dir name = ?b @ clean_path (IsAbs ?n) (visible ?n) (HasTrailingSlash ?n)"
      using AppendClean_components [OF False] unfolding Join_def Clean_def [symmetric] Let_def by (simp only: if_P [OF False])
    have "visible (clean_path (IsAbs ?n) (visible ?n) (HasTrailingSlash ?n)) = visible name"
      using visible_Clean [of ?n] by (simp only: Clean_components [OF False] components_trim)
    then have "visible (Join dir name) = visible dir @ visible name"
      unfolding join b using components_slash_end [of b] visible_Clean [of dir] by (simp add: bb)
    moreover have "IsAbs (Join dir name) = IsAbs dir"
      unfolding join using assms by (simp add: IsAbs_append)
    ultimately show ?thesis
      by blast
  qed
  then show "visible (Join dir name) = visible dir @ visible name" "IsAbs (Join dir name) = IsAbs dir"
    by simp_all
qed

section \<open>Walking a path\<close>

text \<open>A relative path that is not empty is walked by its first component.\<close>

lemma relative_trimmed: "\<not> IsAbs s \<Longrightarrow> TrimLeadingSlash s = s"
  by (cases s) (auto simp: IsAbs_def)

lemma IsAbs_trimmed [simp]: "\<not> IsAbs (TrimLeadingSlash s)"
  using trimmed_head by (cases "TrimLeadingSlash s") (auto simp: IsAbs_def)

lemma Walk_relative:
  assumes "s \<noteq> []" "\<not> IsAbs s"
  shows "fst (Walk s) = hd (components s)" "components (snd (Walk s)) = tl (components s)" "\<not> IsAbs (snd (Walk s))"
    "component (fst (Walk s))" "length (snd (Walk s)) < length s"
proof -
  note trim = relative_trimmed [OF assms(2)]
  have comps: "components s = takeWhile (\<lambda>c. c \<noteq> slash) s # components (dropWhile (\<lambda>c. c \<noteq> slash) s)"
    using components_first [of s] assms trim by simp
  have first: "takeWhile (\<lambda>c. c \<noteq> slash) s \<noteq> []"
    using assms by (cases s) (auto simp: IsAbs_def)
  have "Walk s = (takeWhile (\<lambda>c. c \<noteq> slash) s, TrimLeadingSlash (dropWhile (\<lambda>c. c \<noteq> slash) s))"
  proof (cases "slash \<in> set s")
    case True
    then have "IndexSlash s = int (length (takeWhile (\<lambda>c. c \<noteq> slash) s))"
      by (simp add: IndexSlash_takeWhile)
    then show ?thesis
      using first takeWhile_eq_take [of "\<lambda>c. c \<noteq> slash" s] dropWhile_eq_drop [of "\<lambda>c. c \<noteq> slash" s]
      by (simp add: Walk_def Let_def)
  next
    case False
    then have "takeWhile (\<lambda>c. c \<noteq> slash) s = s" "dropWhile (\<lambda>c. c \<noteq> slash) s = []"
      by (auto simp: takeWhile_eq_all_conv)
    then show ?thesis
      using False by (simp only: Walk_def IndexSlash_takeWhile if_False Let_def) simp
  qed
  moreover have "length (TrimLeadingSlash (dropWhile (\<lambda>c. c \<noteq> slash) s)) < length s"
  proof -
    have "length s = length (takeWhile (\<lambda>c. c \<noteq> slash) s) + length (dropWhile (\<lambda>c. c \<noteq> slash) s)"
      by (metis length_append takeWhile_dropWhile_id)
    then show ?thesis
      using first length_TrimLeadingSlash [of "dropWhile (\<lambda>c. c \<noteq> slash) s"] by (cases "takeWhile (\<lambda>c. c \<noteq> slash) s") simp_all
  qed
  ultimately show "fst (Walk s) = hd (components s)" "components (snd (Walk s)) = tl (components s)"
    "\<not> IsAbs (snd (Walk s))" "component (fst (Walk s))" "length (snd (Walk s)) < length s"
    using comps first by (auto simp: component_def dest: set_takeWhileD)
qed

end
