(* ===== verification/Resolve_Path.thy ===== *)
theory Resolve_Path
  imports Fspath
begin

text \<open>
  Path resolution in the file systems of the sandbox (\<^verbatim>\<open>internal/sandbox/fs.go\<close>: \<^verbatim>\<open>ResolvePath\<close>, \<^verbatim>\<open>FileOpen\<close>,
  \<^verbatim>\<open>FileStat\<close>, \<^verbatim>\<open>FileReadlink\<close>, \<^verbatim>\<open>readlink\<close>), over the methods of the interface \<^verbatim>\<open>File\<close> that it calls. A file
  is a handle \<open>'f\<close>, and a call changes a state \<open>'s\<close>. A call that does not return is \<open>None\<close>.

  The locale \<open>directories\<close> is the contract of these methods: its invariant \<open>inv H s\<close> says that the client owns
  the handles of \<open>H\<close>, those that it has opened and not closed. Resolution keeps it, whatever the path: it
  closes every directory that it opens. The locale \<open>still_directories\<close> adds that the file system does not
  change under the resolution, and resolution then returns.
\<close>

datatype sys_error =
  EACCES | EADDRNOTAVAIL | EAFNOSUPPORT | EBADF | EBUSY | ECONNABORTED | ECONNREFUSED | EDESTADDRREQ | EEXIST
  | EHOSTUNREACH | EINTR | EINVAL | EISCONN | EISDIR | ELOOP | ENAMETOOLONG | ENETUNREACH | ENOENT
  | ENOTCONN | ENOTDIR | EOPNOTSUPP | EPERM | EPROTONOSUPPORT | EPROTOTYPE | EROFS | EXDEV | SysError nat

section \<open>Calls\<close>

type_synonym ('a, 's) file_call = "((sys_error + 'a) \<times> 's) option"

definition on_call :: "('a \<times> 's) option \<Rightarrow> ('a \<Rightarrow> 's \<Rightarrow> 'b option) \<Rightarrow> 'b option" where
  "on_call m f = Option.bind m (\<lambda>(a, s). f a s)"

lemma on_call_None [simp]: "on_call None f = None"
  by (simp add: on_call_def)

lemma on_call_Some [simp]: "on_call (Some (a, s)) f = f a s"
  by (simp add: on_call_def)

lemma on_call_eq_Some: "on_call m f = Some b \<longleftrightarrow> (\<exists>a s. m = Some (a, s) \<and> f a s = Some b)"
  by (cases m) auto

lemma on_call_sumE:
  assumes "on_call m f = Some b"
  obtains (error) e s where "m = Some (Inl e, s)" "f (Inl e) s = Some b"
    | (answer) x s where "m = Some (Inr x, s)" "f (Inr x) s = Some b"
proof -
  obtain a s where "m = Some (a, s)" "f a s = Some b"
    using assms by (auto simp: on_call_eq_Some)
  then show thesis
    using error answer by (cases a) simp_all
qed

lemma on_call_unitE:
  assumes "on_call m f = Some b"
  obtains s where "m = Some ((), s)" "f () s = Some b"
  using assms by (auto simp: on_call_eq_Some)

lemma on_call_eq_None: "on_call m f = None \<longleftrightarrow> m = None \<or> (\<exists>a s. m = Some (a, s) \<and> f a s = None)"
  by (cases m) auto

lemma on_call_mono [partial_function_mono]:
  assumes "mono_option m" "\<And>a s. mono_option (\<lambda>g. f g a s)"
  shows "mono_option (\<lambda>g. on_call (m g) (f g))"
  unfolding on_call_def
proof (rule bind_mono)
  show "mono_option (\<lambda>g. case y of (a, s) \<Rightarrow> f g a s)" for y
    using assms(2) by (cases y) simp
qed (rule assms(1))

section \<open>Flags of Linux\<close>

definition O_WRONLY :: int where "O_WRONLY = 1"
definition O_RDWR :: int where "O_RDWR = 2"
definition O_CREAT :: int where "O_CREAT = 64"
definition O_APPEND :: int where "O_APPEND = 1024"
definition O_DIRECTORY :: int where "O_DIRECTORY = 65536"
definition O_NOFOLLOW :: int where "O_NOFOLLOW = 131072"
definition O_PATH :: int where "O_PATH = 2097152"
definition AT_SYMLINK_NOFOLLOW :: int where "AT_SYMLINK_NOFOLLOW = 256"

definition openPathFlags :: int where
  "openPathFlags = O_PATH OR O_DIRECTORY OR O_NOFOLLOW"

definition PATH_MAX :: nat where "PATH_MAX = 4096"
definition MaxFollowSymlink :: nat where "MaxFollowSymlink = 10"

definition OpenFlags_LookupFlags :: "int \<Rightarrow> int" where
  "OpenFlags_LookupFlags f = (if f AND O_NOFOLLOW \<noteq> 0 then AT_SYMLINK_NOFOLLOW else 0)"

definition LookupFlags_OpenFlags :: "int \<Rightarrow> int" where
  "LookupFlags_OpenFlags f = (if f AND AT_SYMLINK_NOFOLLOW \<noteq> 0 then O_NOFOLLOW else 0)"

section \<open>File information\<close>

record FileInfo =
  fi_dev :: int
  fi_ino :: int
  fi_nlink :: int
  fi_mode :: int
  fi_uid :: int
  fi_gid :: int
  fi_size :: int
  fi_atime :: "int \<times> int"
  fi_mtime :: "int \<times> int"
  fi_ctime :: "int \<times> int"

text \<open>The types of files in the modes of \<^verbatim>\<open>io/fs\<close>.\<close>

definition ModeDir :: int where "ModeDir = 2 ^ 31"
definition ModeSymlink :: int where "ModeSymlink = 2 ^ 27"
definition ModeDevice :: int where "ModeDevice = 2 ^ 26"
definition ModeNamedPipe :: int where "ModeNamedPipe = 2 ^ 25"
definition ModeSocket :: int where "ModeSocket = 2 ^ 24"
definition ModeCharDevice :: int where "ModeCharDevice = 2 ^ 21"
definition ModeIrregular :: int where "ModeIrregular = 2 ^ 19"

section \<open>The interface\<close>

text \<open>\<open>file_Readlink f name n\<close> is \<^verbatim>\<open>Readlink\<close> with a buffer of \<open>n\<close> bytes: what it writes there.\<close>

record ('f, 's) file_ops =
  file_Open :: "'f \<Rightarrow> string \<Rightarrow> int \<Rightarrow> int \<Rightarrow> 's \<Rightarrow> ('f, 's) file_call"
  file_Readlink :: "'f \<Rightarrow> string \<Rightarrow> nat \<Rightarrow> 's \<Rightarrow> (string, 's) file_call"
  file_Close :: "'f \<Rightarrow> 's \<Rightarrow> (unit \<times> 's) option"

definition openDir :: "('f, 's) file_ops \<Rightarrow> 'f \<Rightarrow> string \<Rightarrow> 's \<Rightarrow> ('f, 's) file_call" where
  "openDir ops dir name s = file_Open ops dir name O_DIRECTORY 0 s"

definition openRoot :: "('f, 's) file_ops \<Rightarrow> 'f \<Rightarrow> 's \<Rightarrow> ('f, 's) file_call" where
  "openRoot ops dir s = openDir ops dir ''/'' s"

definition openSelf :: "('f, 's) file_ops \<Rightarrow> 'f \<Rightarrow> 's \<Rightarrow> ('f, 's) file_call" where
  "openSelf ops dir s = openDir ops dir ''.'' s"

definition openParent :: "('f, 's) file_ops \<Rightarrow> 'f \<Rightarrow> 's \<Rightarrow> ('f, 's) file_call" where
  "openParent ops dir s = openDir ops dir ''..'' s"

definition closeFileIfNotNil :: "('f, 's) file_ops \<Rightarrow> 'f option \<Rightarrow> 's \<Rightarrow> (unit \<times> 's) option" where
  "closeFileIfNotNil ops f s = (case f of None \<Rightarrow> Some ((), s) | Some f \<Rightarrow> file_Close ops f s)"

partial_function (option) readlink_loop ::
  "('f, 's) file_ops \<Rightarrow> 'f \<Rightarrow> string \<Rightarrow> nat \<Rightarrow> 's \<Rightarrow> (string, 's) file_call"
where
  "readlink_loop ops dir name n s =
     on_call (file_Readlink ops dir name n s) (\<lambda>r s. case r of
         Inl e \<Rightarrow> Some (Inl e, s)
       | Inr b \<Rightarrow> if length b < n then Some (Inr b, s)
           else if PATH_MAX < n then Some (Inl ENAMETOOLONG, s)
           else readlink_loop ops dir name (2 * n) s)"

declare readlink_loop.simps [code]

definition readlink :: "('f, 's) file_ops \<Rightarrow> 'f \<Rightarrow> string \<Rightarrow> 's \<Rightarrow> (string, 's) file_call" where
  "readlink ops dir name s = readlink_loop ops dir name 256 s"

section \<open>Resolution\<close>

text \<open>\<open>followSymlink\<close> is the path to walk on with.\<close>

definition followSymlink ::
  "('f, 's) file_ops \<Rightarrow> 'f \<Rightarrow> nat \<Rightarrow> string \<Rightarrow> string \<Rightarrow> 's \<Rightarrow> (string, 's) file_call"
where
  "followSymlink ops dir depth symlink target s =
     on_call (readlink ops dir symlink s) (\<lambda>r s. case r of
         Inl e \<Rightarrow> Some (Inl e, s)
       | Inr link \<Rightarrow> if depth = MaxFollowSymlink then Some (Inl ELOOP, s)
           else Some (Inr (if target \<noteq> [] then link @ ''/'' @ target else link), s))"

text \<open>The label \<^verbatim>\<open>doFile\<close>: the answer, or the path to walk on with.\<close>

partial_function (option) do_file ::
  "('f, 's) file_ops \<Rightarrow> ('f \<Rightarrow> string \<Rightarrow> 's \<Rightarrow> ('r, 's) file_call) \<Rightarrow> int \<Rightarrow> 'f \<Rightarrow> nat \<Rightarrow> string \<Rightarrow> 's
   \<Rightarrow> (((sys_error + 'r) + string) \<times> 's) option"
where
  "do_file ops act flags dir depth elem s =
     on_call (act dir elem s) (\<lambda>r s. case r of
         Inr x \<Rightarrow> Some (Inl (Inr x), s)
       | Inl e \<Rightarrow>
           if e \<noteq> ELOOP \<or> flags AND AT_SYMLINK_NOFOLLOW \<noteq> 0 then Some (Inl (Inl e), s)
           else on_call (followSymlink ops dir depth elem [] s) (\<lambda>r s. case r of
               Inr name \<Rightarrow> Some (Inr name, s)
             | Inl e \<Rightarrow> if e = EINVAL then do_file ops act flags dir depth elem s
                 else Some (Inl (Inl e), s)))"

declare do_file.simps [code]

text \<open>The deferred call closes the last directory that was opened.\<close>

definition close_and_return ::
  "('f, 's) file_ops \<Rightarrow> 'f option \<Rightarrow> sys_error + 'r \<Rightarrow> 's \<Rightarrow> ('r, 's) file_call"
where
  "close_and_return ops opened ret s = on_call (closeFileIfNotNil ops opened s) (\<lambda>_ s. Some (ret, s))"

text \<open>An absolute name starts over at the root: the directory, the last one opened and the rest of the name.\<close>

definition start_absolute ::
  "('f, 's) file_ops \<Rightarrow> 'f \<Rightarrow> 'f option \<Rightarrow> string \<Rightarrow> 's \<Rightarrow> ('f \<times> 'f option \<times> string, 's) file_call"
where
  "start_absolute ops dir opened name s =
     (if IsAbs name
      then let name = TrimLeadingSlash name; name = if name = [] then ''.'' else name
           in on_call (openRoot ops dir s) (\<lambda>r s. case r of
               Inl e \<Rightarrow> Some (Inl e, s)
             | Inr d \<Rightarrow> on_call (closeFileIfNotNil ops opened s) (\<lambda>_ s. Some (Inr (d, Some d, name), s)))
      else Some (Inr (dir, opened, name), s))"

text \<open>The next directory, which may be a link to one, and what to go on with.\<close>

definition open_element ::
  "('f, 's) file_ops \<Rightarrow> 'f \<Rightarrow> 'f option \<Rightarrow> nat \<Rightarrow> string \<Rightarrow> string \<Rightarrow> 's
   \<Rightarrow> (((sys_error + 'r) \<times> 'f option + 'f \<times> 'f option \<times> nat \<times> string) \<times> 's) option"
where
  "open_element ops dir opened depth elem name s =
     on_call (file_Open ops dir elem openPathFlags 0 s) (\<lambda>r s. case r of
         Inr d \<Rightarrow> on_call (closeFileIfNotNil ops opened s) (\<lambda>_ s. Some (Inr (d, Some d, depth, name), s))
       | Inl e \<Rightarrow>
           if e \<noteq> ENOTDIR then Some (Inl (Inl e, opened), s)
           else on_call (followSymlink ops dir depth elem name s) (\<lambda>r s. case r of
               Inr name \<Rightarrow> Some (Inr (dir, opened, depth + 1, name), s)
             | Inl e \<Rightarrow> Some (Inl (Inl (if e = EINVAL then ENOTDIR else e), opened), s)))"

text \<open>
  One round of the loop: an answer with the last directory that was opened, or the directory, the last one
  opened, the number of links followed and the name to go on with.
\<close>

definition resolve_round ::
  "('f, 's) file_ops \<Rightarrow> ('f \<Rightarrow> string \<Rightarrow> 's \<Rightarrow> ('r, 's) file_call) \<Rightarrow> int \<Rightarrow> 'f \<Rightarrow> 'f option \<Rightarrow> nat \<Rightarrow> string
   \<Rightarrow> 's \<Rightarrow> (((sys_error + 'r) \<times> 'f option + 'f \<times> 'f option \<times> nat \<times> string) \<times> 's) option"
where
  "resolve_round ops act flags dir opened depth name s =
     on_call (start_absolute ops dir opened name s) (\<lambda>r s. case r of
         Inl e \<Rightarrow> Some (Inl (Inl e, opened), s)
       | Inr (dir, opened, name) \<Rightarrow>
           let elem = fst (Walk name); name = snd (Walk name)
           in if name = []
              then on_call (do_file ops act flags dir depth elem s) (\<lambda>r s. case r of
                  Inl ret \<Rightarrow> Some (Inl (ret, opened), s)
                | Inr name \<Rightarrow> Some (Inr (dir, opened, depth + 1, name), s))
              else if elem = ''.'' then Some (Inr (dir, opened, depth, name), s)
              else open_element ops dir opened depth elem name s)"

partial_function (option) resolve_loop ::
  "('f, 's) file_ops \<Rightarrow> ('f \<Rightarrow> string \<Rightarrow> 's \<Rightarrow> ('r, 's) file_call) \<Rightarrow> int \<Rightarrow> 'f \<Rightarrow> 'f option \<Rightarrow> nat \<Rightarrow> string
   \<Rightarrow> 's \<Rightarrow> ('r, 's) file_call"
where
  "resolve_loop ops act flags dir opened depth name s =
     on_call (resolve_round ops act flags dir opened depth name s) (\<lambda>r s. case r of
         Inl (ret, opened) \<Rightarrow> close_and_return ops opened ret s
       | Inr (dir, opened, depth, name) \<Rightarrow> resolve_loop ops act flags dir opened depth name s)"

declare resolve_loop.simps [code]

definition ResolvePath ::
  "('f, 's) file_ops \<Rightarrow> 'f \<Rightarrow> string \<Rightarrow> int \<Rightarrow> ('f \<Rightarrow> string \<Rightarrow> 's \<Rightarrow> ('r, 's) file_call) \<Rightarrow> 's
   \<Rightarrow> ('r, 's) file_call"
where
  "ResolvePath ops dir name flags act s =
     (if name = [] then act dir [] s else resolve_loop ops act flags dir None 0 name s)"

definition FileOpen ::
  "('f, 's) file_ops \<Rightarrow> 'f \<Rightarrow> string \<Rightarrow> int \<Rightarrow> int \<Rightarrow> ('f \<Rightarrow> 's \<Rightarrow> ('f, 's) file_call)
   \<Rightarrow> ('f \<Rightarrow> 's \<Rightarrow> ('f, 's) file_call) \<Rightarrow> ('f \<Rightarrow> 's \<Rightarrow> ('f, 's) file_call)
   \<Rightarrow> ('f \<Rightarrow> string \<Rightarrow> int \<Rightarrow> int \<Rightarrow> 's \<Rightarrow> ('f, 's) file_call) \<Rightarrow> 's \<Rightarrow> ('f, 's) file_call"
where
  "FileOpen ops f name flags mode open_root open_self open_parent open_file s =
     (if name = [] then Some (Inl EINVAL, s)
      else if IsRoot name then open_root f s
      else let flags = if HasTrailingSlash name then flags OR O_DIRECTORY else flags
           in ResolvePath ops f name (OpenFlags_LookupFlags flags) (\<lambda>at name s.
               if name = ''.'' then open_self at s
               else if name = ''..'' then open_parent at s
               else open_file at name (flags OR O_NOFOLLOW) mode s) s)"

text \<open>\<open>is_link\<close> is \<^verbatim>\<open>info.Mode.Type() == fs.ModeSymlink\<close>.\<close>

definition FileStat_path ::
  "('f, 's) file_ops \<Rightarrow> ('i \<Rightarrow> bool) \<Rightarrow> 'f \<Rightarrow> string \<Rightarrow> int \<Rightarrow> ('f \<Rightarrow> string \<Rightarrow> 's \<Rightarrow> ('i, 's) file_call)
   \<Rightarrow> 's \<Rightarrow> ('i, 's) file_call"
where
  "FileStat_path ops is_link f name flags lstat s =
     ResolvePath ops f name flags (\<lambda>at name s.
       on_call (lstat at name s) (\<lambda>r s. case r of
           Inl e \<Rightarrow> Some (Inl e, s)
         | Inr info \<Rightarrow> Some (if is_link info \<and> flags AND AT_SYMLINK_NOFOLLOW = 0 then Inl ELOOP else Inr info, s))) s"

definition FileReadlink ::
  "('f, 's) file_ops \<Rightarrow> 'f \<Rightarrow> string \<Rightarrow> ('f \<Rightarrow> string \<Rightarrow> 's \<Rightarrow> (string, 's) file_call) \<Rightarrow> 's
   \<Rightarrow> (string, 's) file_call"
where
  "FileReadlink ops f name rlink s = ResolvePath ops f name AT_SYMLINK_NOFOLLOW rlink s"

lemmas readlink_loop_induct = readlink_loop.raw_induct [rotated, consumes 1, case_names loop]
lemmas do_file_induct = do_file.raw_induct [rotated, consumes 1, case_names loop]
lemmas resolve_loop_induct = resolve_loop.raw_induct [rotated, consumes 1, case_names loop]

text \<open>A round makes the name shorter, or it follows a link.\<close>

lemma followSymlink_depth: "followSymlink ops d depth elem target s = Some (Inr name, t) \<Longrightarrow> depth \<noteq> MaxFollowSymlink"
  by (auto simp: followSymlink_def elim!: on_call_sumE split: if_splits)

lemma followSymlink_error:
  "followSymlink ops d depth elem target s = Some (Inl e, t) \<Longrightarrow> e = ELOOP \<or> readlink ops d elem s = Some (Inl e, t)"
  by (auto simp: followSymlink_def elim!: on_call_sumE split: if_splits)

lemma do_file_depth:
  assumes "do_file ops act flags d depth elem s = Some (Inr name, t)"
  shows "depth \<noteq> MaxFollowSymlink"
proof -
  have "ops' = ops \<Longrightarrow> isl (fst y) \<or> depth \<noteq> MaxFollowSymlink"
    if "do_file ops' act flags d depth elem s = Some y" for ops' s y
    using that
  proof (induction rule: do_file_induct)
    case (loop rec ops' act flags d depth elem s y)
    have "isl (fst y) \<or> depth \<noteq> MaxFollowSymlink \<or> (\<exists>u. rec ops' act flags d depth elem u = Some y)"
      using loop.hyps loop.prems
      by (auto elim!: on_call_sumE split: if_splits) (drule followSymlink_depth, simp)
    then show ?case
      using loop by blast
  qed
  then show ?thesis
    using assms by fastforce
qed

lemma start_absolute_relative:
  assumes "start_absolute ops d opened name s = Some (Inr (d', opened', name'), t)"
  shows "\<not> IsAbs name' \<and> (length name' \<le> length name \<or> name' = ''.'')"
proof -
  have new: "name' = (if IsAbs name then if TrimLeadingSlash name = [] then ''.'' else TrimLeadingSlash name else name)"
    using assms by (auto simp: start_absolute_def Let_def elim!: on_call_sumE on_call_unitE)
  show ?thesis
    using IsAbs_trimmed [of name] length_TrimLeadingSlash [of name] unfolding new by (auto simp: IsAbs_def)
qed

lemma start_absolute_name:
  assumes "start_absolute ops d opened name s = Some (Inr (d', opened', name'), t)"
  shows "snd (Walk name') = [] \<or> length (snd (Walk name')) < length name"
  using start_absolute_relative [OF assms] Walk_relative(5) [of name']
  by (cases "name' = []") (auto simp: Walk_def IndexSlash_def)

text \<open>The name at the leaf is a component, or it is empty.\<close>

definition leaf_name :: "string \<Rightarrow> bool" where
  "leaf_name e \<longleftrightarrow> e = [] \<or> component e"

lemma start_absolute_leaf:
  assumes "start_absolute ops d opened name s = Some (Inr (d', opened', name'), t)"
  shows "leaf_name (fst (Walk name'))"
  using start_absolute_relative [OF assms] Walk_relative(4) [of name']
  by (cases "name' = []") (auto simp: Walk_def IndexSlash_def leaf_name_def)

lemma resolve_round_decreases:
  assumes "resolve_round ops act flags d opened depth name s = Some (Inr (d', opened', depth', name'), t)"
    and "depth \<le> MaxFollowSymlink"
  shows "depth' \<le> MaxFollowSymlink
    \<and> (MaxFollowSymlink - depth' < MaxFollowSymlink - depth \<or> depth' = depth \<and> length name' < length name)"
proof -
  obtain r u where r: "start_absolute ops d opened name s = Some (r, u)"
    using assms(1) by (auto simp: resolve_round_def on_call_eq_Some)
  then obtain d2 op2 name2 where r2: "r = Inr (d2, op2, name2)"
    using assms(1) by (cases r) (auto simp: resolve_round_def)
  let ?elem = "fst (Walk name2)" and ?rest = "snd (Walk name2)"
  note eq = assms(1) [unfolded resolve_round_def r r2 on_call_Some sum.case prod.case Let_def]
  have "depth' = depth + 1 \<and> depth \<noteq> MaxFollowSymlink \<or> depth' = depth \<and> name' = ?rest \<and> ?rest \<noteq> []"
  proof (cases "?rest = []")
    case True
    then show ?thesis
      using eq by (auto elim!: on_call_sumE dest: do_file_depth)
  next
    case False
    then show ?thesis
      using eq by (auto simp: open_element_def dest: followSymlink_depth elim!: on_call_sumE on_call_unitE split: if_splits)
  qed
  then show ?thesis
    using assms(2) start_absolute_name [OF r [unfolded r2]] by auto
qed

text \<open>A name that is a component is that of a leaf.\<close>

lemma component_relative:
  assumes "component e"
  shows "e \<noteq> []" "\<not> IsAbs e" "\<not> HasTrailingSlash e" "Walk e = (e, [])"
proof -
  show *: "e \<noteq> []" "\<not> IsAbs e" "\<not> HasTrailingSlash e"
    using assms by (auto simp: component_def IsAbs_def HasTrailingSlash_last simp flip: hd_conv_nth dest: hd_in_set last_in_set)
  have "IndexSlash e < 0"
    using assms by (simp add: IndexSlash_takeWhile component_def)
  then show "Walk e = (e, [])"
    by (simp add: Walk_def)
qed

lemma ResolvePath_leaf:
  assumes "leaf_name e" "flags AND AT_SYMLINK_NOFOLLOW \<noteq> 0"
  shows "ResolvePath ops d e flags act s = act d e s"
proof (cases "e = []")
  case True
  then show ?thesis
    by (simp add: ResolvePath_def)
next
  case False
  note e = component_relative [of e]
  have "do_file ops act flags d 0 e s = on_call (act d e s) (\<lambda>r s. Some (Inl r, s))"
    using assms(2) by (subst do_file.simps) (cases "act d e s"; auto split: sum.splits)
  moreover have "component e"
    using assms(1) False by (simp add: leaf_name_def)
  ultimately have "resolve_loop ops act flags d None 0 e s = on_call (act d e s) (\<lambda>r s. Some (r, s))"
    using e by (subst resolve_loop.simps)
      (cases "act d e s"; auto simp: resolve_round_def start_absolute_def close_and_return_def closeFileIfNotNil_def Let_def)
  then show ?thesis
    using False by (cases "act d e s") (auto simp: ResolvePath_def)
qed

section \<open>Ownership of the handles\<close>

text \<open>The handles that an answer gives to the client.\<close>

definition given :: "('r \<Rightarrow> 'f set) \<Rightarrow> sys_error + 'r \<Rightarrow> 'f set" where
  "given own r = (case r of Inl _ \<Rightarrow> {} | Inr x \<Rightarrow> own x)"

lemma given_simps [simp]: "given own (Inl e) = {}" "given own (Inr x) = own x"
  by (simp_all add: given_def)

locale directories =
  fixes ops :: "('f, 's) file_ops" and inv :: "'f set \<Rightarrow> 's \<Rightarrow> bool"
  assumes Open_inv: "inv H s \<Longrightarrow> d \<in> H \<Longrightarrow> file_Open ops d name flags mode s = Some (r, s') \<Longrightarrow>
      given (\<lambda>f. {f}) r \<inter> H = {} \<and> inv (H \<union> given (\<lambda>f. {f}) r) s'"
    and Readlink_inv: "inv H s \<Longrightarrow> d \<in> H \<Longrightarrow> file_Readlink ops d name n s = Some (l, s') \<Longrightarrow> inv H s'"
    and Close_inv: "inv H s \<Longrightarrow> d \<in> H \<Longrightarrow> file_Close ops d s = Some (u, s') \<Longrightarrow> inv (H - {d}) s'"
begin

lemma readlink_loop_inv:
  assumes "readlink_loop ops d name n s = Some y" "inv H s" "d \<in> H"
  shows "inv H (snd y)"
proof -
  have "ops' = ops \<Longrightarrow> inv H s \<Longrightarrow> d \<in> H \<Longrightarrow> inv H (snd y)" if "readlink_loop ops' d name n s = Some y" for ops' s n
    using that
  proof (induction rule: readlink_loop_induct)
    case (loop rec ops' d name n s y)
    obtain r t where r: "file_Readlink ops d name n s = Some (r, t)"
      using loop by (auto simp: on_call_eq_Some)
    then have "inv H t"
      using loop Readlink_inv by blast
    then show ?case
      using loop r by (auto split: sum.splits if_splits)
  qed
  then show ?thesis
    using assms by blast
qed

lemma followSymlink_inv:
  assumes "followSymlink ops d depth elem target s = Some (r, t)" "inv H s" "d \<in> H"
  shows "inv H t"
proof -
  obtain r' s' where r': "readlink ops d elem s = Some (r', s')"
    using assms(1) by (auto simp: followSymlink_def on_call_eq_Some)
  then have "s' = t"
    using assms(1) by (auto simp: followSymlink_def split: sum.splits if_splits)
  then show ?thesis
    using readlink_loop_inv [OF r' [unfolded readlink_def] assms(2,3)] by simp
qed

text \<open>
  What the function at the leaf does to the handles: it may give the client new ones, by \<open>own\<close>.
\<close>

definition leaf_inv :: "('r \<Rightarrow> 'f set) \<Rightarrow> ('f \<Rightarrow> string \<Rightarrow> 's \<Rightarrow> ('r, 's) file_call) \<Rightarrow> bool" where
  "leaf_inv own act \<longleftrightarrow> (\<forall>H s d elem r t. inv H s \<longrightarrow> d \<in> H \<longrightarrow> leaf_name elem \<longrightarrow> act d elem s = Some (r, t) \<longrightarrow>
     given own r \<inter> H = {} \<and> inv (H \<union> given own r) t)"

lemma leaf_invD:
  assumes "leaf_inv own act" "inv H s" "d \<in> H" "act d elem s = Some (r, t)" "leaf_name elem"
  shows "given own r \<inter> H = {}" "inv (H \<union> given own r) t"
  using assms unfolding leaf_inv_def by blast+

lemma do_file_inv:
  assumes "do_file ops act flags d depth elem s = Some y" "leaf_inv own act" "inv H s" "d \<in> H" "leaf_name elem"
  shows "case y of (Inl r, t) \<Rightarrow> given own r \<inter> H = {} \<and> inv (H \<union> given own r) t | (Inr name, t) \<Rightarrow> inv H t"
proof -
  have "ops' = ops \<Longrightarrow> act' = act \<Longrightarrow> inv H s \<Longrightarrow> d \<in> H \<Longrightarrow> leaf_name elem \<Longrightarrow>
      (case y of (Inl r, t) \<Rightarrow> given own r \<inter> H = {} \<and> inv (H \<union> given own r) t | (Inr name, t) \<Rightarrow> inv H t)"
    if "do_file ops' act' flags d depth elem s = Some y" for ops' act' s
    using that
  proof (induction rule: do_file_induct)
    case (loop rec ops' act' flags d depth elem s y)
    obtain r t where r: "act d elem s = Some (r, t)"
      using loop by (auto simp: on_call_eq_Some)
    note leaf = leaf_invD [OF assms(2) \<open>inv H s\<close> \<open>d \<in> H\<close> r \<open>leaf_name elem\<close>]
    show ?case
    proof (cases r)
      case (Inr x)
      then show ?thesis
        using loop r leaf by auto
    next
      case (Inl e)
      then have inv: "inv H t"
        using leaf by simp
      show ?thesis
      proof (cases "e \<noteq> ELOOP \<or> flags AND AT_SYMLINK_NOFOLLOW \<noteq> 0")
        case True
        then show ?thesis
          using loop r Inl inv by auto
      next
        case False
        then obtain l u where l: "followSymlink ops d depth elem [] t = Some (l, u)"
          using loop r Inl by (auto simp: on_call_eq_Some)
        then have "inv H u"
          using followSymlink_inv inv loop by blast
        show ?thesis
        proof (cases "l = Inl EINVAL")
          case True
          then have "rec ops' act' flags d depth elem u = Some y"
            using loop r Inl False l by simp
          then show ?thesis
            using loop \<open>inv H u\<close> by blast
        next
          case other: False
          then show ?thesis
            using loop r Inl False l \<open>inv H u\<close> by (auto split: sum.splits)
        qed
      qed
    qed
  qed
  then show ?thesis
    using assms by blast
qed

text \<open>The directory and the last one that was opened.\<close>

definition owned :: "'f set \<Rightarrow> 'f \<Rightarrow> 'f option \<Rightarrow> 'f set \<Rightarrow> bool" where
  "owned H d opened G \<longleftrightarrow> d \<in> G \<and> (case opened of None \<Rightarrow> G = H | Some f \<Rightarrow> f \<notin> H \<and> G = insert f H)"

lemma close_inv:
  assumes "closeFileIfNotNil ops opened s = Some (u, t)" "inv (case opened of None \<Rightarrow> H | Some f \<Rightarrow> insert f H) s"
    "\<forall>f. opened = Some f \<longrightarrow> f \<notin> H"
  shows "inv H t"
proof (cases opened)
  case None
  then show ?thesis
    using assms by (simp add: closeFileIfNotNil_def)
next
  case (Some f)
  then show ?thesis
    using assms Close_inv [of "insert f H" s f u t] by (simp add: closeFileIfNotNil_def insert_Diff_if)
qed

lemma close_and_return_inv:
  assumes "close_and_return ops opened r s = Some (r', t)" "owned H d opened G" "inv (G \<union> given own r) s"
    "given own r \<inter> G = {}"
  shows "r' = r \<and> given own r \<inter> H = {} \<and> inv (H \<union> given own r) t"
proof -
  obtain u where u: "closeFileIfNotNil ops opened s = Some (u, t)" and r: "r' = r"
    using assms(1) by (auto simp: close_and_return_def on_call_eq_Some)
  have "inv (H \<union> given own r) t"
    using close_inv [OF u, of "H \<union> given own r"] assms by (auto simp: owned_def split: option.splits)
  then show ?thesis
    using assms r by (auto simp: owned_def split: option.splits)
qed

text \<open>Opening a directory in the place of the last one.\<close>

lemma replace_opened_inv:
  assumes "file_Open ops d name flags mode s = Some (Inr d', t)" "owned H d opened G" "inv G s"
    and "closeFileIfNotNil ops opened t = Some (u, t')"
  shows "owned H d' (Some d') (insert d' H) \<and> inv (insert d' H) t'"
proof -
  have new: "d' \<notin> G" "inv (insert d' G) t"
    using Open_inv [OF assms(3) _ assms(1)] assms(2) by (auto simp: owned_def)
  have "inv (insert d' H) t'"
    using close_inv [OF assms(4), of "insert d' H"] new assms(2)
    by (auto simp: owned_def insert_commute split: option.splits)
  then show ?thesis
    using new assms(2) by (auto simp: owned_def split: option.splits)
qed

lemma start_absolute_inv:
  assumes "start_absolute ops d opened name s = Some (r, t)" "owned H d opened G" "inv G s"
  shows "case r of Inl e \<Rightarrow> inv G t | Inr (d', opened', name') \<Rightarrow> \<exists>G'. owned H d' opened' G' \<and> inv G' t"
proof (cases "IsAbs name")
  case False
  then show ?thesis
    using assms by (auto simp: start_absolute_def)
next
  case True
  then obtain r' t' where r': "file_Open ops d ''/'' O_DIRECTORY 0 s = Some (r', t')"
    using assms(1) by (auto simp: start_absolute_def openRoot_def openDir_def on_call_eq_Some Let_def)
  have d: "d \<in> G"
    using assms(2) by (simp add: owned_def)
  show ?thesis
  proof (cases r')
    case (Inl e)
    then show ?thesis
      using assms(1) True r' Open_inv [OF assms(3) d r']
      by (auto simp: start_absolute_def openRoot_def openDir_def Let_def)
  next
    case (Inr d')
    then obtain u where u: "closeFileIfNotNil ops opened t' = Some (u, t)"
      using assms(1) True r' by (auto simp: start_absolute_def openRoot_def openDir_def on_call_eq_Some Let_def)
    show ?thesis
      using assms(1) True r' Inr u replace_opened_inv [OF r' [unfolded Inr] assms(2,3) u]
      by (auto simp: start_absolute_def openRoot_def openDir_def Let_def)
  qed
qed

lemma open_element_inv:
  assumes "open_element ops d opened depth elem name s = Some (x, t)"
    and G: "owned H d opened G" "inv G s"
  shows "case x of Inl (ret, op) \<Rightarrow> (\<exists>e. ret = Inl e) \<and> op = opened \<and> inv G t
    | Inr (d', op', depth', name') \<Rightarrow> \<exists>G'. owned H d' op' G' \<and> inv G' t"
proof -
  note eq = assms(1) [unfolded open_element_def]
  have d: "d \<in> G"
    using G(1) by (simp add: owned_def)
  obtain r u where r: "file_Open ops d elem openPathFlags 0 s = Some (r, u)"
    using eq by (auto simp: on_call_eq_Some)
  show ?thesis
  proof (cases r)
    case (Inr d2)
    then obtain y where close: "closeFileIfNotNil ops opened u = Some (y, t)" and "x = Inr (d2, Some d2, depth, name)"
      using eq r by (auto simp: on_call_eq_Some)
    then show ?thesis
      using replace_opened_inv [OF r [unfolded Inr] G close] by auto
  next
    case (Inl e)
    have u: "inv G u"
      using Open_inv [OF G(2) d r] Inl by simp
    show ?thesis
    proof (cases "e = ENOTDIR")
      case False
      then show ?thesis
        using eq r Inl u by auto
    next
      case True
      then obtain l v where l: "followSymlink ops d depth elem name u = Some (l, v)"
        using eq r Inl by (auto simp: on_call_eq_Some)
      then have "v = t"
        using eq r Inl True by (auto split: sum.splits)
      then show ?thesis
        using followSymlink_inv [OF l u d] eq r Inl True G(1) l by (cases l) auto
    qed
  qed
qed

lemma resolve_round_inv:
  assumes "resolve_round ops act flags d opened depth name s = Some (x, t)" "leaf_inv own act"
    and G: "owned H d opened G" "inv G s"
  shows "case x of
      Inl (ret, op) \<Rightarrow> \<exists>d G. owned H d op G \<and> given own ret \<inter> G = {} \<and> inv (G \<union> given own ret) t
    | Inr (d, op, depth, name) \<Rightarrow> \<exists>G. owned H d op G \<and> inv G t"
proof -
  obtain r u where r: "start_absolute ops d opened name s = Some (r, u)"
    using assms(1) by (auto simp: resolve_round_def on_call_eq_Some)
  note start = start_absolute_inv [OF r G]
  show ?thesis
  proof (cases r)
    case (Inl e)
    then have "x = Inl (Inl e, opened)" "inv G t"
      using assms(1) r start by (auto simp: resolve_round_def)
    then show ?thesis
      using G(1) by (simp, blast)
  next
    case (Inr st)
    then obtain d' op' name' G' where st: "r = Inr (d', op', name')" and G': "owned H d' op' G'" "inv G' u"
      using start by (cases st) auto
    then have d': "d' \<in> G'"
      by (simp add: owned_def)
    let ?elem = "fst (Walk name')" and ?rest = "snd (Walk name')"
    note eq = assms(1) [unfolded resolve_round_def r st on_call_Some sum.case prod.case Let_def]
    consider (leaf) "?rest = []" | (same) "?rest \<noteq> []" "?elem = ''.''" | (walk) "?rest \<noteq> []" "?elem \<noteq> ''.''"
      by blast
    then show ?thesis
    proof cases
      case leaf
      then obtain f v where f: "do_file ops act flags d' depth ?elem u = Some (f, v)"
        using eq by (auto simp: on_call_eq_Some)
      note file_inv = do_file_inv [OF f assms(2) G'(2) d' start_absolute_leaf [OF r [unfolded st]]]
      show ?thesis
      proof (cases f)
        case (Inl ret)
        then have "x = Inl (ret, op')" "v = t"
          using eq leaf f by auto
        then show ?thesis
          using file_inv G'(1) Inl by auto
      next
        case (Inr name2)
        then have "x = Inr (d', op', depth + 1, name2)" "v = t"
          using eq leaf f by auto
        then show ?thesis
          using file_inv G'(1) Inr by auto
      qed
    next
      case same
      then show ?thesis
        using eq G' by auto
    next
      case walk
      then show ?thesis
        using open_element_inv [OF _ G', of depth ?elem ?rest x t] eq walk G'(1)
        by (cases x) (auto intro!: exI [of _ d'] exI [of _ G'])
    qed
  qed
qed

text \<open>Resolution gives the client what the leaf gives it, and nothing else.\<close>

lemma resolve_loop_inv:
  assumes "resolve_loop ops act flags d opened depth name s = Some y" "leaf_inv own act" "owned H d opened G" "inv G s"
  shows "given own (fst y) \<inter> H = {} \<and> inv (H \<union> given own (fst y)) (snd y)"
proof -
  have "ops' = ops \<Longrightarrow> act' = act \<Longrightarrow> owned H d opened G \<Longrightarrow> inv G s \<Longrightarrow>
      given own (fst y) \<inter> H = {} \<and> inv (H \<union> given own (fst y)) (snd y)"
    if "resolve_loop ops' act' flags d opened depth name s = Some y" for ops' act' d opened depth name s G
    using that
  proof (induction arbitrary: G rule: resolve_loop_induct)
    case (loop rec ops' act' flags d opened depth name s y)
    obtain x t where x: "resolve_round ops act flags d opened depth name s = Some (x, t)"
      using loop by (auto simp: on_call_eq_Some)
    note round = resolve_round_inv [OF x assms(2) loop.prems(3,4)]
    show ?case
    proof (cases x)
      case (Inl a)
      obtain ret op where a: "a = (ret, op)"
        by (cases a)
      have "close_and_return ops op ret t = Some (fst y, snd y)"
        using loop x Inl a by simp
      then show ?thesis
        using close_and_return_inv round unfolding Inl a sum.case prod.case by blast
    next
      case (Inr a)
      obtain d' op' depth' name' where a: "a = (d', op', depth', name')"
        by (cases a)
      have "rec ops' act' flags d' op' depth' name' t = Some y"
        using loop x Inr a by simp
      moreover obtain G' where "owned H d' op' G'" "inv G' t"
        using round unfolding Inr a by auto
      ultimately show ?thesis
        using loop.IH [OF _ loop.prems(1,2)] by blast
    qed
  qed
  then show ?thesis
    using assms by blast
qed

theorem ResolvePath_inv:
  assumes "ResolvePath ops d name flags act s = Some (r, t)" "leaf_inv own act" "inv H s" "d \<in> H"
  shows "given own r \<inter> H = {} \<and> inv (H \<union> given own r) t"
proof (cases "name = []")
  case True
  then show ?thesis
    using assms leaf_invD [OF assms(2-4)] by (simp add: ResolvePath_def leaf_name_def)
next
  case False
  have "owned H d None H"
    using assms(4) by (simp add: owned_def)
  then show ?thesis
    using resolve_loop_inv [of act flags d None 0 name s "(r, t)"] assms False by (simp add: ResolvePath_def)
qed

end

section \<open>Resolution returns\<close>

text \<open>
  The methods return, and a name that the file system says to be a link is one that can be read.
\<close>

locale still_directories = directories ops inv
  for ops :: "('f, 's) file_ops" and inv :: "'f set \<Rightarrow> 's \<Rightarrow> bool" +
  assumes Open_returns: "inv H s \<Longrightarrow> d \<in> H \<Longrightarrow>
      leaf_name name \<and> flags = openPathFlags \<or> name = ''/'' \<and> flags = O_DIRECTORY \<Longrightarrow> file_Open ops d name flags 0 s \<noteq> None"
    and Readlink_returns: "inv H s \<Longrightarrow> d \<in> H \<Longrightarrow> leaf_name name \<Longrightarrow> file_Readlink ops d name n s \<noteq> None"
    and Close_returns: "inv H s \<Longrightarrow> d \<in> H \<Longrightarrow> file_Close ops d s \<noteq> None"
begin

lemma readlink_loop_returns: "inv H s \<Longrightarrow> d \<in> H \<Longrightarrow> leaf_name name \<Longrightarrow> 0 < n \<Longrightarrow> readlink_loop ops d name n s \<noteq> None"
proof (induction "Suc PATH_MAX - n" arbitrary: n s rule: less_induct)
  case less
  obtain r t where r: "file_Readlink ops d name n s = Some (r, t)"
    using Readlink_returns less.prems by fastforce
  then have "inv H t"
    using Readlink_inv less.prems by blast
  moreover have "readlink_loop ops d name (2 * n) t \<noteq> None" if "n \<le> PATH_MAX"
    using that less \<open>inv H t\<close> by simp
  ultimately show ?case
    using r by (subst readlink_loop.simps) (auto split: sum.splits)
qed

lemma followSymlink_returns: "inv H s \<Longrightarrow> d \<in> H \<Longrightarrow> leaf_name elem \<Longrightarrow> followSymlink ops d depth elem target s \<noteq> None"
  using readlink_loop_returns [of H s d elem 256]
  by (auto simp: followSymlink_def readlink_def on_call_eq_None split: sum.splits if_splits)

definition leaf_returns :: "('f \<Rightarrow> string \<Rightarrow> 's \<Rightarrow> ('r, 's) file_call) \<Rightarrow> bool" where
  "leaf_returns act \<longleftrightarrow> (\<forall>H s d elem. inv H s \<longrightarrow> d \<in> H \<longrightarrow> leaf_name elem \<longrightarrow> act d elem s \<noteq> None \<and>
     (\<forall>t u depth. act d elem s = Some (Inl ELOOP, t) \<longrightarrow> followSymlink ops d depth elem [] t \<noteq> Some (Inl EINVAL, u)))"

lemma do_file_returns:
  assumes "leaf_inv own act" "leaf_returns act" "inv H s" "d \<in> H" "leaf_name elem"
  shows "do_file ops act flags d depth elem s \<noteq> None"
proof -
  obtain r t where r: "act d elem s = Some (r, t)"
    using assms(2-5) unfolding leaf_returns_def by (metis not_None_eq surj_pair)
  show ?thesis
  proof (cases "r = Inl ELOOP")
    case True
    then have "inv H t"
      using leaf_invD [OF assms(1,3,4) r assms(5)] by simp
    then obtain l u where "followSymlink ops d depth elem [] t = Some (l, u)" "l \<noteq> Inl EINVAL"
      using followSymlink_returns assms(2-5) r True unfolding leaf_returns_def by (metis not_None_eq surj_pair)
    then show ?thesis
      using r True by (subst do_file.simps) (auto split: sum.splits)
  next
    case False
    then show ?thesis
      using r by (subst do_file.simps) (auto split: sum.splits)
  qed
qed

lemma close_returns: "inv G s \<Longrightarrow> \<forall>f. opened = Some f \<longrightarrow> f \<in> G \<Longrightarrow> closeFileIfNotNil ops opened s \<noteq> None"
  using Close_returns by (auto simp: closeFileIfNotNil_def split: option.splits)

lemma owned_opened: "owned H d opened G \<Longrightarrow> \<forall>f. opened = Some f \<longrightarrow> f \<in> G"
  by (auto simp: owned_def)

text \<open>A directory is opened, and the last one closed.\<close>

lemma replace_returns:
  assumes "owned H d opened G" "inv G s" "leaf_name name \<and> flags = openPathFlags \<or> name = ''/'' \<and> flags = O_DIRECTORY"
  shows "\<exists>r t. file_Open ops d name flags 0 s = Some (r, t) \<and> inv (G \<union> given (\<lambda>f. {f}) r) t
    \<and> closeFileIfNotNil ops opened t \<noteq> None"
proof -
  have d: "d \<in> G"
    using assms(1) by (simp add: owned_def)
  then obtain r t where r: "file_Open ops d name flags 0 s = Some (r, t)"
    using Open_returns assms(2,3) by (metis not_None_eq surj_pair)
  then have t: "inv (G \<union> given (\<lambda>f. {f}) r) t"
    using Open_inv [OF assms(2) d] by blast
  then have "closeFileIfNotNil ops opened t \<noteq> None"
    using owned_opened [OF assms(1)] by (intro close_returns [OF t]) auto
  then show ?thesis
    using r t by blast
qed

lemma start_absolute_returns:
  assumes "owned H d opened G" "inv G s"
  shows "start_absolute ops d opened name s \<noteq> None"
  using replace_returns [OF assms, of "''/''" O_DIRECTORY]
  by (auto simp: start_absolute_def openRoot_def openDir_def on_call_eq_None Let_def split: sum.splits)

lemma open_element_returns:
  assumes "owned H d opened G" "inv G s" "leaf_name elem"
  shows "open_element ops d opened depth elem name s \<noteq> None"
proof -
  obtain r t where r: "file_Open ops d elem openPathFlags 0 s = Some (r, t)"
      "inv (G \<union> given (\<lambda>f. {f}) r) t" "closeFileIfNotNil ops opened t \<noteq> None"
    using replace_returns [OF assms(1,2)] assms(3) by blast
  moreover have "followSymlink ops d depth elem name t \<noteq> None"
    using followSymlink_returns [OF r(2)] assms(1,3) by (simp add: owned_def)
  ultimately show ?thesis
    by (auto simp: open_element_def on_call_eq_None split: sum.splits)
qed

lemma resolve_round_returns:
  assumes "leaf_inv own act" "leaf_returns act" "owned H d opened G" "inv G s"
  shows "resolve_round ops act flags d opened depth name s \<noteq> None"
proof -
  obtain r t where r: "start_absolute ops d opened name s = Some (r, t)"
    using start_absolute_returns [OF assms(3,4)] by fastforce
  show ?thesis
  proof (cases r)
    case (Inl e)
    then show ?thesis
      using r by (simp add: resolve_round_def)
  next
    case (Inr st)
    obtain d' op' name' where st: "st = (d', op', name')"
      by (cases st)
    then obtain G' where G': "owned H d' op' G'" "inv G' t"
      using start_absolute_inv [OF r assms(3,4)] Inr by auto
    then have "d' \<in> G'"
      by (simp add: owned_def)
    then have "do_file ops act flags d' depth (fst (Walk name')) t \<noteq> None"
      using do_file_returns assms(1,2) G'(2) start_absolute_leaf [OF r [unfolded Inr st]] by blast
    moreover have "open_element ops d' op' depth (fst (Walk name')) (snd (Walk name')) t \<noteq> None"
      using open_element_returns G' start_absolute_leaf [OF r [unfolded Inr st]] by blast
    ultimately show ?thesis
      using r Inr st by (auto simp: resolve_round_def on_call_eq_None Let_def split: sum.splits)
  qed
qed

lemma resolve_loop_returns:
  assumes "leaf_inv own act" "leaf_returns act" "owned H d opened G" "inv G s" "depth \<le> MaxFollowSymlink"
  shows "resolve_loop ops act flags d opened depth name s \<noteq> None"
  using assms(3-5)
proof (induction "(MaxFollowSymlink - depth, length name)" arbitrary: d opened depth name s G
    rule: wf_induct_rule [OF wf_lex_prod [OF wf_less_than wf_less_than]])
  case 1
  obtain x t where x: "resolve_round ops act flags d opened depth name s = Some (x, t)"
    using resolve_round_returns [OF assms(1,2) 1(2,3)] by fastforce
  note round = resolve_round_inv [OF x assms(1) 1(2,3)]
  show ?case
  proof (cases x)
    case (Inl a)
    obtain ret op where a: "a = (ret, op)"
      by (cases a)
    obtain d' G' where "owned H d' op G'" "inv (G' \<union> given own ret) t"
      using round unfolding Inl a by auto
    then have "close_and_return ops op ret t \<noteq> None"
      using close_returns [of "G' \<union> given own ret" t op] owned_opened [of H d' op G']
      by (auto simp: close_and_return_def on_call_eq_None)
    then show ?thesis
      using x Inl a by (subst resolve_loop.simps) simp
  next
    case (Inr a)
    obtain d' op' depth' name' where a: "a = (d', op', depth', name')"
      by (cases a)
    then have "resolve_loop ops act flags d' op' depth' name' t \<noteq> None"
      using 1(1) round resolve_round_decreases [OF x [unfolded Inr a] 1(4)] unfolding Inr a by auto
    then show ?thesis
      using x Inr a by (subst resolve_loop.simps) simp
  qed
qed

theorem ResolvePath_returns:
  assumes "leaf_inv own act" "leaf_returns act" "inv H s" "d \<in> H"
  shows "ResolvePath ops d name flags act s \<noteq> None"
proof (cases "name = []")
  case True
  then show ?thesis
    using assms by (simp add: ResolvePath_def leaf_returns_def leaf_name_def)
next
  case False
  have "owned H d None H"
    using assms(4) by (simp add: owned_def)
  then show ?thesis
    using resolve_loop_returns [OF assms(1,2) _ assms(3)] False by (simp add: ResolvePath_def)
qed

end

end
