(* ===== verification/Dir_FS.thy ===== *)
theory Dir_FS
  imports Resolve_Path
begin

text \<open>
  The file system of a directory of the host (\<^verbatim>\<open>internal/sandbox/dirfs_unix.go\<close>), over the system calls. The
  files are objects with a count of references: \<open>dir_files\<close> is the store of them, and a file is its index.
  A file refers to the one that it was opened from, so that its parent is reached without the host.

  The system calls are the record \<open>unix\<close>, of functions of a state of the kernel, and \<open>kernel_ok\<close> is what is
  assumed of them: \<open>ino k fd\<close> is the inode that a descriptor is open on, and the calls on directories of the
  set \<open>inside\<close> stay in it, as long as the name is the name of an entry and links are not followed. The
  invariant \<open>dir_inv\<close> then says that every descriptor that the files hold is open on an inode of \<open>inside\<close>.
\<close>

section \<open>System calls\<close>

record unix_stat =
  st_dev :: int
  st_ino :: int
  st_nlink :: int
  st_mode :: int
  st_uid :: int
  st_gid :: int
  st_size :: int
  st_atim :: "int \<times> int"
  st_mtim :: "int \<times> int"
  st_ctim :: "int \<times> int"

type_synonym ('a, 'k) syscall = "'k \<Rightarrow> (sys_error + 'a) \<times> 'k"

record 'k unix =
  unix_openat :: "int \<Rightarrow> string \<Rightarrow> int \<Rightarrow> int \<Rightarrow> (int, 'k) syscall"
  unix_dup :: "int \<Rightarrow> (int, 'k) syscall"
  unix_close :: "int \<Rightarrow> 'k \<Rightarrow> 'k"
  unix_fstat :: "int \<Rightarrow> (unix_stat, 'k) syscall"
  unix_fstatat :: "int \<Rightarrow> string \<Rightarrow> int \<Rightarrow> (unix_stat, 'k) syscall"
  unix_readlinkat :: "int \<Rightarrow> string \<Rightarrow> nat \<Rightarrow> (string, 'k) syscall"
  unix_futimens :: "int \<Rightarrow> (int \<times> int) \<times> int \<times> int \<Rightarrow> (unit, 'k) syscall"
  unix_utimensat :: "int \<Rightarrow> string \<Rightarrow> (int \<times> int) \<times> int \<times> int \<Rightarrow> int \<Rightarrow> (unit, 'k) syscall"
  unix_mkdirat :: "int \<Rightarrow> string \<Rightarrow> int \<Rightarrow> (unit, 'k) syscall"
  unix_unlinkat :: "int \<Rightarrow> string \<Rightarrow> int \<Rightarrow> (unit, 'k) syscall"
  unix_renameat :: "int \<Rightarrow> string \<Rightarrow> int \<Rightarrow> string \<Rightarrow> int \<Rightarrow> (unit, 'k) syscall"
  unix_linkat :: "int \<Rightarrow> string \<Rightarrow> int \<Rightarrow> string \<Rightarrow> int \<Rightarrow> (unit, 'k) syscall"
  unix_symlinkat :: "string \<Rightarrow> int \<Rightarrow> string \<Rightarrow> (unit, 'k) syscall"

partial_function (option) ignoreEINTR :: "('a, 'k) syscall \<Rightarrow> 'k \<Rightarrow> ('a, 'k) file_call" where
  "ignoreEINTR f k = (if fst (f k) = Inl EINTR then ignoreEINTR f (snd (f k)) else Some (f k))"

declare ignoreEINTR.simps [code]

definition O_CLOEXEC :: int where "O_CLOEXEC = 524288"
definition AT_REMOVEDIR :: int where "AT_REMOVEDIR = 512"
definition AT_FDCWD :: int where "AT_FDCWD = - 100"

section \<open>Files\<close>

record dirFile =
  df_dir :: "nat option"
  df_refc :: int
  df_closed :: bool
  df_fd :: int

record 'k dir_state =
  dir_files :: "dirFile list"
  kernel :: 'k

definition kernel_call :: "('a, 'k) syscall \<Rightarrow> 'k dir_state \<Rightarrow> ('a, 'k dir_state) file_call" where
  "kernel_call f s = on_call (ignoreEINTR f (kernel s)) (\<lambda>r k. Some (r, s\<lparr>kernel := k\<rparr>))"

definition openat :: "'k unix \<Rightarrow> int \<Rightarrow> string \<Rightarrow> int \<Rightarrow> int \<Rightarrow> 'k dir_state \<Rightarrow> (int, 'k dir_state) file_call" where
  "openat U dirfd path flags mode = kernel_call (unix_openat U dirfd path (flags OR O_CLOEXEC) mode)"

text \<open>\<^verbatim>\<open>dup\<close> also marks the descriptor as one to close on \<^verbatim>\<open>exec\<close>.\<close>

definition dup :: "'k unix \<Rightarrow> int \<Rightarrow> 'k dir_state \<Rightarrow> (int, 'k dir_state) file_call" where
  "dup U oldfd = kernel_call (unix_dup U oldfd)"

definition update_file :: "nat \<Rightarrow> (dirFile \<Rightarrow> dirFile) \<Rightarrow> 'k dir_state \<Rightarrow> 'k dir_state" where
  "update_file a f s = s\<lparr>dir_files := (dir_files s)[a := f (dir_files s ! a)]\<rparr>"

definition file_ref :: "nat \<Rightarrow> 'k dir_state \<Rightarrow> 'k dir_state" where
  "file_ref a s = update_file a (\<lambda>f. f\<lparr>df_refc := df_refc f + 1\<rparr>) s"

text \<open>\<open>file_unref\<close> includes \<^verbatim>\<open>dirFile.close\<close>, which releases the parent.\<close>

partial_function (option) file_unref :: "'k unix \<Rightarrow> nat \<Rightarrow> 'k dir_state \<Rightarrow> (unit \<times> 'k dir_state) option" where
  "file_unref U a s =
     (let s = update_file a (\<lambda>f. f\<lparr>df_refc := df_refc f - 1\<rparr>) s; f = dir_files s ! a
      in if df_refc f = 0
         then let s = update_file a (\<lambda>f. f\<lparr>df_fd := - 1\<rparr>) (s\<lparr>kernel := unix_close U (df_fd f) (kernel s)\<rparr>)
              in case df_dir f of None \<Rightarrow> Some ((), s) | Some p \<Rightarrow> file_unref U p s
         else Some ((), s))"

declare file_unref.simps [code]

definition newFile :: "nat option \<Rightarrow> int \<Rightarrow> 'k dir_state \<Rightarrow> nat \<times> 'k dir_state" where
  "newFile dir fd s =
     (let a = length (dir_files s);
          s = s\<lparr>dir_files := dir_files s @ [\<lparr>df_dir = dir, df_refc = 0, df_closed = False, df_fd = fd\<rparr>]\<rparr>;
          s = (case dir of None \<Rightarrow> s | Some p \<Rightarrow> file_ref p s)
      in (a, file_ref a s))"

definition dirFile_acquire :: "nat \<Rightarrow> 'k dir_state \<Rightarrow> int \<times> 'k dir_state" where
  "dirFile_acquire a s =
     (if df_closed (dir_files s ! a) then (- 1, s) else (df_fd (dir_files s ! a), file_ref a s))"

definition dirFile_release :: "'k unix \<Rightarrow> nat \<Rightarrow> int \<Rightarrow> 'k dir_state \<Rightarrow> (unit \<times> 'k dir_state) option" where
  "dirFile_release U a fd s = (if 0 \<le> fd then file_unref U a s else Some ((), s))"

definition dirFile_Close :: "'k unix \<Rightarrow> nat \<Rightarrow> 'k dir_state \<Rightarrow> (unit \<times> 'k dir_state) option" where
  "dirFile_Close U a s =
     (if \<not> df_closed (dir_files s ! a) then file_unref U a (update_file a (\<lambda>f. f\<lparr>df_closed := True\<rparr>) s)
      else Some ((), s))"

definition dirFile_openSelf :: "'k unix \<Rightarrow> nat \<Rightarrow> 'k dir_state \<Rightarrow> (nat, 'k dir_state) file_call" where
  "dirFile_openSelf U a s =
     on_call (dup U (df_fd (dir_files s ! a)) s) (\<lambda>r t. case r of
         Inl e \<Rightarrow> Some (Inl e, t)
       | Inr fd \<Rightarrow> Some (apfst Inr (newFile (df_dir (dir_files t ! a)) fd t)))"

definition dirFile_openParent :: "'k unix \<Rightarrow> nat \<Rightarrow> 'k dir_state \<Rightarrow> (nat, 'k dir_state) file_call" where
  "dirFile_openParent U a s =
     dirFile_openSelf U (case df_dir (dir_files s ! a) of Some p \<Rightarrow> p | None \<Rightarrow> a) s"

partial_function (option) file_root :: "dirFile list \<Rightarrow> nat \<Rightarrow> nat option" where
  "file_root fs a = (case df_dir (fs ! a) of None \<Rightarrow> Some a | Some p \<Rightarrow> file_root fs p)"

declare file_root.simps [code]

definition dirFile_openRoot :: "'k unix \<Rightarrow> nat \<Rightarrow> 'k dir_state \<Rightarrow> (nat, 'k dir_state) file_call" where
  "dirFile_openRoot U a s = Option.bind (file_root (dir_files s) a) (\<lambda>a. dirFile_openSelf U a s)"

definition dirFile_openFile ::
  "'k unix \<Rightarrow> nat \<Rightarrow> string \<Rightarrow> int \<Rightarrow> int \<Rightarrow> 'k dir_state \<Rightarrow> (nat, 'k dir_state) file_call"
where
  "dirFile_openFile U a name flags mode s =
     on_call (openat U (df_fd (dir_files s ! a)) name (flags OR O_NOFOLLOW) (mode AND 511) s) (\<lambda>r t. case r of
         Inl e \<Rightarrow> Some (Inl e, t)
       | Inr fd \<Rightarrow> Some (apfst Inr (newFile (Some a) fd t)))"

section \<open>Methods\<close>

definition withFD :: "'k unix \<Rightarrow> nat \<Rightarrow> (int \<Rightarrow> 'k dir_state \<Rightarrow> ('a, 'k dir_state) file_call) \<Rightarrow> 'k dir_state
  \<Rightarrow> ('a, 'k dir_state) file_call"
where
  "withFD U a act s =
     (let (fd, s) = dirFile_acquire a s
      in if fd < 0 then Some (Inl EBADF, s)
         else on_call (act fd s) (\<lambda>r s. on_call (dirFile_release U a fd s) (\<lambda>_ s. Some (r, s))))"

text \<open>
  The methods call one another: opening a path opens its elements, each of which is a path of its own, and
  \<open>readlink\<close> reads a link by the method. The number \<open>n\<close> bounds the depth of these calls.
\<close>

primrec dirFile_ops :: "nat \<Rightarrow> 'k unix \<Rightarrow> (nat, 'k dir_state) file_ops" where
  "dirFile_ops 0 U =
     \<lparr>file_Open = \<lambda>_ _ _ _ _. None, file_Readlink = \<lambda>_ _ _ _. None, file_Close = dirFile_Close U\<rparr>"
| "dirFile_ops (Suc n) U =
     \<lparr>file_Open = \<lambda>f name flags mode.
        FileOpen (dirFile_ops n U) f name flags mode (dirFile_openRoot U) (dirFile_openSelf U)
          (dirFile_openParent U) (dirFile_openFile U),
      file_Readlink = \<lambda>f name k. withFD U f (\<lambda>_.
        ResolvePath (dirFile_ops n U) f name AT_SYMLINK_NOFOLLOW (\<lambda>d name s.
          kernel_call (unix_readlinkat U (df_fd (dir_files s ! d)) name k) s)),
      file_Close = dirFile_Close U\<rparr>"

text \<open>\<^verbatim>\<open>resolvePath1\<close> and \<^verbatim>\<open>resolvePath2\<close>: the function gets the descriptor of the directory of the leaf.\<close>

definition resolvePath ::
  "nat \<Rightarrow> 'k unix \<Rightarrow> nat \<Rightarrow> string \<Rightarrow> int \<Rightarrow> (int \<Rightarrow> string \<Rightarrow> 'k dir_state \<Rightarrow> ('a, 'k dir_state) file_call)
   \<Rightarrow> 'k dir_state \<Rightarrow> ('a, 'k dir_state) file_call"
where
  "resolvePath n U f name flags act =
     withFD U f (\<lambda>_. ResolvePath (dirFile_ops n U) f name flags (\<lambda>d name s. act (df_fd (dir_files s ! d)) name s))"

text \<open>The types of files in the modes of Unix.\<close>

definition S_IFMT :: int where "S_IFMT = 61440"
definition S_IFLNK :: int where "S_IFLNK = 40960"
definition S_IFREG :: int where "S_IFREG = 32768"
definition S_IFBLK :: int where "S_IFBLK = 24576"
definition S_IFDIR :: int where "S_IFDIR = 16384"
definition S_IFCHR :: int where "S_IFCHR = 8192"
definition S_IFIFO :: int where "S_IFIFO = 4096"
definition S_IFSOCK :: int where "S_IFSOCK = 49152"

definition makeFileInfo :: "unix_stat \<Rightarrow> FileInfo" where
  "makeFileInfo st =
     (let perm = st_mode st AND 511; fmt = st_mode st AND S_IFMT
      in \<lparr>fi_dev = st_dev st, fi_ino = st_ino st, fi_nlink = st_nlink st,
          fi_mode = perm OR (if fmt = S_IFREG then 0
            else if fmt = S_IFBLK then ModeDevice
            else if fmt = S_IFCHR then ModeDevice OR ModeCharDevice
            else if fmt = S_IFDIR then ModeDir
            else if fmt = S_IFIFO then ModeNamedPipe
            else if fmt = S_IFLNK then ModeSymlink
            else if fmt = S_IFSOCK then ModeSocket
            else ModeIrregular),
          fi_uid = st_uid st, fi_gid = st_gid st, fi_size = st_size st,
          fi_atime = st_atim st, fi_mtime = st_mtim st, fi_ctime = st_ctim st\<rparr>)"

definition dirFile_Stat :: "nat \<Rightarrow> 'k unix \<Rightarrow> nat \<Rightarrow> string \<Rightarrow> int \<Rightarrow> 'k dir_state \<Rightarrow> (FileInfo, 'k dir_state) file_call" where
  "dirFile_Stat n U f name flags = resolvePath n U f name flags (\<lambda>fd name s.
     on_call (kernel_call (if name = [] then unix_fstat U fd else unix_fstatat U fd name AT_SYMLINK_NOFOLLOW) s)
       (\<lambda>r s. case r of
           Inl e \<Rightarrow> Some (Inl e, s)
         | Inr st \<Rightarrow>
             if st_mode st AND S_IFMT = S_IFLNK \<and> flags AND AT_SYMLINK_NOFOLLOW = 0 then Some (Inl ELOOP, s)
             else Some (Inr (makeFileInfo st), s)))"

definition dirFile_Readlink :: "nat \<Rightarrow> 'k unix \<Rightarrow> nat \<Rightarrow> string \<Rightarrow> nat \<Rightarrow> 'k dir_state \<Rightarrow> (string, 'k dir_state) file_call" where
  "dirFile_Readlink n U f name k = resolvePath n U f name AT_SYMLINK_NOFOLLOW (\<lambda>fd name.
     kernel_call (unix_readlinkat U fd name k))"

definition dirFile_Chtimes ::
  "nat \<Rightarrow> 'k unix \<Rightarrow> nat \<Rightarrow> string \<Rightarrow> (int \<times> int) \<times> int \<times> int \<Rightarrow> int \<Rightarrow> 'k dir_state \<Rightarrow> (unit, 'k dir_state) file_call"
where
  "dirFile_Chtimes n U f name ts flags = resolvePath n U f name flags (\<lambda>fd name s.
     if name = [] then Some (apsnd (\<lambda>k. s\<lparr>kernel := k\<rparr>) (unix_futimens U fd ts (kernel s)))
     else kernel_call (unix_utimensat U fd name ts AT_SYMLINK_NOFOLLOW) s)"

definition dirFile_Mkdir :: "nat \<Rightarrow> 'k unix \<Rightarrow> nat \<Rightarrow> string \<Rightarrow> int \<Rightarrow> 'k dir_state \<Rightarrow> (unit, 'k dir_state) file_call" where
  "dirFile_Mkdir n U f name mode = resolvePath n U f name AT_SYMLINK_NOFOLLOW (\<lambda>fd name.
     kernel_call (unix_mkdirat U fd name (mode AND 511)))"

definition dirFile_Rmdir :: "nat \<Rightarrow> 'k unix \<Rightarrow> nat \<Rightarrow> string \<Rightarrow> 'k dir_state \<Rightarrow> (unit, 'k dir_state) file_call" where
  "dirFile_Rmdir n U f name = resolvePath n U f name AT_SYMLINK_NOFOLLOW (\<lambda>fd name.
     kernel_call (unix_unlinkat U fd name AT_REMOVEDIR))"

definition dirFile_Rename ::
  "nat \<Rightarrow> 'k unix \<Rightarrow> nat \<Rightarrow> string \<Rightarrow> nat \<Rightarrow> string \<Rightarrow> int \<Rightarrow> 'k dir_state \<Rightarrow> (unit, 'k dir_state) file_call"
where
  "dirFile_Rename n U f1 oldName f2 newName flags = resolvePath n U f1 oldName AT_SYMLINK_NOFOLLOW (\<lambda>fd1 name1.
     resolvePath n U f2 newName AT_SYMLINK_NOFOLLOW (\<lambda>fd2 name2.
       kernel_call (unix_renameat U fd1 name1 fd2 name2 flags)))"

definition dirFile_Link ::
  "nat \<Rightarrow> 'k unix \<Rightarrow> nat \<Rightarrow> string \<Rightarrow> nat \<Rightarrow> string \<Rightarrow> int \<Rightarrow> 'k dir_state \<Rightarrow> (unit, 'k dir_state) file_call"
where
  "dirFile_Link n U f1 oldName f2 newName flags = resolvePath n U f1 oldName flags (\<lambda>fd1 name1.
     resolvePath n U f2 newName flags (\<lambda>fd2 name2.
       kernel_call (unix_linkat U fd1 name1 fd2 name2 0)))"

definition dirFile_Symlink :: "nat \<Rightarrow> 'k unix \<Rightarrow> nat \<Rightarrow> string \<Rightarrow> string \<Rightarrow> 'k dir_state \<Rightarrow> (unit, 'k dir_state) file_call" where
  "dirFile_Symlink n U f oldName newName = resolvePath n U f newName AT_SYMLINK_NOFOLLOW (\<lambda>fd name.
     kernel_call (unix_symlinkat U oldName fd name))"

definition dirFile_Unlink :: "nat \<Rightarrow> 'k unix \<Rightarrow> nat \<Rightarrow> string \<Rightarrow> 'k dir_state \<Rightarrow> (unit, 'k dir_state) file_call" where
  "dirFile_Unlink n U f name = resolvePath n U f name AT_SYMLINK_NOFOLLOW (\<lambda>fd name.
     kernel_call (unix_unlinkat U fd name 0))"

section \<open>The file system\<close>

definition dirFS_openRoot :: "'k unix \<Rightarrow> string \<Rightarrow> 'k dir_state \<Rightarrow> (nat, 'k dir_state) file_call" where
  "dirFS_openRoot U root s =
     on_call (openat U AT_FDCWD root O_DIRECTORY 0 s) (\<lambda>r s. case r of
         Inl e \<Rightarrow> Some (Inl e, s)
       | Inr fd \<Rightarrow> Some (apfst Inr (newFile None fd s)))"

definition dirFS_Open ::
  "nat \<Rightarrow> 'k unix \<Rightarrow> string \<Rightarrow> string \<Rightarrow> int \<Rightarrow> int \<Rightarrow> 'k dir_state \<Rightarrow> (nat, 'k dir_state) file_call"
where
  "dirFS_Open n U root name flags mode s =
     on_call (dirFS_openRoot U root s) (\<lambda>r s. case r of
         Inl e \<Rightarrow> Some (Inl e, s)
       | Inr f \<Rightarrow>
           if IsRoot name then Some (Inr f, s)
           else on_call (file_Open (dirFile_ops n U) f name flags mode s) (\<lambda>r s.
             on_call (dirFile_Close U f s) (\<lambda>_ s. Some (r, s))))"

section \<open>Reference counts\<close>

abbreviation live :: "dirFile list \<Rightarrow> nat set" where
  "live fs \<equiv> {a. a < length fs \<and> 0 < df_refc (fs ! a)}"

definition children :: "dirFile list \<Rightarrow> nat \<Rightarrow> nat set" where
  "children fs a = {b \<in> live fs. df_dir (fs ! b) = Some a}"

text \<open>
  A file is referred to by its user until it is closed, by the files opened from it, and by the methods
  that run on it: \<open>acq\<close> counts these.
\<close>

definition counts_ok :: "(nat \<Rightarrow> nat) \<Rightarrow> dirFile list \<Rightarrow> bool" where
  "counts_ok acq fs \<longleftrightarrow>
     (\<forall>a<length fs. df_refc (fs ! a) = (if df_closed (fs ! a) then 0 else 1) + int (card (children fs a)) + int (acq a))
     \<and> (\<forall>a. length fs \<le> a \<longrightarrow> acq a = 0)
     \<and> (\<forall>b<length fs. \<forall>a. df_dir (fs ! b) = Some a \<longrightarrow> a < b)"

abbreviation fds :: "dirFile list \<Rightarrow> int set" where
  "fds fs \<equiv> (\<lambda>a. df_fd (fs ! a)) ` live fs"

text \<open>The other descriptors of the program, \<open>base\<close>, are those of before.\<close>

definition fds_ok :: "(int \<rightharpoonup> 'i) \<Rightarrow> 'i set \<Rightarrow> dirFile list \<Rightarrow> (int \<rightharpoonup> 'i) \<Rightarrow> bool" where
  "fds_ok base inside fs m \<longleftrightarrow>
     (\<forall>a\<in>live fs. 0 \<le> df_fd (fs ! a) \<and> (\<exists>i\<in>inside. m (df_fd (fs ! a)) = Some i) \<and> base (df_fd (fs ! a)) = None)
     \<and> inj_on (\<lambda>a. df_fd (fs ! a)) (live fs) \<and> (\<forall>x. x \<notin> fds fs \<longrightarrow> m x = base x)"

definition dir_inv :: "('k \<Rightarrow> int \<rightharpoonup> 'i) \<Rightarrow> 'i set \<Rightarrow> (int \<rightharpoonup> 'i) \<Rightarrow> (nat \<Rightarrow> nat) \<Rightarrow> nat set \<Rightarrow> 'k dir_state \<Rightarrow> bool" where
  "dir_inv ino inside base acq H s \<longleftrightarrow>
     H = {a. a < length (dir_files s) \<and> \<not> df_closed (dir_files s ! a)}
     \<and> counts_ok acq (dir_files s) \<and> fds_ok base inside (dir_files s) (ino (kernel s))"

lemma finite_children [simp]: "finite (children fs a)"
  by (simp add: children_def)

lemma live_if: "counts_ok acq fs \<Longrightarrow> a < length fs \<Longrightarrow> \<not> df_closed (fs ! a) \<or> 0 < acq a \<Longrightarrow> a \<in> live fs"
  by (auto simp: counts_ok_def)

lemma parent_live:
  assumes "counts_ok acq fs" "b \<in> live fs" "df_dir (fs ! b) = Some a"
  shows "a \<in> live fs \<and> a < b"
proof -
  have "a < b" "a < length fs"
    using assms by (auto simp: counts_ok_def)
  moreover have "b \<in> children fs a"
    using assms by (simp add: children_def)
  then have "0 < card (children fs a)"
    by (auto simp: card_gt_0_iff)
  ultimately show ?thesis
    using assms(1) by (auto simp: counts_ok_def)
qed

lemma children_update:
  assumes "\<And>b. b < length fs \<Longrightarrow> df_dir (fs' ! b) = df_dir (fs ! b) \<and> (0 < df_refc (fs' ! b) \<longleftrightarrow> 0 < df_refc (fs ! b))"
    and "length fs' = length fs"
  shows "children fs' a = children fs a" "live fs' = live fs"
  using assms by (auto simp: children_def)

text \<open>A new file.\<close>

definition added :: "dirFile list \<Rightarrow> nat option \<Rightarrow> int \<Rightarrow> dirFile list" where
  "added fs dir fd =
     (case dir of None \<Rightarrow> fs | Some p \<Rightarrow> fs[p := (fs ! p)\<lparr>df_refc := df_refc (fs ! p) + 1\<rparr>])
     @ [\<lparr>df_dir = dir, df_refc = 1, df_closed = False, df_fd = fd\<rparr>]"

lemma newFile_files:
  assumes "\<forall>p. dir = Some p \<longrightarrow> p < length (dir_files s)"
  shows "dir_files (snd (newFile dir fd s)) = added (dir_files s) dir fd"
  using assms
  by (cases dir) (auto simp: newFile_def file_ref_def update_file_def added_def Let_def list_update_append nth_append)

lemma newFile_kernel [simp]: "kernel (snd (newFile dir fd s)) = kernel s" "fst (newFile dir fd s) = length (dir_files s)"
  by (auto simp: newFile_def file_ref_def update_file_def Let_def split: option.splits)

lemma nth_update_if: "a < length xs \<Longrightarrow> xs[i := v] ! a = (if i = a then v else xs ! a)"
  by (cases "i = a") simp_all

lemma added_simps [simp]:
  "length (added fs dir fd) = Suc (length fs)"
  "added fs dir fd ! length fs = \<lparr>df_dir = dir, df_refc = 1, df_closed = False, df_fd = fd\<rparr>"
  "a < length fs \<Longrightarrow> df_dir (added fs dir fd ! a) = df_dir (fs ! a)"
  "a < length fs \<Longrightarrow> df_closed (added fs dir fd ! a) = df_closed (fs ! a)"
  "a < length fs \<Longrightarrow> df_fd (added fs dir fd ! a) = df_fd (fs ! a)"
  "a < length fs \<Longrightarrow> df_refc (added fs dir fd ! a) = df_refc (fs ! a) + (if dir = Some a then 1 else 0)"
  by (auto simp: added_def nth_append nth_update_if split: option.splits)

lemma live_added:
  assumes "\<forall>p. dir = Some p \<longrightarrow> p \<in> live fs"
  shows "live (added fs dir fd) = insert (length fs) (live fs)"
  using assms by (auto simp: less_Suc_eq split: if_splits)

lemma children_added:
  assumes "\<forall>p. dir = Some p \<longrightarrow> p \<in> live fs"
  shows "children (added fs dir fd) a = (if dir = Some a then insert (length fs) (children fs a) else children fs a)"
  unfolding children_def live_added [OF assms] by auto

lemma counts_added:
  assumes "counts_ok acq fs" "\<forall>p. dir = Some p \<longrightarrow> p \<in> live fs"
  shows "counts_ok acq (added fs dir fd)"
proof -
  have no: "length fs \<notin> children fs a" "children fs (length fs) = {}" for a
    using assms(1) by (fastforce simp: children_def counts_ok_def)+
  have count: "df_refc (added fs dir fd ! a) = (if df_closed (added fs dir fd ! a) then 0 else 1)
      + int (card (children (added fs dir fd) a)) + int (acq a)" if "a < Suc (length fs)" for a
  proof (cases "a = length fs")
    case True
    then show ?thesis
      using assms no by (auto simp: children_added [OF assms(2)] counts_ok_def)
  next
    case False
    then have "a < length fs"
      using that by simp
    then show ?thesis
      using assms(1) no by (simp add: children_added [OF assms(2)] counts_ok_def)
  qed
  then show ?thesis
    using assms by (auto simp: counts_ok_def less_Suc_eq)
qed

lemma fds_added:
  assumes "fds_ok base inside fs m" "\<forall>p. dir = Some p \<longrightarrow> p \<in> live fs" "m fd = None" "0 \<le> fd" "i \<in> inside"
  shows "fds_ok base inside (added fs dir fd) (m(fd \<mapsto> i))"
proof -
  have new: "fd \<notin> fds fs"
    using assms(1,3) by (auto simp: fds_ok_def)
  then have "base fd = None"
    using assms(1,3) by (simp add: fds_ok_def)
  moreover have "fds (added fs dir fd) = insert fd (fds fs)"
    unfolding live_added [OF assms(2)] by (auto simp: image_iff)
  moreover have "inj_on (\<lambda>a. df_fd (added fs dir fd ! a)) (insert (length fs) (live fs))"
    using assms(1) new by (auto simp: fds_ok_def inj_on_def image_iff)
  ultimately show ?thesis
    using assms(1,4,5) new unfolding fds_ok_def live_added [OF assms(2)] by (auto simp: image_iff)
qed

text \<open>A reference is given back.\<close>

lemma kernel_update_file [simp]: "kernel (update_file a f s) = kernel s"
  by (simp add: update_file_def)

lemma length_update_file [simp]: "length (dir_files (update_file a f s)) = length (dir_files s)"
  by (simp add: update_file_def)

lemma update_file_nth:
  "b < length (dir_files s) \<Longrightarrow>
     dir_files (update_file a f s) ! b = (if a = b then f (dir_files s ! b) else dir_files s ! b)"
  by (auto simp: update_file_def nth_update_if)

text \<open>One that is not the last one.\<close>

lemma release_some:
  assumes "counts_ok (acq(a := Suc (acq a))) fs" "a < length fs" "length fs' = length fs"
    and "\<And>b. b < length fs \<Longrightarrow> fs' ! b = (if b = a then (fs ! b)\<lparr>df_refc := df_refc (fs ! b) - 1\<rparr> else fs ! b)"
    and "df_refc (fs ! a) \<noteq> 1"
  shows "counts_ok acq fs'" "live fs' = live fs" "fds fs' = fds fs"
proof -
  have "1 < df_refc (fs ! a)"
    using assms(1,2,5) by (auto simp: counts_ok_def)
  then have b: "df_dir (fs' ! b) = df_dir (fs ! b) \<and> (0 < df_refc (fs' ! b) \<longleftrightarrow> 0 < df_refc (fs ! b))"
    if "b < length fs" for b
    using assms(4) [OF that] by auto
  note same = children_update [OF b assms(3)]
  show "live fs' = live fs"
    by (rule same(2))
  show "fds fs' = fds fs"
    by (rule image_cong [OF same(2)]) (use assms(4) in auto)
  show "counts_ok acq fs'"
    using assms(1,3,4) by (auto simp: counts_ok_def same(1) split: if_splits)
qed

text \<open>The last one: the file is gone, and its parent has lost one.\<close>

lemma release_last:
  assumes "counts_ok (acq(a := Suc (acq a))) fs" "a < length fs" "length fs' = length fs"
    and "\<And>b. b < length fs \<Longrightarrow> fs' ! b = (if b = a then (fs ! b)\<lparr>df_refc := 0, df_fd := - 1\<rparr> else fs ! b)"
    and "df_refc (fs ! a) = 1"
  shows "counts_ok (case df_dir (fs ! a) of None \<Rightarrow> acq | Some p \<Rightarrow> acq(p := Suc (acq p))) fs'"
    "live fs' = live fs - {a}" "fds fs' = (\<lambda>b. df_fd (fs ! b)) ` (live fs - {a})"
proof -
  show live': "live fs' = live fs - {a}"
    using assms(2-4) by (auto split: if_splits)
  show "fds fs' = (\<lambda>b. df_fd (fs ! b)) ` (live fs - {a})"
    by (rule image_cong [OF live']) (use assms(4) in auto)
  have children': "children fs' b = children fs b - {a}" for b
    using assms(4) unfolding children_def live' by auto
  have a: "a \<in> children fs p \<longleftrightarrow> df_dir (fs ! a) = Some p" for p
    using assms(2,5) by (simp add: children_def)
  then have card: "int (card (children fs' b)) = int (card (children fs b)) - (if df_dir (fs ! a) = Some b then 1 else 0)" for b
    unfolding children' by (simp add: card_Diff_singleton_if) (metis One_nat_def Suc_pred card_gt_0_iff empty_iff finite_children of_nat_Suc add_diff_cancel_left' diff_Suc_1)
  have refs: "(if df_closed (fs ! a) then 0 else 1) + int (card (children fs a)) + int (acq a) = 0"
    using assms(1,2,5) by (simp add: counts_ok_def)
  have "df_closed (fs ! a) \<and> int (card (children fs a)) + int (acq a) = 0"
  proof (cases "df_closed (fs ! a)")
    case True
    then show ?thesis
      using refs by simp
  next
    case False
    then have "1 + int (card (children fs a)) + int (acq a) = 0"
      using refs by (simp only: if_False)
    then show ?thesis
      by linarith
  qed
  then have "card (children fs a) = 0" and none: "acq a = 0" "df_closed (fs ! a)"
    by linarith+
  then have "children fs a = {}"
    by (simp add: card_eq_0_iff)
  have order: "p < a" if "df_dir (fs ! a) = Some p" for p
    using assms(1,2) that by (auto simp: counts_ok_def)
  show "counts_ok (case df_dir (fs ! a) of None \<Rightarrow> acq | Some p \<Rightarrow> acq(p := Suc (acq p))) fs'"
    using assms(1-4) none \<open>children fs a = {}\<close> order by (auto simp: counts_ok_def card split: option.splits if_splits)
qed

lemma fds_ok_same:
  assumes "fds_ok base inside fs m" "live fs' = live fs" "\<And>a. a \<in> live fs \<Longrightarrow> df_fd (fs' ! a) = df_fd (fs ! a)"
  shows "fds_ok base inside fs' m"
proof -
  have "fds fs' = fds fs"
    by (rule image_cong [OF assms(2)]) (use assms(3) in auto)
  moreover have "inj_on (\<lambda>a. df_fd (fs' ! a)) (live fs)"
    using assms(1,3) by (subst inj_on_cong [of _ _ "\<lambda>a. df_fd (fs ! a)"]) (auto simp: fds_ok_def)
  moreover have "\<forall>a\<in>live fs. 0 \<le> df_fd (fs' ! a) \<and> (\<exists>i\<in>inside. m (df_fd (fs' ! a)) = Some i) \<and> base (df_fd (fs' ! a)) = None"
    using assms(1,3) by (auto simp: fds_ok_def)
  ultimately show ?thesis
    using assms(1) unfolding fds_ok_def assms(2) by blast
qed

lemma fds_ok_removed:
  assumes "fds_ok base inside fs m" "live fs' = live fs - {a}" "a \<in> live fs"
    and "\<And>b. b \<in> live fs' \<Longrightarrow> df_fd (fs' ! b) = df_fd (fs ! b)"
  shows "fds_ok base inside fs' (m(df_fd (fs ! a) := None))"
proof -
  have inj: "inj_on (\<lambda>a. df_fd (fs ! a)) (live fs)"
    using assms(1) by (simp add: fds_ok_def)
  have fds: "fds fs' = fds fs - {df_fd (fs ! a)}"
  proof -
    have "fds fs' = (\<lambda>b. df_fd (fs ! b)) ` (live fs - {a})"
      by (rule image_cong [OF assms(2)]) (use assms(2,4) in auto)
    then show ?thesis
      using inj_on_image_set_diff [OF inj, of "live fs" "{a}"] assms(3) by simp
  qed
  have other: "df_fd (fs' ! b) = df_fd (fs ! b) \<and> df_fd (fs ! b) \<noteq> df_fd (fs ! a) \<and> b \<in> live fs" if "b \<in> live fs'" for b
    using that assms(2-4) inj unfolding inj_on_def by blast
  have "inj_on (\<lambda>a. df_fd (fs' ! a)) (live fs')"
    using inj other by (auto simp: inj_on_def)
  moreover have "base (df_fd (fs ! a)) = None"
    using assms(1,3) by (auto simp: fds_ok_def)
  ultimately show ?thesis
    using assms(1) other unfolding fds_ok_def fds by auto
qed

section \<open>The kernel\<close>

text \<open>
  What the calls do to the open descriptors. A name that is looked up is a component other than \<^verbatim>\<open>"."\<close> and
  \<^verbatim>\<open>".."\<close>, which is an entry of the directory, or it is empty, which is an error. Calls are not
  interrupted for ever.
\<close>

definition keeps_fds :: "('k \<Rightarrow> int \<rightharpoonup> 'i) \<Rightarrow> ('a, 'k) syscall \<Rightarrow> bool" where
  "keeps_fds ino f \<longleftrightarrow> (\<forall>k. ino (snd (f k)) = ino k) \<and> (\<forall>k. ignoreEINTR f k \<noteq> None)"

text \<open>A call that opens a descriptor on an inode of \<open>inside\<close>.\<close>

definition opens_inside :: "('k \<Rightarrow> int \<rightharpoonup> 'i) \<Rightarrow> 'i set \<Rightarrow> (int, 'k) syscall \<Rightarrow> 'k \<Rightarrow> bool" where
  "opens_inside ino inside f k \<longleftrightarrow>
     (case f k of
        (Inl e, k') \<Rightarrow> ino k' = ino k
      | (Inr x, k') \<Rightarrow> 0 \<le> x \<and> ino k x = None \<and> (\<exists>i\<in>inside. ino k' = (ino k)(x \<mapsto> i)))"

text \<open>The path of the root is that of a directory of \<open>inside\<close>, if it exists.\<close>

definition root_ok :: "'k unix \<Rightarrow> ('k \<Rightarrow> int \<rightharpoonup> 'i) \<Rightarrow> 'i set \<Rightarrow> string \<Rightarrow> bool" where
  "root_ok U ino inside root \<longleftrightarrow>
     (\<forall>k. opens_inside ino inside (unix_openat U AT_FDCWD root (O_DIRECTORY OR O_CLOEXEC) 0) k)"

definition kernel_ok :: "'k unix \<Rightarrow> ('k \<Rightarrow> int \<rightharpoonup> 'i) \<Rightarrow> 'i set \<Rightarrow> bool" where
  "kernel_ok U ino inside \<longleftrightarrow>
     (\<forall>k fd i name flags mode. ino k fd = Some i \<longrightarrow> i \<in> inside \<longrightarrow> entry_name name \<or> name = [] \<longrightarrow>
        flags AND O_NOFOLLOW \<noteq> 0 \<longrightarrow> opens_inside ino inside (unix_openat U fd name flags mode) k)
     \<and> (\<forall>k fd i. ino k fd = Some i \<longrightarrow> i \<in> inside \<longrightarrow> opens_inside ino inside (unix_dup U fd) k)
     \<and> (\<forall>k fd. ino (unix_close U fd k) = (ino k)(fd := None))
     \<and> (\<forall>fd name n. keeps_fds ino (unix_readlinkat U fd name n))
     \<and> (\<forall>k fd name flags mode. ignoreEINTR (unix_openat U fd name flags mode) k \<noteq> None)
     \<and> (\<forall>k fd. ignoreEINTR (unix_dup U fd) k \<noteq> None)"

locale host_kernel =
  fixes U :: "'k unix" and ino :: "'k \<Rightarrow> int \<rightharpoonup> 'i" and inside :: "'i set" and base :: "int \<rightharpoonup> 'i"
  assumes kernel: "kernel_ok U ino inside"
begin

abbreviation inv :: "(nat \<Rightarrow> nat) \<Rightarrow> nat set \<Rightarrow> 'k dir_state \<Rightarrow> bool" where
  "inv \<equiv> dir_inv ino inside base"

lemma file_unref_inv:
  assumes "counts_ok (acq(a := Suc (acq a))) (dir_files s)" "fds_ok base inside (dir_files s) (ino (kernel s))"
    and "a < length (dir_files s)"
  shows "\<exists>t. file_unref U a s = Some ((), t) \<and> counts_ok acq (dir_files t)
    \<and> fds_ok base inside (dir_files t) (ino (kernel t)) \<and> length (dir_files t) = length (dir_files s)
    \<and> (\<forall>b<length (dir_files s). df_closed (dir_files t ! b) = df_closed (dir_files s ! b))"
  using assms
proof (induction a arbitrary: acq s rule: less_induct)
  case (less a)
  let ?fs = "dir_files s"
  let ?s = "update_file a (\<lambda>f. f\<lparr>df_refc := df_refc f - 1\<rparr>) s"
  show ?case
  proof (cases "df_refc (?fs ! a) = 1")
    case False
    then have "file_unref U a s = Some ((), ?s)"
      using less.prems(3) by (subst file_unref.simps) (simp add: update_file_nth Let_def)
    moreover have fs: "counts_ok acq (dir_files ?s)" "live (dir_files ?s) = live ?fs" "fds (dir_files ?s) = fds ?fs"
      using release_some [of acq a ?fs "dir_files ?s"] less.prems False by (auto simp: update_file_nth)
    moreover have "fds_ok base inside (dir_files ?s) (ino (kernel ?s))"
      using fds_ok_same [OF less.prems(2) fs(2)] by (auto simp: update_file_nth)
    ultimately show ?thesis
      by (auto simp: update_file_nth)
  next
    case True
    let ?fd = "df_fd (?fs ! a)"
    let ?t = "update_file a (\<lambda>f. f\<lparr>df_fd := - 1\<rparr>) (?s\<lparr>kernel := unix_close U ?fd (kernel s)\<rparr>)"
    have eq: "file_unref U a s = (case df_dir (?fs ! a) of None \<Rightarrow> Some ((), ?t) | Some p \<Rightarrow> file_unref U p ?t)"
      using True less.prems(3) by (subst file_unref.simps) (simp add: update_file_nth Let_def)
    have nth: "dir_files ?t ! b = (if b = a then (?fs ! b)\<lparr>df_refc := 0, df_fd := - 1\<rparr> else ?fs ! b)"
      if "b < length ?fs" for b
      using that True by (simp add: update_file_def nth_update_if)
    have len: "length (dir_files ?t) = length ?fs"
      by (simp add: update_file_def)
    note last = release_last [OF less.prems(1,3) len nth True]
    have live: "a \<in> live ?fs"
      using True less.prems(3) by simp
    have "fds_ok base inside (dir_files ?t) ((ino (kernel s))(?fd := None))"
      by (rule fds_ok_removed [OF less.prems(2) last(2) live]) (use nth last(2) in auto)
    moreover have "ino (kernel ?t) = (ino (kernel s))(?fd := None)"
      using kernel by (simp add: kernel_ok_def)
    ultimately have fds: "fds_ok base inside (dir_files ?t) (ino (kernel ?t))"
      by simp
    have closed: "df_closed (dir_files ?t ! b) = df_closed (?fs ! b)" if "b < length ?fs" for b
      using nth [OF that] by simp
    show ?thesis
    proof (cases "df_dir (?fs ! a)")
      case None
      then show ?thesis
        using eq last(1) fds len closed by simp
    next
      case (Some p)
      have "p < a"
        using less.prems(1,3) Some by (auto simp: counts_ok_def)
      moreover have "counts_ok (acq(p := Suc (acq p))) (dir_files ?t)" "p < length (dir_files ?t)"
        using last(1) Some \<open>p < a\<close> less.prems(3) len by simp_all
      ultimately obtain u where "file_unref U p ?t = Some ((), u)" "counts_ok acq (dir_files u)"
        "fds_ok base inside (dir_files u) (ino (kernel u))" "length (dir_files u) = length (dir_files ?t)"
        "\<forall>b<length (dir_files ?t). df_closed (dir_files u ! b) = df_closed (dir_files ?t ! b)"
        using less.IH [of p acq ?t] fds by blast
      then show ?thesis
        using eq Some len closed by simp
    qed
  qed
qed

lemma on_kernel_call: "on_call (kernel_call f s) g = on_call (ignoreEINTR f (kernel s)) (\<lambda>r k. g r (s\<lparr>kernel := k\<rparr>))"
  by (cases "ignoreEINTR f (kernel s)") (auto simp: kernel_call_def)

text \<open>The calls of the kernel, repeated as long as they are interrupted.\<close>

definition opened_inside :: "(int \<rightharpoonup> 'i) \<Rightarrow> sys_error + int \<Rightarrow> 'k \<Rightarrow> bool" where
  "opened_inside m r k' \<longleftrightarrow>
     (case r of Inl e \<Rightarrow> ino k' = m | Inr x \<Rightarrow> 0 \<le> x \<and> m x = None \<and> (\<exists>i\<in>inside. ino k' = m(x \<mapsto> i)))"

lemmas ignoreEINTR_induct = ignoreEINTR.raw_induct [rotated, consumes 1, case_names loop]

lemma ignoreEINTR_opens:
  assumes "ignoreEINTR f k = Some y" "\<And>k. ino k = m \<Longrightarrow> opens_inside ino inside f k" "ino k = m"
  shows "opened_inside m (fst y) (snd y)"
proof -
  have "(\<And>k. ino k = m \<Longrightarrow> opens_inside ino inside f k) \<Longrightarrow> ino k = m \<Longrightarrow> opened_inside m (fst y) (snd y)"
    if "ignoreEINTR f k = Some y" for f :: "(int, 'k) syscall" and k y
    using that
  proof (induction rule: ignoreEINTR_induct)
    case (loop rec f k y)
    obtain r k' where fk: "f k = (r, k')"
      by (cases "f k")
    have o: "opened_inside m r k'"
      using loop.prems(1) [OF loop.prems(2)] loop.prems(2) fk
      by (auto simp: opens_inside_def opened_inside_def split: sum.splits)
    show ?case
    proof (cases "r = Inl EINTR")
      case True
      then have "rec f k' = Some y" "ino k' = m"
        using loop.hyps fk o by (auto simp: opened_inside_def)
      then show ?thesis
        using loop.IH loop.prems(1) by blast
    next
      case False
      then show ?thesis
        using loop.hyps fk o by (auto split: if_splits)
    qed
  qed
  then show ?thesis
    using assms by blast
qed

lemma ignoreEINTR_keeps:
  assumes "ignoreEINTR f k = Some y" "keeps_fds ino f"
  shows "ino (snd y) = ino k"
proof -
  have "keeps_fds ino f \<Longrightarrow> ino (snd y) = ino k" if "ignoreEINTR f k = Some y" for f :: "('a, 'k) syscall" and k y
    using that
  proof (induction rule: ignoreEINTR_induct)
    case (loop rec f k y)
    then show ?case
      by (cases "fst (f k) = Inl EINTR") (auto simp: keeps_fds_def)
  qed
  then show ?thesis
    using assms by blast
qed

text \<open>A new file on a descriptor that was just opened.\<close>

lemma newFile_inv:
  assumes "inv acq H s" "\<forall>p. dir = Some p \<longrightarrow> p \<in> live (dir_files s)" "opened_inside (ino (kernel s)) (Inr x) k'"
  defines "t \<equiv> snd (newFile dir x (s\<lparr>kernel := k'\<rparr>))"
  shows "length (dir_files s) \<notin> H" "inv acq (insert (length (dir_files s)) H) t"
proof -
  obtain i where i: "0 \<le> x" "ino (kernel s) x = None" "i \<in> inside" "ino k' = (ino (kernel s))(x \<mapsto> i)"
    using assms(3) by (auto simp: opened_inside_def)
  have files: "dir_files t = added (dir_files s) dir x"
    unfolding t_def by (subst newFile_files) (use assms(2) in auto)
  show "length (dir_files s) \<notin> H"
    using assms(1) by (simp add: dir_inv_def)
  have "counts_ok acq (dir_files t)"
    unfolding files by (rule counts_added [OF _ assms(2)]) (use assms(1) in \<open>simp add: dir_inv_def\<close>)
  moreover have "fds_ok base inside (dir_files t) (ino (kernel t))"
    using fds_added [of base inside "dir_files s" "ino (kernel s)" dir x i] i assms(2) assms(1) i(4) unfolding files by (simp add: t_def dir_inv_def)
  moreover have "insert (length (dir_files s)) H = {a. a < length (dir_files t) \<and> \<not> df_closed (dir_files t ! a)}"
    using assms(1) unfolding files dir_inv_def by (auto simp: less_Suc_eq)
  ultimately show "inv acq (insert (length (dir_files s)) H) t"
    by (simp add: dir_inv_def)
qed

definition gives_new :: "(nat \<Rightarrow> nat) \<Rightarrow> nat set \<Rightarrow> (nat, 'k dir_state) file_call \<Rightarrow> bool" where
  "gives_new acq H m \<longleftrightarrow> (\<exists>r t. m = Some (r, t) \<and> given (\<lambda>f. {f}) r \<inter> H = {} \<and> inv acq (H \<union> given (\<lambda>f. {f}) r) t)"

lemma open_new:
  assumes "inv acq H s" "\<forall>p. dir = Some p \<longrightarrow> p \<in> live (dir_files s)"
    and "\<And>k. ino k = ino (kernel s) \<Longrightarrow> opens_inside ino inside f k" "ignoreEINTR f (kernel s) \<noteq> None"
  shows "gives_new acq H (on_call (kernel_call f s) (\<lambda>r t. case r of
     Inl e \<Rightarrow> Some (Inl e, t) | Inr fd \<Rightarrow> Some (apfst Inr (newFile dir fd t))))"
proof -
  obtain r k where r: "ignoreEINTR f (kernel s) = Some (r, k)"
    using assms(4) by fastforce
  have o: "opened_inside (ino (kernel s)) r k"
    using ignoreEINTR_opens [OF r assms(3) refl] by simp
  show ?thesis
  proof (cases r)
    case (Inl e)
    then have "inv acq H (s\<lparr>kernel := k\<rparr>)"
      using assms(1) o by (simp add: dir_inv_def opened_inside_def)
    then show ?thesis
      using Inl r by (simp add: gives_new_def kernel_call_def)
  next
    case (Inr x)
    then show ?thesis
      using newFile_inv [OF assms(1,2), of x k] o r by (simp add: gives_new_def kernel_call_def apfst_def map_prod_def split_beta)
  qed
qed

lemma live_inode:
  assumes "inv acq H s" "a \<in> live (dir_files s)"
  obtains i where "ino (kernel s) (df_fd (dir_files s ! a)) = Some i" "i \<in> inside"
  using assms unfolding dir_inv_def fds_ok_def by blast

lemma H_live: "inv acq H s \<Longrightarrow> a \<in> H \<Longrightarrow> a \<in> live (dir_files s)"
  by (rule live_if [of acq]) (auto simp: dir_inv_def)

lemma inv_parent:
  assumes "inv acq H s" "a \<in> live (dir_files s)" "df_dir (dir_files s ! a) = Some p"
  shows "p \<in> live (dir_files s) \<and> p < a"
  by (rule parent_live [of acq]) (use assms in \<open>simp_all add: dir_inv_def\<close>)

lemma openSelf_inv:
  assumes "inv acq H s" "a \<in> live (dir_files s)"
  shows "gives_new acq H (dirFile_openSelf U a s)"
proof -
  let ?fd = "df_fd (dir_files s ! a)"
  obtain i where i: "ino (kernel s) ?fd = Some i" "i \<in> inside"
    using live_inode assms by blast
  have "opens_inside ino inside (unix_dup U ?fd) k" if "ino k = ino (kernel s)" for k
    using kernel i that unfolding kernel_ok_def by metis
  moreover have "ignoreEINTR (unix_dup U ?fd) (kernel s) \<noteq> None"
    using kernel by (simp add: kernel_ok_def)
  moreover have "\<forall>p. df_dir (dir_files s ! a) = Some p \<longrightarrow> p \<in> live (dir_files s)"
    using inv_parent [OF assms] by blast
  moreover have "dirFile_openSelf U a s = on_call (kernel_call (unix_dup U ?fd) s) (\<lambda>r t. case r of
     Inl e \<Rightarrow> Some (Inl e, t) | Inr fd \<Rightarrow> Some (apfst Inr (newFile (df_dir (dir_files s ! a)) fd t)))"
    by (simp add: dirFile_openSelf_def dup_def on_kernel_call cong: sum.case_cong)
  ultimately show ?thesis
    using open_new [OF assms(1)] by simp
qed

lemma openParent_inv:
  assumes "inv acq H s" "a \<in> live (dir_files s)"
  shows "gives_new acq H (dirFile_openParent U a s)"
proof -
  have "p \<in> live (dir_files s)" if "df_dir (dir_files s ! a) = Some p" for p
    using inv_parent [OF assms that] by blast
  then show ?thesis
    using openSelf_inv [OF assms(1)] assms(2) by (auto simp: dirFile_openParent_def split: option.splits)
qed

lemma file_root_live:
  assumes "inv acq H s"
  shows "a \<in> live (dir_files s) \<Longrightarrow> \<exists>p \<in> live (dir_files s). file_root (dir_files s) a = Some p"
proof (induction a rule: less_induct)
  case (less a)
  show ?case
  proof (cases "df_dir (dir_files s ! a)")
    case None
    then show ?thesis
      using less.prems by (subst file_root.simps) simp
  next
    case (Some p)
    then have "p \<in> live (dir_files s)" "p < a"
      using inv_parent [OF assms less.prems] by blast+
    then show ?thesis
      using less.IH Some by (subst file_root.simps) simp
  qed
qed

lemma openRoot_inv:
  assumes "inv acq H s" "a \<in> live (dir_files s)"
  shows "gives_new acq H (dirFile_openRoot U a s)"
  using file_root_live [OF assms] openSelf_inv [OF assms(1)] by (auto simp: dirFile_openRoot_def)

lemma openat_inside:
  assumes "inv acq H s" "a \<in> live (dir_files s)" "entry_name name \<or> name = []" "ino k = ino (kernel s)"
  shows "opens_inside ino inside (unix_openat U (df_fd (dir_files s ! a)) name ((flags OR O_NOFOLLOW) OR O_CLOEXEC) mode) k"
proof -
  let ?flags = "(flags OR O_NOFOLLOW) OR O_CLOEXEC"
  obtain i where i: "ino (kernel s) (df_fd (dir_files s ! a)) = Some i" "i \<in> inside"
    using live_inode assms by blast
  have "?flags AND O_NOFOLLOW \<noteq> 0"
    using and_exp_eq_0_iff_not_bit [of ?flags 17] by (simp add: O_NOFOLLOW_def O_CLOEXEC_def bit_simps)
  then show ?thesis
    using kernel i assms(3,4) unfolding kernel_ok_def by metis
qed

lemma openFile_inv:
  assumes "inv acq H s" "a \<in> live (dir_files s)" "entry_name name \<or> name = []"
  shows "gives_new acq H (dirFile_openFile U a name flags mode s)"
proof -
  let ?fd = "df_fd (dir_files s ! a)" and ?flags = "(flags OR O_NOFOLLOW) OR O_CLOEXEC"
  have "ignoreEINTR (unix_openat U ?fd name ?flags (mode AND 511)) (kernel s) \<noteq> None"
    using kernel by (simp add: kernel_ok_def)
  then show ?thesis
    using open_new [OF assms(1), of "Some a"] openat_inside [OF assms] assms(2) by (simp add: dirFile_openFile_def openat_def)
qed

text \<open>A reference more, for a method that runs or for a file that is being closed, and one less.\<close>

lemma update_inv:
  fixes s :: "'k dir_state" and a :: nat and g :: "dirFile \<Rightarrow> dirFile"
  defines "f \<equiv> dir_files s ! a" and "fs \<equiv> dir_files s" and "gs \<equiv> dir_files (update_file a g s)"
  assumes "inv acq H s" "a \<in> live fs" "df_dir (g f) = df_dir f" "df_fd (g f) = df_fd f" "df_refc f \<le> df_refc (g f)"
    and "df_refc (g f) - (if df_closed (g f) then 0 else 1) = df_refc f - (if df_closed f then 0 else 1) + 1"
  shows "counts_ok (acq(a := Suc (acq a))) gs" "fds_ok base inside gs (ino (kernel s))"
proof -
  have nth: "gs ! b = (if a = b then g f else fs ! b)" if "b < length fs" for b
    using that by (auto simp: update_file_nth gs_def fs_def f_def)
  have same: "df_dir (gs ! b) = df_dir (fs ! b) \<and> (0 < df_refc (gs ! b) \<longleftrightarrow> 0 < df_refc (fs ! b))"
    if "b < length fs" for b
    using nth [OF that] assms(5-8) by (auto simp: f_def fs_def)
  have len: "length gs = length fs"
    by (simp add: gs_def fs_def)
  have children: "children gs b = children fs b" for b
    by (rule children_update(1)) (use same len in auto)
  have live: "live gs = live fs"
    by (rule children_update(2)) (use same len in auto)
  show "fds_ok base inside gs (ino (kernel s))"
    by (rule fds_ok_same [OF _ live]) (use assms(4,7) nth in \<open>auto simp: dir_inv_def f_def fs_def\<close>)
  have counts: "counts_ok acq fs"
    using assms(4) by (simp add: dir_inv_def fs_def)
  have "df_refc (gs ! b) = (if df_closed (gs ! b) then 0 else 1) + int (card (children gs b)) + int ((acq(a := Suc (acq a))) b)"
    if "b < length fs" for b
  proof (cases "a = b")
    case True
    then have "df_refc f - (if df_closed f then 0 else 1) = int (card (children fs b)) + int (acq b)"
      using counts that by (simp add: counts_ok_def f_def fs_def)
    then show ?thesis
      using assms(9) True nth [OF that] unfolding children by simp
  next
    case False
    then show ?thesis
      using counts that nth [OF that] unfolding children by (simp add: counts_ok_def)
  qed
  then show "counts_ok (acq(a := Suc (acq a))) gs"
    using counts same len assms(5) unfolding counts_ok_def by auto
qed

lemma closed_update:
  "b < length (dir_files s) \<Longrightarrow> df_closed (dir_files (update_file a f s) ! b)
     = (if a = b then df_closed (f (dir_files s ! b)) else df_closed (dir_files s ! b))"
  by (simp add: update_file_nth)

lemma Close_inv:
  assumes "inv acq H s" "a \<in> H"
  shows "\<exists>t. dirFile_Close U a s = Some ((), t) \<and> inv acq (H - {a}) t"
proof -
  let ?s = "update_file a (\<lambda>f. f\<lparr>df_closed := True\<rparr>) s"
  have a: "a < length (dir_files s)" "\<not> df_closed (dir_files s ! a)"
    using assms by (auto simp: dir_inv_def)
  have "counts_ok (acq(a := Suc (acq a))) (dir_files ?s)" "fds_ok base inside (dir_files ?s) (ino (kernel ?s))"
    using update_inv [OF assms(1) H_live [OF assms], of "\<lambda>f. f\<lparr>df_closed := True\<rparr>"] a by simp_all
  then obtain t where t: "file_unref U a ?s = Some ((), t)" "counts_ok acq (dir_files t)"
    "fds_ok base inside (dir_files t) (ino (kernel t))" "length (dir_files t) = length (dir_files s)"
    "\<forall>b<length (dir_files s). df_closed (dir_files t ! b) = (a = b \<or> df_closed (dir_files s ! b))"
    using file_unref_inv [of acq a ?s] a by (auto simp: closed_update)
  have "H - {a} = {b. b < length (dir_files t) \<and> \<not> df_closed (dir_files t ! b)}"
    using assms(1) t(4,5) by (auto simp: dir_inv_def)
  then show ?thesis
    using t a by (simp add: dirFile_Close_def dir_inv_def)
qed

lemma acquire_inv:
  assumes "inv acq H s" "a \<in> H"
  shows "\<exists>fd t. dirFile_acquire a s = (fd, t) \<and> 0 \<le> fd \<and> inv (acq(a := Suc (acq a))) H t"
proof -
  have a: "a < length (dir_files s)" "\<not> df_closed (dir_files s ! a)"
    using assms by (auto simp: dir_inv_def)
  have "counts_ok (acq(a := Suc (acq a))) (dir_files (file_ref a s))"
    "fds_ok base inside (dir_files (file_ref a s)) (ino (kernel s))"
    unfolding file_ref_def
    using update_inv [OF assms(1) H_live [OF assms], of "\<lambda>f. f\<lparr>df_refc := df_refc f + 1\<rparr>"] by simp_all
  moreover have "H = {b. b < length (dir_files (file_ref a s)) \<and> \<not> df_closed (dir_files (file_ref a s) ! b)}"
    using assms(1) by (auto simp: dir_inv_def file_ref_def closed_update split: if_splits)
  moreover have "0 \<le> df_fd (dir_files s ! a)"
    using H_live [OF assms] assms(1) unfolding dir_inv_def fds_ok_def by blast
  ultimately show ?thesis
    using a by (simp add: dirFile_acquire_def dir_inv_def file_ref_def)
qed

lemma release_inv:
  assumes "inv (acq(a := Suc (acq a))) H s" "0 \<le> fd"
  shows "\<exists>t. dirFile_release U a fd s = Some ((), t) \<and> inv acq H t"
proof -
  have "\<not> length (dir_files s) \<le> a"
    using assms(1) unfolding dir_inv_def counts_ok_def by (metis Suc_neq_Zero fun_upd_same)
  then obtain t where "file_unref U a s = Some ((), t)" "counts_ok acq (dir_files t)"
    "fds_ok base inside (dir_files t) (ino (kernel t))" "length (dir_files t) = length (dir_files s)"
    "\<forall>b<length (dir_files s). df_closed (dir_files t ! b) = df_closed (dir_files s ! b)"
    using file_unref_inv [of acq a s] assms(1) by (auto simp: dir_inv_def)
  then show ?thesis
    using assms by (auto simp: dirFile_release_def dir_inv_def)
qed

section \<open>The methods keep the invariant\<close>

lemma gives_newD:
  "gives_new acq H m \<Longrightarrow> m = Some (r, t) \<Longrightarrow> given (\<lambda>f. {f}) r \<inter> H = {} \<and> inv acq (H \<union> given (\<lambda>f. {f}) r) t"
  by (auto simp: gives_new_def)

lemma gives_new_failed: "inv acq H s \<Longrightarrow> gives_new acq H (Some (Inl e, s))"
  by (simp add: gives_new_def)

lemma withFD_inv:
  assumes "withFD U a act s = Some (r, t)" "inv acq H s" "a \<in> H"
    and "\<And>fd s r t. inv (acq(a := Suc (acq a))) H s \<Longrightarrow> act fd s = Some (r, t) \<Longrightarrow> inv (acq(a := Suc (acq a))) H t"
  shows "inv acq H t"
proof -
  obtain fd u where u: "dirFile_acquire a s = (fd, u)" "0 \<le> fd" "inv (acq(a := Suc (acq a))) H u"
    using acquire_inv assms(2,3) by blast
  then obtain r' v where v: "act fd u = Some (r', v)"
    using assms(1) by (auto simp: withFD_def on_call_eq_Some)
  then have "inv (acq(a := Suc (acq a))) H v"
    using assms(4) u(3) by blast
  then obtain w where "dirFile_release U a fd v = Some ((), w)" "inv acq H w"
    using release_inv u(2) by blast
  then show ?thesis
    using assms(1) u v by (simp add: withFD_def)
qed

lemma kernel_call_inv:
  assumes "kernel_call f s = Some (r, t)" "keeps_fds ino f" "inv acq H s"
  shows "inv acq H t"
  using assms ignoreEINTR_keeps by (auto simp: kernel_call_def on_call_eq_Some dir_inv_def) fastforce+

text \<open>What is done at the leaf of a path that is opened.\<close>

definition open_leaf :: "int \<Rightarrow> int \<Rightarrow> nat \<Rightarrow> string \<Rightarrow> 'k dir_state \<Rightarrow> (nat, 'k dir_state) file_call" where
  "open_leaf flags mode d name s =
     (if name = ''.'' then dirFile_openSelf U d s
      else if name = ''..'' then dirFile_openParent U d s
      else dirFile_openFile U d name (flags OR O_NOFOLLOW) mode s)"

lemma open_leaf_new: "inv acq H s \<Longrightarrow> d \<in> H \<Longrightarrow> leaf_name name \<Longrightarrow> gives_new acq H (open_leaf flags mode d name s)"
  using openSelf_inv openParent_inv openFile_inv H_live by (auto simp: open_leaf_def leaf_name_def entry_name_def)

lemma leaf_inv_new:
  assumes "\<And>H s d name. inv acq H s \<Longrightarrow> d \<in> H \<Longrightarrow> leaf_name name \<Longrightarrow> gives_new acq H (act d name s)"
    and dirs: "directories ops (inv acq)"
  shows "directories.leaf_inv (inv acq) (\<lambda>f. {f}) act"
  using assms(1) gives_newD unfolding directories.leaf_inv_def [OF dirs] by blast

lemma Open_path:
  assumes "name \<noteq> []" "\<not> IsRoot name" and flags: "flags' = (if HasTrailingSlash name then flags OR O_DIRECTORY else flags)"
  shows "file_Open (dirFile_ops (Suc n) U) d name flags mode s
    = ResolvePath (dirFile_ops n U) d name (OpenFlags_LookupFlags flags') (open_leaf flags' mode) s"
  unfolding flags using assms(1,2) by (simp add: FileOpen_def open_leaf_def [abs_def] Let_def)

lemma directories_ops: "directories (dirFile_ops n U) (inv acq)"
proof (induction n arbitrary: acq)
  case 0
  show ?case
    by unfold_locales (use Close_inv in fastforce)+
next
  case (Suc n)
  have dirs: "directories (dirFile_ops n U) (inv acq)" for acq
    by (rule Suc)
  note resolve = directories.ResolvePath_inv [OF dirs] and leaf_inv = directories.leaf_inv_def [OF dirs]
  show ?case
  proof
    fix H s d name flags mode r t
    assume s: "inv acq H s" "d \<in> H" and op: "file_Open (dirFile_ops (Suc n) U) d name flags mode s = Some (r, t)"
    let ?flags = "if HasTrailingSlash name then flags OR O_DIRECTORY else flags"
    have leaf: "directories.leaf_inv (inv acq) (\<lambda>f. {f}) (open_leaf ?flags mode)"
      by (rule leaf_inv_new [OF open_leaf_new dirs])
    show "given (\<lambda>f. {f}) r \<inter> H = {} \<and> inv acq (H \<union> given (\<lambda>f. {f}) r) t"
    proof (cases "name = [] \<or> IsRoot name")
      case True
      then show ?thesis
        using op s gives_newD [OF openRoot_inv [OF s(1) H_live [OF s]]] by (auto simp: FileOpen_def split: if_splits)
    next
      case False
      then have "ResolvePath (dirFile_ops n U) d name (OpenFlags_LookupFlags ?flags) (open_leaf ?flags mode) s = Some (r, t)"
        using op Open_path [of name ?flags flags n d mode s] by simp
      then show ?thesis
        by (rule resolve [OF _ leaf s])
    qed
  next
    fix H s d name k l t
    assume s: "inv acq H s" "d \<in> H" and rl: "file_Readlink (dirFile_ops (Suc n) U) d name k s = Some (l, t)"
    let ?act = "\<lambda>d name s. kernel_call (unix_readlinkat U (df_fd (dir_files s ! d)) name k) s"
    have "keeps_fds ino (unix_readlinkat U fd name k)" for fd name
      using kernel by (simp add: kernel_ok_def)
    then have leaf: "directories.leaf_inv (inv acq) (\<lambda>_. {}) ?act" for acq
      using kernel_call_inv unfolding leaf_inv by (fastforce simp: given_def split: sum.splits)
    show "inv acq H t"
    proof (rule withFD_inv [OF _ s])
      show "withFD U d (\<lambda>_. ResolvePath (dirFile_ops n U) d name AT_SYMLINK_NOFOLLOW ?act) s = Some (l, t)"
        using rl by simp
      show "inv (acq(d := Suc (acq d))) H t" if "inv (acq(d := Suc (acq d))) H s"
        "ResolvePath (dirFile_ops n U) d name AT_SYMLINK_NOFOLLOW ?act s = Some (r, t)" for r s t
        using resolve [OF that(2) leaf that(1) s(2)] by (cases r) simp_all
    qed
  next
    fix H s d u t
    assume "inv acq H s" "d \<in> H" "file_Close (dirFile_ops (Suc n) U) d s = Some (u, t)"
    then show "inv acq (H - {d}) t"
      using Close_inv by fastforce
  qed
qed

sublocale dir: directories "dirFile_ops n U" "inv acq" for n acq
  by (rule directories_ops)

lemma open_leaf_inv: "dir.leaf_inv acq (\<lambda>f. {f}) (open_leaf flags mode)"
  by (rule leaf_inv_new [OF open_leaf_new directories_ops])

lemma dirFS_openRoot_inv:
  assumes "inv acq H s" "root_ok U ino inside root"
  shows "gives_new acq H (dirFS_openRoot U root s)"
proof -
  have "ignoreEINTR (unix_openat U AT_FDCWD root (O_DIRECTORY OR O_CLOEXEC) 0) (kernel s) \<noteq> None"
    using kernel by (simp add: kernel_ok_def)
  then show ?thesis
    using open_new [OF assms(1), of None] assms(2) by (simp add: dirFS_openRoot_def openat_def root_ok_def)
qed

theorem dirFS_Open_inv:
  assumes "dirFS_Open n U root name flags mode s = Some (r, t)" "inv acq H s" "root_ok U ino inside root"
  shows "given (\<lambda>f. {f}) r \<inter> H = {} \<and> inv acq (H \<union> given (\<lambda>f. {f}) r) t"
proof -
  obtain r0 s0 where r0: "dirFS_openRoot U root s = Some (r0, s0)" "given (\<lambda>f. {f}) r0 \<inter> H = {}"
      "inv acq (H \<union> given (\<lambda>f. {f}) r0) s0"
    using dirFS_openRoot_inv [OF assms(2,3)] by (auto simp: gives_new_def)
  show ?thesis
  proof (cases r0)
    case (Inl e)
    then show ?thesis
      using assms(1) r0 by (simp add: dirFS_Open_def)
  next
    case (Inr f)
    show ?thesis
    proof (cases "IsRoot name")
      case True
      then show ?thesis
        using assms(1) r0 Inr by (simp add: dirFS_Open_def)
    next
      case False
      have f: "f \<notin> H" "inv acq (insert f H) s0"
        using r0 Inr by simp_all
      obtain r1 s1 where r1: "file_Open (dirFile_ops n U) f name flags mode s0 = Some (r1, s1)"
        using assms(1) r0 Inr False by (auto simp: dirFS_Open_def on_call_eq_Some)
      have r1': "given (\<lambda>f. {f}) r1 \<inter> insert f H = {}" "inv acq (insert f H \<union> given (\<lambda>f. {f}) r1) s1"
        using dir.Open_inv [OF f(2) _ r1] by simp_all
      then obtain u where u: "dirFile_Close U f s1 = Some ((), u)" "inv acq (insert f H \<union> given (\<lambda>f. {f}) r1 - {f}) u"
        using Close_inv by blast
      have "insert f H \<union> given (\<lambda>f. {f}) r1 - {f} = H \<union> given (\<lambda>f. {f}) r1"
        using f(1) r1'(1) by auto
      then show ?thesis
        using assms(1) r0 Inr False r1 u r1'(1) by (auto simp: dirFS_Open_def)
    qed
  qed
qed

text \<open>When nothing is open, the descriptors are those of before.\<close>

lemma nothing_open:
  assumes "inv (\<lambda>_. 0) {} s"
  shows "ino (kernel s) = base"
proof -
  let ?fs = "dir_files s"
  have "live ?fs = {}"
  proof (rule ccontr)
    assume some: "live ?fs \<noteq> {}"
    have fin: "finite (live ?fs)"
      by simp
    obtain a where a: "a \<in> live ?fs" "\<And>b. b \<in> live ?fs \<Longrightarrow> b \<le> a"
      using Max_in [OF fin some] Max_ge [OF fin] by blast
    have counts: "counts_ok (\<lambda>_. 0) ?fs" and closed: "df_closed (?fs ! a)"
      using assms a by (auto simp: dir_inv_def)
    have "df_refc (?fs ! a) = int (card (children ?fs a))"
      using a(1) counts closed by (simp add: counts_ok_def)
    then have "0 < card (children ?fs a)"
      using a(1) by simp
    then obtain b where "b \<in> live ?fs" "df_dir (?fs ! b) = Some a"
      by (auto simp: children_def card_gt_0_iff)
    then show False
      using a(2) [of b] counts by (auto simp: counts_ok_def)
  qed
  then have "fds ?fs = {}"
    by (simp only: image_empty)
  then have "ino (kernel s) x = base x" for x
    using assms unfolding dir_inv_def fds_ok_def by blast
  then show ?thesis
    by blast
qed

section \<open>Methods at a leaf\<close>

text \<open>The count of references goes up and down, so that only the call is left.\<close>

lemma release_open:
  assumes "inv acq H s" "a \<in> H" "0 \<le> fd"
  shows "dirFile_release U a fd (file_ref a s) = Some ((), s)"
proof -
  have a: "a < length (dir_files s)" "df_refc (dir_files s ! a) \<noteq> 0"
    using H_live [OF assms(1,2)] by auto
  have "update_file a (\<lambda>f. f\<lparr>df_refc := df_refc f - 1\<rparr>) (file_ref a s) = s"
    using a by (simp add: update_file_def file_ref_def)
  then show ?thesis
    using a assms(3) by (subst dirFile_release_def, subst file_unref.simps) (simp add: Let_def)
qed

lemma file_ref_kernel: "(file_ref a s)\<lparr>kernel := k\<rparr> = file_ref a (s\<lparr>kernel := k\<rparr>)"
  by (simp add: file_ref_def update_file_def)

lemma acquire_open:
  assumes "inv acq H s" "a \<in> H"
  shows "dirFile_acquire a s = (df_fd (dir_files s ! a), file_ref a s)" "0 \<le> df_fd (dir_files s ! a)"
    "df_fd (dir_files (file_ref a s) ! a) = df_fd (dir_files s ! a)" "kernel (file_ref a s) = kernel s"
proof -
  have a: "a < length (dir_files s)" "\<not> df_closed (dir_files s ! a)"
    using assms by (auto simp: dir_inv_def)
  show "0 \<le> df_fd (dir_files s ! a)"
    using H_live [OF assms] assms(1) unfolding dir_inv_def fds_ok_def by blast
  show "dirFile_acquire a s = (df_fd (dir_files s ! a), file_ref a s)"
    using a by (simp add: dirFile_acquire_def)
  show "df_fd (dir_files (file_ref a s) ! a) = df_fd (dir_files s ! a)" "kernel (file_ref a s) = kernel s"
    using a by (simp_all add: file_ref_def update_file_nth)
qed

lemma withFD_act:
  assumes "inv acq H s" "a \<in> H" "ino k = ino (kernel s)"
    and "act (df_fd (dir_files s ! a)) (file_ref a s) = Some (r, file_ref a (s\<lparr>kernel := k\<rparr>))"
  shows "withFD U a act s = Some (r, s\<lparr>kernel := k\<rparr>)"
proof -
  have "inv acq H (s\<lparr>kernel := k\<rparr>)"
    using assms(1,3) by (simp add: dir_inv_def)
  then have "dirFile_release U a (df_fd (dir_files s ! a)) (file_ref a (s\<lparr>kernel := k\<rparr>)) = Some ((), s\<lparr>kernel := k\<rparr>)"
    using release_open assms(2) acquire_open(2) [OF assms(1,2)] by blast
  then show ?thesis
    using acquire_open [OF assms(1,2)] assms(4) by (simp add: withFD_def)
qed

lemma keeps_fds_run:
  assumes "keeps_fds ino f"
  obtains r k where "ignoreEINTR f (kernel s) = Some (r, k)" "ino k = ino (kernel s)"
proof -
  obtain r k where r: "ignoreEINTR f (kernel s) = Some (r, k)"
    using assms unfolding keeps_fds_def by (metis not_None_eq surj_pair)
  then show thesis
    using that ignoreEINTR_keeps [OF r assms] by simp
qed

lemma withFD_kernel_call:
  assumes "inv acq H s" "a \<in> H" "keeps_fds ino f"
    and "act (df_fd (dir_files s ! a)) (file_ref a s) = kernel_call f (file_ref a s)"
  shows "withFD U a act s = kernel_call f s"
proof -
  obtain r k where r: "ignoreEINTR f (kernel s) = Some (r, k)" "ino k = ino (kernel s)"
    using keeps_fds_run [OF assms(3)] .
  have "act (df_fd (dir_files s ! a)) (file_ref a s) = Some (r, file_ref a (s\<lparr>kernel := k\<rparr>))"
    using assms(4) acquire_open(4) [OF assms(1,2)] r by (simp add: kernel_call_def file_ref_kernel)
  then show ?thesis
    using withFD_act [OF assms(1,2) r(2)] r(1) by (simp add: kernel_call_def)
qed

lemma resolvePath_leaf:
  assumes "inv acq H s" "a \<in> H" "leaf_name name" "flags AND AT_SYMLINK_NOFOLLOW \<noteq> 0" "keeps_fds ino f"
    and "act (df_fd (dir_files s ! a)) name = kernel_call f"
  shows "resolvePath n U a name flags act s = kernel_call f s"
  unfolding resolvePath_def
  by (rule withFD_kernel_call [OF assms(1,2,5)])
    (simp add: ResolvePath_leaf [OF assms(3,4)] acquire_open(3) [OF assms(1,2)] assms(6))

lemma lookup_nofollow: "AT_SYMLINK_NOFOLLOW AND AT_SYMLINK_NOFOLLOW \<noteq> 0"
  by (simp add: AT_SYMLINK_NOFOLLOW_def)

text \<open>
  \<^verbatim>\<open>".."\<close> at the root: opening it opens the root again, but the methods that look up a name hand it to
  the host.
\<close>

lemma dotdot_leaf: "leaf_name ''..''"
  by (simp add: leaf_name_def component_def)

lemma open_dotdot:
  assumes "inv acq H s" "a \<in> H" "df_dir (dir_files s ! a) = None" "flags AND O_NOFOLLOW \<noteq> 0"
  shows "file_Open (dirFile_ops (Suc n) U) a ''..'' flags mode s = dirFile_openSelf U a s"
proof -
  have "OpenFlags_LookupFlags flags AND AT_SYMLINK_NOFOLLOW \<noteq> 0"
    using assms(4) lookup_nofollow by (simp add: OpenFlags_LookupFlags_def)
  then show ?thesis
    using assms(3) by (simp add: FileOpen_def IsRoot_def HasTrailingSlash_def ResolvePath_leaf [OF dotdot_leaf] dirFile_openParent_def)
qed

lemma chtimes_dotdot:
  assumes "inv acq H s" "a \<in> H" "keeps_fds ino (unix_utimensat U (df_fd (dir_files s ! a)) ''..'' ts AT_SYMLINK_NOFOLLOW)"
  shows "dirFile_Chtimes n U a ''..'' ts AT_SYMLINK_NOFOLLOW s
    = kernel_call (unix_utimensat U (df_fd (dir_files s ! a)) ''..'' ts AT_SYMLINK_NOFOLLOW) s"
  unfolding dirFile_Chtimes_def
  by (rule resolvePath_leaf [OF assms(1,2) dotdot_leaf lookup_nofollow assms(3)]) (auto simp: fun_eq_iff)

lemma stat_dotdot:
  assumes "inv acq H s" "a \<in> H" "keeps_fds ino (unix_fstatat U (df_fd (dir_files s ! a)) ''..'' AT_SYMLINK_NOFOLLOW)"
  shows "dirFile_Stat n U a ''..'' AT_SYMLINK_NOFOLLOW s
    = on_call (kernel_call (unix_fstatat U (df_fd (dir_files s ! a)) ''..'' AT_SYMLINK_NOFOLLOW) s)
        (\<lambda>r s. Some (map_sum id makeFileInfo r, s))"
proof -
  let ?f = "unix_fstatat U (df_fd (dir_files s ! a)) ''..'' AT_SYMLINK_NOFOLLOW"
  obtain r k where r: "ignoreEINTR ?f (kernel s) = Some (r, k)" "ino k = ino (kernel s)"
    using keeps_fds_run [OF assms(3)] .
  have "dirFile_Stat n U a ''..'' AT_SYMLINK_NOFOLLOW s = Some (map_sum id makeFileInfo r, s\<lparr>kernel := k\<rparr>)"
    unfolding dirFile_Stat_def resolvePath_def
    by (rule withFD_act [OF assms(1,2) r(2)], cases r)
      (simp_all add: ResolvePath_leaf [OF dotdot_leaf lookup_nofollow] acquire_open(3,4) [OF assms(1,2)] kernel_call_def r(1)
        file_ref_kernel lookup_nofollow [simplified])
  then show ?thesis
    using r by (simp add: kernel_call_def)
qed

end

section \<open>Resolution returns\<close>

text \<open>
  The directories do not change: what is a link when it is opened is one when it is read. The copies of a
  descriptor are not links.
\<close>

definition kernel_still :: "'k unix \<Rightarrow> ('k \<Rightarrow> int \<rightharpoonup> 'i) \<Rightarrow> bool" where
  "kernel_still U ino \<longleftrightarrow>
     (\<forall>k k' fd name flags mode n. fst (unix_openat U fd name flags mode k) = Inl ELOOP \<longrightarrow> ino k' fd = ino k fd \<longrightarrow>
        fst (unix_readlinkat U fd name n k') \<noteq> Inl EINVAL)
     \<and> (\<forall>k fd. fst (unix_dup U fd k) \<noteq> Inl ELOOP)"

locale still_kernel = host_kernel U ino inside base
  for U :: "'k unix" and ino :: "'k \<Rightarrow> int \<rightharpoonup> 'i" and inside base +
  assumes still: "kernel_still U ino"
begin

lemma Readlink_leaf:
  assumes "inv acq H s" "a \<in> H" "leaf_name name"
  shows "file_Readlink (dirFile_ops (Suc n) U) a name k s
    = kernel_call (unix_readlinkat U (df_fd (dir_files s ! a)) name k) s"
proof -
  have "keeps_fds ino (unix_readlinkat U (df_fd (dir_files s ! a)) name k)"
    using kernel by (simp add: kernel_ok_def)
  then show ?thesis
    using resolvePath_leaf [OF assms lookup_nofollow, of _ "\<lambda>fd name. kernel_call (unix_readlinkat U fd name k)"]
    by (simp add: resolvePath_def)
qed

lemma Open_leaf:
  assumes "inv acq H s" "a \<in> H" "leaf_name name" "flags AND O_NOFOLLOW \<noteq> 0"
  shows "file_Open (dirFile_ops (Suc n) U) a name flags mode s
    = (if name = [] then Some (Inl EINVAL, s) else open_leaf flags mode a name s)"
proof (cases "name = []")
  case False
  then have "component name"
    using assms(3) by (simp add: leaf_name_def)
  then have "\<not> IsRoot name" "\<not> HasTrailingSlash name"
    using component_relative [of name] IsRoot_components by auto
  moreover have "OpenFlags_LookupFlags flags AND AT_SYMLINK_NOFOLLOW \<noteq> 0"
    using assms(4) lookup_nofollow by (simp add: OpenFlags_LookupFlags_def)
  ultimately show ?thesis
    using False by (simp add: FileOpen_def ResolvePath_leaf [OF assms(3)] open_leaf_def)
qed (simp add: FileOpen_def)

lemma openPathFlags_nofollow: "openPathFlags AND O_NOFOLLOW \<noteq> 0"
  using and_exp_eq_0_iff_not_bit [of openPathFlags 17]
  by (simp add: openPathFlags_def O_PATH_def O_DIRECTORY_def O_NOFOLLOW_def bit_simps)

lemma gives_new_returns: "gives_new acq H m \<Longrightarrow> m \<noteq> None"
  by (auto simp: gives_new_def)

sublocale dir: still_directories "dirFile_ops (Suc n) U" "inv acq" for n acq
proof
  fix H s d name flags
  assume s: "inv acq H s" "d \<in> H"
    and name: "leaf_name name \<and> flags = openPathFlags \<or> name = ''/'' \<and> flags = O_DIRECTORY"
  show "file_Open (dirFile_ops (Suc n) U) d name flags 0 s \<noteq> None"
  proof (cases "name = ''/''")
    case True
    have "IsRoot ''/''"
      by (simp add: IsRoot_def IsRoot_loop.simps)
    then show ?thesis
      using True gives_new_returns [OF openRoot_inv [OF s(1) H_live [OF s]]] by (simp add: FileOpen_def)
  next
    case False
    then show ?thesis
      using Open_leaf [OF s, of name flags n 0] name openPathFlags_nofollow gives_new_returns [OF open_leaf_new [OF s]]
      by auto
  qed
next
  fix H s d name k
  assume "inv acq H s" "d \<in> H" "leaf_name name"
  then show "file_Readlink (dirFile_ops (Suc n) U) d name k s \<noteq> None"
    using Readlink_leaf kernel by (auto simp: kernel_call_def on_call_eq_None kernel_ok_def keeps_fds_def)
next
  fix H s d
  assume "inv acq H s" "d \<in> H"
  then show "file_Close (dirFile_ops (Suc n) U) d s \<noteq> None"
    using Close_inv by fastforce
qed

text \<open>A call ends with the answer of one of its runs.\<close>

lemma ignoreEINTR_run:
  assumes "ignoreEINTR f k = Some y" "\<And>k. P k \<Longrightarrow> fst (f k) = Inl EINTR \<Longrightarrow> P (snd (f k))" "P k"
  shows "\<exists>k. P k \<and> f k = y"
proof -
  have "(\<And>k. P k \<Longrightarrow> fst (f k) = Inl EINTR \<Longrightarrow> P (snd (f k))) \<Longrightarrow> P k \<Longrightarrow> \<exists>k. P k \<and> f k = y"
    if "ignoreEINTR f k = Some y" for f :: "('a, 'b) syscall" and k y
    using that
  proof (induction rule: ignoreEINTR_induct)
    case (loop rec f k y)
    then show ?case
      by (cases "fst (f k) = Inl EINTR") auto
  qed
  then show ?thesis
    using assms by blast
qed

lemma open_error:
  assumes "on_call (kernel_call f s) (\<lambda>r t. case r of
     Inl e \<Rightarrow> Some (Inl e, t) | Inr fd \<Rightarrow> Some (apfst Inr (newFile (dir t) fd t))) = Some (Inl e, t)"
  obtains k where "ignoreEINTR f (kernel s) = Some (Inl e, k)" "t = s\<lparr>kernel := k\<rparr>"
proof -
  obtain r k where r: "ignoreEINTR f (kernel s) = Some (r, k)"
    using assms by (auto simp: kernel_call_def on_call_eq_Some)
  then have "r = Inl e \<and> t = s\<lparr>kernel := k\<rparr>"
    using assms by (cases r) (auto simp: kernel_call_def apfst_def map_prod_def split_beta)
  then show thesis
    using that r by simp
qed

lemma openSelf_not_ELOOP: "dirFile_openSelf U a s \<noteq> Some (Inl ELOOP, t)"
proof
  let ?dup = "unix_dup U (df_fd (dir_files s ! a))"
  assume "dirFile_openSelf U a s = Some (Inl ELOOP, t)"
  then obtain k where "ignoreEINTR ?dup (kernel s) = Some (Inl ELOOP, k)"
    unfolding dirFile_openSelf_def dup_def by (rule open_error)
  then obtain k' where "?dup k' = (Inl ELOOP, k)"
    using ignoreEINTR_run [of ?dup _ _ "\<lambda>_. True"] by blast
  then show False
    using still unfolding kernel_still_def by (metis fst_conv)
qed

lemma opens_inside_error: "opens_inside ino inside f k \<Longrightarrow> fst (f k) = Inl e \<Longrightarrow> ino (snd (f k)) = ino k"
  by (cases "f k") (simp add: opens_inside_def)

lemma openat_ELOOP:
  assumes s: "inv acq H s" "d \<in> H" and name: "leaf_name name" and eq: "open_leaf flags mode d name s = Some (Inl ELOOP, t)"
  obtains fl m k k' where "ino k = ino (kernel s)" "t = s\<lparr>kernel := k'\<rparr>" "ino k' = ino (kernel s)"
    "fst (unix_openat U (df_fd (dir_files s ! d)) name fl m k) = Inl ELOOP"
proof -
  let ?fl = "((flags OR O_NOFOLLOW) OR O_NOFOLLOW) OR O_CLOEXEC"
  let ?f = "unix_openat U (df_fd (dir_files s ! d)) name ?fl (mode AND 511)"
  have entry: "entry_name name \<or> name = []"
    and "dirFile_openFile U d name (flags OR O_NOFOLLOW) mode s = Some (Inl ELOOP, t)"
    using name eq openSelf_not_ELOOP
    by (auto simp: open_leaf_def dirFile_openParent_def leaf_name_def entry_name_def split: if_splits)
  then obtain k' where k': "ignoreEINTR ?f (kernel s) = Some (Inl ELOOP, k')" "t = s\<lparr>kernel := k'\<rparr>"
    unfolding dirFile_openFile_def openat_def by (auto elim: open_error)
  have inside: "opens_inside ino inside ?f k" if "ino k = ino (kernel s)" for k
    using openat_inside [OF s(1) H_live [OF s] entry that] .
  have "\<exists>k. ino k = ino (kernel s) \<and> ?f k = (Inl ELOOP, k')"
    by (rule ignoreEINTR_run [OF k'(1)]) (use inside opens_inside_error in \<open>metis, simp\<close>)
  then obtain k where k: "ino k = ino (kernel s)" "?f k = (Inl ELOOP, k')"
    by blast
  then have "ino k' = ino (kernel s)"
    using inside [OF k(1)] by (simp add: opens_inside_def)
  then show thesis
    using that k k'(2) by (metis fst_conv)
qed

text \<open>A name that is a link can be read as one.\<close>

lemma readlink_loop_link:
  assumes "readlink_loop (dirFile_ops (Suc n) U) d name m s = Some y" "inv acq H s" "d \<in> H" "leaf_name name"
    and "\<And>k m. ino k = ino (kernel s) \<Longrightarrow> fst (unix_readlinkat U (df_fd (dir_files s ! d)) name m k) \<noteq> Inl EINVAL"
  shows "fst y \<noteq> Inl EINVAL"
proof -
  have "ops = dirFile_ops (Suc n) U \<Longrightarrow> inv acq H s \<Longrightarrow> d \<in> H \<Longrightarrow> leaf_name name \<Longrightarrow>
      (\<And>k m. ino k = ino (kernel s) \<Longrightarrow> fst (unix_readlinkat U (df_fd (dir_files s ! d)) name m k) \<noteq> Inl EINVAL)
      \<Longrightarrow> fst y \<noteq> Inl EINVAL" if "readlink_loop ops d name m s = Some y" for ops d name m s
    using that
  proof (induction rule: readlink_loop_induct)
    case (loop rec ops d name m s y)
    let ?f = "unix_readlinkat U (df_fd (dir_files s ! d)) name m"
    have keeps: "keeps_fds ino ?f"
      using kernel by (simp add: kernel_ok_def)
    obtain r t where r: "file_Readlink ops d name m s = Some (r, t)"
      using loop by (auto simp: on_call_eq_Some)
    then obtain k where k: "ignoreEINTR ?f (kernel s) = Some (r, k)" "t = s\<lparr>kernel := k\<rparr>"
      using Readlink_leaf [OF loop.prems(2-4)] loop.prems(1) by (auto simp: kernel_call_def on_call_eq_Some)
    have same: "ino k = ino (kernel s)"
      using ignoreEINTR_keeps [OF k(1) keeps] by simp
    have "\<exists>k'. ino k' = ino (kernel s) \<and> ?f k' = (r, k)"
      by (rule ignoreEINTR_run [OF k(1)]) (use keeps in \<open>auto simp: keeps_fds_def\<close>)
    then have "r \<noteq> Inl EINVAL"
      using loop.prems(5) by (metis fst_conv)
    moreover have "inv acq H t"
      using loop.prems(2) k(2) same by (simp add: dir_inv_def)
    ultimately show ?case
      using loop r k(2) same by (auto split: sum.splits if_splits)
  qed
  then show ?thesis
    using assms by blast
qed

lemma open_leaf_returns: "dir.leaf_returns n acq (open_leaf flags mode)"
  unfolding dir.leaf_returns_def
proof (intro allI impI conjI)
  fix H s d elem
  assume s: "inv acq H s" "d \<in> H" "leaf_name elem"
  show "open_leaf flags mode d elem s \<noteq> None"
    using gives_new_returns [OF open_leaf_new [OF s]] .
  fix t u depth
  assume "open_leaf flags mode d elem s = Some (Inl ELOOP, t)"
  then obtain fl m k k' where k: "ino k = ino (kernel s)" "t = s\<lparr>kernel := k'\<rparr>" "ino k' = ino (kernel s)"
      "fst (unix_openat U (df_fd (dir_files s ! d)) elem fl m k) = Inl ELOOP"
    using openat_ELOOP [OF s] by metis
  have t: "inv acq H t"
    using s(1) k(2,3) by (simp add: dir_inv_def)
  have link: "fst (unix_readlinkat U (df_fd (dir_files t ! d)) elem m k'') \<noteq> Inl EINVAL" if "ino k'' = ino (kernel t)" for m k''
  proof -
    have "df_fd (dir_files t ! d) = df_fd (dir_files s ! d)" "ino k'' = ino k"
      using k that by simp_all
    then show ?thesis
      using still k(4) unfolding kernel_still_def by metis
  qed
  show "followSymlink (dirFile_ops (Suc n) U) d depth elem [] t \<noteq> Some (Inl EINVAL, u)"
  proof
    assume "followSymlink (dirFile_ops (Suc n) U) d depth elem [] t = Some (Inl EINVAL, u)"
    then have "readlink_loop (dirFile_ops (Suc n) U) d elem 256 t = Some (Inl EINVAL, u)"
      using followSymlink_error unfolding readlink_def by fast
    then show False
      using readlink_loop_link [OF _ t s(2,3) link] by fastforce
  qed
qed

theorem file_Open_returns:
  assumes "inv acq H s" "d \<in> H"
  shows "file_Open (dirFile_ops (Suc (Suc n)) U) d name flags mode s \<noteq> None"
proof -
  let ?flags = "if HasTrailingSlash name then flags OR O_DIRECTORY else flags"
  consider (root) "name = [] \<or> IsRoot name"
    | (path) "file_Open (dirFile_ops (Suc (Suc n)) U) d name flags mode s
       = ResolvePath (dirFile_ops (Suc n) U) d name (OpenFlags_LookupFlags ?flags) (open_leaf ?flags mode) s"
    using Open_path [OF _ _ refl] by blast
  then show ?thesis
  proof cases
    case root
    then show ?thesis
      using gives_new_returns [OF openRoot_inv [OF assms(1) H_live [OF assms]]] by (auto simp: FileOpen_def)
  next
    case path
    then show ?thesis
      using dir.ResolvePath_returns [OF open_leaf_inv open_leaf_returns assms] by simp
  qed
qed

theorem dirFS_Open_returns:
  assumes "inv acq H s" "root_ok U ino inside root"
  shows "dirFS_Open (Suc (Suc n)) U root name flags mode s \<noteq> None"
proof -
  obtain r t where r: "dirFS_openRoot U root s = Some (r, t)" "inv acq (H \<union> given (\<lambda>f. {f}) r) t"
    using dirFS_openRoot_inv [OF assms] by (auto simp: gives_new_def)
  show ?thesis
  proof (cases r)
    case (Inl e)
    then show ?thesis
      using r by (simp add: dirFS_Open_def)
  next
    case (Inr f)
    then have t: "inv acq (insert f H) t"
      using r by simp
    obtain r' u where u: "file_Open (dirFile_ops (Suc (Suc n)) U) f name flags mode t = Some (r', u)"
      using file_Open_returns [OF t, of f n name flags mode] by fastforce
    then have "inv acq (insert f H \<union> given (\<lambda>f. {f}) r') u"
      using dir.Open_inv [OF t _ u] by blast
    then have "dirFile_Close U f u \<noteq> None"
      using Close_inv by fastforce
    then show ?thesis
      using r Inr u by (auto simp: dirFS_Open_def on_call_eq_None)
  qed
qed

end

lemma host_kernelI: "kernel_ok U ino inside \<Longrightarrow> host_kernel U ino inside"
  by unfold_locales

lemma still_kernelI: "kernel_ok U ino inside \<Longrightarrow> kernel_still U ino \<Longrightarrow> still_kernel U ino inside"
  by (simp add: still_kernel_def still_kernel_axioms_def host_kernelI)

end
