(* ===== verification/Tree_Kernel.thy ===== *)
theory Tree_Kernel
  imports Dir_FS
begin

text \<open>
  A kernel to run the file system on: a tree of directories, files and links that does not change, and a
  table of descriptors. The inode of a node is its index. A call looks up one name; the calls that write
  give \<open>EROFS\<close>.
\<close>

datatype node = Directory nat "(string \<times> nat) list" | Link string | Regular

record table =
  descriptors :: "nat option list"

definition table_ino :: "table \<Rightarrow> int \<Rightarrow> nat option" where
  "table_ino k x = (if 0 \<le> x \<and> nat x < length (descriptors k) then descriptors k ! nat x else None)"

fun free_slot :: "nat option list \<Rightarrow> nat" where
  "free_slot (Some i # ds) = Suc (free_slot ds)"
| "free_slot ds = 0"

definition new_descriptor :: "nat \<Rightarrow> table \<Rightarrow> (sys_error + int) \<times> table" where
  "new_descriptor i k =
     (let x = free_slot (descriptors k)
      in (Inr (int x), k\<lparr>descriptors := (if x < length (descriptors k) then (descriptors k)[x := Some i] else descriptors k @ [Some i])\<rparr>))"

definition lookup_name :: "node list \<Rightarrow> nat \<Rightarrow> string \<Rightarrow> sys_error + nat" where
  "lookup_name T i name =
     (if i < length T then
        (case T ! i of
           Directory parent entries \<Rightarrow>
             if name = ''.'' then Inr i else if name = ''..'' then Inr parent
             else (case map_of entries name of None \<Rightarrow> Inl ENOENT | Some j \<Rightarrow> if j < length T then Inr j else Inl ENOENT)
         | _ \<Rightarrow> Inl ENOTDIR)
      else Inl ENOENT)"

text \<open>The current directory is inode 0.\<close>

definition lookup_at :: "node list \<Rightarrow> int \<Rightarrow> string \<Rightarrow> table \<Rightarrow> sys_error + nat" where
  "lookup_at T fd name k =
     (case if fd = AT_FDCWD then Some 0 else table_ino k fd of
        None \<Rightarrow> Inl EBADF
      | Some i \<Rightarrow> lookup_name T i name)"

definition tree_openat :: "node list \<Rightarrow> int \<Rightarrow> string \<Rightarrow> int \<Rightarrow> (int, table) syscall" where
  "tree_openat T fd name flags k =
     (case lookup_at T fd name k of
        Inl e \<Rightarrow> (Inl (if e = ENOENT \<and> flags AND O_CREAT \<noteq> 0 then EROFS else e), k)
      | Inr i \<Rightarrow>
          (case T ! i of
             Directory _ _ \<Rightarrow> new_descriptor i k
           | Link _ \<Rightarrow> (Inl (if flags AND O_DIRECTORY \<noteq> 0 then ENOTDIR else ELOOP), k)
           | Regular \<Rightarrow> if flags AND O_DIRECTORY \<noteq> 0 then (Inl ENOTDIR, k) else new_descriptor i k))"

definition tree_stat :: "node list \<Rightarrow> nat \<Rightarrow> unix_stat" where
  "tree_stat T i =
     \<lparr>st_dev = 1, st_ino = int i, st_nlink = 1,
      st_mode = (case T ! i of Directory _ _ \<Rightarrow> S_IFDIR + 365 | Link _ \<Rightarrow> S_IFLNK + 511 | Regular \<Rightarrow> S_IFREG + 292),
      st_uid = 0, st_gid = 0, st_size = 0, st_atim = (0, 0), st_mtim = (0, 0), st_ctim = (0, 0)\<rparr>"

definition tree_unix :: "node list \<Rightarrow> table unix" where
  "tree_unix T =
     \<lparr>unix_openat = \<lambda>fd name flags _. tree_openat T fd name flags,
      unix_dup = \<lambda>fd k. (case table_ino k fd of None \<Rightarrow> (Inl EBADF, k) | Some i \<Rightarrow> new_descriptor i k),
      unix_close = \<lambda>fd k. if 0 \<le> fd then k\<lparr>descriptors := (descriptors k)[nat fd := None]\<rparr> else k,
      unix_fstat = \<lambda>fd k. (case table_ino k fd of None \<Rightarrow> Inl EBADF | Some i \<Rightarrow> Inr (tree_stat T i), k),
      unix_fstatat = \<lambda>fd name _ k. (map_sum id (tree_stat T) (lookup_at T fd name k), k),
      unix_readlinkat = \<lambda>fd name n k.
        (case lookup_at T fd name k of
           Inl e \<Rightarrow> Inl e
         | Inr i \<Rightarrow> (case T ! i of Link l \<Rightarrow> Inr (take n l) | _ \<Rightarrow> Inl EINVAL), k),
      unix_futimens = \<lambda>_ _ k. (Inl EROFS, k),
      unix_utimensat = \<lambda>_ _ _ _ k. (Inl EROFS, k),
      unix_mkdirat = \<lambda>_ _ _ k. (Inl EROFS, k),
      unix_unlinkat = \<lambda>_ _ _ k. (Inl EROFS, k),
      unix_renameat = \<lambda>_ _ _ _ _ k. (Inl EROFS, k),
      unix_linkat = \<lambda>_ _ _ _ _ k. (Inl EROFS, k),
      unix_symlinkat = \<lambda>_ _ _ k. (Inl EROFS, k)\<rparr>"

section \<open>The table of descriptors\<close>

lemma free_slot_length: "free_slot ds \<le> length ds"
  by (induction ds rule: free_slot.induct) simp_all

lemma free_slot_free: "free_slot ds < length ds \<Longrightarrow> ds ! free_slot ds = None"
  by (induction ds rule: free_slot.induct) simp_all

lemma new_descriptor_opens:
  assumes "i \<in> inside" "f k = new_descriptor i k"
  shows "opens_inside table_ino inside f k"
proof -
  let ?x = "free_slot (descriptors k)"
  have "table_ino (snd (new_descriptor i k)) y = ((table_ino k)(int ?x \<mapsto> i)) y" for y
    using free_slot_length [of "descriptors k"]
    by (auto simp: table_ino_def new_descriptor_def Let_def nth_append nth_list_update)
  moreover have "table_ino k (int ?x) = None"
    using free_slot_free by (simp add: table_ino_def)
  ultimately show ?thesis
    using assms by (auto simp: opens_inside_def new_descriptor_def Let_def fun_eq_iff)
qed

lemma close_descriptor:
  "table_ino (if 0 \<le> fd then k\<lparr>descriptors := (descriptors k)[nat fd := None]\<rparr> else k) = (table_ino k)(fd := None)"
  by (auto simp: table_ino_def fun_eq_iff nth_list_update)

lemma error_opens: "f k = (Inl e, k) \<Longrightarrow> opens_inside ino inside f k"
  by (simp add: opens_inside_def)

section \<open>The laws of the kernel\<close>

text \<open>The nodes of a set that is closed under its entries.\<close>

definition closed_under :: "node list \<Rightarrow> nat set \<Rightarrow> bool" where
  "closed_under T inside \<longleftrightarrow> (\<forall>i\<in>inside. i < length T \<longrightarrow>
     (case T ! i of Directory _ entries \<Rightarrow> snd ` set entries \<subseteq> inside | _ \<Rightarrow> True))"

lemma lookup_name_inside:
  assumes "closed_under T inside" "i \<in> inside" "entry_name name \<or> name = []" "lookup_name T i name = Inr j"
  shows "j \<in> inside"
  using assms
  by (fastforce simp: lookup_name_def closed_under_def entry_name_def image_subset_iff
      split: if_splits node.splits option.splits dest: map_of_SomeD)

lemma no_EINTR: "fst (f k) \<noteq> Inl EINTR \<Longrightarrow> ignoreEINTR f k \<noteq> None"
  by (subst ignoreEINTR.simps) simp

lemma lookup_at_error: "lookup_at T fd name k \<noteq> Inl EINTR \<and> lookup_at T fd name k \<noteq> Inl EINVAL \<and> lookup_at T fd name k \<noteq> Inl ELOOP"
  by (auto simp: lookup_at_def lookup_name_def split: option.splits node.splits)

lemma new_descriptor_error: "fst (new_descriptor i k) \<noteq> Inl e"
  by (simp add: new_descriptor_def Let_def)

lemma tree_kernel_ok:
  assumes "closed_under T inside"
  shows "kernel_ok (tree_unix T) table_ino inside"
  unfolding kernel_ok_def
proof (intro conjI allI impI)
  fix k fd i name flags mode
  assume k: "table_ino k fd = Some i" "i \<in> inside" and name: "entry_name name \<or> name = []"
  have fd: "fd \<noteq> AT_FDCWD"
    using k by (auto simp: table_ino_def AT_FDCWD_def split: if_splits)
  show "opens_inside table_ino inside (unix_openat (tree_unix T) fd name flags mode) k"
  proof (cases "lookup_name T i name")
    case (Inl e)
    then show ?thesis
      using k fd by (auto simp: tree_unix_def tree_openat_def lookup_at_def intro: error_opens)
  next
    case (Inr j)
    then have "j \<in> inside"
      using lookup_name_inside assms k(2) name by blast
    then show ?thesis
      using k fd Inr by (cases "T ! j"; cases "flags AND O_DIRECTORY = 0")
        (auto simp: tree_unix_def tree_openat_def lookup_at_def intro: error_opens new_descriptor_opens)
  qed
next
  fix k fd i
  assume "table_ino k fd = Some i" "i \<in> inside"
  then show "opens_inside table_ino inside (unix_dup (tree_unix T) fd) k"
    by (simp add: tree_unix_def new_descriptor_opens)
next
  fix fd name n
  show "keeps_fds table_ino (unix_readlinkat (tree_unix T) fd name n)"
    unfolding keeps_fds_def
  proof (intro conjI allI no_EINTR)
    show "table_ino (snd (unix_readlinkat (tree_unix T) fd name n k)) = table_ino k" for k
      by (simp add: tree_unix_def)
    show "fst (unix_readlinkat (tree_unix T) fd name n k) \<noteq> Inl EINTR" for k
      using lookup_at_error [of T fd name k] by (auto simp: tree_unix_def split: sum.splits node.splits)
  qed
next
  fix k fd name flags mode
  show "ignoreEINTR (unix_openat (tree_unix T) fd name flags mode) k \<noteq> None"
    using lookup_at_error new_descriptor_error
    by (intro no_EINTR) (auto simp: tree_unix_def tree_openat_def split: sum.splits node.splits)
next
  fix k fd
  show "ignoreEINTR (unix_dup (tree_unix T) fd) k \<noteq> None"
    using new_descriptor_error by (intro no_EINTR) (auto simp: tree_unix_def split: option.splits)
next
  fix k fd
  show "table_ino (unix_close (tree_unix T) fd k) = (table_ino k)(fd := None)"
    by (simp add: tree_unix_def close_descriptor)
qed

lemma tree_fstatat_keeps: "keeps_fds table_ino (unix_fstatat (tree_unix T) fd name flags)"
  unfolding keeps_fds_def
proof (intro conjI allI no_EINTR)
  show "table_ino (snd (unix_fstatat (tree_unix T) fd name flags k)) = table_ino k" for k
    by (simp add: tree_unix_def)
  show "fst (unix_fstatat (tree_unix T) fd name flags k) \<noteq> Inl EINTR" for k
    using lookup_at_error [of T fd name k] by (cases "lookup_at T fd name k") (simp_all add: tree_unix_def)
qed

lemma tree_kernel_still: "kernel_still (tree_unix T) table_ino"
proof -
  have link: "fst (unix_readlinkat (tree_unix T) fd name n k') \<noteq> Inl EINVAL"
    if "fst (unix_openat (tree_unix T) fd name flags mode k) = Inl ELOOP" "table_ino k' fd = table_ino k fd"
    for k k' fd name flags mode n
  proof -
    have "lookup_at T fd name k' = lookup_at T fd name k"
      using that(2) by (simp add: lookup_at_def)
    then show ?thesis
      using that(1) lookup_at_error [of T fd name k] new_descriptor_error
      by (auto simp: tree_unix_def tree_openat_def split: sum.splits node.splits if_splits)
  qed
  moreover have "fst (unix_dup (tree_unix T) fd k) \<noteq> Inl ELOOP" for fd k
    using new_descriptor_error by (auto simp: tree_unix_def split: option.splits)
  ultimately show ?thesis
    unfolding kernel_still_def by blast
qed

section \<open>A tree\<close>

text \<open>
  The host has a file \<^verbatim>\<open>secret\<close> and the directory \<^verbatim>\<open>root\<close>, with a directory, a file, a link out of the
  root and a link to itself.
\<close>

definition host_tree :: "node list" where
  "host_tree =
     [Directory 0 [(''root'', 1), (''secret'', 2)],
      Directory 0 [(''dir'', 3), (''file'', 4), (''escape'', 5), (''self'', 6)],
      Regular, Directory 1 [(''link'', 7)], Regular, Link ''/../secret'', Link ''self'', Link ''../file'']"

abbreviation tree_root :: "nat set" where
  "tree_root \<equiv> {1, 3, 4, 5, 6, 7}"

definition tree_start :: "table dir_state" where
  "tree_start = \<lparr>dir_files = [], kernel = \<lparr>descriptors = []\<rparr>\<rparr>"

lemma host_tree_closed: "closed_under host_tree tree_root"
  by (simp add: closed_under_def host_tree_def)

lemma tree_start_inv: "dir_inv table_ino tree_root Map.empty (\<lambda>_. 0) {} tree_start"
  by (auto simp: dir_inv_def tree_start_def counts_ok_def fds_ok_def table_ino_def)

lemma host_tree_root: "root_ok (tree_unix host_tree) table_ino tree_root ''root''"
proof -
  have "lookup_at host_tree AT_FDCWD ''root'' k = Inr 1" for k
    by (simp add: lookup_at_def lookup_name_def host_tree_def)
  then have "tree_openat host_tree AT_FDCWD ''root'' (O_DIRECTORY OR O_CLOEXEC) k = new_descriptor 1 k" for k
    by (simp add: tree_openat_def host_tree_def)
  then show ?thesis
    by (auto simp: root_ok_def tree_unix_def intro!: new_descriptor_opens [of "Suc 0"])
qed

interpretation tree: still_kernel "tree_unix host_tree" table_ino tree_root Map.empty
  by unfold_locales (rule tree_kernel_ok [OF host_tree_closed] tree_kernel_still)+

end
