(* ===== verification/Go_Path.thy ===== *)
theory Go_Path
  imports Fspath
begin

text \<open>
  What the program uses of the package \<^verbatim>\<open>path\<close> of the standard library: \<^verbatim>\<open>Clean\<close>, \<^verbatim>\<open>Join\<close>, \<^verbatim>\<open>Dir\<close> and \<^verbatim>\<open>Base\<close>.
  Unlike \<^verbatim>\<open>fspath.Clean\<close>, \<^verbatim>\<open>path.Clean\<close> removes the element in front of a \<^verbatim>\<open>".."\<close>. \<open>abs_path es\<close> is the absolute
  path of the elements \<open>es\<close>.
\<close>

fun clean_step :: "bool \<Rightarrow> string \<Rightarrow> string list \<Rightarrow> string list" where
  "clean_step rooted e st =
     (if e = ''.'' then st
      else if e = ''..'' then
        (case st of
           [] \<Rightarrow> if rooted then [] else [''..'']
         | t # ts \<Rightarrow> if t = ''..'' then ''..'' # st else ts)
      else e # st)"

definition path_Clean :: "string \<Rightarrow> string" where
  "path_Clean s =
     (if s = [] then ''.''
      else clean_path (IsAbs s) (rev (fold (clean_step (IsAbs s)) (components s) [])) False)"

definition path_Join :: "string \<Rightarrow> string \<Rightarrow> string" where
  "path_Join a b =
     (if a = [] \<and> b = [] then []
      else path_Clean (if a = [] then b else if b = [] then a else a @ ''/'' @ b))"

definition path_Dir :: "string \<Rightarrow> string" where
  "path_Dir s = path_Clean (rev (dropWhile (\<lambda>c. c \<noteq> slash) (rev s)))"

definition path_Base :: "string \<Rightarrow> string" where
  "path_Base s =
     (if s = [] then ''.''
      else let t = rev (dropWhile (\<lambda>c. c = slash) (rev s))
           in if t = [] then ''/'' else rev (takeWhile (\<lambda>c. c \<noteq> slash) (rev t)))"

section \<open>Absolute paths\<close>

definition abs_path :: "string list \<Rightarrow> string" where
  "abs_path es = slash # path_join es"

lemma clean_path_abs [simp]: "clean_path True es False = abs_path es"
  by (simp add: clean_path_def abs_path_def)

lemma components_abs_path [simp]: "\<forall>e\<in>set es. component e \<Longrightarrow> components (abs_path es) = es"
  by (simp add: abs_path_def)

lemma IsAbs_abs_path [simp]: "IsAbs (abs_path es)"
  by (simp add: abs_path_def IsAbs_def)

lemma entry_component: "\<forall>e\<in>set es. entry_name e \<Longrightarrow> \<forall>e\<in>set es. component e"
  by (simp add: entry_name_def)

lemma clean_entries: "\<forall>e\<in>set es. entry_name e \<Longrightarrow> fold (clean_step r) es st = rev es @ st"
  by (induction es arbitrary: st) (simp_all add: entry_name_def)

lemma abs_path_not_Nil [simp]: "abs_path es \<noteq> []"
  by (simp add: abs_path_def)

lemma path_Clean_abs [simp]:
  assumes "\<forall>e\<in>set es. entry_name e"
  shows "path_Clean (abs_path es) = abs_path es"
  by (simp add: path_Clean_def clean_entries [OF assms] components_abs_path [OF entry_component [OF assms]])

lemma clean_step_entries:
  "component e \<Longrightarrow> \<forall>x\<in>set st. entry_name x \<Longrightarrow> \<forall>x\<in>set (clean_step True e st). entry_name x"
  by (cases st) (auto simp: entry_name_def)

lemma fold_clean_entries:
  "\<forall>e\<in>set es. component e \<Longrightarrow> \<forall>x\<in>set st. entry_name x \<Longrightarrow> \<forall>x\<in>set (fold (clean_step True) es st). entry_name x"
proof (induction es arbitrary: st)
  case (Cons e es)
  then show ?case
    using clean_step_entries [of e st] by (simp del: clean_step.simps)
qed simp

text \<open>The clean form of an absolute path.\<close>

lemma path_Clean_IsAbs:
  assumes "IsAbs s"
  obtains es where "path_Clean s = abs_path es" "\<forall>e\<in>set es. entry_name e"
proof -
  let ?es = "rev (fold (clean_step True) (components s) [])"
  have "s \<noteq> []"
    using assms by (auto simp: IsAbs_def)
  then have "path_Clean s = abs_path ?es"
    using assms unfolding path_Clean_def by (simp only: if_False clean_path_abs)
  moreover have "\<forall>e\<in>set (components s). component e"
    using components_component by blast
  then have "\<forall>e\<in>set ?es. entry_name e"
    using fold_clean_entries [of "components s" "[]"] by (simp only: set_rev) simp
  ultimately show thesis
    by (rule that)
qed

lemma path_join_snoc: "path_join (es @ [e]) = (if es = [] then e else path_join es @ slash # e)"
  by (induction es) (auto simp: Cons_eq_append_conv)

lemma before_slash:
  "slash \<notin> set e \<Longrightarrow> dropWhile (\<lambda>c. c \<noteq> slash) (rev (x @ slash # e)) = slash # rev x"
  "slash \<notin> set e \<Longrightarrow> takeWhile (\<lambda>c. c \<noteq> slash) (rev (x @ slash # e)) = rev e"
  by (simp_all add: dropWhile_append takeWhile_append)

lemma abs_path_snoc: "\<exists>x. abs_path (es @ [e]) = x @ slash # e \<and> x @ [slash] = (if es = [] then ''/'' else abs_path es @ ''/'')"
  by (cases "es = []") (simp_all add: abs_path_def path_join_snoc)

lemma path_Dir_abs [simp]:
  assumes "\<forall>x\<in>set es. entry_name x" "entry_name e"
  shows "path_Dir (abs_path (es @ [e])) = abs_path es"
proof -
  obtain x where x: "abs_path (es @ [e]) = x @ slash # e" "x @ [slash] = (if es = [] then ''/'' else abs_path es @ ''/'')"
    using abs_path_snoc by blast
  have "slash \<notin> set e"
    using assms(2) by (simp add: entry_name_def component_def)
  then have "path_Dir (abs_path (es @ [e])) = path_Clean (x @ [slash])"
    unfolding path_Dir_def x(1) by (subst before_slash(1)) simp_all
  also have "\<dots> = abs_path es"
  proof (cases "es = []")
    case False
    have "components (abs_path es @ ''/'') = es" "IsAbs (abs_path es @ ''/'')"
      using entry_component [OF assms(1)] components_append [of "abs_path es" "[]"] by (simp_all add: IsAbs_def abs_path_def)
    then show ?thesis
      unfolding x(2) path_Clean_def using False by (simp add: clean_entries [OF assms(1)])
  qed (use x in \<open>simp add: path_Clean_def abs_path_def IsAbs_def clean_path_def\<close>)
  finally show ?thesis .
qed

lemma path_Dir_root [simp]: "path_Dir ''/'' = ''/''"
  by (simp add: path_Dir_def path_Clean_def IsAbs_def clean_path_def)

lemma abs_path_Nil [simp]: "abs_path [] = ''/''"
  by (simp add: abs_path_def)

lemma abs_path_root: "entry_name e \<Longrightarrow> abs_path (e # es) \<noteq> ''/''"
  by (auto simp: abs_path_def entry_name_def component_def)

lemma path_Base_abs [simp]:
  assumes "entry_name e"
  shows "path_Base (abs_path (es @ [e])) = e"
proof -
  obtain x where x: "abs_path (es @ [e]) = x @ slash # e"
    using abs_path_snoc by blast
  have e: "e \<noteq> []" "slash \<notin> set e"
    using assms by (auto simp: entry_name_def component_def)
  then have "dropWhile (\<lambda>c. c = slash) (rev (x @ slash # e)) = rev (x @ slash # e)"
    by (cases e rule: rev_cases) auto
  then show ?thesis
    unfolding path_Base_def x before_slash(2) [OF e(2)] Let_def using e before_slash(2) [OF e(2), of x] by simp
qed

lemma abs_path_inj: "\<forall>e\<in>set es. entry_name e \<Longrightarrow> \<forall>e\<in>set ds. entry_name e \<Longrightarrow> abs_path es = abs_path ds \<longleftrightarrow> es = ds"
  using components_abs_path entry_component by metis

end
