(* ===== verification/Tarfs.thy ===== *)
theory Tarfs
  imports Go_Path Resolve_Path "HOL-Library.List_Lexorder" "HOL-Library.Char_ord"
begin

text \<open>
  The file system of a tarball (\<^verbatim>\<open>internal/sandbox/tarfs\<close>). The entries are mutable objects, so they live in a
  store, a list, and a reference is an index; the root is entry 0. What the reader of the archive (package
  \<^verbatim>\<open>archive/tar\<close>) answers is the list of the headers, each with the position of its content, and the error that ends
  them, if it is not \<^verbatim>\<open>io.EOF\<close>. Times are in nanoseconds since the epoch.
\<close>

section \<open>Entries\<close>

record tar_header =
  th_Name :: string
  th_Typeflag :: char
  th_Linkname :: string
  th_Mode :: int
  th_Size :: int
  th_ModTime :: int
  th_AccessTime :: int
  th_ChangeTime :: int
  th_offset :: int

definition TypeReg :: char where "TypeReg = CHR ''0''"
definition TypeLink :: char where "TypeLink = CHR ''1''"
definition TypeSymlink :: char where "TypeSymlink = CHR ''2''"
definition TypeDir :: char where "TypeDir = CHR ''5''"

record tar_dir =
  td_parent :: "nat option"
  td_perm :: int
  td_mtime :: int
  td_atime :: int
  td_ctime :: int
  td_ents :: "(string \<times> nat) list"

record tar_file =
  tf_perm :: int
  tf_nlink :: int
  tf_size :: int
  tf_mtime :: int
  tf_atime :: int
  tf_ctime :: int
  tf_offset :: int

record tar_symlink =
  ts_perm :: int
  ts_nlink :: int
  ts_mtime :: int
  ts_atime :: int
  ts_ctime :: int
  ts_link :: string

datatype file_entry = DirEntry tar_dir | FileEntry tar_file | SymlinkEntry tar_symlink | PlaceholderEntry FileInfo

definition tar_newDir :: "tar_header \<Rightarrow> tar_dir" where
  "tar_newDir h = \<lparr>td_parent = None, td_perm = th_Mode h AND 511, td_mtime = th_ModTime h,
     td_atime = th_AccessTime h, td_ctime = th_ChangeTime h, td_ents = []\<rparr>"

definition tar_makeDir :: "int \<Rightarrow> tar_dir" where
  "tar_makeDir modTime = \<lparr>td_parent = None, td_perm = 493, td_mtime = modTime, td_atime = modTime,
     td_ctime = modTime, td_ents = []\<rparr>"

definition tar_newFile :: "tar_header \<Rightarrow> int \<Rightarrow> tar_file" where
  "tar_newFile h offset = \<lparr>tf_perm = th_Mode h AND 511, tf_nlink = 1, tf_size = th_Size h, tf_mtime = th_ModTime h,
     tf_atime = th_AccessTime h, tf_ctime = th_ChangeTime h, tf_offset = offset\<rparr>"

definition tar_newSymlink :: "tar_header \<Rightarrow> tar_symlink" where
  "tar_newSymlink h = \<lparr>ts_perm = th_Mode h AND 511, ts_nlink = 1, ts_mtime = th_ModTime h,
     ts_atime = th_AccessTime h, ts_ctime = th_ChangeTime h, ts_link = th_Linkname h\<rparr>"

text \<open>\<^verbatim>\<open>TimeToTimespec\<close>: seconds and nanoseconds.\<close>

definition nsecToTimespec :: "int \<Rightarrow> int \<times> int" where
  "nsecToTimespec ns = (ns div 1000000000, ns mod 1000000000)"

definition tar_info :: "int \<Rightarrow> int \<Rightarrow> int \<Rightarrow> int \<Rightarrow> int \<Rightarrow> int \<Rightarrow> FileInfo" where
  "tar_info mode nlink sz mtime atime ctime =
     \<lparr>fi_dev = 0, fi_ino = 0, fi_nlink = nlink, fi_mode = mode, fi_uid = 1, fi_gid = 1, fi_size = sz,
      fi_atime = nsecToTimespec atime, fi_mtime = nsecToTimespec mtime, fi_ctime = nsecToTimespec ctime\<rparr>"

definition tar_newPlaceholder :: "tar_header \<Rightarrow> FileInfo" where
  "tar_newPlaceholder h = tar_info (th_Mode h) 1 (th_Size h) (th_ModTime h) (th_AccessTime h) (th_ChangeTime h)"

section \<open>Opening an archive\<close>

text \<open>\<open>fs_files\<close> is the map \<^verbatim>\<open>files\<close>, from names to entries.\<close>

record tarfs =
  fs_entries :: "file_entry list"
  fs_files :: "(string \<times> nat) list"
  fs_memsize :: int
  fs_filesize :: int

datatype tar_failure =
    ReaderFailed nat
  | DuplicateLink string
  | DuplicateFile string
  | InvalidHardLink string string
  | TarError sys_error
  | TypeAssertionPanic

definition absPath :: "string \<Rightarrow> string" where
  "absPath p = path_Join ''/'' p"

definition add_ent :: "nat \<Rightarrow> string \<Rightarrow> nat \<Rightarrow> tarfs \<Rightarrow> tarfs" where
  "add_ent d name f s =
     (case fs_entries s ! d of
        DirEntry dir \<Rightarrow> s\<lparr>fs_entries := (fs_entries s)[d := DirEntry (dir\<lparr>td_ents := td_ents dir @ [(name, f)]\<rparr>)]\<rparr>
      | _ \<Rightarrow> s)"

partial_function (option) makePath :: "string \<Rightarrow> int \<Rightarrow> nat \<Rightarrow> tarfs \<Rightarrow> (tar_failure option \<times> tarfs) option" where
  "makePath name modTime f s =
     (let dirname = path_Dir name
      in case map_of (fs_files s) dirname of
           None \<Rightarrow>
             on_call (makePath name modTime f s) (\<lambda>err s. case err of
                 Some e \<Rightarrow> Some (Some e, s)
               | None \<Rightarrow>
                   let d = length (fs_entries s);
                       s = s\<lparr>fs_entries := fs_entries s @ [DirEntry (tar_makeDir modTime)], fs_files := (dirname, d) # fs_files s\<rparr>
                   in Some (None, add_ent d (path_Base name) f s))
         | Some d \<Rightarrow>
             (case fs_entries s ! d of
                DirEntry _ \<Rightarrow> Some (None, add_ent d (path_Base name) f s)
              | _ \<Rightarrow> Some (Some (TarError EPERM), s)))"

declare makePath.simps [code]

definition new_entry :: "tar_header \<Rightarrow> file_entry" where
  "new_entry h =
     (if th_Typeflag h = TypeReg then FileEntry (tar_newFile h (th_offset h))
      else if th_Typeflag h = TypeDir then DirEntry (tar_newDir h)
      else if th_Typeflag h = TypeSymlink then SymlinkEntry (tar_newSymlink h)
      else PlaceholderEntry (tar_newPlaceholder h))"

text \<open>The header of the root is taken over, and its entries stay.\<close>

definition set_root :: "tar_header \<Rightarrow> tarfs \<Rightarrow> tarfs" where
  "set_root h s =
     (case fs_entries s ! 0 of
        DirEntry dir \<Rightarrow>
          let template = tar_newDir h
          in s\<lparr>fs_entries := (fs_entries s)[0 := DirEntry (dir\<lparr>td_perm := td_perm template, td_mtime := td_mtime template,
               td_atime := td_atime template, td_ctime := td_ctime template\<rparr>)]\<rparr>
      | _ \<Rightarrow> s)"

text \<open>A header: an error, or the hard links to make later.\<close>

definition add_header ::
  "int \<Rightarrow> tar_header \<Rightarrow> (string \<times> string) list \<Rightarrow> tarfs \<Rightarrow> ((tar_failure + (string \<times> string) list) \<times> tarfs) option"
where
  "add_header modTime h links s =
     (let name = absPath (th_Name h)
      in if name = ''.'' \<or> name = ''..'' then Some (Inr links, s)
         else if name = ''/'' then Some (Inr links, set_root h s)
         else if th_Typeflag h = TypeLink then
           (if map_of links name \<noteq> None then Some (Inl (DuplicateLink name), s)
            else Some (Inr (links @ [(name, absPath (th_Linkname h))]), s))
         else if map_of (fs_files s) name \<noteq> None then Some (Inl (DuplicateFile name), s)
         else let f = length (fs_entries s);
                  s = s\<lparr>fs_entries := fs_entries s @ [new_entry h], fs_files := (name, f) # fs_files s\<rparr>
              in on_call (makePath name modTime f s) (\<lambda>err s. case err of
                     Some e \<Rightarrow> Some (Inl e, s)
                   | None \<Rightarrow> Some (Inr links, s)))"

fun add_headers ::
  "int \<Rightarrow> tar_header list \<Rightarrow> tar_failure option \<Rightarrow> (string \<times> string) list \<Rightarrow> tarfs
   \<Rightarrow> ((tar_failure + (string \<times> string) list) \<times> tarfs) option"
where
  "add_headers modTime [] err links s = Some (case err of None \<Rightarrow> Inr links | Some e \<Rightarrow> Inl e, s)"
| "add_headers modTime (h # hs) err links s =
     on_call (add_header modTime h links s) (\<lambda>r s. case r of
         Inl e \<Rightarrow> Some (Inl e, s)
       | Inr links \<Rightarrow> add_headers modTime hs err links s)"

definition link_entry :: "nat \<Rightarrow> tarfs \<Rightarrow> tarfs option" where
  "link_entry f s =
     (case fs_entries s ! f of
        FileEntry t \<Rightarrow> Some (s\<lparr>fs_entries := (fs_entries s)[f := FileEntry (t\<lparr>tf_nlink := wrap (Unsigned 32) (tf_nlink t + 1)\<rparr>)]\<rparr>)
      | SymlinkEntry t \<Rightarrow>
          Some (s\<lparr>fs_entries := (fs_entries s)[f := SymlinkEntry (t\<lparr>ts_nlink := wrap (Unsigned 32) (ts_nlink t + 1)\<rparr>)]\<rparr>)
      | _ \<Rightarrow> None)"

fun add_links :: "int \<Rightarrow> (string \<times> string) list \<Rightarrow> tarfs \<Rightarrow> (tar_failure option \<times> tarfs) option" where
  "add_links modTime [] s = Some (None, s)"
| "add_links modTime ((link, name) # links) s =
     (case Option.bind (map_of (fs_files s) name) (\<lambda>f. map_option (Pair f) (link_entry f s)) of
        None \<Rightarrow> Some (Some (InvalidHardLink link name), s)
      | Some (f, s) \<Rightarrow>
          if map_of (fs_files s) link \<noteq> None then Some (Some (DuplicateFile link), s)
          else on_call (makePath link modTime f s) (\<lambda>err s. case err of
                 Some e \<Rightarrow> Some (Some e, s)
               | None \<Rightarrow> add_links modTime links s))"

text \<open>The last loops: the parents of the directories, the order of their entries and the sizes.\<close>

fun finish_dirs :: "(string \<times> nat) list \<Rightarrow> tarfs \<Rightarrow> tar_failure option \<times> tarfs" where
  "finish_dirs [] s = (None, s)"
| "finish_dirs ((name, f) # files) s =
     (case fs_entries s ! f of
        DirEntry dir \<Rightarrow>
          (case map_of (fs_files s) (path_Dir name) of
             None \<Rightarrow> (Some TypeAssertionPanic, s)
           | Some p \<Rightarrow>
               (case fs_entries s ! p of
                  DirEntry _ \<Rightarrow>
                    finish_dirs files (s\<lparr>fs_entries := (fs_entries s)[f := DirEntry (dir\<lparr>td_parent := Some p,
                      td_ents := sort_key fst (td_ents dir)\<rparr>)]\<rparr>)
                | _ \<Rightarrow> (Some TypeAssertionPanic, s)))
      | _ \<Rightarrow> finish_dirs files s)"

text \<open>\<^verbatim>\<open>unsafe.Sizeof\<close> of the structures: 64 for a directory and 32 for an entry of it, 48 for files and links, 96 for a placeholder.\<close>

definition dir_memsize :: "tar_dir \<Rightarrow> int" where
  "dir_memsize d = 64 + sum_list (map (\<lambda>(name, _). 32 + int (length name)) (td_ents d))"

definition entry_memsize :: "file_entry \<Rightarrow> int" where
  "entry_memsize f =
     (case f of
        DirEntry d \<Rightarrow> dir_memsize d
      | FileEntry _ \<Rightarrow> 48
      | SymlinkEntry t \<Rightarrow> 48 + int (length (ts_link t))
      | PlaceholderEntry _ \<Rightarrow> 96)"

definition add_sizes :: "tarfs \<Rightarrow> tarfs" where
  "add_sizes s =
     s\<lparr>fs_memsize := sum_list (map (\<lambda>(_, f). entry_memsize (fs_entries s ! f)) (fs_files s)),
       fs_filesize := sum_list (map (\<lambda>(_, f). case fs_entries s ! f of FileEntry t \<Rightarrow> tf_size t | _ \<Rightarrow> 0) (fs_files s))\<rparr>"

definition tarfs_start :: "int \<Rightarrow> tarfs" where
  "tarfs_start modTime =
     \<lparr>fs_entries = [DirEntry (tar_makeDir modTime)], fs_files = [(''/'', 0)], fs_memsize = 0, fs_filesize = 0\<rparr>"

text \<open>Go ranges over the map of the hard links in any order: \<open>order\<close> is the one it takes.\<close>

definition tarfs_Open ::
  "((string \<times> string) list \<Rightarrow> (string \<times> string) list) \<Rightarrow> int \<Rightarrow> tar_header list \<Rightarrow> tar_failure option
   \<Rightarrow> (tar_failure + tarfs) option"
where
  "tarfs_Open order modTime hs err =
     on_call (add_headers modTime hs err [] (tarfs_start modTime)) (\<lambda>r s. case r of
         Inl e \<Rightarrow> Some (Inl e)
       | Inr links \<Rightarrow>
           on_call (add_links modTime (order links) s) (\<lambda>err s. case err of
               Some e \<Rightarrow> Some (Inl e)
             | None \<Rightarrow>
                 (case finish_dirs (fs_files s) s of
                    (Some e, _) \<Rightarrow> Some (Inl e)
                  | (None, s) \<Rightarrow> Some (Inr (add_sizes s)))))"

section \<open>Looking up names\<close>

text \<open>\<^verbatim>\<open>sort.Search\<close>.\<close>

function search_loop :: "(nat \<Rightarrow> bool) \<Rightarrow> nat \<Rightarrow> nat \<Rightarrow> nat" where
  "search_loop f i j =
     (if i < j then let h = (i + j) div 2 in if \<not> f h then search_loop f (h + 1) j else search_loop f i h else i)"
  by auto
termination
  by (relation "measure (\<lambda>(f, i, j). j - i)") auto

declare search_loop.simps [simp del]

definition sort_Search :: "nat \<Rightarrow> (nat \<Rightarrow> bool) \<Rightarrow> nat" where
  "sort_Search n f = search_loop f 0 n"

definition dir_find :: "tarfs \<Rightarrow> nat \<Rightarrow> string \<Rightarrow> nat option" where
  "dir_find s d name =
     (case fs_entries s ! d of
        DirEntry dir \<Rightarrow>
          if name = ''.'' then Some d
          else if name = ''..'' then td_parent dir
          else let ents = td_ents dir; i = sort_Search (length ents) (\<lambda>i. name \<le> fst (ents ! i))
               in if i = length ents \<or> fst (ents ! i) \<noteq> name then None else Some (snd (ents ! i))
      | _ \<Rightarrow> None)"

fun tar_resolve_loop :: "nat \<Rightarrow> tarfs \<Rightarrow> nat \<Rightarrow> string \<Rightarrow> int \<Rightarrow> sys_error + nat" where
  "tar_resolve_loop 0 s cwd name flags = Inl ELOOP"
| "tar_resolve_loop (Suc n) s cwd name flags =
     (if name = [] then Inr cwd
      else let elem = fst (Walk name); name = snd (Walk name)
           in if elem = ''/'' then tar_resolve_loop n s 0 name flags
              else case dir_find s cwd elem of
                     None \<Rightarrow> Inl ENOENT
                   | Some f \<Rightarrow>
                       if name \<noteq> [] then
                         (case fs_entries s ! f of
                            SymlinkEntry c \<Rightarrow> tar_resolve_loop n s cwd (path_Join (ts_link c) name) flags
                          | DirEntry _ \<Rightarrow> tar_resolve_loop n s f name flags
                          | _ \<Rightarrow> Inl ENOTDIR)
                       else
                         (case fs_entries s ! f of
                            DirEntry _ \<Rightarrow> Inr f
                          | SymlinkEntry c \<Rightarrow>
                              if flags AND O_DIRECTORY \<noteq> 0 then Inl ENOTDIR
                              else if flags AND O_NOFOLLOW = 0 then tar_resolve_loop n s cwd (ts_link c) flags
                              else Inr f
                          | _ \<Rightarrow> if flags AND O_DIRECTORY \<noteq> 0 then Inl ENOTDIR else Inr f))"

definition tar_resolve :: "tarfs \<Rightarrow> nat \<Rightarrow> string \<Rightarrow> int \<Rightarrow> (nat \<Rightarrow> sys_error + 'r) \<Rightarrow> sys_error + 'r" where
  "tar_resolve s cwd name flags act =
     (case tar_resolve_loop MaxFollowSymlink s cwd name flags of Inl e \<Rightarrow> Inl e | Inr f \<Rightarrow> act f)"

end
