(* ===== verification/Tarfs_Tree.thy ===== *)
theory Tarfs_Tree
  imports Tarfs
begin

text \<open>
  The tree that \<open>tarfs_Open\<close> builds. The abstract view of the file system is the map \<open>at s\<close> from the elements of
  an absolute path to its entry. An archive is in order, \<open>archive_ok\<close>, when it has no hard links, no name twice, and
  every directory before what is in it.
\<close>

definition header_path :: "tar_header \<Rightarrow> string list" where
  "header_path h = components (absPath (th_Name h))"

abbreviation entry_path :: "string list \<Rightarrow> bool" where
  "entry_path p \<equiv> \<forall>e\<in>set p. entry_name e"

lemma absPath_header: "absPath (th_Name h) = abs_path (header_path h)" "entry_path (header_path h)"
proof -
  let ?name = "if th_Name h = [] then ''/'' else ''/'' @ ''/'' @ th_Name h"
  have "IsAbs ?name"
    by (simp add: IsAbs_def)
  then obtain es where "path_Clean ?name = abs_path es" "entry_path es"
    by (rule path_Clean_IsAbs)
  then have es: "absPath (th_Name h) = abs_path es" "entry_path es"
    by (simp_all add: absPath_def path_Join_def)
  then have "header_path h = es"
    using components_abs_path [OF entry_component [OF es(2)]] by (simp add: header_path_def)
  then show "absPath (th_Name h) = abs_path (header_path h)" "entry_path (header_path h)"
    using es by simp_all
qed

definition is_dir :: "file_entry \<Rightarrow> bool" where
  "is_dir f = (case f of DirEntry _ \<Rightarrow> True | _ \<Rightarrow> False)"

text \<open>What an entry has of its header.\<close>

definition header_part :: "file_entry \<Rightarrow> file_entry" where
  "header_part f = (case f of DirEntry d \<Rightarrow> DirEntry (d\<lparr>td_parent := None, td_ents := []\<rparr>) | _ \<Rightarrow> f)"

definition ents_of :: "file_entry \<Rightarrow> (string \<times> nat) list" where
  "ents_of f = (case f of DirEntry d \<Rightarrow> td_ents d | _ \<Rightarrow> [])"

definition dir_paths :: "tar_header list \<Rightarrow> string list set" where
  "dir_paths hs = insert [] (header_path ` {h \<in> set hs. th_Typeflag h = TypeDir})"

definition paths :: "tar_header list \<Rightarrow> string list set" where
  "paths hs = insert [] (header_path ` set hs)"

fun archive_ok :: "tar_header list \<Rightarrow> tar_header list \<Rightarrow> bool" where
  "archive_ok seen [] \<longleftrightarrow> True"
| "archive_ok seen (h # hs) \<longleftrightarrow>
     (if header_path h = [] then True
      else th_Typeflag h \<noteq> TypeLink \<and> header_path h \<notin> paths seen \<and> butlast (header_path h) \<in> dir_paths seen)
     \<and> archive_ok (h # seen) hs"

definition at :: "tarfs \<Rightarrow> string list \<Rightarrow> nat option" where
  "at s p = map_of (fs_files s) (abs_path p)"

section \<open>The invariant\<close>

definition tree_inv :: "tar_header list \<Rightarrow> tarfs \<Rightarrow> bool" where
  "tree_inv seen s \<longleftrightarrow>
     (\<forall>p. entry_path p \<longrightarrow> (at s p \<noteq> None) = (p \<in> paths seen))
     \<and> (\<forall>p e. p @ [e] \<in> paths seen \<longrightarrow> p \<in> dir_paths seen)
     \<and> fst ` set (fs_files s) = abs_path ` paths seen \<and> distinct (map fst (fs_files s)) \<and> distinct (map snd (fs_files s))
     \<and> (\<forall>f \<in> snd ` set (fs_files s). f < length (fs_entries s))
     \<and> at s [] = Some 0 \<and> is_dir (fs_entries s ! 0)
     \<and> (\<forall>h \<in> set seen. header_path h \<noteq> [] \<longrightarrow> (\<exists>f. at s (header_path h) = Some f \<and> header_part (fs_entries s ! f) = new_entry h))
     \<and> (\<forall>p f. entry_path p \<longrightarrow> at s p = Some f \<longrightarrow> is_dir (fs_entries s ! f) \<longrightarrow>
          set (ents_of (fs_entries s ! f)) = {(e, g). entry_name e \<and> at s (p @ [e]) = Some g}
          \<and> distinct (map fst (ents_of (fs_entries s ! f))))"

lemma paths_Cons: "paths (h # hs) = insert (header_path h) (paths hs)"
  by (auto simp: paths_def)

lemma dir_paths_Cons:
  "dir_paths (h # hs) = (if th_Typeflag h = TypeDir then insert (header_path h) (dir_paths hs) else dir_paths hs)"
  by (auto simp: dir_paths_def)

lemma paths_entry_path: "p \<in> paths hs \<Longrightarrow> entry_path p"
  using absPath_header(2) by (auto simp: paths_def)

lemma dir_paths_paths: "p \<in> dir_paths hs \<Longrightarrow> p \<in> paths hs"
  by (auto simp: paths_def dir_paths_def)

lemma TypeDir_simps [simp]: "TypeDir \<noteq> TypeReg" "TypeDir \<noteq> TypeSymlink" "TypeDir \<noteq> TypeLink"
  by (simp_all add: TypeDir_def TypeReg_def TypeSymlink_def TypeLink_def)

lemma is_dir_new_entry [simp]: "is_dir (new_entry h) \<longleftrightarrow> th_Typeflag h = TypeDir"
  by (auto simp: is_dir_def new_entry_def)

lemma new_entry_simps [simp]: "ents_of (new_entry h) = []" "header_part (new_entry h) = new_entry h"
  by (simp_all add: new_entry_def ents_of_def tar_newDir_def header_part_def)

lemma header_part_is_dir [simp]: "is_dir (header_part f) = is_dir f"
  by (simp add: header_part_def is_dir_def split: file_entry.splits)

lemma tree_invI:
  assumes "\<And>p. entry_path p \<Longrightarrow> (at s p \<noteq> None) = (p \<in> paths seen)" "\<And>p e. p @ [e] \<in> paths seen \<Longrightarrow> p \<in> dir_paths seen"
    and "fst ` set (fs_files s) = abs_path ` paths seen" "distinct (map fst (fs_files s))" "distinct (map snd (fs_files s))"
    and "\<And>f. f \<in> snd ` set (fs_files s) \<Longrightarrow> f < length (fs_entries s)" "at s [] = Some 0" "is_dir (fs_entries s ! 0)"
    and "\<And>h. h \<in> set seen \<Longrightarrow> header_path h \<noteq> [] \<Longrightarrow>
       \<exists>f. at s (header_path h) = Some f \<and> header_part (fs_entries s ! f) = new_entry h"
    and "\<And>p f. entry_path p \<Longrightarrow> at s p = Some f \<Longrightarrow> is_dir (fs_entries s ! f) \<Longrightarrow>
       set (ents_of (fs_entries s ! f)) = {(e, g). entry_name e \<and> at s (p @ [e]) = Some g}"
    and "\<And>p f. entry_path p \<Longrightarrow> at s p = Some f \<Longrightarrow> is_dir (fs_entries s ! f) \<Longrightarrow> distinct (map fst (ents_of (fs_entries s ! f)))"
  shows "tree_inv seen s"
  unfolding tree_inv_def
  by (intro conjI allI impI ballI) (erule (2) assms | erule (1) assms | erule assms | rule assms)+

lemma abs_path_eq_root: "entry_path p \<Longrightarrow> abs_path p = ''/'' \<longleftrightarrow> p = []"
  using abs_path_root by (cases p) auto

lemma tree_inv_start: "tree_inv [] (tarfs_start modTime)"
proof -
  have at: "at (tarfs_start modTime) p = (if p = [] then Some 0 else None)" if "entry_path p" for p
    using abs_path_eq_root [OF that] by (simp add: at_def tarfs_start_def)
  have none: "at (tarfs_start modTime) (p @ [e]) = None" if "entry_path p" "entry_name e" for p e
    using at [of "p @ [e]"] that by simp
  have dir: "fs_entries (tarfs_start modTime) ! 0 = DirEntry (tar_makeDir modTime)" "fs_files (tarfs_start modTime) = [(''/'', 0)]"
    "length (fs_entries (tarfs_start modTime)) = 1"
    by (simp_all add: tarfs_start_def)
  have "paths [] = {[]}" "dir_paths [] = {[]}"
    by (simp_all add: paths_def dir_paths_def)
  moreover have "is_dir (DirEntry (tar_makeDir modTime))" "ents_of (DirEntry (tar_makeDir modTime)) = []"
    by (simp_all add: is_dir_def ents_of_def tar_makeDir_def)
  ultimately show ?thesis
  proof (intro tree_invI)
    show "\<exists>f. at (tarfs_start modTime) (header_path h) = Some f \<and> header_part (fs_entries (tarfs_start modTime) ! f) = new_entry h"
      if "h \<in> set []" for h
      using that by simp
    fix p f
    assume p: "entry_path p" "at (tarfs_start modTime) p = Some f"
    then have "p = []" "f = 0"
      using at [of p] by (simp_all split: if_splits)
    then show "set (ents_of (fs_entries (tarfs_start modTime) ! f)) = {(e, g). entry_name e \<and> at (tarfs_start modTime) (p @ [e]) = Some g}"
      "distinct (map fst (ents_of (fs_entries (tarfs_start modTime) ! f)))"
      using none [of "[]"] dir by (auto simp: tar_makeDir_def ents_of_def)
  qed (use at dir in auto)
qed

lemma tree_invD:
  assumes "tree_inv seen s"
  shows "entry_path p \<Longrightarrow> at s p \<noteq> None \<longleftrightarrow> p \<in> paths seen" "p @ [e] \<in> paths seen \<Longrightarrow> p \<in> dir_paths seen"
    "fst ` set (fs_files s) = abs_path ` paths seen" "distinct (map fst (fs_files s))" "distinct (map snd (fs_files s))"
    "f \<in> snd ` set (fs_files s) \<Longrightarrow> f < length (fs_entries s)" "at s [] = Some 0" "is_dir (fs_entries s ! 0)"
    "h \<in> set seen \<Longrightarrow> header_path h \<noteq> [] \<Longrightarrow> \<exists>f. at s (header_path h) = Some f \<and> header_part (fs_entries s ! f) = new_entry h"
    "entry_path p \<Longrightarrow> at s p = Some f \<Longrightarrow> is_dir (fs_entries s ! f) \<Longrightarrow>
       set (ents_of (fs_entries s ! f)) = {(e, g). entry_name e \<and> at s (p @ [e]) = Some g}
       \<and> distinct (map fst (ents_of (fs_entries s ! f)))"
proof -
  note inv = assms [unfolded tree_inv_def]
  note i1 = inv [THEN conjunct1, THEN spec, THEN mp]
  note i2 = inv [THEN conjunct2, THEN conjunct1, rule_format]
  note i3 = inv [THEN conjunct2, THEN conjunct2, THEN conjunct1, rule_format]
  note i4 = inv [THEN conjunct2, THEN conjunct2, THEN conjunct2, THEN conjunct1, rule_format]
  note i5 = inv [THEN conjunct2, THEN conjunct2, THEN conjunct2, THEN conjunct2, THEN conjunct1, rule_format]
  note i6 = inv [THEN conjunct2, THEN conjunct2, THEN conjunct2, THEN conjunct2, THEN conjunct2, THEN conjunct1, rule_format]
  note i7 = inv [THEN conjunct2, THEN conjunct2, THEN conjunct2, THEN conjunct2, THEN conjunct2, THEN conjunct2, THEN conjunct1, rule_format]
  note i8 = inv [THEN conjunct2, THEN conjunct2, THEN conjunct2, THEN conjunct2, THEN conjunct2, THEN conjunct2, THEN conjunct2, THEN conjunct1, rule_format]
  note i9 = inv [THEN conjunct2, THEN conjunct2, THEN conjunct2, THEN conjunct2, THEN conjunct2, THEN conjunct2, THEN conjunct2, THEN conjunct2, THEN conjunct1, rule_format]
  note i10 = inv [THEN conjunct2, THEN conjunct2, THEN conjunct2, THEN conjunct2, THEN conjunct2, THEN conjunct2, THEN conjunct2, THEN conjunct2, THEN conjunct2, THEN spec, THEN spec, THEN mp, THEN mp, THEN mp]
  show "entry_path p \<Longrightarrow> at s p \<noteq> None \<longleftrightarrow> p \<in> paths seen"
    by (fact i1)
  show "p @ [e] \<in> paths seen \<Longrightarrow> p \<in> dir_paths seen"
    by (fact i2)
  show "fst ` set (fs_files s) = abs_path ` paths seen"
    by (fact i3)
  show "distinct (map fst (fs_files s))"
    by (fact i4)
  show "distinct (map snd (fs_files s))"
    by (fact i5)
  show "f \<in> snd ` set (fs_files s) \<Longrightarrow> f < length (fs_entries s)"
    by (fact i6)
  show "at s [] = Some 0"
    by (fact i7)
  show "is_dir (fs_entries s ! 0)"
    by (fact i8)
  show "h \<in> set seen \<Longrightarrow> header_path h \<noteq> [] \<Longrightarrow> \<exists>f. at s (header_path h) = Some f \<and> header_part (fs_entries s ! f) = new_entry h"
    by (fact i9)
  show "entry_path p \<Longrightarrow> at s p = Some f \<Longrightarrow> is_dir (fs_entries s ! f) \<Longrightarrow>
       set (ents_of (fs_entries s ! f)) = {(e, g). entry_name e \<and> at s (p @ [e]) = Some g}
       \<and> distinct (map fst (ents_of (fs_entries s ! f)))"
    by (fact i10)
qed

lemma at_file: "at s p = Some f \<Longrightarrow> (abs_path p, f) \<in> set (fs_files s)"
  by (simp add: at_def map_of_SomeD)

lemma at_length: "tree_inv seen s \<Longrightarrow> at s p = Some f \<Longrightarrow> f < length (fs_entries s)"
  using tree_invD(6) at_file by (metis image_eqI snd_conv)

lemma at_inj:
  assumes "tree_inv seen s" "at s p = Some f" "at s q = Some f" "entry_path p" "entry_path q"
  shows "p = q"
proof -
  have "(abs_path p, f) \<in> set (fs_files s)" "(abs_path q, f) \<in> set (fs_files s)"
    using assms(2,3) at_file by blast+
  then have "abs_path p = abs_path q"
    using tree_invD(5) [OF assms(1)] by (metis eq_snd_iff distinct_map inj_on_def prod.inject)
  then show ?thesis
    using abs_path_inj assms(4,5) by blast
qed

text \<open>A path of a directory leads to one.\<close>

lemma at_dir:
  assumes "tree_inv seen s" "p \<in> dir_paths seen"
  obtains d where "at s p = Some d" "is_dir (fs_entries s ! d)"
proof (cases "p = []")
  case True
  then show ?thesis
    using that tree_invD(7,8) [OF assms(1)] by blast
next
  case False
  then obtain h where h: "h \<in> set seen" "p = header_path h" "th_Typeflag h = TypeDir"
    using assms(2) by (auto simp: dir_paths_def)
  then obtain f where f: "at s p = Some f" "header_part (fs_entries s ! f) = new_entry h"
    using tree_invD(9) [OF assms(1) h(1)] False by blast
  then have "is_dir (fs_entries s ! f)"
    using h(3) header_part_is_dir [of "fs_entries s ! f"] by simp
  then show ?thesis
    using that f(1) by blast
qed

section \<open>Adding an entry\<close>

lemma add_ent_dir:
  assumes "is_dir (fs_entries s ! d)" "d < length (fs_entries s)"
  shows "fs_files (add_ent d e f s) = fs_files s" "at (add_ent d e f s) = at s"
    "length (fs_entries (add_ent d e f s)) = length (fs_entries s)"
    "header_part (fs_entries (add_ent d e f s) ! g) = header_part (fs_entries s ! g)"
    "ents_of (fs_entries (add_ent d e f s) ! g) = (if g = d then ents_of (fs_entries s ! g) @ [(e, f)] else ents_of (fs_entries s ! g))"
proof -
  obtain dir where dir: "fs_entries s ! d = DirEntry dir"
    using assms(1) by (auto simp: is_dir_def split: file_entry.splits)
  then show "fs_files (add_ent d e f s) = fs_files s" "length (fs_entries (add_ent d e f s)) = length (fs_entries s)"
    "at (add_ent d e f s) = at s"
    by (simp_all add: add_ent_def at_def [abs_def])
  show "header_part (fs_entries (add_ent d e f s) ! g) = header_part (fs_entries s ! g)"
    "ents_of (fs_entries (add_ent d e f s) ! g) = (if g = d then ents_of (fs_entries s ! g) @ [(e, f)] else ents_of (fs_entries s ! g))"
    using dir assms(2) by (cases "g = d"; simp add: add_ent_def header_part_def ents_of_def)+
qed

definition put_file :: "tar_header \<Rightarrow> tarfs \<Rightarrow> tarfs" where
  "put_file h s = s\<lparr>fs_entries := fs_entries s @ [new_entry h],
     fs_files := (absPath (th_Name h), length (fs_entries s)) # fs_files s\<rparr>"

lemma put_file_simps [simp]:
  "fs_entries (put_file h s) = fs_entries s @ [new_entry h]"
  "fs_files (put_file h s) = (abs_path (header_path h), length (fs_entries s)) # fs_files s"
  by (simp_all add: put_file_def absPath_header(1))

lemma at_put_file: "entry_path p \<Longrightarrow> at (put_file h s) p = (if p = header_path h then Some (length (fs_entries s)) else at s p)"
  using abs_path_inj [OF _ absPath_header(2), of p h] by (auto simp: at_def)

lemma add_header_file:
  assumes "header_path h \<noteq> []" "th_Typeflag h \<noteq> TypeLink" "at s (header_path h) = None"
  shows "add_header modTime h links s
    = on_call (makePath (abs_path (header_path h)) modTime (length (fs_entries s)) (put_file h s)) (\<lambda>err s. case err of
        Some e \<Rightarrow> Some (Inl e, s) | None \<Rightarrow> Some (Inr links, s))"
proof -
  have "abs_path (header_path h) \<noteq> ''.''" "abs_path (header_path h) \<noteq> ''..''"
    by (simp_all add: abs_path_def)
  then show ?thesis
    using assms abs_path_eq_root [OF absPath_header(2), of h]
    by (simp add: add_header_def absPath_header(1) put_file_def at_def Let_def)
qed

text \<open>The parent of the new file.\<close>

lemma path_parent:
  assumes "header_path h \<noteq> []"
  obtains p e where "header_path h = p @ [e]" "entry_path p" "entry_name e" "path_Dir (abs_path (header_path h)) = abs_path p"
    "path_Base (abs_path (header_path h)) = e"
proof -
  obtain p e where pe: "header_path h = p @ [e]"
    using assms by (cases "header_path h" rule: rev_cases) auto
  moreover have "entry_path p" "entry_name e"
    using absPath_header(2) [of h] pe by auto
  ultimately show thesis
    using that by simp
qed

lemma makePath_present:
  assumes "path_Dir name = abs_path p" "at s p = Some d" "is_dir (fs_entries s ! d)"
  shows "makePath name modTime f s = Some (None, add_ent d (path_Base name) f s)"
  using assms by (subst makePath.simps) (auto simp: at_def is_dir_def split: file_entry.splits)

lemma add_header_inv:
  assumes inv: "tree_inv seen s" and h: "header_path h \<noteq> []" "th_Typeflag h \<noteq> TypeLink"
    and new: "header_path h \<notin> paths seen" and parent: "butlast (header_path h) \<in> dir_paths seen"
  shows "\<exists>t. add_header modTime h links s = Some (Inr links, t) \<and> tree_inv (h # seen) t"
proof -
  let ?n = "length (fs_entries s)" and ?s = "put_file h s"
  obtain p e where pe: "header_path h = p @ [e]" "entry_path p" "entry_name e" "path_Dir (abs_path (header_path h)) = abs_path p"
    "path_Base (abs_path (header_path h)) = e"
    using path_parent [OF h(1)] .
  obtain d where d: "at s p = Some d" "is_dir (fs_entries s ! d)"
    using at_dir [OF inv, of p] parent pe(1) by auto
  have d_length: "d < ?n"
    using at_length [OF inv d(1)] .
  have fresh: "at s (header_path h) = None"
    using tree_invD(1) [OF inv absPath_header(2)] new by blast
  have d': "at ?s p = Some d" "is_dir (fs_entries ?s ! d)" "d < length (fs_entries ?s)"
    using d d_length pe by (simp_all add: at_put_file nth_append)
  let ?t = "add_ent d e ?n ?s"
  note t = add_ent_dir [OF d'(2,3), of e ?n]
  have "add_header modTime h links s = Some (Inr links, ?t)"
    using add_header_file [OF h fresh] makePath_present [OF pe(4) d'(1,2)] pe(5) by simp
  moreover have "tree_inv (h # seen) ?t"
  proof (rule tree_invI)
    have at: "at ?t q = (if q = header_path h then Some ?n else at s q)" if "entry_path q" for q
      using at_put_file [OF that] t(2) by simp
    have part: "header_part (fs_entries ?t ! g) = (if g = ?n then new_entry h else header_part (fs_entries s ! g))" if "g \<le> ?n" for g
      using that t(4) by (simp add: nth_append)
    have isdir: "is_dir (fs_entries ?t ! g) = (if g = ?n then is_dir (new_entry h) else is_dir (fs_entries s ! g))" if "g \<le> ?n" for g
      using part [OF that] by (metis header_part_is_dir is_dir_new_entry)
    have ents: "ents_of (fs_entries ?t ! g) = (if g = ?n then [] else if g = d then ents_of (fs_entries s ! g) @ [(e, ?n)] else ents_of (fs_entries s ! g))"
      if "g \<le> ?n" for g
      using that t(5) d_length by (simp add: nth_append)
    note inside = tree_invD(1) [OF inv]
    show "(at ?t q \<noteq> None) = (q \<in> paths (h # seen))" if "entry_path q" for q
      using inside [OF that] at [OF that] by (auto simp: paths_Cons)
    show "q \<in> dir_paths (h # seen)" if "q @ [x] \<in> paths (h # seen)" for q x
      using that tree_invD(2) [OF inv, of q x] parent pe(1) by (auto simp: paths_Cons dir_paths_Cons)
    show "fst ` set (fs_files ?t) = abs_path ` paths (h # seen)"
      using tree_invD(3) [OF inv] t(1) by (simp add: paths_Cons)
    have "abs_path (header_path h) \<noteq> abs_path q" if "q \<in> paths seen" for q
      using new that abs_path_inj [OF absPath_header(2) paths_entry_path [OF that], of h] by auto
    then have "abs_path (header_path h) \<notin> abs_path ` paths seen"
      by blast
    then show "distinct (map fst (fs_files ?t))"
      using tree_invD(3,4) [OF inv] t(1) by simp
    show "distinct (map snd (fs_files ?t))"
      using tree_invD(5,6) [OF inv] t(1) by auto
    show "f < length (fs_entries ?t)" if "f \<in> snd ` set (fs_files ?t)" for f
      using that tree_invD(6) [OF inv] t(1,3) by (auto simp: less_Suc_eq)
    show "at ?t [] = Some 0" "is_dir (fs_entries ?t ! 0)"
      using tree_invD(7,8) [OF inv] at [of "[]"] isdir [of 0] h(1) d_length by (simp_all, fastforce)
    show "\<exists>f. at ?t (header_path g) = Some f \<and> header_part (fs_entries ?t ! f) = new_entry g"
      if "g \<in> set (h # seen)" "header_path g \<noteq> []" for g
    proof (cases "g = h")
      case True
      then show ?thesis
        using at [OF absPath_header(2)] part [of ?n] by simp
    next
      case False
      then obtain f where f: "at s (header_path g) = Some f" "header_part (fs_entries s ! f) = new_entry g"
        using tree_invD(9) [OF inv] \<open>g \<in> set (h # seen)\<close> \<open>header_path g \<noteq> []\<close> by auto
      then have "header_path g \<noteq> header_path h" "f < ?n"
        using fresh at_length [OF inv] by auto
      then show ?thesis
        using f at [OF absPath_header(2)] part [of f] by simp
    qed
    fix q f
    assume q: "entry_path q" "at ?t q = Some f" "is_dir (fs_entries ?t ! f)"
    have below: "at ?t (q @ [x]) = (if q = p \<and> x = e then Some ?n else at s (q @ [x]))" if "entry_name x" for x
      using at [of "q @ [x]"] that q(1) pe(1) by auto
    have "set (ents_of (fs_entries ?t ! f)) = {(x, g). entry_name x \<and> at ?t (q @ [x]) = Some g}
      \<and> distinct (map fst (ents_of (fs_entries ?t ! f)))"
    proof (cases "q = header_path h")
      case True
      then have f: "f = ?n" "q \<noteq> p"
        using q at [OF q(1)] pe(1) by auto
      have "at s (q @ [x]) = None" if "entry_name x" for x
        using inside [of "q @ [x]"] tree_invD(2) [OF inv, of q x] dir_paths_paths new True q(1) that by auto
      then show ?thesis
        using below f ents [of f] by auto
    next
      case False
      then have f: "at s q = Some f" "f < ?n"
        using q(2) at [OF q(1)] at_length [OF inv] by auto
      then have "is_dir (fs_entries s ! f)"
        using q(3) isdir [of f] by simp
      note old = tree_invD(10) [OF inv q(1) f(1) this]
      show ?thesis
      proof (cases "q = p")
        case True
        then have "f = d"
          using f(1) d(1) by simp
        moreover have "e \<notin> fst ` set (ents_of (fs_entries s ! f))"
          using old fresh pe(1) True by auto
        ultimately show ?thesis
          using old below True f(2) ents [of f] pe(3) fresh pe(1) by (auto split: if_splits)
      next
        case False
        then have "f \<noteq> d"
          using at_inj [OF inv f(1) _ q(1) pe(2)] d(1) by auto
        then show ?thesis
          using old below False f(2) ents [of f] by auto
      qed
    qed
    then show "set (ents_of (fs_entries ?t ! f)) = {(x, g). entry_name x \<and> at ?t (q @ [x]) = Some g}"
      "distinct (map fst (ents_of (fs_entries ?t ! f)))"
      by blast+
  qed
  ultimately show ?thesis
    by blast
qed

text \<open>The header of the root.\<close>

lemma set_root_simps:
  assumes "is_dir (fs_entries s ! 0)"
  shows "fs_files (set_root h s) = fs_files s" "at (set_root h s) = at s"
    "length (fs_entries (set_root h s)) = length (fs_entries s)"
    "g \<noteq> 0 \<Longrightarrow> fs_entries (set_root h s) ! g = fs_entries s ! g"
    "is_dir (fs_entries (set_root h s) ! g) = is_dir (fs_entries s ! g)"
    "ents_of (fs_entries (set_root h s) ! g) = ents_of (fs_entries s ! g)"
proof -
  obtain dir where dir: "fs_entries s ! 0 = DirEntry dir"
    using assms by (auto simp: is_dir_def split: file_entry.splits)
  then show "fs_files (set_root h s) = fs_files s" "length (fs_entries (set_root h s)) = length (fs_entries s)"
    "at (set_root h s) = at s"
    by (simp_all add: set_root_def at_def [abs_def] Let_def)
  show "g \<noteq> 0 \<Longrightarrow> fs_entries (set_root h s) ! g = fs_entries s ! g"
    using dir by (simp add: set_root_def Let_def)
  show "is_dir (fs_entries (set_root h s) ! g) = is_dir (fs_entries s ! g)"
    "ents_of (fs_entries (set_root h s) ! g) = ents_of (fs_entries s ! g)"
    using dir by (cases "g = 0"; cases "fs_entries s"; simp add: set_root_def is_dir_def ents_of_def Let_def)+
qed

lemma add_header_root:
  assumes "tree_inv seen s" "header_path h = []"
  shows "add_header modTime h links s = Some (Inr links, set_root h s) \<and> tree_inv (h # seen) (set_root h s)"
proof -
  note inv = tree_invD [OF assms(1)]
  note root = set_root_simps [OF inv(8)]
  have paths: "paths (h # seen) = paths seen" "dir_paths (h # seen) = dir_paths seen"
    using assms(2) by (auto simp: paths_Cons dir_paths_Cons paths_def dir_paths_def)
  have "tree_inv (h # seen) (set_root h s)"
  proof (rule tree_invI)
    show "\<exists>f. at (set_root h s) (header_path g) = Some f \<and> header_part (fs_entries (set_root h s) ! f) = new_entry g"
      if g: "g \<in> set (h # seen)" "header_path g \<noteq> []" for g
    proof -
      obtain f where f: "at s (header_path g) = Some f" "header_part (fs_entries s ! f) = new_entry g"
        using inv(9) g assms(2) by auto
      then have "f \<noteq> 0"
        using at_inj [OF assms(1) f(1) _ absPath_header(2), of "[]"] inv(7) g(2) by auto
      then show ?thesis
        using f root(2,4) by simp
    qed
  qed (use inv root paths in simp_all)
  moreover have "add_header modTime h links s = Some (Inr links, set_root h s)"
    using assms(2) absPath_header(1) [of h] by (simp add: add_header_def)
  ultimately show ?thesis
    by blast
qed

lemma add_headers_inv:
  "archive_ok seen hs \<Longrightarrow> tree_inv seen s \<Longrightarrow>
   \<exists>t. add_headers modTime (hs @ rest) err links s = add_headers modTime rest err links t \<and> tree_inv (rev hs @ seen) t"
proof (induction hs arbitrary: seen s)
  case (Cons h hs)
  obtain t where t: "add_header modTime h links s = Some (Inr links, t)" "tree_inv (h # seen) t"
  proof (cases "header_path h = []")
    case True
    then show ?thesis
      using add_header_root [OF Cons.prems(2)] that by blast
  next
    case False
    then show ?thesis
      using add_header_inv [OF Cons.prems(2)] Cons.prems(1) that by auto
  qed
  then show ?case
    using Cons.IH [OF _ t(2)] Cons.prems(1) by simp
qed auto

section \<open>A missing directory\<close>

lemma makePath_missing:
  assumes "map_of (fs_files s) (path_Dir name) = None"
  shows "makePath name modTime f s = None"
proof -
  have "map_of (fs_files s) (path_Dir name) \<noteq> None" if "makePath name modTime f s = Some y" for name modTime f s y
    using that
  proof (induction rule: makePath.raw_induct [rotated, consumes 1, case_names rec])
    case (rec makePath name modTime f s y)
    show ?case
    proof
      assume none: "map_of (fs_files s) (path_Dir name) = None"
      then obtain err t where "makePath name modTime f s = Some (err, t)"
        using rec.hyps by (auto simp: on_call_eq_Some Let_def)
      then show False
        using rec.IH none by blast
    qed
  qed
  then show ?thesis
    using assms by (metis not_None_eq)
qed

lemma add_header_missing:
  assumes inv: "tree_inv seen s" and h: "header_path h \<noteq> []" "th_Typeflag h \<noteq> TypeLink"
    and missing: "butlast (header_path h) \<notin> paths seen"
  shows "add_header modTime h links s = None"
proof -
  obtain p e where pe: "header_path h = p @ [e]" "entry_path p" "entry_name e" "path_Dir (abs_path (header_path h)) = abs_path p"
    using path_parent [OF h(1)] .
  have "header_path h \<notin> paths seen"
    using tree_invD(2) [OF inv, of p e] missing pe(1) dir_paths_paths by auto
  then have "at s (header_path h) = None"
    using tree_invD(1) [OF inv absPath_header(2)] by blast
  moreover have "at (put_file h s) p = None"
    using at_put_file [OF pe(2)] tree_invD(1) [OF inv pe(2)] missing pe(1) by simp
  then have "makePath (abs_path (header_path h)) modTime (length (fs_entries s)) (put_file h s) = None"
    using pe(4) by (intro makePath_missing) (simp only: at_def)
  ultimately show ?thesis
    using add_header_file [OF h] by simp
qed

section \<open>Finishing the directories\<close>

definition parent_of :: "file_entry \<Rightarrow> nat option" where
  "parent_of f = (case f of DirEntry d \<Rightarrow> td_parent d | _ \<Rightarrow> None)"

lemma is_dirE:
  assumes "is_dir f"
  obtains d where "f = DirEntry d"
  using assms by (auto simp: is_dir_def split: file_entry.splits)

lemma finish_dirs_result:
  assumes "distinct (map snd files)"
    and "\<And>name f. (name, f) \<in> set files \<Longrightarrow> f < length (fs_entries s) \<and> (is_dir (fs_entries s ! f) \<longrightarrow>
      (\<exists>p. map_of (fs_files s) (path_Dir name) = Some p \<and> is_dir (fs_entries s ! p)))"
  shows "\<exists>t. finish_dirs files s = (None, t) \<and> fs_files t = fs_files s \<and> length (fs_entries t) = length (fs_entries s)
    \<and> (\<forall>g. header_part (fs_entries t ! g) = header_part (fs_entries s ! g))
    \<and> (\<forall>g. g \<notin> snd ` set files \<longrightarrow> fs_entries t ! g = fs_entries s ! g)
    \<and> (\<forall>(name, g)\<in>set files. is_dir (fs_entries s ! g) \<longrightarrow>
         ents_of (fs_entries t ! g) = sort_key fst (ents_of (fs_entries s ! g))
         \<and> parent_of (fs_entries t ! g) = map_of (fs_files s) (path_Dir name))"
  using assms
proof (induction files arbitrary: s)
  case (Cons nf files)
  obtain name f where nf: "nf = (name, f)"
    by (cases nf)
  show ?case
  proof (cases "is_dir (fs_entries s ! f)")
    case False
    then have "finish_dirs (nf # files) s = finish_dirs files s"
      using nf by (simp add: is_dir_def split: file_entry.splits)
    moreover have "distinct (map snd files)"
      using Cons.prems(1) by simp
    moreover have "g < length (fs_entries s) \<and> (is_dir (fs_entries s ! g) \<longrightarrow>
        (\<exists>p. map_of (fs_files s) (path_Dir name') = Some p \<and> is_dir (fs_entries s ! p)))" if "(name', g) \<in> set files" for name' g
      using Cons.prems(2) [of name' g] that by simp
    ultimately show ?thesis
      using Cons.IH [of s] False nf by (simp, blast)
  next
    case True
    then obtain dir where dir: "fs_entries s ! f = DirEntry dir"
      by (rule is_dirE)
    obtain p pd where p: "map_of (fs_files s) (path_Dir name) = Some p" "fs_entries s ! p = DirEntry pd"
      using Cons.prems(2) [of name f] nf True by (auto elim: is_dirE)
    have f: "f < length (fs_entries s)" "f \<notin> snd ` set files"
      using Cons.prems nf by auto
    let ?s = "s\<lparr>fs_entries := (fs_entries s)[f := DirEntry (dir\<lparr>td_parent := Some p, td_ents := sort_key fst (td_ents dir)\<rparr>)]\<rparr>"
    have eq: "finish_dirs (nf # files) s = finish_dirs files ?s"
      using nf dir p by simp
    have part: "header_part (fs_entries ?s ! g) = header_part (fs_entries s ! g)" for g
      using dir f(1) by (cases "g = f") (simp_all add: header_part_def)
    have isdir: "is_dir (fs_entries ?s ! g) = is_dir (fs_entries s ! g)" for g
      using part [of g] by (metis header_part_is_dir)
    have "\<exists>t. finish_dirs files ?s = (None, t) \<and> fs_files t = fs_files ?s \<and> length (fs_entries t) = length (fs_entries ?s)
      \<and> (\<forall>g. header_part (fs_entries t ! g) = header_part (fs_entries ?s ! g))
      \<and> (\<forall>g. g \<notin> snd ` set files \<longrightarrow> fs_entries t ! g = fs_entries ?s ! g)
      \<and> (\<forall>(name, g)\<in>set files. is_dir (fs_entries ?s ! g) \<longrightarrow>
           ents_of (fs_entries t ! g) = sort_key fst (ents_of (fs_entries ?s ! g))
           \<and> parent_of (fs_entries t ! g) = map_of (fs_files ?s) (path_Dir name))"
    proof (rule Cons.IH)
      show "distinct (map snd files)"
        using Cons.prems(1) by simp
      show "g < length (fs_entries ?s) \<and> (is_dir (fs_entries ?s ! g) \<longrightarrow>
          (\<exists>p. map_of (fs_files ?s) (path_Dir name') = Some p \<and> is_dir (fs_entries ?s ! p)))"
        if "(name', g) \<in> set files" for name' g
        using Cons.prems(2) [of name' g] that isdir by simp
    qed
    then obtain t where t: "finish_dirs files ?s = (None, t)" "fs_files t = fs_files ?s" "length (fs_entries t) = length (fs_entries ?s)"
      "\<forall>g. header_part (fs_entries t ! g) = header_part (fs_entries ?s ! g)"
      "\<forall>g. g \<notin> snd ` set files \<longrightarrow> fs_entries t ! g = fs_entries ?s ! g"
      "\<forall>(name, g)\<in>set files. is_dir (fs_entries ?s ! g) \<longrightarrow>
           ents_of (fs_entries t ! g) = sort_key fst (ents_of (fs_entries ?s ! g))
           \<and> parent_of (fs_entries t ! g) = map_of (fs_files ?s) (path_Dir name)"
      by (elim exE conjE) (rule that)
    have "fs_files t = fs_files s" "length (fs_entries t) = length (fs_entries s)"
      using t(2,3) by simp_all
    moreover have "\<forall>g. header_part (fs_entries t ! g) = header_part (fs_entries s ! g)"
      using t(4) part by simp
    moreover have later: "ents_of (fs_entries t ! g) = sort_key fst (ents_of (fs_entries s ! g))
        \<and> parent_of (fs_entries t ! g) = map_of (fs_files s) (path_Dir name')"
      if "(name', g) \<in> set files" "is_dir (fs_entries s ! g)" for name' g
    proof -
      have "g \<noteq> f"
        using that(1) f(2) by force
      moreover have "is_dir (fs_entries ?s ! g)"
        using that(2) isdir by simp
      then have "ents_of (fs_entries t ! g) = sort_key fst (ents_of (fs_entries ?s ! g))
          \<and> parent_of (fs_entries t ! g) = map_of (fs_files ?s) (path_Dir name')"
        using t(6) that(1) by blast
      ultimately show ?thesis
        by simp
    qed
    moreover have "fs_entries t ! f = DirEntry (dir\<lparr>td_parent := Some p, td_ents := sort_key fst (td_ents dir)\<rparr>)"
      using t(5) f by simp
    then have "ents_of (fs_entries t ! f) = sort_key fst (ents_of (fs_entries s ! f))
        \<and> parent_of (fs_entries t ! f) = map_of (fs_files s) (path_Dir name)"
      using dir p(1) by (simp add: ents_of_def parent_of_def)
    moreover have "fs_entries t ! g = fs_entries s ! g" if "g \<notin> snd ` set (nf # files)" for g
      using t(5) that nf by simp
    ultimately show ?thesis
      unfolding eq t(1) using nf by (intro exI [of _ t]) auto
  qed
qed simp

end
