(* ===== verification/Tarfs_Open.thy ===== *)
theory Tarfs_Open
  imports Tarfs_Tree
begin

text \<open>
  What an archive that is in order opens as: \<open>built hs s\<close>. Every directory has its entries in the order of their
  names, so that the binary search of \<open>dir_find\<close> is a lookup, and resolution walks down the tree.
\<close>

lemma paths_rev [simp]: "paths (rev hs) = paths hs" "dir_paths (rev hs) = dir_paths hs"
  by (simp_all add: paths_def dir_paths_def)

definition built :: "tar_header list \<Rightarrow> tarfs \<Rightarrow> bool" where
  "built hs s \<longleftrightarrow>
     (\<forall>p. entry_path p \<longrightarrow> (at s p \<noteq> None) = (p \<in> paths hs))
     \<and> (\<forall>p e. p @ [e] \<in> paths hs \<longrightarrow> p \<in> dir_paths hs)
     \<and> at s [] = Some 0
     \<and> (\<forall>p\<in>dir_paths hs. \<exists>d. at s p = Some d \<and> is_dir (fs_entries s ! d))
     \<and> (\<forall>h\<in>set hs. header_path h \<noteq> [] \<longrightarrow> (\<exists>f. at s (header_path h) = Some f \<and> header_part (fs_entries s ! f) = new_entry h))
     \<and> (\<forall>p f. entry_path p \<longrightarrow> at s p = Some f \<longrightarrow> is_dir (fs_entries s ! f) \<longrightarrow>
          sorted (map fst (ents_of (fs_entries s ! f))) \<and> distinct (map fst (ents_of (fs_entries s ! f)))
          \<and> set (ents_of (fs_entries s ! f)) = {(e, g). entry_name e \<and> at s (p @ [e]) = Some g}
          \<and> parent_of (fs_entries s ! f) = at s (butlast p))"

lemma path_Dir_butlast: "entry_path p \<Longrightarrow> path_Dir (abs_path p) = abs_path (butlast p)"
  by (cases p rule: rev_cases) simp_all

lemma file_path:
  assumes "tree_inv seen s" "(name, f) \<in> set (fs_files s)"
  obtains p where "name = abs_path p" "p \<in> paths seen" "entry_path p" "at s p = Some f"
proof -
  have "name \<in> abs_path ` paths seen"
    using tree_invD(3) [OF assms(1)] assms(2) by force
  then obtain p where p: "name = abs_path p" "p \<in> paths seen"
    by blast
  moreover have "at s p = Some f"
    using tree_invD(4) [OF assms(1)] assms(2) p(1) by (simp add: at_def)
  ultimately show thesis
    using that paths_entry_path by blast
qed

lemma add_sizes_simps [simp]: "fs_entries (add_sizes s) = fs_entries s" "fs_files (add_sizes s) = fs_files s" "at (add_sizes s) = at s"
  by (simp_all add: add_sizes_def at_def [abs_def])

lemma finish_built:
  assumes inv: "tree_inv (rev hs) s"
  shows "\<exists>t. finish_dirs (fs_files s) s = (None, t) \<and> built hs (add_sizes t)"
proof -
  have ready: "f < length (fs_entries s) \<and> (is_dir (fs_entries s ! f) \<longrightarrow>
      (\<exists>p. map_of (fs_files s) (path_Dir name) = Some p \<and> is_dir (fs_entries s ! p)))" if nf: "(name, f) \<in> set (fs_files s)" for name f
  proof -
    obtain p where p: "name = abs_path p" "p \<in> paths hs" "entry_path p" "at s p = Some f"
      using file_path [OF inv nf] by (metis paths_rev(1))
    have "butlast p \<in> dir_paths hs"
      using tree_invD(2) [OF inv, of "butlast p" "last p"] p(2) by (cases "p = []") (simp_all add: dir_paths_def)
    then obtain d where "at s (butlast p) = Some d" "is_dir (fs_entries s ! d)"
      using at_dir [OF inv] by (metis paths_rev(2))
    then show ?thesis
      using at_length [OF inv p(4)] path_Dir_butlast [OF p(3)] p(1) by (simp add: at_def)
  qed
  have "\<exists>t. finish_dirs (fs_files s) s = (None, t) \<and> fs_files t = fs_files s \<and> length (fs_entries t) = length (fs_entries s)
    \<and> (\<forall>g. header_part (fs_entries t ! g) = header_part (fs_entries s ! g))
    \<and> (\<forall>g. g \<notin> snd ` set (fs_files s) \<longrightarrow> fs_entries t ! g = fs_entries s ! g)
    \<and> (\<forall>(name, g)\<in>set (fs_files s). is_dir (fs_entries s ! g) \<longrightarrow>
         ents_of (fs_entries t ! g) = sort_key fst (ents_of (fs_entries s ! g))
         \<and> parent_of (fs_entries t ! g) = map_of (fs_files s) (path_Dir name))"
    by (rule finish_dirs_result [OF tree_invD(5) [OF inv]]) (rule ready)
  then obtain t where t: "finish_dirs (fs_files s) s = (None, t)" "fs_files t = fs_files s"
      "\<forall>g. header_part (fs_entries t ! g) = header_part (fs_entries s ! g)"
    and t4: "\<forall>(name, g)\<in>set (fs_files s). is_dir (fs_entries s ! g) \<longrightarrow>
         ents_of (fs_entries t ! g) = sort_key fst (ents_of (fs_entries s ! g))
         \<and> parent_of (fs_entries t ! g) = map_of (fs_files s) (path_Dir name)"
    by (elim exE conjE) (rule that)
  have finished: "ents_of (fs_entries t ! g) = sort_key fst (ents_of (fs_entries s ! g))
       \<and> parent_of (fs_entries t ! g) = map_of (fs_files s) (path_Dir name)"
    if "(name, g) \<in> set (fs_files s)" "is_dir (fs_entries s ! g)" for name g
    using t4 that by blast
  have at: "at t = at s"
    using t(2) by (simp add: at_def [abs_def])
  have isdir: "is_dir (fs_entries t ! g) = is_dir (fs_entries s ! g)" for g
    using t(3) by (metis header_part_is_dir)
  have part: "header_part (fs_entries t ! g) = header_part (fs_entries s ! g)" for g
    using t(3) by blast
  have "built hs (add_sizes t)"
    unfolding built_def add_sizes_simps at isdir part
  proof (intro conjI allI impI ballI)
    show "(at s p \<noteq> None) = (p \<in> paths hs)" if "entry_path p" for p
      using tree_invD(1) [OF inv that] by simp
    show "p \<in> dir_paths hs" if "p @ [e] \<in> paths hs" for p e
      using tree_invD(2) [OF inv, of p e] that by simp
    show "at s [] = Some 0"
      by (rule tree_invD(7) [OF inv])
    show "\<exists>d. at s p = Some d \<and> is_dir (fs_entries s ! d)" if "p \<in> dir_paths hs" for p
      using at_dir [OF inv, of p] that by auto
    show "\<exists>f. at s (header_path h) = Some f \<and> header_part (fs_entries s ! f) = new_entry h"
      if "h \<in> set hs" "header_path h \<noteq> []" for h
      using tree_invD(9) [OF inv, of h] that by simp
    fix p f
    assume p: "entry_path p" "at s p = Some f" "is_dir (fs_entries s ! f)"
    have ents: "ents_of (fs_entries t ! f) = sort_key fst (ents_of (fs_entries s ! f))"
      "parent_of (fs_entries t ! f) = map_of (fs_files s) (path_Dir (abs_path p))"
      using finished [OF at_file [OF p(2)] p(3)] by simp_all
    note old = tree_invD(10) [OF inv p]
    show "sorted (map fst (ents_of (fs_entries t ! f)))"
      unfolding ents(1) by (rule sorted_sort_key)
    show "distinct (map fst (ents_of (fs_entries t ! f)))"
      unfolding ents(1) using conjunct2 [OF old] by (simp add: distinct_map)
    show "set (ents_of (fs_entries t ! f)) = {(e, g). entry_name e \<and> at s (p @ [e]) = Some g}"
      unfolding ents(1) using old by simp
    show "parent_of (fs_entries t ! f) = at s (butlast p)"
      unfolding ents(2) path_Dir_butlast [OF p(1)] at_def ..
  qed
  then show ?thesis
    using t(1) by blast
qed

lemma tarfs_Open_built:
  assumes "archive_ok [] hs" "order [] = []"
  shows "\<exists>s. tarfs_Open order modTime hs None = Some (Inr s) \<and> built hs s"
proof -
  obtain s where s: "add_headers modTime hs None [] (tarfs_start modTime) = Some (Inr [], s)" "tree_inv (rev hs) s"
    using add_headers_inv [OF assms(1) tree_inv_start, of modTime "[]" None "[]"] by auto
  obtain t where "finish_dirs (fs_files s) s = (None, t)" "built hs (add_sizes t)"
    using finish_built [OF s(2)] by blast
  then show ?thesis
    using s(1) assms(2) by (simp add: tarfs_Open_def)
qed

lemma tarfs_Open_missing:
  assumes "archive_ok [] hs" "header_path h \<noteq> []" "th_Typeflag h \<noteq> TypeLink" "butlast (header_path h) \<notin> paths hs"
  shows "tarfs_Open order modTime (hs @ h # rest) err = None"
proof -
  obtain s where "add_headers modTime (hs @ h # rest) err [] (tarfs_start modTime) = add_headers modTime (h # rest) err [] s"
      "tree_inv (rev hs) s"
    using add_headers_inv [OF assms(1) tree_inv_start, of modTime "h # rest" err "[]"] by auto
  then show ?thesis
    using add_header_missing [OF _ assms(2,3)] assms(4) by (simp add: tarfs_Open_def)
qed

section \<open>Looking up a name\<close>

lemma search_loop_result:
  assumes mono: "\<And>x y. x \<le> y \<Longrightarrow> y < n \<Longrightarrow> f x \<Longrightarrow> f y"
  shows "i \<le> j \<Longrightarrow> j \<le> n \<Longrightarrow> \<forall>x. x < i \<longrightarrow> \<not> f x \<Longrightarrow> \<forall>x. j \<le> x \<longrightarrow> x < n \<longrightarrow> f x \<Longrightarrow>
    search_loop f i j \<le> n \<and> (\<forall>x. x < search_loop f i j \<longrightarrow> \<not> f x) \<and> (\<forall>x. search_loop f i j \<le> x \<longrightarrow> x < n \<longrightarrow> f x)"
proof (induction "j - i" arbitrary: i j rule: less_induct)
  case less
  let ?h = "(i + j) div 2"
  show ?case
  proof (cases "i < j")
    case False
    then show ?thesis
      using less.prems by (simp add: search_loop.simps)
  next
    case True
    then have h: "i \<le> ?h" "?h < j" "?h < n"
      using less.prems(2) by auto
    show ?thesis
    proof (cases "f ?h")
      case True
      have "\<forall>x. ?h \<le> x \<longrightarrow> x < n \<longrightarrow> f x"
        using mono True by blast
      moreover have "search_loop f i j = search_loop f i ?h"
        using True \<open>i < j\<close> by (subst search_loop.simps) (simp add: Let_def)
      moreover have "?h - i < j - i" "?h \<le> n"
        using h by simp_all
      ultimately show ?thesis
        using less.hyps [of ?h i, OF _ h(1) _ less.prems(3)] by presburger
    next
      case False
      have "\<forall>x. x < ?h + 1 \<longrightarrow> \<not> f x"
        using mono False h(3) by (metis less_Suc_eq_le Suc_eq_plus1)
      moreover have "search_loop f i j = search_loop f (?h + 1) j"
        using False \<open>i < j\<close> by (subst search_loop.simps) (simp add: Let_def)
      moreover have "j - (?h + 1) < j - i" "?h + 1 \<le> j"
        using h by simp_all
      ultimately show ?thesis
        using less.hyps [of j "?h + 1", OF _ _ less.prems(2) _ less.prems(4)] by presburger
    qed
  qed
qed

lemma sort_Search_result:
  assumes "\<forall>x y. x \<le> y \<longrightarrow> y < n \<longrightarrow> f x \<longrightarrow> f y"
  shows "sort_Search n f \<le> n" "x < sort_Search n f \<Longrightarrow> \<not> f x" "sort_Search n f \<le> x \<Longrightarrow> x < n \<Longrightarrow> f x"
  using search_loop_result [of n f 0 n] assms by (simp_all add: sort_Search_def)

lemma dir_find_entry:
  assumes "fs_entries s ! d = DirEntry dir" "sorted (map fst (td_ents dir))" "distinct (map fst (td_ents dir))" "entry_name e"
  shows "dir_find s d e = map_of (td_ents dir) e"
proof -
  let ?es = "td_ents dir"
  let ?f = "\<lambda>i. e \<le> fst (?es ! i)"
  let ?i = "sort_Search (length ?es) ?f"
  have "fst (?es ! x) \<le> fst (?es ! y)" if "x \<le> y" "y < length ?es" for x y
    using sorted_nth_mono [OF assms(2), of x y] that by simp
  then have "\<forall>x y. x \<le> y \<longrightarrow> y < length ?es \<longrightarrow> ?f x \<longrightarrow> ?f y"
    using order_trans by blast
  note search = sort_Search_result [OF this]
  have found: "dir_find s d e = (if ?i = length ?es \<or> fst (?es ! ?i) \<noteq> e then None else Some (snd (?es ! ?i)))"
    using assms(1,4) by (simp add: dir_find_def entry_name_def Let_def)
  show ?thesis
  proof (cases "?i = length ?es \<or> fst (?es ! ?i) \<noteq> e")
    case True
    have "fst (?es ! k) \<noteq> e" if "k < length ?es" for k
    proof
      assume k: "fst (?es ! k) = e"
      then have "?i \<le> k"
        using search(2) [where x = k] by (meson not_le order_refl)
      then have "fst (?es ! ?i) = e"
        using search(3) [where x = ?i] k that sorted_nth_mono [OF assms(2), of ?i k] by (simp add: antisym)
      then show False
        using True \<open>?i \<le> k\<close> that by simp
    qed
    then have "e \<notin> fst ` set ?es"
      by (fastforce simp: in_set_conv_nth)
    then show ?thesis
      using found True map_of_eq_None_iff [of ?es e] by simp
  next
    case False
    then have "(e, snd (?es ! ?i)) \<in> set ?es"
      using search(1) by (metis le_neq_implies_less nth_mem prod.collapse)
    then show ?thesis
      using found False assms(3) by simp
  qed
qed

section \<open>Walking down\<close>

lemma built_find:
  assumes "built hs s" "entry_path p" "at s p = Some d" "is_dir (fs_entries s ! d)" "entry_name e"
  shows "dir_find s d e = at s (p @ [e])"
proof -
  obtain dir where dir: "fs_entries s ! d = DirEntry dir"
    using assms(4) by (rule is_dirE)
  then have ents: "sorted (map fst (td_ents dir))" "distinct (map fst (td_ents dir))"
    "set (td_ents dir) = {(e, g). entry_name e \<and> at s (p @ [e]) = Some g}"
    using assms(1-4) unfolding built_def by (force simp: ents_of_def)+
  have "map_of (td_ents dir) e = at s (p @ [e])"
  proof (cases "at s (p @ [e])")
    case None
    then show ?thesis
      using ents(3) by (auto simp: map_of_eq_None_iff)
  next
    case (Some g)
    then show ?thesis
      using ents(2,3) assms(5) by simp
  qed
  then show ?thesis
    using dir_find_entry [OF dir ents(1,2) assms(5)] by simp
qed

lemma Walk_path_join:
  assumes "component e" "\<forall>x\<in>set es. component x"
  shows "Walk (path_join (e # es)) = (e, path_join es)"
proof (cases "es = []")
  case True
  then show ?thesis
    using component_relative(4) [OF assms(1)] by simp
next
  case False
  let ?s = "e @ slash # path_join es"
  have e: "e \<noteq> []" "slash \<notin> set e"
    using assms(1) by (auto simp: component_def)
  have "path_join es \<noteq> []" "hd (path_join es) \<noteq> slash"
    using path_join_ends(1,2) [OF assms(2) False] .
  then have "TrimLeadingSlash (slash # path_join es) = path_join es"
    by (cases "path_join es") (simp_all add: TrimLeadingSlash_dropWhile)
  moreover have "takeWhile (\<lambda>c. c \<noteq> slash) ?s = e"
    using e(2) by (simp add: takeWhile_append)
  then have "IndexSlash ?s = int (length e)"
    by (simp add: IndexSlash_takeWhile)
  ultimately have "Walk ?s = (e, path_join es)"
    using e(1) by (simp add: Walk_def)
  then show ?thesis
    using False by simp
qed

lemma dir_prefix:
  "\<forall>p e. p @ [e] \<in> paths hs \<longrightarrow> p \<in> dir_paths hs \<Longrightarrow> p @ q \<in> dir_paths hs \<Longrightarrow> p \<in> dir_paths hs"
proof (induction q rule: rev_induct)
  case (snoc e q)
  then have "(p @ q) @ [e] \<in> paths hs"
    using dir_paths_paths by simp
  then show ?case
    using snoc by blast
qed simp

lemma tar_resolve_built:
  assumes "built hs s"
  shows "entry_path (p @ es) \<Longrightarrow> es \<noteq> [] \<Longrightarrow> p @ butlast es \<in> dir_paths hs \<Longrightarrow> at s p = Some d \<Longrightarrow>
    is_dir (fs_entries s ! d) \<Longrightarrow>
    tar_resolve_loop n s d (path_join es) O_NOFOLLOW
      = (if length es \<le> n then (case at s (p @ es) of Some f \<Rightarrow> Inr f | None \<Rightarrow> Inl ENOENT) else Inl ELOOP)"
proof (induction es arbitrary: p d n)
  case (Cons e es)
  show ?case
  proof (cases n)
    case (Suc m)
    have e: "entry_name e" "\<forall>x\<in>set es. component x"
      using Cons.prems(1) entry_component [of es] by simp_all
    have e': "component e" "e \<noteq> ''/''"
      using e(1) by (auto simp: entry_name_def component_def)
    have walk: "Walk (path_join (e # es)) = (e, path_join es)" "path_join (e # es) \<noteq> []" "path_join es = [] \<longleftrightarrow> es = []"
      using Walk_path_join [OF e'(1) e(2)] path_join_ends(1) [of "e # es"] path_join_ends(1) [of es] e' e by auto
    have find: "dir_find s d e = at s (p @ [e])"
      using built_find [OF assms _ Cons.prems(4,5) e(1)] Cons.prems(1) by simp
    have flags: "O_NOFOLLOW AND O_DIRECTORY = 0" "O_NOFOLLOW AND O_NOFOLLOW \<noteq> 0"
      by (simp_all add: O_NOFOLLOW_def O_DIRECTORY_def)
    show ?thesis
    proof (cases "es = []")
      case True
      then have "tar_resolve_loop n s d (path_join (e # es)) O_NOFOLLOW
          = (case at s (p @ [e]) of None \<Rightarrow> Inl ENOENT | Some f \<Rightarrow>
              (case fs_entries s ! f of DirEntry _ \<Rightarrow> Inr f | SymlinkEntry _ \<Rightarrow> Inr f | _ \<Rightarrow> Inr f))"
        using Suc walk find e'(2) flags by (simp cong: option.case_cong file_entry.case_cong)
      also have "\<dots> = (case at s (p @ [e]) of None \<Rightarrow> Inl ENOENT | Some f \<Rightarrow> Inr f)"
        by (simp split: option.split file_entry.split)
      finally show ?thesis
        using True Suc by (simp split: option.split)
    next
      case False
      then have dirs: "(p @ [e]) @ butlast es \<in> dir_paths hs"
        using Cons.prems(3) by simp
      then have "p @ [e] \<in> dir_paths hs"
        using dir_prefix [of hs "p @ [e]" "butlast es"] assms unfolding built_def by blast
      then obtain f where f: "at s (p @ [e]) = Some f" "is_dir (fs_entries s ! f)"
        using assms unfolding built_def by blast
      then obtain fd where "fs_entries s ! f = DirEntry fd"
        by (auto elim: is_dirE)
      then have "tar_resolve_loop n s d (path_join (e # es)) O_NOFOLLOW = tar_resolve_loop m s f (path_join es) O_NOFOLLOW"
        using Suc walk find e'(2) f(1) False by simp
      then show ?thesis
        using Cons.IH [OF _ False dirs f, of m] Cons.prems(1) Suc by simp
    qed
  qed simp
qed simp

text \<open>From the root, with the bound on the elements of a path.\<close>

lemma built_root:
  assumes "built hs s"
  shows "at s [] = Some 0" "is_dir (fs_entries s ! 0)"
proof -
  have "[] \<in> dir_paths hs"
    by (simp add: dir_paths_def)
  then obtain d where "at s [] = Some d" "is_dir (fs_entries s ! d)"
    using assms unfolding built_def by blast
  moreover show "at s [] = Some 0"
    using assms unfolding built_def by blast
  ultimately show "is_dir (fs_entries s ! 0)"
    by simp
qed

lemma built_butlast: "built hs s \<Longrightarrow> p @ [e] \<in> paths hs \<Longrightarrow> p \<in> dir_paths hs"
  unfolding built_def by blast

lemma built_resolve:
  assumes "built hs s" "p \<in> paths hs" "p \<noteq> []"
  shows "length p \<le> MaxFollowSymlink \<Longrightarrow> at s p = Some f \<Longrightarrow> tar_resolve s 0 (path_join p) O_NOFOLLOW Inr = Inr f"
    "MaxFollowSymlink < length p \<Longrightarrow> tar_resolve s 0 (path_join p) O_NOFOLLOW act = Inl ELOOP"
proof -
  have "butlast p \<in> dir_paths hs"
    using assms(2,3) by (intro built_butlast [OF assms(1), of _ "last p"]) simp
  then have resolve: "tar_resolve_loop MaxFollowSymlink s 0 (path_join p) O_NOFOLLOW
      = (if length p \<le> MaxFollowSymlink then (case at s p of Some f \<Rightarrow> Inr f | None \<Rightarrow> Inl ENOENT) else Inl ELOOP)"
    using tar_resolve_built [OF assms(1), of "[]" p 0 MaxFollowSymlink] paths_entry_path [OF assms(2)] assms(3)
      built_root [OF assms(1)] by simp
  show "length p \<le> MaxFollowSymlink \<Longrightarrow> at s p = Some f \<Longrightarrow> tar_resolve s 0 (path_join p) O_NOFOLLOW Inr = Inr f"
    "MaxFollowSymlink < length p \<Longrightarrow> tar_resolve s 0 (path_join p) O_NOFOLLOW act = Inl ELOOP"
    by (simp_all add: tar_resolve_def resolve)
qed

lemma built_missing:
  assumes "built hs s" "p \<in> dir_paths hs" "entry_name e" "p @ [e] \<notin> paths hs" "length p < MaxFollowSymlink"
  shows "tar_resolve s 0 (path_join (p @ [e])) O_NOFOLLOW act = Inl ENOENT"
proof -
  have "entry_path (p @ [e])"
    using assms(2,3) dir_paths_paths paths_entry_path by fastforce
  moreover from this have "at s (p @ [e]) = None"
    using assms(1,4) unfolding built_def by blast
  ultimately show ?thesis
    using tar_resolve_built [OF assms(1), of "[]" "p @ [e]" 0 MaxFollowSymlink] assms(2,5) built_root [OF assms(1)]
    by (simp add: tar_resolve_def)
qed

lemma built_header:
  assumes "built hs s" "h \<in> set hs"
  shows "header_path h \<in> paths hs"
    "header_path h \<noteq> [] \<Longrightarrow> \<exists>f. at s (header_path h) = Some f \<and> header_part (fs_entries s ! f) = new_entry h"
  using assms unfolding built_def paths_def by blast+

section \<open>A small archive\<close>

definition small_header :: "string \<Rightarrow> char \<Rightarrow> tar_header" where
  "small_header name flag = \<lparr>th_Name = name, th_Typeflag = flag, th_Linkname = [], th_Mode = 420, th_Size = 0, th_ModTime = 0,
     th_AccessTime = 0, th_ChangeTime = 0, th_offset = 0\<rparr>"

definition small_archive :: "tar_header list" where
  "small_archive = [small_header ''./'' TypeDir, small_header ''etc/'' TypeDir, small_header ''etc/hosts'' TypeReg]"

end
