(* ===== verification/Dirent.thy ===== *)
theory Dirent
  imports Resolve_Path
begin

text \<open>
  Directory entries as bytes (\<^verbatim>\<open>WriteDirent\<close> and \<^verbatim>\<open>ReadDirent\<close> in \<^verbatim>\<open>internal/sandbox/syscall_unix.go\<close>, with the layout
  of Linux in \<^verbatim>\<open>syscall_linux.go\<close>): 19 bytes for the numbers, little-endian, then the name and a zero.
\<close>

definition sizeOfDirent :: nat where "sizeOfDirent = 19"

definition DT_UNKNOWN :: byte where "DT_UNKNOWN = 0"
definition DT_FIFO :: byte where "DT_FIFO = 1"
definition DT_CHR :: byte where "DT_CHR = 2"
definition DT_DIR :: byte where "DT_DIR = 4"
definition DT_BLK :: byte where "DT_BLK = 6"
definition DT_REG :: byte where "DT_REG = 8"
definition DT_LNK :: byte where "DT_LNK = 10"
definition DT_SOCK :: byte where "DT_SOCK = 12"

lemmas DT_defs = DT_UNKNOWN_def DT_FIFO_def DT_CHR_def DT_DIR_def DT_BLK_def DT_REG_def DT_LNK_def DT_SOCK_def

definition ModeType :: int where
  "ModeType = ModeDir OR ModeSymlink OR ModeNamedPipe OR ModeSocket OR ModeDevice OR ModeCharDevice OR ModeIrregular"

definition string_bytes :: "string \<Rightarrow> bytes" where
  "string_bytes s = map (\<lambda>c. word_of_nat (of_char c)) s"

definition bytes_string :: "bytes \<Rightarrow> string" where
  "bytes_string b = map (\<lambda>x. char_of (unat x)) b"

definition le16 :: "16 word \<Rightarrow> bytes" where
  "le16 v = [ucast v, ucast (drop_bit 8 v)]"

fun of_le16 :: "bytes \<Rightarrow> 16 word" where
  "of_le16 (b0 # b1 # _) = ucast b0 OR push_bit 8 (ucast b1)"
| "of_le16 _ = 0"

record dirent =
  de_ino :: u64
  de_off :: u64
  de_reclen :: "16 word"
  de_typ :: byte

definition makeDirent :: "byte \<Rightarrow> int \<Rightarrow> int \<Rightarrow> string \<Rightarrow> dirent" where
  "makeDirent typ ino off name =
     \<lparr>de_ino = word_of_int ino, de_off = word_of_int off,
      de_reclen = word_of_nat sizeOfDirent + word_of_nat (length name) + 1, de_typ = typ\<rparr>"

definition dirent_bytes :: "dirent \<Rightarrow> bytes" where
  "dirent_bytes d = le64 (de_ino d) @ le64 (de_off d) @ le16 (de_reclen d) @ [de_typ d]"

definition dirent_type :: "int \<Rightarrow> byte" where
  "dirent_type typ =
     (let t = typ AND ModeType
      in if t = 0 then DT_REG
         else if t = ModeDevice then DT_BLK
         else if t = ModeDevice OR ModeCharDevice then DT_CHR
         else if t = ModeDir then DT_DIR
         else if t = ModeNamedPipe then DT_FIFO
         else if t = ModeSymlink then DT_LNK
         else if t = ModeSocket then DT_SOCK
         else DT_UNKNOWN)"

definition dirent_mode :: "byte \<Rightarrow> int" where
  "dirent_mode t =
     (if t = DT_REG then 0
      else if t = DT_BLK then ModeDevice
      else if t = DT_CHR then ModeDevice OR ModeCharDevice
      else if t = DT_DIR then ModeDir
      else if t = DT_LNK then ModeSymlink
      else if t = DT_FIFO then ModeNamedPipe
      else if t = DT_SOCK then ModeSocket
      else ModeIrregular)"

text \<open>The number of bytes written and the buffer.\<close>

definition WriteDirent :: "bytes \<Rightarrow> int \<Rightarrow> int \<Rightarrow> int \<Rightarrow> string \<Rightarrow> nat \<times> bytes" where
  "WriteDirent buf typ ino off name =
     (let d = dirent_bytes (makeDirent (dirent_type typ) ino off name);
          s = string_bytes name;
          n = min (length buf) (length d);
          buf = go_copy buf d;
          buf' = take n buf @ go_copy (drop n buf) s;
          n = n + min (length buf - n) (length s)
      in if n < length buf' then (n + 1, buf'[n := 0]) else (n, buf'))"

record dir_record =
  dr_n :: nat
  dr_typ :: int
  dr_ino :: int
  dr_off :: int
  dr_name :: string

definition ReadDirent :: "bytes \<Rightarrow> (string, error + dir_record) outcome" where
  "ReadDirent buf =
     (if length buf < sizeOfDirent then Return (Inl ErrShortBuffer)
      else let reclen = unat (of_le16 (drop 16 buf))
           in if reclen > length buf then Return (Inl ErrShortBuffer)
              else if reclen < sizeOfDirent then Panic ''slice bounds out of range''
              else let name = take (reclen - sizeOfDirent) (drop sizeOfDirent buf)
                   in Return (Inr \<lparr>dr_n = reclen, dr_typ = dirent_mode (buf ! 18), dr_ino = uint (of_le64 buf),
                        dr_off = uint (of_le64 (drop 8 buf)), dr_name = bytes_string (takeWhile (\<lambda>b. b \<noteq> 0) name)\<rparr>))"

definition SizeOfDirent :: "nat \<Rightarrow> nat" where
  "SizeOfDirent nameLen = sizeOfDirent + nameLen + 1"

section \<open>Round trip\<close>

lemma of_le16_le16 [simp]: "of_le16 (le16 v @ r) = v"
  by (simp add: le16_def ucast_byte take_bit_join take_bit_word_eq_self)

lemma length_dirent_bytes [simp]: "length (dirent_bytes d) = 19"
  by (simp add: dirent_bytes_def le16_def)

lemma length_string_bytes [simp]: "length (string_bytes s) = length s"
  by (simp add: string_bytes_def)

lemma char_byte [simp]: "char_of (unat (word_of_nat (of_char c) :: byte)) = c"
  using of_char_mod_256 [of c, where ?'a = nat] by (simp add: unat_of_nat char_of_nat)

lemma bytes_string_bytes [simp]: "bytes_string (string_bytes s) = s"
  by (auto simp: bytes_string_def string_bytes_def intro!: map_idI)

lemma string_bytes_zero: "0 \<in> set (string_bytes s) \<longleftrightarrow> CHR 0x00 \<in> set s"
proof -
  have "c = CHR 0x00" if "(word_of_nat (of_char c) :: byte) = 0" for c
  proof -
    have "c = char_of (unat (0 :: byte))"
      unfolding that [symmetric] by simp
    then show ?thesis
      by (simp add: char_of_def)
  qed
  then have "(word_of_nat (of_char c) :: byte) = 0 \<longleftrightarrow> c = CHR 0x00" for c
    by auto
  then show ?thesis
    by (force simp: string_bytes_def)
qed

text \<open>The record of an entry.\<close>

definition entry_record :: "int \<Rightarrow> int \<Rightarrow> int \<Rightarrow> string \<Rightarrow> bytes" where
  "entry_record typ ino off name = dirent_bytes (makeDirent (dirent_type typ) ino off name) @ string_bytes name @ [0]"

lemma length_entry_record [simp]: "length (entry_record typ ino off name) = SizeOfDirent (length name)"
  by (simp add: entry_record_def SizeOfDirent_def sizeOfDirent_def)

text \<open>What fits in the buffer is written, and the rest is lost.\<close>

lemma WriteDirent_record:
  "WriteDirent buf typ ino off name
    = (min (length buf) (SizeOfDirent (length name)), go_copy buf (entry_record typ ino off name))"
proof -
  let ?d = "dirent_bytes (makeDirent (dirent_type typ) ino off name)" and ?s = "string_bytes name" and ?m = "length buf"
  consider "?m \<le> 19" | "19 < ?m" "?m \<le> 19 + length name" | "19 + length name < ?m"
    by linarith
  then show ?thesis
  proof cases
    case 3
    then obtain x r where "drop (19 + length name) buf = x # r"
      by (metis drop_eq_Nil leD list.exhaust)
    moreover from this have "drop (Suc (19 + length name)) buf = r"
      by (metis drop_Suc list.sel(3) tl_drop)
    ultimately show ?thesis
      using 3 by (simp add: WriteDirent_def entry_record_def go_copy_def Let_def SizeOfDirent_def sizeOfDirent_def
          list_update_append numeral_eq_Suc add.commute)
  qed (simp_all add: WriteDirent_def entry_record_def go_copy_def Let_def SizeOfDirent_def sizeOfDirent_def)
qed

definition plain_name :: "string \<Rightarrow> bool" where
  "plain_name name \<longleftrightarrow> CHR 0x00 \<notin> set name \<and> length name < 65516"

lemma de_reclen_name:
  assumes "plain_name name"
  shows "unat (de_reclen (makeDirent typ ino off name)) = SizeOfDirent (length name)"
proof -
  have "de_reclen (makeDirent typ ino off name) = word_of_nat (SizeOfDirent (length name))"
    by (simp add: makeDirent_def SizeOfDirent_def)
  moreover have "SizeOfDirent (length name) < 65536"
    using assms by (simp add: plain_name_def SizeOfDirent_def sizeOfDirent_def)
  then have "unat (word_of_nat (SizeOfDirent (length name)) :: 16 word) = SizeOfDirent (length name)"
    by (simp only: unat_of_nat) simp
  ultimately show ?thesis
    by (simp only:)
qed

text \<open>The fields of a record, where they are read.\<close>

lemma dirent_bytes_fields:
  "of_le64 (dirent_bytes d @ r) = de_ino d" "of_le64 (drop 8 (dirent_bytes d @ r)) = de_off d"
  "of_le16 (drop 16 (dirent_bytes d @ r)) = de_reclen d" "(dirent_bytes d @ r) ! 18 = de_typ d" "drop 19 (dirent_bytes d @ r) = r"
proof -
  have "dirent_bytes d @ r = le64 (de_ino d) @ le64 (de_off d) @ le16 (de_reclen d) @ de_typ d # r"
    "drop 8 (dirent_bytes d @ r) = le64 (de_off d) @ le16 (de_reclen d) @ de_typ d # r"
    "drop 16 (dirent_bytes d @ r) = le16 (de_reclen d) @ de_typ d # r"
    by (simp_all add: dirent_bytes_def le16_def le64_def)
  then show "of_le64 (dirent_bytes d @ r) = de_ino d" "of_le64 (drop 8 (dirent_bytes d @ r)) = de_off d"
    "of_le16 (drop 16 (dirent_bytes d @ r)) = de_reclen d"
    by (simp_all only: of_le64_le64 of_le16_le16)
qed (simp_all add: dirent_bytes_def le16_def le64_def)

lemma takeWhile_name:
  assumes "plain_name name"
  shows "takeWhile (\<lambda>b. b \<noteq> 0) (take (SizeOfDirent (length name) - sizeOfDirent) (string_bytes name @ 0 # r)) = string_bytes name"
proof -
  have "take (Suc (length name)) (string_bytes name @ 0 # r) = string_bytes name @ [0]"
    by simp
  then show ?thesis
    using assms string_bytes_zero [of name] by (simp add: SizeOfDirent_def sizeOfDirent_def plain_name_def del: take_append)
      (subst takeWhile_append2; auto)
qed

lemma ReadDirent_record:
  assumes "plain_name name"
  shows "ReadDirent (entry_record typ ino off name @ r) = Return (Inr
    \<lparr>dr_n = SizeOfDirent (length name), dr_typ = dirent_mode (dirent_type typ), dr_ino = take_bit 64 ino,
     dr_off = take_bit 64 off, dr_name = name\<rparr>)"
proof -
  let ?d = "makeDirent (dirent_type typ) ino off name"
  define b where "b = dirent_bytes ?d @ string_bytes name @ 0 # r"
  have b: "of_le64 b = de_ino ?d" "of_le64 (drop 8 b) = de_off ?d" "unat (of_le16 (drop 16 b)) = SizeOfDirent (length name)"
    "b ! 18 = de_typ ?d" "drop 19 b = string_bytes name @ 0 # r"
    unfolding b_def dirent_bytes_fields by (simp_all add: de_reclen_name [OF assms])
  have "uint (de_ino ?d) = take_bit 64 ino" "uint (de_off ?d) = take_bit 64 off" "de_typ ?d = dirent_type typ"
    by (simp_all add: makeDirent_def unsigned_of_int)
  moreover have "length b = 20 + length name + length r"
    by (simp add: b_def)
  moreover have "sizeOfDirent = 19"
    by (simp add: sizeOfDirent_def)
  ultimately have "ReadDirent b = Return (Inr \<lparr>dr_n = SizeOfDirent (length name), dr_typ = dirent_mode (dirent_type typ),
      dr_ino = take_bit 64 ino, dr_off = take_bit 64 off, dr_name = name\<rparr>)"
    using b takeWhile_name [OF assms, of r] by (simp add: ReadDirent_def Let_def) (simp add: SizeOfDirent_def)
  then show ?thesis
    by (simp add: b_def entry_record_def)
qed

end
