(* ===== verification/Tarfs_Dir.thy ===== *)
theory Tarfs_Dir
  imports Tarfs_Open Dirent
begin

text \<open>
  The files of a tarball that are open (\<^verbatim>\<open>dir.go\<close>, \<^verbatim>\<open>file.go\<close> in \<^verbatim>\<open>internal/sandbox/tarfs\<close>): opening, the
  information of an entry, links and the listing of a directory.
\<close>

definition entry_mode :: "file_entry \<Rightarrow> int" where
  "entry_mode f =
     (case f of
        DirEntry d \<Rightarrow> ModeDir OR td_perm d
      | FileEntry t \<Rightarrow> tf_perm t
      | SymlinkEntry t \<Rightarrow> ModeSymlink OR ts_perm t
      | PlaceholderEntry info \<Rightarrow> fi_mode info)"

definition entry_stat :: "tarfs \<Rightarrow> file_entry \<Rightarrow> FileInfo" where
  "entry_stat s f =
     (case f of
        DirEntry d \<Rightarrow>
          tar_info (entry_mode f) 1 (dir_memsize d + sum_list (map (\<lambda>(_, g). entry_memsize (fs_entries s ! g)) (td_ents d)))
            (td_mtime d) (td_atime d) (td_ctime d)
      | FileEntry t \<Rightarrow> tar_info (entry_mode f) (tf_nlink t) (tf_size t) (tf_mtime t) (tf_atime t) (tf_ctime t)
      | SymlinkEntry t \<Rightarrow> tar_info (entry_mode f) (ts_nlink t) 0 (ts_mtime t) (ts_atime t) (ts_ctime t)
      | PlaceholderEntry info \<Rightarrow> info)"

record open_dir =
  od_dir :: "nat option"
  od_index :: nat
  od_offset :: int

datatype tar_handle = OpenDir open_dir | OpenFile "nat option"

definition entry_open :: "tarfs \<Rightarrow> nat \<Rightarrow> sys_error + tar_handle" where
  "entry_open s f =
     (case fs_entries s ! f of
        DirEntry _ \<Rightarrow> Inr (OpenDir \<lparr>od_dir = Some f, od_index = 0, od_offset = 0\<rparr>)
      | FileEntry _ \<Rightarrow> Inr (OpenFile (Some f))
      | SymlinkEntry _ \<Rightarrow> Inl ELOOP
      | PlaceholderEntry _ \<Rightarrow> Inl EPERM)"

definition openDir_Close :: "open_dir \<Rightarrow> open_dir" where
  "openDir_Close d = d\<lparr>od_dir := None\<rparr>"

definition openDir_Open :: "tarfs \<Rightarrow> open_dir \<Rightarrow> string \<Rightarrow> int \<Rightarrow> int \<Rightarrow> sys_error + tar_handle" where
  "openDir_Open s d name flags mode =
     (if flags AND (O_CREAT OR O_APPEND OR O_RDWR OR O_WRONLY) \<noteq> 0 \<or> mode \<noteq> 0 \<or> name = [] then Inl EINVAL
      else case od_dir d of
             None \<Rightarrow> Inl EBADF
           | Some dir \<Rightarrow>
               let flags = (if HasTrailingSlash name then flags OR O_DIRECTORY else flags)
               in tar_resolve s dir name flags (\<lambda>f. case fs_entries s ! f of
                    SymlinkEntry _ \<Rightarrow> Inl ELOOP
                  | _ \<Rightarrow> entry_open s f))"

definition openDir_Stat :: "tarfs \<Rightarrow> open_dir \<Rightarrow> string \<Rightarrow> int \<Rightarrow> sys_error + FileInfo" where
  "openDir_Stat s d name flags =
     (case od_dir d of
        None \<Rightarrow> Inl EBADF
      | Some dir \<Rightarrow> tar_resolve s dir name (LookupFlags_OpenFlags flags) (\<lambda>f. Inr (entry_stat s (fs_entries s ! f))))"

definition openDir_Readlink :: "tarfs \<Rightarrow> open_dir \<Rightarrow> string \<Rightarrow> nat \<Rightarrow> sys_error + string" where
  "openDir_Readlink s d name n =
     (case od_dir d of
        None \<Rightarrow> Inl EBADF
      | Some dir \<Rightarrow> tar_resolve s dir name O_NOFOLLOW (\<lambda>f. case fs_entries s ! f of
            SymlinkEntry t \<Rightarrow> Inr (take n (ts_link t))
          | _ \<Rightarrow> Inl EINVAL))"

definition openDir_Seek :: "open_dir \<Rightarrow> int \<Rightarrow> int \<Rightarrow> (sys_error + int) \<times> open_dir" where
  "openDir_Seek d offset whence =
     (if od_dir d = None then (Inl EBADF, d)
      else if offset \<noteq> 0 \<or> whence \<noteq> 0 then (Inl EINVAL, d)
      else (Inr 0, d\<lparr>od_index := 0, od_offset := 0\<rparr>))"

definition openFile_Stat :: "tarfs \<Rightarrow> nat option \<Rightarrow> string \<Rightarrow> sys_error + FileInfo" where
  "openFile_Stat s f name =
     (case f of None \<Rightarrow> Inl EBADF
      | Some f \<Rightarrow> if name \<noteq> [] then Inl ENOTDIR else Inr (entry_stat s (fs_entries s ! f)))"

definition openFile_Readlink :: "nat option \<Rightarrow> string \<Rightarrow> sys_error + string" where
  "openFile_Readlink f name = (case f of None \<Rightarrow> Inl EBADF | Some f \<Rightarrow> if name \<noteq> [] then Inl ENOTDIR else Inl EINVAL)"

definition tarfs_FileSystem_Open :: "tarfs \<Rightarrow> string \<Rightarrow> int \<Rightarrow> int \<Rightarrow> sys_error + tar_handle" where
  "tarfs_FileSystem_Open s name flags mode =
     (case entry_open s 0 of
        Inl e \<Rightarrow> Inl e
      | Inr (OpenDir d) \<Rightarrow> if IsRoot name then Inr (OpenDir d) else openDir_Open s d name flags mode
      | Inr (OpenFile f) \<Rightarrow> if IsRoot name then Inr (OpenFile f) else Inl ENOTDIR)"

section \<open>Listing\<close>

text \<open>The entries that a directory lists: itself, its parent, and what is in it.\<close>

definition listing :: "tarfs \<Rightarrow> tar_dir \<Rightarrow> (string \<times> int) list" where
  "listing s dir =
     (''.'', entry_mode (DirEntry dir))
     # (''..'', case td_parent dir of None \<Rightarrow> entry_mode (DirEntry dir) | Some p \<Rightarrow> entry_mode (fs_entries s ! p))
     # map (\<lambda>(name, f). (name, entry_mode (fs_entries s ! f))) (td_ents dir)"

fun write_ents :: "(string \<times> int) list \<Rightarrow> nat \<Rightarrow> bytes \<Rightarrow> open_dir \<Rightarrow> (nat \<times> bytes) \<times> open_dir" where
  "write_ents [] n buf d = ((n, buf), d)"
| "write_ents ((name, mode) # es) n buf d =
     (if n < length buf
      then let (wn, b) = WriteDirent (drop n buf) mode 0 (od_offset d) name
           in write_ents es (n + wn) (take n buf @ b)
                (d\<lparr>od_index := od_index d + 1, od_offset := wrap (Unsigned 64) (od_offset d + int wn)\<rparr>)
      else ((n, buf), d))"

definition openDir_ReadDirent :: "tarfs \<Rightarrow> open_dir \<Rightarrow> bytes \<Rightarrow> (sys_error + nat \<times> bytes) \<times> open_dir" where
  "openDir_ReadDirent s d buf =
     (case od_dir d of
        None \<Rightarrow> (Inl EBADF, d)
      | Some f \<Rightarrow>
          (case fs_entries s ! f of
             DirEntry dir \<Rightarrow> apfst Inr (write_ents (drop (od_index d) (listing s dir)) 0 buf d)
           | _ \<Rightarrow> (Inl EBADF, d)))"

text \<open>The records, one after the other, and how many of them are whole in \<open>m\<close> bytes.\<close>

fun dirent_records :: "int \<Rightarrow> (string \<times> int) list \<Rightarrow> bytes" where
  "dirent_records off [] = []"
| "dirent_records off ((name, mode) # es) =
     entry_record mode 0 off name @ dirent_records (wrap (Unsigned 64) (off + int (SizeOfDirent (length name)))) es"

fun whole_entries :: "nat \<Rightarrow> (string \<times> int) list \<Rightarrow> nat" where
  "whole_entries m [] = 0"
| "whole_entries m ((name, mode) # es) =
     (if SizeOfDirent (length name) \<le> m then Suc (whole_entries (m - SizeOfDirent (length name)) es) else 0)"

definition size_entries :: "(string \<times> int) list \<Rightarrow> nat" where
  "size_entries es = sum_list (map (\<lambda>(name, _). SizeOfDirent (length name)) es)"

lemma ReadDirent_size:
  assumes "ReadDirent b = Return (Inr r)"
  shows "0 < dr_n r" "dr_n r \<le> length b"
  using assms by (auto simp: ReadDirent_def Let_def sizeOfDirent_def split: if_splits)

text \<open>The entries of a buffer, as \<open>ReadDirent\<close> takes them from it.\<close>

function parse_dirents :: "bytes \<Rightarrow> (string \<times> int) list" where
  "parse_dirents b =
     (case ReadDirent b of
        Return (Inr r) \<Rightarrow> (dr_name r, dr_typ r) # parse_dirents (drop (dr_n r) b)
      | _ \<Rightarrow> [])"
  by auto

termination
proof (relation "measure length")
  show "(drop (dr_n r) b, b) \<in> measure length" if "ReadDirent b = Return x" "x = Inr r" for b x r
    using ReadDirent_size [of b r] that by simp
qed simp

declare parse_dirents.simps [simp del]

text \<open>The entries that a call counts as listed in \<open>m\<close> bytes: the last may be cut.\<close>

fun counted_entries :: "nat \<Rightarrow> (string \<times> int) list \<Rightarrow> nat" where
  "counted_entries m [] = 0"
| "counted_entries m ((name, mode) # es) =
     (if m = 0 then 0 else Suc (counted_entries (m - SizeOfDirent (length name)) es))"

lemma SizeOfDirent_pos [simp]: "0 < SizeOfDirent k"
  by (simp add: SizeOfDirent_def)

lemma size_entries_simps [simp]:
  "size_entries [] = 0" "size_entries ((name, mode) # es) = SizeOfDirent (length name) + size_entries es"
  by (simp_all add: size_entries_def)

lemma length_dirent_records [simp]: "length (dirent_records off es) = size_entries es"
  by (induction es arbitrary: off) auto

lemma go_copy_append: "go_copy dst (xs @ ys) = take (length dst) xs @ go_copy (drop (length xs) dst) ys"
  by (simp add: go_copy_def add.commute)

lemma counted_whole:
  "counted_entries m es = whole_entries m es
    + (if whole_entries m es < length es \<and> size_entries (take (whole_entries m es) es) < m then 1 else 0)"
proof (induction m es rule: counted_entries.induct)
  case (2 m name mode es)
  show ?case
  proof (cases "SizeOfDirent (length name) \<le> m")
    case True
    then have "m \<noteq> 0"
      using SizeOfDirent_pos [of "length name"] by linarith
    then show ?thesis
      using 2 True by auto
  next
    case False
    then have "counted_entries (m - SizeOfDirent (length name)) es = 0"
      by (cases es) auto
    then show ?thesis
      using False by auto
  qed
qed simp

lemma write_ents_result:
  assumes "fits (Unsigned 64) (od_offset d)" "n \<le> length buf"
  shows "write_ents es n buf d =
    ((n + min (length buf - n) (size_entries es), take n buf @ go_copy (drop n buf) (dirent_records (od_offset d) es)),
     d\<lparr>od_index := od_index d + counted_entries (length buf - n) es,
       od_offset := wrap (Unsigned 64) (od_offset d + int (min (length buf - n) (size_entries es)))\<rparr>)"
  using assms
proof (induction es arbitrary: n buf d)
  case Nil
  then show ?case
    by (simp add: fits_def go_copy_def)
next
  case (Cons e es)
  obtain name mode where e: "e = (name, mode)"
    by fastforce
  show ?case
  proof (cases "n < length buf")
    case False
    then show ?thesis
      using Cons.prems e by (simp add: fits_def go_copy_def)
  next
    case True
    let ?k = "SizeOfDirent (length name)" and ?m = "length buf - n"
    let ?wn = "min ?m ?k" and ?rec = "entry_record mode 0 (od_offset d) name"
    let ?buf = "take n buf @ go_copy (drop n buf) ?rec"
    let ?d = "d\<lparr>od_index := od_index d + 1, od_offset := wrap (Unsigned 64) (od_offset d + int ?wn)\<rparr>"
    let ?off = "wrap (Unsigned 64) (od_offset d + int ?k)"
    have step: "write_ents (e # es) n buf d = write_ents es (n + ?wn) ?buf ?d"
      using True e by (simp add: WriteDirent_record del: of_nat_min)
    have IH: "write_ents es (n + ?wn) ?buf ?d =
      ((n + ?wn + min (?m - ?wn) (size_entries es), take (n + ?wn) ?buf @ go_copy (drop (n + ?wn) ?buf) (dirent_records (od_offset ?d) es)),
       ?d\<lparr>od_index := od_index ?d + counted_entries (?m - ?wn) es,
         od_offset := wrap (Unsigned 64) (od_offset ?d + int (min (?m - ?wn) (size_entries es)))\<rparr>)"
      using Cons.IH [of ?d "n + ?wn" ?buf] Cons.prems(2) by (simp del: of_nat_min wrap.simps)
    have offset: "wrap (Unsigned 64) (od_offset ?d + int (min (?m - ?wn) (size_entries es)))
        = wrap (Unsigned 64) (od_offset d + int (min ?m (size_entries (e # es))))"
    proof -
      have "?wn + min (?m - ?wn) (size_entries es) = min ?m (size_entries (e # es))"
        using e by simp
      then have "int (min ?m (size_entries (e # es))) = int ?wn + int (min (?m - ?wn) (size_entries es))"
        by (metis of_nat_add)
      then show ?thesis
        by (simp add: take_bit_eq_mod mod_add_left_eq add.assoc del: of_nat_min)
    qed
    have buffer: "take (n + ?wn) ?buf @ go_copy (drop (n + ?wn) ?buf) (dirent_records (od_offset ?d) es)
        = take n buf @ go_copy (drop n buf) (dirent_records (od_offset d) (e # es))"
    proof (cases "?m \<le> ?k")
      case True
      then have "?wn = ?m" "go_copy (drop n buf) ?rec = take ?m ?rec"
        by (simp_all add: go_copy_def)
      then show ?thesis
        using True Cons.prems(2) e by (simp add: go_copy_append) (simp add: go_copy_def)
    next
      case False
      then have "?wn = ?k" "go_copy (drop n buf) ?rec = ?rec @ drop ?k (drop n buf)"
        by (simp_all add: go_copy_def)
      moreover have "od_offset ?d = ?off"
        using \<open>?wn = ?k\<close> by (simp del: of_nat_min wrap.simps)
      ultimately show ?thesis
        using False Cons.prems(2) e by (simp add: go_copy_append del: wrap.simps)
    qed
    have count: "counted_entries ?m (e # es) = 1 + counted_entries (?m - ?wn) es"
    proof -
      have "?m - ?wn = ?m - ?k"
        by linarith
      then show ?thesis
        using True e by (simp only:) simp
    qed
    show ?thesis
      unfolding step IH offset buffer count using e by (simp del: of_nat_min wrap.simps)
  qed
qed

text \<open>What a reader of the buffer finds there.\<close>

lemma ReadDirent_cut:
  assumes "plain_name name" "m < SizeOfDirent (length name)"
  shows "ReadDirent (take m (entry_record typ ino off name @ r)) = Return (Inl ErrShortBuffer)"
proof (cases "m < 19")
  case True
  then show ?thesis
    by (simp add: ReadDirent_def sizeOfDirent_def)
next
  case False
  let ?d = "makeDirent (dirent_type typ) ino off name" and ?b = "take m (entry_record typ ino off name @ r)"
  obtain k where k: "m = 19 + k"
    using False by (metis le_add_diff_inverse not_less)
  then have "drop 16 ?b = le16 (de_reclen ?d) @ de_typ ?d # take k (string_bytes name @ 0 # r)"
    by (simp add: entry_record_def dirent_bytes_def le16_def le64_def drop_take numeral_3_eq_3)
  then have "of_le16 (drop 16 ?b) = de_reclen ?d"
    by (simp only: of_le16_le16)
  moreover have "length ?b = m"
    using assms(2) by simp
  ultimately show ?thesis
    using False assms(2) de_reclen_name [OF assms(1)] by (simp add: ReadDirent_def Let_def sizeOfDirent_def)
qed

lemma parse_dirents_records:
  assumes "\<forall>(name, mode)\<in>set es. plain_name name"
  shows "parse_dirents (take m (dirent_records off es))
    = map (\<lambda>(name, mode). (name, dirent_mode (dirent_type mode))) (take (whole_entries m es) es)"
  using assms
proof (induction m es arbitrary: off rule: whole_entries.induct)
  case (1 m)
  then show ?case
    by (simp add: parse_dirents.simps [of "[]"] ReadDirent_def sizeOfDirent_def)
next
  case (2 m name mode es)
  then have name: "plain_name name"
    by simp
  show ?case
  proof (cases "SizeOfDirent (length name) \<le> m")
    case True
    then show ?thesis
      using 2 ReadDirent_record [OF name] by (subst parse_dirents.simps) simp
  next
    case False
    then show ?thesis
      using ReadDirent_cut [OF name] by (subst parse_dirents.simps) simp
  qed
qed

lemma openDir_ReadDirent_lists:
  fixes buf :: bytes
  assumes "od_dir d = Some f" "fs_entries s ! f = DirEntry dir" "fits (Unsigned 64) (od_offset d)"
    and "\<forall>(name, mode)\<in>set (listing s dir). plain_name name"
  defines "rest \<equiv> drop (od_index d) (listing s dir)"
  defines "k \<equiv> whole_entries (length buf) rest"
  shows "\<exists>n buf' d'. openDir_ReadDirent s d buf = (Inr (n, buf'), d') \<and> n = min (length buf) (size_entries rest)
    \<and> length buf' = length buf
    \<and> parse_dirents (take n buf') = map (\<lambda>(name, mode). (name, dirent_mode (dirent_type mode))) (take k rest)
    \<and> od_index d' = od_index d + k + (if k < length rest \<and> size_entries (take k rest) < length buf then 1 else 0)"
proof -
  have "take (min (length buf) (size_entries rest)) (go_copy buf (dirent_records (od_offset d) rest))
      = take (length buf) (dirent_records (od_offset d) rest)"
    by (auto simp: go_copy_def min_def)
  moreover have "\<forall>(name, mode)\<in>set rest. plain_name name"
    using assms(4) set_drop_subset unfolding rest_def by fastforce
  ultimately show ?thesis
    using write_ents_result [OF assms(3), of 0 buf rest] assms(1,2) parse_dirents_records [of rest "length buf" "od_offset d"]
      counted_whole [of "length buf" rest]
    by (simp add: openDir_ReadDirent_def rest_def [symmetric] k_def)
qed

end
