(* ===== verification/Tarfs_File.thy ===== *)
theory Tarfs_File
  imports Tarfs_Dir
begin

text \<open>
  Reading the content of a file of a tarball (\<^verbatim>\<open>file.go\<close> in \<^verbatim>\<open>internal/sandbox/tarfs\<close>): the \<^verbatim>\<open>io.SectionReader\<close> of
  the file over the archive. The archive is an \<^verbatim>\<open>io.ReaderAt\<close>: a function from a length and an offset to the bytes
  read and the error.
\<close>

type_synonym reader_at = "nat \<Rightarrow> int \<Rightarrow> bytes \<times> error option"

record section_reader =
  sr_base :: int
  sr_off :: int
  sr_limit :: int

definition NewSectionReader :: "int \<Rightarrow> int \<Rightarrow> section_reader" where
  "NewSectionReader off n =
     \<lparr>sr_base = off, sr_off = off, sr_limit = (if off \<le> 2 ^ 63 - 1 - n then off + n else 2 ^ 63 - 1)\<rparr>"

definition SectionReader_Read :: "reader_at \<Rightarrow> section_reader \<Rightarrow> nat \<Rightarrow> (bytes \<times> error option) \<times> section_reader" where
  "SectionReader_Read data s len =
     (if sr_off s \<ge> sr_limit s then (([], Some EOF), s)
      else let (b, err) = data (nat (min (sr_limit s - sr_off s) (int len))) (sr_off s)
           in ((b, err), s\<lparr>sr_off := sr_off s + int (length b)\<rparr>))"

definition SectionReader_ReadAt :: "reader_at \<Rightarrow> section_reader \<Rightarrow> nat \<Rightarrow> int \<Rightarrow> bytes \<times> error option" where
  "SectionReader_ReadAt data s len off =
     (if off < 0 \<or> off \<ge> sr_limit s - sr_base s then ([], Some EOF)
      else let off = off + sr_base s; mx = sr_limit s - off
           in if int len > mx then let (b, err) = data (nat mx) off in (b, if err = None then Some EOF else err)
              else data len off)"

definition SectionReader_Seek :: "section_reader \<Rightarrow> int \<Rightarrow> int \<Rightarrow> (error + int) \<times> section_reader" where
  "SectionReader_Seek s offset whence =
     (if whence \<notin> {0, 1, 2} then (Inl (Errorf ''Seek: invalid whence''), s)
      else let off = wrap go_int (offset + (if whence = 0 then sr_base s else if whence = 1 then sr_off s else sr_limit s))
           in if off < sr_base s then (Inl (Errorf ''Seek: invalid offset''), s)
              else (Inr (off - sr_base s), s\<lparr>sr_off := off\<rparr>))"

text \<open>An open file: \<open>None\<close> once it is closed. An error comes with the number of bytes read before it.\<close>

record open_file =
  of_file :: "nat option"
  of_data :: section_reader

datatype read_error = SandboxError sys_error | SectionError error

definition file_open :: "nat \<Rightarrow> tar_file \<Rightarrow> open_file" where
  "file_open f t = \<lparr>of_file = Some f, of_data = NewSectionReader (tf_offset t) (tf_size t)\<rparr>"

definition openFile_Close :: "open_file \<Rightarrow> open_file" where
  "openFile_Close f = f\<lparr>of_file := None\<rparr>"

text \<open>The loops fill the buffers, whose lengths are \<open>ns\<close>; the bytes read are those of each of them.\<close>

fun readv_loop :: "reader_at \<Rightarrow> section_reader \<Rightarrow> nat list \<Rightarrow> (bytes list \<times> error option) \<times> section_reader" where
  "readv_loop data s [] = (([], None), s)"
| "readv_loop data s (n # ns) =
     (case SectionReader_Read data s n of
        ((b, None), s) \<Rightarrow> apfst (apfst (Cons b)) (readv_loop data s ns)
      | ((b, Some e), s) \<Rightarrow> (([b], if e = EOF then None else Some e), s))"

definition openFile_Readv :: "reader_at \<Rightarrow> open_file \<Rightarrow> nat list \<Rightarrow> (bytes list \<times> read_error option) \<times> open_file" where
  "openFile_Readv data f ns =
     (if of_file f = None then (([], Some (SandboxError EBADF)), f)
      else let ((bs, err), s) = readv_loop data (of_data f) ns in ((bs, map_option SectionError err), f\<lparr>of_data := s\<rparr>))"

fun preadv_loop :: "reader_at \<Rightarrow> section_reader \<Rightarrow> nat list \<Rightarrow> int \<Rightarrow> bytes list \<times> error option" where
  "preadv_loop data s [] off = ([], None)"
| "preadv_loop data s (n # ns) off =
     (case SectionReader_ReadAt data s n off of
        (b, None) \<Rightarrow> apfst (Cons b) (preadv_loop data s ns (off + int (length b)))
      | (b, Some e) \<Rightarrow> ([b], if e = EOF then None else Some e))"

definition openFile_Preadv :: "reader_at \<Rightarrow> open_file \<Rightarrow> nat list \<Rightarrow> int \<Rightarrow> bytes list \<times> read_error option" where
  "openFile_Preadv data f ns off =
     (if of_file f = None then ([], Some (SandboxError EBADF))
      else apsnd (map_option SectionError) (preadv_loop data (of_data f) ns off))"

definition openFile_Seek :: "open_file \<Rightarrow> int \<Rightarrow> int \<Rightarrow> (read_error + int) \<times> open_file" where
  "openFile_Seek f offset whence =
     (if of_file f = None then (Inl (SandboxError EBADF), f)
      else case SectionReader_Seek (of_data f) offset whence of
             (Inl e, s) \<Rightarrow> (Inl (SectionError e), f)
           | (Inr n, s) \<Rightarrow> (Inr n, f\<lparr>of_data := s\<rparr>))"

section \<open>What is not supported\<close>

text \<open>
  Every file of a tarball is read-only (\<^verbatim>\<open>readOnlyFile\<close>); a leaf is not a directory (\<^verbatim>\<open>leafFile\<close>); a directory is not
  read (\<^verbatim>\<open>Readv\<close>, \<^verbatim>\<open>Preadv\<close>, \<^verbatim>\<open>CopyRange\<close> of \<^verbatim>\<open>openDir\<close>).
\<close>

datatype write_method = Op_Writev | Op_Pwritev | Op_Allocate | Op_Truncate | Op_Sync | Op_Datasync | Op_Flags | Op_SetFlags | Op_Chtimes

datatype change_method = Op_Mkdir | Op_Rmdir | Op_Rename | Op_Link | Op_Symlink | Op_Unlink

definition readOnlyFile_op :: "write_method \<Rightarrow> sys_error + nat" where
  "readOnlyFile_op m =
     (case m of
        Op_Writev \<Rightarrow> Inl EBADF | Op_Pwritev \<Rightarrow> Inl EBADF | Op_Allocate \<Rightarrow> Inl EBADF | Op_Truncate \<Rightarrow> Inl EBADF
      | Op_Sync \<Rightarrow> Inr 0 | Op_Datasync \<Rightarrow> Inr 0 | Op_Flags \<Rightarrow> Inr 0 | Op_SetFlags \<Rightarrow> Inl EINVAL | Op_Chtimes \<Rightarrow> Inl EPERM)"

definition leafFile_Open :: "sys_error + tar_handle" where
  "leafFile_Open = Inl ENOTDIR"

definition leafFile_ReadDirent :: "sys_error + nat" where
  "leafFile_ReadDirent = Inl ENOTDIR"

definition leafFile_change :: "change_method \<Rightarrow> sys_error + unit" where
  "leafFile_change m = Inl ENOTDIR"

definition openDir_change :: "change_method \<Rightarrow> sys_error + unit" where
  "openDir_change m = Inl EROFS"

definition openDir_read :: "sys_error + nat" where
  "openDir_read = Inl EISDIR"

section \<open>Reading\<close>

text \<open>An archive that is in memory: what there is at an offset, and \<^verbatim>\<open>io.EOF\<close> when it is less than asked for.\<close>

definition memory :: "bytes \<Rightarrow> reader_at" where
  "memory archive n off =
     (let b = take n (drop (nat off) archive) in (b, if length b < n then Some EOF else None))"

lemma memory_inside: "0 \<le> off \<Longrightarrow> nat off + n \<le> length a \<Longrightarrow> memory a n off = (take n (drop (nat off) a), None)"
  by (simp add: memory_def)

text \<open>The buffers hold the content of the file, one after the other, from the offset on.\<close>

lemma preadv_content:
  assumes "sr_base s = int base" "sr_limit s = int (base + len)" "base + len \<le> length a"
  shows "\<exists>bs. preadv_loop (memory a) s ns (int off) = (bs, None)
    \<and> concat bs = take (sum_list ns) (drop off (take len (drop base a)))"
proof (induction ns arbitrary: off)
  case (Cons n ns)
  let ?c = "take len (drop base a)"
  consider (past) "len \<le> off" | (cut) "off < len" "len < off + n" | (whole) "off < len" "off + n \<le> len"
    by linarith
  then show ?case
  proof cases
    case past
    then show ?thesis
      using assms by (simp add: SectionReader_ReadAt_def)
  next
    case cut
    have "memory a (len - off) (int (off + base)) = (drop off ?c, None)"
      using memory_inside [of "int (off + base)" "len - off" a] cut assms(3) by (simp add: drop_take nat_int_add add.commute)
    moreover have "nat (int base + int len - (int off + int base)) = len - off"
      using cut(1) by linarith
    ultimately have "SectionReader_ReadAt (memory a) s n (int off) = (drop off ?c, Some EOF)"
      using assms cut by (simp add: SectionReader_ReadAt_def)
    moreover have "length (drop off ?c) \<le> n + sum_list ns"
      using cut(2) by simp
    ultimately show ?thesis
      by simp
  next
    case whole
    have "SectionReader_ReadAt (memory a) s n (int off) = memory a n (int (off + base))"
      using assms whole by (simp add: SectionReader_ReadAt_def)
    also have "\<dots> = (take n (drop off ?c), None)"
      using memory_inside [of "int (off + base)" n a] whole assms(3) by (simp add: drop_take nat_int_add add.commute)
    finally have "SectionReader_ReadAt (memory a) s n (int off) = (take n (drop off ?c), None)" .
    moreover have "length (take n (drop off ?c)) = n"
      using whole assms(3) by simp
    moreover obtain bs where "preadv_loop (memory a) s ns (int (off + n)) = (bs, None)"
        "concat bs = take (sum_list ns) (drop (off + n) ?c)"
      using Cons.IH by blast
    ultimately show ?thesis
      by (simp add: take_add add.commute)
  qed
qed simp

end
