(* ===== verification/Ocifs_Dir.thy ===== *)
theory Ocifs_Dir
  imports Tarfs_Dir
begin

text \<open>
  The directories of a file system of layers (\<^verbatim>\<open>dir.go\<close> in \<^verbatim>\<open>internal/sandbox/ocifs\<close>): a buffer with the entries of
  the same directory in all of the layers, upper layers first. An entry hides those with its name in the layers below;
  a whiteout, an entry \<open>.wh.name\<close>, hides \<open>name\<close>; the opaque whiteout hides everything below.
\<close>

section \<open>The interface of a layer\<close>

text \<open>The answer of \<^verbatim>\<open>ReadDirent\<close> is the number of bytes and the buffer.\<close>

record ('f, 's) layer_ops = "('f, 's) file_ops" +
  layer_Stat :: "'f \<Rightarrow> string \<Rightarrow> int \<Rightarrow> 's \<Rightarrow> (FileInfo, 's) file_call"
  layer_ReadDirent :: "'f \<Rightarrow> bytes \<Rightarrow> 's \<Rightarrow> (nat \<times> bytes, 's) file_call"

definition whiteoutPrefix :: string where "whiteoutPrefix = ''.wh.''"
definition whiteoutOpaque :: string where "whiteoutOpaque = ''.wh..wh..opq''"

section \<open>The buffer\<close>

record oci_dirent =
  oe_typ :: int
  oe_ino :: int
  oe_name :: string

record dirbuf =
  db_index :: int
  db_offset :: int
  db_entries :: "oci_dirent list"

text \<open>What \<^verbatim>\<open>init\<close> has collected: the names that are seen, the entries and whether a layer was opaque.\<close>

record collected =
  co_names :: "string list"
  co_entries :: "oci_dirent list"
  co_opaque :: bool

definition collect :: "int \<Rightarrow> int \<Rightarrow> string \<Rightarrow> collected \<Rightarrow> collected" where
  "collect typ ino ent c =
     (if ent \<in> set (co_names c) then c
      else if ent = whiteoutOpaque then c\<lparr>co_opaque := True, co_names := ent # co_names c\<rparr>
      else if take (length whiteoutPrefix) ent = whiteoutPrefix
           then c\<lparr>co_names := drop (length whiteoutPrefix) ent # co_names c\<rparr>
      else c\<lparr>co_entries := co_entries c @ [\<lparr>oe_typ = typ, oe_ino = ino, oe_name = ent\<rparr>], co_names := ent # co_names c\<rparr>)"

text \<open>The entries of a buffer; \<open>None\<close> when \<open>ReadDirent\<close> panics.\<close>

function dirbuf_scan :: "bytes \<Rightarrow> collected \<Rightarrow> collected option" where
  "dirbuf_scan b c =
     (if b = [] then Some c
      else case ReadDirent b of
             Panic _ \<Rightarrow> None
           | Return (Inl e) \<Rightarrow> Some c
           | Return (Inr r) \<Rightarrow> dirbuf_scan (drop (dr_n r) b) (collect (dr_typ r) (dr_ino r) (dr_name r) c))"
  by auto
termination
proof (relation "measure (length \<circ> fst)")
  fix b c x r
  assume "ReadDirent b = Return x" "x = Inr r"
  then have "0 < dr_n r" "dr_n r \<le> length b"
    using ReadDirent_size by blast+
  then show "((drop (dr_n r) b, collect (dr_typ r) (dr_ino r) (dr_name r) c), (b, c)) \<in> measure (length \<circ> fst)"
    by simp
qed simp

declare dirbuf_scan.simps [simp del]

text \<open>
  A layer is read to its end; the buffer keeps what the last call has left there. What was collected before an error
  is kept.
\<close>

partial_function (option) dirbuf_read ::
  "('f, 's) layer_ops \<Rightarrow> 'f \<Rightarrow> bytes \<Rightarrow> collected \<Rightarrow> 's \<Rightarrow> ((sys_error option \<times> bytes \<times> collected) \<times> 's) option"
where
  "dirbuf_read ops f buf c s =
     on_call (layer_ReadDirent ops f buf s) (\<lambda>r s. case r of
         Inl e \<Rightarrow> Some ((Some e, buf, c), s)
       | Inr (n, buf) \<Rightarrow>
           if n = 0 then Some ((None, buf, c), s)
           else (case dirbuf_scan (take n buf) c of
                   None \<Rightarrow> None
                 | Some c \<Rightarrow> dirbuf_read ops f buf c s))"

declare dirbuf_read.simps [code]

fun dirbuf_layers ::
  "('f, 's) layer_ops \<Rightarrow> 'f list \<Rightarrow> bytes \<Rightarrow> collected \<Rightarrow> 's \<Rightarrow> ((sys_error option \<times> collected) \<times> 's) option"
where
  "dirbuf_layers ops [] buf c s = Some ((None, c), s)"
| "dirbuf_layers ops (f # fs) buf c s =
     on_call (dirbuf_read ops f buf c s) (\<lambda>(err, buf, c) s.
       if err \<noteq> None then Some ((err, c), s)
       else if co_opaque c then Some ((None, c), s)
       else dirbuf_layers ops fs buf c s)"

definition nothing_collected :: collected where
  "nothing_collected = \<lparr>co_names = [], co_entries = [], co_opaque = False\<rparr>"

definition dirbuf_init ::
  "('f, 's) layer_ops \<Rightarrow> 'f list \<Rightarrow> dirbuf \<Rightarrow> 's \<Rightarrow> ((sys_error option \<times> dirbuf) \<times> 's) option"
where
  "dirbuf_init ops fs d s =
     on_call (dirbuf_layers ops fs (replicate (2 * PATH_MAX) 0) nothing_collected s) (\<lambda>(err, c) s.
       Some ((err, d\<lparr>db_entries := db_entries d @ co_entries c\<rparr>), s))"

definition dirbuf_reset :: "dirbuf \<Rightarrow> dirbuf" where
  "dirbuf_reset d = (if db_index d > 0 then d\<lparr>db_index := 0, db_offset := 0\<rparr> else d)"

text \<open>The loop of \<^verbatim>\<open>readDirent\<close>: an entry that is cut is written again by the next call.\<close>

fun dirbuf_write :: "oci_dirent list \<Rightarrow> nat \<Rightarrow> bytes \<Rightarrow> dirbuf \<Rightarrow> (nat \<times> bytes) \<times> dirbuf" where
  "dirbuf_write [] n buf d = ((n, buf), d)"
| "dirbuf_write (e # es) n buf d =
     (if n < length buf
      then let (wn, b) = WriteDirent (drop n buf) (oe_typ e) (oe_ino e) (db_offset d) (oe_name e); buf = take n buf @ b
           in if wn < SizeOfDirent (length (oe_name e)) then ((n + wn, buf), d)
              else dirbuf_write es (n + wn) buf
                     (d\<lparr>db_index := db_index d + 1, db_offset := wrap (Unsigned 64) (db_offset d + int wn)\<rparr>)
      else ((n, buf), d))"

definition dirbuf_readDirent ::
  "('f, 's) layer_ops \<Rightarrow> 'f list \<Rightarrow> bytes \<Rightarrow> dirbuf \<Rightarrow> 's \<Rightarrow> (((sys_error + nat \<times> bytes) \<times> dirbuf) \<times> 's) option"
where
  "dirbuf_readDirent ops fs buf d s =
     on_call (if db_index d < 0 then dirbuf_init ops fs (d\<lparr>db_index := 0\<rparr>) s else Some ((None, d), s)) (\<lambda>(err, d) s.
       case err of
         Some e \<Rightarrow> Some ((Inl e, d), s)
       | None \<Rightarrow> Some (apfst Inr (dirbuf_write (drop (nat (db_index d)) (db_entries d)) 0 buf d), s))"

section \<open>What is collected\<close>

text \<open>The record of an entry of a directory, in the order of a listing.\<close>

abbreviation collect_entry :: "collected \<Rightarrow> string \<times> int \<Rightarrow> collected" where
  "collect_entry c e \<equiv> collect (dirent_mode (dirent_type (snd e))) 0 (fst e) c"

lemma dirbuf_scan_records:
  "\<forall>(name, mode)\<in>set es. plain_name name \<Longrightarrow> dirbuf_scan (dirent_records off es) c = Some (foldl collect_entry c es)"
proof (induction es arbitrary: off c)
  case Nil
  then show ?case
    by (simp add: dirbuf_scan.simps)
next
  case (Cons e es)
  obtain name mode where e: "e = (name, mode)"
    by fastforce
  have "entry_record mode 0 off name \<noteq> []"
    by (simp add: entry_record_def)
  then show ?case
    using Cons e ReadDirent_record [of name mode 0 off] by (subst dirbuf_scan.simps) simp
qed

end
