(* ===== verification/Ocifs.thy ===== *)
theory Ocifs
  imports Ocifs_Dir
begin

text \<open>
  The file system that stacks layers on each other (\<^verbatim>\<open>internal/sandbox/ocifs\<close>: \<^verbatim>\<open>ocifs.go\<close>, \<^verbatim>\<open>layers.go\<close>,
  \<^verbatim>\<open>file.go\<close>). The files of the layers are handles \<open>'f\<close> over a state \<open>'s\<close>; the values \<^verbatim>\<open>fileLayers\<close> and the open
  files are mutable objects, so they live in stores, and a reference is an index. A call that does not return, or
  panics, is \<open>None\<close>.
\<close>

section \<open>State\<close>

text \<open>A set of files with the count of its references, and the set that its parent directory is.\<close>

record 'f file_layers =
  fl_refc :: int
  fl_parent :: "nat option"
  fl_files :: "'f list"

record oci_file =
  of_layers :: "nat option"
  of_dirbuf :: "dirbuf option"

record ('f, 's) oci =
  oci_layers :: "'f file_layers list"
  oci_files :: "oci_file list"
  oci_base :: 's

text \<open>A call to a file of a layer.\<close>

definition on_base :: "('s \<Rightarrow> ('a \<times> 's) option) \<Rightarrow> ('f, 's) oci \<Rightarrow> ('a \<times> ('f, 's) oci) option" where
  "on_base call s = map_option (\<lambda>(a, b). (a, s\<lparr>oci_base := b\<rparr>)) (call (oci_base s))"

section \<open>References to layers\<close>

definition oci_ref :: "nat option \<Rightarrow> ('f, 's) oci \<Rightarrow> ('f, 's) oci" where
  "oci_ref l s =
     (case l of None \<Rightarrow> s
      | Some l \<Rightarrow> s\<lparr>oci_layers := (oci_layers s)[l := (oci_layers s ! l)\<lparr>fl_refc := wrap (Unsigned 64) (fl_refc (oci_layers s ! l) + 1)\<rparr>]\<rparr>)"

fun closeFiles :: "('f, 's) layer_ops \<Rightarrow> 'f list \<Rightarrow> 's \<Rightarrow> (unit \<times> 's) option" where
  "closeFiles ops [] s = Some ((), s)"
| "closeFiles ops (f # fs) s = on_call (file_Close ops f s) (\<lambda>_ s. closeFiles ops fs s)"

partial_function (option) oci_unref :: "('f, 's) layer_ops \<Rightarrow> nat option \<Rightarrow> ('f, 's) oci \<Rightarrow> (unit \<times> ('f, 's) oci) option" where
  "oci_unref ops l s =
     (case l of None \<Rightarrow> Some ((), s)
      | Some l \<Rightarrow>
          let layers = oci_layers s ! l; refc = wrap (Unsigned 64) (fl_refc layers - 1);
              s = s\<lparr>oci_layers := (oci_layers s)[l := layers\<lparr>fl_refc := refc\<rparr>]\<rparr>
          in if refc = 0
             then on_call (on_base (closeFiles ops (fl_files layers)) s) (\<lambda>_ s. oci_unref ops (fl_parent layers) s)
             else Some ((), s))"

declare oci_unref.simps [code]

definition new_layers :: "nat option \<Rightarrow> 'f list \<Rightarrow> ('f, 's) oci \<Rightarrow> nat \<times> ('f, 's) oci" where
  "new_layers parent files s =
     (length (oci_layers s), s\<lparr>oci_layers := oci_layers s @ [\<lparr>fl_refc = 0, fl_parent = parent, fl_files = files\<rparr>]\<rparr>)"

definition oci_newFile :: "nat option \<Rightarrow> ('f, 's) oci \<Rightarrow> nat \<times> ('f, 's) oci" where
  "oci_newFile l s =
     (length (oci_files s), oci_ref l (s\<lparr>oci_files := oci_files s @ [\<lparr>of_layers = l, of_dirbuf = None\<rparr>]\<rparr>))"

definition oci_Close :: "('f, 's) layer_ops \<Rightarrow> nat \<Rightarrow> ('f, 's) oci \<Rightarrow> (unit \<times> ('f, 's) oci) option" where
  "oci_Close ops f s =
     (let file = oci_files s ! f
      in oci_unref ops (of_layers file) (s\<lparr>oci_files := (oci_files s)[f := file\<lparr>of_layers := None\<rparr>]\<rparr>))"

text \<open>\<^verbatim>\<open>withLayers1\<close> and \<^verbatim>\<open>withLayers2\<close>: the layers are kept while a method runs on them.\<close>

definition withLayers ::
  "('f, 's) layer_ops \<Rightarrow> nat \<Rightarrow> (nat \<Rightarrow> ('f, 's) oci \<Rightarrow> ('r, ('f, 's) oci) file_call) \<Rightarrow> ('f, 's) oci
   \<Rightarrow> ('r, ('f, 's) oci) file_call"
where
  "withLayers ops f act s =
     (case of_layers (oci_files s ! f) of
        None \<Rightarrow> Some (Inl EBADF, s)
      | Some l \<Rightarrow> on_call (act l (oci_ref (Some l) s)) (\<lambda>r s. on_call (oci_unref ops (Some l) s) (\<lambda>_ s. Some (r, s))))"

section \<open>Opening\<close>

definition oci_openSelf :: "('f, 's) layer_ops \<Rightarrow> nat \<Rightarrow> ('f, 's) oci \<Rightarrow> (nat, ('f, 's) oci) file_call" where
  "oci_openSelf ops f s = withLayers ops f (\<lambda>l s. Some (apfst Inr (oci_newFile (Some l) s))) s"

definition oci_openParent :: "('f, 's) layer_ops \<Rightarrow> nat \<Rightarrow> ('f, 's) oci \<Rightarrow> (nat, ('f, 's) oci) file_call" where
  "oci_openParent ops f s =
     withLayers ops f (\<lambda>l s.
       let l = (case fl_parent (oci_layers s ! l) of None \<Rightarrow> l | Some p \<Rightarrow> p)
       in Some (apfst Inr (oci_newFile (Some l) s))) s"

partial_function (option) top_layers :: "'f file_layers list \<Rightarrow> nat \<Rightarrow> nat option" where
  "top_layers ls l = (case fl_parent (ls ! l) of None \<Rightarrow> Some l | Some p \<Rightarrow> top_layers ls p)"

declare top_layers.simps [code]

definition oci_openRoot :: "('f, 's) layer_ops \<Rightarrow> nat \<Rightarrow> ('f, 's) oci \<Rightarrow> (nat, ('f, 's) oci) file_call" where
  "oci_openRoot ops f s =
     withLayers ops f (\<lambda>l s.
       case top_layers (oci_layers s) l of
         None \<Rightarrow> None
       | Some l \<Rightarrow> Some (apfst Inr (oci_newFile (Some l) s))) s"

definition hasWhiteout :: "('f, 's) layer_ops \<Rightarrow> 'f \<Rightarrow> string \<Rightarrow> 's \<Rightarrow> (bool, 's) file_call" where
  "hasWhiteout ops file whiteout s =
     on_call (layer_Stat ops file whiteout AT_SYMLINK_NOFOLLOW s) (\<lambda>r s. case r of
         Inr _ \<Rightarrow> Some (Inr True, s)
       | Inl e \<Rightarrow>
           if e \<noteq> ENOENT then Some (Inl e, s)
           else on_call (layer_Stat ops file whiteoutOpaque AT_SYMLINK_NOFOLLOW s) (\<lambda>r s. case r of
               Inr _ \<Rightarrow> Some (Inr True, s)
             | Inl e \<Rightarrow> if e \<noteq> ENOENT then Some (Inl e, s) else Some (Inr False, s)))"

definition mode_IsDir :: "int \<Rightarrow> bool" where
  "mode_IsDir mode \<longleftrightarrow> mode AND ModeDir \<noteq> 0"

text \<open>The loop of \<^verbatim>\<open>openFile\<close>: the error, if there is one, and the files that were opened.\<close>

fun open_layers ::
  "('f, 's) layer_ops \<Rightarrow> string \<Rightarrow> int \<Rightarrow> int \<Rightarrow> 'f list \<Rightarrow> 'f list \<Rightarrow> 's \<Rightarrow> ((sys_error option \<times> 'f list) \<times> 's) option"
where
  "open_layers ops name flags mode [] files s = Some ((None, files), s)"
| "open_layers ops name flags mode (layer # layers) files s =
     on_call (file_Open ops layer name (flags OR O_NOFOLLOW) mode s) (\<lambda>r s.
       let check = (\<lambda>files s. on_call (hasWhiteout ops layer (whiteoutPrefix @ name) s) (\<lambda>r s. case r of
               Inl e \<Rightarrow> Some ((Some e, files), s)
             | Inr wh \<Rightarrow> if wh then Some ((None, files), s) else open_layers ops name flags mode layers files s))
       in case r of
            Inl e \<Rightarrow>
              if e = ELOOP \<and> files \<noteq> [] then Some ((None, files), s)
              else if e = ENOTDIR \<and> flags AND O_NOFOLLOW \<noteq> 0 \<and> files \<noteq> [] then Some ((None, files), s)
              else if e \<noteq> ENOENT then Some ((Some e, files), s)
              else check files s
          | Inr f \<Rightarrow>
              on_call (layer_Stat ops f [] AT_SYMLINK_NOFOLLOW s) (\<lambda>r s. case r of
                  Inl e \<Rightarrow> on_call (file_Close ops f s) (\<lambda>_ s. Some ((Some e, files), s))
                | Inr info \<Rightarrow>
                    if \<not> mode_IsDir (fi_mode info) \<and> files \<noteq> []
                    then on_call (file_Close ops f s) (\<lambda>_ s. Some ((None, files), s))
                    else if \<not> mode_IsDir (fi_mode info) then Some ((None, files @ [f]), s)
                    else check (files @ [f]) s))"

definition oci_openFile ::
  "('f, 's) layer_ops \<Rightarrow> nat \<Rightarrow> string \<Rightarrow> int \<Rightarrow> int \<Rightarrow> ('f, 's) oci \<Rightarrow> (nat, ('f, 's) oci) file_call"
where
  "oci_openFile ops f name flags mode s =
     withLayers ops f (\<lambda>l s.
       on_call (on_base (open_layers ops name flags mode (fl_files (oci_layers s ! l)) []) s) (\<lambda>(err, files) s.
         case err of
           Some e \<Rightarrow> on_call (on_base (closeFiles ops files) s) (\<lambda>_ s. Some (Inl e, s))
         | None \<Rightarrow>
             if files = [] then Some (Inl ENOENT, s)
             else let (k, s) = new_layers (Some l) files s; (g, s) = oci_newFile (Some k) s
                  in Some (Inr g, oci_ref (Some l) s))) s"

text \<open>
  \<^verbatim>\<open>Open\<close> and \<^verbatim>\<open>Readlink\<close> resolve paths with \<open>ResolvePath\<close>, which calls them again for the elements of a path:
  the first argument bounds the depth of these calls, of which there are two.
\<close>

text \<open>The loop of \<^verbatim>\<open>Readlink\<close>, with a buffer of \<open>n\<close> bytes.\<close>

fun readlink_layers :: "('f, 's) layer_ops \<Rightarrow> string \<Rightarrow> nat \<Rightarrow> 'f list \<Rightarrow> 's \<Rightarrow> (string, 's) file_call" where
  "readlink_layers ops name n [] s = Some (Inl ENOENT, s)"
| "readlink_layers ops name n (layer # layers) s =
     on_call (file_Readlink ops layer name n s) (\<lambda>r s. case r of
         Inr link \<Rightarrow> Some (Inr link, s)
       | Inl e \<Rightarrow>
           if e \<noteq> ENOENT then Some (Inl e, s)
           else on_call (hasWhiteout ops layer (whiteoutPrefix @ name) s) (\<lambda>r s. case r of
               Inl e \<Rightarrow> Some (Inl e, s)
             | Inr wh \<Rightarrow> if wh then Some (Inl ENOENT, s) else readlink_layers ops name n layers s))"

primrec oci_ops :: "nat \<Rightarrow> ('f, 's) layer_ops \<Rightarrow> (nat, ('f, 's) oci) file_ops" where
  "oci_ops 0 ops =
     \<lparr>file_Open = \<lambda>_ _ _ _ _. None, file_Readlink = \<lambda>_ _ _ _. None, file_Close = oci_Close ops\<rparr>"
| "oci_ops (Suc n) ops =
     \<lparr>file_Open = \<lambda>f name flags mode.
        FileOpen (oci_ops n ops) f name flags mode (oci_openRoot ops) (oci_openSelf ops) (oci_openParent ops) (oci_openFile ops),
      file_Readlink = \<lambda>f name k.
        FileReadlink (oci_ops n ops) f name (\<lambda>d name. withLayers ops d (\<lambda>l s.
          on_base (readlink_layers ops name k (fl_files (oci_layers s ! l))) s)),
      file_Close = oci_Close ops\<rparr>"

section \<open>The other methods\<close>

text \<open>The loop of \<^verbatim>\<open>Stat\<close>.\<close>

fun stat_layers :: "('f, 's) layer_ops \<Rightarrow> string \<Rightarrow> 'f list \<Rightarrow> 's \<Rightarrow> (FileInfo, 's) file_call" where
  "stat_layers ops name [] s = Some (Inl ENOENT, s)"
| "stat_layers ops name (layer # layers) s =
     on_call (layer_Stat ops layer name AT_SYMLINK_NOFOLLOW s) (\<lambda>r s. case r of
         Inr info \<Rightarrow> Some (Inr info, s)
       | Inl e \<Rightarrow>
           if e \<noteq> ENOENT then Some (Inl e, s)
           else on_call (hasWhiteout ops layer (whiteoutPrefix @ name) s) (\<lambda>r s. case r of
               Inl e \<Rightarrow> Some (Inl e, s)
             | Inr wh \<Rightarrow> if wh then Some (Inl ENOENT, s) else stat_layers ops name layers s))"

definition is_symlink :: "FileInfo \<Rightarrow> bool" where
  "is_symlink info \<longleftrightarrow> fi_mode info AND ModeType = ModeSymlink"

definition oci_Stat :: "nat \<Rightarrow> ('f, 's) layer_ops \<Rightarrow> nat \<Rightarrow> string \<Rightarrow> int \<Rightarrow> ('f, 's) oci \<Rightarrow> (FileInfo, ('f, 's) oci) file_call" where
  "oci_Stat n ops f name flags s =
     FileStat_path (oci_ops n ops) is_symlink f name flags (\<lambda>d name. withLayers ops d (\<lambda>l s.
       on_base (stat_layers ops name (fl_files (oci_layers s ! l))) s)) s"

text \<open>
  The methods on the first file: \<^verbatim>\<open>Readv\<close>, \<^verbatim>\<open>Writev\<close>, \<^verbatim>\<open>Preadv\<close>, \<^verbatim>\<open>Pwritev\<close>, \<^verbatim>\<open>CopyRange\<close>, \<^verbatim>\<open>Allocate\<close>,
  \<^verbatim>\<open>Truncate\<close>, \<^verbatim>\<open>Sync\<close>, \<^verbatim>\<open>Datasync\<close>, \<^verbatim>\<open>Flags\<close> and \<^verbatim>\<open>SetFlags\<close> call the method of the same name, \<open>call\<close>, of that file.
\<close>

definition first_file :: "('f \<Rightarrow> 's \<Rightarrow> ('r, 's) file_call) \<Rightarrow> nat \<Rightarrow> ('f, 's) oci \<Rightarrow> ('r, ('f, 's) oci) file_call" where
  "first_file call l s = (case fl_files (oci_layers s ! l) of [] \<Rightarrow> None | file # _ \<Rightarrow> on_base (call file) s)"

definition oci_forward ::
  "('f, 's) layer_ops \<Rightarrow> ('f \<Rightarrow> 's \<Rightarrow> ('r, 's) file_call) \<Rightarrow> nat \<Rightarrow> ('f, 's) oci \<Rightarrow> ('r, ('f, 's) oci) file_call"
where
  "oci_forward ops call f s = withLayers ops f (first_file call) s"

text \<open>
  The methods on the first file of the directory of a path: \<^verbatim>\<open>Chtimes\<close>, \<^verbatim>\<open>Mkdir\<close>, \<^verbatim>\<open>Rmdir\<close>, \<^verbatim>\<open>Symlink\<close> and
  \<^verbatim>\<open>Unlink\<close>, and those on two paths, \<^verbatim>\<open>Rename\<close> and \<^verbatim>\<open>Link\<close>, when the new directory is one of this package.
\<close>

definition oci_resolvePath ::
  "nat \<Rightarrow> ('f, 's) layer_ops \<Rightarrow> nat \<Rightarrow> string \<Rightarrow> int \<Rightarrow> (nat \<Rightarrow> string \<Rightarrow> ('f, 's) oci \<Rightarrow> ('r, ('f, 's) oci) file_call)
   \<Rightarrow> ('f, 's) oci \<Rightarrow> ('r, ('f, 's) oci) file_call"
where
  "oci_resolvePath n ops f name flags act s = ResolvePath (oci_ops n ops) f name flags act s"

definition oci_change ::
  "nat \<Rightarrow> ('f, 's) layer_ops \<Rightarrow> ('f \<Rightarrow> string \<Rightarrow> 's \<Rightarrow> (unit, 's) file_call) \<Rightarrow> nat \<Rightarrow> string \<Rightarrow> int
   \<Rightarrow> ('f, 's) oci \<Rightarrow> (unit, ('f, 's) oci) file_call"
where
  "oci_change n ops call f name flags s =
     oci_resolvePath n ops f name flags (\<lambda>d name. withLayers ops d (first_file (\<lambda>file. call file name))) s"

definition oci_change2 ::
  "nat \<Rightarrow> ('f, 's) layer_ops \<Rightarrow> ('f \<Rightarrow> string \<Rightarrow> 'f \<Rightarrow> string \<Rightarrow> 's \<Rightarrow> (unit, 's) file_call) \<Rightarrow> nat \<Rightarrow> string \<Rightarrow> nat
   \<Rightarrow> string \<Rightarrow> int \<Rightarrow> ('f, 's) oci \<Rightarrow> (unit, ('f, 's) oci) file_call"
where
  "oci_change2 n ops call f oldName newDir newName flags s =
     oci_resolvePath n ops f oldName flags (\<lambda>d1 name1. oci_resolvePath n ops newDir newName flags (\<lambda>d2 name2.
       withLayers ops d1 (\<lambda>l1. withLayers ops d2 (\<lambda>l2 s.
         first_file (\<lambda>file1. case fl_files (oci_layers s ! l2) of
             [] \<Rightarrow> (\<lambda>_. None)
           | file2 # _ \<Rightarrow> call file1 name1 file2 name2) l1 s)))) s"

definition oci_Seek ::
  "('f, 's) layer_ops \<Rightarrow> ('f \<Rightarrow> 's \<Rightarrow> (int, 's) file_call) \<Rightarrow> nat \<Rightarrow> int \<Rightarrow> int \<Rightarrow> ('f, 's) oci \<Rightarrow> (int, ('f, 's) oci) file_call"
where
  "oci_Seek ops call f offset whence s =
     withLayers ops f (\<lambda>l s.
       case of_dirbuf (oci_files s ! f) of
         None \<Rightarrow> first_file call l s
       | Some d \<Rightarrow>
           if offset \<noteq> 0 \<or> whence \<noteq> 0 then Some (Inl EINVAL, s)
           else Some (Inr 0, s\<lparr>oci_files := (oci_files s)[f := (oci_files s ! f)\<lparr>of_dirbuf := Some (dirbuf_reset d)\<rparr>]\<rparr>)) s"

definition oci_ReadDirent ::
  "('f, 's) layer_ops \<Rightarrow> nat \<Rightarrow> bytes \<Rightarrow> ('f, 's) oci \<Rightarrow> (nat \<times> bytes, ('f, 's) oci) file_call"
where
  "oci_ReadDirent ops f buf s =
     withLayers ops f (\<lambda>l s.
       let d = (case of_dirbuf (oci_files s ! f) of
                  None \<Rightarrow> \<lparr>db_index = - 1, db_offset = 0, db_entries = []\<rparr>
                | Some d \<Rightarrow> d)
       in on_call (on_base (dirbuf_readDirent ops (fl_files (oci_layers s ! l)) buf d) s) (\<lambda>(r, d) s.
            Some (r, s\<lparr>oci_files := (oci_files s)[f := (oci_files s ! f)\<lparr>of_dirbuf := Some d\<rparr>]\<rparr>))) s"

section \<open>The file system\<close>

text \<open>\<^verbatim>\<open>New\<close>: the layers, of which an opener opens the root, with the upper layers first.\<close>

definition oci_New :: "('s \<Rightarrow> ('f, 's) file_call) list \<Rightarrow> ('s \<Rightarrow> ('f, 's) file_call) list" where
  "oci_New layers = rev layers"

fun open_roots ::
  "('s \<Rightarrow> ('f, 's) file_call) list \<Rightarrow> 'f list \<Rightarrow> 's \<Rightarrow> ((sys_error option \<times> 'f list) \<times> 's) option"
where
  "open_roots [] files s = Some ((None, files), s)"
| "open_roots (layer # layers) files s =
     on_call (layer s) (\<lambda>r s. case r of
         Inl e \<Rightarrow> if e \<noteq> ENOENT then Some ((Some e, files), s) else open_roots layers files s
       | Inr f \<Rightarrow> open_roots layers (files @ [f]) s)"

definition oci_root ::
  "('f, 's) layer_ops \<Rightarrow> ('s \<Rightarrow> ('f, 's) file_call) list \<Rightarrow> ('f, 's) oci \<Rightarrow> (nat, ('f, 's) oci) file_call"
where
  "oci_root ops layers s =
     (if layers = [] then Some (Inl ENOENT, s)
      else on_call (on_base (open_roots layers []) s) (\<lambda>(err, files) s. case err of
          Some e \<Rightarrow> on_call (on_base (closeFiles ops files) s) (\<lambda>_ s. Some (Inl e, s))
        | None \<Rightarrow> let (k, s) = new_layers None files s; (f, s) = oci_newFile (Some k) s in Some (Inr f, s)))"

definition oci_FileSystem_Open ::
  "nat \<Rightarrow> ('f, 's) layer_ops \<Rightarrow> ('s \<Rightarrow> ('f, 's) file_call) list \<Rightarrow> string \<Rightarrow> int \<Rightarrow> int \<Rightarrow> ('f, 's) oci
   \<Rightarrow> (nat, ('f, 's) oci) file_call"
where
  "oci_FileSystem_Open n ops layers name flags mode s =
     on_call (oci_root ops layers s) (\<lambda>r s. case r of
         Inl e \<Rightarrow> Some (Inl e, s)
       | Inr f \<Rightarrow>
           if IsRoot name then Some (Inr f, s)
           else on_call (file_Open (oci_ops n ops) f name flags mode s) (\<lambda>r s.
             on_call (oci_Close ops f s) (\<lambda>_ s. Some (r, s))))"

end
