(* ===== verification/Ocifs_View.thy ===== *)
theory Ocifs_View
  imports Ocifs
begin

text \<open>
  What the stack of layers shows. \<open>oci_view\<close> is the listing that the image format promises: the entries of the
  layers, upper layers first, without those that an upper layer has too, or hides with a whiteout. The locale
  \<open>layer_dirs\<close> is what a layer promises about its directories, and in it the directory buffer lists the view, and
  \<open>Stat\<close> finds what is listed, and the whiteouts that are not.
\<close>

section \<open>The view\<close>

definition is_whiteout :: "string \<Rightarrow> bool" where
  "is_whiteout name \<longleftrightarrow> take (length whiteoutPrefix) name = whiteoutPrefix"

definition entry_names :: "(string \<times> int) list \<Rightarrow> string set" where
  "entry_names es = fst ` set es"

definition plain_entries :: "(string \<times> int) list \<Rightarrow> (string \<times> int) list" where
  "plain_entries es = filter (\<lambda>e. \<not> is_whiteout (fst e)) es"

definition hidden_names :: "(string \<times> int) list \<Rightarrow> string set" where
  "hidden_names es = drop (length whiteoutPrefix) ` {n \<in> entry_names es. is_whiteout n \<and> n \<noteq> whiteoutOpaque}"

definition is_opaque :: "(string \<times> int) list \<Rightarrow> bool" where
  "is_opaque es \<longleftrightarrow> whiteoutOpaque \<in> entry_names es"

fun oci_view :: "(string \<times> int) list list \<Rightarrow> (string \<times> int) list" where
  "oci_view [] = []"
| "oci_view (es # layers) =
     plain_entries es
     @ (if is_opaque es then []
        else filter (\<lambda>e. fst e \<notin> entry_names (plain_entries es) \<union> hidden_names es) (oci_view layers))"

text \<open>What is found of a name, also of one that the view does not list because it is that of a whiteout: the entry of the
  uppermost layer that has it, unless a layer above hides it.\<close>

fun oci_found :: "(string \<times> int) list list \<Rightarrow> string \<Rightarrow> int option" where
  "oci_found [] name = None"
| "oci_found (es # layers) name =
     (case map_of es name of
        Some mode \<Rightarrow> Some mode
      | None \<Rightarrow> if whiteoutPrefix @ name \<in> entry_names es \<or> is_opaque es then None else oci_found layers name)"

text \<open>No name twice, and a whiteout is neither for an entry of its own layer nor for a whiteout.\<close>

definition layer_ok :: "(string \<times> int) list \<Rightarrow> bool" where
  "layer_ok es \<longleftrightarrow> distinct (map fst es)
     \<and> (\<forall>n \<in> hidden_names es. n \<notin> entry_names es \<and> \<not> is_whiteout n)"

lemma is_whiteout_opaque [simp]: "is_whiteout whiteoutOpaque"
  by code_simp

lemma is_whiteout_prefix [simp]: "is_whiteout (whiteoutPrefix @ name)"
  by (simp add: is_whiteout_def)

lemma is_whiteout_drop: "is_whiteout n \<Longrightarrow> whiteoutPrefix @ drop (length whiteoutPrefix) n = n"
  unfolding is_whiteout_def by (metis append_take_drop_id)

lemma entry_names_simps [simp]:
  "entry_names [] = {}" "entry_names (e # es) = insert (fst e) (entry_names es)"
  by (simp_all add: entry_names_def)

lemma plain_entries_simps [simp]:
  "plain_entries [] = []"
  "plain_entries (e # es) = (if is_whiteout (fst e) then plain_entries es else e # plain_entries es)"
  by (simp_all add: plain_entries_def)

lemma entry_names_plain: "entry_names (plain_entries es) = {n \<in> entry_names es. \<not> is_whiteout n}"
  by (auto simp: entry_names_def plain_entries_def)

lemma hidden_names_simps [simp]:
  "hidden_names [] = {}"
  "hidden_names (e # es) =
     (if is_whiteout (fst e) \<and> fst e \<noteq> whiteoutOpaque
      then insert (drop (length whiteoutPrefix) (fst e)) (hidden_names es) else hidden_names es)"
  unfolding hidden_names_def by auto

lemma hidden_names_iff: "n \<in> hidden_names es \<longleftrightarrow> whiteoutPrefix @ n \<in> entry_names es \<and> whiteoutPrefix @ n \<noteq> whiteoutOpaque"
proof
  assume "n \<in> hidden_names es"
  then obtain m where "n = drop (length whiteoutPrefix) m" "m \<in> entry_names es" "is_whiteout m" "m \<noteq> whiteoutOpaque"
    unfolding hidden_names_def by blast
  then show "whiteoutPrefix @ n \<in> entry_names es \<and> whiteoutPrefix @ n \<noteq> whiteoutOpaque"
    using is_whiteout_drop by simp
next
  assume "whiteoutPrefix @ n \<in> entry_names es \<and> whiteoutPrefix @ n \<noteq> whiteoutOpaque"
  then show "n \<in> hidden_names es"
    unfolding hidden_names_def by (intro image_eqI [of _ _ "whiteoutPrefix @ n"]) simp_all
qed

lemma map_of_filter_key: "map_of (filter (\<lambda>e. P (fst e)) es) k = (if P k then map_of es k else None)"
  by (induction es) auto

lemma map_of_entry_names: "map_of es name \<noteq> None \<longleftrightarrow> name \<in> entry_names es"
  by (simp add: map_of_eq_None_iff entry_names_def)

lemma map_of_plain: "map_of (plain_entries es) name = (if is_whiteout name then None else map_of es name)"
  unfolding plain_entries_def by (subst map_of_filter_key [where P = "\<lambda>n. \<not> is_whiteout n"]) simp

lemma map_of_view:
  "map_of (oci_view (es # layers)) name =
     (case map_of (plain_entries es) name of
        Some mode \<Rightarrow> Some mode
      | None \<Rightarrow> if name \<in> hidden_names es \<or> is_opaque es then None else map_of (oci_view layers) name)"
proof -
  let ?hidden = "entry_names (plain_entries es) \<union> hidden_names es"
  have "map_of (filter (\<lambda>e. fst e \<notin> ?hidden) (oci_view layers)) name
      = (if name \<notin> ?hidden then map_of (oci_view layers) name else None)"
    by (rule map_of_filter_key [where P = "\<lambda>n. n \<notin> ?hidden"])
  moreover have "map_of (plain_entries es) name = None \<longleftrightarrow> name \<notin> entry_names (plain_entries es)"
    by (simp add: entry_names_def map_of_eq_None_iff)
  ultimately show ?thesis
    by (auto simp: map_add_def split: option.split)
qed

text \<open>Of other names, what is found is what the view shows.\<close>

lemma oci_found_view:
  assumes "\<not> is_whiteout name"
  shows "oci_found layers name = map_of (oci_view layers) name"
proof (induction layers)
  case (Cons es layers)
  have "whiteoutOpaque = whiteoutPrefix @ ''.wh..opq''" "is_whiteout ''.wh..opq''"
    by code_simp+
  then have "whiteoutPrefix @ name \<noteq> whiteoutOpaque"
    using assms by (metis same_append_eq)
  then have "name \<in> hidden_names es \<longleftrightarrow> whiteoutPrefix @ name \<in> entry_names es"
    by (simp add: hidden_names_iff)
  moreover have "map_of (plain_entries es) name = map_of es name"
    using assms by (simp add: map_of_plain)
  ultimately show ?case
    unfolding map_of_view using Cons.IH by (simp split: option.split)
qed simp

lemma layer_ok_Cons:
  assumes "layer_ok (e # es)"
  shows "layer_ok es"
proof -
  have "hidden_names es \<subseteq> hidden_names (e # es)" "entry_names es \<subseteq> entry_names (e # es)"
    by (simp_all only: hidden_names_simps entry_names_simps) auto
  then show ?thesis
    using assms unfolding layer_ok_def by (simp only: list.map distinct.simps) blast
qed

section \<open>Collecting the entries\<close>

abbreviation oci_entry :: "string \<times> int \<Rightarrow> oci_dirent" where
  "oci_entry e \<equiv> \<lparr>oe_typ = dirent_mode (dirent_type (snd e)), oe_ino = 0, oe_name = fst e\<rparr>"

definition unseen :: "collected \<Rightarrow> (string \<times> int) list \<Rightarrow> (string \<times> int) list" where
  "unseen c es = filter (\<lambda>e. fst e \<notin> set (co_names c)) es"

text \<open>No whiteout is among the names that are seen, apart from the opaque one when it is not to come again.\<close>

definition collect_ready :: "(string \<times> int) list \<Rightarrow> collected \<Rightarrow> bool" where
  "collect_ready es c \<longleftrightarrow> (\<forall>n \<in> set (co_names c). is_whiteout n \<longrightarrow> n = whiteoutOpaque \<and> whiteoutOpaque \<notin> entry_names es)"

lemma collect_layer:
  assumes "layer_ok es" "collect_ready es c"
  shows "co_entries (foldl collect_entry c es) = co_entries c @ map oci_entry (unseen c (plain_entries es))
    \<and> set (co_names (foldl collect_entry c es)) = set (co_names c) \<union> entry_names (plain_entries es) \<union> hidden_names es
        \<union> (if is_opaque es then {whiteoutOpaque} else {})
    \<and> co_opaque (foldl collect_entry c es) = (co_opaque c \<or> is_opaque es)"
  using assms
proof (induction es arbitrary: c)
  case Nil
  then show ?case
    by (simp add: unseen_def is_opaque_def)
next
  case (Cons e es)
  let ?n = "fst e"
  define d where "d = collect_entry c e"
  have ok: "layer_ok es"
    using Cons.prems(1) by (rule layer_ok_Cons)
  have new: "?n \<notin> entry_names es"
    using Cons.prems(1) by (auto simp: layer_ok_def entry_names_def)
  have opaque: "is_opaque (e # es) \<longleftrightarrow> ?n = whiteoutOpaque \<or> is_opaque es"
    by (auto simp: is_opaque_def)
  have fold: "foldl collect_entry c (e # es) = foldl collect_entry d es"
    by (simp add: d_def)
  have same: "unseen d (plain_entries es) = unseen c (plain_entries es)"
    if "co_names d = n # co_names c" "n \<notin> entry_names (plain_entries es)" for n
    using that unfolding unseen_def entry_names_def by (auto intro!: filter_cong)
  consider (seen) "?n \<in> set (co_names c)" | (opq) "?n \<notin> set (co_names c)" "?n = whiteoutOpaque"
    | (wh) "?n \<notin> set (co_names c)" "?n \<noteq> whiteoutOpaque" "is_whiteout ?n" | (plain) "?n \<notin> set (co_names c)" "\<not> is_whiteout ?n"
    by blast
  then show ?case
  proof cases
    case seen
    then have d: "d = c" "\<not> is_whiteout ?n"
      using Cons.prems(2) by (auto simp: d_def collect_def collect_ready_def)
    then have "collect_ready es d" "?n \<noteq> whiteoutOpaque"
      using Cons.prems(2) by (auto simp: collect_ready_def)
    then show ?thesis
      unfolding fold using Cons.IH [OF ok, of d] seen opaque d by (auto simp: unseen_def)
  next
    case opq
    then have d: "co_opaque d" "co_names d = ?n # co_names c" "co_entries d = co_entries c"
      by (simp_all add: d_def collect_def)
    then have "collect_ready es d"
      using Cons.prems(2) new opq by (auto simp: collect_ready_def)
    then show ?thesis
      unfolding fold using Cons.IH [OF ok, of d] opq opaque d same [OF d(2)] by (simp add: entry_names_plain)
  next
    case wh
    then have d: "co_opaque d = co_opaque c" "co_names d = drop (length whiteoutPrefix) ?n # co_names c" "co_entries d = co_entries c"
      by (simp_all add: d_def collect_def is_whiteout_def)
    have hidden: "drop (length whiteoutPrefix) ?n \<notin> entry_names es" "\<not> is_whiteout (drop (length whiteoutPrefix) ?n)"
      using Cons.prems(1) wh by (auto simp: layer_ok_def)
    then have "collect_ready es d"
      using Cons.prems(2) d(2) by (auto simp: collect_ready_def)
    then show ?thesis
      unfolding fold using Cons.IH [OF ok, of d] wh opaque d same [OF d(2)] hidden(1) by (simp add: entry_names_plain)
  next
    case plain
    then have n: "?n \<noteq> whiteoutOpaque"
      by auto
    then have d: "co_opaque d = co_opaque c" "co_names d = ?n # co_names c" "co_entries d = co_entries c @ [oci_entry e]"
      using plain by (simp_all add: d_def collect_def is_whiteout_def)
    then have "collect_ready es d"
      using Cons.prems(2) plain by (auto simp: collect_ready_def)
    then show ?thesis
      unfolding fold using Cons.IH [OF ok, of d] plain n opaque d same [OF d(2)] new
      by (simp add: entry_names_plain) (simp add: unseen_def)
  qed
qed

section \<open>What a layer promises\<close>

text \<open>
  \<open>entries f s\<close> is the listing of the directory \<open>f\<close>, if it is one, and \<open>listed f s\<close> says how many of the entries
  have been read. The size of the buffer is the one that the directory buffer reads with.
\<close>

locale layer_dirs =
  fixes ops :: "('f, 's) layer_ops" and entries :: "'f \<Rightarrow> 's \<Rightarrow> (string \<times> int) list option" and listed :: "'f \<Rightarrow> 's \<Rightarrow> nat"
    and info :: "'f \<Rightarrow> string \<Rightarrow> 's \<Rightarrow> FileInfo"
  assumes entries_plain: "entries f s = Some es \<Longrightarrow> (name, mode) \<in> set es \<Longrightarrow> plain_name name"
    and entries_fit: "entries f s = Some es \<Longrightarrow> size_entries es \<le> 2 * PATH_MAX"
    and stat: "entries f s = Some es \<Longrightarrow> entry_name name \<Longrightarrow>
      layer_Stat ops f name AT_SYMLINK_NOFOLLOW s =
        Some (case map_of es name of None \<Rightarrow> Inl ENOENT | Some mode \<Rightarrow> Inr (info f name s), s)"
    and stat_mode: "entries f s = Some es \<Longrightarrow> entry_name name \<Longrightarrow> map_of es name = Some mode \<Longrightarrow> fi_mode (info f name s) = mode"
    and read: "entries f s = Some es \<Longrightarrow> listed f s = 0 \<Longrightarrow> length buf = 2 * PATH_MAX \<Longrightarrow>
      \<exists>off buf' t. layer_ReadDirent ops f buf s = Some (Inr (size_entries es, buf'), t) \<and> length buf' = length buf
        \<and> take (size_entries es) buf' = dirent_records off es \<and> listed f t = length es
        \<and> (\<forall>g. entries g t = entries g s \<and> (g \<noteq> f \<longrightarrow> listed g t = listed g s))"
    and read_end: "entries f s = Some es \<Longrightarrow> listed f s = length es \<Longrightarrow> length buf = 2 * PATH_MAX \<Longrightarrow>
      \<exists>buf' t. layer_ReadDirent ops f buf s = Some (Inr (0, buf'), t) \<and> length buf' = length buf
        \<and> (\<forall>g. entries g t = entries g s \<and> listed g t = listed g s)"
begin

lemma dirbuf_read_layer:
  assumes "entries f s = Some es" "listed f s = 0" "length buf = 2 * PATH_MAX"
  shows "\<exists>buf' t. dirbuf_read ops f buf c s = Some ((None, buf', foldl collect_entry c es), t) \<and> length buf' = length buf
    \<and> (\<forall>g. entries g t = entries g s \<and> (g \<noteq> f \<longrightarrow> listed g t = listed g s))"
proof -
  obtain off buf1 t where t: "layer_ReadDirent ops f buf s = Some (Inr (size_entries es, buf1), t)" "length buf1 = length buf"
      "take (size_entries es) buf1 = dirent_records off es" "listed f t = length es"
      "\<forall>g. entries g t = entries g s \<and> (g \<noteq> f \<longrightarrow> listed g t = listed g s)"
    using read [OF assms] by blast
  show ?thesis
  proof (cases "size_entries es = 0")
    case True
    then have "es = []"
      by (cases es) (auto simp: SizeOfDirent_def)
    then show ?thesis
      using t by (subst dirbuf_read.simps) simp
  next
    case False
    have "dirbuf_scan (dirent_records off es) c = Some (foldl collect_entry c es)"
      using entries_plain [OF assms(1)] by (intro dirbuf_scan_records) auto
    then have step: "dirbuf_read ops f buf c s = dirbuf_read ops f buf1 (foldl collect_entry c es) t"
      using t(1,3) False by (subst dirbuf_read.simps) simp
    obtain buf2 u where u: "layer_ReadDirent ops f buf1 t = Some (Inr (0, buf2), u)" "length buf2 = length buf1"
        "\<forall>g. entries g u = entries g t \<and> listed g u = listed g t"
      using read_end [of f t es buf1] t(2,4,5) assms(1,3) by auto
    then have "dirbuf_read ops f buf1 (foldl collect_entry c es) t = Some ((None, buf2, foldl collect_entry c es), u)"
      by (subst dirbuf_read.simps) simp
    then show ?thesis
      using step t(2,5) u(2,3) by auto
  qed
qed

text \<open>The layers together: the view, without the names that are seen already.\<close>

lemma dirbuf_layers_view:
  assumes "list_all2 (\<lambda>f es. entries f s = Some es \<and> listed f s = 0) fs layers" "distinct fs" "\<forall>es\<in>set layers. layer_ok es"
    and "length buf = 2 * PATH_MAX" "\<not> co_opaque c" "\<forall>n\<in>set (co_names c). \<not> is_whiteout n"
  shows "\<exists>c' t. dirbuf_layers ops fs buf c s = Some ((None, c'), t)
    \<and> co_entries c' = co_entries c @ map oci_entry (unseen c (oci_view layers)) \<and> (\<forall>g. entries g t = entries g s)"
  using assms
proof (induction fs arbitrary: layers buf c s)
  case Nil
  then show ?case
    by (simp add: unseen_def)
next
  case (Cons f fs)
  obtain es layers' where layers: "layers = es # layers'" "entries f s = Some es" "listed f s = 0"
      "list_all2 (\<lambda>f es. entries f s = Some es \<and> listed f s = 0) fs layers'"
    using Cons.prems(1) by (cases layers) auto
  let ?d = "foldl collect_entry c es"
  have "collect_ready es c"
    using Cons.prems(6) by (simp add: collect_ready_def)
  then have d: "co_entries ?d = co_entries c @ map oci_entry (unseen c (plain_entries es))"
    "set (co_names ?d) = set (co_names c) \<union> entry_names (plain_entries es) \<union> hidden_names es
        \<union> (if is_opaque es then {whiteoutOpaque} else {})" "co_opaque ?d = is_opaque es"
    using collect_layer [of es c] Cons.prems(3,5) layers(1) by simp_all
  obtain buf' t where t: "dirbuf_read ops f buf c s = Some ((None, buf', ?d), t)" "length buf' = length buf"
      "\<forall>g. entries g t = entries g s \<and> (g \<noteq> f \<longrightarrow> listed g t = listed g s)"
    using dirbuf_read_layer [OF layers(2,3) Cons.prems(4), of c] by blast
  show ?case
  proof (cases "is_opaque es")
    case True
    then show ?thesis
      using t d layers(1) by simp
  next
    case False
    have "list_all2 (\<lambda>f es. entries f t = Some es \<and> listed f t = 0) fs layers'"
      by (rule list.rel_mono_strong [OF layers(4)]) (use t(3) Cons.prems(2) in auto)
    moreover have "\<forall>n\<in>set (co_names ?d). \<not> is_whiteout n"
      using d(2) False Cons.prems(3,6) layers(1) by (auto simp: entry_names_plain layer_ok_def)
    ultimately obtain c' u where u: "dirbuf_layers ops fs buf' ?d t = Some ((None, c'), u)"
        "co_entries c' = co_entries ?d @ map oci_entry (unseen ?d (oci_view layers'))" "\<forall>g. entries g u = entries g t"
      using Cons.IH [of t layers' buf' ?d] Cons.prems(2,3,4) layers(1) t(2) d(3) False by auto
    have "unseen c (filter (\<lambda>e. fst e \<notin> entry_names (plain_entries es) \<union> hidden_names es) (oci_view layers'))
        = unseen ?d (oci_view layers')"
      using False unfolding unseen_def d(2) by (auto intro!: filter_cong)
    then show ?thesis
      using t d(1,3) u layers(1) False by (simp add: unseen_def)
  qed
qed

text \<open>\<open>Stat\<close> finds the names of the view, and whiteouts.\<close>

lemma hasWhiteout_layer:
  assumes "entries f s = Some es" "entry_name name"
  shows "hasWhiteout ops f (whiteoutPrefix @ name) s = Some (Inr (whiteoutPrefix @ name \<in> entry_names es \<or> is_opaque es), s)"
proof -
  have names: "entry_name (whiteoutPrefix @ name)" "entry_name whiteoutOpaque"
    using assms(2) by (auto simp: entry_name_def component_def whiteoutPrefix_def whiteoutOpaque_def)
  show ?thesis
    unfolding hasWhiteout_def is_opaque_def stat [OF assms(1) names(1)] map_of_entry_names [symmetric]
    by (simp add: stat [OF assms(1) names(2)] split: option.split)
qed

lemma stat_layers_found:
  assumes "list_all2 (\<lambda>f es. entries f s = Some es) fs layers" "entry_name name"
  shows "\<exists>r. stat_layers ops name fs s = Some (r, s)
    \<and> (case oci_found layers name of None \<Rightarrow> r = Inl ENOENT | Some mode \<Rightarrow> \<exists>info. r = Inr info \<and> fi_mode info = mode)"
  using assms(1)
proof (induction fs arbitrary: layers)
  case (Cons f fs)
  obtain es layers' where layers: "layers = es # layers'" "entries f s = Some es"
      "list_all2 (\<lambda>f es. entries f s = Some es) fs layers'"
    using Cons.prems by (cases layers) auto
  show ?case
  proof (cases "map_of es name")
    case (Some mode)
    then show ?thesis
      using stat [OF layers(2) assms(2)] stat_mode [OF layers(2) assms(2) Some] layers(1) by simp
  next
    case None
    have "stat_layers ops name (f # fs) s
        = (if whiteoutPrefix @ name \<in> entry_names es \<or> is_opaque es then Some (Inl ENOENT, s) else stat_layers ops name fs s)"
      using stat [OF layers(2) assms(2)] None hasWhiteout_layer [OF layers(2) assms(2)] by simp
    then show ?thesis
      using Cons.IH [OF layers(3)] None layers(1) by auto
  qed
qed simp

end

end
