(* ===== verification/Ocifs_List.thy ===== *)
theory Ocifs_List
  imports Ocifs_View
begin

text \<open>
  Reading a directory of the stack of layers, with buffers of any size: every entry of the view is listed once and in
  order, an entry that is cut at the end of a buffer being written again at the start of the next.
\<close>

section \<open>The entries in a buffer\<close>

abbreviation dirent_of :: "oci_dirent \<Rightarrow> string \<times> int" where
  "dirent_of e \<equiv> (oe_name e, oe_typ e)"

lemma go_copy_prefix: "length dst \<le> length xs \<Longrightarrow> go_copy dst (xs @ ys) = go_copy dst xs"
  by (simp add: go_copy_def)

lemma dirbuf_write_result:
  assumes "\<forall>e\<in>set es. oe_ino e = 0" "fits (Unsigned 64) (db_offset d)" "n \<le> length buf"
  shows "\<exists>off. fits (Unsigned 64) off \<and> dirbuf_write es n buf d =
    ((n + min (length buf - n) (size_entries (map dirent_of es)),
      take n buf @ go_copy (drop n buf) (dirent_records (db_offset d) (map dirent_of es))),
     d\<lparr>db_index := db_index d + int (whole_entries (length buf - n) (map dirent_of es)), db_offset := off\<rparr>)"
  using assms
proof (induction es arbitrary: n buf d)
  case Nil
  then show ?case
    by (intro exI [of _ "db_offset d"]) (simp add: go_copy_def)
next
  case (Cons e es)
  let ?m = "length buf - n" and ?k = "SizeOfDirent (length (oe_name e))"
  let ?rec = "entry_record (oe_typ e) 0 (db_offset d) (oe_name e)"
  have written: "WriteDirent (drop n buf) (oe_typ e) (oe_ino e) (db_offset d) (oe_name e) = (min ?m ?k, go_copy (drop n buf) ?rec)"
    using Cons.prems(1) by (simp add: WriteDirent_record)
  consider (full) "?m = 0" | (cut) "0 < ?m" "?m < ?k" | (whole) "0 < ?m" "?k \<le> ?m"
    by linarith
  then show ?case
  proof cases
    case full
    have "whole_entries 0 (map dirent_of (e # es)) = 0"
      by (simp add: SizeOfDirent_def)
    then show ?thesis
      using full Cons.prems(2,3) by (intro exI [of _ "db_offset d"]) (simp add: go_copy_def)
  next
    case cut
    then have "dirbuf_write (e # es) n buf d = ((n + ?m, take n buf @ go_copy (drop n buf) ?rec), d)"
      using written by simp
    moreover have "go_copy (drop n buf) (dirent_records (db_offset d) (map dirent_of (e # es))) = go_copy (drop n buf) ?rec"
      using cut by (simp add: go_copy_prefix)
    ultimately show ?thesis
      using cut Cons.prems(2) by (intro exI [of _ "db_offset d"]) simp
  next
    case whole
    let ?off = "wrap (Unsigned 64) (db_offset d + int ?k)"
    let ?d = "d\<lparr>db_index := db_index d + 1, db_offset := ?off\<rparr>" and ?buf = "take n buf @ go_copy (drop n buf) ?rec"
    have step: "dirbuf_write (e # es) n buf d = dirbuf_write es (n + ?k) ?buf ?d"
      using whole written by simp
    have copied: "go_copy (drop n buf) ?rec = ?rec @ drop ?k (drop n buf)"
      using whole by (simp add: go_copy_def)
    have pre: "\<forall>e\<in>set es. oe_ino e = 0" "fits (Unsigned 64) (db_offset ?d)" "n + ?k \<le> length ?buf"
      using whole Cons.prems(1,3) by (simp_all del: wrap.simps)
    then obtain off where off: "fits (Unsigned 64) off" "dirbuf_write es (n + ?k) ?buf ?d =
        ((n + ?k + min (length ?buf - (n + ?k)) (size_entries (map dirent_of es)),
          take (n + ?k) ?buf @ go_copy (drop (n + ?k) ?buf) (dirent_records (db_offset ?d) (map dirent_of es))),
         ?d\<lparr>db_index := db_index ?d + int (whole_entries (length ?buf - (n + ?k)) (map dirent_of es)), db_offset := off\<rparr>)"
      using Cons.IH [OF pre] by blast
    have "take (n + ?k) ?buf @ go_copy (drop (n + ?k) ?buf) (dirent_records (db_offset ?d) (map dirent_of es))
        = take n buf @ go_copy (drop n buf) (dirent_records (db_offset d) (map dirent_of (e # es)))"
      using whole Cons.prems(3) by (simp add: copied go_copy_append del: wrap.simps)
    moreover have "length ?buf = length buf"
      using Cons.prems(3) by simp
    moreover have "?m - ?k = length buf - (n + ?k)"
      by simp
    ultimately show ?thesis
      using whole off step by (intro exI [of _ off]) (simp del: wrap.simps)
  qed
qed

lemma dirent_mode_idem: "dirent_mode (dirent_type (dirent_mode t)) = dirent_mode t"
proof -
  have "dirent_mode t \<in> {0, ModeDevice, ModeDevice OR ModeCharDevice, ModeDir, ModeSymlink, ModeNamedPipe, ModeSocket, ModeIrregular}"
    by (simp add: dirent_mode_def)
  moreover have "\<forall>m\<in>{0, ModeDevice, ModeDevice OR ModeCharDevice, ModeDir, ModeSymlink, ModeNamedPipe, ModeSocket, ModeIrregular}.
      dirent_mode (dirent_type m) = m"
    by code_simp
  ultimately show ?thesis
    by blast
qed

section \<open>Reading a directory to its end\<close>

text \<open>What a client gets that reads with the buffers \<open>bufs\<close>, one after the other.\<close>

fun oci_list ::
  "('f, 's) layer_ops \<Rightarrow> nat \<Rightarrow> bytes list \<Rightarrow> ('f, 's) oci \<Rightarrow> ((string \<times> int) list \<times> ('f, 's) oci) option"
where
  "oci_list ops f [] s = Some ([], s)"
| "oci_list ops f (buf # bufs) s =
     on_call (oci_ReadDirent ops f buf s) (\<lambda>r s. case r of
         Inl e \<Rightarrow> None
       | Inr (n, b) \<Rightarrow> on_call (oci_list ops f bufs s) (\<lambda>es s. Some (parse_dirents (take n b) @ es, s)))"

definition shown :: "string \<times> int \<Rightarrow> string \<times> int" where
  "shown e = (fst e, dirent_mode (dirent_type (snd e)))"

text \<open>A file that is open on layers with this many references.\<close>

definition open_on :: "nat \<Rightarrow> 'f list \<Rightarrow> ('f, 's) oci \<Rightarrow> bool" where
  "open_on f files s \<longleftrightarrow> f < length (oci_files s)
     \<and> (\<exists>l. of_layers (oci_files s ! f) = Some l \<and> l < length (oci_layers s) \<and> fl_files (oci_layers s ! l) = files
         \<and> 0 < fl_refc (oci_layers s ! l) \<and> fl_refc (oci_layers s ! l) < 2 ^ 64 - 1)"

lemma withLayers_open:
  assumes "open_on f files s"
    and act: "\<And>l. of_layers (oci_files s ! f) = Some l \<Longrightarrow> act l (oci_ref (Some l) s) = Some (r, t l)"
    and "\<And>l. oci_layers (t l) = oci_layers (oci_ref (Some l) s)"
  shows "\<exists>l. of_layers (oci_files s ! f) = Some l \<and> withLayers ops f act s = Some (r, t l\<lparr>oci_layers := oci_layers s\<rparr>)"
proof -
  obtain l where l: "of_layers (oci_files s ! f) = Some l" "l < length (oci_layers s)"
      "0 < fl_refc (oci_layers s ! l)" "fl_refc (oci_layers s ! l) < 2 ^ 64 - 1"
    using assms(1) by (auto simp: open_on_def)
  let ?c = "fl_refc (oci_layers s ! l)"
  have ref: "oci_layers (oci_ref (Some l) s) = (oci_layers s)[l := (oci_layers s ! l)\<lparr>fl_refc := ?c + 1\<rparr>]"
    using l by (simp add: oci_ref_def take_bit_int_eq_self)
  have "wrap (Unsigned 64) (?c + 1 - 1) = ?c"
    using l by (simp add: take_bit_int_eq_self)
  then have "oci_unref ops (Some l) (t l) = Some ((), t l\<lparr>oci_layers := oci_layers s\<rparr>)"
    using l(2,3) assms(3) [of l] ref by (subst oci_unref.simps) (simp add: Let_def)
  then show ?thesis
    using l(1) act by (simp add: withLayers_def)
qed

definition plain_view :: "(string \<times> int) list \<Rightarrow> bool" where
  "plain_view view \<longleftrightarrow> (\<forall>e\<in>set view. plain_name (fst e))"

lemma whole_entries_shown [simp]: "whole_entries m (map shown es) = whole_entries m es"
  by (induction m es rule: whole_entries.induct) (simp_all add: shown_def)

lemma size_entries_shown [simp]: "size_entries (map shown es) = size_entries es"
  by (induction es) (simp_all add: size_entries_def shown_def split: prod.splits)

text \<open>What one call writes: the records of the view from an entry on, as far as the buffer goes.\<close>

definition chunk :: "(string \<times> int) list \<Rightarrow> nat \<Rightarrow> bytes \<Rightarrow> nat \<Rightarrow> bytes \<Rightarrow> bool" where
  "chunk view i buf n b \<longleftrightarrow> n = min (length buf) (size_entries (map shown (drop i view))) \<and> length b = length buf
     \<and> (\<exists>off. take n b = take (length buf) (dirent_records off (map shown (drop i view))))"

lemma chunk_parse:
  assumes "plain_view view" "chunk view i buf n b"
  shows "parse_dirents (take n b) = map shown (take (whole_entries (length buf) (drop i view)) (drop i view))"
proof -
  have "\<forall>(name, mode)\<in>set (map shown (drop i view)). plain_name name"
    using assms(1) by (auto simp: plain_view_def shown_def dest: in_set_dropD)
  then have "parse_dirents (take (length buf) (dirent_records off (map shown (drop i view))))
      = map shown (take (whole_entries (length buf) (drop i view)) (drop i view))" for off
    by (simp add: parse_dirents_records take_map) (simp add: shown_def dirent_mode_idem)
  then show ?thesis
    using assms(2) by (auto simp: chunk_def)
qed

lemma dirbuf_readDirent_next:
  fixes buf :: bytes
  assumes "db_entries d = map oci_entry view" "db_index d = int i" "fits (Unsigned 64) (db_offset d)"
  defines "k \<equiv> whole_entries (length buf) (drop i view)"
  shows "\<exists>n b off. dirbuf_readDirent ops fs buf d s = Some ((Inr (n, b), d\<lparr>db_index := int (i + k), db_offset := off\<rparr>), s)
    \<and> fits (Unsigned 64) off \<and> chunk view i buf n b"
proof -
  let ?rest = "drop i view" and ?es = "drop (nat (db_index d)) (db_entries d)"
  have es: "map dirent_of ?es = map shown ?rest" "\<forall>e\<in>set ?es. oe_ino e = 0"
    using assms(1,2) by (auto simp: drop_map shown_def dest: in_set_dropD)
  obtain off where off: "fits (Unsigned 64) off" "dirbuf_write ?es 0 buf d =
      ((min (length buf) (size_entries (map shown ?rest)), go_copy buf (dirent_records (db_offset d) (map shown ?rest))),
       d\<lparr>db_index := db_index d + int k, db_offset := off\<rparr>)"
    using dirbuf_write_result [OF es(2) assms(3), of 0 buf] unfolding es(1) k_def by auto
  have "take (min (length buf) (size_entries (map shown ?rest))) (go_copy buf (dirent_records (db_offset d) (map shown ?rest)))
      = take (length buf) (dirent_records (db_offset d) (map shown ?rest))"
    by (auto simp: go_copy_def min_def)
  then have "chunk view i buf (min (length buf) (size_entries (map shown ?rest)))
      (go_copy buf (dirent_records (db_offset d) (map shown ?rest)))"
    unfolding chunk_def by (simp only: length_go_copy) blast
  then show ?thesis
    using off assms(2) by (intro exI [of _ off]
        exI [of _ "min (length buf) (size_entries (map shown ?rest))"]
        exI [of _ "go_copy buf (dirent_records (db_offset d) (map shown ?rest))"]) (simp add: dirbuf_readDirent_def)
qed

text \<open>A file whose buffer is at an entry of the view.\<close>

definition listing_at :: "(string \<times> int) list \<Rightarrow> nat \<Rightarrow> nat \<Rightarrow> 'f list \<Rightarrow> ('f, 's) oci \<Rightarrow> bool" where
  "listing_at view i f files s \<longleftrightarrow> open_on f files s
     \<and> (\<exists>d. of_dirbuf (oci_files s ! f) = Some d \<and> db_entries d = map oci_entry view \<and> db_index d = int i
         \<and> fits (Unsigned 64) (db_offset d))"

lemma oci_ref_simps [simp]: "oci_files (oci_ref l s) = oci_files s" "oci_base (oci_ref l s) = oci_base s"
  by (simp_all add: oci_ref_def split: option.split)

lemma fl_files_ref [simp]: "fl_files (oci_layers (oci_ref l s) ! k) = fl_files (oci_layers s ! k)"
proof (cases l)
  case (Some m)
  then show ?thesis
    by (cases "m = k"; cases "k < length (oci_layers s)") (simp_all add: oci_ref_def not_less list_update_beyond)
qed (simp add: oci_ref_def)

text \<open>A call of \<open>ReadDirent\<close> through the buffer \<open>d\<close>.\<close>

lemma oci_ReadDirent_buffer:
  assumes "open_on f files s"
    and d: "d = (case of_dirbuf (oci_files s ! f) of None \<Rightarrow> \<lparr>db_index = - 1, db_offset = 0, db_entries = []\<rparr> | Some d \<Rightarrow> d)"
    and "dirbuf_readDirent ops files buf d (oci_base s) = Some ((r, d'), b)"
  shows "\<exists>t. oci_ReadDirent ops f buf s = Some (r, t) \<and> open_on f files t \<and> of_dirbuf (oci_files t ! f) = Some d' \<and> oci_base t = b"
proof -
  let ?t = "s\<lparr>oci_base := b, oci_files := (oci_files s)[f := (oci_files s ! f)\<lparr>of_dirbuf := Some d'\<rparr>]\<rparr>"
  let ?act = "\<lambda>l s. let d = (case of_dirbuf (oci_files s ! f) of
                  None \<Rightarrow> \<lparr>db_index = - 1, db_offset = 0, db_entries = []\<rparr> | Some d \<Rightarrow> d)
       in on_call (on_base (dirbuf_readDirent ops (fl_files (oci_layers s ! l)) buf d) s) (\<lambda>(r, d) s.
            Some (r, s\<lparr>oci_files := (oci_files s)[f := (oci_files s ! f)\<lparr>of_dirbuf := Some d\<rparr>]\<rparr>))"
  have "?act l (oci_ref (Some l) s) = Some (r, ?t\<lparr>oci_layers := oci_layers (oci_ref (Some l) s)\<rparr>)"
    if "of_layers (oci_files s ! f) = Some l" for l
  proof -
    have "fl_files (oci_layers s ! l) = files"
      using assms(1) that by (auto simp: open_on_def)
    then show ?thesis
      using assms(3) d by (simp add: on_base_def Let_def)
  qed
  from withLayers_open [OF assms(1), where act = ?act and r = r and ops = ops
      and t = "\<lambda>l. ?t\<lparr>oci_layers := oci_layers (oci_ref (Some l) s)\<rparr>", OF this]
  have "withLayers ops f ?act s = Some (r, ?t)"
    by auto
  then have "oci_ReadDirent ops f buf s = Some (r, ?t)"
    unfolding oci_ReadDirent_def .
  then show ?thesis
    using assms(1) by (auto simp: open_on_def)
qed

lemma oci_ReadDirent_next:
  fixes buf :: bytes
  assumes "listing_at view i f files s"
  defines "k \<equiv> whole_entries (length buf) (drop i view)"
  shows "\<exists>n b t. oci_ReadDirent ops f buf s = Some (Inr (n, b), t) \<and> listing_at view (i + k) f files t
    \<and> chunk view i buf n b"
proof -
  obtain d where d: "open_on f files s" "of_dirbuf (oci_files s ! f) = Some d" "db_entries d = map oci_entry view"
      "db_index d = int i" "fits (Unsigned 64) (db_offset d)"
    using assms(1) by (auto simp: listing_at_def)
  obtain n b off where r: "dirbuf_readDirent ops files buf d (oci_base s)
        = Some ((Inr (n, b), d\<lparr>db_index := int (i + k), db_offset := off\<rparr>), oci_base s)"
      "fits (Unsigned 64) off" "chunk view i buf n b"
    using dirbuf_readDirent_next [OF d(3-5), of ops files buf "oci_base s"] unfolding k_def by blast
  have "d = (case of_dirbuf (oci_files s ! f) of None \<Rightarrow> \<lparr>db_index = - 1, db_offset = 0, db_entries = []\<rparr> | Some d \<Rightarrow> d)"
    using d(2) by simp
  from oci_ReadDirent_buffer [OF d(1) this r(1)]
  obtain t where t: "oci_ReadDirent ops f buf s = Some (Inr (n, b), t)" "open_on f files t"
      "of_dirbuf (oci_files t ! f) = Some (d\<lparr>db_index := int (i + k), db_offset := off\<rparr>)"
    by blast
  then have "listing_at view (i + k) f files t"
    using d(3) r(2) by (simp add: listing_at_def)
  then show ?thesis
    using t(1) r(3) by blast
qed

text \<open>Buffers that hold the longest entry are enough.\<close>

lemma whole_entries_progress:
  assumes "\<forall>e\<in>set es. SizeOfDirent (length (fst e)) \<le> m" "es \<noteq> []"
  shows "0 < whole_entries m es"
  using assms by (cases es) auto

lemma oci_list_rest:
  assumes "listing_at view i f files s" "plain_view view"
    and "\<forall>buf\<in>set bufs. \<forall>e\<in>set view. SizeOfDirent (length (fst e)) \<le> length buf" "length view \<le> i + length bufs"
  shows "\<exists>t. oci_list ops f bufs s = Some (map shown (drop i view), t)"
  using assms
proof (induction bufs arbitrary: i s)
  case (Cons buf bufs)
  let ?k = "whole_entries (length buf) (drop i view)"
  obtain n b t where t: "oci_ReadDirent ops f buf s = Some (Inr (n, b), t)" "listing_at view (i + ?k) f files t"
      "parse_dirents (take n b) = map shown (take ?k (drop i view))"
    using oci_ReadDirent_next [OF Cons.prems(1)] chunk_parse [OF Cons.prems(2)] by blast
  have "0 < ?k" if "i < length view"
    using that Cons.prems(3) by (intro whole_entries_progress) (auto dest: in_set_dropD)
  then have "length view \<le> i + ?k + length bufs"
    using Cons.prems(4) by fastforce
  then obtain u where "oci_list ops f bufs t = Some (map shown (drop (i + ?k) view), u)"
    using Cons.IH [OF t(2) Cons.prems(2)] Cons.prems(3) by auto
  moreover have "drop (i + ?k) view = drop ?k (drop i view)"
    by (simp add: add.commute)
  then have "map shown (take ?k (drop i view)) @ map shown (drop (i + ?k) view) = map shown (drop i view)"
    by (simp only: flip: map_append) (simp only: append_take_drop_id)
  ultimately show ?case
    using t(1,3) by simp
qed simp

section \<open>Layers that keep their promises\<close>

context layer_dirs begin

lemma view_plain:
  assumes "list_all2 (\<lambda>f es. entries f b = Some es) files layers"
  shows "plain_view (oci_view layers)"
  using assms
proof (induction files layers rule: list_all2_induct)
  case (Cons f files es layers)
  then show ?case
    using entries_plain [OF Cons.hyps(1)] by (auto simp: plain_view_def plain_entries_def)
qed (simp add: plain_view_def)

lemma oci_ReadDirent_first:
  fixes buf :: bytes
  assumes "open_on f files s" "of_dirbuf (oci_files s ! f) = None"
    and "list_all2 (\<lambda>f es. entries f (oci_base s) = Some es \<and> listed f (oci_base s) = 0) files layers" "distinct files"
    and "\<forall>es\<in>set layers. layer_ok es"
  defines "k \<equiv> whole_entries (length buf) (oci_view layers)"
  shows "\<exists>n b t. oci_ReadDirent ops f buf s = Some (Inr (n, b), t) \<and> listing_at (oci_view layers) k f files t
    \<and> chunk (oci_view layers) 0 buf n b"
proof -
  let ?d = "\<lparr>db_index = - 1, db_offset = 0, db_entries = []\<rparr> :: dirbuf"
  let ?e = "\<lparr>db_index = 0, db_offset = 0, db_entries = map oci_entry (oci_view layers)\<rparr> :: dirbuf"
  have "unseen nothing_collected (oci_view layers) = oci_view layers"
    by (simp add: unseen_def nothing_collected_def)
  moreover have "\<not> co_opaque nothing_collected" "\<forall>n\<in>set (co_names nothing_collected). \<not> is_whiteout n"
      "co_entries nothing_collected = []"
    by (simp_all add: nothing_collected_def)
  ultimately obtain c t where init: "dirbuf_layers ops files (replicate (2 * PATH_MAX) 0) nothing_collected (oci_base s) = Some ((None, c), t)"
      "co_entries c = map oci_entry (oci_view layers)"
    using dirbuf_layers_view [OF assms(3-5), of "replicate (2 * PATH_MAX) 0" nothing_collected] by auto
  obtain n b off where r: "dirbuf_readDirent ops files buf ?e t = Some ((Inr (n, b), ?e\<lparr>db_index := int (0 + k), db_offset := off\<rparr>), t)"
      "fits (Unsigned 64) off" "chunk (oci_view layers) 0 buf n b"
    using dirbuf_readDirent_next [of ?e "oci_view layers" 0 ops files buf t] unfolding k_def by (auto simp: fits_def)
  have "dirbuf_readDirent ops files buf ?d (oci_base s) = dirbuf_readDirent ops files buf ?e t"
  proof -
    have "dirbuf_init ops files (?d\<lparr>db_index := 0\<rparr>) (oci_base s) = Some ((None, ?e), t)"
      using init by (simp add: dirbuf_init_def)
    then show ?thesis
      unfolding dirbuf_readDirent_def by simp
  qed
  then have "dirbuf_readDirent ops files buf ?d (oci_base s)
      = Some ((Inr (n, b), ?e\<lparr>db_index := int (0 + k), db_offset := off\<rparr>), t)"
    using r(1) by simp
  from oci_ReadDirent_buffer [OF assms(1) _ this]
  obtain u where u: "oci_ReadDirent ops f buf s = Some (Inr (n, b), u)" "open_on f files u"
      "of_dirbuf (oci_files u ! f) = Some (?e\<lparr>db_index := int (0 + k), db_offset := off\<rparr>)"
    using assms(2) by auto
  then have "listing_at (oci_view layers) k f files u"
    using r(2) by (simp add: listing_at_def)
  then show ?thesis
    using u(1) r(3) by blast
qed

lemma oci_list_view:
  assumes "open_on f files s" "of_dirbuf (oci_files s ! f) = None"
    and "list_all2 (\<lambda>f es. entries f (oci_base s) = Some es \<and> listed f (oci_base s) = 0) files layers" "distinct files"
    and "\<forall>es\<in>set layers. layer_ok es"
    and "\<forall>buf\<in>set bufs. \<forall>e\<in>set (oci_view layers). SizeOfDirent (length (fst e)) \<le> length buf"
    and "length (oci_view layers) \<le> length bufs"
  shows "\<exists>t. oci_list ops f bufs s = Some (map shown (oci_view layers), t)"
proof (cases bufs)
  case (Cons buf rest)
  let ?view = "oci_view layers"
  let ?k = "whole_entries (length buf) ?view"
  obtain n b t where t: "oci_ReadDirent ops f buf s = Some (Inr (n, b), t)" "listing_at ?view ?k f files t"
      "chunk ?view 0 buf n b"
    using oci_ReadDirent_first [OF assms(1-5)] by blast
  have plain: "plain_view ?view"
    using assms(3) by (intro view_plain [of "oci_base s" files]) (auto elim: list.rel_mono_strong)
  have parsed: "parse_dirents (take n b) = map shown (take ?k ?view)"
    using chunk_parse [OF plain t(3)] by simp
  have "0 < ?k" if "?view \<noteq> []"
    using assms(6) Cons that by (intro whole_entries_progress) auto
  then have "length ?view \<le> ?k + length rest"
    using assms(7) Cons by (cases "?view = []") fastforce+
  then obtain u where "oci_list ops f rest t = Some (map shown (drop ?k ?view), u)"
    using oci_list_rest [OF t(2) plain, of rest ops] assms(6) Cons by auto
  moreover have "map shown (take ?k ?view) @ map shown (drop ?k ?view) = map shown ?view"
    by (simp only: flip: map_append) (simp only: append_take_drop_id)
  ultimately show ?thesis
    using t(1) parsed Cons by simp
qed (use assms(7) in simp)

lemma oci_Stat_found:
  assumes "open_on f files s" "list_all2 (\<lambda>f es. entries f (oci_base s) = Some es) files layers"
    and "entry_name name"
  shows "\<exists>r. oci_Stat n ops f name AT_SYMLINK_NOFOLLOW s = Some (r, s)
    \<and> (case oci_found layers name of None \<Rightarrow> r = Inl ENOENT | Some mode \<Rightarrow> \<exists>info. r = Inr info \<and> fi_mode info = mode)"
proof -
  obtain r where r: "stat_layers ops name files (oci_base s) = Some (r, oci_base s)"
      "case oci_found layers name of None \<Rightarrow> r = Inl ENOENT | Some mode \<Rightarrow> \<exists>info. r = Inr info \<and> fi_mode info = mode"
    using stat_layers_found [OF assms(2,3)] by blast
  let ?act = "\<lambda>l s. on_base (stat_layers ops name (fl_files (oci_layers s ! l))) s"
  have "?act l (oci_ref (Some l) s) = Some (r, oci_ref (Some l) s)" if "of_layers (oci_files s ! f) = Some l" for l
  proof -
    have "fl_files (oci_layers s ! l) = files"
      using assms(1) that by (auto simp: open_on_def)
    then show ?thesis
      using r(1) by (simp add: on_base_def)
  qed
  from withLayers_open [OF assms(1), where act = ?act and r = r and ops = ops and t = "\<lambda>l. oci_ref (Some l) s", OF this]
  have "withLayers ops f ?act s = Some (r, s)"
    by (auto simp: oci_ref_def)
  moreover have "leaf_name name" "AT_SYMLINK_NOFOLLOW AND AT_SYMLINK_NOFOLLOW \<noteq> 0"
    using assms(3) by (simp_all add: leaf_name_def entry_component AT_SYMLINK_NOFOLLOW_def entry_name_def)
  ultimately have "oci_Stat n ops f name AT_SYMLINK_NOFOLLOW s = Some (r, s)"
    unfolding oci_Stat_def FileStat_path_def by (subst ResolvePath_leaf) (auto split: sum.split)
  then show ?thesis
    using r(2) by blast
qed

end

text \<open>Opening the root of the stack.\<close>

lemma oci_root_open:
  assumes "open_roots layers [] (oci_base s) = Some ((None, files), b)" "layers \<noteq> []"
  shows "\<exists>f t. oci_root ops layers s = Some (Inr f, t) \<and> open_on f files t \<and> of_dirbuf (oci_files t ! f) = None \<and> oci_base t = b"
  using assms by (simp add: oci_root_def on_base_def new_layers_def oci_newFile_def oci_ref_def open_on_def)

end
