(* ===== verification/Tar_Layers.thy ===== *)
theory Tar_Layers
  imports Ocifs_List
begin

text \<open>
  Archives as layers: the methods of the files of \<open>tarfs\<close> are an instance of the interface of a layer, and directories
  that fit the buffer of \<open>dirbuf\<close> keep the promises of \<open>layer_dirs\<close>. The state is the list of the handles that are
  open, each with the number of its archive.
\<close>

type_synonym tar_handles = "(nat \<times> tar_handle) list"

definition tar_file_Open :: "tarfs list \<Rightarrow> nat \<Rightarrow> string \<Rightarrow> int \<Rightarrow> int \<Rightarrow> tar_handles \<Rightarrow> (nat, tar_handles) file_call" where
  "tar_file_Open layers h name flags mode s =
     (case s ! h of
        (k, OpenDir d) \<Rightarrow>
          (case openDir_Open (layers ! k) d name flags mode of
             Inl e \<Rightarrow> Some (Inl e, s)
           | Inr g \<Rightarrow> Some (Inr (length s), s @ [(k, g)]))
      | (k, OpenFile f) \<Rightarrow> Some (Inl ENOTDIR, s))"

definition tar_file_Readlink :: "tarfs list \<Rightarrow> nat \<Rightarrow> string \<Rightarrow> nat \<Rightarrow> tar_handles \<Rightarrow> (string, tar_handles) file_call" where
  "tar_file_Readlink layers h name n s =
     (case s ! h of
        (k, OpenDir d) \<Rightarrow> Some (openDir_Readlink (layers ! k) d name n, s)
      | (k, OpenFile f) \<Rightarrow> Some (openFile_Readlink f name, s))"

definition tar_file_Close :: "nat \<Rightarrow> tar_handles \<Rightarrow> (unit \<times> tar_handles) option" where
  "tar_file_Close h s =
     (case s ! h of
        (k, OpenDir d) \<Rightarrow> Some ((), s[h := (k, OpenDir (openDir_Close d))])
      | (k, OpenFile f) \<Rightarrow> Some ((), s[h := (k, OpenFile None)]))"

definition tar_file_Stat :: "tarfs list \<Rightarrow> nat \<Rightarrow> string \<Rightarrow> int \<Rightarrow> tar_handles \<Rightarrow> (FileInfo, tar_handles) file_call" where
  "tar_file_Stat layers h name flags s =
     (case s ! h of
        (k, OpenDir d) \<Rightarrow> Some (openDir_Stat (layers ! k) d name flags, s)
      | (k, OpenFile f) \<Rightarrow> Some (openFile_Stat (layers ! k) f name, s))"

definition tar_file_ReadDirent :: "tarfs list \<Rightarrow> nat \<Rightarrow> bytes \<Rightarrow> tar_handles \<Rightarrow> (nat \<times> bytes, tar_handles) file_call" where
  "tar_file_ReadDirent layers h buf s =
     (case s ! h of
        (k, OpenDir d) \<Rightarrow>
          (case openDir_ReadDirent (layers ! k) d buf of (r, d) \<Rightarrow> Some (r, s[h := (k, OpenDir d)]))
      | (k, OpenFile f) \<Rightarrow> Some (Inl ENOTDIR, s))"

definition tar_ops :: "tarfs list \<Rightarrow> (nat, tar_handles) layer_ops" where
  "tar_ops layers =
     \<lparr>file_Open = tar_file_Open layers, file_Readlink = tar_file_Readlink layers, file_Close = tar_file_Close,
      layer_Stat = tar_file_Stat layers, layer_ReadDirent = tar_file_ReadDirent layers\<rparr>"

text \<open>The root of a layer: \<^verbatim>\<open>sandbox.OpenRoot\<close> of an archive.\<close>

definition tar_open_root :: "tarfs list \<Rightarrow> nat \<Rightarrow> tar_handles \<Rightarrow> (nat, tar_handles) file_call" where
  "tar_open_root layers k s =
     (case tarfs_FileSystem_Open (layers ! k) ''/'' O_DIRECTORY 0 of
        Inl e \<Rightarrow> Some (Inl e, s)
      | Inr g \<Rightarrow> Some (Inr (length s), s @ [(k, g)]))"

section \<open>The promises\<close>

text \<open>A directory whose listing fits the buffer, with plain names, in order.\<close>

definition listing_fits :: "tarfs \<Rightarrow> tar_dir \<Rightarrow> bool" where
  "listing_fits s dir \<longleftrightarrow> sorted (map fst (td_ents dir)) \<and> distinct (map fst (td_ents dir))
     \<and> (\<forall>e\<in>set (listing s dir). plain_name (fst e)) \<and> size_entries (listing s dir) \<le> 2 * PATH_MAX"

definition tar_entries :: "tarfs list \<Rightarrow> nat \<Rightarrow> tar_handles \<Rightarrow> (string \<times> int) list option" where
  "tar_entries layers h s =
     (if length s \<le> h then None
      else case s ! h of
        (k, OpenDir d) \<Rightarrow>
          (case od_dir d of
             None \<Rightarrow> None
           | Some f \<Rightarrow>
               (case fs_entries (layers ! k) ! f of
                  DirEntry dir \<Rightarrow>
                    if listing_fits (layers ! k) dir \<and> fits (Unsigned 64) (od_offset d) then Some (listing (layers ! k) dir) else None
                | _ \<Rightarrow> None))
      | _ \<Rightarrow> None)"

definition tar_listed :: "nat \<Rightarrow> tar_handles \<Rightarrow> nat" where
  "tar_listed h s = (case s ! h of (k, OpenDir d) \<Rightarrow> od_index d | _ \<Rightarrow> 0)"

text \<open>What \<^verbatim>\<open>Stat\<close> of a name in the directory answers, when it has the name.\<close>

definition tar_stat_info :: "tarfs list \<Rightarrow> nat \<Rightarrow> string \<Rightarrow> tar_handles \<Rightarrow> FileInfo" where
  "tar_stat_info layers h name s =
     (case s ! h of
        (k, OpenDir d) \<Rightarrow>
          (case fs_entries (layers ! k) ! the (od_dir d) of
             DirEntry dir \<Rightarrow> entry_stat (layers ! k) (fs_entries (layers ! k) ! the (map_of (td_ents dir) name))
           | _ \<Rightarrow> undefined)
      | _ \<Rightarrow> undefined)"

lemma tar_entriesE:
  assumes "tar_entries layers h s = Some es"
  obtains k d f dir where "h < length s" "s ! h = (k, OpenDir d)" "od_dir d = Some f" "fs_entries (layers ! k) ! f = DirEntry dir"
    "listing_fits (layers ! k) dir" "fits (Unsigned 64) (od_offset d)" "es = listing (layers ! k) dir"
  using assms unfolding tar_entries_def
  by (auto split: if_splits prod.splits tar_handle.splits option.splits file_entry.splits)

lemma fi_mode_entry_stat [simp]: "fi_mode (entry_stat s f) = entry_mode f"
  by (simp add: entry_stat_def tar_info_def entry_mode_def split: file_entry.split)

lemma map_of_listing:
  assumes "entry_name name"
  shows "map_of (listing s dir) name = map_option (\<lambda>f. entry_mode (fs_entries s ! f)) (map_of (td_ents dir) name)"
proof -
  have "map_of (map (\<lambda>(name, f). (name, entry_mode (fs_entries s ! f))) es) name
      = map_option (\<lambda>f. entry_mode (fs_entries s ! f)) (map_of es name)" for es
    by (induction es) auto
  then show ?thesis
    using assms by (simp add: listing_def entry_name_def)
qed

lemma tar_resolve_leaf:
  assumes "fs_entries s ! d = DirEntry dir" "sorted (map fst (td_ents dir))" "distinct (map fst (td_ents dir))" "entry_name name"
  shows "tar_resolve s d name O_NOFOLLOW act = (case map_of (td_ents dir) name of None \<Rightarrow> Inl ENOENT | Some f \<Rightarrow> act f)"
proof -
  have "component name" "name \<noteq> []" "name \<noteq> ''/''"
    using assms(4) by (auto simp: entry_name_def component_def)
  moreover have "O_NOFOLLOW AND O_DIRECTORY = 0" "O_NOFOLLOW AND O_NOFOLLOW \<noteq> 0"
    by (simp_all add: O_NOFOLLOW_def O_DIRECTORY_def)
  ultimately have "tar_resolve_loop (Suc n) s d name O_NOFOLLOW
      = (case map_of (td_ents dir) name of None \<Rightarrow> Inl ENOENT | Some f \<Rightarrow> Inr f)" for n
    using component_relative [of name] dir_find_entry [OF assms]
    by (simp split: option.split file_entry.split)
  then show ?thesis
    by (simp add: tar_resolve_def MaxFollowSymlink_def numeral_eq_Suc split: option.split)
qed

lemma openDir_ReadDirent_all:
  assumes "od_dir d = Some f" "fs_entries s ! f = DirEntry dir" "fits (Unsigned 64) (od_offset d)" "od_index d = 0"
    and "size_entries (listing s dir) \<le> length buf"
  shows "\<exists>buf' d'. openDir_ReadDirent s d buf = (Inr (size_entries (listing s dir), buf'), d') \<and> length buf' = length buf
    \<and> take (size_entries (listing s dir)) buf' = dirent_records (od_offset d) (listing s dir)
    \<and> od_dir d' = Some f \<and> od_index d' = length (listing s dir) \<and> fits (Unsigned 64) (od_offset d')"
proof -
  have "whole_entries m es = length es" if "size_entries es \<le> m" for m es
    using that by (induction m es rule: whole_entries.induct) auto
  then have "counted_entries (length buf) (listing s dir) = length (listing s dir)"
    using assms(5) counted_whole [of "length buf" "listing s dir"] by simp
  then show ?thesis
    using write_ents_result [OF assms(3), of 0 buf "listing s dir"] assms
    by (simp add: openDir_ReadDirent_def min_def go_copy_def del: wrap.simps)
qed

interpretation tar_layers: layer_dirs "tar_ops layers" "tar_entries layers" tar_listed "tar_stat_info layers" for layers
proof
  fix h s es and name :: string and mode :: int and buf :: bytes
  assume es: "tar_entries layers h s = Some es"
  then obtain k d f dir where h: "h < length s" "s ! h = (k, OpenDir d)" "od_dir d = Some f" "fs_entries (layers ! k) ! f = DirEntry dir"
      "listing_fits (layers ! k) dir" "fits (Unsigned 64) (od_offset d)" "es = listing (layers ! k) dir"
    by (rule tar_entriesE)
  show "plain_name name" if "(name, mode) \<in> set es"
    using h(5,7) that by (auto simp: listing_fits_def)
  show "size_entries es \<le> 2 * PATH_MAX"
    using h(5,7) by (simp add: listing_fits_def)
  have flags: "LookupFlags_OpenFlags AT_SYMLINK_NOFOLLOW = O_NOFOLLOW"
    by (simp add: LookupFlags_OpenFlags_def AT_SYMLINK_NOFOLLOW_def)
  show "layer_Stat (tar_ops layers) h name AT_SYMLINK_NOFOLLOW s =
      Some (case map_of es name of None \<Rightarrow> Inl ENOENT | Some mode \<Rightarrow> Inr (tar_stat_info layers h name s), s)" if "entry_name name"
    using h that unfolding listing_fits_def
    by (simp add: tar_ops_def tar_file_Stat_def openDir_Stat_def flags tar_resolve_leaf map_of_listing tar_stat_info_def split: option.split)
  show "fi_mode (tar_stat_info layers h name s) = mode" if "entry_name name" "map_of es name = Some mode"
    using h that by (auto simp: tar_stat_info_def map_of_listing)
  have other: "tar_entries layers g (s[h := (k, OpenDir d')]) = tar_entries layers g s
      \<and> (g \<noteq> h \<longrightarrow> tar_listed g (s[h := (k, OpenDir d')]) = tar_listed g s)"
    if "od_dir d' = Some f" "fits (Unsigned 64) (od_offset d')" for g d'
    using h that by (cases "g = h") (simp_all add: tar_entries_def tar_listed_def)
  show "\<exists>off buf' t. layer_ReadDirent (tar_ops layers) h buf s = Some (Inr (size_entries es, buf'), t) \<and> length buf' = length buf
      \<and> take (size_entries es) buf' = dirent_records off es \<and> tar_listed h t = length es
      \<and> (\<forall>g. tar_entries layers g t = tar_entries layers g s \<and> (g \<noteq> h \<longrightarrow> tar_listed g t = tar_listed g s))"
    if "tar_listed h s = 0" "length buf = 2 * PATH_MAX"
  proof -
    have "od_index d = 0" "size_entries (listing (layers ! k) dir) \<le> length buf"
      using h(2,5) that by (simp_all add: tar_listed_def listing_fits_def)
    then obtain buf' d' where d': "openDir_ReadDirent (layers ! k) d buf = (Inr (size_entries es, buf'), d')" "length buf' = length buf"
        "take (size_entries es) buf' = dirent_records (od_offset d) es" "od_dir d' = Some f" "od_index d' = length es"
        "fits (Unsigned 64) (od_offset d')"
      using openDir_ReadDirent_all [OF h(3,4,6)] h(7) by blast
    then have "layer_ReadDirent (tar_ops layers) h buf s = Some (Inr (size_entries es, buf'), s[h := (k, OpenDir d')])"
      using h(2) by (simp add: tar_ops_def tar_file_ReadDirent_def)
    moreover have "tar_listed h (s[h := (k, OpenDir d')]) = length es"
      using h(1) d'(5) by (simp add: tar_listed_def)
    ultimately show ?thesis
      using d'(2,3) other [OF d'(4,6)] by blast
  qed
  show "\<exists>buf' t. layer_ReadDirent (tar_ops layers) h buf s = Some (Inr (0, buf'), t) \<and> length buf' = length buf
      \<and> (\<forall>g. tar_entries layers g t = tar_entries layers g s \<and> tar_listed g t = tar_listed g s)"
    if "tar_listed h s = length es" "length buf = 2 * PATH_MAX"
  proof -
    have "od_index d = length (listing (layers ! k) dir)"
      using h(2,7) that by (simp add: tar_listed_def)
    then have "openDir_ReadDirent (layers ! k) d buf = (Inr (0, buf), d)"
      using h(3,4) by (simp add: openDir_ReadDirent_def)
    moreover have "s[h := (k, OpenDir d)] = s"
      using h(2) by (metis list_update_id)
    ultimately have "layer_ReadDirent (tar_ops layers) h buf s = Some (Inr (0, buf), s)"
      using h(2) by (simp add: tar_ops_def tar_file_ReadDirent_def)
    then show ?thesis
      by blast
  qed
qed

section \<open>The roots of archives\<close>

definition root_listing :: "tarfs \<Rightarrow> (string \<times> int) list" where
  "root_listing s = (case fs_entries s ! 0 of DirEntry dir \<Rightarrow> listing s dir | _ \<Rightarrow> [])"

definition listing_small :: "(string \<times> int) list \<Rightarrow> bool" where
  "listing_small es \<longleftrightarrow> (\<forall>e\<in>set es. plain_name (fst e)) \<and> size_entries es \<le> 2 * PATH_MAX"

lemma built_root_dir:
  assumes "built hs s"
  obtains dir where "fs_entries s ! 0 = DirEntry dir" "sorted (map fst (td_ents dir))" "distinct (map fst (td_ents dir))"
    "root_listing s = listing s dir"
proof -
  obtain dir where dir: "fs_entries s ! 0 = DirEntry dir"
    using built_root(2) [OF assms] by (rule is_dirE)
  moreover have "\<forall>p f. entry_path p \<longrightarrow> at s p = Some f \<longrightarrow> is_dir (fs_entries s ! f) \<longrightarrow>
      sorted (map fst (ents_of (fs_entries s ! f))) \<and> distinct (map fst (ents_of (fs_entries s ! f)))"
    using assms unfolding built_def by (elim conjE) simp
  then have "sorted (map fst (ents_of (fs_entries s ! 0))) \<and> distinct (map fst (ents_of (fs_entries s ! 0)))"
    using built_root [OF assms] by (elim allE [of _ "[]"] allE [of _ "0 :: nat"]) simp
  ultimately show thesis
    using that by (simp add: ents_of_def root_listing_def)
qed

text \<open>Opening the roots of archives appends their handles.\<close>

lemma tar_open_root_built:
  assumes "built hs (layers ! k)"
  shows "tar_open_root layers k s = Some (Inr (length s), s @ [(k, OpenDir \<lparr>od_dir = Some 0, od_index = 0, od_offset = 0\<rparr>)])"
proof -
  obtain dir where "fs_entries (layers ! k) ! 0 = DirEntry dir"
    by (rule built_root_dir [OF assms])
  moreover have "IsRoot ''/''"
    by code_simp
  ultimately show ?thesis
    by (simp add: tar_open_root_def tarfs_FileSystem_Open_def entry_open_def)
qed

lemma open_roots_built:
  assumes "\<forall>k\<in>set ks. \<exists>hs. built hs (layers ! k)"
  shows "open_roots (map (tar_open_root layers) ks) files s
    = Some ((None, files @ [length s..<length s + length ks]),
        s @ map (\<lambda>k. (k, OpenDir \<lparr>od_dir = Some 0, od_index = 0, od_offset = 0\<rparr>)) ks)"
  using assms
proof (induction ks arbitrary: files s)
  case (Cons k ks)
  then obtain hs where "built hs (layers ! k)"
    by auto
  moreover have "[length s..<length s + length (k # ks)] = length s # [Suc (length s)..<Suc (length s) + length ks]"
    by (subst upt_conv_Cons) simp_all
  ultimately show ?case
    using Cons by (simp add: tar_open_root_built del: upt_Suc)
qed simp

lemma tar_entries_root:
  assumes "built hs (layers ! k)" "listing_small (root_listing (layers ! k))" "h < length s"
    and "s ! h = (k, OpenDir \<lparr>od_dir = Some 0, od_index = 0, od_offset = 0\<rparr>)"
  shows "tar_entries layers h s = Some (root_listing (layers ! k))" "tar_listed h s = 0"
proof -
  obtain dir where "fs_entries (layers ! k) ! 0 = DirEntry dir" "sorted (map fst (td_ents dir))" "distinct (map fst (td_ents dir))"
    "root_listing (layers ! k) = listing (layers ! k) dir"
    by (rule built_root_dir [OF assms(1)])
  then show "tar_entries layers h s = Some (root_listing (layers ! k))" "tar_listed h s = 0"
    using assms(2-4) by (simp_all add: tar_entries_def tar_listed_def listing_fits_def listing_small_def fits_def)
qed

lemma oci_open_roots:
  assumes "layers \<noteq> []" "\<forall>s\<in>set layers. \<exists>hs. built hs s" "\<forall>s\<in>set layers. listing_small (root_listing s)"
  shows "\<exists>f t files. oci_FileSystem_Open n (tar_ops layers) (oci_New (map (tar_open_root layers) [0..<length layers])) ''/'' flags mode s
      = Some (Inr f, t) \<and> open_on f files t \<and> of_dirbuf (oci_files t ! f) = None \<and> distinct files
    \<and> list_all2 (\<lambda>h es. tar_entries layers h (oci_base t) = Some es \<and> tar_listed h (oci_base t) = 0) files
        (map root_listing (rev layers))"
proof -
  let ?ks = "rev [0..<length layers]" and ?b = "oci_base s"
  let ?files = "[length ?b..<length ?b + length layers]"
  let ?t = "?b @ map (\<lambda>k. (k, OpenDir \<lparr>od_dir = Some 0, od_index = 0, od_offset = 0\<rparr>)) ?ks"
  have opened: "open_roots (oci_New (map (tar_open_root layers) [0..<length layers])) [] ?b = Some ((None, ?files), ?t)"
    using open_roots_built [of ?ks layers "[]" ?b] assms(2) by (auto simp: oci_New_def rev_map)
  have "oci_New (map (tar_open_root layers) [0..<length layers]) \<noteq> []"
    using assms(1) by (simp add: oci_New_def)
  from oci_root_open [OF opened this, of "tar_ops layers"] obtain f t where t: "oci_root (tar_ops layers) (oci_New (map (tar_open_root layers) [0..<length layers])) s = Some (Inr f, t)"
      "open_on f ?files t" "of_dirbuf (oci_files t ! f) = None" "oci_base t = ?t"
    by blast
  have entries: "list_all2 (\<lambda>h es. tar_entries layers h ?t = Some es \<and> tar_listed h ?t = 0) ?files (map root_listing (rev layers))"
  proof (rule list_all2_all_nthI)
    fix i
    assume "i < length ?files"
    then have i: "i < length layers"
      by simp
    let ?k = "length layers - Suc i"
    have k: "?k < length layers" "?ks ! i = ?k" "rev layers ! i = layers ! ?k"
      using i by (simp_all add: rev_nth)
    then have "layers ! ?k \<in> set layers"
      by simp
    then obtain hs where "built hs (layers ! ?k)" "listing_small (root_listing (layers ! ?k))"
      using assms(2,3) by blast
    moreover have "?t ! (length ?b + i) = (?k, OpenDir \<lparr>od_dir = Some 0, od_index = 0, od_offset = 0\<rparr>)"
      using i k(2) by (simp add: nth_append)
    ultimately show "tar_entries layers (?files ! i) ?t = Some (map root_listing (rev layers) ! i) \<and> tar_listed (?files ! i) ?t = 0"
      using tar_entries_root [of hs layers ?k "length ?b + i" ?t] i k by simp
  qed simp
  have "IsRoot ''/''"
    by code_simp
  then show ?thesis
    using t entries by (intro exI [of _ f] exI [of _ t] exI [of _ ?files]) (simp add: oci_FileSystem_Open_def)
qed

section \<open>Two layers\<close>

definition lower_layer :: "tar_header list" where
  "lower_layer = [small_header ''bin/'' TypeDir, small_header ''etc/'' TypeDir, small_header ''old'' TypeReg]"

definition upper_layer :: "tar_header list" where
  "upper_layer = [small_header ''.wh.old'' TypeReg, small_header ''etc/'' TypeDir, small_header ''new'' TypeReg]"

text \<open>A layer with a file and the whiteout for a file of that name below.\<close>

definition replaced_layer :: "tar_header list" where
  "replaced_layer = [small_header ''.wh.old'' TypeReg, small_header ''old'' TypeReg]"

definition tar_of :: "tar_header list \<Rightarrow> tarfs" where
  "tar_of hs = (case tarfs_Open rev 0 hs None of Some (Inr s) \<Rightarrow> s | _ \<Rightarrow> tarfs_start 0)"

definition two_layers :: "tarfs list" where
  "two_layers = [tar_of lower_layer, tar_of upper_layer]"

definition oci_start :: "(nat, tar_handles) oci" where
  "oci_start = \<lparr>oci_layers = [], oci_files = [], oci_base = []\<rparr>"

lemma two_layers_archives: "\<forall>s\<in>set two_layers. \<exists>hs. archive_ok [] hs \<and> tarfs_Open rev 0 hs None = Some (Inr s)"
proof -
  have "tarfs_Open rev 0 lower_layer None = Some (Inr (tar_of lower_layer))"
      "tarfs_Open rev 0 upper_layer None = Some (Inr (tar_of upper_layer))" "archive_ok [] lower_layer" "archive_ok [] upper_layer"
    by code_simp+
  then show ?thesis
    by (auto simp: two_layers_def)
qed

lemma two_layers_listings:
  "root_listing (tar_of lower_layer)
    = [(''.'', ModeDir OR 493), (''..'', ModeDir OR 493), (''bin'', ModeDir OR 420), (''etc'', ModeDir OR 420), (''old'', 420)]"
  "root_listing (tar_of upper_layer)
    = [(''.'', ModeDir OR 493), (''..'', ModeDir OR 493), (''.wh.old'', 420), (''etc'', ModeDir OR 420), (''new'', 420)]"
  by code_simp+

lemma two_layers_small: "\<forall>s\<in>set two_layers. listing_small (root_listing s) \<and> layer_ok (root_listing s)"
proof -
  have "listing_small (root_listing (tar_of lower_layer))" "listing_small (root_listing (tar_of upper_layer))"
    unfolding two_layers_listings by (simp_all add: listing_small_def plain_name_def SizeOfDirent_def sizeOfDirent_def PATH_MAX_def)
  moreover have "layer_ok (root_listing (tar_of lower_layer))" "layer_ok (root_listing (tar_of upper_layer))"
    unfolding two_layers_listings by code_simp+
  ultimately show ?thesis
    by (simp add: two_layers_def)
qed

lemma two_layers_view: "oci_view (map root_listing (rev two_layers))
    = [(''.'', ModeDir OR 493), (''..'', ModeDir OR 493), (''etc'', ModeDir OR 420), (''new'', 420), (''bin'', ModeDir OR 420)]"
proof -
  have "map root_listing (rev two_layers) = [root_listing (tar_of upper_layer), root_listing (tar_of lower_layer)]"
    by (simp add: two_layers_def)
  then show ?thesis
    unfolding two_layers_listings by (simp only:) code_simp
qed

lemma two_layers_found:
  "oci_found (map root_listing (rev two_layers)) ''old'' = None"
  "oci_found (map root_listing (rev two_layers)) ''.wh.old'' = Some 420"
proof -
  have "map root_listing (rev two_layers) = [root_listing (tar_of upper_layer), root_listing (tar_of lower_layer)]"
    by (simp add: two_layers_def)
  then show "oci_found (map root_listing (rev two_layers)) ''old'' = None"
    "oci_found (map root_listing (rev two_layers)) ''.wh.old'' = Some 420"
    unfolding two_layers_listings by (simp only:; code_simp)+
qed

end
