(* ===== verification/Wasi_File.thy ===== *)
theory Wasi_File
  imports Dirent Tarfs Wasi
begin

text \<open>
  The files of guests (\<^verbatim>\<open>wasiFile\<close> in \<^verbatim>\<open>internal/sandbox/wasi.go\<close>): each method of the WASI interface as calls of the
  methods of a \<^verbatim>\<open>sandbox.File\<close>, with the flags, times, sizes and errors translated.
\<close>

section \<open>Constants of the package \<open>wasi-go\<close>\<close>

text \<open>
  \<open>WasiMakeErrno\<close> is \<^verbatim>\<open>wasi.MakeErrno\<close> of an error; of \<^verbatim>\<open>nil\<close> it is \<^verbatim>\<open>ESUCCESS\<close>. \<open>WasiHas\<close> is the method \<^verbatim>\<open>Has\<close> of
  the types of flags.
\<close>

record 'v wasi_fs = "'v wasi" +
  UnknownType :: int
  BlockDeviceType :: int
  CharacterDeviceType :: int
  DirectoryType :: int
  RegularFileType :: int
  SocketDGramType :: int
  SocketStreamType :: int
  SymbolicLinkType :: int
  WasiSizeOfDirent :: int
  WasiMakeErrno :: "sys_error \<Rightarrow> int"
  WasiHas :: "int \<Rightarrow> int \<Rightarrow> bool"
  WasiEBADF :: int
  WasiENOTSOCK :: int
  WasiEXDEV :: int
  FlagAppend :: int
  FlagDSync :: int
  FlagNonBlock :: int
  FlagRSync :: int
  FlagSync :: int
  FlagAccessTime :: int
  FlagAccessTimeNow :: int
  FlagModifyTime :: int
  FlagModifyTimeNow :: int
  FlagSymlinkFollow :: int
  FlagOpenCreate :: int
  FlagOpenDirectory :: int
  FlagOpenExclusive :: int
  FlagOpenTruncate :: int
  FDReadRight :: int
  FDWriteRight :: int
  DirectoryRights :: int

definition makeErrno :: "'v wasi_fs \<Rightarrow> sys_error option \<Rightarrow> int" where
  "makeErrno W err = (case err of None \<Rightarrow> ESUCCESS W | Some e \<Rightarrow> WasiMakeErrno W e)"

section \<open>Files of the sandbox\<close>

text \<open>
  The methods of \<^verbatim>\<open>sandbox.File\<close>, with both results of those that return two. A method that fills buffers returns them.
\<close>

type_synonym 's error_call = "'s \<Rightarrow> (sys_error option \<times> 's) option"
type_synonym ('a, 's) value_call = "'s \<Rightarrow> (('a \<times> sys_error option) \<times> 's) option"

type_synonym timespec = "int \<times> int"

record ('f, 's) sandbox_file =
  sf_Fd :: "'f \<Rightarrow> int"
  sf_Close :: "'f \<Rightarrow> 's error_call"
  sf_Open :: "'f \<Rightarrow> string \<Rightarrow> int \<Rightarrow> int \<Rightarrow> 's \<Rightarrow> ('f, 's) file_call"
  sf_Readv :: "'f \<Rightarrow> bytes list \<Rightarrow> (bytes list \<times> int, 's) value_call"
  sf_Writev :: "'f \<Rightarrow> bytes list \<Rightarrow> (int, 's) value_call"
  sf_Preadv :: "'f \<Rightarrow> bytes list \<Rightarrow> int \<Rightarrow> (bytes list \<times> int, 's) value_call"
  sf_Pwritev :: "'f \<Rightarrow> bytes list \<Rightarrow> int \<Rightarrow> (int, 's) value_call"
  sf_CopyRange :: "'f \<Rightarrow> int \<Rightarrow> 'f \<Rightarrow> int \<Rightarrow> int \<Rightarrow> (int, 's) value_call"
  sf_Seek :: "'f \<Rightarrow> int \<Rightarrow> int \<Rightarrow> (int, 's) value_call"
  sf_Allocate :: "'f \<Rightarrow> int \<Rightarrow> int \<Rightarrow> 's error_call"
  sf_Truncate :: "'f \<Rightarrow> int \<Rightarrow> 's error_call"
  sf_Sync :: "'f \<Rightarrow> 's error_call"
  sf_Datasync :: "'f \<Rightarrow> 's error_call"
  sf_Flags :: "'f \<Rightarrow> 's \<Rightarrow> (int, 's) file_call"
  sf_SetFlags :: "'f \<Rightarrow> int \<Rightarrow> 's error_call"
  sf_ReadDirent :: "'f \<Rightarrow> bytes \<Rightarrow> (bytes \<times> int, 's) value_call"
  sf_Stat :: "'f \<Rightarrow> string \<Rightarrow> int \<Rightarrow> (FileInfo, 's) value_call"
  sf_Readlink :: "'f \<Rightarrow> string \<Rightarrow> bytes \<Rightarrow> (bytes \<times> int, 's) value_call"
  sf_Chtimes :: "'f \<Rightarrow> string \<Rightarrow> timespec \<times> timespec \<Rightarrow> int \<Rightarrow> 's error_call"
  sf_Mkdir :: "'f \<Rightarrow> string \<Rightarrow> int \<Rightarrow> 's error_call"
  sf_Rmdir :: "'f \<Rightarrow> string \<Rightarrow> 's error_call"
  sf_Rename :: "'f \<Rightarrow> string \<Rightarrow> 'f \<Rightarrow> string \<Rightarrow> int \<Rightarrow> 's error_call"
  sf_Link :: "'f \<Rightarrow> string \<Rightarrow> 'f \<Rightarrow> string \<Rightarrow> int \<Rightarrow> 's error_call"
  sf_Symlink :: "'f \<Rightarrow> string \<Rightarrow> string \<Rightarrow> 's error_call"
  sf_Unlink :: "'f \<Rightarrow> string \<Rightarrow> 's error_call"

text \<open>The implementations of the interface \<^verbatim>\<open>anyFile\<close>: a \<^verbatim>\<open>wasiFile\<close>, or another one.\<close>

datatype 'f any_file = WasiFile 'f | OtherAnyFile

definition errno_of :: "'v wasi_fs \<Rightarrow> (sys_error option \<times> 's) option \<Rightarrow> (int \<times> 's) option" where
  "errno_of W = map_option (\<lambda>(err, s). (makeErrno W err, s))"

definition value_of :: "'v wasi_fs \<Rightarrow> ('a \<Rightarrow> 'b) \<Rightarrow> (('a \<times> sys_error option) \<times> 's) option \<Rightarrow> (('b \<times> int) \<times> 's) option" where
  "value_of W g = map_option (\<lambda>((a, err), s). ((g a, makeErrno W err), s))"

section \<open>Translations\<close>

definition UTIME_NOW :: int where "UTIME_NOW = 1073741823"
definition UTIME_OMIT :: int where "UTIME_OMIT = 1073741822"
definition O_RDONLY :: int where "O_RDONLY = 0"
definition O_EXCL :: int where "O_EXCL = 128"
definition O_TRUNC :: int where "O_TRUNC = 512"
definition O_NONBLOCK :: int where "O_NONBLOCK = 2048"
definition O_DSYNC :: int where "O_DSYNC = 4096"
definition O_SYNC :: int where "O_SYNC = 1052672"
definition O_RSYNC :: int where "O_RSYNC = 1052672"

definition makeTimespec :: "int \<Rightarrow> bool \<Rightarrow> bool \<Rightarrow> timespec" where
  "makeTimespec t is_set now =
     (if \<not> is_set then (0, UTIME_OMIT) else if now then (0, UTIME_NOW) else nsecToTimespec (wrap (Signed 64) t))"

definition fst_times :: "'v wasi_fs \<Rightarrow> int \<Rightarrow> int \<Rightarrow> int \<Rightarrow> timespec \<times> timespec" where
  "fst_times W accessTime modifyTime flags =
     (makeTimespec accessTime (WasiHas W flags (FlagAccessTime W)) (WasiHas W flags (FlagAccessTimeNow W)),
      makeTimespec modifyTime (WasiHas W flags (FlagModifyTime W)) (WasiHas W flags (FlagModifyTimeNow W)))"

definition makeLookupFlags :: "'v wasi_fs \<Rightarrow> int \<Rightarrow> int" where
  "makeLookupFlags W lookupFlags = (if \<not> WasiHas W lookupFlags (FlagSymlinkFollow W) then AT_SYMLINK_NOFOLLOW else 0)"

definition wasiFileType :: "'v wasi_fs \<Rightarrow> int \<Rightarrow> int" where
  "wasiFileType W mode =
     (let t = mode AND ModeType
      in if t = 0 then RegularFileType W
         else if t = ModeDevice then BlockDeviceType W
         else if t = ModeDevice OR ModeCharDevice then CharacterDeviceType W
         else if t = ModeDir then DirectoryType W
         else if t = ModeSymlink then SymbolicLinkType W
         else if t = ModeSocket then SocketStreamType W
         else UnknownType W)"

definition timespec_nano :: "timespec \<Rightarrow> int" where
  "timespec_nano t = wrap (Signed 64) (fst t * 1000000000 + snd t)"

definition wasiFileStat :: "'v wasi_fs \<Rightarrow> FileInfo \<Rightarrow> FileStat" where
  "wasiFileStat W info =
     \<lparr>FileStat_Device = wrap (shape W Device_t) (fi_dev info), FileStat_INode = wrap (shape W INode_t) (fi_ino info),
      FileStat_FileType = wasiFileType W (fi_mode info), FileStat_NLink = wrap (shape W LinkCount_t) (fi_nlink info),
      FileStat_Size = wrap (shape W FileSize_t) (fi_size info),
      FileStat_AccessTime = wrap (shape W Timestamp_t) (timespec_nano (fi_atime info)),
      FileStat_ModifyTime = wrap (shape W Timestamp_t) (timespec_nano (fi_mtime info)),
      FileStat_ChangeTime = wrap (shape W Timestamp_t) (timespec_nano (fi_ctime info))\<rparr>"

section \<open>Methods of a file\<close>

definition file_FDAdvise :: "'v wasi_fs \<Rightarrow> int" where
  "file_FDAdvise W = ESUCCESS W"

definition file_FDAllocate :: "'v wasi_fs \<Rightarrow> ('f, 's) sandbox_file \<Rightarrow> 'f \<Rightarrow> int \<Rightarrow> int \<Rightarrow> 's \<Rightarrow> (int \<times> 's) option" where
  "file_FDAllocate W F f offset len s = errno_of W (sf_Allocate F f (wrap (Signed 64) offset) (wrap (Signed 64) len) s)"

definition file_FDClose :: "'v wasi_fs \<Rightarrow> ('f, 's) sandbox_file \<Rightarrow> 'f \<Rightarrow> 's \<Rightarrow> (int \<times> 's) option" where
  "file_FDClose W F f s = errno_of W (sf_Close F f s)"

definition file_FDDataSync :: "'v wasi_fs \<Rightarrow> ('f, 's) sandbox_file \<Rightarrow> 'f \<Rightarrow> 's \<Rightarrow> (int \<times> 's) option" where
  "file_FDDataSync W F f s = errno_of W (sf_Datasync F f s)"

definition file_FDSync :: "'v wasi_fs \<Rightarrow> ('f, 's) sandbox_file \<Rightarrow> 'f \<Rightarrow> 's \<Rightarrow> (int \<times> 's) option" where
  "file_FDSync W F f s = errno_of W (sf_Sync F f s)"

definition file_FDFileStatGet :: "'v wasi_fs \<Rightarrow> ('f, 's) sandbox_file \<Rightarrow> 'f \<Rightarrow> 's \<Rightarrow> ((FileStat \<times> int) \<times> 's) option" where
  "file_FDFileStatGet W F f s = value_of W (wasiFileStat W) (sf_Stat F f [] 0 s)"

definition file_FDStatSetFlags :: "'v wasi_fs \<Rightarrow> ('f, 's) sandbox_file \<Rightarrow> 'f \<Rightarrow> int \<Rightarrow> 's \<Rightarrow> (int \<times> 's) option" where
  "file_FDStatSetFlags W F f flags s =
     on_call (sf_Flags F f s) (\<lambda>r s. case r of
         Inl e \<Rightarrow> Some (WasiMakeErrno W e, s)
       | Inr sysFlags \<Rightarrow>
           let sysFlags = (if WasiHas W flags (FlagAppend W) then sysFlags OR O_APPEND else sysFlags AND NOT O_APPEND);
               sysFlags = (if WasiHas W flags (FlagNonBlock W) then sysFlags OR O_NONBLOCK else sysFlags AND NOT O_NONBLOCK)
           in errno_of W (sf_SetFlags F f sysFlags s))"

definition file_FDFileStatSetSize :: "'v wasi_fs \<Rightarrow> ('f, 's) sandbox_file \<Rightarrow> 'f \<Rightarrow> int \<Rightarrow> 's \<Rightarrow> (int \<times> 's) option" where
  "file_FDFileStatSetSize W F f sz s = errno_of W (sf_Truncate F f (wrap (Signed 64) sz) s)"

definition file_FDFileStatSetTimes ::
  "'v wasi_fs \<Rightarrow> ('f, 's) sandbox_file \<Rightarrow> 'f \<Rightarrow> int \<Rightarrow> int \<Rightarrow> int \<Rightarrow> 's \<Rightarrow> (int \<times> 's) option"
where
  "file_FDFileStatSetTimes W F f accessTime modifyTime flags s =
     errno_of W (sf_Chtimes F f [] (fst_times W accessTime modifyTime flags) 0 s)"

definition file_FDRead ::
  "'v wasi_fs \<Rightarrow> ('f, 's) sandbox_file \<Rightarrow> 'f \<Rightarrow> bytes list \<Rightarrow> 's \<Rightarrow> (((bytes list \<times> int) \<times> int) \<times> 's) option"
where
  "file_FDRead W F f iovs s = value_of W (apsnd (wrap (shape W Size_t))) (sf_Readv F f iovs s)"

definition file_FDPread ::
  "'v wasi_fs \<Rightarrow> ('f, 's) sandbox_file \<Rightarrow> 'f \<Rightarrow> bytes list \<Rightarrow> int \<Rightarrow> 's \<Rightarrow> (((bytes list \<times> int) \<times> int) \<times> 's) option"
where
  "file_FDPread W F f iovs offset s =
     value_of W (apsnd (wrap (shape W Size_t))) (sf_Preadv F f iovs (wrap (Signed 64) offset) s)"

definition file_FDWrite ::
  "'v wasi_fs \<Rightarrow> ('f, 's) sandbox_file \<Rightarrow> 'f \<Rightarrow> bytes list \<Rightarrow> 's \<Rightarrow> ((int \<times> int) \<times> 's) option"
where
  "file_FDWrite W F f iovs s = value_of W (wrap (shape W Size_t)) (sf_Writev F f iovs s)"

definition file_FDPwrite ::
  "'v wasi_fs \<Rightarrow> ('f, 's) sandbox_file \<Rightarrow> 'f \<Rightarrow> bytes list \<Rightarrow> int \<Rightarrow> 's \<Rightarrow> ((int \<times> int) \<times> 's) option"
where
  "file_FDPwrite W F f iovs offset s = value_of W (wrap (shape W Size_t)) (sf_Pwritev F f iovs (wrap (Signed 64) offset) s)"

definition file_FDSeek ::
  "'v wasi_fs \<Rightarrow> ('f, 's) sandbox_file \<Rightarrow> 'f \<Rightarrow> int \<Rightarrow> int \<Rightarrow> 's \<Rightarrow> ((int \<times> int) \<times> 's) option"
where
  "file_FDSeek W F f delta whence s =
     value_of W (wrap (shape W FileSize_t)) (sf_Seek F f (wrap (Signed 64) delta) whence s)"

section \<open>Methods on paths\<close>

definition file_PathCreateDirectory :: "'v wasi_fs \<Rightarrow> ('f, 's) sandbox_file \<Rightarrow> 'f \<Rightarrow> string \<Rightarrow> 's \<Rightarrow> (int \<times> 's) option" where
  "file_PathCreateDirectory W F f path s = errno_of W (sf_Mkdir F f path 511 s)"

definition file_PathFileStatGet ::
  "'v wasi_fs \<Rightarrow> ('f, 's) sandbox_file \<Rightarrow> 'f \<Rightarrow> int \<Rightarrow> string \<Rightarrow> 's \<Rightarrow> ((FileStat \<times> int) \<times> 's) option"
where
  "file_PathFileStatGet W F f flags path s = value_of W (wasiFileStat W) (sf_Stat F f path (makeLookupFlags W flags) s)"

definition file_PathFileStatSetTimes ::
  "'v wasi_fs \<Rightarrow> ('f, 's) sandbox_file \<Rightarrow> 'f \<Rightarrow> int \<Rightarrow> string \<Rightarrow> int \<Rightarrow> int \<Rightarrow> int \<Rightarrow> 's \<Rightarrow> (int \<times> 's) option"
where
  "file_PathFileStatSetTimes W F f lookupFlags path accessTime modifyTime fstFlags s =
     errno_of W (sf_Chtimes F f path (fst_times W accessTime modifyTime fstFlags) (makeLookupFlags W lookupFlags) s)"

definition file_PathLink ::
  "'v wasi_fs \<Rightarrow> ('f, 's) sandbox_file \<Rightarrow> 'f \<Rightarrow> int \<Rightarrow> string \<Rightarrow> 'f any_file \<Rightarrow> string \<Rightarrow> 's \<Rightarrow> (int \<times> 's) option"
where
  "file_PathLink W F f lookupFlags oldPath newDir newPath s =
     (case newDir of
        OtherAnyFile \<Rightarrow> Some (WasiEXDEV W, s)
      | WasiFile d \<Rightarrow> errno_of W (sf_Link F f oldPath d newPath (makeLookupFlags W lookupFlags) s))"

definition file_PathRename ::
  "'v wasi_fs \<Rightarrow> ('f, 's) sandbox_file \<Rightarrow> 'f \<Rightarrow> string \<Rightarrow> 'f any_file \<Rightarrow> string \<Rightarrow> 's \<Rightarrow> (int \<times> 's) option"
where
  "file_PathRename W F f oldPath newDir newPath s =
     (case newDir of
        OtherAnyFile \<Rightarrow> Some (WasiEXDEV W, s)
      | WasiFile d \<Rightarrow> errno_of W (sf_Rename F f oldPath d newPath 0 s))"

definition file_PathReadLink ::
  "'v wasi_fs \<Rightarrow> ('f, 's) sandbox_file \<Rightarrow> 'f \<Rightarrow> string \<Rightarrow> bytes \<Rightarrow> 's \<Rightarrow> (((bytes \<times> int) \<times> int) \<times> 's) option"
where
  "file_PathReadLink W F f path buf s = value_of W id (sf_Readlink F f path buf s)"

definition file_PathRemoveDirectory :: "'v wasi_fs \<Rightarrow> ('f, 's) sandbox_file \<Rightarrow> 'f \<Rightarrow> string \<Rightarrow> 's \<Rightarrow> (int \<times> 's) option" where
  "file_PathRemoveDirectory W F f path s = errno_of W (sf_Rmdir F f path s)"

definition file_PathSymlink :: "'v wasi_fs \<Rightarrow> ('f, 's) sandbox_file \<Rightarrow> 'f \<Rightarrow> string \<Rightarrow> string \<Rightarrow> 's \<Rightarrow> (int \<times> 's) option" where
  "file_PathSymlink W F f oldPath newPath s = errno_of W (sf_Symlink F f oldPath newPath s)"

definition file_PathUnlinkFile :: "'v wasi_fs \<Rightarrow> ('f, 's) sandbox_file \<Rightarrow> 'f \<Rightarrow> string \<Rightarrow> 's \<Rightarrow> (int \<times> 's) option" where
  "file_PathUnlinkFile W F f path s = errno_of W (sf_Unlink F f path s)"

text \<open>The flags and the mode that \<^verbatim>\<open>PathOpen\<close> opens with.\<close>

definition access_flags :: "'v wasi_fs \<Rightarrow> int \<Rightarrow> int \<Rightarrow> int" where
  "access_flags W openFlags rights =
     (if WasiHas W openFlags (FlagOpenDirectory W) then O_RDONLY
      else if WasiHas W rights (FDReadRight W) \<and> WasiHas W rights (FDWriteRight W) then O_RDWR
      else if WasiHas W rights (FDReadRight W) then O_RDONLY
      else if WasiHas W rights (FDWriteRight W) then O_WRONLY
      else O_RDONLY)"

definition open_flags :: "'v wasi_fs \<Rightarrow> int \<Rightarrow> int \<Rightarrow> int \<Rightarrow> int \<Rightarrow> int" where
  "open_flags W lookupFlags openFlags rightsBase fdFlags =
     (let add = (\<lambda>b flag flags. if b then flags OR flag else flags);
          directory = WasiHas W openFlags (FlagOpenDirectory W);
          rights = (if directory then rightsBase AND DirectoryRights W else rightsBase);
          flags = add directory O_DIRECTORY 0;
          flags = add (WasiHas W openFlags (FlagOpenCreate W)) O_CREAT flags;
          flags = add (WasiHas W openFlags (FlagOpenExclusive W)) O_EXCL flags;
          flags = add (WasiHas W openFlags (FlagOpenTruncate W)) O_TRUNC flags;
          flags = add (WasiHas W fdFlags (FlagAppend W)) O_APPEND flags;
          flags = add (WasiHas W fdFlags (FlagDSync W)) O_DSYNC flags;
          flags = add (WasiHas W fdFlags (FlagSync W)) O_SYNC flags;
          flags = add (WasiHas W fdFlags (FlagRSync W)) O_RSYNC flags;
          flags = add (WasiHas W fdFlags (FlagNonBlock W)) O_NONBLOCK flags;
          flags = add (\<not> WasiHas W lookupFlags (FlagSymlinkFollow W)) O_NOFOLLOW flags
      in flags OR access_flags W openFlags rights)"

definition file_PathOpen ::
  "'v wasi_fs \<Rightarrow> ('f, 's) sandbox_file \<Rightarrow> 'f \<Rightarrow> int \<Rightarrow> string \<Rightarrow> int \<Rightarrow> int \<Rightarrow> int \<Rightarrow> int \<Rightarrow> 's
   \<Rightarrow> (('f any_file option \<times> int) \<times> 's) option"
where
  "file_PathOpen W F f lookupFlags path openFlags rightsBase rightsInheriting fdFlags s =
     (let flags = open_flags W lookupFlags openFlags rightsBase fdFlags;
          mode = (if flags AND O_DIRECTORY \<noteq> 0 then 0 else 420)
      in on_call (sf_Open F f path flags mode s) (\<lambda>r s. case r of
           Inl e \<Rightarrow> Some ((None, WasiMakeErrno W e), s)
         | Inr f2 \<Rightarrow> Some ((Some (WasiFile f2), ESUCCESS W), s)))"

section \<open>What a guest can rely on\<close>

text \<open>A file is opened for writing only with the right to write, and a link at the end is followed only when asked for.\<close>

lemma bit_or_if: "bit (if b then x OR y else x) n \<longleftrightarrow> bit x n \<or> b \<and> bit y n" for x y :: int
  by (simp add: bit_or_iff)

lemma bit_open_flags:
  "bit (open_flags W lookupFlags openFlags rightsBase fdFlags) n \<longleftrightarrow>
     WasiHas W openFlags (FlagOpenDirectory W) \<and> bit O_DIRECTORY n
   \<or> WasiHas W openFlags (FlagOpenCreate W) \<and> bit O_CREAT n
   \<or> WasiHas W openFlags (FlagOpenExclusive W) \<and> bit O_EXCL n
   \<or> WasiHas W openFlags (FlagOpenTruncate W) \<and> bit O_TRUNC n
   \<or> WasiHas W fdFlags (FlagAppend W) \<and> bit O_APPEND n
   \<or> WasiHas W fdFlags (FlagDSync W) \<and> bit O_DSYNC n
   \<or> WasiHas W fdFlags (FlagSync W) \<and> bit O_SYNC n
   \<or> WasiHas W fdFlags (FlagRSync W) \<and> bit O_RSYNC n
   \<or> WasiHas W fdFlags (FlagNonBlock W) \<and> bit O_NONBLOCK n
   \<or> \<not> WasiHas W lookupFlags (FlagSymlinkFollow W) \<and> bit O_NOFOLLOW n
   \<or> bit (access_flags W openFlags
       (if WasiHas W openFlags (FlagOpenDirectory W) then rightsBase AND DirectoryRights W else rightsBase)) n"
  unfolding open_flags_def Let_def bit_or_if bit_or_iff by (simp only: bit_0_eq bot_apply bot_bool_def disj_assoc simp_thms)

lemma open_flags_write:
  assumes "bit (open_flags W lookupFlags openFlags rightsBase fdFlags) 0 \<or> bit (open_flags W lookupFlags openFlags rightsBase fdFlags) 1"
  shows "WasiHas W rightsBase (FDWriteRight W) \<and> \<not> WasiHas W openFlags (FlagOpenDirectory W)"
proof -
  have other: "\<not> bit x n" if "n < 2"
    "x \<in> {O_DIRECTORY, O_CREAT, O_EXCL, O_TRUNC, O_APPEND, O_DSYNC, O_SYNC, O_RSYNC, O_NONBLOCK, O_NOFOLLOW, O_RDONLY}" for x n
    using that by (auto simp: O_DIRECTORY_def O_CREAT_def O_EXCL_def O_TRUNC_def O_APPEND_def O_DSYNC_def O_SYNC_def O_RSYNC_def
        O_NONBLOCK_def O_NOFOLLOW_def O_RDONLY_def less_2_cases_iff)
  show ?thesis
    using assms unfolding bit_open_flags by (simp add: other access_flags_def split: if_splits)
qed

lemma open_flags_nofollow:
  assumes "\<not> WasiHas W lookupFlags (FlagSymlinkFollow W)"
  shows "open_flags W lookupFlags openFlags rightsBase fdFlags AND O_NOFOLLOW \<noteq> 0"
proof
  have "bit O_NOFOLLOW 17"
    by (simp add: O_NOFOLLOW_def)
  moreover assume "open_flags W lookupFlags openFlags rightsBase fdFlags AND O_NOFOLLOW = 0"
  then have "\<not> bit (open_flags W lookupFlags openFlags rightsBase fdFlags AND O_NOFOLLOW) 17"
    by simp
  ultimately show False
    using assms by (simp add: bit_open_flags bit_and_iff)
qed

end
