(* ===== verification/Wasi_Dir.thy ===== *)
theory Wasi_Dir
  imports Tar_Layers Wasi_File
begin

text \<open>
  Directories as a guest reads them (\<^verbatim>\<open>wasiDir\<close> in \<^verbatim>\<open>internal/sandbox/wasi.go\<close>): \<^verbatim>\<open>FDReadDir\<close> takes the records of a
  file out of a buffer, from a cookie on, into the entries of the guest. Its names are slices of the buffer, which is not
  filled again while entries are returned that point into it; the model keeps the bytes.
\<close>

section \<open>Types of entries\<close>

definition dirent_filetype :: "'v wasi_fs \<Rightarrow> byte \<Rightarrow> int" where
  "dirent_filetype W t =
     (if t = DT_BLK then BlockDeviceType W
      else if t = DT_CHR then CharacterDeviceType W
      else if t = DT_DIR then DirectoryType W
      else if t = DT_LNK then SymbolicLinkType W
      else if t = DT_REG then RegularFileType W
      else if t = DT_SOCK then SocketStreamType W
      else UnknownType W)"

text \<open>The type of an entry is that of the file.\<close>

lemma dirent_filetype_mode: "dirent_filetype W (dirent_type mode) = wasiFileType W mode"
proof -
  define t where "t = mode AND ModeType"
  have types: "DT_REG \<notin> {DT_BLK, DT_CHR, DT_DIR, DT_LNK}" "DT_CHR \<noteq> DT_BLK" "DT_DIR \<notin> {DT_BLK, DT_CHR}" "DT_LNK \<notin> {DT_BLK, DT_CHR, DT_DIR}"
      "DT_SOCK \<notin> {DT_BLK, DT_CHR, DT_DIR, DT_LNK, DT_REG}" "DT_FIFO \<notin> {DT_BLK, DT_CHR, DT_DIR, DT_LNK, DT_REG, DT_SOCK}"
      "DT_UNKNOWN \<notin> {DT_BLK, DT_CHR, DT_DIR, DT_LNK, DT_REG, DT_SOCK}"
      and pipe: "ModeNamedPipe \<notin> {0, ModeDevice, ModeDevice OR ModeCharDevice, ModeDir, ModeSymlink, ModeSocket}"
    by code_simp+
  consider "t = 0" | "t \<noteq> 0" "t = ModeDevice" | "t \<notin> {0, ModeDevice}" "t = ModeDevice OR ModeCharDevice"
    | "t \<notin> {0, ModeDevice, ModeDevice OR ModeCharDevice}" "t = ModeDir" | "t = ModeNamedPipe"
    | "t \<notin> {0, ModeDevice, ModeDevice OR ModeCharDevice, ModeDir, ModeNamedPipe}" "t = ModeSymlink"
    | "t \<notin> {0, ModeDevice, ModeDevice OR ModeCharDevice, ModeDir, ModeNamedPipe, ModeSymlink}" "t = ModeSocket"
    | "t \<notin> {0, ModeDevice, ModeDevice OR ModeCharDevice, ModeDir, ModeNamedPipe, ModeSymlink, ModeSocket}"
    by blast
  then have "dirent_filetype W (dirent_type mode) = (if t = 0 then RegularFileType W
      else if t = ModeDevice then BlockDeviceType W
      else if t = ModeDevice OR ModeCharDevice then CharacterDeviceType W
      else if t = ModeDir then DirectoryType W
      else if t = ModeSymlink then SymbolicLinkType W
      else if t = ModeSocket then SocketStreamType W
      else UnknownType W)"
    unfolding dirent_type_def Let_def t_def [symmetric] dirent_filetype_def by cases (use types pipe in simp_all)
  then show ?thesis
    by (simp add: wasiFileType_def Let_def t_def)
qed

section \<open>Reading\<close>

text \<open>The methods of \<^verbatim>\<open>sandbox.File\<close> that a directory calls.\<close>

record ('f, 's) dir_ops =
  dir_Seek :: "'f \<Rightarrow> int \<Rightarrow> int \<Rightarrow> 's \<Rightarrow> (int, 's) file_call"
  dir_ReadDirent :: "'f \<Rightarrow> bytes \<Rightarrow> 's \<Rightarrow> (nat \<times> bytes, 's) file_call"

text \<open>\<open>wd_file\<close> is false once the directory is closed; the buffer is allocated by the first call.\<close>

record wasi_dir =
  wd_file :: bool
  wd_buffer :: bytes
  wd_offset :: nat
  wd_length :: nat
  wd_cookie :: int

definition dirbufsize :: nat where "dirbufsize = 2 * PATH_MAX"

definition wasi_dir_new :: wasi_dir where
  "wasi_dir_new = \<lparr>wd_file = True, wd_buffer = [], wd_offset = 0, wd_length = 0, wd_cookie = 0\<rparr>"

definition SEEK_SET :: int where "SEEK_SET = 0"

definition FDOpenDir ::
  "'v wasi_fs \<Rightarrow> ('f, 's, 'z) dir_ops_scheme \<Rightarrow> 'f \<Rightarrow> 's \<Rightarrow> ((wasi_dir option \<times> int) \<times> 's) option"
where
  "FDOpenDir W ops f s =
     on_call (dir_Seek ops f 0 SEEK_SET s) (\<lambda>r s. case r of
         Inl e \<Rightarrow> Some ((None, WasiMakeErrno W e), s)
       | Inr _ \<Rightarrow> Some ((Some wasi_dir_new, ESUCCESS W), s))"

definition FDCloseDir :: "wasi_dir \<Rightarrow> wasi_dir" where
  "FDCloseDir d = d\<lparr>wd_file := False\<rparr>"

text \<open>Filling the buffer: the error code to return, or the directory to go on with.\<close>

definition readdir_fill ::
  "'v wasi_fs \<Rightarrow> ('f, 's, 'z) dir_ops_scheme \<Rightarrow> 'f \<Rightarrow> wasi_dir \<Rightarrow> DirEntry list \<Rightarrow> 's \<Rightarrow> ((int option \<times> wasi_dir) \<times> 's) option"
where
  "readdir_fill W ops f d out s =
     (if wd_length d - wd_offset d < sizeOfDirent then
        if out \<noteq> [] then Some ((Some (ESUCCESS W), d), s)
        else on_call (dir_ReadDirent ops f (wd_buffer d) s) (\<lambda>r s. case r of
            Inl e \<Rightarrow> Some ((Some (WasiMakeErrno W e), d), s)
          | Inr (n, buf) \<Rightarrow>
              if n = 0 then Some ((Some (ESUCCESS W), d\<lparr>wd_buffer := buf\<rparr>), s)
              else Some ((None, d\<lparr>wd_buffer := buf, wd_offset := 0, wd_length := n\<rparr>), s))
      else Some ((None, d), s))"

text \<open>
  The record at the offset. The answer is whether to return, with the entries, the directory and the room that is left;
  \<open>None\<close> is the panic of a slice of the buffer.
\<close>

definition readdir_record ::
  "'v wasi_fs \<Rightarrow> int \<Rightarrow> int \<Rightarrow> wasi_dir \<Rightarrow> DirEntry list \<Rightarrow> (bool \<times> DirEntry list \<times> wasi_dir \<times> int) option"
where
  "readdir_record W cookie room d out =
     (let b = drop (wd_offset d) (wd_buffer d);
          reclen = unat (of_le16 (drop 16 b));
          onward = d\<lparr>wd_offset := wd_offset d + reclen, wd_cookie := wrap (Unsigned 64) (wd_cookie d + 1)\<rparr>
      in if wd_offset d + reclen > wd_length d then Some (False, out, d\<lparr>wd_offset := wd_length d\<rparr>, room)
         else if wd_cookie d < cookie then Some (False, out, onward, room)
         else if reclen < sizeOfDirent then None
         else let name = takeWhile (\<lambda>x. x \<noteq> 0) (take (reclen - sizeOfDirent) (drop sizeOfDirent b));
                  entry = \<lparr>DirEntry_Next = wrap (Unsigned 64) (wd_cookie d + 1), DirEntry_INode = uint (of_le64 b),
                    DirEntry_Type = dirent_filetype W (b ! 18), DirEntry_Name = name\<rparr>;
                  room = room - WasiSizeOfDirent W - int (length name)
              in if room \<le> 0 then Some (True, out @ [entry], d, room) else Some (False, out @ [entry], onward, room))"

text \<open>The loop fills at most \<open>k\<close> entries.\<close>

partial_function (option) readdir_loop ::
  "'v wasi_fs \<Rightarrow> ('f, 's, 'z) dir_ops_scheme \<Rightarrow> 'f \<Rightarrow> nat \<Rightarrow> int \<Rightarrow> int \<Rightarrow> wasi_dir \<Rightarrow> DirEntry list \<Rightarrow> 's
   \<Rightarrow> ((DirEntry list \<times> int \<times> wasi_dir) \<times> 's) option"
where
  "readdir_loop W ops f k cookie room d out s =
     (if length out = k then Some ((out, ESUCCESS W, d), s)
      else on_call (readdir_fill W ops f d out s) (\<lambda>(errno, d) s. case errno of
          Some e \<Rightarrow> Some ((out, e, d), s)
        | None \<Rightarrow>
            (case readdir_record W cookie room d out of
               None \<Rightarrow> None
             | Some (stop, out, d, room) \<Rightarrow>
                 if stop then Some ((out, ESUCCESS W, d), s) else readdir_loop W ops f k cookie room d out s)))"

declare readdir_loop.simps [code]

definition FDReadDir_dir ::
  "'v wasi_fs \<Rightarrow> ('f, 's, 'z) dir_ops_scheme \<Rightarrow> 'f \<Rightarrow> nat \<Rightarrow> int \<Rightarrow> int \<Rightarrow> wasi_dir \<Rightarrow> 's
   \<Rightarrow> ((DirEntry list \<times> int \<times> wasi_dir) \<times> 's) option"
where
  "FDReadDir_dir W ops f k cookie room d s =
     (if \<not> wd_file d then Some (([], ESUCCESS W, d), s)
      else let d = (if wd_buffer d = [] then d\<lparr>wd_buffer := replicate dirbufsize 0\<rparr> else d)
           in if cookie < wd_cookie d
              then on_call (dir_Seek ops f 0 SEEK_SET s) (\<lambda>r s. case r of
                  Inl e \<Rightarrow> Some (([], WasiMakeErrno W e, d), s)
                | Inr _ \<Rightarrow> readdir_loop W ops f k cookie room (d\<lparr>wd_offset := 0, wd_length := 0, wd_cookie := 0\<rparr>) [] s)
              else readdir_loop W ops f k cookie room d [] s)"

section \<open>A guest\<close>

text \<open>
  A guest that lists a directory: it asks for \<open>k\<close> entries at a time with a buffer for \<open>room\<close> bytes of them, from the
  cookie of the last entry on, until there are none; \<open>m\<close> bounds its calls.
\<close>

fun guest_list ::
  "nat \<Rightarrow> 'v wasi_fs \<Rightarrow> ('f, 's, 'z) dir_ops_scheme \<Rightarrow> 'f \<Rightarrow> nat \<Rightarrow> int \<Rightarrow> int \<Rightarrow> wasi_dir \<Rightarrow> 's
   \<Rightarrow> ((DirEntry list \<times> wasi_dir) \<times> 's) option"
where
  "guest_list 0 W ops f k room cookie d s = None"
| "guest_list (Suc m) W ops f k room cookie d s =
     on_call (FDReadDir_dir W ops f k cookie room d s) (\<lambda>(out, errno, d) s.
       if errno \<noteq> ESUCCESS W then None
       else if out = [] then Some (([], d), s)
       else on_call (guest_list m W ops f k room (DirEntry_Next (last out)) d s) (\<lambda>(rest, d) s. Some ((out @ rest, d), s)))"

text \<open>All of a directory, from opening it on.\<close>

definition guest_list_dir ::
  "nat \<Rightarrow> 'v wasi_fs \<Rightarrow> ('f, 's, 'z) dir_ops_scheme \<Rightarrow> 'f \<Rightarrow> nat \<Rightarrow> int \<Rightarrow> 's \<Rightarrow> ((DirEntry list \<times> wasi_dir) \<times> 's) option"
where
  "guest_list_dir m W ops f k room s =
     on_call (FDOpenDir W ops f s) (\<lambda>(d, errno) s. case d of
         None \<Rightarrow> None
       | Some d \<Rightarrow> guest_list m W ops f k room 0 d s)"

end
