(* ===== verification/Guest_List.thy ===== *)
theory Guest_List
  imports Wasi_Dir
begin

text \<open>
  A guest that pages through a directory sees every entry once. The locale \<open>dir_reader\<close> is what \<open>FDReadDir\<close> needs
  of a file: calls of \<open>ReadDirent\<close> write the records of a view, from the entry on that the file is at, and an entry
  that is cut comes again.
\<close>

definition guest_entry :: "'v wasi_fs \<Rightarrow> (string \<times> int) list \<Rightarrow> nat \<Rightarrow> DirEntry" where
  "guest_entry W view k =
     \<lparr>DirEntry_Next = int (k + 1), DirEntry_INode = 0, DirEntry_Type = wasiFileType W (snd (view ! k)),
      DirEntry_Name = string_bytes (fst (view ! k))\<rparr>"

lemma dirent_type_idem: "dirent_type (dirent_mode (dirent_type t)) = dirent_type t"
proof -
  have "dirent_type t \<in> {DT_REG, DT_BLK, DT_CHR, DT_DIR, DT_FIFO, DT_LNK, DT_SOCK, DT_UNKNOWN}"
    by (simp add: dirent_type_def Let_def)
  moreover have "\<forall>b\<in>{DT_REG, DT_BLK, DT_CHR, DT_DIR, DT_FIFO, DT_LNK, DT_SOCK, DT_UNKNOWN}. dirent_type (dirent_mode b) = b"
    by code_simp
  ultimately show ?thesis
    by blast
qed

section \<open>The record at the offset\<close>

lemma readdir_record_cut:
  assumes "drop (wd_offset d) (wd_buffer d) = dirent_bytes (makeDirent dt 0 off name) @ r" "plain_name name"
    and "wd_length d < wd_offset d + SizeOfDirent (length name)"
  shows "readdir_record W cookie room d out = Some (False, out, d\<lparr>wd_offset := wd_length d\<rparr>, room)"
proof -
  define b where "b = dirent_bytes (makeDirent dt 0 off name) @ r"
  have "unat (of_le16 (drop 16 b)) = SizeOfDirent (length name)"
    unfolding b_def dirent_bytes_fields by (rule de_reclen_name [OF assms(2)])
  moreover have "drop (wd_offset d) (wd_buffer d) = b"
    unfolding b_def by (rule assms(1))
  ultimately show ?thesis
    using assms(3) unfolding readdir_record_def by (simp only: Let_def) simp
qed

lemma readdir_record_whole:
  fixes W :: "'v wasi_fs"
  assumes "drop (wd_offset d) (wd_buffer d) = dirent_bytes (makeDirent dt 0 off name) @ string_bytes name @ 0 # r"
    and "plain_name name" "wd_offset d + SizeOfDirent (length name) \<le> wd_length d" "wd_cookie d = int j" "j + 1 < 2 ^ 64"
  defines "d' \<equiv> d\<lparr>wd_offset := wd_offset d + SizeOfDirent (length name), wd_cookie := int (j + 1)\<rparr>"
    and "e \<equiv> \<lparr>DirEntry_Next = int (j + 1), DirEntry_INode = 0, DirEntry_Type = dirent_filetype W dt,
      DirEntry_Name = string_bytes name\<rparr>"
  shows "readdir_record W cookie room d out =
    (if int j < cookie then Some (False, out, d', room)
     else let room = room - WasiSizeOfDirent W - int (length name)
          in if room \<le> 0 then Some (True, out @ [e], d, room) else Some (False, out @ [e], d', room))"
proof -
  define b where "b = dirent_bytes (makeDirent dt 0 off name) @ string_bytes name @ 0 # r"
  have "de_ino (makeDirent dt 0 off name) = 0" "de_typ (makeDirent dt 0 off name) = dt"
    by (simp_all add: makeDirent_def)
  then have b: "of_le64 b = 0" "unat (of_le16 (drop 16 b)) = SizeOfDirent (length name)" "b ! 18 = dt"
    "drop sizeOfDirent b = string_bytes name @ 0 # r"
    unfolding b_def sizeOfDirent_def dirent_bytes_fields by (simp_all only: de_reclen_name [OF assms(2)])
  have "\<not> SizeOfDirent (length name) < sizeOfDirent"
    by (simp add: SizeOfDirent_def)
  moreover have "wrap (Unsigned 64) (int j + 1) = int (j + 1)"
    using assms(5) by (simp add: take_bit_int_eq_self)
  moreover have "drop (wd_offset d) (wd_buffer d) = b"
    unfolding b_def by (rule assms(1))
  ultimately show ?thesis
    using assms(3,4) b takeWhile_name [OF assms(2), of r] unfolding d'_def e_def readdir_record_def
    by (simp only: Let_def) simp
qed

section \<open>Paging\<close>

locale dir_reader =
  fixes ops :: "('f, 's) dir_ops" and f :: 'f and view :: "(string \<times> int) list" and at_entry :: "nat \<Rightarrow> 's \<Rightarrow> bool"
  assumes view: "at_entry i s \<Longrightarrow>
      plain_view view \<and> (\<forall>e\<in>set view. SizeOfDirent (length (fst e)) \<le> dirbufsize) \<and> length view + 1 < 2 ^ 64"
    and reads: "at_entry i s \<Longrightarrow> length buf = dirbufsize \<Longrightarrow>
      \<exists>n b t. dir_ReadDirent ops f buf s = Some (Inr (n, b), t) \<and> chunk view i buf n b
        \<and> at_entry (i + whole_entries dirbufsize (drop i view)) t"
    and rewinds: "at_entry i s \<Longrightarrow> \<exists>n t. dir_Seek ops f 0 SEEK_SET s = Some (Inr n, t) \<and> at_entry 0 t"
begin

text \<open>The directory is at the entry \<open>j\<close>: the rest of its buffer has records from there on, and the file is behind them.\<close>

definition ready :: "nat \<Rightarrow> wasi_dir \<Rightarrow> 's \<Rightarrow> bool" where
  "ready j d s \<longleftrightarrow> j \<le> length view \<and> wd_file d \<and> wd_cookie d = int j \<and> length (wd_buffer d) = dirbufsize
     \<and> wd_offset d \<le> wd_length d \<and> wd_length d \<le> dirbufsize
     \<and> wd_length d - wd_offset d \<le> size_entries (drop j view)
     \<and> (\<exists>off. take (wd_length d - wd_offset d) (drop (wd_offset d) (wd_buffer d))
              = take (wd_length d - wd_offset d) (dirent_records off (map shown (drop j view))))
     \<and> at_entry (j + whole_entries (wd_length d - wd_offset d) (drop j view)) s"

lemma ready_view:
  assumes "ready j d s"
  shows "plain_view view" "\<And>e. e \<in> set view \<Longrightarrow> SizeOfDirent (length (fst e)) \<le> dirbufsize" "length view + 1 < 2 ^ 64"
  using view assms unfolding ready_def by blast+

lemma whole_small: "m < sizeOfDirent \<Longrightarrow> whole_entries m es = 0"
  by (cases es) (auto simp: SizeOfDirent_def)

lemma whole_entries_min: "whole_entries (min m (size_entries es)) es = whole_entries m es"
proof (induction m es rule: whole_entries.induct)
  case (2 m name mode es)
  let ?k = "SizeOfDirent (length name)"
  show ?case
  proof (cases "?k \<le> m")
    case True
    then have "min m (?k + size_entries es) - ?k = min (m - ?k) (size_entries es)"
      by linarith
    then show ?thesis
      using 2 True by simp
  qed simp
qed simp

lemma drop_view: "j < length view \<Longrightarrow> drop j view = (view ! j) # drop (Suc j) view"
  by (rule Cons_nth_drop_Suc [symmetric])

text \<open>An entry that is whole in the buffer, and one that is not.\<close>

lemma ready_record:
  assumes "ready j d s" "sizeOfDirent \<le> wd_length d - wd_offset d"
  shows "j < length view
    \<and> (if SizeOfDirent (length (fst (view ! j))) \<le> wd_length d - wd_offset d
       then \<exists>d'. ready (j + 1) d' s \<and> readdir_record W (int c) room d out =
          (if j < c then Some (False, out, d', room)
           else let room = room - WasiSizeOfDirent W - int (length (fst (view ! j)))
                in if room \<le> 0 then Some (True, out @ [guest_entry W view j], d, room)
                   else Some (False, out @ [guest_entry W view j], d', room))
       else \<exists>d'. ready j d' s \<and> wd_offset d' = wd_length d' \<and> readdir_record W (int c) room d out = Some (False, out, d', room))"
proof -
  let ?m = "wd_length d - wd_offset d"
  have "j \<noteq> length view"
    using assms by (auto simp: ready_def sizeOfDirent_def)
  then have j: "j < length view"
    using assms(1) by (simp add: ready_def)
  obtain name mode where e: "view ! j = (name, mode)"
    by fastforce
  have plain: "plain_name name"
    using ready_view(1) [OF assms(1)] nth_mem [OF j] e by (force simp: plain_view_def)
  let ?k = "SizeOfDirent (length name)" and ?dt = "dirent_type mode" and ?rest = "drop (Suc j) view"
  let ?b = "drop (wd_offset d) (wd_buffer d)"
  have rest: "drop j view = (name, mode) # ?rest"
    using drop_view [OF j] e by simp
  obtain off where off: "take ?m ?b = take ?m (dirent_records off (map shown (drop j view)))"
    using assms(1) by (auto simp: ready_def)
  let ?off = "wrap (Unsigned 64) (off + int ?k)"
  have recs: "dirent_records off (map shown (drop j view)) = entry_record (dirent_mode ?dt) 0 off name @ dirent_records ?off (map shown ?rest)"
    by (simp add: rest shown_def)
  have header: "entry_record (dirent_mode ?dt) 0 off name = dirent_bytes (makeDirent ?dt 0 off name) @ string_bytes name @ [0]"
    by (simp add: entry_record_def dirent_type_idem)
  have bytes: "?b = take ?m (entry_record (dirent_mode ?dt) 0 off name @ dirent_records ?off (map shown ?rest)) @ drop ?m ?b"
    using off recs by (metis append_take_drop_id)
  show ?thesis
  proof (cases "?k \<le> ?m")
    case True
    let ?d = "d\<lparr>wd_offset := wd_offset d + ?k, wd_cookie := int (j + 1)\<rparr>"
    obtain r where "?b = entry_record (dirent_mode ?dt) 0 off name @ r"
      using bytes True by simp
    then have b: "?b = dirent_bytes (makeDirent ?dt 0 off name) @ string_bytes name @ 0 # r"
      by (simp add: header)
    have fits: "wd_offset d + ?k \<le> wd_length d" "wd_cookie d = int j" "j + 1 < 2 ^ 64"
      using True assms(1) j ready_view(3) [OF assms(1)] SizeOfDirent_pos [of "length name"] by (auto simp: ready_def)
    note whole = readdir_record_whole [OF b plain fits, where W = W and cookie = "int c" and room = room and out = out]
    have "drop ?k (dirent_records off (map shown (drop j view))) = dirent_records ?off (map shown ?rest)"
      using recs by simp
    then have "take (?m - ?k) (drop ?k ?b) = take (?m - ?k) (dirent_records ?off (map shown ?rest))"
      using arg_cong [OF off, of "drop ?k"] by (simp only: drop_take)
    then have "ready (j + 1) ?d s"
      using assms(1) True fits(1) j rest by (auto simp: ready_def add.commute intro!: exI [of _ ?off])
    moreover have "guest_entry W view j = \<lparr>DirEntry_Next = int (j + 1), DirEntry_INode = 0,
        DirEntry_Type = dirent_filetype W ?dt, DirEntry_Name = string_bytes name\<rparr>"
      using e by (simp add: guest_entry_def dirent_filetype_mode)
    ultimately have "ready (j + 1) ?d s \<and> readdir_record W (int c) room d out =
        (if j < c then Some (False, out, ?d, room)
         else let room = room - WasiSizeOfDirent W - int (length name)
              in if room \<le> 0 then Some (True, out @ [guest_entry W view j], d, room)
                 else Some (False, out @ [guest_entry W view j], ?d, room))"
      using whole by (simp only: of_nat_less_iff)
    then show ?thesis
      unfolding e fst_conv if_P [OF True] using j by blast
  next
    case False
    let ?d = "d\<lparr>wd_offset := wd_length d\<rparr>"
    have "19 \<le> ?m"
      using assms(2) by (simp add: sizeOfDirent_def)
    then obtain r where b: "?b = dirent_bytes (makeDirent ?dt 0 off name) @ r"
      using bytes header by (auto simp: take_append)
    have "ready j ?d s"
      using assms(1) False rest by (auto simp: ready_def)
    then show ?thesis
      using False j e readdir_record_cut [OF b plain, of W "int c" room out] by auto
  qed
qed

text \<open>The step before it: what is left of a header is dropped, and a directory that has answered nothing reads on.\<close>

lemma readdir_fill_ready:
  assumes "ready j d s" "wd_length d - wd_offset d < sizeOfDirent"
  shows "\<exists>d' t. ready j d' t \<and> (if j = length view then readdir_fill W ops f d [] s = Some ((Some (ESUCCESS W), d'), t)
    else readdir_fill W ops f d [] s = Some ((None, d'), t)
      \<and> SizeOfDirent (length (fst (view ! j))) \<le> wd_length d' - wd_offset d')"
proof -
  have s: "at_entry j s" "length (wd_buffer d) = dirbufsize" "j \<le> length view"
    using assms by (simp_all add: ready_def whole_small)
  obtain n b t where r: "dir_ReadDirent ops f (wd_buffer d) s = Some (Inr (n, b), t)" "chunk view j (wd_buffer d) n b"
      "at_entry (j + whole_entries dirbufsize (drop j view)) t"
    using reads [OF s(1,2)] by blast
  obtain off where b: "n = min dirbufsize (size_entries (drop j view))" "length b = dirbufsize"
      "take n b = take dirbufsize (dirent_records off (map shown (drop j view)))"
    using r(2) s(2) by (auto simp: chunk_def)
  show ?thesis
  proof (cases "j = length view")
    case True
    then have "n = 0" "wd_length d - wd_offset d = 0"
      using b(1) assms(1) by (simp_all add: ready_def)
    then have "ready j (d\<lparr>wd_buffer := b\<rparr>) t"
      using True assms(1) b(2) r(3) by (simp add: ready_def)
    then show ?thesis
      using True r(1) assms(2) \<open>n = 0\<close> by (auto simp: readdir_fill_def)
  next
    case False
    let ?d = "d\<lparr>wd_buffer := b, wd_offset := 0, wd_length := n\<rparr>" and ?k = "SizeOfDirent (length (fst (view ! j)))"
    have j: "j < length view"
      using False s(3) by simp
    then have "?k \<le> dirbufsize"
      by (simp add: ready_view(2) [OF assms(1)])
    moreover have "?k \<le> size_entries (drop j view)"
      by (simp add: drop_view [OF j] size_entries_def split: prod.split)
    ultimately have n: "?k \<le> n"
      using b(1) by simp
    then have "0 < n"
      using SizeOfDirent_pos by (rule less_le_trans [rotated])
    have "take n b = take n (dirent_records off (map shown (drop j view)))"
      unfolding b(3) by (simp add: b(1) min_def)
    then have "\<exists>off. take n b = take n (dirent_records off (map shown (drop j view)))"
      by blast
    moreover have "whole_entries n (drop j view) = whole_entries dirbufsize (drop j view)"
      unfolding b(1) by (rule whole_entries_min)
    moreover have "n \<le> dirbufsize" "n \<le> size_entries (drop j view)"
      by (simp_all add: b(1))
    ultimately have "ready j ?d t"
      using assms(1) b(2) r(3) by (simp add: ready_def)
    moreover have "readdir_fill W ops f d [] s = Some ((None, ?d), t)"
      using assms(2) r(1) \<open>0 < n\<close> by (simp add: readdir_fill_def)
    ultimately show ?thesis
      using False n by (intro exI [of _ ?d] exI [of _ t]) simp
  qed
qed

text \<open>The loop returns, with all the entries it has room for, and with one at least if there are more.\<close>

definition answer :: "'v wasi_fs \<Rightarrow> nat \<Rightarrow> ((DirEntry list \<times> int \<times> wasi_dir) \<times> 's) option \<Rightarrow> bool" where
  "answer W c r \<longleftrightarrow> (\<exists>i d t j. r = Some ((map (guest_entry W view) [c..<i], ESUCCESS W, d), t) \<and> c \<le> i \<and> i \<le> length view
     \<and> (i = c \<longrightarrow> c = length view) \<and> j \<le> i \<and> ready j d t)"

lemma answerI:
  assumes "ready j d t" "c \<le> i" "i \<le> length view" "j \<le> i" "i = c \<Longrightarrow> c = length view"
  shows "answer W c (Some ((map (guest_entry W view) [c..<i], ESUCCESS W, d), t))"
  using assms unfolding answer_def by blast

lemma readdir_loop_ready:
  assumes "ready j d s" "c \<le> length view" "0 < k" "j - c \<le> k"
  shows "answer W c (readdir_loop W ops f k (int c) room d (map (guest_entry W view) [c..<j]) s)"
  using assms
proof (induction "2 * (length view - j) + of_bool (sizeOfDirent \<le> wd_length d - wd_offset d)" arbitrary: j d s room
    rule: less_induct)
  case (less j d s room)
  let ?out = "map (guest_entry W view) [c..<j]" and ?m = "\<lambda>d. wd_length d - wd_offset d"
  have j: "j \<le> length view"
    using less.prems(1) by (simp add: ready_def)
  text \<open>What a record that is whole does, the directory being ready.\<close>
  have whole: "answer W c (case readdir_record W (int c) room d ?out of None \<Rightarrow> None
      | Some (stop, out, d, room) \<Rightarrow>
          if stop then Some ((out, ESUCCESS W, d), s) else readdir_loop W ops f k (int c) room d out s)"
    if d: "ready j d s" "sizeOfDirent \<le> ?m d" "SizeOfDirent (length (fst (view ! j))) \<le> ?m d" "j - c < k" for d s
  proof -
    obtain d' where d': "j < length view" "ready (j + 1) d' s" "readdir_record W (int c) room d ?out =
        (if j < c then Some (False, ?out, d', room)
         else let room = room - WasiSizeOfDirent W - int (length (fst (view ! j)))
              in if room \<le> 0 then Some (True, ?out @ [guest_entry W view j], d, room)
                 else Some (False, ?out @ [guest_entry W view j], d', room))"
      using ready_record [OF d(1,2), of W c room ?out] d(3) by auto
    have loop: "answer W c (readdir_loop W ops f k (int c) room d' (map (guest_entry W view) [c..<j + 1]) s)" for room
      using d'(1,2) d(4) less.prems(2,3) by (intro less.hyps) auto
    show ?thesis
    proof (cases "j < c")
      case True
      then show ?thesis
        using loop d'(3) by simp
    next
      case False
      then have "?out @ [guest_entry W view j] = map (guest_entry W view) [c..<j + 1]"
        by simp
      moreover have "answer W c (Some ((map (guest_entry W view) [c..<j + 1], ESUCCESS W, d), s))"
        using False d(1) d'(1) by (intro answerI) auto
      ultimately show ?thesis
        using False loop d'(3) by (simp add: Let_def del: upt_Suc)
    qed
  qed
  have full: "answer W c (Some ((?out, ESUCCESS W, d), s))" if "c < j" "ready j d s" for d s
    using that j by (intro answerI) auto
  show ?case
  proof (cases "length ?out = k")
    case True
    then show ?thesis
      using full less.prems(1,3) by (subst readdir_loop.simps) simp
  next
    case False
    then have k: "j - c < k"
      using less.prems(4) by simp
    consider (fill) "?m d < sizeOfDirent" "?out \<noteq> []" | (read) "?m d < sizeOfDirent" "?out = []" | (buffered) "sizeOfDirent \<le> ?m d"
      by linarith
    then show ?thesis
    proof cases
      case fill
      then show ?thesis
        using False full less.prems(1) by (subst readdir_loop.simps) (simp add: readdir_fill_def)
    next
      case read
      obtain d' t where d': "ready j d' t" "if j = length view then readdir_fill W ops f d [] s = Some ((Some (ESUCCESS W), d'), t)
          else readdir_fill W ops f d [] s = Some ((None, d'), t)
            \<and> SizeOfDirent (length (fst (view ! j))) \<le> ?m d'"
        using readdir_fill_ready [OF less.prems(1) read(1)] by blast
      show ?thesis
      proof (cases "j = length view")
        case True
        then have "answer W c (Some ((map (guest_entry W view) [c..<c], ESUCCESS W, d'), t))"
          using d'(1) read(2) less.prems(2) by (intro answerI [of j]) auto
        then show ?thesis
          unfolding read(2) using True k d'(2) by (subst readdir_loop.simps) simp
      next
        case False
        then have fits: "SizeOfDirent (length (fst (view ! j))) \<le> ?m d'"
          using d'(2) by simp
        moreover have "sizeOfDirent \<le> SizeOfDirent (length (fst (view ! j)))"
          by (simp add: SizeOfDirent_def)
        ultimately show ?thesis
          unfolding read(2) using False whole [OF d'(1) _ fits k, unfolded read(2)] d'(2) k by (subst readdir_loop.simps) simp
      qed
    next
      case buffered
      then have fill: "readdir_fill W ops f d ?out s = Some ((None, d), s)"
        by (simp add: readdir_fill_def)
      show ?thesis
      proof (cases "SizeOfDirent (length (fst (view ! j))) \<le> ?m d")
        case True
        then show ?thesis
          using whole [OF less.prems(1) buffered True k] fill False by (subst readdir_loop.simps) simp
      next
        case cut: False
        obtain d' where d': "ready j d' s" "wd_offset d' = wd_length d'" "readdir_record W (int c) room d ?out = Some (False, ?out, d', room)"
          using ready_record [OF less.prems(1) buffered, of W c room ?out] cut by auto
        have "answer W c (readdir_loop W ops f k (int c) room d' ?out s)"
          using d'(1,2) less.prems buffered by (intro less.hyps) (simp_all add: sizeOfDirent_def)
        then show ?thesis
          using fill d'(3) False by (subst readdir_loop.simps) simp
      qed
    qed
  qed
qed

section \<open>Calls of \<open>FDReadDir\<close>\<close>

text \<open>A directory that was just opened, or that calls have read from.\<close>

definition paged :: "wasi_dir \<Rightarrow> 's \<Rightarrow> bool" where
  "paged d s \<longleftrightarrow> d = wasi_dir_new \<and> at_entry 0 s \<or> (\<exists>j. ready j d s)"

lemma ready_start:
  assumes "at_entry 0 s" "wd_file d" "length (wd_buffer d) = dirbufsize"
  shows "ready 0 (d\<lparr>wd_offset := 0, wd_length := 0, wd_cookie := 0\<rparr>) s"
  using assms by (simp add: ready_def whole_small sizeOfDirent_def)

lemma FDReadDir_ready:
  assumes "paged d s" "c \<le> length view" "0 < k"
  shows "answer W c (FDReadDir_dir W ops f k (int c) room d s)"
proof -
  have loop: "answer W c (readdir_loop W ops f k (int c) room d [] s)" if "ready j d s" "j \<le> c" for j d s
    using readdir_loop_ready [OF that(1) assms(2,3)] that(2) by simp
  consider "d = wasi_dir_new" "at_entry 0 s" | j where "ready j d s" "j \<le> c" | j where "ready j d s" "c < j"
    using assms(1) unfolding paged_def by (meson not_less)
  then show ?thesis
  proof cases
    case 1
    let ?d = "wasi_dir_new\<lparr>wd_buffer := replicate dirbufsize 0\<rparr>"
    have "?d = ?d\<lparr>wd_offset := 0, wd_length := 0, wd_cookie := 0\<rparr>"
      by (simp add: wasi_dir_new_def)
    then have "ready 0 ?d s"
      using ready_start [OF 1(2), of ?d] by (simp add: wasi_dir_new_def)
    then have "answer W c (readdir_loop W ops f k (int c) room ?d [] s)"
      by (rule loop) simp
    moreover have "FDReadDir_dir W ops f k (int c) room wasi_dir_new s = readdir_loop W ops f k (int c) room ?d [] s"
      by (simp add: FDReadDir_dir_def wasi_dir_new_def)
    ultimately show ?thesis
      unfolding 1(1) by simp
  next
    case 2
    then have "FDReadDir_dir W ops f k (int c) room d s = readdir_loop W ops f k (int c) room d [] s"
      by (auto simp: FDReadDir_dir_def ready_def dirbufsize_def PATH_MAX_def)
    then show ?thesis
      using loop [OF 2] by simp
  next
    case 3
    then obtain i where "at_entry (j + i) s"
      by (auto simp: ready_def)
    then obtain n t where t: "dir_Seek ops f 0 SEEK_SET s = Some (Inr n, t)" "at_entry 0 t"
      using rewinds by blast
    have d: "wd_file d" "length (wd_buffer d) = dirbufsize" "wd_cookie d = int j" "wd_buffer d \<noteq> []"
      using 3(1) by (auto simp: ready_def dirbufsize_def PATH_MAX_def)
    have "answer W c (readdir_loop W ops f k (int c) room (d\<lparr>wd_offset := 0, wd_length := 0, wd_cookie := 0\<rparr>) [] t)"
      by (rule loop [OF ready_start [OF t(2) d(1,2)]]) simp
    moreover have "FDReadDir_dir W ops f k (int c) room d s
        = readdir_loop W ops f k (int c) room (d\<lparr>wd_offset := 0, wd_length := 0, wd_cookie := 0\<rparr>) [] t"
      using t(1) 3(2) d by (simp add: FDReadDir_dir_def)
    ultimately show ?thesis
      by simp
  qed
qed

lemma guest_list_view:
  assumes "paged d s" "c \<le> length view" "0 < k" "length view - c < m"
  shows "\<exists>d' t. guest_list m W ops f k room (int c) d s = Some ((map (guest_entry W view) [c..<length view], d'), t) \<and> paged d' t"
  using assms
proof (induction m arbitrary: c d s)
  case (Suc m)
  obtain i d' t j where r: "FDReadDir_dir W ops f k (int c) room d s = Some ((map (guest_entry W view) [c..<i], ESUCCESS W, d'), t)"
      "c \<le> i" "i \<le> length view" "i = c \<longrightarrow> c = length view" "ready j d' t"
    using FDReadDir_ready [OF Suc.prems(1-3), of W room] unfolding answer_def by blast
  have d': "paged d' t"
    using r(5) by (auto simp: paged_def)
  show ?case
  proof (cases "i = c")
    case True
    then show ?thesis
      using r d' by simp
  next
    case False
    then have "[c..<i] \<noteq> []" "last [c..<i] = i - 1" "0 < i"
      using r(2) by auto
    then have last: "DirEntry_Next (last (map (guest_entry W view) [c..<i])) = int i"
      by (simp add: last_map guest_entry_def)
    have "length view - i < m"
      using Suc.prems(4) False r(2,3) by linarith
    then obtain d'' u where "guest_list m W ops f k room (int i) d' t = Some ((map (guest_entry W view) [i..<length view], d''), u)" "paged d'' u"
      using Suc.IH [OF d' r(3) Suc.prems(3)] by blast
    moreover have "map (guest_entry W view) [c..<i] @ map (guest_entry W view) [i..<length view] = map (guest_entry W view) [c..<length view]"
      using r(2,3) upt_add_eq_append [of c i "length view - i"] by (simp flip: map_append)
    ultimately show ?thesis
      using r(1) last \<open>[c..<i] \<noteq> []\<close> by simp
  qed
qed simp

lemma guest_list_dir_view:
  assumes "at_entry i s" "0 < k" "length view < m"
  shows "\<exists>d t. guest_list_dir m W ops f k room s = Some ((map (guest_entry W view) [0..<length view], d), t) \<and> paged d t"
proof -
  obtain n t where t: "dir_Seek ops f 0 SEEK_SET s = Some (Inr n, t)" "at_entry 0 t"
    using rewinds [OF assms(1)] by blast
  then have "paged wasi_dir_new t"
    by (simp add: paged_def)
  from guest_list_view [OF this, of 0 k m] show ?thesis
    using t(1) assms(2,3) by (simp add: guest_list_dir_def FDOpenDir_def)
qed

end

section \<open>The root of a stack of layers\<close>

definition oci_dir_ops ::
  "('f, 's) layer_ops \<Rightarrow> ('f \<Rightarrow> int \<Rightarrow> int \<Rightarrow> 's \<Rightarrow> (int, 's) file_call) \<Rightarrow> (nat, ('f, 's) oci) dir_ops"
where
  "oci_dir_ops ops seek =
     \<lparr>dir_Seek = (\<lambda>f offset whence. oci_Seek ops (\<lambda>file. seek file offset whence) f offset whence),
      dir_ReadDirent = oci_ReadDirent ops\<rparr>"

text \<open>A file of the stack that nothing was read from, or whose buffer is at an entry of the view.\<close>

definition oci_fresh ::
  "('f \<Rightarrow> 's \<Rightarrow> (string \<times> int) list option) \<Rightarrow> ('f \<Rightarrow> 's \<Rightarrow> nat) \<Rightarrow> (string \<times> int) list list \<Rightarrow> 'f list \<Rightarrow> nat \<Rightarrow> ('f, 's) oci \<Rightarrow> bool"
where
  "oci_fresh entries listed layers files f s \<longleftrightarrow> open_on f files s \<and> of_dirbuf (oci_files s ! f) = None \<and> distinct files \<and> files \<noteq> []
     \<and> list_all2 (\<lambda>f es. entries f (oci_base s) = Some es \<and> listed f (oci_base s) = 0) files layers
     \<and> (\<forall>es\<in>set layers. layer_ok es)"

definition oci_at ::
  "('f \<Rightarrow> 's \<Rightarrow> (string \<times> int) list option) \<Rightarrow> ('f \<Rightarrow> 's \<Rightarrow> nat) \<Rightarrow> (string \<times> int) list list \<Rightarrow> 'f list \<Rightarrow> nat \<Rightarrow> nat
   \<Rightarrow> ('f, 's) oci \<Rightarrow> bool"
where
  "oci_at entries listed layers files f i s \<longleftrightarrow>
     plain_view (oci_view layers) \<and> (\<forall>e\<in>set (oci_view layers). SizeOfDirent (length (fst e)) \<le> dirbufsize)
     \<and> length (oci_view layers) + 1 < 2 ^ 64
     \<and> (listing_at (oci_view layers) i f files s \<or> i = 0 \<and> oci_fresh entries listed layers files f s)"

abbreviation oci_Seek_act ::
  "('f \<Rightarrow> 's \<Rightarrow> (int, 's) file_call) \<Rightarrow> nat \<Rightarrow> nat \<Rightarrow> ('f, 's) oci \<Rightarrow> (int, ('f, 's) oci) file_call"
where
  "oci_Seek_act call f l s \<equiv> (case of_dirbuf (oci_files s ! f) of
      None \<Rightarrow> first_file call l s
    | Some d \<Rightarrow> Some (Inr 0, s\<lparr>oci_files := (oci_files s)[f := (oci_files s ! f)\<lparr>of_dirbuf := Some (dirbuf_reset d)\<rparr>]\<rparr>))"

lemma oci_Seek_set: "oci_Seek ops call f 0 SEEK_SET s = withLayers ops f (oci_Seek_act call f) s"
  by (simp add: oci_Seek_def SEEK_SET_def cong: option.case_cong)

lemma oci_Seek_start:
  assumes "listing_at view i f files s"
  shows "\<exists>n t. oci_Seek ops call f 0 SEEK_SET s = Some (Inr n, t) \<and> listing_at view 0 f files t"
proof -
  obtain d where d: "open_on f files s" "of_dirbuf (oci_files s ! f) = Some d" "db_entries d = map oci_entry view" "db_index d = int i"
      "fits (Unsigned 64) (db_offset d)"
    using assms(1) by (auto simp: listing_at_def)
  let ?t = "s\<lparr>oci_files := (oci_files s)[f := (oci_files s ! f)\<lparr>of_dirbuf := Some (dirbuf_reset d)\<rparr>]\<rparr>"
  have "withLayers ops f (oci_Seek_act call f) s = Some (Inr 0, ?t)"
    using withLayers_open [OF d(1), where ops = ops and r = "Inr 0" and act = "oci_Seek_act call f"
        and t = "\<lambda>l. ?t\<lparr>oci_layers := oci_layers (oci_ref (Some l) s)\<rparr>"] d(2) by auto
  moreover have "listing_at view 0 f files ?t"
    using d by (auto simp: listing_at_def open_on_def dirbuf_reset_def fits_def)
  ultimately show ?thesis
    unfolding oci_Seek_set by blast
qed

lemma oci_Seek_first:
  assumes "open_on f (topf # rest) s" "of_dirbuf (oci_files s ! f) = None" "call topf (oci_base s) = Some (Inr n, b)"
  shows "oci_Seek ops call f 0 SEEK_SET s = Some (Inr n, s\<lparr>oci_base := b\<rparr>)"
proof -
  have "oci_Seek_act call f l (oci_ref (Some l) s) = Some (Inr n, s\<lparr>oci_base := b, oci_layers := oci_layers (oci_ref (Some l) s)\<rparr>)"
    if "of_layers (oci_files s ! f) = Some l" for l
  proof -
    have "fl_files (oci_layers s ! l) = topf # rest"
      using assms(1) that by (auto simp: open_on_def)
    then show ?thesis
      using assms(2,3) by (simp add: first_file_def on_base_def)
  qed
  from withLayers_open [OF assms(1), where ops = ops and r = "Inr n" and act = "oci_Seek_act call f"
      and t = "\<lambda>l. s\<lparr>oci_base := b, oci_layers := oci_layers (oci_ref (Some l) s)\<rparr>", OF this]
  show ?thesis
    unfolding oci_Seek_set by auto
qed

text \<open>Layers that can be rewound before anything was read.\<close>

locale layer_seeks = layer_dirs +
  fixes seek :: "'a \<Rightarrow> int \<Rightarrow> int \<Rightarrow> 'b \<Rightarrow> (int, 'b) file_call"
  assumes seek_start: "entries f s = Some es \<Longrightarrow> listed f s = 0 \<Longrightarrow>
    \<exists>n t. seek f 0 SEEK_SET s = Some (Inr n, t) \<and> (\<forall>g. entries g t = entries g s \<and> listed g t = listed g s)"

sublocale layer_seeks \<subseteq> root: dir_reader "oci_dir_ops ops seek" f "oci_view stack" "oci_at entries listed stack files f"
  for f stack files
proof
  fix i s and buf :: bytes
  assume at: "oci_at entries listed stack files f i s"
  then show "plain_view (oci_view stack) \<and> (\<forall>e\<in>set (oci_view stack). SizeOfDirent (length (fst e)) \<le> dirbufsize)
      \<and> length (oci_view stack) + 1 < 2 ^ 64"
    by (simp add: oci_at_def)
  show "\<exists>n b t. dir_ReadDirent (oci_dir_ops ops seek) f buf s = Some (Inr (n, b), t) \<and> chunk (oci_view stack) i buf n b
      \<and> oci_at entries listed stack files f (i + whole_entries dirbufsize (drop i (oci_view stack))) t"
    if "length buf = dirbufsize"
  proof (cases "listing_at (oci_view stack) i f files s")
    case True
    then show ?thesis
      using oci_ReadDirent_next [OF True, of ops buf] at that by (auto simp: oci_at_def oci_dir_ops_def)
  next
    case False
    then have "oci_fresh entries listed stack files f s" "i = 0"
      using at by (auto simp: oci_at_def)
    then show ?thesis
      using oci_ReadDirent_first [of f files s stack buf] at that by (auto simp: oci_at_def oci_fresh_def oci_dir_ops_def)
  qed
  show "\<exists>n t. dir_Seek (oci_dir_ops ops seek) f 0 SEEK_SET s = Some (Inr n, t) \<and> oci_at entries listed stack files f 0 t"
  proof (cases "listing_at (oci_view stack) i f files s")
    case True
    then show ?thesis
      using at oci_Seek_start [OF True, of ops "\<lambda>file. seek file 0 SEEK_SET"] by (auto simp: oci_at_def oci_dir_ops_def)
  next
    case False
    then have fresh: "oci_fresh entries listed stack files f s"
      using at by (auto simp: oci_at_def)
    then obtain top rest es where files: "files = top # rest" "entries top (oci_base s) = Some es" "listed top (oci_base s) = 0"
      by (cases files; cases stack) (auto simp: oci_fresh_def)
    then obtain n b where b: "seek top 0 SEEK_SET (oci_base s) = Some (Inr n, b)"
        "\<forall>g. entries g b = entries g (oci_base s) \<and> listed g b = listed g (oci_base s)"
      using seek_start by blast
    have "oci_Seek ops (\<lambda>file. seek file 0 SEEK_SET) f 0 SEEK_SET s = Some (Inr n, s\<lparr>oci_base := b\<rparr>)"
      using oci_Seek_first [where call = "\<lambda>file. seek file 0 SEEK_SET" and f = f and s = s and topf = top and rest = rest and n = n and b = b and ops = ops] fresh files(1) b(1) by (simp add: oci_fresh_def)
    moreover have "oci_fresh entries listed stack files f (s\<lparr>oci_base := b\<rparr>)"
      using fresh b(2) by (simp add: oci_fresh_def open_on_def)
    ultimately show ?thesis
      using at by (auto simp: oci_at_def oci_dir_ops_def)
  qed
qed

text \<open>\<^verbatim>\<open>Seek\<close> of what is open in archives; regular files, which have a reader of their own, have their own \<^verbatim>\<open>Seek\<close>.\<close>

definition tar_file_Seek ::
  "(nat \<Rightarrow> int \<Rightarrow> int \<Rightarrow> tar_handles \<Rightarrow> (int, tar_handles) file_call) \<Rightarrow> nat \<Rightarrow> int \<Rightarrow> int \<Rightarrow> tar_handles \<Rightarrow> (int, tar_handles) file_call"
where
  "tar_file_Seek file_seek h offset whence s =
     (case s ! h of
        (k, OpenDir d) \<Rightarrow> (case openDir_Seek d offset whence of (r, d) \<Rightarrow> Some (r, s[h := (k, OpenDir d)]))
      | (k, OpenFile f) \<Rightarrow> file_seek h offset whence s)"

interpretation tar_seeks: layer_seeks "tar_ops layers" "tar_entries layers" tar_listed "tar_stat_info layers" "tar_file_Seek file_seek"
  for layers file_seek
proof
  fix h s es
  assume es: "tar_entries layers h s = Some es" "tar_listed h s = 0"
  then obtain k d f where h: "h < length s" "s ! h = (k, OpenDir d)" "od_dir d = Some f" "fits (Unsigned 64) (od_offset d)"
    by (auto elim: tar_entriesE)
  let ?t = "s[h := (k, OpenDir (d\<lparr>od_index := 0, od_offset := 0\<rparr>))]"
  have "tar_file_Seek file_seek h 0 SEEK_SET s = Some (Inr 0, ?t)"
    using h by (simp add: tar_file_Seek_def openDir_Seek_def SEEK_SET_def)
  moreover have "tar_entries layers g ?t = tar_entries layers g s \<and> tar_listed g ?t = tar_listed g s" for g
    using h es(2) by (cases "g = h") (simp_all add: tar_entries_def tar_listed_def fits_def split: file_entry.split)
  ultimately show "\<exists>n t. tar_file_Seek file_seek h 0 SEEK_SET s = Some (Inr n, t)
      \<and> (\<forall>g. tar_entries layers g t = tar_entries layers g s \<and> tar_listed g t = tar_listed g s)"
    by blast
qed

lemma oci_view_subset: "set (oci_view layers) \<subseteq> \<Union> (set ` set layers)"
proof (induction layers)
  case (Cons es layers)
  then show ?case
    by (auto simp: plain_entries_def)
qed simp

lemma SizeOfDirent_entry: "e \<in> set es \<Longrightarrow> SizeOfDirent (length (fst e)) \<le> size_entries es"
  by (induction es) (auto simp: size_entries_def)

lemma oci_fresh_at:
  assumes "\<exists>files. oci_fresh entries listed layers files f t" "\<forall>es\<in>set layers. listing_small es" "length (oci_view layers) + 1 < 2 ^ 64"
  shows "\<exists>files. oci_at entries listed layers files f 0 t"
proof -
  have "plain_name (fst e) \<and> SizeOfDirent (length (fst e)) \<le> dirbufsize" if e: "e \<in> set (oci_view layers)" for e
  proof -
    obtain es where "es \<in> set layers" "e \<in> set es"
      using e oci_view_subset by blast
    then show ?thesis
      using assms(2) SizeOfDirent_entry [of e es] by (auto simp: listing_small_def dirbufsize_def)
  qed
  then show ?thesis
    using assms(1,3) unfolding oci_at_def plain_view_def by blast
qed

lemma oci_open_fresh:
  assumes "layers \<noteq> []" "\<forall>s\<in>set layers. \<exists>hs. built hs s" "\<forall>s\<in>set layers. listing_small (root_listing s) \<and> layer_ok (root_listing s)"
  shows "\<exists>f t. oci_FileSystem_Open n (tar_ops layers) (oci_New (map (tar_open_root layers) [0..<length layers])) ''/'' flags mode s
      = Some (Inr f, t)
    \<and> (\<exists>files. oci_fresh (tar_entries layers) tar_listed (map root_listing (rev layers)) files f t)"
proof -
  obtain f t files where t: "oci_FileSystem_Open n (tar_ops layers)
        (oci_New (map (tar_open_root layers) [0..<length layers])) ''/'' flags mode s = Some (Inr f, t)"
      "open_on f files t" "of_dirbuf (oci_files t ! f) = None" "distinct files"
      "list_all2 (\<lambda>h es. tar_entries layers h (oci_base t) = Some es \<and> tar_listed h (oci_base t) = 0) files (map root_listing (rev layers))"
    using oci_open_roots [OF assms(1,2)] assms(3) by blast
  moreover have "files \<noteq> []"
    using t(5) assms(1) by auto
  moreover have "\<forall>es\<in>set (map root_listing (rev layers)). layer_ok es"
    using assms(3) by simp
  ultimately show ?thesis
    unfolding oci_fresh_def by blast
qed

text \<open>The codes of preview 1.\<close>

definition guest_wasi :: "(int \<times> SubscriptionClock) wasi_fs" where
  "guest_wasi = wasi.extend preview1 (wasi_fs.fields 0 1 2 3 4 5 6 7 24 (\<lambda>e. 1)
     (\<lambda>flags f. flags AND f = f) 8 57 75 1 2 4 8 16 1 2 4 8 1 1 2 4 8 2 64 268435455)"

end
