(* ===== verification/Object_Store.thy ===== *)
theory Object_Store
  imports Go_Path Dirent "HOL-Library.AList"
begin

text \<open>
  The store of objects (\<^verbatim>\<open>internal/object\<close>): tags, filters, the interface \<^verbatim>\<open>Store\<close> and its implementation on a directory of
  the host, \<^verbatim>\<open>dirStore\<close>. The files of the host are a list of paths with what is there, in the order in which a
  directory is read; paths are lists of names. Times are in nanoseconds.
\<close>

section \<open>Errors\<close>

text \<open>Errors of the store and of the calls of the operating system; \<open>ObjWrap\<close> is \<^verbatim>\<open>fmt.Errorf\<close> with the verb \<^verbatim>\<open>%w\<close>.\<close>

datatype obj_error =
    ObjNotExist
  | ObjReadOnly
  | ObjExist
  | ObjNotDir
  | ObjIsDir
  | ObjNotEmpty
  | ObjNoLogRecords
  | ObjErrorf string
  | ObjStream error
  | ObjWrap string obj_error

text \<open>\<^verbatim>\<open>errors.Is(err, ErrNotExist)\<close>.\<close>

fun is_not_exist :: "obj_error \<Rightarrow> bool" where
  "is_not_exist ObjNotExist = True"
| "is_not_exist (ObjWrap _ e) = is_not_exist e"
| "is_not_exist _ = False"

section \<open>Tags and filters\<close>

record tag =
  tag_Name :: string
  tag_Value :: string

definition AppendTags :: "bytes \<Rightarrow> tag list \<Rightarrow> bytes" where
  "AppendTags buf tags = buf @ concat (map (\<lambda>t. string_bytes (tag_Name t @ ''='' @ tag_Value t @ ''\<newline>'')) tags)"

definition validTagName :: "string \<Rightarrow> bool" where
  "validTagName name \<longleftrightarrow> name \<noteq> [] \<and> CHR ''='' \<notin> set name \<and> CHR ''\<newline>'' \<notin> set name"

definition validTagValue :: "string \<Rightarrow> bool" where
  "validTagValue value \<longleftrightarrow> CHR ''\<newline>'' \<notin> set value"

definition validTag :: "tag \<Rightarrow> bool" where
  "validTag t \<longleftrightarrow> validTagName (tag_Name t) \<and> validTagValue (tag_Value t)"

record object_info =
  oi_Name :: string
  oi_Size :: int
  oi_CreatedAt :: int
  oi_Tags :: "tag list"

definition info_Match :: "object_info \<Rightarrow> string \<Rightarrow> string \<Rightarrow> bool" where
  "info_Match info name value \<longleftrightarrow> (\<exists>t\<in>set (oi_Tags info). tag_Name t = name \<and> tag_Value t = value)"

definition info_Lookup :: "object_info \<Rightarrow> string \<Rightarrow> string option" where
  "info_Lookup info name = map_option tag_Value (find (\<lambda>t. tag_Name t = name) (oi_Tags info))"

datatype obj_filter =
    AFTER int
  | BEFORE int
  | MATCH string string
  | AND_filter obj_filter obj_filter
  | OR_filter obj_filter obj_filter
  | NOT_filter obj_filter

primrec filter_Match :: "obj_filter \<Rightarrow> object_info \<Rightarrow> bool" where
  "filter_Match (AFTER t) info \<longleftrightarrow> oi_CreatedAt info > t"
| "filter_Match (BEFORE t) info \<longleftrightarrow> oi_CreatedAt info < t"
| "filter_Match (MATCH name value) info \<longleftrightarrow> info_Match info name value"
| "filter_Match (AND_filter f g) info \<longleftrightarrow> filter_Match f info \<and> filter_Match g info"
| "filter_Match (OR_filter f g) info \<longleftrightarrow> filter_Match f info \<or> filter_Match g info"
| "filter_Match (NOT_filter f) info \<longleftrightarrow> \<not> filter_Match f info"

definition MatchAll :: "object_info \<Rightarrow> obj_filter list \<Rightarrow> bool" where
  "MatchAll info filters \<longleftrightarrow> (\<forall>f\<in>set filters. filter_Match f info)"

definition MatchOne :: "object_info \<Rightarrow> obj_filter list \<Rightarrow> bool" where
  "MatchOne info filters \<longleftrightarrow> (\<exists>f\<in>set filters. filter_Match f info)"

section \<open>The interface of a store\<close>

text \<open>
  The data of an object comes from a reader: its bytes, and the error that ends them if it is not \<^verbatim>\<open>io.EOF\<close>. A reader of
  an object has its content, or is on a directory, where a read fails. Listing gives what the reader of a list yields.
\<close>

type_synonym obj_data = "bytes \<times> obj_error option"

datatype obj_reader = ObjContent bytes | ObjDirectory

record 's obj_store =
  CreateObject :: "string \<Rightarrow> obj_data \<Rightarrow> tag list \<Rightarrow> 's \<Rightarrow> obj_error option \<times> 's"
  ReadObject :: "string \<Rightarrow> 's \<Rightarrow> obj_error + obj_reader"
  StatObject :: "string \<Rightarrow> 's \<Rightarrow> obj_error + object_info"
  ListObjects :: "string \<Rightarrow> obj_filter list \<Rightarrow> 's \<Rightarrow> object_info list \<times> obj_error option"
  DeleteObject :: "string \<Rightarrow> 's \<Rightarrow> obj_error option \<times> 's"

definition emptyStore :: "unit obj_store" where
  "emptyStore =
     \<lparr>CreateObject = (\<lambda>name data tags s. (Some ObjReadOnly, s)), ReadObject = (\<lambda>name s. Inl ObjNotExist),
      StatObject = (\<lambda>name s. Inl ObjNotExist), ListObjects = (\<lambda>prefix filters s. ([], None)),
      DeleteObject = (\<lambda>name s. (None, s))\<rparr>"

section \<open>Files of the host\<close>

datatype host_node = HostFile bytes int | HostDir

type_synonym host_path = "string list"
type_synonym host = "(host_path \<times> host_node) list"

definition host_node :: "host \<Rightarrow> host_path \<Rightarrow> host_node option" where
  "host_node h p = (if p = [] then Some HostDir else map_of h p)"

text \<open>Walking a path, from the directory \<open>p\<close> on.\<close>

fun host_walk :: "host \<Rightarrow> host_path \<Rightarrow> host_path \<Rightarrow> obj_error + host_node" where
  "host_walk h p [] = (case host_node h p of None \<Rightarrow> Inl ObjNotExist | Some n \<Rightarrow> Inr n)"
| "host_walk h p (e # es) =
     (case host_node h p of
        None \<Rightarrow> Inl ObjNotExist
      | Some (HostFile _ _) \<Rightarrow> Inl ObjNotDir
      | Some HostDir \<Rightarrow> host_walk h (p @ [e]) es)"

definition host_stat :: "host \<Rightarrow> host_path \<Rightarrow> obj_error + host_node" where
  "host_stat h p = host_walk h [] p"

fun host_mkdirs :: "host \<Rightarrow> host_path \<Rightarrow> host_path \<Rightarrow> obj_error + host" where
  "host_mkdirs h p es =
     (case host_node h p of
        Some (HostFile _ _) \<Rightarrow> Inl ObjNotDir
      | n \<Rightarrow>
          let h = (if n = None then h @ [(p, HostDir)] else h)
          in case es of [] \<Rightarrow> Inr h | e # es \<Rightarrow> host_mkdirs h (p @ [e]) es)"

definition MkdirAll :: "host \<Rightarrow> host_path \<Rightarrow> obj_error + host" where
  "MkdirAll h p = host_mkdirs h [] p"

text \<open>Making a directory, and writing a file, at a path whose parent is a directory.\<close>

definition host_Mkdir :: "host \<Rightarrow> host_path \<Rightarrow> obj_error + host" where
  "host_Mkdir h p = (case host_node h p of Some _ \<Rightarrow> Inl ObjExist | None \<Rightarrow> Inr (h @ [(p, HostDir)]))"

definition host_WriteFile :: "host \<Rightarrow> host_path \<Rightarrow> bytes \<Rightarrow> int \<Rightarrow> obj_error + host" where
  "host_WriteFile h p b now =
     (case host_node h p of Some HostDir \<Rightarrow> Inl ObjIsDir | _ \<Rightarrow> Inr (AList.update p (HostFile b now) h))"

definition host_ReadFile :: "host \<Rightarrow> host_path \<Rightarrow> obj_error + bytes" where
  "host_ReadFile h p =
     (case host_stat h p of Inl e \<Rightarrow> Inl e | Inr HostDir \<Rightarrow> Inl ObjIsDir | Inr (HostFile b _) \<Rightarrow> Inr b)"

definition host_children :: "host \<Rightarrow> host_path \<Rightarrow> string list" where
  "host_children h p = map last (filter (\<lambda>q. q \<noteq> [] \<and> butlast q = p) (map fst h))"

definition host_Remove :: "host \<Rightarrow> host_path \<Rightarrow> obj_error option \<times> host" where
  "host_Remove h p =
     (case host_stat h p of
        Inl e \<Rightarrow> (Some e, h)
      | Inr (HostFile _ _) \<Rightarrow> (None, AList.delete p h)
      | Inr HostDir \<Rightarrow> if p = [] \<or> host_children h p \<noteq> [] then (Some ObjNotEmpty, h) else (None, AList.delete p h))"

text \<open>Renaming a file: what is at the new path is replaced, unless it is a directory.\<close>

definition host_Rename :: "host \<Rightarrow> host_path \<Rightarrow> host_path \<Rightarrow> obj_error + host" where
  "host_Rename h p q =
     (case host_node h p of
        None \<Rightarrow> Inl ObjNotExist
      | Some n \<Rightarrow> if host_node h q = Some HostDir then Inl ObjExist else Inr (AList.update q n (AList.delete p h)))"

section \<open>A store in a directory\<close>

fun split_on :: "'a \<Rightarrow> 'a list \<Rightarrow> 'a list list" where
  "split_on c [] = [[]]"
| "split_on c (x # xs) = (if x = c then [] # split_on c xs else case split_on c xs of y # ys \<Rightarrow> (x # y) # ys)"

text \<open>\<^verbatim>\<open>utf8.ValidString\<close>.\<close>

definition continuation :: "char \<Rightarrow> bool" where
  "continuation c \<longleftrightarrow> 128 \<le> (of_char c :: nat) \<and> (of_char c :: nat) < 192"

fun ValidString :: "string \<Rightarrow> bool" where
  "ValidString [] = True"
| "ValidString (c # s) =
     (let b = of_char c :: nat
      in if b < 128 then ValidString s
         else case s of
             [] \<Rightarrow> False
           | c1 # s1 \<Rightarrow>
               let b1 = of_char c1 :: nat
               in if 194 \<le> b \<and> b < 224 then continuation c1 \<and> ValidString s1
                  else case s1 of
                      [] \<Rightarrow> False
                    | c2 # s2 \<Rightarrow>
                        if 224 \<le> b \<and> b < 240
                        then continuation c1 \<and> (b = 224 \<longrightarrow> 160 \<le> b1) \<and> (b = 237 \<longrightarrow> b1 < 160) \<and> continuation c2 \<and> ValidString s2
                        else case s2 of
                            [] \<Rightarrow> False
                          | c3 # s3 \<Rightarrow>
                              240 \<le> b \<and> b < 245 \<and> continuation c1 \<and> (b = 240 \<longrightarrow> 144 \<le> b1) \<and> (b = 244 \<longrightarrow> b1 < 144)
                              \<and> continuation c2 \<and> continuation c3 \<and> ValidString s3)"

definition ValidPath :: "string \<Rightarrow> bool" where
  "ValidPath name \<longleftrightarrow> ValidString name \<and> (name = ''.'' \<or> (\<forall>e\<in>set (split_on slash name). entry_name e))"

definition joinPath :: "host_path \<Rightarrow> string \<Rightarrow> obj_error + host_path" where
  "joinPath store name =
     (let name = path_Clean name
      in if \<not> ValidPath name then Inl (ObjErrorf ''invalid object name: %q'')
         else Inr (if name = ''.'' then store else store @ split_on slash name))"

definition path_split :: "host_path \<Rightarrow> host_path \<times> string" where
  "path_split p = (butlast p, if p = [] then [] else last p)"

definition tags_dir :: string where "tags_dir = ''.tags''"

definition cut_eq :: "bytes \<Rightarrow> tag option" where
  "cut_eq line =
     (if 61 \<in> set line
      then Some \<lparr>tag_Name = bytes_string (takeWhile (\<lambda>x. x \<noteq> 61) line),
             tag_Value = bytes_string (tl (dropWhile (\<lambda>x. x \<noteq> 61) line))\<rparr>
      else None)"

definition readTags :: "host \<Rightarrow> host_path \<Rightarrow> obj_error + tag list" where
  "readTags h p =
     (case host_ReadFile h p of
        Inl e \<Rightarrow> if is_not_exist e then Inr [] else Inl e
      | Inr b \<Rightarrow> Inr (List.map_filter cut_eq (split_on 10 b)))"

text \<open>
  \<^verbatim>\<open>CreateObject\<close> at the time \<open>now\<close>. The name of the temporary file ends in the characters \<open>rnd\<close> that \<^verbatim>\<open>os.CreateTemp\<close>
  chooses so that there is no such file yet. The first part makes the directories and writes the tags.
\<close>

definition create_tags :: "host \<Rightarrow> host_path \<Rightarrow> string \<Rightarrow> tag list \<Rightarrow> int \<Rightarrow> obj_error option \<times> host" where
  "create_tags h dir base tags now =
     (if tags = [] then (None, h)
      else if \<not> (\<forall>t\<in>set tags. validTag t) then (Some (ObjErrorf ''invalid tag: %q=%q''), h)
      else case (case host_Mkdir h (dir @ [tags_dir]) of Inl ObjExist \<Rightarrow> Inr h | r \<Rightarrow> r) of
             Inl e \<Rightarrow> (Some e, h)
           | Inr h \<Rightarrow>
               (case (case host_stat h (dir @ [tags_dir, base]) of Inl ObjNotDir \<Rightarrow> Inl ObjNotDir
                        | _ \<Rightarrow> host_WriteFile h (dir @ [tags_dir, base]) (AppendTags [] tags) now) of
                  Inl e \<Rightarrow> (Some e, h)
                | Inr h \<Rightarrow> (None, h)))"

definition create_file ::
  "host \<Rightarrow> host_path \<Rightarrow> string \<Rightarrow> obj_data \<Rightarrow> tag list \<Rightarrow> int \<Rightarrow> string \<Rightarrow> obj_error option \<times> host"
where
  "create_file h dir base data tags now rnd =
     (let tmp = dir @ [''.'' @ base @ ''.'' @ rnd];
          undo = (\<lambda>h. let h = snd (host_Remove h tmp) in if tags \<noteq> [] then snd (host_Remove h (dir @ [tags_dir, base])) else h);
          h = AList.update tmp (HostFile (fst data) now) h
      in case snd data of
           Some e \<Rightarrow> (Some e, undo h)
         | None \<Rightarrow>
             (case host_Rename h tmp (dir @ [base]) of
                Inl e \<Rightarrow> (Some e, undo h)
              | Inr h \<Rightarrow> (None, h)))"

definition dirStore_CreateObject ::
  "host_path \<Rightarrow> int \<Rightarrow> string \<Rightarrow> string \<Rightarrow> obj_data \<Rightarrow> tag list \<Rightarrow> host \<Rightarrow> obj_error option \<times> host"
where
  "dirStore_CreateObject store now rnd name data tags h =
     (case joinPath store name of
        Inl e \<Rightarrow> (Some e, h)
      | Inr p \<Rightarrow>
          let (dir, base) = path_split p
          in if take 1 base = ''.'' then (Some (ObjErrorf ''object names cannot start with a dot: %s''), h)
             else case MkdirAll h dir of
                    Inl e \<Rightarrow> (Some e, h)
                  | Inr h \<Rightarrow>
                      (case create_tags h dir base tags now of
                         (Some e, h) \<Rightarrow> (Some e, h)
                       | (None, h) \<Rightarrow> create_file h dir base data tags now rnd))"

definition dirStore_ReadObject :: "host_path \<Rightarrow> string \<Rightarrow> host \<Rightarrow> obj_error + obj_reader" where
  "dirStore_ReadObject store name h =
     (case joinPath store name of
        Inl e \<Rightarrow> Inl e
      | Inr p \<Rightarrow>
          (case host_stat h p of
             Inl e \<Rightarrow> Inl e
           | Inr HostDir \<Rightarrow> Inr ObjDirectory
           | Inr (HostFile b _) \<Rightarrow> Inr (ObjContent b)))"

definition dirStore_StatObject :: "host_path \<Rightarrow> string \<Rightarrow> host \<Rightarrow> obj_error + object_info" where
  "dirStore_StatObject store name h =
     (case joinPath store name of
        Inl e \<Rightarrow> Inl e
      | Inr p \<Rightarrow>
          (case host_stat h p of
             Inl e \<Rightarrow> Inl e
           | Inr HostDir \<Rightarrow> Inl ObjNotExist
           | Inr (HostFile b t) \<Rightarrow>
               let (dir, base) = path_split p
               in case readTags h (dir @ [tags_dir, base]) of
                    Inl e \<Rightarrow> Inl e
                  | Inr tags \<Rightarrow> Inr \<lparr>oi_Name = name, oi_Size = int (length b), oi_CreatedAt = t, oi_Tags = tags\<rparr>))"

definition obj_remove :: "host \<Rightarrow> host_path \<Rightarrow> obj_error option \<times> host" where
  "obj_remove h p =
     (case host_Remove h p of
        (Some e, h) \<Rightarrow> if is_not_exist e then (None, h) else (Some e, h)
      | r \<Rightarrow> r)"

definition dirStore_DeleteObject :: "host_path \<Rightarrow> string \<Rightarrow> host \<Rightarrow> obj_error option \<times> host" where
  "dirStore_DeleteObject store name h =
     (case joinPath store name of
        Inl e \<Rightarrow> (Some e, h)
      | Inr p \<Rightarrow>
          (case obj_remove h p of
             (Some e, h) \<Rightarrow> (Some e, h)
           | (None, h) \<Rightarrow> let (dir, base) = path_split p in obj_remove h (dir @ [tags_dir, base])))"

section \<open>Listing a directory\<close>

text \<open>\<open>dr_time\<close> are the times at which directories were modified, which the model does not follow.\<close>

record list_reader =
  dr_dir :: host_path
  dr_time :: "host_path \<Rightarrow> int"
  dr_path :: string
  dr_prefix :: string
  dr_filters :: "obj_filter list"
  dr_rest :: "string list"

text \<open>An entry: \<open>None\<close> if it is not shown.\<close>

definition dir_entry_info :: "host \<Rightarrow> list_reader \<Rightarrow> string \<Rightarrow> obj_error + object_info option" where
  "dir_entry_info h r name =
     (if take 1 name = ''.'' \<or> take (length (dr_prefix r)) name \<noteq> dr_prefix r then Inr None
      else case host_node h (dr_dir r @ [name]) of
             None \<Rightarrow> Inl ObjNotExist
           | Some HostDir \<Rightarrow>
               let info = \<lparr>oi_Name = path_Join (dr_path r) name @ ''/'', oi_Size = 0, oi_CreatedAt = dr_time r (dr_dir r @ [name]),
                 oi_Tags = []\<rparr>
               in Inr (if MatchAll info (dr_filters r) then Some info else None)
           | Some (HostFile b t) \<Rightarrow>
               (case readTags h (dr_dir r @ [tags_dir, name]) of
                  Inl e \<Rightarrow> Inl e
                | Inr tags \<Rightarrow>
                    let info = \<lparr>oi_Name = path_Join (dr_path r) name, oi_Size = int (length b), oi_CreatedAt = t, oi_Tags = tags\<rparr>
                    in Inr (if MatchAll info (dr_filters r) then Some info else None)))"

text \<open>The entries of one call of \<^verbatim>\<open>ReadDir\<close>.\<close>

fun dir_entries :: "host \<Rightarrow> list_reader \<Rightarrow> string list \<Rightarrow> object_info list \<times> obj_error option" where
  "dir_entries h r [] = ([], None)"
| "dir_entries h r (name # names) =
     (case dir_entry_info h r name of
        Inl e \<Rightarrow> ([], Some e)
      | Inr info \<Rightarrow>
          let (infos, err) = dir_entries h r names
          in ((case info of None \<Rightarrow> infos | Some i \<Rightarrow> i # infos), err))"

text \<open>The loop of \<^verbatim>\<open>Read\<close> into a buffer for \<open>n\<close> infos; \<^verbatim>\<open>ReadDir\<close> ends with \<^verbatim>\<open>io.EOF\<close>.\<close>

function dirReader_Read :: "host \<Rightarrow> list_reader \<Rightarrow> nat \<Rightarrow> (object_info list \<times> obj_error option) \<times> list_reader" where
  "dirReader_Read h r n =
     (if n = 0 then (([], None), r)
      else if dr_rest r = [] then (([], Some (ObjStream EOF)), r)
      else let names = take n (dr_rest r); r = r\<lparr>dr_rest := drop n (dr_rest r)\<rparr>
           in case dir_entries h r names of
                (infos, Some e) \<Rightarrow> ((infos, Some e), r)
              | (infos, None) \<Rightarrow>
                  let ((more, err), r) = dirReader_Read h r (n - length infos) in ((infos @ more, err), r))"
  by auto
termination
  by (relation "measure (\<lambda>(h, r, n). length (dr_rest r))") auto

declare dirReader_Read.simps [simp del]

definition dirStore_open_list ::
  "host_path \<Rightarrow> (host_path \<Rightarrow> int) \<Rightarrow> string \<Rightarrow> obj_filter list \<Rightarrow> host \<Rightarrow> obj_error + list_reader option"
where
  "dirStore_open_list store dirtime prefix filters h =
     (let (dir, base) = (if prefix = ''.'' \<or> last (CHR ''x'' # prefix) = slash then (prefix, [])
                         else (rev (dropWhile (\<lambda>c. c \<noteq> slash) (rev prefix)), rev (takeWhile (\<lambda>c. c \<noteq> slash) (rev prefix))))
      in case joinPath store dir of
           Inl e \<Rightarrow> Inl e
         | Inr p \<Rightarrow>
             (case host_stat h p of
                Inl e \<Rightarrow> if is_not_exist e then Inr None else Inl e
              | Inr (HostFile _ _) \<Rightarrow> Inl ObjNotDir
              | Inr HostDir \<Rightarrow> Inr (Some \<lparr>dr_dir = p, dr_time = dirtime, dr_path = dir, dr_prefix = base, dr_filters = filters, dr_rest = host_children h p\<rparr>)))"

text \<open>What a client gets that reads the list to its end, or to an error.\<close>

definition dirStore_ListObjects ::
  "host_path \<Rightarrow> (host_path \<Rightarrow> int) \<Rightarrow> string \<Rightarrow> obj_filter list \<Rightarrow> host \<Rightarrow> object_info list \<times> obj_error option"
where
  "dirStore_ListObjects store dirtime prefix filters h =
     (case dirStore_open_list store dirtime prefix filters h of
        Inl e \<Rightarrow> ([], Some e)
      | Inr None \<Rightarrow> ([], None)
      | Inr (Some r) \<Rightarrow> dir_entries h r (dr_rest r))"

definition dirStore :: "host_path \<Rightarrow> (host_path \<Rightarrow> int) \<Rightarrow> int \<Rightarrow> string \<Rightarrow> host obj_store" where
  "dirStore store dirtime now rnd =
     \<lparr>CreateObject = dirStore_CreateObject store now rnd, ReadObject = dirStore_ReadObject store,
      StatObject = dirStore_StatObject store, ListObjects = dirStore_ListObjects store dirtime,
      DeleteObject = dirStore_DeleteObject store\<rparr>"

end
