(* ===== verification/Registry.thy ===== *)
theory Registry
  imports Object_Store Log_Reader "HOL-Library.List_Lexorder" "HOL-Library.Char_ord"
begin

text \<open>
  The registry (\<^verbatim>\<open>internal/timemachine/registry.go\<close>, \<^verbatim>\<open>hash.go\<close>, with the hashes and descriptors of \<^verbatim>\<open>format/timecraft.go\<close>):
  objects under the hash of their content and tags, and the logs of processes, in an object store. Parameters are the
  hash function, the encoding of values, the text of UUIDs and times, and the parts of profiles that a library writes.
\<close>

section \<open>Hashes and descriptors\<close>

record hash =
  hash_Algorithm :: string
  hash_Digest :: string

definition hex_digit :: "nat \<Rightarrow> char" where
  "hex_digit n = char_of (if n < 10 then 48 + n else 87 + n)"

definition hex_encode :: "bytes \<Rightarrow> string" where
  "hex_encode b = concat (map (\<lambda>x. [hex_digit (unat x div 16), hex_digit (unat x mod 16)]) b)"

definition SHA256 :: "(bytes \<Rightarrow> bytes) \<Rightarrow> bytes \<Rightarrow> hash" where
  "SHA256 sha b = \<lparr>hash_Algorithm = ''sha256'', hash_Digest = hex_encode (sha b)\<rparr>"

definition ParseHash :: "string \<Rightarrow> hash" where
  "ParseHash s =
     (if CHR '':'' \<in> set s
      then \<lparr>hash_Algorithm = takeWhile (\<lambda>c. c \<noteq> CHR '':'') s, hash_Digest = tl (dropWhile (\<lambda>c. c \<noteq> CHR '':'') s)\<rparr>
      else \<lparr>hash_Algorithm = ''sha256'', hash_Digest = s\<rparr>)"

definition hash_String :: "hash \<Rightarrow> string" where
  "hash_String h = hash_Algorithm h @ '':'' @ hash_Digest h"

definition hash_Short :: "hash \<Rightarrow> string" where
  "hash_Short h = take 12 (hash_Digest h)"

definition TypeTimecraftRuntime :: string where "TypeTimecraftRuntime = ''application/vnd.timecraft.runtime.v1+json''"
definition TypeTimecraftConfig :: string where "TypeTimecraftConfig = ''application/vnd.timecraft.config.v1+json''"
definition TypeTimecraftProcess :: string where "TypeTimecraftProcess = ''application/vnd.timecraft.process.v1+json''"
definition TypeTimecraftProfile :: string where "TypeTimecraftProfile = ''application/vnd.timecraft.profile.v1+pprof''"
definition TypeTimecraftModule :: string where "TypeTimecraftModule = ''application/vnd.timecraft.module.v1+wasm''"

text \<open>Maps from names to values, with the names once each. The field \<open>URLs\<close> of a descriptor, which nothing here sets, is left out.\<close>

type_synonym annotations = "(string \<times> string) list"

record Descriptor =
  desc_MediaType :: string
  desc_Digest :: hash
  desc_Size :: int
  desc_Annotations :: annotations

section \<open>Tags\<close>

text \<open>The fields of a \<^verbatim>\<open>Registry\<close> besides the store.\<close>

record registry =
  reg_CreateTags :: "tag list"
  reg_SelectTags :: "tag list"

definition mediatype_tag :: string where "mediatype_tag = ''timecraft.object.mediatype''"

definition appendTagFilters :: "obj_filter list \<Rightarrow> tag list \<Rightarrow> obj_filter list" where
  "appendTagFilters filters tags = filters @ map (\<lambda>t. MATCH (tag_Name t) (tag_Value t)) tags"

definition assignTags :: "annotations \<Rightarrow> tag list \<Rightarrow> annotations" where
  "assignTags ann tags = fold (\<lambda>t. AList.update (tag_Name t) (tag_Value t)) tags ann"

definition makeTags :: "annotations \<Rightarrow> tag list" where
  "makeTags ann = sort_key tag_Name (map (\<lambda>(name, value). \<lparr>tag_Name = name, tag_Value = value\<rparr>) ann)"

definition hashTags :: "(bytes \<Rightarrow> bytes) \<Rightarrow> bytes \<Rightarrow> tag list \<Rightarrow> hash" where
  "hashTags sha data tags = \<lparr>hash_Algorithm = ''sha256'', hash_Digest = hex_encode (sha (data @ AppendTags [] tags))\<rparr>"

section \<open>Objects\<close>

definition objectKey :: "hash \<Rightarrow> string" where
  "objectKey h = ''obj/'' @ hash_String h"

definition createObject ::
  "'s obj_store \<Rightarrow> (bytes \<Rightarrow> bytes) \<Rightarrow> registry \<Rightarrow> obj_error + bytes \<Rightarrow> string \<Rightarrow> tag list \<Rightarrow> 's \<Rightarrow> (obj_error + Descriptor) \<times> 's"
where
  "createObject S sha reg marshalled mediaType extraTags s =
     (case marshalled of
        Inl e \<Rightarrow> (Inl e, s)
      | Inr data \<Rightarrow>
          let ann = assignTags (assignTags (assignTags [] (reg_CreateTags reg)) extraTags)
                [\<lparr>tag_Name = mediatype_tag, tag_Value = mediaType\<rparr>];
              tags = makeTags ann;
              hash = hashTags sha data tags;
              name = objectKey hash;
              desc = \<lparr>desc_MediaType = mediaType, desc_Digest = hash, desc_Size = int (length data), desc_Annotations = ann\<rparr>
          in case StatObject S name s of
               Inr _ \<Rightarrow> (Inr desc, s)
             | Inl e \<Rightarrow>
                 if \<not> is_not_exist e then (Inl (ObjWrap ''create object: %s: %s: %w'' e), s)
                 else case CreateObject S name (data, None) tags s of
                        (Some e, s) \<Rightarrow> (Inl (ObjWrap ''create object: %s: %s: %w'' e), s)
                      | (None, s) \<Rightarrow> (Inr desc, s))"

definition lookupObject ::
  "'s obj_store \<Rightarrow> hash \<Rightarrow> (bytes \<Rightarrow> obj_error + 'v) \<Rightarrow> 's \<Rightarrow> obj_error + 'v"
where
  "lookupObject S hash unmarshal s =
     (let wrapped = (\<lambda>e. Inl (ObjWrap ''lookup object: %s: %s: %w'' e))
      in if hash_Algorithm hash \<noteq> ''sha256'' \<or> length (hash_Digest hash) \<noteq> 64 then wrapped ObjNotExist
         else case ReadObject S (objectKey hash) s of
                Inl e \<Rightarrow> wrapped e
              | Inr ObjDirectory \<Rightarrow> wrapped ObjIsDir
              | Inr (ObjContent b) \<Rightarrow> (case unmarshal b of Inl e \<Rightarrow> wrapped e | Inr v \<Rightarrow> Inr v))"

definition newDescriptor :: "object_info \<Rightarrow> Descriptor" where
  "newDescriptor info =
     (let ann = assignTags [] (oi_Tags info)
      in \<lparr>desc_MediaType = (case map_of ann mediatype_tag of None \<Rightarrow> [] | Some t \<Rightarrow> t),
          desc_Digest = ParseHash (path_Base (oi_Name info)), desc_Size = oi_Size info,
          desc_Annotations = AList.delete mediatype_tag ann\<rparr>)"

text \<open>The key that a prefix of a digest stands for: the loop over the list of the objects with the prefix.\<close>

definition prefix_key :: "'s obj_store \<Rightarrow> string \<Rightarrow> 's \<Rightarrow> obj_error + string" where
  "prefix_key S key s =
     (case ListObjects S key [] s of
        (infos, err) \<Rightarrow>
          if 1 < length infos
          then Inl (ObjWrap ''lookup descriptor: %s: %w'' (ObjErrorf ''too many objects match the key prefix''))
          else (case err of Some e \<Rightarrow> Inl e | None \<Rightarrow> Inr (case infos of [] \<Rightarrow> key | info # _ \<Rightarrow> oi_Name info)))"

definition lookupDescriptor :: "'s obj_store \<Rightarrow> hash \<Rightarrow> 's \<Rightarrow> obj_error + Descriptor" where
  "lookupDescriptor S hash s =
     (let wrapped = (\<lambda>e. Inl (ObjWrap ''lookup descriptor: %s: %w'' e));
          stat = (\<lambda>hash. case StatObject S (objectKey hash) s of Inl e \<Rightarrow> wrapped e | Inr info \<Rightarrow> Inr (newDescriptor info))
      in if hash_Algorithm hash \<noteq> ''sha256'' \<or> 64 < length (hash_Digest hash) then wrapped ObjNotExist
         else if length (hash_Digest hash) < 64
         then case prefix_key S (objectKey hash) s of
                Inl e \<Rightarrow> Inl e
              | Inr key \<Rightarrow> stat (ParseHash (path_Base key))
         else stat hash)"

text \<open>A range of times; \<open>zero_time\<close> is the zero value of \<^verbatim>\<open>time.Time\<close>.\<close>

record TimeRange =
  tr_Start :: int
  tr_End :: int

definition listObjects ::
  "'s obj_store \<Rightarrow> int \<Rightarrow> registry \<Rightarrow> string \<Rightarrow> TimeRange \<Rightarrow> tag list \<Rightarrow> 's \<Rightarrow> Descriptor list \<times> obj_error option"
where
  "listObjects S zero_time reg mediaType timeRange matchTags s =
     (let start = (if tr_Start timeRange \<noteq> zero_time then tr_Start timeRange - 1 else tr_Start timeRange);
          filters = [MATCH mediatype_tag mediaType, AFTER start, BEFORE (tr_End timeRange)];
          filters = appendTagFilters filters (reg_SelectTags reg);
          filters = appendTagFilters filters matchTags
      in apfst (map newDescriptor) (ListObjects S ''obj/'' filters s))"

text \<open>\<^verbatim>\<open>CreateModule\<close>, \<^verbatim>\<open>LookupModule\<close> and \<^verbatim>\<open>ListModules\<close>: the code of a module is its own encoding.\<close>

definition CreateModule ::
  "'s obj_store \<Rightarrow> (bytes \<Rightarrow> bytes) \<Rightarrow> registry \<Rightarrow> bytes \<Rightarrow> tag list \<Rightarrow> 's \<Rightarrow> (obj_error + Descriptor) \<times> 's"
where
  "CreateModule S sha reg code tags s = createObject S sha reg (Inr code) TypeTimecraftModule tags s"

definition LookupModule :: "'s obj_store \<Rightarrow> hash \<Rightarrow> 's \<Rightarrow> obj_error + bytes" where
  "LookupModule S hash s = lookupObject S hash Inr s"

definition ListModules ::
  "'s obj_store \<Rightarrow> int \<Rightarrow> registry \<Rightarrow> TimeRange \<Rightarrow> tag list \<Rightarrow> 's \<Rightarrow> Descriptor list \<times> obj_error option"
where
  "ListModules S zero_time reg timeRange tags s = listObjects S zero_time reg TypeTimecraftModule timeRange tags s"

text \<open>The other kinds of values are encoded by \<^verbatim>\<open>encoding/json\<close>, whose functions are arguments.\<close>

definition CreateRuntime ::
  "'s obj_store \<Rightarrow> (bytes \<Rightarrow> bytes) \<Rightarrow> registry \<Rightarrow> ('v \<Rightarrow> obj_error + bytes) \<Rightarrow> 'v \<Rightarrow> tag list \<Rightarrow> 's \<Rightarrow> (obj_error + Descriptor) \<times> 's"
where
  "CreateRuntime S sha reg json v tags s = createObject S sha reg (json v) TypeTimecraftRuntime tags s"

definition CreateConfig ::
  "'s obj_store \<Rightarrow> (bytes \<Rightarrow> bytes) \<Rightarrow> registry \<Rightarrow> ('v \<Rightarrow> obj_error + bytes) \<Rightarrow> 'v \<Rightarrow> tag list \<Rightarrow> 's \<Rightarrow> (obj_error + Descriptor) \<times> 's"
where
  "CreateConfig S sha reg json v tags s = createObject S sha reg (json v) TypeTimecraftConfig tags s"

definition CreateProcess ::
  "'s obj_store \<Rightarrow> (bytes \<Rightarrow> bytes) \<Rightarrow> registry \<Rightarrow> ('v \<Rightarrow> obj_error + bytes) \<Rightarrow> 'v \<Rightarrow> tag list \<Rightarrow> 's \<Rightarrow> (obj_error + Descriptor) \<times> 's"
where
  "CreateProcess S sha reg json v tags s = createObject S sha reg (json v) TypeTimecraftProcess tags s"

definition LookupRuntime :: "'s obj_store \<Rightarrow> (bytes \<Rightarrow> obj_error + 'v) \<Rightarrow> hash \<Rightarrow> 's \<Rightarrow> obj_error + 'v" where
  "LookupRuntime S unmarshal hash s = lookupObject S hash unmarshal s"

definition LookupConfig :: "'s obj_store \<Rightarrow> (bytes \<Rightarrow> obj_error + 'v) \<Rightarrow> hash \<Rightarrow> 's \<Rightarrow> obj_error + 'v" where
  "LookupConfig S unmarshal hash s = lookupObject S hash unmarshal s"

definition LookupProcess :: "'s obj_store \<Rightarrow> (bytes \<Rightarrow> obj_error + 'v) \<Rightarrow> hash \<Rightarrow> 's \<Rightarrow> obj_error + 'v" where
  "LookupProcess S unmarshal hash s = lookupObject S hash unmarshal s"

definition LookupDescriptor :: "'s obj_store \<Rightarrow> hash \<Rightarrow> 's \<Rightarrow> obj_error + Descriptor" where
  "LookupDescriptor S hash s = lookupDescriptor S hash s"

definition LookupResource :: "'s obj_store \<Rightarrow> hash \<Rightarrow> 's \<Rightarrow> obj_error + obj_reader" where
  "LookupResource S hash s = ReadObject S (objectKey hash) s"

definition ListRuntimes ::
  "'s obj_store \<Rightarrow> int \<Rightarrow> registry \<Rightarrow> TimeRange \<Rightarrow> tag list \<Rightarrow> 's \<Rightarrow> Descriptor list \<times> obj_error option"
where
  "ListRuntimes S zero_time reg timeRange tags s = listObjects S zero_time reg TypeTimecraftRuntime timeRange tags s"

definition ListConfigs ::
  "'s obj_store \<Rightarrow> int \<Rightarrow> registry \<Rightarrow> TimeRange \<Rightarrow> tag list \<Rightarrow> 's \<Rightarrow> Descriptor list \<times> obj_error option"
where
  "ListConfigs S zero_time reg timeRange tags s = listObjects S zero_time reg TypeTimecraftConfig timeRange tags s"

definition ListProcesses ::
  "'s obj_store \<Rightarrow> int \<Rightarrow> registry \<Rightarrow> TimeRange \<Rightarrow> tag list \<Rightarrow> 's \<Rightarrow> Descriptor list \<times> obj_error option"
where
  "ListProcesses S zero_time reg timeRange tags s = listObjects S zero_time reg TypeTimecraftProcess timeRange tags s"

definition ListResources ::
  "'s obj_store \<Rightarrow> int \<Rightarrow> registry \<Rightarrow> string \<Rightarrow> TimeRange \<Rightarrow> tag list \<Rightarrow> 's \<Rightarrow> Descriptor list \<times> obj_error option"
where
  "ListResources S zero_time reg mediaType timeRange tags s = listObjects S zero_time reg mediaType timeRange tags s"

section \<open>Profiles\<close>

definition HashProfile :: "(bytes \<Rightarrow> bytes) \<Rightarrow> bytes \<Rightarrow> string \<Rightarrow> TimeRange \<Rightarrow> hash" where
  "HashProfile sha processID profileType timeRange =
     SHA256 sha (go_copy (replicate 16 0) processID @ le64 (word_of_int (tr_Start timeRange)) @ le64 (word_of_int (tr_End timeRange))
       @ string_bytes profileType)"

text \<open>What the library gives for a profile: the bytes it writes, or its error, the time and the duration.\<close>

record profile =
  prof_written :: "obj_error + bytes"
  prof_TimeNanos :: int
  prof_DurationNanos :: int

text \<open>The texts of a UUID, and of a time in the format \<^verbatim>\<open>RFC3339Nano\<close>.\<close>

record formats =
  uuid_String :: "bytes \<Rightarrow> string"
  rfc3339 :: "int \<Rightarrow> string"

definition CreateProfile ::
  "'s obj_store \<Rightarrow> (bytes \<Rightarrow> bytes) \<Rightarrow> formats \<Rightarrow> registry \<Rightarrow> bytes \<Rightarrow> string \<Rightarrow> profile \<Rightarrow> 's \<Rightarrow> (obj_error + Descriptor) \<times> 's"
where
  "CreateProfile S sha F reg processID profileType prof s =
     (case prof_written prof of
        Inl e \<Rightarrow> (Inl e, s)
      | Inr buffer \<Rightarrow>
          let timeRange = \<lparr>tr_Start = prof_TimeNanos prof,
                tr_End = wrap (Signed 64) (prof_TimeNanos prof + prof_DurationNanos prof)\<rparr>;
              ann = assignTags (assignTags [] (reg_CreateTags reg))
                [\<lparr>tag_Name = mediatype_tag, tag_Value = TypeTimecraftProfile\<rparr>,
                 \<lparr>tag_Name = ''timecraft.process.id'', tag_Value = uuid_String F processID\<rparr>,
                 \<lparr>tag_Name = ''timecraft.profile.type'', tag_Value = profileType\<rparr>,
                 \<lparr>tag_Name = ''timecraft.profile.start'', tag_Value = rfc3339 F (tr_Start timeRange)\<rparr>,
                 \<lparr>tag_Name = ''timecraft.profile.end'', tag_Value = rfc3339 F (tr_End timeRange)\<rparr>];
              hash = HashProfile sha processID profileType timeRange;
              desc = \<lparr>desc_MediaType = TypeTimecraftProfile, desc_Digest = hash, desc_Size = int (length buffer), desc_Annotations = ann\<rparr>
          in case CreateObject S (objectKey hash) (buffer, None) (makeTags ann) s of
               (Some e, s) \<Rightarrow> (Inl e, s)
             | (None, s) \<Rightarrow> (Inr desc, s))"

definition LookupProfile :: "'s obj_store \<Rightarrow> (bytes \<Rightarrow> obj_error + 'v) \<Rightarrow> hash \<Rightarrow> 's \<Rightarrow> obj_error + 'v" where
  "LookupProfile S parse hash s =
     (case ReadObject S (objectKey hash) s of
        Inl e \<Rightarrow> Inl e
      | Inr ObjDirectory \<Rightarrow> Inl ObjIsDir
      | Inr (ObjContent b) \<Rightarrow> parse b)"

section \<open>Logs of processes\<close>

record LogSegment =
  seg_Number :: int
  seg_Size :: int
  seg_CreatedAt :: int

record Manifest =
  mf_ProcessID :: bytes
  mf_StartTime :: int
  mf_Process :: "Descriptor option"
  mf_Segments :: "LogSegment list"

text \<open>\<^verbatim>\<open>%08X\<close>: the digits, in upper case, with zeros in front to a width of eight; the sign counts.\<close>

function hex_upper :: "nat \<Rightarrow> string" where
  "hex_upper n = (let d = char_of (if n mod 16 < 10 then 48 + n mod 16 else 55 + n mod 16) in if n < 16 then [d] else hex_upper (n div 16) @ [d])"
  by auto
termination
  by (relation "measure id") auto

declare hex_upper.simps [simp del]

definition format_08X :: "int \<Rightarrow> string" where
  "format_08X n =
     (let digits = hex_upper (nat \<bar>n\<bar>); width = (if n < 0 then 7 else 8)
      in (if n < 0 then ''-'' else []) @ replicate (width - length digits) (CHR ''0'') @ digits)"

definition hex_value :: "char \<Rightarrow> nat option" where
  "hex_value c =
     (let n = of_char c :: nat
      in if 48 \<le> n \<and> n < 58 then Some (n - 48)
         else if 97 \<le> n \<and> n < 103 then Some (n - 87)
         else if 65 \<le> n \<and> n < 71 then Some (n - 55)
         else None)"

text \<open>\<^verbatim>\<open>strconv.ParseInt(s, 16, 32)\<close>; \<open>None\<close> is an error.\<close>

fun hex_number :: "nat \<Rightarrow> string \<Rightarrow> nat option" where
  "hex_number acc [] = Some acc"
| "hex_number acc (c # s) = (case hex_value c of None \<Rightarrow> None | Some d \<Rightarrow> hex_number (16 * acc + d) s)"

definition ParseInt_hex32 :: "string \<Rightarrow> int option" where
  "ParseInt_hex32 s =
     (let neg = (take 1 s = ''-''); digits = (if take 1 s = ''-'' \<or> take 1 s = ''+'' then drop 1 s else s)
      in if digits = [] then None
         else case hex_number 0 digits of
                None \<Rightarrow> None
              | Some n \<Rightarrow> if neg then if n \<le> 2 ^ 31 then Some (- int n) else None else if n < 2 ^ 31 then Some (int n) else None)"

definition logKey :: "formats \<Rightarrow> bytes \<Rightarrow> int \<Rightarrow> string" where
  "logKey F processID segmentNumber = ''log/'' @ uuid_String F processID @ ''/data/'' @ format_08X segmentNumber"

definition manifestKey :: "formats \<Rightarrow> bytes \<Rightarrow> string" where
  "manifestKey F processID = ''log/'' @ uuid_String F processID @ ''/manifest.json''"

definition CreateLogManifest ::
  "'s obj_store \<Rightarrow> formats \<Rightarrow> (Manifest \<Rightarrow> obj_error + bytes) \<Rightarrow> bytes \<Rightarrow> Manifest \<Rightarrow> 's \<Rightarrow> obj_error option \<times> 's"
where
  "CreateLogManifest S F json processID manifest s =
     (case json manifest of
        Inl e \<Rightarrow> (Some e, s)
      | Inr b \<Rightarrow> CreateObject S (manifestKey F processID) (b, None) [] s)"

fun log_segments :: "object_info list \<Rightarrow> LogSegment list \<times> obj_error option" where
  "log_segments [] = ([], None)"
| "log_segments (info # infos) =
     (case ParseInt_hex32 (path_Base (oi_Name info)) of
        None \<Rightarrow> ([], Some (ObjErrorf ''invalid log segment entry: %q''))
      | Some n \<Rightarrow>
          if n < 0 then ([], Some (ObjErrorf ''invalid log segment entry: %q''))
          else apfst ((#) \<lparr>seg_Number = n, seg_Size = oi_Size info, seg_CreatedAt = oi_CreatedAt info\<rparr>) (log_segments infos))"

definition ListLogSegments :: "'s obj_store \<Rightarrow> formats \<Rightarrow> bytes \<Rightarrow> 's \<Rightarrow> LogSegment list \<times> obj_error option" where
  "ListLogSegments S F processID s =
     (case ListObjects S (''log/'' @ uuid_String F processID @ ''/data/'') [] s of
        (infos, err) \<Rightarrow>
          (case log_segments infos of
             (segments, Some e) \<Rightarrow> (segments, Some e)
           | (segments, None) \<Rightarrow> (segments, err)))"

definition no_log_records :: "obj_error \<Rightarrow> obj_error" where
  "no_log_records e = (if is_not_exist e then ObjWrap ''%w: %s'' ObjNoLogRecords else e)"

definition LookupLogManifest ::
  "'s obj_store \<Rightarrow> formats \<Rightarrow> (bytes \<Rightarrow> obj_error + Manifest) \<Rightarrow> bytes \<Rightarrow> 's \<Rightarrow> obj_error + Manifest"
where
  "LookupLogManifest S F unmarshal processID s =
     (case ReadObject S (manifestKey F processID) s of
        Inl e \<Rightarrow> Inl (no_log_records e)
      | Inr ObjDirectory \<Rightarrow> Inl ObjIsDir
      | Inr (ObjContent b) \<Rightarrow>
          (case unmarshal b of
             Inl e \<Rightarrow> Inl e
           | Inr m \<Rightarrow>
               (case ListLogSegments S F processID s of
                  (segments, Some e) \<Rightarrow> Inl e
                | (segments, None) \<Rightarrow>
                    Inr (m\<lparr>mf_ProcessID := processID, mf_Segments := sort_key seg_Number segments\<rparr>))))"

definition ReadLogSegment :: "'s obj_store \<Rightarrow> formats \<Rightarrow> bytes \<Rightarrow> int \<Rightarrow> 's \<Rightarrow> obj_error + obj_reader" where
  "ReadLogSegment S F processID segmentNumber s =
     (case ReadObject S (logKey F processID segmentNumber) s of Inl e \<Rightarrow> Inl (no_log_records e) | Inr r \<Rightarrow> Inr r)"

section \<open>Looking up a record\<close>

text \<open>Going through the records that an iterator has read: the offset after them, or the end of the search.\<close>

datatype record_scan = Scanned int | Found Record | Missed

fun scan_records :: "int \<Rightarrow> int \<Rightarrow> Record list \<Rightarrow> record_scan" where
  "scan_records offset o' [] = Scanned o'"
| "scan_records offset o' (r # rs) =
     (if o' < offset then scan_records offset (wrap (Signed 64) (o' + 1)) rs
      else if offset < o' then Missed
      else Found \<lparr>Record_Offset = o', Record_Time = Record_Time r, Record_FunctionID = Record_FunctionID r,
             Record_FunctionCall = Record_FunctionCall r\<rparr>)"

text \<open>
  The iterator over a batch reads 256 records at a time, until the batch gives an error, which nobody looks at:
  \<^verbatim>\<open>it.Err\<close> is not called.
\<close>

partial_function (option) scan_batch ::
  "libraries \<Rightarrow> (log_panic, byte, 's) read_method \<Rightarrow> int \<Rightarrow> int \<Rightarrow> 's LogReader \<Rightarrow> (log_panic, record_scan, 's LogReader) call"
where
  "scan_batch L rd offset o' r =
     bind_call (RecordBatch_Read L rd (lr_batch r) (lr_input r) 256) (\<lambda>(b, i). r\<lparr>lr_batch := b, lr_input := i\<rparr>)
       (\<lambda>(records, err) (b, i).
          let r = r\<lparr>lr_batch := b, lr_input := i\<rparr>
          in case scan_records offset o' records of
               Scanned o' \<Rightarrow> if err \<noteq> None then returns (Scanned o') r else scan_batch L rd offset o' r
             | found \<Rightarrow> returns found r)"

text \<open>The loop over the batches, for a context that is not done: \<^verbatim>\<open>ctx.Err()\<close> is \<^verbatim>\<open>nil\<close>.\<close>

partial_function (option) LookupRecord_loop ::
  "libraries \<Rightarrow> (log_panic, byte, 's) read_method \<Rightarrow> 's seek_method \<Rightarrow> int \<Rightarrow> 's LogReader
   \<Rightarrow> (log_panic, obj_error + Record, 's LogReader) call"
where
  "LookupRecord_loop L rd sk offset r =
     bind_call (ReadRecordBatch L rd sk r) id (\<lambda>err r.
       case err of
         Some e \<Rightarrow> if e = EOF then returns (Inl ObjNotExist) r else returns (Inr Record_zero) r
       | None \<Rightarrow> with_fields L (lr_batch r) r (\<lambda>m.
           bind_call (scan_batch L rd offset (fb_FirstOffset m) r) id (\<lambda>found r.
             case found of
               Scanned _ \<Rightarrow> LookupRecord_loop L rd sk offset r
             | Found record \<Rightarrow> returns (Inr record) r
             | Missed \<Rightarrow> returns (Inl (ObjErrorf ''requested offset was missed'')) r)))"

text \<open>The file of the segment delivers its bytes in reads of the sizes \<open>delivery\<close>.\<close>

definition LookupRecord ::
  "'s obj_store \<Rightarrow> formats \<Rightarrow> libraries \<Rightarrow> nat list \<Rightarrow> Manifest \<Rightarrow> int \<Rightarrow> 's
   \<Rightarrow> ((log_panic, obj_error + Record) outcome) option"
where
  "LookupRecord S F L delivery process offset s =
     (case ReadLogSegment S F (mf_ProcessID process) 0 s of
        Inl e \<Rightarrow> Some (Return (Inl e))
      | Inr ObjDirectory \<Rightarrow> Some (Return (Inr Record_zero))
      | Inr (ObjContent content) \<Rightarrow>
          map_option fst (LookupRecord_loop L file_Read file_Seek offset
            (NewLogReader \<lparr>file_content = content, file_pos = 0, file_reads = delivery\<rparr> (mf_StartTime process))))"

end
