(* ===== verification/Registry_Laws.thy ===== *)
theory Registry_Laws
  imports Registry "HOL-Library.Multiset"
begin

text \<open>
  What the registry needs of a store: the locale \<open>content_store\<close> describes the objects under \<^verbatim>\<open>obj/\<close> as a map from the last
  element of their names to their bytes, tags and times. In it, what was created is found by its hash and by every
  prefix of its digest that no other object has.
\<close>

text \<open>An element of a name, in ASCII, that does not start with a dot.\<close>

definition plain_elem :: "string \<Rightarrow> bool" where
  "plain_elem e \<longleftrightarrow> entry_name e \<and> take 1 e \<noteq> ''.'' \<and> (\<forall>c\<in>set e. (of_char c :: nat) < 128)"

type_synonym stored = "bytes \<times> tag list \<times> int"

definition stored_info :: "string \<Rightarrow> stored \<Rightarrow> object_info" where
  "stored_info e x = \<lparr>oi_Name = ''obj/'' @ e, oi_Size = int (length (fst x)), oi_CreatedAt = snd (snd x), oi_Tags = fst (snd x)\<rparr>"

section \<open>Hashes as names\<close>

lemma hex_digit_chars: "n < 16 \<Longrightarrow> hex_digit n \<in> set ''0123456789abcdef''"
proof -
  assume "n < 16"
  then have "n \<in> set [0..<16]"
    by simp
  moreover have "\<forall>n\<in>set [0..<16]. hex_digit n \<in> set ''0123456789abcdef''"
    by code_simp
  ultimately show ?thesis
    by blast
qed

lemma set_hex_encode: "set (hex_encode b) \<subseteq> set ''0123456789abcdef''" (is "_ \<subseteq> ?H")
proof (induction b)
  case (Cons x b)
  have "{hex_digit (unat x div 16), hex_digit (unat x mod 16)} \<subseteq> ?H"
    using unsigned_less [of x, where 'a = nat] hex_digit_chars [of "unat x div 16"] hex_digit_chars [of "unat x mod 16"]
    by (simp add: less_mult_imp_div_less del: list.set)
  moreover have "set (hex_encode (x # b)) = {hex_digit (unat x div 16), hex_digit (unat x mod 16)} \<union> set (hex_encode b)"
    by (auto simp: hex_encode_def)
  ultimately show ?case
    using Cons.IH by (simp only: Un_subset_iff)
qed (simp add: hex_encode_def)

lemma length_hex_encode [simp]: "length (hex_encode b) = 2 * length b"
  by (induction b) (simp_all add: hex_encode_def)

lemma hash_String_plain:
  assumes "set d \<subseteq> set ''0123456789abcdef''"
  shows "plain_elem (hash_String \<lparr>hash_Algorithm = ''sha256'', hash_Digest = d\<rparr>)"
proof -
  have "\<forall>c\<in>set ''0123456789abcdef''. c \<noteq> slash \<and> (of_char c :: nat) < 128"
    by code_simp
  then have "\<forall>c\<in>set d. c \<noteq> slash \<and> (of_char c :: nat) < 128"
    using assms by blast
  moreover have "\<forall>c\<in>set ''sha256:''. c \<noteq> slash \<and> (of_char c :: nat) < 128"
    by code_simp
  ultimately show ?thesis
    by (auto simp: plain_elem_def hash_String_def entry_name_def component_def)
qed

lemma ParseHash_String:
  assumes "CHR '':'' \<notin> set a"
  shows "ParseHash (hash_String \<lparr>hash_Algorithm = a, hash_Digest = d\<rparr>) = \<lparr>hash_Algorithm = a, hash_Digest = d\<rparr>"
proof -
  have "takeWhile (\<lambda>c. c \<noteq> CHR '':'') (a @ CHR '':'' # d) = a" "dropWhile (\<lambda>c. c \<noteq> CHR '':'') (a @ CHR '':'' # d) = CHR '':'' # d"
    using assms by (simp_all add: takeWhile_append dropWhile_append)
  then show ?thesis
    by (simp add: ParseHash_def hash_String_def)
qed

lemma path_Base_obj: "plain_elem e \<Longrightarrow> path_Base (''obj/'' @ e) = e"
proof -
  assume "plain_elem e"
  then have e: "e \<noteq> []" "slash \<notin> set e"
    by (simp_all add: plain_elem_def entry_name_def component_def)
  then have "last e \<noteq> slash"
    by (metis last_in_set)
  then have "rev (dropWhile (\<lambda>c. c = slash) (rev (''obj/'' @ e))) = ''obj/'' @ e"
    using e(1) by (cases e rule: rev_cases) (simp_all add: dropWhile_eq_self_iff)
  moreover have "rev (takeWhile (\<lambda>c. c \<noteq> slash) (rev (''obj/'' @ e))) = e"
    using before_slash(2) [OF e(2), of "''obj''"] by simp
  ultimately show ?thesis
    by (simp add: path_Base_def)
qed

section \<open>Tags\<close>

lemma map_of_assignTags: "map_of (assignTags ann tags) = map_of ann ++ map_of (rev (map (\<lambda>t. (tag_Name t, tag_Value t)) tags))"
  unfolding assignTags_def
proof (induction tags arbitrary: ann)
  case (Cons t tags)
  then show ?case
    by (simp add: AList.update_conv' map_add_def fun_eq_iff split: option.split)
qed simp

lemma distinct_assignTags: "distinct (map fst ann) \<Longrightarrow> distinct (map fst (assignTags ann tags))"
  unfolding assignTags_def by (induction tags arbitrary: ann) (simp_all add: AList.distinct_update)

lemma makeTags_set: "set (makeTags ann) = (\<lambda>(name, v). \<lparr>tag_Name = name, tag_Value = v\<rparr>) ` set ann"
  by (simp add: makeTags_def)

lemma map_of_makeTags:
  assumes "distinct (map fst ann)"
  shows "map_of (assignTags [] (makeTags ann)) = map_of ann"
proof -
  let ?tag = "\<lambda>(name, v). \<lparr>tag_Name = name, tag_Value = v\<rparr>" and ?pair = "\<lambda>t. (tag_Name t, tag_Value t)"
  have "set (map ?pair (makeTags ann)) = set ann"
    by (simp add: makeTags_set image_image case_prod_beta)
  moreover have "mset (map tag_Name (makeTags ann)) = mset (map tag_Name (map ?tag ann))"
    unfolding makeTags_def by (simp only: mset_map mset_sort)
  then have "mset (map tag_Name (makeTags ann)) = mset (map fst ann)"
    by (simp add: comp_def case_prod_beta)
  then have "distinct (map tag_Name (makeTags ann))"
    using assms mset_eq_imp_distinct_iff by blast
  ultimately have "map_of (rev (map ?pair (makeTags ann))) = map_of ann"
    using assms by (subst map_of_inject_set) (simp_all add: comp_def flip: rev_map)
  then show ?thesis
    by (simp add: map_of_assignTags)
qed

text \<open>The annotations that \<^verbatim>\<open>createObject\<close> gives an object.\<close>

definition annotated :: "registry \<Rightarrow> string \<Rightarrow> tag list \<Rightarrow> annotations" where
  "annotated reg mediaType extraTags =
     assignTags (assignTags (assignTags [] (reg_CreateTags reg)) extraTags) [\<lparr>tag_Name = mediatype_tag, tag_Value = mediaType\<rparr>]"

lemma distinct_annotated: "distinct (map fst (annotated reg mediaType extraTags))"
  unfolding annotated_def by (intro distinct_assignTags) simp

lemma set_AList_update: "set (AList.update k v al) \<subseteq> insert (k, v) (set al)"
  by (induction al) auto

lemma set_assignTags: "set (assignTags ann tags) \<subseteq> set ann \<union> (\<lambda>t. (tag_Name t, tag_Value t)) ` set tags"
  unfolding assignTags_def
proof (induction tags arbitrary: ann)
  case (Cons t tags)
  have "set (AList.update (tag_Name t) (tag_Value t) ann) \<subseteq> insert (tag_Name t, tag_Value t) (set ann)"
    by (rule set_AList_update)
  then show ?case
    using Cons.IH [of "AList.update (tag_Name t) (tag_Value t) ann"] by auto
qed simp

lemma annotated_valid:
  assumes "\<forall>t\<in>set (reg_CreateTags reg) \<union> set extraTags. validTag t" "validTagValue mediaType"
  shows "\<forall>t\<in>set (makeTags (annotated reg mediaType extraTags)). validTag t"
proof -
  have "validTagName mediatype_tag"
    by code_simp
  then have "\<forall>x\<in>set (annotated reg mediaType extraTags). validTagName (fst x) \<and> validTagValue (snd x)"
    using assms set_assignTags [of "[]" "reg_CreateTags reg"] set_assignTags [of "assignTags [] (reg_CreateTags reg)" extraTags]
      set_assignTags [of "assignTags (assignTags [] (reg_CreateTags reg)) extraTags" "[\<lparr>tag_Name = mediatype_tag, tag_Value = mediaType\<rparr>]"]
    unfolding annotated_def validTag_def by force
  then show ?thesis
    by (auto simp: makeTags_set validTag_def)
qed

lemma map_of_annotated_mediatype [simp]: "map_of (annotated reg mediaType extraTags) mediatype_tag = Some mediaType"
  by (simp add: annotated_def map_of_assignTags)

lemma makeTags_annotated_nonempty: "makeTags (annotated reg mediaType extraTags) \<noteq> []"
proof -
  have "annotated reg mediaType extraTags \<noteq> []"
    using map_of_annotated_mediatype [of reg mediaType extraTags] by (auto simp del: map_of_annotated_mediatype)
  then show ?thesis
    by (simp add: makeTags_def flip: length_greater_0_conv)
qed

section \<open>Descriptors\<close>

lemma newDescriptor_stored:
  assumes "plain_elem (hash_String h)" "CHR '':'' \<notin> set (hash_Algorithm h)"
  shows "desc_Digest (newDescriptor (stored_info (hash_String h) x)) = h"
    "desc_Size (newDescriptor (stored_info (hash_String h) x)) = int (length (fst x))"
proof -
  have "ParseHash (hash_String h) = h"
    using ParseHash_String [OF assms(2), of "hash_Digest h"] by (cases h) simp
  then show "desc_Digest (newDescriptor (stored_info (hash_String h) x)) = h"
    using path_Base_obj [OF assms(1)] by (simp add: newDescriptor_def stored_info_def Let_def)
qed (simp add: newDescriptor_def stored_info_def Let_def)

lemma newDescriptor_annotated:
  fixes reg :: registry and mediaType e :: string and extra :: "tag list" and data :: bytes and t :: int
  defines "desc \<equiv> newDescriptor (stored_info e (data, makeTags (annotated reg mediaType extra), t))"
  shows "desc_MediaType desc = mediaType"
    "map_of (desc_Annotations desc) = (map_of (annotated reg mediaType extra))(mediatype_tag := None)"
  using map_of_makeTags [OF distinct_annotated, of reg mediaType extra]
  by (simp_all add: desc_def newDescriptor_def stored_info_def Let_def AList.delete_conv')

section \<open>Stores of content\<close>

locale content_store =
  fixes S :: "'s obj_store" and ok :: "'s \<Rightarrow> bool" and at :: "'s \<Rightarrow> string \<Rightarrow> stored option"
  assumes at_plain: "ok s \<Longrightarrow> at s e = Some x \<Longrightarrow> plain_elem e"
    and read: "ok s \<Longrightarrow> plain_elem e \<Longrightarrow>
      ReadObject S (''obj/'' @ e) s = (case at s e of None \<Rightarrow> Inl ObjNotExist | Some x \<Rightarrow> Inr (ObjContent (fst x)))"
    and stat: "ok s \<Longrightarrow> plain_elem e \<Longrightarrow>
      StatObject S (''obj/'' @ e) s = (case at s e of None \<Rightarrow> Inl ObjNotExist | Some x \<Rightarrow> Inr (stored_info e x))"
    and listed: "ok s \<Longrightarrow> slash \<notin> set pre \<Longrightarrow> \<exists>infos. ListObjects S (''obj/'' @ pre) filters s = (infos, None)
      \<and> distinct infos \<and> set infos = {stored_info e x |e x. at s e = Some x \<and> prefix pre e \<and> MatchAll (stored_info e x) filters}"
    and create: "ok s \<Longrightarrow> plain_elem e \<Longrightarrow> at s e = None \<Longrightarrow> tags \<noteq> [] \<Longrightarrow> \<forall>t\<in>set tags. validTag t \<Longrightarrow>
      \<exists>t s'. CreateObject S (''obj/'' @ e) (b, None) tags s = (None, s') \<and> ok s' \<and> at s' = (at s)(e \<mapsto> (b, tags, t))"
begin

definition object_at :: "'s \<Rightarrow> hash \<Rightarrow> stored option" where
  "object_at s h = at s (hash_String h)"

lemma createObject_result:
  fixes sha :: "bytes \<Rightarrow> bytes" and reg :: registry and mediaType :: string and extra :: "tag list" and data :: bytes
  assumes "ok s" "\<forall>t\<in>set (reg_CreateTags reg) \<union> set extra. validTag t" "validTagValue mediaType"
  defines "tags \<equiv> makeTags (annotated reg mediaType extra)"
  defines "h \<equiv> hashTags sha data tags"
  shows "\<exists>s' t. createObject S sha reg (Inr data) mediaType extra s
      = (Inr \<lparr>desc_MediaType = mediaType, desc_Digest = h, desc_Size = int (length data), desc_Annotations = annotated reg mediaType extra\<rparr>, s')
    \<and> ok s' \<and> at s' = (at s)(hash_String h \<mapsto> (case at s (hash_String h) of None \<Rightarrow> (data, tags, t) | Some x \<Rightarrow> x))"
proof -
  have plain: "plain_elem (hash_String h)"
    unfolding h_def hashTags_def by (rule hash_String_plain) (rule set_hex_encode)
  let ?desc = "\<lparr>desc_MediaType = mediaType, desc_Digest = h, desc_Size = int (length data),
      desc_Annotations = annotated reg mediaType extra\<rparr>" and ?name = "''obj/'' @ hash_String h"
  have result: "createObject S sha reg (Inr data) mediaType extra s =
      (case StatObject S ?name s of
         Inr _ \<Rightarrow> (Inr ?desc, s)
       | Inl e \<Rightarrow>
           if \<not> is_not_exist e then (Inl (ObjWrap ''create object: %s: %s: %w'' e), s)
           else case CreateObject S ?name (data, None) tags s of
                  (Some e, s) \<Rightarrow> (Inl (ObjWrap ''create object: %s: %s: %w'' e), s)
                | (None, s) \<Rightarrow> (Inr ?desc, s))"
    by (simp only: createObject_def Let_def objectKey_def h_def tags_def annotated_def sum.case)
  show ?thesis
  proof (cases "at s (hash_String h)")
    case None
    obtain t s' where "CreateObject S ?name (data, None) tags s = (None, s')" "ok s'"
        "at s' = (at s)(hash_String h \<mapsto> (data, tags, t))"
      using create [OF assms(1) plain None, of tags data] annotated_valid [OF assms(2,3)] makeTags_annotated_nonempty
      unfolding tags_def by blast
    then show ?thesis
      using None stat [OF assms(1) plain] unfolding result by auto
  next
    case (Some x)
    then have "at s = (at s)(hash_String h \<mapsto> x)"
      by (simp add: fun_upd_idem)
    then show ?thesis
      using Some stat [OF assms(1) plain] assms(1) unfolding result by auto
  qed
qed

lemma lookupObject_at:
  assumes "ok s" "object_at s h = Some x" "hash_Algorithm h = ''sha256''" "length (hash_Digest h) = 64"
  shows "lookupObject S h unmarshal s = (case unmarshal (fst x) of Inl e \<Rightarrow> Inl (ObjWrap ''lookup object: %s: %s: %w'' e) | Inr v \<Rightarrow> Inr v)"
proof -
  have "plain_elem (hash_String h)"
    using at_plain [OF assms(1)] assms(2) by (simp add: object_at_def)
  then have "ReadObject S (objectKey h) s = Inr (ObjContent (fst x))"
    using read assms(1,2) by (simp add: objectKey_def object_at_def)
  then show ?thesis
    using assms(3,4) by (simp add: lookupObject_def split: sum.split)
qed

lemma lookupDescriptor_at:
  assumes "ok s" "object_at s h = Some x" "hash_Algorithm h = ''sha256''" "length (hash_Digest h) = 64"
  shows "lookupDescriptor S h s = Inr (newDescriptor (stored_info (hash_String h) x))"
proof -
  have "plain_elem (hash_String h)"
    using at_plain [OF assms(1)] assms(2) by (simp add: object_at_def)
  then show ?thesis
    using stat assms by (simp add: lookupDescriptor_def objectKey_def object_at_def)
qed

text \<open>A prefix of the digest that no other object has.\<close>

lemma lookupDescriptor_prefix:
  assumes "ok s" "object_at s \<lparr>hash_Algorithm = ''sha256'', hash_Digest = d\<rparr> = Some x" "length d = 64" "k < 64"
    and "\<forall>e. at s e \<noteq> None \<and> prefix (''sha256:'' @ take k d) e \<longrightarrow> e = ''sha256:'' @ d"
  shows "lookupDescriptor S \<lparr>hash_Algorithm = ''sha256'', hash_Digest = take k d\<rparr> s
    = lookupDescriptor S \<lparr>hash_Algorithm = ''sha256'', hash_Digest = d\<rparr> s"
proof -
  let ?pre = "''sha256:'' @ take k d" and ?e = "''sha256:'' @ d"
  have e: "at s ?e = Some x"
    using assms(2) by (simp add: object_at_def hash_String_def)
  then have plain: "plain_elem ?e"
    by (rule at_plain [OF assms(1)])
  then have "slash \<notin> set ?e"
    by (simp add: plain_elem_def entry_name_def component_def)
  then have "slash \<notin> set ?pre"
    by (auto dest: in_set_takeD)
  then obtain infos where infos: "ListObjects S (''obj/'' @ ?pre) [] s = (infos, None)" "distinct infos"
      "set infos = {stored_info e x |e x. at s e = Some x \<and> prefix ?pre e \<and> MatchAll (stored_info e x) []}"
    using listed [OF assms(1)] by blast
  have "prefix ?pre ?e"
    by (simp add: take_is_prefix)
  moreover have "MatchAll i []" for i
    by (simp add: MatchAll_def)
  ultimately have "stored_info ?e x \<in> set infos"
    unfolding infos(3) using e by blast
  moreover have "i = stored_info ?e x" if "i \<in> set infos" for i
    using that e assms(5) unfolding infos(3) by force
  ultimately have "set infos = {stored_info ?e x}"
    by blast
  then have "infos = [stored_info ?e x]"
    using infos(2) by (cases infos rule: list.exhaust; cases "tl infos") auto
  then have "prefix_key S (''obj/'' @ ?pre) s = Inr (''obj/'' @ ?e)"
    using infos(1) by (simp add: prefix_key_def stored_info_def)
  moreover have "ParseHash (path_Base (''obj/'' @ ?e)) = \<lparr>hash_Algorithm = ''sha256'', hash_Digest = d\<rparr>"
    using path_Base_obj [OF plain] ParseHash_String [of "''sha256''" d] by (simp add: hash_String_def)
  ultimately show ?thesis
    using assms(3,4) by (simp add: lookupDescriptor_def objectKey_def hash_String_def)
qed

end

end
