(* ===== verification/Object_Dir.thy ===== *)
theory Object_Dir
  imports Registry_Laws
begin

unbundle bit_operations_syntax

text \<open>
  The store in a directory keeps the promises of \<open>content_store\<close>: the objects under \<^verbatim>\<open>obj/\<close> are the files of that
  directory, with their tags beside them, whatever else is in the store.
\<close>

section \<open>Names\<close>

lemma ValidString_ascii: "\<forall>c\<in>set s. (of_char c :: nat) < 128 \<Longrightarrow> ValidString s"
  by (induction s) simp_all

lemma split_on_append: "c \<notin> set xs \<Longrightarrow> split_on c (xs @ c # ys) = xs # split_on c ys"
  by (induction xs) (auto split: list.split)

lemma split_on_single: "c \<notin> set xs \<Longrightarrow> split_on c xs = [xs]"
  by (induction xs) auto

lemma obj_elem: "entry_name ''obj''" "slash \<notin> set ''obj''"
  by code_simp+

lemma plain_elemD:
  assumes "plain_elem e"
  shows "entry_name e" "component e" "e \<noteq> []" "slash \<notin> set e" "take 1 e \<noteq> ''.''" "\<forall>c\<in>set e. (of_char c :: nat) < 128"
  using assms by (auto simp: plain_elem_def entry_name_def component_def)

lemma joinPath_object:
  assumes "plain_elem e"
  shows "joinPath store (''obj/'' @ e) = Inr (store @ [''obj'', e])"
proof -
  note e = plain_elemD [OF assms]
  have "components (''obj'' @ slash # e) = [''obj'', e]"
    using e(2) obj_elem by (subst components_append) (simp add: entry_name_def)
  then have "path_Clean (''obj/'' @ e) = ''obj/'' @ e"
    using e obj_elem clean_entries [of "[''obj'', e]" False "[]"] by (simp add: path_Clean_def IsAbs_def clean_path_def)
  moreover have "\<forall>c\<in>set (''obj/'' @ e). (of_char c :: nat) < 128"
    using e(6) by auto
  then have "ValidString (''obj/'' @ e)"
    by (rule ValidString_ascii)
  moreover have split: "split_on slash (''obj/'' @ e) = [''obj'', e]"
    using split_on_append [OF obj_elem(2), of e] split_on_single [OF e(4)] by simp
  ultimately show ?thesis
    using e(1) obj_elem by (simp add: joinPath_def ValidPath_def)
qed

lemma joinPath_obj: "joinPath store ''obj/'' = Inr (store @ [''obj''])"
proof -
  have "path_Clean ''obj/'' = ''obj''" "ValidPath ''obj''" "split_on slash ''obj'' = [''obj'']"
    by code_simp+
  then show ?thesis
    by (simp add: joinPath_def)
qed

section \<open>Tags as text\<close>

lemma string_bytes_append: "string_bytes (xs @ ys) = string_bytes xs @ string_bytes ys"
  by (simp add: string_bytes_def)

lemma byte_in_string: "string_bytes [c] = [x] \<Longrightarrow> x \<in> set (string_bytes s) \<longleftrightarrow> c \<in> set s"
proof (induction s)
  case (Cons d s)
  have "(word_of_nat (of_char c) :: byte) = word_of_nat (of_char d) \<longleftrightarrow> c = d"
    by (metis char_byte)
  then show ?case
    using Cons by (auto simp: string_bytes_def)
qed (simp add: string_bytes_def)

lemma newline_bytes: "string_bytes ''\<newline>'' = [10]" "string_bytes ''='' = [61]"
  by code_simp+

lemma string_bytes_eq: "string_bytes (CHR ''='' # s) = 61 # string_bytes s"
  using string_bytes_append [of "''=''" s] newline_bytes(2) by simp

lemma split_on_lines: "\<forall>l\<in>set ls. c \<notin> set l \<Longrightarrow> split_on c (concat (map (\<lambda>l. l @ [c]) ls)) = ls @ [[]]"
  by (induction ls) (simp_all add: split_on_append)

lemma cut_eq_tag: "CHR ''='' \<notin> set (tag_Name t) \<Longrightarrow> cut_eq (string_bytes (tag_Name t @ CHR ''='' # tag_Value t)) = Some t"
  using byte_in_string [OF newline_bytes(2), of "tag_Name t"]
  by (auto simp: cut_eq_def string_bytes_append string_bytes_eq takeWhile_append dropWhile_append)

lemma tags_text:
  assumes "\<forall>t\<in>set tags. validTag t"
  shows "List.map_filter cut_eq (split_on 10 (AppendTags [] tags)) = tags"
proof -
  let ?line = "\<lambda>t. string_bytes (tag_Name t @ ''='' @ tag_Value t)"
  have "\<forall>l\<in>set (map ?line tags). 10 \<notin> set l"
    using assms byte_in_string [OF newline_bytes(1)] by (force simp: validTag_def validTagName_def validTagValue_def)
  moreover have "AppendTags [] tags = concat (map (\<lambda>l. l @ [10]) (map ?line tags))"
    by (simp add: AppendTags_def comp_def string_bytes_append string_bytes_eq newline_bytes)
  ultimately have "split_on 10 (AppendTags [] tags) = map ?line tags @ [[]]"
    by (simp only: split_on_lines)
  moreover have "List.map_filter cut_eq (map ?line tags) = tags"
    using assms by (induction tags) (simp_all add: cut_eq_tag validTag_def validTagName_def List.map_filter_simps)
  moreover have "List.map_filter cut_eq [[]] = []"
    by (simp add: List.map_filter_simps cut_eq_def)
  ultimately show ?thesis
    by (simp add: map_filter_def)
qed

section \<open>Trees of files\<close>

definition files_tree :: "host \<Rightarrow> bool" where
  "files_tree h \<longleftrightarrow> distinct (map fst h) \<and> (\<forall>p\<in>set (map fst h). p \<noteq> [] \<and> host_node h (butlast p) = Some HostDir)"

lemma host_node_Nil [simp]: "host_node h [] = Some HostDir"
  by (simp add: host_node_def)

lemma files_tree_parent: "files_tree h \<Longrightarrow> host_node h (p @ [e]) = Some n \<Longrightarrow> host_node h p = Some HostDir"
  by (force simp: files_tree_def host_node_def dest: map_of_SomeD)

lemma files_tree_prefix:
  assumes "files_tree h"
  shows "host_node h (p @ es) = Some n \<Longrightarrow> es \<noteq> [] \<Longrightarrow> host_node h p = Some HostDir"
proof (induction es arbitrary: n rule: rev_induct)
  case (snoc e es)
  then have "host_node h (p @ es) = Some HostDir"
    using files_tree_parent [OF assms, of "p @ es" e n] by simp
  then show ?case
    using snoc.IH by (cases "es = []") simp_all
qed simp

lemma host_walk_node:
  assumes "files_tree h"
  shows "host_node h (p @ es) = Some n \<Longrightarrow> host_walk h p es = Inr n"
proof (induction es arbitrary: p)
  case (Cons e es)
  then show ?case
    using files_tree_prefix [OF assms, of p "e # es" n] by simp
qed simp

definition is_file :: "host_node option \<Rightarrow> bool" where
  "is_file n \<longleftrightarrow> (\<exists>b t. n = Some (HostFile b t))"

lemma not_file_cases: "\<not> is_file n \<Longrightarrow> n = None \<or> n = Some HostDir"
  by (cases n; cases "the n") (auto simp: is_file_def)

lemma host_walk_missing:
  assumes "files_tree h" "\<forall>q. prefix q es \<longrightarrow> \<not> is_file (host_node h (p @ q))" "host_node h (p @ es) = None"
  shows "host_walk h p es = Inl ObjNotExist"
  using assms(2,3)
proof (induction es arbitrary: p)
  case (Cons e es)
  have "\<forall>q. prefix q es \<longrightarrow> \<not> is_file (host_node h ((p @ [e]) @ q))"
    using Cons.prems(1) by simp
  then have "host_walk h (p @ [e]) es = Inl ObjNotExist"
    using Cons by simp
  moreover have "\<not> is_file (host_node h p)"
    using Cons.prems(1) by (metis append_Nil2 Nil_prefix)
  ultimately show ?case
    by (auto simp: is_file_def split: option.split host_node.split)
qed simp

lemma host_stat_node: "files_tree h \<Longrightarrow> host_node h p = Some n \<Longrightarrow> host_stat h p = Inr n"
  by (simp add: host_stat_def host_walk_node)

lemma host_stat_missing:
  assumes "files_tree h" "\<forall>q. prefix q p \<longrightarrow> \<not> is_file (host_node h q)" "host_node h p = None"
  shows "host_stat h p = Inl ObjNotExist"
  using host_walk_missing [of h p "[]"] assms by (simp add: host_stat_def)

section \<open>The directory of objects\<close>

abbreviation obj_dir :: "host_path \<Rightarrow> host_path" where
  "obj_dir store \<equiv> store @ [''obj'']"

text \<open>
  The directory \<open>obj\<close> and its directory of tags are directories, if they are there; all else in them are files, with
  plain names, and there are tags only for them.
\<close>

definition objects_ok :: "host_path \<Rightarrow> host \<Rightarrow> bool" where
  "objects_ok store h \<longleftrightarrow> files_tree h
     \<and> (\<forall>q. prefix q (store @ [''obj'', tags_dir]) \<longrightarrow> \<not> is_file (host_node h q))
     \<and> (\<forall>e. host_node h (store @ [''obj'', e]) \<noteq> None \<longrightarrow> e = tags_dir \<or> plain_elem e \<and> is_file (host_node h (store @ [''obj'', e])))
     \<and> (\<forall>e. host_node h (store @ [''obj'', tags_dir, e]) \<noteq> None \<longrightarrow>
          is_file (host_node h (store @ [''obj'', tags_dir, e])) \<and> plain_elem e \<and> host_node h (store @ [''obj'', e]) \<noteq> None)"

definition stored_tags :: "host_path \<Rightarrow> host \<Rightarrow> string \<Rightarrow> tag list" where
  "stored_tags store h e =
     (case host_node h (store @ [''obj'', tags_dir, e]) of
        Some (HostFile b _) \<Rightarrow> List.map_filter cut_eq (split_on 10 b)
      | _ \<Rightarrow> [])"

definition obj_at :: "host_path \<Rightarrow> host \<Rightarrow> string \<Rightarrow> stored option" where
  "obj_at store h e =
     (case host_node h (store @ [''obj'', e]) of
        Some (HostFile b t) \<Rightarrow> Some (b, stored_tags store h e, t)
      | _ \<Rightarrow> None)"

lemma tags_dir_not_plain: "\<not> plain_elem tags_dir"
  by (simp add: plain_elem_def tags_dir_def)

lemma objects_okD:
  assumes "objects_ok store h"
  shows "files_tree h" "prefix q (store @ [''obj'', tags_dir]) \<Longrightarrow> \<not> is_file (host_node h q)"
    "host_node h (store @ [''obj'', e]) = Some n \<Longrightarrow> e = tags_dir \<or> plain_elem e \<and> is_file (Some n)"
    "host_node h (store @ [''obj'', tags_dir, e]) = Some n \<Longrightarrow>
       is_file (Some n) \<and> plain_elem e \<and> host_node h (store @ [''obj'', e]) \<noteq> None"
  using assms unfolding objects_ok_def by force+

lemma host_stat_obj:
  assumes "objects_ok store h"
  shows "host_stat h (store @ [''obj'', e]) = (case host_node h (store @ [''obj'', e]) of None \<Rightarrow> Inl ObjNotExist | Some n \<Rightarrow> Inr n)"
proof (cases "host_node h (store @ [''obj'', e])")
  case None
  have "\<not> is_file (host_node h q)" if "prefix q (store @ [''obj'', e])" for q
  proof (cases "q = store @ [''obj'', e]")
    case False
    then have "prefix q (store @ [''obj'', tags_dir])"
      using that prefix_snoc [of q "obj_dir store" e] prefix_snoc [of q "obj_dir store" tags_dir] by auto
    then show ?thesis
      by (rule objects_okD(2) [OF assms])
  qed (simp add: None is_file_def)
  then show ?thesis
    using None host_stat_missing [OF objects_okD(1) [OF assms], of "store @ [''obj'', e]"] by auto
qed (simp add: host_stat_node [OF objects_okD(1) [OF assms]])

lemma readTags_obj:
  assumes "objects_ok store h"
  shows "readTags h (store @ [''obj'', tags_dir, e]) = Inr (stored_tags store h e)"
proof (cases "host_node h (store @ [''obj'', tags_dir, e])")
  case None
  have "\<not> is_file (host_node h q)" if "prefix q (store @ [''obj'', tags_dir, e])" for q
  proof (cases "q = store @ [''obj'', tags_dir, e]")
    case False
    then have "prefix q (store @ [''obj'', tags_dir])"
      using that prefix_snoc [of q "store @ [''obj'', tags_dir]" e] by simp
    then show ?thesis
      by (rule objects_okD(2) [OF assms])
  qed (simp add: None is_file_def)
  then have "host_stat h (store @ [''obj'', tags_dir, e]) = Inl ObjNotExist"
    using None by (intro host_stat_missing objects_okD(1) [OF assms]) auto
  then show ?thesis
    using None by (simp add: readTags_def host_ReadFile_def stored_tags_def)
next
  case (Some n)
  then obtain b t where n: "n = HostFile b t"
    using objects_okD(4) [OF assms Some] by (auto simp: is_file_def)
  then show ?thesis
    using Some host_stat_node [OF objects_okD(1) [OF assms] Some] by (simp add: readTags_def host_ReadFile_def stored_tags_def)
qed

lemma path_split_obj: "path_split (store @ [''obj'', e]) = (obj_dir store, e)"
  by (simp add: path_split_def butlast_append)

lemma dirStore_ReadObject_at:
  assumes "objects_ok store h" "plain_elem e"
  shows "dirStore_ReadObject store (''obj/'' @ e) h
    = (case obj_at store h e of None \<Rightarrow> Inl ObjNotExist | Some x \<Rightarrow> Inr (ObjContent (fst x)))"
proof -
  have "e \<noteq> tags_dir"
    using assms(2) tags_dir_not_plain by auto
  then have "host_node h (store @ [''obj'', e]) \<noteq> Some HostDir"
    using objects_okD(3) [OF assms(1), of e HostDir] by (auto simp: is_file_def)
  then show ?thesis
    using host_stat_obj [OF assms(1), of e] joinPath_object [OF assms(2)]
    by (auto simp: dirStore_ReadObject_def obj_at_def split: option.split host_node.split)
qed

lemma dirStore_StatObject_at:
  assumes "objects_ok store h" "plain_elem e"
  shows "dirStore_StatObject store (''obj/'' @ e) h
    = (case obj_at store h e of None \<Rightarrow> Inl ObjNotExist | Some x \<Rightarrow> Inr (stored_info e x))"
proof -
  have "e \<noteq> tags_dir"
    using assms(2) tags_dir_not_plain by auto
  then have "host_node h (store @ [''obj'', e]) \<noteq> Some HostDir"
    using objects_okD(3) [OF assms(1), of e HostDir] by (auto simp: is_file_def)
  then show ?thesis
    using host_stat_obj [OF assms(1), of e] joinPath_object [OF assms(2)] readTags_obj [OF assms(1), of e] path_split_obj [of store e]
    by (auto simp: dirStore_StatObject_def obj_at_def stored_info_def split: option.split host_node.split)
qed

section \<open>Changes of a tree\<close>

lemma host_node_update: "p \<noteq> [] \<Longrightarrow> host_node (AList.update p n h) q = (if q = p then Some n else host_node h q)"
  by (simp add: host_node_def AList.update_conv')

lemma host_node_delete: "p \<noteq> [] \<Longrightarrow> host_node (AList.delete p h) q = (if q = p then None else host_node h q)"
  by (simp add: host_node_def AList.delete_conv')

lemma host_node_append: "p \<noteq> [] \<Longrightarrow> host_node h p = None \<Longrightarrow> host_node (h @ [(p, n)]) q = (if q = p then Some n else host_node h q)"
  by (auto simp: host_node_def map_add_def split: option.split)

lemma files_tree_update:
  assumes "files_tree h" "p \<noteq> []" "host_node h (butlast p) = Some HostDir" "host_node h p \<noteq> Some HostDir"
  shows "files_tree (AList.update p n h)"
proof -
  have "host_node (AList.update p n h) (butlast q) = Some HostDir" if "q = p \<or> q \<in> set (map fst h)" "q \<noteq> []" for q
  proof -
    have dir: "host_node h (butlast q) = Some HostDir"
      using that assms(1,3) by (auto simp: files_tree_def)
    then have "butlast q \<noteq> p"
      using assms(4) by auto
    then show ?thesis
      using dir by (simp add: host_node_update [OF assms(2)])
  qed
  moreover have "distinct (map fst (AList.update p n h))"
    using assms(1) by (intro AList.distinct_update) (simp add: files_tree_def)
  moreover have "set (map fst (AList.update p n h)) = insert p (set (map fst h))"
    using AList.dom_update [of p n h] by simp
  ultimately show ?thesis
    using assms(1,2) unfolding files_tree_def by (metis insert_iff)
qed

lemma files_tree_append:
  assumes "files_tree h" "p \<noteq> []" "host_node h (butlast p) = Some HostDir" "host_node h p = None"
  shows "files_tree (h @ [(p, n)])"
proof -
  have "p \<notin> set (map fst h)"
    using assms(2,4) by (auto simp: host_node_def map_of_eq_None_iff)
  moreover have "butlast q \<noteq> p" if "q \<in> set (map fst h)" for q
    using that assms(1,4) by (auto simp: files_tree_def)
  moreover have "butlast p \<noteq> p"
    using assms(2) by (metis append_butlast_last_id append_self_conv not_Cons_self2)
  ultimately show ?thesis
    using assms by (auto simp: files_tree_def host_node_append)
qed

lemma files_tree_delete:
  assumes "files_tree h" "is_file (host_node h p)"
  shows "files_tree (AList.delete p h)"
proof -
  have p: "p \<noteq> []"
    using assms(2) by (auto simp: is_file_def)
  have "host_node (AList.delete p h) (butlast q) = Some HostDir" if "q \<in> set (map fst h)" for q
  proof -
    have dir: "host_node h (butlast q) = Some HostDir"
      using that assms(1) unfolding files_tree_def by blast
    then have "butlast q \<noteq> p"
      using assms(2) by (auto simp: is_file_def)
    then show ?thesis
      using dir by (simp add: host_node_delete [OF p])
  qed
  moreover have "distinct (map fst (AList.delete p h))" "set (map fst (AList.delete p h)) \<subseteq> set (map fst h)"
    using assms(1) AList.delete_keys [of p h] by (simp_all add: files_tree_def distinct_removeAll set_removeAll)
  ultimately show ?thesis
    using assms(1) unfolding files_tree_def by blast
qed

lemma host_mkdirs_result:
  assumes "files_tree h" "p \<noteq> [] \<Longrightarrow> host_node h (butlast p) = Some HostDir"
    and "\<forall>q. prefix p q \<and> prefix q (p @ es) \<longrightarrow> \<not> is_file (host_node h q)"
  shows "\<exists>h'. host_mkdirs h p es = Inr h' \<and> files_tree h'
    \<and> (\<forall>q. host_node h' q = (if prefix p q \<and> prefix q (p @ es) then Some HostDir else host_node h q))"
  using assms
proof (induction es arbitrary: h p)
  case Nil
  have nofile: "\<not> is_file (host_node h p)"
    using Nil.prems(3) by simp
  have only: "prefix p q \<and> prefix q (p @ []) \<longleftrightarrow> q = p" for q
    by (auto intro: prefix_order.antisym)
  show ?case
  proof (cases "host_node h p")
    case None
    then have p: "p \<noteq> []"
      by auto
    have "host_mkdirs h p [] = Inr (h @ [(p, HostDir)])"
      using None by simp
    then show ?thesis
      unfolding only using files_tree_append [OF Nil.prems(1) p Nil.prems(2) [OF p] None, of HostDir] host_node_append [OF p None] by auto
  next
    case (Some n)
    then have "n = HostDir"
      using nofile by (cases n) (auto simp: is_file_def)
    then have "host_mkdirs h p [] = Inr h" "host_node h p = Some HostDir"
      using Some by simp_all
    then show ?thesis
      unfolding only using Nil.prems(1) by auto
  qed
next
  case (Cons e es)
  have nofile: "\<not> is_file (host_node h p)"
    using Cons.prems(3) by (auto simp: prefix_def)
  define h1 where "h1 = (if host_node h p = None then h @ [(p, HostDir)] else h)"
  have h1: "files_tree h1" "host_node h1 q = (if q = p then Some HostDir else host_node h q)" for q
  proof -
    consider (none) "host_node h p = None" "p \<noteq> []" | (dir) "host_node h p = Some HostDir"
      using nofile not_file_cases by (metis host_node_Nil option.discI)
    then show "files_tree h1" "host_node h1 q = (if q = p then Some HostDir else host_node h q)"
      using Cons.prems(1,2) files_tree_append [of h p] host_node_append [of p h] by (cases; simp add: h1_def)+
  qed
  have "host_mkdirs h p (e # es) = host_mkdirs h1 (p @ [e]) es"
    using nofile by (auto simp: h1_def is_file_def Let_def split: option.split host_node.split)
  moreover have "\<exists>h'. host_mkdirs h1 (p @ [e]) es = Inr h' \<and> files_tree h'
      \<and> (\<forall>q. host_node h' q = (if prefix (p @ [e]) q \<and> prefix q ((p @ [e]) @ es) then Some HostDir else host_node h1 q))"
  proof (rule Cons.IH [OF h1(1)])
    show "host_node h1 (butlast (p @ [e])) = Some HostDir"
      by (simp add: h1(2))
    show "\<forall>q. prefix (p @ [e]) q \<and> prefix q ((p @ [e]) @ es) \<longrightarrow> \<not> is_file (host_node h1 q)"
    proof (intro allI impI)
      fix q
      assume q: "prefix (p @ [e]) q \<and> prefix q ((p @ [e]) @ es)"
      then have "prefix p q \<and> prefix q (p @ e # es)"
        by (auto intro: prefix_order.trans [of p "p @ [e]"])
      then show "\<not> is_file (host_node h1 q)"
        using Cons.prems(3) by (simp add: h1(2) is_file_def)
    qed
  qed
  moreover have "prefix p q \<and> prefix q (p @ e # es) \<longleftrightarrow> q = p \<or> prefix (p @ [e]) q \<and> prefix q ((p @ [e]) @ es)" for q
    by (auto simp: prefix_def Cons_eq_append_conv append_eq_Cons_conv)
  ultimately show ?case
    by (metis h1(2))
qed

section \<open>Creating an object\<close>

abbreviation tags_path :: "host_path \<Rightarrow> host_path" where
  "tags_path store \<equiv> store @ [''obj'', tags_dir]"

lemma host_Mkdir_tags:
  assumes "files_tree h" "host_node h (obj_dir store) = Some HostDir" "\<not> is_file (host_node h (tags_path store))"
  shows "\<exists>h'. (case host_Mkdir h (tags_path store) of Inl ObjExist \<Rightarrow> Inr h | r \<Rightarrow> r) = Inr h' \<and> files_tree h'
    \<and> (\<forall>q. host_node h' q = (if q = tags_path store then Some HostDir else host_node h q))"
proof (cases "host_node h (tags_path store)")
  case None
  then show ?thesis
    using assms(1,2) files_tree_append [of h "tags_path store"] host_node_append [of "tags_path store" h]
    by (simp add: host_Mkdir_def butlast_append)
next
  case (Some n)
  then have "n = HostDir"
    using not_file_cases [OF assms(3)] by simp
  then show ?thesis
    using Some assms(1) by (auto simp: host_Mkdir_def)
qed

lemma create_tags_result:
  assumes "files_tree h" "\<And>q. prefix q (tags_path store) \<Longrightarrow> \<not> is_file (host_node h q)" "host_node h (obj_dir store) = Some HostDir"
    and "host_node h (tags_path store @ [e]) \<noteq> Some HostDir" "tags \<noteq> []" "\<forall>t\<in>set tags. validTag t"
  shows "\<exists>h'. create_tags h (obj_dir store) e tags now = (None, h') \<and> files_tree h'
    \<and> (\<forall>q. host_node h' q = (if q = tags_path store @ [e] then Some (HostFile (AppendTags [] tags) now)
         else if q = tags_path store then Some HostDir else host_node h q))"
proof -
  let ?p = "tags_path store" and ?q = "tags_path store @ [e]" and ?f = "HostFile (AppendTags [] tags) now"
  obtain h1 where h1: "(case host_Mkdir h ?p of Inl ObjExist \<Rightarrow> Inr h | r \<Rightarrow> r) = Inr h1" "files_tree h1"
      "\<And>q. host_node h1 q = (if q = ?p then Some HostDir else host_node h q)"
    using host_Mkdir_tags [OF assms(1,3) assms(2)] by auto
  have node: "host_node h1 ?q \<noteq> Some HostDir" "host_node h1 (butlast ?q) = Some HostDir"
    using assms(4) by (simp_all add: h1(3) butlast_append)
  have "host_stat h1 ?q \<noteq> Inl ObjNotDir"
  proof (cases "host_node h1 ?q")
    case None
    have "\<not> is_file (host_node h1 q)" if "prefix q ?q" for q
    proof (cases "q = ?q")
      case False
      then have "prefix q ?p"
        using that prefix_snoc [of q ?p e] by simp
      then show ?thesis
        using assms(2) by (simp add: h1(3) is_file_def)
    qed (use None in \<open>simp add: is_file_def\<close>)
    then show ?thesis
      using host_stat_missing [OF h1(2) _ None] by simp
  next
    case (Some n)
    then show ?thesis
      by (simp add: host_stat_node [OF h1(2)])
  qed
  then have "create_tags h (obj_dir store) e tags now = (None, AList.update ?q ?f h1)"
    using h1(1) node(1) assms(5,6)
    by (auto simp: create_tags_def host_WriteFile_def split: sum.split obj_error.split option.split host_node.split)
  moreover have "files_tree (AList.update ?q ?f h1)"
    using h1(2) node by (intro files_tree_update) auto
  moreover have "host_node (AList.update ?q ?f h1) q = (if q = ?q then Some ?f else if q = ?p then Some HostDir else host_node h q)" for q
    by (subst host_node_update) (auto simp: h1(3))
  ultimately show ?thesis
    by blast
qed

lemma create_file_result:
  assumes "files_tree h" "host_node h dir = Some HostDir" "host_node h (dir @ [e]) = None" "host_node h (dir @ [tmp]) = None"
    and "tmp = ''.'' @ e @ ''.'' @ rnd"
  shows "\<exists>h'. create_file h dir e (b, None) tags now rnd = (None, h') \<and> files_tree h'
    \<and> (\<forall>q. host_node h' q = (if q = dir @ [e] then Some (HostFile b now) else host_node h q))"
proof -
  let ?p = "dir @ [e]" and ?t = "dir @ [tmp]" and ?f = "HostFile b now"
  have "tmp \<noteq> e"
    using assms(5) arg_cong [of tmp e length] by auto
  define h1 where "h1 = AList.update ?t ?f h"
  have h1: "files_tree h1" "host_node h1 q = (if q = ?t then Some ?f else host_node h q)" for q
    using assms(1,2,4) unfolding h1_def by (auto intro!: files_tree_update simp: host_node_update)
  define h2 where "h2 = AList.delete ?t h1"
  have h2: "files_tree h2" "host_node h2 q = host_node h q" for q
    using h1(1) assms(4) unfolding h2_def by (auto intro!: files_tree_delete simp: h1(2) host_node_delete is_file_def)
  have "host_Rename h1 ?t ?p = Inr (AList.update ?p ?f h2)"
    using assms(3) \<open>tmp \<noteq> e\<close> by (simp add: host_Rename_def h1(2) h2_def)
  then have "create_file h dir e (b, None) tags now rnd = (None, AList.update ?p ?f h2)"
    unfolding create_file_def Let_def h1_def assms(5) by simp
  moreover have "files_tree (AList.update ?p ?f h2)"
    using h2 assms(2,3) by (intro files_tree_update) auto
  moreover have "host_node (AList.update ?p ?f h2) q = (if q = ?p then Some ?f else host_node h q)" for q
    by (subst host_node_update) (auto simp: h2(2))
  ultimately show ?thesis
    by blast
qed

text \<open>A directory of objects stays one when the files of an object are written.\<close>

lemma objects_ok_written:
  assumes "objects_ok store h" "plain_elem e" "files_tree h'"
    and node: "\<And>q. host_node h' q =
      (if q = store @ [''obj'', e] then Some (HostFile b t)
       else if q = tags_path store @ [e] then Some (HostFile tb tt)
       else if prefix q (tags_path store) then Some HostDir
       else host_node h q)"
  shows "objects_ok store h'" "obj_at store h' = (obj_at store h)(e \<mapsto> (b, List.map_filter cut_eq (split_on 10 tb), t))"
proof -
  have e: "e \<noteq> tags_dir"
    using assms(2) tags_dir_not_plain by auto
  have tags_node: "host_node h' (store @ [''obj'', tags_dir, d]) = (if d = e then Some (HostFile tb tt) else host_node h (store @ [''obj'', tags_dir, d]))" for d
    by (simp add: node)
  have obj_node: "host_node h' (store @ [''obj'', d]) = (if d = e then Some (HostFile b t)
      else if d = tags_dir then Some HostDir else host_node h (store @ [''obj'', d]))" for d
    by (simp add: node)
  have "\<not> is_file (host_node h' q)" if "prefix q (tags_path store)" for q
  proof -
    have "q \<noteq> store @ [''obj'', e]" "q \<noteq> tags_path store @ [e]"
      using that e by (auto dest: prefix_length_le)
    then show ?thesis
      using that by (simp add: node is_file_def)
  qed
  then show "objects_ok store h'"
    using assms(1,2,3) unfolding objects_ok_def by (auto simp: tags_node obj_node is_file_def split: if_splits)
  have tags: "stored_tags store h' d = (if d = e then List.map_filter cut_eq (split_on 10 tb) else stored_tags store h d)" for d
    by (simp add: stored_tags_def tags_node)
  have "host_node h (store @ [''obj'', tags_dir]) \<noteq> Some (HostFile x y)" for x y
    using objects_okD(2) [OF assms(1), of "tags_path store"] by (auto simp: is_file_def)
  then have "obj_at store h tags_dir = None"
    by (auto simp: obj_at_def split: option.split host_node.split)
  then show "obj_at store h' = (obj_at store h)(e \<mapsto> (b, List.map_filter cut_eq (split_on 10 tb), t))"
    using e by (auto simp: fun_eq_iff obj_at_def tags obj_node split: option.split host_node.split)
qed

lemma dirStore_CreateObject_new:
  assumes "objects_ok store h" "plain_elem e" "obj_at store h e = None" "tags \<noteq> []" "\<forall>t\<in>set tags. validTag t"
  shows "\<exists>h'. dirStore_CreateObject store now rnd (''obj/'' @ e) (b, None) tags h = (None, h') \<and> objects_ok store h'
    \<and> obj_at store h' = (obj_at store h)(e \<mapsto> (b, tags, now))"
proof -
  have e: "e \<noteq> tags_dir"
    using assms(2) tags_dir_not_plain by auto
  note h = objects_okD [OF assms(1)]
  have "\<forall>q. prefix [] q \<and> prefix q ([] @ obj_dir store) \<longrightarrow> \<not> is_file (host_node h q)"
    using h(2) prefix_snoc [of _ "obj_dir store" tags_dir] by simp
  then obtain h1 where h1: "MkdirAll h (obj_dir store) = Inr h1" "files_tree h1"
      "\<And>q. host_node h1 q = (if prefix q (obj_dir store) then Some HostDir else host_node h q)"
    using host_mkdirs_result [OF h(1), of "[]" "obj_dir store"] by (auto simp: MkdirAll_def)
  have "\<not> is_file (host_node h1 q)" if "prefix q (tags_path store)" for q
    using h(2) [OF that] by (simp add: h1(3) is_file_def)
  moreover have "host_node h1 (obj_dir store) = Some HostDir"
    by (simp add: h1(3))
  moreover have "host_node h1 (tags_path store @ [e]) \<noteq> Some HostDir"
    using h(4) [of e HostDir] by (auto simp: h1(3) is_file_def dest: prefix_length_le)
  ultimately obtain h2 where h2: "create_tags h1 (obj_dir store) e tags now = (None, h2)" "files_tree h2"
      "\<And>q. host_node h2 q = (if q = tags_path store @ [e] then Some (HostFile (AppendTags [] tags) now)
         else if q = tags_path store then Some HostDir else host_node h1 q)"
    using create_tags_result [OF h1(2), of store e tags now] assms(4,5) by blast
  let ?tmp = "''.'' @ e @ ''.'' @ rnd"
  have "CHR ''.'' \<in> set (e @ ''.'' @ rnd)" "CHR ''.'' \<notin> set ''tags''"
    by simp_all
  then have "?tmp \<noteq> tags_dir"
    unfolding tags_dir_def by (metis append_Cons append_Nil list.inject)
  moreover have "\<not> plain_elem ?tmp"
    by (simp add: plain_elem_def)
  ultimately have "host_node h (obj_dir store @ [?tmp]) = None"
    using h(3) [of ?tmp] by (cases "host_node h (obj_dir store @ [?tmp])") auto
  then have tmp: "host_node h2 (obj_dir store @ [?tmp]) = None"
    using \<open>?tmp \<noteq> tags_dir\<close> by (auto simp: h2(3) h1(3) dest: prefix_length_le)
  have "host_node h (store @ [''obj'', e]) = None"
    using h(3) [of e] e assms(3) by (cases "host_node h (store @ [''obj'', e])") (auto simp: obj_at_def is_file_def)
  then have new: "host_node h2 (obj_dir store @ [e]) = None"
    using e by (auto simp: h2(3) h1(3) dest: prefix_length_le)
  have "host_node h2 (obj_dir store) = Some HostDir"
    by (simp add: h2(3) h1(3))
  then obtain h3 where h3: "create_file h2 (obj_dir store) e (b, None) tags now rnd = (None, h3)" "files_tree h3"
      "\<And>q. host_node h3 q = (if q = obj_dir store @ [e] then Some (HostFile b now) else host_node h2 q)"
    using create_file_result [OF h2(2) _ new tmp refl, of b tags now] by blast
  have "take 1 e \<noteq> ''.''"
    using plain_elemD [OF assms(2)] by simp
  then have "dirStore_CreateObject store now rnd (''obj/'' @ e) (b, None) tags h = (None, h3)"
    unfolding dirStore_CreateObject_def using joinPath_object [OF assms(2)] path_split_obj [of store e] h1(1) h2(1) h3(1) by simp
  moreover have "host_node h3 q =
      (if q = store @ [''obj'', e] then Some (HostFile b now)
       else if q = tags_path store @ [e] then Some (HostFile (AppendTags [] tags) now)
       else if prefix q (tags_path store) then Some HostDir
       else host_node h q)" for q
    using prefix_snoc [of q "obj_dir store" tags_dir] by (simp add: h3(3) h2(3) h1(3))
  note written = objects_ok_written [OF assms(1,2) h3(2) this]
  ultimately show ?thesis
    using written tags_text [OF assms(5)] by simp
qed

section \<open>Listing the objects\<close>

lemma path_Join_obj: "plain_elem e \<Longrightarrow> path_Join ''obj/'' e = ''obj/'' @ e"
proof -
  assume "plain_elem e"
  note e = plain_elemD [OF this]
  have "components (''obj/'' @ slash # e) = [''obj'', e]"
    using e(2) obj_elem by (subst components_append) (simp add: entry_name_def components_append [of "''obj''" "[]", simplified])
  then show ?thesis
    using e obj_elem clean_entries [of "[''obj'', e]" False "[]"] by (simp add: path_Join_def path_Clean_def IsAbs_def clean_path_def)
qed

lemma host_children_iff:
  assumes "files_tree h" "p \<noteq> []"
  shows "e \<in> set (host_children h p) \<longleftrightarrow> host_node h (p @ [e]) \<noteq> None"
proof -
  have "q \<noteq> [] \<and> butlast q = p \<and> last q = e \<longleftrightarrow> q = p @ [e]" for q
    by (cases q rule: rev_cases) auto
  then have "e \<in> set (host_children h p) \<longleftrightarrow> (\<exists>q\<in>set (map fst h). q = p @ [e])"
    unfolding host_children_def by (simp only: set_map [of last] set_filter image_iff bex_simps mem_Collect_eq Bex_def) metis
  then show ?thesis
    by (simp add: host_node_def map_of_eq_None_iff)
qed

lemma distinct_host_children: "files_tree h \<Longrightarrow> distinct (host_children h p)"
  unfolding host_children_def files_tree_def
  by (auto simp: distinct_map inj_on_def intro!: distinct_filter) (metis append_butlast_last_id)

definition shown_object :: "host_path \<Rightarrow> string \<Rightarrow> obj_filter list \<Rightarrow> host \<Rightarrow> string \<Rightarrow> object_info option" where
  "shown_object store pre filters h e =
     (case obj_at store h e of
        Some x \<Rightarrow> if prefix pre e \<and> MatchAll (stored_info e x) filters then Some (stored_info e x) else None
      | None \<Rightarrow> None)"

lemma dir_entries_objects:
  assumes "objects_ok store h" "\<forall>e\<in>set names. host_node h (store @ [''obj'', e]) \<noteq> None"
    and "dr_dir r = obj_dir store" "dr_path r = ''obj/''" "dr_prefix r = pre" "dr_filters r = filters"
  shows "dir_entries h r names = (List.map_filter (shown_object store pre filters h) names, None)"
  using assms(2)
proof (induction names)
  case (Cons e names)
  obtain n where n: "host_node h (store @ [''obj'', e]) = Some n"
    using Cons.prems by auto
  have "dir_entry_info h r e = Inr (shown_object store pre filters h e)"
  proof (cases "e = tags_dir")
    case True
    have "host_node h (store @ [''obj'', tags_dir]) \<noteq> Some (HostFile x y)" for x y
      using objects_okD(2) [OF assms(1), of "tags_path store"] by (auto simp: is_file_def)
    then have "obj_at store h e = None"
      using True by (auto simp: obj_at_def split: option.split host_node.split)
    then show ?thesis
      using True by (simp add: dir_entry_info_def tags_dir_def shown_object_def)
  next
    case False
    then obtain b t where e: "plain_elem e" "n = HostFile b t"
      using objects_okD(3) [OF assms(1) n] by (auto simp: is_file_def)
    have "take (length pre) e = pre \<longleftrightarrow> prefix pre e"
      by (metis append_take_drop_id prefix_def take_is_prefix append_eq_conv_conj)
    then show ?thesis
      using plain_elemD(5) [OF e(1)] n e(2) readTags_obj [OF assms(1), of e] path_Join_obj [OF e(1)]
      by (simp add: dir_entry_info_def assms(3-6) shown_object_def obj_at_def stored_info_def)
  qed
  then show ?case
    using Cons by (simp add: List.map_filter_simps split: option.split)
qed (simp add: List.map_filter_simps)

lemma dir_entries_rest: "dir_entries h (r\<lparr>dr_rest := names\<rparr>) es = dir_entries h r es"
proof -
  have "dir_entry_info h (r\<lparr>dr_rest := names\<rparr>) e = dir_entry_info h r e" for e
    by (simp add: dir_entry_info_def split: option.split host_node.split sum.split)
  then show ?thesis
    by (induction es) (simp_all split: sum.split)
qed

lemma length_dir_entries: "length (fst (dir_entries h r es)) \<le> length es"
  by (induction es) (auto split: sum.split option.split prod.split)

text \<open>A reader of the list with a buffer for more infos than there are names gives them in one call, with the end.\<close>

lemma dirReader_Read_all:
  assumes "dir_entries h r (dr_rest r) = (infos, None)" "length (dr_rest r) < n"
  shows "dirReader_Read h r n = ((infos, Some (ObjStream EOF)), r\<lparr>dr_rest := []\<rparr>)"
proof (cases "dr_rest r = []")
  case True
  then show ?thesis
    using assms by (subst dirReader_Read.simps) auto
next
  case False
  let ?r = "r\<lparr>dr_rest := []\<rparr>"
  note same = dir_entries_rest [where names = "[]"]
  have "length infos \<le> length (dr_rest r)"
    using length_dir_entries [of h r "dr_rest r"] assms(1) by simp
  then have "dirReader_Read h ?r (n - length infos) = (([], Some (ObjStream EOF)), ?r)"
    using assms(2) by (subst dirReader_Read.simps) simp
  moreover have "take n (dr_rest r) = dr_rest r" "drop n (dr_rest r) = []"
    using assms(2) by simp_all
  ultimately show ?thesis
    using assms False same by (subst dirReader_Read.simps) (simp add: Let_def)
qed

lemma dirStore_open_objects:
  assumes "slash \<notin> set pre"
  shows "dirStore_open_list store dirtime (''obj/'' @ pre) filters h =
     (case host_stat h (obj_dir store) of
        Inl e \<Rightarrow> if is_not_exist e then Inr None else Inl e
      | Inr (HostFile _ _) \<Rightarrow> Inl ObjNotDir
      | Inr HostDir \<Rightarrow> Inr (Some \<lparr>dr_dir = obj_dir store, dr_time = dirtime, dr_path = ''obj/'', dr_prefix = pre,
          dr_filters = filters, dr_rest = host_children h (obj_dir store)\<rparr>))"
proof (cases "pre = []")
  case True
  then show ?thesis
    unfolding True by (simp add: dirStore_open_list_def joinPath_obj)
next
  case False
  have "last pre \<noteq> slash" "slash \<notin> set (rev pre)"
    using assms last_in_set [OF False] by auto
  moreover have "dropWhile (\<lambda>c. c \<noteq> slash) (rev pre @ ''/jbo'') = ''/jbo''" "takeWhile (\<lambda>c. c \<noteq> slash) (rev pre @ ''/jbo'') = rev pre"
    using assms by (simp_all add: dropWhile_append takeWhile_append)
  ultimately show ?thesis
    using False joinPath_obj [of store] by (simp add: dirStore_open_list_def)
qed

lemma dirStore_ListObjects_at:
  assumes "objects_ok store h" "slash \<notin> set pre"
  shows "\<exists>infos. dirStore_ListObjects store dirtime (''obj/'' @ pre) filters h = (infos, None) \<and> distinct infos
    \<and> set infos = {stored_info e x |e x. obj_at store h e = Some x \<and> prefix pre e \<and> MatchAll (stored_info e x) filters}"
proof -
  note h = objects_okD [OF assms(1)]
  show ?thesis
  proof (cases "host_node h (obj_dir store)")
    case None
    have "\<forall>q. prefix q (obj_dir store) \<longrightarrow> \<not> is_file (host_node h q)"
      using h(2) prefix_snoc [of _ "obj_dir store" tags_dir] by simp
    then have "host_stat h (obj_dir store) = Inl ObjNotExist"
      by (intro host_stat_missing h(1) None)
    moreover have "obj_at store h e = None" for e
      using files_tree_parent [OF h(1), of "obj_dir store" e] None
      by (cases "host_node h (store @ [''obj'', e])") (auto simp: obj_at_def)
    ultimately show ?thesis
      using dirStore_open_objects [OF assms(2)] by (simp add: dirStore_ListObjects_def)
  next
    case (Some n)
    then have "n = HostDir"
      using h(2) [of "obj_dir store"] not_file_cases [of "host_node h (obj_dir store)"] by simp
    then have "host_stat h (obj_dir store) = Inr HostDir"
      using host_stat_node [OF h(1) Some] by simp
    moreover have child: "e \<in> set (host_children h (obj_dir store)) \<longleftrightarrow> host_node h (store @ [''obj'', e]) \<noteq> None" for e
      using host_children_iff [OF h(1), of "obj_dir store" e] by simp
    let ?infos = "List.map_filter (shown_object store pre filters h) (host_children h (obj_dir store))"
    have "dirStore_ListObjects store dirtime (''obj/'' @ pre) filters h = (?infos, None)"
      using calculation dirStore_open_objects [OF assms(2)] dir_entries_objects [OF assms(1)] child
      by (simp add: dirStore_ListObjects_def)
    moreover have "distinct ?infos"
    proof -
      have "inj_on (\<lambda>e. the (shown_object store pre filters h e)) {e. shown_object store pre filters h e \<noteq> None}"
        by (auto simp: inj_on_def shown_object_def stored_info_def split: option.splits if_splits)
      then have "inj_on (the \<circ> shown_object store pre filters h) {e. shown_object store pre filters h e \<noteq> None}"
        by (simp add: comp_def)
      then show ?thesis
        unfolding List.map_filter_def distinct_map using distinct_host_children [OF h(1)]
        by (intro conjI distinct_filter) (auto elim!: inj_on_subset)
    qed
    moreover have "set ?infos = {stored_info e x |e x. obj_at store h e = Some x \<and> prefix pre e \<and> MatchAll (stored_info e x) filters}"
    proof -
      have "e \<in> set (host_children h (obj_dir store))" if "obj_at store h e = Some x" for e x
        using that unfolding child by (cases "host_node h (store @ [''obj'', e])") (simp_all add: obj_at_def)
      moreover have "i \<in> set ?infos \<longleftrightarrow> (\<exists>e\<in>set (host_children h (obj_dir store)). shown_object store pre filters h e = Some i)" for i
        by (force simp: List.map_filter_def)
      ultimately show ?thesis
        by (fastforce simp: shown_object_def split: option.splits if_splits)
    qed
    ultimately show ?thesis
      by blast
  qed
qed

lemma obj_at_plain: "objects_ok store h \<Longrightarrow> obj_at store h e = Some x \<Longrightarrow> plain_elem e"
proof -
  assume h: "objects_ok store h" and x: "obj_at store h e = Some x"
  then obtain b t where "host_node h (store @ [''obj'', e]) = Some (HostFile b t)"
    by (auto simp: obj_at_def split: option.splits host_node.splits)
  then show ?thesis
    using objects_okD(3) [OF h] objects_okD(2) [OF h, of "tags_path store"] by (auto simp: is_file_def)
qed

text \<open>A store in a directory is a store of content.\<close>

interpretation dir_objects: content_store "dirStore store dirtime now rnd" "objects_ok store" "obj_at store"
  for store dirtime now rnd
proof unfold_locales
  fix h e b and tags :: "tag list"
  assume "objects_ok store h" "plain_elem e" "obj_at store h e = None" "tags \<noteq> []" "\<forall>t\<in>set tags. validTag t"
  then show "\<exists>t h'. CreateObject (dirStore store dirtime now rnd) (''obj/'' @ e) (b, None) tags h = (None, h')
      \<and> objects_ok store h' \<and> obj_at store h' = (obj_at store h)(e \<mapsto> (b, tags, t))"
    unfolding dirStore_def obj_store.simps using dirStore_CreateObject_new by blast
next
  fix h and pre :: string and filters :: "obj_filter list"
  assume "objects_ok store h" "slash \<notin> set pre"
  then show "\<exists>infos. ListObjects (dirStore store dirtime now rnd) (''obj/'' @ pre) filters h = (infos, None) \<and> distinct infos
      \<and> set infos = {stored_info e x |e x. obj_at store h e = Some x \<and> prefix pre e \<and> MatchAll (stored_info e x) filters}"
    unfolding dirStore_def obj_store.simps by (rule dirStore_ListObjects_at)
qed (simp_all only: dirStore_def obj_store.simps obj_at_plain dirStore_ReadObject_at dirStore_StatObject_at)

section \<open>An empty store\<close>

definition xor_sum :: "bytes \<Rightarrow> bytes" where
  "xor_sum b = replicate 31 0 @ [foldr (XOR) b 0]"

lemma length_xor_sum [simp]: "length (xor_sum b) = 32"
  by (simp add: xor_sum_def)

lemma objects_ok_empty [simp]: "objects_ok [''store''] []"
  by (auto simp: objects_ok_def files_tree_def host_node_def is_file_def)

lemma obj_at_empty [simp]: "obj_at [''store''] [] e = None"
  by (simp add: obj_at_def host_node_def)

lemma obj_at_unique:
  assumes "obj_at store h = (obj_at store h0)(e \<mapsto> x)" "\<And>d. obj_at store h0 d = None" "obj_at store h d \<noteq> None"
  shows "d = e"
  using assms by (auto split: if_splits)

end
