(* ===== verification/Spec2Isabelle.thy ===== *)
theory Spec2Isabelle
  imports Log_Replay Observer Decoder_Cache Ipam Tree_Kernel Tarfs_File Guest_List Object_Dir
begin

text \<open>
  A verification development for timecraft, a runtime that records the system calls of a WebAssembly module in a log and
  replays the module from that log.

  \<^bold>\<open>The program.\<close> A module runs on a stack of systems, values of the interface \<^verbatim>\<open>wasi.System\<close>. When a process is
  recorded, the recorder (\<^verbatim>\<open>internal/timemachine/wasicall/record.go\<close>) forwards each call to the system below, encodes
  the parameters and the results with \<^verbatim>\<open>Codec\<close> (\<^verbatim>\<open>codec.go\<close>) and hands them to a function of the process
  (\<^verbatim>\<open>internal/timecraft/process.go\<close>), which writes a record to the log. The log (\<^verbatim>\<open>internal/timemachine/log.go\<close>,
  \<^verbatim>\<open>record.go\<close>, \<^verbatim>\<open>record_batch.go\<close>) is a sequence of batches of records, compressed and with a checksum. A log is read
  back through \<^verbatim>\<open>io.go\<close> and the iterators of \<^verbatim>\<open>internal/stream\<close>, by the reader of system calls (\<^verbatim>\<open>reader.go\<close>), which
  decodes them, and by the replay (\<^verbatim>\<open>replay.go\<close>), a system that answers each call from the next record. A module is
  replayed on the replay with an exit behind it (\<^verbatim>\<open>fallback.go\<close>, \<^verbatim>\<open>exit.go\<close>, \<^verbatim>\<open>internal/timecraft/replay.go\<close>);
  observers (\<^verbatim>\<open>observer.go\<close>) watch the calls. A recorded process lives in a sandbox: its addresses come from the pools of
  \<^verbatim>\<open>internal/ipam\<close>, and its files from \<^verbatim>\<open>internal/sandbox\<close>: a directory of the host (\<^verbatim>\<open>dirfs_unix.go\<close>), a tarball
  (\<^verbatim>\<open>tarfs\<close>), or the layers of an image stacked on each other (\<^verbatim>\<open>ocifs\<close>). The methods of \<^verbatim>\<open>wasi.go\<close> translate between the
  guest and these files. Modules, configurations, profiles and logs are kept by the registry
  (\<^verbatim>\<open>internal/timemachine/registry.go\<close>) under their hash in an object store (\<^verbatim>\<open>internal/object\<close>).

  \<^bold>\<open>The theories.\<close>

  \<^item> \<open>Prelude\<close>: Go's integers at their width, byte strings, errors and panics as values, and the locales
    \<open>wire_codec\<close>, \<open>plain_codec\<close>, \<open>panic_codec\<close> of an encoder and its decoder. \<open>Effects\<close>: calls that need not
    return, as partial functions.
  \<^item> \<open>Wasi\<close>: the types and constants of the package \<^verbatim>\<open>wasi-go\<close>, as a parameter.
  \<^item> \<open>Codec_Wire\<close>, \<open>Codec_Struct\<close>, \<open>Codec_Sock\<close>, \<open>Codec\<close>: \<^verbatim>\<open>codec.go\<close>, from the integers to the encoders and decoders
    of all the system calls. Every pair is an interpretation of a codec locale, which gives the round trip.
  \<^item> \<open>Syscall\<close>, \<open>Decoder\<close>, \<open>Decoder_Cache\<close>, \<open>Reader\<close>: \<^verbatim>\<open>syscall.go\<close> and \<^verbatim>\<open>reader.go\<close>, system calls as data, the decoder
    and its reused memory.
  \<^item> \<open>Sys_Interface\<close>: the interface \<^verbatim>\<open>wasi.System\<close>; the locale \<open>wasi_system\<close> of \<open>Completion\<close> is the contract of a system.
    \<open>Recorder\<close>, \<open>Replay\<close>, \<open>Systems\<close>, \<open>Observer\<close>: one definition per method of the systems of \<^verbatim>\<open>record.go\<close>, \<^verbatim>\<open>replay.go\<close>,
    \<^verbatim>\<open>errno.go\<close>, \<^verbatim>\<open>exit.go\<close>, \<^verbatim>\<open>fallback.go\<close> and \<^verbatim>\<open>observer.go\<close>, over the state of the system behind.
  \<^item> \<open>Replay_Correct\<close>: what the replay answers to one call, errors and panics included. \<open>Record_Replay\<close>: a guest and its
    run; the replay of a recorded run is that run. \<open>Replay_Run\<close>: the system that a module is replayed on.
  \<^item> \<open>Stream_Iterator\<close>, \<open>Stream\<close>: \<^verbatim>\<open>internal/stream\<close>; the locale \<open>stream_reader\<close> is the contract of a reader.
  \<^item> \<open>Log_Input\<close>, \<open>Log_Format\<close>, \<open>Log_Writer\<close>, \<open>Log_Reader\<close>: \<^verbatim>\<open>io.go\<close>, \<^verbatim>\<open>record.go\<close>, \<^verbatim>\<open>record_batch.go\<close>, \<^verbatim>\<open>compress.go\<close>,
    \<^verbatim>\<open>checksum.go\<close> and \<^verbatim>\<open>log.go\<close>. The format is the function \<open>segment_wire\<close>; \<open>Log_Writer\<close> shows that the writer produces it
    and \<open>Log_Roundtrip\<close> that the reader is a stream of the records that were written. \<open>Log_Replay\<close> puts the recorder, the
    log and the replay together.
  \<^item> \<open>Bitset\<close>, \<open>Ipam\<close>: \<^verbatim>\<open>internal/ipam\<close>. A pool implements a set of addresses; the locale \<open>address_space\<close> is what it
    needs of the arithmetic of addresses, interpreted for IPv4 and IPv6.
  \<^item> \<open>Fspath\<close>, \<open>Resolve_Path\<close>, \<open>Dir_FS\<close>: \<^verbatim>\<open>internal/sandbox/fspath\<close>, \<^verbatim>\<open>fs.go\<close> and \<^verbatim>\<open>dirfs_unix.go\<close>, with the flags of Linux.
    Path resolution is proved over the locales \<open>directories\<close> (who owns which open file) and \<open>still_directories\<close> (it
    returns); the files of a directory of the host are their interpretation, over the locales \<open>host_kernel\<close> and
    \<open>still_kernel\<close> of the system calls, which the kernel of \<open>Tree_Kernel\<close> keeps.
  \<^item> \<open>Go_Path\<close>, \<open>Tarfs\<close>, \<open>Tarfs_Tree\<close>, \<open>Tarfs_Open\<close>, \<open>Tarfs_Dir\<close>, \<open>Tarfs_File\<close>: \<^verbatim>\<open>internal/sandbox/tarfs\<close>. Entries are references
    into a store; the abstract view is a map from paths to entries, and \<open>built hs s\<close> says what an archive with the headers
    \<open>hs\<close> opens as. \<open>Dirent\<close>: directory entries as bytes, with their round trip.
  \<^item> \<open>Ocifs_Dir\<close>, \<open>Ocifs\<close>: \<^verbatim>\<open>internal/sandbox/ocifs\<close> over any layers. \<open>Ocifs_View\<close> has the abstract view \<open>oci_view\<close> of a stack of
    layers, and the locale \<open>layer_dirs\<close> of what a layer promises, in which \<open>Ocifs_List\<close> shows that the code lists the view and
    that \<open>Stat\<close> finds it; \<open>Tar_Layers\<close> interprets the locale on the files of tarballs.
  \<^item> \<open>Wasi_File\<close>, \<open>Wasi_Dir\<close>: the files and directories of a guest, \<^verbatim>\<open>wasiFile\<close> and \<^verbatim>\<open>wasiDir\<close> in \<^verbatim>\<open>wasi.go\<close>. \<open>Guest_List\<close>: a guest
    that pages through a directory, over the locale \<open>dir_reader\<close>; \<open>layer_seeks\<close> is what the layers promise of seeking, and the
    stack of layers is a \<open>dir_reader\<close> of its view.
  \<^item> \<open>Object_Store\<close>, \<open>Registry\<close>: \<^verbatim>\<open>internal/object\<close>, \<^verbatim>\<open>registry.go\<close>, \<^verbatim>\<open>hash.go\<close> and the hashes of \<^verbatim>\<open>format/timecraft.go\<close>.
    \<open>Registry_Laws\<close> proves what the registry finds over the locale \<open>content_store\<close>, a map from names to objects, and \<open>Object_Dir\<close>
    interprets it on the store in a directory.

  \<^bold>\<open>The properties\<close> below are in the order of their importance: the replay of a recorded run, through memory and
  through a log file; what the replay does with other calls; the log and its failures; the recorder and the other
  systems; the codec; the streams; the registry; the pools; the file systems. Some state what the code does where it differs from its
  documentation.

  \<^bold>\<open>Bounds.\<close> Integers are of the width that the code gives them, on a platform of 64 bits. The encoder panics on a list
  or a byte string of \<open>2 ^ 32\<close> elements and more; \<open>recordable\<close> and \<open>syscall_ok\<close> exclude them and values outside of their types.
  A batch and its records must fit the 32-bit fields of its metadata (\<open>small_batch\<close>) and the offsets an \<^verbatim>\<open>int64\<close>
  (\<open>batches_ok\<close>); the metadata of a batch, eight numbers, takes at most 252 bytes behind its size (\<open>log_libraries\<close>), and longer
  frames make the reader panic (\<open>large_frame_panics\<close>). The networks of an IPv6 pool have 66 to 128 bits. A guest makes up to \<open>n\<close> calls, for
  every \<open>n\<close>; a replay reads its log by as many answers of the reader as there are records, and one more. The methods of a
  file call one another: \<open>dirFile_ops n\<close> has \<open>n\<close> levels of calls, and two are enough for every path, because the elements
  that resolution opens are single names. Resolution follows ten links, and the proof that it returns is by the number of
  links left and the length of the name. A path in a tarball has up to ten elements, links or not. The layers of an image
  are read with a buffer of 8192 bytes, which must hold the listing of a directory (\<open>listing_small\<close>); the calls of the
  files of layers have levels like those of \<open>dirFile_ops\<close>. A guest that pages through a directory needs one call more than
  there are entries. A slice has its length as capacity: the reader of a batch panics on a record that runs over the end of
  the data by up to four bytes, where the code may read what is behind.

  \<^bold>\<open>Parameters.\<close> What is not in the repository is an argument, with what is relied on as a hypothesis: the constants and
  the layouts of \<^verbatim>\<open>wasi-go\<close>, the system that is recorded (\<open>wasi_system\<close>), the packages generated by flatbuffers and the
  compressors (\<open>log_libraries\<close>), files that deliver their bytes in pieces of any size, the writers for the output of a
  replay, the system calls of the host (\<open>kernel_ok\<close>, \<open>kernel_still\<close>, \<open>root_ok\<close>), the headers that \<^verbatim>\<open>archive/tar\<close> reads from an
  archive and the \<^verbatim>\<open>io.ReaderAt\<close> of its content, the order in which Go goes through a map, the hash function, and the encodings
  of values as JSON and of times and UUIDs as text. Each that a property has a hypothesis about has an instance that the property is
  applied to.

  \<^bold>\<open>Not modelled.\<close> Concurrency: goroutines, locks and channels between them; a replay, a log and a file are used by one
  thread. Of the sandbox, the sockets, pipes and polling (\<^verbatim>\<open>local.go\<close>, \<^verbatim>\<open>local_unix.go\<close>, \<^verbatim>\<open>host_unix.go\<close>, \<^verbatim>\<open>socket.go\<close>,
  \<^verbatim>\<open>system.go\<close>), which wrap the operating system, the sockets and the throttling of \<^verbatim>\<open>wasi.go\<close>, \<^verbatim>\<open>subfs.go\<close>, writing an
  archive, and of a directory of the host what is done with an open descriptor besides resolving paths. Of the registry, the
  segments that are written through a pipe, the list of manifests and the stream of all records. The process manager, the server and the
  command line, the container images, the tracing and printing packages, the fault injection and the client library:
  input and output, networking and formatting. Generated code. The methods \<^verbatim>\<open>Close\<close> that only forward and the
  formatting of errors.
\<close>

section \<open>Recording, logging and replaying a run\<close>

text \<open>
  C1. A run, its log, and the replay from the log. A guest makes up to \<open>n\<close> calls to a recorder over any system \<open>S\<close> that keeps
  the promises of \<open>wasi_system\<close>; each call that the recorder hands over is written, at the time its clock
  gives, through the record writer, with any batch size and each of the three compressions, and the
  writer is flushed at the end. Then the log is written, and the same guest on a replay that reads the
  log from a file, however the file delivers its bytes, completes the same calls with the same results
  and buffers, ends the same way, and has consumed the log. The batches must fit the 32-bit sizes of
  the format.
\<close>

theorem record_log_replay:
  assumes "wasi_system S"
    and "run (NewRecorder W S) g n \<lparr>recorder_system = s, recorder_log = []\<rparr> [] = (p, calls, r)"
    and "exits W g calls p" and "list_all (recordable W) calls"
    and "log_libraries L" and "compression = Uncompressed \<or> compression = Snappy \<or> compression = Zstd"
    and "length clock = length (recorder_log r)" and "length clock < m" and "int (length clock) < 2 ^ 63"
    and "\<And>us. sublist us (map (call_fields startTime) (zip clock (recorder_log r))) \<Longrightarrow>
      small_batch L compression us"
  shows "\<exists>content rp. write_log L startTime batchSize compression (zip clock (recorder_log r)) = Some content
    \<and> run (ReplaySystem wr W) g n
        (NewReplay discard (log_answers L m (open_log startTime delivery content))) [] = (p, calls, rp)
    \<and> remaining (Replay_records rp) = ([], EOF)"
proof -
  let ?calls = "zip clock (recorder_log r)"
  have len: "length ?calls = length clock"
    using assms(7) by simp
  have total: "int (length ?calls) < 2 ^ 63"
    unfolding len by (rule assms(9))
  obtain batches where log: "write_log L startTime batchSize compression ?calls
      = Some (segment_wire L compression 0 batches)"
    "concat batches = map (call_fields startTime) ?calls" "batches_ok L compression 0 batches"
    using write_log_segment [where batchSize = batchSize and startTime = startTime, OF assms(5,10) total] by blast
  have "answers_pending (log_answers L m (open_log startTime delivery (segment_wire L compression 0 batches)))
      = (records_at startTime 0 (map (call_fields startTime) ?calls), EOF)"
    using open_log_answers [OF assms(5,6) log(3)] assms(8) len log(2) by (metis length_map)
  moreover have "id_range (recorder_log r)"
    using run_id_range [OF assms(2)] by (simp add: id_range_def)
  then have "records_of (recorder_log r) (records_at startTime 0 (map (call_fields startTime) ?calls))"
    by (rule records_at_log [OF _ assms(7)])
  ultimately show ?thesis
    using log(1) run_replays_fresh [OF assms(1-4)] by metis
qed

theorem record_log_replay_witness:
  "\<exists>content rp. write_log plain_libraries 5 1 Snappy
      (zip [7] (recorder_log \<lparr>recorder_system = (), recorder_log = [(FDTell, EncodeFDTell [] 3 0 8)]\<rparr>)) = Some content
    \<and> run (ReplaySystem (\<lambda>w b. (None, w @ b)) preview1)
        (\<lambda>calls. if calls = [] then Some (FDCall (FDTellSyscall 3 0 0)) else None) 2
        (NewReplay [] (log_answers plain_libraries 2 (open_log 5 [1, 2] content))) []
      = (None, [FDCall (FDTellSyscall 3 0 8)], rp)
    \<and> remaining (Replay_records rp) = ([], EOF)"
proof (rule record_log_replay [where S = "NewErrnoSystem 8" and s = "()"])
  let ?r = "\<lparr>recorder_system = (), recorder_log = [(FDTell, EncodeFDTell [] 3 0 8)]\<rparr>"
  show "wasi_system (NewErrnoSystem 8)"
    by (rule errno_wasi_system)
  show "run (NewRecorder preview1 (NewErrnoSystem 8))
      (\<lambda>calls. if calls = [] then Some (FDCall (FDTellSyscall 3 0 0)) else None) 2
      \<lparr>recorder_system = (), recorder_log = []\<rparr> [] = (None, [FDCall (FDTellSyscall 3 0 8)], ?r)"
    by (simp add: numeral_2_eq_2 NewRecorder_def recorder_FDTell_def recorder_forward_def
        recorder_write_def NewErrnoSystem_def errno_FDTell_def map_return_def)
  show "list_all (recordable preview1) [FDCall (FDTellSyscall 3 0 8)]"
    by (simp add: recordable_def val_preview1 preview1_simps fits_Unsigned_iff fits_Signed_iff wide_types_def
        EncodeFDTell_def encode_append encodeErrno_def encodeFD_def encodeFileSize_def encodeU32_def encodeU64_def)
  show "log_libraries plain_libraries"
    by (rule plain.log_libraries_axioms)
  show "small_batch plain_libraries Snappy us"
    if "sublist us (map (call_fields 5) (zip [7] (recorder_log ?r)))" for us
    using that
    by (auto simp: sublist_Cons_right prefix_Cons small_batch_def data_section_def payload_def compress_def
        plain_libraries_def size_prefixed_def plain_record_def EncodeFDTell_def encode_append encodeErrno_def encodeFD_def encodeFileSize_def encodeU32_def encodeU64_def)
qed (simp_all add: exits_def)

section \<open>Recording and replaying a run\<close>

text \<open>
  C2. Recording and replaying. A guest makes up to \<open>n\<close> calls to a recorder over any system \<open>S\<close> that keeps the
  promises of \<open>wasi_system\<close>, completing the calls \<open>calls\<close>, each recordable, and ending with \<open>p\<close>: out of
  calls, or by an exit of the process. Then the same guest on a replay of the records that were
  written (in any chunks, at any offsets and times) completes the same calls with the same results
  and the same contents of its buffers, ends with the same \<open>p\<close>, and has consumed the log.
\<close>

theorem record_replay:
  assumes "wasi_system S"
    and "run (NewRecorder W S) g n \<lparr>recorder_system = s, recorder_log = []\<rparr> [] = (p, calls, r)"
    and "exits W g calls p" and "list_all (recordable W) calls"
    and "records_of (recorder_log r) records" and "answers_pending log = (records, EOF)"
  shows "\<exists>rp. run (ReplaySystem wr W) g n (NewReplay discard log) [] = (p, calls, rp)
    \<and> remaining (Replay_records rp) = ([], EOF)"
  by (rule run_replays_fresh [OF assms]) blast

theorem record_replay_witness:
  "\<exists>rp. run (ReplaySystem (\<lambda>w b. (None, w @ b)) preview1)
      (\<lambda>calls. if calls = [] then Some (FDCall (FDTellSyscall 3 0 0)) else None) 2
      (NewReplay [] [([], None), ([\<lparr>Record_Offset = 0, Record_Time = 7, Record_FunctionID = FDTell,
        Record_FunctionCall = EncodeFDTell [] 3 0 8\<rparr>], Some EOF)]) []
      = (None, [FDCall (FDTellSyscall 3 0 8)], rp)
    \<and> remaining (Replay_records rp) = ([], EOF)"
proof (rule record_replay [where S = "NewErrnoSystem 8" and s = "()"])
  show "wasi_system (NewErrnoSystem 8)"
    by (rule errno_wasi_system)
  show "run (NewRecorder preview1 (NewErrnoSystem 8))
      (\<lambda>calls. if calls = [] then Some (FDCall (FDTellSyscall 3 0 0)) else None) 2
      \<lparr>recorder_system = (), recorder_log = []\<rparr> []
    = (None, [FDCall (FDTellSyscall 3 0 8)],
       \<lparr>recorder_system = (), recorder_log = [(FDTell, EncodeFDTell [] 3 0 8)]\<rparr>)"
    by (simp add: numeral_2_eq_2 NewRecorder_def recorder_FDTell_def recorder_forward_def
        recorder_write_def NewErrnoSystem_def errno_FDTell_def map_return_def)
  show "list_all (recordable preview1) [FDCall (FDTellSyscall 3 0 8)]"
    by (simp add: recordable_def val_preview1 preview1_simps fits_Unsigned_iff fits_Signed_iff wide_types_def
        EncodeFDTell_def encode_append encodeErrno_def encodeFD_def encodeFileSize_def encodeU32_def encodeU64_def)
qed (simp_all add: exits_def records_of_def)

text \<open>
  C3. Replaying a module. On the system that a module is replayed on, the replay with an exit of the
  process behind it, a recorded run none of whose calls failed with \<^verbatim>\<open>ENOSYS\<close> is repeated call by call.
\<close>

theorem module_replay:
  assumes "wasi_system S"
    and "run (NewRecorder W S) g n \<lparr>recorder_system = s, recorder_log = []\<rparr> [] = (p, calls, r)"
    and "exits W g calls p" and "list_all (recordable W) calls"
    and "list_all (\<lambda>c. Syscall_Error c \<noteq> ENOSYS W) calls"
    and "records_of (recorder_log r) records" and "answers_pending log = (records, EOF)"
  shows "\<exists>rp. run (replay_system wr W) g n (NewReplay discard log, ()) [] = (p, calls, rp, ())
    \<and> remaining (Replay_records rp) = ([], EOF)"
proof -
  obtain rp where "run (ReplaySystem wr W) g n (NewReplay discard log) [] = (p, calls, rp)"
    "remaining (Replay_records rp) = ([], EOF)"
    by (rule run_replays_fresh [OF assms(1-4,6,7)])
  then show ?thesis
    using run_fallback [where past = "[]" and new = calls and W = W] assms(5)
    by (fastforce simp: replay_system_def)
qed

theorem module_replay_witness:
  "\<exists>rp. run (replay_system (\<lambda>w b. (None, w @ b)) preview1)
      (\<lambda>calls. Some (ProcCall (ProcExitSyscall 3 0))) (Suc 0)
      (NewReplay [] [([\<lparr>Record_Offset = 0, Record_Time = 7, Record_FunctionID = ProcExit,
        Record_FunctionCall = EncodeProcExit [] 3 0\<rparr>], None)], ()) []
      = (Some (ExitError 3), [], rp, ())
    \<and> remaining (Replay_records rp) = ([], EOF)"
proof (rule module_replay [where S = "NewExitSystem 3" and s = "()"])
  show "wasi_system (NewExitSystem 3)"
    by (rule exit.wasi_system_axioms)
  show "run (NewRecorder preview1 (NewExitSystem 3)) (\<lambda>calls. Some (ProcCall (ProcExitSyscall 3 0))) (Suc 0)
      \<lparr>recorder_system = (), recorder_log = []\<rparr> []
    = (Some (ExitError 3), [],
       \<lparr>recorder_system = (), recorder_log = [(ProcExit, EncodeProcExit [] 3 0)]\<rparr>)"
    by (simp add: NewRecorder_def recorder_ProcExit_def recorder_forward_def
        recorder_write_def NewExitSystem_def exit_ProcExit_def newExitError_def map_return_def
        preview1_simps)
  show "exits preview1 (\<lambda>calls. Some (ProcCall (ProcExitSyscall 3 0))) [] (Some (ExitError 3))"
    by (simp add: exits_def val_preview1 preview1_simps fits_Unsigned_iff fits_Signed_iff wide_types_def)
qed (simp_all add: records_of_def)

text \<open>
  C4. The log of a run. When a run under the recorder ends without a panic, reading its log back call by
  call gives, in order and with the times of their records, exactly the calls of the run (the buffers
  of a read cut to the bytes that were read), and then the end of the log.
\<close>

theorem read_recorded_run:
  assumes "run (NewRecorder W S) g n \<lparr>recorder_system = s, recorder_log = []\<rparr> [] = (None, calls, r)"
    and "list_all (recordable W) calls" and "records_of (recorder_log r) records"
    and "answers_pending log = (records, EOF)"
  shows "read_syscalls W (NewReader log)
    = (zip (map Record_Time records) (map logged calls), ReadFailed EOF)"
proof -
  have "recorder_log r = map (log_entry W) calls"
    by (rule run_log_fresh [OF assms(1,2)])
  then show ?thesis
    using read_log [OF assms(2), of records "NewReader log" EOF] assms(3,4) by (simp add: NewReader_def)
qed

theorem read_recorded_run_witness:
  "read_syscalls preview1 (NewReader [([\<lparr>Record_Offset = 0, Record_Time = 7,
        Record_FunctionID = FDTell, Record_FunctionCall = EncodeFDTell [] 3 0 8\<rparr>], Some EOF)])
    = ([(7, FDCall (FDTellSyscall 3 0 8))], ReadFailed EOF)"
proof -
  have "run (NewRecorder preview1 (NewErrnoSystem 8))
      (\<lambda>calls. if calls = [] then Some (FDCall (FDTellSyscall 3 0 0)) else None) 2
      \<lparr>recorder_system = (), recorder_log = []\<rparr> []
    = (None, [FDCall (FDTellSyscall 3 0 8)],
       \<lparr>recorder_system = (), recorder_log = [(FDTell, EncodeFDTell [] 3 0 8)]\<rparr>)"
    by (simp add: numeral_2_eq_2 NewRecorder_def recorder_FDTell_def recorder_forward_def
        recorder_write_def NewErrnoSystem_def errno_FDTell_def map_return_def)
  moreover have "list_all (recordable preview1) [FDCall (FDTellSyscall 3 0 8)]"
    by (simp add: recordable_def val_preview1 preview1_simps fits_Unsigned_iff fits_Signed_iff wide_types_def
        EncodeFDTell_def encode_append encodeErrno_def encodeFD_def encodeFileSize_def encodeU32_def encodeU64_def)
  ultimately show ?thesis
    using read_recorded_run [of preview1 "NewErrnoSystem 8" _ 2 "()" "[FDCall (FDTellSyscall 3 0 8)]" _
        "[\<lparr>Record_Offset = 0, Record_Time = 7, Record_FunctionID = FDTell,
          Record_FunctionCall = EncodeFDTell [] 3 0 8\<rparr>]"]
    by (simp add: records_of_def)
qed

text \<open>
  C5. A record of a call is read back. For a completed call \<open>s\<close> whose fields are values of
  their types and whose encoding \<open>b\<close> is below 4 GiB, the decoder gives for the record of \<open>s\<close> the time of
  the record and the call, with the buffers of a read cut to the bytes that were read.
\<close>

theorem decode_recorded:
  assumes "syscall_ok W s" "encode_syscall W s = Inr b" "length b < 4294967296"
  shows "fst (Decoder_Decode W d \<lparr>Record_Offset = off, Record_Time = t,
      Record_FunctionID = Syscall_ID s, Record_FunctionCall = b\<rparr>) = Inr (t, logged s)"
  using assms Decoder_Decode_logged [of W s b "\<lparr>Record_Offset = off, Record_Time = t,
      Record_FunctionID = Syscall_ID s, Record_FunctionCall = b\<rparr>" d] by simp

theorem decode_recorded_witness:
  "fst (Decoder_Decode preview1 zero_Decoder \<lparr>Record_Offset = 4, Record_Time = 7,
      Record_FunctionID = FDTell, Record_FunctionCall = EncodeFDTell [] 3 9 0\<rparr>)
    = Inr (7, FDCall (FDTellSyscall 3 9 0))"
  using decode_recorded [of preview1 "FDCall (FDTellSyscall 3 9 0)" "EncodeFDTell [] 3 9 0" zero_Decoder 4 7]
  by (simp add: val_preview1 preview1_simps fits_Unsigned_iff fits_Signed_iff wide_types_def
      EncodeFDTell_def encode_append encodeErrno_def encodeFD_def encodeFileSize_def encodeU32_def encodeU64_def)

section \<open>Answers of the replay\<close>

text \<open>
  C6. A replayed call. When the next record of a replay is the encoding of a completed call \<open>s\<close>, and the guest
  makes a call \<open>c\<close> that \<open>s\<close> completes (same parameters, room for the results), the replay returns \<open>s\<close>: the
  recorded results, and in the buffers of a read the bytes that were read. It consumes that record
  and no other. \<^verbatim>\<open>ProcExit\<close>, which does not return, and \<^verbatim>\<open>SockAddressInfo\<close> with an address in its hints are
  excepted by \<open>replayable\<close>.
\<close>

theorem replay_answers:
  assumes "next_is W r s rest" "syscall_ok W s" "replayable s" "completes c s"
  shows "fst (sys_call (ReplaySystem wr W) r c) = Return s
    \<and> remaining (Replay_records (snd (sys_call (ReplaySystem wr W) r c))) = rest"
  using assms by (rule sys_call_Replay)

theorem replay_answers_witness:
  "fst (sys_call (ReplaySystem (\<lambda>w b. (None, w @ b)) preview1)
      (NewReplay [] [([\<lparr>Record_Offset = 0, Record_Time = 7, Record_FunctionID = FDRead,
        Record_FunctionCall = EncodeFDRead preview1 [] 3 [[1, 2, 3], [4, 0]] 4 0\<rparr>], None)])
      (FDCall (FDReadSyscall 3 [[0, 0, 0], [0, 0]] 0 0)))
    = Return (FDCall (FDReadSyscall 3 [[1, 2, 3], [4, 0]] 4 0))"
proof (rule replay_answers [where rest = "([], EOF)", THEN conjunct1])
  show "next_is preview1 (NewReplay [] [([\<lparr>Record_Offset = 0, Record_Time = 7, Record_FunctionID = FDRead,
        Record_FunctionCall = EncodeFDRead preview1 [] 3 [[1, 2, 3], [4, 0]] 4 0\<rparr>], None)])
      (FDCall (FDReadSyscall 3 [[1, 2, 3], [4, 0]] 4 0)) ([], EOF)"
    unfolding next_is_def
    by (rule exI [of _ "\<lparr>Record_Offset = 0, Record_Time = 7, Record_FunctionID = FDRead,
          Record_FunctionCall = EncodeFDRead preview1 [] 3 [[1, 2, 3], [4, 0]] 4 0\<rparr>"])
      (simp add: EncodeFDRead_def encodeIOVecsPrefix_eq size_bound_def val_preview1 preview1_simps fits_Unsigned_iff fits_Signed_iff wide_types_def
        recorded_iovecs_def encodeIOVecs_def encodeBytes_def encodeSize_def encode_append encodeErrno_def encodeFD_def encodeFileSize_def encodeU32_def encodeU64_def)
  show "completes (FDCall (FDReadSyscall 3 [[0, 0, 0], [0, 0]] 0 0))
      (FDCall (FDReadSyscall 3 [[1, 2, 3], [4, 0]] 4 0))"
    by (simp add: completes_def filled_def recorded_iovecs_def go_copy_def)
qed (simp_all add: size_bound_def val_preview1 preview1_simps fits_Unsigned_iff fits_Signed_iff wide_types_def)

text \<open>
  C7. Strict mode. A replay is strict from the start. If the next record is that of a completed call \<open>s\<close>, a
  call \<open>c\<close> with other parameters than \<open>s\<close> (also a call of another kind), or without room for the recorded results,
  does not return: the replay panics. There is room when the call can take as many values as were recorded and, for a read, its
  buffers have the lengths of those that the recorded bytes fill, of which the last may be longer. The subscriptions of \<open>c\<close> are compared by the fields that
  their event types select, hence the hypothesis on them.
\<close>

theorem strict_replay_detects:
  assumes "next_is W r s rest" "syscall_ok W s" "Replay_strict r" "subscriptions_ok W c"
    "request c \<noteq> request s \<or> capacity c < capacity s
      \<or> \<not> room_for (buffers c) (recorded_iovecs (buffers s) (transferred s))"
  shows "\<exists>p. fst (sys_call (ReplaySystem wr W) r c) = Panic p"
proof (cases "fst (sys_call (ReplaySystem wr W) r c)")
  case (Return s')
  with sys_call_strict [OF assms(1-4)] assms(5) show ?thesis
    by (fastforce simp: takes_def)
qed simp

theorem strict_replay_detects_witness:
  "\<exists>p. fst (sys_call (ReplaySystem (\<lambda>w b. (None, w @ b)) preview1)
      (NewReplay [] [([\<lparr>Record_Offset = 0, Record_Time = 7, Record_FunctionID = FDRead,
        Record_FunctionCall = EncodeFDRead preview1 [] 3 [[1, 2, 3], [4, 0]] 4 0\<rparr>], None)])
      (FDCall (FDReadSyscall 3 [[0, 0], [0, 0, 0]] 0 0))) = Panic p"
proof (rule strict_replay_detects [where rest = "([], EOF)" and s = "FDCall (FDReadSyscall 3 [[1, 2, 3], [4, 0]] 4 0)"])
  show "next_is preview1 (NewReplay [] [([\<lparr>Record_Offset = 0, Record_Time = 7, Record_FunctionID = FDRead,
        Record_FunctionCall = EncodeFDRead preview1 [] 3 [[1, 2, 3], [4, 0]] 4 0\<rparr>], None)])
      (FDCall (FDReadSyscall 3 [[1, 2, 3], [4, 0]] 4 0)) ([], EOF)"
    by (simp add: next_is_def EncodeFDRead_def encodeIOVecsPrefix_eq size_bound_def val_preview1 preview1_simps fits_Unsigned_iff fits_Signed_iff wide_types_def
        recorded_iovecs_def encodeIOVecs_def encodeBytes_def encodeSize_def encode_append encodeErrno_def encodeFD_def encodeFileSize_def encodeU32_def encodeU64_def)
  show "request (FDCall (FDReadSyscall 3 [[0, 0], [0, 0, 0]] 0 0) :: (int \<times> SubscriptionClock) Syscall)
        \<noteq> request (FDCall (FDReadSyscall 3 [[1, 2, 3], [4, 0]] 4 0))
      \<or> capacity (FDCall (FDReadSyscall 3 [[0, 0], [0, 0, 0]] 0 0) :: (int \<times> SubscriptionClock) Syscall)
        < capacity (FDCall (FDReadSyscall 3 [[1, 2, 3], [4, 0]] 4 0) :: (int \<times> SubscriptionClock) Syscall)
      \<or> \<not> room_for (buffers (FDCall (FDReadSyscall 3 [[0, 0], [0, 0, 0]] 0 0) :: (int \<times> SubscriptionClock) Syscall))
          (recorded_iovecs (buffers (FDCall (FDReadSyscall 3 [[1, 2, 3], [4, 0]] 4 0) :: (int \<times> SubscriptionClock) Syscall))
            (transferred (FDCall (FDReadSyscall 3 [[1, 2, 3], [4, 0]] 4 0) :: (int \<times> SubscriptionClock) Syscall)))"
    by (simp add: recorded_iovecs_def)
qed (simp_all add: NewReplay_def size_bound_def val_preview1 preview1_simps fits_Unsigned_iff fits_Signed_iff wide_types_def)

text \<open>
  C8. A record of another call. Whatever the call and the mode, when the next record has another
  identifier than the call, the replay panics with the two identifiers and has consumed the record.
\<close>

theorem replay_unexpected_syscall:
  assumes "remaining (Replay_records r) = (record # rest, e)"
    "Record_FunctionID record \<noteq> Syscall_ID c"
  shows "fst (sys_call (ReplaySystem wr W) r c)
      = Panic (UnexpectedSyscallError (Record_FunctionID record) (Syscall_ID c))
    \<and> remaining (Replay_records (snd (sys_call (ReplaySystem wr W) r c))) = (rest, e)"
  using sys_call_other [OF assms] remaining_popped [OF assms(1)] by simp

theorem replay_unexpected_syscall_witness:
  "fst (sys_call (ReplaySystem (\<lambda>w b. (None, w @ b)) preview1)
      (NewReplay [] [([\<lparr>Record_Offset = 0, Record_Time = 7, Record_FunctionID = FDTell,
        Record_FunctionCall = []\<rparr>], None)])
      (ProcCall (SchedYieldSyscall 0))) = Panic (UnexpectedSyscallError 25 40)"
  using replay_unexpected_syscall [of "NewReplay [] [([\<lparr>Record_Offset = 0, Record_Time = 7,
      Record_FunctionID = FDTell, Record_FunctionCall = []\<rparr>], None)]"
      "\<lparr>Record_Offset = 0, Record_Time = 7, Record_FunctionID = FDTell, Record_FunctionCall = []\<rparr>"
      "[]" EOF "ProcCall (SchedYieldSyscall 0)" "\<lambda>w b. (None, w @ b)" preview1]
  by simp

text \<open>
  C9. The end of the records. At the end of the log every call returns \<^verbatim>\<open>ENOSYS\<close>, and keeps doing so; after
  an error of the reader every call panics with that error.
\<close>

theorem replay_end_of_log:
  assumes "remaining (Replay_records r) = ([], e)"
  shows "(if e = EOF
      then \<exists>s. fst (sys_call (ReplaySystem wr W) r c) = Return s \<and> Syscall_Error s = ENOSYS W
      else fst (sys_call (ReplaySystem wr W) r c) = Panic (ReadError e))
    \<and> remaining (Replay_records (snd (sys_call (ReplaySystem wr W) r c))) = ([], e)"
proof (cases "e = EOF")
  case True
  with sys_call_end [of r wr W c] remaining_popped_end [OF assms] assms show ?thesis
    by fastforce
next
  case False
  then show ?thesis
    using sys_call_failed [OF assms] remaining_popped_end [OF assms] by simp
qed

theorem replay_end_of_log_witness:
  "fst (sys_call (ReplaySystem (\<lambda>w b. (None, w @ b)) preview1) (NewReplay [] [([], Some ErrUnexpectedEOF)])
      (ProcCall (SchedYieldSyscall 0))) = Panic (ReadError ErrUnexpectedEOF)"
  using replay_end_of_log [of "NewReplay [] [([], Some ErrUnexpectedEOF)]" ErrUnexpectedEOF
      "\<lambda>w b. (None, w @ b)" preview1 "ProcCall (SchedYieldSyscall 0)"]
  by simp

text \<open>
  C10. Output of a replay. A replayed write to the descriptor that stands for the standard output appends the
  buffers, in order, to the writer \<^verbatim>\<open>Stdout\<close>; one to the descriptor that stands for the standard error
  does so to \<^verbatim>\<open>Stderr\<close>; any other write leaves both alone, also one to the descriptor \<^verbatim>\<open>noneFD\<close> that stands
  for an output that was closed. The recorded size and error are returned.
\<close>

theorem replay_output:
  assumes "next_is W r (FDCall (FDWriteSyscall fd iovecs sz errno)) rest"
    "syscall_ok W (FDCall (FDWriteSyscall fd iovecs sz errno))"
  shows "fst (Replay_FDWrite (\<lambda>w b. (None, w @ b)) W r fd iovecs) = Return (sz, errno)
    \<and> Replay_Stdout (snd (Replay_FDWrite (\<lambda>w b. (None, w @ b)) W r fd iovecs))
        = Replay_Stdout r @ (if fd \<noteq> noneFD W \<and> fd = Replay_stdout r then concat iovecs else [])
    \<and> Replay_Stderr (snd (Replay_FDWrite (\<lambda>w b. (None, w @ b)) W r fd iovecs))
        = Replay_Stderr r
          @ (if fd \<noteq> noneFD W \<and> fd \<noteq> Replay_stdout r \<and> fd = Replay_stderr r then concat iovecs else [])"
  using Replay_FDWrite_writes [OF assms(1)] assms(2) by (simp add: writeIOVecs_append)

theorem replay_output_witness:
  "Replay_Stdout (snd (Replay_FDWrite (\<lambda>w b. (None, w @ b)) preview1
      (NewReplay [9] [([\<lparr>Record_Offset = 0, Record_Time = 7, Record_FunctionID = FDWrite,
        Record_FunctionCall = EncodeFDWrite [] 1 [[1, 2], [3]] 3 0\<rparr>], None)]) 1 [[1, 2], [3]]))
    = [9, 1, 2, 3]
   \<and> Replay_Stdout (snd (Replay_FDWrite (\<lambda>w b. (None, w @ b)) preview1
      ((NewReplay [9] [([\<lparr>Record_Offset = 0, Record_Time = 7, Record_FunctionID = FDWrite,
        Record_FunctionCall = EncodeFDWrite [] (- 1) [[1, 2]] 0 8\<rparr>], None)])\<lparr>Replay_stdout := noneFD preview1\<rparr>)
      (- 1) [[1, 2]])) = [9]"
proof -
  let ?closed = "(NewReplay [9] [([\<lparr>Record_Offset = 0, Record_Time = 7, Record_FunctionID = FDWrite,
        Record_FunctionCall = EncodeFDWrite [] (- 1) [[1, 2]] 0 8\<rparr>], None)])\<lparr>Replay_stdout := noneFD preview1\<rparr>
    :: (int \<times> SubscriptionClock, bytes) Replay"
  have none: "noneFD preview1 = (- 1)"
    by (simp add: noneFD_def val_preview1 preview1_simps fits_Unsigned_iff fits_Signed_iff wide_types_def)
  have "next_is preview1 ?closed (FDCall (FDWriteSyscall (- 1) [[1, 2]] 0 8)) ([], EOF)"
    by (simp add: next_is_def NewReplay_def EncodeFDWrite_def encodeIOVecs_def encodeBytes_def encodeSize_def
        encode_append encodeErrno_def encodeFD_def encodeFileSize_def encodeU32_def encodeU64_def)
  from replay_output [OF this] have closed: "Replay_Stdout (snd (Replay_FDWrite (\<lambda>w b. (None, w @ b)) preview1 ?closed (- 1) [[1, 2]])) = [9]"
    by (simp add: none NewReplay_def val_preview1 preview1_simps fits_Unsigned_iff fits_Signed_iff wide_types_def)
  let ?r = "NewReplay [9] [([\<lparr>Record_Offset = 0, Record_Time = 7, Record_FunctionID = FDWrite,
        Record_FunctionCall = EncodeFDWrite [] 1 [[1, 2], [3]] 3 0\<rparr>], None)]
    :: (int \<times> SubscriptionClock, bytes) Replay"
  have "next_is preview1 ?r (FDCall (FDWriteSyscall 1 [[1, 2], [3]] 3 0)) ([], EOF)"
    by (simp add: next_is_def EncodeFDWrite_def encodeIOVecs_def encodeBytes_def encodeSize_def
        encode_append encodeErrno_def encodeFD_def encodeFileSize_def encodeU32_def encodeU64_def)
  from replay_output [OF this] show ?thesis
    using closed by (simp add: NewReplay_def none val_preview1 preview1_simps fits_Unsigned_iff fits_Signed_iff wide_types_def)
qed

section \<open>The log\<close>



text \<open>
  C12. A write that fails. When a flush fails, the writer keeps no error (\<^verbatim>\<open>stickyErr\<close> stays nil, so the next call of
  \<^verbatim>\<open>WriteRecordBatch\<close> writes again); through the record writer the next record panics, because the batch
  that was not written is still finished.
\<close>

theorem write_failure:
  assumes "Flush L wr w = returns (Some err) w'" "lw_stickyErr (lrw_writer w) = None"
  shows "lw_stickyErr (lrw_writer w') = None
    \<and> WriteRecord L wr w' record
      = panics (BuilderMessage ''builder must be reset before records can be added'') (record, w')"
  using Flush_fails [OF assms] by (simp add: WriteRecord_def RecordBatchBuilder_AddRecord_def)

theorem write_failure_witness:
  "lw_stickyErr (lrw_writer (NewLogRecordWriter (NewLogWriter ()) 1 0)) = None
    \<and> WriteRecord plain_libraries (\<lambda>w bs. returns (0, Some (OtherError 28)) w)
        (snd (the (Flush plain_libraries (\<lambda>w bs. returns (0, Some (OtherError 28)) w)
          ((NewLogRecordWriter (NewLogWriter ()) 1 0)\<lparr>lrw_count := 1\<rparr>)))) RecordBuilder_zero
      = panics (BuilderMessage ''builder must be reset before records can be added'')
          (RecordBuilder_zero, snd (the (Flush plain_libraries (\<lambda>w bs. returns (0, Some (OtherError 28)) w)
            ((NewLogRecordWriter (NewLogWriter ()) 1 0)\<lparr>lrw_count := 1\<rparr>))))"
proof -
  let ?wr = "\<lambda>w bs. returns (0, Some (OtherError 28)) w" and ?w = "(NewLogRecordWriter (NewLogWriter ()) 1 0)\<lparr>lrw_count := 1\<rparr>"
  have "Flush plain_libraries ?wr ?w = returns (Some (OtherError 28)) (snd (the (Flush plain_libraries ?wr ?w)))"
    by (simp add: Flush_def WriteRecordBatch_def RecordBatchBuilder_Write_def NewLogRecordWriter_def NewLogWriter_def Let_def)
  from write_failure [OF this, of RecordBuilder_zero] show ?thesis
    by (simp add: NewLogRecordWriter_def NewLogWriter_def)
qed

text \<open>
  C13. Large frames. A segment whose first frame announces more than 252 bytes, and no more than \<^verbatim>\<open>maxFrameSize\<close>, which the reader
  is written to accept, makes it panic: the buffer it grows has length zero.
\<close>

theorem large_frame_panics:
  assumes "252 < n" "n \<le> 131068" "file_content f = le32 n @ rest" "file_pos f = 0"
  shows "\<exists>r. ReadRecordBatch L file_Read sk (NewLogReader f startTime) = panics SliceBounds r"
proof (rule ReadRecordBatch_large [OF _ _ assms(2)])
  show "bf.buf_holds (lr_input (NewLogReader f startTime)) (le32 n @ rest) EOF"
    using assms(3,4) by (simp add: NewLogReader_def bf.buf_holds_new file_holds_def)
  show "lr_frameCap (NewLogReader f startTime) < 4 + unat n"
    using assms(1) by (simp add: NewLogReader_def word_less_nat_alt)
qed (simp_all add: NewLogReader_def RecordBatch_zero_def)

theorem large_frame_panics_witness:
  "\<exists>r. ReadRecordBatch plain_libraries file_Read file_Seek
      (NewLogReader \<lparr>file_content = le32 300 @ [], file_pos = 0, file_reads = []\<rparr> 0) = panics SliceBounds r"
  by (rule large_frame_panics [of 300]) simp_all

text \<open>
  C14. Data that fails its checksum. When the data of an uncompressed batch that is not empty cannot be read or does not have its
  checksum, \<^verbatim>\<open>readRecords\<close> returns an error; called again, it returns the same unverified data without one.
\<close>

theorem checksum_forgotten:
  assumes "batch_root L (batch_frame b) = Some meta" "fb_Compression meta = Uncompressed"
    and "0 < fb_UncompressedSize meta" "batch_uncompressed b = []"
    and "readRecords L rd b i = returns (Inl err) (b', i')"
  shows "batch_uncompressed b' \<noteq> [] \<and> readRecords L rd b' i' = returns (Inr (batch_uncompressed b')) (b', i')"
  using readRecords_again [OF assms(1,2,4,5,3)] by simp

theorem checksum_forgotten_witness:
  "let meta = \<lparr>fb_FirstOffset = 0, fb_FirstTimestamp = 0, fb_LastTimestamp = 0, fb_CompressedSize = 1,
        fb_UncompressedSize = 1, fb_Checksum = NOT (checksum [65]), fb_NumRecords = 1, fb_Compression = 0\<rparr>;
      b = RecordBatch_zero\<lparr>batch_frame := batch_bytes plain_libraries meta, batch_N := 1\<rparr>;
      i = newBufferedReadSeeker \<lparr>file_content = [65], file_pos = 0, file_reads = []\<rparr> 16;
      (b', i') = snd (the (readRecords plain_libraries file_Read b i))
   in batch_uncompressed b' \<noteq> []
    \<and> readRecords plain_libraries file_Read b' i' = returns (Inr (batch_uncompressed b')) (b', i')"
proof -
  define meta where "meta = \<lparr>fb_FirstOffset = 0, fb_FirstTimestamp = 0, fb_LastTimestamp = 0, fb_CompressedSize = 1,
    fb_UncompressedSize = 1, fb_Checksum = NOT (checksum [65]), fb_NumRecords = 1, fb_Compression = 0\<rparr>"
  let ?b = "RecordBatch_zero\<lparr>batch_frame := batch_bytes plain_libraries meta, batch_N := 1\<rparr>"
  let ?i = "newBufferedReadSeeker \<lparr>file_content = [65], file_pos = 0, file_reads = []\<rparr> 16"
  have root: "batch_root plain_libraries (batch_frame ?b) = Some meta"
    using plain.batch_finished [of meta]
    by (auto simp: meta_def batch_ok_def fits_Unsigned_iff fits_Signed_iff)
  have bad: "checksum [65] \<noteq> NOT (checksum [65])"
    by (rule not_NOT)
  have "\<exists>b' i'. readRecords plain_libraries file_Read ?b ?i
      = returns (Inl (Errorf ''bad record data: expect checksum %#x, got %#x'')) (b', i')"
    using root bad
    by (simp add: readRecords_def read_data_def ReadFull_def ReadAtLeast_def ReadAtLeast_loop.simps
        LimitedReader_Read_def bufferedReadSeeker_Read_def buffer_Read_def buffer_take_def file_Read_def
        newBufferedReadSeeker_def RecordBatch_zero_def meta_def Let_def)
  then obtain b' i' where r: "readRecords plain_libraries file_Read ?b ?i
      = returns (Inl (Errorf ''bad record data: expect checksum %#x, got %#x'')) (b', i')"
    by blast
  from checksum_forgotten [OF root _ _ _ r] r show ?thesis
    unfolding Let_def by (simp add: meta_def RecordBatch_zero_def)
qed

text \<open>
  C15. Seeking inside the buffer. After a seek to a position inside the buffer, reading to the end gives the rest of the buffer and then,
  again, the file from that position on: the bytes between the position and the end of the buffer come
  twice. (When \<open>file_pos\<close> is at the end of the buffered bytes, the correct stream is the file from the
  position on.)
\<close>

theorem seek_rereads:
  assumes "brs_err b = None" "0 < brs_size b" "0 \<le> brs_offset b" "brs_offset b \<le> offset"
    and "offset < brs_offset b + int (length (brs_buffer b))" and "\<And>len need. need \<le> grown len need"
  shows "\<exists>b' b''. bufferedReadSeeker_Seek file_Seek b offset SeekStart = (Inr offset, b')
    \<and> ReadAll grown (bufferedReadSeeker_Read file_Read) b' = returns
        (drop (nat (offset - brs_offset b)) (brs_buffer b) @ drop (nat offset) (file_content (brs_reader b)), None) b''"
proof -
  obtain b' where b': "bufferedReadSeeker_Seek file_Seek b offset SeekStart = (Inr offset, b')"
    "bf.buf_holds b' (drop (nat (offset - brs_offset b)) (brs_buffer b)
        @ drop (nat offset) (file_content (brs_reader b))) EOF"
    using Seek_inside_buffer [OF assms(1-5)] by blast
  then show ?thesis
    using bf.buf.ReadAll_holds [OF assms(6) b'(2)] by (simp add: not_EOF_def)
qed

theorem seek_rereads_witness:
  "\<exists>b' b''. bufferedReadSeeker_Seek file_Seek
      \<lparr>brs_buffer = [1, 2, 3], brs_err = None, brs_size = 16,
       brs_reader = \<lparr>file_content = [1, 2, 3], file_pos = 3, file_reads = []\<rparr>, brs_offset = 0\<rparr> 1 SeekStart = (Inr 1, b')
    \<and> ReadAll (\<lambda>len need. need) (bufferedReadSeeker_Read file_Read) b'
      = (returns ([2, 3, 2, 3], None) b'' :: (log_panic, bytes \<times> error option, os_file bufferedReadSeeker) call)"
  using seek_rereads [of "\<lparr>brs_buffer = [1, 2, 3], brs_err = None, brs_size = 16,
       brs_reader = \<lparr>file_content = [1, 2, 3], file_pos = 3, file_reads = []\<rparr>, brs_offset = 0\<rparr>" 1 "\<lambda>len need. need"]
  by (simp add: eval_nat_numeral)

section \<open>Systems over systems\<close>

text \<open>
  C16. The recorder is transparent. A call (other than \<^verbatim>\<open>ProcExit\<close>) that returns on the system below returns the same through the
  recorder, leaves the system in the same state, and adds one entry to the log: the identifier of the
  call and its encoding. If the call cannot be encoded, the recorder panics and the log is as before.
\<close>

theorem recorder_transparent:
  assumes "\<not> is_exit c" "sys_call S (recorder_system r) c = (Return s, t)"
  shows "sys_call (NewRecorder W S) r c =
    (case encode_syscall W s of
       Inr b \<Rightarrow> (Return s, r\<lparr>recorder_system := t, recorder_log := recorder_log r @ [(Syscall_ID s, b)]\<rparr>)
     | Inl msg \<Rightarrow> (Panic (PanicMessage msg), r\<lparr>recorder_system := t\<rparr>))"
  using assms
  by (simp add: sys_call_NewRecorder recorder_forward_def recorder_write_def split: sum.splits)

theorem recorder_transparent_witness:
  "sys_call (NewRecorder preview1 (NewErrnoSystem 8)) \<lparr>recorder_system = (), recorder_log = []\<rparr>
      (PathCall (PathUnlinkFileSyscall 3 [97] 0))
    = (Return (PathCall (PathUnlinkFileSyscall 3 [97] 8)),
       \<lparr>recorder_system = (), recorder_log = [(PathUnlinkFile, EncodePathUnlinkFile [] 3 [97] 8)]\<rparr>)"
  using recorder_transparent [of "PathCall (PathUnlinkFileSyscall 3 [97] 0)" "NewErrnoSystem 8"
      "\<lparr>recorder_system = (), recorder_log = []\<rparr>" "PathCall (PathUnlinkFileSyscall 3 [97] 8)" "()" preview1]
  by (simp add: NewErrnoSystem_def errno_PathUnlinkFile_def map_return_def)

text \<open>
  C17. The exit is recorded. Whatever the system below does with \<^verbatim>\<open>ProcExit\<close>, also when it panics and the call
  never returns, the log has the exit, with the error \<^verbatim>\<open>ESUCCESS\<close>, as its last entry.
\<close>

theorem recorder_exit:
  "recorder_log (snd (sys_call (NewRecorder W S) r (ProcCall (ProcExitSyscall exitCode e))))
     = recorder_log r @ [(ProcExit, EncodeProcExit [] exitCode (ESUCCESS W))]"
  by (simp only: sys_call_exit_recorded exit_record_def) simp

text \<open>
  C18. The fallback. An answer of the primary system other than \<^verbatim>\<open>ENOSYS\<close> is the answer, and the secondary system is not
  called; behind a primary system that implements nothing, every call is a call to the secondary.
\<close>

theorem fallback_calls:
  "(sys_call P s c = (Return r, s') \<and> Syscall_Error r \<noteq> ENOSYS W \<longrightarrow>
      sys_call (NewFallbackSystem W P Q) (s, t) c = (Return r, s', t))
   \<and> sys_call (NewFallbackSystem W (NewErrnoSystem (ENOSYS W)) Q) (u, t) c
        = (fst (sys_call Q t c), u, snd (sys_call Q t c))"
  using sys_call_fallback_answered [of P s c r s' W Q t] sys_call_fallback_unimplemented [of W Q u t c]
  by (simp add: fallback_second_def)

theorem fallback_calls_witness:
  "sys_call (NewFallbackSystem preview1 (NewErrnoSystem 8) (NewExitSystem 1)) ((), ())
      (ProcCall (SchedYieldSyscall 0)) = (Return (ProcCall (SchedYieldSyscall 8)), (), ())"
  using fallback_calls [of "NewErrnoSystem 8" "()" "ProcCall (SchedYieldSyscall 0)"
      "ProcCall (SchedYieldSyscall 8)" "()" preview1 "NewExitSystem 1" "()"]
  by (simp add: NewErrnoSystem_def errno_SchedYield_def map_return_def preview1_simps)

text \<open>
  C19. After the last record. A module that goes on calling after its log has ended exits with code 0,
  whatever it calls.
\<close>

theorem replay_exits_after_log:
  assumes "remaining (Replay_records rp) = ([], EOF)"
  shows "fst (sys_call (replay_system wr W) (rp, u) c) = Panic (ExitError 0)"
  using replay_system_end [OF assms] by simp

theorem replay_exits_after_log_witness:
  "fst (sys_call (replay_system (\<lambda>w b. (None, w @ b)) preview1) (NewReplay [] [], ())
      (ProcCall (SchedYieldSyscall 0))) = Panic (ExitError 0)"
  using replay_exits_after_log [of "NewReplay [] []" "\<lambda>w b. (None, w @ b)" preview1 "()"
      "ProcCall (SchedYieldSyscall 0)"] by simp

text \<open>
  C20. A recorded \<^verbatim>\<open>ENOSYS\<close> ends the replay. The replay answers a call that was recorded with the error \<^verbatim>\<open>ENOSYS\<close>
  faithfully, and the fallback takes that answer for the end of the log: the module exits with code 0
  in the middle of its log, where the recorded run went on.
\<close>

theorem replay_recorded_ENOSYS:
  assumes "next_is W rp s rest" "syscall_ok W s" "replayable s" "completes c s"
    "Syscall_Error s = ENOSYS W"
  shows "fst (sys_call (ReplaySystem wr W) rp c) = Return s
    \<and> fst (sys_call (replay_system wr W) (rp, u) c) = Panic (ExitError 0)"
  using sys_call_Replay [OF assms(1-4)] replay_system_recorded_ENOSYS [OF assms] by simp

theorem replay_recorded_ENOSYS_witness:
  "fst (sys_call (replay_system (\<lambda>w b. (None, w @ b)) preview1)
      (NewReplay [] [([\<lparr>Record_Offset = 0, Record_Time = 7, Record_FunctionID = FDTell,
        Record_FunctionCall = EncodeFDTell [] 3 0 52\<rparr>], None)], ())
      (FDCall (FDTellSyscall 3 0 0))) = Panic (ExitError 0)"
proof (rule replay_recorded_ENOSYS [where rest = "([], EOF)" and s = "FDCall (FDTellSyscall 3 0 52)",
      THEN conjunct2])
  show "next_is preview1 (NewReplay [] [([\<lparr>Record_Offset = 0, Record_Time = 7, Record_FunctionID = FDTell,
        Record_FunctionCall = EncodeFDTell [] 3 0 52\<rparr>], None)])
      (FDCall (FDTellSyscall 3 0 52)) ([], EOF)"
    by (simp add: next_is_def EncodeFDTell_def encode_append encodeErrno_def encodeFD_def encodeFileSize_def encodeU32_def encodeU64_def)
qed (simp_all add: completes_def val_preview1 preview1_simps fits_Unsigned_iff fits_Signed_iff wide_types_def)

text \<open>
  C21. Hints with an address. A strict replay of \<^verbatim>\<open>SockAddressInfo\<close>, called with the very parameters that were recorded,
  panics when the hints have an address: the addresses are compared by reference.
\<close>

theorem replay_hints_rejected:
  assumes "next_is W r (SockCall (SockAddressInfoSyscall name service hint results errno)) rest"
    "syscall_ok W (SockCall (SockAddressInfoSyscall name service hint results errno))"
    "Replay_strict r" "AddressInfo_Address hint \<noteq> NilAddress"
  shows "\<exists>errs. fst (Replay_SockAddressInfo W r name service hint buffer) = Panic (Joined errs)
    \<and> UnexpectedSyscallParamError SockAddressInfo ''hints'' (AnyAddressInfo hint) (AnyAddressInfo hint)
        \<in> set errs"
  using Replay_SockAddressInfo_hints [OF assms(1) _ assms(3,4)] assms(2) by simp

theorem replay_hints_rejected_witness:
  "\<exists>errs. fst (Replay_SockAddressInfo preview1
      (NewReplay () [([\<lparr>Record_Offset = 0, Record_Time = 7, Record_FunctionID = SockAddressInfo,
        Record_FunctionCall = projr (EncodeSockAddressInfo preview1 [] [] []
          (zero_AddressInfo\<lparr>AddressInfo_Address := UnixAddress [97]\<rparr>) [] 0)\<rparr>], None)])
      [] [] (zero_AddressInfo\<lparr>AddressInfo_Address := UnixAddress [97]\<rparr>) []) = Panic (Joined errs)"
proof -
  let ?h = "zero_AddressInfo\<lparr>AddressInfo_Address := UnixAddress [97]\<rparr>"
  let ?r = "NewReplay () [([\<lparr>Record_Offset = 0, Record_Time = 7, Record_FunctionID = SockAddressInfo,
        Record_FunctionCall = projr (EncodeSockAddressInfo preview1 [] [] [] ?h [] 0)\<rparr>], None)]
    :: (int \<times> SubscriptionClock, unit) Replay"
  have "next_is preview1 ?r (SockCall (SockAddressInfoSyscall [] [] ?h [] 0)) ([], EOF)"
    by (simp add: next_is_def EncodeSockAddressInfo_def encodeAddressInfo_def encodeAddressInfos_def
        encodeSocketAddress_def zero_AddressInfo_def encodeAddressInfoFlags_def
        encodeProtocolFamily_def encodeSocketType_def encodeProtocol_def encodeString_def
        encodeBytes_def encodeErrno_def encodeU32_def preview1_simps)
  from replay_hints_rejected [OF this, of "[]"] show ?thesis
    by (auto simp: NewReplay_def ok_AddressInfo_def zero_AddressInfo_def val_preview1 preview1_simps fits_Unsigned_iff fits_Signed_iff wide_types_def preview1_ok)
qed

section \<open>The observer\<close>

text \<open>
  C22. The observer. For every call but \<^verbatim>\<open>SockAddressInfo\<close>: the callback \<^verbatim>\<open>before\<close> sees the parameters, then the system
  is called, and if it returns, the callback \<^verbatim>\<open>after\<close> sees the completed call; the guest sees exactly
  what the system returned.
\<close>

theorem observer_order:
  assumes "\<not> is_SockAddressInfo c"
  shows "sys_call (NewObserver S (Some f) (Some h)) \<lparr>observer_system = s, observer_state = q\<rparr> c =
    (case sys_call S s c of
       (Return x, t) \<Rightarrow> (Return x, \<lparr>observer_system = t, observer_state = h (f q (blank c)) x\<rparr>)
     | (Panic p, t) \<Rightarrow> (Panic p, \<lparr>observer_system = t, observer_state = f q (blank c)\<rparr>))"
  by (simp add: sys_call_NewObserver [OF assms] observed_def observer_forward_def notify_def Let_def
      split: prod.splits outcome.splits)

theorem observer_order_witness:
  "sys_call (NewObserver (NewErrnoSystem 8) (Some (\<lambda>q c. q @ [c])) (Some (\<lambda>q c. q @ [c])))
      \<lparr>observer_system = (), observer_state = []\<rparr> (FDCall (FDCloseSyscall 3 5))
    = (Return (FDCall (FDCloseSyscall 3 8)), \<lparr>observer_system = (),
        observer_state = [FDCall (FDCloseSyscall 3 0), FDCall (FDCloseSyscall 3 8)]\<rparr>)"
  using observer_order [of "FDCall (FDCloseSyscall 3 5)" "NewErrnoSystem 8" "\<lambda>q c. q @ [c]" "\<lambda>q c. q @ [c]"
      "()" "[]"]
  by (simp add: NewErrnoSystem_def errno_FDClose_def map_return_def)

text \<open>
  C23. The observer and \<^verbatim>\<open>SockAddressInfo\<close>. After this call the callback \<^verbatim>\<open>before\<close> is called a second time, with the
  results, and \<^verbatim>\<open>after\<close> never; an observer with only an \<^verbatim>\<open>after\<close> callback panics.
\<close>

theorem observer_SockAddressInfo_callbacks:
  "sys_SockAddressInfo S s name service hints results = (Return (n, errno, results'), t) \<Longrightarrow>
   observer_SockAddressInfo (Some f) (Some h) S \<lparr>observer_system = s, observer_state = q\<rparr>
       name service hints results
     = (Return (n, errno, results'), \<lparr>observer_system = t, observer_state =
         f (f q (SockCall (SockAddressInfoSyscall name service hints results 0)))
           (SockCall (SockAddressInfoSyscall name service hints (clip n results') errno))\<rparr>)
   \<and> (\<exists>p. fst (observer_SockAddressInfo None (Some h) S \<lparr>observer_system = s, observer_state = q\<rparr>
       name service hints results) = Panic p)"
  by (simp add: observer_SockAddressInfo_def observer_forward_def notify_def)

theorem observer_SockAddressInfo_callbacks_witness:
  "\<exists>p. fst (observer_SockAddressInfo None (Some (\<lambda>q c. q + 1))
      (NewErrnoSystem 8 :: (unit, int \<times> SubscriptionClock) System) \<lparr>observer_system = (), observer_state = (0::nat)\<rparr> [] [] zero_AddressInfo []) = Panic p"
proof -
  have "sys_SockAddressInfo (NewErrnoSystem 8) () [] [] zero_AddressInfo []
      = (Return (0, 8, []) :: ((int \<times> SubscriptionClock) panic, _) outcome, ())"
    by (simp add: NewErrnoSystem_def errno_SockAddressInfo_def)
  from observer_SockAddressInfo_callbacks [OF this, of "\<lambda>q c. q" "\<lambda>q c. q + 1" 0, THEN conjunct2]
  show ?thesis .
qed

section \<open>The codec and the iterator\<close>



text \<open>
  C25. Encodings are unambiguous. Two calls of the same kind that the codec represents and that have the same encoding are the
  same call, up to the part of the buffers of a read beyond the bytes that were read.
\<close>

theorem encoding_injective:
  assumes "syscall_ok W s" "syscall_ok W s'" "Syscall_ID s = Syscall_ID s'"
    "encode_syscall W s = Inr b" "encode_syscall W s' = Inr b" "length b < 4294967296"
  shows "logged s = logged s'"
proof -
  let ?x = "\<lparr>Record_Offset = 0, Record_Time = 0, Record_FunctionID = Syscall_ID s,
    Record_FunctionCall = b\<rparr>"
  have "fst (Decoder_Decode W zero_Decoder ?x) = Inr (0, logged s)"
    "fst (Decoder_Decode W zero_Decoder ?x) = Inr (0, logged s')"
    using assms Decoder_Decode_logged [of W s b ?x] Decoder_Decode_logged [of W s' b ?x] by simp_all
  then show ?thesis
    by simp
qed

theorem encoding_injective_witness:
  "logged (FDCall (FDReadSyscall 3 [[1, 2], [9]] 2 0) :: (int \<times> SubscriptionClock) Syscall)
    = logged (FDCall (FDReadSyscall 3 [[1, 2], [7]] 2 0))"
  by (rule encoding_injective [of preview1 _ _ "EncodeFDRead preview1 [] 3 [[1, 2], [9]] 2 0"])
    (simp_all add: EncodeFDRead_def encodeIOVecsPrefix_eq size_bound_def val_preview1 preview1_simps fits_Unsigned_iff fits_Signed_iff wide_types_def
      recorded_iovecs_def encodeIOVecs_def encodeBytes_def encodeSize_def encode_append encodeErrno_def encodeFD_def encodeFileSize_def encodeU32_def encodeU64_def)

text \<open>
  C26. The slices a decoder keeps. What \<^verbatim>\<open>Decode\<close> returns for a record, a call or an error, does not depend on what the
  decoder has decoded before: its state is memory to reuse and nothing else.
\<close>

theorem decoder_stateless: "fst (Decoder_Decode W d record) = fst (Decoder_Decode W d' record)"
  by (rule Decoder_Decode_cache)

text \<open>
  C27. The iterator. \<^verbatim>\<open>Values\<close> ends for every reader of finitely many answers, and gives the values of all answers up to the first error,
  in order, whatever empty answers lie between, and that error unless it is \<^verbatim>\<open>io.EOF\<close>.
\<close>

theorem Values_pending:
  "Iterator_Values (Iter log) []
     = (fst (answers_pending log), if snd (answers_pending log) = EOF then None
         else Some (snd (answers_pending log)))"
  by (cases "answers_pending log") (simp add: Iterator_Values_remaining)

section \<open>Objects of the registry\<close>

text \<open>
  C28. Objects of the registry in a store on a directory. Creating an object gives a descriptor with its hash, its size
  and its annotations, and from then on the hash leads to the object: a lookup gives its bytes to the decoder; the descriptor of
  the hash has the type, the size and the other annotations; and so does that of each shorter prefix of the digest that no
  other object has. Every other object is as before. An object that is there under the hash already, \<open>x\<close>, stays, and the lookups
  find it instead of the new one; that happens not only when it is the same, because the hash is that of the data and the text of the tags
  one after the other, with nothing between. The hypotheses: in the store the directories of objects and tags
  are directories and all else in them are files, tags are valid, and the hash function gives 32 bytes.
\<close>

theorem registry_roundtrip:
  fixes reg :: registry and data :: bytes and extra :: "tag list" and mediaType rnd :: string and dirtime :: "host_path \<Rightarrow> int" and now :: int
  assumes "objects_ok store s" "\<forall>t\<in>set (reg_CreateTags reg) \<union> set extra. validTag t" "validTagValue mediaType" "\<And>b. length (sha b) = 32"
  defines "tags \<equiv> makeTags (annotated reg mediaType extra)" and "S \<equiv> dirStore store dirtime now rnd"
  defines "h \<equiv> hashTags sha data tags"
  defines "key \<equiv> hash_String h"
  shows "\<exists>s' t x. x = (case obj_at store s key of None \<Rightarrow> (data, tags, t) | Some x \<Rightarrow> x)
    \<and> createObject S sha reg (Inr data) mediaType extra s
        = (Inr \<lparr>desc_MediaType = mediaType, desc_Digest = h, desc_Size = int (length data), desc_Annotations = annotated reg mediaType extra\<rparr>, s')
    \<and> objects_ok store s' \<and> obj_at store s' = (obj_at store s)(key \<mapsto> x)
    \<and> lookupObject S h unmarshal s'
        = (case unmarshal (fst x) of Inl e \<Rightarrow> Inl (ObjWrap ''lookup object: %s: %s: %w'' e) | Inr v \<Rightarrow> Inr v)
    \<and> (\<exists>desc. lookupDescriptor S h s' = Inr desc \<and> desc_Digest desc = h \<and> desc_Size desc = int (length (fst x))
        \<and> (obj_at store s key = None \<longrightarrow> desc_MediaType desc = mediaType
            \<and> map_of (desc_Annotations desc) = (map_of (annotated reg mediaType extra))(mediatype_tag := None)))
    \<and> (\<forall>k<64. (\<forall>e. obj_at store s' e \<noteq> None \<and> prefix (''sha256:'' @ take k (hash_Digest h)) e \<longrightarrow> e = key) \<longrightarrow>
        lookupDescriptor S \<lparr>hash_Algorithm = ''sha256'', hash_Digest = take k (hash_Digest h)\<rparr> s' = lookupDescriptor S h s')
    \<and> (\<forall>us vs. hashTags sha (data @ AppendTags [] us) vs = hashTags sha data (us @ vs))"
proof -
  have h: "hash_Algorithm h = ''sha256''" "length (hash_Digest h) = 64" "h = \<lparr>hash_Algorithm = ''sha256'', hash_Digest = hash_Digest h\<rparr>"
    by (simp_all add: h_def hashTags_def assms(4))
  have key: "key = ''sha256:'' @ hash_Digest h" "plain_elem key"
    unfolding key_def h_def hashTags_def by (simp_all add: hash_String_def hash_String_plain [OF set_hex_encode, unfolded hash_String_def, simplified])
  obtain s' t where s': "createObject S sha reg (Inr data) mediaType extra s
        = (Inr \<lparr>desc_MediaType = mediaType, desc_Digest = h, desc_Size = int (length data), desc_Annotations = annotated reg mediaType extra\<rparr>, s')"
      "objects_ok store s'" "obj_at store s' = (obj_at store s)(key \<mapsto> (case obj_at store s key of None \<Rightarrow> (data, tags, t) | Some x \<Rightarrow> x))"
    using dir_objects.createObject_result [OF assms(1-3), of dirtime now rnd sha data] unfolding S_def h_def tags_def key_def by blast
  define x where "x = (case obj_at store s key of None \<Rightarrow> (data, tags, t) | Some x \<Rightarrow> x)"
  have at: "dir_objects.object_at store s' h = Some x"
    by (simp add: dir_objects.object_at_def s'(3) x_def flip: key_def)
  have desc: "lookupDescriptor S h s' = Inr (newDescriptor (stored_info key x))"
    unfolding S_def key_def by (rule dir_objects.lookupDescriptor_at [OF s'(2) at h(1,2)])
  show ?thesis
  proof (rule exI [of _ s'], rule exI [of _ t], rule exI [of _ x], intro conjI allI impI)
    show "lookupObject S h unmarshal s' = (case unmarshal (fst x) of Inl e \<Rightarrow> Inl (ObjWrap ''lookup object: %s: %s: %w'' e) | Inr v \<Rightarrow> Inr v)"
      unfolding S_def by (rule dir_objects.lookupObject_at [OF s'(2) at h(1,2)])
    show "\<exists>desc. lookupDescriptor S h s' = Inr desc \<and> desc_Digest desc = h \<and> desc_Size desc = int (length (fst x))
        \<and> (obj_at store s key = None \<longrightarrow> desc_MediaType desc = mediaType
            \<and> map_of (desc_Annotations desc) = (map_of (annotated reg mediaType extra))(mediatype_tag := None))"
      using desc newDescriptor_stored [of h x] newDescriptor_annotated [of key data reg mediaType extra t] key(2) h(1)
      by (simp add: x_def tags_def flip: key_def)
    show "lookupDescriptor S \<lparr>hash_Algorithm = ''sha256'', hash_Digest = take k (hash_Digest h)\<rparr> s' = lookupDescriptor S h s'"
      if "k < 64" "\<forall>e. obj_at store s' e \<noteq> None \<and> prefix (''sha256:'' @ take k (hash_Digest h)) e \<longrightarrow> e = key" for k
      using dir_objects.lookupDescriptor_prefix [OF s'(2), of "hash_Digest h" x k dirtime now rnd] at that h(2) unfolding S_def
      by (simp add: key(1) flip: h(3))
    show "hashTags sha (data @ AppendTags [] us) vs = hashTags sha data (us @ vs)" for us vs
      by (simp add: hashTags_def AppendTags_def)
  qed (use s' in \<open>simp_all add: x_def\<close>)
qed

theorem registry_roundtrip_witness:
  "\<exists>s d. fst (createObject (dirStore [''store''] (\<lambda>_. 0) 7 ''123'') xor_sum \<lparr>reg_CreateTags = [], reg_SelectTags = []\<rparr> (Inr [1, 2, 4])
        TypeTimecraftModule [\<lparr>tag_Name = ''name'', tag_Value = ''go''\<rparr>] []) = Inr d
    \<and> LookupModule (dirStore [''store''] (\<lambda>_. 0) 7 ''123'') (desc_Digest d) s = Inr [1, 2, 4]
    \<and> (\<exists>e. LookupDescriptor (dirStore [''store''] (\<lambda>_. 0) 7 ''123'') \<lparr>hash_Algorithm = ''sha256'', hash_Digest = []\<rparr> s = Inr e
        \<and> desc_Digest e = desc_Digest d \<and> desc_MediaType e = TypeTimecraftModule \<and> map_of (desc_Annotations e) ''name'' = Some ''go'')"
proof -
  let ?S = "dirStore [''store''] (\<lambda>_. 0) 7 ''123''" and ?reg = "\<lparr>reg_CreateTags = [], reg_SelectTags = []\<rparr>"
    and ?extra = "[\<lparr>tag_Name = ''name'', tag_Value = ''go''\<rparr>]"
  have valid: "\<forall>t\<in>set (reg_CreateTags ?reg) \<union> set ?extra. validTag t" "validTagValue TypeTimecraftModule"
    by code_simp+
  define S where "S = ?S"
  define tags where "tags = makeTags (annotated ?reg TypeTimecraftModule ?extra)"
  define h where "h = hashTags xor_sum [1, 2, 4] tags"
  note round = registry_roundtrip [where sha = xor_sum and dirtime = "\<lambda>_. 0" and now = 7 and rnd = "''123''"
      and data = "[1, 2, 4]" and unmarshal = Inr,
      OF objects_ok_empty valid length_xor_sum, unfolded obj_at_empty option.case, folded S_def tags_def h_def]
  have name: "map_of (annotated ?reg TypeTimecraftModule ?extra) ''name'' = Some ''go''" "''name'' \<noteq> mediatype_tag"
    by code_simp+
  show ?thesis
  proof (insert round, (erule exE)+, (erule conjE)+, goal_cases)
    case (1 s t x)
    obtain desc where desc: "lookupDescriptor S h s = Inr desc" "desc_Digest desc = h" "desc_MediaType desc = TypeTimecraftModule"
        "map_of (desc_Annotations desc) = (map_of (annotated ?reg TypeTimecraftModule ?extra))(mediatype_tag := None)"
      using 1(6) by auto
    have "\<forall>e. obj_at [''store''] s e \<noteq> None \<and> prefix (''sha256:'' @ take 0 (hash_Digest h)) e \<longrightarrow> e = hash_String h"
      by (simp add: 1(4))
    then have "lookupDescriptor S \<lparr>hash_Algorithm = ''sha256'', hash_Digest = []\<rparr> s = Inr desc"
      using 1(7) desc(1) by (metis take0 zero_less_numeral)
    moreover have "lookupObject S h Inr s = Inr [1, 2, 4]"
      using 1(1,5) by simp
    moreover have "map_of (desc_Annotations desc) ''name'' = Some ''go''"
      unfolding desc(4) fun_upd_other [OF name(2)] by (rule name(1))
    moreover have "fst (createObject S xor_sum ?reg (Inr [1, 2, 4]) TypeTimecraftModule ?extra []) = Inr \<lparr>desc_MediaType = TypeTimecraftModule,
        desc_Digest = h, desc_Size = int (length ([1, 2, 4] :: bytes)), desc_Annotations = annotated ?reg TypeTimecraftModule ?extra\<rparr>"
      unfolding 1(2) fst_conv by (rule refl)
    ultimately show ?case
      unfolding LookupModule_def LookupDescriptor_def S_def [symmetric]
      using desc(2,3) by (intro exI [of _ s] exI conjI) (assumption | simp)+
  qed
qed

section \<open>Streams\<close>

text \<open>
  C29. Readers in a row. Reading all of the sequences \<open>rs\<close> in a row, none of them empty, gives their values in order and no error;
  \<^verbatim>\<open>Copy\<close> hands all of them to a writer that takes what it is given. An empty sequence in front makes the
  first read fail with \<^verbatim>\<open>io.ErrNoProgress\<close>.
\<close>

theorem multi_reader:
  assumes "[] \<notin> set rs" and "\<And>len need. need \<le> grown len need" and "0 < k"
    and "\<And>w vs. vs \<noteq> [] \<Longrightarrow> wr w vs = returns (length vs, None) (w @ vs)"
  shows "(\<exists>r. ReadAll grown (multiReader_Read reader_Read) (MultiReader (map stream_NewReader rs)) = returns (concat rs, None) r)
    \<and> (\<exists>r. Copy wr (multiReader_Read reader_Read) w (MultiReader (map stream_NewReader rs))
          = returns (length (concat rs), None) (w @ concat rs, r))
    \<and> multiReader_Read reader_Read (MultiReader (map stream_NewReader ([] # rs))) k
        = returns ([], Some ErrNoProgress) rs"
proof -
  have new: "MultiReader (map stream_NewReader rs) = rs" "MultiReader (map stream_NewReader ([] # rs)) = [] # rs"
    by (simp_all add: MultiReader_def stream_NewReader_def map_idI)
  have rows: "rows_hold rs (concat rs) EOF"
    using assms(1) by (simp add: rows_hold_def)
  show ?thesis
    unfolding new Copy_def
  proof (intro conjI)
    show "\<exists>r. ReadAll grown (multiReader_Read reader_Read) rs = returns (concat rs, None) r"
      using rows.ReadAll_holds [where grown = grown, OF assms(2) rows] by (simp add: not_EOF_def)
    have "\<exists>r. Copy_loop wr (multiReader_Read reader_Read) w rs 0
        = returns (0 + length (concat rs), not_EOF EOF) (w @ concat rs, r)"
      by (rule rows.Copy_loop_holds [where put = "(@)", OF assms(4) _ _ rows]) simp_all
    then show "\<exists>r. Copy_loop wr (multiReader_Read reader_Read) w rs 0
        = returns (length (concat rs), None) (w @ concat rs, r)"
      by (simp add: not_EOF_def del: length_concat)
    show "multiReader_Read reader_Read ([] # rs) k = returns ([], Some ErrNoProgress) rs"
      by (rule multiReader_empty [OF assms(3)])
  qed
qed

theorem multi_reader_witness:
  "(\<exists>r. ReadAll (\<lambda>len need. need) (multiReader_Read reader_Read) (MultiReader (map stream_NewReader [[1], [2, 3]]))
      = (returns (concat [[1], [2, 3]], None) r :: (unit, int list \<times> error option, int list list) call))
    \<and> (\<exists>r. Copy (\<lambda>w vs. returns (length vs, None) (w @ vs)) (multiReader_Read reader_Read) []
            (MultiReader (map stream_NewReader [[1], [2, 3 :: int]]))
          = returns (length (concat [[1], [2, 3 :: int]]), None) ([] @ concat [[1], [2, 3]], r))
    \<and> multiReader_Read reader_Read (MultiReader (map stream_NewReader ([] # [[1], [2, 3 :: int]]))) 5
        = returns ([], Some ErrNoProgress) [[1], [2, 3]]"
  by (rule multi_reader) simp_all

text \<open>
  C30. Positions. A seek that succeeds gives a position between the start and the end. Relative to the end it counts backwards:
  \<^verbatim>\<open>io.SeekEnd\<close> with an offset of \<open>k\<close> gives \<open>len - k\<close>, where \<^verbatim>\<open>io.Seeker\<close> documents \<open>len + k\<close>. Sums that
  overflow 64 bits are negative, and rejected.
\<close>

theorem Seek_range:
  assumes "0 \<le> len" "len < 2 ^ 63"
  shows "(\<forall>pos. Seek offset len seek whence = Inr pos \<longrightarrow> 0 \<le> pos \<and> pos \<le> len)
    \<and> (0 \<le> k \<and> k \<le> len \<longrightarrow> Seek offset len k SeekEnd = Inr (len - k))
    \<and> (0 \<le> offset \<and> offset < 2 ^ 63 \<and> 0 \<le> seek \<and> seek < 2 ^ 63 \<and> 2 ^ 63 \<le> offset + seek \<longrightarrow>
        Seek offset len seek SeekCurrent = Inl errSeekOffset)"
proof -
  show ?thesis
  proof (intro conjI impI allI)
    fix pos assume "Seek offset len seek whence = Inr pos"
    then show "0 \<le> pos" "pos \<le> len"
      using assms(1) clamp_seek_range unfolding Seek_def by (metis Inl_Inr_False)+
  next
    assume "0 \<le> k \<and> k \<le> len"
    then show "Seek offset len k SeekEnd = Inr (len - k)"
      using assms by (simp add: Seek_def clamp_seek_def signed_take_bit_int_eq_self)
  next
    assume "0 \<le> offset \<and> offset < 2 ^ 63 \<and> 0 \<le> seek \<and> seek < 2 ^ 63 \<and> 2 ^ 63 \<le> offset + seek"
    then have "wrap (Signed 64) (offset + seek) < 0"
      by (intro wrap_int64_over) simp_all
    then show "Seek offset len seek SeekCurrent = Inl errSeekOffset"
      by (simp add: Seek_def clamp_seek_def)
  qed
qed

theorem Seek_range_witness:
  "Seek 0 10 3 SeekEnd = Inr 7 \<and> Seek (2 ^ 62) 10 (2 ^ 62) SeekCurrent = Inl errSeekOffset"
  using Seek_range [of 10 "2 ^ 62" "2 ^ 62" 1 3] Seek_range [of 10 0 0 0 3] by simp

section \<open>Pools of addresses\<close>

text \<open>
  C31. After any history of a pool in which only addresses that are held are given back, the addresses that are held
  are addresses of the network of the pool, from its base on, and the address that \<^verbatim>\<open>GetAddr\<close> hands out is
  one of them that nobody holds. The networks are those of IPv4 with 1 to 32 bits and those of IPv6 with 66 to 128.
\<close>

theorem pool_distinct:
  assumes "pool_ok addr nbits" "pool_run GetAddr PutAddr (NewPool addr nbits) es q"
    and "GetAddr q = (Return (a, True), q')"
  shows "held es \<subseteq> pool_space addr nbits \<and> a \<in> pool_space addr nbits - held es"
proof -
  have "pool_works (pool_space addr nbits) (held es) q"
    by (rule pool_works_after_run [OF assms(1,2)])
  then show ?thesis
    using assms(3) unfolding pool_works_def by (cases "held es = pool_space addr nbits") auto
qed

theorem pool_distinct_witness:
  "[10, 0, 0, 2] \<in> pool_space [10, 0, 0, 1] 8 - held [Took [10, 0, 0, 1]]"
proof -
  let ?p = "NewPool [10, 0, 0, 1] 8" and ?q = "Pool4 ((NewIPv4Pool [10, 0, 0, 1] 8)\<lparr>pool_bits := [1]\<rparr>)"
  have "GetAddr ?p = (Return ([10, 0, 0, 1], True), ?q)"
    by code_simp
  with pool_run.start
  have run: "pool_run GetAddr PutAddr ?p [Took [10, 0, 0, 1]] ?q"
    by (rule pool_run.took)
  have get: "GetAddr ?q = (Return ([10, 0, 0, 2], True), Pool4 ((NewIPv4Pool [10, 0, 0, 1] 8)\<lparr>pool_bits := [3]\<rparr>))"
    by code_simp
  have "pool_ok [10, 0, 0, 1] 8"
    by (simp add: pool_ok_def)
  from pool_distinct [OF this run get] show ?thesis
    by blast
qed

text \<open>
  C32. Neither method panics after such a history: \<^verbatim>\<open>GetAddr\<close> hands out an address until all of the addresses of
  the pool are held, and then it reports that there are none left and changes nothing; \<^verbatim>\<open>PutAddr\<close> takes back
  every address that is held, and an IPv4 pool panics when it is given any other IPv4 address.
\<close>

theorem pool_exhaustion:
  assumes "pool_ok addr nbits" "pool_run GetAddr PutAddr (NewPool addr nbits) es q"
  shows "(if held es = pool_space addr nbits then \<exists>a. GetAddr q = (Return (a, False), q)
      else \<exists>a q'. GetAddr q = (Return (a, True), q'))
    \<and> (\<forall>a\<in>held es. \<exists>q'. PutAddr q a = (Return (), q'))
    \<and> (\<forall>a. length addr = 4 \<and> length a = 4 \<and> a \<notin> held es \<longrightarrow> \<not> (\<exists>q'. PutAddr q a = (Return (), q')))"
proof -
  have "length addr = 4 \<Longrightarrow> 1 \<le> nbits \<and> nbits \<le> 32"
    using assms(1) by (auto simp: pool_ok_def)
  then show ?thesis
    using pool_works_after_run [OF assms] PutAddr_IPv4_iff [OF _ _ _ _ assms(2)] unfolding pool_works_def by auto
qed

theorem pool_exhaustion_witness:
  "(\<exists>a. GetAddr (Pool4 ((NewIPv4Pool [10, 0, 0, 3] 30)\<lparr>pool_bits := [1]\<rparr>))
      = (Return (a, False), Pool4 ((NewIPv4Pool [10, 0, 0, 3] 30)\<lparr>pool_bits := [1]\<rparr>)))
    \<and> \<not> (\<exists>q'. PutAddr (Pool4 ((NewIPv4Pool [10, 0, 0, 3] 30)\<lparr>pool_bits := [1]\<rparr>)) [10, 0, 0, 4] = (Return (), q'))"
proof -
  let ?p = "NewPool [10, 0, 0, 3] 30" and ?q = "Pool4 ((NewIPv4Pool [10, 0, 0, 3] 30)\<lparr>pool_bits := [1]\<rparr>)"
  have "GetAddr ?p = (Return ([10, 0, 0, 3], True), ?q)"
    by code_simp
  with pool_run.start
  have run: "pool_run GetAddr PutAddr ?p [Took [10, 0, 0, 3]] ?q"
    by (rule pool_run.took)
  have "GetAddr ?q = (Return ([10, 0, 0, 4], False), ?q)"
    by code_simp
  moreover have "pool_ok [10, 0, 0, 3] 30"
    by (simp add: pool_ok_def)
  ultimately show ?thesis
    using pool_exhaustion [OF _ run] by (auto split: if_splits)
qed

text \<open>
  C33. An IPv6 pool does not compare the high halves of addresses: an address of another network, which the pool never
  handed out, takes back the first address of the pool, and the pool hands that one out a second time.
\<close>

theorem pool6_double_allocation:
  assumes "h \<le> h'"
  shows "\<exists>q q' q''. GetAddr (NewPool (be64 h @ be64 b) nbits) = (Return (be64 h @ be64 b, True), q)
    \<and> PutAddr q (be64 h' @ be64 b) = (Return (), q')
    \<and> GetAddr q' = (Return (be64 h @ be64 b, True), q'')"
  using assms by (rule IPv6_double_allocation)

theorem pool6_double_allocation_witness:
  "\<exists>q q' q''. GetAddr (NewPool (be64 1 @ be64 7) 120) = (Return (be64 1 @ be64 7, True), q)
    \<and> PutAddr q (be64 2 @ be64 7) = (Return (), q')
    \<and> GetAddr q' = (Return (be64 1 @ be64 7, True), q'') \<and> be64 1 \<noteq> be64 2"
  using pool6_double_allocation [of 1 2 7 120] by simp

section \<open>The file system of a directory\<close>

text \<open>
  C34. Opening a path of a directory of the host returns, for every path, with an error or a new file, and leaves every
  descriptor of the files open on an inode inside of the root, the other descriptors of the program as they were, and
  the counts of references exact. Neither \<^verbatim>\<open>".."\<close>, an absolute path nor a link leads out of the root. The
  hypotheses are those on the kernel: a name of an entry that is opened without following links leads from a
  directory inside of the root to an inode inside of it, and the file system does not change in the meantime.
\<close>

theorem dirFS_Open_confined:
  assumes "kernel_ok U ino inside" "kernel_still U ino" "root_ok U ino inside root"
    and "dir_inv ino inside base (\<lambda>_. 0) H s"
  shows "\<exists>r t. dirFS_Open (Suc (Suc n)) U root name flags mode s = Some (r, t)
    \<and> (case r of Inl _ \<Rightarrow> dir_inv ino inside base (\<lambda>_. 0) H t
        | Inr f \<Rightarrow> f \<notin> H \<and> dir_inv ino inside base (\<lambda>_. 0) (insert f H) t)"
proof -
  obtain r t where "dirFS_Open (Suc (Suc n)) U root name flags mode s = Some (r, t)"
    using still_kernel.dirFS_Open_returns [OF still_kernelI [OF assms(1,2)] assms(4,3), of n name flags mode] by fastforce
  then show ?thesis
    using host_kernel.dirFS_Open_inv [OF host_kernelI [OF assms(1)] _ assms(4,3)] by (cases r) fastforce+
qed

theorem dirFS_Open_confined_witness:
  "\<exists>r t. dirFS_Open 2 (tree_unix host_tree) ''root'' ''dir/../escape'' 0 0 tree_start = Some (r, t)
    \<and> (case r of Inl _ \<Rightarrow> dir_inv table_ino tree_root Map.empty (\<lambda>_. 0) {} t
        | Inr f \<Rightarrow> f \<notin> {} \<and> dir_inv table_ino tree_root Map.empty (\<lambda>_. 0) (insert f {}) t)"
  using dirFS_Open_confined [OF tree_kernel_ok [OF host_tree_closed] tree_kernel_still host_tree_root tree_start_inv,
      of 0 "''dir/../escape''" 0 0]
  by (simp only: numeral_2_eq_2)

text \<open>
  C35. Opening a path leaks no descriptor. When no file is open before, an error leaves the descriptors of the program as
  they were, and a file that is opened holds those of itself and of the directories above it, which closing it gives
  back: the descriptors are then as they were.
\<close>

theorem dirFS_Open_leaks_nothing:
  assumes "kernel_ok U ino inside" "root_ok U ino inside root" "dir_inv ino inside base (\<lambda>_. 0) {} s"
    and "dirFS_Open n U root name flags mode s = Some (r, t)"
  shows "case r of Inl _ \<Rightarrow> ino (kernel t) = ino (kernel s)
    | Inr f \<Rightarrow> \<exists>u. dirFile_Close U f t = Some ((), u) \<and> ino (kernel u) = ino (kernel s)"
proof -
  note host = host_kernelI [OF assms(1)]
  note before = host_kernel.nothing_open [OF host]
  note opened = host_kernel.dirFS_Open_inv [OF host assms(4,3,2)]
  show ?thesis
  proof (cases r)
    case (Inl e)
    then have "dir_inv ino inside base (\<lambda>_. 0) {} t"
      using opened by simp
    then show ?thesis
      using Inl before [OF assms(3)] before by fastforce
  next
    case (Inr f)
    then obtain u where "dirFile_Close U f t = Some ((), u)" "dir_inv ino inside base (\<lambda>_. 0) {} u"
      using opened host_kernel.Close_inv [OF host, of base "\<lambda>_. 0" "{f}" t f] by auto
    then show ?thesis
      using Inr before [OF assms(3)] before by fastforce
  qed
qed

theorem dirFS_Open_leaks_nothing_witness:
  "\<exists>f t u. dirFS_Open 2 (tree_unix host_tree) ''root'' ''dir/link'' 0 0 tree_start = Some (Inr f, t)
    \<and> descriptors (kernel t) = [None, Some 4, Some 1]
    \<and> dirFile_Close (tree_unix host_tree) f t = Some ((), u) \<and> table_ino (kernel u) = table_ino (kernel tree_start)"
proof -
  let ?t = "\<lparr>dir_files =
      [\<lparr>df_dir = None, df_refc = 0, df_closed = True, df_fd = - 1\<rparr>, \<lparr>df_dir = Some 0, df_refc = 0, df_closed = True, df_fd = - 1\<rparr>,
       \<lparr>df_dir = None, df_refc = 1, df_closed = True, df_fd = 2\<rparr>, \<lparr>df_dir = Some 2, df_refc = 1, df_closed = False, df_fd = 1\<rparr>],
     kernel = \<lparr>descriptors = [None, Some 4, Some 1]\<rparr>\<rparr>"
  have eq: "dirFS_Open 2 (tree_unix host_tree) ''root'' ''dir/link'' 0 0 tree_start = Some (Inr 3, ?t)"
    by code_simp
  show ?thesis
    using dirFS_Open_leaks_nothing [OF tree_kernel_ok [OF host_tree_closed] host_tree_root tree_start_inv eq] eq
    by fastforce
qed

text \<open>
  C36. \<^verbatim>\<open>".."\<close> at the root of the file system: opening it opens the root again, as the documentation of
  \<^verbatim>\<open>DirFS\<close> has it, but \<^verbatim>\<open>Stat\<close> hands the name to the host, so that its answer is that on the parent of
  the root, outside of the file system.
\<close>

theorem dotdot_at_root:
  assumes "kernel_ok U ino inside" "dir_inv ino inside base acq H s" "f \<in> H" "df_dir (dir_files s ! f) = None"
    and "keeps_fds ino (unix_fstatat U (df_fd (dir_files s ! f)) ''..'' AT_SYMLINK_NOFOLLOW)"
  shows "file_Open (dirFile_ops (Suc n) U) f ''..'' O_NOFOLLOW mode s = dirFile_openSelf U f s
    \<and> dirFile_Stat n U f ''..'' AT_SYMLINK_NOFOLLOW s
        = on_call (kernel_call (unix_fstatat U (df_fd (dir_files s ! f)) ''..'' AT_SYMLINK_NOFOLLOW) s)
            (\<lambda>r s. Some (map_sum id makeFileInfo r, s))"
proof -
  note host = host_kernelI [OF assms(1)]
  have "O_NOFOLLOW AND O_NOFOLLOW \<noteq> 0"
    by (simp add: O_NOFOLLOW_def)
  then show ?thesis
    using host_kernel.open_dotdot [OF host assms(2-4)] host_kernel.stat_dotdot [OF host assms(2,3,5)] by blast
qed

theorem dotdot_at_root_witness:
  "\<exists>s i. dirFS_Open 2 (tree_unix host_tree) ''root'' ''/'' 0 0 tree_start = Some (Inr 0, s)
    \<and> dirFile_Stat 2 (tree_unix host_tree) 0 ''..'' AT_SYMLINK_NOFOLLOW s = Some (Inr i, s) \<and> fi_ino i = 0 \<and> 0 \<notin> tree_root"
proof -
  let ?s = "\<lparr>dir_files = [\<lparr>df_dir = None, df_refc = 1, df_closed = False, df_fd = 0\<rparr>], kernel = \<lparr>descriptors = [Some 1]\<rparr>\<rparr>"
  let ?U = "tree_unix host_tree"
  have eq: "dirFS_Open 2 ?U ''root'' ''/'' 0 0 tree_start = Some (Inr 0, ?s)"
    by code_simp
  have inv: "dir_inv table_ino tree_root Map.empty (\<lambda>_. 0) {0} ?s"
    using host_kernel.dirFS_Open_inv [OF host_kernelI [OF tree_kernel_ok [OF host_tree_closed]] eq tree_start_inv host_tree_root]
    by simp
  have stat: "keeps_fds table_ino (unix_fstatat ?U (df_fd (dir_files ?s ! 0)) ''..'' AT_SYMLINK_NOFOLLOW)"
    by (rule tree_fstatat_keeps)
  have host: "kernel_call (unix_fstatat ?U (df_fd (dir_files ?s ! 0)) ''..'' AT_SYMLINK_NOFOLLOW) ?s = Some (Inr (tree_stat host_tree 0), ?s)"
    by code_simp
  have "dirFile_Stat 2 ?U 0 ''..'' AT_SYMLINK_NOFOLLOW ?s = Some (Inr (makeFileInfo (tree_stat host_tree 0)), ?s)"
    using dotdot_at_root [OF tree_kernel_ok [OF host_tree_closed] inv _ _ stat, of 2 0] host by simp
  then show ?thesis
    using eq by (simp add: makeFileInfo_def tree_stat_def Let_def)
qed

section \<open>Paths\<close>

text \<open>
  C37. A clean path is the same path, written out: the elements of the path except \<^verbatim>\<open>"."\<close>, joined by single slashes,
  with a slash in front when the path is absolute and one behind when it ends in one; without such elements, it is \<^verbatim>\<open>"/"\<close> or
  \<^verbatim>\<open>"."\<close>, and the empty path stays empty. So \<^verbatim>\<open>"."\<close> is an element of no clean path but the one that is that element alone. A
  clean path leads to the root and descends to a depth when the path does, and cleaning it again does not change it. \<^verbatim>\<open>IsRoot\<close> holds for the absolute
  paths of the elements \<^verbatim>\<open>"."\<close> and \<^verbatim>\<open>".."\<close>, and \<^verbatim>\<open>Depth\<close> counts the elements, less one for each
  \<^verbatim>\<open>".."\<close> below the start.
\<close>

theorem Clean_path:
  "Clean s =
     (let es = filter (\<lambda>e. e \<noteq> ''.'') (components s); root = (if IsAbs s then ''/'' else [])
      in if s = [] then []
         else if es = [] then if IsAbs s then ''/'' else ''.''
         else root @ path_join es @ (if HasTrailingSlash s then ''/'' else []))
   \<and> components (Clean s) =
       (if s \<noteq> [] \<and> \<not> IsAbs s \<and> set (components s) \<subseteq> {''.''} then [''.''] else filter (\<lambda>e. e \<noteq> ''.'') (components s))
   \<and> Clean (Clean s) = Clean s
   \<and> filter (\<lambda>e. e \<noteq> ''.'') (components (Clean s)) = filter (\<lambda>e. e \<noteq> ''.'') (components s)
   \<and> IsAbs (Clean s) = IsAbs s
   \<and> Depth (Clean s) = Depth s \<and> Depth s = fold depth_step (components s) 0
   \<and> IsRoot (Clean s) = IsRoot s \<and> IsRoot s = (IsAbs s \<and> set (components s) \<subseteq> {''.'', ''..''})"
proof (intro conjI)
  show "Clean s =
     (let es = filter (\<lambda>e. e \<noteq> ''.'') (components s); root = (if IsAbs s then ''/'' else [])
      in if s = [] then []
         else if es = [] then if IsAbs s then ''/'' else ''.''
         else root @ path_join es @ (if HasTrailingSlash s then ''/'' else []))"
    unfolding Let_def by (rule Clean_form)
qed (rule components_Clean Clean_idem visible_Clean IsAbs_Clean Depth_Clean Depth_components IsRoot_Clean IsRoot_components)+

section \<open>The file system of an archive\<close>



section \<open>A stack of archives\<close>

text \<open>
  C39. The layers of an image. The root of a file system stacked of archives shows the view that the image
  format promises, the entries of the layers without those that an upper layer has or hides: read with any buffers that hold
  the longest entry, in as many calls as there are entries, it lists the names and types of the view, each once and in
  order; and Stat of a name of one element, other than \<^verbatim>\<open>"."\<close> and \<^verbatim>\<open>".."\<close>, finds the entry of the uppermost layer that has the
  name, with its mode, and fails with ENOENT when no layer has it or a layer above hides it. For a name that does not begin
  with \<^verbatim>\<open>.wh.\<close> that is what the view shows of it. But also the whiteouts, which the view does not show, are found. The
  hypotheses on the layers: their listings fit the buffer of 8192 bytes that the layers are read with, no whiteout is for an
  entry of its own layer (the witness has a layer in which one is, and hides it from the listing), and none for a whiteout.
\<close>

theorem ocifs_root_view:
  assumes "layers \<noteq> []" "order [] = []"
    and "\<forall>s\<in>set layers. \<exists>hs. archive_ok [] hs \<and> tarfs_Open order modTime hs None = Some (Inr s)"
    and "\<forall>s\<in>set layers. listing_small (root_listing s) \<and> layer_ok (root_listing s)"
  defines "view \<equiv> oci_view (map root_listing (rev layers))"
  shows "\<exists>f t. oci_FileSystem_Open n (tar_ops layers) (oci_New (map (tar_open_root layers) [0..<length layers])) ''/'' flags mode s
      = Some (Inr f, t)
    \<and> (\<forall>bufs. length view \<le> length bufs \<and> (\<forall>buf\<in>set bufs. \<forall>e\<in>set view. SizeOfDirent (length (fst e)) \<le> length buf) \<longrightarrow>
        (\<exists>u. oci_list (tar_ops layers) f bufs t = Some (map shown view, u)))
    \<and> (\<forall>name. entry_name name \<longrightarrow>
        (\<exists>r. oci_Stat k (tar_ops layers) f name AT_SYMLINK_NOFOLLOW t = Some (r, t)
          \<and> (case oci_found (map root_listing (rev layers)) name of
               None \<Rightarrow> r = Inl ENOENT
             | Some mode \<Rightarrow> \<exists>info. r = Inr info \<and> fi_mode info = mode)))
    \<and> (\<forall>name. \<not> is_whiteout name \<longrightarrow> oci_found (map root_listing (rev layers)) name = map_of view name)"
proof -
  have "\<forall>s\<in>set layers. \<exists>hs. built hs s"
    using assms(3) tarfs_Open_built [where order = order and modTime = modTime] assms(2) by fastforce
  then obtain f t files where t: "oci_FileSystem_Open n (tar_ops layers)
        (oci_New (map (tar_open_root layers) [0..<length layers])) ''/'' flags mode s = Some (Inr f, t)"
      "open_on f files t" "of_dirbuf (oci_files t ! f) = None" "distinct files"
      "list_all2 (\<lambda>h es. tar_entries layers h (oci_base t) = Some es \<and> tar_listed h (oci_base t) = 0) files (map root_listing (rev layers))"
    using oci_open_roots [OF assms(1)] assms(4) by blast
  have "\<forall>es\<in>set (map root_listing (rev layers)). layer_ok es"
    using assms(4) by simp
  note list = tar_layers.oci_list_view [OF t(2,3,5,4) this]
  have "list_all2 (\<lambda>h es. tar_entries layers h (oci_base t) = Some es) files (map root_listing (rev layers))"
    using t(5) by (rule list.rel_mono_strong) simp
  note stat = tar_layers.oci_Stat_found [OF t(2) this]
  show ?thesis
    unfolding view_def
  proof (rule exI [of _ f], rule exI [of _ t], intro conjI allI impI)
    show "\<exists>u. oci_list (tar_ops layers) f bufs t = Some (map shown (oci_view (map root_listing (rev layers))), u)"
      if "length (oci_view (map root_listing (rev layers))) \<le> length bufs \<and> (\<forall>buf\<in>set bufs.
        \<forall>e\<in>set (oci_view (map root_listing (rev layers))). SizeOfDirent (length (fst e)) \<le> length buf)" for bufs
      using list that by blast
  qed (use t(1) stat oci_found_view in blast)+
qed

theorem ocifs_root_view_witness:
  "(\<exists>f t u. oci_FileSystem_Open 2 (tar_ops two_layers) (oci_New (map (tar_open_root two_layers) [0..<length two_layers]))
          ''/'' 0 0 oci_start = Some (Inr f, t)
      \<and> oci_list (tar_ops two_layers) f (replicate 5 (replicate 30 0)) t
        = Some ([(''.'', ModeDir), (''..'', ModeDir), (''etc'', ModeDir), (''new'', 0), (''bin'', ModeDir)], u)
      \<and> oci_Stat 2 (tar_ops two_layers) f ''old'' AT_SYMLINK_NOFOLLOW t = Some (Inl ENOENT, t)
      \<and> (\<exists>info. oci_Stat 2 (tar_ops two_layers) f ''.wh.old'' AT_SYMLINK_NOFOLLOW t = Some (Inr info, t) \<and> fi_mode info = 420))
    \<and> \<not> layer_ok (root_listing (tar_of replaced_layer))
    \<and> map oe_name (co_entries (foldl collect_entry nothing_collected (root_listing (tar_of replaced_layer)))) = [''.'', ''..'']
    \<and> map_of (root_listing (tar_of replaced_layer)) ''old'' = Some 420"
proof -
  let ?view = "[(''.'', ModeDir OR 493), (''..'', ModeDir OR 493), (''etc'', ModeDir OR 420), (''new'', 420),
    (''bin'', ModeDir OR 420)] :: (string \<times> int) list"
  have shown: "map shown ?view = [(''.'', ModeDir), (''..'', ModeDir), (''etc'', ModeDir), (''new'', 0), (''bin'', ModeDir)]"
      "entry_name ''old''" "entry_name ''.wh.old''"
    by code_simp+
  have bufs: "length ?view \<le> length (replicate 5 (replicate 30 (0 :: byte)))"
      "\<forall>buf\<in>set (replicate 5 (replicate 30 (0 :: byte))). \<forall>e\<in>set ?view. SizeOfDirent (length (fst e)) \<le> length buf"
    by (simp_all add: SizeOfDirent_def sizeOfDirent_def)
  have "two_layers \<noteq> []" "rev [] = []"
    by (simp_all add: two_layers_def)
  from ocifs_root_view [OF this(1), where order = rev, OF this(2) two_layers_archives two_layers_small, of 2 0 0 oci_start 2,
      unfolded two_layers_view]
  obtain f t where t: "oci_FileSystem_Open 2 (tar_ops two_layers) (oci_New (map (tar_open_root two_layers) [0..<length two_layers]))
          ''/'' 0 0 oci_start = Some (Inr f, t)"
      and list: "\<forall>bufs. length ?view \<le> length bufs \<and> (\<forall>buf\<in>set bufs. \<forall>e\<in>set ?view. SizeOfDirent (length (fst e)) \<le> length buf) \<longrightarrow>
        (\<exists>u. oci_list (tar_ops two_layers) f bufs t = Some (map shown ?view, u))"
      and stat: "\<forall>name. entry_name name \<longrightarrow>
        (\<exists>r. oci_Stat 2 (tar_ops two_layers) f name AT_SYMLINK_NOFOLLOW t = Some (r, t)
          \<and> (case oci_found (map root_listing (rev two_layers)) name of
               None \<Rightarrow> r = Inl ENOENT
             | Some mode \<Rightarrow> \<exists>info. r = Inr info \<and> fi_mode info = mode))"
    by (elim exE conjE)
  have "\<exists>u. oci_list (tar_ops two_layers) f (replicate 5 (replicate 30 0)) t = Some (map shown ?view, u)"
    using list bufs by blast
  moreover have "oci_Stat 2 (tar_ops two_layers) f ''old'' AT_SYMLINK_NOFOLLOW t = Some (Inl ENOENT, t)"
      "\<exists>info. oci_Stat 2 (tar_ops two_layers) f ''.wh.old'' AT_SYMLINK_NOFOLLOW t = Some (Inr info, t) \<and> fi_mode info = 420"
    using stat [rule_format, OF shown(2)] stat [rule_format, OF shown(3)] unfolding two_layers_found by auto
  moreover have "\<not> layer_ok (root_listing (tar_of replaced_layer))"
      "map oe_name (co_entries (foldl collect_entry nothing_collected (root_listing (tar_of replaced_layer)))) = [''.'', ''..'']"
      "map_of (root_listing (tar_of replaced_layer)) ''old'' = Some 420"
    by code_simp+
  ultimately show ?thesis
    using t unfolding shown(1) by blast
qed

text \<open>
  C40. A guest that pages through the root of an image with \<^verbatim>\<open>FDReadDir\<close>, with any number of entries and any number
  of bytes a call, gets every entry of the view once, in order, with consecutive cookies, and then nothing; it can go
  back to any of the cookies afterwards and gets the entries from there on.
\<close>

theorem ocifs_guest_view:
  assumes "layers \<noteq> []" "order [] = []"
    and "\<forall>s\<in>set layers. \<exists>hs. archive_ok [] hs \<and> tarfs_Open order modTime hs None = Some (Inr s)"
    and "\<forall>s\<in>set layers. listing_small (root_listing s) \<and> layer_ok (root_listing s)"
  defines "view \<equiv> oci_view (map root_listing (rev layers))"
  assumes "length view + 1 < 2 ^ 64"
  shows "\<exists>f t. oci_FileSystem_Open n (tar_ops layers) (oci_New (map (tar_open_root layers) [0..<length layers])) ''/'' flags mode s
      = Some (Inr f, t)
    \<and> (\<forall>k room. 0 < k \<longrightarrow>
        (\<exists>d u. guest_list_dir (length view + 1) W (oci_dir_ops (tar_ops layers) (tar_file_Seek file_seek)) f k room t
            = Some ((map (guest_entry W view) [0..<length view], d), u)
          \<and> (\<forall>c k' room'. c \<le> length view \<and> 0 < k' \<longrightarrow>
              (\<exists>d' v. guest_list (length view + 1) W (oci_dir_ops (tar_ops layers) (tar_file_Seek file_seek)) f k' room' (int c) d u
                = Some ((map (guest_entry W view) [c..<length view], d'), v)))))"
proof -
  let ?layers = "map root_listing (rev layers)" and ?ops = "oci_dir_ops (tar_ops layers) (tar_file_Seek file_seek)"
  have "\<forall>s\<in>set layers. \<exists>hs. built hs s"
    using assms(3) tarfs_Open_built [where order = order and modTime = modTime] assms(2) by fastforce
  then obtain f t where t: "oci_FileSystem_Open n (tar_ops layers)
        (oci_New (map (tar_open_root layers) [0..<length layers])) ''/'' flags mode s = Some (Inr f, t)"
      and fresh: "\<exists>files. oci_fresh (tar_entries layers) tar_listed ?layers files f t"
    using oci_open_fresh [OF assms(1)] assms(4) by blast
  obtain files where at: "oci_at (tar_entries layers) tar_listed ?layers files f 0 t"
    using oci_fresh_at [OF fresh] assms(4,6) unfolding view_def by auto
  have "\<exists>d u. guest_list_dir (length view + 1) W ?ops f k room t = Some ((map (guest_entry W view) [0..<length view], d), u)
      \<and> (\<forall>c k' room'. c \<le> length view \<and> 0 < k' \<longrightarrow>
          (\<exists>d' v. guest_list (length view + 1) W ?ops f k' room' (int c) d u = Some ((map (guest_entry W view) [c..<length view], d'), v)))"
    if k: "0 < k" for k room
  proof -
    obtain d u where d: "guest_list_dir (length view + 1) W ?ops f k room t = Some ((map (guest_entry W view) [0..<length view], d), u)"
        "tar_seeks.root.paged ?layers layers files f d u"
      using tar_seeks.root.guest_list_dir_view [OF at k, where W = W and room = room and file_seek = file_seek
          and m = "length view + 1"] unfolding view_def by auto
    have "\<exists>d' v. guest_list (length view + 1) W ?ops f k' room' (int c) d u
        = Some ((map (guest_entry W view) [c..<length view], d'), v)" if "c \<le> length view" "0 < k'" for c k' room'
      using tar_seeks.root.guest_list_view [OF d(2), where c = c and k = k' and W = W and room = room' and file_seek = file_seek
          and m = "length view + 1"] that
      unfolding view_def by (auto simp del: guest_list.simps simp: less_Suc_eq_le)
    then show ?thesis
      using d(1) by blast
  qed
  then show ?thesis
    using t by blast
qed

theorem ocifs_guest_view_witness:
  "\<exists>f t d u. oci_FileSystem_Open 2 (tar_ops two_layers) (oci_New (map (tar_open_root two_layers) [0..<length two_layers]))
          ''/'' 0 0 oci_start = Some (Inr f, t)
    \<and> guest_list_dir 6 guest_wasi (oci_dir_ops (tar_ops two_layers) (tar_file_Seek (\<lambda>h off wh s. Some (Inl EINVAL, s)))) f 2 40 t = Some ((
        [\<lparr>DirEntry_Next = 1, DirEntry_INode = 0, DirEntry_Type = 3, DirEntry_Name = string_bytes ''.''\<rparr>,
         \<lparr>DirEntry_Next = 2, DirEntry_INode = 0, DirEntry_Type = 3, DirEntry_Name = string_bytes ''..''\<rparr>,
         \<lparr>DirEntry_Next = 3, DirEntry_INode = 0, DirEntry_Type = 3, DirEntry_Name = string_bytes ''etc''\<rparr>,
         \<lparr>DirEntry_Next = 4, DirEntry_INode = 0, DirEntry_Type = 4, DirEntry_Name = string_bytes ''new''\<rparr>,
         \<lparr>DirEntry_Next = 5, DirEntry_INode = 0, DirEntry_Type = 3, DirEntry_Name = string_bytes ''bin''\<rparr>], d), u)
    \<and> (\<exists>d' v. guest_list 6 guest_wasi (oci_dir_ops (tar_ops two_layers) (tar_file_Seek (\<lambda>h off wh s. Some (Inl EINVAL, s)))) f 1 1 4 d u = Some ((
        [\<lparr>DirEntry_Next = 5, DirEntry_INode = 0, DirEntry_Type = 3, DirEntry_Name = string_bytes ''bin''\<rparr>], d'), v))"
proof -
  define view :: "(string \<times> int) list" where "view =
    [(''.'', ModeDir OR 493), (''..'', ModeDir OR 493), (''etc'', ModeDir OR 420), (''new'', 420), (''bin'', ModeDir OR 420)]"
  let ?seek = "\<lambda>h off wh s. Some (Inl EINVAL, s)"
  let ?ops = "oci_dir_ops (tar_ops two_layers) (tar_file_Seek ?seek)"
  have view: "oci_view (map root_listing (rev two_layers)) = view"
    unfolding view_def by (rule two_layers_view)
  have "two_layers \<noteq> []" "rev [] = ([] :: (string \<times> string) list)" "length view = 5"
    by (simp_all add: two_layers_def view_def)
  note at = ocifs_guest_view [OF this(1), where order = rev and W = guest_wasi and file_seek = ?seek, OF this(2) two_layers_archives
      two_layers_small, unfolded view this(3), of 2 0 0 oci_start]
  have six: "5 + 1 = (6 :: nat)"
    by simp
  obtain f t where t: "oci_FileSystem_Open 2 (tar_ops two_layers) (oci_New (map (tar_open_root two_layers) [0..<length two_layers]))
          ''/'' 0 0 oci_start = Some (Inr f, t)"
      "\<forall>k room. 0 < k \<longrightarrow> (\<exists>d u. guest_list_dir 6 guest_wasi ?ops f k room t = Some ((map (guest_entry guest_wasi view) [0..<5], d), u)
          \<and> (\<forall>c k' room'. c \<le> 5 \<and> 0 < k' \<longrightarrow>
              (\<exists>d' v. guest_list 6 guest_wasi ?ops f k' room' (int c) d u = Some ((map (guest_entry guest_wasi view) [c..<5], d'), v))))"
    using at [unfolded six] by (simp del: guest_list.simps) blast
  obtain d u where d: "guest_list_dir 6 guest_wasi ?ops f 2 40 t = Some ((map (guest_entry guest_wasi view) [0..<5], d), u)"
      "\<forall>c k' room'. c \<le> 5 \<and> 0 < k' \<longrightarrow>
              (\<exists>d' v. guest_list 6 guest_wasi ?ops f k' room' (int c) d u = Some ((map (guest_entry guest_wasi view) [c..<5], d'), v))"
    using t(2) [rule_format, of 2 40] by auto
  have entries: "map (guest_entry guest_wasi view) [0..<5] =
        [\<lparr>DirEntry_Next = 1, DirEntry_INode = 0, DirEntry_Type = 3, DirEntry_Name = string_bytes ''.''\<rparr>,
         \<lparr>DirEntry_Next = 2, DirEntry_INode = 0, DirEntry_Type = 3, DirEntry_Name = string_bytes ''..''\<rparr>,
         \<lparr>DirEntry_Next = 3, DirEntry_INode = 0, DirEntry_Type = 3, DirEntry_Name = string_bytes ''etc''\<rparr>,
         \<lparr>DirEntry_Next = 4, DirEntry_INode = 0, DirEntry_Type = 4, DirEntry_Name = string_bytes ''new''\<rparr>,
         \<lparr>DirEntry_Next = 5, DirEntry_INode = 0, DirEntry_Type = 3, DirEntry_Name = string_bytes ''bin''\<rparr>]"
      "map (guest_entry guest_wasi view) [4..<5] =
        [\<lparr>DirEntry_Next = 5, DirEntry_INode = 0, DirEntry_Type = 3, DirEntry_Name = string_bytes ''bin''\<rparr>]"
    unfolding view_def by code_simp+
  have "\<exists>d' v. guest_list 6 guest_wasi ?ops f 1 1 4 d u
      = Some ((map (guest_entry guest_wasi view) [4..<5], d'), v)"
    using d(2) [rule_format, of 4 1 1] by simp
  then show ?thesis
    using t(1) d(1) unfolding entries by blast
qed

end
